(* ===== verification/Prelude.thy ===== *)
theory Prelude
  imports Main "HOL-Library.Word" "HOL-Library.Monad_Syntax"
begin

text \<open>
  Shared vocabulary of the development.

  \<^item> The fixed-width integers of the C++ sources are words: \<open>uint8_t\<close>, \<open>uint16_t\<close>,
    \<open>uint32_t\<close>, \<open>uint64_t\<close> and \<open>size_t\<close> (64 bits on the supported platforms).
  \<^item> A function whose behaviour is undefined or that ends the process on some inputs (an access
    outside a \<open>std::vector\<close>, a shift by the width of the type or more, \<open>exit( -1 )\<close>)
    returns an \<open>option\<close>, and \<open>None\<close> stands for that outcome.
  \<^item> \<open>vec_at\<close>, \<open>vec_set\<close> and \<open>vec_resize\<close> are \<open>operator[]\<close> as a read, as a write,
    and \<open>resize\<close> of \<open>std::vector\<close>.
  \<^item> \<open>for_loop is f s\<close> runs the body \<open>f\<close> for every element of \<open>is\<close> (an index
    list for a counted loop) on the loop state \<open>s\<close>.

  The collections \<open>codec_intro\<close> and \<open>cast_simp\<close> hold the rules that drive the round trip
  proofs of the syntax structures.
\<close>

named_theorems codec_intro \<open>introduction rules of the write/read judgement\<close>
named_theorems cast_simp \<open>conversions between the integer types of the sources\<close>

type_synonym uint8_t = "8 word"
type_synonym uint16_t = "16 word"
type_synonym uint32_t = "32 word"
type_synonym uint64_t = "64 word"
type_synonym size_t = "64 word"

definition vec_at :: "'a list \<Rightarrow> nat \<Rightarrow> 'a option" where
  "vec_at xs i = (if i < length xs then Some (xs ! i) else None)"

definition vec_set :: "'a list \<Rightarrow> nat \<Rightarrow> 'a \<Rightarrow> 'a list option" where
  "vec_set xs i v = (if i < length xs then Some (xs[i := v]) else None)"

text \<open>The setters that let a vector grow by one: an index beyond the end is an assertion.\<close>

definition vec_put :: "'a list \<Rightarrow> nat \<Rightarrow> 'a \<Rightarrow> 'a list option" where
  "vec_put xs i v = (if i = length xs then Some (xs @ [v]) else vec_set xs i v)"

definition vec_resize :: "nat \<Rightarrow> 'a \<Rightarrow> 'a list \<Rightarrow> 'a list" where
  "vec_resize n d xs = take n xs @ replicate (n - length xs) d"

definition vec_at2 :: "'a list list \<Rightarrow> nat \<Rightarrow> nat \<Rightarrow> 'a option" where
  "vec_at2 rows i j = Option.bind (vec_at rows i) (\<lambda>row. vec_at row j)"

fun for_loop :: "'a list \<Rightarrow> ('a \<Rightarrow> 's \<Rightarrow> 's option) \<Rightarrow> 's \<Rightarrow> 's option" where
  "for_loop [] f s = Some s"
| "for_loop (i # is) f s = Option.bind (f i s) (for_loop is f)"

text \<open>The conversion of a \<open>bool\<close> to an integer type, and the value of an integer used as
  a condition.\<close>

definition b2u :: "bool \<Rightarrow> uint32_t" where
  "b2u b = (if b then 1 else 0)"

section \<open>Vectors\<close>

lemma vec_at_in [simp]: "i < length xs \<Longrightarrow> vec_at xs i = Some (xs ! i)"
  by (simp add: vec_at_def)

lemma vec_at_out [simp]: "length xs \<le> i \<Longrightarrow> vec_at xs i = None"
  by (simp add: vec_at_def)

lemma vec_at_eq_Some: "vec_at xs i = Some x \<longleftrightarrow> i < length xs \<and> xs ! i = x"
  by (auto simp: vec_at_def)

lemma vec_set_in [simp]: "i < length xs \<Longrightarrow> vec_set xs i v = Some (xs[i := v])"
  by (simp add: vec_set_def)

lemma vec_set_out [simp]: "length xs \<le> i \<Longrightarrow> vec_set xs i v = None"
  by (simp add: vec_set_def)

lemma vec_set_eq_Some: "vec_set xs i v = Some ys \<longleftrightarrow> i < length xs \<and> ys = xs[i := v]"
  by (auto simp: vec_set_def)

lemma vec_at2_in [simp]: "i < length rows \<Longrightarrow> j < length (rows ! i) \<Longrightarrow> vec_at2 rows i j = Some (rows ! i ! j)"
  by (simp add: vec_at2_def)

lemma length_vec_resize [simp]: "length (vec_resize n d xs) = n"
  by (simp add: vec_resize_def)

lemma vec_resize_Nil [simp]: "vec_resize n d [] = replicate n d"
  by (simp add: vec_resize_def)

lemma vec_resize_id [simp]: "length xs = n \<Longrightarrow> vec_resize n d xs = xs"
  by (simp add: vec_resize_def)

lemma replicate_update_same [simp]: "(replicate n d)[i := d] = replicate n d"
  by (induction n arbitrary: i) (auto split: nat.split)

lemma nth_vec_resize:
  "i < n \<Longrightarrow> vec_resize n d xs ! i = (if i < length xs then xs ! i else d)"
  by (simp add: vec_resize_def nth_append)

text \<open>A vector filled from the left: the first \<open>k\<close> entries are final, the others still
  those it was allocated with.\<close>

definition filled :: "nat \<Rightarrow> 'a list \<Rightarrow> 'a list \<Rightarrow> 'a list" where
  "filled k xs zs = take k xs @ drop k zs"

lemma filled_0 [simp]: "filled 0 xs zs = zs"
  by (simp add: filled_def)

lemma filled_all [simp]: "length xs = n \<Longrightarrow> length zs = n \<Longrightarrow> filled n xs zs = xs"
  by (simp add: filled_def)

lemma length_filled [simp]: "length xs = length zs \<Longrightarrow> length (filled k xs zs) = length xs"
  by (simp add: filled_def)

lemma filled_update [simp]:
  assumes "k < length xs" and "length xs = length zs"
  shows "(filled k xs zs)[k := xs ! k] = filled (Suc k) xs zs"
proof (rule nth_equalityI)
  show "length ((filled k xs zs)[k := xs ! k]) = length (filled (Suc k) xs zs)"
    using assms by simp
next
  fix i
  assume "i < length ((filled k xs zs)[k := xs ! k])"
  then show "(filled k xs zs)[k := xs ! k] ! i = filled (Suc k) xs zs ! i"
    using assms by (auto simp: filled_def nth_list_update nth_append)
qed

lemma filled_put [simp]:
  "xs ! k = v \<Longrightarrow> k < length xs \<Longrightarrow> length xs = length zs \<Longrightarrow> (filled k xs zs)[k := v] = filled (Suc k) xs zs"
  by (simp add: filled_update [symmetric] del: filled_update)

lemma nth_filled [simp]:
  assumes "k \<le> length xs" and "length xs = length zs" and "i < length xs"
  shows "filled k xs zs ! i = (if i < k then xs ! i else zs ! i)"
  using assms by (auto simp: filled_def nth_append)

lemma filled_skip:
  assumes "xs ! k = zs ! k" and "k < length xs" and "length xs = length zs"
  shows "filled (Suc k) xs zs = filled k xs zs"
  using filled_update [OF assms(2,3)] list_update_id [of "filled k xs zs" k] assms by simp

lemma vec_put_filled [simp]:
  assumes "k < length xs" and "length zs \<le> length xs" and "v = xs ! k"
  shows "vec_put (filled k xs zs) k v = Some (filled (Suc k) xs zs)"
proof (cases "k < length zs")
  case True
  then have "length (filled k xs zs) = length zs" using assms(1) by (simp add: filled_def)
  then have "vec_put (filled k xs zs) k v = Some ((filled k xs zs)[k := v])"
    using True by (simp add: vec_put_def)
  also have "(filled k xs zs)[k := v] = filled (Suc k) xs zs"
    using assms True
    by (simp add: filled_def list_update_append take_Suc_conv_app_nth Cons_nth_drop_Suc [symmetric])
  finally show ?thesis .
next
  case False
  then have "filled k xs zs = take k xs" "filled (Suc k) xs zs = take (Suc k) xs" by (simp_all add: filled_def)
  then show ?thesis using assms by (simp add: vec_put_def take_Suc_conv_app_nth)
qed

lemma filled_all_short [simp]: "length xs = n \<Longrightarrow> length zs \<le> n \<Longrightarrow> filled n xs zs = xs"
  by (simp add: filled_def)

lemma filled_but_last:
  "length xs = Suc n \<Longrightarrow> length zs = Suc n \<Longrightarrow> xs ! n = zs ! n \<Longrightarrow> filled n xs zs = xs"
  using filled_skip [of xs n zs] by simp

section \<open>Counted loops\<close>

lemma for_loop_Nil [simp]: "for_loop [] f = Some"
  by (simp add: fun_eq_iff)

lemma for_loop_append:
  "for_loop (is @ js) f s = Option.bind (for_loop is f s) (for_loop js f)"
proof (induction "is" arbitrary: s)
  case Nil
  then show ?case by simp
next
  case (Cons i "is")
  then show ?case by (cases "f i s") simp_all
qed

lemma for_loop_snoc:
  "for_loop (is @ [i]) f s = Option.bind (for_loop is f s) (f i)"
proof (cases "for_loop is f s")
  case (Some t)
  then show ?thesis by (cases "f i t") (simp_all add: for_loop_append)
qed (simp add: for_loop_append)

text \<open>The loop reaches its invariant: state \<open>y k\<close> before the iteration number \<open>k\<close>.\<close>

lemma for_loop_inv:
  assumes "\<And>k. k < n \<Longrightarrow> f k (y k) = Some (y (Suc k))"
  shows "for_loop [0..<n] f (y 0) = Some (y n)"
  using assms
proof (induction n)
  case 0
  then show ?case by simp
next
  case (Suc n)
  then have "for_loop [0..<n] f (y 0) = Some (y n)" by simp
  with Suc.prems show ?case by (simp add: for_loop_snoc)
qed

section \<open>Words\<close>

lemma b2u_simps [simp]: "b2u True = 1" "b2u False = 0" "(b2u b \<noteq> 0) = b" "(b2u b = 0) = (\<not> b)"
  by (simp_all add: b2u_def)

lemma unat_b2u_less [simp]: "unat (b2u b) < 2"
  by (simp add: b2u_def)

lemma ucast_up_down [cast_simp, simp]:
  fixes x :: "'a::len word"
  assumes "LENGTH('a) \<le> LENGTH('b::len)"
  shows "ucast (ucast x :: 'b word) = x"
  using assms by (intro bit_word_eqI) (auto simp: bit_ucast_iff dest: bit_imp_le_length)

lemma unat_ucast_up [cast_simp, simp]:
  fixes x :: "'a::len word"
  assumes "LENGTH('a) \<le> LENGTH('b::len)"
  shows "unat (ucast x :: 'b word) = unat x"
proof -
  have "2 ^ LENGTH('a) \<le> (2::nat) ^ LENGTH('b)"
    using assms by (intro power_increasing) auto
  then have "unat x < 2 ^ LENGTH('b)"
    using unsigned_less [of x, where ?'a = nat] by (rule less_le_trans [rotated])
  then show ?thesis by (simp add: unsigned_ucast_eq take_bit_nat_eq_self)
qed

text \<open>A \<open>size_t\<close> that is small enough survives the conversion to \<open>uint32_t\<close> and back.\<close>

lemma unat_ucast_small:
  fixes w :: "'a::len word"
  assumes "unat w < 2 ^ LENGTH('b::len)"
  shows "unat (ucast w :: 'b word) = unat w"
  using assms by (simp add: unsigned_ucast_eq take_bit_nat_eq_self)

lemma size_t_uint32 [cast_simp]:
  fixes w :: size_t
  assumes "unat w < 2 ^ 32"
  shows "unat (ucast w :: uint32_t) = unat w" "ucast (ucast w :: uint32_t) = w"
proof -
  show *: "unat (ucast w :: uint32_t) = unat w" using assms by (simp add: unat_ucast_small)
  then have "unat (ucast (ucast w :: uint32_t) :: size_t) = unat w" by simp
  then show "ucast (ucast w :: uint32_t) = w" by (simp only: word_unat_eq_iff)
qed

lemma size_t_small [simp]:
  fixes w :: size_t
  assumes "unat w < 2147483647"
  shows "unat (ucast w :: uint32_t) = unat w" "ucast (ucast w :: uint32_t) = w"
  using assms by (simp_all add: size_t_uint32)

end
