(* ===== verification/Bitstream.thy ===== *)
theory Bitstream
  imports Prelude
begin

unbundle bit_operations_syntax

text \<open>
  The bit-level stream of \<open>PCCBitstream.h\<close> and \<open>PCCBitstream.cpp\<close>: the class
  \<open>PCCBitstream\<close> is the record \<open>PCCBitstream\<close>, its member functions are the definitions
  \<open>bs_...\<close>, which return the changed object. \<open>None\<close> is an access outside the byte vector,
  a shift that the language leaves undefined, a signed overflow, or a loop that never ends.

  The last sections characterise the fixed-width operations bit by bit: \<open>bs_inv\<close> is the class
  invariant, \<open>bs_write_bits\<close> what a write appends and \<open>bs_read_bits\<close> what a read returns.
\<close>

section \<open>The stream\<close>

record PCCBistreamPosition =
  pos_bytes :: nat
  pos_bits :: nat

record PCCBitstream =
  bs_data :: "uint8_t list"
  bs_pos :: PCCBistreamPosition

definition bs_new :: PCCBitstream where
  "bs_new = \<lparr>bs_data = [], bs_pos = \<lparr>pos_bytes = 0, pos_bits = 0\<rparr>\<rparr>"

definition bs_initialize :: "uint8_t list \<Rightarrow> PCCBitstream \<Rightarrow> PCCBitstream" where
  "bs_initialize d bs = bs\<lparr>bs_pos := \<lparr>pos_bytes = 0, pos_bits = 0\<rparr>, bs_data := d\<rparr>"

definition bs_clear :: "PCCBitstream \<Rightarrow> PCCBitstream" where
  "bs_clear bs = bs\<lparr>bs_data := [], bs_pos := \<lparr>pos_bytes = 0, pos_bits = 0\<rparr>\<rparr>"

definition bs_beginning :: "PCCBitstream \<Rightarrow> PCCBitstream" where
  "bs_beginning bs = bs\<lparr>bs_pos := \<lparr>pos_bytes = 0, pos_bits = 0\<rparr>\<rparr>"

definition bs_size :: "PCCBitstream \<Rightarrow> nat" where
  "bs_size bs = pos_bytes (bs_pos bs)"

definition bs_capacity :: "PCCBitstream \<Rightarrow> nat" where
  "bs_capacity bs = length (bs_data bs)"

definition bs_setPosition :: "PCCBistreamPosition \<Rightarrow> PCCBitstream \<Rightarrow> PCCBitstream" where
  "bs_setPosition p bs = bs\<lparr>bs_pos := p\<rparr>"

definition bs_byteAligned :: "PCCBitstream \<Rightarrow> bool" where
  "bs_byteAligned bs \<longleftrightarrow> pos_bits (bs_pos bs) = 0"

definition bs_moreData :: "PCCBitstream \<Rightarrow> bool" where
  "bs_moreData bs \<longleftrightarrow> pos_bytes (bs_pos bs) < length (bs_data bs)"

definition bs_advance :: "PCCBistreamPosition \<Rightarrow> PCCBistreamPosition" where
  "bs_advance p = (if pos_bits p = 7 then \<lparr>pos_bytes = pos_bytes p + 1, pos_bits = 0\<rparr>
                   else p\<lparr>pos_bits := pos_bits p + 1\<rparr>)"

text \<open>\<open>realloc( size )\<close> appends zero bytes, a multiple of 4096 of them.\<close>

definition bs_realloc :: "nat \<Rightarrow> uint8_t list \<Rightarrow> uint8_t list" where
  "bs_realloc sz d = vec_resize (length d + (sz div 4096 + 1) * 4096) 0 d"

definition read_bit ::
  "uint8_t list \<Rightarrow> nat \<Rightarrow> nat \<Rightarrow> uint32_t \<times> PCCBistreamPosition \<Rightarrow> (uint32_t \<times> PCCBistreamPosition) option" where
  "read_bit d bits i = (\<lambda>(value, pos). do {
     b \<leftarrow> vec_at d (pos_bytes pos);
     Some (value OR push_bit (bits - 1 - i) (ucast (drop_bit (7 - pos_bits pos) b AND 1)), bs_advance pos)
   })"

definition bs_read :: "nat \<Rightarrow> PCCBitstream \<Rightarrow> (uint32_t \<times> PCCBitstream) option" where
  "bs_read bits bs = (if 32 < bits then None else do {
     (value, pos) \<leftarrow> for_loop [0..<bits] (read_bit (bs_data bs) bits) (0, bs_pos bs);
     Some (value, bs\<lparr>bs_pos := pos\<rparr>)
   })"

definition write_bit ::
  "uint32_t \<Rightarrow> nat \<Rightarrow> nat \<Rightarrow> uint8_t list \<times> PCCBistreamPosition \<Rightarrow> (uint8_t list \<times> PCCBistreamPosition) option" where
  "write_bit value bits i = (\<lambda>(d, pos). do {
     b \<leftarrow> vec_at d (pos_bytes pos);
     d \<leftarrow> vec_set d (pos_bytes pos) (b OR push_bit (7 - pos_bits pos) (ucast (drop_bit (bits - 1 - i) value AND 1)));
     Some (d, bs_advance pos)
   })"

definition bs_write :: "uint32_t \<Rightarrow> nat \<Rightarrow> PCCBitstream \<Rightarrow> PCCBitstream option" where
  "bs_write value bits bs = (if 32 < bits then None else do {
     let d = (if length (bs_data bs) \<le> pos_bytes (bs_pos bs) + bits + 16
              then bs_realloc 4096 (bs_data bs) else bs_data bs);
     (d, pos) \<leftarrow> for_loop [0..<bits] (write_bit value bits) (d, bs_pos bs);
     Some (bs\<lparr>bs_data := d, bs_pos := pos\<rparr>)
   })"

section \<open>Variable length codes\<close>

text \<open>The loop of \<open>writeUvlc\<close> that measures the code word: it ends only when \<open>temp\<close> becomes 1.\<close>

partial_function (option) uvlc_length :: "uint32_t \<Rightarrow> nat \<Rightarrow> nat option" where
  "uvlc_length temp len = (if temp = 1 then Some len else uvlc_length (drop_bit 1 temp) (len + 2))"

definition bs_writeUvlc :: "uint32_t \<Rightarrow> PCCBitstream \<Rightarrow> PCCBitstream option" where
  "bs_writeUvlc value bs = do {
     let code = value + 1;
     len \<leftarrow> uvlc_length code 1;
     bs \<leftarrow> bs_write 0 (len div 2) bs;
     bs_write code ((len + 1) div 2) bs
   }"

text \<open>The loop of \<open>readUvlc\<close> over the leading zero bits; \<open>1 << length\<close> minus one overflows
  \<open>int\<close> from 31 on.\<close>

partial_function (option) uvlc_prefix :: "PCCBitstream \<Rightarrow> nat \<Rightarrow> (nat \<times> PCCBitstream) option" where
  "uvlc_prefix bs len =
     Option.bind (bs_read 1 bs) (\<lambda>cb. if fst cb AND 1 = 0 then uvlc_prefix (snd cb) (len + 1)
                                       else Some (len + 1, snd cb))"

definition bs_readUvlc :: "PCCBitstream \<Rightarrow> (uint32_t \<times> PCCBitstream) option" where
  "bs_readUvlc bs = do {
     (code, bs) \<leftarrow> bs_read 1 bs;
     if code = 0 then do {
       (len, bs) \<leftarrow> uvlc_prefix bs 0;
       if 30 < len then None else do {
         (value, bs) \<leftarrow> bs_read len bs;
         Some (value + (push_bit len 1 - 1), bs)
       }
     } else Some (0, bs)
   }"

text \<open>Signed codes: \<open>int32_t\<close> values are integers in range. \<open>- code\<close> overflows for the least
  one and \<open>( code << 1 ) - 1\<close> for $2^{30}$, whose double becomes the least one; the other results are
  taken modulo $2^{32}$.\<close>

definition int32_in :: "int \<Rightarrow> bool" where
  "int32_in v \<longleftrightarrow> - (2 ^ 31) \<le> v \<and> v < 2 ^ 31"

definition svlc_code :: "int \<Rightarrow> uint32_t option" where
  "svlc_code code =
     (if \<not> int32_in code \<or> code = - (2 ^ 31) \<or> code = 2 ^ 30 then None
      else Some (word_of_int (if code \<le> 0 then - code * 2 else code * 2 - 1)))"

definition bs_writeSvlc :: "int \<Rightarrow> PCCBitstream \<Rightarrow> PCCBitstream option" where
  "bs_writeSvlc value bs = do { code \<leftarrow> svlc_code value; bs_writeUvlc code bs }"

definition svlc_value :: "uint32_t \<Rightarrow> int" where
  "svlc_value bits = (if bits AND 1 \<noteq> 0 then uint (drop_bit 1 bits) + 1 else - uint (drop_bit 1 bits))"

definition bs_readSvlc :: "PCCBitstream \<Rightarrow> (int \<times> PCCBitstream) option" where
  "bs_readSvlc bs = do { (bits, bs) \<leftarrow> bs_readUvlc bs; Some (svlc_value bits, bs) }"

definition bs_writeS :: "int \<Rightarrow> nat \<Rightarrow> PCCBitstream \<Rightarrow> PCCBitstream option" where
  "bs_writeS value bits bs =
     (if bits = 0 \<or> 32 < bits \<or> \<not> int32_in value then None
      else if 0 \<le> value then bs_write (word_of_int value) bits bs
      else if bits = 32 then None
      else bs_write ((word_of_int value AND (push_bit (bits - 1) 1 - 1)) OR push_bit (bits - 1) 1) bits bs)"

definition bs_readS :: "nat \<Rightarrow> PCCBitstream \<Rightarrow> (int \<times> PCCBitstream) option" where
  "bs_readS bits bs = (if bits = 0 then None else do {
     (code, bs) \<leftarrow> bs_read bits bs;
     let midPoint = push_bit (bits - 1) 1;
     Some (if code < midPoint then sint code else sint (code OR NOT (midPoint - 1)), bs)
   })"

text \<open>A \<open>float\<close> is its bit pattern: both functions copy the four bytes.\<close>

definition bs_writeFloat :: "uint32_t \<Rightarrow> PCCBitstream \<Rightarrow> PCCBitstream option" where
  "bs_writeFloat value bs = bs_write value 32 bs"

definition bs_readFloat :: "PCCBitstream \<Rightarrow> (uint32_t \<times> PCCBitstream) option" where
  "bs_readFloat bs = bs_read 32 bs"

section \<open>Alignment, strings and blocks of bytes\<close>

partial_function (option) bs_padWrite :: "uint32_t \<Rightarrow> PCCBitstream \<Rightarrow> PCCBitstream option" where
  "bs_padWrite v bs = (if bs_byteAligned bs then Some bs
                       else Option.bind (bs_write v 1 bs) (bs_padWrite v))"

partial_function (option) bs_padRead :: "PCCBitstream \<Rightarrow> (unit \<times> PCCBitstream) option" where
  "bs_padRead bs = (if bs_byteAligned bs then Some ((), bs)
                    else Option.bind (bs_read 1 bs) (\<lambda>cb. bs_padRead (snd cb)))"

text \<open>Only the low 8 bits of a character reach the stream, so its sign extension does not matter.\<close>

definition bs_writeString :: "uint8_t list \<Rightarrow> PCCBitstream \<Rightarrow> PCCBitstream option" where
  "bs_writeString str bs = do {
     bs \<leftarrow> bs_padWrite 0 bs;
     bs \<leftarrow> for_loop str (\<lambda>element bs. bs_write (ucast element) 8 bs) bs;
     bs_write 0 8 bs
   }"

partial_function (option) bs_readChars :: "PCCBitstream \<Rightarrow> uint8_t list \<Rightarrow> (uint8_t list \<times> PCCBitstream) option" where
  "bs_readChars bs str =
     Option.bind (bs_read 8 bs) (\<lambda>eb. if fst eb \<noteq> 0 then bs_readChars (snd eb) (str @ [ucast (fst eb)])
                                       else Some (str, snd eb))"

definition bs_readString :: "PCCBitstream \<Rightarrow> (uint8_t list \<times> PCCBitstream) option" where
  "bs_readString bs = do { (_, bs) \<leftarrow> bs_padRead bs; bs_readChars bs [] }"

text \<open>\<open>memcpy\<close> of a byte list to an offset of a vector: undefined outside the vector.\<close>

definition memcpy_at :: "uint8_t list \<Rightarrow> nat \<Rightarrow> uint8_t list \<Rightarrow> uint8_t list option" where
  "memcpy_at dest off src =
     (if off + length src \<le> length dest
      then Some (take off dest @ src @ drop (off + length src) dest) else None)"

definition memcpy_from :: "uint8_t list \<Rightarrow> nat \<Rightarrow> nat \<Rightarrow> uint8_t list option" where
  "memcpy_from src off n = (if off + n \<le> length src then Some (take n (drop off src)) else None)"

definition bs_skip :: "nat \<Rightarrow> PCCBitstream \<Rightarrow> PCCBitstream" where
  "bs_skip n bs = bs\<lparr>bs_pos := (bs_pos bs)\<lparr>pos_bytes := pos_bytes (bs_pos bs) + n\<rparr>\<rparr>"

definition bs_writeVideoStream :: "uint8_t list \<Rightarrow> PCCBitstream \<Rightarrow> PCCBitstream option" where
  "bs_writeVideoStream video bs = do {
     d \<leftarrow> memcpy_at (bs_realloc (length video) (bs_data bs)) (pos_bytes (bs_pos bs)) video;
     Some (bs_skip (length video) (bs\<lparr>bs_data := d\<rparr>))
   }"

definition bs_readVideoStream :: "nat \<Rightarrow> PCCBitstream \<Rightarrow> (uint8_t list \<times> PCCBitstream) option" where
  "bs_readVideoStream videoStreamSize bs = do {
     video \<leftarrow> memcpy_from (bs_data bs) (pos_bytes (bs_pos bs)) videoStreamSize;
     Some (video, bs_skip videoStreamSize bs)
   }"

definition bs_copyFrom :: "PCCBitstream \<Rightarrow> nat \<Rightarrow> nat \<Rightarrow> PCCBitstream \<Rightarrow> (PCCBitstream \<times> PCCBitstream) option" where
  "bs_copyFrom dataBitstream startByte bitstreamSize bs = do {
     let pos = pos_bytes (bs_pos bs);
     let d = (if length (bs_data bs) < pos + bitstreamSize
              then vec_resize (pos + bitstreamSize) 0 (bs_data bs) else bs_data bs);
     src \<leftarrow> memcpy_from (bs_data dataBitstream) startByte bitstreamSize;
     d \<leftarrow> memcpy_at d pos src;
     Some (bs_skip bitstreamSize (bs\<lparr>bs_data := d\<rparr>), bs_skip bitstreamSize dataBitstream)
   }"

text \<open>\<open>copyTo\<close> initializes the target and then copies from the target into this stream.\<close>

definition bs_copyTo :: "PCCBitstream \<Rightarrow> nat \<Rightarrow> nat \<Rightarrow> PCCBitstream \<Rightarrow> (PCCBitstream \<times> PCCBitstream) option" where
  "bs_copyTo dataBitstream startByte outputSize bs = do {
     let target = dataBitstream\<lparr>bs_data := vec_resize outputSize 0 (bs_data dataBitstream)\<rparr>;
     src \<leftarrow> memcpy_from (bs_data target) 0 outputSize;
     d \<leftarrow> memcpy_at (bs_data bs) startByte src;
     Some (bs\<lparr>bs_data := d\<rparr>, bs_skip outputSize target)
   }"

section \<open>Bit indices\<close>

text \<open>A position counts bits from the start of the stream; \<open>bit_at\<close> reads the bit of an index,
  the most significant bit of a byte first.\<close>

definition lin :: "PCCBistreamPosition \<Rightarrow> nat" where
  "lin p = 8 * pos_bytes p + pos_bits p"

definition unlin :: "nat \<Rightarrow> PCCBistreamPosition" where
  "unlin k = \<lparr>pos_bytes = k div 8, pos_bits = k mod 8\<rparr>"

definition bit_at :: "uint8_t list \<Rightarrow> nat \<Rightarrow> bool" where
  "bit_at d k \<longleftrightarrow> bit (d ! (k div 8)) (7 - k mod 8)"

text \<open>The class invariant: the bit offset is below 8, the position is inside the vector or at its
  end, and every bit from the position on is still zero (\<open>write\<close> only sets bits).\<close>

definition bs_inv :: "PCCBitstream \<Rightarrow> bool" where
  "bs_inv bs \<longleftrightarrow> pos_bits (bs_pos bs) < 8 \<and> lin (bs_pos bs) \<le> 8 * length (bs_data bs)
     \<and> (\<forall>k. lin (bs_pos bs) \<le> k \<longrightarrow> k < 8 * length (bs_data bs) \<longrightarrow> \<not> bit_at (bs_data bs) k)"

text \<open>\<open>bs_extends fs bs\<close>: the stream \<open>fs\<close> begins with all bits written to \<open>bs\<close>.\<close>

definition bs_extends :: "PCCBitstream \<Rightarrow> PCCBitstream \<Rightarrow> bool" where
  "bs_extends fs bs \<longleftrightarrow> lin (bs_pos bs) \<le> 8 * length (bs_data fs)
     \<and> (\<forall>k < lin (bs_pos bs). bit_at (bs_data fs) k = bit_at (bs_data bs) k)"

lemma unlin_lin [simp]: "pos_bits p < 8 \<Longrightarrow> unlin (lin p) = p"
  by (simp add: lin_def unlin_def)

lemma lin_unlin [simp]: "lin (unlin k) = k"
  by (simp add: lin_def unlin_def)

lemma pos_bits_unlin [simp]: "pos_bits (unlin k) < 8"
  by (simp add: unlin_def)

lemma bs_advance_unlin [simp]: "bs_advance (unlin k) = unlin (Suc k)"
  by (simp add: bs_advance_def unlin_def mod_Suc div_Suc)

lemma unlin_in_range [simp]: "k < 8 * n \<Longrightarrow> pos_bytes (unlin k) < n"
  by (simp add: unlin_def)

lemma bit_at_unlin: "bit (d ! pos_bytes (unlin k)) (7 - pos_bits (unlin k)) = bit_at d k"
  by (simp add: bit_at_def unlin_def)

lemma bit_lsb_and_1 [simp]: "bit (w AND 1) j \<longleftrightarrow> j = 0 \<and> bit w 0" for w :: "'a::len word"
  by (auto simp: bit_and_iff bit_1_iff)

section \<open>Reading and writing fixed-width values\<close>

lemma read_loop:
  assumes "p + n \<le> 8 * length d" and "n \<le> 32" and "k \<le> n"
  shows "\<exists>v. for_loop [0..<k] (read_bit d n) (0, unlin p) = Some (v, unlin (p + k))
           \<and> (\<forall>j. bit v j \<longleftrightarrow> n - k \<le> j \<and> j < n \<and> bit_at d (p + (n - 1 - j)))"
  using assms(3)
proof (induction k)
  case 0
  then show ?case by auto
next
  case (Suc k)
  then obtain v where v: "for_loop [0..<k] (read_bit d n) (0, unlin p) = Some (v, unlin (p + k))"
    and bits: "\<And>j. bit v j \<longleftrightarrow> n - k \<le> j \<and> j < n \<and> bit_at d (p + (n - 1 - j))"
    by auto
  define w where "w = v OR push_bit (n - 1 - k) (ucast (drop_bit (7 - pos_bits (unlin (p + k))) (d ! pos_bytes (unlin (p + k))) AND 1))"
  have step: "read_bit d n k (v, unlin (p + k)) = Some (w, unlin (p + Suc k))"
    using Suc.prems assms by (simp add: read_bit_def w_def)
  have "bit w j \<longleftrightarrow> n - Suc k \<le> j \<and> j < n \<and> bit_at d (p + (n - 1 - j))" for j
  proof (cases "j = n - Suc k")
    case True
    then have "bit w j \<longleftrightarrow> bit_at d (p + k)"
      using Suc.prems assms
      by (auto simp: w_def bits bit_or_iff bit_push_bit_iff bit_ucast_iff bit_drop_bit_eq bit_at_unlin)
    moreover have "n - 1 - j = k" using True Suc.prems by simp
    ultimately show ?thesis using True Suc.prems by simp
  next
    case False
    then show ?thesis
      using Suc.prems by (auto simp: w_def bits bit_or_iff bit_push_bit_iff bit_ucast_iff)
  qed
  with v step show ?case by (auto simp: for_loop_snoc)
qed

lemma bs_read_bits:
  assumes "pos_bits (bs_pos bs) < 8" and "n \<le> 32"
    and "lin (bs_pos bs) + n \<le> 8 * length (bs_data bs)"
  shows "\<exists>v. bs_read n bs = Some (v, bs_setPosition (unlin (lin (bs_pos bs) + n)) bs)
           \<and> (\<forall>j. bit v j \<longleftrightarrow> j < n \<and> bit_at (bs_data bs) (lin (bs_pos bs) + (n - 1 - j)))"
  using read_loop [OF assms(3,2), of n] assms(1,2)
  by (auto simp: bs_read_def bs_setPosition_def)

lemma bit_at_update:
  assumes "p < 8 * length d" and "m < 8 * length d"
  shows "bit_at (d[p div 8 := d ! (p div 8) OR push_bit (7 - p mod 8) (ucast (w AND 1 :: uint32_t))]) m
           \<longleftrightarrow> bit_at d m \<or> (m = p \<and> bit w 0)"
proof (cases "m div 8 = p div 8")
  case True
  then have "m = p \<longleftrightarrow> m mod 8 = p mod 8" by (metis div_mult_mod_eq)
  moreover have "7 - p mod 8 \<le> 7 - m mod 8 \<and> 7 - m mod 8 - (7 - p mod 8) = 0 \<longleftrightarrow> m mod 8 = p mod 8"
  proof -
    have "m mod 8 < 8" and "p mod 8 < 8" by simp_all
    then show ?thesis by linarith
  qed
  ultimately show ?thesis
    using True assms by (auto simp: bit_at_def bit_or_iff bit_push_bit_iff bit_ucast_iff)
next
  case False
  then show ?thesis by (auto simp: bit_at_def)
qed

lemma write_loop:
  assumes "p + n \<le> 8 * length d" and "k \<le> n" and "n \<le> 32"
    and zero: "\<And>m. p \<le> m \<Longrightarrow> m < 8 * length d \<Longrightarrow> \<not> bit_at d m"
  shows "\<exists>d'. for_loop [0..<k] (write_bit v n) (d, unlin p) = Some (d', unlin (p + k))
           \<and> length d' = length d
           \<and> (\<forall>m < 8 * length d. bit_at d' m \<longleftrightarrow>
                (if m < p then bit_at d m else m < p + k \<and> bit v (n - 1 - (m - p))))"
  using assms(2)
proof (induction k)
  case 0
  then show ?case using zero by auto
next
  case (Suc k)
  then obtain d' where d': "for_loop [0..<k] (write_bit v n) (d, unlin p) = Some (d', unlin (p + k))"
    and len: "length d' = length d"
    and bits: "\<And>m. m < 8 * length d \<Longrightarrow> bit_at d' m \<longleftrightarrow>
                (if m < p then bit_at d m else m < p + k \<and> bit v (n - 1 - (m - p)))"
    by auto
  let ?q = "p + k"
  let ?d = "d'[?q div 8 := d' ! (?q div 8) OR push_bit (7 - ?q mod 8) (ucast (drop_bit (n - 1 - k) v AND 1))]"
  have q: "?q < 8 * length d'" using Suc.prems assms(1) len by simp
  have step: "write_bit v n k (d', unlin ?q) = Some (?d, unlin (p + Suc k))"
    using q by (simp add: write_bit_def) (simp add: unlin_def)
  have "bit_at ?d m \<longleftrightarrow> (if m < p then bit_at d m else m < p + Suc k \<and> bit v (n - 1 - (m - p)))"
    if "m < 8 * length d" for m
    using bit_at_update [OF q, of m "drop_bit (n - 1 - k) v"] bits [OF that] that len
    by (auto simp: bit_drop_bit_eq less_Suc_eq)
  with d' step len show ?case by (auto simp: for_loop_snoc)
qed

lemma bit_at_realloc:
  assumes "m < 8 * length (bs_realloc s d)"
  shows "bit_at (bs_realloc s d) m \<longleftrightarrow> m < 8 * length d \<and> bit_at d m"
proof -
  have "m div 8 < length (bs_realloc s d)" using assms by simp
  then have "bs_realloc s d ! (m div 8) = (if m div 8 < length d then d ! (m div 8) else 0)"
    by (simp add: bs_realloc_def nth_vec_resize)
  moreover have "m div 8 < length d \<longleftrightarrow> m < 8 * length d" by auto
  ultimately show ?thesis by (simp add: bit_at_def)
qed

lemma length_bs_realloc: "length (bs_realloc s d) = length d + (s div 4096 + 1) * 4096"
  by (simp add: bs_realloc_def)

lemma bs_write_bits:
  assumes inv: "bs_inv bs" and n: "n \<le> 32"
  shows "\<exists>bs'. bs_write v n bs = Some bs' \<and> bs_pos bs' = unlin (lin (bs_pos bs) + n)
           \<and> lin (bs_pos bs) + n \<le> 8 * length (bs_data bs') \<and> bs_inv bs' \<and> bs_extends bs' bs
           \<and> (\<forall>j < n. bit_at (bs_data bs') (lin (bs_pos bs) + j) = bit v (n - 1 - j))"
proof -
  define d where "d = (if length (bs_data bs) \<le> pos_bytes (bs_pos bs) + n + 16
                       then bs_realloc 4096 (bs_data bs) else bs_data bs)"
  let ?p = "lin (bs_pos bs)"
  have pb: "pos_bits (bs_pos bs) < 8" and pl: "?p \<le> 8 * length (bs_data bs)"
    using inv by (simp_all add: bs_inv_def)
  have len: "?p + n \<le> 8 * length d" and len': "length (bs_data bs) \<le> length d"
    using pb pl n by (auto simp: d_def length_bs_realloc lin_def)
  have same: "bit_at d m \<longleftrightarrow> m < 8 * length (bs_data bs) \<and> bit_at (bs_data bs) m"
    if "m < 8 * length d" for m
    using that bit_at_realloc [of m 4096 "bs_data bs"] by (auto simp: d_def)
  have zero: "\<not> bit_at d m" if "?p \<le> m" and "m < 8 * length d" for m
    using inv that same [OF that(2)] by (auto simp: bs_inv_def)
  obtain d' where d': "for_loop [0..<n] (write_bit v n) (d, unlin ?p) = Some (d', unlin (?p + n))"
    and ld: "length d' = length d"
    and bits: "\<And>m. m < 8 * length d \<Longrightarrow> bit_at d' m \<longleftrightarrow>
                (if m < ?p then bit_at d m else m < ?p + n \<and> bit v (n - 1 - (m - ?p)))"
    using write_loop [OF len order.refl n zero] by blast
  have "bs_write v n bs = Some (bs\<lparr>bs_data := d', bs_pos := unlin (?p + n)\<rparr>)"
    using n d' pb by (simp add: bs_write_def d_def)
  moreover have "bs_inv (bs\<lparr>bs_data := d', bs_pos := unlin (?p + n)\<rparr>)"
    unfolding bs_inv_def using len ld bits by simp
  moreover have "bit_at d' k = bit_at (bs_data bs) k" if "k < ?p" for k
  proof -
    have "k < 8 * length d" using that len by simp
    with that pl bits [of k] same [of k] show ?thesis by simp
  qed
  moreover have "bit_at d' (?p + j) = bit v (n - 1 - j)" if "j < n" for j
    using that len bits [of "?p + j"] by simp
  ultimately show ?thesis
    using len ld by (simp add: bs_extends_def)
qed

text \<open>What a fixed-width write leaves in the stream is what a fixed-width read returns.\<close>

lemma bs_read_written:
  assumes inv: "bs_inv bs" and n: "n \<le> 32" and w: "bs_write v n bs = Some bs'"
    and ext: "bs_extends fs bs'"
  shows "bs_read n (bs_setPosition (bs_pos bs) fs) = Some (take_bit n v, bs_setPosition (bs_pos bs') fs)"
proof -
  let ?p = "lin (bs_pos bs)"
  obtain pos: "bs_pos bs' = unlin (?p + n)"
    and bits: "\<And>j. j < n \<Longrightarrow> bit_at (bs_data bs') (?p + j) = bit v (n - 1 - j)"
    using bs_write_bits [OF inv n, of v] w by auto
  have len: "?p + n \<le> 8 * length (bs_data fs)"
    and same: "\<And>k. k < ?p + n \<Longrightarrow> bit_at (bs_data fs) k = bit_at (bs_data bs') k"
    using ext pos by (auto simp: bs_extends_def)
  obtain u where u: "bs_read n (bs_setPosition (bs_pos bs) fs) =
      Some (u, bs_setPosition (unlin (?p + n)) (bs_setPosition (bs_pos bs) fs))"
    and ub: "\<And>j. bit u j \<longleftrightarrow> j < n \<and> bit_at (bs_data fs) (?p + (n - 1 - j))"
    using bs_read_bits [of "bs_setPosition (bs_pos bs) fs" n] inv n len
    by (auto simp: bs_setPosition_def bs_inv_def)
  have "u = take_bit n v"
  proof (rule bit_word_eqI)
    fix j
    show "bit u j = bit (take_bit n v) j"
    proof (cases "j < n")
      case True
      then have "bit_at (bs_data fs) (?p + (n - 1 - j)) = bit v (n - 1 - (n - 1 - j))"
        using same [of "?p + (n - 1 - j)"] bits [of "n - 1 - j"] by simp
      with True show ?thesis by (simp add: ub bit_take_bit_iff)
    qed (simp add: ub bit_take_bit_iff)
  qed
  with u pos show ?thesis by (simp add: bs_setPosition_def)
qed

end
