(* ===== verification/Codec.thy ===== *)
theory Codec
  imports Bitstream
begin

unbundle bit_operations_syntax

text \<open>
  The write/read judgement and its calculus. \<open>codes W R y\<close> says that the writer action \<open>W\<close>
  never fails on a well-formed stream, keeps the class invariant, only appends, and that the reader
  action \<open>R\<close>, started where \<open>W\<close> started on any stream that begins with what \<open>W\<close>
  wrote, returns \<open>y\<close> and stops exactly where \<open>W\<close> stopped. The number of bits that \<open>W\<close> takes depends on the stream
  only by its distance from the last byte boundary. The rules of \<open>codec_intro\<close>
  follow the structure of the code: sequence, branch, loop, and the elementary codes of
  \<open>PCCBitstream.h\<close>.

  The locale \<open>value_codec\<close> is the interface of one element of the syntax, \<open>syntax_codec\<close>
  that of a structure which the reader fills in place, starting from a freshly constructed object.
\<close>

section \<open>The judgement\<close>

definition codes ::
  "(PCCBitstream \<Rightarrow> PCCBitstream option) \<Rightarrow> (PCCBitstream \<Rightarrow> ('a \<times> PCCBitstream) option) \<Rightarrow> 'a \<Rightarrow> bool" where
  "codes W R y \<longleftrightarrow> (\<exists>N. \<forall>bs. bs_inv bs \<longrightarrow> (\<exists>bs'. W bs = Some bs' \<and> bs_inv bs' \<and> bs_extends bs' bs
     \<and> lin (bs_pos bs') = lin (bs_pos bs) + N (lin (bs_pos bs) mod 8)
     \<and> (\<forall>fs. bs_extends fs bs' \<longrightarrow>
            R (bs_setPosition (bs_pos bs) fs) = Some (y, bs_setPosition (bs_pos bs') fs))))"


lemma codesI:
  assumes "\<And>bs. bs_inv bs \<Longrightarrow> \<exists>bs'. W bs = Some bs' \<and> bs_inv bs' \<and> bs_extends bs' bs
     \<and> lin (bs_pos bs') = lin (bs_pos bs) + N (lin (bs_pos bs) mod 8)
     \<and> (\<forall>fs. bs_extends fs bs' \<longrightarrow>
            R (bs_setPosition (bs_pos bs) fs) = Some (y, bs_setPosition (bs_pos bs') fs))"
  shows "codes W R y"
  unfolding codes_def using assms by blast

lemma codesN:
  assumes "codes W R y"
  obtains N where "\<And>bs. bs_inv bs \<Longrightarrow> \<exists>bs'. W bs = Some bs' \<and> bs_inv bs' \<and> bs_extends bs' bs
     \<and> lin (bs_pos bs') = lin (bs_pos bs) + N (lin (bs_pos bs) mod 8)
     \<and> (\<forall>fs. bs_extends fs bs' \<longrightarrow>
            R (bs_setPosition (bs_pos bs) fs) = Some (y, bs_setPosition (bs_pos bs') fs))"
  using assms unfolding codes_def by blast

lemma codesE:
  assumes "codes W R y" and "bs_inv bs"
  obtains bs' where "W bs = Some bs'" and "bs_inv bs'" and "bs_extends bs' bs"
    and "lin (bs_pos bs) \<le> lin (bs_pos bs')"
    and "\<And>fs. bs_extends fs bs' \<Longrightarrow>
      R (bs_setPosition (bs_pos bs) fs) = Some (y, bs_setPosition (bs_pos bs') fs)"
  by (rule codesN [OF assms(1)]) (use assms(2) that in \<open>fastforce dest: eq_imp_le\<close>)

text \<open>From two positions at the same distance from a byte boundary, \<open>W\<close> takes the same number of bits.\<close>

lemma codes_bits:
  assumes "codes W R y" and "bs_inv bs" and "bs_inv cs" and "lin (bs_pos bs) mod 8 = lin (bs_pos cs) mod 8"
    and "W bs = Some bs'" and "W cs = Some cs'"
  shows "lin (bs_pos bs') - lin (bs_pos bs) = lin (bs_pos cs') - lin (bs_pos cs)"
    and "lin (bs_pos bs) \<le> lin (bs_pos bs')"
proof -
  obtain N where N: "\<And>bs bs'. bs_inv bs \<Longrightarrow> W bs = Some bs' \<Longrightarrow> lin (bs_pos bs') = lin (bs_pos bs) + N (lin (bs_pos bs) mod 8)"
    using codesN [OF assms(1)] by (metis option.inject)
  show "lin (bs_pos bs') - lin (bs_pos bs) = lin (bs_pos cs') - lin (bs_pos cs)"
    using N [OF assms(2,5)] N [OF assms(3,6)] assms(4) by simp
  show "lin (bs_pos bs) \<le> lin (bs_pos bs')" using N [OF assms(2,5)] by simp
qed

lemma bs_extends_refl: "bs_inv bs \<Longrightarrow> bs_extends bs bs"
  by (simp add: bs_extends_def bs_inv_def)

lemma bs_extends_trans:
  assumes "bs_extends fs bs'" and "bs_extends bs' bs" and "lin (bs_pos bs) \<le> lin (bs_pos bs')"
  shows "bs_extends fs bs"
  using assms by (simp add: bs_extends_def)

lemma bs_setPosition_same [simp]: "bs_setPosition (bs_pos bs) bs = bs"
  by (simp add: bs_setPosition_def)

lemma bs_setPosition_twice [simp]: "bs_setPosition p (bs_setPosition q bs) = bs_setPosition p bs"
  by (simp add: bs_setPosition_def)

lemma bs_setPosition_sel [simp]:
  "bs_pos (bs_setPosition p bs) = p" "bs_data (bs_setPosition p bs) = bs_data bs"
  by (simp_all add: bs_setPosition_def)

section \<open>Structure of the code\<close>

lemma codes_return [codec_intro]: "y' = y \<Longrightarrow> codes Some (\<lambda>bs. Some (y', bs)) y"
  by (rule codesI [where N = "\<lambda>_. 0"]) (simp add: bs_extends_refl)

lemma codes_bind [codec_intro]:
  assumes 1: "codes W1 R1 y1" and 2: "codes W2 (R2 y1) y2"
  shows "codes (\<lambda>bs. Option.bind (W1 bs) W2)
               (\<lambda>bs. Option.bind (R1 bs) (\<lambda>(v, bs). R2 v bs)) y2"
proof -
  obtain N1 where N1: "\<And>bs. bs_inv bs \<Longrightarrow> \<exists>bs'. W1 bs = Some bs' \<and> bs_inv bs' \<and> bs_extends bs' bs
     \<and> lin (bs_pos bs') = lin (bs_pos bs) + N1 (lin (bs_pos bs) mod 8)
     \<and> (\<forall>fs. bs_extends fs bs' \<longrightarrow> R1 (bs_setPosition (bs_pos bs) fs) = Some (y1, bs_setPosition (bs_pos bs') fs))"
    using codesN [OF 1] by blast
  obtain N2 where N2: "\<And>bs. bs_inv bs \<Longrightarrow> \<exists>bs'. W2 bs = Some bs' \<and> bs_inv bs' \<and> bs_extends bs' bs
     \<and> lin (bs_pos bs') = lin (bs_pos bs) + N2 (lin (bs_pos bs) mod 8)
     \<and> (\<forall>fs. bs_extends fs bs' \<longrightarrow> R2 y1 (bs_setPosition (bs_pos bs) fs) = Some (y2, bs_setPosition (bs_pos bs') fs))"
    using codesN [OF 2] by blast
  show ?thesis
  proof (rule codesI [where N = "\<lambda>b. N1 b + N2 ((b + N1 b) mod 8)"])
    fix bs assume inv: "bs_inv bs"
    obtain bs1 where w1: "W1 bs = Some bs1" and i1: "bs_inv bs1" and e1: "bs_extends bs1 bs"
      and l1: "lin (bs_pos bs1) = lin (bs_pos bs) + N1 (lin (bs_pos bs) mod 8)"
      and r1: "\<And>fs. bs_extends fs bs1 \<Longrightarrow>
        R1 (bs_setPosition (bs_pos bs) fs) = Some (y1, bs_setPosition (bs_pos bs1) fs)"
      using N1 [OF inv] by blast
    obtain bs2 where w2: "W2 bs1 = Some bs2" and i2: "bs_inv bs2" and e2: "bs_extends bs2 bs1"
      and l2: "lin (bs_pos bs2) = lin (bs_pos bs1) + N2 (lin (bs_pos bs1) mod 8)"
      and r2: "\<And>fs. bs_extends fs bs2 \<Longrightarrow>
        R2 y1 (bs_setPosition (bs_pos bs1) fs) = Some (y2, bs_setPosition (bs_pos bs2) fs)"
      using N2 [OF i1] by blast
    have le: "lin (bs_pos bs) \<le> lin (bs_pos bs1)" "lin (bs_pos bs1) \<le> lin (bs_pos bs2)" using l1 l2 by simp_all
    have "bs_extends bs2 bs" using e2 e1 le(1) by (rule bs_extends_trans)
    moreover have "lin (bs_pos bs2) = lin (bs_pos bs) + (N1 (lin (bs_pos bs) mod 8)
        + N2 ((lin (bs_pos bs) mod 8 + N1 (lin (bs_pos bs) mod 8)) mod 8))"
      using l1 l2 by (simp add: mod_add_left_eq)
    moreover have "Option.bind (R1 (bs_setPosition (bs_pos bs) fs)) (\<lambda>(v, bs). R2 v bs)
        = Some (y2, bs_setPosition (bs_pos bs2) fs)" if "bs_extends fs bs2" for fs
      using r1 [OF bs_extends_trans [OF that e2 le(2)]] r2 [OF that] by simp
    ultimately show "\<exists>bs'. Option.bind (W1 bs) W2 = Some bs' \<and> bs_inv bs' \<and> bs_extends bs' bs
       \<and> lin (bs_pos bs') = lin (bs_pos bs) + (N1 (lin (bs_pos bs) mod 8)
        + N2 ((lin (bs_pos bs) mod 8 + N1 (lin (bs_pos bs) mod 8)) mod 8))
       \<and> (\<forall>fs. bs_extends fs bs' \<longrightarrow>
              Option.bind (R1 (bs_setPosition (bs_pos bs) fs)) (\<lambda>(v, bs). R2 v bs)
                = Some (y2, bs_setPosition (bs_pos bs') fs))"
      using w1 w2 i2 by simp
  qed
qed

lemma codes_case [codec_intro]: "codes W (R a b) y \<Longrightarrow> codes W (case_prod R (a, b)) y"
  by simp

text \<open>A step that does not touch the stream, such as a vector access. \<open>simplifies\<close> marks the equation
  that computes it; its right hand side is found by simplification, which keeps the object under
  construction small.\<close>

definition simplifies :: "'a \<Rightarrow> 'a \<Rightarrow> bool" where
  [simp]: "simplifies a b \<longleftrightarrow> a = b"

lemma codes_w_opt [codec_intro]:
  assumes "simplifies e (Some x)" and "codes (W x) R y"
  shows "codes (\<lambda>bs. Option.bind e (\<lambda>x. W x bs)) R y"
  using assms by simp

lemma codes_r_opt [codec_intro]:
  assumes "simplifies e (Some x)" and "codes W (R x) y"
  shows "codes W (\<lambda>bs. Option.bind e (\<lambda>x. R x bs)) y"
  using assms by simp

lemma codes_r_let [codec_intro]:
  assumes "simplifies e x" and "codes W (R x) y"
  shows "codes W (\<lambda>bs. Let e (\<lambda>x. R x bs)) y"
  using assms by simp

lemma codes_w_let [codec_intro]:
  assumes "simplifies e x" and "codes (W x) R y"
  shows "codes (\<lambda>bs. Let e (\<lambda>x. W x bs)) R y"
  using assms by simp

text \<open>What the reader does with the value after the writer has finished.\<close>

lemma codes_then:
  assumes "codes W R v" and "codes Some (F v) z"
  shows "codes W (\<lambda>bs. Option.bind (R bs) (\<lambda>(v, bs). F v bs)) z"
  using codes_bind [of W R v Some F z] assms by simp

lemma codes_map [codec_intro]:
  assumes "codes W R y" and "f y = z"
  shows "codes W (\<lambda>bs. Option.bind (R bs) (\<lambda>(v, bs). Some (f v, bs))) z"
  by (rule codes_then, rule assms(1)) (simp add: assms(2) codes_return)

text \<open>A branch of the code whose condition the reader recomputes from what it has read.\<close>

lemma codes_if [codec_intro]:
  assumes "c' = c" and "c \<Longrightarrow> codes W1 R1 y1" and "\<not> c \<Longrightarrow> codes W2 R2 y2"
  shows "codes (\<lambda>bs. if c then W1 bs else W2 bs) (\<lambda>bs. if c' then R1 bs else R2 bs)
               (if c then y1 else y2)"
  using assms by simp

text \<open>A branch whose two outcomes agree, because the fields that are not coded have the values the
  constructor gave them.\<close>

lemma codes_same:
  assumes "c' = c" and "c \<Longrightarrow> codes W1 R1 y" and "\<not> c \<Longrightarrow> codes W2 R2 y"
  shows "codes (\<lambda>bs. if c then W1 bs else W2 bs) (\<lambda>bs. if c' then R1 bs else R2 bs) y"
  using assms by (cases c) simp_all

text \<open>A branch that only the reader has.\<close>

lemma codes_r_if: "c \<Longrightarrow> codes W R1 y \<Longrightarrow> codes W (\<lambda>bs. if c then R1 bs else R2 bs) y"
  by simp

text \<open>A branch with the rest of the code followed along both branches.\<close>

lemma codes_split:
  assumes "c' = c" and "c \<Longrightarrow> codes (\<lambda>bs. Option.bind (W1 bs) W3) (\<lambda>bs. Option.bind (R1 bs) (\<lambda>(v, bs). R3 v bs)) y"
    and "\<not> c \<Longrightarrow> codes (\<lambda>bs. Option.bind (W2 bs) W3) (\<lambda>bs. Option.bind (R2 bs) (\<lambda>(v, bs). R3 v bs)) y"
  shows "codes (\<lambda>bs. Option.bind (if c then W1 bs else W2 bs) W3)
               (\<lambda>bs. Option.bind (if c' then R1 bs else R2 bs) (\<lambda>(v, bs). R3 v bs)) y"
  using assms by (cases c) simp_all

text \<open>A counted loop, with the reader's accumulator \<open>y k\<close> before the iteration \<open>k\<close>.\<close>

lemma codes_for_list:
  assumes "\<And>k. k < length is \<Longrightarrow> codes (W (is ! k)) (R (is ! k) (y k)) (y (Suc k))"
  shows "codes (for_loop is W) (\<lambda>bs. for_loop is (\<lambda>i (a, bs). R i a bs) (y 0, bs)) (y (length is))"
  using assms
proof (induction "is" arbitrary: y)
  case Nil
  then show ?case by (simp add: codes_return)
next
  case (Cons i "is")
  have first: "codes (W i) (R i (y 0)) (y 1)" using Cons.prems [of 0] by simp
  have rest: "codes (for_loop is W) (\<lambda>bs. for_loop is (\<lambda>i (a, bs). R i a bs) (y (Suc 0), bs))
     (y (Suc (length is)))"
    using Cons.IH [of "\<lambda>k. y (Suc k)"] Cons.prems by fastforce
  have "codes (\<lambda>bs. Option.bind (W i bs) (for_loop is W))
     (\<lambda>bs. Option.bind (R i (y 0) bs) (\<lambda>(a, bs). for_loop is (\<lambda>i (a, bs). R i a bs) (a, bs)))
     (y (Suc (length is)))"
    by (rule codes_bind [OF first]) (use rest in simp)
  moreover have "(\<lambda>bs. for_loop (i # is) (\<lambda>i (a, bs). R i a bs) (y 0, bs)) =
     (\<lambda>bs. Option.bind (R i (y 0) bs) (\<lambda>(a, bs). for_loop is (\<lambda>i (a, bs). R i a bs) (a, bs)))"
    by (auto simp: Option.bind_def fun_eq_iff)
  moreover have "for_loop (i # is) W = (\<lambda>bs. Option.bind (W i bs) (for_loop is W))"
    by (simp add: fun_eq_iff)
  ultimately show ?case by simp
qed

lemma codes_for:
  assumes "n' = n" and "y0 = y 0"
    and "\<And>k. k < n \<Longrightarrow> codes (W k) (R k (y k)) (y (Suc k))"
  shows "codes (for_loop [0..<n] W)
               (\<lambda>bs. for_loop [0..<n'] (\<lambda>i (a, bs). R i a bs) (y0, bs)) (y n)"
  using codes_for_list [of "[0..<n]" W R y] assms by simp

text \<open>A writer loop that carries a value besides the stream.\<close>

lemma for_loop_carry:
  assumes "\<And>k bs. k < n \<Longrightarrow> W k (s k, bs) = Option.bind (W' k bs) (\<lambda>bs. Some (s (Suc k), bs))"
  shows "for_loop [0..<n] W (s 0, bs) = Option.bind (for_loop [0..<n] W' bs) (\<lambda>bs. Some (s n, bs))"
  using assms
proof (induction n)
  case (Suc n)
  then have "for_loop [0..<n] W (s 0, bs) = Option.bind (for_loop [0..<n] W' bs) (\<lambda>bs. Some (s n, bs))"
    by simp
  with Suc.prems [of n] show ?case
    by (cases "for_loop [0..<n] W' bs") (simp_all add: for_loop_snoc)
qed simp

text \<open>A loop that fills one vector of the object from the left: \<open>S l\<close> is the object with the
  vector \<open>l\<close>.\<close>

lemma codes_for_field:
  assumes "n' = n" and "y0 = S zs" and "length xs = n" and "length zs = n"
    and "\<And>k ys. k < n \<Longrightarrow> length ys = n \<Longrightarrow> ys ! k = zs ! k \<Longrightarrow> codes (W k) (R k (S ys)) (S (ys[k := xs ! k]))"
  shows "codes (for_loop [0..<n] W)
               (\<lambda>bs. for_loop [0..<n'] (\<lambda>i (a, bs). R i a bs) (y0, bs)) (S xs)"
proof -
  have "codes (for_loop [0..<n] W)
      (\<lambda>bs. for_loop [0..<n'] (\<lambda>i (a, bs). R i a bs) (y0, bs)) (S (filled n xs zs))"
    by (rule codes_for [where y = "\<lambda>k. S (filled k xs zs)"])
       (use assms in \<open>simp_all add: filled_update [symmetric] del: filled_update filled_put\<close>)
  then show ?thesis using assms by simp
qed

text \<open>The same for a vector that may grow while it is filled.\<close>

lemma codes_for_grow:
  assumes "n' = n" and "y0 = S zs" and "length xs = n" and "length zs \<le> n"
    and "\<And>k. k < n \<Longrightarrow> codes (W k) (R k (S (filled k xs zs))) (S (filled (Suc k) xs zs))"
  shows "codes (for_loop [0..<n] W)
               (\<lambda>bs. for_loop [0..<n'] (\<lambda>i (a, bs). R i a bs) (y0, bs)) (S xs)"
proof -
  have "codes (for_loop [0..<n] W)
      (\<lambda>bs. for_loop [0..<n'] (\<lambda>i (a, bs). R i a bs) (y0, bs)) (S (filled n xs zs))"
    by (rule codes_for [where y = "\<lambda>k. S (filled k xs zs)"]) (use assms in simp_all)
  then show ?thesis using assms by simp
qed

section \<open>Elementary codes\<close>

lemma unat_uint8_less [simp]: "unat e < 256" "unat e < 2147483647" "unat e < 4294967296" for e :: uint8_t
  using unsigned_less [of e, where ?'a = nat] by simp_all

lemma unat_uint16_less [simp]: "unat e < 65536" "unat e < 2147483647" "unat e < 4294967296" for e :: uint16_t
  using unsigned_less [of e, where ?'a = nat] by simp_all

lemma unat_uint32_less [simp]: "unat e < 4294967296" for e :: uint32_t
  using unsigned_less [of e, where ?'a = nat] by simp

lemma codes_write_take:
  assumes "n \<le> 32"
  shows "codes (bs_write v n) (bs_read n) (take_bit n v)"
proof (rule codesI [where N = "\<lambda>_. n"])
  fix bs assume inv: "bs_inv bs"
  obtain bs' where w: "bs_write v n bs = Some bs'" and p: "bs_pos bs' = unlin (lin (bs_pos bs) + n)"
    and i: "bs_inv bs'" and e: "bs_extends bs' bs"
    using bs_write_bits [OF inv assms, of v] by blast
  then show "\<exists>bs'. bs_write v n bs = Some bs' \<and> bs_inv bs' \<and> bs_extends bs' bs
     \<and> lin (bs_pos bs') = lin (bs_pos bs) + n
     \<and> (\<forall>fs. bs_extends fs bs' \<longrightarrow> bs_read n (bs_setPosition (bs_pos bs) fs)
              = Some (take_bit n v, bs_setPosition (bs_pos bs') fs))"
    using bs_read_written [OF inv assms w] by simp
qed

text \<open>\<open>u(n)\<close>: an unsigned value that fits in \<open>n\<close> bits.\<close>

lemma codes_u [codec_intro]:
  assumes "n' = n" and "n \<le> 32" and "unat v < 2 ^ n"
  shows "codes (bs_write v n) (bs_read n') v"
proof -
  have "take_bit n v = v"
    using assms(3) by (intro word_unat_eq_iff [THEN iffD2]) (simp add: unsigned_take_bit_eq take_bit_nat_eq_self)
  with codes_write_take [OF assms(2), of v] assms(1) show ?thesis by simp
qed

section \<open>Exponential Golomb codes\<close>

lemma unat_drop_bit_1: "unat (drop_bit (Suc 0) x) = unat x div 2" for x :: uint32_t
  by (simp only: unat_drop_bit_eq) (simp add: drop_bit_eq_div)

lemma uvlc_length_Some:
  assumes "2 ^ k \<le> unat temp" and "unat temp < 2 ^ Suc k"
  shows "uvlc_length temp len = Some (len + 2 * k)"
  using assms
proof (induction k arbitrary: temp len)
  case 0
  then have "temp = 1" by (intro word_unat_eq_iff [THEN iffD2]) simp
  then show ?case by (simp add: uvlc_length.simps)
next
  case (Suc k)
  have "2 ^ k \<le> unat (drop_bit (Suc 0) temp)" and "unat (drop_bit (Suc 0) temp) < 2 ^ Suc k"
    using Suc.prems by (auto simp: unat_drop_bit_1)
  moreover have "temp \<noteq> 1"
  proof
    assume "temp = 1"
    with Suc.prems(1) have "(2::nat) ^ Suc k \<le> 1" by simp
    moreover have "(1::nat) < 2 ^ Suc k" by (rule one_less_power) simp_all
    ultimately show False by simp
  qed
  ultimately show ?case using Suc.IH by (subst uvlc_length.simps) simp
qed

lemma uvlc_length_zero: "uvlc_length 0 len = None"
proof (rule ccontr)
  assume "uvlc_length 0 len \<noteq> None"
  then obtain r where r: "uvlc_length 0 len = Some r" by blast
  have "(0::uint32_t) \<noteq> 0"
  proof (rule uvlc_length.raw_induct [where P = "\<lambda>temp len r. temp \<noteq> 0", OF _ r])
    fix f :: "uint32_t \<Rightarrow> nat \<Rightarrow> nat option" and temp :: uint32_t and len r
    assume IH: "\<And>t l r. f t l = Some r \<Longrightarrow> t \<noteq> 0"
      and eq: "(if temp = 1 then Some len else f (drop_bit 1 temp) (len + 2)) = Some r"
    show "temp \<noteq> 0"
      using eq IH [of 0 "len + 2" r] by (auto split: if_splits)
  qed
  then show False by simp
qed

lemma log_bracket: "0 < x \<Longrightarrow> \<exists>k. 2 ^ k \<le> x \<and> x < (2::nat) ^ Suc k"
  using ex_power_ivl1 [of 2 x] by auto

lemma bs_read_1:
  assumes "p < 8 * length (bs_data fs)"
  shows "bs_read 1 (bs_setPosition (unlin p) fs)
           = Some (if bit_at (bs_data fs) p then 1 else 0, bs_setPosition (unlin (Suc p)) fs)"
proof -
  obtain v where v: "bs_read 1 (bs_setPosition (unlin p) fs) = Some (v, bs_setPosition (unlin (Suc p)) fs)"
    and b: "\<And>j. bit v j \<longleftrightarrow> j < 1 \<and> bit_at (bs_data fs) p"
    using bs_read_bits [of "bs_setPosition (unlin p) fs" 1] assms by auto
  have "v = (if bit_at (bs_data fs) p then 1 else 0)"
    by (rule bit_word_eqI) (auto simp: b bit_1_iff)
  with v show ?thesis by simp
qed

lemmas bs_read_Suc_0 = bs_read_1 [unfolded One_nat_def]

lemma uvlc_prefix_zeros:
  assumes "p + m < 8 * length (bs_data fs)" and "bit_at (bs_data fs) (p + m)"
    and "\<And>j. j < m \<Longrightarrow> \<not> bit_at (bs_data fs) (p + j)"
  shows "uvlc_prefix (bs_setPosition (unlin p) fs) len
           = Some (len + m + 1, bs_setPosition (unlin (p + m + 1)) fs)"
  using assms
proof (induction m arbitrary: p len)
  case 0
  then show ?case by (subst uvlc_prefix.simps) (simp add: bs_read_Suc_0)
next
  case (Suc m)
  have "\<not> bit_at (bs_data fs) p" using Suc.prems(3) [of 0] by simp
  moreover have "uvlc_prefix (bs_setPosition (unlin (Suc p)) fs) (Suc len)
      = Some (Suc len + m + 1, bs_setPosition (unlin (Suc p + m + 1)) fs)"
    using Suc.prems(1,2) Suc.prems(3) [of "Suc j" for j] by (intro Suc.IH) simp_all
  ultimately show ?case
    using Suc.prems(1) by (subst uvlc_prefix.simps) (simp add: bs_read_Suc_0)
qed

lemma golomb_value:
  fixes code :: uint32_t
  assumes "2 ^ k \<le> unat code" and "unat code < 2 ^ Suc k" and "k < 32"
  shows "take_bit k code + (push_bit k 1 - 1) = code - 1"
proof -
  have "unat code div 2 ^ k = 1"
    using assms(1,2) by (intro div_nat_eqI) (simp_all add: mult.commute)
  then have "unat code = unat (take_bit k code) + 2 ^ k"
    by (metis unsigned_take_bit_eq take_bit_eq_mod div_mult_mod_eq add.commute mult_1)
  then have "of_nat (unat code) = (of_nat (unat (take_bit k code) + 2 ^ k) :: uint32_t)"
    by (rule arg_cong)
  then have "code = take_bit k code + push_bit k 1"
    by (simp add: push_bit_of_1)
  then have "take_bit k code + (push_bit k 1 - 1) = code - 1"
    by (metis add_diff_eq)
  then show ?thesis .
qed

text \<open>\<open>ue(v)\<close>: every value below $2^{31} - 1$ survives; the writer needs \<open>k\<close> zero bits and
  \<open>k + 1\<close> code bits.\<close>

lemma codes_ue [codec_intro]:
  assumes small: "unat v < 2 ^ 31 - 1"
  shows "codes (bs_writeUvlc v) bs_readUvlc v"
proof -
  let ?code = "v + 1"
  have uc: "unat ?code = unat v + 1"
    using small by (subst unat_word_ariths) simp
  obtain k where k: "2 ^ k \<le> unat ?code" "unat ?code < 2 ^ Suc k"
    using log_bracket [of "unat ?code"] uc by auto
  have "(2::nat) ^ k < 2 ^ 31" using k(1) small uc by linarith
  then have k30: "k \<le> 30" by (simp only: power_strict_increasing_iff)
  show ?thesis
  proof (rule codesI [where N = "\<lambda>_. k + Suc k"])
    fix bs assume inv: "bs_inv bs"
    let ?p = "lin (bs_pos bs)"
    obtain bs1 where w1: "bs_write 0 k bs = Some bs1" and p1: "bs_pos bs1 = unlin (?p + k)"
      and i1: "bs_inv bs1" and e1: "bs_extends bs1 bs"
      and b1: "\<And>j. j < k \<Longrightarrow> \<not> bit_at (bs_data bs1) (?p + j)"
      using bs_write_bits [OF inv, of k 0] k30 by auto
    obtain bs2 where w2: "bs_write ?code (Suc k) bs1 = Some bs2" and p2: "bs_pos bs2 = unlin (?p + k + Suc k)"
      and i2: "bs_inv bs2" and e2: "bs_extends bs2 bs1"
      and b2: "\<And>j. j < Suc k \<Longrightarrow> bit_at (bs_data bs2) (?p + k + j) = bit ?code (k - j)"
      using bs_write_bits [OF i1, of "Suc k" ?code] k30 p1 by auto
    have "bs_writeUvlc v bs = Some bs2"
      using uvlc_length_Some [OF k, of 1] w1 w2 by (simp add: bs_writeUvlc_def Let_def)
    moreover have "bs_extends bs2 bs"
      using p1 by (intro bs_extends_trans [OF e2 e1]) simp
    moreover have "bs_readUvlc (bs_setPosition (bs_pos bs) fs) = Some (v, bs_setPosition (bs_pos bs2) fs)"
      if ext: "bs_extends fs bs2" for fs
    proof -
      have len: "?p + k + Suc k \<le> 8 * length (bs_data fs)"
        and same: "\<And>j. j < ?p + k + Suc k \<Longrightarrow> bit_at (bs_data fs) j = bit_at (bs_data bs2) j"
        using ext p2 by (auto simp: bs_extends_def)
      have zeros: "\<not> bit_at (bs_data fs) (?p + j)" if "j < k" for j
        using same [of "?p + j"] b1 [OF that] e2 p1 that by (simp add: bs_extends_def)
      have code: "bit_at (bs_data fs) (?p + k + j) = bit ?code (k - j)" if "j < Suc k" for j
        using same [of "?p + k + j"] b2 [OF that] that by simp
      have "unat ?code div 2 ^ k = 1"
        using k by (intro div_nat_eqI) (simp_all add: mult.commute)
      then have "bit (unat ?code) k" by (simp add: bit_iff_odd)
      then have "bit ?code k" by (simp add: bit_unsigned_iff)
      then have one: "bit_at (bs_data fs) (?p + k)" using code [of 0] by simp
      have pos: "bs_pos bs = unlin ?p" using inv by (simp add: bs_inv_def)
      show ?thesis
      proof (cases k)
        case 0
        then have "v = 0" using k uc by (simp add: unat_eq_0)
        with 0 one len p2 show ?thesis
          by (subst pos) (simp add: bs_readUvlc_def bs_read_Suc_0)
      next
        case (Suc m)
        have pre: "uvlc_prefix (bs_setPosition (unlin (Suc ?p)) fs) 0
            = Some (k, bs_setPosition (unlin (?p + k + 1)) fs)"
          using uvlc_prefix_zeros [of "Suc ?p" m fs 0] Suc len one zeros [of "Suc j" for j] by simp
        obtain u where u: "bs_read k (bs_setPosition (unlin (?p + k + 1)) fs)
              = Some (u, bs_setPosition (unlin (?p + k + 1 + k)) fs)"
          and ub: "\<And>j. bit u j \<longleftrightarrow> j < k \<and> bit_at (bs_data fs) (?p + k + 1 + (k - 1 - j))"
          using bs_read_bits [of "bs_setPosition (unlin (?p + k + 1)) fs" k] k30 len by auto
        have "u = take_bit k ?code"
        proof (rule bit_word_eqI)
          fix j
          show "bit u j = bit (take_bit k ?code) j"
          proof (cases "j < k")
            case True
            then have "?p + k + 1 + (k - 1 - j) = ?p + k + (k - j)" and "k - (k - j) = j" by simp_all
            with True ub code [of "k - j"] show ?thesis by (simp add: bit_take_bit_iff)
          qed (simp add: ub bit_take_bit_iff)
        qed
        then have "u + (push_bit k 1 - 1) = v"
          using golomb_value [OF k] k30 by simp
        with Suc pre u zeros [of 0] len p2 k30 show ?thesis
          by (subst pos) (simp add: bs_readUvlc_def bs_read_Suc_0 ac_simps)
      qed
  qed
    ultimately show "\<exists>bs'. bs_writeUvlc v bs = Some bs' \<and> bs_inv bs' \<and> bs_extends bs' bs
       \<and> lin (bs_pos bs') = lin (bs_pos bs) + (k + Suc k)
       \<and> (\<forall>fs. bs_extends fs bs' \<longrightarrow> bs_readUvlc (bs_setPosition (bs_pos bs) fs)
                = Some (v, bs_setPosition (bs_pos bs') fs))"
      using i2 p2 by simp
  qed
qed

text \<open>\<open>se(v)\<close>.\<close>

lemma svlc_code_small:
  assumes "int32_in (2 * \<bar>v\<bar>)"
  shows "\<exists>c. svlc_code v = Some c \<and> svlc_value c = v \<and> unat c < 2 ^ 31 - 1"
proof -
  define e where "e = (if v \<le> 0 then - v * 2 else v * 2 - 1)"
  have range: "0 \<le> e" "e < 2 ^ 31 - 1"
    using assms by (auto simp: e_def int32_in_def)
  define c :: uint32_t where "c = word_of_int e"
  have uc: "uint c = e" using range by (simp add: c_def uint_word_of_int_eq take_bit_int_eq_self)
  have half: "uint (drop_bit (Suc 0) c) = e div 2"
    by (simp only: uint_nat unat_drop_bit_1 zdiv_int) (simp add: uc)
  have "odd (uint c) \<longleftrightarrow> bit c 0"
    by (simp only: bit_0 [symmetric]) (simp add: bit_uint_iff)
  then have "c AND 1 \<noteq> 0 \<longleftrightarrow> odd e"
    by (simp add: uc and_one_eq odd_iff_mod_2_eq_one bit_0)
  then have "svlc_value c = v"
    using half by (auto simp: svlc_value_def e_def)
  moreover have "svlc_code v = Some c"
    using assms by (auto simp: svlc_code_def c_def e_def int32_in_def)
  moreover have "unat c < 2 ^ 31 - 1"
  proof -
    have "int (unat c) = e" by (simp add: uc)
    with range have "int (unat c) < int 2147483647" by simp
    then have "unat c < 2147483647" by (simp only: of_nat_less_iff)
    then show ?thesis by simp
  qed
  ultimately show ?thesis by blast
qed

lemma codes_se [codec_intro]:
  assumes "int32_in (2 * \<bar>v\<bar>)"
  shows "codes (bs_writeSvlc v) bs_readSvlc v"
proof -
  obtain c where c: "svlc_code v = Some c" "svlc_value c = v" "unat c < 2 ^ 31 - 1"
    using svlc_code_small [OF assms] by blast
  have "codes (bs_writeUvlc c) (\<lambda>bs. Option.bind (bs_readUvlc bs) (\<lambda>(bits, bs). Some (svlc_value bits, bs))) v"
    by (rule codes_map, rule codes_ue [OF c(3)]) (simp add: c(2))
  moreover have "bs_writeSvlc v = bs_writeUvlc c"
    by (simp add: fun_eq_iff bs_writeSvlc_def c(1))
  ultimately show ?thesis by (simp add: bs_readSvlc_def [abs_def])
qed

text \<open>\<open>i(n)\<close>: two's complement in \<open>n\<close> bits. For a negative value the writer computes
  \<open>( 1 << ( bits - 1 ) ) - 1\<close>, which overflows at 32 bits.\<close>

definition i_range :: "nat \<Rightarrow> int \<Rightarrow> bool" where
  "i_range n v \<longleftrightarrow> 0 < n \<and> n \<le> 32 \<and> - (2 ^ (n - 1)) \<le> v \<and> v < 2 ^ (n - 1) \<and> (n = 32 \<longrightarrow> 0 \<le> v)"

lemma word_less_mid:
  assumes "k < 32"
  shows "c < (2 ^ k :: uint32_t) \<longleftrightarrow> unat c < 2 ^ k"
proof -
  have "(2::nat) ^ k < 2 ^ 32" using assms by (intro power_strict_increasing) auto
  then have "unat (of_nat (2 ^ k) :: uint32_t) = 2 ^ k" by (subst unat_of_nat) simp
  then show ?thesis by (simp add: word_less_nat_alt)
qed

lemma bit_unat_of_bit: "bit c j \<Longrightarrow> bit (unat c) j" for c :: uint32_t
  by (simp add: bit_unsigned_iff)

lemma codes_i_nonneg:
  assumes "0 < n" and "n \<le> 32" and "0 \<le> v" and "v < 2 ^ (n - 1)"
  shows "codes (bs_writeS v n) (bs_readS n) v"
proof -
  define c :: uint32_t where "c = word_of_int v"
  have "(2::int) ^ (n - 1) \<le> 2 ^ 31" using assms(2) by (intro power_increasing) auto
  then have v31: "v < 2 ^ 31" using assms(4) by linarith
  then have "uint c = v" using assms(3) by (simp add: c_def uint_word_of_int_eq take_bit_int_eq_self)
  then have uc: "int (unat c) = v" by simp
  have lt: "unat c < 2 ^ (n - 1)"
  proof -
    have "int (unat c) < int (2 ^ (n - 1))" using uc assms(4) by simp
    then show ?thesis by (simp only: of_nat_less_iff)
  qed
  have "(2::nat) ^ (n - 1) \<le> 2 ^ n" by (intro power_increasing) auto
  then have "unat c < 2 ^ n" using lt by linarith
  moreover have "sint c = v"
    using v31 assms(3) by (simp add: c_def sint_uint signed_take_bit_int_eq_self uint_word_of_int_eq take_bit_int_eq_self)
  moreover have "c < 2 ^ (n - 1)" using lt assms(1,2) by (simp add: word_less_mid)
  moreover have "bs_writeS v n = (\<lambda>bs. Option.bind (bs_write c n bs) Some)"
    using assms v31 by (auto simp: fun_eq_iff bs_writeS_def c_def int32_in_def)
  ultimately show ?thesis
    using assms by (simp add: bs_readS_def [abs_def] Let_def) (rule codes_map, rule codes_u, simp_all)
qed

lemma bit_negative:
  assumes "- (2 ^ k) \<le> v" and "v < 0" and "k \<le> j"
  shows "bit (v :: int) j"
proof -
  have "(2::int) ^ k \<le> 2 ^ j" using assms(3) by (intro power_increasing) auto
  then have "v div 2 ^ j = - 1"
    using assms(1,2) by (intro int_div_pos_eq [where r = "v + 2 ^ j"]; linarith)
  then show ?thesis by (simp add: bit_iff_odd)
qed

lemma codes_i_neg:
  assumes "0 < n" and "n < 32" and "- (2 ^ (n - 1)) \<le> v" and "v < 0"
  shows "codes (bs_writeS v n) (bs_readS n) v"
proof -
  let ?m = "n - 1"
  define c :: uint32_t where "c = (word_of_int v AND (push_bit ?m 1 - 1)) OR push_bit ?m 1"
  have cb: "bit c j \<longleftrightarrow> j < 32 \<and> (j < ?m \<and> bit v j \<or> j = ?m)" for j
    using assms(2)
    by (auto simp: c_def push_bit_of_1 bit_or_iff bit_and_iff mask_eq_exp_minus_1 [symmetric] bit_mask_iff bit_word_of_int_iff bit_exp_iff)
  have fits: "take_bit n c = c"
    using assms(1) by (intro bit_word_eqI) (auto simp: bit_take_bit_iff cb)
  have "bit c ?m" using assms(2) by (simp add: cb)
  then have "\<not> c < 2 ^ ?m"
    using assms(2) by (auto simp: word_less_mid bit_iff_odd [of "unat c"] dest: bit_unat_of_bit)
  moreover have "c OR NOT (2 ^ ?m - 1) = word_of_int v"
  proof (rule bit_word_eqI)
    fix j assume "j < LENGTH(32)"
    then show "bit (c OR NOT (2 ^ ?m - 1)) j = bit (word_of_int v :: uint32_t) j"
      using bit_negative [OF assms(3,4), of j]
      by (auto simp: bit_or_iff bit_not_iff mask_eq_exp_minus_1 [symmetric] bit_mask_iff bit_word_of_int_iff cb)
  qed
  moreover have v31: "- (2 ^ 31) \<le> v"
  proof -
    have "(2::int) ^ ?m \<le> 2 ^ 31" using assms(2) by (intro power_increasing) auto
    with assms(3) show ?thesis by linarith
  qed
  moreover have "sint (word_of_int v :: uint32_t) = v"
    using v31 assms(4) by (simp add: sint_sbintrunc' signed_take_bit_int_eq_self)
  moreover have "bs_writeS v n = (\<lambda>bs. Option.bind (bs_write c n bs) Some)"
    using assms v31 by (auto simp: fun_eq_iff bs_writeS_def c_def int32_in_def)
  moreover have "codes (bs_write c n) (bs_read n) c"
    using codes_write_take [of n c] fits assms(2) by simp
  ultimately show ?thesis
    using assms by (simp add: bs_readS_def [abs_def] Let_def) (rule codes_map, assumption, simp)
qed

lemma codes_i [codec_intro]:
  assumes "n' = n" and "i_range n v"
  shows "codes (bs_writeS v n) (bs_readS n') v"
  using assms codes_i_nonneg [of n v] codes_i_neg [of n v] by (cases "0 \<le> v") (auto simp: i_range_def)

text \<open>\<open>fl(32)\<close>.\<close>

lemma codes_float [codec_intro]: "codes (bs_writeFloat v) bs_readFloat v"
proof -
  have "unat v < 2 ^ 32" using unsigned_less [of v, where ?'a = nat] by simp
  then show ?thesis
    unfolding bs_writeFloat_def [abs_def] bs_readFloat_def [abs_def] by (intro codes_u) simp_all
qed

section \<open>Alignment and strings\<close>

lemma pad_step:
  assumes "r < 8" and "Suc m = (8 - r) mod 8"
  shows "m = (8 - Suc r mod 8) mod 8"
proof -
  have "r = 0 \<or> r = 1 \<or> r = 2 \<or> r = 3 \<or> r = 4 \<or> r = 5 \<or> r = 6 \<or> r = 7"
    using assms(1) by linarith
  then show ?thesis using assms(2) by (elim disjE) simp_all
qed

lemma pad_run:
  assumes "bs_inv bs" and "m = (8 - lin (bs_pos bs) mod 8) mod 8"
  shows "\<exists>bs'. bs_padWrite v bs = Some bs' \<and> bs_inv bs' \<and> bs_extends bs' bs
     \<and> lin (bs_pos bs') = lin (bs_pos bs) + m
     \<and> (\<forall>fs. bs_extends fs bs' \<longrightarrow> bs_padRead (bs_setPosition (bs_pos bs) fs)
              = Some ((), bs_setPosition (bs_pos bs') fs))"
  using assms
proof (induction m arbitrary: bs)
  case 0
  then have "pos_bits (bs_pos bs) < 8" and "8 - pos_bits (bs_pos bs) = 8"
    by (auto simp: bs_inv_def lin_def)
  then have "pos_bits (bs_pos bs) = 0" by simp
  with 0 show ?case
    by (intro exI [of _ bs])
       (simp add: bs_padWrite.simps bs_padRead.simps bs_byteAligned_def bs_extends_refl)
next
  case (Suc m)
  have nz: "pos_bits (bs_pos bs) \<noteq> 0"
  proof
    assume "pos_bits (bs_pos bs) = 0"
    with Suc.prems(2) show False by (simp add: lin_def)
  qed
  obtain bs1 where w1: "bs_write v (Suc 0) bs = Some bs1" and p1: "bs_pos bs1 = unlin (lin (bs_pos bs) + 1)"
    and i1: "bs_inv bs1" and e1: "bs_extends bs1 bs"
    using bs_write_bits [OF Suc.prems(1), of 1 v] by auto
  have "m = (8 - lin (bs_pos bs1) mod 8) mod 8"
    using pad_step [of "lin (bs_pos bs) mod 8" m] Suc.prems(2) p1 by (simp add: mod_Suc_eq)
  then obtain bs2 where w2: "bs_padWrite v bs1 = Some bs2" and i2: "bs_inv bs2"
    and e2: "bs_extends bs2 bs1" and l2: "lin (bs_pos bs2) = lin (bs_pos bs1) + m"
    and r2: "\<And>fs. bs_extends fs bs2 \<Longrightarrow> bs_padRead (bs_setPosition (bs_pos bs1) fs)
            = Some ((), bs_setPosition (bs_pos bs2) fs)"
    using Suc.IH [OF i1] by blast
  have le2: "lin (bs_pos bs1) \<le> lin (bs_pos bs2)" using l2 by simp
  have "bs_padRead (bs_setPosition (bs_pos bs) fs) = Some ((), bs_setPosition (bs_pos bs2) fs)"
    if "bs_extends fs bs2" for fs
  proof -
    have "bs_read (Suc 0) (bs_setPosition (bs_pos bs) fs)
        = Some (take_bit (Suc 0) v, bs_setPosition (bs_pos bs1) fs)"
      using bs_read_written [OF Suc.prems(1) _ w1 bs_extends_trans [OF that e2 le2]] by simp
    with r2 [OF that] nz show ?thesis
      by (subst bs_padRead.simps) (simp add: bs_byteAligned_def)
  qed
  moreover have "bs_padWrite v bs = Some bs2"
    using w1 w2 nz by (subst bs_padWrite.simps) (simp add: bs_byteAligned_def)
  moreover have "bs_extends bs2 bs"
    using p1 by (intro bs_extends_trans [OF e2 e1]) simp
  ultimately show ?case using i2 l2 p1 by auto
qed

lemma codes_pad [codec_intro]: "codes (bs_padWrite v) bs_padRead ()"
  by (rule codesI [where N = "\<lambda>b. (8 - b) mod 8"]) (rule pad_run [OF _ refl])

lemma bs_readChars_unfold:
  "bs_readChars bs str = Option.bind (bs_read 8 bs)
     (\<lambda>(e, bs). if e \<noteq> 0 then bs_readChars bs (str @ [ucast e]) else Some (str, bs))"
  by (subst bs_readChars.simps) (simp add: case_prod_unfold)


lemma ucast8_eq_0 [simp]: "(ucast e :: uint32_t) = 0 \<longleftrightarrow> e = 0" for e :: uint8_t
  by (simp add: word_unat_eq_iff)

lemma codes_chars:
  assumes "0 \<notin> set str"
  shows "codes (\<lambda>bs. Option.bind (for_loop str (\<lambda>element bs. bs_write (ucast element) 8 bs) bs) (bs_write 0 8))
               (\<lambda>bs. bs_readChars bs acc) (acc @ str)"
  using assms
proof (induction str arbitrary: acc)
  case Nil
  have "codes (\<lambda>bs. Option.bind (bs_write 0 8 bs) Some)
      (\<lambda>bs. Option.bind (bs_read 8 bs) (\<lambda>(e, bs). if e \<noteq> 0 then bs_readChars bs (acc @ [ucast e]) else Some (acc, bs))) acc"
    by (rule codes_bind, rule codes_u) (simp_all add: codes_return)
  then show ?case by (simp add: bs_readChars_unfold [abs_def])
next
  case (Cons e str)
  let ?rest = "\<lambda>bs. Option.bind (for_loop str (\<lambda>element bs. bs_write (ucast element) 8 bs) bs) (bs_write 0 8)"
  have "codes (\<lambda>bs. Option.bind (bs_write (ucast e) 8 bs) ?rest)
      (\<lambda>bs. Option.bind (bs_read 8 bs) (\<lambda>(e, bs). if e \<noteq> 0 then bs_readChars bs (acc @ [ucast e]) else Some (acc, bs)))
      (acc @ e # str)"
    using Cons.IH [of "acc @ [e]"] Cons.prems
    by - (rule codes_bind, rule codes_u, simp_all)
  then show ?case by (simp add: bs_readChars_unfold [of _ acc])
qed

text \<open>\<open>st(v)\<close>: a string without the terminator inside.\<close>

lemma codes_string [codec_intro]:
  assumes "0 \<notin> set str"
  shows "codes (bs_writeString str) bs_readString str"
  unfolding bs_writeString_def [abs_def] bs_readString_def [abs_def]
  using codes_chars [OF assms, of "[]"] by (intro codes_bind [OF codes_pad]) simp

section \<open>Interfaces\<close>

text \<open>One element of the syntax: a writer, a reader, and the values the pair carries. Everything a
  client of the pair needs follows from the single law \<open>put_get\<close>.\<close>

locale value_codec =
  fixes put :: "'a \<Rightarrow> PCCBitstream \<Rightarrow> PCCBitstream option"
    and get :: "PCCBitstream \<Rightarrow> ('a \<times> PCCBitstream) option"
    and ok :: "'a \<Rightarrow> bool"
  assumes put_get: "ok v \<Longrightarrow> codes (put v) get v"
begin

lemma put_total:
  assumes "ok v" and "bs_inv bs"
  shows "\<exists>bs'. put v bs = Some bs' \<and> bs_inv bs' \<and> bs_extends bs' bs \<and> lin (bs_pos bs) \<le> lin (bs_pos bs')"
  using codesE [OF put_get [OF assms(1)] assms(2)] by metis

text \<open>What was written is read back, and the reader stops where the writer stopped.\<close>

lemma roundtrip:
  assumes "ok v" and "bs_inv bs"
  shows "\<exists>bs'. put v bs = Some bs' \<and> bs_inv bs' \<and> get (bs_setPosition (bs_pos bs) bs') = Some (v, bs')"
proof -
  obtain bs' where w: "put v bs = Some bs'" and i: "bs_inv bs'"
    and r: "\<And>fs. bs_extends fs bs' \<Longrightarrow>
      get (bs_setPosition (bs_pos bs) fs) = Some (v, bs_setPosition (bs_pos bs') fs)"
    using codesE [OF put_get [OF assms(1)] assms(2)] by metis
  from r [OF bs_extends_refl [OF i]] w i show ?thesis by simp
qed

text \<open>The code is uniquely decodable: no two values leave the same stream.\<close>

lemma put_inj:
  assumes "ok v" and "ok w" and "bs_inv bs" and "put v bs = Some bs'" and "put w bs = Some bs'"
  shows "v = w"
  using roundtrip [OF assms(1,3)] roundtrip [OF assms(2,3)] assms(4,5) by auto

text \<open>Later writes do not disturb what was written: the value is still read from any extension.\<close>

lemma get_later:
  assumes "ok v" and "bs_inv bs" and "put v bs = Some bs'" and "bs_extends fs bs'"
  shows "get (bs_setPosition (bs_pos bs) fs) = Some (v, bs_setPosition (bs_pos bs') fs)"
  using codesE [OF put_get [OF assms(1)] assms(2)] assms(3,4) by (metis option.inject)

text \<open>A vector of elements, written in order and read into a vector of the right size.\<close>

lemma vector_codes:
  assumes "\<And>x. x \<in> set xs \<Longrightarrow> ok x" and "length zs = length xs" and "n = length xs"
  shows "codes (for_loop [0..<n] (\<lambda>i bs. Option.bind (vec_at xs i) (\<lambda>x. put x bs)))
           (\<lambda>bs. for_loop [0..<n] (\<lambda>i (a, bs). Option.bind (get bs)
              (\<lambda>(x, bs). Option.bind (vec_set a i x) (\<lambda>a. Some (a, bs)))) (zs, bs)) xs"
proof -
  have "codes (for_loop [0..<n] (\<lambda>i bs. Option.bind (vec_at xs i) (\<lambda>x. put x bs)))
           (\<lambda>bs. for_loop [0..<n] (\<lambda>i (a, bs). Option.bind (get bs)
              (\<lambda>(x, bs). Option.bind (vec_set a i x) (\<lambda>a. Some (a, bs)))) (zs, bs)) (filled n xs zs)"
  proof (rule codes_for)
    fix k assume k: "k < n"
    then have "codes (put (xs ! k)) get (xs ! k)"
      using assms by (intro put_get) simp
    then have "codes (\<lambda>bs. Option.bind (put (xs ! k) bs) Some)
        (\<lambda>bs. Option.bind (get bs) (\<lambda>(x, bs). Option.bind (vec_set (filled k xs zs) k x) (\<lambda>a. Some (a, bs))))
        (filled (Suc k) xs zs)"
      by (rule codes_bind) (use k assms(2,3) in \<open>simp add: codes_return\<close>)
    then show "codes (\<lambda>bs. Option.bind (vec_at xs k) (\<lambda>x. put x bs))
        (\<lambda>bs. Option.bind (get bs) (\<lambda>(x, bs). Option.bind (vec_set (filled k xs zs) k x) (\<lambda>a. Some (a, bs))))
        (filled (Suc k) xs zs)"
      using k assms(3) by simp
  qed simp_all
  then show ?thesis using assms by simp
qed

end

text \<open>A syntax structure: the reader fills the object \<open>fresh\<close>, which the constructor has made.\<close>

locale syntax_codec =
  fixes wr :: "'a \<Rightarrow> PCCBitstream \<Rightarrow> PCCBitstream option"
    and rd :: "'a \<Rightarrow> PCCBitstream \<Rightarrow> ('a \<times> PCCBitstream) option"
    and fresh :: 'a
    and wf :: "'a \<Rightarrow> bool"
  assumes wr_rd: "wf x \<Longrightarrow> codes (wr x) (rd fresh) x"
begin

text \<open>The form in which a structure is used inside another one.\<close>

lemma nested [codec_intro]: "x' = fresh \<Longrightarrow> wf x \<Longrightarrow> codes (wr x) (rd x') x"
  by (simp add: wr_rd)

end

sublocale syntax_codec \<subseteq> vc: value_codec wr "rd fresh" wf
  by unfold_locales (rule wr_rd)

text \<open>A structure whose syntax depends on a parameter \<open>p\<close>, which both sides have to agree on.\<close>

locale param_codec =
  fixes wr :: "'p \<Rightarrow> 'a \<Rightarrow> PCCBitstream \<Rightarrow> PCCBitstream option"
    and rd :: "'p \<Rightarrow> 'a \<Rightarrow> PCCBitstream \<Rightarrow> ('a \<times> PCCBitstream) option"
    and fresh :: 'a
    and wf :: "'p \<Rightarrow> 'a \<Rightarrow> bool"
  assumes wr_rd_param: "wf p x \<Longrightarrow> codes (wr p x) (rd p fresh) x"
begin

lemma nested_param [codec_intro]: "p' = p \<Longrightarrow> x' = fresh \<Longrightarrow> wf p x \<Longrightarrow> codes (wr p x) (rd p' x') x"
  by (simp add: wr_rd_param)

end

sublocale param_codec \<subseteq> sc: syntax_codec "wr p" "rd p" fresh "wf p" for p
  by unfold_locales (rule wr_rd_param)

text \<open>The elementary codes implement the interface.\<close>

interpretation u_codec: value_codec "\<lambda>v. bs_write v 32" "bs_read 32" "\<lambda>v. True"
proof unfold_locales
  fix v :: uint32_t
  have "unat v < 2 ^ 32" using unsigned_less [of v, where ?'a = nat] by simp
  then show "codes (bs_write v 32) (bs_read 32) v" by (intro codes_u) simp_all
qed

interpretation ue_codec: value_codec bs_writeUvlc bs_readUvlc "\<lambda>v. unat v < 2 ^ 31 - 1"
  by unfold_locales (rule codes_ue)

interpretation se_codec: value_codec bs_writeSvlc bs_readSvlc "\<lambda>v. int32_in (2 * \<bar>v\<bar>)"
  by unfold_locales (rule codes_se)

interpretation st_codec: value_codec bs_writeString bs_readString "\<lambda>s. 0 \<notin> set s"
  by unfold_locales (rule codes_string)

end
