(* ===== verification/ParameterSets.thy ===== *)
theory ParameterSets
  imports Codec
begin

text \<open>
  The V3C parameter set and its parts: the classes \<open>ProfileToolsetConstraintsInformation\<close>,
  \<open>ProfileTierLevel\<close>, \<open>OccupancyInformation\<close>, \<open>GeometryInformation\<close>,
  \<open>AttributeInformation\<close> and \<open>V3CParameterSet\<close> as records, the functions of
  \<open>PCCBitstreamWriter.cpp\<close> that write them (\<open>..._w\<close>) and those of \<open>PCCBitstreamReader.cpp\<close>
  that read them (\<open>..._r\<close>). A reader receives the object it fills.

  For each structure \<open>..._wf\<close> are the objects the syntax can carry, and the theorem of its
  interpretation of \<open>syntax_codec\<close> is that the reader returns the object that was written.
\<close>

section \<open>Profile toolset constraints\<close>

record ProfileToolsetConstraintsInformation =
  ptci_oneFrameOnlyFlag :: bool
  ptci_EOMContraintFlag :: bool
  ptci_maxMapCountMinus1 :: uint8_t
  ptci_maxAtlasCountMinus1 :: uint8_t
  ptci_multipleMapStreamsConstraintFlag :: bool
  ptci_PLRConstraintFlag :: bool
  ptci_attributeMaxDimensionMinus1 :: uint8_t
  ptci_attributeMaxDimensionPartitionsMinus1 :: uint8_t
  ptci_noEightOrientationsConstraintFlag :: bool
  ptci_No45DegreeProjectionPatchConstraintFlag :: bool
  ptci_NumReservedConstraintBytes :: uint8_t
  ptci_reservedConstraintByte :: "uint8_t list"

definition ptci_new :: ProfileToolsetConstraintsInformation where
  "ptci_new = \<lparr>ptci_oneFrameOnlyFlag = False, ptci_EOMContraintFlag = False,
     ptci_maxMapCountMinus1 = 1, ptci_maxAtlasCountMinus1 = 0,
     ptci_multipleMapStreamsConstraintFlag = False, ptci_PLRConstraintFlag = False,
     ptci_attributeMaxDimensionMinus1 = 2, ptci_attributeMaxDimensionPartitionsMinus1 = 0,
     ptci_noEightOrientationsConstraintFlag = True, ptci_No45DegreeProjectionPatchConstraintFlag = True,
     ptci_NumReservedConstraintBytes = 0, ptci_reservedConstraintByte = []\<rparr>"

definition ptci_byte_w :: "ProfileToolsetConstraintsInformation \<Rightarrow> nat \<Rightarrow> PCCBitstream \<Rightarrow> PCCBitstream option" where
  "ptci_byte_w ptci i bs = do {
     v \<leftarrow> vec_at (ptci_reservedConstraintByte ptci) i;
     bs \<leftarrow> bs_write (ucast v) 8 bs;
     Some bs
   }"

definition profileToolsetConstraintsInformation_w ::
  "ProfileToolsetConstraintsInformation \<Rightarrow> PCCBitstream \<Rightarrow> PCCBitstream option" where
  "profileToolsetConstraintsInformation_w ptci bs = do {
     bs \<leftarrow> bs_write (b2u (ptci_oneFrameOnlyFlag ptci)) 1 bs;
     bs \<leftarrow> bs_write (b2u (ptci_EOMContraintFlag ptci)) 1 bs;
     bs \<leftarrow> bs_write (ucast (ptci_maxMapCountMinus1 ptci)) 4 bs;
     bs \<leftarrow> bs_write (ucast (ptci_maxAtlasCountMinus1 ptci)) 4 bs;
     bs \<leftarrow> bs_write (b2u (ptci_multipleMapStreamsConstraintFlag ptci)) 1 bs;
     bs \<leftarrow> bs_write (b2u (ptci_PLRConstraintFlag ptci)) 1 bs;
     bs \<leftarrow> bs_write (ucast (ptci_attributeMaxDimensionMinus1 ptci)) 6 bs;
     bs \<leftarrow> bs_write (ucast (ptci_attributeMaxDimensionPartitionsMinus1 ptci)) 6 bs;
     bs \<leftarrow> bs_write (b2u (ptci_noEightOrientationsConstraintFlag ptci)) 1 bs;
     bs \<leftarrow> bs_write (b2u (ptci_No45DegreeProjectionPatchConstraintFlag ptci)) 1 bs;
     bs \<leftarrow> bs_write 0 6 bs;
     bs \<leftarrow> bs_write (ucast (ptci_NumReservedConstraintBytes ptci)) 8 bs;
     bs \<leftarrow> for_loop [0..<unat (ptci_NumReservedConstraintBytes ptci)] (ptci_byte_w ptci) bs;
     Some bs
   }"

text \<open>Several setters take a \<open>bool\<close>: whatever is read, the field becomes 0 or 1.\<close>

definition ptci_byte_r ::
  "nat \<Rightarrow> ProfileToolsetConstraintsInformation \<Rightarrow> PCCBitstream \<Rightarrow> (ProfileToolsetConstraintsInformation \<times> PCCBitstream) option" where
  "ptci_byte_r i ptci bs = do {
     (v, bs) \<leftarrow> bs_read 8 bs;
     bytes \<leftarrow> vec_set (ptci_reservedConstraintByte ptci) i (of_bool (v \<noteq> 0));
     Some (ptci\<lparr>ptci_reservedConstraintByte := bytes\<rparr>, bs)
   }"

definition profileToolsetConstraintsInformation_r ::
  "ProfileToolsetConstraintsInformation \<Rightarrow> PCCBitstream \<Rightarrow> (ProfileToolsetConstraintsInformation \<times> PCCBitstream) option" where
  "profileToolsetConstraintsInformation_r ptci bs = do {
     (v, bs) \<leftarrow> bs_read 1 bs;
     let ptci = ptci\<lparr>ptci_oneFrameOnlyFlag := v \<noteq> 0\<rparr>;
     (v, bs) \<leftarrow> bs_read 1 bs;
     let ptci = ptci\<lparr>ptci_EOMContraintFlag := v \<noteq> 0\<rparr>;
     (v, bs) \<leftarrow> bs_read 4 bs;
     let ptci = ptci\<lparr>ptci_maxMapCountMinus1 := of_bool (v \<noteq> 0)\<rparr>;
     (v, bs) \<leftarrow> bs_read 4 bs;
     let ptci = ptci\<lparr>ptci_maxAtlasCountMinus1 := of_bool (v \<noteq> 0)\<rparr>;
     (v, bs) \<leftarrow> bs_read 1 bs;
     let ptci = ptci\<lparr>ptci_multipleMapStreamsConstraintFlag := v \<noteq> 0\<rparr>;
     (v, bs) \<leftarrow> bs_read 1 bs;
     let ptci = ptci\<lparr>ptci_PLRConstraintFlag := v \<noteq> 0\<rparr>;
     (v, bs) \<leftarrow> bs_read 6 bs;
     let ptci = ptci\<lparr>ptci_attributeMaxDimensionMinus1 := of_bool (v \<noteq> 0)\<rparr>;
     (v, bs) \<leftarrow> bs_read 6 bs;
     let ptci = ptci\<lparr>ptci_attributeMaxDimensionPartitionsMinus1 := of_bool (v \<noteq> 0)\<rparr>;
     (v, bs) \<leftarrow> bs_read 1 bs;
     let ptci = ptci\<lparr>ptci_noEightOrientationsConstraintFlag := v \<noteq> 0\<rparr>;
     (v, bs) \<leftarrow> bs_read 1 bs;
     let ptci = ptci\<lparr>ptci_No45DegreeProjectionPatchConstraintFlag := v \<noteq> 0\<rparr>;
     (v, bs) \<leftarrow> bs_read 6 bs;
     (v, bs) \<leftarrow> bs_read 8 bs;
     let ptci = ptci\<lparr>ptci_NumReservedConstraintBytes := of_bool (v \<noteq> 0)\<rparr>;
     let ptci = ptci\<lparr>ptci_reservedConstraintByte := vec_resize (unat (ptci_NumReservedConstraintBytes ptci)) 0 (ptci_reservedConstraintByte ptci)\<rparr>;
     (ptci, bs) \<leftarrow> for_loop [0..<unat (ptci_NumReservedConstraintBytes ptci)] (\<lambda>i (ptci, bs). ptci_byte_r i ptci bs) (ptci, bs);
     Some (ptci, bs)
   }"

definition ptci_wf :: "ProfileToolsetConstraintsInformation \<Rightarrow> bool" where
  "ptci_wf x \<longleftrightarrow> unat (ptci_maxMapCountMinus1 x) < 2 ^ 4 \<and> unat (ptci_maxAtlasCountMinus1 x) < 2 ^ 4
     \<and> unat (ptci_attributeMaxDimensionMinus1 x) < 2 ^ 6
     \<and> unat (ptci_attributeMaxDimensionPartitionsMinus1 x) < 2 ^ 6
     \<and> length (ptci_reservedConstraintByte x) = unat (ptci_NumReservedConstraintBytes x)"

text \<open>What is left of the object after the reader's setters: of the reserved bytes at most one.\<close>

definition ptci_clamp :: "ProfileToolsetConstraintsInformation \<Rightarrow> ProfileToolsetConstraintsInformation" where
  "ptci_clamp x = x\<lparr>ptci_maxMapCountMinus1 := of_bool (ptci_maxMapCountMinus1 x \<noteq> 0),
     ptci_maxAtlasCountMinus1 := of_bool (ptci_maxAtlasCountMinus1 x \<noteq> 0),
     ptci_attributeMaxDimensionMinus1 := of_bool (ptci_attributeMaxDimensionMinus1 x \<noteq> 0),
     ptci_attributeMaxDimensionPartitionsMinus1 := of_bool (ptci_attributeMaxDimensionPartitionsMinus1 x \<noteq> 0),
     ptci_NumReservedConstraintBytes := of_bool (ptci_NumReservedConstraintBytes x \<noteq> 0),
     ptci_reservedConstraintByte := map (\<lambda>b. of_bool (b \<noteq> 0)) (take 1 (ptci_reservedConstraintByte x))\<rparr>"

lemma ptci_byte_codes:
  assumes "n' = of_bool (m \<noteq> 0)" and "length (ptci_reservedConstraintByte x) = unat m"
    and "length (ptci_reservedConstraintByte y) = of_bool (m \<noteq> 0)"
  shows "codes (for_loop [0..<of_bool (m \<noteq> 0)] (ptci_byte_w x)) (\<lambda>bs. for_loop [0..<n'] (\<lambda>i (a, bs). ptci_byte_r i a bs) (y, bs))
     (y\<lparr>ptci_reservedConstraintByte := map (\<lambda>b. of_bool (b \<noteq> 0)) (take 1 (ptci_reservedConstraintByte x))\<rparr>)"
proof (cases "ptci_reservedConstraintByte x")
  case Nil
  then have "m = 0" using assms(2) by (simp add: unat_eq_0)
  moreover have "y\<lparr>ptci_reservedConstraintByte := []\<rparr> = y" if "ptci_reservedConstraintByte y = []"
    using that by simp
  ultimately show ?thesis using assms Nil by (simp add: codes_return)
next
  case (Cons b l)
  then have "m \<noteq> 0" using assms(2) by auto
  then have facts: "of_bool (m \<noteq> 0) = Suc 0" "n' = Suc 0" "length (ptci_reservedConstraintByte y) = Suc 0"
    "map (\<lambda>b. of_bool (b \<noteq> 0)) (take 1 (ptci_reservedConstraintByte x)) = [of_bool (b \<noteq> 0)]"
    using assms Cons by simp_all
  show ?thesis
    unfolding facts ptci_byte_w_def [abs_def] ptci_byte_r_def [abs_def]
    by ((rule codes_for_field [where S = "\<lambda>l. y\<lparr>ptci_reservedConstraintByte := l\<rparr>"
          and zs = "ptci_reservedConstraintByte y"] codec_intro refl | (simp add: facts Cons; fail))+)
qed

text \<open>The part of the writer that the reader follows.\<close>

definition ptci_head_w :: "ProfileToolsetConstraintsInformation \<Rightarrow> PCCBitstream \<Rightarrow> PCCBitstream option" where
  "ptci_head_w ptci bs = do {
     bs \<leftarrow> bs_write (b2u (ptci_oneFrameOnlyFlag ptci)) 1 bs;
     bs \<leftarrow> bs_write (b2u (ptci_EOMContraintFlag ptci)) 1 bs;
     bs \<leftarrow> bs_write (ucast (ptci_maxMapCountMinus1 ptci)) 4 bs;
     bs \<leftarrow> bs_write (ucast (ptci_maxAtlasCountMinus1 ptci)) 4 bs;
     bs \<leftarrow> bs_write (b2u (ptci_multipleMapStreamsConstraintFlag ptci)) 1 bs;
     bs \<leftarrow> bs_write (b2u (ptci_PLRConstraintFlag ptci)) 1 bs;
     bs \<leftarrow> bs_write (ucast (ptci_attributeMaxDimensionMinus1 ptci)) 6 bs;
     bs \<leftarrow> bs_write (ucast (ptci_attributeMaxDimensionPartitionsMinus1 ptci)) 6 bs;
     bs \<leftarrow> bs_write (b2u (ptci_noEightOrientationsConstraintFlag ptci)) 1 bs;
     bs \<leftarrow> bs_write (b2u (ptci_No45DegreeProjectionPatchConstraintFlag ptci)) 1 bs;
     bs \<leftarrow> bs_write 0 6 bs;
     bs \<leftarrow> bs_write (ucast (ptci_NumReservedConstraintBytes ptci)) 8 bs;
     bs \<leftarrow> for_loop [0..<of_bool (ptci_NumReservedConstraintBytes ptci \<noteq> 0)] (ptci_byte_w ptci) bs;
     Some bs
   }"

lemma ptci_head:
  "profileToolsetConstraintsInformation_w x = (\<lambda>bs. Option.bind (ptci_head_w x bs)
     (for_loop [of_bool (ptci_NumReservedConstraintBytes x \<noteq> 0)..<unat (ptci_NumReservedConstraintBytes x)] (ptci_byte_w x)))"
proof -
  let ?n = "ptci_NumReservedConstraintBytes x"
  have "of_bool (?n \<noteq> 0) \<le> unat ?n" by (cases "?n = 0") (auto simp: Suc_le_eq unat_gt_0)
  then have "[0..<unat ?n] = [0..<of_bool (?n \<noteq> 0)] @ [of_bool (?n \<noteq> 0)..<unat ?n]"
    using upt_add_eq_append [of 0 "of_bool (?n \<noteq> 0)" "unat ?n - of_bool (?n \<noteq> 0)"] by simp
  then have "for_loop [0..<unat ?n] (ptci_byte_w x) bs = Option.bind (for_loop [0..<of_bool (?n \<noteq> 0)] (ptci_byte_w x) bs)
      (for_loop [of_bool (?n \<noteq> 0)..<unat ?n] (ptci_byte_w x))" for bs
    by (simp only: for_loop_append)
  then show ?thesis
    by (intro ext) (simp add: profileToolsetConstraintsInformation_w_def ptci_head_w_def Option.bind_assoc Option.bind_runit)
qed

lemma ptci_head_codes:
  assumes "ptci_wf x"
  shows "codes (ptci_head_w x) (profileToolsetConstraintsInformation_r ptci_new) (ptci_clamp x)"
  unfolding ptci_head_w_def [abs_def] profileToolsetConstraintsInformation_r_def [abs_def] Let_def
  by ((rule ptci_byte_codes codec_intro refl ProfileToolsetConstraintsInformation.equality
       | (simp add: assms [unfolded ptci_wf_def, simplified] ptci_new_def ptci_clamp_def; fail))+)

text \<open>The reserved bytes that only the writer knows.\<close>

lemma ptci_tail:
  assumes "\<And>i. i \<in> set is \<Longrightarrow> i < length (ptci_reservedConstraintByte x)" and "bs_inv bs"
  shows "\<exists>bs'. for_loop is (ptci_byte_w x) bs = Some bs' \<and> bs_inv bs' \<and> bs_extends bs' bs
    \<and> lin (bs_pos bs') = lin (bs_pos bs) + 8 * length is"
  using assms
proof (induction "is" arbitrary: bs)
  case Nil
  then show ?case by (simp add: bs_extends_refl)
next
  case (Cons i "is")
  obtain b1 where b1: "ptci_byte_w x i bs = Some b1" "bs_inv b1" "bs_extends b1 bs" "lin (bs_pos b1) = lin (bs_pos bs) + 8"
    using bs_write_bits [OF Cons.prems(2), of 8 "ucast (ptci_reservedConstraintByte x ! i)"] Cons.prems(1) [of i]
    by (auto simp: ptci_byte_w_def)
  obtain b2 where b2: "for_loop is (ptci_byte_w x) b1 = Some b2" "bs_inv b2" "bs_extends b2 b1" "lin (bs_pos b2) = lin (bs_pos b1) + 8 * length is"
    using Cons.IH [OF _ b1(2)] Cons.prems(1) by auto
  have "bs_extends b2 bs" using bs_extends_trans [OF b2(3) b1(3)] b1(4) by simp
  then show ?case using b1 b2 by simp
qed

text \<open>The reader returns the clamped object and stops in front of all reserved bytes but the first.\<close>

lemma ptci_read:
  assumes wf: "ptci_wf x" and inv: "bs_inv bs"
  shows "\<exists>bs' e. profileToolsetConstraintsInformation_w x bs = Some bs' \<and> bs_inv bs'
     \<and> profileToolsetConstraintsInformation_r ptci_new (bs_setPosition (bs_pos bs) bs') = Some (ptci_clamp x, bs_setPosition e bs')
     \<and> lin (bs_pos bs') = lin e + 8 * (unat (ptci_NumReservedConstraintBytes x) - 1)"
proof -
  let ?n = "ptci_NumReservedConstraintBytes x"
  obtain b1 where b1: "ptci_head_w x bs = Some b1" "bs_inv b1"
    and r: "\<And>fs. bs_extends fs b1 \<Longrightarrow> profileToolsetConstraintsInformation_r ptci_new (bs_setPosition (bs_pos bs) fs)
      = Some (ptci_clamp x, bs_setPosition (bs_pos b1) fs)"
    using codesE [OF ptci_head_codes [OF wf] inv] by metis
  obtain b2 where b2: "for_loop [of_bool (?n \<noteq> 0)..<unat ?n] (ptci_byte_w x) b1 = Some b2" "bs_inv b2" "bs_extends b2 b1"
    "lin (bs_pos b2) = lin (bs_pos b1) + 8 * (unat ?n - of_bool (?n \<noteq> 0))"
    using ptci_tail [OF _ b1(2), of "[of_bool (?n \<noteq> 0)..<unat ?n]" x] wf by (auto simp: ptci_wf_def)
  have "unat ?n - of_bool (?n \<noteq> 0) = unat ?n - 1" by (cases "?n = 0") simp_all
  then show ?thesis
    using b1(1) b2 r [OF b2(3)] by (intro exI [of _ b2] exI [of _ "bs_pos b1"]) (simp add: ptci_head)
qed

text \<open>The objects that come back as they were.\<close>

definition ptci_ok :: "ProfileToolsetConstraintsInformation \<Rightarrow> bool" where
  "ptci_ok x \<longleftrightarrow> ptci_wf x \<and> ptci_clamp x = x"

lemma ptci_ok_codes:
  assumes "ptci_ok x"
  shows "codes (profileToolsetConstraintsInformation_w x) (profileToolsetConstraintsInformation_r ptci_new) x"
proof -
  have x: "ptci_wf x" "ptci_clamp x = x" using assms by (simp_all add: ptci_ok_def)
  let ?n = "ptci_NumReservedConstraintBytes x"
  have "?n = of_bool (?n \<noteq> 0)" using arg_cong [OF x(2), of ptci_NumReservedConstraintBytes] by (simp add: ptci_clamp_def)
  then have "?n = 0 \<or> ?n = 1" by (metis (full_types) of_bool_eq(1) of_bool_eq(2))
  then have "unat ?n = of_bool (?n \<noteq> 0)" by auto
  then have "profileToolsetConstraintsInformation_w x = ptci_head_w x"
    by (simp add: ptci_head Option.bind_runit)
  then show ?thesis using ptci_head_codes [OF x(1)] x(2) by simp
qed

interpretation ptci: syntax_codec profileToolsetConstraintsInformation_w profileToolsetConstraintsInformation_r ptci_new ptci_ok
  by unfold_locales (rule ptci_ok_codes)

section \<open>Profile, tier and level\<close>

record ProfileTierLevel =
  ptl_tierFlag :: bool
  ptl_profileCodecGroupIdc :: uint8_t
  ptl_profileToolsetIdc :: uint8_t
  ptl_profileReconstructionIdc :: uint8_t
  ptl_levelIdc :: uint8_t
  ptl_numSubProfiles :: uint8_t
  ptl_extendedSubProfileFlag :: bool
  ptl_toolConstraintsPresentFlag :: bool
  ptl_subProfileIdc :: "uint8_t list"
  ptl_ptci :: ProfileToolsetConstraintsInformation

definition ptl_new :: ProfileTierLevel where
  "ptl_new = \<lparr>ptl_tierFlag = False, ptl_profileCodecGroupIdc = 0, ptl_profileToolsetIdc = 0,
     ptl_profileReconstructionIdc = 0, ptl_levelIdc = 0, ptl_numSubProfiles = 0,
     ptl_extendedSubProfileFlag = False, ptl_toolConstraintsPresentFlag = False,
     ptl_subProfileIdc = [], ptl_ptci = ptci_new\<rparr>"

definition ptl_sub_w :: "ProfileTierLevel \<Rightarrow> nat \<Rightarrow> PCCBitstream \<Rightarrow> PCCBitstream option" where
  "ptl_sub_w ptl i bs = do {
     s \<leftarrow> vec_at (ptl_subProfileIdc ptl) i;
     bs \<leftarrow> bs_write (ucast s) (if \<not> ptl_extendedSubProfileFlag ptl then 32 else 64) bs;
     Some bs
   }"

definition profileTierLevel_w :: "ProfileTierLevel \<Rightarrow> PCCBitstream \<Rightarrow> PCCBitstream option" where
  "profileTierLevel_w ptl bs = do {
     bs \<leftarrow> bs_write (b2u (ptl_tierFlag ptl)) 1 bs;
     bs \<leftarrow> bs_write (ucast (ptl_profileCodecGroupIdc ptl)) 7 bs;
     bs \<leftarrow> bs_write (ucast (ptl_profileToolsetIdc ptl)) 8 bs;
     bs \<leftarrow> bs_write (ucast (ptl_profileReconstructionIdc ptl)) 8 bs;
     bs \<leftarrow> bs_write 0 16 bs;
     bs \<leftarrow> bs_write 0xFFFF 16 bs;
     bs \<leftarrow> bs_write (ucast (ptl_levelIdc ptl)) 8 bs;
     bs \<leftarrow> bs_write (ucast (ptl_numSubProfiles ptl)) 6 bs;
     bs \<leftarrow> bs_write (b2u (ptl_extendedSubProfileFlag ptl)) 1 bs;
     bs \<leftarrow> for_loop [0..<unat (ptl_numSubProfiles ptl)] (ptl_sub_w ptl) bs;
     bs \<leftarrow> bs_write (b2u (ptl_toolConstraintsPresentFlag ptl)) 1 bs;
     bs \<leftarrow> (if ptl_toolConstraintsPresentFlag ptl
           then profileToolsetConstraintsInformation_w (ptl_ptci ptl) bs else Some bs);
     Some bs
   }"

definition ptl_sub_r :: "nat \<Rightarrow> ProfileTierLevel \<Rightarrow> PCCBitstream \<Rightarrow> (ProfileTierLevel \<times> PCCBitstream) option" where
  "ptl_sub_r i ptl bs = do {
     (v, bs) \<leftarrow> bs_read (if \<not> ptl_extendedSubProfileFlag ptl then 32 else 64) bs;
     s \<leftarrow> vec_set (ptl_subProfileIdc ptl) i (ucast v);
     Some (ptl\<lparr>ptl_subProfileIdc := s\<rparr>, bs)
   }"

definition profileTierLevel_r :: "ProfileTierLevel \<Rightarrow> PCCBitstream \<Rightarrow> (ProfileTierLevel \<times> PCCBitstream) option" where
  "profileTierLevel_r ptl bs = do {
     (v, bs) \<leftarrow> bs_read 1 bs;
     let ptl = ptl\<lparr>ptl_tierFlag := v \<noteq> 0\<rparr>;
     (v, bs) \<leftarrow> bs_read 7 bs;
     let ptl = ptl\<lparr>ptl_profileCodecGroupIdc := ucast v\<rparr>;
     (v, bs) \<leftarrow> bs_read 8 bs;
     let ptl = ptl\<lparr>ptl_profileToolsetIdc := ucast v\<rparr>;
     (v, bs) \<leftarrow> bs_read 8 bs;
     let ptl = ptl\<lparr>ptl_profileReconstructionIdc := ucast v\<rparr>;
     (v, bs) \<leftarrow> bs_read 16 bs;
     (v, bs) \<leftarrow> bs_read 16 bs;
     (v, bs) \<leftarrow> bs_read 8 bs;
     let ptl = ptl\<lparr>ptl_levelIdc := ucast v\<rparr>;
     (v, bs) \<leftarrow> bs_read 6 bs;
     let ptl = ptl\<lparr>ptl_numSubProfiles := ucast v\<rparr>;
     (v, bs) \<leftarrow> bs_read 1 bs;
     let ptl = ptl\<lparr>ptl_extendedSubProfileFlag := v \<noteq> 0\<rparr>;
     let ptl = ptl\<lparr>ptl_subProfileIdc := vec_resize (unat (ptl_numSubProfiles ptl)) 0 (ptl_subProfileIdc ptl)\<rparr>;
     (ptl, bs) \<leftarrow> for_loop [0..<unat (ptl_numSubProfiles ptl)] (\<lambda>i (ptl, bs). ptl_sub_r i ptl bs) (ptl, bs);
     (v, bs) \<leftarrow> bs_read 1 bs;
     let ptl = ptl\<lparr>ptl_toolConstraintsPresentFlag := v \<noteq> 0\<rparr>;
     (ptl, bs) \<leftarrow> (if ptl_toolConstraintsPresentFlag ptl then do {
         (ptci, bs) \<leftarrow> profileToolsetConstraintsInformation_r (ptl_ptci ptl) bs;
         Some (ptl\<lparr>ptl_ptci := ptci\<rparr>, bs)
       } else Some (ptl, bs));
     Some (ptl, bs)
   }"

text \<open>With \<open>extendedSubProfileFlag\<close> the code asks for 64 bits of a 32 bit value.\<close>

definition ptl_wf :: "ProfileTierLevel \<Rightarrow> bool" where
  "ptl_wf x \<longleftrightarrow> unat (ptl_profileCodecGroupIdc x) < 2 ^ 7 \<and> unat (ptl_numSubProfiles x) < 2 ^ 6
     \<and> length (ptl_subProfileIdc x) = unat (ptl_numSubProfiles x)
     \<and> (ptl_extendedSubProfileFlag x \<longrightarrow> ptl_numSubProfiles x = 0)
     \<and> (if ptl_toolConstraintsPresentFlag x then ptci_ok (ptl_ptci x)
        else ptl_ptci x = ptci_new)"

lemma ptl_sub_codes:
  assumes "n' = n" and "length (ptl_subProfileIdc x) = n" and "length (ptl_subProfileIdc y) = n"
    and "ptl_extendedSubProfileFlag y = ptl_extendedSubProfileFlag x"
    and "ptl_extendedSubProfileFlag x \<longrightarrow> n = 0"
  shows "codes (for_loop [0..<n] (ptl_sub_w x)) (\<lambda>bs. for_loop [0..<n'] (\<lambda>i (a, bs). ptl_sub_r i a bs) (y, bs))
     (y\<lparr>ptl_subProfileIdc := ptl_subProfileIdc x\<rparr>)"
  unfolding ptl_sub_w_def [abs_def] ptl_sub_r_def [abs_def]
  by ((rule codes_for_field [where S = "\<lambda>l. y\<lparr>ptl_subProfileIdc := l\<rparr>"
        and zs = "ptl_subProfileIdc y"] codec_intro refl | (use assms in auto; fail))+)

interpretation ptl: syntax_codec profileTierLevel_w profileTierLevel_r ptl_new ptl_wf
proof unfold_locales
  fix x assume "ptl_wf x"
  then show "codes (profileTierLevel_w x) (profileTierLevel_r ptl_new) x"
    unfolding profileTierLevel_w_def [abs_def] profileTierLevel_r_def [abs_def] Let_def ptl_wf_def
    by - ((rule ptl_sub_codes codec_intro refl ProfileTierLevel.equality
       | (simp add: ptl_new_def; fail))+)
qed


section \<open>Occupancy and geometry information\<close>

record OccupancyInformation =
  oi_occupancyCodecId :: uint8_t
  oi_LossyOccupancyCompressionThreshold :: uint8_t
  oi_Occupancy2DBitdepthMinus1 :: uint8_t
  oi_occupancyMSBAlignFlag :: bool

definition oi_new :: OccupancyInformation where
  "oi_new = \<lparr>oi_occupancyCodecId = 0, oi_LossyOccupancyCompressionThreshold = 0,
     oi_Occupancy2DBitdepthMinus1 = 10, oi_occupancyMSBAlignFlag = False\<rparr>"

definition occupancyInformation_w :: "OccupancyInformation \<Rightarrow> PCCBitstream \<Rightarrow> PCCBitstream option" where
  "occupancyInformation_w oi bs = do {
     bs \<leftarrow> bs_write (ucast (oi_occupancyCodecId oi)) 8 bs;
     bs \<leftarrow> bs_write (ucast (oi_LossyOccupancyCompressionThreshold oi)) 8 bs;
     bs \<leftarrow> bs_write (ucast (oi_Occupancy2DBitdepthMinus1 oi)) 5 bs;
     bs \<leftarrow> bs_write (b2u (oi_occupancyMSBAlignFlag oi)) 1 bs;
     Some bs
   }"

definition occupancyInformation_r :: "OccupancyInformation \<Rightarrow> PCCBitstream \<Rightarrow> (OccupancyInformation \<times> PCCBitstream) option" where
  "occupancyInformation_r oi bs = do {
     (v, bs) \<leftarrow> bs_read 8 bs;
     let oi = oi\<lparr>oi_occupancyCodecId := ucast v\<rparr>;
     (v, bs) \<leftarrow> bs_read 8 bs;
     let oi = oi\<lparr>oi_LossyOccupancyCompressionThreshold := ucast v\<rparr>;
     (v, bs) \<leftarrow> bs_read 5 bs;
     let oi = oi\<lparr>oi_Occupancy2DBitdepthMinus1 := ucast v\<rparr>;
     (v, bs) \<leftarrow> bs_read 1 bs;
     let oi = oi\<lparr>oi_occupancyMSBAlignFlag := v \<noteq> 0\<rparr>;
     Some (oi, bs)
   }"

definition oi_wf :: "OccupancyInformation \<Rightarrow> bool" where
  "oi_wf x \<longleftrightarrow> unat (oi_Occupancy2DBitdepthMinus1 x) < 2 ^ 5"

interpretation oi: syntax_codec occupancyInformation_w occupancyInformation_r oi_new oi_wf
proof unfold_locales
  fix x assume "oi_wf x"
  then show "codes (occupancyInformation_w x) (occupancyInformation_r oi_new) x"
    unfolding occupancyInformation_w_def [abs_def] occupancyInformation_r_def [abs_def] Let_def oi_wf_def
    by - ((rule codec_intro refl OccupancyInformation.equality | (simp add: oi_new_def; fail))+)
qed

text \<open>The geometry and attribute information depend on the parameter set through the flags of its
  first atlas: \<open>aux\<close> is \<open>getAuxiliaryVideoPresentFlag( 0 )\<close> and \<open>mapCount\<close> is
  \<open>getMapCountMinus1( 0 )\<close>, whichever atlas is coded.\<close>

record GeometryInformation =
  gi_geometryCodecId :: uint8_t
  gi_Geometry2dBitdepthMinus1 :: uint8_t
  gi_geometryMSBAlignFlag :: bool
  gi_geometry3dCoordinatesBitdepthMinus1 :: uint8_t
  gi_auxiliaryGeometryCodecId :: uint8_t

definition gi_new :: GeometryInformation where
  "gi_new = \<lparr>gi_geometryCodecId = 0, gi_Geometry2dBitdepthMinus1 = 10,
     gi_geometryMSBAlignFlag = False, gi_geometry3dCoordinatesBitdepthMinus1 = 9,
     gi_auxiliaryGeometryCodecId = 0\<rparr>"

definition geometryInformation_w :: "bool \<Rightarrow> GeometryInformation \<Rightarrow> PCCBitstream \<Rightarrow> PCCBitstream option" where
  "geometryInformation_w aux gi bs = do {
     bs \<leftarrow> bs_write (ucast (gi_geometryCodecId gi)) 8 bs;
     bs \<leftarrow> bs_write (ucast (gi_Geometry2dBitdepthMinus1 gi)) 5 bs;
     bs \<leftarrow> bs_write (b2u (gi_geometryMSBAlignFlag gi)) 1 bs;
     bs \<leftarrow> bs_write (ucast (gi_geometry3dCoordinatesBitdepthMinus1 gi)) 5 bs;
     bs \<leftarrow> (if aux then do {
         bs \<leftarrow> bs_write (ucast (gi_auxiliaryGeometryCodecId gi)) 8 bs;
         Some bs
       } else Some bs);
     Some bs
   }"

definition geometryInformation_r :: "bool \<Rightarrow> GeometryInformation \<Rightarrow> PCCBitstream \<Rightarrow> (GeometryInformation \<times> PCCBitstream) option" where
  "geometryInformation_r aux gi bs = do {
     (v, bs) \<leftarrow> bs_read 8 bs;
     let gi = gi\<lparr>gi_geometryCodecId := ucast v\<rparr>;
     (v, bs) \<leftarrow> bs_read 5 bs;
     let gi = gi\<lparr>gi_Geometry2dBitdepthMinus1 := ucast v\<rparr>;
     (v, bs) \<leftarrow> bs_read 1 bs;
     let gi = gi\<lparr>gi_geometryMSBAlignFlag := v \<noteq> 0\<rparr>;
     (v, bs) \<leftarrow> bs_read 5 bs;
     let gi = gi\<lparr>gi_geometry3dCoordinatesBitdepthMinus1 := ucast v\<rparr>;
     (gi, bs) \<leftarrow> (if aux then do {
         (v, bs) \<leftarrow> bs_read 8 bs;
         let gi = gi\<lparr>gi_auxiliaryGeometryCodecId := ucast v\<rparr>;
         Some (gi, bs)
       } else Some (gi, bs));
     Some (gi, bs)
   }"

definition gi_wf :: "bool \<Rightarrow> GeometryInformation \<Rightarrow> bool" where
  "gi_wf aux x \<longleftrightarrow> unat (gi_Geometry2dBitdepthMinus1 x) < 2 ^ 5
     \<and> unat (gi_geometry3dCoordinatesBitdepthMinus1 x) < 2 ^ 5
     \<and> (\<not> aux \<longrightarrow> gi_auxiliaryGeometryCodecId x = 0)"

interpretation gi: param_codec geometryInformation_w geometryInformation_r gi_new gi_wf
proof unfold_locales
  fix aux x assume "gi_wf aux x"
  then show "codes (geometryInformation_w aux x) (geometryInformation_r aux gi_new) x"
    unfolding geometryInformation_w_def [abs_def] geometryInformation_r_def [abs_def] Let_def gi_wf_def
    by - ((rule codec_intro refl GeometryInformation.equality | (simp add: gi_new_def; fail))+)
qed


section \<open>Attribute information\<close>

record AttributeInformation =
  ai_attributeCount :: uint8_t
  ai_attributeTypeId :: "uint8_t list"
  ai_attributeCodecId :: "uint8_t list"
  ai_auxiliaryAttributeCodecId :: "uint8_t list"
  ai_attributeMapAbsoluteCodingPersistenceFlagList :: "bool list"
  ai_attributeDimensionMinus1 :: "uint8_t list"
  ai_attributeDimensionPartitionsMinus1 :: "uint8_t list"
  ai_attributePartitionChannelsMinus1 :: "uint8_t list list"
  ai_Attribute2dBitdepthMinus1 :: "uint8_t list"
  ai_attributeMSBAlignFlag :: "bool list"

definition ai_new :: AttributeInformation where
  "ai_new = \<lparr>ai_attributeCount = 0, ai_attributeTypeId = [], ai_attributeCodecId = [],
     ai_auxiliaryAttributeCodecId = [], ai_attributeMapAbsoluteCodingPersistenceFlagList = [],
     ai_attributeDimensionMinus1 = [], ai_attributeDimensionPartitionsMinus1 = [],
     ai_attributePartitionChannelsMinus1 = [], ai_Attribute2dBitdepthMinus1 = [],
     ai_attributeMSBAlignFlag = []\<rparr>"

definition ai_allocate :: "AttributeInformation \<Rightarrow> AttributeInformation" where
  "ai_allocate ai = (let n = unat (ai_attributeCount ai) in ai\<lparr>
     ai_attributeTypeId := vec_resize n 0 (ai_attributeTypeId ai),
     ai_attributeCodecId := vec_resize n 0 (ai_attributeCodecId ai),
     ai_auxiliaryAttributeCodecId := vec_resize n 0 (ai_auxiliaryAttributeCodecId ai),
     ai_attributeDimensionMinus1 := vec_resize n 0 (ai_attributeDimensionMinus1 ai),
     ai_attributeDimensionPartitionsMinus1 := vec_resize n 0 (ai_attributeDimensionPartitionsMinus1 ai),
     ai_Attribute2dBitdepthMinus1 := vec_resize n 0 (ai_Attribute2dBitdepthMinus1 ai),
     ai_attributePartitionChannelsMinus1 := vec_resize n [] (ai_attributePartitionChannelsMinus1 ai),
     ai_attributeMapAbsoluteCodingPersistenceFlagList := vec_resize n False (ai_attributeMapAbsoluteCodingPersistenceFlagList ai),
     ai_attributeMSBAlignFlag := vec_resize n False (ai_attributeMSBAlignFlag ai)\<rparr>)"

text \<open>The accessors of the partition channels grow the row when the index is beyond its end; the
  getter then yields the 0 it appended.\<close>

definition ai_getChannels :: "AttributeInformation \<Rightarrow> nat \<Rightarrow> nat \<Rightarrow> uint8_t option" where
  "ai_getChannels ai i j = do {
     row \<leftarrow> vec_at (ai_attributePartitionChannelsMinus1 ai) i;
     Some (if j < length row then row ! j else 0)
   }"

definition ai_setChannels :: "nat \<Rightarrow> nat \<Rightarrow> uint8_t \<Rightarrow> AttributeInformation \<Rightarrow> AttributeInformation option" where
  "ai_setChannels i j value ai = do {
     row \<leftarrow> vec_at (ai_attributePartitionChannelsMinus1 ai) i;
     let row = (if length row \<le> j then vec_resize (j + 1) 0 row else row)[j := value];
     rows \<leftarrow> vec_set (ai_attributePartitionChannelsMinus1 ai) i row;
     Some (ai\<lparr>ai_attributePartitionChannelsMinus1 := rows\<rparr>)
   }"

text \<open>The loop over the partitions carries \<open>remainingDimensions\<close>.\<close>

definition ai_part_w :: "AttributeInformation \<Rightarrow> nat \<Rightarrow> nat \<Rightarrow> nat \<Rightarrow> int \<times> PCCBitstream \<Rightarrow> (int \<times> PCCBitstream) option" where
  "ai_part_w ai i k j = (\<lambda>(remainingDimensions, bs). do {
     c \<leftarrow> ai_getChannels ai i j;
     bs \<leftarrow> (if int k - int j \<noteq> remainingDimensions then bs_writeUvlc (ucast c) bs else Some bs);
     Some (remainingDimensions - (uint c + 1), bs)
   })"

definition ai_part_r ::
  "nat \<Rightarrow> nat \<Rightarrow> nat \<Rightarrow> AttributeInformation \<times> int \<Rightarrow> PCCBitstream \<Rightarrow> ((AttributeInformation \<times> int) \<times> PCCBitstream) option" where
  "ai_part_r i k j = (\<lambda>(ai, remainingDimensions) bs. do {
     (ai, bs) \<leftarrow> (if int k - int j = remainingDimensions then do {
         ai \<leftarrow> ai_setChannels i j 0 ai;
         Some (ai, bs)
       } else do {
         (v, bs) \<leftarrow> bs_readUvlc bs;
         ai \<leftarrow> ai_setChannels i j (ucast v) ai;
         Some (ai, bs)
       });
     c \<leftarrow> ai_getChannels ai i j;
     Some ((ai, remainingDimensions - (uint c + 1)), bs)
   })"

definition ai_attr_w :: "bool \<Rightarrow> uint32_t \<Rightarrow> AttributeInformation \<Rightarrow> nat \<Rightarrow> PCCBitstream \<Rightarrow> PCCBitstream option" where
  "ai_attr_w aux mapCount ai i bs = do {
     v \<leftarrow> vec_at (ai_attributeTypeId ai) i;
     bs \<leftarrow> bs_write (ucast v) 4 bs;
     v \<leftarrow> vec_at (ai_attributeCodecId ai) i;
     bs \<leftarrow> bs_write (ucast v) 8 bs;
     bs \<leftarrow> (if aux then do {
         v \<leftarrow> vec_at (ai_auxiliaryAttributeCodecId ai) i;
         bs \<leftarrow> bs_write (ucast v) 8 bs;
         Some bs
       } else Some bs);
     bs \<leftarrow> (if 0 < mapCount then do {
         v \<leftarrow> vec_at (ai_attributeMapAbsoluteCodingPersistenceFlagList ai) i;
         bs \<leftarrow> bs_write (b2u v) 1 bs;
         Some bs
       } else Some bs);
     v \<leftarrow> vec_at (ai_attributeDimensionMinus1 ai) i;
     bs \<leftarrow> bs_write (ucast v) 6 bs;
     d \<leftarrow> vec_at (ai_attributeDimensionMinus1 ai) i;
     bs \<leftarrow> (if 0 < d then do {
         v \<leftarrow> vec_at (ai_attributeDimensionPartitionsMinus1 ai) i;
         bs \<leftarrow> bs_write (ucast v) 6 bs;
         k \<leftarrow> vec_at (ai_attributeDimensionPartitionsMinus1 ai) i;
         (_, bs) \<leftarrow> for_loop [0..<unat k] (ai_part_w ai i (unat k)) (uint d, bs);
         Some bs
       } else Some bs);
     v \<leftarrow> vec_at (ai_Attribute2dBitdepthMinus1 ai) i;
     bs \<leftarrow> bs_write (ucast v) 5 bs;
     v \<leftarrow> vec_at (ai_attributeMSBAlignFlag ai) i;
     bs \<leftarrow> bs_write (b2u v) 1 bs;
     Some bs
   }"

definition ai_attr_r :: "bool \<Rightarrow> uint32_t \<Rightarrow> nat \<Rightarrow> AttributeInformation \<Rightarrow> PCCBitstream \<Rightarrow> (AttributeInformation \<times> PCCBitstream) option" where
  "ai_attr_r aux mapCount i ai bs = do {
     (v, bs) \<leftarrow> bs_read 4 bs;
     l \<leftarrow> vec_set (ai_attributeTypeId ai) i (ucast v);
     let ai = ai\<lparr>ai_attributeTypeId := l\<rparr>;
     (v, bs) \<leftarrow> bs_read 8 bs;
     l \<leftarrow> vec_set (ai_attributeCodecId ai) i (ucast v);
     let ai = ai\<lparr>ai_attributeCodecId := l\<rparr>;
     (ai, bs) \<leftarrow> (if aux then do {
         (v, bs) \<leftarrow> bs_read 8 bs;
         l \<leftarrow> vec_set (ai_auxiliaryAttributeCodecId ai) i (ucast v);
         let ai = ai\<lparr>ai_auxiliaryAttributeCodecId := l\<rparr>;
         Some (ai, bs)
       } else Some (ai, bs));
     l \<leftarrow> vec_set (ai_attributeMapAbsoluteCodingPersistenceFlagList ai) i True;
     let ai = ai\<lparr>ai_attributeMapAbsoluteCodingPersistenceFlagList := l\<rparr>;
     (ai, bs) \<leftarrow> (if 0 < mapCount then do {
         (v, bs) \<leftarrow> bs_read 1 bs;
         l \<leftarrow> vec_set (ai_attributeMapAbsoluteCodingPersistenceFlagList ai) i (v \<noteq> 0);
         let ai = ai\<lparr>ai_attributeMapAbsoluteCodingPersistenceFlagList := l\<rparr>;
         Some (ai, bs)
       } else Some (ai, bs));
     (v, bs) \<leftarrow> bs_read 6 bs;
     l \<leftarrow> vec_set (ai_attributeDimensionMinus1 ai) i (ucast v);
     let ai = ai\<lparr>ai_attributeDimensionMinus1 := l\<rparr>;
     d \<leftarrow> vec_at (ai_attributeDimensionMinus1 ai) i;
     (ai, bs) \<leftarrow> (if 0 < d then do {
         (v, bs) \<leftarrow> bs_read 6 bs;
         l \<leftarrow> vec_set (ai_attributeDimensionPartitionsMinus1 ai) i (ucast v);
         let ai = ai\<lparr>ai_attributeDimensionPartitionsMinus1 := l\<rparr>;
         k \<leftarrow> vec_at (ai_attributeDimensionPartitionsMinus1 ai) i;
         ((ai, remainingDimensions), bs) \<leftarrow> for_loop [0..<unat k] (\<lambda>j (a, bs). ai_part_r i (unat k) j a bs) ((ai, uint d), bs);
         ai \<leftarrow> ai_setChannels i (unat k) (word_of_int remainingDimensions) ai;
         Some (ai, bs)
       } else Some (ai, bs));
     (v, bs) \<leftarrow> bs_read 5 bs;
     l \<leftarrow> vec_set (ai_Attribute2dBitdepthMinus1 ai) i (ucast v);
     let ai = ai\<lparr>ai_Attribute2dBitdepthMinus1 := l\<rparr>;
     (v, bs) \<leftarrow> bs_read 1 bs;
     l \<leftarrow> vec_set (ai_attributeMSBAlignFlag ai) i (v \<noteq> 0);
     let ai = ai\<lparr>ai_attributeMSBAlignFlag := l\<rparr>;
     Some (ai, bs)
   }"

definition attributeInformation_w :: "bool \<Rightarrow> uint32_t \<Rightarrow> AttributeInformation \<Rightarrow> PCCBitstream \<Rightarrow> PCCBitstream option" where
  "attributeInformation_w aux mapCount ai bs = do {
     bs \<leftarrow> bs_write (ucast (ai_attributeCount ai)) 7 bs;
     bs \<leftarrow> for_loop [0..<unat (ai_attributeCount ai)] (ai_attr_w aux mapCount ai) bs;
     Some bs
   }"

definition attributeInformation_r :: "bool \<Rightarrow> uint32_t \<Rightarrow> AttributeInformation \<Rightarrow> PCCBitstream \<Rightarrow> (AttributeInformation \<times> PCCBitstream) option" where
  "attributeInformation_r aux mapCount ai bs = do {
     (v, bs) \<leftarrow> bs_read 7 bs;
     let ai = ai\<lparr>ai_attributeCount := ucast v\<rparr>;
     let ai = ai_allocate ai;
     (ai, bs) \<leftarrow> for_loop [0..<unat (ai_attributeCount ai)] (\<lambda>i (ai, bs). ai_attr_r aux mapCount i ai bs) (ai, bs);
     Some (ai, bs)
   }"


text \<open>The dimensions that are left before the partition \<open>j\<close>, and the rows the syntax can carry: the
  channels of a partition are not written when every remaining partition has one dimension, and the
  last partition takes what is left.\<close>

definition ai_rem :: "uint8_t list \<Rightarrow> int \<Rightarrow> nat \<Rightarrow> int" where
  "ai_rem row d j = d - (\<Sum>l<j. uint (row ! l) + 1)"

definition ai_row_wf :: "uint8_t \<Rightarrow> uint8_t \<Rightarrow> uint8_t list \<Rightarrow> bool" where
  "ai_row_wf d k row \<longleftrightarrow> (if d = 0 then k = 0 \<and> row = [] else
     unat k < 2 ^ 6 \<and> length row = unat k + 1
     \<and> (\<forall>j < unat k. int (unat k) - int j = ai_rem row (uint d) j \<longrightarrow> row ! j = 0)
     \<and> row ! unat k = word_of_int (ai_rem row (uint d) (unat k)))"

definition ai_wf :: "bool \<Rightarrow> uint32_t \<Rightarrow> AttributeInformation \<Rightarrow> bool" where
  "ai_wf aux mapCount x \<longleftrightarrow> (let n = unat (ai_attributeCount x) in
     n < 2 ^ 7
     \<and> length (ai_attributeTypeId x) = n \<and> length (ai_attributeCodecId x) = n
     \<and> length (ai_auxiliaryAttributeCodecId x) = n
     \<and> length (ai_attributeMapAbsoluteCodingPersistenceFlagList x) = n
     \<and> length (ai_attributeDimensionMinus1 x) = n \<and> length (ai_attributeDimensionPartitionsMinus1 x) = n
     \<and> length (ai_attributePartitionChannelsMinus1 x) = n
     \<and> length (ai_Attribute2dBitdepthMinus1 x) = n \<and> length (ai_attributeMSBAlignFlag x) = n
     \<and> (\<forall>i < n. unat (ai_attributeTypeId x ! i) < 2 ^ 4
          \<and> (\<not> aux \<longrightarrow> ai_auxiliaryAttributeCodecId x ! i = 0)
          \<and> (\<not> 0 < mapCount \<longrightarrow> ai_attributeMapAbsoluteCodingPersistenceFlagList x ! i)
          \<and> unat (ai_attributeDimensionMinus1 x ! i) < 2 ^ 6
          \<and> unat (ai_Attribute2dBitdepthMinus1 x ! i) < 2 ^ 5
          \<and> ai_row_wf (ai_attributeDimensionMinus1 x ! i) (ai_attributeDimensionPartitionsMinus1 x ! i)
              (ai_attributePartitionChannelsMinus1 x ! i)))"

lemma ai_rem_simps [simp]:
  "ai_rem row d 0 = d" "ai_rem row d (Suc j) = ai_rem row d j - (uint (row ! j) + 1)"
  by (simp_all add: ai_rem_def)

lemma ai_setChannels_append:
  assumes "i < length (ai_attributePartitionChannelsMinus1 ai)"
    and "ai_attributePartitionChannelsMinus1 ai ! i = take j row" and "j < length row"
  shows "ai_setChannels i j (row ! j) ai =
     Some (ai\<lparr>ai_attributePartitionChannelsMinus1 := (ai_attributePartitionChannelsMinus1 ai)[i := take (Suc j) row]\<rparr>)"
  using assms by (simp add: ai_setChannels_def Let_def vec_resize_def take_Suc_conv_app_nth list_update_append)

lemma ai_part_codes:
  fixes x y row d k i
  defines "S \<equiv> \<lambda>j. y\<lparr>ai_attributePartitionChannelsMinus1 := (ai_attributePartitionChannelsMinus1 y)[i := take j row]\<rparr>"
  assumes i: "i < length (ai_attributePartitionChannelsMinus1 x)" "i < length (ai_attributePartitionChannelsMinus1 y)"
    and row: "ai_attributePartitionChannelsMinus1 x ! i = row" "k < length row"
    and y: "ai_attributePartitionChannelsMinus1 y ! i = []"
    and one: "\<forall>j < k. int k - int j = ai_rem row d j \<longrightarrow> row ! j = 0"
  shows "codes (\<lambda>bs. Option.bind (for_loop [0..<k] (ai_part_w x i k) (d, bs)) (\<lambda>(_, bs). Some bs))
     (\<lambda>bs. for_loop [0..<k] (\<lambda>j (a, bs). ai_part_r i k j a bs) ((y, d), bs)) (S k, ai_rem row d k)"
proof -
  define W where "W = (\<lambda>j bs. if int k - int j \<noteq> ai_rem row d j then bs_writeUvlc (ucast (row ! j)) bs else Some bs)"
  have "for_loop [0..<k] (ai_part_w x i k) (ai_rem row d 0, bs)
      = Option.bind (for_loop [0..<k] W bs) (\<lambda>bs. Some (ai_rem row d k, bs))" for bs
    using i row by (intro for_loop_carry) (simp add: ai_part_w_def ai_getChannels_def W_def)
  then have "(\<lambda>bs. Option.bind (for_loop [0..<k] (ai_part_w x i k) (d, bs)) (\<lambda>(_, bs). Some bs)) = for_loop [0..<k] W"
    by (simp add: fun_eq_iff)
  moreover have "codes (for_loop [0..<k] W) (\<lambda>bs. for_loop [0..<k] (\<lambda>j (a, bs). ai_part_r i k j a bs) ((y, d), bs))
     (S k, ai_rem row d k)"
  proof (rule codes_for [where y = "\<lambda>j. (S j, ai_rem row d j)"])
    show "(y, d) = (S 0, ai_rem row d 0)"
      using list_update_id [of "ai_attributePartitionChannelsMinus1 y" i] y by (simp add: S_def)
  next
    fix j assume j: "j < k"
    have set: "ai_setChannels i j (row ! j) (S j) = Some (S (Suc j))"
      using ai_setChannels_append [of i "S j" j row] i row j by (simp add: S_def)
    have get: "ai_getChannels (S (Suc j)) i j = Some (row ! j)"
      using i row j by (simp add: ai_getChannels_def S_def)
    show "codes (W j) (ai_part_r i k j (S j, ai_rem row d j)) (S (Suc j), ai_rem row d (Suc j))"
    proof (cases "int k - int j = ai_rem row d j")
      case True
      then have "row ! j = 0" using one j by simp
      with True set get show ?thesis by (simp add: W_def ai_part_r_def [abs_def] codes_return)
    next
      case False
      then have "codes (W j) (\<lambda>bs. Option.bind (bs_readUvlc bs) (\<lambda>(v, bs). Option.bind (ai_setChannels i j (ucast v) (S j))
          (\<lambda>ai. Option.bind (ai_getChannels ai i j) (\<lambda>c. Some ((ai, ai_rem row d j - (uint c + 1)), bs)))))
        (S (Suc j), ai_rem row d (Suc j))"
        using set get by (simp add: W_def [abs_def]) (rule codes_then, rule codes_ue, simp_all add: codes_return)
      with False show ?thesis by (simp add: ai_part_r_def [abs_def] case_prod_unfold)
    qed
  qed simp
  ultimately show ?thesis by simp
qed

lemma ai_parts_codes:
  assumes i: "i < length (ai_attributePartitionChannelsMinus1 x)" "i < length (ai_attributePartitionChannelsMinus1 y)"
    and y: "ai_attributePartitionChannelsMinus1 y ! i = []"
    and wf: "ai_row_wf d k (ai_attributePartitionChannelsMinus1 x ! i)" "d \<noteq> 0" and eq: "k' = k" "d' = d"
  shows "codes (\<lambda>bs. Option.bind (for_loop [0..<unat k] (ai_part_w x i (unat k)) (uint d, bs)) (\<lambda>(_, bs). Some bs))
     (\<lambda>bs. Option.bind (for_loop [0..<unat k'] (\<lambda>j (a, bs). ai_part_r i (unat k') j a bs) ((y, uint d'), bs))
       (\<lambda>((ai, remainingDimensions), bs).
          Option.bind (ai_setChannels i (unat k') (word_of_int remainingDimensions) ai) (\<lambda>ai. Some (ai, bs))))
     (y\<lparr>ai_attributePartitionChannelsMinus1 :=
         (ai_attributePartitionChannelsMinus1 y)[i := ai_attributePartitionChannelsMinus1 x ! i]\<rparr>)"
proof -
  let ?row = "ai_attributePartitionChannelsMinus1 x ! i"
  let ?S = "\<lambda>j. y\<lparr>ai_attributePartitionChannelsMinus1 := (ai_attributePartitionChannelsMinus1 y)[i := take j ?row]\<rparr>"
  have len: "length ?row = Suc (unat k)" and last: "?row ! unat k = word_of_int (ai_rem ?row (uint d) (unat k))"
    using wf by (auto simp: ai_row_wf_def)
  have "codes (\<lambda>bs. Option.bind (for_loop [0..<unat k] (ai_part_w x i (unat k)) (uint d, bs)) (\<lambda>(_, bs). Some bs))
     (\<lambda>bs. for_loop [0..<unat k] (\<lambda>j (a, bs). ai_part_r i (unat k) j a bs) ((y, uint d), bs))
     (?S (unat k), ai_rem ?row (uint d) (unat k))"
    using i y wf by (intro ai_part_codes) (auto simp: ai_row_wf_def)
  moreover have "ai_setChannels i (unat k) (?row ! unat k) (?S (unat k)) = Some (?S (Suc (unat k)))"
    using i len ai_setChannels_append [of i "?S (unat k)" "unat k" ?row] by simp
  ultimately show ?thesis
    unfolding eq by - (rule codes_then, assumption, use len last in \<open>simp add: codes_return\<close>)
qed

text \<open>The object after the first \<open>k\<close> attributes.\<close>

definition ai_upto :: "nat \<Rightarrow> AttributeInformation \<Rightarrow> AttributeInformation" where
  "ai_upto k x = (let n = unat (ai_attributeCount x) in \<lparr>ai_attributeCount = ai_attributeCount x,
     ai_attributeTypeId = filled k (ai_attributeTypeId x) (replicate n 0),
     ai_attributeCodecId = filled k (ai_attributeCodecId x) (replicate n 0),
     ai_auxiliaryAttributeCodecId = filled k (ai_auxiliaryAttributeCodecId x) (replicate n 0),
     ai_attributeMapAbsoluteCodingPersistenceFlagList = filled k (ai_attributeMapAbsoluteCodingPersistenceFlagList x) (replicate n False),
     ai_attributeDimensionMinus1 = filled k (ai_attributeDimensionMinus1 x) (replicate n 0),
     ai_attributeDimensionPartitionsMinus1 = filled k (ai_attributeDimensionPartitionsMinus1 x) (replicate n 0),
     ai_attributePartitionChannelsMinus1 = filled k (ai_attributePartitionChannelsMinus1 x) (replicate n []),
     ai_Attribute2dBitdepthMinus1 = filled k (ai_Attribute2dBitdepthMinus1 x) (replicate n 0),
     ai_attributeMSBAlignFlag = filled k (ai_attributeMSBAlignFlag x) (replicate n False)\<rparr>)"

lemma ai_upto_count [simp]: "ai_attributeCount (ai_upto k x) = ai_attributeCount x"
  by (simp add: ai_upto_def Let_def)

lemma ai_wf_len:
  assumes "ai_wf aux mapCount x"
  shows
    "length (ai_attributeTypeId x) = unat (ai_attributeCount x)"
    "length (ai_attributeCodecId x) = unat (ai_attributeCount x)"
    "length (ai_auxiliaryAttributeCodecId x) = unat (ai_attributeCount x)"
    "length (ai_attributeMapAbsoluteCodingPersistenceFlagList x) = unat (ai_attributeCount x)"
    "length (ai_attributeDimensionMinus1 x) = unat (ai_attributeCount x)"
    "length (ai_attributeDimensionPartitionsMinus1 x) = unat (ai_attributeCount x)"
    "length (ai_attributePartitionChannelsMinus1 x) = unat (ai_attributeCount x)"
    "length (ai_Attribute2dBitdepthMinus1 x) = unat (ai_attributeCount x)"
    "length (ai_attributeMSBAlignFlag x) = unat (ai_attributeCount x)"
  using assms by (simp_all only: ai_wf_def Let_def)

lemma ai_upto_step:
  assumes "ai_wf aux mapCount x" and "i < unat (ai_attributeCount x)"
  shows
    "ai_attributeTypeId (ai_upto (Suc i) x) = (ai_attributeTypeId (ai_upto i x))[i := ai_attributeTypeId x ! i]"
    "ai_attributeCodecId (ai_upto (Suc i) x) = (ai_attributeCodecId (ai_upto i x))[i := ai_attributeCodecId x ! i]"
    "ai_auxiliaryAttributeCodecId (ai_upto (Suc i) x) = (ai_auxiliaryAttributeCodecId (ai_upto i x))[i := ai_auxiliaryAttributeCodecId x ! i]"
    "ai_attributeMapAbsoluteCodingPersistenceFlagList (ai_upto (Suc i) x) = (ai_attributeMapAbsoluteCodingPersistenceFlagList (ai_upto i x))[i := ai_attributeMapAbsoluteCodingPersistenceFlagList x ! i]"
    "ai_attributeDimensionMinus1 (ai_upto (Suc i) x) = (ai_attributeDimensionMinus1 (ai_upto i x))[i := ai_attributeDimensionMinus1 x ! i]"
    "ai_attributeDimensionPartitionsMinus1 (ai_upto (Suc i) x) = (ai_attributeDimensionPartitionsMinus1 (ai_upto i x))[i := ai_attributeDimensionPartitionsMinus1 x ! i]"
    "ai_attributePartitionChannelsMinus1 (ai_upto (Suc i) x) = (ai_attributePartitionChannelsMinus1 (ai_upto i x))[i := ai_attributePartitionChannelsMinus1 x ! i]"
    "ai_Attribute2dBitdepthMinus1 (ai_upto (Suc i) x) = (ai_Attribute2dBitdepthMinus1 (ai_upto i x))[i := ai_Attribute2dBitdepthMinus1 x ! i]"
    "ai_attributeMSBAlignFlag (ai_upto (Suc i) x) = (ai_attributeMSBAlignFlag (ai_upto i x))[i := ai_attributeMSBAlignFlag x ! i]"
  using assms(2) by (simp_all add: ai_wf_len [OF assms(1)] ai_upto_def Let_def)

lemma ai_upto_len:
  assumes "ai_wf aux mapCount x"
  shows
    "length (ai_attributeTypeId (ai_upto i x)) = unat (ai_attributeCount x)"
    "length (ai_attributeCodecId (ai_upto i x)) = unat (ai_attributeCount x)"
    "length (ai_auxiliaryAttributeCodecId (ai_upto i x)) = unat (ai_attributeCount x)"
    "length (ai_attributeMapAbsoluteCodingPersistenceFlagList (ai_upto i x)) = unat (ai_attributeCount x)"
    "length (ai_attributeDimensionMinus1 (ai_upto i x)) = unat (ai_attributeCount x)"
    "length (ai_attributeDimensionPartitionsMinus1 (ai_upto i x)) = unat (ai_attributeCount x)"
    "length (ai_attributePartitionChannelsMinus1 (ai_upto i x)) = unat (ai_attributeCount x)"
    "length (ai_Attribute2dBitdepthMinus1 (ai_upto i x)) = unat (ai_attributeCount x)"
    "length (ai_attributeMSBAlignFlag (ai_upto i x)) = unat (ai_attributeCount x)"
  by (simp_all add: ai_wf_len [OF assms(1)] ai_upto_def Let_def)

lemma ai_upto_init:
  assumes "ai_wf aux mapCount x" and "i < unat (ai_attributeCount x)"
  shows "ai_attributePartitionChannelsMinus1 (ai_upto i x) ! i = []"
    "ai_auxiliaryAttributeCodecId (ai_upto i x) ! i = 0"
    "ai_attributeDimensionPartitionsMinus1 (ai_upto i x) ! i = 0"
  using assms(2) by (simp_all add: ai_wf_len [OF assms(1)] ai_upto_def Let_def)

lemma ai_upto_keep:
  assumes "ai_wf aux mapCount x" and "i < unat (ai_attributeCount x)"
  shows "(ai_attributePartitionChannelsMinus1 (ai_upto i x))[i := []] = ai_attributePartitionChannelsMinus1 (ai_upto i x)"
    "(ai_auxiliaryAttributeCodecId (ai_upto i x))[i := 0] = ai_auxiliaryAttributeCodecId (ai_upto i x)"
    "(ai_attributeDimensionPartitionsMinus1 (ai_upto i x))[i := 0] = ai_attributeDimensionPartitionsMinus1 (ai_upto i x)"
  using ai_upto_init [OF assms] by (metis list_update_id)+

lemma ai_attr_codes:
  assumes "ai_wf aux mapCount x" and "i < unat (ai_attributeCount x)"
  shows "codes (ai_attr_w aux mapCount x i) (ai_attr_r aux mapCount i (ai_upto i x)) (ai_upto (Suc i) x)"
proof -
  note wf = assms(1) [unfolded ai_wf_def Let_def, simplified] assms(2)
  from wf have row: "ai_row_wf (ai_attributeDimensionMinus1 x ! i) (ai_attributeDimensionPartitionsMinus1 x ! i)
     (ai_attributePartitionChannelsMinus1 x ! i)" by simp
  have persistent: "\<not> 0 < mapCount \<Longrightarrow> ai_attributeMapAbsoluteCodingPersistenceFlagList x ! i"
    using assms(2) assms(1) [unfolded ai_wf_def Let_def] by blast
  from row have k: "0 < ai_attributeDimensionMinus1 x ! i \<Longrightarrow> unat (ai_attributeDimensionPartitionsMinus1 x ! i) < 64"
    and none: "\<not> 0 < ai_attributeDimensionMinus1 x ! i \<Longrightarrow>
      ai_attributeDimensionPartitionsMinus1 x ! i = 0 \<and> ai_attributePartitionChannelsMinus1 x ! i = []"
    by (auto simp: ai_row_wf_def word_gt_0 split: if_splits)
  note len = ai_upto_len [OF assms(1)] and init = ai_upto_init [OF assms] and step = ai_upto_step [OF assms]
    and keep = ai_upto_keep [OF assms]
  show ?thesis
    unfolding ai_attr_w_def [abs_def] ai_attr_r_def [abs_def] Let_def
    by ((rule codes_split ai_parts_codes row codec_intro refl AttributeInformation.equality
      | (simp add: wf k len init step keep; fail) | (simp add: none persistent len step keep; fail))+)
qed

lemma ai_upto_0: "ai_wf aux mapCount x \<Longrightarrow> ai_upto 0 x = ai_allocate (ai_new\<lparr>ai_attributeCount := ai_attributeCount x\<rparr>)"
  by (simp add: ai_upto_def ai_allocate_def ai_new_def Let_def)

lemma ai_upto_all: "ai_wf aux mapCount x \<Longrightarrow> ai_upto (unat (ai_attributeCount x)) x = x"
  by (simp add: ai_upto_def ai_wf_def Let_def)

lemma ai_loop_codes:
  assumes "ai_wf aux mapCount x" and "n = unat (ai_attributeCount x)" and "n' = n" and "y = ai_upto 0 x"
  shows "codes (for_loop [0..<n] (ai_attr_w aux mapCount x))
     (\<lambda>bs. for_loop [0..<n'] (\<lambda>i (ai, bs). ai_attr_r aux mapCount i ai bs) (y, bs)) x"
proof -
  have "codes (for_loop [0..<n] (ai_attr_w aux mapCount x))
     (\<lambda>bs. for_loop [0..<n'] (\<lambda>i (ai, bs). ai_attr_r aux mapCount i ai bs) (y, bs)) (ai_upto n x)"
    by (rule codes_for [where y = "\<lambda>k. ai_upto k x"]) (simp_all add: assms ai_attr_codes)
  then show ?thesis using ai_upto_all [OF assms(1)] assms(2) by simp
qed

lemma ai_codes [codec_intro]:
  assumes "aux' = aux" and "mapCount' = mapCount" and "y = ai_new" and wf: "ai_wf aux mapCount x"
  shows "codes (attributeInformation_w aux mapCount x) (attributeInformation_r aux' mapCount' y) x"
proof -
  have "unat (ai_attributeCount x) < 2 ^ 7" using wf by (simp add: ai_wf_def Let_def)
  then show ?thesis
    unfolding attributeInformation_w_def [abs_def] attributeInformation_r_def [abs_def] Let_def assms(1-3)
    by - ((rule ai_loop_codes [OF wf] codec_intro refl
      | (simp add: ai_upto_0 [OF wf]; fail) | (simp add: ai_allocate_def Let_def; fail))+)
qed

interpretation ai: syntax_codec "attributeInformation_w aux mapCount" "attributeInformation_r aux mapCount" ai_new "ai_wf aux mapCount"
  for aux mapCount
  by unfold_locales (rule ai_codes [OF refl refl refl])

end
