(* ===== verification/VpsParameterSet.thy ===== *)
theory VpsParameterSet
  imports ParameterSets
begin

text \<open>
  The V3C parameter set (\<open>PCCV3CParameterSet.h\<close>, \<open>v3cParameterSet\<close> of the writer and of the
  reader): a list of atlases as a structure of vectors, the map loop inside the atlas loop, the
  extension bytes and the byte alignment that ends the set.
\<close>

section \<open>The V3C parameter set\<close>

record V3CParameterSet =
  vps_profileTierLevel :: ProfileTierLevel
  vps_v3cParameterSetId :: uint32_t
  vps_atlasCountMinus1 :: uint32_t
  vps_atlasId :: "uint16_t list"
  vps_frameWidth :: "uint16_t list"
  vps_frameHeight :: "uint16_t list"
  vps_mapCountMinus1 :: "uint8_t list"
  vps_multipleMapStreamsPresentFlag :: "bool list"
  vps_mapAbsoluteCodingEnableFlag :: "bool list list"
  vps_mapPredictorIndexDiff :: "size_t list list"
  vps_auxiliaryVideoPresentFlag :: "bool list"
  vps_occupancyVideoPresentFlag :: "bool list"
  vps_geometryVideoPresentFlag :: "bool list"
  vps_attributeVideoPresentFlag :: "bool list"
  vps_occupancyInformation :: "OccupancyInformation list"
  vps_geometryInformation :: "GeometryInformation list"
  vps_attributeInformation :: "AttributeInformation list"
  vps_extensionPresentFlag :: bool
  vps_extension8Bits :: uint8_t
  vps_extensionLengthMinus1 :: size_t
  vps_extensionDataByte :: "uint8_t list"

definition vps_new :: V3CParameterSet where
  "vps_new = \<lparr>vps_profileTierLevel = ptl_new, vps_v3cParameterSetId = 0,
     vps_atlasCountMinus1 = 0, vps_atlasId = [], vps_frameWidth = [], vps_frameHeight = [],
     vps_mapCountMinus1 = [], vps_multipleMapStreamsPresentFlag = [],
     vps_mapAbsoluteCodingEnableFlag = [], vps_mapPredictorIndexDiff = [],
     vps_auxiliaryVideoPresentFlag = [], vps_occupancyVideoPresentFlag = [],
     vps_geometryVideoPresentFlag = [], vps_attributeVideoPresentFlag = [],
     vps_occupancyInformation = [], vps_geometryInformation = [], vps_attributeInformation = [],
     vps_extensionPresentFlag = False, vps_extension8Bits = 0, vps_extensionLengthMinus1 = 0,
     vps_extensionDataByte = []\<rparr>"

definition vps_allocateAtlas :: "V3CParameterSet \<Rightarrow> V3CParameterSet" where
  "vps_allocateAtlas vps = (let n = unat (vps_atlasCountMinus1 vps + 1) in vps\<lparr>
     vps_atlasId := vec_resize n 0 (vps_atlasId vps),
     vps_frameWidth := vec_resize n 1 (vps_frameWidth vps),
     vps_frameHeight := vec_resize n 0 (vps_frameHeight vps),
     vps_mapCountMinus1 := vec_resize n 0 (vps_mapCountMinus1 vps),
     vps_multipleMapStreamsPresentFlag := vec_resize n False (vps_multipleMapStreamsPresentFlag vps),
     vps_mapAbsoluteCodingEnableFlag := vec_resize n [] (vps_mapAbsoluteCodingEnableFlag vps),
     vps_mapPredictorIndexDiff := vec_resize n [] (vps_mapPredictorIndexDiff vps),
     vps_auxiliaryVideoPresentFlag := vec_resize n False (vps_auxiliaryVideoPresentFlag vps),
     vps_geometryVideoPresentFlag := vec_resize n False (vps_geometryVideoPresentFlag vps),
     vps_occupancyVideoPresentFlag := vec_resize n False (vps_occupancyVideoPresentFlag vps),
     vps_attributeVideoPresentFlag := vec_resize n False (vps_attributeVideoPresentFlag vps),
     vps_geometryInformation := vec_resize n gi_new (vps_geometryInformation vps),
     vps_occupancyInformation := vec_resize n oi_new (vps_occupancyInformation vps),
     vps_attributeInformation := vec_resize n ai_new (vps_attributeInformation vps)\<rparr>)"

definition vps_allocateMap :: "nat \<Rightarrow> V3CParameterSet \<Rightarrow> V3CParameterSet option" where
  "vps_allocateMap index vps = do {
     m \<leftarrow> vec_at (vps_mapCountMinus1 vps) index;
     row \<leftarrow> vec_at (vps_mapAbsoluteCodingEnableFlag vps) index;
     rows \<leftarrow> vec_set (vps_mapAbsoluteCodingEnableFlag vps) index (vec_resize (unat m + 1) True row);
     diff \<leftarrow> vec_at (vps_mapPredictorIndexDiff vps) index;
     diffs \<leftarrow> vec_set (vps_mapPredictorIndexDiff vps) index (vec_resize (unat m + 1) 0 diff);
     Some (vps\<lparr>vps_mapAbsoluteCodingEnableFlag := rows, vps_mapPredictorIndexDiff := diffs\<rparr>)
   }"

definition vps_setMapAbsoluteCodingEnableFlag :: "nat \<Rightarrow> nat \<Rightarrow> bool \<Rightarrow> V3CParameterSet \<Rightarrow> V3CParameterSet option" where
  "vps_setMapAbsoluteCodingEnableFlag i j value vps = do {
     row \<leftarrow> vec_at (vps_mapAbsoluteCodingEnableFlag vps) i;
     row \<leftarrow> vec_set (if length row < j + 1 then vec_resize (j + 1) True row else row) j value;
     rows \<leftarrow> vec_set (vps_mapAbsoluteCodingEnableFlag vps) i row;
     Some (vps\<lparr>vps_mapAbsoluteCodingEnableFlag := rows\<rparr>)
   }"

text \<open>The setter of the predictor index takes a \<open>bool\<close>.\<close>

definition vps_setMapPredictorIndexDiff :: "nat \<Rightarrow> nat \<Rightarrow> bool \<Rightarrow> V3CParameterSet \<Rightarrow> V3CParameterSet option" where
  "vps_setMapPredictorIndexDiff i j value vps = do {
     row \<leftarrow> vec_at (vps_mapPredictorIndexDiff vps) i;
     row \<leftarrow> vec_set (if length row < j + 1 then vec_resize (j + 1) 0 row else row) j (of_bool value);
     rows \<leftarrow> vec_set (vps_mapPredictorIndexDiff vps) i row;
     Some (vps\<lparr>vps_mapPredictorIndexDiff := rows\<rparr>)
   }"

definition byteAlignment_w :: "PCCBitstream \<Rightarrow> PCCBitstream option" where
  "byteAlignment_w bs = do { bs \<leftarrow> bs_write 1 1 bs; bs \<leftarrow> bs_padWrite 0 bs; Some bs }"

definition byteAlignment_r :: "PCCBitstream \<Rightarrow> (unit \<times> PCCBitstream) option" where
  "byteAlignment_r bs = do { (v, bs) \<leftarrow> bs_read 1 bs; (u, bs) \<leftarrow> bs_padRead bs; Some ((), bs) }"

definition vps_map_w :: "V3CParameterSet \<Rightarrow> nat \<Rightarrow> nat \<Rightarrow> PCCBitstream \<Rightarrow> PCCBitstream option" where
  "vps_map_w vps j i bs = do {
     multiple \<leftarrow> vec_at (vps_multipleMapStreamsPresentFlag vps) j;
     absolute \<leftarrow> vec_at2 (vps_mapAbsoluteCodingEnableFlag vps) j i;
     bs \<leftarrow> (if multiple then do {
         bs \<leftarrow> bs_write (b2u absolute) 1 bs;
         Some bs
       } else Some bs);
     bs \<leftarrow> (if \<not> absolute then do {
         diff \<leftarrow> vec_at2 (vps_mapPredictorIndexDiff vps) j i;
         bs \<leftarrow> bs_writeUvlc (ucast diff) bs;
         Some bs
       } else Some bs);
     Some bs
   }"

definition vps_map_r :: "nat \<Rightarrow> nat \<Rightarrow> V3CParameterSet \<Rightarrow> PCCBitstream \<Rightarrow> (V3CParameterSet \<times> PCCBitstream) option" where
  "vps_map_r j i vps bs = do {
     multiple \<leftarrow> vec_at (vps_multipleMapStreamsPresentFlag vps) j;
     (vps, bs) \<leftarrow> (if multiple then do {
         (v, bs) \<leftarrow> bs_read 1 bs;
         vps \<leftarrow> vps_setMapAbsoluteCodingEnableFlag j i (v \<noteq> 0) vps;
         Some (vps, bs)
       } else do {
         vps \<leftarrow> vps_setMapAbsoluteCodingEnableFlag j i True vps;
         Some (vps, bs)
       });
     absolute \<leftarrow> vec_at2 (vps_mapAbsoluteCodingEnableFlag vps) j i;
     (vps, bs) \<leftarrow> (if \<not> absolute then
         (if 0 < i then do {
           (v, bs) \<leftarrow> bs_readUvlc bs;
           vps \<leftarrow> vps_setMapPredictorIndexDiff j i (v \<noteq> 0) vps;
           Some (vps, bs)
         } else do {
           vps \<leftarrow> vps_setMapPredictorIndexDiff j i False vps;
           Some (vps, bs)
         })
       else Some (vps, bs));
     Some (vps, bs)
   }"

definition vps_atlas_w :: "V3CParameterSet \<Rightarrow> nat \<Rightarrow> PCCBitstream \<Rightarrow> PCCBitstream option" where
  "vps_atlas_w vps i bs = do {
     v \<leftarrow> vec_at (vps_atlasId vps) i;
     bs \<leftarrow> bs_write (ucast v) 6 bs;
     v \<leftarrow> vec_at (vps_frameWidth vps) i;
     bs \<leftarrow> bs_writeUvlc (ucast v) bs;
     v \<leftarrow> vec_at (vps_frameHeight vps) i;
     bs \<leftarrow> bs_writeUvlc (ucast v) bs;
     v \<leftarrow> vec_at (vps_mapCountMinus1 vps) i;
     bs \<leftarrow> bs_write (ucast v) 4 bs;
     m \<leftarrow> vec_at (vps_mapCountMinus1 vps) i;
     bs \<leftarrow> (if 0 < m then do {
         v \<leftarrow> vec_at (vps_multipleMapStreamsPresentFlag vps) i;
         bs \<leftarrow> bs_write (b2u v) 1 bs;
         Some bs
       } else Some bs);
     bs \<leftarrow> for_loop [1..<unat m + 1] (vps_map_w vps i) bs;
     v \<leftarrow> vec_at (vps_auxiliaryVideoPresentFlag vps) i;
     bs \<leftarrow> bs_write (b2u v) 1 bs;
     v \<leftarrow> vec_at (vps_occupancyVideoPresentFlag vps) i;
     bs \<leftarrow> bs_write (b2u v) 1 bs;
     v \<leftarrow> vec_at (vps_geometryVideoPresentFlag vps) i;
     bs \<leftarrow> bs_write (b2u v) 1 bs;
     v \<leftarrow> vec_at (vps_attributeVideoPresentFlag vps) i;
     bs \<leftarrow> bs_write (b2u v) 1 bs;
     occupancy \<leftarrow> vec_at (vps_occupancyVideoPresentFlag vps) i;
     bs \<leftarrow> (if occupancy then do {
         oi \<leftarrow> vec_at (vps_occupancyInformation vps) i;
         bs \<leftarrow> occupancyInformation_w oi bs;
         Some bs
       } else Some bs);
     geometry \<leftarrow> vec_at (vps_geometryVideoPresentFlag vps) i;
     bs \<leftarrow> (if geometry then do {
         aux \<leftarrow> vec_at (vps_auxiliaryVideoPresentFlag vps) 0;
         gi \<leftarrow> vec_at (vps_geometryInformation vps) i;
         bs \<leftarrow> geometryInformation_w aux gi bs;
         Some bs
       } else Some bs);
     attribute \<leftarrow> vec_at (vps_attributeVideoPresentFlag vps) i;
     bs \<leftarrow> (if attribute then do {
         aux \<leftarrow> vec_at (vps_auxiliaryVideoPresentFlag vps) 0;
         mapCount \<leftarrow> vec_at (vps_mapCountMinus1 vps) 0;
         ai \<leftarrow> vec_at (vps_attributeInformation vps) i;
         bs \<leftarrow> attributeInformation_w aux (ucast mapCount) ai bs;
         Some bs
       } else Some bs);
     Some bs
   }"

definition vps_atlas_r :: "nat \<Rightarrow> V3CParameterSet \<Rightarrow> PCCBitstream \<Rightarrow> (V3CParameterSet \<times> PCCBitstream) option" where
  "vps_atlas_r i vps bs = do {
     (v, bs) \<leftarrow> bs_read 6 bs;
     l \<leftarrow> vec_set (vps_atlasId vps) i (ucast v);
     let vps = vps\<lparr>vps_atlasId := l\<rparr>;
     (v, bs) \<leftarrow> bs_readUvlc bs;
     l \<leftarrow> vec_set (vps_frameWidth vps) i (ucast v);
     let vps = vps\<lparr>vps_frameWidth := l\<rparr>;
     (v, bs) \<leftarrow> bs_readUvlc bs;
     l \<leftarrow> vec_set (vps_frameHeight vps) i (ucast v);
     let vps = vps\<lparr>vps_frameHeight := l\<rparr>;
     (v, bs) \<leftarrow> bs_read 4 bs;
     l \<leftarrow> vec_set (vps_mapCountMinus1 vps) i (ucast v);
     let vps = vps\<lparr>vps_mapCountMinus1 := l\<rparr>;
     m \<leftarrow> vec_at (vps_mapCountMinus1 vps) i;
     vps \<leftarrow> vps_allocateMap i vps;
     (vps, bs) \<leftarrow> (if 0 < m then do {
         (v, bs) \<leftarrow> bs_read 1 bs;
         l \<leftarrow> vec_set (vps_multipleMapStreamsPresentFlag vps) i (v \<noteq> 0);
         let vps = vps\<lparr>vps_multipleMapStreamsPresentFlag := l\<rparr>;
         Some (vps, bs)
       } else Some (vps, bs));
     vps \<leftarrow> vps_setMapAbsoluteCodingEnableFlag i 0 True vps;
     (vps, bs) \<leftarrow> for_loop [1..<unat m + 1] (\<lambda>k (vps, bs). vps_map_r i k vps bs) (vps, bs);
     (v, bs) \<leftarrow> bs_read 1 bs;
     l \<leftarrow> vec_set (vps_auxiliaryVideoPresentFlag vps) i (v \<noteq> 0);
     let vps = vps\<lparr>vps_auxiliaryVideoPresentFlag := l\<rparr>;
     (v, bs) \<leftarrow> bs_read 1 bs;
     l \<leftarrow> vec_set (vps_occupancyVideoPresentFlag vps) i (v \<noteq> 0);
     let vps = vps\<lparr>vps_occupancyVideoPresentFlag := l\<rparr>;
     (v, bs) \<leftarrow> bs_read 1 bs;
     l \<leftarrow> vec_set (vps_geometryVideoPresentFlag vps) i (v \<noteq> 0);
     let vps = vps\<lparr>vps_geometryVideoPresentFlag := l\<rparr>;
     (v, bs) \<leftarrow> bs_read 1 bs;
     l \<leftarrow> vec_set (vps_attributeVideoPresentFlag vps) i (v \<noteq> 0);
     let vps = vps\<lparr>vps_attributeVideoPresentFlag := l\<rparr>;
     occupancy \<leftarrow> vec_at (vps_occupancyVideoPresentFlag vps) i;
     (vps, bs) \<leftarrow> (if occupancy then do {
         oi \<leftarrow> vec_at (vps_occupancyInformation vps) i;
         (oi, bs) \<leftarrow> occupancyInformation_r oi bs;
         l \<leftarrow> vec_set (vps_occupancyInformation vps) i oi;
         let vps = vps\<lparr>vps_occupancyInformation := l\<rparr>;
         Some (vps, bs)
       } else Some (vps, bs));
     geometry \<leftarrow> vec_at (vps_geometryVideoPresentFlag vps) i;
     (vps, bs) \<leftarrow> (if geometry then do {
         aux \<leftarrow> vec_at (vps_auxiliaryVideoPresentFlag vps) 0;
         gi \<leftarrow> vec_at (vps_geometryInformation vps) i;
         (gi, bs) \<leftarrow> geometryInformation_r aux gi bs;
         l \<leftarrow> vec_set (vps_geometryInformation vps) i gi;
         let vps = vps\<lparr>vps_geometryInformation := l\<rparr>;
         Some (vps, bs)
       } else Some (vps, bs));
     attribute \<leftarrow> vec_at (vps_attributeVideoPresentFlag vps) i;
     (vps, bs) \<leftarrow> (if attribute then do {
         aux \<leftarrow> vec_at (vps_auxiliaryVideoPresentFlag vps) 0;
         mapCount \<leftarrow> vec_at (vps_mapCountMinus1 vps) 0;
         ai \<leftarrow> vec_at (vps_attributeInformation vps) i;
         (ai, bs) \<leftarrow> attributeInformation_r aux (ucast mapCount) ai bs;
         l \<leftarrow> vec_set (vps_attributeInformation vps) i ai;
         let vps = vps\<lparr>vps_attributeInformation := l\<rparr>;
         Some (vps, bs)
       } else Some (vps, bs));
     Some (vps, bs)
   }"

definition vps_byte_w :: "V3CParameterSet \<Rightarrow> nat \<Rightarrow> PCCBitstream \<Rightarrow> PCCBitstream option" where
  "vps_byte_w vps i bs = do {
     v \<leftarrow> vec_at (vps_extensionDataByte vps) i;
     bs \<leftarrow> bs_write (ucast v) 8 bs;
     Some bs
   }"

definition vps_byte_r :: "nat \<Rightarrow> V3CParameterSet \<Rightarrow> PCCBitstream \<Rightarrow> (V3CParameterSet \<times> PCCBitstream) option" where
  "vps_byte_r i vps bs = do {
     (v, bs) \<leftarrow> bs_read 8 bs;
     l \<leftarrow> vec_set (vps_extensionDataByte vps) i (ucast v);
     let vps = vps\<lparr>vps_extensionDataByte := l\<rparr>;
     Some (vps, bs)
   }"

text \<open>The reader also sizes the atlas list of \<open>PCCHighLevelSyntax\<close> (\<open>allocateAtlasHLS\<close>), which
  is not part of the parameter set.\<close>

definition v3cParameterSet_w :: "V3CParameterSet \<Rightarrow> PCCBitstream \<Rightarrow> PCCBitstream option" where
  "v3cParameterSet_w vps bs = do {
     bs \<leftarrow> profileTierLevel_w (vps_profileTierLevel vps) bs;
     bs \<leftarrow> bs_write (vps_v3cParameterSetId vps) 4 bs;
     bs \<leftarrow> bs_write 0 8 bs;
     bs \<leftarrow> bs_write (vps_atlasCountMinus1 vps) 6 bs;
     bs \<leftarrow> for_loop [0..<unat (vps_atlasCountMinus1 vps + 1)] (vps_atlas_w vps) bs;
     bs \<leftarrow> bs_write (b2u (vps_extensionPresentFlag vps)) 1 bs;
     bs \<leftarrow> (if vps_extensionPresentFlag vps then do {
         bs \<leftarrow> bs_write (ucast (vps_extension8Bits vps)) 8 bs;
         Some bs
       } else Some bs);
     bs \<leftarrow> (if vps_extension8Bits vps \<noteq> 0 then do {
         bs \<leftarrow> bs_writeUvlc (ucast (vps_extensionLengthMinus1 vps)) bs;
         bs \<leftarrow> for_loop [0..<unat (vps_extensionLengthMinus1 vps + 1)] (vps_byte_w vps) bs;
         Some bs
       } else Some bs);
     bs \<leftarrow> byteAlignment_w bs;
     Some bs
   }"

definition v3cParameterSet_r :: "V3CParameterSet \<Rightarrow> PCCBitstream \<Rightarrow> (V3CParameterSet \<times> PCCBitstream) option" where
  "v3cParameterSet_r vps bs = do {
     (sub, bs) \<leftarrow> profileTierLevel_r (vps_profileTierLevel vps) bs;
     let vps = vps\<lparr>vps_profileTierLevel := sub\<rparr>;
     (v, bs) \<leftarrow> bs_read 4 bs;
     let vps = vps\<lparr>vps_v3cParameterSetId := v\<rparr>;
     (v, bs) \<leftarrow> bs_read 8 bs;
     (v, bs) \<leftarrow> bs_read 6 bs;
     let vps = vps\<lparr>vps_atlasCountMinus1 := v\<rparr>;
     let vps = vps_allocateAtlas vps;
     (vps, bs) \<leftarrow> for_loop [0..<unat (vps_atlasCountMinus1 vps + 1)] (\<lambda>i (vps, bs). vps_atlas_r i vps bs) (vps, bs);
     (v, bs) \<leftarrow> bs_read 1 bs;
     let vps = vps\<lparr>vps_extensionPresentFlag := v \<noteq> 0\<rparr>;
     (vps, bs) \<leftarrow> (if vps_extensionPresentFlag vps then do {
         (v, bs) \<leftarrow> bs_read 8 bs;
         let vps = vps\<lparr>vps_extension8Bits := ucast v\<rparr>;
         Some (vps, bs)
       } else Some (vps, bs));
     (vps, bs) \<leftarrow> (if vps_extension8Bits vps \<noteq> 0 then do {
         (v, bs) \<leftarrow> bs_readUvlc bs;
         let vps = vps\<lparr>vps_extensionLengthMinus1 := ucast v\<rparr>;
         let vps = vps\<lparr>vps_extensionDataByte := vec_resize (unat (vps_extensionLengthMinus1 vps + 1)) 0 (vps_extensionDataByte vps)\<rparr>;
         (vps, bs) \<leftarrow> for_loop [0..<unat (vps_extensionLengthMinus1 vps + 1)] (\<lambda>i (vps, bs). vps_byte_r i vps bs) (vps, bs);
         Some (vps, bs)
       } else Some (vps, bs));
     (u, bs) \<leftarrow> byteAlignment_r bs;
     Some (vps, bs)
   }"


definition vps_row_wf :: "uint8_t \<Rightarrow> bool \<Rightarrow> bool list \<Rightarrow> size_t list \<Rightarrow> bool" where
  "vps_row_wf m multiple row diff \<longleftrightarrow> unat m < 2 ^ 4 \<and> (m = 0 \<longrightarrow> \<not> multiple)
     \<and> length row = unat m + 1 \<and> length diff = unat m + 1 \<and> row ! 0 \<and> diff ! 0 = 0
     \<and> (\<forall>i < unat m + 1. (\<not> multiple \<longrightarrow> row ! i) \<and> (row ! i \<longrightarrow> diff ! i = 0) \<and> unat (diff ! i) \<le> 1)"

definition vps_atlas_wf :: "V3CParameterSet \<Rightarrow> nat \<Rightarrow> bool" where
  "vps_atlas_wf x j \<longleftrightarrow> unat (vps_atlasId x ! j) < 2 ^ 6
     \<and> vps_row_wf (vps_mapCountMinus1 x ! j) (vps_multipleMapStreamsPresentFlag x ! j)
         (vps_mapAbsoluteCodingEnableFlag x ! j) (vps_mapPredictorIndexDiff x ! j)
     \<and> (if vps_occupancyVideoPresentFlag x ! j then oi_wf (vps_occupancyInformation x ! j)
        else vps_occupancyInformation x ! j = oi_new)
     \<and> (if vps_geometryVideoPresentFlag x ! j
        then gi_wf (vps_auxiliaryVideoPresentFlag x ! 0) (vps_geometryInformation x ! j)
        else vps_geometryInformation x ! j = gi_new)
     \<and> (if vps_attributeVideoPresentFlag x ! j
        then ai_wf (vps_auxiliaryVideoPresentFlag x ! 0) (ucast (vps_mapCountMinus1 x ! 0)) (vps_attributeInformation x ! j)
        else vps_attributeInformation x ! j = ai_new)"

definition vps_wf :: "V3CParameterSet \<Rightarrow> bool" where
  "vps_wf x \<longleftrightarrow> (let n = unat (vps_atlasCountMinus1 x + 1) in
     ptl_wf (vps_profileTierLevel x) \<and> unat (vps_v3cParameterSetId x) < 2 ^ 4
     \<and> unat (vps_atlasCountMinus1 x) < 2 ^ 6
     \<and> length (vps_atlasId x) = n \<and> length (vps_frameWidth x) = n \<and> length (vps_frameHeight x) = n
     \<and> length (vps_mapCountMinus1 x) = n \<and> length (vps_multipleMapStreamsPresentFlag x) = n
     \<and> length (vps_mapAbsoluteCodingEnableFlag x) = n \<and> length (vps_mapPredictorIndexDiff x) = n
     \<and> length (vps_auxiliaryVideoPresentFlag x) = n \<and> length (vps_occupancyVideoPresentFlag x) = n
     \<and> length (vps_geometryVideoPresentFlag x) = n \<and> length (vps_attributeVideoPresentFlag x) = n
     \<and> length (vps_occupancyInformation x) = n \<and> length (vps_geometryInformation x) = n
     \<and> length (vps_attributeInformation x) = n
     \<and> (\<forall>j < n. vps_atlas_wf x j)
     \<and> (\<not> vps_extensionPresentFlag x \<longrightarrow> vps_extension8Bits x = 0)
     \<and> (if vps_extension8Bits x \<noteq> 0
        then unat (vps_extensionLengthMinus1 x) < 2 ^ 31 - 1
          \<and> length (vps_extensionDataByte x) = unat (vps_extensionLengthMinus1 x + 1)
        else vps_extensionLengthMinus1 x = 0 \<and> vps_extensionDataByte x = []))"

section \<open>Round trip\<close>

text \<open>One map of the atlas \<open>j\<close>: the object \<open>y\<close> with the first \<open>k\<close> entries of both rows.\<close>

definition vps_rows :: "V3CParameterSet \<Rightarrow> V3CParameterSet \<Rightarrow> nat \<Rightarrow> nat \<Rightarrow> V3CParameterSet" where
  "vps_rows x y j k = (let n = unat (vps_mapCountMinus1 x ! j) + 1 in y\<lparr>
     vps_mapAbsoluteCodingEnableFlag := (vps_mapAbsoluteCodingEnableFlag y)
       [j := filled k (vps_mapAbsoluteCodingEnableFlag x ! j) (replicate n True)],
     vps_mapPredictorIndexDiff := (vps_mapPredictorIndexDiff y)
       [j := filled k (vps_mapPredictorIndexDiff x ! j) (replicate n 0)]\<rparr>)"

lemma vps_setters [simp]:
  "i < length (vps_mapAbsoluteCodingEnableFlag y) \<Longrightarrow> k < length (vps_mapAbsoluteCodingEnableFlag y ! i) \<Longrightarrow>
     vps_setMapAbsoluteCodingEnableFlag i k b y = Some (y\<lparr>vps_mapAbsoluteCodingEnableFlag :=
       (vps_mapAbsoluteCodingEnableFlag y)[i := (vps_mapAbsoluteCodingEnableFlag y ! i)[k := b]]\<rparr>)"
  "i < length (vps_mapPredictorIndexDiff y) \<Longrightarrow> k < length (vps_mapPredictorIndexDiff y ! i) \<Longrightarrow>
     vps_setMapPredictorIndexDiff i k b y = Some (y\<lparr>vps_mapPredictorIndexDiff :=
       (vps_mapPredictorIndexDiff y)[i := (vps_mapPredictorIndexDiff y ! i)[k := of_bool b]]\<rparr>)"
  by (simp_all add: vps_setMapAbsoluteCodingEnableFlag_def vps_setMapPredictorIndexDiff_def)

lemma vps_map_codes:
  assumes wf: "vps_row_wf (vps_mapCountMinus1 x ! j) (vps_multipleMapStreamsPresentFlag x ! j)
         (vps_mapAbsoluteCodingEnableFlag x ! j) (vps_mapPredictorIndexDiff x ! j)"
    and j: "j < length (vps_multipleMapStreamsPresentFlag x)" "j < length (vps_mapAbsoluteCodingEnableFlag x)"
      "j < length (vps_mapPredictorIndexDiff x)"
    and y: "j < length (vps_multipleMapStreamsPresentFlag y)" "j < length (vps_mapAbsoluteCodingEnableFlag y)"
      "j < length (vps_mapPredictorIndexDiff y)"
      "vps_multipleMapStreamsPresentFlag y ! j = vps_multipleMapStreamsPresentFlag x ! j"
    and i: "0 < i" "i < unat (vps_mapCountMinus1 x ! j) + 1"
  shows "codes (vps_map_w x j i) (vps_map_r j i (vps_rows x y j i)) (vps_rows x y j (Suc i))"
proof -
  note wf' = wf [unfolded vps_row_wf_def, simplified] i [simplified]
  have im: "i \<le> unat (vps_mapCountMinus1 x ! j)" "i \<le> Suc (unat (vps_mapCountMinus1 x ! j))"
    using i by simp_all
  have "unat (vps_mapPredictorIndexDiff x ! j ! i) \<le> 1" using wf' by simp
  then have "vps_mapPredictorIndexDiff x ! j ! i = 0 \<or> vps_mapPredictorIndexDiff x ! j ! i = 1"
    by (metis One_nat_def le_Suc_eq le_zero_eq unat_1 unat_eq_zero word_unat_eq_iff)
  then have d: "of_bool ((ucast (vps_mapPredictorIndexDiff x ! j ! i) :: uint32_t) \<noteq> 0) = vps_mapPredictorIndexDiff x ! j ! i"
    "unat (ucast (vps_mapPredictorIndexDiff x ! j ! i) :: uint32_t) < 2147483647"
    by auto
  show ?thesis
    unfolding vps_map_w_def [abs_def] vps_map_r_def [abs_def]
    by ((rule codes_split codec_intro codes_r_if refl V3CParameterSet.equality
      | (simp add: wf' im j y d filled_skip vps_rows_def Let_def del: replicate_Suc; fail))+)
qed

lemma vps_maps_codes:
  assumes wf: "vps_row_wf (vps_mapCountMinus1 x ! j) (vps_multipleMapStreamsPresentFlag x ! j)
         (vps_mapAbsoluteCodingEnableFlag x ! j) (vps_mapPredictorIndexDiff x ! j)"
    and j: "j < length (vps_multipleMapStreamsPresentFlag x)" "j < length (vps_mapAbsoluteCodingEnableFlag x)"
      "j < length (vps_mapPredictorIndexDiff x)"
    and y: "j < length (vps_multipleMapStreamsPresentFlag y)" "j < length (vps_mapAbsoluteCodingEnableFlag y)"
      "j < length (vps_mapPredictorIndexDiff y)"
      "vps_multipleMapStreamsPresentFlag y ! j = vps_multipleMapStreamsPresentFlag x ! j"
    and rows: "vps_mapAbsoluteCodingEnableFlag y ! j = replicate (unat (vps_mapCountMinus1 x ! j) + 1) True"
      "vps_mapPredictorIndexDiff y ! j = replicate (unat (vps_mapCountMinus1 x ! j) + 1) 0"
    and m: "m = vps_mapCountMinus1 x ! j" "m' = m"
  shows "codes (for_loop [1..<unat m + 1] (vps_map_w x j))
     (\<lambda>bs. for_loop [1..<unat m' + 1] (\<lambda>k (vps, bs). vps_map_r j k vps bs) (y, bs))
     (y\<lparr>vps_mapAbsoluteCodingEnableFlag := (vps_mapAbsoluteCodingEnableFlag y)[j := vps_mapAbsoluteCodingEnableFlag x ! j],
        vps_mapPredictorIndexDiff := (vps_mapPredictorIndexDiff y)[j := vps_mapPredictorIndexDiff x ! j]\<rparr>)"
proof -
  note wf' = wf [unfolded vps_row_wf_def]
  have len: "length (vps_mapAbsoluteCodingEnableFlag x ! j) = unat (vps_mapCountMinus1 x ! j) + 1"
    "length (vps_mapPredictorIndexDiff x ! j) = unat (vps_mapCountMinus1 x ! j) + 1"
    using wf' by simp_all
  have "vps_rows x y j 1 = vps_rows x y j 0"
    using wf' len by (simp add: vps_rows_def Let_def filled_skip del: replicate_Suc)
  also have "vps_rows x y j 0 = y"
    using list_update_id [of "vps_mapAbsoluteCodingEnableFlag y" j] list_update_id [of "vps_mapPredictorIndexDiff y" j] rows
    by (simp add: vps_rows_def Let_def del: replicate_Suc)
  finally have first: "vps_rows x y j 1 = y" .
  have last: "vps_rows x y j (Suc (unat m)) =
     y\<lparr>vps_mapAbsoluteCodingEnableFlag := (vps_mapAbsoluteCodingEnableFlag y)[j := vps_mapAbsoluteCodingEnableFlag x ! j],
        vps_mapPredictorIndexDiff := (vps_mapPredictorIndexDiff y)[j := vps_mapPredictorIndexDiff x ! j]\<rparr>"
    using len m by (simp add: vps_rows_def Let_def del: replicate_Suc)
  have "codes (for_loop [1..<unat m + 1] (vps_map_w x j))
     (\<lambda>bs. for_loop [1..<unat m + 1] (\<lambda>k (vps, bs). vps_map_r j k vps bs) (vps_rows x y j (Suc 0), bs))
     (vps_rows x y j (Suc (length [1..<unat m + 1])))"
  proof (rule codes_for_list [where y = "\<lambda>k. vps_rows x y j (Suc k)"])
    fix k assume "k < length [1..<unat m + 1]"
    then have "[1..<unat m + 1] ! k = Suc k" and "Suc k < unat (vps_mapCountMinus1 x ! j) + 1"
      using m by (simp_all del: upt_Suc)
    then show "codes (vps_map_w x j ([1..<unat m + 1] ! k)) (vps_map_r j ([1..<unat m + 1] ! k) (vps_rows x y j (Suc k)))
       (vps_rows x y j (Suc (Suc k)))"
      using vps_map_codes [OF wf j y, of "Suc k"] by simp
  qed
  then show ?thesis using first last m by (simp del: upt_Suc)
qed

text \<open>The object after the first \<open>k\<close> atlases.\<close>

definition vps_upto :: "nat \<Rightarrow> V3CParameterSet \<Rightarrow> V3CParameterSet" where
  "vps_upto k x = (let n = unat (vps_atlasCountMinus1 x + 1) in \<lparr>
     vps_profileTierLevel = vps_profileTierLevel x, vps_v3cParameterSetId = vps_v3cParameterSetId x,
     vps_atlasCountMinus1 = vps_atlasCountMinus1 x,
     vps_atlasId = filled k (vps_atlasId x) (replicate n 0),
     vps_frameWidth = filled k (vps_frameWidth x) (replicate n 1),
     vps_frameHeight = filled k (vps_frameHeight x) (replicate n 0),
     vps_mapCountMinus1 = filled k (vps_mapCountMinus1 x) (replicate n 0),
     vps_multipleMapStreamsPresentFlag = filled k (vps_multipleMapStreamsPresentFlag x) (replicate n False),
     vps_mapAbsoluteCodingEnableFlag = filled k (vps_mapAbsoluteCodingEnableFlag x) (replicate n []),
     vps_mapPredictorIndexDiff = filled k (vps_mapPredictorIndexDiff x) (replicate n []),
     vps_auxiliaryVideoPresentFlag = filled k (vps_auxiliaryVideoPresentFlag x) (replicate n False),
     vps_occupancyVideoPresentFlag = filled k (vps_occupancyVideoPresentFlag x) (replicate n False),
     vps_geometryVideoPresentFlag = filled k (vps_geometryVideoPresentFlag x) (replicate n False),
     vps_attributeVideoPresentFlag = filled k (vps_attributeVideoPresentFlag x) (replicate n False),
     vps_occupancyInformation = filled k (vps_occupancyInformation x) (replicate n oi_new),
     vps_geometryInformation = filled k (vps_geometryInformation x) (replicate n gi_new),
     vps_attributeInformation = filled k (vps_attributeInformation x) (replicate n ai_new),
     vps_extensionPresentFlag = False, vps_extension8Bits = 0, vps_extensionLengthMinus1 = 0,
     vps_extensionDataByte = []\<rparr>)"

lemma vps_atlas_codes:
  assumes "vps_wf x" and "j < unat (vps_atlasCountMinus1 x + 1)"
  shows "codes (vps_atlas_w x j) (vps_atlas_r j (vps_upto j x)) (vps_upto (Suc j) x)"
proof -
  obtain n where n: "unat (vps_atlasCountMinus1 x + 1) = n" by simp
  note len = assms(1) [unfolded vps_wf_def Let_def n] and j = assms(2) [unfolded n]
  have wf: "vps_atlas_wf x j" using len j by simp
  have row: "vps_row_wf (vps_mapCountMinus1 x ! j) (vps_multipleMapStreamsPresentFlag x ! j)
      (vps_mapAbsoluteCodingEnableFlag x ! j) (vps_mapPredictorIndexDiff x ! j)"
    using wf by (simp add: vps_atlas_wf_def)
  have m: "unat (vps_mapCountMinus1 x ! j) < 16" "\<not> 0 < vps_mapCountMinus1 x ! j \<Longrightarrow> \<not> vps_multipleMapStreamsPresentFlag x ! j"
    using row by (auto simp: vps_row_wf_def word_gt_0)
  have j0: "0 < n" "Suc j \<le> n" "j \<le> n" using j by simp_all
  note wf' = wf [unfolded vps_atlas_wf_def, simplified]
  show ?thesis
    unfolding vps_atlas_w_def [abs_def] vps_atlas_r_def [abs_def]
    by ((rule vps_maps_codes row codes_same codec_intro refl V3CParameterSet.equality
      | (simp add: j j0 m len wf' filled_skip vps_upto_def n vps_allocateMap_def Let_def del: replicate_Suc; fail))+)
qed

lemma vps_allocateAtlas_count [simp]: "vps_atlasCountMinus1 (vps_allocateAtlas y) = vps_atlasCountMinus1 y"
  by (simp add: vps_allocateAtlas_def Let_def)

lemma vps_upto_all:
  assumes "vps_wf x"
  shows "vps_upto (unat (vps_atlasCountMinus1 x + 1)) x =
     x\<lparr>vps_extensionPresentFlag := False, vps_extension8Bits := 0, vps_extensionLengthMinus1 := 0, vps_extensionDataByte := []\<rparr>"
proof -
  obtain n where n: "unat (vps_atlasCountMinus1 x + 1) = n" by simp
  note len = assms [unfolded vps_wf_def Let_def n]
  show ?thesis by (simp add: vps_upto_def Let_def n len)
qed

lemma vps_atlases_codes:
  assumes "vps_wf x" and "n = unat (vps_atlasCountMinus1 x + 1)" and "n' = n" and "y = vps_upto 0 x"
  shows "codes (for_loop [0..<n] (vps_atlas_w x)) (\<lambda>bs. for_loop [0..<n'] (\<lambda>i (vps, bs). vps_atlas_r i vps bs) (y, bs))
     (x\<lparr>vps_extensionPresentFlag := False, vps_extension8Bits := 0, vps_extensionLengthMinus1 := 0, vps_extensionDataByte := []\<rparr>)"
proof -
  have "codes (for_loop [0..<n] (vps_atlas_w x)) (\<lambda>bs. for_loop [0..<n'] (\<lambda>i (vps, bs). vps_atlas_r i vps bs) (y, bs))
     (vps_upto n x)"
    by (rule codes_for [where y = "\<lambda>k. vps_upto k x"]) (simp_all add: assms vps_atlas_codes)
  then show ?thesis using vps_upto_all [OF assms(1)] assms(2) by simp
qed

lemma vps_byte_codes:
  assumes "n' = n" and "length (vps_extensionDataByte x) = n" and "length (vps_extensionDataByte y) = n"
  shows "codes (for_loop [0..<n] (vps_byte_w x)) (\<lambda>bs. for_loop [0..<n'] (\<lambda>i (a, bs). vps_byte_r i a bs) (y, bs))
     (y\<lparr>vps_extensionDataByte := vps_extensionDataByte x\<rparr>)"
  unfolding vps_byte_w_def [abs_def] vps_byte_r_def [abs_def]
  by ((rule codes_for_field [where S = "\<lambda>l. y\<lparr>vps_extensionDataByte := l\<rparr>"
        and zs = "vps_extensionDataByte y"] codec_intro refl | (simp add: assms; fail))+)

lemma codes_byteAlignment [codec_intro]: "codes byteAlignment_w byteAlignment_r ()"
  unfolding byteAlignment_w_def [abs_def] byteAlignment_r_def [abs_def]
  by ((rule codec_intro refl | (simp; fail))+)

interpretation vps: syntax_codec v3cParameterSet_w v3cParameterSet_r vps_new vps_wf
proof unfold_locales
  fix x assume wf: "vps_wf x"
  then have 0: "vps_upto 0 x = vps_allocateAtlas (vps_new\<lparr>vps_profileTierLevel := vps_profileTierLevel x,
      vps_v3cParameterSetId := vps_v3cParameterSetId x, vps_atlasCountMinus1 := vps_atlasCountMinus1 x\<rparr>)"
    by (simp add: vps_upto_def vps_allocateAtlas_def vps_new_def Let_def)
  note wf' = wf [unfolded vps_wf_def Let_def if_bool_eq_conj]
  show "codes (v3cParameterSet_w x) (v3cParameterSet_r vps_new) x"
    unfolding v3cParameterSet_w_def [abs_def] v3cParameterSet_r_def [abs_def]
    by ((rule vps_atlases_codes [OF wf] vps_byte_codes codes_same codec_intro refl V3CParameterSet.equality
      | (simp add: wf' [simplified] vps_new_def; fail) | (simp add: 0 vps_new_def; fail))+)
qed

end
