(* ===== verification/AtlasSequence.thy ===== *)
theory AtlasSequence
  imports VpsParameterSet
begin

unbundle bit_operations_syntax

text \<open>
  The atlas sequence parameter set and its parts: reference list structures, point local
  reconstruction information, the VUI parameters with the hypothetical reference decoder
  parameters, and the V-PCC extension, with the functions that write and read them.

  The reader and the writer of the VUI parameters disagree (see the end of the theory), so the
  round trip of the parameter set is shown for sets without VUI parameters.
\<close>

section \<open>Records\<close>

record RefListStruct =
  rls_numRefEntries :: uint8_t
  rls_absDeltaAfocSt :: "uint8_t list"
  rls_afocLsbLt :: "uint8_t list"
  rls_stRefAtlasFrameFlag :: "bool list"
  rls_strpfEntrySignFlag :: "bool list"

definition rls_new :: RefListStruct where
  "rls_new = \<lparr>rls_numRefEntries = 0, rls_absDeltaAfocSt = [], rls_afocLsbLt = [],
     rls_stRefAtlasFrameFlag = [], rls_strpfEntrySignFlag = []\<rparr>"

text \<open>The constructor leaves \<open>mapEnabledFlag\<close> uninitialised; the reader always sets it.\<close>

record PLRInformation =
  plri_mapEnabledFlag :: bool
  plri_numberOfModesMinus1 :: uint8_t
  plri_interpolateFlag :: "bool list"
  plri_fillingFlag :: "bool list"
  plri_minimumDepth :: "uint8_t list"
  plri_neighbourMinus1 :: "uint8_t list"
  plri_blockThresholdPerPatchMinus1 :: uint8_t

definition plri_new :: PLRInformation where
  "plri_new = \<lparr>plri_mapEnabledFlag = False, plri_numberOfModesMinus1 = 0,
     plri_interpolateFlag = [], plri_fillingFlag = [], plri_minimumDepth = [],
     plri_neighbourMinus1 = [], plri_blockThresholdPerPatchMinus1 = 0\<rparr>"

record HrdSubLayerParameters =
  hlsp_bitRateValueMinus1 :: "uint32_t list"
  hlsp_cabSizeValueMinus1 :: "uint32_t list"
  hlsp_cbrFlag :: "bool list"

definition hlsp_new :: HrdSubLayerParameters where
  "hlsp_new = \<lparr>hlsp_bitRateValueMinus1 = [], hlsp_cabSizeValueMinus1 = [],
     hlsp_cbrFlag = []\<rparr>"

text \<open>The constructor of \<open>HrdParameters\<close> resizes its vectors to \<open>maxNumSubLayersMinus1\<close>, which is the
  constant 0.\<close>

record HrdParameters =
  hp_nalParametersPresentFlag :: bool
  hp_aclParametersPresentFlag :: bool
  hp_bitRateScale :: uint8_t
  hp_cabSizeScale :: uint8_t
  hp_fixedAtlasRateGeneralFlag :: "bool list"
  hp_fixedAtlasRateWithinCasFlag :: "bool list"
  hp_elementalDurationInTcMinus1 :: "uint32_t list"
  hp_lowDelayFlag :: "bool list"
  hp_cabCntMinus1 :: "uint32_t list"
  hp_subLayerParameters0 :: "HrdSubLayerParameters list"
  hp_subLayerParameters1 :: "HrdSubLayerParameters list"

definition hp_new :: HrdParameters where
  "hp_new = \<lparr>hp_nalParametersPresentFlag = False, hp_aclParametersPresentFlag = False,
     hp_bitRateScale = 0, hp_cabSizeScale = 0, hp_fixedAtlasRateGeneralFlag = [],
     hp_fixedAtlasRateWithinCasFlag = [], hp_elementalDurationInTcMinus1 = [],
     hp_lowDelayFlag = [], hp_cabCntMinus1 = [], hp_subLayerParameters0 = [],
     hp_subLayerParameters1 = []\<rparr>"

record MaxCodedVideoResolution =
  mcvr_occupancyResolutionPresentFlag :: bool
  mcvr_geometryResolutionPresentFlag :: bool
  mcvr_attributeResolutionPresentFlag :: bool
  mcvr_occupancyWidth :: uint32_t
  mcvr_occupancyHeight :: uint32_t
  mcvr_geometryWidth :: uint32_t
  mcvr_geometryHeight :: uint32_t
  mcvr_attributeWidth :: uint32_t
  mcvr_attributeHeight :: uint32_t

definition mcvr_new :: MaxCodedVideoResolution where
  "mcvr_new = \<lparr>mcvr_occupancyResolutionPresentFlag = False,
     mcvr_geometryResolutionPresentFlag = False, mcvr_attributeResolutionPresentFlag = False,
     mcvr_occupancyWidth = 0, mcvr_occupancyHeight = 0, mcvr_geometryWidth = 0,
     mcvr_geometryHeight = 0, mcvr_attributeWidth = 0, mcvr_attributeHeight = 0\<rparr>"

record CoordinateSystemParameters =
  csp_forwardAxis :: uint8_t
  csp_deltaLeftAxis :: uint8_t
  csp_forwardSign :: uint8_t
  csp_leftSign :: uint8_t
  csp_upSign :: uint8_t

definition csp_new :: CoordinateSystemParameters where
  "csp_new = \<lparr>csp_forwardAxis = 0, csp_deltaLeftAxis = 0, csp_forwardSign = 0,
     csp_leftSign = 0, csp_upSign = 0\<rparr>"

record VUIParameters =
  vp_timingInfoPresentFlag :: bool
  vp_numUnitsInTick :: uint32_t
  vp_timeScale :: uint32_t
  vp_pocProportionalToTimingFlag :: bool
  vp_numTicksPocDiffOneMinus1 :: uint32_t
  vp_hrdParametersPresentFlag :: bool
  vp_tileRestrictionsPresentFlag :: bool
  vp_fixedAtlasTileStructureFlag :: bool
  vp_fixedVideoTileStructureFlag :: bool
  vp_constrainedTilesAcrossV3cComponentsIdc :: uint32_t
  vp_maxNumTilesPerAtlasMinus1 :: uint32_t
  vp_maxCodedVideoResolutionPresentFlag :: bool
  vp_coordinateSystemParametersPresentFlag :: bool
  vp_unitInMetresFlag :: bool
  vp_displayBoxInfoPresentFlag :: bool
  vp_displayBoxOrigin :: "uint32_t list"
  vp_displayBoxSize :: "uint32_t list"
  vp_anchorPointPresentFlag :: bool
  vp_anchorPoint :: "uint32_t list"
  vp_hrdParameters :: HrdParameters
  vp_coordinateSystemParameters :: CoordinateSystemParameters
  vp_maxCodedVideoResolution :: MaxCodedVideoResolution

definition vp_new :: VUIParameters where
  "vp_new = \<lparr>vp_timingInfoPresentFlag = False, vp_numUnitsInTick = 1001,
     vp_timeScale = 60000, vp_pocProportionalToTimingFlag = False, vp_numTicksPocDiffOneMinus1 = 0,
     vp_hrdParametersPresentFlag = False, vp_tileRestrictionsPresentFlag = False,
     vp_fixedAtlasTileStructureFlag = False, vp_fixedVideoTileStructureFlag = False,
     vp_constrainedTilesAcrossV3cComponentsIdc = 0, vp_maxNumTilesPerAtlasMinus1 = 0,
     vp_maxCodedVideoResolutionPresentFlag = False,
     vp_coordinateSystemParametersPresentFlag = False, vp_unitInMetresFlag = False,
     vp_displayBoxInfoPresentFlag = False, vp_displayBoxOrigin = [0, 0, 0],
     vp_displayBoxSize = [0, 0, 0], vp_anchorPointPresentFlag = False, vp_anchorPoint = [0, 0, 0],
     vp_hrdParameters = hp_new, vp_coordinateSystemParameters = csp_new,
     vp_maxCodedVideoResolution = mcvr_new\<rparr>"

record AspsVpccExtension =
  avext_removeDuplicatePointEnableFlag :: bool
  avext_surfaceThicknessMinus1 :: uint8_t

definition avext_new :: AspsVpccExtension where
  "avext_new = \<lparr>avext_removeDuplicatePointEnableFlag = False,
     avext_surfaceThicknessMinus1 = 0\<rparr>"

record AtlasSequenceParameterSetRbsp =
  asps_atlasSequenceParameterSetId :: uint8_t
  asps_frameWidth :: uint16_t
  asps_frameHeight :: uint16_t
  asps_geometry2dBitdepthMinus1 :: uint8_t
  asps_geometry3dBitdepthMinus1 :: uint8_t
  asps_log2MaxAtlasFrameOrderCntLsbMinus4 :: uint8_t
  asps_maxDecAtlasFrameBufferingMinus1 :: uint8_t
  asps_longTermRefAtlasFramesFlag :: bool
  asps_numRefAtlasFrameListsInAsps :: uint8_t
  asps_refListStruct :: "RefListStruct list"
  asps_useEightOrientationsFlag :: bool
  asps_extendedProjectionEnabledFlag :: bool
  asps_maxNumberProjectionsMinus1 :: size_t
  asps_normalAxisLimitsQuantizationEnabledFlag :: bool
  asps_normalAxisMaxDeltaValueEnabledFlag :: bool
  asps_patchPrecedenceOrderFlag :: bool
  asps_log2PatchPackingBlockSize :: uint8_t
  asps_patchSizeQuantizerPresentFlag :: bool
  asps_mapCountMinus1 :: uint8_t
  asps_pixelDeinterleavingFlag :: bool
  asps_pixelDeinterleavingMapFlag :: "bool list"
  asps_eomPatchEnabledFlag :: bool
  asps_eomFixBitCountMinus1 :: uint8_t
  asps_rawPatchEnabledFlag :: bool
  asps_auxiliaryVideoEnabledFlag :: bool
  asps_PLREnabledFlag :: bool
  asps_plrInformation :: "PLRInformation list"
  asps_vuiParametersPresentFlag :: bool
  asps_extensionFlag :: bool
  asps_vpccExtensionFlag :: bool
  asps_extension7Bits :: uint8_t
  asps_vuiParameters :: VUIParameters
  asps_aspsVpccExtension :: AspsVpccExtension

definition asps_new :: AtlasSequenceParameterSetRbsp where
  "asps_new = \<lparr>asps_atlasSequenceParameterSetId = 0, asps_frameWidth = 0,
     asps_frameHeight = 0, asps_geometry2dBitdepthMinus1 = 0, asps_geometry3dBitdepthMinus1 = 0,
     asps_log2MaxAtlasFrameOrderCntLsbMinus4 = 4, asps_maxDecAtlasFrameBufferingMinus1 = 0,
     asps_longTermRefAtlasFramesFlag = False, asps_numRefAtlasFrameListsInAsps = 0,
     asps_refListStruct = [], asps_useEightOrientationsFlag = False,
     asps_extendedProjectionEnabledFlag = False, asps_maxNumberProjectionsMinus1 = 5,
     asps_normalAxisLimitsQuantizationEnabledFlag = True,
     asps_normalAxisMaxDeltaValueEnabledFlag = False, asps_patchPrecedenceOrderFlag = False,
     asps_log2PatchPackingBlockSize = 0, asps_patchSizeQuantizerPresentFlag = False,
     asps_mapCountMinus1 = 0, asps_pixelDeinterleavingFlag = False,
     asps_pixelDeinterleavingMapFlag = [], asps_eomPatchEnabledFlag = False,
     asps_eomFixBitCountMinus1 = 0, asps_rawPatchEnabledFlag = False,
     asps_auxiliaryVideoEnabledFlag = False, asps_PLREnabledFlag = False, asps_plrInformation = [],
     asps_vuiParametersPresentFlag = False, asps_extensionFlag = False,
     asps_vpccExtensionFlag = False, asps_extension7Bits = 0, asps_vuiParameters = vp_new,
     asps_aspsVpccExtension = avext_new\<rparr>"

section \<open>Reference list structures\<close>

text \<open>\<open>uint8_t bitCount = asps.getLog2MaxAtlasFrameOrderCntLsbMinus4() + 4\<close> is taken modulo 256.\<close>

definition rls_bitCount :: "AtlasSequenceParameterSetRbsp \<Rightarrow> nat" where
  "rls_bitCount asps = unat (asps_log2MaxAtlasFrameOrderCntLsbMinus4 asps + 4)"

definition rls_entry_w :: "AtlasSequenceParameterSetRbsp \<Rightarrow> RefListStruct \<Rightarrow> nat \<Rightarrow> PCCBitstream \<Rightarrow> PCCBitstream option" where
  "rls_entry_w asps rls i bs = do {
     bs \<leftarrow> (if asps_longTermRefAtlasFramesFlag asps then do {
         v \<leftarrow> vec_at (rls_stRefAtlasFrameFlag rls) i;
         bs \<leftarrow> bs_write (b2u v) 1 bs;
         Some bs
       } else Some bs);
     st \<leftarrow> vec_at (rls_stRefAtlasFrameFlag rls) i;
     bs \<leftarrow> (if st then do {
         v \<leftarrow> vec_at (rls_absDeltaAfocSt rls) i;
         bs \<leftarrow> bs_writeUvlc (ucast v) bs;
         d \<leftarrow> vec_at (rls_absDeltaAfocSt rls) i;
         bs \<leftarrow> (if 0 < d then do {
             v \<leftarrow> vec_at (rls_strpfEntrySignFlag rls) i;
             bs \<leftarrow> bs_write (b2u v) 1 bs;
             Some bs
           } else Some bs);
         Some bs
       } else do {
         v \<leftarrow> vec_at (rls_afocLsbLt rls) i;
         bs \<leftarrow> bs_write (ucast v) (rls_bitCount asps) bs;
         Some bs
       });
     Some bs
   }"

definition rls_entry_r :: "AtlasSequenceParameterSetRbsp \<Rightarrow> nat \<Rightarrow> RefListStruct \<Rightarrow> PCCBitstream \<Rightarrow> (RefListStruct \<times> PCCBitstream) option" where
  "rls_entry_r asps i rls bs = do {
     (rls, bs) \<leftarrow> (if asps_longTermRefAtlasFramesFlag asps then do {
         (v, bs) \<leftarrow> bs_read 1 bs;
         l \<leftarrow> vec_set (rls_stRefAtlasFrameFlag rls) i (v \<noteq> 0);
         let rls = rls\<lparr>rls_stRefAtlasFrameFlag := l\<rparr>;
         Some (rls, bs)
       } else do {
         l \<leftarrow> vec_set (rls_stRefAtlasFrameFlag rls) i True;
         let rls = rls\<lparr>rls_stRefAtlasFrameFlag := l\<rparr>;
         Some (rls, bs)
       });
     st \<leftarrow> vec_at (rls_stRefAtlasFrameFlag rls) i;
     (rls, bs) \<leftarrow> (if st then do {
         (v, bs) \<leftarrow> bs_readUvlc bs;
         l \<leftarrow> vec_set (rls_absDeltaAfocSt rls) i (ucast v);
         let rls = rls\<lparr>rls_absDeltaAfocSt := l\<rparr>;
         d \<leftarrow> vec_at (rls_absDeltaAfocSt rls) i;
         (rls, bs) \<leftarrow> (if 0 < d then do {
             (v, bs) \<leftarrow> bs_read 1 bs;
             l \<leftarrow> vec_set (rls_strpfEntrySignFlag rls) i (v \<noteq> 0);
             let rls = rls\<lparr>rls_strpfEntrySignFlag := l\<rparr>;
             Some (rls, bs)
           } else do {
             l \<leftarrow> vec_set (rls_strpfEntrySignFlag rls) i True;
             let rls = rls\<lparr>rls_strpfEntrySignFlag := l\<rparr>;
             Some (rls, bs)
           });
         Some (rls, bs)
       } else do {
         (v, bs) \<leftarrow> bs_read (rls_bitCount asps) bs;
         l \<leftarrow> vec_set (rls_afocLsbLt rls) i (ucast v);
         let rls = rls\<lparr>rls_afocLsbLt := l\<rparr>;
         Some (rls, bs)
       });
     Some (rls, bs)
   }"

definition refListStruct_w :: "AtlasSequenceParameterSetRbsp \<Rightarrow> RefListStruct \<Rightarrow> PCCBitstream \<Rightarrow> PCCBitstream option" where
  "refListStruct_w asps rls bs = do {
     bs \<leftarrow> bs_writeUvlc (ucast (rls_numRefEntries rls)) bs;
     bs \<leftarrow> for_loop [0..<unat (rls_numRefEntries rls)] (rls_entry_w asps rls) bs;
     Some bs
   }"

definition refListStruct_r :: "AtlasSequenceParameterSetRbsp \<Rightarrow> RefListStruct \<Rightarrow> PCCBitstream \<Rightarrow> (RefListStruct \<times> PCCBitstream) option" where
  "refListStruct_r asps rls bs = do {
     (v, bs) \<leftarrow> bs_readUvlc bs;
     let rls = rls\<lparr>rls_numRefEntries := ucast v\<rparr>;
     let n = unat (rls_numRefEntries rls);
     let rls = rls\<lparr>rls_absDeltaAfocSt := vec_resize n 0 (rls_absDeltaAfocSt rls), rls_afocLsbLt := vec_resize n 0 (rls_afocLsbLt rls),
       rls_stRefAtlasFrameFlag := vec_resize n False (rls_stRefAtlasFrameFlag rls), rls_strpfEntrySignFlag := vec_resize n False (rls_strpfEntrySignFlag rls)\<rparr>;
     (rls, bs) \<leftarrow> for_loop [0..<unat (rls_numRefEntries rls)] (\<lambda>i (rls, bs). rls_entry_r asps i rls bs) (rls, bs);
     Some (rls, bs)
   }"

section \<open>Point local reconstruction information\<close>

definition plri_mode_w :: "PLRInformation \<Rightarrow> nat \<Rightarrow> PCCBitstream \<Rightarrow> PCCBitstream option" where
  "plri_mode_w plri i bs = do {
     v \<leftarrow> vec_at (plri_interpolateFlag plri) i;
     bs \<leftarrow> bs_write (b2u v) 1 bs;
     v \<leftarrow> vec_at (plri_fillingFlag plri) i;
     bs \<leftarrow> bs_write (b2u v) 1 bs;
     v \<leftarrow> vec_at (plri_minimumDepth plri) i;
     bs \<leftarrow> bs_write (ucast v) 2 bs;
     v \<leftarrow> vec_at (plri_neighbourMinus1 plri) i;
     bs \<leftarrow> bs_write (ucast v) 2 bs;
     Some bs
   }"

definition plri_mode_r :: "nat \<Rightarrow> PLRInformation \<Rightarrow> PCCBitstream \<Rightarrow> (PLRInformation \<times> PCCBitstream) option" where
  "plri_mode_r i plri bs = do {
     (v, bs) \<leftarrow> bs_read 1 bs;
     l \<leftarrow> vec_set (plri_interpolateFlag plri) i (v \<noteq> 0);
     let plri = plri\<lparr>plri_interpolateFlag := l\<rparr>;
     (v, bs) \<leftarrow> bs_read 1 bs;
     l \<leftarrow> vec_set (plri_fillingFlag plri) i (v \<noteq> 0);
     let plri = plri\<lparr>plri_fillingFlag := l\<rparr>;
     (v, bs) \<leftarrow> bs_read 2 bs;
     l \<leftarrow> vec_set (plri_minimumDepth plri) i (ucast v);
     let plri = plri\<lparr>plri_minimumDepth := l\<rparr>;
     (v, bs) \<leftarrow> bs_read 2 bs;
     l \<leftarrow> vec_set (plri_neighbourMinus1 plri) i (ucast v);
     let plri = plri\<lparr>plri_neighbourMinus1 := l\<rparr>;
     Some (plri, bs)
   }"

definition plri_map_w :: "PLRInformation \<Rightarrow> PCCBitstream \<Rightarrow> PCCBitstream option" where
  "plri_map_w plri bs = do {
     bs \<leftarrow> bs_write (b2u (plri_mapEnabledFlag plri)) 1 bs;
     bs \<leftarrow> (if plri_mapEnabledFlag plri then do {
         bs \<leftarrow> bs_write (ucast (plri_numberOfModesMinus1 plri)) 4 bs;
         bs \<leftarrow> for_loop [0..<unat (plri_numberOfModesMinus1 plri)] (plri_mode_w plri) bs;
         bs \<leftarrow> bs_write (ucast (plri_blockThresholdPerPatchMinus1 plri)) 6 bs;
         Some bs
       } else Some bs);
     Some bs
   }"

definition plri_map_r :: "PLRInformation \<Rightarrow> PCCBitstream \<Rightarrow> (PLRInformation \<times> PCCBitstream) option" where
  "plri_map_r plri bs = do {
     (v, bs) \<leftarrow> bs_read 1 bs;
     let plri = plri\<lparr>plri_mapEnabledFlag := v \<noteq> 0\<rparr>;
     (plri, bs) \<leftarrow> (if plri_mapEnabledFlag plri then do {
         (v, bs) \<leftarrow> bs_read 4 bs;
         let plri = plri\<lparr>plri_numberOfModesMinus1 := ucast v\<rparr>;
         let n = unat (plri_numberOfModesMinus1 plri) + 1;
         let plri = plri\<lparr>plri_minimumDepth := vec_resize n 0 (plri_minimumDepth plri), plri_neighbourMinus1 := vec_resize n 0 (plri_neighbourMinus1 plri),
           plri_interpolateFlag := vec_resize n False (plri_interpolateFlag plri), plri_fillingFlag := vec_resize n False (plri_fillingFlag plri)\<rparr>;
         (plri, bs) \<leftarrow> for_loop [0..<unat (plri_numberOfModesMinus1 plri)] (\<lambda>i (plri, bs). plri_mode_r i plri bs) (plri, bs);
         (v, bs) \<leftarrow> bs_read 6 bs;
         let plri = plri\<lparr>plri_blockThresholdPerPatchMinus1 := ucast v\<rparr>;
         Some (plri, bs)
       } else Some (plri, bs));
     Some (plri, bs)
   }"

definition plri_entry_w :: "AtlasSequenceParameterSetRbsp \<Rightarrow> nat \<Rightarrow> PCCBitstream \<Rightarrow> PCCBitstream option" where
  "plri_entry_w asps i bs = do {
     plri \<leftarrow> vec_at (asps_plrInformation asps) i;
     bs \<leftarrow> plri_map_w plri bs;
     Some bs
   }"

definition plri_entry_r :: "nat \<Rightarrow> AtlasSequenceParameterSetRbsp \<Rightarrow> PCCBitstream \<Rightarrow> (AtlasSequenceParameterSetRbsp \<times> PCCBitstream) option" where
  "plri_entry_r i asps bs = do {
     plri \<leftarrow> vec_at (asps_plrInformation asps) i;
     (plri, bs) \<leftarrow> plri_map_r plri bs;
     l \<leftarrow> vec_set (asps_plrInformation asps) i plri;
     let asps = asps\<lparr>asps_plrInformation := l\<rparr>;
     Some (asps, bs)
   }"

definition plrInformation_w :: "AtlasSequenceParameterSetRbsp \<Rightarrow> PCCBitstream \<Rightarrow> PCCBitstream option" where
  "plrInformation_w asps bs = do {
     bs \<leftarrow> for_loop [0..<unat (asps_mapCountMinus1 asps) + 1] (plri_entry_w asps) bs;
     Some bs
   }"

definition plrInformation_r :: "AtlasSequenceParameterSetRbsp \<Rightarrow> PCCBitstream \<Rightarrow> (AtlasSequenceParameterSetRbsp \<times> PCCBitstream) option" where
  "plrInformation_r asps bs = do {
     let asps = asps\<lparr>asps_plrInformation := vec_resize (unat (asps_mapCountMinus1 asps) + 1) plri_new (asps_plrInformation asps)\<rparr>;
     (asps, bs) \<leftarrow> for_loop [0..<unat (asps_mapCountMinus1 asps) + 1] (\<lambda>i (asps, bs). plri_entry_r i asps bs) (asps, bs);
     Some (asps, bs)
   }"

section \<open>VUI parameters\<close>

definition hlsp_entry_w :: "HrdSubLayerParameters \<Rightarrow> nat \<Rightarrow> PCCBitstream \<Rightarrow> PCCBitstream option" where
  "hlsp_entry_w hlsp i bs = do {
     v \<leftarrow> vec_at (hlsp_bitRateValueMinus1 hlsp) i;
     bs \<leftarrow> bs_writeUvlc v bs;
     v \<leftarrow> vec_at (hlsp_cabSizeValueMinus1 hlsp) i;
     bs \<leftarrow> bs_writeUvlc v bs;
     v \<leftarrow> vec_at (hlsp_cbrFlag hlsp) i;
     bs \<leftarrow> bs_write (b2u v) 1 bs;
     Some bs
   }"

definition hlsp_entry_r :: "nat \<Rightarrow> HrdSubLayerParameters \<Rightarrow> PCCBitstream \<Rightarrow> (HrdSubLayerParameters \<times> PCCBitstream) option" where
  "hlsp_entry_r i hlsp bs = do {
     (v, bs) \<leftarrow> bs_readUvlc bs;
     l \<leftarrow> vec_set (hlsp_bitRateValueMinus1 hlsp) i v;
     let hlsp = hlsp\<lparr>hlsp_bitRateValueMinus1 := l\<rparr>;
     (v, bs) \<leftarrow> bs_readUvlc bs;
     l \<leftarrow> vec_set (hlsp_cabSizeValueMinus1 hlsp) i v;
     let hlsp = hlsp\<lparr>hlsp_cabSizeValueMinus1 := l\<rparr>;
     (v, bs) \<leftarrow> bs_read 1 bs;
     l \<leftarrow> vec_set (hlsp_cbrFlag hlsp) i (v \<noteq> 0);
     let hlsp = hlsp\<lparr>hlsp_cbrFlag := l\<rparr>;
     Some (hlsp, bs)
   }"

definition hrdSubLayerParameters_w :: "nat \<Rightarrow> HrdSubLayerParameters \<Rightarrow> PCCBitstream \<Rightarrow> PCCBitstream option" where
  "hrdSubLayerParameters_w cabCnt hlsp bs = do {
     bs \<leftarrow> for_loop [0..<cabCnt + 1] (hlsp_entry_w hlsp) bs;
     Some bs
   }"

definition hrdSubLayerParameters_r :: "nat \<Rightarrow> HrdSubLayerParameters \<Rightarrow> PCCBitstream \<Rightarrow> (HrdSubLayerParameters \<times> PCCBitstream) option" where
  "hrdSubLayerParameters_r cabCnt hlsp bs = do {
     let hlsp = hlsp\<lparr>hlsp_bitRateValueMinus1 := vec_resize (cabCnt + 1) 0 (hlsp_bitRateValueMinus1 hlsp), hlsp_cabSizeValueMinus1 := vec_resize (cabCnt + 1) 0 (hlsp_cabSizeValueMinus1 hlsp), hlsp_cbrFlag := vec_resize (cabCnt + 1) False (hlsp_cbrFlag hlsp)\<rparr>;
     (hlsp, bs) \<leftarrow> for_loop [0..<cabCnt + 1] (\<lambda>i (hlsp, bs). hlsp_entry_r i hlsp bs) (hlsp, bs);
     Some (hlsp, bs)
   }"

text \<open>The getter of \<open>elementalDurationInTcMinus1\<close> returns a \<open>bool\<close>, so one bit is written.\<close>

definition hrd_layer_w :: "HrdParameters \<Rightarrow> nat \<Rightarrow> PCCBitstream \<Rightarrow> PCCBitstream option" where
  "hrd_layer_w hp i bs = do {
     v \<leftarrow> vec_at (hp_fixedAtlasRateGeneralFlag hp) i;
     bs \<leftarrow> bs_write (b2u v) 1 bs;
     general \<leftarrow> vec_at (hp_fixedAtlasRateGeneralFlag hp) i;
     bs \<leftarrow> (if \<not> general then do {
         v \<leftarrow> vec_at (hp_fixedAtlasRateWithinCasFlag hp) i;
         bs \<leftarrow> bs_write (b2u v) 1 bs;
         Some bs
       } else Some bs);
     within \<leftarrow> vec_at (hp_fixedAtlasRateWithinCasFlag hp) i;
     bs \<leftarrow> (if within then do {
         v \<leftarrow> vec_at (hp_elementalDurationInTcMinus1 hp) i;
         bs \<leftarrow> bs_write (b2u (v \<noteq> 0)) 1 bs;
         Some bs
       } else do {
         v \<leftarrow> vec_at (hp_lowDelayFlag hp) i;
         bs \<leftarrow> bs_write (b2u v) 1 bs;
         Some bs
       });
     low \<leftarrow> vec_at (hp_lowDelayFlag hp) i;
     bs \<leftarrow> (if \<not> low then do {
         v \<leftarrow> vec_at (hp_cabCntMinus1 hp) i;
         bs \<leftarrow> bs_write v 1 bs;
         Some bs
       } else Some bs);
     bs \<leftarrow> (if hp_nalParametersPresentFlag hp then do {
         cnt \<leftarrow> vec_at (hp_cabCntMinus1 hp) i;
         hlsp \<leftarrow> vec_at (hp_subLayerParameters0 hp) i;
         bs \<leftarrow> hrdSubLayerParameters_w (unat cnt) hlsp bs;
         Some bs
       } else Some bs);
     bs \<leftarrow> (if hp_aclParametersPresentFlag hp then do {
         cnt \<leftarrow> vec_at (hp_cabCntMinus1 hp) i;
         hlsp \<leftarrow> vec_at (hp_subLayerParameters1 hp) i;
         bs \<leftarrow> hrdSubLayerParameters_w (unat cnt) hlsp bs;
         Some bs
       } else Some bs);
     Some bs
   }"

definition hrd_layer_r :: "nat \<Rightarrow> HrdParameters \<Rightarrow> PCCBitstream \<Rightarrow> (HrdParameters \<times> PCCBitstream) option" where
  "hrd_layer_r i hp bs = do {
     (v, bs) \<leftarrow> bs_read 1 bs;
     l \<leftarrow> vec_set (hp_fixedAtlasRateGeneralFlag hp) i (v \<noteq> 0);
     let hp = hp\<lparr>hp_fixedAtlasRateGeneralFlag := l\<rparr>;
     general \<leftarrow> vec_at (hp_fixedAtlasRateGeneralFlag hp) i;
     (hp, bs) \<leftarrow> (if \<not> general then do {
         (v, bs) \<leftarrow> bs_read 1 bs;
         l \<leftarrow> vec_set (hp_fixedAtlasRateWithinCasFlag hp) i (v \<noteq> 0);
         let hp = hp\<lparr>hp_fixedAtlasRateWithinCasFlag := l\<rparr>;
         Some (hp, bs)
       } else Some (hp, bs));
     within \<leftarrow> vec_at (hp_fixedAtlasRateWithinCasFlag hp) i;
     (hp, bs) \<leftarrow> (if within then do {
         (v, bs) \<leftarrow> bs_read 1 bs;
         l \<leftarrow> vec_set (hp_elementalDurationInTcMinus1 hp) i v;
         let hp = hp\<lparr>hp_elementalDurationInTcMinus1 := l\<rparr>;
         Some (hp, bs)
       } else do {
         (v, bs) \<leftarrow> bs_read 1 bs;
         l \<leftarrow> vec_set (hp_lowDelayFlag hp) i (v \<noteq> 0);
         let hp = hp\<lparr>hp_lowDelayFlag := l\<rparr>;
         Some (hp, bs)
       });
     low \<leftarrow> vec_at (hp_lowDelayFlag hp) i;
     (hp, bs) \<leftarrow> (if \<not> low then do {
         (v, bs) \<leftarrow> bs_read 1 bs;
         l \<leftarrow> vec_set (hp_cabCntMinus1 hp) i v;
         let hp = hp\<lparr>hp_cabCntMinus1 := l\<rparr>;
         Some (hp, bs)
       } else Some (hp, bs));
     (hp, bs) \<leftarrow> (if hp_nalParametersPresentFlag hp then do {
         cnt \<leftarrow> vec_at (hp_cabCntMinus1 hp) i;
         hlsp \<leftarrow> vec_at (hp_subLayerParameters0 hp) i;
         (hlsp, bs) \<leftarrow> hrdSubLayerParameters_r (unat cnt) hlsp bs;
         l \<leftarrow> vec_set (hp_subLayerParameters0 hp) i hlsp;
         let hp = hp\<lparr>hp_subLayerParameters0 := l\<rparr>;
         Some (hp, bs)
       } else Some (hp, bs));
     (hp, bs) \<leftarrow> (if hp_aclParametersPresentFlag hp then do {
         cnt \<leftarrow> vec_at (hp_cabCntMinus1 hp) i;
         hlsp \<leftarrow> vec_at (hp_subLayerParameters1 hp) i;
         (hlsp, bs) \<leftarrow> hrdSubLayerParameters_r (unat cnt) hlsp bs;
         l \<leftarrow> vec_set (hp_subLayerParameters1 hp) i hlsp;
         let hp = hp\<lparr>hp_subLayerParameters1 := l\<rparr>;
         Some (hp, bs)
       } else Some (hp, bs));
     Some (hp, bs)
   }"

definition hrdParameters_w :: "HrdParameters \<Rightarrow> PCCBitstream \<Rightarrow> PCCBitstream option" where
  "hrdParameters_w hp bs = do {
     bs \<leftarrow> bs_write (b2u (hp_nalParametersPresentFlag hp)) 1 bs;
     bs \<leftarrow> bs_write (b2u (hp_aclParametersPresentFlag hp)) 1 bs;
     bs \<leftarrow> (if hp_nalParametersPresentFlag hp \<or> hp_aclParametersPresentFlag hp then do {
         bs \<leftarrow> bs_write (ucast (hp_bitRateScale hp)) 4 bs;
         bs \<leftarrow> bs_write (ucast (hp_cabSizeScale hp)) 4 bs;
         Some bs
       } else Some bs);
     bs \<leftarrow> for_loop [0..<0 + 1] (hrd_layer_w hp) bs;
     Some bs
   }"

definition hrdParameters_r :: "HrdParameters \<Rightarrow> PCCBitstream \<Rightarrow> (HrdParameters \<times> PCCBitstream) option" where
  "hrdParameters_r hp bs = do {
     (v, bs) \<leftarrow> bs_read 1 bs;
     let hp = hp\<lparr>hp_nalParametersPresentFlag := v \<noteq> 0\<rparr>;
     (v, bs) \<leftarrow> bs_read 1 bs;
     let hp = hp\<lparr>hp_aclParametersPresentFlag := v \<noteq> 0\<rparr>;
     (hp, bs) \<leftarrow> (if hp_nalParametersPresentFlag hp \<or> hp_aclParametersPresentFlag hp then do {
         (v, bs) \<leftarrow> bs_read 4 bs;
         let hp = hp\<lparr>hp_bitRateScale := ucast v\<rparr>;
         (v, bs) \<leftarrow> bs_read 4 bs;
         let hp = hp\<lparr>hp_cabSizeScale := ucast v\<rparr>;
         Some (hp, bs)
       } else Some (hp, bs));
     (hp, bs) \<leftarrow> for_loop [0..<0 + 1] (\<lambda>i (hp, bs). hrd_layer_r i hp bs) (hp, bs);
     Some (hp, bs)
   }"

definition maxCodedVideoResolution_w :: "MaxCodedVideoResolution \<Rightarrow> PCCBitstream \<Rightarrow> PCCBitstream option" where
  "maxCodedVideoResolution_w mcvr bs = do {
     bs \<leftarrow> bs_write (b2u (mcvr_occupancyResolutionPresentFlag mcvr)) 1 bs;
     bs \<leftarrow> bs_write (b2u (mcvr_geometryResolutionPresentFlag mcvr)) 1 bs;
     bs \<leftarrow> bs_write (b2u (mcvr_attributeResolutionPresentFlag mcvr)) 1 bs;
     bs \<leftarrow> (if mcvr_occupancyResolutionPresentFlag mcvr then do {
         bs \<leftarrow> bs_writeUvlc (mcvr_occupancyWidth mcvr) bs;
         bs \<leftarrow> bs_writeUvlc (mcvr_occupancyHeight mcvr) bs;
         Some bs
       } else Some bs);
     bs \<leftarrow> (if mcvr_geometryResolutionPresentFlag mcvr then do {
         bs \<leftarrow> bs_writeUvlc (mcvr_geometryWidth mcvr) bs;
         bs \<leftarrow> bs_writeUvlc (mcvr_geometryHeight mcvr) bs;
         Some bs
       } else Some bs);
     bs \<leftarrow> (if mcvr_attributeResolutionPresentFlag mcvr then do {
         bs \<leftarrow> bs_writeUvlc (mcvr_attributeWidth mcvr) bs;
         bs \<leftarrow> bs_writeUvlc (mcvr_attributeHeight mcvr) bs;
         Some bs
       } else Some bs);
     Some bs
   }"

definition maxCodedVideoResolution_r :: "MaxCodedVideoResolution \<Rightarrow> PCCBitstream \<Rightarrow> (MaxCodedVideoResolution \<times> PCCBitstream) option" where
  "maxCodedVideoResolution_r mcvr bs = do {
     (v, bs) \<leftarrow> bs_read 1 bs;
     let mcvr = mcvr\<lparr>mcvr_occupancyResolutionPresentFlag := v \<noteq> 0\<rparr>;
     (v, bs) \<leftarrow> bs_read 1 bs;
     let mcvr = mcvr\<lparr>mcvr_geometryResolutionPresentFlag := v \<noteq> 0\<rparr>;
     (v, bs) \<leftarrow> bs_read 1 bs;
     let mcvr = mcvr\<lparr>mcvr_attributeResolutionPresentFlag := v \<noteq> 0\<rparr>;
     (mcvr, bs) \<leftarrow> (if mcvr_occupancyResolutionPresentFlag mcvr then do {
         (v, bs) \<leftarrow> bs_readUvlc bs;
         let mcvr = mcvr\<lparr>mcvr_occupancyWidth := v\<rparr>;
         (v, bs) \<leftarrow> bs_readUvlc bs;
         let mcvr = mcvr\<lparr>mcvr_occupancyHeight := v\<rparr>;
         Some (mcvr, bs)
       } else Some (mcvr, bs));
     (mcvr, bs) \<leftarrow> (if mcvr_geometryResolutionPresentFlag mcvr then do {
         (v, bs) \<leftarrow> bs_readUvlc bs;
         let mcvr = mcvr\<lparr>mcvr_geometryWidth := v\<rparr>;
         (v, bs) \<leftarrow> bs_readUvlc bs;
         let mcvr = mcvr\<lparr>mcvr_geometryHeight := v\<rparr>;
         Some (mcvr, bs)
       } else Some (mcvr, bs));
     (mcvr, bs) \<leftarrow> (if mcvr_attributeResolutionPresentFlag mcvr then do {
         (v, bs) \<leftarrow> bs_readUvlc bs;
         let mcvr = mcvr\<lparr>mcvr_attributeWidth := v\<rparr>;
         (v, bs) \<leftarrow> bs_readUvlc bs;
         let mcvr = mcvr\<lparr>mcvr_attributeHeight := v\<rparr>;
         Some (mcvr, bs)
       } else Some (mcvr, bs));
     Some (mcvr, bs)
   }"

definition coordinateSystemParameters_w :: "CoordinateSystemParameters \<Rightarrow> PCCBitstream \<Rightarrow> PCCBitstream option" where
  "coordinateSystemParameters_w csp bs = do {
     bs \<leftarrow> bs_write (ucast (csp_forwardAxis csp)) 2 bs;
     bs \<leftarrow> bs_write (ucast (csp_deltaLeftAxis csp)) 1 bs;
     bs \<leftarrow> bs_write (ucast (csp_forwardSign csp)) 1 bs;
     bs \<leftarrow> bs_write (ucast (csp_leftSign csp)) 1 bs;
     bs \<leftarrow> bs_write (ucast (csp_upSign csp)) 1 bs;
     Some bs
   }"

definition coordinateSystemParameters_r :: "CoordinateSystemParameters \<Rightarrow> PCCBitstream \<Rightarrow> (CoordinateSystemParameters \<times> PCCBitstream) option" where
  "coordinateSystemParameters_r csp bs = do {
     (v, bs) \<leftarrow> bs_read 2 bs;
     let csp = csp\<lparr>csp_forwardAxis := ucast v\<rparr>;
     (v, bs) \<leftarrow> bs_read 1 bs;
     let csp = csp\<lparr>csp_deltaLeftAxis := ucast v\<rparr>;
     (v, bs) \<leftarrow> bs_read 1 bs;
     let csp = csp\<lparr>csp_forwardSign := ucast v\<rparr>;
     (v, bs) \<leftarrow> bs_read 1 bs;
     let csp = csp\<lparr>csp_leftSign := ucast v\<rparr>;
     (v, bs) \<leftarrow> bs_read 1 bs;
     let csp = csp\<lparr>csp_upSign := ucast v\<rparr>;
     Some (csp, bs)
   }"

text \<open>The anchor point is a \<open>float\<close> that is converted to \<open>uint32_t\<close> when it is written and back when
  it is read. \<open>float_to_u32\<close> truncates the single precision number with the given bit pattern
  (undefined outside the range of the target), \<open>u32_to_float\<close> rounds to nearest, ties to even.\<close>

definition float_to_u32 :: "uint32_t \<Rightarrow> uint32_t option" where
  "float_to_u32 w = (let e = unat (drop_bit 23 w AND 255); m = unat (w AND (2 ^ 23 - 1));
       n = (if e < 127 then 0 else if 150 \<le> e then (2 ^ 23 + m) * 2 ^ (e - 150) else (2 ^ 23 + m) div 2 ^ (150 - e)) in
     if 159 \<le> e \<or> (bit w 31 \<and> 0 < n) then None else Some (of_nat n))"

fun highest_bit :: "nat \<Rightarrow> nat" where
  "highest_bit n = (if n < 2 then 0 else Suc (highest_bit (n div 2)))"

definition u32_to_float :: "uint32_t \<Rightarrow> uint32_t" where
  "u32_to_float v = (let n = unat v; k = highest_bit n; s = k - 23; q = n div 2 ^ s; r = n mod 2 ^ s;
       m = (if k \<le> 23 then n * 2 ^ (23 - k) else if 2 ^ s < 2 * r \<or> (2 ^ s = 2 * r \<and> odd q) then q + 1 else q) in
     if n = 0 then 0 else of_nat ((k + 127) * 2 ^ 23 + (m - 2 ^ 23)))"

definition vp_box_w :: "VUIParameters \<Rightarrow> nat \<Rightarrow> PCCBitstream \<Rightarrow> PCCBitstream option" where
  "vp_box_w vp i bs = do {
     v \<leftarrow> vec_at (vp_displayBoxOrigin vp) i;
     bs \<leftarrow> bs_writeUvlc v bs;
     v \<leftarrow> vec_at (vp_displayBoxSize vp) i;
     bs \<leftarrow> bs_writeUvlc v bs;
     Some bs
   }"

definition vp_box_r :: "nat \<Rightarrow> VUIParameters \<Rightarrow> PCCBitstream \<Rightarrow> (VUIParameters \<times> PCCBitstream) option" where
  "vp_box_r i vp bs = do {
     (v, bs) \<leftarrow> bs_readUvlc bs;
     l \<leftarrow> vec_set (vp_displayBoxOrigin vp) i v;
     let vp = vp\<lparr>vp_displayBoxOrigin := l\<rparr>;
     (v, bs) \<leftarrow> bs_readUvlc bs;
     l \<leftarrow> vec_set (vp_displayBoxSize vp) i v;
     let vp = vp\<lparr>vp_displayBoxSize := l\<rparr>;
     Some (vp, bs)
   }"

definition vp_anchor_w :: "VUIParameters \<Rightarrow> nat \<Rightarrow> PCCBitstream \<Rightarrow> PCCBitstream option" where
  "vp_anchor_w vp i bs = do {
     v \<leftarrow> vec_at (vp_anchorPoint vp) i;
     v \<leftarrow> float_to_u32 v;
     bs \<leftarrow> bs_writeUvlc v bs;
     Some bs
   }"

definition vp_anchor_r :: "nat \<Rightarrow> VUIParameters \<Rightarrow> PCCBitstream \<Rightarrow> (VUIParameters \<times> PCCBitstream) option" where
  "vp_anchor_r i vp bs = do {
     (v, bs) \<leftarrow> bs_readUvlc bs;
     l \<leftarrow> vec_set (vp_anchorPoint vp) i (u32_to_float v);
     let vp = vp\<lparr>vp_anchorPoint := l\<rparr>;
     Some (vp, bs)
   }"

text \<open>Only the writer has the maximum coded video resolution.\<close>

definition vuiParameters_w :: "VUIParameters \<Rightarrow> PCCBitstream \<Rightarrow> PCCBitstream option" where
  "vuiParameters_w vp bs = do {
     bs \<leftarrow> bs_write (b2u (vp_timingInfoPresentFlag vp)) 1 bs;
     bs \<leftarrow> (if vp_timingInfoPresentFlag vp then do {
         bs \<leftarrow> bs_write (vp_numUnitsInTick vp) 32 bs;
         bs \<leftarrow> bs_write (vp_timeScale vp) 32 bs;
         bs \<leftarrow> bs_write (b2u (vp_pocProportionalToTimingFlag vp)) 1 bs;
         bs \<leftarrow> (if vp_pocProportionalToTimingFlag vp then do {
             bs \<leftarrow> bs_writeUvlc (vp_numTicksPocDiffOneMinus1 vp) bs;
             Some bs
           } else Some bs);
         bs \<leftarrow> bs_write (b2u (vp_hrdParametersPresentFlag vp)) 1 bs;
         bs \<leftarrow> (if vp_hrdParametersPresentFlag vp then do {
             bs \<leftarrow> hrdParameters_w (vp_hrdParameters vp) bs;
             Some bs
           } else Some bs);
         Some bs
       } else Some bs);
     bs \<leftarrow> bs_write (b2u (vp_tileRestrictionsPresentFlag vp)) 1 bs;
     bs \<leftarrow> (if vp_tileRestrictionsPresentFlag vp then do {
         bs \<leftarrow> bs_write (b2u (vp_fixedAtlasTileStructureFlag vp)) 1 bs;
         bs \<leftarrow> bs_write (b2u (vp_fixedVideoTileStructureFlag vp)) 1 bs;
         bs \<leftarrow> bs_writeUvlc (vp_constrainedTilesAcrossV3cComponentsIdc vp) bs;
         bs \<leftarrow> bs_writeUvlc (vp_maxNumTilesPerAtlasMinus1 vp) bs;
         Some bs
       } else Some bs);
     bs \<leftarrow> bs_write (b2u (vp_maxCodedVideoResolutionPresentFlag vp)) 1 bs;
     bs \<leftarrow> (if vp_maxCodedVideoResolutionPresentFlag vp
           then maxCodedVideoResolution_w (vp_maxCodedVideoResolution vp) bs else Some bs);
     bs \<leftarrow> bs_write (b2u (vp_coordinateSystemParametersPresentFlag vp)) 1 bs;
     bs \<leftarrow> (if vp_coordinateSystemParametersPresentFlag vp then do {
         bs \<leftarrow> coordinateSystemParameters_w (vp_coordinateSystemParameters vp) bs;
         Some bs
       } else Some bs);
     bs \<leftarrow> bs_write (b2u (vp_unitInMetresFlag vp)) 1 bs;
     bs \<leftarrow> bs_write (b2u (vp_displayBoxInfoPresentFlag vp)) 1 bs;
     bs \<leftarrow> (if vp_displayBoxInfoPresentFlag vp then do {
         bs \<leftarrow> for_loop [0..<3] (vp_box_w vp) bs;
         bs \<leftarrow> bs_write (b2u (vp_anchorPointPresentFlag vp)) 1 bs;
         bs \<leftarrow> (if vp_anchorPointPresentFlag vp then do {
             bs \<leftarrow> for_loop [0..<3] (vp_anchor_w vp) bs;
             Some bs
           } else Some bs);
         Some bs
       } else Some bs);
     Some bs
   }"

definition vuiParameters_r :: "VUIParameters \<Rightarrow> PCCBitstream \<Rightarrow> (VUIParameters \<times> PCCBitstream) option" where
  "vuiParameters_r vp bs = do {
     (v, bs) \<leftarrow> bs_read 1 bs;
     let vp = vp\<lparr>vp_timingInfoPresentFlag := v \<noteq> 0\<rparr>;
     (vp, bs) \<leftarrow> (if vp_timingInfoPresentFlag vp then do {
         (v, bs) \<leftarrow> bs_read 32 bs;
         let vp = vp\<lparr>vp_numUnitsInTick := v\<rparr>;
         (v, bs) \<leftarrow> bs_read 32 bs;
         let vp = vp\<lparr>vp_timeScale := v\<rparr>;
         (v, bs) \<leftarrow> bs_read 1 bs;
         let vp = vp\<lparr>vp_pocProportionalToTimingFlag := v \<noteq> 0\<rparr>;
         (vp, bs) \<leftarrow> (if vp_pocProportionalToTimingFlag vp then do {
             (v, bs) \<leftarrow> bs_readUvlc bs;
             let vp = vp\<lparr>vp_numTicksPocDiffOneMinus1 := v\<rparr>;
             Some (vp, bs)
           } else Some (vp, bs));
         (v, bs) \<leftarrow> bs_read 1 bs;
         let vp = vp\<lparr>vp_hrdParametersPresentFlag := v \<noteq> 0\<rparr>;
         (vp, bs) \<leftarrow> (if vp_hrdParametersPresentFlag vp then do {
             (sub, bs) \<leftarrow> hrdParameters_r (vp_hrdParameters vp) bs;
             let vp = vp\<lparr>vp_hrdParameters := sub\<rparr>;
             Some (vp, bs)
           } else Some (vp, bs));
         Some (vp, bs)
       } else Some (vp, bs));
     (v, bs) \<leftarrow> bs_read 1 bs;
     let vp = vp\<lparr>vp_tileRestrictionsPresentFlag := v \<noteq> 0\<rparr>;
     (vp, bs) \<leftarrow> (if vp_tileRestrictionsPresentFlag vp then do {
         (v, bs) \<leftarrow> bs_read 1 bs;
         let vp = vp\<lparr>vp_fixedAtlasTileStructureFlag := v \<noteq> 0\<rparr>;
         (v, bs) \<leftarrow> bs_read 1 bs;
         let vp = vp\<lparr>vp_fixedVideoTileStructureFlag := v \<noteq> 0\<rparr>;
         (v, bs) \<leftarrow> bs_readUvlc bs;
         let vp = vp\<lparr>vp_constrainedTilesAcrossV3cComponentsIdc := v\<rparr>;
         (v, bs) \<leftarrow> bs_readUvlc bs;
         let vp = vp\<lparr>vp_maxNumTilesPerAtlasMinus1 := v\<rparr>;
         Some (vp, bs)
       } else Some (vp, bs));
     (v, bs) \<leftarrow> bs_read 1 bs;
     let vp = vp\<lparr>vp_coordinateSystemParametersPresentFlag := v \<noteq> 0\<rparr>;
     (vp, bs) \<leftarrow> (if vp_coordinateSystemParametersPresentFlag vp then do {
         (sub, bs) \<leftarrow> coordinateSystemParameters_r (vp_coordinateSystemParameters vp) bs;
         let vp = vp\<lparr>vp_coordinateSystemParameters := sub\<rparr>;
         Some (vp, bs)
       } else Some (vp, bs));
     (v, bs) \<leftarrow> bs_read 1 bs;
     let vp = vp\<lparr>vp_unitInMetresFlag := v \<noteq> 0\<rparr>;
     (v, bs) \<leftarrow> bs_read 1 bs;
     let vp = vp\<lparr>vp_displayBoxInfoPresentFlag := v \<noteq> 0\<rparr>;
     (vp, bs) \<leftarrow> (if vp_displayBoxInfoPresentFlag vp then do {
         (vp, bs) \<leftarrow> for_loop [0..<3] (\<lambda>i (vp, bs). vp_box_r i vp bs) (vp, bs);
         (v, bs) \<leftarrow> bs_read 1 bs;
         let vp = vp\<lparr>vp_anchorPointPresentFlag := v \<noteq> 0\<rparr>;
         (vp, bs) \<leftarrow> (if vp_anchorPointPresentFlag vp then do {
             (vp, bs) \<leftarrow> for_loop [0..<3] (\<lambda>i (vp, bs). vp_anchor_r i vp bs) (vp, bs);
             Some (vp, bs)
           } else Some (vp, bs));
         Some (vp, bs)
       } else Some (vp, bs));
     Some (vp, bs)
   }"

section \<open>The atlas sequence parameter set\<close>

text \<open>\<open>moreRbspData\<close> is always false, so the loops over extension data never run, on either side.\<close>

definition rbspTrailingBits_w :: "PCCBitstream \<Rightarrow> PCCBitstream option" where
  "rbspTrailingBits_w bs = do { bs \<leftarrow> bs_write 1 1 bs; bs \<leftarrow> bs_padWrite 0 bs; Some bs }"

definition rbspTrailingBits_r :: "PCCBitstream \<Rightarrow> (unit \<times> PCCBitstream) option" where
  "rbspTrailingBits_r bs = do { (v, bs) \<leftarrow> bs_read 1 bs; (u, bs) \<leftarrow> bs_padRead bs; Some ((), bs) }"

definition aspsVpccExtension_w :: "AtlasSequenceParameterSetRbsp \<Rightarrow> AspsVpccExtension \<Rightarrow> PCCBitstream \<Rightarrow> PCCBitstream option" where
  "aspsVpccExtension_w asps ext bs = do {
     bs \<leftarrow> bs_write (b2u (avext_removeDuplicatePointEnableFlag ext)) 1 bs;
     bs \<leftarrow> (if asps_pixelDeinterleavingFlag asps \<or> asps_PLREnabledFlag asps then do {
         bs \<leftarrow> bs_write (ucast (avext_surfaceThicknessMinus1 ext)) 7 bs;
         Some bs
       } else Some bs);
     Some bs
   }"

definition aspsVpccExtension_r :: "AtlasSequenceParameterSetRbsp \<Rightarrow> AspsVpccExtension \<Rightarrow> PCCBitstream \<Rightarrow> (AspsVpccExtension \<times> PCCBitstream) option" where
  "aspsVpccExtension_r asps ext bs = do {
     (v, bs) \<leftarrow> bs_read 1 bs;
     let ext = ext\<lparr>avext_removeDuplicatePointEnableFlag := v \<noteq> 0\<rparr>;
     (ext, bs) \<leftarrow> (if asps_pixelDeinterleavingFlag asps \<or> asps_PLREnabledFlag asps then do {
         (v, bs) \<leftarrow> bs_read 7 bs;
         let ext = ext\<lparr>avext_surfaceThicknessMinus1 := ucast v\<rparr>;
         Some (ext, bs)
       } else Some (ext, bs));
     Some (ext, bs)
   }"

definition asps_ref_w :: "AtlasSequenceParameterSetRbsp \<Rightarrow> nat \<Rightarrow> PCCBitstream \<Rightarrow> PCCBitstream option" where
  "asps_ref_w asps i bs = do {
     rls \<leftarrow> vec_at (asps_refListStruct asps) i;
     bs \<leftarrow> refListStruct_w asps rls bs;
     Some bs
   }"

definition asps_ref_r :: "nat \<Rightarrow> AtlasSequenceParameterSetRbsp \<Rightarrow> PCCBitstream \<Rightarrow> (AtlasSequenceParameterSetRbsp \<times> PCCBitstream) option" where
  "asps_ref_r i asps bs = do {
     rls \<leftarrow> vec_at (asps_refListStruct asps) i;
     (rls, bs) \<leftarrow> refListStruct_r asps rls bs;
     l \<leftarrow> vec_set (asps_refListStruct asps) i rls;
     let asps = asps\<lparr>asps_refListStruct := l\<rparr>;
     Some (asps, bs)
   }"

definition asps_pixel_w :: "AtlasSequenceParameterSetRbsp \<Rightarrow> nat \<Rightarrow> PCCBitstream \<Rightarrow> PCCBitstream option" where
  "asps_pixel_w asps i bs = do {
     v \<leftarrow> vec_at (asps_pixelDeinterleavingMapFlag asps) i;
     bs \<leftarrow> bs_write (b2u v) 1 bs;
     Some bs
   }"

definition asps_pixel_r :: "nat \<Rightarrow> AtlasSequenceParameterSetRbsp \<Rightarrow> PCCBitstream \<Rightarrow> (AtlasSequenceParameterSetRbsp \<times> PCCBitstream) option" where
  "asps_pixel_r i asps bs = do {
     (v, bs) \<leftarrow> bs_read 1 bs;
     l \<leftarrow> vec_set (asps_pixelDeinterleavingMapFlag asps) i (v \<noteq> 0);
     let asps = asps\<lparr>asps_pixelDeinterleavingMapFlag := l\<rparr>;
     Some (asps, bs)
   }"

definition atlasSequenceParameterSetRbsp_w :: "AtlasSequenceParameterSetRbsp \<Rightarrow> PCCBitstream \<Rightarrow> PCCBitstream option" where
  "atlasSequenceParameterSetRbsp_w asps bs = do {
     bs \<leftarrow> bs_writeUvlc (ucast (asps_atlasSequenceParameterSetId asps)) bs;
     bs \<leftarrow> bs_writeUvlc (ucast (asps_frameWidth asps)) bs;
     bs \<leftarrow> bs_writeUvlc (ucast (asps_frameHeight asps)) bs;
     bs \<leftarrow> bs_write (ucast (asps_geometry3dBitdepthMinus1 asps)) 5 bs;
     bs \<leftarrow> bs_write (ucast (asps_geometry2dBitdepthMinus1 asps)) 5 bs;
     bs \<leftarrow> bs_writeUvlc (ucast (asps_log2MaxAtlasFrameOrderCntLsbMinus4 asps)) bs;
     bs \<leftarrow> bs_writeUvlc (ucast (asps_maxDecAtlasFrameBufferingMinus1 asps)) bs;
     bs \<leftarrow> bs_write (b2u (asps_longTermRefAtlasFramesFlag asps)) 1 bs;
     bs \<leftarrow> bs_writeUvlc (ucast (asps_numRefAtlasFrameListsInAsps asps)) bs;
     bs \<leftarrow> for_loop [0..<unat (asps_numRefAtlasFrameListsInAsps asps)] (asps_ref_w asps) bs;
     bs \<leftarrow> bs_write (b2u (asps_useEightOrientationsFlag asps)) 1 bs;
     bs \<leftarrow> bs_write (b2u (asps_extendedProjectionEnabledFlag asps)) 1 bs;
     bs \<leftarrow> (if asps_extendedProjectionEnabledFlag asps then do {
         bs \<leftarrow> bs_writeUvlc (ucast (asps_maxNumberProjectionsMinus1 asps)) bs;
         Some bs
       } else Some bs);
     bs \<leftarrow> bs_write (b2u (asps_normalAxisLimitsQuantizationEnabledFlag asps)) 1 bs;
     bs \<leftarrow> bs_write (b2u (asps_normalAxisMaxDeltaValueEnabledFlag asps)) 1 bs;
     bs \<leftarrow> bs_write (b2u (asps_patchPrecedenceOrderFlag asps)) 1 bs;
     bs \<leftarrow> bs_write (ucast (asps_log2PatchPackingBlockSize asps)) 3 bs;
     bs \<leftarrow> bs_write (b2u (asps_patchSizeQuantizerPresentFlag asps)) 1 bs;
     bs \<leftarrow> bs_write (ucast (asps_mapCountMinus1 asps)) 4 bs;
     bs \<leftarrow> bs_write (b2u (asps_pixelDeinterleavingFlag asps)) 1 bs;
     bs \<leftarrow> (if asps_pixelDeinterleavingFlag asps then do {
         bs \<leftarrow> for_loop [0..<unat (asps_mapCountMinus1 asps) + 1] (asps_pixel_w asps) bs;
         Some bs
       } else Some bs);
     bs \<leftarrow> bs_write (b2u (asps_rawPatchEnabledFlag asps)) 1 bs;
     bs \<leftarrow> bs_write (b2u (asps_eomPatchEnabledFlag asps)) 1 bs;
     bs \<leftarrow> (if asps_eomPatchEnabledFlag asps \<and> asps_mapCountMinus1 asps = 0 then do {
         bs \<leftarrow> bs_write (ucast (asps_eomFixBitCountMinus1 asps)) 4 bs;
         Some bs
       } else Some bs);
     bs \<leftarrow> (if asps_rawPatchEnabledFlag asps \<or> asps_eomPatchEnabledFlag asps then do {
         bs \<leftarrow> bs_write (b2u (asps_auxiliaryVideoEnabledFlag asps)) 1 bs;
         Some bs
       } else Some bs);
     bs \<leftarrow> bs_write (b2u (asps_PLREnabledFlag asps)) 1 bs;
     bs \<leftarrow> (if asps_PLREnabledFlag asps then do {
         bs \<leftarrow> plrInformation_w asps bs;
         Some bs
       } else Some bs);
     bs \<leftarrow> bs_write (b2u (asps_vuiParametersPresentFlag asps)) 1 bs;
     bs \<leftarrow> (if asps_vuiParametersPresentFlag asps then do {
         bs \<leftarrow> vuiParameters_w (asps_vuiParameters asps) bs;
         Some bs
       } else Some bs);
     bs \<leftarrow> bs_write (b2u (asps_extensionFlag asps)) 1 bs;
     bs \<leftarrow> (if asps_extensionFlag asps then do {
         bs \<leftarrow> bs_write (b2u (asps_vpccExtensionFlag asps)) 1 bs;
         bs \<leftarrow> bs_write (ucast (asps_extension7Bits asps)) 7 bs;
         Some bs
       } else Some bs);
     bs \<leftarrow> (if asps_vpccExtensionFlag asps then do {
         bs \<leftarrow> aspsVpccExtension_w asps (asps_aspsVpccExtension asps) bs;
         Some bs
       } else Some bs);
     bs \<leftarrow> rbspTrailingBits_w bs;
     Some bs
   }"

definition atlasSequenceParameterSetRbsp_r :: "AtlasSequenceParameterSetRbsp \<Rightarrow> PCCBitstream \<Rightarrow> (AtlasSequenceParameterSetRbsp \<times> PCCBitstream) option" where
  "atlasSequenceParameterSetRbsp_r asps bs = do {
     (v, bs) \<leftarrow> bs_readUvlc bs;
     let asps = asps\<lparr>asps_atlasSequenceParameterSetId := ucast v\<rparr>;
     (v, bs) \<leftarrow> bs_readUvlc bs;
     let asps = asps\<lparr>asps_frameWidth := ucast v\<rparr>;
     (v, bs) \<leftarrow> bs_readUvlc bs;
     let asps = asps\<lparr>asps_frameHeight := ucast v\<rparr>;
     (v, bs) \<leftarrow> bs_read 5 bs;
     let asps = asps\<lparr>asps_geometry3dBitdepthMinus1 := ucast v\<rparr>;
     (v, bs) \<leftarrow> bs_read 5 bs;
     let asps = asps\<lparr>asps_geometry2dBitdepthMinus1 := ucast v\<rparr>;
     (v, bs) \<leftarrow> bs_readUvlc bs;
     let asps = asps\<lparr>asps_log2MaxAtlasFrameOrderCntLsbMinus4 := ucast v\<rparr>;
     (v, bs) \<leftarrow> bs_readUvlc bs;
     let asps = asps\<lparr>asps_maxDecAtlasFrameBufferingMinus1 := ucast v\<rparr>;
     (v, bs) \<leftarrow> bs_read 1 bs;
     let asps = asps\<lparr>asps_longTermRefAtlasFramesFlag := v \<noteq> 0\<rparr>;
     (v, bs) \<leftarrow> bs_readUvlc bs;
     let asps = asps\<lparr>asps_numRefAtlasFrameListsInAsps := ucast v\<rparr>;
     let asps = asps\<lparr>asps_refListStruct := vec_resize (unat (asps_numRefAtlasFrameListsInAsps asps)) rls_new (asps_refListStruct asps)\<rparr>;
     (asps, bs) \<leftarrow> for_loop [0..<unat (asps_numRefAtlasFrameListsInAsps asps)] (\<lambda>i (asps, bs). asps_ref_r i asps bs) (asps, bs);
     (v, bs) \<leftarrow> bs_read 1 bs;
     let asps = asps\<lparr>asps_useEightOrientationsFlag := v \<noteq> 0\<rparr>;
     (v, bs) \<leftarrow> bs_read 1 bs;
     let asps = asps\<lparr>asps_extendedProjectionEnabledFlag := v \<noteq> 0\<rparr>;
     (asps, bs) \<leftarrow> (if asps_extendedProjectionEnabledFlag asps then do {
         (v, bs) \<leftarrow> bs_readUvlc bs;
         let asps = asps\<lparr>asps_maxNumberProjectionsMinus1 := ucast v\<rparr>;
         Some (asps, bs)
       } else Some (asps, bs));
     (v, bs) \<leftarrow> bs_read 1 bs;
     let asps = asps\<lparr>asps_normalAxisLimitsQuantizationEnabledFlag := v \<noteq> 0\<rparr>;
     (v, bs) \<leftarrow> bs_read 1 bs;
     let asps = asps\<lparr>asps_normalAxisMaxDeltaValueEnabledFlag := v \<noteq> 0\<rparr>;
     (v, bs) \<leftarrow> bs_read 1 bs;
     let asps = asps\<lparr>asps_patchPrecedenceOrderFlag := v \<noteq> 0\<rparr>;
     (v, bs) \<leftarrow> bs_read 3 bs;
     let asps = asps\<lparr>asps_log2PatchPackingBlockSize := ucast v\<rparr>;
     (v, bs) \<leftarrow> bs_read 1 bs;
     let asps = asps\<lparr>asps_patchSizeQuantizerPresentFlag := v \<noteq> 0\<rparr>;
     (v, bs) \<leftarrow> bs_read 4 bs;
     let asps = asps\<lparr>asps_mapCountMinus1 := ucast v\<rparr>;
     (v, bs) \<leftarrow> bs_read 1 bs;
     let asps = asps\<lparr>asps_pixelDeinterleavingFlag := v \<noteq> 0\<rparr>;
     (asps, bs) \<leftarrow> (if asps_pixelDeinterleavingFlag asps then do {
         let asps = asps\<lparr>asps_pixelDeinterleavingMapFlag := vec_resize (unat (asps_mapCountMinus1 asps) + 1) False (asps_pixelDeinterleavingMapFlag asps)\<rparr>;
         (asps, bs) \<leftarrow> for_loop [0..<unat (asps_mapCountMinus1 asps) + 1] (\<lambda>i (asps, bs). asps_pixel_r i asps bs) (asps, bs);
         Some (asps, bs)
       } else Some (asps, bs));
     (v, bs) \<leftarrow> bs_read 1 bs;
     let asps = asps\<lparr>asps_rawPatchEnabledFlag := v \<noteq> 0\<rparr>;
     (v, bs) \<leftarrow> bs_read 1 bs;
     let asps = asps\<lparr>asps_eomPatchEnabledFlag := v \<noteq> 0\<rparr>;
     (asps, bs) \<leftarrow> (if asps_eomPatchEnabledFlag asps \<and> asps_mapCountMinus1 asps = 0 then do {
         (v, bs) \<leftarrow> bs_read 4 bs;
         let asps = asps\<lparr>asps_eomFixBitCountMinus1 := ucast v\<rparr>;
         Some (asps, bs)
       } else Some (asps, bs));
     (asps, bs) \<leftarrow> (if asps_rawPatchEnabledFlag asps \<or> asps_eomPatchEnabledFlag asps then do {
         (v, bs) \<leftarrow> bs_read 1 bs;
         let asps = asps\<lparr>asps_auxiliaryVideoEnabledFlag := v \<noteq> 0\<rparr>;
         Some (asps, bs)
       } else Some (asps, bs));
     (v, bs) \<leftarrow> bs_read 1 bs;
     let asps = asps\<lparr>asps_PLREnabledFlag := v \<noteq> 0\<rparr>;
     (asps, bs) \<leftarrow> (if asps_PLREnabledFlag asps then do {
         (asps, bs) \<leftarrow> plrInformation_r asps bs;
         Some (asps, bs)
       } else Some (asps, bs));
     (v, bs) \<leftarrow> bs_read 1 bs;
     let asps = asps\<lparr>asps_vuiParametersPresentFlag := v \<noteq> 0\<rparr>;
     (asps, bs) \<leftarrow> (if asps_vuiParametersPresentFlag asps then do {
         (sub, bs) \<leftarrow> vuiParameters_r (asps_vuiParameters asps) bs;
         let asps = asps\<lparr>asps_vuiParameters := sub\<rparr>;
         Some (asps, bs)
       } else Some (asps, bs));
     (v, bs) \<leftarrow> bs_read 1 bs;
     let asps = asps\<lparr>asps_extensionFlag := v \<noteq> 0\<rparr>;
     (asps, bs) \<leftarrow> (if asps_extensionFlag asps then do {
         (v, bs) \<leftarrow> bs_read 1 bs;
         let asps = asps\<lparr>asps_vpccExtensionFlag := v \<noteq> 0\<rparr>;
         (v, bs) \<leftarrow> bs_read 7 bs;
         let asps = asps\<lparr>asps_extension7Bits := ucast v\<rparr>;
         Some (asps, bs)
       } else Some (asps, bs));
     (asps, bs) \<leftarrow> (if asps_vpccExtensionFlag asps then do {
         (sub, bs) \<leftarrow> aspsVpccExtension_r asps (asps_aspsVpccExtension asps) bs;
         let asps = asps\<lparr>asps_aspsVpccExtension := sub\<rparr>;
         Some (asps, bs)
       } else Some (asps, bs));
     (u, bs) \<leftarrow> rbspTrailingBits_r bs;
     Some (asps, bs)
   }"


section \<open>Round trips\<close>

definition rls_entry_wf :: "AtlasSequenceParameterSetRbsp \<Rightarrow> RefListStruct \<Rightarrow> nat \<Rightarrow> bool" where
  "rls_entry_wf asps x i \<longleftrightarrow> (\<not> asps_longTermRefAtlasFramesFlag asps \<longrightarrow> rls_stRefAtlasFrameFlag x ! i)
     \<and> (if rls_stRefAtlasFrameFlag x ! i
        then rls_afocLsbLt x ! i = 0 \<and> (\<not> 0 < rls_absDeltaAfocSt x ! i \<longrightarrow> rls_strpfEntrySignFlag x ! i)
        else rls_absDeltaAfocSt x ! i = 0 \<and> \<not> rls_strpfEntrySignFlag x ! i
          \<and> rls_bitCount asps \<le> 32 \<and> unat (rls_afocLsbLt x ! i) < 2 ^ rls_bitCount asps)"

definition rls_wf :: "AtlasSequenceParameterSetRbsp \<Rightarrow> RefListStruct \<Rightarrow> bool" where
  "rls_wf asps x \<longleftrightarrow> (let n = unat (rls_numRefEntries x) in
     length (rls_absDeltaAfocSt x) = n \<and> length (rls_afocLsbLt x) = n
     \<and> length (rls_stRefAtlasFrameFlag x) = n \<and> length (rls_strpfEntrySignFlag x) = n
     \<and> (\<forall>i < n. rls_entry_wf asps x i))"

definition rls_upto :: "nat \<Rightarrow> RefListStruct \<Rightarrow> RefListStruct" where
  "rls_upto k x = (let n = unat (rls_numRefEntries x) in \<lparr>rls_numRefEntries = rls_numRefEntries x,
     rls_absDeltaAfocSt = filled k (rls_absDeltaAfocSt x) (replicate n 0),
     rls_afocLsbLt = filled k (rls_afocLsbLt x) (replicate n 0),
     rls_stRefAtlasFrameFlag = filled k (rls_stRefAtlasFrameFlag x) (replicate n False),
     rls_strpfEntrySignFlag = filled k (rls_strpfEntrySignFlag x) (replicate n False)\<rparr>)"

lemma rls_entry_codes:
  assumes "rls_wf asps x" and "i < unat (rls_numRefEntries x)"
    and same: "asps_longTermRefAtlasFramesFlag asps' = asps_longTermRefAtlasFramesFlag asps" "rls_bitCount asps' = rls_bitCount asps"
  shows "codes (rls_entry_w asps x i) (rls_entry_r asps' i (rls_upto i x)) (rls_upto (Suc i) x)"
proof -
  obtain n where n: "unat (rls_numRefEntries x) = n" by simp
  note wf = assms(1) [unfolded rls_wf_def Let_def n] and i = assms(2) [unfolded n]
  have i': "Suc i \<le> n" "i \<le> n" using i by simp_all
  have "rls_entry_wf asps x i" using wf i by blast
  note wfi = this [unfolded rls_entry_wf_def if_bool_eq_conj]
  show ?thesis
    unfolding rls_entry_w_def [abs_def] rls_entry_r_def [abs_def]
    by ((rule codes_split codec_intro codes_same refl RefListStruct.equality
      | (simp add: wf wfi i i' n same filled_skip rls_upto_def Let_def; fail))+)
qed

lemma rls_codes [codec_intro]:
  assumes "rls_wf asps x" and "y = rls_new"
    and same: "asps_longTermRefAtlasFramesFlag asps' = asps_longTermRefAtlasFramesFlag asps" "rls_bitCount asps' = rls_bitCount asps"
  shows "codes (refListStruct_w asps x) (refListStruct_r asps' y) x"
proof -
  have loop: "codes (for_loop [0..<n] (rls_entry_w asps x))
      (\<lambda>bs. for_loop [0..<n'] (\<lambda>i (rls, bs). rls_entry_r asps' i rls bs) (z, bs)) (rls_upto n x)"
    if "n = unat (rls_numRefEntries x)" and "n' = n" and "z = rls_upto 0 x" for n n' z
    by (rule codes_for [where y = "\<lambda>k. rls_upto k x"]) (simp_all add: that rls_entry_codes [OF assms(1)] same)
  have all: "rls_upto (unat (rls_numRefEntries x)) x = x"
    using assms(1) by (simp add: rls_upto_def rls_wf_def Let_def)
  show ?thesis
    unfolding refListStruct_w_def [abs_def] refListStruct_r_def [abs_def]
    by ((rule loop codec_intro refl | (simp add: assms(2) all rls_new_def rls_upto_def [of 0] Let_def; fail))+)
qed

interpretation rls: param_codec refListStruct_w refListStruct_r rls_new rls_wf
  by unfold_locales (rule rls_codes [OF _ refl refl refl])

definition plri_wf :: "PLRInformation \<Rightarrow> bool" where
  "plri_wf x \<longleftrightarrow> (if plri_mapEnabledFlag x then
     let n = unat (plri_numberOfModesMinus1 x) in n < 2 ^ 4 \<and> unat (plri_blockThresholdPerPatchMinus1 x) < 2 ^ 6
     \<and> length (plri_interpolateFlag x) = Suc n \<and> length (plri_fillingFlag x) = Suc n
     \<and> length (plri_minimumDepth x) = Suc n \<and> length (plri_neighbourMinus1 x) = Suc n
     \<and> (\<forall>i < n. unat (plri_minimumDepth x ! i) < 2 ^ 2 \<and> unat (plri_neighbourMinus1 x ! i) < 2 ^ 2)
     \<and> \<not> plri_interpolateFlag x ! n \<and> \<not> plri_fillingFlag x ! n
     \<and> plri_minimumDepth x ! n = 0 \<and> plri_neighbourMinus1 x ! n = 0
     else x = plri_new)"

text \<open>The vectors have one entry more than the modes that are coded; the last one keeps its zero.\<close>

definition plri_upto :: "nat \<Rightarrow> PLRInformation \<Rightarrow> PLRInformation" where
  "plri_upto k x = (let n = Suc (unat (plri_numberOfModesMinus1 x)) in \<lparr>plri_mapEnabledFlag = True,
     plri_numberOfModesMinus1 = plri_numberOfModesMinus1 x,
     plri_interpolateFlag = filled k (plri_interpolateFlag x) (replicate n False),
     plri_fillingFlag = filled k (plri_fillingFlag x) (replicate n False),
     plri_minimumDepth = filled k (plri_minimumDepth x) (replicate n 0),
     plri_neighbourMinus1 = filled k (plri_neighbourMinus1 x) (replicate n 0),
     plri_blockThresholdPerPatchMinus1 = 0\<rparr>)"

lemma plri_mode_codes:
  assumes "plri_wf x" and "plri_mapEnabledFlag x" and "i < unat (plri_numberOfModesMinus1 x)"
  shows "codes (plri_mode_w x i) (plri_mode_r i (plri_upto i x)) (plri_upto (Suc i) x)"
proof -
  obtain n where n: "unat (plri_numberOfModesMinus1 x) = n" by simp
  note wf = assms(1) [unfolded plri_wf_def Let_def n, simplified assms(2), simplified] and i = assms(3) [unfolded n]
  have i': "Suc i \<le> n" "i \<le> n" "i < Suc n" "i \<le> Suc n" using i by simp_all
  show ?thesis
    unfolding plri_mode_w_def [abs_def] plri_mode_r_def [abs_def]
    by ((rule codec_intro refl PLRInformation.equality
      | (simp add: wf i i' n plri_upto_def Let_def del: replicate_Suc; fail))+)
qed

interpretation plri: syntax_codec plri_map_w plri_map_r plri_new plri_wf
proof unfold_locales
  fix x assume wf: "plri_wf x"
  have loop: "codes (for_loop [0..<n] (plri_mode_w x))
      (\<lambda>bs. for_loop [0..<n'] (\<lambda>i (plri, bs). plri_mode_r i plri bs) (z, bs)) (plri_upto n x)"
    if "plri_mapEnabledFlag x" "n = unat (plri_numberOfModesMinus1 x)" and "n' = n" and "z = plri_upto 0 x" for n n' z
    by (rule codes_for [where y = "\<lambda>k. plri_upto k x"]) (simp_all add: that plri_mode_codes [OF wf])
  have all: "plri_upto (unat (plri_numberOfModesMinus1 x)) x = x\<lparr>plri_blockThresholdPerPatchMinus1 := 0\<rparr>"
    if "plri_mapEnabledFlag x"
  proof -
    obtain n where n: "unat (plri_numberOfModesMinus1 x) = n" by simp
    note wf' = wf [unfolded plri_wf_def Let_def n, simplified that, simplified]
    show ?thesis using that wf' by (simp add: filled_but_last plri_upto_def Let_def n del: replicate_Suc)
  qed
  have off: "\<not> plri_mapEnabledFlag x \<Longrightarrow> x = plri_new" using wf by (simp add: plri_wf_def)
  note wf' = wf [unfolded plri_wf_def Let_def if_bool_eq_conj]
  show "codes (plri_map_w x) (plri_map_r plri_new) x"
    unfolding plri_map_w_def [abs_def] plri_map_r_def [abs_def]
    by ((rule codes_same loop codec_intro refl PLRInformation.equality
      | (simp add: wf' [simplified] all plri_new_def plri_upto_def [of 0] Let_def del: replicate_Suc; fail)
      | (simp add: off plri_new_def; fail))+)
qed

lemma asps_ref_codes:
  assumes "n' = n" and "length (asps_refListStruct x) = n" and "asps_refListStruct y = replicate n rls_new"
    and "\<forall>i < n. rls_wf x (asps_refListStruct x ! i)"
    and "asps_longTermRefAtlasFramesFlag y = asps_longTermRefAtlasFramesFlag x"
    and "asps_log2MaxAtlasFrameOrderCntLsbMinus4 y = asps_log2MaxAtlasFrameOrderCntLsbMinus4 x"
  shows "codes (for_loop [0..<n] (asps_ref_w x)) (\<lambda>bs. for_loop [0..<n'] (\<lambda>i (asps, bs). asps_ref_r i asps bs) (y, bs))
     (y\<lparr>asps_refListStruct := asps_refListStruct x\<rparr>)"
  unfolding asps_ref_w_def [abs_def] asps_ref_r_def [abs_def]
  by ((rule codes_for_field [where S = "\<lambda>l. y\<lparr>asps_refListStruct := l\<rparr>" and zs = "replicate n rls_new"]
        rls_codes codec_intro refl AtlasSequenceParameterSetRbsp.equality | (simp add: assms rls_bitCount_def; fail))+)

lemma asps_pixel_codes:
  assumes "n' = n" and "length (asps_pixelDeinterleavingMapFlag x) = n" and "length (asps_pixelDeinterleavingMapFlag y) = n"
  shows "codes (for_loop [0..<n] (asps_pixel_w x)) (\<lambda>bs. for_loop [0..<n'] (\<lambda>i (asps, bs). asps_pixel_r i asps bs) (y, bs))
     (y\<lparr>asps_pixelDeinterleavingMapFlag := asps_pixelDeinterleavingMapFlag x\<rparr>)"
  unfolding asps_pixel_w_def [abs_def] asps_pixel_r_def [abs_def]
  by ((rule codes_for_field [where S = "\<lambda>l. y\<lparr>asps_pixelDeinterleavingMapFlag := l\<rparr>"
        and zs = "asps_pixelDeinterleavingMapFlag y"] codec_intro refl | (simp add: assms; fail))+)

lemma plri_entry_codes:
  assumes "n' = n" and "length (asps_plrInformation x) = n" and "asps_plrInformation y = replicate n plri_new"
    and "\<forall>i < n. plri_wf (asps_plrInformation x ! i)"
  shows "codes (for_loop [0..<n] (plri_entry_w x)) (\<lambda>bs. for_loop [0..<n'] (\<lambda>i (asps, bs). plri_entry_r i asps bs) (y, bs))
     (y\<lparr>asps_plrInformation := asps_plrInformation x\<rparr>)"
  unfolding plri_entry_w_def [abs_def] plri_entry_r_def [abs_def]
  by ((rule codes_for_field [where S = "\<lambda>l. y\<lparr>asps_plrInformation := l\<rparr>" and zs = "replicate n plri_new"]
        codec_intro refl AtlasSequenceParameterSetRbsp.equality | (simp add: assms; fail))+)

lemma plrInformation_codes:
  assumes "length (asps_plrInformation x) = unat (asps_mapCountMinus1 x) + 1" and "asps_plrInformation y = []"
    and "asps_mapCountMinus1 y = asps_mapCountMinus1 x"
    and "\<forall>i < unat (asps_mapCountMinus1 x) + 1. plri_wf (asps_plrInformation x ! i)"
  shows "codes (plrInformation_w x) (plrInformation_r y) (y\<lparr>asps_plrInformation := asps_plrInformation x\<rparr>)"
  unfolding plrInformation_w_def [abs_def] plrInformation_r_def [abs_def]
  by ((rule plri_entry_codes codec_intro refl AtlasSequenceParameterSetRbsp.equality
      | (simp add: assms del: replicate_Suc; fail))+)

definition avext_wf :: "AtlasSequenceParameterSetRbsp \<Rightarrow> AspsVpccExtension \<Rightarrow> bool" where
  "avext_wf asps x \<longleftrightarrow> (if asps_pixelDeinterleavingFlag asps \<or> asps_PLREnabledFlag asps
     then unat (avext_surfaceThicknessMinus1 x) < 2 ^ 7 else avext_surfaceThicknessMinus1 x = 0)"

lemma avext_codes [codec_intro]:
  assumes "y = avext_new" and "avext_wf asps x"
    and "asps_pixelDeinterleavingFlag asps' = asps_pixelDeinterleavingFlag asps" "asps_PLREnabledFlag asps' = asps_PLREnabledFlag asps"
  shows "codes (aspsVpccExtension_w asps x) (aspsVpccExtension_r asps' y) x"
  unfolding aspsVpccExtension_w_def [abs_def] aspsVpccExtension_r_def [abs_def]
  by ((rule codes_same codec_intro refl AspsVpccExtension.equality
      | (use assms in \<open>simp add: avext_wf_def avext_new_def\<close>; fail))+)

interpretation avext: param_codec aspsVpccExtension_w aspsVpccExtension_r avext_new avext_wf
  by unfold_locales (rule avext_codes [OF refl _ refl refl])

lemma codes_rbspTrailingBits [codec_intro]: "codes rbspTrailingBits_w rbspTrailingBits_r ()"
  unfolding rbspTrailingBits_w_def [abs_def] rbspTrailingBits_r_def [abs_def]
  by ((rule codec_intro refl | (simp; fail))+)

definition asps_wf :: "AtlasSequenceParameterSetRbsp \<Rightarrow> bool" where
  "asps_wf x \<longleftrightarrow> unat (asps_geometry3dBitdepthMinus1 x) < 2 ^ 5 \<and> unat (asps_geometry2dBitdepthMinus1 x) < 2 ^ 5
     \<and> length (asps_refListStruct x) = unat (asps_numRefAtlasFrameListsInAsps x)
     \<and> (\<forall>i < unat (asps_numRefAtlasFrameListsInAsps x). rls_wf x (asps_refListStruct x ! i))
     \<and> (if asps_extendedProjectionEnabledFlag x then unat (asps_maxNumberProjectionsMinus1 x) < 2 ^ 31 - 1
        else asps_maxNumberProjectionsMinus1 x = 5)
     \<and> unat (asps_log2PatchPackingBlockSize x) < 2 ^ 3 \<and> unat (asps_mapCountMinus1 x) < 2 ^ 4
     \<and> (if asps_pixelDeinterleavingFlag x then length (asps_pixelDeinterleavingMapFlag x) = unat (asps_mapCountMinus1 x) + 1
        else asps_pixelDeinterleavingMapFlag x = [])
     \<and> (if asps_eomPatchEnabledFlag x \<and> asps_mapCountMinus1 x = 0 then unat (asps_eomFixBitCountMinus1 x) < 2 ^ 4
        else asps_eomFixBitCountMinus1 x = 0)
     \<and> (\<not> (asps_rawPatchEnabledFlag x \<or> asps_eomPatchEnabledFlag x) \<longrightarrow> \<not> asps_auxiliaryVideoEnabledFlag x)
     \<and> (if asps_PLREnabledFlag x then length (asps_plrInformation x) = unat (asps_mapCountMinus1 x) + 1
          \<and> (\<forall>i < unat (asps_mapCountMinus1 x) + 1. plri_wf (asps_plrInformation x ! i))
        else asps_plrInformation x = [])
     \<and> \<not> asps_vuiParametersPresentFlag x \<and> asps_vuiParameters x = vp_new
     \<and> (if asps_extensionFlag x then unat (asps_extension7Bits x) < 2 ^ 7
        else \<not> asps_vpccExtensionFlag x \<and> asps_extension7Bits x = 0)
     \<and> (if asps_vpccExtensionFlag x then avext_wf x (asps_aspsVpccExtension x) else asps_aspsVpccExtension x = avext_new)"

interpretation asps: syntax_codec atlasSequenceParameterSetRbsp_w atlasSequenceParameterSetRbsp_r asps_new asps_wf
proof unfold_locales
  fix x assume wf: "asps_wf x"
  have "unat (asps_maxNumberProjectionsMinus1 x) < 2147483647"
    using wf by (cases "asps_extendedProjectionEnabledFlag x") (simp_all add: asps_wf_def)
  note facts = this wf [unfolded asps_wf_def if_bool_eq_conj, simplified] asps_new_def
  show "codes (atlasSequenceParameterSetRbsp_w x) (atlasSequenceParameterSetRbsp_r asps_new) x"
    unfolding atlasSequenceParameterSetRbsp_w_def [abs_def] atlasSequenceParameterSetRbsp_r_def [abs_def]
    by ((rule codes_same asps_ref_codes asps_pixel_codes plrInformation_codes codec_intro refl AtlasSequenceParameterSetRbsp.equality
      | (simp (no_asm) add: facts del: replicate_Suc; fail) | (simp add: facts del: replicate_Suc; fail))+)
qed


section \<open>Where writer and reader disagree\<close>

text \<open>The vectors of a new \<open>HrdParameters\<close> are empty, but the first sub-layer is always coded.\<close>

lemma hrd_layer_empty:
  assumes "hp_fixedAtlasRateGeneralFlag hp = []"
  shows "hrd_layer_w hp 0 bs = None" "hrd_layer_r 0 hp bs = None"
  using assms by (simp_all add: hrd_layer_w_def hrd_layer_r_def case_prod_unfold)

lemma hrdParameters_empty:
  assumes "hp_fixedAtlasRateGeneralFlag hp = []"
  shows "hrdParameters_w hp bs = None" "hrdParameters_r hp bs = None"
proof -
  show "hrdParameters_w hp bs = None"
    using assms by (auto simp: hrdParameters_w_def hrd_layer_empty Option.bind_eq_None_conv)
  show "hrdParameters_r hp bs = None"
  proof (rule ccontr)
    assume "hrdParameters_r hp bs \<noteq> None"
    then show False
      using assms by (auto simp: hrdParameters_r_def Let_def Option.bind_eq_Some_conv hrd_layer_empty split: if_splits)
  qed
qed

text \<open>The reader of the VUI parameters skips a flag that the writer has written.\<close>

lemma codes_r_skip:
  assumes "\<not> c" and "codes W (R3 x) y"
  shows "codes W (\<lambda>bs. Option.bind (if c then R1 bs else Some (x, bs)) (\<lambda>(v, bs). R3 v bs)) y"
  using assms by simp

lemma vui_short_codes:
  "codes (\<lambda>bs. do { bs \<leftarrow> bs_write 0 1 bs; bs \<leftarrow> bs_write 0 1 bs; bs \<leftarrow> bs_write 0 1 bs; bs \<leftarrow> bs_write 0 1 bs; bs \<leftarrow> bs_write 0 1 bs; Some bs })
     (vuiParameters_r vp_new) vp_new"
  unfolding vuiParameters_r_def [abs_def]
  by ((rule codes_r_skip codec_intro refl | (simp add: vp_new_def; fail))+)

lemma vui_short:
  assumes "bs_inv bs"
  shows "\<exists>bs' p. vuiParameters_w vp_new bs = Some bs'
     \<and> vuiParameters_r vp_new (bs_setPosition (bs_pos bs) bs') = Some (vp_new, bs_setPosition p bs')
     \<and> lin (bs_pos bs') = lin p + 1"
proof -
  let ?W = "\<lambda>bs. do { bs \<leftarrow> bs_write 0 1 bs; bs \<leftarrow> bs_write 0 1 bs; bs \<leftarrow> bs_write 0 1 bs; bs \<leftarrow> bs_write 0 1 bs; bs \<leftarrow> bs_write 0 1 bs; Some bs }"
  obtain bs1 where w: "?W bs = Some bs1" and i: "bs_inv bs1"
    and r: "\<And>fs. bs_extends fs bs1 \<Longrightarrow> vuiParameters_r vp_new (bs_setPosition (bs_pos bs) fs)
        = Some (vp_new, bs_setPosition (bs_pos bs1) fs)"
    using codesE [OF vui_short_codes assms] by metis
  obtain bs2 where w2: "bs_write 0 1 bs1 = Some bs2" and p: "bs_pos bs2 = unlin (lin (bs_pos bs1) + 1)"
    and e: "bs_extends bs2 bs1"
    using bs_write_bits [OF i, of 1 0] by auto
  have "vuiParameters_w vp_new bs = Option.bind (?W bs) (bs_write 0 1)"
    by (simp add: vuiParameters_w_def vp_new_def Option.bind_assoc)
  then have "vuiParameters_w vp_new bs = Some bs2" unfolding w using w2 by simp
  with r [OF e] p show ?thesis by auto
qed

end
