(* ===== verification/AtlasFrame.thy ===== *)
theory AtlasFrame
  imports AtlasSequence
begin

unbundle bit_operations_syntax

text \<open>
  The atlas frame parameter set with its tile information, the atlas adaptation parameter set and
  the small RBSPs, and the logarithms of \<open>PCCBitstreamCommon.h\<close> that give the width of the
  partition indices.
\<close>

section \<open>Logarithms\<close>

text \<open>\<open>floorLog2\<close> as the GNU build computes it (\<open>31 - __builtin_clz( x )\<close> is the index of the highest
  bit that is set) and as the portable branch does.\<close>

definition floorLog2 :: "uint32_t \<Rightarrow> int" where
  "floorLog2 x = (if x = 0 then - 1 else int (highest_bit (unat x)))"

definition floorLog2_portable :: "uint32_t \<Rightarrow> int" where
  "floorLog2_portable x = (if x = 0 then - 1 else
     let (x, result) = (if x AND 0xffff0000 \<noteq> 0 then (drop_bit 16 x, 0 + 16) else (x, 0));
         (x, result) = (if x AND 0xff00 \<noteq> 0 then (drop_bit 8 x, result + 8) else (x, result));
         (x, result) = (if x AND 0xf0 \<noteq> 0 then (drop_bit 4 x, result + 4) else (x, result));
         (x, result) = (if x AND 0xc \<noteq> 0 then (drop_bit 2 x, result + 2) else (x, result));
         (x, result) = (if x AND 0x2 \<noteq> 0 then (drop_bit 1 x, result + 1) else (x, result))
     in result)"

definition ceilLog2 :: "uint32_t \<Rightarrow> int" where
  "ceilLog2 x = (if x = 0 then - 1 else floorLog2 (x - 1) + 1)"

section \<open>Atlas frame tile information\<close>

text \<open>The vectors \<open>colWidth\<close>, \<open>rowHeight\<close>, \<open>partitionPosX\<close> and \<open>partitionPosY\<close> are not coded; the
  transcoder computes them. The constructor leaves \<open>auxiliaryVideoTileRowWidthMinus1\<close>
  uninitialised; it is used only after it has been read.\<close>

record AtlasFrameTileInformation =
  afti_singleTileInAtlasFrameFlag :: bool
  afti_uniformPartitionSpacingFlag :: bool
  afti_numPartitionColumnsMinus1 :: uint32_t
  afti_numPartitionRowsMinus1 :: uint32_t
  afti_singlePartitionPerTileFlag :: uint32_t
  afti_numTilesInAtlasFrameMinus1 :: uint32_t
  afti_signalledTileIdFlag :: bool
  afti_signalledTileIdLengthMinus1 :: uint32_t
  afti_partitionColumnWidthMinus1 :: "uint32_t list"
  afti_partitionRowHeightMinus1 :: "uint32_t list"
  afti_topLeftPartitionIdx :: "uint32_t list"
  afti_bottomRightPartitionColumnOffset :: "uint32_t list"
  afti_bottomRightPartitionRowOffset :: "uint32_t list"
  afti_tileId :: "uint32_t list"
  afti_auxiliaryVideoTileRowWidthMinus1 :: uint32_t
  afti_auxiliaryVideoTileRowHeight :: "uint32_t list"
  afti_colWidth :: "size_t list"
  afti_rowHeight :: "size_t list"
  afti_partitionPosX :: "size_t list"
  afti_partitionPosY :: "size_t list"

definition afti_new :: AtlasFrameTileInformation where
  "afti_new = \<lparr>afti_singleTileInAtlasFrameFlag = False,
     afti_uniformPartitionSpacingFlag = True, afti_numPartitionColumnsMinus1 = 0,
     afti_numPartitionRowsMinus1 = 0, afti_singlePartitionPerTileFlag = 0,
     afti_numTilesInAtlasFrameMinus1 = 0, afti_signalledTileIdFlag = False,
     afti_signalledTileIdLengthMinus1 = 0, afti_partitionColumnWidthMinus1 = [0],
     afti_partitionRowHeightMinus1 = [0], afti_topLeftPartitionIdx = [0],
     afti_bottomRightPartitionColumnOffset = [0], afti_bottomRightPartitionRowOffset = [0],
     afti_tileId = [0], afti_auxiliaryVideoTileRowWidthMinus1 = 0,
     afti_auxiliaryVideoTileRowHeight = [], afti_colWidth = [], afti_rowHeight = [],
     afti_partitionPosX = [], afti_partitionPosY = []\<rparr>"

definition afti_setNumPartitionColumnsMinus1 :: "uint32_t \<Rightarrow> AtlasFrameTileInformation \<Rightarrow> AtlasFrameTileInformation" where
  "afti_setNumPartitionColumnsMinus1 value afti = afti\<lparr>afti_numPartitionColumnsMinus1 := value,
     afti_partitionColumnWidthMinus1 := vec_resize (max 1 (unat value)) 0 (afti_partitionColumnWidthMinus1 afti)\<rparr>"

definition afti_setNumPartitionRowsMinus1 :: "uint32_t \<Rightarrow> AtlasFrameTileInformation \<Rightarrow> AtlasFrameTileInformation" where
  "afti_setNumPartitionRowsMinus1 value afti = afti\<lparr>afti_numPartitionRowsMinus1 := value,
     afti_partitionRowHeightMinus1 := vec_resize (max 1 (unat value)) 0 (afti_partitionRowHeightMinus1 afti)\<rparr>"

text \<open>\<open>ceil( size / ( ( minus1 + 1 ) * 64.0 ) ) - 1\<close> as an unsigned number. A \<open>double\<close> represents the
  operands exactly and is precise enough that the ceiling is that of the rational quotient. The
  result is undefined for an empty frame (the value is -1) and for a zero divisor.\<close>

definition afti_uniformCount :: "uint16_t \<Rightarrow> uint32_t \<Rightarrow> uint32_t option" where
  "afti_uniformCount sz minus1 = (let d = unat (minus1 + 1) * 64; n = (unat sz + d - 1) div d in
     if d = 0 \<or> n = 0 then None else Some (of_nat (n - 1)))"

definition afti_numPartitions :: "AtlasFrameTileInformation \<Rightarrow> uint32_t" where
  "afti_numPartitions afti = (afti_numPartitionColumnsMinus1 afti + 1) * (afti_numPartitionRowsMinus1 afti + 1)"

text \<open>\<open>uint8_t bitCount = ceilLog2( NumPartitionsInAtlasFrame )\<close> and
  \<open>uint8_t bitCount = afti.getSignalledTileIdLengthMinus1() + 1\<close>.\<close>

definition afti_idxBits :: "AtlasFrameTileInformation \<Rightarrow> nat" where
  "afti_idxBits afti = unat (word_of_int (ceilLog2 (afti_numPartitions afti)) :: uint8_t)"

definition afti_idBits :: "AtlasFrameTileInformation \<Rightarrow> nat" where
  "afti_idBits afti = unat (ucast (afti_signalledTileIdLengthMinus1 afti + 1) :: uint8_t)"

definition afti_column_w :: "AtlasFrameTileInformation \<Rightarrow> nat \<Rightarrow> PCCBitstream \<Rightarrow> PCCBitstream option" where
  "afti_column_w afti i bs = do {
     v \<leftarrow> vec_at (afti_partitionColumnWidthMinus1 afti) i;
     bs \<leftarrow> bs_writeUvlc v bs;
     Some bs
   }"

definition afti_column_r :: "nat \<Rightarrow> AtlasFrameTileInformation \<Rightarrow> PCCBitstream \<Rightarrow> (AtlasFrameTileInformation \<times> PCCBitstream) option" where
  "afti_column_r i afti bs = do {
     (v, bs) \<leftarrow> bs_readUvlc bs;
     l \<leftarrow> vec_put (afti_partitionColumnWidthMinus1 afti) i v;
     let afti = afti\<lparr>afti_partitionColumnWidthMinus1 := l\<rparr>;
     Some (afti, bs)
   }"

definition afti_row_w :: "AtlasFrameTileInformation \<Rightarrow> nat \<Rightarrow> PCCBitstream \<Rightarrow> PCCBitstream option" where
  "afti_row_w afti i bs = do {
     v \<leftarrow> vec_at (afti_partitionRowHeightMinus1 afti) i;
     bs \<leftarrow> bs_writeUvlc v bs;
     Some bs
   }"

definition afti_row_r :: "nat \<Rightarrow> AtlasFrameTileInformation \<Rightarrow> PCCBitstream \<Rightarrow> (AtlasFrameTileInformation \<times> PCCBitstream) option" where
  "afti_row_r i afti bs = do {
     (v, bs) \<leftarrow> bs_readUvlc bs;
     l \<leftarrow> vec_put (afti_partitionRowHeightMinus1 afti) i v;
     let afti = afti\<lparr>afti_partitionRowHeightMinus1 := l\<rparr>;
     Some (afti, bs)
   }"

definition afti_tile_w :: "AtlasFrameTileInformation \<Rightarrow> nat \<Rightarrow> PCCBitstream \<Rightarrow> PCCBitstream option" where
  "afti_tile_w afti i bs = do {
     v \<leftarrow> vec_at (afti_topLeftPartitionIdx afti) i;
     bs \<leftarrow> bs_write v (afti_idxBits afti) bs;
     v \<leftarrow> vec_at (afti_bottomRightPartitionColumnOffset afti) i;
     bs \<leftarrow> bs_writeUvlc v bs;
     v \<leftarrow> vec_at (afti_bottomRightPartitionRowOffset afti) i;
     bs \<leftarrow> bs_writeUvlc v bs;
     Some bs
   }"

definition afti_tile_r :: "nat \<Rightarrow> AtlasFrameTileInformation \<Rightarrow> PCCBitstream \<Rightarrow> (AtlasFrameTileInformation \<times> PCCBitstream) option" where
  "afti_tile_r i afti bs = do {
     (v, bs) \<leftarrow> bs_read (afti_idxBits afti) bs;
     l \<leftarrow> vec_put (afti_topLeftPartitionIdx afti) i v;
     let afti = afti\<lparr>afti_topLeftPartitionIdx := l\<rparr>;
     (v, bs) \<leftarrow> bs_readUvlc bs;
     l \<leftarrow> vec_put (afti_bottomRightPartitionColumnOffset afti) i v;
     let afti = afti\<lparr>afti_bottomRightPartitionColumnOffset := l\<rparr>;
     (v, bs) \<leftarrow> bs_readUvlc bs;
     l \<leftarrow> vec_put (afti_bottomRightPartitionRowOffset afti) i v;
     let afti = afti\<lparr>afti_bottomRightPartitionRowOffset := l\<rparr>;
     Some (afti, bs)
   }"

text \<open>With one partition per tile the reader derives the tiles; nothing is read.\<close>

definition afti_tile_derived :: "nat \<Rightarrow> AtlasFrameTileInformation \<Rightarrow> AtlasFrameTileInformation option" where
  "afti_tile_derived i afti = do {
     l \<leftarrow> vec_put (afti_topLeftPartitionIdx afti) i (of_nat i);
     let afti = afti\<lparr>afti_topLeftPartitionIdx := l\<rparr>;
     l \<leftarrow> vec_put (afti_bottomRightPartitionColumnOffset afti) i 0;
     let afti = afti\<lparr>afti_bottomRightPartitionColumnOffset := l\<rparr>;
     l \<leftarrow> vec_put (afti_bottomRightPartitionRowOffset afti) i 0;
     Some (afti\<lparr>afti_bottomRightPartitionRowOffset := l\<rparr>)
   }"

definition afti_id_derived :: "nat \<Rightarrow> AtlasFrameTileInformation \<Rightarrow> AtlasFrameTileInformation option" where
  "afti_id_derived i afti = do {
     l \<leftarrow> vec_put (afti_tileId afti) i (of_nat i);
     Some (afti\<lparr>afti_tileId := l\<rparr>)
   }"

definition afti_height_w :: "AtlasFrameTileInformation \<Rightarrow> nat \<Rightarrow> PCCBitstream \<Rightarrow> PCCBitstream option" where
  "afti_height_w afti i bs = do {
     v \<leftarrow> (if afti_auxiliaryVideoTileRowHeight afti = [] then Some 0 else vec_at (afti_auxiliaryVideoTileRowHeight afti) i);
     bs \<leftarrow> bs_writeUvlc v bs;
     Some bs
   }"

definition afti_height_r :: "nat \<Rightarrow> AtlasFrameTileInformation \<Rightarrow> PCCBitstream \<Rightarrow> (AtlasFrameTileInformation \<times> PCCBitstream) option" where
  "afti_height_r i afti bs = do {
     (v, bs) \<leftarrow> bs_readUvlc bs;
     l \<leftarrow> vec_put (afti_auxiliaryVideoTileRowHeight afti) i v;
     let afti = afti\<lparr>afti_auxiliaryVideoTileRowHeight := l\<rparr>;
     Some (afti, bs)
   }"

definition afti_id_w :: "AtlasFrameTileInformation \<Rightarrow> nat \<Rightarrow> PCCBitstream \<Rightarrow> PCCBitstream option" where
  "afti_id_w afti i bs = do {
     v \<leftarrow> vec_at (afti_tileId afti) i;
     bs \<leftarrow> bs_write v (afti_idBits afti) bs;
     Some bs
   }"

definition afti_id_r :: "nat \<Rightarrow> AtlasFrameTileInformation \<Rightarrow> PCCBitstream \<Rightarrow> (AtlasFrameTileInformation \<times> PCCBitstream) option" where
  "afti_id_r i afti bs = do {
     (v, bs) \<leftarrow> bs_read (afti_idBits afti) bs;
     l \<leftarrow> vec_put (afti_tileId afti) i v;
     let afti = afti\<lparr>afti_tileId := l\<rparr>;
     Some (afti, bs)
   }"

text \<open>The partition grid: the part of \<open>atlasFrameTileInformation\<close> that depends on the spacing flag.\<close>

definition afti_partitions_w :: "AtlasFrameTileInformation \<Rightarrow> PCCBitstream \<Rightarrow> PCCBitstream option" where
  "afti_partitions_w afti bs = (if afti_uniformPartitionSpacingFlag afti then do {
     v \<leftarrow> vec_at (afti_partitionColumnWidthMinus1 afti) 0;
     bs \<leftarrow> bs_writeUvlc v bs;
     v \<leftarrow> vec_at (afti_partitionRowHeightMinus1 afti) 0;
     bs \<leftarrow> bs_writeUvlc v bs;
     Some bs
   } else do {
     bs \<leftarrow> bs_writeUvlc (afti_numPartitionColumnsMinus1 afti) bs;
     bs \<leftarrow> bs_writeUvlc (afti_numPartitionRowsMinus1 afti) bs;
     bs \<leftarrow> for_loop [0..<unat (afti_numPartitionColumnsMinus1 afti)] (afti_column_w afti) bs;
     bs \<leftarrow> for_loop [0..<unat (afti_numPartitionRowsMinus1 afti)] (afti_row_w afti) bs;
     Some bs
   })"

definition afti_partitions_r :: "AtlasSequenceParameterSetRbsp \<Rightarrow> AtlasFrameTileInformation \<Rightarrow> PCCBitstream \<Rightarrow> (AtlasFrameTileInformation \<times> PCCBitstream) option" where
  "afti_partitions_r asps afti bs = (if afti_uniformPartitionSpacingFlag afti then do {
     (v, bs) \<leftarrow> bs_readUvlc bs;
     l \<leftarrow> vec_put (afti_partitionColumnWidthMinus1 afti) 0 v;
     let afti = afti\<lparr>afti_partitionColumnWidthMinus1 := l\<rparr>;
     (v, bs) \<leftarrow> bs_readUvlc bs;
     l \<leftarrow> vec_put (afti_partitionRowHeightMinus1 afti) 0 v;
     let afti = afti\<lparr>afti_partitionRowHeightMinus1 := l\<rparr>;
     c \<leftarrow> vec_at (afti_partitionColumnWidthMinus1 afti) 0;
     n \<leftarrow> afti_uniformCount (asps_frameWidth asps) c;
     let afti = afti_setNumPartitionColumnsMinus1 n afti;
     h \<leftarrow> vec_at (afti_partitionRowHeightMinus1 afti) 0;
     n \<leftarrow> afti_uniformCount (asps_frameHeight asps) h;
     let afti = afti_setNumPartitionRowsMinus1 n afti;
     Some (afti, bs)
   } else do {
     (v, bs) \<leftarrow> bs_readUvlc bs;
     let afti = afti_setNumPartitionColumnsMinus1 v afti;
     (v, bs) \<leftarrow> bs_readUvlc bs;
     let afti = afti_setNumPartitionRowsMinus1 v afti;
     (afti, bs) \<leftarrow> for_loop [0..<unat (afti_numPartitionColumnsMinus1 afti)] (\<lambda>i (afti, bs). afti_column_r i afti bs) (afti, bs);
     (afti, bs) \<leftarrow> for_loop [0..<unat (afti_numPartitionRowsMinus1 afti)] (\<lambda>i (afti, bs). afti_row_r i afti bs) (afti, bs);
     Some (afti, bs)
   })"

definition atlasFrameTileInformation_w :: "AtlasSequenceParameterSetRbsp \<Rightarrow> AtlasFrameTileInformation \<Rightarrow> PCCBitstream \<Rightarrow> PCCBitstream option" where
  "atlasFrameTileInformation_w asps afti bs = do {
     bs \<leftarrow> bs_write (b2u (afti_singleTileInAtlasFrameFlag afti)) 1 bs;
     bs \<leftarrow> (if \<not> afti_singleTileInAtlasFrameFlag afti then do {
         bs \<leftarrow> bs_write (b2u (afti_uniformPartitionSpacingFlag afti)) 1 bs;
         bs \<leftarrow> afti_partitions_w afti bs;
         bs \<leftarrow> bs_write (afti_singlePartitionPerTileFlag afti) 1 bs;
         bs \<leftarrow> (if afti_singlePartitionPerTileFlag afti = 0 then do {
             bs \<leftarrow> bs_writeUvlc (afti_numTilesInAtlasFrameMinus1 afti) bs;
             bs \<leftarrow> for_loop [0..<unat (afti_numTilesInAtlasFrameMinus1 afti) + 1] (afti_tile_w afti) bs;
             Some bs
           } else Some bs);
         Some bs
       } else Some bs);
     bs \<leftarrow> (if asps_auxiliaryVideoEnabledFlag asps then do {
         bs \<leftarrow> bs_writeUvlc (afti_auxiliaryVideoTileRowWidthMinus1 afti) bs;
         bs \<leftarrow> for_loop [0..<unat (afti_numTilesInAtlasFrameMinus1 afti) + 1] (afti_height_w afti) bs;
         Some bs
       } else Some bs);
     bs \<leftarrow> bs_write (b2u (afti_signalledTileIdFlag afti)) 1 bs;
     bs \<leftarrow> (if afti_signalledTileIdFlag afti then do {
         bs \<leftarrow> bs_writeUvlc (afti_signalledTileIdLengthMinus1 afti) bs;
         bs \<leftarrow> for_loop [0..<unat (afti_numTilesInAtlasFrameMinus1 afti) + 1] (afti_id_w afti) bs;
         Some bs
       } else Some bs);
     Some bs
   }"

definition atlasFrameTileInformation_r :: "AtlasSequenceParameterSetRbsp \<Rightarrow> AtlasFrameTileInformation \<Rightarrow> PCCBitstream \<Rightarrow> (AtlasFrameTileInformation \<times> PCCBitstream) option" where
  "atlasFrameTileInformation_r asps afti bs = do {
     (v, bs) \<leftarrow> bs_read 1 bs;
     let afti = afti\<lparr>afti_singleTileInAtlasFrameFlag := v \<noteq> 0\<rparr>;
     (afti, bs) \<leftarrow> (if \<not> afti_singleTileInAtlasFrameFlag afti then do {
         (v, bs) \<leftarrow> bs_read 1 bs;
         let afti = afti\<lparr>afti_uniformPartitionSpacingFlag := v \<noteq> 0\<rparr>;
         (afti, bs) \<leftarrow> afti_partitions_r asps afti bs;
         (v, bs) \<leftarrow> bs_read 1 bs;
         let afti = afti\<lparr>afti_singlePartitionPerTileFlag := v\<rparr>;
         (afti, bs) \<leftarrow> (if afti_singlePartitionPerTileFlag afti = 0 then do {
             (v, bs) \<leftarrow> bs_readUvlc bs;
             let afti = afti\<lparr>afti_numTilesInAtlasFrameMinus1 := v\<rparr>;
             (afti, bs) \<leftarrow> for_loop [0..<unat (afti_numTilesInAtlasFrameMinus1 afti) + 1] (\<lambda>i (afti, bs). afti_tile_r i afti bs) (afti, bs);
             Some (afti, bs)
           } else do {
             let afti = afti\<lparr>afti_numTilesInAtlasFrameMinus1 := afti_numPartitions afti - 1\<rparr>;
             afti \<leftarrow> for_loop [0..<unat (afti_numTilesInAtlasFrameMinus1 afti) + 1] afti_tile_derived afti;
             Some (afti, bs)
           });
         Some (afti, bs)
       } else do {
         let afti = afti\<lparr>afti_numTilesInAtlasFrameMinus1 := 0\<rparr>;
         Some (afti, bs)
       });
     (afti, bs) \<leftarrow> (if asps_auxiliaryVideoEnabledFlag asps then do {
         (v, bs) \<leftarrow> bs_readUvlc bs;
         let afti = afti\<lparr>afti_auxiliaryVideoTileRowWidthMinus1 := v\<rparr>;
         (afti, bs) \<leftarrow> for_loop [0..<unat (afti_numTilesInAtlasFrameMinus1 afti) + 1] (\<lambda>i (afti, bs). afti_height_r i afti bs) (afti, bs);
         Some (afti, bs)
       } else Some (afti, bs));
     (v, bs) \<leftarrow> bs_read 1 bs;
     let afti = afti\<lparr>afti_signalledTileIdFlag := v \<noteq> 0\<rparr>;
     (afti, bs) \<leftarrow> (if afti_signalledTileIdFlag afti then do {
         (v, bs) \<leftarrow> bs_readUvlc bs;
         let afti = afti\<lparr>afti_signalledTileIdLengthMinus1 := v\<rparr>;
         (afti, bs) \<leftarrow> for_loop [0..<unat (afti_numTilesInAtlasFrameMinus1 afti) + 1] (\<lambda>i (afti, bs). afti_id_r i afti bs) (afti, bs);
         Some (afti, bs)
       } else do {
         afti \<leftarrow> for_loop [0..<unat (afti_numTilesInAtlasFrameMinus1 afti) + 1] afti_id_derived afti;
         Some (afti, bs)
       });
     Some (afti, bs)
   }"

section \<open>Atlas frame parameter set\<close>

text \<open>\<open>getAtlasSequenceParameterSet( id )\<close> of the enclosing syntax is the argument \<open>getAsps\<close>.\<close>

record AtlasFrameParameterSetRbsp =
  afps_atlasFrameParameterSetId :: uint8_t
  afps_atlasSequenceParameterSetId :: uint8_t
  afps_atlasFrameTileInformation :: AtlasFrameTileInformation
  afps_outputFlagPresentFlag :: bool
  afps_numRefIdxDefaultActiveMinus1 :: uint8_t
  afps_additionalLtAfocLsbLen :: uint8_t
  afps_lodModeEnableFlag :: bool
  afps_raw3doffsetBitCountExplicitModeFlag :: bool
  afps_extensionFlag :: bool
  afps_extension8Bits :: uint8_t

definition afps_new :: AtlasFrameParameterSetRbsp where
  "afps_new = \<lparr>afps_atlasFrameParameterSetId = 0, afps_atlasSequenceParameterSetId = 0,
     afps_atlasFrameTileInformation = afti_new, afps_outputFlagPresentFlag = False,
     afps_numRefIdxDefaultActiveMinus1 = 0, afps_additionalLtAfocLsbLen = 0,
     afps_lodModeEnableFlag = False, afps_raw3doffsetBitCountExplicitModeFlag = False,
     afps_extensionFlag = False, afps_extension8Bits = 0\<rparr>"

definition atlasFrameParameterSetRbsp_w :: "(uint8_t \<Rightarrow> AtlasSequenceParameterSetRbsp option) \<Rightarrow> AtlasFrameParameterSetRbsp \<Rightarrow> PCCBitstream \<Rightarrow> PCCBitstream option" where
  "atlasFrameParameterSetRbsp_w getAsps afps bs = do {
     bs \<leftarrow> bs_writeUvlc (ucast (afps_atlasFrameParameterSetId afps)) bs;
     bs \<leftarrow> bs_writeUvlc (ucast (afps_atlasSequenceParameterSetId afps)) bs;
     asps \<leftarrow> getAsps (afps_atlasSequenceParameterSetId afps);
     bs \<leftarrow> atlasFrameTileInformation_w asps (afps_atlasFrameTileInformation afps) bs;
     bs \<leftarrow> bs_write (b2u (afps_outputFlagPresentFlag afps)) 1 bs;
     bs \<leftarrow> bs_writeUvlc (ucast (afps_numRefIdxDefaultActiveMinus1 afps)) bs;
     bs \<leftarrow> bs_writeUvlc (ucast (afps_additionalLtAfocLsbLen afps)) bs;
     bs \<leftarrow> bs_write (b2u (afps_lodModeEnableFlag afps)) 1 bs;
     bs \<leftarrow> bs_write (b2u (afps_raw3doffsetBitCountExplicitModeFlag afps)) 1 bs;
     bs \<leftarrow> bs_write (b2u (afps_extensionFlag afps)) 1 bs;
     bs \<leftarrow> (if afps_extensionFlag afps then do {
         bs \<leftarrow> bs_write (ucast (afps_extension8Bits afps)) 8 bs;
         Some bs
       } else Some bs);
     bs \<leftarrow> rbspTrailingBits_w bs;
     Some bs
   }"

definition atlasFrameParameterSetRbsp_r :: "(uint8_t \<Rightarrow> AtlasSequenceParameterSetRbsp option) \<Rightarrow> AtlasFrameParameterSetRbsp \<Rightarrow> PCCBitstream \<Rightarrow> (AtlasFrameParameterSetRbsp \<times> PCCBitstream) option" where
  "atlasFrameParameterSetRbsp_r getAsps afps bs = do {
     (v, bs) \<leftarrow> bs_readUvlc bs;
     let afps = afps\<lparr>afps_atlasFrameParameterSetId := ucast v\<rparr>;
     (v, bs) \<leftarrow> bs_readUvlc bs;
     let afps = afps\<lparr>afps_atlasSequenceParameterSetId := ucast v\<rparr>;
     asps \<leftarrow> getAsps (afps_atlasSequenceParameterSetId afps);
     (sub, bs) \<leftarrow> atlasFrameTileInformation_r asps (afps_atlasFrameTileInformation afps) bs;
     let afps = afps\<lparr>afps_atlasFrameTileInformation := sub\<rparr>;
     (v, bs) \<leftarrow> bs_read 1 bs;
     let afps = afps\<lparr>afps_outputFlagPresentFlag := v \<noteq> 0\<rparr>;
     (v, bs) \<leftarrow> bs_readUvlc bs;
     let afps = afps\<lparr>afps_numRefIdxDefaultActiveMinus1 := ucast v\<rparr>;
     (v, bs) \<leftarrow> bs_readUvlc bs;
     let afps = afps\<lparr>afps_additionalLtAfocLsbLen := ucast v\<rparr>;
     (v, bs) \<leftarrow> bs_read 1 bs;
     let afps = afps\<lparr>afps_lodModeEnableFlag := v \<noteq> 0\<rparr>;
     (v, bs) \<leftarrow> bs_read 1 bs;
     let afps = afps\<lparr>afps_raw3doffsetBitCountExplicitModeFlag := v \<noteq> 0\<rparr>;
     (v, bs) \<leftarrow> bs_read 1 bs;
     let afps = afps\<lparr>afps_extensionFlag := v \<noteq> 0\<rparr>;
     (afps, bs) \<leftarrow> (if afps_extensionFlag afps then do {
         (v, bs) \<leftarrow> bs_read 8 bs;
         let afps = afps\<lparr>afps_extension8Bits := ucast v\<rparr>;
         Some (afps, bs)
       } else Some (afps, bs));
     (u, bs) \<leftarrow> rbspTrailingBits_r bs;
     Some (afps, bs)
   }"

section \<open>Atlas adaptation parameter set\<close>

text \<open>The constructor leaves the vectors of the camera parameters and the flag
  \<open>cameraParametersPresentFlag\<close> uninitialised.\<close>

record AtlasCameraParameters =
  acp_cameraModel :: uint8_t
  acp_scaleEnabledFlag :: bool
  acp_offsetEnabledFlag :: bool
  acp_rotationEnabledFlag :: bool
  acp_scaleOnAxis :: "uint32_t list"
  acp_offsetOnAxis :: "int list"
  acp_rotation :: "int list"

definition acp_new :: AtlasCameraParameters where
  "acp_new = \<lparr>acp_cameraModel = 0, acp_scaleEnabledFlag = False,
     acp_offsetEnabledFlag = False, acp_rotationEnabledFlag = False, acp_scaleOnAxis = [0, 0, 0],
     acp_offsetOnAxis = [0, 0, 0], acp_rotation = [0, 0, 0]\<rparr>"

record AapsVpccExtension =
  aavext_cameraParametersPresentFlag :: bool
  aavext_atlasCameraParameters :: AtlasCameraParameters

definition aavext_new :: AapsVpccExtension where
  "aavext_new = \<lparr>aavext_cameraParametersPresentFlag = False,
     aavext_atlasCameraParameters = acp_new\<rparr>"

record AtlasAdaptationParameterSetRbsp =
  aaps_atlasAdaptationParameterSetId :: uint8_t
  aaps_extensionFlag :: bool
  aaps_vpccExtensionFlag :: bool
  aaps_extension7Bits :: uint8_t
  aaps_aapsVpccExtension :: AapsVpccExtension

definition aaps_new :: AtlasAdaptationParameterSetRbsp where
  "aaps_new = \<lparr>aaps_atlasAdaptationParameterSetId = 0, aaps_extensionFlag = False,
     aaps_vpccExtensionFlag = False, aaps_extension7Bits = 0,
     aaps_aapsVpccExtension = aavext_new\<rparr>"

definition acp_scale_w :: "AtlasCameraParameters \<Rightarrow> nat \<Rightarrow> PCCBitstream \<Rightarrow> PCCBitstream option" where
  "acp_scale_w acp i bs = do {
     v \<leftarrow> vec_at (acp_scaleOnAxis acp) i;
     bs \<leftarrow> bs_write v 32 bs;
     Some bs
   }"

definition acp_scale_r :: "nat \<Rightarrow> AtlasCameraParameters \<Rightarrow> PCCBitstream \<Rightarrow> (AtlasCameraParameters \<times> PCCBitstream) option" where
  "acp_scale_r i acp bs = do {
     (v, bs) \<leftarrow> bs_read 32 bs;
     l \<leftarrow> vec_set (acp_scaleOnAxis acp) i v;
     let acp = acp\<lparr>acp_scaleOnAxis := l\<rparr>;
     Some (acp, bs)
   }"

definition acp_offset_w :: "AtlasCameraParameters \<Rightarrow> nat \<Rightarrow> PCCBitstream \<Rightarrow> PCCBitstream option" where
  "acp_offset_w acp i bs = do {
     v \<leftarrow> vec_at (acp_offsetOnAxis acp) i;
     bs \<leftarrow> bs_writeS v 32 bs;
     Some bs
   }"

definition acp_offset_r :: "nat \<Rightarrow> AtlasCameraParameters \<Rightarrow> PCCBitstream \<Rightarrow> (AtlasCameraParameters \<times> PCCBitstream) option" where
  "acp_offset_r i acp bs = do {
     (v, bs) \<leftarrow> bs_readS 32 bs;
     l \<leftarrow> vec_set (acp_offsetOnAxis acp) i v;
     let acp = acp\<lparr>acp_offsetOnAxis := l\<rparr>;
     Some (acp, bs)
   }"

definition acp_rotation_w :: "AtlasCameraParameters \<Rightarrow> nat \<Rightarrow> PCCBitstream \<Rightarrow> PCCBitstream option" where
  "acp_rotation_w acp i bs = do {
     v \<leftarrow> vec_at (acp_rotation acp) i;
     bs \<leftarrow> bs_writeS v 16 bs;
     Some bs
   }"

definition acp_rotation_r :: "nat \<Rightarrow> AtlasCameraParameters \<Rightarrow> PCCBitstream \<Rightarrow> (AtlasCameraParameters \<times> PCCBitstream) option" where
  "acp_rotation_r i acp bs = do {
     (v, bs) \<leftarrow> bs_readS 16 bs;
     l \<leftarrow> vec_set (acp_rotation acp) i v;
     let acp = acp\<lparr>acp_rotation := l\<rparr>;
     Some (acp, bs)
   }"

definition atlasCameraParameters_w :: "AtlasCameraParameters \<Rightarrow> PCCBitstream \<Rightarrow> PCCBitstream option" where
  "atlasCameraParameters_w acp bs = do {
     bs \<leftarrow> bs_write (ucast (acp_cameraModel acp)) 8 bs;
     bs \<leftarrow> (if acp_cameraModel acp = 1 then do {
         bs \<leftarrow> bs_write (b2u (acp_scaleEnabledFlag acp)) 1 bs;
         bs \<leftarrow> bs_write (b2u (acp_offsetEnabledFlag acp)) 1 bs;
         bs \<leftarrow> bs_write (b2u (acp_rotationEnabledFlag acp)) 1 bs;
         bs \<leftarrow> (if acp_scaleEnabledFlag acp then do {
             bs \<leftarrow> for_loop [0..<3] (acp_scale_w acp) bs;
             Some bs
           } else Some bs);
         bs \<leftarrow> (if acp_offsetEnabledFlag acp then do {
             bs \<leftarrow> for_loop [0..<3] (acp_offset_w acp) bs;
             Some bs
           } else Some bs);
         bs \<leftarrow> (if acp_rotationEnabledFlag acp then do {
             bs \<leftarrow> for_loop [0..<3] (acp_rotation_w acp) bs;
             Some bs
           } else Some bs);
         Some bs
       } else Some bs);
     Some bs
   }"

definition atlasCameraParameters_r :: "AtlasCameraParameters \<Rightarrow> PCCBitstream \<Rightarrow> (AtlasCameraParameters \<times> PCCBitstream) option" where
  "atlasCameraParameters_r acp bs = do {
     (v, bs) \<leftarrow> bs_read 8 bs;
     let acp = acp\<lparr>acp_cameraModel := ucast v\<rparr>;
     (acp, bs) \<leftarrow> (if acp_cameraModel acp = 1 then do {
         (v, bs) \<leftarrow> bs_read 1 bs;
         let acp = acp\<lparr>acp_scaleEnabledFlag := v \<noteq> 0\<rparr>;
         (v, bs) \<leftarrow> bs_read 1 bs;
         let acp = acp\<lparr>acp_offsetEnabledFlag := v \<noteq> 0\<rparr>;
         (v, bs) \<leftarrow> bs_read 1 bs;
         let acp = acp\<lparr>acp_rotationEnabledFlag := v \<noteq> 0\<rparr>;
         (acp, bs) \<leftarrow> (if acp_scaleEnabledFlag acp then do {
             (acp, bs) \<leftarrow> for_loop [0..<3] (\<lambda>i (acp, bs). acp_scale_r i acp bs) (acp, bs);
             Some (acp, bs)
           } else Some (acp, bs));
         (acp, bs) \<leftarrow> (if acp_offsetEnabledFlag acp then do {
             (acp, bs) \<leftarrow> for_loop [0..<3] (\<lambda>i (acp, bs). acp_offset_r i acp bs) (acp, bs);
             Some (acp, bs)
           } else Some (acp, bs));
         (acp, bs) \<leftarrow> (if acp_rotationEnabledFlag acp then do {
             (acp, bs) \<leftarrow> for_loop [0..<3] (\<lambda>i (acp, bs). acp_rotation_r i acp bs) (acp, bs);
             Some (acp, bs)
           } else Some (acp, bs));
         Some (acp, bs)
       } else Some (acp, bs));
     Some (acp, bs)
   }"

definition aapsVpccExtension_w :: "AapsVpccExtension \<Rightarrow> PCCBitstream \<Rightarrow> PCCBitstream option" where
  "aapsVpccExtension_w ext bs = do {
     bs \<leftarrow> bs_write (b2u (aavext_cameraParametersPresentFlag ext)) 1 bs;
     bs \<leftarrow> (if aavext_cameraParametersPresentFlag ext then do {
         bs \<leftarrow> atlasCameraParameters_w (aavext_atlasCameraParameters ext) bs;
         Some bs
       } else Some bs);
     Some bs
   }"

definition aapsVpccExtension_r :: "AapsVpccExtension \<Rightarrow> PCCBitstream \<Rightarrow> (AapsVpccExtension \<times> PCCBitstream) option" where
  "aapsVpccExtension_r ext bs = do {
     (v, bs) \<leftarrow> bs_read 1 bs;
     let ext = ext\<lparr>aavext_cameraParametersPresentFlag := v \<noteq> 0\<rparr>;
     (ext, bs) \<leftarrow> (if aavext_cameraParametersPresentFlag ext then do {
         (sub, bs) \<leftarrow> atlasCameraParameters_r (aavext_atlasCameraParameters ext) bs;
         let ext = ext\<lparr>aavext_atlasCameraParameters := sub\<rparr>;
         Some (ext, bs)
       } else Some (ext, bs));
     Some (ext, bs)
   }"

text \<open>The accessors of \<open>extension7Bits\<close> convert to \<open>bool\<close> on both sides.\<close>

definition atlasAdaptationParameterSetRbsp_w :: "AtlasAdaptationParameterSetRbsp \<Rightarrow> PCCBitstream \<Rightarrow> PCCBitstream option" where
  "atlasAdaptationParameterSetRbsp_w aaps bs = do {
     bs \<leftarrow> bs_writeUvlc (ucast (aaps_atlasAdaptationParameterSetId aaps)) bs;
     bs \<leftarrow> bs_write (b2u (aaps_extensionFlag aaps)) 1 bs;
     bs \<leftarrow> (if aaps_extensionFlag aaps then do {
         bs \<leftarrow> bs_write (b2u (aaps_vpccExtensionFlag aaps)) 1 bs;
         bs \<leftarrow> bs_write (b2u (aaps_extension7Bits aaps \<noteq> 0)) 7 bs;
         Some bs
       } else Some bs);
     bs \<leftarrow> (if aaps_vpccExtensionFlag aaps then do {
         bs \<leftarrow> aapsVpccExtension_w (aaps_aapsVpccExtension aaps) bs;
         Some bs
       } else Some bs);
     bs \<leftarrow> rbspTrailingBits_w bs;
     Some bs
   }"

definition atlasAdaptationParameterSetRbsp_r :: "AtlasAdaptationParameterSetRbsp \<Rightarrow> PCCBitstream \<Rightarrow> (AtlasAdaptationParameterSetRbsp \<times> PCCBitstream) option" where
  "atlasAdaptationParameterSetRbsp_r aaps bs = do {
     (v, bs) \<leftarrow> bs_readUvlc bs;
     let aaps = aaps\<lparr>aaps_atlasAdaptationParameterSetId := ucast v\<rparr>;
     (v, bs) \<leftarrow> bs_read 1 bs;
     let aaps = aaps\<lparr>aaps_extensionFlag := v \<noteq> 0\<rparr>;
     (aaps, bs) \<leftarrow> (if aaps_extensionFlag aaps then do {
         (v, bs) \<leftarrow> bs_read 1 bs;
         let aaps = aaps\<lparr>aaps_vpccExtensionFlag := v \<noteq> 0\<rparr>;
         (v, bs) \<leftarrow> bs_read 7 bs;
         let aaps = aaps\<lparr>aaps_extension7Bits := of_bool (v \<noteq> 0)\<rparr>;
         Some (aaps, bs)
       } else Some (aaps, bs));
     (aaps, bs) \<leftarrow> (if aaps_vpccExtensionFlag aaps then do {
         (sub, bs) \<leftarrow> aapsVpccExtension_r (aaps_aapsVpccExtension aaps) bs;
         let aaps = aaps\<lparr>aaps_aapsVpccExtension := sub\<rparr>;
         Some (aaps, bs)
       } else Some (aaps, bs));
     (u, bs) \<leftarrow> rbspTrailingBits_r bs;
     Some (aaps, bs)
   }"

section \<open>Small RBSPs\<close>

record AccessUnitDelimiterRbsp =
  aud_aframeType :: uint8_t

definition aud_new :: AccessUnitDelimiterRbsp where
  "aud_new = \<lparr>aud_aframeType = 0\<rparr>"

definition accessUnitDelimiterRbsp_w :: "AccessUnitDelimiterRbsp \<Rightarrow> PCCBitstream \<Rightarrow> PCCBitstream option" where
  "accessUnitDelimiterRbsp_w aud bs = do {
     bs \<leftarrow> bs_write (ucast (aud_aframeType aud)) 3 bs;
     bs \<leftarrow> rbspTrailingBits_w bs;
     Some bs
   }"

definition accessUnitDelimiterRbsp_r :: "AccessUnitDelimiterRbsp \<Rightarrow> PCCBitstream \<Rightarrow> (AccessUnitDelimiterRbsp \<times> PCCBitstream) option" where
  "accessUnitDelimiterRbsp_r aud bs = do {
     (v, bs) \<leftarrow> bs_read 3 bs;
     let aud = aud\<lparr>aud_aframeType := ucast v\<rparr>;
     (u, bs) \<leftarrow> rbspTrailingBits_r bs;
     Some (aud, bs)
   }"


section \<open>Round trips\<close>

lemma afti_column_codes:
  assumes "n' = n" and "length (afti_partitionColumnWidthMinus1 x) = max 1 n"
    and "afti_partitionColumnWidthMinus1 y = replicate (max 1 n) 0"
    and "n = 0 \<longrightarrow> afti_partitionColumnWidthMinus1 x = [0]"
    and "\<forall>i < n. unat (afti_partitionColumnWidthMinus1 x ! i) < 2147483647"
  shows "codes (for_loop [0..<n] (afti_column_w x)) (\<lambda>bs. for_loop [0..<n'] (\<lambda>i (afti, bs). afti_column_r i afti bs) (y, bs))
     (y\<lparr>afti_partitionColumnWidthMinus1 := afti_partitionColumnWidthMinus1 x\<rparr>)"
proof (cases "n = 0")
  case True
  then show ?thesis using assms by (cases y) (simp add: codes_return)
next
  case False
  then have "max 1 n = n" by simp
  with assms show ?thesis
    unfolding afti_column_w_def [abs_def] afti_column_r_def [abs_def]
    by - ((rule codes_for_grow [where S = "\<lambda>l. y\<lparr>afti_partitionColumnWidthMinus1 := l\<rparr>" and zs = "replicate n 0"]
        codec_intro refl AtlasFrameTileInformation.equality | (simp; fail))+)
qed

lemma afti_row_codes:
  assumes "n' = n" and "length (afti_partitionRowHeightMinus1 x) = max 1 n"
    and "afti_partitionRowHeightMinus1 y = replicate (max 1 n) 0"
    and "n = 0 \<longrightarrow> afti_partitionRowHeightMinus1 x = [0]"
    and "\<forall>i < n. unat (afti_partitionRowHeightMinus1 x ! i) < 2147483647"
  shows "codes (for_loop [0..<n] (afti_row_w x)) (\<lambda>bs. for_loop [0..<n'] (\<lambda>i (afti, bs). afti_row_r i afti bs) (y, bs))
     (y\<lparr>afti_partitionRowHeightMinus1 := afti_partitionRowHeightMinus1 x\<rparr>)"
proof (cases "n = 0")
  case True
  then show ?thesis using assms by (cases y) (simp add: codes_return)
next
  case False
  then have "max 1 n = n" by simp
  with assms show ?thesis
    unfolding afti_row_w_def [abs_def] afti_row_r_def [abs_def]
    by - ((rule codes_for_grow [where S = "\<lambda>l. y\<lparr>afti_partitionRowHeightMinus1 := l\<rparr>" and zs = "replicate n 0"]
        codec_intro refl AtlasFrameTileInformation.equality | (simp; fail))+)
qed

lemma afti_height_codes:
  assumes "n' = n" and "length (afti_auxiliaryVideoTileRowHeight x) = n" and "afti_auxiliaryVideoTileRowHeight y = []"
    and "\<forall>i < n. unat (afti_auxiliaryVideoTileRowHeight x ! i) < 2147483647"
  shows "codes (for_loop [0..<n] (afti_height_w x)) (\<lambda>bs. for_loop [0..<n'] (\<lambda>i (afti, bs). afti_height_r i afti bs) (y, bs))
     (y\<lparr>afti_auxiliaryVideoTileRowHeight := afti_auxiliaryVideoTileRowHeight x\<rparr>)"
proof -
  have "k < n \<Longrightarrow> afti_auxiliaryVideoTileRowHeight x \<noteq> []" for k using assms(2) by auto
  with assms show ?thesis
    unfolding afti_height_w_def [abs_def] afti_height_r_def [abs_def]
    by - ((rule codes_for_grow [where S = "\<lambda>l. y\<lparr>afti_auxiliaryVideoTileRowHeight := l\<rparr>" and zs = "[]"]
        codec_intro refl AtlasFrameTileInformation.equality | (simp; fail))+)
qed

lemma afti_id_codes:
  assumes "n' = n" and "length (afti_tileId x) = n" and "afti_tileId y = [0]" and "1 \<le> n"
    and "afti_signalledTileIdLengthMinus1 y = afti_signalledTileIdLengthMinus1 x" and "afti_idBits x \<le> 32"
    and "\<forall>i < n. unat (afti_tileId x ! i) < 2 ^ afti_idBits x"
  shows "codes (for_loop [0..<n] (afti_id_w x)) (\<lambda>bs. for_loop [0..<n'] (\<lambda>i (afti, bs). afti_id_r i afti bs) (y, bs))
     (y\<lparr>afti_tileId := afti_tileId x\<rparr>)"
proof -
  have "afti_idBits (y\<lparr>afti_tileId := l\<rparr>) = afti_idBits x" for l using assms(5) by (simp add: afti_idBits_def)
  with assms show ?thesis
    unfolding afti_id_w_def [abs_def] afti_id_r_def [abs_def]
    by - ((rule codes_for_grow [where S = "\<lambda>l. y\<lparr>afti_tileId := l\<rparr>" and zs = "[0]"]
        codec_intro refl AtlasFrameTileInformation.equality | (simp; fail))+)
qed

lemma afti_tile_codes:
  fixes x y
  defines "S \<equiv> \<lambda>k. y\<lparr>afti_topLeftPartitionIdx := filled k (afti_topLeftPartitionIdx x) [0],
     afti_bottomRightPartitionColumnOffset := filled k (afti_bottomRightPartitionColumnOffset x) [0],
     afti_bottomRightPartitionRowOffset := filled k (afti_bottomRightPartitionRowOffset x) [0]\<rparr>"
  assumes "n' = n" and "1 \<le> n"
    and "length (afti_topLeftPartitionIdx x) = n" "length (afti_bottomRightPartitionColumnOffset x) = n"
      "length (afti_bottomRightPartitionRowOffset x) = n"
    and y: "afti_topLeftPartitionIdx y = [0]" "afti_bottomRightPartitionColumnOffset y = [0]" "afti_bottomRightPartitionRowOffset y = [0]"
    and "afti_numPartitions y = afti_numPartitions x" and "afti_idxBits x \<le> 32"
    and "\<forall>i < n. unat (afti_topLeftPartitionIdx x ! i) < 2 ^ afti_idxBits x
       \<and> unat (afti_bottomRightPartitionColumnOffset x ! i) < 2147483647 \<and> unat (afti_bottomRightPartitionRowOffset x ! i) < 2147483647"
  shows "codes (for_loop [0..<n] (afti_tile_w x)) (\<lambda>bs. for_loop [0..<n'] (\<lambda>i (afti, bs). afti_tile_r i afti bs) (y, bs))
     (y\<lparr>afti_topLeftPartitionIdx := afti_topLeftPartitionIdx x,
        afti_bottomRightPartitionColumnOffset := afti_bottomRightPartitionColumnOffset x,
        afti_bottomRightPartitionRowOffset := afti_bottomRightPartitionRowOffset x\<rparr>)"
proof -
  have bits: "afti_idxBits (S k) = afti_idxBits x" for k
    using assms(10) by (simp add: afti_idxBits_def afti_numPartitions_def S_def)
  have S0: "y = S 0" using y by (cases y) (simp add: S_def)
  have Sn: "S n = y\<lparr>afti_topLeftPartitionIdx := afti_topLeftPartitionIdx x,
        afti_bottomRightPartitionColumnOffset := afti_bottomRightPartitionColumnOffset x,
        afti_bottomRightPartitionRowOffset := afti_bottomRightPartitionRowOffset x\<rparr>"
    using assms by (simp add: S_def)
  note facts = assms(3) [simplified] assms(4-6,11-12)
  have "codes (afti_tile_w x k) (afti_tile_r k (S k)) (S (Suc k))" if "k < n" for k
    unfolding afti_tile_w_def [abs_def] afti_tile_r_def [abs_def] bits
    by ((rule codec_intro refl AtlasFrameTileInformation.equality
        | (simp add: facts that S_def; fail))+)
  then have "codes (for_loop [0..<n] (afti_tile_w x)) (\<lambda>bs. for_loop [0..<n'] (\<lambda>i (afti, bs). afti_tile_r i afti bs) (y, bs)) (S n)"
    using assms(2) S0 by (intro codes_for [where y = S])
  then show ?thesis by (simp only: Sn)
qed


lemma vec_put_replicate [simp]:
  assumes "i < n"
  shows "vec_put (filled i (map f [0..<n]) [d]) i (f i) = Some (filled (Suc i) (map f [0..<n]) [d])"
  using assms by (intro vec_put_filled) simp_all

lemma afti_tile_derived_loop:
  assumes "1 \<le> n" and y: "afti_topLeftPartitionIdx y = [0]" "afti_bottomRightPartitionColumnOffset y = [0]"
      "afti_bottomRightPartitionRowOffset y = [0]"
  shows "for_loop [0..<n] afti_tile_derived y = Some (y\<lparr>afti_topLeftPartitionIdx := map of_nat [0..<n],
     afti_bottomRightPartitionColumnOffset := map (\<lambda>_. 0) [0..<n], afti_bottomRightPartitionRowOffset := map (\<lambda>_. 0) [0..<n]\<rparr>)"
proof -
  define S where "S = (\<lambda>k. y\<lparr>afti_topLeftPartitionIdx := filled k (map of_nat [0..<n]) [0],
     afti_bottomRightPartitionColumnOffset := filled k (map (\<lambda>_. 0) [0..<n]) [0],
     afti_bottomRightPartitionRowOffset := filled k (map (\<lambda>_. 0) [0..<n]) [0]\<rparr>)"
  have zero: "vec_put (filled k (map (\<lambda>_. 0) [0..<n]) [0]) k 0 = Some (filled (Suc k) (map (\<lambda>_. 0) [0..<n]) [0 :: uint32_t])"
    if "k < n" for k
    using vec_put_replicate [OF that, of "\<lambda>_. 0 :: uint32_t" 0] .
  have "for_loop [0..<n] afti_tile_derived (S 0) = Some (S n)"
    by (rule for_loop_inv) (simp add: S_def afti_tile_derived_def zero)
  moreover have "S 0 = y" using y by (cases y) (simp add: S_def)
  ultimately show ?thesis using assms(1) by (simp add: S_def)
qed

lemma afti_id_derived_loop:
  assumes "1 \<le> n" and y: "afti_tileId y = [0]"
  shows "for_loop [0..<n] afti_id_derived y = Some (y\<lparr>afti_tileId := map of_nat [0..<n]\<rparr>)"
proof -
  define S where "S = (\<lambda>k. y\<lparr>afti_tileId := filled k (map of_nat [0..<n]) [0]\<rparr>)"
  have "for_loop [0..<n] afti_id_derived (S 0) = Some (S n)"
    by (rule for_loop_inv) (simp add: S_def afti_id_derived_def)
  moreover have "S 0 = y" using y by (cases y) (simp add: S_def)
  ultimately show ?thesis using assms(1) by (simp add: S_def)
qed

lemma vec_resize_first:
  assumes "length xs = max 1 n" and "tl xs = replicate (max 1 n - 1) d"
  shows "vec_resize (max 1 n) d [xs ! 0] = xs"
  using assms by (cases xs) (auto simp: vec_resize_def)

lemma vec_resize_single [simp]: "vec_resize (max (Suc 0) n) d [d] = replicate (max (Suc 0) n) d"
  by (cases n) (simp_all add: vec_resize_def)

text \<open>Well-formed tile information. With uniform spacing the numbers of partitions follow from the size
  of the frame; with one partition per tile the tiles follow from the partitions; tile ids that are
  not signalled are the tile numbers.\<close>

definition afti_partitions_wf :: "AtlasSequenceParameterSetRbsp \<Rightarrow> AtlasFrameTileInformation \<Rightarrow> bool" where
  "afti_partitions_wf asps x \<longleftrightarrow>
     (let cols = unat (afti_numPartitionColumnsMinus1 x); rows = unat (afti_numPartitionRowsMinus1 x) in
      if afti_uniformPartitionSpacingFlag x then
        length (afti_partitionColumnWidthMinus1 x) = max 1 cols \<and> length (afti_partitionRowHeightMinus1 x) = max 1 rows
        \<and> tl (afti_partitionColumnWidthMinus1 x) = replicate (max 1 cols - 1) 0
        \<and> tl (afti_partitionRowHeightMinus1 x) = replicate (max 1 rows - 1) 0
        \<and> unat (afti_partitionColumnWidthMinus1 x ! 0) < 2 ^ 31 - 1 \<and> unat (afti_partitionRowHeightMinus1 x ! 0) < 2 ^ 31 - 1
        \<and> afti_uniformCount (asps_frameWidth asps) (afti_partitionColumnWidthMinus1 x ! 0) = Some (afti_numPartitionColumnsMinus1 x)
        \<and> afti_uniformCount (asps_frameHeight asps) (afti_partitionRowHeightMinus1 x ! 0) = Some (afti_numPartitionRowsMinus1 x)
      else cols < 2 ^ 31 - 1 \<and> rows < 2 ^ 31 - 1
        \<and> length (afti_partitionColumnWidthMinus1 x) = max 1 cols \<and> length (afti_partitionRowHeightMinus1 x) = max 1 rows
        \<and> (cols = 0 \<longrightarrow> afti_partitionColumnWidthMinus1 x = [0]) \<and> (rows = 0 \<longrightarrow> afti_partitionRowHeightMinus1 x = [0])
        \<and> (\<forall>i < cols. unat (afti_partitionColumnWidthMinus1 x ! i) < 2 ^ 31 - 1)
        \<and> (\<forall>i < rows. unat (afti_partitionRowHeightMinus1 x ! i) < 2 ^ 31 - 1))"

definition afti_tiles_wf :: "AtlasFrameTileInformation \<Rightarrow> bool" where
  "afti_tiles_wf x \<longleftrightarrow> (let n = unat (afti_numTilesInAtlasFrameMinus1 x) + 1 in
     unat (afti_singlePartitionPerTileFlag x) < 2
     \<and> (if afti_singlePartitionPerTileFlag x = 0 then n < 2 ^ 31 \<and> afti_idxBits x \<le> 32
          \<and> length (afti_topLeftPartitionIdx x) = n \<and> length (afti_bottomRightPartitionColumnOffset x) = n
          \<and> length (afti_bottomRightPartitionRowOffset x) = n
          \<and> (\<forall>i < n. unat (afti_topLeftPartitionIdx x ! i) < 2 ^ afti_idxBits x
               \<and> unat (afti_bottomRightPartitionColumnOffset x ! i) < 2 ^ 31 - 1
               \<and> unat (afti_bottomRightPartitionRowOffset x ! i) < 2 ^ 31 - 1)
        else afti_numTilesInAtlasFrameMinus1 x = afti_numPartitions x - 1
          \<and> afti_topLeftPartitionIdx x = map of_nat [0..<n] \<and> afti_bottomRightPartitionColumnOffset x = map (\<lambda>_. 0) [0..<n]
          \<and> afti_bottomRightPartitionRowOffset x = map (\<lambda>_. 0) [0..<n]))"

definition afti_wf :: "AtlasSequenceParameterSetRbsp \<Rightarrow> AtlasFrameTileInformation \<Rightarrow> bool" where
  "afti_wf asps x \<longleftrightarrow> (let n = unat (afti_numTilesInAtlasFrameMinus1 x) + 1 in
     (if afti_singleTileInAtlasFrameFlag x then afti_uniformPartitionSpacingFlag x \<and> afti_numPartitionColumnsMinus1 x = 0
        \<and> afti_numPartitionRowsMinus1 x = 0 \<and> afti_singlePartitionPerTileFlag x = 0 \<and> afti_numTilesInAtlasFrameMinus1 x = 0
        \<and> afti_partitionColumnWidthMinus1 x = [0] \<and> afti_partitionRowHeightMinus1 x = [0] \<and> afti_topLeftPartitionIdx x = [0]
        \<and> afti_bottomRightPartitionColumnOffset x = [0] \<and> afti_bottomRightPartitionRowOffset x = [0]
      else afti_partitions_wf asps x \<and> afti_tiles_wf x)
     \<and> (if asps_auxiliaryVideoEnabledFlag asps then unat (afti_auxiliaryVideoTileRowWidthMinus1 x) < 2 ^ 31 - 1
          \<and> length (afti_auxiliaryVideoTileRowHeight x) = n \<and> (\<forall>i < n. unat (afti_auxiliaryVideoTileRowHeight x ! i) < 2 ^ 31 - 1)
        else afti_auxiliaryVideoTileRowWidthMinus1 x = 0 \<and> afti_auxiliaryVideoTileRowHeight x = [])
     \<and> (if afti_signalledTileIdFlag x then unat (afti_signalledTileIdLengthMinus1 x) < 2 ^ 31 - 1 \<and> afti_idBits x \<le> 32
          \<and> length (afti_tileId x) = n \<and> (\<forall>i < n. unat (afti_tileId x ! i) < 2 ^ afti_idBits x)
        else afti_signalledTileIdLengthMinus1 x = 0 \<and> afti_tileId x = map of_nat [0..<n])
     \<and> afti_colWidth x = [] \<and> afti_rowHeight x = [] \<and> afti_partitionPosX x = [] \<and> afti_partitionPosY x = [])"

lemma afti_partitions_codes:
  assumes "afti_partitions_wf asps x" and "y' = y"
    and "afti_uniformPartitionSpacingFlag y = afti_uniformPartitionSpacingFlag x"
    and "afti_partitionColumnWidthMinus1 y = [0]" "afti_partitionRowHeightMinus1 y = [0]"
  shows "codes (afti_partitions_w x) (afti_partitions_r asps y') (y\<lparr>afti_numPartitionColumnsMinus1 := afti_numPartitionColumnsMinus1 x,
     afti_numPartitionRowsMinus1 := afti_numPartitionRowsMinus1 x, afti_partitionColumnWidthMinus1 := afti_partitionColumnWidthMinus1 x,
     afti_partitionRowHeightMinus1 := afti_partitionRowHeightMinus1 x\<rparr>)"
proof -
  note facts = assms(1) [unfolded afti_partitions_wf_def if_bool_eq_conj Let_def, simplified] assms(2-)
  show ?thesis
    unfolding afti_partitions_w_def [abs_def] afti_partitions_r_def [abs_def]
      afti_setNumPartitionColumnsMinus1_def afti_setNumPartitionRowsMinus1_def
    by ((rule codes_same afti_column_codes afti_row_codes codec_intro refl AtlasFrameTileInformation.equality
      | (simp add: facts vec_put_def vec_resize_first [simplified]; fail))+)
qed

interpretation afti: param_codec atlasFrameTileInformation_w atlasFrameTileInformation_r afti_new afti_wf
proof unfold_locales
  fix asps x assume wf: "afti_wf asps x"
  note [simp del] = upt_Suc
  note facts = wf [unfolded afti_wf_def afti_tiles_wf_def if_bool_eq_conj Let_def afti_numPartitions_def, simplified]
  show "codes (atlasFrameTileInformation_w asps x) (atlasFrameTileInformation_r asps afti_new) x"
    unfolding atlasFrameTileInformation_w_def [abs_def] atlasFrameTileInformation_r_def [abs_def]
    by ((rule codes_same afti_partitions_codes afti_height_codes afti_id_codes afti_tile_codes codec_intro refl AtlasFrameTileInformation.equality
      | (simp (no_asm) add: facts afti_new_def afti_numPartitions_def; fail)
      | (simp add: facts afti_new_def afti_numPartitions_def afti_tile_derived_loop afti_id_derived_loop; fail))+)
qed


text \<open>The parameter set finds the sequence parameter set that the tile information needs by its id.\<close>

definition afps_wf :: "(uint8_t \<Rightarrow> AtlasSequenceParameterSetRbsp option) \<Rightarrow> AtlasFrameParameterSetRbsp \<Rightarrow> bool" where
  "afps_wf getAsps x \<longleftrightarrow> (case getAsps (afps_atlasSequenceParameterSetId x) of None \<Rightarrow> False
       | Some asps \<Rightarrow> afti_wf asps (afps_atlasFrameTileInformation x))
     \<and> (\<not> afps_extensionFlag x \<longrightarrow> afps_extension8Bits x = 0)"

interpretation afps: param_codec atlasFrameParameterSetRbsp_w atlasFrameParameterSetRbsp_r afps_new afps_wf
proof unfold_locales
  fix getAsps x assume wf: "afps_wf getAsps x"
  then obtain asps where "getAsps (afps_atlasSequenceParameterSetId x) = Some asps" "afti_wf asps (afps_atlasFrameTileInformation x)"
    by (auto simp: afps_wf_def split: option.splits)
  note facts = this wf [unfolded afps_wf_def, THEN conjunct2]
  show "codes (atlasFrameParameterSetRbsp_w getAsps x) (atlasFrameParameterSetRbsp_r getAsps afps_new) x"
    unfolding atlasFrameParameterSetRbsp_w_def [abs_def] atlasFrameParameterSetRbsp_r_def [abs_def]
    by ((rule codes_same codec_intro refl AtlasFrameParameterSetRbsp.equality
      | (simp (no_asm) add: facts afps_new_def; fail) | (simp add: facts afps_new_def; fail))+)
qed

definition acp_wf :: "AtlasCameraParameters \<Rightarrow> bool" where
  "acp_wf x \<longleftrightarrow> length (acp_scaleOnAxis x) = 3 \<and> length (acp_offsetOnAxis x) = 3 \<and> length (acp_rotation x) = 3
     \<and> (acp_cameraModel x \<noteq> 1 \<longrightarrow> \<not> acp_scaleEnabledFlag x \<and> \<not> acp_offsetEnabledFlag x \<and> \<not> acp_rotationEnabledFlag x)
     \<and> (\<not> acp_scaleEnabledFlag x \<longrightarrow> acp_scaleOnAxis x = [0, 0, 0])
     \<and> (if acp_offsetEnabledFlag x then (\<forall>i < 3. i_range 32 (acp_offsetOnAxis x ! i)) else acp_offsetOnAxis x = [0, 0, 0])
     \<and> (if acp_rotationEnabledFlag x then (\<forall>i < 3. i_range 16 (acp_rotation x ! i)) else acp_rotation x = [0, 0, 0])"

lemma acp_scale_codes:
  assumes "length (acp_scaleOnAxis x) = 3" and "acp_scaleOnAxis y = [0, 0, 0]"
  shows "codes (for_loop [0..<3] (acp_scale_w x)) (\<lambda>bs. for_loop [0..<3] (\<lambda>i (acp, bs). acp_scale_r i acp bs) (y, bs))
     (y\<lparr>acp_scaleOnAxis := acp_scaleOnAxis x\<rparr>)"
  unfolding acp_scale_w_def [abs_def] acp_scale_r_def [abs_def]
  by ((rule codes_for_field [where S = "\<lambda>l. y\<lparr>acp_scaleOnAxis := l\<rparr>" and zs = "[0, 0, 0]"]
        codec_intro refl AtlasCameraParameters.equality | (simp add: assms; fail))+)

lemma acp_offset_codes:
  assumes "length (acp_offsetOnAxis x) = 3" and "acp_offsetOnAxis y = [0, 0, 0]"
    and "\<forall>i < 3. i_range 32 (acp_offsetOnAxis x ! i)"
  shows "codes (for_loop [0..<3] (acp_offset_w x)) (\<lambda>bs. for_loop [0..<3] (\<lambda>i (acp, bs). acp_offset_r i acp bs) (y, bs))
     (y\<lparr>acp_offsetOnAxis := acp_offsetOnAxis x\<rparr>)"
  unfolding acp_offset_w_def [abs_def] acp_offset_r_def [abs_def]
  by ((rule codes_for_field [where S = "\<lambda>l. y\<lparr>acp_offsetOnAxis := l\<rparr>" and zs = "[0, 0, 0]"]
        codec_intro refl AtlasCameraParameters.equality | (simp add: assms; fail))+)

lemma acp_rotation_codes:
  assumes "length (acp_rotation x) = 3" and "acp_rotation y = [0, 0, 0]"
    and "\<forall>i < 3. i_range 16 (acp_rotation x ! i)"
  shows "codes (for_loop [0..<3] (acp_rotation_w x)) (\<lambda>bs. for_loop [0..<3] (\<lambda>i (acp, bs). acp_rotation_r i acp bs) (y, bs))
     (y\<lparr>acp_rotation := acp_rotation x\<rparr>)"
  unfolding acp_rotation_w_def [abs_def] acp_rotation_r_def [abs_def]
  by ((rule codes_for_field [where S = "\<lambda>l. y\<lparr>acp_rotation := l\<rparr>" and zs = "[0, 0, 0]"]
        codec_intro refl AtlasCameraParameters.equality | (simp add: assms; fail))+)

interpretation acp: syntax_codec atlasCameraParameters_w atlasCameraParameters_r acp_new acp_wf
proof unfold_locales
  fix x assume wf: "acp_wf x"
  note facts = wf [unfolded acp_wf_def if_bool_eq_conj]
  show "codes (atlasCameraParameters_w x) (atlasCameraParameters_r acp_new) x"
    unfolding atlasCameraParameters_w_def [abs_def] atlasCameraParameters_r_def [abs_def]
    by ((rule codes_same acp_scale_codes acp_offset_codes acp_rotation_codes codec_intro refl AtlasCameraParameters.equality
      | (simp (no_asm) add: facts acp_new_def; fail) | (simp add: facts acp_new_def; fail))+)
qed

definition aavext_wf :: "AapsVpccExtension \<Rightarrow> bool" where
  "aavext_wf x \<longleftrightarrow> (if aavext_cameraParametersPresentFlag x then acp_wf (aavext_atlasCameraParameters x)
     else aavext_atlasCameraParameters x = acp_new)"

interpretation aavext: syntax_codec aapsVpccExtension_w aapsVpccExtension_r aavext_new aavext_wf
proof unfold_locales
  fix x assume wf: "aavext_wf x"
  note facts = wf [unfolded aavext_wf_def if_bool_eq_conj]
  show "codes (aapsVpccExtension_w x) (aapsVpccExtension_r aavext_new) x"
    unfolding aapsVpccExtension_w_def [abs_def] aapsVpccExtension_r_def [abs_def]
    by ((rule codes_same codec_intro refl AapsVpccExtension.equality
      | (simp (no_asm) add: facts aavext_new_def; fail) | (simp add: facts aavext_new_def; fail))+)
qed

text \<open>Because of the \<open>bool\<close> accessors only 0 and 1 survive as \<open>extension7Bits\<close>.\<close>

definition aaps_wf :: "AtlasAdaptationParameterSetRbsp \<Rightarrow> bool" where
  "aaps_wf x \<longleftrightarrow> (if aaps_extensionFlag x then unat (aaps_extension7Bits x) < 2 else \<not> aaps_vpccExtensionFlag x \<and> aaps_extension7Bits x = 0)
     \<and> (if aaps_vpccExtensionFlag x then aavext_wf (aaps_aapsVpccExtension x) else aaps_aapsVpccExtension x = aavext_new)"

lemma bit_word_cases: "unat w < 2 \<Longrightarrow> of_bool (w \<noteq> 0) = w" for w :: "'a::len word"
proof (cases "w = 0")
  case False
  assume "unat w < 2"
  moreover have "unat w \<noteq> 0" using False by (simp add: word_unat_eq_iff)
  ultimately have "unat w = unat (1 :: 'a word)" by simp
  then have "w = 1" by (simp only: word_unat_eq_iff)
  then show ?thesis by simp
qed simp

interpretation aaps: syntax_codec atlasAdaptationParameterSetRbsp_w atlasAdaptationParameterSetRbsp_r aaps_new aaps_wf
proof unfold_locales
  fix x assume wf: "aaps_wf x"
  note facts = wf [unfolded aaps_wf_def if_bool_eq_conj]
  have bits: "of_bool (aaps_extension7Bits x \<noteq> 0) = aaps_extension7Bits x"
    using facts by (cases "aaps_extensionFlag x") (simp_all add: bit_word_cases)
  have small: "unat (b2u c) < 128" for c by (simp add: b2u_def)
  show "codes (atlasAdaptationParameterSetRbsp_w x) (atlasAdaptationParameterSetRbsp_r aaps_new) x"
    unfolding atlasAdaptationParameterSetRbsp_w_def [abs_def] atlasAdaptationParameterSetRbsp_r_def [abs_def]
    by ((rule codes_same codec_intro refl AtlasAdaptationParameterSetRbsp.equality
      | (simp (no_asm) add: facts bits aaps_new_def small; fail) | (simp add: facts bits aaps_new_def; fail))+)
qed

interpretation aud: syntax_codec accessUnitDelimiterRbsp_w accessUnitDelimiterRbsp_r aud_new "\<lambda>x. unat (aud_aframeType x) < 8"
proof unfold_locales
  fix x :: AccessUnitDelimiterRbsp assume "unat (aud_aframeType x) < 8"
  then show "codes (accessUnitDelimiterRbsp_w x) (accessUnitDelimiterRbsp_r aud_new) x"
    unfolding accessUnitDelimiterRbsp_w_def [abs_def] accessUnitDelimiterRbsp_r_def [abs_def]
    by - ((rule codec_intro refl AccessUnitDelimiterRbsp.equality | (simp add: aud_new_def; fail))+)
qed


declare highest_bit.simps [simp del]

lemma highest_bit_small [simp]: "n < 2 \<Longrightarrow> highest_bit n = 0"
  by (simp add: highest_bit.simps)

lemma highest_bit_step: "\<not> n < 2 \<Longrightarrow> highest_bit n = Suc (highest_bit (n div 2))"
  by (subst highest_bit.simps) simp

lemma highest_bit_less: "n < 2 ^ k \<Longrightarrow> 0 < k \<Longrightarrow> highest_bit n < k"
proof (induction n arbitrary: k rule: highest_bit.induct)
  case (1 n)
  show ?case
  proof (cases "n < 2")
    case False
    with "1.prems" obtain j where "k = Suc j" "0 < j" by (cases k; cases "k - 1") auto
    with "1.prems" "1.IH" [OF False, of j] False show ?thesis by (subst highest_bit.simps) auto
  qed (use "1.prems" in simp)
qed

lemma highest_bit_drop: "2 ^ k \<le> n \<Longrightarrow> highest_bit n = k + highest_bit (n div 2 ^ k)"
proof (induction k arbitrary: n)
  case (Suc k)
  have "(1::nat) \<le> 2 ^ k" by simp
  with Suc.prems have "2 ^ k \<le> n div 2" and "\<not> n < 2" by (simp_all only: power_Suc)
  then have "highest_bit n = Suc (k + highest_bit (n div 2 div 2 ^ k))"
    using Suc.IH [of "n div 2"] by (subst highest_bit.simps) simp
  then show ?case by (simp add: div_mult2_eq [symmetric])
qed simp

text \<open>The highest bit is the floor of the logarithm.\<close>

lemma highest_bit_bounds: "0 < n \<Longrightarrow> 2 ^ highest_bit n \<le> n \<and> n < 2 ^ Suc (highest_bit n)"
proof (induction n rule: highest_bit.induct)
  case (1 n)
  show ?case
  proof (cases "n < 2")
    case False
    then have "0 < n div 2" "highest_bit n = Suc (highest_bit (n div 2))" by (simp_all add: highest_bit_step)
    with "1.IH" [OF False] show ?thesis by auto
  qed (use "1.prems" in simp)
qed

text \<open>One stage of the portable routine: the mask tests whether the value has a bit in its upper half.\<close>

lemma floorLog2_stage:
  fixes x :: uint32_t
  assumes "unat x < 2 ^ (2 * k)" and "k \<le> 16" and "m = push_bit k (mask k)"
  shows "(x AND m \<noteq> 0) = (2 ^ k \<le> unat x)"
    and "2 ^ k \<le> unat x \<Longrightarrow> highest_bit (unat x) = k + highest_bit (unat (drop_bit k x))"
    and "unat (drop_bit k x) < 2 ^ k"
proof -
  have unat_drop: "unat (drop_bit k x) = unat x div 2 ^ k"
    by (simp only: unat_drop_bit_eq) (simp add: drop_bit_eq_div)
  show low: "unat (drop_bit k x) < 2 ^ k"
    using assms(1) by (simp only: unat_drop) (simp add: less_mult_imp_div_less power_add mult_2)
  then have "take_bit k (drop_bit k x) = drop_bit k x"
    by (intro word_unat_eq_iff [THEN iffD2]) (simp add: unsigned_take_bit_eq take_bit_nat_eq_self)
  moreover have "x AND m = push_bit k (take_bit k (drop_bit k x))"
    unfolding assms(3) by (rule bit_word_eqI) (auto simp: bit_simps)
  ultimately have "x AND m = push_bit k (drop_bit k x)" by simp
  moreover have "push_bit k (drop_bit k x) = 0 \<longleftrightarrow> drop_bit k x = 0"
  proof
    assume "push_bit k (drop_bit k x) = 0"
    then have "bit (push_bit k (drop_bit k x)) n = False" for n by simp
    then have "\<not> bit x n" if "k \<le> n" "n < 32" for n using that by (auto simp: bit_simps)
    then have "\<not> bit x (k + n)" for n
      by (cases "k + n < 32") (auto dest: bit_imp_le_length)
    then show "drop_bit k x = 0" by (intro bit_word_eqI) (simp add: bit_drop_bit_eq)
  qed simp
  moreover have "drop_bit k x = 0 \<longleftrightarrow> unat x < 2 ^ k"
    by (simp only: word_unat_eq_iff unat_drop) (simp add: div_eq_0_iff)
  ultimately show "(x AND m \<noteq> 0) = (2 ^ k \<le> unat x)" by auto
  show "highest_bit (unat x) = k + highest_bit (unat (drop_bit k x))" if "2 ^ k \<le> unat x"
    using highest_bit_drop [OF that] by (simp only: unat_drop)
qed

lemma floorLog2_step:
  fixes x :: uint32_t
  assumes "unat x < 2 ^ (2 * k)" and "k \<le> 16" and "m = push_bit k (mask k)" and "0 < k" and "r + int (highest_bit (unat x)) = c"
    and "(x', r') = (if x AND m \<noteq> 0 then (drop_bit k x, r + int k) else (x, r))"
  shows "unat x' < 2 ^ k \<and> r' + int (highest_bit (unat x')) = c"
  using floorLog2_stage [OF assms(1-3)] assms(5,6) by (auto split: if_splits)

lemma floorLog2_portable_eq: "floorLog2_portable x = floorLog2 x"
proof (cases "x = 0")
  case False
  obtain x1 r1 where 1: "(x1, r1) = (if x AND 0xffff0000 \<noteq> 0 then (drop_bit 16 x, 0 + 16) else (x, 0 :: int))" by (metis surj_pair)
  obtain x2 r2 where 2: "(x2, r2) = (if x1 AND 0xff00 \<noteq> 0 then (drop_bit 8 x1, r1 + 8) else (x1, r1))" by (metis surj_pair)
  obtain x3 r3 where 3: "(x3, r3) = (if x2 AND 0xf0 \<noteq> 0 then (drop_bit 4 x2, r2 + 4) else (x2, r2))" by (metis surj_pair)
  obtain x4 r4 where 4: "(x4, r4) = (if x3 AND 0xc \<noteq> 0 then (drop_bit 2 x3, r3 + 2) else (x3, r3))" by (metis surj_pair)
  obtain x5 r5 where 5: "(x5, r5) = (if x4 AND 0x2 \<noteq> 0 then (drop_bit 1 x4, r4 + 1) else (x4, r4))" by (metis surj_pair)
  let ?c = "int (highest_bit (unat x))"
  have "unat x1 < 2 ^ 16 \<and> r1 + int (highest_bit (unat x1)) = ?c"
    by (rule floorLog2_step [where x = x and r = 0 and m = "0xffff0000"]) (use 1 in \<open>simp_all add: mask_eq_exp_minus_1 push_bit_eq_mult\<close>)
  then have "unat x2 < 2 ^ 8 \<and> r2 + int (highest_bit (unat x2)) = ?c"
    by (intro floorLog2_step [where x = x1 and r = r1 and m = "0xff00"]) (use 2 in \<open>simp_all add: mask_eq_exp_minus_1 push_bit_eq_mult\<close>)
  then have "unat x3 < 2 ^ 4 \<and> r3 + int (highest_bit (unat x3)) = ?c"
    by (intro floorLog2_step [where x = x2 and r = r2 and m = "0xf0"]) (use 3 in \<open>simp_all add: mask_eq_exp_minus_1 push_bit_eq_mult\<close>)
  then have "unat x4 < 2 ^ 2 \<and> r4 + int (highest_bit (unat x4)) = ?c"
    by (intro floorLog2_step [where x = x3 and r = r3 and m = "0xc"]) (use 4 in \<open>simp_all add: mask_eq_exp_minus_1 push_bit_eq_mult\<close>)
  then have "unat x5 < 2 ^ 1 \<and> r5 + int (highest_bit (unat x5)) = ?c"
    by (intro floorLog2_step [where x = x4 and r = r4 and m = "0x2"]) (use 5 in \<open>simp_all add: mask_eq_exp_minus_1 push_bit_eq_mult\<close>)
  then have "r5 = ?c" by auto
  then show ?thesis using False
    by (simp only: floorLog2_portable_def floorLog2_def 1 [symmetric] 2 [symmetric] 3 [symmetric] 4 [symmetric] 5 [symmetric]
        Let_def prod.case if_False)
qed (simp add: floorLog2_portable_def floorLog2_def)

text \<open>\<open>ceilLog2\<close> bits are enough for every index below \<open>n\<close>, and one bit less is not.\<close>

lemma ceilLog2_bounds:
  assumes "1 < n"
  shows "0 < ceilLog2 n \<and> 2 ^ nat (ceilLog2 n - 1) < unat n \<and> unat n \<le> 2 ^ nat (ceilLog2 n)"
proof -
  have nz: "n - 1 \<noteq> 0" "n \<noteq> 0" using assms by auto
  then have pos: "0 < unat (n - 1)" and n: "unat n = Suc (unat (n - 1))"
    using assms unat_minus_one [of n] by (auto simp: word_less_nat_alt)
  from nz have "ceilLog2 n = int (highest_bit (unat (n - 1))) + 1" by (simp add: ceilLog2_def floorLog2_def)
  then show ?thesis using highest_bit_bounds [OF pos] by (simp add: n nat_add_distrib)
qed

end
