(* ===== verification/TileData.thy ===== *)
theory TileData
  imports AtlasFrame
begin

text \<open>
  The data of the atlas tile layer: the enumerations of \<open>PCCBitstreamCommon.h\<close> that steer it, the
  patch data units of the five patch modes, the patch information data that holds one of each, the
  tile data unit, the tile header and the tile layer. The SEI messages that the C++ tile layer also
  carries are not modelled.
\<close>

section \<open>Enumerations\<close>

text \<open>A value read from the stream is converted to \<open>PCCTileType\<close>; a value outside the range of the
  enumeration has no meaning in C++.\<close>

datatype PCCTileType = P_TILE | I_TILE | SKIP_TILE | RESERVED_3

definition tileType_code :: "PCCTileType \<Rightarrow> uint32_t" where
  "tileType_code t = (case t of P_TILE \<Rightarrow> 0 | I_TILE \<Rightarrow> 1 | SKIP_TILE \<Rightarrow> 2 | RESERVED_3 \<Rightarrow> 3)"

definition tileType_of :: "uint32_t \<Rightarrow> PCCTileType option" where
  "tileType_of v = (if v = 0 then Some P_TILE else if v = 1 then Some I_TILE
     else if v = 2 then Some SKIP_TILE else if v = 3 then Some RESERVED_3 else None)"

lemma tileType_of_code [simp]: "tileType_of (tileType_code t) = Some t"
  by (cases t) (simp_all add: tileType_of_def tileType_code_def)

lemma unat_tileType_code [simp]: "unat (tileType_code t) < 2147483647"
  by (cases t) (simp_all add: tileType_code_def)

text \<open>NAL unit types and patch modes are used as numbers.\<close>

type_synonym NalUnitType = uint8_t

definition NAL_TRAIL_N :: NalUnitType where [simp]: "NAL_TRAIL_N = 0"
definition NAL_TRAIL_R :: NalUnitType where [simp]: "NAL_TRAIL_R = 1"
definition NAL_BLA_W_LP :: NalUnitType where [simp]: "NAL_BLA_W_LP = 16"
definition NAL_RSV_IRAP_ACL_29 :: NalUnitType where [simp]: "NAL_RSV_IRAP_ACL_29 = 29"

definition I_INTRA :: uint8_t where "I_INTRA = 0"
definition I_RAW :: uint8_t where "I_RAW = 1"
definition I_EOM :: uint8_t where "I_EOM = 2"
definition I_END :: uint8_t where "I_END = 14"
definition P_SKIP :: uint8_t where "P_SKIP = 0"
definition P_MERGE :: uint8_t where "P_MERGE = 1"
definition P_INTER :: uint8_t where "P_INTER = 2"
definition P_INTRA :: uint8_t where "P_INTRA = 3"
definition P_RAW :: uint8_t where "P_RAW = 4"
definition P_EOM :: uint8_t where "P_EOM = 5"
definition P_END :: uint8_t where "P_END = 14"

lemmas patchMode_defs = I_INTRA_def I_RAW_def I_EOM_def I_END_def P_SKIP_def P_MERGE_def P_INTER_def
  P_INTRA_def P_RAW_def P_EOM_def P_END_def

datatype PCCPatchType = INTRA_PATCH | INTER_PATCH | MERGE_PATCH | SKIP_PATCH | RAW_PATCH | EOM_PATCH
  | END_PATCH | ERROR_PATCH

definition getPatchType :: "PCCTileType \<Rightarrow> uint8_t \<Rightarrow> PCCPatchType" where
  "getPatchType tileType patchMode =
     (if tileType = SKIP_TILE then SKIP_PATCH
      else if tileType = P_TILE then
        (if patchMode = P_SKIP then SKIP_PATCH
         else if patchMode = P_MERGE then MERGE_PATCH
         else if patchMode = P_INTRA then INTRA_PATCH
         else if patchMode = P_INTER then INTER_PATCH
         else if patchMode = P_RAW then RAW_PATCH
         else if patchMode = P_EOM then EOM_PATCH
         else ERROR_PATCH)
      else if tileType = I_TILE then
        (if patchMode = I_INTRA then INTRA_PATCH
         else if patchMode = I_RAW then RAW_PATCH
         else if patchMode = I_EOM then EOM_PATCH
         else ERROR_PATCH)
      else ERROR_PATCH)"

section \<open>Records\<close>

record PLRData =
  plrd_blockToPatchMapHeight :: size_t
  plrd_blockToPatchMapWidth :: size_t
  plrd_levelFlag :: bool
  plrd_presentFlag :: bool
  plrd_modeMinus1 :: uint8_t
  plrd_blockPresentFlag :: "bool list"
  plrd_blockModeMinus1 :: "uint8_t list"

definition plrd_new :: PLRData where
  "plrd_new = \<lparr>plrd_blockToPatchMapHeight = 0, plrd_blockToPatchMapWidth = 0,
     plrd_levelFlag = False, plrd_presentFlag = False, plrd_modeMinus1 = 0,
     plrd_blockPresentFlag = [], plrd_blockModeMinus1 = []\<rparr>"

record PatchDataUnit =
  pdu_pos2dX :: size_t
  pdu_pos2dY :: size_t
  pdu_size2dXMinus1 :: uint64_t
  pdu_size2dYMinus1 :: uint64_t
  pdu_pos3dOffsetU :: size_t
  pdu_pos3dOffsetV :: size_t
  pdu_pos3dOffsetD :: size_t
  pdu_pos3dRangeD :: size_t
  pdu_projectionId :: size_t
  pdu_orientationIndex :: size_t
  pdu_lodEnableFlag :: bool
  pdu_lodScaleXminus1 :: uint8_t
  pdu_lodScaleYIdc :: uint8_t
  pdu_pointLocalReconstructionData :: PLRData
  pdu_patchIndex :: size_t
  pdu_frameIndex :: size_t
  pdu_tileOrder :: size_t

definition pdu_new :: PatchDataUnit where
  "pdu_new = \<lparr>pdu_pos2dX = 0, pdu_pos2dY = 0, pdu_size2dXMinus1 = 0, pdu_size2dYMinus1 = 0,
     pdu_pos3dOffsetU = 0, pdu_pos3dOffsetV = 0, pdu_pos3dOffsetD = 0, pdu_pos3dRangeD = 0,
     pdu_projectionId = 0, pdu_orientationIndex = 0, pdu_lodEnableFlag = False,
     pdu_lodScaleXminus1 = 0, pdu_lodScaleYIdc = 1, pdu_pointLocalReconstructionData = plrd_new,
     pdu_patchIndex = 0, pdu_frameIndex = 0, pdu_tileOrder = 0\<rparr>"

record MergePatchDataUnit =
  mpdu_override2dParamsFlag :: bool
  mpdu_override3dParamsFlag :: bool
  mpdu_overridePlrFlag :: bool
  mpdu_refIndex :: int
  mpdu_pos2dX :: int
  mpdu_pos2dY :: int
  mpdu_delta2dSizeX :: int
  mpdu_delta2dSizeY :: int
  mpdu_pos3dOffsetU :: int
  mpdu_pos3dOffsetV :: int
  mpdu_pos3dOffsetD :: int
  mpdu_pos3dRangeD :: int
  mpdu_patchIndex :: size_t
  mpdu_frameIndex :: size_t
  mpdu_tileOrder :: size_t
  mpdu_plrData :: PLRData

definition mpdu_new :: MergePatchDataUnit where
  "mpdu_new = \<lparr>mpdu_override2dParamsFlag = False, mpdu_override3dParamsFlag = False,
     mpdu_overridePlrFlag = False, mpdu_refIndex = 0, mpdu_pos2dX = 0, mpdu_pos2dY = 0,
     mpdu_delta2dSizeX = 0, mpdu_delta2dSizeY = 0, mpdu_pos3dOffsetU = 0, mpdu_pos3dOffsetV = 0,
     mpdu_pos3dOffsetD = 0, mpdu_pos3dRangeD = 0, mpdu_patchIndex = 0, mpdu_frameIndex = 0,
     mpdu_tileOrder = 0, mpdu_plrData = plrd_new\<rparr>"

record InterPatchDataUnit =
  ipdu_refIndex :: int
  ipdu_refPatchIndex :: int
  ipdu_pos2dX :: int
  ipdu_pos2dY :: int
  ipdu_delta2dSizeX :: int
  ipdu_delta2dSizeY :: int
  ipdu_pos3dOffsetU :: int
  ipdu_pos3dOffsetV :: int
  ipdu_pos3dOffsetD :: int
  ipdu_pos3dRangeD :: int
  ipdu_patchIndex :: size_t
  ipdu_frameIndex :: size_t
  ipdu_tileOrder :: size_t
  ipdu_pointLocalReconstructionData :: PLRData

definition ipdu_new :: InterPatchDataUnit where
  "ipdu_new = \<lparr>ipdu_refIndex = 0, ipdu_refPatchIndex = 0, ipdu_pos2dX = 0, ipdu_pos2dY = 0,
     ipdu_delta2dSizeX = 0, ipdu_delta2dSizeY = 0, ipdu_pos3dOffsetU = 0, ipdu_pos3dOffsetV = 0,
     ipdu_pos3dOffsetD = 0, ipdu_pos3dRangeD = 0, ipdu_patchIndex = 0, ipdu_frameIndex = 0,
     ipdu_tileOrder = 0, ipdu_pointLocalReconstructionData = plrd_new\<rparr>"

record RawPatchDataUnit =
  rpdu_patchInAuxiliaryVideoFlag :: bool
  rpdu_pos2dX :: size_t
  rpdu_pos2dY :: size_t
  rpdu_size2dXMinus1 :: uint64_t
  rpdu_size2dYMinus1 :: uint64_t
  rpdu_pos3dOffsetU :: size_t
  rpdu_pos3dOffsetV :: size_t
  rpdu_pos3dOffsetD :: size_t
  rpdu_rawPointsMinus1 :: uint32_t
  rpdu_patchIndex :: size_t
  rpdu_frameIndex :: size_t
  rpdu_tileOrder :: size_t

definition rpdu_new :: RawPatchDataUnit where
  "rpdu_new = \<lparr>rpdu_patchInAuxiliaryVideoFlag = False, rpdu_pos2dX = 0, rpdu_pos2dY = 0,
     rpdu_size2dXMinus1 = 0, rpdu_size2dYMinus1 = 0, rpdu_pos3dOffsetU = 0, rpdu_pos3dOffsetV = 0,
     rpdu_pos3dOffsetD = 0, rpdu_rawPointsMinus1 = 0, rpdu_patchIndex = 0, rpdu_frameIndex = 0,
     rpdu_tileOrder = 0\<rparr>"

text \<open>The constructor leaves \<open>patchInAuxiliaryVideoFlag\<close> uninitialised; the reader always sets it.\<close>

record EOMPatchDataUnit =
  epdu_patchInAuxiliaryVideoFlag :: bool
  epdu_pos2dX :: size_t
  epdu_pos2dY :: size_t
  epdu_size2dXMinus1 :: size_t
  epdu_size2dYMinus1 :: size_t
  epdu_patchCountMinus1 :: size_t
  epdu_associatedPatchesIdx :: "size_t list"
  epdu_points :: "size_t list"
  epdu_patchIndex :: size_t
  epdu_frameIndex :: size_t
  epdu_tileIndex :: size_t

definition epdu_new :: EOMPatchDataUnit where
  "epdu_new = \<lparr>epdu_patchInAuxiliaryVideoFlag = False, epdu_pos2dX = 0, epdu_pos2dY = 0,
     epdu_size2dXMinus1 = 0, epdu_size2dYMinus1 = 0, epdu_patchCountMinus1 = 0,
     epdu_associatedPatchesIdx = [], epdu_points = [], epdu_patchIndex = 0, epdu_frameIndex = 0,
     epdu_tileIndex = 0\<rparr>"

record SkipPatchDataUnit =
  spdu_patchIndex :: size_t
  spdu_frameIndex :: size_t
  spdu_tileOrder :: size_t

definition spdu_new :: SkipPatchDataUnit where
  "spdu_new = \<lparr>spdu_patchIndex = 0, spdu_frameIndex = 0, spdu_tileOrder = 0\<rparr>"

text \<open>The constructors of \<open>PatchInformationData\<close> and \<open>AtlasTileDataUnit\<close> leave their numbers
  uninitialised; they are set before they are used.\<close>

record PatchInformationData =
  pid_tileOrder :: size_t
  pid_patchIndex :: size_t
  pid_patchMode :: uint8_t
  pid_patchDataUnit :: PatchDataUnit
  pid_interPatchDataUnit :: InterPatchDataUnit
  pid_mergePatchDataUnit :: MergePatchDataUnit
  pid_skipPatchDataUnit :: SkipPatchDataUnit
  pid_rawPatchyDataUnit :: RawPatchDataUnit
  pid_eomPatchDataUnit :: EOMPatchDataUnit

definition pid_new :: PatchInformationData where
  "pid_new = \<lparr>pid_tileOrder = 0, pid_patchIndex = 0, pid_patchMode = 0,
     pid_patchDataUnit = pdu_new, pid_interPatchDataUnit = ipdu_new,
     pid_mergePatchDataUnit = mpdu_new, pid_skipPatchDataUnit = spdu_new,
     pid_rawPatchyDataUnit = rpdu_new, pid_eomPatchDataUnit = epdu_new\<rparr>"

record AtlasTileDataUnit =
  atdu_tileOrder :: size_t
  atdu_patchInformationData :: "PatchInformationData list"

definition atdu_new :: AtlasTileDataUnit where
  "atdu_new = \<lparr>atdu_tileOrder = 0, atdu_patchInformationData = []\<rparr>"

record AtlasTileHeader =
  ath_noOutputOfPriorAtlasFramesFlag :: bool
  ath_frameIndex :: uint8_t
  ath_atlasFrameParameterSetId :: uint8_t
  ath_atlasAdaptationParameterSetId :: uint8_t
  ath_id :: uint32_t
  ath_type :: PCCTileType
  ath_atlasOutputFlag :: bool
  ath_atlasFrmOrderCntLsb :: size_t
  ath_refAtlasFrameListSpsFlag :: bool
  ath_refAtlasFrameListIdx :: uint8_t
  ath_additionalAfocLsbPresentFlag :: "bool list"
  ath_additionalAfocLsbVal :: "uint8_t list"
  ath_posMinDQuantizer :: uint8_t
  ath_posDeltaMaxDQuantizer :: uint8_t
  ath_patchSizeXinfoQuantizer :: uint8_t
  ath_patchSizeYinfoQuantizer :: uint8_t
  ath_raw3dOffsetAxisBitCountMinus1 :: uint8_t
  ath_numRefIdxActiveOverrideFlag :: bool
  ath_numRefIdxActiveMinus1 :: uint8_t
  ath_refListStruct :: RefListStruct
  ath_tileNaluTypeInfo :: uint8_t

definition ath_new :: AtlasTileHeader where
  "ath_new = \<lparr>ath_noOutputOfPriorAtlasFramesFlag = False, ath_frameIndex = 0,
     ath_atlasFrameParameterSetId = 0, ath_atlasAdaptationParameterSetId = 0, ath_id = 0,
     ath_type = P_TILE, ath_atlasOutputFlag = False, ath_atlasFrmOrderCntLsb = 0,
     ath_refAtlasFrameListSpsFlag = False, ath_refAtlasFrameListIdx = 0,
     ath_additionalAfocLsbPresentFlag = [False], ath_additionalAfocLsbVal = [0],
     ath_posMinDQuantizer = 0, ath_posDeltaMaxDQuantizer = 0, ath_patchSizeXinfoQuantizer = 0,
     ath_patchSizeYinfoQuantizer = 0, ath_raw3dOffsetAxisBitCountMinus1 = 0,
     ath_numRefIdxActiveOverrideFlag = False, ath_numRefIdxActiveMinus1 = 0,
     ath_refListStruct = rls_new, ath_tileNaluTypeInfo = 0\<rparr>"

record AtlasTileLayerRbsp =
  atgl_header :: AtlasTileHeader
  atgl_dataUnit :: AtlasTileDataUnit
  atgl_atlasFrmOrderCntVal :: size_t
  atgl_atlasFrmOrderCntMsb :: size_t
  atgl_tileOrder :: size_t
  atgl_encFrameIndex :: size_t
  atgl_encTileIndex :: size_t

definition atgl_new :: AtlasTileLayerRbsp where
  "atgl_new = \<lparr>atgl_header = ath_new, atgl_dataUnit = atdu_new,
     atgl_atlasFrmOrderCntVal = 0, atgl_atlasFrmOrderCntMsb = 0, atgl_tileOrder = 0,
     atgl_encFrameIndex = - 1, atgl_encTileIndex = - 1\<rparr>"

section \<open>Operations of the classes\<close>

definition plrd_allocate :: "size_t \<Rightarrow> size_t \<Rightarrow> PLRData \<Rightarrow> PLRData" where
  "plrd_allocate w h plrd = plrd\<lparr>plrd_blockToPatchMapWidth := w, plrd_blockToPatchMapHeight := h,
     plrd_blockPresentFlag := vec_resize (unat (w * h)) False (plrd_blockPresentFlag plrd),
     plrd_blockModeMinus1 := vec_resize (unat (w * h)) 0 (plrd_blockModeMinus1 plrd)\<rparr>"

definition epdu_setPatchCountMinus1 :: "uint32_t \<Rightarrow> EOMPatchDataUnit \<Rightarrow> EOMPatchDataUnit" where
  "epdu_setPatchCountMinus1 value epdu = (let n = unat (ucast value + 1 :: size_t) in
     epdu\<lparr>epdu_patchCountMinus1 := ucast value,
       epdu_associatedPatchesIdx := vec_resize n 0 (epdu_associatedPatchesIdx epdu),
       epdu_points := vec_resize n 0 (epdu_points epdu)\<rparr>)"

definition atdu_init :: "AtlasTileDataUnit \<Rightarrow> AtlasTileDataUnit" where
  "atdu_init atdu = atdu\<lparr>atdu_patchInformationData := []\<rparr>"

definition atdu_addPatchInformationData :: "uint8_t \<Rightarrow> AtlasTileDataUnit \<Rightarrow> AtlasTileDataUnit" where
  "atdu_addPatchInformationData patchMode atdu =
     atdu\<lparr>atdu_patchInformationData := atdu_patchInformationData atdu @ [pid_new\<lparr>pid_patchMode := patchMode\<rparr>]\<rparr>"

definition atdu_getMatchedPatchCount :: "AtlasTileDataUnit \<Rightarrow> nat" where
  "atdu_getMatchedPatchCount atdu =
     fold (\<lambda>v n. if pid_patchMode v = P_INTER then n + 1 else n) (atdu_patchInformationData atdu) 0"

lemma atdu_getMatchedPatchCount_filter:
  "atdu_getMatchedPatchCount atdu = length (filter (\<lambda>v. pid_patchMode v = P_INTER) (atdu_patchInformationData atdu))"
proof -
  have "fold (\<lambda>v n. if pid_patchMode v = P_INTER then n + 1 else n) (xs :: PatchInformationData list) (n :: nat)
      = n + length (filter (\<lambda>v. pid_patchMode v = P_INTER) xs)" for xs n
    by (induction xs arbitrary: n) simp_all
  then show ?thesis by (simp add: atdu_getMatchedPatchCount_def)
qed

end
