(* ===== verification/VideoBitstream.thy ===== *)
theory VideoBitstream
  imports Prelude "HOL-Library.Sublist"
begin

unbundle bit_operations_syntax

text \<open>
  Video sub-bitstreams (\<open>PCCVideoBitstream.cpp\<close>): the conversion between the byte stream format, in
  which start codes separate the NAL units, and the sample stream format, in which every NAL unit is
  preceded by its size. Positions are natural numbers; an access outside the data gives \<open>None\<close>.
\<close>

record PCCVideoBitstream =
  vb_data :: "uint8_t list"
  vb_type :: uint32_t

definition vb_new :: "uint32_t \<Rightarrow> PCCVideoBitstream" where
  "vb_new type = \<lparr>vb_data = [], vb_type = type\<rparr>"

section \<open>Byte stream to sample stream\<close>

definition is_startCode :: "uint8_t list \<Rightarrow> nat \<Rightarrow> bool" where
  "is_startCode d i \<longleftrightarrow> d ! i = 0 \<and> d ! (i + 1) = 0 \<and> (d ! (i + 2) = 1 \<or> (d ! (i + 2) = 0 \<and> d ! (i + 3) = 1))"

definition getEndOfNaluPosition :: "uint8_t list \<Rightarrow> nat \<Rightarrow> nat" where
  "getEndOfNaluPosition d startIndex =
     (if length d < startIndex + 4 then length d
      else case find (is_startCode d) [startIndex..<length d - 4] of Some i \<Rightarrow> i | None \<Rightarrow> length d)"

text \<open>The loops over the bytes of a NAL unit with emulation prevention bytes: \<open>zc\<close> is the variable
  \<open>zeroCount\<close>.\<close>

fun emu_strip :: "nat \<Rightarrow> uint8_t list \<Rightarrow> uint8_t list" where
  "emu_strip zc [] = []"
| "emu_strip zc (b # bs) =
     (if zc = 3 \<and> b \<le> 3 then emu_strip 0 bs else b # emu_strip (if b = 0 then zc + 1 else 0) bs)"

fun emu_insert :: "nat \<Rightarrow> uint8_t list \<Rightarrow> uint8_t list" where
  "emu_insert zc [] = []"
| "emu_insert zc (b # bs) =
     (if zc = 3 \<and> b \<le> 3 then 3 # b # emu_insert (if b = 0 then 1 else 0) bs
      else b # emu_insert (if b = 0 then zc + 1 else 0) bs)"

definition nalu_header :: "nat \<Rightarrow> nat \<Rightarrow> uint8_t list" where
  "nalu_header precision naluSize = map (\<lambda>i. of_nat (naluSize div 2 ^ (8 * (precision - (i + 1))))) [0..<precision]"

lemma length_nalu_header [simp]: "length (nalu_header p n) = p"
  by (simp add: nalu_header_def)

lemma getEndOfNaluPosition_ge:
  "getEndOfNaluPosition d s < length d \<Longrightarrow> s \<le> getEndOfNaluPosition d s"
  by (auto simp: getEndOfNaluPosition_def find_Some_iff split: option.splits if_splits)

text \<open>One round of the loop handles the NAL unit that starts at \<open>startIndex\<close>; \<open>data\<close> is the output so
  far. The shift of the size by 64 bits or more is undefined, so the precision is at most 8.\<close>

definition byteStream_nalu :: "nat \<Rightarrow> bool \<Rightarrow> uint8_t list \<Rightarrow> nat \<Rightarrow> nat \<Rightarrow> uint8_t list" where
  "byteStream_nalu precision emu d startIndex endIndex = (let
     bytes = map ((!) d) [startIndex..<endIndex];
     nalu = (if emu then emu_strip 0 bytes else bytes)
   in nalu_header precision (length nalu) @ nalu)"

function byteStream_loop :: "nat \<Rightarrow> bool \<Rightarrow> uint8_t list \<Rightarrow> nat \<Rightarrow> uint8_t list \<Rightarrow> uint8_t list option" where
  "byteStream_loop precision emu d startIndex data =
     (if length d \<le> startIndex + 2 then None else
      let sizeStartCode = (if d ! (startIndex + 2) = 0 then 4 else 3);
          endIndex = getEndOfNaluPosition d (startIndex + sizeStartCode);
          data = data @ byteStream_nalu precision emu d (startIndex + sizeStartCode) endIndex
      in if endIndex < length d then byteStream_loop precision emu d endIndex data else Some data)"
  by pat_completeness auto
termination
proof (relation "measure (\<lambda>(p, e, d, s, _). length d - s)", simp)
  fix p e and d :: "uint8_t list" and s data sc x xa
  assume "sc = (if d ! (s + 2) = 0 then 4 else 3)" and "x = getEndOfNaluPosition d (s + sc)" and "x < length d"
  then have "s < x" using getEndOfNaluPosition_ge [of d "s + sc"] by (auto split: if_splits)
  with \<open>x < length d\<close> show "((p, e, d, x, xa), p, e, d, s, data) \<in> measure (\<lambda>(p, e, d, s, _). length d - s)"
    by simp
qed

definition byteStreamToSampleStream :: "nat \<Rightarrow> bool \<Rightarrow> PCCVideoBitstream \<Rightarrow> PCCVideoBitstream option" where
  "byteStreamToSampleStream precision emu vb = (if 8 < precision then None else do {
     data \<leftarrow> byteStream_loop precision emu (vb_data vb) 0 [];
     Some (vb\<lparr>vb_data := data\<rparr>)
   })"

section \<open>Sample stream to byte stream\<close>

text \<open>\<open>naluSize = ( naluSize << 8 ) + data_[...]\<close> in \<open>int32_t\<close>.\<close>

definition naluSize_step :: "uint8_t list \<Rightarrow> nat \<Rightarrow> nat \<Rightarrow> nat \<Rightarrow> nat option" where
  "naluSize_step d startIndex i naluSize = do {
     b \<leftarrow> vec_at d (startIndex + i);
     let v = naluSize * 256 + unat b;
     if v < 2 ^ 31 then Some v else None
   }"

text \<open>The start code of the next NAL unit is long for parameter sets, delimiters and SEI messages (and
  always for AVC). The variable \<open>newFrame\<close> is set to false before every use.\<close>

definition useLongStartCode :: "bool \<Rightarrow> bool \<Rightarrow> uint8_t list \<Rightarrow> nat \<Rightarrow> bool option" where
  "useLongStartCode isAvc isVvc d pos =
     (if isAvc then Some True
      else if isVvc then do {
        b \<leftarrow> vec_at d (pos + 1);
        let naluType = drop_bit 3 (b AND 248);
        Some (12 \<le> naluType \<and> naluType < 20)
      } else do {
        b \<leftarrow> vec_at d pos;
        let naluType = drop_bit 1 (b AND 126);
        Some (32 \<le> naluType \<and> naluType < 41)
      })"

definition startCode :: "nat \<Rightarrow> uint8_t list" where
  "startCode n = replicate (n - 1) 0 @ [1]"

partial_function (option) sampleStream_loop ::
  "bool \<Rightarrow> bool \<Rightarrow> nat \<Rightarrow> bool \<Rightarrow> uint8_t list \<Rightarrow> nat \<Rightarrow> nat \<Rightarrow> uint8_t list \<Rightarrow> uint8_t list option" where
  "sampleStream_loop isAvc isVvc precision emu d sizeStartCode startIndex data = do {
     naluSize \<leftarrow> for_loop [0..<precision] (naluSize_step d startIndex) 0;
     let endIndex = startIndex + precision + naluSize;
     if length d < endIndex then None else do {
       let bytes = map ((!) d) [startIndex + precision..<endIndex];
       let data = data @ startCode sizeStartCode @ (if emu then emu_insert 0 bytes else bytes);
       sizeStartCode \<leftarrow> (if endIndex + precision < length d then do {
           long \<leftarrow> useLongStartCode isAvc isVvc d (endIndex + precision);
           Some (if long then 4 else 3)
         } else Some sizeStartCode);
       if endIndex < length d
       then sampleStream_loop isAvc isVvc precision emu d sizeStartCode endIndex data
       else Some data
     }
   }"

definition sampleStreamToByteStream :: "bool \<Rightarrow> bool \<Rightarrow> nat \<Rightarrow> bool \<Rightarrow> PCCVideoBitstream \<Rightarrow> PCCVideoBitstream option" where
  "sampleStreamToByteStream isAvc isVvc precision emu vb = do {
     data \<leftarrow> sampleStream_loop isAvc isVvc precision emu (vb_data vb) 4 0 [];
     Some (vb\<lparr>vb_data := data\<rparr>)
   }"

section \<open>The formats\<close>

text \<open>What the two formats are: a list of NAL units with sizes, or with start codes.\<close>

definition sample_stream :: "nat \<Rightarrow> uint8_t list list \<Rightarrow> uint8_t list" where
  "sample_stream precision nalus = concat (map (\<lambda>n. nalu_header precision (length n) @ n) nalus)"

text \<open>The type of a NAL unit is in the second to seventh bit of its first byte for HEVC and in the upper five
  bits of its second byte for VVC. HEVC types 32 to 40 and VVC types 12 to 19 have a long start code.\<close>

definition startCode_size :: "bool \<Rightarrow> bool \<Rightarrow> uint8_t list \<Rightarrow> nat" where
  "startCode_size isAvc isVvc nalu =
     (if isAvc \<or> (if isVvc then unat (nalu ! 1) div 8 \<in> {12..19} else unat (nalu ! 0) div 2 mod 64 \<in> {32..40}) then 4 else 3)"

fun byte_stream :: "bool \<Rightarrow> bool \<Rightarrow> nat \<Rightarrow> uint8_t list list \<Rightarrow> uint8_t list" where
  "byte_stream isAvc isVvc sc [] = []"
| "byte_stream isAvc isVvc sc [n] = startCode sc @ n"
| "byte_stream isAvc isVvc sc (n # m # ns) = startCode sc @ n @ byte_stream isAvc isVvc (startCode_size isAvc isVvc m) (m # ns)"

text \<open>A NAL unit that the byte stream format can carry: it has its two byte header, does not end with a
  zero byte and does not contain a start code.\<close>

definition clean_nalu :: "uint8_t list \<Rightarrow> bool" where
  "clean_nalu n \<longleftrightarrow> 2 \<le> length n \<and> last n \<noteq> 0
     \<and> (\<forall>i < length n - 2. \<not> (n ! i = 0 \<and> n ! (i + 1) = 0 \<and> n ! (i + 2) = 1))"

lemma sample_stream_Cons: "sample_stream p (n # ns) = nalu_header p (length n) @ n @ sample_stream p ns"
  by (simp add: sample_stream_def)

lemma length_startCode [simp]: "0 < n \<Longrightarrow> length (startCode n) = n"
  by (simp add: startCode_def)

lemma startCode_size_cases: "startCode_size a v n = 3 \<or> startCode_size a v n = 4"
  by (simp add: startCode_size_def)

section \<open>From sizes to start codes\<close>

lemma naluSize_read:
  assumes "n < 2 ^ (8 * p)" and "n < 2 ^ 31"
  shows "for_loop [0..<p] (naluSize_step (pre @ nalu_header p n @ post) (length pre)) 0 = Some n"
proof -
  let ?y = "\<lambda>k. n div 2 ^ (8 * (p - k))"
  have "for_loop [0..<p] (naluSize_step (pre @ nalu_header p n @ post) (length pre)) (?y 0) = Some (?y p)"
  proof (rule for_loop_inv)
    fix k assume k: "k < p"
    let ?q = "2 ^ (8 * (p - Suc k)) :: nat"
    have "8 * (p - k) = 8 * (p - Suc k) + 8" using k by simp
    then have "2 ^ (8 * (p - k)) = ?q * (256 :: nat)" by (simp only: power_add) simp
    then have div: "?y k = n div ?q div 256" by (simp only: div_mult2_eq)
    have "(pre @ nalu_header p n @ post) ! (length pre + k) = of_nat (n div ?q)"
      using k by (simp add: nth_append nalu_header_def)
    moreover have "unat (of_nat (n div ?q) :: uint8_t) = n div ?q mod 256" by (simp add: unat_of_nat)
    moreover have "n div ?q < 2 ^ 31" using assms(2) div_le_dividend le_less_trans by blast
    ultimately show "naluSize_step (pre @ nalu_header p n @ post) (length pre) k (?y k) = Some (?y (Suc k))"
      using k unfolding naluSize_step_def div by simp
  qed
  then show ?thesis using assms(1) by simp
qed

lemma map_nth_slice: "map ((!) (xs @ ys @ zs)) [length xs..<length xs + length ys] = ys"
  by (rule nth_equalityI) (simp_all add: nth_append)

lemma nalu_type_hevc: "unat (drop_bit 1 (b AND 126)) = unat b div 2 mod 64" for b :: uint8_t
proof -
  have "drop_bit 1 (b AND 126) = take_bit 6 (drop_bit 1 b)"
    by (rule bit_word_eqI) (auto simp: bit_simps less_Suc_eq numeral_eq_Suc)
  then show ?thesis by (simp only: unsigned_take_bit_eq unat_drop_bit_eq) (simp add: take_bit_eq_mod drop_bit_eq_div)
qed

lemma nalu_type_vvc: "unat (drop_bit 3 (b AND 248)) = unat b div 8" for b :: uint8_t
proof -
  have "drop_bit 3 (b AND 248) = drop_bit 3 b"
    by (rule bit_word_eqI) (auto simp: bit_simps less_Suc_eq numeral_eq_Suc dest: bit_imp_le_length)
  then show ?thesis by (simp only: unat_drop_bit_eq) (simp add: drop_bit_eq_div)
qed

lemma useLongStartCode_at:
  assumes "2 \<le> length n"
  shows "useLongStartCode a v (pre @ n @ post) (length pre) = Some (startCode_size a v n = 4)"
proof -
  obtain x y zs where "n = x # y # zs" using assms by (auto simp: Suc_le_length_iff numeral_2_eq_2)
  then have "vec_at (pre @ n @ post) (length pre) = Some (n ! 0)" "vec_at (pre @ n @ post) (length pre + 1) = Some (n ! 1)"
    by (simp_all add: vec_at_def nth_append)
  then show ?thesis
    using nalu_type_hevc [of "n ! 0"] nalu_type_vvc [of "n ! 1"]
    by (auto simp: useLongStartCode_def startCode_size_def Let_def word_le_nat_alt word_less_nat_alt)
qed

lemma sampleStream_loop_nalus:
  assumes "nalus \<noteq> []" and "\<forall>n \<in> set nalus. 2 \<le> length n \<and> length n < 2 ^ (8 * p) \<and> length n < 2 ^ 31"
    and "d = pre @ sample_stream p nalus" and "s = length pre"
  shows "sampleStream_loop a v p False d sc s data = Some (data @ byte_stream a v sc nalus)"
  using assms
proof (induction nalus arbitrary: pre sc data s)
  case (Cons n ns)
  have n: "2 \<le> length n" "length n < 2 ^ (8 * p)" "length n < 2 ^ 31" using Cons.prems(2) by auto
  let ?pre = "pre @ nalu_header p (length n)" and ?e = "s + p + length n"
  have d: "d = pre @ nalu_header p (length n) @ n @ sample_stream p ns"
    using Cons.prems(3) by (simp add: sample_stream_Cons)
  have size: "for_loop [0..<p] (naluSize_step d s) 0 = Some (length n)"
    unfolding d Cons.prems(4) using naluSize_read n by blast
  have bytes: "map ((!) d) [s + p..<?e] = n"
    using map_nth_slice [of ?pre n "sample_stream p ns"] unfolding d Cons.prems(4) by simp
  have len: "length d = ?e + length (sample_stream p ns)" using d Cons.prems(4) by simp
  show ?case
  proof (cases ns)
    case Nil
    then have "length d = ?e" using len by (simp add: sample_stream_def)
    then show ?thesis using Nil bytes by (subst sampleStream_loop.simps) (simp add: size)
  next
    case (Cons m ms)
    have m: "2 \<le> length m" using Cons.prems(2) Cons by simp
    have d': "d = (pre @ nalu_header p (length n) @ n) @ sample_stream p ns" using d by simp
    have "d = (pre @ nalu_header p (length n) @ n @ nalu_header p (length m)) @ m @ sample_stream p ms"
      using d Cons by (simp add: sample_stream_Cons)
    then have long: "useLongStartCode a v d (?e + p) = Some (startCode_size a v m = 4)"
      using useLongStartCode_at [OF m, of a v "pre @ nalu_header p (length n) @ n @ nalu_header p (length m)" "sample_stream p ms"]
        Cons.prems(4) by (simp add: add_ac)
    have more: "?e + p < length d" using len m Cons by (auto simp: sample_stream_Cons)
    have sc: "(if startCode_size a v m = 4 then 4 else 3) = startCode_size a v m" using startCode_size_cases by auto
    have "sampleStream_loop a v p False d (startCode_size a v m) ?e (data @ startCode sc @ n)
        = Some ((data @ startCode sc @ n) @ byte_stream a v (startCode_size a v m) ns)"
      by (rule Cons.IH [OF _ _ d']) (use Cons.prems Cons in simp_all)
    then show ?thesis using Cons bytes more long sc
      by (subst sampleStream_loop.simps) (simp add: size)
  qed
qed simp

section \<open>From start codes to sizes\<close>

lemma is_startCode_rest:
  assumes "rest = startCode sc @ tail" and "sc = 3 \<or> sc = 4" and "1 \<le> length tail"
  shows "is_startCode (pre @ rest) (length pre)"
  using assms by (auto simp: is_startCode_def startCode_def nth_append numeral_eq_Suc)

lemma clean_not_startCode:
  assumes "clean_nalu n" and "i < length n" and "rest = [] \<longrightarrow> i + 3 < length n" and "rest \<noteq> [] \<longrightarrow> rest ! 0 = 0"
  shows "\<not> is_startCode (pre @ n @ rest) (length pre + i)"
proof
  assume *: "is_startCode (pre @ n @ rest) (length pre + i)"
  have no: "\<not> (n ! j = 0 \<and> n ! (j + 1) = 0 \<and> n ! (j + 2) = 1)" if "j + 2 < length n" for j
    using assms(1) that by (simp add: clean_nalu_def less_diff_conv)
  have last: "n ! (length n - 1) \<noteq> 0" "2 \<le> length n"
    using assms(1) last_conv_nth [of n] by (cases "n = []"; simp add: clean_nalu_def)+
  have at: "(pre @ n @ rest) ! (length pre + j) = (if j < length n then n ! j else rest ! (j - length n))" for j
    by (simp add: nth_append)
  from * have z: "(pre @ n @ rest) ! (length pre + i) = 0" "(pre @ n @ rest) ! (length pre + (i + 1)) = 0"
    and o: "(pre @ n @ rest) ! (length pre + (i + 2)) = 1 \<or>
      ((pre @ n @ rest) ! (length pre + (i + 2)) = 0 \<and> (pre @ n @ rest) ! (length pre + (i + 3)) = 1)"
    by (simp_all add: is_startCode_def add.assoc)
  consider "i + 3 < length n" | "i + 3 = length n" | "i + 2 = length n" | "i + 1 = length n" using assms(2) by linarith
  then show False
  proof cases
    case 1
    then show False using z o no [of i] no [of "i + 1"] unfolding at by (auto simp: numeral_eq_Suc)
  next
    case 2
    then have "rest \<noteq> []" using assms(3) by auto
    with 2 show False using z o no [of i] assms(4) unfolding at by (auto simp: numeral_eq_Suc)
  next
    case 3
    then have "i + 1 < length n" and i: "length n - 1 = i + 1" by simp_all
    then have "n ! (i + 1) = 0" using z(2) unfolding at by simp
    with last(1) show False unfolding i by simp
  next
    case 4
    then have "i < length n" and i: "length n - 1 = i" by simp_all
    then have "n ! i = 0" using z(1) unfolding at by simp
    with last(1) show False unfolding i by simp
  qed
qed

lemma getEndOfNaluPosition_clean:
  assumes "clean_nalu n" and "d = pre @ n @ rest"
    and "rest = [] \<or> (\<exists>sc tail. rest = startCode sc @ tail \<and> (sc = 3 \<or> sc = 4) \<and> 2 \<le> length tail)"
  shows "getEndOfNaluPosition d (length pre) = length pre + length n"
proof (cases "rest = []")
  case True
  have "find (is_startCode d) [length pre..<length d - 4] = None"
  proof (rule find_None_iff [THEN iffD2], rule notI)
    assume "\<exists>i. i \<in> set [length pre..<length d - 4] \<and> is_startCode d i"
    then obtain i where i: "length pre \<le> i" "i < length d - 4" "is_startCode d i" by auto
    define j where "j = i - length pre"
    have "i = length pre + j" "j < length n" "j + 3 < length n" using i(1,2) True assms(2) by (auto simp: j_def)
    then show False using clean_not_startCode [OF assms(1), of j rest pre] i(3) True assms(2) by simp
  qed
  then show ?thesis using True assms(2) by (simp add: getEndOfNaluPosition_def)
next
  case False
  then obtain sc tail where rest: "rest = startCode sc @ tail" "sc = 3 \<or> sc = 4" "2 \<le> length tail" using assms(3) by blast
  then have zero: "rest ! 0 = 0" and five: "5 \<le> length rest" by (auto simp: startCode_def nth_append)
  let ?e = "length pre + length n"
  have e: "?e < length d - 4" using assms(2) five by simp
  have here: "is_startCode d ?e"
    using is_startCode_rest [OF rest(1,2), of "pre @ n"] rest(3) assms(2) by simp
  have before: "\<not> is_startCode d i" if "length pre \<le> i" "i < ?e" for i
  proof -
    have "i = length pre + (i - length pre)" "i - length pre < length n" using that by auto
    then show ?thesis using clean_not_startCode [OF assms(1), of "i - length pre" rest pre] False zero assms(2) by auto
  qed
  have "find (is_startCode d) [length pre..<length d - 4] = Some ?e"
    unfolding find_Some_iff using e here before by (intro exI [of _ "length n"]) auto
  moreover have "\<not> length d < length pre + 4" using e by linarith
  ultimately show ?thesis by (simp add: getEndOfNaluPosition_def)
qed

lemma byte_stream_shape:
  assumes "nalus \<noteq> []" and "\<forall>n \<in> set nalus. clean_nalu n"
  shows "\<exists>tail. byte_stream a v sc nalus = startCode sc @ tail \<and> 2 \<le> length tail"
  using assms by (induction a v sc nalus rule: byte_stream.induct) (auto simp: clean_nalu_def)

lemma byteStream_loop_nalus:
  assumes "nalus \<noteq> []" and "\<forall>n \<in> set nalus. clean_nalu n" and "sc = 3 \<or> sc = 4"
    and "d = pre @ byte_stream a v sc nalus" and "s = length pre"
  shows "byteStream_loop p False d s data = Some (data @ sample_stream p nalus)"
  using assms
proof (induction nalus arbitrary: pre sc data s)
  case (Cons n ns)
  let ?rest = "if ns = [] then [] else byte_stream a v (startCode_size a v (hd ns)) ns"
  have n: "clean_nalu n" using Cons.prems(2) by simp
  have d: "d = pre @ startCode sc @ n @ ?rest" using Cons.prems(4) by (cases ns) simp_all
  have len: "length (startCode sc) = sc" using Cons.prems(3) by auto
  have "getEndOfNaluPosition d (length (pre @ startCode sc)) = length (pre @ startCode sc) + length n"
  proof (rule getEndOfNaluPosition_clean [OF n, where rest = ?rest])
    show "?rest = [] \<or> (\<exists>sc tail. ?rest = startCode sc @ tail \<and> (sc = 3 \<or> sc = 4) \<and> 2 \<le> length tail)"
      using byte_stream_shape [of ns a v "startCode_size a v (hd ns)"] Cons.prems(2) startCode_size_cases [of a v "hd ns"] by auto
  qed (simp add: d)
  then have fin: "getEndOfNaluPosition d (s + sc) = s + sc + length n" using len Cons.prems(5) by simp
  have code: "d ! (s + 2) = (if sc = 4 then 0 else 1)"
    using Cons.prems(3,5) by (auto simp: d nth_append startCode_def numeral_eq_Suc)
  then have size: "(if d ! (s + 2) = 0 then 4 else 3) = sc" using Cons.prems(3) by auto
  have bytes: "byteStream_nalu p False d (s + sc) (s + sc + length n) = nalu_header p (length n) @ n"
    using map_nth_slice [of "pre @ startCode sc" n ?rest] len Cons.prems(5) by (simp add: byteStream_nalu_def d)
  have long: "\<not> length d \<le> s + 2" using Cons.prems(3,5) n len by (auto simp: d clean_nalu_def)
  show ?case
  proof (cases "ns = []")
    case True
    then have "\<not> s + sc + length n < length d" using len Cons.prems(5) by (simp add: d)
    then show ?thesis using True long size fin bytes
      by (subst byteStream_loop.simps) (simp add: Let_def sample_stream_Cons sample_stream_def [of p "[]"])
  next
    case False
    then obtain tail where tail: "?rest = startCode (startCode_size a v (hd ns)) @ tail" "2 \<le> length tail"
      using byte_stream_shape [of ns a v "startCode_size a v (hd ns)"] Cons.prems(2) by auto
    have go: "s + sc + length n < length d" using len Cons.prems(5) tail startCode_size_cases [of a v "hd ns"] by (auto simp: d)
    have d': "d = (pre @ startCode sc @ n) @ byte_stream a v (startCode_size a v (hd ns)) ns" using False d by simp
    have "byteStream_loop p False d (s + sc + length n) (data @ nalu_header p (length n) @ n)
        = Some ((data @ nalu_header p (length n) @ n) @ sample_stream p ns)"
      by (rule Cons.IH [OF False _ startCode_size_cases d']) (use Cons.prems(2,5) len in simp_all)
    then show ?thesis using long size fin bytes go
      by (subst byteStream_loop.simps) (simp add: Let_def sample_stream_Cons)
  qed
qed simp

section \<open>Emulation prevention\<close>

lemma emu_strip_insert: "zc \<le> 3 \<Longrightarrow> emu_strip zc (emu_insert zc bs) = bs"
  by (induction zc bs rule: emu_insert.induct) auto

text \<open>The escaping acts only behind three zero bytes: bytes without such a run are not changed by either loop.\<close>

lemma emu_insert_same:
  assumes "zc \<le> 2" and "\<not> sublist [0, 0, 0] (replicate zc 0 @ bs)"
  shows "emu_insert zc bs = bs"
  using assms
proof (induction bs arbitrary: zc)
  case (Cons b bs)
  have rest: "\<not> sublist [0, 0, 0] bs" using Cons.prems(2) by (auto simp: sublist_append sublist_Cons_right)
  show ?case
  proof (cases "b = 0")
    case True
    have shift: "replicate zc 0 @ b # bs = replicate (zc + 1) 0 @ bs" using True by (simp add: replicate_app_Cons_same)
    then have "\<not> sublist [0, 0, 0] (replicate (zc + 1) (0 :: uint8_t) @ bs)" using Cons.prems(2) shift by metis
    moreover have "zc \<noteq> 2"
    proof
      assume "zc = 2"
      then have "replicate zc 0 @ b # bs = [] @ [0, 0, 0] @ bs" using True by (simp add: numeral_2_eq_2)
      then show False using Cons.prems(2) unfolding sublist_def by blast
    qed
    ultimately show ?thesis using Cons.IH [of "zc + 1"] Cons.prems(1) True by simp
  next
    case False
    then show ?thesis using Cons.IH [of 0] rest Cons.prems(1) by simp
  qed
qed simp

lemma emu_same: "\<not> sublist [0, 0, 0] bs \<Longrightarrow> emu_insert 0 bs = bs \<and> emu_strip 0 bs = bs"
  using emu_insert_same [of 0 bs] emu_strip_insert [of 0 bs] by simp

lemma byteStream_nalu_same:
  assumes "\<not> sublist [0, 0, 0] n"
  shows "byteStream_nalu p e (pre @ n @ post) (length pre) (length pre + length n) = nalu_header p (length n) @ n"
  using emu_same [OF assms] map_nth_slice [of pre n post] by (simp add: byteStream_nalu_def)

text \<open>A start code of three bytes inside a NAL unit cuts it in two.\<close>

lemma byteStream_loop_step:
  assumes "(if d ! (s + 2) = 0 then 4 else 3) = sc" and "s + 2 < length d" and "s + sc = t"
    and "getEndOfNaluPosition d t = k" and "byteStream_nalu p e d t k = bytes"
  shows "byteStream_loop p e d s data
     = (if k < length d then byteStream_loop p e d k (data @ bytes) else Some (data @ bytes))"
  unfolding byteStream_loop.simps [of p e d s data] Let_def assms(1,3,4,5) using assms(2) by simp

lemma byteStream_loop_split:
  assumes x: "clean_nalu x" "\<not> sublist [0, 0, 0] x" and y: "clean_nalu y" "\<not> sublist [0, 0, 0] y"
  shows "byteStream_loop p e (startCode 4 @ x @ startCode 3 @ y) 0 [] = Some (sample_stream p [x, y])"
proof -
  let ?d = "startCode 4 @ x @ startCode 3 @ y" and ?s = "4 + length x"
  have len: "2 \<le> length x" "2 \<le> length y" using x(1) y(1) by (simp_all add: clean_nalu_def)
  have ends: "getEndOfNaluPosition ?d 4 = ?s" "getEndOfNaluPosition ?d (?s + 3) = ?s + 3 + length y"
    using getEndOfNaluPosition_clean [OF x(1), of ?d "startCode 4" "startCode 3 @ y"] len
      getEndOfNaluPosition_clean [OF y(1), of ?d "startCode 4 @ x @ startCode 3" "[]"]
    by auto
  have code: "?d ! (0 + 2) = 0" "?d ! (?s + 2) = 1" by (simp_all add: startCode_def nth_append numeral_eq_Suc)
  have size: "(if ?d ! (0 + 2) = 0 then 4 else 3) = (4 :: nat)" "(if ?d ! (?s + 2) = 0 then 4 else 3) = (3 :: nat)"
    unfolding code by simp_all
  have bytes: "byteStream_nalu p e ?d 4 ?s = nalu_header p (length x) @ x"
    "byteStream_nalu p e ?d (?s + 3) (?s + 3 + length y) = nalu_header p (length y) @ y"
    using byteStream_nalu_same [OF x(2), of p e "startCode 4" "startCode 3 @ y"]
      byteStream_nalu_same [OF y(2), of p e "startCode 4 @ x @ startCode 3" "[]"]
    by (simp_all add: add_ac)
  have total: "length ?d = ?s + 3 + length y" by simp
  have "byteStream_loop p e ?d ?s data = Some (data @ nalu_header p (length y) @ y)" for data
    using byteStream_loop_step [OF size(2) _ refl ends(2) bytes(2), of data] len unfolding total
    by (simp del: byteStream_loop.simps)
  then show ?thesis
    using byteStream_loop_step [OF size(1) _ _ ends(1) bytes(1), of "[]"] len unfolding total
    by (simp add: sample_stream_def del: byteStream_loop.simps)
qed

lemma sampleStream_single:
  assumes "\<not> sublist [0, 0, 0] n" and "length n < 2 ^ (8 * p)" and "length n < 2 ^ 31"
  shows "sampleStreamToByteStream a v p True (vb\<lparr>vb_data := sample_stream p [n]\<rparr>) = Some (vb\<lparr>vb_data := startCode 4 @ n\<rparr>)"
proof -
  let ?d = "nalu_header p (length n) @ n"
  have "for_loop [0..<p] (naluSize_step ?d 0) 0 = Some (length n)"
    using naluSize_read [OF assms(2,3), of "[]" n] by simp
  moreover have "map ((!) ?d) [p..<p + length n] = n" using map_nth_slice [of "nalu_header p (length n)" n "[]"] by simp
  ultimately have "sampleStream_loop a v p True ?d 4 0 [] = Some (startCode 4 @ n)"
    using emu_same [OF assms(1)] by (subst sampleStream_loop.simps) simp
  then show ?thesis by (simp add: sampleStreamToByteStream_def sample_stream_def)
qed

lemma nalu_split:
  assumes "clean_nalu x" and "clean_nalu y" and "n = x @ [0, 0, 1] @ y" and "\<not> sublist [0, 0, 0] n"
    and "length n < 2 ^ (8 * p)" and "length n < 2 ^ 31" and "p \<le> 8"
  shows "\<exists>bs. sampleStreamToByteStream a v p True (vb\<lparr>vb_data := sample_stream p [n]\<rparr>) = Some bs
     \<and> byteStreamToSampleStream p e bs = Some (vb\<lparr>vb_data := sample_stream p [x, y]\<rparr>)"
proof -
  have parts: "\<not> sublist [0, 0, 0] x" "\<not> sublist [0, 0, 0] y"
    using assms(4) sublist_order.order.trans [of "[0, 0, 0]" y n] sublist_order.order.trans [of "[0, 0, 0]" x n]
      sublist_appendI [of y "x @ [0, 0, 1]" "[]"] sublist_appendI [of x "[]" "[0, 0, 1] @ y"] unfolding assms(3) by auto
  have "n = x @ startCode 3 @ y" unfolding assms(3) startCode_def by (simp add: numeral_eq_Suc)
  then show ?thesis
    using sampleStream_single [OF assms(4-6), of a v vb] byteStream_loop_split [OF assms(1) parts(1) assms(2) parts(2), of p e] assms(7)
    by (simp add: byteStreamToSampleStream_def del: byteStream_loop.simps)
qed

end
