(* ===== verification/HighLevelSyntax.thy ===== *)
theory HighLevelSyntax
  imports TileData VideoBitstream
begin

text \<open>
  The store of everything that has been read or is to be written (\<open>PCCHighLevelSyntax.h\<close> and
  \<open>.cpp\<close>): per atlas the parameter sets, the tile layers and the video sub-bitstreams, and above them
  the V3C parameter sets and unit headers. The interface \<open>id_store\<close> is the contract of the vectors
  that are indexed by a parameter set id.

  References that the C++ functions return are the updated element of the store here. The members
  that only the encoder and the decoder use (occupancy precision, smoothing and the like) are left out.
\<close>

section \<open>State\<close>

record V3CUnitHeader =
  vuh_sequenceParamterSetId :: uint8_t
  vuh_atlasId :: uint8_t
  vuh_attributeIndex :: uint8_t
  vuh_attributeDimensionIndex :: uint8_t
  vuh_mapIndex :: uint8_t
  vuh_auxiliaryVideoFlag :: bool

definition vuh_new :: V3CUnitHeader where
  "vuh_new = \<lparr>vuh_sequenceParamterSetId = 0, vuh_atlasId = 0, vuh_attributeIndex = 0,
     vuh_attributeDimensionIndex = 0, vuh_mapIndex = 0, vuh_auxiliaryVideoFlag = False\<rparr>"

record PCCAtlasHighLevelSyntax =
  hls_videoBitstream :: "PCCVideoBitstream list"
  hls_atlasSequenceParameterSet :: "AtlasSequenceParameterSetRbsp list"
  hls_refAtlasFrameList :: "int list list"
  hls_maxNumRefAtlasFrame :: size_t
  hls_atlasFrameParameterSet :: "AtlasFrameParameterSetRbsp list"
  hls_atlasTileLayer :: "AtlasTileLayerRbsp list"

definition hls_new :: PCCAtlasHighLevelSyntax where
  "hls_new = \<lparr>hls_videoBitstream = [], hls_atlasSequenceParameterSet = [], hls_refAtlasFrameList = [],
     hls_maxNumRefAtlasFrame = 0, hls_atlasFrameParameterSet = [], hls_atlasTileLayer = []\<rparr>"

record PCCHighLevelSyntax =
  syn_v3cUnitHeader :: "V3CUnitHeader list"
  syn_vpccParameterSets :: "V3CParameterSet list"
  syn_activeVPS :: uint8_t
  syn_atlasHLS :: "PCCAtlasHighLevelSyntax list"
  syn_atlasIndex :: nat

definition syn_new :: PCCHighLevelSyntax where
  "syn_new = \<lparr>syn_v3cUnitHeader = replicate 5 vuh_new, syn_vpccParameterSets = [], syn_activeVPS = 0,
     syn_atlasHLS = [], syn_atlasIndex = 0\<rparr>"

section \<open>Operations of an atlas\<close>

definition hls_createVideoBitstream :: "uint32_t \<Rightarrow> PCCAtlasHighLevelSyntax \<Rightarrow> PCCAtlasHighLevelSyntax" where
  "hls_createVideoBitstream type hls = hls\<lparr>hls_videoBitstream := hls_videoBitstream hls @ [vb_new type]\<rparr>"

text \<open>The program exits when there is no video of the type.\<close>

definition hls_getVideoBitstream :: "uint32_t \<Rightarrow> PCCAtlasHighLevelSyntax \<Rightarrow> PCCVideoBitstream option" where
  "hls_getVideoBitstream type hls = find (\<lambda>value. vb_type value = type) (hls_videoBitstream hls)"

definition hls_getAsps :: "PCCAtlasHighLevelSyntax \<Rightarrow> uint8_t \<Rightarrow> AtlasSequenceParameterSetRbsp option" where
  "hls_getAsps hls setId = vec_at (hls_atlasSequenceParameterSet hls) (unat setId)"

definition hls_addAsps :: "PCCAtlasHighLevelSyntax \<Rightarrow> PCCAtlasHighLevelSyntax" where
  "hls_addAsps hls = (let l = hls_atlasSequenceParameterSet hls in
     hls\<lparr>hls_atlasSequenceParameterSet := l @ [asps_new\<lparr>asps_atlasSequenceParameterSetId := of_nat (length l)\<rparr>]\<rparr>)"

definition hls_addAspsId :: "uint8_t \<Rightarrow> PCCAtlasHighLevelSyntax \<Rightarrow> PCCAtlasHighLevelSyntax" where
  "hls_addAspsId setId hls = (let asps = asps_new\<lparr>asps_atlasSequenceParameterSetId := setId\<rparr>;
       l = hls_atlasSequenceParameterSet hls;
       l = (if length l < unat setId + 1 then vec_resize (unat setId + 1) asps_new l else l)
     in hls\<lparr>hls_atlasSequenceParameterSet := l[unat setId := asps]\<rparr>)"

definition hls_getAfps :: "PCCAtlasHighLevelSyntax \<Rightarrow> uint8_t \<Rightarrow> AtlasFrameParameterSetRbsp option" where
  "hls_getAfps hls setId = vec_at (hls_atlasFrameParameterSet hls) (unat setId)"

definition hls_addAfps :: "PCCAtlasHighLevelSyntax \<Rightarrow> PCCAtlasHighLevelSyntax" where
  "hls_addAfps hls = (let l = hls_atlasFrameParameterSet hls in
     hls\<lparr>hls_atlasFrameParameterSet := l @ [afps_new\<lparr>afps_atlasFrameParameterSetId := of_nat (length l)\<rparr>]\<rparr>)"

text \<open>\<open>copyFrom\<close> leaves out the flag \<open>outputFlagPresentFlag\<close>.\<close>

definition afps_copyFrom :: "AtlasFrameParameterSetRbsp \<Rightarrow> AtlasFrameParameterSetRbsp \<Rightarrow> AtlasFrameParameterSetRbsp" where
  "afps_copyFrom refAfps afps = afps\<lparr>
     afps_atlasSequenceParameterSetId := afps_atlasSequenceParameterSetId refAfps,
     afps_numRefIdxDefaultActiveMinus1 := afps_numRefIdxDefaultActiveMinus1 refAfps,
     afps_additionalLtAfocLsbLen := afps_additionalLtAfocLsbLen refAfps,
     afps_lodModeEnableFlag := afps_lodModeEnableFlag refAfps,
     afps_raw3doffsetBitCountExplicitModeFlag := afps_raw3doffsetBitCountExplicitModeFlag refAfps,
     afps_extensionFlag := afps_extensionFlag refAfps,
     afps_extension8Bits := afps_extension8Bits refAfps,
     afps_atlasFrameTileInformation := afps_atlasFrameTileInformation refAfps\<rparr>"

definition hls_addAfpsCopy :: "AtlasFrameParameterSetRbsp \<Rightarrow> PCCAtlasHighLevelSyntax \<Rightarrow> PCCAtlasHighLevelSyntax" where
  "hls_addAfpsCopy refAfps hls = (let l = hls_atlasFrameParameterSet hls in
     hls\<lparr>hls_atlasFrameParameterSet :=
       l @ [(afps_copyFrom refAfps afps_new)\<lparr>afps_atlasFrameParameterSetId := of_nat (length l)\<rparr>]\<rparr>)"

definition hls_addAfpsId :: "uint8_t \<Rightarrow> PCCAtlasHighLevelSyntax \<Rightarrow> PCCAtlasHighLevelSyntax" where
  "hls_addAfpsId setId hls = (let afps = afps_new\<lparr>afps_atlasFrameParameterSetId := setId\<rparr>;
       l = hls_atlasFrameParameterSet hls;
       l = (if length l < unat setId + 1 then vec_resize (unat setId + 1) afps_new l else l)
     in hls\<lparr>hls_atlasFrameParameterSet := l[unat setId := afps]\<rparr>)"

definition hls_addAtlasTileLayer :: "PCCAtlasHighLevelSyntax \<Rightarrow> PCCAtlasHighLevelSyntax" where
  "hls_addAtlasTileLayer hls = (let l = hls_atlasTileLayer hls; n = of_nat (length l) in
     hls\<lparr>hls_atlasTileLayer := l @ [atgl_new\<lparr>atgl_tileOrder := n,
       atgl_dataUnit := atdu_new\<lparr>atdu_tileOrder := n\<rparr>, atgl_encFrameIndex := - 1, atgl_encTileIndex := - 1\<rparr>]\<rparr>)"

definition hls_addAtlasTileLayerAt :: "size_t \<Rightarrow> size_t \<Rightarrow> PCCAtlasHighLevelSyntax \<Rightarrow> PCCAtlasHighLevelSyntax" where
  "hls_addAtlasTileLayerAt frameIdx tileIdx hls =
     hls\<lparr>hls_atlasTileLayer := hls_atlasTileLayer hls @ [atgl_new\<lparr>atgl_encFrameIndex := frameIdx,
       atgl_encTileIndex := tileIdx, atgl_atlasFrmOrderCntVal := frameIdx\<rparr>]\<rparr>"

definition hls_getAtlasTileLayerIndex :: "size_t \<Rightarrow> size_t \<Rightarrow> PCCAtlasHighLevelSyntax \<Rightarrow> nat" where
  "hls_getAtlasTileLayerIndex frameIndex tileIndex hls =
     (case find (\<lambda>i. atgl_encFrameIndex (hls_atlasTileLayer hls ! i) = frameIndex
                   \<and> atgl_encTileIndex (hls_atlasTileLayer hls ! i) = tileIndex) [0..<length (hls_atlasTileLayer hls)]
      of Some i \<Rightarrow> i | None \<Rightarrow> 0)"

definition hls_setRefAtlasFrameList :: "int list list \<Rightarrow> PCCAtlasHighLevelSyntax \<Rightarrow> PCCAtlasHighLevelSyntax" where
  "hls_setRefAtlasFrameList list hls = (let own = hls_refAtlasFrameList hls; n = min (length own) (length list) in
     hls\<lparr>hls_refAtlasFrameList := map2 (\<lambda>old new. let k = min (length old) (length new) in take k new @ drop k old)
       (take n own) (take n list) @ drop n own\<rparr>)"

text \<open>The list of reference frames that a tile header selects.\<close>

definition ath_refList :: "AtlasTileHeader \<Rightarrow> AtlasSequenceParameterSetRbsp \<Rightarrow> RefListStruct option" where
  "ath_refList ath asps = (if ath_refAtlasFrameListSpsFlag ath
     then vec_at (asps_refListStruct asps) (unat (ath_refAtlasFrameListIdx ath)) else Some (ath_refListStruct ath))"

definition hls_getNumRefIdxActive :: "PCCAtlasHighLevelSyntax \<Rightarrow> AtlasTileHeader \<Rightarrow> nat option" where
  "hls_getNumRefIdxActive hls ath = do {
     afps \<leftarrow> hls_getAfps hls (ath_atlasFrameParameterSetId ath);
     if ath_type ath = P_TILE \<or> ath_type ath = SKIP_TILE then
       (if ath_numRefIdxActiveOverrideFlag ath then Some (unat (ath_numRefIdxActiveMinus1 ath) + 1)
        else do {
          asps \<leftarrow> hls_getAsps hls (afps_atlasSequenceParameterSetId afps);
          refList \<leftarrow> ath_refList ath asps;
          Some (min (unat (rls_numRefEntries refList)) (unat (afps_numRefIdxDefaultActiveMinus1 afps) + 1))
        })
     else Some 0
   }"

section \<open>Operations of the whole stream\<close>

text \<open>The program exits when there is no parameter set of the id.\<close>

definition syn_getVps :: "PCCHighLevelSyntax \<Rightarrow> uint8_t \<Rightarrow> V3CParameterSet option" where
  "syn_getVps syn vps_id = find (\<lambda>value. vps_v3cParameterSetId value = ucast vps_id) (syn_vpccParameterSets syn)"

definition syn_setActiveVpsId :: "uint8_t \<Rightarrow> PCCHighLevelSyntax \<Rightarrow> PCCHighLevelSyntax" where
  "syn_setActiveVpsId val syn = syn\<lparr>syn_activeVPS := val\<rparr>"

definition syn_addV3CParameterSetId :: "uint8_t \<Rightarrow> PCCHighLevelSyntax \<Rightarrow> PCCHighLevelSyntax" where
  "syn_addV3CParameterSetId index syn = syn\<lparr>syn_vpccParameterSets :=
     syn_vpccParameterSets syn @ [vps_new\<lparr>vps_v3cParameterSetId := ucast index\<rparr>]\<rparr>"

definition syn_addV3CParameterSet :: "PCCHighLevelSyntax \<Rightarrow> PCCHighLevelSyntax" where
  "syn_addV3CParameterSet syn = syn_addV3CParameterSetId (of_nat (length (syn_vpccParameterSets syn))) syn"

definition syn_allocateAtlasHLS :: "nat \<Rightarrow> PCCHighLevelSyntax \<Rightarrow> PCCHighLevelSyntax" where
  "syn_allocateAtlasHLS sz syn = syn\<lparr>syn_atlasHLS := vec_resize sz hls_new (syn_atlasHLS syn), syn_atlasIndex := 0\<rparr>"

definition syn_setAtlasIndex :: "nat \<Rightarrow> PCCHighLevelSyntax \<Rightarrow> PCCHighLevelSyntax" where
  "syn_setAtlasIndex atlId syn = syn\<lparr>syn_atlasIndex := atlId\<rparr>"

definition syn_getAtlasHighLevelSyntax :: "PCCHighLevelSyntax \<Rightarrow> PCCAtlasHighLevelSyntax option" where
  "syn_getAtlasHighLevelSyntax syn = vec_at (syn_atlasHLS syn) (syn_atlasIndex syn)"

section \<open>Profile check\<close>

text \<open>A later violation overwrites the code of an earlier one.\<close>

definition toolset_asps :: "ProfileToolsetConstraintsInformation \<Rightarrow> AtlasSequenceParameterSetRbsp \<Rightarrow> nat \<Rightarrow> nat" where
  "toolset_asps ptci asps ret = (let
     ret = (if ptci_EOMContraintFlag ptci \<and> asps_eomPatchEnabledFlag asps then 2 else ret);
     ret = (if ptci_PLRConstraintFlag ptci \<and> asps_PLREnabledFlag asps then 4 else ret);
     ret = (if ptci_noEightOrientationsConstraintFlag ptci \<and> asps_useEightOrientationsFlag asps then 5 else ret);
     ret = (if ptci_No45DegreeProjectionPatchConstraintFlag ptci \<and> asps_extendedProjectionEnabledFlag asps then 6 else ret)
   in ret)"

definition basic_asps :: "bool \<Rightarrow> uint8_t \<Rightarrow> AtlasSequenceParameterSetRbsp \<Rightarrow> nat \<Rightarrow> nat" where
  "basic_asps multipleMapStreams mapCountMinus1 asps ret = (let
     ret = (if asps_eomPatchEnabledFlag asps then 11 else ret);
     ret = (if \<not> multipleMapStreams \<and> 0 < mapCountMinus1 then 12 else ret);
     ret = (if asps_PLREnabledFlag asps then 13 else ret);
     ret = (if asps_useEightOrientationsFlag asps then 14 else ret);
     ret = (if asps_extendedProjectionEnabledFlag asps then 15 else ret)
   in ret)"

definition checkProfile :: "PCCHighLevelSyntax \<Rightarrow> nat option" where
  "checkProfile syn =
     (if length (syn_atlasHLS syn) \<noteq> 1 then Some 1 else do {
        vps \<leftarrow> syn_getVps syn (syn_activeVPS syn);
        let ptl = vps_profileTierLevel vps;
        if \<not> ptl_toolConstraintsPresentFlag ptl then Some 0 else do {
          let ptci = ptl_ptci ptl;
          ret \<leftarrow> (if ptci_multipleMapStreamsConstraintFlag ptci then do {
              m \<leftarrow> vec_at (vps_multipleMapStreamsPresentFlag vps) 0;
              Some (if m then 3 else 0)
            } else Some 0);
          mapCountMinus1 \<leftarrow> vec_at (vps_mapCountMinus1 vps) 0;
          let ret = (if ptci_maxMapCountMinus1 ptci < mapCountMinus1 then 7 else ret);
          let aspss = hls_atlasSequenceParameterSet (syn_atlasHLS syn ! 0);
          let ret = fold (toolset_asps ptci) aspss ret;
          if ptl_profileToolsetIdc ptl = 0 \<and> aspss \<noteq> [] then do {
            m \<leftarrow> vec_at (vps_multipleMapStreamsPresentFlag vps) 0;
            Some (fold (basic_asps m mapCountMinus1) aspss ret)
          } else Some ret
        }
      })"

section \<open>The contract of a store indexed by id\<close>

locale id_store =
  fixes get :: "'s \<Rightarrow> uint8_t \<Rightarrow> 'a option"
    and add :: "uint8_t \<Rightarrow> 's \<Rightarrow> 's"
    and fresh :: "uint8_t \<Rightarrow> 'a"
  assumes get_add: "get (add i s) i = Some (fresh i)"
    and get_add_other: "j \<noteq> i \<Longrightarrow> get s j = Some a \<Longrightarrow> get (add i s) j = Some a"
begin

lemma get_keep: "j \<notin> set ids \<Longrightarrow> get s j = Some a \<Longrightarrow> get (fold add ids s) j = Some a"
  by (induction ids arbitrary: s) (simp_all add: get_add_other)

lemma get_last: "i \<in> set ids \<Longrightarrow> get (fold add ids s) i = Some (fresh i)"
proof (induction ids arbitrary: s)
  case (Cons j ids)
  then show ?case by (cases "i \<in> set ids") (auto simp: get_keep get_add)
qed simp

end

text \<open>The vector of either kind of parameter set implements it: growing the vector keeps its elements.\<close>

lemma resize_set_at:
  "vec_at ((if length l < i + 1 then vec_resize (i + 1) d l else l)[i := v]) i = Some v"
  by simp

lemma resize_set_at_other:
  "j \<noteq> i \<Longrightarrow> vec_at l j = Some a \<Longrightarrow> vec_at ((if length l < i + 1 then vec_resize (i + 1) d l else l)[i := v]) j = Some a"
  by (auto simp: vec_at_eq_Some nth_vec_resize)

lemma unat_uint8_eq: "(unat i = unat j) = (i = j)" for i j :: uint8_t
  by (simp only: word_unat_eq_iff)

interpretation asps_store: id_store hls_getAsps hls_addAspsId "\<lambda>i. asps_new\<lparr>asps_atlasSequenceParameterSetId := i\<rparr>"
proof unfold_locales
  have list: "hls_atlasSequenceParameterSet (hls_addAspsId i s) = (let l = hls_atlasSequenceParameterSet s in
     (if length l < unat i + 1 then vec_resize (unat i + 1) asps_new l else l)[unat i := asps_new\<lparr>asps_atlasSequenceParameterSetId := i\<rparr>])" for i s
    by (simp add: hls_addAspsId_def Let_def)
  note list = list [unfolded Let_def]
  show "hls_getAsps (hls_addAspsId i s) i = Some (asps_new\<lparr>asps_atlasSequenceParameterSetId := i\<rparr>)" for i s
    by (simp only: hls_getAsps_def list resize_set_at)
  show "hls_getAsps (hls_addAspsId i s) j = Some a" if "j \<noteq> i" "hls_getAsps s j = Some a" for i j s a
    using that unat_uint8_eq [of j i] by (simp only: hls_getAsps_def list resize_set_at_other not_False_eq_True)
qed

interpretation afps_store: id_store hls_getAfps hls_addAfpsId "\<lambda>i. afps_new\<lparr>afps_atlasFrameParameterSetId := i\<rparr>"
proof unfold_locales
  have list: "hls_atlasFrameParameterSet (hls_addAfpsId i s) = (let l = hls_atlasFrameParameterSet s in
     (if length l < unat i + 1 then vec_resize (unat i + 1) afps_new l else l)[unat i := afps_new\<lparr>afps_atlasFrameParameterSetId := i\<rparr>])" for i s
    by (simp add: hls_addAfpsId_def Let_def)
  note list = list [unfolded Let_def]
  show "hls_getAfps (hls_addAfpsId i s) i = Some (afps_new\<lparr>afps_atlasFrameParameterSetId := i\<rparr>)" for i s
    by (simp only: hls_getAfps_def list resize_set_at)
  show "hls_getAfps (hls_addAfpsId i s) j = Some a" if "j \<noteq> i" "hls_getAfps s j = Some a" for i j s a
    using that unat_uint8_eq [of j i] by (simp only: hls_getAfps_def list resize_set_at_other not_False_eq_True)
qed

section \<open>Profile conformance\<close>

definition toolset_ok :: "ProfileToolsetConstraintsInformation \<Rightarrow> AtlasSequenceParameterSetRbsp \<Rightarrow> bool" where
  "toolset_ok ptci asps \<longleftrightarrow> \<not> (ptci_EOMContraintFlag ptci \<and> asps_eomPatchEnabledFlag asps)
     \<and> \<not> (ptci_PLRConstraintFlag ptci \<and> asps_PLREnabledFlag asps)
     \<and> \<not> (ptci_noEightOrientationsConstraintFlag ptci \<and> asps_useEightOrientationsFlag asps)
     \<and> \<not> (ptci_No45DegreeProjectionPatchConstraintFlag ptci \<and> asps_extendedProjectionEnabledFlag asps)"

definition basic_ok :: "bool \<Rightarrow> uint8_t \<Rightarrow> AtlasSequenceParameterSetRbsp \<Rightarrow> bool" where
  "basic_ok m k asps \<longleftrightarrow> \<not> asps_eomPatchEnabledFlag asps \<and> (m \<or> k = 0) \<and> \<not> asps_PLREnabledFlag asps
     \<and> \<not> asps_useEightOrientationsFlag asps \<and> \<not> asps_extendedProjectionEnabledFlag asps"

lemma fold_zero_iff:
  assumes "\<And>x r. f x r = 0 \<longleftrightarrow> r = 0 \<and> P x"
  shows "fold f xs r = 0 \<longleftrightarrow> r = (0 :: nat) \<and> (\<forall>x \<in> set xs. P x)"
  by (induction xs arbitrary: r) (auto simp: assms)

lemma fold_toolset: "fold (toolset_asps ptci) xs r = 0 \<longleftrightarrow> r = 0 \<and> (\<forall>x \<in> set xs. toolset_ok ptci x)"
  by (rule fold_zero_iff) (auto simp: toolset_asps_def toolset_ok_def Let_def)

lemma fold_basic: "fold (basic_asps m k) xs r = 0 \<longleftrightarrow> r = 0 \<and> (\<forall>x \<in> set xs. basic_ok m k x)"
  by (rule fold_zero_iff) (auto simp: basic_asps_def basic_ok_def Let_def word_neq_0_conv)

lemma checkProfile_zero:
  assumes "length (syn_atlasHLS syn) = 1" and "syn_getVps syn (syn_activeVPS syn) = Some vps"
    and "ptl_toolConstraintsPresentFlag (vps_profileTierLevel vps)"
    and "vps_multipleMapStreamsPresentFlag vps = m # ms" and "vps_mapCountMinus1 vps = k # ks"
  defines "ptl \<equiv> vps_profileTierLevel vps" and "aspss \<equiv> hls_atlasSequenceParameterSet (syn_atlasHLS syn ! 0)"
  shows "checkProfile syn = Some 0 \<longleftrightarrow> (ptci_multipleMapStreamsConstraintFlag (ptl_ptci ptl) \<longrightarrow> \<not> m)
     \<and> k \<le> ptci_maxMapCountMinus1 (ptl_ptci ptl)
     \<and> (\<forall>asps \<in> set aspss. toolset_ok (ptl_ptci ptl) asps \<and> (ptl_profileToolsetIdc ptl = 0 \<longrightarrow> basic_ok m k asps))"
proof -
  let ?r0 = "if ptci_multipleMapStreamsConstraintFlag (ptl_ptci ptl) \<and> m then 3 else 0 :: nat"
  let ?r = "if ptci_maxMapCountMinus1 (ptl_ptci ptl) < k then 7 else ?r0"
  let ?t = "fold (toolset_asps (ptl_ptci ptl)) aspss ?r"
  have "checkProfile syn = Some (if ptl_profileToolsetIdc ptl = 0 \<and> aspss \<noteq> [] then fold (basic_asps m k) aspss ?t else ?t)"
    using assms(1-5) by (simp add: checkProfile_def ptl_def aspss_def Let_def)
  moreover have "?r = 0 \<longleftrightarrow> (ptci_multipleMapStreamsConstraintFlag (ptl_ptci ptl) \<longrightarrow> \<not> m) \<and> k \<le> ptci_maxMapCountMinus1 (ptl_ptci ptl)"
    by (auto simp: not_less not_le)
  ultimately show ?thesis by (auto simp: fold_toolset fold_basic)
qed

section \<open>Tile layers\<close>

lemma getAtlasTileLayerIndex_add:
  assumes "\<forall>atgl \<in> set (hls_atlasTileLayer hls). \<not> (atgl_encFrameIndex atgl = f \<and> atgl_encTileIndex atgl = t)"
  shows "hls_getAtlasTileLayerIndex f t (hls_addAtlasTileLayerAt f t hls) = length (hls_atlasTileLayer hls)"
proof -
  let ?l = "hls_atlasTileLayer hls" and ?l' = "hls_atlasTileLayer (hls_addAtlasTileLayerAt f t hls)"
  have l': "length ?l' = Suc (length ?l)" "?l' ! length ?l = atgl_new\<lparr>atgl_encFrameIndex := f, atgl_encTileIndex := t, atgl_atlasFrmOrderCntVal := f\<rparr>"
    "\<And>i. i < length ?l \<Longrightarrow> ?l' ! i = ?l ! i"
    by (simp_all add: hls_addAtlasTileLayerAt_def nth_append)
  have "find (\<lambda>i. atgl_encFrameIndex (?l' ! i) = f \<and> atgl_encTileIndex (?l' ! i) = t) [0..<length ?l'] = Some (length ?l)"
    unfolding find_Some_iff using assms l' by (intro exI [of _ "length ?l"]) (auto simp: nth_mem simp del: upt_Suc)
  then show ?thesis by (simp add: hls_getAtlasTileLayerIndex_def del: upt_Suc)
qed

end
