(* ===== verification/PatchUnits.thy ===== *)
theory PatchUnits
  imports HighLevelSyntax
begin

unbundle bit_operations_syntax

text \<open>
  The patch data units of the atlas tile layer and the point local reconstruction data, with the
  functions of the writer and the reader. The widths of the fixed-width fields depend on the parameter
  sets that the tile header refers to; \<open>int64_t\<close> fields are converted to \<open>int32_t\<close> before they are
  coded. The reader of merge and inter patches keeps the size of the last patch and a predicted patch
  index (\<open>ReaderState\<close>), from which it finds the size of the reconstruction data.
\<close>

section \<open>State of the reader\<close>

record ReaderState =
  rst_prevPatchSizeU :: int
  rst_prevPatchSizeV :: int
  rst_predPatchIndex :: int
  rst_prevFrameIndex :: int

definition rst_new :: ReaderState where
  "rst_new = \<lparr>rst_prevPatchSizeU = 0, rst_prevPatchSizeV = 0, rst_predPatchIndex = 0, rst_prevFrameIndex = 0\<rparr>"

definition to_int32 :: "int \<Rightarrow> int" where
  "to_int32 v = signed_take_bit 31 v"

lemma to_int32_small [simp]: "int32_in v \<Longrightarrow> to_int32 v = v"
  by (simp add: to_int32_def int32_in_def signed_take_bit_int_eq_self)

section \<open>Widths\<close>

definition bitCountUV :: "AtlasSequenceParameterSetRbsp \<Rightarrow> nat" where
  "bitCountUV asps = unat (asps_geometry3dBitdepthMinus1 asps + 1)"

definition bitCountD :: "AtlasSequenceParameterSetRbsp \<Rightarrow> AtlasTileHeader \<Rightarrow> nat" where
  "bitCountD asps ath = unat (asps_geometry3dBitdepthMinus1 asps - ath_posMinDQuantizer ath + 1)"

definition bitCountForMaxDepth :: "AtlasSequenceParameterSetRbsp \<Rightarrow> AtlasTileHeader \<Rightarrow> nat" where
  "bitCountForMaxDepth asps ath = unat (min (asps_geometry2dBitdepthMinus1 asps) (asps_geometry3dBitdepthMinus1 asps) + 1
     - ath_posDeltaMaxDQuantizer ath)"

definition projectionBits :: "AtlasSequenceParameterSetRbsp \<Rightarrow> nat" where
  "projectionBits asps = unat (word_of_int (ceilLog2 (ucast (asps_maxNumberProjectionsMinus1 asps + 1))) :: uint8_t)"

definition orientationBits :: "AtlasSequenceParameterSetRbsp \<Rightarrow> nat" where
  "orientationBits asps = (if asps_useEightOrientationsFlag asps then 3 else 1)"

section \<open>Point local reconstruction data\<close>

definition plrd_blockCount :: "PLRData \<Rightarrow> nat" where
  "plrd_blockCount plrd = unat (plrd_blockToPatchMapWidth plrd * plrd_blockToPatchMapHeight plrd)"

definition plri_bitCountMode :: "PLRInformation \<Rightarrow> nat" where
  "plri_bitCountMode plri = unat (word_of_int (ceilLog2 (ucast (plri_numberOfModesMinus1 plri))) :: uint8_t)"

definition plrd_block_w :: "nat \<Rightarrow> PLRData \<Rightarrow> nat \<Rightarrow> PCCBitstream \<Rightarrow> PCCBitstream option" where
  "plrd_block_w bitCountMode plrd i bs = do {
     v \<leftarrow> vec_at (plrd_blockPresentFlag plrd) i;
     bs \<leftarrow> bs_write (b2u v) 1 bs;
     bs \<leftarrow> (if v then do {
         m \<leftarrow> vec_at (plrd_blockModeMinus1 plrd) i;
         bs \<leftarrow> bs_write (ucast m) bitCountMode bs;
         Some bs
       } else Some bs);
     Some bs
   }"

definition plrd_block_r :: "nat \<Rightarrow> nat \<Rightarrow> PLRData \<Rightarrow> PCCBitstream \<Rightarrow> (PLRData \<times> PCCBitstream) option" where
  "plrd_block_r bitCountMode i plrd bs = do {
     (v, bs) \<leftarrow> bs_read 1 bs;
     l \<leftarrow> vec_set (plrd_blockPresentFlag plrd) i (v \<noteq> 0);
     let plrd = plrd\<lparr>plrd_blockPresentFlag := l\<rparr>;
     b \<leftarrow> vec_at (plrd_blockPresentFlag plrd) i;
     (plrd, bs) \<leftarrow> (if b then do {
         (v, bs) \<leftarrow> bs_read bitCountMode bs;
         l \<leftarrow> vec_set (plrd_blockModeMinus1 plrd) i (ucast v);
         let plrd = plrd\<lparr>plrd_blockModeMinus1 := l\<rparr>;
         Some (plrd, bs)
       } else Some (plrd, bs));
     Some (plrd, bs)
   }"

definition plrd_map_w :: "AtlasSequenceParameterSetRbsp \<Rightarrow> PLRData \<Rightarrow> nat \<Rightarrow> PCCBitstream \<Rightarrow> PCCBitstream option" where
  "plrd_map_w asps plrd i bs = do {
     plri \<leftarrow> vec_at (asps_plrInformation asps) i;
     bs \<leftarrow> (if plri_mapEnabledFlag plri then do {
         bs \<leftarrow> (if unat (plri_blockThresholdPerPatchMinus1 plri) + 1 < plrd_blockCount plrd then do {
             bs \<leftarrow> bs_write (b2u (plrd_levelFlag plrd)) 1 bs;
             Some bs
           } else Some bs);
         bs \<leftarrow> (if \<not> plrd_levelFlag plrd then do {
             bs \<leftarrow> for_loop [0..<plrd_blockCount plrd] (plrd_block_w (plri_bitCountMode plri) plrd) bs;
             Some bs
           } else do {
             bs \<leftarrow> bs_write (b2u (plrd_presentFlag plrd)) 1 bs;
             bs \<leftarrow> (if plrd_presentFlag plrd then do {
                 bs \<leftarrow> bs_write (ucast (plrd_modeMinus1 plrd)) (plri_bitCountMode plri) bs;
                 Some bs
               } else Some bs);
             Some bs
           });
         Some bs
       } else Some bs);
     Some bs
   }"

definition plrd_map_r :: "AtlasSequenceParameterSetRbsp \<Rightarrow> nat \<Rightarrow> PLRData \<Rightarrow> PCCBitstream \<Rightarrow> (PLRData \<times> PCCBitstream) option" where
  "plrd_map_r asps i plrd bs = do {
     plri \<leftarrow> vec_at (asps_plrInformation asps) i;
     (plrd, bs) \<leftarrow> (if plri_mapEnabledFlag plri then do {
         (plrd, bs) \<leftarrow> (if unat (plri_blockThresholdPerPatchMinus1 plri) + 1 < plrd_blockCount plrd then do {
             (v, bs) \<leftarrow> bs_read 1 bs;
             let plrd = plrd\<lparr>plrd_levelFlag := v \<noteq> 0\<rparr>;
             Some (plrd, bs)
           } else do {
             let plrd = plrd\<lparr>plrd_levelFlag := True\<rparr>;
             Some (plrd, bs)
           });
         (plrd, bs) \<leftarrow> (if \<not> plrd_levelFlag plrd then do {
             (plrd, bs) \<leftarrow> for_loop [0..<plrd_blockCount plrd] (\<lambda>i (plrd, bs). plrd_block_r (plri_bitCountMode plri) i plrd bs) (plrd, bs);
             Some (plrd, bs)
           } else do {
             (v, bs) \<leftarrow> bs_read 1 bs;
             let plrd = plrd\<lparr>plrd_presentFlag := v \<noteq> 0\<rparr>;
             (plrd, bs) \<leftarrow> (if plrd_presentFlag plrd then do {
                 (v, bs) \<leftarrow> bs_read (plri_bitCountMode plri) bs;
                 let plrd = plrd\<lparr>plrd_modeMinus1 := ucast v\<rparr>;
                 Some (plrd, bs)
               } else Some (plrd, bs));
             Some (plrd, bs)
           });
         Some (plrd, bs)
       } else Some (plrd, bs));
     Some (plrd, bs)
   }"

definition plrData_w :: "AtlasSequenceParameterSetRbsp \<Rightarrow> PLRData \<Rightarrow> PCCBitstream \<Rightarrow> PCCBitstream option" where
  "plrData_w asps plrd bs = for_loop [0..<unat (asps_mapCountMinus1 asps) + 1] (plrd_map_w asps plrd) bs"

definition plrData_r :: "AtlasSequenceParameterSetRbsp \<Rightarrow> PLRData \<Rightarrow> PCCBitstream \<Rightarrow> (PLRData \<times> PCCBitstream) option" where
  "plrData_r asps plrd bs =
     for_loop [0..<unat (asps_mapCountMinus1 asps) + 1] (\<lambda>i (plrd, bs). plrd_map_r asps i plrd bs) (plrd, bs)"

section \<open>Intra patch data unit\<close>

definition patchDataUnit_w :: "PCCAtlasHighLevelSyntax \<Rightarrow> AtlasTileHeader \<Rightarrow> PatchDataUnit \<Rightarrow> PCCBitstream \<Rightarrow> PCCBitstream option" where
  "patchDataUnit_w hls ath pdu bs = do {
     afps \<leftarrow> hls_getAfps hls (ath_atlasFrameParameterSetId ath);
     asps \<leftarrow> hls_getAsps hls (afps_atlasSequenceParameterSetId afps);
     bs \<leftarrow> bs_writeUvlc (ucast (pdu_pos2dX pdu)) bs;
     bs \<leftarrow> bs_writeUvlc (ucast (pdu_pos2dY pdu)) bs;
     bs \<leftarrow> bs_writeUvlc (ucast (pdu_size2dXMinus1 pdu)) bs;
     bs \<leftarrow> bs_writeUvlc (ucast (pdu_size2dYMinus1 pdu)) bs;
     bs \<leftarrow> bs_write (ucast (pdu_pos3dOffsetU pdu)) (bitCountUV asps) bs;
     bs \<leftarrow> bs_write (ucast (pdu_pos3dOffsetV pdu)) (bitCountUV asps) bs;
     bs \<leftarrow> bs_write (ucast (pdu_pos3dOffsetD pdu)) (bitCountD asps ath) bs;
     bs \<leftarrow> (if asps_normalAxisMaxDeltaValueEnabledFlag asps then do {
         bs \<leftarrow> bs_write (ucast (pdu_pos3dRangeD pdu)) (bitCountForMaxDepth asps ath) bs;
         Some bs
       } else Some bs);
     bs \<leftarrow> bs_write (ucast (pdu_projectionId pdu)) (projectionBits asps) bs;
     bs \<leftarrow> bs_write (ucast (pdu_orientationIndex pdu)) (orientationBits asps) bs;
     bs \<leftarrow> (if afps_lodModeEnableFlag afps then do {
         bs \<leftarrow> bs_write (b2u (pdu_lodEnableFlag pdu)) 1 bs;
         bs \<leftarrow> (if pdu_lodEnableFlag pdu then do {
             bs \<leftarrow> bs_writeUvlc (ucast (pdu_lodScaleXminus1 pdu)) bs;
             bs \<leftarrow> bs_writeUvlc (ucast (pdu_lodScaleYIdc pdu)) bs;
             Some bs
           } else Some bs);
         Some bs
       } else Some bs);
     bs \<leftarrow> (if asps_PLREnabledFlag asps then do {
         bs \<leftarrow> plrData_w asps (pdu_pointLocalReconstructionData pdu) bs;
         Some bs
       } else Some bs);
     Some bs
   }"

definition patchDataUnit_r :: "PCCAtlasHighLevelSyntax \<Rightarrow> AtlasTileHeader \<Rightarrow> PatchDataUnit \<Rightarrow> PCCBitstream \<Rightarrow> (PatchDataUnit \<times> PCCBitstream) option" where
  "patchDataUnit_r hls ath pdu bs = do {
     afps \<leftarrow> hls_getAfps hls (ath_atlasFrameParameterSetId ath);
     asps \<leftarrow> hls_getAsps hls (afps_atlasSequenceParameterSetId afps);
     (v, bs) \<leftarrow> bs_readUvlc bs;
     let pdu = pdu\<lparr>pdu_pos2dX := ucast v\<rparr>;
     (v, bs) \<leftarrow> bs_readUvlc bs;
     let pdu = pdu\<lparr>pdu_pos2dY := ucast v\<rparr>;
     (v, bs) \<leftarrow> bs_readUvlc bs;
     let pdu = pdu\<lparr>pdu_size2dXMinus1 := ucast v\<rparr>;
     (v, bs) \<leftarrow> bs_readUvlc bs;
     let pdu = pdu\<lparr>pdu_size2dYMinus1 := ucast v\<rparr>;
     (v, bs) \<leftarrow> bs_read (bitCountUV asps) bs;
     let pdu = pdu\<lparr>pdu_pos3dOffsetU := ucast v\<rparr>;
     (v, bs) \<leftarrow> bs_read (bitCountUV asps) bs;
     let pdu = pdu\<lparr>pdu_pos3dOffsetV := ucast v\<rparr>;
     (v, bs) \<leftarrow> bs_read (bitCountD asps ath) bs;
     let pdu = pdu\<lparr>pdu_pos3dOffsetD := ucast v\<rparr>;
     (pdu, bs) \<leftarrow> (if asps_normalAxisMaxDeltaValueEnabledFlag asps then do {
         (v, bs) \<leftarrow> bs_read (bitCountForMaxDepth asps ath) bs;
         let pdu = pdu\<lparr>pdu_pos3dRangeD := ucast v\<rparr>;
         Some (pdu, bs)
       } else do {
         let pdu = pdu\<lparr>pdu_pos3dRangeD := 0\<rparr>;
         Some (pdu, bs)
       });
     (v, bs) \<leftarrow> bs_read (projectionBits asps) bs;
     let pdu = pdu\<lparr>pdu_projectionId := ucast v\<rparr>;
     (v, bs) \<leftarrow> bs_read (orientationBits asps) bs;
     let pdu = pdu\<lparr>pdu_orientationIndex := ucast v\<rparr>;
     (pdu, bs) \<leftarrow> (if afps_lodModeEnableFlag afps then do {
         (v, bs) \<leftarrow> bs_read 1 bs;
         let pdu = pdu\<lparr>pdu_lodEnableFlag := v \<noteq> 0\<rparr>;
         (pdu, bs) \<leftarrow> (if pdu_lodEnableFlag pdu then do {
             (v, bs) \<leftarrow> bs_readUvlc bs;
             let pdu = pdu\<lparr>pdu_lodScaleXminus1 := ucast v\<rparr>;
             (v, bs) \<leftarrow> bs_readUvlc bs;
             let pdu = pdu\<lparr>pdu_lodScaleYIdc := ucast v\<rparr>;
             Some (pdu, bs)
           } else Some (pdu, bs));
         Some (pdu, bs)
       } else do {
         let pdu = pdu\<lparr>pdu_lodEnableFlag := False, pdu_lodScaleXminus1 := 0, pdu_lodScaleYIdc := 0\<rparr>;
         Some (pdu, bs)
       });
     (pdu, bs) \<leftarrow> (if asps_PLREnabledFlag asps then do {
         let plrd = plrd_allocate (pdu_size2dXMinus1 pdu + 1) (pdu_size2dYMinus1 pdu + 1) (pdu_pointLocalReconstructionData pdu);
         let pdu = pdu\<lparr>pdu_pointLocalReconstructionData := plrd\<rparr>;
         (sub, bs) \<leftarrow> plrData_r asps (pdu_pointLocalReconstructionData pdu) bs;
         let pdu = pdu\<lparr>pdu_pointLocalReconstructionData := sub\<rparr>;
         Some (pdu, bs)
       } else Some (pdu, bs));
     Some (pdu, bs)
   }"

section \<open>Merge patch data unit\<close>

text \<open>The writer codes the reconstruction data only for the override of the 2D parameters: its variable
  \<open>overridePlrFlag\<close> is not set in the other branch.\<close>

definition mergePatchDataUnit_w :: "PCCAtlasHighLevelSyntax \<Rightarrow> AtlasTileHeader \<Rightarrow> MergePatchDataUnit \<Rightarrow> PCCBitstream \<Rightarrow> PCCBitstream option" where
  "mergePatchDataUnit_w hls ath mpdu bs = do {
     afps \<leftarrow> hls_getAfps hls (ath_atlasFrameParameterSetId ath);
     asps \<leftarrow> hls_getAsps hls (afps_atlasSequenceParameterSetId afps);
     numRefIdxActive \<leftarrow> hls_getNumRefIdxActive hls ath;
     bs \<leftarrow> (if 1 < numRefIdxActive then do {
         bs \<leftarrow> bs_writeUvlc (word_of_int (mpdu_refIndex mpdu)) bs;
         Some bs
       } else Some bs);
     bs \<leftarrow> bs_write (b2u (mpdu_override2dParamsFlag mpdu)) 1 bs;
     bs \<leftarrow> (if mpdu_override2dParamsFlag mpdu then do {
         bs \<leftarrow> bs_writeSvlc (to_int32 (mpdu_pos2dX mpdu)) bs;
         bs \<leftarrow> bs_writeSvlc (to_int32 (mpdu_pos2dY mpdu)) bs;
         bs \<leftarrow> bs_writeSvlc (to_int32 (mpdu_delta2dSizeX mpdu)) bs;
         bs \<leftarrow> bs_writeSvlc (to_int32 (mpdu_delta2dSizeY mpdu)) bs;
         Some bs
       } else do {
         bs \<leftarrow> bs_write (b2u (mpdu_override3dParamsFlag mpdu)) 1 bs;
         bs \<leftarrow> (if mpdu_override3dParamsFlag mpdu then do {
             bs \<leftarrow> bs_writeSvlc (to_int32 (mpdu_pos3dOffsetU mpdu)) bs;
             bs \<leftarrow> bs_writeSvlc (to_int32 (mpdu_pos3dOffsetV mpdu)) bs;
             bs \<leftarrow> bs_writeSvlc (to_int32 (mpdu_pos3dOffsetD mpdu)) bs;
             bs \<leftarrow> (if asps_normalAxisMaxDeltaValueEnabledFlag asps then do {
                 bs \<leftarrow> bs_writeSvlc (to_int32 (mpdu_pos3dRangeD mpdu)) bs;
                 Some bs
               } else Some bs);
             bs \<leftarrow> (if asps_PLREnabledFlag asps then do {
                 bs \<leftarrow> bs_write (b2u (mpdu_overridePlrFlag mpdu)) 1 bs;
                 Some bs
               } else Some bs);
             Some bs
           } else Some bs);
         Some bs
       });
     bs \<leftarrow> (if mpdu_override2dParamsFlag mpdu \<and> asps_PLREnabledFlag asps then do {
         bs \<leftarrow> plrData_w asps (mpdu_plrData mpdu) bs;
         Some bs
       } else Some bs);
     Some bs
   }"

text \<open>The reader returns the local variable \<open>overridePlrFlag\<close> with the unit from the two branches.\<close>

definition mergePatchDataUnit_r :: "PCCAtlasHighLevelSyntax \<Rightarrow> AtlasTileHeader \<Rightarrow> ReaderState \<Rightarrow> MergePatchDataUnit \<Rightarrow> PCCBitstream \<Rightarrow> ((MergePatchDataUnit \<times> ReaderState) \<times> PCCBitstream) option" where
  "mergePatchDataUnit_r hls ath rst mpdu bs = do {
     afps \<leftarrow> hls_getAfps hls (ath_atlasFrameParameterSetId ath);
     asps \<leftarrow> hls_getAsps hls (afps_atlasSequenceParameterSetId afps);
     numRefIdxActive \<leftarrow> hls_getNumRefIdxActive hls ath;
     (mpdu, bs) \<leftarrow> (if 1 < numRefIdxActive then do {
         (v, bs) \<leftarrow> bs_readUvlc bs;
         let mpdu = mpdu\<lparr>mpdu_refIndex := uint v\<rparr>;
         Some (mpdu, bs)
       } else do {
         let mpdu = mpdu\<lparr>mpdu_refIndex := 0\<rparr>;
         Some (mpdu, bs)
       });
     (v, bs) \<leftarrow> bs_read 1 bs;
     let mpdu = mpdu\<lparr>mpdu_override2dParamsFlag := v \<noteq> 0\<rparr>;
     ((mpdu, overridePlrFlag), bs) \<leftarrow> (if mpdu_override2dParamsFlag mpdu then do {
         (v, bs) \<leftarrow> bs_readSvlc bs;
         let mpdu = mpdu\<lparr>mpdu_pos2dX := v\<rparr>;
         (v, bs) \<leftarrow> bs_readSvlc bs;
         let mpdu = mpdu\<lparr>mpdu_pos2dY := v\<rparr>;
         (v, bs) \<leftarrow> bs_readSvlc bs;
         let mpdu = mpdu\<lparr>mpdu_delta2dSizeX := v\<rparr>;
         (v, bs) \<leftarrow> bs_readSvlc bs;
         let mpdu = mpdu\<lparr>mpdu_delta2dSizeY := v\<rparr>;
         Some ((mpdu, asps_PLREnabledFlag asps), bs)
       } else do {
         (v, bs) \<leftarrow> bs_read 1 bs;
         let mpdu = mpdu\<lparr>mpdu_override3dParamsFlag := v \<noteq> 0\<rparr>;
         ((mpdu, overridePlrFlag), bs) \<leftarrow> (if mpdu_override3dParamsFlag mpdu then do {
             (v, bs) \<leftarrow> bs_readSvlc bs;
             let mpdu = mpdu\<lparr>mpdu_pos3dOffsetU := v\<rparr>;
             (v, bs) \<leftarrow> bs_readSvlc bs;
             let mpdu = mpdu\<lparr>mpdu_pos3dOffsetV := v\<rparr>;
             (v, bs) \<leftarrow> bs_readSvlc bs;
             let mpdu = mpdu\<lparr>mpdu_pos3dOffsetD := v\<rparr>;
             (mpdu, bs) \<leftarrow> (if asps_normalAxisMaxDeltaValueEnabledFlag asps then do {
                 (v, bs) \<leftarrow> bs_readSvlc bs;
                 let mpdu = mpdu\<lparr>mpdu_pos3dRangeD := v\<rparr>;
                 Some (mpdu, bs)
               } else do {
                 let mpdu = mpdu\<lparr>mpdu_pos3dRangeD := 0\<rparr>;
                 Some (mpdu, bs)
               });
             ((mpdu, overridePlrFlag), bs) \<leftarrow> (if asps_PLREnabledFlag asps then do {
                 (v, bs) \<leftarrow> bs_read 1 bs;
                 let mpdu = mpdu\<lparr>mpdu_overridePlrFlag := v \<noteq> 0\<rparr>;
                 Some ((mpdu, v \<noteq> 0), bs)
               } else Some ((mpdu, False), bs));
             Some ((mpdu, overridePlrFlag), bs)
           } else Some ((mpdu, False), bs));
         Some ((mpdu, overridePlrFlag), bs)
       });
     ((mpdu, rst), bs) \<leftarrow> (if overridePlrFlag \<and> asps_PLREnabledFlag asps then do {
         let plrd = plrd_allocate (word_of_int (rst_prevPatchSizeU rst + mpdu_delta2dSizeX mpdu))
           (word_of_int (rst_prevPatchSizeV rst + mpdu_delta2dSizeY mpdu)) (mpdu_plrData mpdu);
         (plrd, bs) \<leftarrow> plrData_r asps plrd bs;
         let mpdu = mpdu\<lparr>mpdu_plrData := plrd\<rparr>;
         let rst = rst\<lparr>rst_prevPatchSizeU := to_int32 (rst_prevPatchSizeU rst + mpdu_delta2dSizeX mpdu),
           rst_prevPatchSizeV := to_int32 (rst_prevPatchSizeV rst + mpdu_delta2dSizeY mpdu)\<rparr>;
         Some ((mpdu, rst), bs)
       } else Some ((mpdu, rst), bs));
     Some ((mpdu, rst), bs)
   }"

section \<open>Inter patch data unit\<close>

definition interPatchDataUnit_w :: "PCCAtlasHighLevelSyntax \<Rightarrow> AtlasTileHeader \<Rightarrow> InterPatchDataUnit \<Rightarrow> PCCBitstream \<Rightarrow> PCCBitstream option" where
  "interPatchDataUnit_w hls ath ipdu bs = do {
     afps \<leftarrow> hls_getAfps hls (ath_atlasFrameParameterSetId ath);
     asps \<leftarrow> hls_getAsps hls (afps_atlasSequenceParameterSetId afps);
     numRefIdxActive \<leftarrow> hls_getNumRefIdxActive hls ath;
     bs \<leftarrow> (if 1 < numRefIdxActive then do {
         bs \<leftarrow> bs_writeUvlc (word_of_int (to_int32 (ipdu_refIndex ipdu))) bs;
         Some bs
       } else Some bs);
     bs \<leftarrow> bs_writeSvlc (to_int32 (ipdu_refPatchIndex ipdu)) bs;
     bs \<leftarrow> bs_writeSvlc (to_int32 (ipdu_pos2dX ipdu)) bs;
     bs \<leftarrow> bs_writeSvlc (to_int32 (ipdu_pos2dY ipdu)) bs;
     bs \<leftarrow> bs_writeSvlc (to_int32 (ipdu_delta2dSizeX ipdu)) bs;
     bs \<leftarrow> bs_writeSvlc (to_int32 (ipdu_delta2dSizeY ipdu)) bs;
     bs \<leftarrow> bs_writeSvlc (to_int32 (ipdu_pos3dOffsetU ipdu)) bs;
     bs \<leftarrow> bs_writeSvlc (to_int32 (ipdu_pos3dOffsetV ipdu)) bs;
     bs \<leftarrow> bs_writeSvlc (to_int32 (ipdu_pos3dOffsetD ipdu)) bs;
     bs \<leftarrow> (if asps_normalAxisMaxDeltaValueEnabledFlag asps then do {
         bs \<leftarrow> bs_writeSvlc (to_int32 (ipdu_pos3dRangeD ipdu)) bs;
         Some bs
       } else Some bs);
     bs \<leftarrow> (if asps_PLREnabledFlag asps then do {
         bs \<leftarrow> plrData_w asps (ipdu_pointLocalReconstructionData ipdu) bs;
         Some bs
       } else Some bs);
     Some bs
   }"

text \<open>The size of the reference patch, by the kind of its tile and its mode.\<close>

definition refPatch_plrd :: "AtlasTileLayerRbsp \<Rightarrow> PatchInformationData \<Rightarrow> PLRData option" where
  "refPatch_plrd atglPrev pidPrev = (let mode = pid_patchMode pidPrev in
     if ath_type (atgl_header atglPrev) = P_TILE then
       (if mode = P_MERGE then Some (mpdu_plrData (pid_mergePatchDataUnit pidPrev))
        else if mode = P_INTER then Some (ipdu_pointLocalReconstructionData (pid_interPatchDataUnit pidPrev))
        else if mode = P_INTRA then Some (pdu_pointLocalReconstructionData (pid_patchDataUnit pidPrev))
        else None)
     else if ath_type (atgl_header atglPrev) = I_TILE then
       (if mode = I_INTRA then Some (pdu_pointLocalReconstructionData (pid_patchDataUnit pidPrev)) else None)
     else None)"

definition interPatch_size :: "PCCAtlasHighLevelSyntax \<Rightarrow> ReaderState \<Rightarrow> InterPatchDataUnit \<Rightarrow> (int \<times> int) option" where
  "interPatch_size hls rst ipdu = do {
     atglPrev \<leftarrow> vec_at (hls_atlasTileLayer hls) (unat (word_of_int (rst_prevFrameIndex rst) :: size_t));
     pidPrev \<leftarrow> vec_at (atdu_patchInformationData (atgl_dataUnit atglPrev))
       (unat (word_of_int (ipdu_refPatchIndex ipdu + rst_predPatchIndex rst) :: size_t));
     let sizeU = to_int32 (ipdu_delta2dSizeX ipdu);
     let sizeV = to_int32 (ipdu_delta2dSizeY ipdu);
     Some (case refPatch_plrd atglPrev pidPrev of
         Some plrdPrev \<Rightarrow> (to_int32 (sizeU + uint (plrd_blockToPatchMapWidth plrdPrev)),
                           to_int32 (sizeV + uint (plrd_blockToPatchMapHeight plrdPrev)))
       | None \<Rightarrow> (sizeU, sizeV))
   }"

definition interPatchDataUnit_r :: "PCCAtlasHighLevelSyntax \<Rightarrow> AtlasTileHeader \<Rightarrow> ReaderState \<Rightarrow> InterPatchDataUnit \<Rightarrow> PCCBitstream \<Rightarrow> ((InterPatchDataUnit \<times> ReaderState) \<times> PCCBitstream) option" where
  "interPatchDataUnit_r hls ath rst ipdu bs = do {
     afps \<leftarrow> hls_getAfps hls (ath_atlasFrameParameterSetId ath);
     asps \<leftarrow> hls_getAsps hls (afps_atlasSequenceParameterSetId afps);
     numRefIdxActive \<leftarrow> hls_getNumRefIdxActive hls ath;
     (ipdu, bs) \<leftarrow> (if 1 < numRefIdxActive then do {
         (v, bs) \<leftarrow> bs_readUvlc bs;
         let ipdu = ipdu\<lparr>ipdu_refIndex := uint v\<rparr>;
         Some (ipdu, bs)
       } else do {
         let ipdu = ipdu\<lparr>ipdu_refIndex := 0\<rparr>;
         Some (ipdu, bs)
       });
     (v, bs) \<leftarrow> bs_readSvlc bs;
     let ipdu = ipdu\<lparr>ipdu_refPatchIndex := v\<rparr>;
     (v, bs) \<leftarrow> bs_readSvlc bs;
     let ipdu = ipdu\<lparr>ipdu_pos2dX := v\<rparr>;
     (v, bs) \<leftarrow> bs_readSvlc bs;
     let ipdu = ipdu\<lparr>ipdu_pos2dY := v\<rparr>;
     (v, bs) \<leftarrow> bs_readSvlc bs;
     let ipdu = ipdu\<lparr>ipdu_delta2dSizeX := v\<rparr>;
     (v, bs) \<leftarrow> bs_readSvlc bs;
     let ipdu = ipdu\<lparr>ipdu_delta2dSizeY := v\<rparr>;
     (v, bs) \<leftarrow> bs_readSvlc bs;
     let ipdu = ipdu\<lparr>ipdu_pos3dOffsetU := v\<rparr>;
     (v, bs) \<leftarrow> bs_readSvlc bs;
     let ipdu = ipdu\<lparr>ipdu_pos3dOffsetV := v\<rparr>;
     (v, bs) \<leftarrow> bs_readSvlc bs;
     let ipdu = ipdu\<lparr>ipdu_pos3dOffsetD := v\<rparr>;
     (ipdu, bs) \<leftarrow> (if asps_normalAxisMaxDeltaValueEnabledFlag asps then do {
         (v, bs) \<leftarrow> bs_readSvlc bs;
         let ipdu = ipdu\<lparr>ipdu_pos3dRangeD := v\<rparr>;
         Some (ipdu, bs)
       } else do {
         let ipdu = ipdu\<lparr>ipdu_pos3dRangeD := 0\<rparr>;
         Some (ipdu, bs)
       });
     ((ipdu, rst), bs) \<leftarrow> (if asps_PLREnabledFlag asps then do {
         s \<leftarrow> interPatch_size hls rst ipdu;
         let plrd = plrd_allocate (word_of_int (fst s)) (word_of_int (snd s)) (ipdu_pointLocalReconstructionData ipdu);
         (plrd, bs) \<leftarrow> plrData_r asps plrd bs;
         let ipdu = ipdu\<lparr>ipdu_pointLocalReconstructionData := plrd\<rparr>;
         let rst = rst\<lparr>rst_prevPatchSizeU := fst s, rst_prevPatchSizeV := snd s,
           rst_predPatchIndex := to_int32 (rst_predPatchIndex rst + ipdu_refPatchIndex ipdu + 1)\<rparr>;
         Some ((ipdu, rst), bs)
       } else Some ((ipdu, rst), bs));
     Some ((ipdu, rst), bs)
   }"

section \<open>Raw and EOM patch data units\<close>

text \<open>Both look up the height of the auxiliary video of the tile; the vector of the heights is read as
  0 when it is empty. \<open>ath.getRaw3dOffsetAxisBitCountMinus1() + 1\<close> is passed as a \<open>uint8_t\<close>.\<close>

definition auxiliaryHeight :: "PCCAtlasHighLevelSyntax \<Rightarrow> AtlasTileHeader \<Rightarrow> uint32_t option" where
  "auxiliaryHeight hls ath = do {
     afps \<leftarrow> hls_getAfps hls (ath_atlasFrameParameterSetId ath);
     let afti = afps_atlasFrameTileInformation afps;
     tileIdToIndex \<leftarrow> vec_at (afti_tileId afti) (unat (ath_id ath));
     (if afti_auxiliaryVideoTileRowHeight afti = [] then Some 0
      else vec_at (afti_auxiliaryVideoTileRowHeight afti) (unat tileIdToIndex))
   }"

definition rawBits :: "AtlasTileHeader \<Rightarrow> nat" where
  "rawBits ath = unat (ath_raw3dOffsetAxisBitCountMinus1 ath + 1)"

definition rawPatchDataUnit_w :: "PCCAtlasHighLevelSyntax \<Rightarrow> AtlasTileHeader \<Rightarrow> RawPatchDataUnit \<Rightarrow> PCCBitstream \<Rightarrow> PCCBitstream option" where
  "rawPatchDataUnit_w hls ath rpdu bs = do {
     height \<leftarrow> auxiliaryHeight hls ath;
     bs \<leftarrow> (if height \<noteq> 0 then do {
         bs \<leftarrow> bs_write (b2u (rpdu_patchInAuxiliaryVideoFlag rpdu)) 1 bs;
         Some bs
       } else Some bs);
     bs \<leftarrow> bs_writeUvlc (ucast (rpdu_pos2dX rpdu)) bs;
     bs \<leftarrow> bs_writeUvlc (ucast (rpdu_pos2dY rpdu)) bs;
     bs \<leftarrow> bs_writeUvlc (ucast (rpdu_size2dXMinus1 rpdu)) bs;
     bs \<leftarrow> bs_writeUvlc (ucast (rpdu_size2dYMinus1 rpdu)) bs;
     bs \<leftarrow> bs_write (ucast (rpdu_pos3dOffsetU rpdu)) (rawBits ath) bs;
     bs \<leftarrow> bs_write (ucast (rpdu_pos3dOffsetV rpdu)) (rawBits ath) bs;
     bs \<leftarrow> bs_write (ucast (rpdu_pos3dOffsetD rpdu)) (rawBits ath) bs;
     bs \<leftarrow> bs_writeUvlc (rpdu_rawPointsMinus1 rpdu) bs;
     Some bs
   }"

definition rawPatchDataUnit_r :: "PCCAtlasHighLevelSyntax \<Rightarrow> AtlasTileHeader \<Rightarrow> RawPatchDataUnit \<Rightarrow> PCCBitstream \<Rightarrow> (RawPatchDataUnit \<times> PCCBitstream) option" where
  "rawPatchDataUnit_r hls ath rpdu bs = do {
     height \<leftarrow> auxiliaryHeight hls ath;
     (rpdu, bs) \<leftarrow> (if height \<noteq> 0 then do {
         (v, bs) \<leftarrow> bs_read 1 bs;
         let rpdu = rpdu\<lparr>rpdu_patchInAuxiliaryVideoFlag := v \<noteq> 0\<rparr>;
         Some (rpdu, bs)
       } else do {
         let rpdu = rpdu\<lparr>rpdu_patchInAuxiliaryVideoFlag := False\<rparr>;
         Some (rpdu, bs)
       });
     (v, bs) \<leftarrow> bs_readUvlc bs;
     let rpdu = rpdu\<lparr>rpdu_pos2dX := ucast v\<rparr>;
     (v, bs) \<leftarrow> bs_readUvlc bs;
     let rpdu = rpdu\<lparr>rpdu_pos2dY := ucast v\<rparr>;
     (v, bs) \<leftarrow> bs_readUvlc bs;
     let rpdu = rpdu\<lparr>rpdu_size2dXMinus1 := ucast v\<rparr>;
     (v, bs) \<leftarrow> bs_readUvlc bs;
     let rpdu = rpdu\<lparr>rpdu_size2dYMinus1 := ucast v\<rparr>;
     (v, bs) \<leftarrow> bs_read (rawBits ath) bs;
     let rpdu = rpdu\<lparr>rpdu_pos3dOffsetU := ucast v\<rparr>;
     (v, bs) \<leftarrow> bs_read (rawBits ath) bs;
     let rpdu = rpdu\<lparr>rpdu_pos3dOffsetV := ucast v\<rparr>;
     (v, bs) \<leftarrow> bs_read (rawBits ath) bs;
     let rpdu = rpdu\<lparr>rpdu_pos3dOffsetD := ucast v\<rparr>;
     (v, bs) \<leftarrow> bs_readUvlc bs;
     let rpdu = rpdu\<lparr>rpdu_rawPointsMinus1 := v\<rparr>;
     Some (rpdu, bs)
   }"

definition epdu_entry_w :: "EOMPatchDataUnit \<Rightarrow> nat \<Rightarrow> PCCBitstream \<Rightarrow> PCCBitstream option" where
  "epdu_entry_w epdu i bs = do {
     v \<leftarrow> vec_at (epdu_associatedPatchesIdx epdu) i;
     bs \<leftarrow> bs_writeUvlc (ucast v) bs;
     v \<leftarrow> vec_at (epdu_points epdu) i;
     bs \<leftarrow> bs_writeUvlc (ucast v) bs;
     Some bs
   }"

definition epdu_entry_r :: "nat \<Rightarrow> EOMPatchDataUnit \<Rightarrow> PCCBitstream \<Rightarrow> (EOMPatchDataUnit \<times> PCCBitstream) option" where
  "epdu_entry_r i epdu bs = do {
     (v, bs) \<leftarrow> bs_readUvlc bs;
     l \<leftarrow> vec_set (epdu_associatedPatchesIdx epdu) i (ucast v);
     let epdu = epdu\<lparr>epdu_associatedPatchesIdx := l\<rparr>;
     (v, bs) \<leftarrow> bs_readUvlc bs;
     l \<leftarrow> vec_set (epdu_points epdu) i (ucast v);
     let epdu = epdu\<lparr>epdu_points := l\<rparr>;
     Some (epdu, bs)
   }"

definition eomPatchDataUnit_w :: "PCCAtlasHighLevelSyntax \<Rightarrow> AtlasTileHeader \<Rightarrow> EOMPatchDataUnit \<Rightarrow> PCCBitstream \<Rightarrow> PCCBitstream option" where
  "eomPatchDataUnit_w hls ath epdu bs = do {
     height \<leftarrow> auxiliaryHeight hls ath;
     bs \<leftarrow> (if height \<noteq> 0 then do {
         bs \<leftarrow> bs_write (b2u (epdu_patchInAuxiliaryVideoFlag epdu)) 1 bs;
         Some bs
       } else Some bs);
     bs \<leftarrow> bs_writeUvlc (ucast (epdu_pos2dX epdu)) bs;
     bs \<leftarrow> bs_writeUvlc (ucast (epdu_pos2dY epdu)) bs;
     bs \<leftarrow> bs_writeUvlc (ucast (epdu_size2dXMinus1 epdu)) bs;
     bs \<leftarrow> bs_writeUvlc (ucast (epdu_size2dYMinus1 epdu)) bs;
     bs \<leftarrow> bs_writeUvlc (ucast (epdu_patchCountMinus1 epdu)) bs;
     bs \<leftarrow> for_loop [0..<unat (epdu_patchCountMinus1 epdu + 1)] (epdu_entry_w epdu) bs;
     Some bs
   }"

definition eomPatchDataUnit_r :: "PCCAtlasHighLevelSyntax \<Rightarrow> AtlasTileHeader \<Rightarrow> EOMPatchDataUnit \<Rightarrow> PCCBitstream \<Rightarrow> (EOMPatchDataUnit \<times> PCCBitstream) option" where
  "eomPatchDataUnit_r hls ath epdu bs = do {
     height \<leftarrow> auxiliaryHeight hls ath;
     (epdu, bs) \<leftarrow> (if height \<noteq> 0 then do {
         (v, bs) \<leftarrow> bs_read 1 bs;
         let epdu = epdu\<lparr>epdu_patchInAuxiliaryVideoFlag := v \<noteq> 0\<rparr>;
         Some (epdu, bs)
       } else do {
         let epdu = epdu\<lparr>epdu_patchInAuxiliaryVideoFlag := False\<rparr>;
         Some (epdu, bs)
       });
     (v, bs) \<leftarrow> bs_readUvlc bs;
     let epdu = epdu\<lparr>epdu_pos2dX := ucast v\<rparr>;
     (v, bs) \<leftarrow> bs_readUvlc bs;
     let epdu = epdu\<lparr>epdu_pos2dY := ucast v\<rparr>;
     (v, bs) \<leftarrow> bs_readUvlc bs;
     let epdu = epdu\<lparr>epdu_size2dXMinus1 := ucast v\<rparr>;
     (v, bs) \<leftarrow> bs_readUvlc bs;
     let epdu = epdu\<lparr>epdu_size2dYMinus1 := ucast v\<rparr>;
     (v, bs) \<leftarrow> bs_readUvlc bs;
     let epdu = epdu_setPatchCountMinus1 v epdu;
     (epdu, bs) \<leftarrow> for_loop [0..<unat (epdu_patchCountMinus1 epdu + 1)] (\<lambda>i (epdu, bs). epdu_entry_r i epdu bs) (epdu, bs);
     Some (epdu, bs)
   }"

section \<open>Round trip of the reconstruction data\<close>

text \<open>The same data is coded for every map that has it enabled, so the reader overwrites what it has read
  before. \<open>plrd_ready x s\<close> says that reading \<open>x\<close> into \<open>s\<close> gives \<open>x\<close>.\<close>

definition plrd_map_wf :: "PLRInformation \<Rightarrow> PLRData \<Rightarrow> bool" where
  "plrd_map_wf plri x \<longleftrightarrow> plri_mapEnabledFlag plri \<longrightarrow>
     (\<not> unat (plri_blockThresholdPerPatchMinus1 plri) + 1 < plrd_blockCount x \<longrightarrow> plrd_levelFlag x)
     \<and> plri_bitCountMode plri \<le> 32
     \<and> (plrd_levelFlag x \<longrightarrow> plrd_presentFlag x \<longrightarrow> unat (plrd_modeMinus1 x) < 2 ^ plri_bitCountMode plri)
     \<and> (\<not> plrd_levelFlag x \<longrightarrow> (\<forall>i < plrd_blockCount x. plrd_blockPresentFlag x ! i \<longrightarrow>
          unat (plrd_blockModeMinus1 x ! i) < 2 ^ plri_bitCountMode plri))"

definition plrd_shape :: "PLRData \<Rightarrow> bool" where
  "plrd_shape x \<longleftrightarrow> length (plrd_blockPresentFlag x) = plrd_blockCount x \<and> length (plrd_blockModeMinus1 x) = plrd_blockCount x
     \<and> (if plrd_levelFlag x then (\<forall>i < plrd_blockCount x. \<not> plrd_blockPresentFlag x ! i \<and> plrd_blockModeMinus1 x ! i = 0)
          \<and> (\<not> plrd_presentFlag x \<longrightarrow> plrd_modeMinus1 x = 0)
        else \<not> plrd_presentFlag x \<and> plrd_modeMinus1 x = 0
          \<and> (\<forall>i < plrd_blockCount x. \<not> plrd_blockPresentFlag x ! i \<longrightarrow> plrd_blockModeMinus1 x ! i = 0))"

definition plrd_wf :: "AtlasSequenceParameterSetRbsp \<Rightarrow> PLRData \<Rightarrow> bool" where
  "plrd_wf asps x \<longleftrightarrow> (let n = unat (asps_mapCountMinus1 asps) + 1 in
     n \<le> length (asps_plrInformation asps) \<and> plrd_shape x
     \<and> (\<forall>i < n. plrd_map_wf (asps_plrInformation asps ! i) x)
     \<and> ((\<forall>i < n. \<not> plri_mapEnabledFlag (asps_plrInformation asps ! i)) \<longrightarrow>
          x = plrd_allocate (plrd_blockToPatchMapWidth x) (plrd_blockToPatchMapHeight x) plrd_new))"

definition plrd_ready :: "PLRData \<Rightarrow> PLRData \<Rightarrow> bool" where
  "plrd_ready x s \<longleftrightarrow> plrd_blockToPatchMapWidth s = plrd_blockToPatchMapWidth x
     \<and> plrd_blockToPatchMapHeight s = plrd_blockToPatchMapHeight x
     \<and> length (plrd_blockPresentFlag s) = plrd_blockCount x \<and> length (plrd_blockModeMinus1 s) = plrd_blockCount x
     \<and> (plrd_levelFlag x \<longrightarrow> plrd_blockPresentFlag s = plrd_blockPresentFlag x \<and> plrd_blockModeMinus1 s = plrd_blockModeMinus1 x
          \<and> (\<not> plrd_presentFlag x \<longrightarrow> plrd_modeMinus1 s = plrd_modeMinus1 x))
     \<and> (\<not> plrd_levelFlag x \<longrightarrow> plrd_presentFlag s = plrd_presentFlag x \<and> plrd_modeMinus1 s = plrd_modeMinus1 x
          \<and> (\<forall>i < plrd_blockCount x. \<not> plrd_blockPresentFlag x ! i \<longrightarrow> plrd_blockModeMinus1 s ! i = plrd_blockModeMinus1 x ! i))"

lemma plrd_ready_self: "plrd_shape x \<Longrightarrow> plrd_ready x x"
  by (simp add: plrd_ready_def plrd_shape_def)

lemma plrd_ready_fresh:
  assumes "plrd_shape x"
  shows "plrd_ready x (plrd_allocate (plrd_blockToPatchMapWidth x) (plrd_blockToPatchMapHeight x) plrd_new)"
proof -
  have "replicate (plrd_blockCount x) False = plrd_blockPresentFlag x" "replicate (plrd_blockCount x) 0 = plrd_blockModeMinus1 x"
    if "plrd_levelFlag x"
    using assms that by (simp_all add: plrd_shape_def list_eq_iff_nth_eq)
  then show ?thesis using assms
    by (simp add: plrd_ready_def plrd_shape_def plrd_allocate_def plrd_new_def plrd_blockCount_def)
qed

lemma plrd_blocks_codes:
  assumes "n = plrd_blockCount x" and "n' = n" and "length (plrd_blockPresentFlag x) = n" "length (plrd_blockModeMinus1 x) = n"
    and "length (plrd_blockPresentFlag s) = n" "length (plrd_blockModeMinus1 s) = n" and "bits \<le> 32"
    and "\<forall>i < n. plrd_blockPresentFlag x ! i \<longrightarrow> unat (plrd_blockModeMinus1 x ! i) < 2 ^ bits"
    and "\<forall>i < n. \<not> plrd_blockPresentFlag x ! i \<longrightarrow> plrd_blockModeMinus1 s ! i = plrd_blockModeMinus1 x ! i"
  shows "codes (for_loop [0..<n] (plrd_block_w bits x)) (\<lambda>bs. for_loop [0..<n'] (\<lambda>i (plrd, bs). plrd_block_r bits i plrd bs) (s, bs))
     (s\<lparr>plrd_blockPresentFlag := plrd_blockPresentFlag x, plrd_blockModeMinus1 := plrd_blockModeMinus1 x\<rparr>)"
proof -
  define S where "S = (\<lambda>k. s\<lparr>plrd_blockPresentFlag := filled k (plrd_blockPresentFlag x) (plrd_blockPresentFlag s),
     plrd_blockModeMinus1 := filled k (plrd_blockModeMinus1 x) (plrd_blockModeMinus1 s)\<rparr>)"
  have S0: "s = S 0" by (simp add: S_def)
  have step: "codes (plrd_block_w bits x k) (plrd_block_r bits k (S k)) (S (Suc k))" if k: "k < n" for k
  proof -
    have k': "k \<le> n" "Suc k \<le> n" using k by simp_all
    show ?thesis
      unfolding plrd_block_w_def [abs_def] plrd_block_r_def [abs_def]
      by ((rule codes_split codec_intro refl PLRData.equality | (simp add: assms(3-9) k k' S_def filled_skip; fail))+)
  qed
  have "codes (for_loop [0..<n] (plrd_block_w bits x)) (\<lambda>bs. for_loop [0..<n'] (\<lambda>i (plrd, bs). plrd_block_r bits i plrd bs) (s, bs)) (S n)"
    using assms(2) S0 step by (intro codes_for [where y = S])
  then show ?thesis using assms(3-6) by (simp add: S_def)
qed

lemma codes_r_else: "\<not> c \<Longrightarrow> codes W R2 y \<Longrightarrow> codes W (\<lambda>bs. if c then R1 bs else R2 bs) y"
  by simp

lemma plrd_map_codes:
  assumes "i < length (asps_plrInformation asps)" and "plri_mapEnabledFlag (asps_plrInformation asps ! i)"
    and wf: "plrd_map_wf (asps_plrInformation asps ! i) x" and "plrd_shape x" and "plrd_ready x s"
  shows "codes (plrd_map_w asps x i) (plrd_map_r asps i s) x"
proof -
  note shape = assms(4) [unfolded plrd_shape_def] and ready = assms(5) [unfolded plrd_ready_def]
  have count: "plrd_blockCount (s\<lparr>plrd_levelFlag := l\<rparr>) = plrd_blockCount x" "plrd_blockCount s = plrd_blockCount x" for l
    using ready by (simp_all add: plrd_blockCount_def)
  note facts = assms(1,2) wf [unfolded plrd_map_wf_def] shape ready count
  show ?thesis
  proof (cases "plrd_levelFlag x")
    case True
    show ?thesis
      unfolding plrd_map_w_def [abs_def] plrd_map_r_def [abs_def] True not_True_eq_False if_False
      by ((rule codes_same codes_r_else codec_intro refl PLRData.equality
          | (simp (no_asm) add: facts True; fail) | (simp add: facts True; fail))+)
  next
    case False
    have thr: "unat (plri_blockThresholdPerPatchMinus1 (asps_plrInformation asps ! i)) + 1 < plrd_blockCount x"
      using wf assms(2) False by (auto simp: plrd_map_wf_def)
    note thr = thr thr [simplified]
    show ?thesis
      unfolding plrd_map_w_def [abs_def] plrd_map_r_def [abs_def] False [THEN eq_False [THEN iffD2]] not_False_eq_True if_True
      by ((rule codes_same codes_r_if plrd_blocks_codes codec_intro refl PLRData.equality
          | (simp (no_asm) add: facts False thr; fail) | (simp add: facts False thr; fail))+)
  qed
qed

lemma plrData_codes [codec_intro]:
  assumes wf: "plrd_wf asps x" and "y = plrd_allocate (plrd_blockToPatchMapWidth x) (plrd_blockToPatchMapHeight x) plrd_new"
  shows "codes (plrData_w asps x) (plrData_r asps y) x"
proof -
  let ?n = "unat (asps_mapCountMinus1 asps) + 1"
  let ?on = "\<lambda>i. plri_mapEnabledFlag (asps_plrInformation asps ! i)"
  define S where "S = (\<lambda>k. if \<exists>j < k. ?on j then x else y)"
  note wf' = wf [unfolded plrd_wf_def Let_def]
  have ready: "plrd_ready x (S k)" for k
    using wf' assms(2) by (simp add: S_def plrd_ready_self plrd_ready_fresh)
  have step: "codes (plrd_map_w asps x k) (plrd_map_r asps k (S k)) (S (Suc k))" if k: "k < ?n" for k
  proof (cases "?on k")
    case True
    then have "S (Suc k) = x" by (auto simp: S_def)
    moreover have "codes (plrd_map_w asps x k) (plrd_map_r asps k (S k)) x"
      by (rule plrd_map_codes) (use True ready wf' k in auto)
    ultimately show ?thesis by simp
  next
    case False
    then have "S (Suc k) = S k" by (auto simp: S_def less_Suc_eq)
    then show ?thesis using False wf' k
      unfolding plrd_map_w_def [abs_def] plrd_map_r_def [abs_def] by (simp add: codes_return)
  qed
  have S0: "y = S 0" by (simp add: S_def)
  have "S ?n = x" using wf' assms(2) by (auto simp: S_def)
  moreover have "codes (for_loop [0..<?n] (plrd_map_w asps x))
      (\<lambda>bs. for_loop [0..<?n] (\<lambda>i (plrd, bs). plrd_map_r asps i plrd bs) (y, bs)) (S ?n)"
    using S0 step by (intro codes_for [where y = S] refl)
  ultimately show ?thesis
    unfolding plrData_w_def [abs_def] plrData_r_def [abs_def] by simp
qed

section \<open>Round trips of the patch data units\<close>

text \<open>The parameter sets that a tile header refers to.\<close>

definition tile_params :: "PCCAtlasHighLevelSyntax \<Rightarrow> AtlasTileHeader \<Rightarrow> (AtlasFrameParameterSetRbsp \<times> AtlasSequenceParameterSetRbsp) option" where
  "tile_params hls ath = do {
     afps \<leftarrow> hls_getAfps hls (ath_atlasFrameParameterSetId ath);
     asps \<leftarrow> hls_getAsps hls (afps_atlasSequenceParameterSetId afps);
     Some (afps, asps)
   }"

lemma tile_params_Some:
  "tile_params hls ath = Some (afps, asps) \<longleftrightarrow>
     hls_getAfps hls (ath_atlasFrameParameterSetId ath) = Some afps \<and> hls_getAsps hls (afps_atlasSequenceParameterSetId afps) = Some asps"
  by (auto simp: tile_params_def Option.bind_eq_Some_conv)

definition pdu_wf :: "AtlasFrameParameterSetRbsp \<Rightarrow> AtlasSequenceParameterSetRbsp \<Rightarrow> AtlasTileHeader \<Rightarrow> PatchDataUnit \<Rightarrow> bool" where
  "pdu_wf afps asps ath x \<longleftrightarrow>
     unat (pdu_pos2dX x) < 2 ^ 31 - 1 \<and> unat (pdu_pos2dY x) < 2 ^ 31 - 1
     \<and> unat (pdu_size2dXMinus1 x) < 2 ^ 31 - 1 \<and> unat (pdu_size2dYMinus1 x) < 2 ^ 31 - 1
     \<and> bitCountUV asps \<le> 32 \<and> unat (pdu_pos3dOffsetU x) < 2 ^ bitCountUV asps \<and> unat (pdu_pos3dOffsetV x) < 2 ^ bitCountUV asps
     \<and> bitCountD asps ath \<le> 32 \<and> unat (pdu_pos3dOffsetD x) < 2 ^ bitCountD asps ath
     \<and> (if asps_normalAxisMaxDeltaValueEnabledFlag asps
        then bitCountForMaxDepth asps ath \<le> 32 \<and> unat (pdu_pos3dRangeD x) < 2 ^ bitCountForMaxDepth asps ath
        else pdu_pos3dRangeD x = 0)
     \<and> projectionBits asps \<le> 32 \<and> unat (pdu_projectionId x) < 2 ^ projectionBits asps
     \<and> unat (pdu_orientationIndex x) < 2 ^ orientationBits asps
     \<and> (if afps_lodModeEnableFlag afps then (\<not> pdu_lodEnableFlag x \<longrightarrow> pdu_lodScaleXminus1 x = 0 \<and> pdu_lodScaleYIdc x = 1)
        else \<not> pdu_lodEnableFlag x \<and> pdu_lodScaleXminus1 x = 0 \<and> pdu_lodScaleYIdc x = 0)
     \<and> (if asps_PLREnabledFlag asps then plrd_wf asps (pdu_pointLocalReconstructionData x)
          \<and> plrd_blockToPatchMapWidth (pdu_pointLocalReconstructionData x) = pdu_size2dXMinus1 x + 1
          \<and> plrd_blockToPatchMapHeight (pdu_pointLocalReconstructionData x) = pdu_size2dYMinus1 x + 1
        else pdu_pointLocalReconstructionData x = plrd_new)
     \<and> pdu_frameIndex x = 0"

text \<open>A 64 bit field that fits in the width it is coded with survives the conversions.\<close>

lemma size_t_width [simp]:
  fixes w :: size_t
  assumes "unat w < 2 ^ n" and "n \<le> 32"
  shows "unat (ucast w :: uint32_t) = unat w" "ucast (ucast w :: uint32_t) = w"
proof -
  have "(2::nat) ^ n \<le> 2 ^ 32" using assms(2) by (intro power_increasing) auto
  with assms(1) have "unat w < 2 ^ 32" by linarith
  then show "unat (ucast w :: uint32_t) = unat w" "ucast (ucast w :: uint32_t) = w" by (simp_all add: size_t_uint32)
qed

lemma orientationBits_le [simp]: "orientationBits asps \<le> 32"
  by (simp add: orientationBits_def)

lemma pdu_codes [codec_intro]:
  assumes params: "tile_params hls ath = Some (afps, asps)" and wf: "pdu_wf afps asps ath x"
    and y: "y = pdu_new\<lparr>pdu_tileOrder := pdu_tileOrder x, pdu_patchIndex := pdu_patchIndex x\<rparr>"
  shows "codes (patchDataUnit_w hls ath x) (patchDataUnit_r hls ath y) x"
proof -
  note facts = params [unfolded tile_params_Some] wf [unfolded pdu_wf_def if_bool_eq_conj, simplified] y
  have widths: "ucast (ucast (pdu_pos3dOffsetU x) :: uint32_t) = pdu_pos3dOffsetU x" "ucast (ucast (pdu_pos3dOffsetV x) :: uint32_t) = pdu_pos3dOffsetV x"
    "ucast (ucast (pdu_pos3dOffsetD x) :: uint32_t) = pdu_pos3dOffsetD x" "ucast (ucast (pdu_projectionId x) :: uint32_t) = pdu_projectionId x"
    "ucast (ucast (pdu_orientationIndex x) :: uint32_t) = pdu_orientationIndex x"
    "unat (ucast (pdu_pos3dOffsetU x) :: uint32_t) = unat (pdu_pos3dOffsetU x)" "unat (ucast (pdu_pos3dOffsetV x) :: uint32_t) = unat (pdu_pos3dOffsetV x)"
    "unat (ucast (pdu_pos3dOffsetD x) :: uint32_t) = unat (pdu_pos3dOffsetD x)" "unat (ucast (pdu_projectionId x) :: uint32_t) = unat (pdu_projectionId x)"
    "unat (ucast (pdu_orientationIndex x) :: uint32_t) = unat (pdu_orientationIndex x)"
    using size_t_width [of "pdu_pos3dOffsetU x" "bitCountUV asps"] size_t_width [of "pdu_pos3dOffsetV x" "bitCountUV asps"]
      size_t_width [of "pdu_pos3dOffsetD x" "bitCountD asps ath"] size_t_width [of "pdu_projectionId x" "projectionBits asps"]
      size_t_width [of "pdu_orientationIndex x" "orientationBits asps"] facts by simp_all
  have range: "ucast (ucast (pdu_pos3dRangeD x) :: uint32_t) = pdu_pos3dRangeD x" "unat (ucast (pdu_pos3dRangeD x) :: uint32_t) = unat (pdu_pos3dRangeD x)"
    using size_t_width [of "pdu_pos3dRangeD x" "bitCountForMaxDepth asps ath"] facts
    by (cases "asps_normalAxisMaxDeltaValueEnabledFlag asps"; simp)+
  show ?thesis
    unfolding patchDataUnit_w_def [abs_def] patchDataUnit_r_def [abs_def]
    by ((rule codes_same codec_intro refl PatchDataUnit.equality
        | (simp (no_asm) add: facts widths range pdu_new_def; fail) | (simp add: facts widths range pdu_new_def; fail))+)
qed

definition rpdu_wf :: "uint32_t \<Rightarrow> AtlasTileHeader \<Rightarrow> RawPatchDataUnit \<Rightarrow> bool" where
  "rpdu_wf height ath x \<longleftrightarrow> (height = 0 \<longrightarrow> \<not> rpdu_patchInAuxiliaryVideoFlag x)
     \<and> unat (rpdu_pos2dX x) < 2 ^ 31 - 1 \<and> unat (rpdu_pos2dY x) < 2 ^ 31 - 1
     \<and> unat (rpdu_size2dXMinus1 x) < 2 ^ 31 - 1 \<and> unat (rpdu_size2dYMinus1 x) < 2 ^ 31 - 1
     \<and> rawBits ath \<le> 32 \<and> unat (rpdu_pos3dOffsetU x) < 2 ^ rawBits ath \<and> unat (rpdu_pos3dOffsetV x) < 2 ^ rawBits ath
     \<and> unat (rpdu_pos3dOffsetD x) < 2 ^ rawBits ath \<and> unat (rpdu_rawPointsMinus1 x) < 2 ^ 31 - 1 \<and> rpdu_frameIndex x = 0"

lemma rpdu_codes [codec_intro]:
  assumes "auxiliaryHeight hls ath = Some height" and wf: "rpdu_wf height ath x"
    and "y = rpdu_new\<lparr>rpdu_tileOrder := rpdu_tileOrder x, rpdu_patchIndex := rpdu_patchIndex x\<rparr>"
  shows "codes (rawPatchDataUnit_w hls ath x) (rawPatchDataUnit_r hls ath y) x"
proof -
  note facts = assms(1,3) wf [unfolded rpdu_wf_def, simplified]
  have widths: "ucast (ucast (rpdu_pos3dOffsetU x) :: uint32_t) = rpdu_pos3dOffsetU x" "ucast (ucast (rpdu_pos3dOffsetV x) :: uint32_t) = rpdu_pos3dOffsetV x"
    "ucast (ucast (rpdu_pos3dOffsetD x) :: uint32_t) = rpdu_pos3dOffsetD x"
    "unat (ucast (rpdu_pos3dOffsetU x) :: uint32_t) = unat (rpdu_pos3dOffsetU x)" "unat (ucast (rpdu_pos3dOffsetV x) :: uint32_t) = unat (rpdu_pos3dOffsetV x)"
    "unat (ucast (rpdu_pos3dOffsetD x) :: uint32_t) = unat (rpdu_pos3dOffsetD x)"
    using size_t_width [of "rpdu_pos3dOffsetU x" "rawBits ath"] size_t_width [of "rpdu_pos3dOffsetV x" "rawBits ath"]
      size_t_width [of "rpdu_pos3dOffsetD x" "rawBits ath"] facts by simp_all
  show ?thesis
    unfolding rawPatchDataUnit_w_def [abs_def] rawPatchDataUnit_r_def [abs_def]
    by ((rule codes_same codec_intro refl RawPatchDataUnit.equality
        | (simp (no_asm) add: facts widths rpdu_new_def; fail) | (simp add: facts widths rpdu_new_def; fail))+)
qed

definition epdu_wf :: "uint32_t \<Rightarrow> EOMPatchDataUnit \<Rightarrow> bool" where
  "epdu_wf height x \<longleftrightarrow> (height = 0 \<longrightarrow> \<not> epdu_patchInAuxiliaryVideoFlag x)
     \<and> unat (epdu_pos2dX x) < 2 ^ 31 - 1 \<and> unat (epdu_pos2dY x) < 2 ^ 31 - 1
     \<and> unat (epdu_size2dXMinus1 x) < 2 ^ 31 - 1 \<and> unat (epdu_size2dYMinus1 x) < 2 ^ 31 - 1
     \<and> unat (epdu_patchCountMinus1 x) < 2 ^ 31 - 1
     \<and> length (epdu_associatedPatchesIdx x) = unat (epdu_patchCountMinus1 x + 1)
     \<and> length (epdu_points x) = unat (epdu_patchCountMinus1 x + 1)
     \<and> (\<forall>v \<in> set (epdu_associatedPatchesIdx x) \<union> set (epdu_points x). unat v < 2 ^ 31 - 1) \<and> epdu_frameIndex x = 0"

lemma epdu_entries_codes:
  assumes "n' = n" and "length (epdu_associatedPatchesIdx x) = n" "length (epdu_points x) = n"
    and y: "epdu_associatedPatchesIdx y = replicate n 0" "epdu_points y = replicate n 0"
    and "\<forall>v \<in> set (epdu_associatedPatchesIdx x) \<union> set (epdu_points x). unat v < 2147483647"
  shows "codes (for_loop [0..<n] (epdu_entry_w x)) (\<lambda>bs. for_loop [0..<n'] (\<lambda>i (epdu, bs). epdu_entry_r i epdu bs) (y, bs))
     (y\<lparr>epdu_associatedPatchesIdx := epdu_associatedPatchesIdx x, epdu_points := epdu_points x\<rparr>)"
proof -
  define S where "S = (\<lambda>k. y\<lparr>epdu_associatedPatchesIdx := filled k (epdu_associatedPatchesIdx x) (replicate n 0),
     epdu_points := filled k (epdu_points x) (replicate n 0)\<rparr>)"
  have S0: "y = S 0" using y by (cases y) (simp add: S_def)
  have step: "codes (epdu_entry_w x k) (epdu_entry_r k (S k)) (S (Suc k))" if k: "k < n" for k
  proof -
    have k': "k \<le> n" "unat (epdu_associatedPatchesIdx x ! k) < 2147483647" "unat (epdu_points x ! k) < 2147483647"
      using k assms by (simp_all add: nth_mem)
    show ?thesis
      unfolding epdu_entry_w_def [abs_def] epdu_entry_r_def [abs_def]
      by ((rule codec_intro refl EOMPatchDataUnit.equality | (simp add: assms(2,3) k k' S_def; fail))+)
  qed
  have "codes (for_loop [0..<n] (epdu_entry_w x)) (\<lambda>bs. for_loop [0..<n'] (\<lambda>i (epdu, bs). epdu_entry_r i epdu bs) (y, bs)) (S n)"
    using assms(1) S0 step by (intro codes_for [where y = S])
  then show ?thesis using assms(2,3) by (simp add: S_def)
qed

lemma epdu_codes [codec_intro]:
  assumes "auxiliaryHeight hls ath = Some height" and wf: "epdu_wf height x"
    and "y = epdu_new\<lparr>epdu_tileIndex := epdu_tileIndex x, epdu_patchIndex := epdu_patchIndex x\<rparr>"
  shows "codes (eomPatchDataUnit_w hls ath x) (eomPatchDataUnit_r hls ath y) x"
proof -
  note facts = assms(1,3) wf [unfolded epdu_wf_def, simplified]
  show ?thesis
    unfolding eomPatchDataUnit_w_def [abs_def] eomPatchDataUnit_r_def [abs_def] epdu_setPatchCountMinus1_def Let_def
    by ((rule codes_same epdu_entries_codes codec_intro refl EOMPatchDataUnit.equality
        | (simp (no_asm) add: facts epdu_new_def; fail) | (simp add: facts epdu_new_def; fail))+)
qed

text \<open>Signed fields: a value that \<open>writeSvlc\<close> can code is not changed by the conversion to \<open>int32_t\<close>.\<close>

lemma to_int32_se [simp]: "int32_in (2 * \<bar>v\<bar>) \<Longrightarrow> to_int32 v = v"
  by (rule to_int32_small) (auto simp: int32_in_def)

lemma to_int32_0 [simp]: "to_int32 0 = 0"
  by (simp add: to_int32_def)

lemma refIndex_coded:
  assumes "0 \<le> r" and "r < 2 ^ 31 - 1"
  shows "uint (word_of_int r :: uint32_t) = r" "unat (word_of_int r :: uint32_t) < 2147483647" "int32_in r"
proof -
  show "uint (word_of_int r :: uint32_t) = r" using assms by (simp add: word_uint_eq_iff uint_word_of_int take_bit_int_eq_self)
  then have "int (unat (word_of_int r :: uint32_t)) = r" by simp
  then have "int (unat (word_of_int r :: uint32_t)) < int 2147483647" using assms by simp
  then show "unat (word_of_int r :: uint32_t) < 2147483647" by (simp only: of_nat_less_iff)
  show "int32_in r" using assms by (simp add: int32_in_def)
qed

text \<open>A merge patch that overrides the 3D parameters comes back only without reconstruction data: the
  writer does not code it there.\<close>

definition mpdu_wf :: "AtlasSequenceParameterSetRbsp \<Rightarrow> nat \<Rightarrow> ReaderState \<Rightarrow> MergePatchDataUnit \<Rightarrow> bool" where
  "mpdu_wf asps numRefIdxActive rst x \<longleftrightarrow>
     (if 1 < numRefIdxActive then 0 \<le> mpdu_refIndex x \<and> mpdu_refIndex x < 2 ^ 31 - 1 else mpdu_refIndex x = 0)
     \<and> (if mpdu_override2dParamsFlag x then int32_in (2 * \<bar>mpdu_pos2dX x\<bar>) \<and> int32_in (2 * \<bar>mpdu_pos2dY x\<bar>)
          \<and> int32_in (2 * \<bar>mpdu_delta2dSizeX x\<bar>) \<and> int32_in (2 * \<bar>mpdu_delta2dSizeY x\<bar>) \<and> \<not> mpdu_override3dParamsFlag x
        else mpdu_pos2dX x = 0 \<and> mpdu_pos2dY x = 0 \<and> mpdu_delta2dSizeX x = 0 \<and> mpdu_delta2dSizeY x = 0)
     \<and> (if mpdu_override3dParamsFlag x then int32_in (2 * \<bar>mpdu_pos3dOffsetU x\<bar>) \<and> int32_in (2 * \<bar>mpdu_pos3dOffsetV x\<bar>)
          \<and> int32_in (2 * \<bar>mpdu_pos3dOffsetD x\<bar>)
        else mpdu_pos3dOffsetU x = 0 \<and> mpdu_pos3dOffsetV x = 0 \<and> mpdu_pos3dOffsetD x = 0)
     \<and> (if mpdu_override3dParamsFlag x \<and> asps_normalAxisMaxDeltaValueEnabledFlag asps
        then int32_in (2 * \<bar>mpdu_pos3dRangeD x\<bar>) else mpdu_pos3dRangeD x = 0)
     \<and> \<not> mpdu_overridePlrFlag x
     \<and> (if mpdu_override2dParamsFlag x \<and> asps_PLREnabledFlag asps then plrd_wf asps (mpdu_plrData x)
          \<and> plrd_blockToPatchMapWidth (mpdu_plrData x) = word_of_int (rst_prevPatchSizeU rst + mpdu_delta2dSizeX x)
          \<and> plrd_blockToPatchMapHeight (mpdu_plrData x) = word_of_int (rst_prevPatchSizeV rst + mpdu_delta2dSizeY x)
        else mpdu_plrData x = plrd_new)
     \<and> mpdu_frameIndex x = 0"

definition mpdu_next :: "AtlasSequenceParameterSetRbsp \<Rightarrow> ReaderState \<Rightarrow> MergePatchDataUnit \<Rightarrow> ReaderState" where
  "mpdu_next asps rst x = (if mpdu_override2dParamsFlag x \<and> asps_PLREnabledFlag asps
     then rst\<lparr>rst_prevPatchSizeU := to_int32 (rst_prevPatchSizeU rst + mpdu_delta2dSizeX x),
              rst_prevPatchSizeV := to_int32 (rst_prevPatchSizeV rst + mpdu_delta2dSizeY x)\<rparr> else rst)"

lemma mpdu_codes [codec_intro]:
  assumes params: "tile_params hls ath = Some (afps, asps)" and "hls_getNumRefIdxActive hls ath = Some n"
    and wf: "mpdu_wf asps n rst x"
    and "y = mpdu_new\<lparr>mpdu_tileOrder := mpdu_tileOrder x, mpdu_patchIndex := mpdu_patchIndex x\<rparr>"
  shows "codes (mergePatchDataUnit_w hls ath x) (mergePatchDataUnit_r hls ath rst y) (x, mpdu_next asps rst x)"
proof -
  note facts = params [unfolded tile_params_Some] assms(2,4) wf [unfolded mpdu_wf_def if_bool_eq_conj, simplified]
  have ref: "uint (word_of_int (mpdu_refIndex x) :: uint32_t) = mpdu_refIndex x"
    "unat (word_of_int (mpdu_refIndex x) :: uint32_t) < 2147483647"
    using refIndex_coded [of "mpdu_refIndex x"] wf by (cases "1 < n"; simp add: mpdu_wf_def)+
  have ints: "to_int32 (mpdu_pos2dX x) = mpdu_pos2dX x" "to_int32 (mpdu_pos2dY x) = mpdu_pos2dY x"
    "to_int32 (mpdu_delta2dSizeX x) = mpdu_delta2dSizeX x" "to_int32 (mpdu_delta2dSizeY x) = mpdu_delta2dSizeY x"
    using facts by (cases "mpdu_override2dParamsFlag x"; simp)+
  have ints3: "to_int32 (mpdu_pos3dOffsetU x) = mpdu_pos3dOffsetU x" "to_int32 (mpdu_pos3dOffsetV x) = mpdu_pos3dOffsetV x"
    "to_int32 (mpdu_pos3dOffsetD x) = mpdu_pos3dOffsetD x"
    using facts by (cases "mpdu_override3dParamsFlag x"; simp)+
  have "to_int32 (mpdu_pos3dRangeD x) = mpdu_pos3dRangeD x"
    using facts by (cases "mpdu_override3dParamsFlag x \<and> asps_normalAxisMaxDeltaValueEnabledFlag asps"; simp)
  note simps = facts ref ints ints3 this mpdu_new_def
  show ?thesis
    unfolding mergePatchDataUnit_w_def [abs_def] mergePatchDataUnit_r_def [abs_def]
    by ((rule codes_split codes_same codec_intro refl MergePatchDataUnit.equality
        | (simp (no_asm) add: simps; fail) | (simp add: simps mpdu_next_def; fail))+)
qed

text \<open>The reconstruction data of a merge patch without 2D override has no influence on the stream,
  although the flag that announces it is written.\<close>

lemma mpdu_plrData_ignored:
  "\<not> mpdu_override2dParamsFlag x \<Longrightarrow> mergePatchDataUnit_w hls ath (x\<lparr>mpdu_plrData := d\<rparr>) bs = mergePatchDataUnit_w hls ath x bs"
  by (simp add: mergePatchDataUnit_w_def cong: if_cong)

definition ipdu_wf :: "PCCAtlasHighLevelSyntax \<Rightarrow> AtlasSequenceParameterSetRbsp \<Rightarrow> nat \<Rightarrow> ReaderState \<Rightarrow> InterPatchDataUnit \<Rightarrow> bool" where
  "ipdu_wf hls asps numRefIdxActive rst x \<longleftrightarrow>
     (if 1 < numRefIdxActive then 0 \<le> ipdu_refIndex x \<and> ipdu_refIndex x < 2 ^ 31 - 1 else ipdu_refIndex x = 0)
     \<and> int32_in (2 * \<bar>ipdu_refPatchIndex x\<bar>) \<and> int32_in (2 * \<bar>ipdu_pos2dX x\<bar>) \<and> int32_in (2 * \<bar>ipdu_pos2dY x\<bar>)
     \<and> int32_in (2 * \<bar>ipdu_delta2dSizeX x\<bar>) \<and> int32_in (2 * \<bar>ipdu_delta2dSizeY x\<bar>)
     \<and> int32_in (2 * \<bar>ipdu_pos3dOffsetU x\<bar>) \<and> int32_in (2 * \<bar>ipdu_pos3dOffsetV x\<bar>) \<and> int32_in (2 * \<bar>ipdu_pos3dOffsetD x\<bar>)
     \<and> (if asps_normalAxisMaxDeltaValueEnabledFlag asps then int32_in (2 * \<bar>ipdu_pos3dRangeD x\<bar>) else ipdu_pos3dRangeD x = 0)
     \<and> (if asps_PLREnabledFlag asps then plrd_wf asps (ipdu_pointLocalReconstructionData x)
          \<and> (case interPatch_size hls rst x of None \<Rightarrow> False
             | Some s \<Rightarrow> plrd_blockToPatchMapWidth (ipdu_pointLocalReconstructionData x) = word_of_int (fst s)
                  \<and> plrd_blockToPatchMapHeight (ipdu_pointLocalReconstructionData x) = word_of_int (snd s))
        else ipdu_pointLocalReconstructionData x = plrd_new)
     \<and> ipdu_frameIndex x = 0"

definition ipdu_next :: "PCCAtlasHighLevelSyntax \<Rightarrow> AtlasSequenceParameterSetRbsp \<Rightarrow> ReaderState \<Rightarrow> InterPatchDataUnit \<Rightarrow> ReaderState" where
  "ipdu_next hls asps rst x = (if asps_PLREnabledFlag asps
     then rst\<lparr>rst_prevPatchSizeU := fst (the (interPatch_size hls rst x)), rst_prevPatchSizeV := snd (the (interPatch_size hls rst x)),
              rst_predPatchIndex := to_int32 (rst_predPatchIndex rst + ipdu_refPatchIndex x + 1)\<rparr> else rst)"

lemma interPatch_size_cong:
  "ipdu_refPatchIndex y = ipdu_refPatchIndex x \<Longrightarrow> ipdu_delta2dSizeX y = ipdu_delta2dSizeX x \<Longrightarrow> ipdu_delta2dSizeY y = ipdu_delta2dSizeY x
   \<Longrightarrow> interPatch_size hls rst y = interPatch_size hls rst x"
  by (simp add: interPatch_size_def)

lemma ipdu_codes [codec_intro]:
  assumes params: "tile_params hls ath = Some (afps, asps)" and "hls_getNumRefIdxActive hls ath = Some n"
    and wf: "ipdu_wf hls asps n rst x"
    and "y = ipdu_new\<lparr>ipdu_tileOrder := ipdu_tileOrder x, ipdu_patchIndex := ipdu_patchIndex x\<rparr>"
  shows "codes (interPatchDataUnit_w hls ath x) (interPatchDataUnit_r hls ath rst y) (x, ipdu_next hls asps rst x)"
proof -
  note facts = params [unfolded tile_params_Some] assms(2,4) wf [unfolded ipdu_wf_def if_bool_eq_conj, simplified]
  have ref: "int32_in (ipdu_refIndex x)" "uint (word_of_int (ipdu_refIndex x) :: uint32_t) = ipdu_refIndex x"
    "unat (word_of_int (ipdu_refIndex x) :: uint32_t) < 2147483647"
    using refIndex_coded [of "ipdu_refIndex x"] wf by (cases "1 < n"; simp add: ipdu_wf_def int32_in_def)+
  have range: "to_int32 (ipdu_pos3dRangeD x) = ipdu_pos3dRangeD x"
    using facts by (cases "asps_normalAxisMaxDeltaValueEnabledFlag asps"; simp)
  note simps = facts ref range ipdu_new_def
  obtain s where s: "asps_PLREnabledFlag asps \<Longrightarrow> interPatch_size hls rst x = Some s"
    using facts by (cases "interPatch_size hls rst x") auto
  have codes_plr: "codes W (\<lambda>bs. Option.bind (interPatch_size hls rst z) (\<lambda>s. R s bs)) v"
    if "asps_PLREnabledFlag asps" "interPatch_size hls rst z = interPatch_size hls rst x" "codes W (R s) v"
    for W z R and v :: "InterPatchDataUnit \<times> ReaderState"
    using that s by simp
  have plr: "plrd_blockToPatchMapWidth (ipdu_pointLocalReconstructionData x) = word_of_int (fst s)"
    "plrd_blockToPatchMapHeight (ipdu_pointLocalReconstructionData x) = word_of_int (snd s)" if "asps_PLREnabledFlag asps"
    using that s facts by simp_all
  show ?thesis
    unfolding interPatchDataUnit_w_def [abs_def] interPatchDataUnit_r_def [abs_def]
    by ((rule codes_plr codes_split codes_same codec_intro refl InterPatchDataUnit.equality
        | (simp (no_asm) add: simps; fail) | (simp add: simps s plr ipdu_next_def; fail) | (rule interPatch_size_cong))+)
qed

end
