(* ===== verification/TileLayer.thy ===== *)
theory TileLayer
  imports PatchUnits
begin

unbundle bit_operations_syntax

text \<open>
  The atlas tile layer: the tile header, the patch information data, which selects the patch data unit
  by the type of the tile and the mode of the patch, the tile data unit, which is a list of patches that
  ends with a termination mode, and the layer that puts header and data unit together.
\<close>

section \<open>Tile header\<close>

text \<open>Widths, all passed as \<open>uint8_t\<close>.\<close>

definition tileIdBits :: "AtlasFrameTileInformation \<Rightarrow> nat" where
  "tileIdBits afti = unat (word_of_int (ceilLog2 (afti_numTilesInAtlasFrameMinus1 afti + 1)) :: uint8_t)"

definition refListIdxBits :: "AtlasSequenceParameterSetRbsp \<Rightarrow> nat" where
  "refListIdxBits asps = unat (word_of_int (ceilLog2 (ucast (asps_numRefAtlasFrameListsInAsps asps))) :: uint8_t)"

definition rawOffsetBits :: "AtlasSequenceParameterSetRbsp \<Rightarrow> nat" where
  "rawOffsetBits asps = unat (word_of_int (floorLog2 (ucast (asps_geometry3dBitdepthMinus1 asps) + 1)) :: uint8_t)"

text \<open>\<open>std::max( 0, geometry3dBitdepthMinus1 - geometry2dBitdepthMinus1 ) - 1\<close> as a \<open>uint8_t\<close>.\<close>

definition derivedRawBits :: "AtlasSequenceParameterSetRbsp \<Rightarrow> uint8_t" where
  "derivedRawBits asps = word_of_int (max 0 (uint (asps_geometry3dBitdepthMinus1 asps) - uint (asps_geometry2dBitdepthMinus1 asps)) - 1)"

text \<open>The two assignments of \<open>tileNaluTypeInfo\<close> at the start of the reader.\<close>

definition naluTypeInfo :: "NalUnitType \<Rightarrow> uint8_t \<Rightarrow> uint8_t" where
  "naluTypeInfo nalUnitType old = (let info = (if nalUnitType = NAL_TRAIL_R then 1 else old)
     in if nalUnitType = NAL_TRAIL_N then 2 else info)"

text \<open>The number of long term entries of a reference list.\<close>

definition rls_numLtr :: "RefListStruct \<Rightarrow> nat option" where
  "rls_numLtr refList = for_loop [0..<unat (rls_numRefEntries refList)] (\<lambda>i n. do {
     b \<leftarrow> vec_at (rls_stRefAtlasFrameFlag refList) i;
     Some (if b then n else n + 1)
   }) 0"

definition ath_lsb_w :: "nat \<Rightarrow> AtlasTileHeader \<Rightarrow> nat \<Rightarrow> PCCBitstream \<Rightarrow> PCCBitstream option" where
  "ath_lsb_w bits ath i bs = do {
     v \<leftarrow> vec_at (ath_additionalAfocLsbPresentFlag ath) i;
     bs \<leftarrow> bs_write (b2u v) 1 bs;
     b \<leftarrow> vec_at (ath_additionalAfocLsbPresentFlag ath) i;
     bs \<leftarrow> (if b then do {
         v \<leftarrow> vec_at (ath_additionalAfocLsbVal ath) i;
         bs \<leftarrow> bs_write (ucast v) bits bs;
         Some bs
       } else Some bs);
     Some bs
   }"

definition ath_lsb_r :: "nat \<Rightarrow> nat \<Rightarrow> AtlasTileHeader \<Rightarrow> PCCBitstream \<Rightarrow> (AtlasTileHeader \<times> PCCBitstream) option" where
  "ath_lsb_r bits i ath bs = do {
     (v, bs) \<leftarrow> bs_read 1 bs;
     l \<leftarrow> vec_set (ath_additionalAfocLsbPresentFlag ath) i (v \<noteq> 0);
     let ath = ath\<lparr>ath_additionalAfocLsbPresentFlag := l\<rparr>;
     b \<leftarrow> vec_at (ath_additionalAfocLsbPresentFlag ath) i;
     (ath, bs) \<leftarrow> (if b then do {
         (v, bs) \<leftarrow> bs_read bits bs;
         l \<leftarrow> vec_set (ath_additionalAfocLsbVal ath) i (ucast v);
         let ath = ath\<lparr>ath_additionalAfocLsbVal := l\<rparr>;
         Some (ath, bs)
       } else Some (ath, bs));
     Some (ath, bs)
   }"

text \<open>The reference list: its own structure, or the index of one of the sequence parameter set, which the
  reader then copies into the header.\<close>

definition ath_refs_w :: "AtlasSequenceParameterSetRbsp \<Rightarrow> AtlasTileHeader \<Rightarrow> PCCBitstream \<Rightarrow> PCCBitstream option" where
  "ath_refs_w asps ath bs = do {
     bs \<leftarrow> (if \<not> ath_refAtlasFrameListSpsFlag ath then do {
         bs \<leftarrow> refListStruct_w asps (ath_refListStruct ath) bs;
         Some bs
       } else do {
         bs \<leftarrow> (if 1 < asps_numRefAtlasFrameListsInAsps asps then do {
             bs \<leftarrow> bs_write (ucast (ath_refAtlasFrameListIdx ath)) (refListIdxBits asps) bs;
             Some bs
           } else Some bs);
         Some bs
       });
     Some bs
   }"

definition ath_refs_r :: "AtlasSequenceParameterSetRbsp \<Rightarrow> AtlasTileHeader \<Rightarrow> PCCBitstream \<Rightarrow> (AtlasTileHeader \<times> PCCBitstream) option" where
  "ath_refs_r asps ath bs = do {
     let ath = ath\<lparr>ath_refAtlasFrameListIdx := 0\<rparr>;
     (ath, bs) \<leftarrow> (if \<not> ath_refAtlasFrameListSpsFlag ath then do {
         (sub, bs) \<leftarrow> refListStruct_r asps (ath_refListStruct ath) bs;
         let ath = ath\<lparr>ath_refListStruct := sub\<rparr>;
         Some (ath, bs)
       } else do {
         (ath, bs) \<leftarrow> (if 1 < asps_numRefAtlasFrameListsInAsps asps then do {
             (v, bs) \<leftarrow> bs_read (refListIdxBits asps) bs;
             let ath = ath\<lparr>ath_refAtlasFrameListIdx := ucast v\<rparr>;
             Some (ath, bs)
           } else Some (ath, bs));
         Some (ath, bs)
       });
     ath \<leftarrow> (if ath_refAtlasFrameListSpsFlag ath then do {
         rls \<leftarrow> vec_at (asps_refListStruct asps) (unat (ath_refAtlasFrameListIdx ath));
         Some (ath\<lparr>ath_refListStruct := rls\<rparr>)
       } else Some ath);
     Some (ath, bs)
   }"

definition ath_quantizers_w :: "AtlasFrameParameterSetRbsp \<Rightarrow> AtlasSequenceParameterSetRbsp \<Rightarrow> RefListStruct \<Rightarrow> AtlasTileHeader \<Rightarrow> PCCBitstream \<Rightarrow> PCCBitstream option" where
  "ath_quantizers_w afps asps refList ath bs = do {
     bs \<leftarrow> (if asps_normalAxisLimitsQuantizationEnabledFlag asps then do {
         bs \<leftarrow> bs_write (ucast (ath_posMinDQuantizer ath)) 5 bs;
         bs \<leftarrow> (if asps_normalAxisMaxDeltaValueEnabledFlag asps then do {
             bs \<leftarrow> bs_write (ucast (ath_posDeltaMaxDQuantizer ath)) 5 bs;
             Some bs
           } else Some bs);
         Some bs
       } else Some bs);
     bs \<leftarrow> (if asps_patchSizeQuantizerPresentFlag asps then do {
         bs \<leftarrow> bs_write (ucast (ath_patchSizeXinfoQuantizer ath)) 3 bs;
         bs \<leftarrow> bs_write (ucast (ath_patchSizeYinfoQuantizer ath)) 3 bs;
         Some bs
       } else Some bs);
     bs \<leftarrow> (if afps_raw3doffsetBitCountExplicitModeFlag afps then do {
         bs \<leftarrow> bs_write (ucast (ath_raw3dOffsetAxisBitCountMinus1 ath)) (rawOffsetBits asps) bs;
         Some bs
       } else Some bs);
     bs \<leftarrow> (if ath_type ath = P_TILE \<and> 1 < unat (rls_numRefEntries refList) then do {
         bs \<leftarrow> bs_write (b2u (ath_numRefIdxActiveOverrideFlag ath)) 1 bs;
         bs \<leftarrow> (if ath_numRefIdxActiveOverrideFlag ath then do {
             bs \<leftarrow> bs_writeUvlc (ucast (ath_numRefIdxActiveMinus1 ath)) bs;
             Some bs
           } else Some bs);
         Some bs
       } else Some bs);
     Some bs
   }"

definition ath_quantizers_r :: "AtlasFrameParameterSetRbsp \<Rightarrow> AtlasSequenceParameterSetRbsp \<Rightarrow> RefListStruct \<Rightarrow> AtlasTileHeader \<Rightarrow> PCCBitstream \<Rightarrow> (AtlasTileHeader \<times> PCCBitstream) option" where
  "ath_quantizers_r afps asps refList ath bs = do {
     (ath, bs) \<leftarrow> (if asps_normalAxisLimitsQuantizationEnabledFlag asps then do {
         (v, bs) \<leftarrow> bs_read 5 bs;
         let ath = ath\<lparr>ath_posMinDQuantizer := ucast v\<rparr>;
         (ath, bs) \<leftarrow> (if asps_normalAxisMaxDeltaValueEnabledFlag asps then do {
             (v, bs) \<leftarrow> bs_read 5 bs;
             let ath = ath\<lparr>ath_posDeltaMaxDQuantizer := ucast v\<rparr>;
             Some (ath, bs)
           } else Some (ath, bs));
         Some (ath, bs)
       } else Some (ath, bs));
     (ath, bs) \<leftarrow> (if asps_patchSizeQuantizerPresentFlag asps then do {
         (v, bs) \<leftarrow> bs_read 3 bs;
         let ath = ath\<lparr>ath_patchSizeXinfoQuantizer := ucast v\<rparr>;
         (v, bs) \<leftarrow> bs_read 3 bs;
         let ath = ath\<lparr>ath_patchSizeYinfoQuantizer := ucast v\<rparr>;
         Some (ath, bs)
       } else Some (ath, bs));
     (ath, bs) \<leftarrow> (if afps_raw3doffsetBitCountExplicitModeFlag afps then do {
         (v, bs) \<leftarrow> bs_read (rawOffsetBits asps) bs;
         let ath = ath\<lparr>ath_raw3dOffsetAxisBitCountMinus1 := ucast v\<rparr>;
         Some (ath, bs)
       } else do {
         let ath = ath\<lparr>ath_raw3dOffsetAxisBitCountMinus1 := derivedRawBits asps\<rparr>;
         Some (ath, bs)
       });
     (ath, bs) \<leftarrow> (if ath_type ath = P_TILE \<and> 1 < unat (rls_numRefEntries refList) then do {
         (v, bs) \<leftarrow> bs_read 1 bs;
         let ath = ath\<lparr>ath_numRefIdxActiveOverrideFlag := v \<noteq> 0\<rparr>;
         (ath, bs) \<leftarrow> (if ath_numRefIdxActiveOverrideFlag ath then do {
             (v, bs) \<leftarrow> bs_readUvlc bs;
             let ath = ath\<lparr>ath_numRefIdxActiveMinus1 := ucast v\<rparr>;
             Some (ath, bs)
           } else Some (ath, bs));
         Some (ath, bs)
       } else Some (ath, bs));
     Some (ath, bs)
   }"

definition atlasTileHeader_w :: "PCCAtlasHighLevelSyntax \<Rightarrow> NalUnitType \<Rightarrow> AtlasTileHeader \<Rightarrow> PCCBitstream \<Rightarrow> PCCBitstream option" where
  "atlasTileHeader_w hls nalUnitType ath bs = do {
     afps \<leftarrow> hls_getAfps hls (ath_atlasFrameParameterSetId ath);
     asps \<leftarrow> hls_getAsps hls (afps_atlasSequenceParameterSetId afps);
     let afti = afps_atlasFrameTileInformation afps;
     bs \<leftarrow> (if NAL_BLA_W_LP \<le> nalUnitType \<and> nalUnitType \<le> NAL_RSV_IRAP_ACL_29 then do {
         bs \<leftarrow> bs_write (b2u (ath_noOutputOfPriorAtlasFramesFlag ath)) 1 bs;
         Some bs
       } else Some bs);
     bs \<leftarrow> bs_writeUvlc (ucast (ath_atlasFrameParameterSetId ath)) bs;
     bs \<leftarrow> bs_writeUvlc (ucast (ath_atlasAdaptationParameterSetId ath)) bs;
     bs \<leftarrow> (if afti_signalledTileIdFlag afti then do {
         bs \<leftarrow> bs_write (ath_id ath) (afti_idBits afti) bs;
         Some bs
       } else do {
         bs \<leftarrow> (if afti_numTilesInAtlasFrameMinus1 afti \<noteq> 0 then do {
             bs \<leftarrow> bs_write (ath_id ath) (tileIdBits afti) bs;
             Some bs
           } else Some bs);
         Some bs
       });
     bs \<leftarrow> bs_writeUvlc (tileType_code (ath_type ath)) bs;
     bs \<leftarrow> (if afps_outputFlagPresentFlag afps then do {
         bs \<leftarrow> bs_write (b2u (ath_atlasOutputFlag ath)) 1 bs;
         Some bs
       } else Some bs);
     bs \<leftarrow> bs_write (ucast (ath_atlasFrmOrderCntLsb ath)) (rls_bitCount asps) bs;
     bs \<leftarrow> (if 0 < asps_numRefAtlasFrameListsInAsps asps then do {
         bs \<leftarrow> bs_write (b2u (ath_refAtlasFrameListSpsFlag ath)) 1 bs;
         Some bs
       } else Some bs);
     bs \<leftarrow> ath_refs_w asps ath bs;
     refList \<leftarrow> ath_refList ath asps;
     numLtrAtlasFrmEntries \<leftarrow> rls_numLtr refList;
     bs \<leftarrow> for_loop [0..<numLtrAtlasFrmEntries] (ath_lsb_w (unat (afps_additionalLtAfocLsbLen afps)) ath) bs;
     bs \<leftarrow> (if ath_type ath \<noteq> SKIP_TILE then do {
         bs \<leftarrow> ath_quantizers_w afps asps refList ath bs;
         Some bs
       } else Some bs);
     bs \<leftarrow> byteAlignment_w bs;
     Some bs
   }"

definition atlasTileHeader_r :: "PCCAtlasHighLevelSyntax \<Rightarrow> NalUnitType \<Rightarrow> AtlasTileHeader \<Rightarrow> PCCBitstream \<Rightarrow> (AtlasTileHeader \<times> PCCBitstream) option" where
  "atlasTileHeader_r hls nalUnitType ath bs = do {
     (ath, bs) \<leftarrow> (if NAL_BLA_W_LP \<le> nalUnitType \<and> nalUnitType \<le> NAL_RSV_IRAP_ACL_29 then do {
         (v, bs) \<leftarrow> bs_read 1 bs;
         let ath = ath\<lparr>ath_noOutputOfPriorAtlasFramesFlag := v \<noteq> 0\<rparr>;
         Some (ath, bs)
       } else Some (ath, bs));
     let ath = ath\<lparr>ath_tileNaluTypeInfo := naluTypeInfo nalUnitType (ath_tileNaluTypeInfo ath)\<rparr>;
     (v, bs) \<leftarrow> bs_readUvlc bs;
     let ath = ath\<lparr>ath_atlasFrameParameterSetId := ucast v\<rparr>;
     (v, bs) \<leftarrow> bs_readUvlc bs;
     let ath = ath\<lparr>ath_atlasAdaptationParameterSetId := ucast v\<rparr>;
     afps \<leftarrow> hls_getAfps hls (ath_atlasFrameParameterSetId ath);
     asps \<leftarrow> hls_getAsps hls (afps_atlasSequenceParameterSetId afps);
     let afti = afps_atlasFrameTileInformation afps;
     (ath, bs) \<leftarrow> (if afti_signalledTileIdFlag afti then do {
         (v, bs) \<leftarrow> bs_read (afti_idBits afti) bs;
         let ath = ath\<lparr>ath_id := v\<rparr>;
         Some (ath, bs)
       } else do {
         (ath, bs) \<leftarrow> (if afti_numTilesInAtlasFrameMinus1 afti \<noteq> 0 then do {
             (v, bs) \<leftarrow> bs_read (tileIdBits afti) bs;
             let ath = ath\<lparr>ath_id := v\<rparr>;
             Some (ath, bs)
           } else do {
             let ath = ath\<lparr>ath_id := 0\<rparr>;
             Some (ath, bs)
           });
         Some (ath, bs)
       });
     (v, bs) \<leftarrow> bs_readUvlc bs;
     t \<leftarrow> tileType_of v;
     let ath = ath\<lparr>ath_type := t\<rparr>;
     (ath, bs) \<leftarrow> (if afps_outputFlagPresentFlag afps then do {
         (v, bs) \<leftarrow> bs_read 1 bs;
         let ath = ath\<lparr>ath_atlasOutputFlag := v \<noteq> 0\<rparr>;
         Some (ath, bs)
       } else do {
         let ath = ath\<lparr>ath_atlasOutputFlag := False\<rparr>;
         Some (ath, bs)
       });
     (v, bs) \<leftarrow> bs_read (rls_bitCount asps) bs;
     let ath = ath\<lparr>ath_atlasFrmOrderCntLsb := ucast v\<rparr>;
     (ath, bs) \<leftarrow> (if 0 < asps_numRefAtlasFrameListsInAsps asps then do {
         (v, bs) \<leftarrow> bs_read 1 bs;
         let ath = ath\<lparr>ath_refAtlasFrameListSpsFlag := v \<noteq> 0\<rparr>;
         Some (ath, bs)
       } else do {
         let ath = ath\<lparr>ath_refAtlasFrameListSpsFlag := False\<rparr>;
         Some (ath, bs)
       });
     (ath, bs) \<leftarrow> ath_refs_r asps ath bs;
     refList \<leftarrow> ath_refList ath asps;
     numLtrAtlasFrmEntries \<leftarrow> rls_numLtr refList;
     (ath, bs) \<leftarrow> for_loop [0..<numLtrAtlasFrmEntries] (\<lambda>i (ath, bs). ath_lsb_r (unat (afps_additionalLtAfocLsbLen afps)) i ath bs) (ath, bs);
     (ath, bs) \<leftarrow> (if ath_type ath \<noteq> SKIP_TILE then do {
         (ath, bs) \<leftarrow> ath_quantizers_r afps asps refList ath bs;
         Some (ath, bs)
       } else Some (ath, bs));
     (u, bs) \<leftarrow> byteAlignment_r bs;
     Some (ath, bs)
   }"

section \<open>Patch information data\<close>

text \<open>\<open>setTileOrder\<close> and \<open>setPatchIndex\<close> hand the numbers of the patch down to the unit that is coded. The
  writer stores them in the object as well; they do not reach the stream.\<close>

definition patchInformationData_w :: "PCCAtlasHighLevelSyntax \<Rightarrow> AtlasTileHeader \<Rightarrow> PatchInformationData \<Rightarrow> uint8_t \<Rightarrow> PCCBitstream \<Rightarrow> PCCBitstream option" where
  "patchInformationData_w hls ath pid patchMode bs =
     (if ath_type ath = SKIP_TILE then Some bs
      else if ath_type ath = P_TILE then
        (if patchMode = P_SKIP then Some bs
         else if patchMode = P_MERGE then mergePatchDataUnit_w hls ath
           ((pid_mergePatchDataUnit pid)\<lparr>mpdu_tileOrder := pid_tileOrder pid, mpdu_patchIndex := pid_patchIndex pid\<rparr>) bs
         else if patchMode = P_INTRA then patchDataUnit_w hls ath
           ((pid_patchDataUnit pid)\<lparr>pdu_tileOrder := pid_tileOrder pid, pdu_patchIndex := pid_patchIndex pid\<rparr>) bs
         else if patchMode = P_INTER then interPatchDataUnit_w hls ath
           ((pid_interPatchDataUnit pid)\<lparr>ipdu_tileOrder := pid_tileOrder pid, ipdu_patchIndex := pid_patchIndex pid\<rparr>) bs
         else if patchMode = P_RAW then rawPatchDataUnit_w hls ath
           ((pid_rawPatchyDataUnit pid)\<lparr>rpdu_tileOrder := pid_tileOrder pid, rpdu_patchIndex := pid_patchIndex pid\<rparr>) bs
         else if patchMode = P_EOM then eomPatchDataUnit_w hls ath
           ((pid_eomPatchDataUnit pid)\<lparr>epdu_tileIndex := pid_tileOrder pid, epdu_patchIndex := pid_patchIndex pid\<rparr>) bs
         else Some bs)
      else if ath_type ath = I_TILE then
        (if patchMode = I_INTRA then patchDataUnit_w hls ath
           ((pid_patchDataUnit pid)\<lparr>pdu_tileOrder := pid_tileOrder pid, pdu_patchIndex := pid_patchIndex pid\<rparr>) bs
         else if patchMode = I_RAW then rawPatchDataUnit_w hls ath
           ((pid_rawPatchyDataUnit pid)\<lparr>rpdu_tileOrder := pid_tileOrder pid, rpdu_patchIndex := pid_patchIndex pid\<rparr>) bs
         else if patchMode = I_EOM then eomPatchDataUnit_w hls ath
           ((pid_eomPatchDataUnit pid)\<lparr>epdu_tileIndex := pid_tileOrder pid, epdu_patchIndex := pid_patchIndex pid\<rparr>) bs
         else Some bs)
      else Some bs)"

definition pid_merge_r :: "PCCAtlasHighLevelSyntax \<Rightarrow> AtlasTileHeader \<Rightarrow> ReaderState \<Rightarrow> PatchInformationData \<Rightarrow> PCCBitstream \<Rightarrow> ((PatchInformationData \<times> ReaderState) \<times> PCCBitstream) option" where
  "pid_merge_r hls ath rst pid bs = do {
     ((mpdu, rst), bs) \<leftarrow> mergePatchDataUnit_r hls ath rst
       ((pid_mergePatchDataUnit pid)\<lparr>mpdu_tileOrder := pid_tileOrder pid, mpdu_patchIndex := pid_patchIndex pid\<rparr>) bs;
     Some ((pid\<lparr>pid_mergePatchDataUnit := mpdu\<rparr>, rst), bs)
   }"

definition pid_inter_r :: "PCCAtlasHighLevelSyntax \<Rightarrow> AtlasTileHeader \<Rightarrow> ReaderState \<Rightarrow> PatchInformationData \<Rightarrow> PCCBitstream \<Rightarrow> ((PatchInformationData \<times> ReaderState) \<times> PCCBitstream) option" where
  "pid_inter_r hls ath rst pid bs = do {
     ((ipdu, rst), bs) \<leftarrow> interPatchDataUnit_r hls ath rst
       ((pid_interPatchDataUnit pid)\<lparr>ipdu_tileOrder := pid_tileOrder pid, ipdu_patchIndex := pid_patchIndex pid\<rparr>) bs;
     Some ((pid\<lparr>pid_interPatchDataUnit := ipdu\<rparr>, rst), bs)
   }"

definition pid_intra_r :: "PCCAtlasHighLevelSyntax \<Rightarrow> AtlasTileHeader \<Rightarrow> ReaderState \<Rightarrow> PatchInformationData \<Rightarrow> PCCBitstream \<Rightarrow> ((PatchInformationData \<times> ReaderState) \<times> PCCBitstream) option" where
  "pid_intra_r hls ath rst pid bs = do {
     (pdu, bs) \<leftarrow> patchDataUnit_r hls ath
       ((pid_patchDataUnit pid)\<lparr>pdu_tileOrder := pid_tileOrder pid, pdu_patchIndex := pid_patchIndex pid\<rparr>) bs;
     Some ((pid\<lparr>pid_patchDataUnit := pdu\<rparr>, rst), bs)
   }"

definition pid_raw_r :: "PCCAtlasHighLevelSyntax \<Rightarrow> AtlasTileHeader \<Rightarrow> ReaderState \<Rightarrow> PatchInformationData \<Rightarrow> PCCBitstream \<Rightarrow> ((PatchInformationData \<times> ReaderState) \<times> PCCBitstream) option" where
  "pid_raw_r hls ath rst pid bs = do {
     (rpdu, bs) \<leftarrow> rawPatchDataUnit_r hls ath
       ((pid_rawPatchyDataUnit pid)\<lparr>rpdu_tileOrder := pid_tileOrder pid, rpdu_patchIndex := pid_patchIndex pid\<rparr>) bs;
     Some ((pid\<lparr>pid_rawPatchyDataUnit := rpdu\<rparr>, rst), bs)
   }"

definition pid_eom_r :: "PCCAtlasHighLevelSyntax \<Rightarrow> AtlasTileHeader \<Rightarrow> ReaderState \<Rightarrow> PatchInformationData \<Rightarrow> PCCBitstream \<Rightarrow> ((PatchInformationData \<times> ReaderState) \<times> PCCBitstream) option" where
  "pid_eom_r hls ath rst pid bs = do {
     (epdu, bs) \<leftarrow> eomPatchDataUnit_r hls ath
       ((pid_eomPatchDataUnit pid)\<lparr>epdu_tileIndex := pid_tileOrder pid, epdu_patchIndex := pid_patchIndex pid\<rparr>) bs;
     Some ((pid\<lparr>pid_eomPatchDataUnit := epdu\<rparr>, rst), bs)
   }"

definition patchInformationData_r :: "PCCAtlasHighLevelSyntax \<Rightarrow> AtlasTileHeader \<Rightarrow> uint8_t \<Rightarrow> ReaderState \<Rightarrow> PatchInformationData \<Rightarrow> PCCBitstream \<Rightarrow> ((PatchInformationData \<times> ReaderState) \<times> PCCBitstream) option" where
  "patchInformationData_r hls ath patchMode rst pid bs =
     (if ath_type ath = SKIP_TILE then Some ((pid, rst), bs)
      else if ath_type ath = P_TILE then
        (if patchMode = P_SKIP then Some ((pid, rst), bs)
         else if patchMode = P_MERGE then pid_merge_r hls ath rst pid bs
         else if patchMode = P_INTRA then pid_intra_r hls ath rst pid bs
         else if patchMode = P_INTER then pid_inter_r hls ath rst pid bs
         else if patchMode = P_RAW then pid_raw_r hls ath rst pid bs
         else if patchMode = P_EOM then pid_eom_r hls ath rst pid bs
         else Some ((pid, rst), bs))
      else if ath_type ath = I_TILE then
        (if patchMode = I_INTRA then pid_intra_r hls ath rst pid bs
         else if patchMode = I_RAW then pid_raw_r hls ath rst pid bs
         else if patchMode = I_EOM then pid_eom_r hls ath rst pid bs
         else Some ((pid, rst), bs))
      else Some ((pid, rst), bs))"

section \<open>Tile data unit\<close>

text \<open>The writer codes all patches of the data unit; the last one has to carry the termination mode. The
  reader stops at the termination mode and does not store it.\<close>

definition atdu_patch_w :: "PCCAtlasHighLevelSyntax \<Rightarrow> AtlasTileHeader \<Rightarrow> AtlasTileDataUnit \<Rightarrow> nat \<Rightarrow> PCCBitstream \<Rightarrow> PCCBitstream option" where
  "atdu_patch_w hls ath atdu puCount bs = do {
     pid \<leftarrow> vec_at (atdu_patchInformationData atdu) puCount;
     bs \<leftarrow> bs_writeUvlc (ucast (pid_patchMode pid)) bs;
     let pid = pid\<lparr>pid_tileOrder := atdu_tileOrder atdu, pid_patchIndex := of_nat puCount\<rparr>;
     patchInformationData_w hls ath pid (pid_patchMode pid) bs
   }"

definition atlasTileDataUnit_w :: "PCCAtlasHighLevelSyntax \<Rightarrow> AtlasTileHeader \<Rightarrow> AtlasTileDataUnit \<Rightarrow> PCCBitstream \<Rightarrow> PCCBitstream option" where
  "atlasTileDataUnit_w hls ath atdu bs =
     (if ath_type ath = SKIP_TILE then Some bs
      else for_loop [0..<length (atdu_patchInformationData atdu)] (atdu_patch_w hls ath atdu) bs)"

text \<open>The loop of the reader, with the mode it has read last; every round reads at least one bit, so the
  loop ends on every stream.\<close>

partial_function (option) atdu_patches_r ::
  "PCCAtlasHighLevelSyntax \<Rightarrow> AtlasTileHeader \<Rightarrow> uint8_t \<Rightarrow> nat \<Rightarrow> ReaderState \<Rightarrow> AtlasTileDataUnit \<Rightarrow> PCCBitstream \<Rightarrow> ((AtlasTileDataUnit \<times> ReaderState) \<times> PCCBitstream) option" where
  "atdu_patches_r hls ath patchMode patchIndex rst atdu bs =
     (if patchMode = I_END \<or> patchMode = P_END then Some ((atdu, rst), bs) else do {
        let pid = pid_new\<lparr>pid_patchMode := patchMode, pid_tileOrder := atdu_tileOrder atdu, pid_patchIndex := of_nat patchIndex\<rparr>;
        ((pid, rst), bs) \<leftarrow> patchInformationData_r hls ath patchMode rst pid bs;
        let atdu = atdu\<lparr>atdu_patchInformationData := atdu_patchInformationData atdu @ [pid]\<rparr>;
        (v, bs) \<leftarrow> bs_readUvlc bs;
        atdu_patches_r hls ath (ucast v) (patchIndex + 1) rst atdu bs
      })"

definition atlasTileDataUnit_r :: "PCCAtlasHighLevelSyntax \<Rightarrow> AtlasTileHeader \<Rightarrow> ReaderState \<Rightarrow> AtlasTileDataUnit \<Rightarrow> PCCBitstream \<Rightarrow> ((AtlasTileDataUnit \<times> ReaderState) \<times> PCCBitstream) option" where
  "atlasTileDataUnit_r hls ath rst atdu bs =
     (if ath_type ath = SKIP_TILE then Some ((atdu, rst), bs) else do {
        let atdu = atdu_init atdu;
        let rst = rst\<lparr>rst_prevPatchSizeU := 0, rst_prevPatchSizeV := 0, rst_predPatchIndex := 0\<rparr>;
        (v, bs) \<leftarrow> bs_readUvlc bs;
        ((atdu, rst), bs) \<leftarrow> atdu_patches_r hls ath (ucast v) 0 rst atdu bs;
        let rst = rst\<lparr>rst_prevFrameIndex := to_int32 (uint (atdu_tileOrder atdu))\<rparr>;
        Some ((atdu, rst), bs)
      })"

section \<open>Tile layer\<close>

definition atlasTileLayerRbsp_w :: "PCCAtlasHighLevelSyntax \<Rightarrow> NalUnitType \<Rightarrow> AtlasTileLayerRbsp \<Rightarrow> PCCBitstream \<Rightarrow> PCCBitstream option" where
  "atlasTileLayerRbsp_w hls nalUnitType atgl bs = do {
     bs \<leftarrow> atlasTileHeader_w hls nalUnitType (atgl_header atgl) bs;
     bs \<leftarrow> atlasTileDataUnit_w hls (atgl_header atgl) (atgl_dataUnit atgl) bs;
     rbspTrailingBits_w bs
   }"

definition atlasTileLayerRbsp_r :: "PCCAtlasHighLevelSyntax \<Rightarrow> NalUnitType \<Rightarrow> ReaderState \<Rightarrow> AtlasTileLayerRbsp \<Rightarrow> PCCBitstream \<Rightarrow> ((AtlasTileLayerRbsp \<times> ReaderState) \<times> PCCBitstream) option" where
  "atlasTileLayerRbsp_r hls nalUnitType rst atgl bs = do {
     (ath, bs) \<leftarrow> atlasTileHeader_r hls nalUnitType (atgl_header atgl) bs;
     let atgl = atgl\<lparr>atgl_header := ath\<rparr>;
     ((atdu, rst), bs) \<leftarrow> atlasTileDataUnit_r hls (atgl_header atgl) rst (atgl_dataUnit atgl) bs;
     let atgl = atgl\<lparr>atgl_dataUnit := atdu\<rparr>;
     (u, bs) \<leftarrow> rbspTrailingBits_r bs;
     Some ((atgl, rst), bs)
   }"

section \<open>Round trip of the tile header\<close>

text \<open>The vectors of the additional order count bits have one entry and are never resized, so at most one
  long term entry can be coded.\<close>

definition ath_lsb_wf :: "nat \<Rightarrow> nat \<Rightarrow> AtlasTileHeader \<Rightarrow> bool" where
  "ath_lsb_wf bits n x \<longleftrightarrow> n \<le> 1 \<and> length (ath_additionalAfocLsbPresentFlag x) = 1 \<and> length (ath_additionalAfocLsbVal x) = 1
     \<and> (n = 0 \<longrightarrow> \<not> ath_additionalAfocLsbPresentFlag x ! 0)
     \<and> (if ath_additionalAfocLsbPresentFlag x ! 0 then bits \<le> 32 \<and> unat (ath_additionalAfocLsbVal x ! 0) < 2 ^ bits
        else ath_additionalAfocLsbVal x ! 0 = 0)"

lemma for_loop_single: "for_loop [i] f s = f i s"
  by simp

lemma ath_lsb_codes:
  assumes wf: "ath_lsb_wf bits n x" and "n' = n" and "ath_additionalAfocLsbPresentFlag y = [False]" "ath_additionalAfocLsbVal y = [0]"
  shows "codes (for_loop [0..<n] (ath_lsb_w bits x)) (\<lambda>bs. for_loop [0..<n'] (\<lambda>i (ath, bs). ath_lsb_r bits i ath bs) (y, bs))
     (y\<lparr>ath_additionalAfocLsbPresentFlag := ath_additionalAfocLsbPresentFlag x, ath_additionalAfocLsbVal := ath_additionalAfocLsbVal x\<rparr>)"
proof -
  obtain b v where bv: "ath_additionalAfocLsbPresentFlag x = [b]" "ath_additionalAfocLsbVal x = [v]"
    using wf by (auto simp: ath_lsb_wf_def length_Suc_conv)
  note facts = wf [unfolded ath_lsb_wf_def if_bool_eq_conj, simplified bv, simplified] assms(3,4) bv
  show ?thesis
  proof (cases "n = 0")
    case True
    then show ?thesis using facts assms(2) by (cases y) (auto intro: codes_return)
  next
    case False
    then have n: "n = 1" using facts by linarith
    have "codes (ath_lsb_w bits x 0) (ath_lsb_r bits 0 y) (y\<lparr>ath_additionalAfocLsbPresentFlag := [b], ath_additionalAfocLsbVal := [v]\<rparr>)"
      unfolding ath_lsb_w_def [abs_def] ath_lsb_r_def [abs_def]
      by ((rule codes_split codec_intro refl AtlasTileHeader.equality | (simp add: facts; fail))+)
    then show ?thesis using assms(2) bv n by (simp add: for_loop_single [abs_def])
  qed
qed

definition ath_quantizers_wf :: "AtlasFrameParameterSetRbsp \<Rightarrow> AtlasSequenceParameterSetRbsp \<Rightarrow> RefListStruct \<Rightarrow> AtlasTileHeader \<Rightarrow> bool" where
  "ath_quantizers_wf afps asps refList x \<longleftrightarrow>
     (if asps_normalAxisLimitsQuantizationEnabledFlag asps then unat (ath_posMinDQuantizer x) < 2 ^ 5 else ath_posMinDQuantizer x = 0)
     \<and> (if asps_normalAxisLimitsQuantizationEnabledFlag asps \<and> asps_normalAxisMaxDeltaValueEnabledFlag asps
        then unat (ath_posDeltaMaxDQuantizer x) < 2 ^ 5 else ath_posDeltaMaxDQuantizer x = 0)
     \<and> (if asps_patchSizeQuantizerPresentFlag asps
        then unat (ath_patchSizeXinfoQuantizer x) < 2 ^ 3 \<and> unat (ath_patchSizeYinfoQuantizer x) < 2 ^ 3
        else ath_patchSizeXinfoQuantizer x = 0 \<and> ath_patchSizeYinfoQuantizer x = 0)
     \<and> (if afps_raw3doffsetBitCountExplicitModeFlag afps
        then rawOffsetBits asps \<le> 32 \<and> unat (ath_raw3dOffsetAxisBitCountMinus1 x) < 2 ^ rawOffsetBits asps
        else ath_raw3dOffsetAxisBitCountMinus1 x = derivedRawBits asps)
     \<and> (\<not> (ath_type x = P_TILE \<and> 1 < unat (rls_numRefEntries refList)) \<longrightarrow> \<not> ath_numRefIdxActiveOverrideFlag x)
     \<and> (\<not> ath_numRefIdxActiveOverrideFlag x \<longrightarrow> ath_numRefIdxActiveMinus1 x = 0)"

lemma ath_quantizers_codes:
  assumes wf: "ath_quantizers_wf afps asps refList x" and "ath_type y = ath_type x"
    and "ath_posMinDQuantizer y = 0" "ath_posDeltaMaxDQuantizer y = 0" "ath_patchSizeXinfoQuantizer y = 0" "ath_patchSizeYinfoQuantizer y = 0"
      "\<not> ath_numRefIdxActiveOverrideFlag y" "ath_numRefIdxActiveMinus1 y = 0"
  shows "codes (ath_quantizers_w afps asps refList x) (ath_quantizers_r afps asps refList y)
     (y\<lparr>ath_posMinDQuantizer := ath_posMinDQuantizer x, ath_posDeltaMaxDQuantizer := ath_posDeltaMaxDQuantizer x,
        ath_patchSizeXinfoQuantizer := ath_patchSizeXinfoQuantizer x, ath_patchSizeYinfoQuantizer := ath_patchSizeYinfoQuantizer x,
        ath_raw3dOffsetAxisBitCountMinus1 := ath_raw3dOffsetAxisBitCountMinus1 x,
        ath_numRefIdxActiveOverrideFlag := ath_numRefIdxActiveOverrideFlag x, ath_numRefIdxActiveMinus1 := ath_numRefIdxActiveMinus1 x\<rparr>)"
proof -
  note facts = assms(2-) wf [unfolded ath_quantizers_wf_def if_bool_eq_conj, simplified]
  show ?thesis
    unfolding ath_quantizers_w_def [abs_def] ath_quantizers_r_def [abs_def]
    by ((rule codes_same codec_intro refl AtlasTileHeader.equality
        | (simp (no_asm) add: facts; fail) | (simp add: facts; fail))+)
qed

definition ath_wf :: "NalUnitType \<Rightarrow> AtlasFrameParameterSetRbsp \<Rightarrow> AtlasSequenceParameterSetRbsp \<Rightarrow> AtlasTileHeader \<Rightarrow> bool" where
  "ath_wf nalUnitType afps asps x \<longleftrightarrow> (let afti = afps_atlasFrameTileInformation afps; refList = ath_refListStruct x in
     (\<not> (NAL_BLA_W_LP \<le> nalUnitType \<and> nalUnitType \<le> NAL_RSV_IRAP_ACL_29) \<longrightarrow> \<not> ath_noOutputOfPriorAtlasFramesFlag x)
     \<and> ath_tileNaluTypeInfo x = naluTypeInfo nalUnitType 0
     \<and> (if afti_signalledTileIdFlag afti then afti_idBits afti \<le> 32 \<and> unat (ath_id x) < 2 ^ afti_idBits afti
        else if afti_numTilesInAtlasFrameMinus1 afti \<noteq> 0 then tileIdBits afti \<le> 32 \<and> unat (ath_id x) < 2 ^ tileIdBits afti
        else ath_id x = 0)
     \<and> (\<not> afps_outputFlagPresentFlag afps \<longrightarrow> \<not> ath_atlasOutputFlag x)
     \<and> rls_bitCount asps \<le> 32 \<and> unat (ath_atlasFrmOrderCntLsb x) < 2 ^ rls_bitCount asps
     \<and> (\<not> 0 < asps_numRefAtlasFrameListsInAsps asps \<longrightarrow> \<not> ath_refAtlasFrameListSpsFlag x)
     \<and> (if ath_refAtlasFrameListSpsFlag x then vec_at (asps_refListStruct asps) (unat (ath_refAtlasFrameListIdx x)) = Some refList
        else rls_wf asps refList)
     \<and> (if ath_refAtlasFrameListSpsFlag x \<and> 1 < asps_numRefAtlasFrameListsInAsps asps
        then refListIdxBits asps \<le> 32 \<and> unat (ath_refAtlasFrameListIdx x) < 2 ^ refListIdxBits asps
        else ath_refAtlasFrameListIdx x = 0)
     \<and> (case rls_numLtr refList of None \<Rightarrow> False | Some n \<Rightarrow> ath_lsb_wf (unat (afps_additionalLtAfocLsbLen afps)) n x)
     \<and> (if ath_type x \<noteq> SKIP_TILE then ath_quantizers_wf afps asps refList x
        else ath_posMinDQuantizer x = 0 \<and> ath_posDeltaMaxDQuantizer x = 0 \<and> ath_patchSizeXinfoQuantizer x = 0
          \<and> ath_patchSizeYinfoQuantizer x = 0 \<and> ath_raw3dOffsetAxisBitCountMinus1 x = 0
          \<and> \<not> ath_numRefIdxActiveOverrideFlag x \<and> ath_numRefIdxActiveMinus1 x = 0)
     \<and> ath_frameIndex x = 0)"

lemma ath_refs_codes:
  assumes list: "if ath_refAtlasFrameListSpsFlag x then vec_at (asps_refListStruct asps) (unat (ath_refAtlasFrameListIdx x)) = Some (ath_refListStruct x)
        else rls_wf asps (ath_refListStruct x)"
    and idx: "if ath_refAtlasFrameListSpsFlag x \<and> 1 < asps_numRefAtlasFrameListsInAsps asps
        then refListIdxBits asps \<le> 32 \<and> unat (ath_refAtlasFrameListIdx x) < 2 ^ refListIdxBits asps
        else ath_refAtlasFrameListIdx x = 0"
    and y: "ath_refAtlasFrameListSpsFlag y = ath_refAtlasFrameListSpsFlag x" "ath_refListStruct y = rls_new"
  shows "codes (ath_refs_w asps x) (ath_refs_r asps y)
     (y\<lparr>ath_refAtlasFrameListIdx := ath_refAtlasFrameListIdx x, ath_refListStruct := ath_refListStruct x\<rparr>)"
proof -
  note facts = list [unfolded if_bool_eq_conj, simplified] idx [unfolded if_bool_eq_conj, simplified] y
  show ?thesis
    unfolding ath_refs_w_def [abs_def] ath_refs_r_def [abs_def]
    by ((rule codes_split codec_intro refl AtlasTileHeader.equality
        | (simp (no_asm) add: facts; fail) | (simp add: facts; fail))+)
qed

lemma ath_codes [codec_intro]:
  assumes params: "tile_params hls x = Some (afps, asps)" and wf: "ath_wf nalUnitType afps asps x" and "y = ath_new"
  shows "codes (atlasTileHeader_w hls nalUnitType x) (atlasTileHeader_r hls nalUnitType y) x"
proof -
  note facts = params [unfolded tile_params_Some] assms(3) wf [unfolded ath_wf_def Let_def if_bool_eq_conj, simplified]
  obtain n where n: "rls_numLtr (ath_refListStruct x) = Some n" "ath_lsb_wf (unat (afps_additionalLtAfocLsbLen afps)) n x"
    using facts by (auto split: option.splits)
  have lsb: "ucast (ucast (ath_atlasFrmOrderCntLsb x) :: uint32_t) = ath_atlasFrmOrderCntLsb x"
    "unat (ucast (ath_atlasFrmOrderCntLsb x) :: uint32_t) = unat (ath_atlasFrmOrderCntLsb x)"
    using size_t_width [of "ath_atlasFrmOrderCntLsb x" "rls_bitCount asps"] facts by simp_all
  show ?thesis
    unfolding atlasTileHeader_w_def [abs_def] atlasTileHeader_r_def [abs_def]
    by ((rule codes_same ath_refs_codes ath_lsb_codes ath_quantizers_codes codec_intro refl AtlasTileHeader.equality
        | (simp (no_asm) add: facts n lsb ath_new_def; fail) | (simp add: facts n lsb ath_new_def ath_refList_def; fail))+)
qed

section \<open>Round trip of the tile data unit\<close>

text \<open>A patch as the reader creates it, before its data unit is read.\<close>

definition pid_start :: "uint8_t \<Rightarrow> size_t \<Rightarrow> size_t \<Rightarrow> PatchInformationData" where
  "pid_start patchMode tileOrder patchIndex =
     pid_new\<lparr>pid_patchMode := patchMode, pid_tileOrder := tileOrder, pid_patchIndex := patchIndex\<rparr>"

definition pid_base :: "PatchInformationData \<Rightarrow> PatchInformationData" where
  "pid_base x = pid_start (pid_patchMode x) (pid_tileOrder x) (pid_patchIndex x)"

text \<open>A patch can be coded when the unit its mode selects can be, carries the numbers of the patch, and all
  other units are as constructed.\<close>

definition pid_intra_wf :: "AtlasFrameParameterSetRbsp \<Rightarrow> AtlasSequenceParameterSetRbsp \<Rightarrow> AtlasTileHeader \<Rightarrow> PatchInformationData \<Rightarrow> bool" where
  "pid_intra_wf afps asps ath x \<longleftrightarrow> (let u = pid_patchDataUnit x in
     pdu_wf afps asps ath u \<and> pdu_tileOrder u = pid_tileOrder x \<and> pdu_patchIndex u = pid_patchIndex x
     \<and> (pid_base x)\<lparr>pid_patchDataUnit := u\<rparr> = x)"

definition pid_raw_wf :: "PCCAtlasHighLevelSyntax \<Rightarrow> AtlasTileHeader \<Rightarrow> PatchInformationData \<Rightarrow> bool" where
  "pid_raw_wf hls ath x \<longleftrightarrow> (let u = pid_rawPatchyDataUnit x in
     (case auxiliaryHeight hls ath of None \<Rightarrow> False | Some height \<Rightarrow> rpdu_wf height ath u)
     \<and> rpdu_tileOrder u = pid_tileOrder x \<and> rpdu_patchIndex u = pid_patchIndex x
     \<and> (pid_base x)\<lparr>pid_rawPatchyDataUnit := u\<rparr> = x)"

definition pid_eom_wf :: "PCCAtlasHighLevelSyntax \<Rightarrow> AtlasTileHeader \<Rightarrow> PatchInformationData \<Rightarrow> bool" where
  "pid_eom_wf hls ath x \<longleftrightarrow> (let u = pid_eomPatchDataUnit x in
     (case auxiliaryHeight hls ath of None \<Rightarrow> False | Some height \<Rightarrow> epdu_wf height u)
     \<and> epdu_tileIndex u = pid_tileOrder x \<and> epdu_patchIndex u = pid_patchIndex x
     \<and> (pid_base x)\<lparr>pid_eomPatchDataUnit := u\<rparr> = x)"

definition pid_merge_wf :: "PCCAtlasHighLevelSyntax \<Rightarrow> AtlasSequenceParameterSetRbsp \<Rightarrow> AtlasTileHeader \<Rightarrow> ReaderState \<Rightarrow> PatchInformationData \<Rightarrow> bool" where
  "pid_merge_wf hls asps ath rst x \<longleftrightarrow> (let u = pid_mergePatchDataUnit x in
     (case hls_getNumRefIdxActive hls ath of None \<Rightarrow> False | Some n \<Rightarrow> mpdu_wf asps n rst u)
     \<and> mpdu_tileOrder u = pid_tileOrder x \<and> mpdu_patchIndex u = pid_patchIndex x
     \<and> (pid_base x)\<lparr>pid_mergePatchDataUnit := u\<rparr> = x)"

definition pid_inter_wf :: "PCCAtlasHighLevelSyntax \<Rightarrow> AtlasSequenceParameterSetRbsp \<Rightarrow> AtlasTileHeader \<Rightarrow> ReaderState \<Rightarrow> PatchInformationData \<Rightarrow> bool" where
  "pid_inter_wf hls asps ath rst x \<longleftrightarrow> (let u = pid_interPatchDataUnit x in
     (case hls_getNumRefIdxActive hls ath of None \<Rightarrow> False | Some n \<Rightarrow> ipdu_wf hls asps n rst u)
     \<and> ipdu_tileOrder u = pid_tileOrder x \<and> ipdu_patchIndex u = pid_patchIndex x
     \<and> (pid_base x)\<lparr>pid_interPatchDataUnit := u\<rparr> = x)"

definition pid_wf :: "PCCAtlasHighLevelSyntax \<Rightarrow> AtlasFrameParameterSetRbsp \<Rightarrow> AtlasSequenceParameterSetRbsp \<Rightarrow> AtlasTileHeader \<Rightarrow> ReaderState \<Rightarrow> PatchInformationData \<Rightarrow> bool" where
  "pid_wf hls afps asps ath rst x \<longleftrightarrow> (let mode = pid_patchMode x in
     if ath_type ath = P_TILE then
       (if mode = P_MERGE then pid_merge_wf hls asps ath rst x
        else if mode = P_INTRA then pid_intra_wf afps asps ath x
        else if mode = P_INTER then pid_inter_wf hls asps ath rst x
        else if mode = P_RAW then pid_raw_wf hls ath x
        else if mode = P_EOM then pid_eom_wf hls ath x
        else pid_base x = x)
     else if ath_type ath = I_TILE then
       (if mode = I_INTRA then pid_intra_wf afps asps ath x
        else if mode = I_RAW then pid_raw_wf hls ath x
        else if mode = I_EOM then pid_eom_wf hls ath x
        else pid_base x = x)
     else pid_base x = x)"

text \<open>The reader's state after a patch.\<close>

definition pid_next :: "PCCAtlasHighLevelSyntax \<Rightarrow> AtlasSequenceParameterSetRbsp \<Rightarrow> AtlasTileHeader \<Rightarrow> ReaderState \<Rightarrow> PatchInformationData \<Rightarrow> ReaderState" where
  "pid_next hls asps ath rst x =
     (if ath_type ath = P_TILE \<and> pid_patchMode x = P_MERGE then mpdu_next asps rst (pid_mergePatchDataUnit x)
      else if ath_type ath = P_TILE \<and> pid_patchMode x = P_INTER then ipdu_next hls asps rst (pid_interPatchDataUnit x)
      else rst)"

lemma pid_start_fields [simp]:
  "pid_patchMode (pid_start m t i) = m" "pid_tileOrder (pid_start m t i) = t" "pid_patchIndex (pid_start m t i) = i"
  "pid_patchDataUnit (pid_start m t i) = pdu_new" "pid_interPatchDataUnit (pid_start m t i) = ipdu_new"
  "pid_mergePatchDataUnit (pid_start m t i) = mpdu_new" "pid_rawPatchyDataUnit (pid_start m t i) = rpdu_new"
  "pid_eomPatchDataUnit (pid_start m t i) = epdu_new"
  by (simp_all add: pid_start_def pid_new_def)

text \<open>Every unit reader is applied to a fresh unit with the numbers of the patch, and its result is stored
  in the patch.\<close>

lemma pid_unit_codes:
  assumes "codes W R (u, r)" and "S u = x"
  shows "codes W (\<lambda>bs. Option.bind (R bs) (\<lambda>((v, rst), bs). Some ((S v, rst), bs))) (x, r)"
  using codes_map [OF assms(1), of "\<lambda>(v, rst). (S v, rst)" "(x, r)"] assms(2)
  by (simp add: case_prod_beta')

text \<open>The unit writers see the unit with the numbers of the patch, which it already carries.\<close>

lemma pid_intra_codes:
  assumes "tile_params hls ath = Some (afps, asps)" and wf: "pid_intra_wf afps asps ath x" and y: "y = pid_base x"
  shows "codes (patchDataUnit_w hls ath ((pid_patchDataUnit x)\<lparr>pdu_tileOrder := pid_tileOrder x, pdu_patchIndex := pid_patchIndex x\<rparr>))
     (pid_intra_r hls ath rst y) (x, rst)"
proof -
  let ?u = "pid_patchDataUnit x"
  note facts = wf [unfolded pid_intra_wf_def Let_def]
  have u: "?u\<lparr>pdu_tileOrder := pid_tileOrder x, pdu_patchIndex := pid_patchIndex x\<rparr> = ?u"
    using facts by (intro PatchDataUnit.equality) simp_all
  have "codes (patchDataUnit_w hls ath ?u)
     (patchDataUnit_r hls ath (pdu_new\<lparr>pdu_tileOrder := pid_tileOrder x, pdu_patchIndex := pid_patchIndex x\<rparr>)) ?u"
    using facts by (intro pdu_codes [OF assms(1)]) simp_all
  from codes_map [OF this, of "\<lambda>v. (y\<lparr>pid_patchDataUnit := v\<rparr>, rst)" "(x, rst)"] facts
  show ?thesis by (simp add: pid_intra_r_def [abs_def] u y pid_base_def)
qed

lemma pid_raw_codes:
  assumes wf: "pid_raw_wf hls ath x" and y: "y = pid_base x"
  shows "codes (rawPatchDataUnit_w hls ath ((pid_rawPatchyDataUnit x)\<lparr>rpdu_tileOrder := pid_tileOrder x, rpdu_patchIndex := pid_patchIndex x\<rparr>))
     (pid_raw_r hls ath rst y) (x, rst)"
proof -
  let ?u = "pid_rawPatchyDataUnit x"
  note facts = wf [unfolded pid_raw_wf_def Let_def]
  obtain height where height: "auxiliaryHeight hls ath = Some height" using facts by (auto split: option.splits)
  have u: "?u\<lparr>rpdu_tileOrder := pid_tileOrder x, rpdu_patchIndex := pid_patchIndex x\<rparr> = ?u"
    using facts by (intro RawPatchDataUnit.equality) simp_all
  have "codes (rawPatchDataUnit_w hls ath ?u)
     (rawPatchDataUnit_r hls ath (rpdu_new\<lparr>rpdu_tileOrder := pid_tileOrder x, rpdu_patchIndex := pid_patchIndex x\<rparr>)) ?u"
    using facts height by (intro rpdu_codes [OF height]) simp_all
  from codes_map [OF this, of "\<lambda>v. (y\<lparr>pid_rawPatchyDataUnit := v\<rparr>, rst)" "(x, rst)"] facts
  show ?thesis by (simp add: pid_raw_r_def [abs_def] u y pid_base_def)
qed

lemma pid_eom_codes:
  assumes wf: "pid_eom_wf hls ath x" and y: "y = pid_base x"
  shows "codes (eomPatchDataUnit_w hls ath ((pid_eomPatchDataUnit x)\<lparr>epdu_tileIndex := pid_tileOrder x, epdu_patchIndex := pid_patchIndex x\<rparr>))
     (pid_eom_r hls ath rst y) (x, rst)"
proof -
  let ?u = "pid_eomPatchDataUnit x"
  note facts = wf [unfolded pid_eom_wf_def Let_def]
  obtain height where height: "auxiliaryHeight hls ath = Some height" using facts by (auto split: option.splits)
  have u: "?u\<lparr>epdu_tileIndex := pid_tileOrder x, epdu_patchIndex := pid_patchIndex x\<rparr> = ?u"
    using facts by (intro EOMPatchDataUnit.equality) simp_all
  have "codes (eomPatchDataUnit_w hls ath ?u)
     (eomPatchDataUnit_r hls ath (epdu_new\<lparr>epdu_tileIndex := pid_tileOrder x, epdu_patchIndex := pid_patchIndex x\<rparr>)) ?u"
    using facts height by (intro epdu_codes [OF height]) simp_all
  from codes_map [OF this, of "\<lambda>v. (y\<lparr>pid_eomPatchDataUnit := v\<rparr>, rst)" "(x, rst)"] facts
  show ?thesis by (simp add: pid_eom_r_def [abs_def] u y pid_base_def)
qed

lemma pid_merge_codes:
  assumes params: "tile_params hls ath = Some (afps, asps)" and wf: "pid_merge_wf hls asps ath rst x" and y: "y = pid_base x"
  shows "codes (mergePatchDataUnit_w hls ath ((pid_mergePatchDataUnit x)\<lparr>mpdu_tileOrder := pid_tileOrder x, mpdu_patchIndex := pid_patchIndex x\<rparr>))
     (pid_merge_r hls ath rst y) (x, mpdu_next asps rst (pid_mergePatchDataUnit x))"
proof -
  let ?u = "pid_mergePatchDataUnit x"
  note facts = wf [unfolded pid_merge_wf_def Let_def]
  obtain n where n: "hls_getNumRefIdxActive hls ath = Some n" using facts by (auto split: option.splits)
  have u: "?u\<lparr>mpdu_tileOrder := pid_tileOrder x, mpdu_patchIndex := pid_patchIndex x\<rparr> = ?u"
    using facts by (intro MergePatchDataUnit.equality) simp_all
  have "codes (mergePatchDataUnit_w hls ath ?u)
     (mergePatchDataUnit_r hls ath rst (mpdu_new\<lparr>mpdu_tileOrder := pid_tileOrder x, mpdu_patchIndex := pid_patchIndex x\<rparr>))
     (?u, mpdu_next asps rst ?u)"
    using facts n by (intro mpdu_codes [OF params n]) simp_all
  from pid_unit_codes [OF this, of "\<lambda>v. y\<lparr>pid_mergePatchDataUnit := v\<rparr>" x] facts
  show ?thesis by (simp add: pid_merge_r_def [abs_def] u y pid_base_def case_prod_beta')
qed

lemma pid_inter_codes:
  assumes params: "tile_params hls ath = Some (afps, asps)" and wf: "pid_inter_wf hls asps ath rst x" and y: "y = pid_base x"
  shows "codes (interPatchDataUnit_w hls ath ((pid_interPatchDataUnit x)\<lparr>ipdu_tileOrder := pid_tileOrder x, ipdu_patchIndex := pid_patchIndex x\<rparr>))
     (pid_inter_r hls ath rst y) (x, ipdu_next hls asps rst (pid_interPatchDataUnit x))"
proof -
  let ?u = "pid_interPatchDataUnit x"
  note facts = wf [unfolded pid_inter_wf_def Let_def]
  obtain n where n: "hls_getNumRefIdxActive hls ath = Some n" using facts by (auto split: option.splits)
  have u: "?u\<lparr>ipdu_tileOrder := pid_tileOrder x, ipdu_patchIndex := pid_patchIndex x\<rparr> = ?u"
    using facts by (intro InterPatchDataUnit.equality) simp_all
  have "codes (interPatchDataUnit_w hls ath ?u)
     (interPatchDataUnit_r hls ath rst (ipdu_new\<lparr>ipdu_tileOrder := pid_tileOrder x, ipdu_patchIndex := pid_patchIndex x\<rparr>))
     (?u, ipdu_next hls asps rst ?u)"
    using facts n by (intro ipdu_codes [OF params n]) simp_all
  from pid_unit_codes [OF this, of "\<lambda>v. y\<lparr>pid_interPatchDataUnit := v\<rparr>" x] facts
  show ?thesis by (simp add: pid_inter_r_def [abs_def] u y pid_base_def case_prod_beta')
qed

lemma codes_result: "codes W R y \<Longrightarrow> y = z \<Longrightarrow> codes W R z"
  by simp

lemma pid_codes:
  assumes params: "tile_params hls ath = Some (afps, asps)" and wf: "pid_wf hls afps asps ath rst x" and y: "y = pid_base x"
  shows "codes (patchInformationData_w hls ath x (pid_patchMode x)) (patchInformationData_r hls ath (pid_patchMode x) rst y)
     (x, pid_next hls asps ath rst x)"
proof -
  note units = pid_intra_codes [OF params _ y, THEN codes_result] pid_raw_codes [OF _ y, THEN codes_result]
    pid_eom_codes [OF _ y, THEN codes_result] pid_merge_codes [OF params _ y, THEN codes_result]
    pid_inter_codes [OF params _ y, THEN codes_result] codes_return
  show ?thesis
    unfolding patchInformationData_w_def [abs_def] patchInformationData_r_def [abs_def]
    by ((rule codes_same refl units | (insert wf, simp add: pid_wf_def pid_next_def Let_def y patchMode_defs; fail))+)
qed

text \<open>A list of patches, numbered from \<open>i\<close>, none of which has the termination mode.\<close>

fun pids_wf :: "PCCAtlasHighLevelSyntax \<Rightarrow> AtlasFrameParameterSetRbsp \<Rightarrow> AtlasSequenceParameterSetRbsp \<Rightarrow> AtlasTileHeader \<Rightarrow> size_t \<Rightarrow> nat \<Rightarrow> ReaderState \<Rightarrow> PatchInformationData list \<Rightarrow> bool" where
  "pids_wf hls afps asps ath tileOrder i rst [] = True"
| "pids_wf hls afps asps ath tileOrder i rst (x # xs) \<longleftrightarrow> pid_wf hls afps asps ath rst x
     \<and> pid_tileOrder x = tileOrder \<and> pid_patchIndex x = of_nat i \<and> pid_patchMode x \<noteq> I_END
     \<and> pids_wf hls afps asps ath tileOrder (Suc i) (pid_next hls asps ath rst x) xs"

definition pids_next :: "PCCAtlasHighLevelSyntax \<Rightarrow> AtlasSequenceParameterSetRbsp \<Rightarrow> AtlasTileHeader \<Rightarrow> PatchInformationData list \<Rightarrow> ReaderState \<Rightarrow> ReaderState" where
  "pids_next hls asps ath = fold (\<lambda>x rst. pid_next hls asps ath rst x)"

lemma pid_end_w:
  assumes "pid_patchMode x = I_END"
  shows "patchInformationData_w hls ath x I_END = Some"
  by (rule ext) (simp add: patchInformationData_w_def patchMode_defs)

text \<open>The writer from patch \<open>i\<close> on, against the reader that reads the mode and enters its loop.\<close>

lemma atdu_patches_codes:
  assumes params: "tile_params hls ath = Some (afps, asps)"
    and "drop i (atdu_patchInformationData a) = xs @ [e]" and e: "pid_patchMode e = I_END"
    and "pids_wf hls afps asps ath (atdu_tileOrder a) i rst xs" and "atdu_tileOrder y = atdu_tileOrder a"
  shows "codes (for_loop [i..<length (atdu_patchInformationData a)] (atdu_patch_w hls ath a))
     (\<lambda>bs. Option.bind (bs_readUvlc bs) (\<lambda>(v, bs). atdu_patches_r hls ath (ucast v) i rst y bs))
     (y\<lparr>atdu_patchInformationData := atdu_patchInformationData y @ xs\<rparr>, pids_next hls asps ath xs rst)"
  using assms(2,4,5)
proof (induction xs arbitrary: i rst y)
  case Nil
  have len: "length (atdu_patchInformationData a) = Suc i"
    using arg_cong [OF Nil.prems(1), of length] by simp
  have at: "vec_at (atdu_patchInformationData a) i = Some e"
    using Nil.prems(1) len by (metis Cons_nth_drop_Suc append_Nil lessI list.inject vec_at_def)
  have w: "for_loop [i..<length (atdu_patchInformationData a)] (atdu_patch_w hls ath a) = (\<lambda>bs. Option.bind (bs_writeUvlc (ucast I_END) bs) Some)"
    by (rule ext) (simp add: len atdu_patch_w_def at e pid_end_w)
  show ?case
    unfolding w
    by (rule codes_bind [OF codes_ue])
       (simp_all add: atdu_patches_r.simps patchMode_defs pids_next_def codes_return)
next
  case (Cons x xs)
  have len: "i < length (atdu_patchInformationData a)"
    using Cons.prems(1) by (cases "i < length (atdu_patchInformationData a)") simp_all
  then have at: "vec_at (atdu_patchInformationData a) i = Some x" and drop: "drop (Suc i) (atdu_patchInformationData a) = xs @ [e]"
    using Cons.prems(1) by (simp_all add: Cons_nth_drop_Suc [symmetric] vec_at_def)
  note wf = Cons.prems(2) [simplified]
  have num: "x\<lparr>pid_tileOrder := atdu_tileOrder a, pid_patchIndex := of_nat i\<rparr> = x"
    using wf by (intro PatchInformationData.equality) simp_all
  let ?rest = "for_loop [Suc i..<length (atdu_patchInformationData a)] (atdu_patch_w hls ath a)"
  let ?y = "y\<lparr>atdu_patchInformationData := atdu_patchInformationData y @ [x]\<rparr>" and ?rst = "pid_next hls asps ath rst x"
  have w: "for_loop [i..<length (atdu_patchInformationData a)] (atdu_patch_w hls ath a)
     = (\<lambda>bs. Option.bind (bs_writeUvlc (ucast (pid_patchMode x)) bs)
          (\<lambda>bs. Option.bind (patchInformationData_w hls ath x (pid_patchMode x) bs) ?rest))"
    by (rule ext) (simp add: len upt_conv_Cons atdu_patch_w_def at num Let_def)
  have r: "atdu_patches_r hls ath (ucast (ucast (pid_patchMode x) :: uint32_t)) i rst y
     = (\<lambda>bs. Option.bind (patchInformationData_r hls ath (pid_patchMode x) rst (pid_base x) bs)
          (\<lambda>(v, bs). case v of (pid, rst) \<Rightarrow> Option.bind (bs_readUvlc bs) (\<lambda>(v, bs). atdu_patches_r hls ath (ucast v) (Suc i) rst
             (y\<lparr>atdu_patchInformationData := atdu_patchInformationData y @ [pid]\<rparr>) bs)))"
    using wf Cons.prems(3) by (intro ext, subst atdu_patches_r.simps)
      (simp add: patchMode_defs Let_def pid_base_def pid_start_def case_prod_beta')
  have "codes ?rest (\<lambda>bs. Option.bind (bs_readUvlc bs) (\<lambda>(v, bs). atdu_patches_r hls ath (ucast v) (Suc i) ?rst ?y bs))
     (y\<lparr>atdu_patchInformationData := atdu_patchInformationData y @ x # xs\<rparr>, pids_next hls asps ath (x # xs) rst)"
    using Cons.IH [OF drop, of ?rst ?y] wf Cons.prems(3) by (simp add: pids_next_def)
  then have "codes (\<lambda>bs. Option.bind (patchInformationData_w hls ath x (pid_patchMode x) bs) ?rest)
     (atdu_patches_r hls ath (ucast (ucast (pid_patchMode x) :: uint32_t)) i rst y)
     (y\<lparr>atdu_patchInformationData := atdu_patchInformationData y @ x # xs\<rparr>, pids_next hls asps ath (x # xs) rst)"
    unfolding r using wf by (intro codes_bind [OF pid_codes [OF params]]) simp_all
  then show ?case
    unfolding w by (intro codes_bind [OF codes_ue]) simp_all
qed

text \<open>The writer's data unit ends with the termination patch, which the reader does not store. A skip tile
  has no data.\<close>

definition rst_start :: "ReaderState \<Rightarrow> ReaderState" where
  "rst_start rst = rst\<lparr>rst_prevPatchSizeU := 0, rst_prevPatchSizeV := 0, rst_predPatchIndex := 0\<rparr>"

definition atdu_wf :: "PCCAtlasHighLevelSyntax \<Rightarrow> AtlasFrameParameterSetRbsp \<Rightarrow> AtlasSequenceParameterSetRbsp \<Rightarrow> AtlasTileHeader \<Rightarrow> ReaderState \<Rightarrow> AtlasTileDataUnit \<Rightarrow> bool" where
  "atdu_wf hls afps asps ath rst x \<longleftrightarrow> (let l = atdu_patchInformationData x in
     if ath_type ath = SKIP_TILE then l = []
     else l \<noteq> [] \<and> pid_patchMode (last l) = I_END
       \<and> pids_wf hls afps asps ath (atdu_tileOrder x) 0 (rst_start rst) (butlast l))"

definition atdu_result :: "AtlasTileDataUnit \<Rightarrow> AtlasTileDataUnit" where
  "atdu_result x = x\<lparr>atdu_patchInformationData := butlast (atdu_patchInformationData x)\<rparr>"

definition atdu_next :: "PCCAtlasHighLevelSyntax \<Rightarrow> AtlasSequenceParameterSetRbsp \<Rightarrow> AtlasTileHeader \<Rightarrow> ReaderState \<Rightarrow> AtlasTileDataUnit \<Rightarrow> ReaderState" where
  "atdu_next hls asps ath rst x = (if ath_type ath = SKIP_TILE then rst
     else (pids_next hls asps ath (butlast (atdu_patchInformationData x)) (rst_start rst))
       \<lparr>rst_prevFrameIndex := to_int32 (uint (atdu_tileOrder x))\<rparr>)"

lemma atdu_codes:
  assumes params: "tile_params hls ath = Some (afps, asps)" and wf: "atdu_wf hls afps asps ath rst x"
    and y: "y = atdu_new\<lparr>atdu_tileOrder := atdu_tileOrder x\<rparr>"
  shows "codes (atlasTileDataUnit_w hls ath x) (atlasTileDataUnit_r hls ath rst y) (atdu_result x, atdu_next hls asps ath rst x)"
proof (cases "ath_type ath = SKIP_TILE")
  case True
  then have "y = atdu_result x"
    using wf y by (simp add: atdu_wf_def atdu_result_def atdu_new_def)
  then show ?thesis
    unfolding atlasTileDataUnit_w_def [abs_def] atlasTileDataUnit_r_def [abs_def]
    using True by (simp add: codes_return atdu_next_def)
next
  case False
  let ?l = "atdu_patchInformationData x" and ?rst = "rst_start rst"
  have l: "drop 0 ?l = butlast ?l @ [last ?l]" using wf False by (simp add: atdu_wf_def Let_def)
  have order: "atdu_tileOrder y = atdu_tileOrder x" "atdu_patchInformationData y = []" using y by (simp_all add: atdu_new_def)
  have "codes (for_loop [0..<length ?l] (atdu_patch_w hls ath x))
     (\<lambda>bs. Option.bind (bs_readUvlc bs) (\<lambda>(v, bs). atdu_patches_r hls ath (ucast v) 0 ?rst (atdu_init y) bs))
     (atdu_result x, pids_next hls asps ath (butlast ?l) ?rst)"
    by (rule codes_result [OF atdu_patches_codes [OF params l]])
       (use wf False y in \<open>auto simp: atdu_wf_def Let_def atdu_init_def atdu_result_def intro: AtlasTileDataUnit.equality\<close>)
  from codes_map [OF this, of "\<lambda>(v, rst). (v, rst\<lparr>rst_prevFrameIndex := to_int32 (uint (atdu_tileOrder v))\<rparr>)"
      "(atdu_result x, atdu_next hls asps ath rst x)"]
  show ?thesis
    unfolding atlasTileDataUnit_w_def [abs_def] atlasTileDataUnit_r_def [abs_def]
    using False by (simp add: atdu_next_def atdu_result_def rst_start_def Let_def case_prod_beta' bind_assoc)
qed

section \<open>Round trip of the tile layer\<close>

text \<open>The reader works on the layer that \<open>addAtlasTileLayer\<close> has just appended, whose data unit carries the
  number of the tile.\<close>

definition atgl_wf :: "PCCAtlasHighLevelSyntax \<Rightarrow> NalUnitType \<Rightarrow> ReaderState \<Rightarrow> AtlasTileLayerRbsp \<Rightarrow> bool" where
  "atgl_wf hls nalUnitType rst x \<longleftrightarrow> (case tile_params hls (atgl_header x) of None \<Rightarrow> False
     | Some (afps, asps) \<Rightarrow> ath_wf nalUnitType afps asps (atgl_header x)
         \<and> atdu_wf hls afps asps (atgl_header x) rst (atgl_dataUnit x))"

definition atgl_next :: "PCCAtlasHighLevelSyntax \<Rightarrow> ReaderState \<Rightarrow> AtlasTileLayerRbsp \<Rightarrow> ReaderState" where
  "atgl_next hls rst x = atdu_next hls (snd (the (tile_params hls (atgl_header x)))) (atgl_header x) rst (atgl_dataUnit x)"

lemma atgl_codes:
  assumes wf: "atgl_wf hls nalUnitType rst x" and y: "atgl_header y = ath_new"
      "atgl_dataUnit y = atdu_new\<lparr>atdu_tileOrder := atdu_tileOrder (atgl_dataUnit x)\<rparr>"
  shows "codes (atlasTileLayerRbsp_w hls nalUnitType x) (atlasTileLayerRbsp_r hls nalUnitType rst y)
     (y\<lparr>atgl_header := atgl_header x, atgl_dataUnit := atdu_result (atgl_dataUnit x)\<rparr>, atgl_next hls rst x)"
proof -
  obtain afps asps where params: "tile_params hls (atgl_header x) = Some (afps, asps)"
    and wfs: "ath_wf nalUnitType afps asps (atgl_header x)" "atdu_wf hls afps asps (atgl_header x) rst (atgl_dataUnit x)"
    using wf by (auto simp: atgl_wf_def split: option.splits)
  have data: "codes (atlasTileDataUnit_w hls (atgl_header x) (atgl_dataUnit x)) (atlasTileDataUnit_r hls ath rst y')
     (atdu_result (atgl_dataUnit x), atgl_next hls rst x)"
    if "ath = atgl_header x" and "y' = atgl_dataUnit y" for ath y'
    using atdu_codes [OF params wfs(2)] that y by (simp add: atgl_next_def params)
  show ?thesis
    unfolding atlasTileLayerRbsp_w_def [abs_def] atlasTileLayerRbsp_r_def [abs_def]
    by ((rule ath_codes [OF params] data codec_intro refl
        | (simp (no_asm) add: wfs y; fail) | (simp add: wfs y; fail))+)
qed

end
