(* ===== verification/Examples.thy ===== *)
theory Examples
  imports TileLayer
begin

text \<open>
  Objects as the encoder makes them, with the proofs that they are well-formed. The properties are
  applied to them.
\<close>

section \<open>V3C parameter set\<close>

text \<open>One atlas with two maps, of which the second is coded relative to the first, an attribute of three
  dimensions, and extension bytes.\<close>

definition vps_example :: V3CParameterSet where
  "vps_example = vps_new\<lparr>
     vps_profileTierLevel := ptl_new\<lparr>ptl_profileCodecGroupIdc := 1, ptl_levelIdc := 30, ptl_numSubProfiles := 1, ptl_subProfileIdc := [5]\<rparr>,
     vps_v3cParameterSetId := 3, vps_atlasId := [0], vps_frameWidth := [1280], vps_frameHeight := [1296],
     vps_mapCountMinus1 := [1], vps_multipleMapStreamsPresentFlag := [True],
     vps_mapAbsoluteCodingEnableFlag := [[True, False]], vps_mapPredictorIndexDiff := [[0, 1]],
     vps_auxiliaryVideoPresentFlag := [False], vps_occupancyVideoPresentFlag := [True],
     vps_geometryVideoPresentFlag := [True], vps_attributeVideoPresentFlag := [True],
     vps_occupancyInformation := [oi_new], vps_geometryInformation := [gi_new],
     vps_attributeInformation := [\<lparr>ai_attributeCount = 1, ai_attributeTypeId = [0], ai_attributeCodecId = [1],
       ai_auxiliaryAttributeCodecId = [0], ai_attributeMapAbsoluteCodingPersistenceFlagList = [True],
       ai_attributeDimensionMinus1 = [2], ai_attributeDimensionPartitionsMinus1 = [1],
       ai_attributePartitionChannelsMinus1 = [[1, 0]], ai_Attribute2dBitdepthMinus1 = [7],
       ai_attributeMSBAlignFlag = [False]\<rparr>],
     vps_extensionPresentFlag := True, vps_extension8Bits := 128, vps_extensionLengthMinus1 := 1,
     vps_extensionDataByte := [7, 255]\<rparr>"

lemma all_less_numeral:
  "(\<forall>i < 2. P i) \<longleftrightarrow> P 0 \<and> P 1" "(\<forall>i < 3. P i) \<longleftrightarrow> P 0 \<and> P 1 \<and> P 2"
  "(\<forall>i < 4. P i) \<longleftrightarrow> P 0 \<and> P 1 \<and> P 2 \<and> P 3" for P :: "nat \<Rightarrow> bool"
  by (auto simp: numeral_eq_Suc All_less_Suc)

lemma codes_roundtrip:
  assumes "codes W R y" and "bs_inv bs"
  shows "\<exists>bs'. W bs = Some bs' \<and> bs_inv bs' \<and> R (bs_setPosition (bs_pos bs) bs') = Some (y, bs')"
proof -
  obtain bs' where w: "W bs = Some bs'" and i: "bs_inv bs'"
    and r: "\<And>fs. bs_extends fs bs' \<Longrightarrow> R (bs_setPosition (bs_pos bs) fs) = Some (y, bs_setPosition (bs_pos bs') fs)"
    using codesE [OF assms] by metis
  from r [OF bs_extends_refl [OF i]] w i show ?thesis by simp
qed

lemma bs_inv_new: "bs_inv bs_new"
  by (simp add: bs_inv_def bs_new_def lin_def)

lemma vps_example_wf: "vps_wf vps_example" and vps_other_wf: "vps_wf (vps_example\<lparr>vps_v3cParameterSetId := 4\<rparr>)"
  by (simp_all add: vps_wf_def vps_example_def vps_new_def ptl_wf_def ptl_new_def vps_atlas_wf_def vps_row_wf_def
      oi_wf_def oi_new_def gi_wf_def gi_new_def ai_wf_def ai_row_wf_def ai_rem_def Let_def All_less_Suc)

section \<open>Parameter sets of an atlas\<close>

definition rls_short :: RefListStruct where
  "rls_short = \<lparr>rls_numRefEntries = 1, rls_absDeltaAfocSt = [1], rls_afocLsbLt = [0],
     rls_stRefAtlasFrameFlag = [True], rls_strpfEntrySignFlag = [False]\<rparr>"

definition rls_long :: RefListStruct where
  "rls_long = \<lparr>rls_numRefEntries = 2, rls_absDeltaAfocSt = [2, 0], rls_afocLsbLt = [0, 77],
     rls_stRefAtlasFrameFlag = [True, False], rls_strpfEntrySignFlag = [True, False]\<rparr>"

definition plri_example :: PLRInformation where
  "plri_example = \<lparr>plri_mapEnabledFlag = True, plri_numberOfModesMinus1 = 2,
     plri_interpolateFlag = [True, False, False], plri_fillingFlag = [False, True, False],
     plri_minimumDepth = [1, 3, 0], plri_neighbourMinus1 = [2, 0, 0], plri_blockThresholdPerPatchMinus1 = 1\<rparr>"

definition asps_example :: AtlasSequenceParameterSetRbsp where
  "asps_example = asps_new\<lparr>asps_frameWidth := 1280, asps_frameHeight := 1296,
     asps_geometry2dBitdepthMinus1 := 7, asps_geometry3dBitdepthMinus1 := 9,
     asps_longTermRefAtlasFramesFlag := True, asps_numRefAtlasFrameListsInAsps := 2,
     asps_refListStruct := [rls_short, rls_long],
     asps_normalAxisMaxDeltaValueEnabledFlag := True, asps_log2PatchPackingBlockSize := 4,
     asps_patchSizeQuantizerPresentFlag := True, asps_rawPatchEnabledFlag := True,
     asps_auxiliaryVideoEnabledFlag := True, asps_PLREnabledFlag := True, asps_plrInformation := [plri_example],
     asps_extensionFlag := True, asps_vpccExtensionFlag := True, asps_extension7Bits := 0,
     asps_aspsVpccExtension := avext_new\<lparr>avext_surfaceThicknessMinus1 := 3\<rparr>\<rparr>"

lemmas asps_example_simps = asps_example_def asps_new_def plri_example_def rls_short_def rls_long_def

lemma asps_example_wf: "asps_wf asps_example"
  by (simp add: asps_wf_def asps_example_simps rls_wf_def rls_entry_wf_def rls_bitCount_def plri_wf_def avext_wf_def
      avext_new_def All_less_Suc all_less_numeral Let_def)

definition afti_example :: AtlasFrameTileInformation where
  "afti_example = afti_new\<lparr>afti_singlePartitionPerTileFlag := 1, afti_numPartitionColumnsMinus1 := 1,
     afti_partitionColumnWidthMinus1 := [9], afti_partitionRowHeightMinus1 := [20],
     afti_numTilesInAtlasFrameMinus1 := 1, afti_topLeftPartitionIdx := [0, 1],
     afti_bottomRightPartitionColumnOffset := [0, 0], afti_bottomRightPartitionRowOffset := [0, 0],
     afti_tileId := [0, 1], afti_auxiliaryVideoTileRowWidthMinus1 := 3, afti_auxiliaryVideoTileRowHeight := [2, 0]\<rparr>"

lemma afti_example_wf: "afti_wf asps_example afti_example"
  by (simp add: afti_wf_def afti_partitions_wf_def afti_tiles_wf_def afti_uniformCount_def afti_numPartitions_def afti_idxBits_def
      afti_example_def afti_new_def asps_example_simps Let_def All_less_Suc all_less_numeral)

definition afps_example :: AtlasFrameParameterSetRbsp where
  "afps_example = afps_new\<lparr>afps_atlasFrameTileInformation := afti_example, afps_outputFlagPresentFlag := True,
     afps_numRefIdxDefaultActiveMinus1 := 1, afps_additionalLtAfocLsbLen := 3, afps_lodModeEnableFlag := True,
     afps_raw3doffsetBitCountExplicitModeFlag := True\<rparr>"

lemma afps_example_wf: "afps_wf f afps_example" if "f 0 = Some asps_example"
  using that afti_example_wf by (simp add: afps_wf_def afps_example_def afps_new_def)

definition aaps_example :: AtlasAdaptationParameterSetRbsp where
  "aaps_example = aaps_new\<lparr>aaps_extensionFlag := True, aaps_vpccExtensionFlag := True,
     aaps_aapsVpccExtension := aavext_new\<lparr>aavext_cameraParametersPresentFlag := True,
       aavext_atlasCameraParameters := acp_new\<lparr>acp_cameraModel := 1, acp_rotationEnabledFlag := True, acp_rotation := [5, - 7, 0]\<rparr>\<rparr>\<rparr>"

lemma aaps_example_wf: "aaps_wf aaps_example"
  by (simp add: aaps_wf_def aavext_wf_def acp_wf_def aaps_example_def aaps_new_def aavext_new_def acp_new_def i_range_def
      all_less_numeral)

section \<open>A tile of each kind\<close>

definition plrd_example :: PLRData where
  "plrd_example = \<lparr>plrd_blockToPatchMapHeight = 2, plrd_blockToPatchMapWidth = 2, plrd_levelFlag = False, plrd_presentFlag = False,
     plrd_modeMinus1 = 0, plrd_blockPresentFlag = [True, False, False, True], plrd_blockModeMinus1 = [1, 0, 0, 0]\<rparr>"

definition pdu_example :: PatchDataUnit where
  "pdu_example = pdu_new\<lparr>pdu_pos2dX := 3, pdu_pos2dY := 4, pdu_size2dXMinus1 := 1, pdu_size2dYMinus1 := 1,
     pdu_pos3dOffsetU := 100, pdu_pos3dOffsetV := 200, pdu_pos3dOffsetD := 5, pdu_pos3dRangeD := 10,
     pdu_projectionId := 2, pdu_orientationIndex := 1, pdu_lodEnableFlag := True, pdu_lodScaleXminus1 := 1, pdu_lodScaleYIdc := 2,
     pdu_pointLocalReconstructionData := plrd_example\<rparr>"

definition ath_intra :: AtlasTileHeader where
  "ath_intra = ath_new\<lparr>ath_type := I_TILE, ath_atlasAdaptationParameterSetId := 1, ath_atlasOutputFlag := True, ath_atlasFrmOrderCntLsb := 16,
     ath_refListStruct := rls_short, ath_posMinDQuantizer := 3, ath_posDeltaMaxDQuantizer := 2,
     ath_patchSizeXinfoQuantizer := 4, ath_patchSizeYinfoQuantizer := 4, ath_raw3dOffsetAxisBitCountMinus1 := 5,
     ath_tileNaluTypeInfo := 1\<rparr>"

definition atgl_intra :: AtlasTileLayerRbsp where
  "atgl_intra = atgl_new\<lparr>atgl_header := ath_intra, atgl_dataUnit := \<lparr>atdu_tileOrder = 0, atdu_patchInformationData =
     [pid_new\<lparr>pid_patchMode := I_INTRA, pid_patchDataUnit := pdu_example\<rparr>, pid_new\<lparr>pid_patchMode := I_END\<rparr>]\<rparr>\<rparr>"

text \<open>The videos of the parameter set above: occupancy, the geometry of two maps, and two partitions of one attribute for
  two maps. The occupancy video is much longer than the other parts of the stream.\<close>

definition videos_example :: "PCCVideoBitstream list" where
  "videos_example = \<lparr>vb_data = replicate 300000 1, vb_type = 0\<rparr> # map (\<lambda>v. \<lparr>vb_data = [1, 2, 3], vb_type = v\<rparr>) [2, 3, 20, 84, 21, 85]"

text \<open>The store after the first tile; the second tile refers to the first.\<close>

definition hls_example :: PCCAtlasHighLevelSyntax where
  "hls_example = hls_new\<lparr>hls_atlasSequenceParameterSet := [asps_example], hls_atlasFrameParameterSet := [afps_example],
     hls_atlasTileLayer := [atgl_intra], hls_videoBitstream := videos_example\<rparr>"

definition ath_inter :: AtlasTileHeader where
  "ath_inter = ath_intra\<lparr>ath_type := P_TILE, ath_atlasFrmOrderCntLsb := 17,
     ath_refAtlasFrameListSpsFlag := True, ath_refAtlasFrameListIdx := 1, ath_refListStruct := rls_long,
     ath_additionalAfocLsbPresentFlag := [True], ath_additionalAfocLsbVal := [5],
     ath_numRefIdxActiveOverrideFlag := True, ath_numRefIdxActiveMinus1 := 1\<rparr>"

definition mpdu_example :: MergePatchDataUnit where
  "mpdu_example = mpdu_new\<lparr>mpdu_refIndex := 1, mpdu_override3dParamsFlag := True, mpdu_pos3dOffsetU := - 4,
     mpdu_pos3dOffsetV := 9, mpdu_pos3dOffsetD := 1, mpdu_pos3dRangeD := - 2, mpdu_tileOrder := 1, mpdu_patchIndex := 0\<rparr>"

definition ipdu_example :: InterPatchDataUnit where
  "ipdu_example = ipdu_new\<lparr>ipdu_refIndex := 1, ipdu_refPatchIndex := 0, ipdu_pos2dX := - 1, ipdu_pos2dY := 2,
     ipdu_delta2dSizeX := 0, ipdu_delta2dSizeY := 0, ipdu_pos3dOffsetU := 7, ipdu_pos3dOffsetV := - 8, ipdu_pos3dOffsetD := 3,
     ipdu_pos3dRangeD := 1, ipdu_tileOrder := 1, ipdu_patchIndex := 1, ipdu_pointLocalReconstructionData := plrd_example\<rparr>"

definition rpdu_example :: RawPatchDataUnit where
  "rpdu_example = rpdu_new\<lparr>rpdu_patchInAuxiliaryVideoFlag := True, rpdu_pos2dX := 1, rpdu_pos2dY := 2, rpdu_size2dXMinus1 := 3,
     rpdu_pos3dOffsetU := 33, rpdu_pos3dOffsetV := 44, rpdu_pos3dOffsetD := 55, rpdu_rawPointsMinus1 := 499,
     rpdu_tileOrder := 1, rpdu_patchIndex := 2\<rparr>"

definition epdu_example :: EOMPatchDataUnit where
  "epdu_example = epdu_new\<lparr>epdu_pos2dX := 6, epdu_size2dXMinus1 := 1, epdu_patchCountMinus1 := 1,
     epdu_associatedPatchesIdx := [0, 2], epdu_points := [17, 1000], epdu_tileIndex := 1, epdu_patchIndex := 3\<rparr>"

definition atdu_inter :: AtlasTileDataUnit where
  "atdu_inter = \<lparr>atdu_tileOrder = 1, atdu_patchInformationData =
     [pid_new\<lparr>pid_tileOrder := 1, pid_patchMode := P_MERGE, pid_mergePatchDataUnit := mpdu_example\<rparr>,
      pid_new\<lparr>pid_tileOrder := 1, pid_patchIndex := 1, pid_patchMode := P_INTER, pid_interPatchDataUnit := ipdu_example\<rparr>,
      pid_new\<lparr>pid_tileOrder := 1, pid_patchIndex := 2, pid_patchMode := P_RAW, pid_rawPatchyDataUnit := rpdu_example\<rparr>,
      pid_new\<lparr>pid_tileOrder := 1, pid_patchIndex := 3, pid_patchMode := P_EOM, pid_eomPatchDataUnit := epdu_example\<rparr>,
      pid_new\<lparr>pid_tileOrder := 1, pid_patchIndex := 4, pid_patchMode := P_INTRA,
        pid_patchDataUnit := pdu_example\<lparr>pdu_tileOrder := 1, pdu_patchIndex := 4\<rparr>\<rparr>,
      pid_new\<lparr>pid_patchMode := P_END\<rparr>]\<rparr>"

definition atgl_inter :: AtlasTileLayerRbsp where
  "atgl_inter = atgl_new\<lparr>atgl_header := ath_inter, atgl_dataUnit := atdu_inter, atgl_tileOrder := 1\<rparr>"

lemma hls_example_afps: "hls_getAfps hls_example 0 = Some afps_example"
  and hls_example_asps: "hls_getAsps hls_example 0 = Some asps_example"
  by (simp_all add: hls_example_def hls_getAfps_def hls_getAsps_def)

lemma tile_params_example:
  "ath_atlasFrameParameterSetId ath = 0 \<Longrightarrow> tile_params hls_example ath = Some (afps_example, asps_example)"
  by (simp add: tile_params_def hls_example_afps hls_example_asps afps_example_def afps_new_def)

lemma ath_inter_params: "tile_params hls_example ath_inter = Some (afps_example, asps_example)"
  by (rule tile_params_example) (simp add: ath_inter_def ath_intra_def ath_new_def)

lemma plrd_example_wf: "plrd_wf asps_example plrd_example"
  by (simp add: plrd_wf_def plrd_shape_def plrd_map_wf_def plrd_blockCount_def plri_bitCountMode_def ceilLog2_def floorLog2_def
      plrd_example_def asps_example_simps Let_def All_less_Suc all_less_numeral highest_bit.simps) blast

lemma example_bits:
  "bitCountUV asps_example = 10" "projectionBits asps_example = 3" "orientationBits asps_example = 1" "rls_bitCount asps_example = 8"
  "rawOffsetBits asps_example = 3" "refListIdxBits asps_example = 1"
  by (simp_all add: bitCountUV_def projectionBits_def orientationBits_def rls_bitCount_def rawOffsetBits_def refListIdxBits_def
      ceilLog2_def floorLog2_def highest_bit.simps asps_example_simps)

lemma example_depth_bits:
  assumes "ath_posMinDQuantizer ath = 3" and "ath_posDeltaMaxDQuantizer ath = 2"
  shows "bitCountD asps_example ath = 7" "bitCountForMaxDepth asps_example ath = 6"
  using assms by (simp_all add: bitCountD_def bitCountForMaxDepth_def asps_example_simps)

lemma pdu_example_wf:
  assumes "ath_posMinDQuantizer ath = 3" and "ath_posDeltaMaxDQuantizer ath = 2"
  shows "pdu_wf afps_example asps_example ath pdu_example"
  using plrd_example_wf
  by (simp add: pdu_wf_def example_bits example_depth_bits [OF assms] pdu_example_def pdu_new_def)
     (simp add: plrd_example_def asps_example_def asps_new_def afps_example_def afps_new_def)

lemma ath_inter_fields:
  "ath_noOutputOfPriorAtlasFramesFlag ath_inter = False" "ath_tileNaluTypeInfo ath_inter = 1" "ath_id ath_inter = 0"
  "ath_atlasFrameParameterSetId ath_inter = 0" "ath_frameIndex ath_inter = 0" "ath_type ath_inter = P_TILE"
  "ath_atlasFrmOrderCntLsb ath_inter = 17" "ath_refAtlasFrameListSpsFlag ath_inter" "ath_refAtlasFrameListIdx ath_inter = 1"
  "ath_refListStruct ath_inter = rls_long" "ath_additionalAfocLsbPresentFlag ath_inter = [True]" "ath_additionalAfocLsbVal ath_inter = [5]"
  "ath_posMinDQuantizer ath_inter = 3" "ath_posDeltaMaxDQuantizer ath_inter = 2" "ath_patchSizeXinfoQuantizer ath_inter = 4"
  "ath_patchSizeYinfoQuantizer ath_inter = 4" "ath_raw3dOffsetAxisBitCountMinus1 ath_inter = 5"
  "ath_numRefIdxActiveOverrideFlag ath_inter" "ath_numRefIdxActiveMinus1 ath_inter = 1"
  by (simp_all add: ath_inter_def ath_intra_def ath_new_def)

lemma asps_example_fields:
  "asps_normalAxisLimitsQuantizationEnabledFlag asps_example" "asps_normalAxisMaxDeltaValueEnabledFlag asps_example"
  "asps_patchSizeQuantizerPresentFlag asps_example" "asps_numRefAtlasFrameListsInAsps asps_example = 2"
  "asps_refListStruct asps_example = [rls_short, rls_long]" "asps_PLREnabledFlag asps_example"
  by (simp_all add: asps_example_def asps_new_def)

lemma afps_example_fields:
  "afps_outputFlagPresentFlag afps_example" "afps_additionalLtAfocLsbLen afps_example = 3" "afps_lodModeEnableFlag afps_example"
  "afps_raw3doffsetBitCountExplicitModeFlag afps_example" "afps_atlasFrameTileInformation afps_example = afti_example"
  "afti_signalledTileIdFlag afti_example = False" "afti_numTilesInAtlasFrameMinus1 afti_example = 1" "tileIdBits afti_example = 1"
  by (simp_all add: afps_example_def afps_new_def afti_example_def afti_new_def tileIdBits_def ceilLog2_def floorLog2_def)

lemmas example_fields = ath_inter_fields asps_example_fields afps_example_fields

lemma rls_long_numLtr: "rls_numLtr rls_long = Some 1"
  by (simp add: rls_numLtr_def rls_long_def upt_rec)

lemma ath_inter_wf: "ath_wf NAL_TRAIL_R afps_example asps_example ath_inter"
  by (simp add: ath_wf_def ath_lsb_wf_def ath_quantizers_wf_def Let_def example_bits example_fields rls_long_numLtr naluTypeInfo_def)
     (simp add: rls_long_def)

text \<open>The patches of the second tile.\<close>

lemma inter_refs: "hls_getNumRefIdxActive hls_example ath_inter = Some 2"
  by (simp add: hls_getNumRefIdxActive_def hls_example_afps example_fields)

lemma inter_height: "auxiliaryHeight hls_example ath_inter = Some 2"
  by (simp add: auxiliaryHeight_def hls_example_afps example_fields) (simp add: afti_example_def)

lemma mpdu_example_wf: "mpdu_wf asps_example 2 rst mpdu_example"
  by (simp add: mpdu_wf_def mpdu_example_def mpdu_new_def asps_example_fields int32_in_def)

lemma mpdu_example_next: "mpdu_next asps_example rst mpdu_example = rst"
  by (simp add: mpdu_next_def mpdu_example_def mpdu_new_def)

lemma ipdu_example_size:
  assumes "rst_prevFrameIndex rst = 0" and "rst_predPatchIndex rst = 0"
  shows "interPatch_size hls_example rst ipdu_example = Some (2, 2)"
  using assms
  by (simp add: interPatch_size_def hls_example_def atgl_intra_def ipdu_example_def ipdu_new_def to_int32_def refPatch_plrd_def
      ath_intra_def pdu_example_def plrd_example_def patchMode_defs Let_def)

lemma ipdu_example_wf:
  assumes "rst_prevFrameIndex rst = 0" and "rst_predPatchIndex rst = 0"
  shows "ipdu_wf hls_example asps_example 2 rst ipdu_example"
  using plrd_example_wf
  by (simp add: ipdu_wf_def ipdu_example_size [OF assms] asps_example_fields)
     (simp add: ipdu_example_def ipdu_new_def plrd_example_def int32_in_def)

lemma rpdu_example_wf: "rpdu_wf 2 ath_inter rpdu_example"
  by (simp add: rpdu_wf_def rawBits_def example_fields rpdu_example_def rpdu_new_def)

lemma epdu_example_wf: "epdu_wf 2 epdu_example"
  by (simp add: epdu_wf_def epdu_example_def epdu_new_def)

lemma pid_base_eq:
  "pid_base x = pid_new\<lparr>pid_patchMode := pid_patchMode x, pid_tileOrder := pid_tileOrder x, pid_patchIndex := pid_patchIndex x\<rparr>"
  by (simp add: pid_base_def pid_start_def)

lemma example_numbers:
  "mpdu_tileOrder mpdu_example = 1" "mpdu_patchIndex mpdu_example = 0" "ipdu_tileOrder ipdu_example = 1" "ipdu_patchIndex ipdu_example = 1"
  "rpdu_tileOrder rpdu_example = 1" "rpdu_patchIndex rpdu_example = 2" "epdu_tileIndex epdu_example = 1" "epdu_patchIndex epdu_example = 3"
  by (simp_all add: mpdu_example_def ipdu_example_def rpdu_example_def epdu_example_def)

lemma pdu_numbered_wf:
  assumes "pdu_wf afps asps ath x"
  shows "pdu_wf afps asps ath (x\<lparr>pdu_tileOrder := t, pdu_patchIndex := i\<rparr>)"
  using assms by (simp add: pdu_wf_def)

lemmas pid_example_simps = pid_wf_def pid_merge_wf_def pid_inter_wf_def pid_raw_wf_def pid_eom_wf_def pid_intra_wf_def pid_base_eq
  example_fields inter_refs inter_height example_numbers Let_def

lemma atdu_inter_wf:
  assumes "rst_prevFrameIndex rst = 0"
  shows "atdu_wf hls_example afps_example asps_example ath_inter rst atdu_inter"
proof -
  have rst: "rst_prevFrameIndex (rst_start rst) = 0" "rst_predPatchIndex (rst_start rst) = 0"
    using assms by (simp_all add: rst_start_def)
  have pdu: "pdu_wf afps_example asps_example ath_inter (pdu_example\<lparr>pdu_tileOrder := 1, pdu_patchIndex := 4\<rparr>)"
    by (intro pdu_numbered_wf pdu_example_wf) (simp_all add: example_fields)
  show ?thesis
    by (simp add: atdu_wf_def atdu_inter_def example_fields Let_def pid_next_def mpdu_example_next patchMode_defs pid_new_def)
       (simp add: pid_example_simps pid_new_def patchMode_defs mpdu_example_wf ipdu_example_wf [OF rst] rpdu_example_wf epdu_example_wf pdu)
qed

lemma atgl_inter_wf: "atgl_wf hls_example NAL_TRAIL_R rst_new atgl_inter"
  using ath_inter_wf atdu_inter_wf [of rst_new]
  by (simp add: atgl_wf_def atgl_inter_def ath_inter_params rst_new_def)

end
