(* ===== verification/Blocks.thy ===== *)
theory Blocks
  imports Codec
begin

unbundle bit_operations_syntax

text \<open>
  Byte aligned streams. Unit payloads and videos are copied as blocks of bytes at an aligned position;
  \<open>blocks W R n y\<close> is the write/read judgement for such streams, with the number \<open>n\<close> of bytes the writer
  appends. The interface \<open>block_stream\<close> is a sequence of non-empty blocks that is read until the data end.
\<close>

section \<open>Loops over lists\<close>

lemma for_loop_map: "for_loop (map g is) f = for_loop is (\<lambda>i. f (g i))"
proof (induction "is")
  case (Cons i "is")
  then show ?case by (intro ext) simp
qed simp

lemma for_loop_index:
  assumes "\<And>k. k < length xs \<Longrightarrow> F k = f (xs ! k)"
  shows "for_loop [0..<length xs] F s = for_loop xs f s"
proof -
  have "for_loop is F = for_loop is (\<lambda>i. f (xs ! i))" if "\<And>i. i \<in> set is \<Longrightarrow> F i = f (xs ! i)" for "is"
    using that
  proof (induction "is")
    case (Cons i "is")
    then show ?case by (intro ext) simp
  qed simp
  from this [of "[0..<length xs]"] have "for_loop [0..<length xs] F s = for_loop [0..<length xs] (\<lambda>i. f (xs ! i)) s"
    using assms by simp
  also have "\<dots> = for_loop (map (nth xs) [0..<length xs]) f s" by (simp only: for_loop_map)
  finally show ?thesis by (simp add: map_nth)
qed

text \<open>A loop with an index at which its body has no result has none.\<close>

lemma for_loop_None:
  assumes "i \<in> set is" and "P s" and "\<And>j s s'. P s \<Longrightarrow> f j s = Some s' \<Longrightarrow> P s'" and "\<And>s. P s \<Longrightarrow> f i s = None"
  shows "for_loop is f s = None"
  using assms(1,2)
proof (induction "is" arbitrary: s)
  case (Cons j "is")
  show ?case
  proof (cases "f j s")
    case (Some t)
    then have "i \<in> set is" using Cons.prems assms(4) by auto
    then show ?thesis using Cons.IH assms(3) [OF Cons.prems(2) Some] Some by simp
  qed simp
qed simp

section \<open>Blocks of bytes\<close>

lemma bit_at_byte:
  assumes "j < 8"
  shows "bit (d ! i) j = bit_at d (8 * i + (7 - j))"
proof -
  define r where "r = 7 - j"
  have "r < 8" and "j = 7 - r" using assms by (simp_all add: r_def)
  then show ?thesis by (simp add: bit_at_def r_def [symmetric])
qed

lemma bytes_eqI:
  fixes d e :: "uint8_t list"
  assumes "n \<le> length d" and "n \<le> length e" and "\<And>k. k < 8 * n \<Longrightarrow> bit_at d k = bit_at e k"
  shows "take n d = take n e"
proof (rule nth_take_lemma [OF assms(1,2)])
  fix i
  have "d ! i = e ! i" if i: "i < n"
  proof (rule bit_word_eqI)
    fix j assume "j < LENGTH(8)"
    then show "bit (d ! i) j \<longleftrightarrow> bit (e ! i) j"
      using i by (simp add: bit_at_byte assms(3))
  qed
  then show "i < n \<longrightarrow> d ! i = e ! i" by simp
qed

text \<open>On an aligned stream, the invariant and the extension order are statements about bytes.\<close>

lemma bs_extends_bytes:
  assumes "bs_byteAligned bs" and "bs_size bs \<le> length (bs_data bs)"
  shows "bs_extends fs bs \<longleftrightarrow> bs_size bs \<le> length (bs_data fs) \<and> take (bs_size bs) (bs_data fs) = take (bs_size bs) (bs_data bs)"
proof -
  have lin: "lin (bs_pos bs) = 8 * bs_size bs" using assms(1) by (simp add: lin_def bs_byteAligned_def bs_size_def)
  have "bit_at (bs_data fs) k = bit_at (bs_data bs) k"
    if "take (bs_size bs) (bs_data fs) = take (bs_size bs) (bs_data bs)" and "k < 8 * bs_size bs" for k
  proof -
    have "k div 8 < bs_size bs" using that(2) by simp
    then have "bs_data fs ! (k div 8) = bs_data bs ! (k div 8)" using that(1) by (metis nth_take)
    then show ?thesis by (simp add: bit_at_def)
  qed
  then show ?thesis
    using assms(2) by (auto simp: bs_extends_def lin intro!: bytes_eqI)
qed

lemma bs_inv_bytes:
  assumes "bs_byteAligned bs"
  shows "bs_inv bs \<longleftrightarrow> bs_size bs \<le> length (bs_data bs) \<and> (\<forall>i. bs_size bs \<le> i \<longrightarrow> i < length (bs_data bs) \<longrightarrow> bs_data bs ! i = 0)"
proof -
  have lin: "lin (bs_pos bs) = 8 * bs_size bs" using assms by (simp add: lin_def bs_byteAligned_def bs_size_def)
  have "bs_data bs ! i = 0"
    if "\<forall>k. 8 * bs_size bs \<le> k \<longrightarrow> k < 8 * length (bs_data bs) \<longrightarrow> \<not> bit_at (bs_data bs) k"
      and "bs_size bs \<le> i" and "i < length (bs_data bs)" for i
  proof (rule bit_word_eqI)
    fix j assume "j < LENGTH(8)"
    then show "bit (bs_data bs ! i) j = bit 0 j" using that by (simp add: bit_at_byte)
  qed
  moreover have "\<not> bit_at (bs_data bs) k"
    if "\<forall>i. bs_size bs \<le> i \<longrightarrow> i < length (bs_data bs) \<longrightarrow> bs_data bs ! i = 0"
      and "8 * bs_size bs \<le> k" and "k < 8 * length (bs_data bs)" for k
  proof -
    have "bs_size bs \<le> k div 8" and "k div 8 < length (bs_data bs)" using that(2,3) by simp_all
    then show ?thesis using that(1) by (simp add: bit_at_def)
  qed
  ultimately show ?thesis
    using assms unfolding bs_inv_def lin bs_byteAligned_def by auto
qed

definition blocks ::
  "(PCCBitstream \<Rightarrow> PCCBitstream option) \<Rightarrow> (PCCBitstream \<Rightarrow> ('a \<times> PCCBitstream) option) \<Rightarrow> nat \<Rightarrow> 'a \<Rightarrow> bool" where
  "blocks W R n y \<longleftrightarrow> (\<forall>bs. bs_inv bs \<longrightarrow> bs_byteAligned bs \<longrightarrow>
     (\<exists>bs'. W bs = Some bs' \<and> bs_inv bs' \<and> bs_byteAligned bs' \<and> bs_extends bs' bs \<and> bs_size bs' = bs_size bs + n
       \<and> (\<forall>fs. bs_extends fs bs' \<longrightarrow> R (bs_setPosition (bs_pos bs) fs) = Some (y, bs_setPosition (bs_pos bs') fs))))"

lemma blocksI:
  assumes "\<And>bs. bs_inv bs \<Longrightarrow> bs_byteAligned bs \<Longrightarrow>
     \<exists>bs'. W bs = Some bs' \<and> bs_inv bs' \<and> bs_byteAligned bs' \<and> bs_extends bs' bs \<and> bs_size bs' = bs_size bs + n
       \<and> (\<forall>fs. bs_extends fs bs' \<longrightarrow> R (bs_setPosition (bs_pos bs) fs) = Some (y, bs_setPosition (bs_pos bs') fs))"
  shows "blocks W R n y"
  using assms by (simp add: blocks_def)

lemma blocksE:
  assumes "blocks W R n y" and "bs_inv bs" and "bs_byteAligned bs"
  obtains bs' where "W bs = Some bs'" and "bs_inv bs'" and "bs_byteAligned bs'" and "bs_extends bs' bs"
    and "bs_size bs' = bs_size bs + n"
    and "\<And>fs. bs_extends fs bs' \<Longrightarrow> R (bs_setPosition (bs_pos bs) fs) = Some (y, bs_setPosition (bs_pos bs') fs)"
  using assms unfolding blocks_def by blast

lemma lin_aligned: "bs_byteAligned bs \<Longrightarrow> lin (bs_pos bs) = 8 * bs_size bs"
  by (simp add: lin_def bs_byteAligned_def bs_size_def)

text \<open>A code whose writer appends \<open>8 * n\<close> bits is a block of \<open>n\<close> bytes.\<close>

lemma blocks_codes:
  assumes "codes W R y" and "\<And>bs bs'. bs_inv bs \<Longrightarrow> W bs = Some bs' \<Longrightarrow> lin (bs_pos bs') = lin (bs_pos bs) + 8 * n"
  shows "blocks W R n y"
proof (rule blocksI)
  fix bs assume bs: "bs_inv bs" "bs_byteAligned bs"
  obtain bs' where w: "W bs = Some bs'" "bs_inv bs'" "bs_extends bs' bs"
    and r: "\<And>fs. bs_extends fs bs' \<Longrightarrow> R (bs_setPosition (bs_pos bs) fs) = Some (y, bs_setPosition (bs_pos bs') fs)"
    by (rule codesE [OF assms(1) bs(1)]) blast
  have "8 * pos_bytes (bs_pos bs') + pos_bits (bs_pos bs') = 8 * (bs_size bs + n)"
    using assms(2) [OF bs(1) w(1)] lin_aligned [OF bs(2)] by (simp add: lin_def)
  moreover have "pos_bits (bs_pos bs') < 8" using w(2) by (simp add: bs_inv_def)
  ultimately have "pos_bits (bs_pos bs') = 0" and "pos_bytes (bs_pos bs') = bs_size bs + n"
    by presburger+
  with w r show "\<exists>bs'. W bs = Some bs' \<and> bs_inv bs' \<and> bs_byteAligned bs' \<and> bs_extends bs' bs \<and> bs_size bs' = bs_size bs + n
       \<and> (\<forall>fs. bs_extends fs bs' \<longrightarrow> R (bs_setPosition (bs_pos bs) fs) = Some (y, bs_setPosition (bs_pos bs') fs))"
    by (simp add: bs_byteAligned_def bs_size_def)
qed

lemma blocks_bind:
  assumes 1: "blocks W1 R1 m y1" and 2: "blocks W2 (R2 y1) n y2"
  shows "blocks (\<lambda>bs. Option.bind (W1 bs) W2) (\<lambda>bs. Option.bind (R1 bs) (\<lambda>(v, bs). R2 v bs)) (m + n) y2"
proof (rule blocksI)
  fix bs assume inv: "bs_inv bs" and al: "bs_byteAligned bs"
  obtain bs1 where w1: "W1 bs = Some bs1" "bs_inv bs1" "bs_byteAligned bs1" "bs_extends bs1 bs" "bs_size bs1 = bs_size bs + m"
    and r1: "\<And>fs. bs_extends fs bs1 \<Longrightarrow> R1 (bs_setPosition (bs_pos bs) fs) = Some (y1, bs_setPosition (bs_pos bs1) fs)"
    by (rule blocksE [OF 1 inv al]) blast
  obtain bs2 where w2: "W2 bs1 = Some bs2" "bs_inv bs2" "bs_byteAligned bs2" "bs_extends bs2 bs1" "bs_size bs2 = bs_size bs1 + n"
    and r2: "\<And>fs. bs_extends fs bs2 \<Longrightarrow> R2 y1 (bs_setPosition (bs_pos bs1) fs) = Some (y2, bs_setPosition (bs_pos bs2) fs)"
    by (rule blocksE [OF 2 w1(2,3)]) blast
  have le: "lin (bs_pos bs) \<le> lin (bs_pos bs1)" "lin (bs_pos bs1) \<le> lin (bs_pos bs2)"
    using al w1(3,5) w2(3,5) by (simp_all add: lin_aligned)
  have "bs_extends bs2 bs" using w2(4) w1(4) le(1) by (rule bs_extends_trans)
  moreover have "Option.bind (R1 (bs_setPosition (bs_pos bs) fs)) (\<lambda>(v, bs). R2 v bs) = Some (y2, bs_setPosition (bs_pos bs2) fs)"
    if "bs_extends fs bs2" for fs
    using r1 [OF bs_extends_trans [OF that w2(4) le(2)]] r2 [OF that] by simp
  ultimately show "\<exists>bs'. Option.bind (W1 bs) W2 = Some bs' \<and> bs_inv bs' \<and> bs_byteAligned bs' \<and> bs_extends bs' bs
       \<and> bs_size bs' = bs_size bs + (m + n)
       \<and> (\<forall>fs. bs_extends fs bs' \<longrightarrow> Option.bind (R1 (bs_setPosition (bs_pos bs) fs)) (\<lambda>(v, bs). R2 v bs)
              = Some (y2, bs_setPosition (bs_pos bs') fs))"
    using w1 w2 by simp
qed

lemma bs_write_lin:
  assumes "bs_inv bs" and "bs_write v n bs = Some bs'" and "n \<le> 32"
  shows "lin (bs_pos bs') = lin (bs_pos bs) + n"
  using bs_write_bits [OF assms(1,3), of v] assms(2) by auto

lemma blocks_u:
  assumes "n \<le> 4" and "unat v < 2 ^ (8 * n)"
  shows "blocks (bs_write v (8 * n)) (bs_read (8 * n)) n v"
  using assms by (intro blocks_codes codes_u) (auto intro: bs_write_lin)

lemma blocks_map:
  assumes "blocks W R n y" and "\<And>bs. F y bs = Some (z, bs)"
  shows "blocks W (\<lambda>bs. Option.bind (R bs) (\<lambda>(v, bs). F v bs)) n z"
  using assms unfolding blocks_def by fastforce

lemma blocks_W: "(\<And>bs. bs_inv bs \<Longrightarrow> bs_byteAligned bs \<Longrightarrow> W' bs = W bs) \<Longrightarrow> blocks W R n y \<Longrightarrow> blocks W' R n y"
  by (simp add: blocks_def)

section \<open>Copies between streams\<close>

lemma bs_copyFrom_Some:
  assumes "n \<le> length (bs_data src)" and "bs_size bs \<le> length (bs_data bs)"
  shows "\<exists>d. bs_copyFrom src 0 n bs = Some (bs_skip n (bs\<lparr>bs_data := d\<rparr>), bs_skip n src)
    \<and> bs_size bs + n \<le> length d \<and> take (bs_size bs + n) d = take (bs_size bs) (bs_data bs) @ take n (bs_data src)
    \<and> (\<forall>i. bs_size bs + n \<le> i \<longrightarrow> i < length d \<longrightarrow> i < length (bs_data bs) \<and> d ! i = bs_data bs ! i)"
proof -
  let ?p = "bs_size bs"
  define e where "e = (if length (bs_data bs) < ?p + n then vec_resize (?p + n) 0 (bs_data bs) else bs_data bs)"
  let ?d = "take ?p e @ take n (bs_data src) @ drop (?p + n) e"
  have len: "?p + n \<le> length e" by (simp add: e_def)
  have tk: "take ?p e = take ?p (bs_data bs)" using assms(2) by (simp add: e_def vec_resize_def)
  have "bs_copyFrom src 0 n bs = Some (bs_skip n (bs\<lparr>bs_data := ?d\<rparr>), bs_skip n src)"
    using assms(1) len by (simp add: bs_copyFrom_def memcpy_from_def memcpy_at_def bs_size_def e_def Let_def)
  moreover have "take (?p + n) ?d = take ?p (bs_data bs) @ take n (bs_data src)"
    using len assms by (simp add: tk)
  moreover have "i < length (bs_data bs) \<and> ?d ! i = bs_data bs ! i" if "?p + n \<le> i" and "i < length ?d" for i
  proof -
    have i: "i < length e" using that(2) len assms(1) by simp
    then have "e = bs_data bs" using that(1) by (auto simp: e_def split: if_splits)
    moreover have "?d ! i = drop (?p + n) e ! (i - (?p + n))"
      using that(1) len assms(1) by (auto simp: nth_append)
    moreover have "\<dots> = e ! i" using that(1) len by simp
    ultimately show ?thesis using i by metis
  qed
  ultimately show ?thesis using len assms by (intro exI [of _ ?d]) simp
qed

lemma bs_skip_sel [simp]:
  "bs_data (bs_skip n bs) = bs_data bs" "bs_size (bs_skip n bs) = bs_size bs + n" "bs_byteAligned (bs_skip n bs) = bs_byteAligned bs"
  by (simp_all add: bs_skip_def bs_size_def bs_byteAligned_def)

lemma bs_size_data [simp]: "bs_size (bs\<lparr>bs_data := d\<rparr>) = bs_size bs" "bs_byteAligned (bs\<lparr>bs_data := d\<rparr>) = bs_byteAligned bs"
  by (simp_all add: bs_size_def bs_byteAligned_def)

text \<open>A writer that puts the bytes \<open>src\<close> at the position and leaves zero bytes behind them.\<close>

definition puts_bytes :: "uint8_t list \<Rightarrow> PCCBitstream \<Rightarrow> PCCBitstream \<Rightarrow> bool" where
  "puts_bytes src bs bs' \<longleftrightarrow> (\<exists>d. bs' = bs_skip (length src) (bs\<lparr>bs_data := d\<rparr>) \<and> bs_size bs + length src \<le> length d
     \<and> take (bs_size bs + length src) d = take (bs_size bs) (bs_data bs) @ src
     \<and> (\<forall>i. bs_size bs + length src \<le> i \<longrightarrow> i < length d \<longrightarrow> d ! i = 0))"

lemma blocks_append:
  assumes W: "\<And>bs. bs_inv bs \<Longrightarrow> bs_byteAligned bs \<Longrightarrow> \<exists>bs'. W bs = Some bs' \<and> puts_bytes src bs bs'"
    and R: "\<And>p fs. take (length src) (drop p (bs_data fs)) = src \<Longrightarrow> p + length src \<le> length (bs_data fs) \<Longrightarrow>
        bs_pos fs = \<lparr>pos_bytes = p, pos_bits = 0\<rparr> \<Longrightarrow> R fs = Some (y, bs_skip (length src) fs)"
  shows "blocks W R (length src) y"
proof (rule blocksI)
  fix bs assume inv: "bs_inv bs" and al: "bs_byteAligned bs"
  let ?p = "bs_size bs" and ?n = "length src"
  have sz: "?p \<le> length (bs_data bs)" using inv al by (simp add: bs_inv_bytes)
  obtain d where w: "W bs = Some (bs_skip ?n (bs\<lparr>bs_data := d\<rparr>))" and len: "?p + ?n \<le> length d"
    and tk: "take (?p + ?n) d = take ?p (bs_data bs) @ src" and zero: "\<And>i. ?p + ?n \<le> i \<Longrightarrow> i < length d \<Longrightarrow> d ! i = 0"
    using W [OF inv al] by (auto simp: puts_bytes_def)
  let ?bs' = "bs_skip ?n (bs\<lparr>bs_data := d\<rparr>)"
  have tkp: "take ?p d = take ?p (bs_data bs)"
    using arg_cong [OF tk, of "take ?p"] sz by simp
  have "bs_inv ?bs'" using al len zero by (simp add: bs_inv_bytes)
  moreover have "bs_extends ?bs' bs" using al sz len tkp by (simp add: bs_extends_bytes)
  moreover have "R (bs_setPosition (bs_pos bs) fs) = Some (y, bs_setPosition (bs_pos ?bs') fs)" if "bs_extends fs ?bs'" for fs
  proof -
    have fl: "?p + ?n \<le> length (bs_data fs)" and ft: "take (?p + ?n) (bs_data fs) = take (?p + ?n) d"
      using that al len by (simp_all add: bs_extends_bytes)
    have "take ?n (drop ?p (bs_data fs)) = drop ?p (take (?p + ?n) (bs_data fs))" by (simp add: drop_take)
    also have "\<dots> = src" using sz by (simp add: ft tk)
    finally have "R (bs_setPosition (bs_pos bs) fs) = Some (y, bs_skip ?n (bs_setPosition (bs_pos bs) fs))"
      using fl al by (intro R [of ?p]) (simp_all add: bs_size_def bs_byteAligned_def)
    then show ?thesis by (simp add: bs_skip_def bs_setPosition_def)
  qed
  ultimately show "\<exists>bs'. W bs = Some bs' \<and> bs_inv bs' \<and> bs_byteAligned bs' \<and> bs_extends bs' bs
       \<and> bs_size bs' = bs_size bs + ?n
       \<and> (\<forall>fs. bs_extends fs bs' \<longrightarrow> R (bs_setPosition (bs_pos bs) fs) = Some (y, bs_setPosition (bs_pos bs') fs))"
    using w al by simp
qed

text \<open>The copy writes the first \<open>n\<close> bytes of the source. A reader that copies as many bytes from the position it has
  reached gets them back.\<close>

lemma blocks_copy:
  assumes n: "n \<le> length (bs_data src)"
    and R: "\<And>p fs. take n (drop p (bs_data fs)) = take n (bs_data src) \<Longrightarrow> p + n \<le> length (bs_data fs) \<Longrightarrow>
        bs_pos fs = \<lparr>pos_bytes = p, pos_bits = 0\<rparr> \<Longrightarrow> R fs = Some (y, bs_skip n fs)"
  shows "blocks (\<lambda>bs. map_option fst (bs_copyFrom src 0 n bs)) R n y"
proof -
  have len: "length (take n (bs_data src)) = n" using n by simp
  have "\<exists>bs'. map_option fst (bs_copyFrom src 0 n bs) = Some bs' \<and> puts_bytes (take n (bs_data src)) bs bs'"
    if "bs_inv bs" and "bs_byteAligned bs" for bs
  proof -
    have "bs_size bs \<le> length (bs_data bs)" and zero: "\<And>i. bs_size bs \<le> i \<Longrightarrow> i < length (bs_data bs) \<Longrightarrow> bs_data bs ! i = 0"
      using that by (simp_all add: bs_inv_bytes)
    then obtain d where w: "bs_copyFrom src 0 n bs = Some (bs_skip n (bs\<lparr>bs_data := d\<rparr>), bs_skip n src)"
      and d: "bs_size bs + n \<le> length d" "take (bs_size bs + n) d = take (bs_size bs) (bs_data bs) @ take n (bs_data src)"
      and rest: "\<And>i. bs_size bs + n \<le> i \<Longrightarrow> i < length d \<Longrightarrow> i < length (bs_data bs) \<and> d ! i = bs_data bs ! i"
      using bs_copyFrom_Some [OF n] by blast
    have "\<forall>i. bs_size bs + n \<le> i \<longrightarrow> i < length d \<longrightarrow> d ! i = 0" using zero rest by simp
    with d have "puts_bytes (take n (bs_data src)) bs (bs_skip n (bs\<lparr>bs_data := d\<rparr>))"
      unfolding puts_bytes_def len by blast
    with w show ?thesis by simp
  qed
  then have "blocks (\<lambda>bs. map_option fst (bs_copyFrom src 0 n bs)) R (length (take n (bs_data src))) y"
    by (rule blocks_append) (use R len in simp_all)
  then show ?thesis by (simp only: len)
qed

lemma bs_writeVideoStream_puts:
  assumes "bs_inv bs" and "bs_byteAligned bs"
  shows "\<exists>bs'. bs_writeVideoStream video bs = Some bs' \<and> puts_bytes video bs bs'"
proof -
  let ?p = "bs_size bs" and ?n = "length video"
  define e where "e = bs_realloc ?n (bs_data bs)"
  let ?d = "take ?p e @ video @ drop (?p + ?n) e"
  have sz: "?p \<le> length (bs_data bs)" and zero: "\<And>i. ?p \<le> i \<Longrightarrow> i < length (bs_data bs) \<Longrightarrow> bs_data bs ! i = 0"
    using assms by (simp_all add: bs_inv_bytes)
  have "?n < (?n div 4096 + 1) * 4096" using dividend_less_times_div [of 4096 ?n] by (simp add: algebra_simps)
  then have len: "?p + ?n \<le> length e" using sz by (simp add: e_def length_bs_realloc)
  have tk: "take ?p e = take ?p (bs_data bs)" using sz by (simp add: e_def bs_realloc_def vec_resize_def)
  have e0: "e ! i = 0" if "?p \<le> i" and "i < length e" for i
    using that zero [of i] by (auto simp: e_def bs_realloc_def nth_vec_resize)
  have "?d ! i = 0" if "?p + ?n \<le> i" and "i < length ?d" for i
  proof -
    have "?d ! i = drop (?p + ?n) e ! (i - (?p + ?n))" using that(1) len by (auto simp: nth_append)
    then have "?d ! i = e ! i" using that(1) len by simp
    then show ?thesis using e0 [of i] that len by simp
  qed
  then have "puts_bytes video bs (bs_skip ?n (bs\<lparr>bs_data := ?d\<rparr>))"
    using len sz by (auto simp: puts_bytes_def tk intro!: exI [of _ ?d])
  moreover have "bs_writeVideoStream video bs = Some (bs_skip ?n (bs\<lparr>bs_data := ?d\<rparr>))"
    using len by (simp add: bs_writeVideoStream_def memcpy_at_def bs_size_def e_def)
  ultimately show ?thesis by blast
qed

lemma blocks_video: "blocks (bs_writeVideoStream video) (bs_readVideoStream (length video)) (length video) video"
  by (rule blocks_append [OF bs_writeVideoStream_puts])
    (auto simp: bs_readVideoStream_def memcpy_from_def)

section \<open>Sequences of blocks up to the end of the data\<close>

text \<open>A writer that appends non-empty blocks and a reader that takes blocks while there is more data, as the loops over the
  units of a sample stream do. The reader's state \<open>s\<close> collects the blocks by \<open>step\<close>.\<close>

locale block_stream =
  fixes put :: "'a \<Rightarrow> PCCBitstream \<Rightarrow> PCCBitstream option"
    and get :: "'s \<Rightarrow> PCCBitstream \<Rightarrow> ('b \<times> PCCBitstream) option"
    and loop :: "'s \<Rightarrow> PCCBitstream \<Rightarrow> ('s \<times> PCCBitstream) option"
    and step :: "'b \<Rightarrow> 's \<Rightarrow> 's"
    and ok :: "'a \<Rightarrow> bool" and sok :: "'s \<Rightarrow> bool"
    and len :: "'a \<Rightarrow> nat" and res :: "'a \<Rightarrow> 'b"
  assumes block: "ok x \<Longrightarrow> sok s \<Longrightarrow> blocks (put x) (get s) (len x) (res x)"
    and len_pos: "ok x \<Longrightarrow> 0 < len x"
    and step_ok: "ok x \<Longrightarrow> sok s \<Longrightarrow> sok (step (res x) s)"
    and loop_unfold: "sok s \<Longrightarrow> loop s bs = (if \<not> bs_moreData bs then Some (s, bs)
          else Option.bind (get s bs) (\<lambda>(x, bs). loop (step x s) bs))"
begin

lemma stream:
  assumes "\<And>x. x \<in> set xs \<Longrightarrow> ok x" and "sok s" and "bs_inv bs" and "bs_byteAligned bs"
  shows "\<exists>bs'. for_loop xs put bs = Some bs' \<and> bs_inv bs' \<and> bs_byteAligned bs' \<and> bs_extends bs' bs
    \<and> bs_size bs' = bs_size bs + sum_list (map len xs)
    \<and> (\<forall>fs. bs_extends fs bs' \<longrightarrow> length (bs_data fs) = bs_size bs' \<longrightarrow>
         loop s (bs_setPosition (bs_pos bs) fs) = Some (fold step (map res xs) s, bs_setPosition (bs_pos bs') fs))"
  using assms
proof (induction xs arbitrary: s bs)
  case Nil
  then have "loop s (bs_setPosition (bs_pos bs) fs) = Some (s, bs_setPosition (bs_pos bs) fs)"
    if "length (bs_data fs) = bs_size bs" for fs
    using that by (subst loop_unfold [OF Nil(2)]) (simp add: bs_moreData_def bs_size_def)
  with Nil show ?case by (simp add: bs_extends_refl)
next
  case (Cons x xs)
  have ok: "ok x" using Cons.prems(1) by simp
  obtain bs1 where w: "put x bs = Some bs1" and 1: "bs_inv bs1" "bs_byteAligned bs1" "bs_extends bs1 bs" "bs_size bs1 = bs_size bs + len x"
    and r: "\<And>fs. bs_extends fs bs1 \<Longrightarrow> get s (bs_setPosition (bs_pos bs) fs) = Some (res x, bs_setPosition (bs_pos bs1) fs)"
    by (rule blocksE [OF block [OF ok Cons.prems(2)] Cons.prems(3,4)]) blast
  obtain bs2 where w2: "for_loop xs put bs1 = Some bs2" and 2: "bs_inv bs2" "bs_byteAligned bs2" "bs_extends bs2 bs1"
      "bs_size bs2 = bs_size bs1 + sum_list (map len xs)"
    and r2: "\<And>fs. bs_extends fs bs2 \<Longrightarrow> length (bs_data fs) = bs_size bs2 \<Longrightarrow>
         loop (step (res x) s) (bs_setPosition (bs_pos bs1) fs) = Some (fold step (map res xs) (step (res x) s), bs_setPosition (bs_pos bs2) fs)"
    using Cons.IH [of "step (res x) s" bs1] Cons.prems(1) step_ok [OF ok Cons.prems(2)] 1(1,2) by auto
  have le: "lin (bs_pos bs) \<le> lin (bs_pos bs1)" "lin (bs_pos bs1) \<le> lin (bs_pos bs2)"
    using 1 2 Cons.prems(4) by (simp_all add: lin_aligned)
  have "loop s (bs_setPosition (bs_pos bs) fs) = Some (fold step (map res (x # xs)) s, bs_setPosition (bs_pos bs2) fs)"
    if ext: "bs_extends fs bs2" and len: "length (bs_data fs) = bs_size bs2" for fs
  proof -
    have "bs_moreData (bs_setPosition (bs_pos bs) fs)"
      using len 1(4) 2(4) len_pos [OF ok] by (simp add: bs_moreData_def bs_size_def)
    then show ?thesis
      using r [OF bs_extends_trans [OF ext 2(3) le(2)]] r2 [OF ext len] by (subst loop_unfold [OF Cons.prems(2)]) simp
  qed
  moreover have "bs_extends bs2 bs" using 2(3) 1(3) le(1) by (rule bs_extends_trans)
  ultimately show ?case using w w2 1 2 by simp
qed

end

end
