(* ===== verification/SeiMessages.thy ===== *)
theory SeiMessages
  imports VpsParameterSet Blocks
begin

unbundle bit_operations_syntax

text \<open>
  The SEI messages, first part: \<open>PCCSei.h\<close> and the functions of the writer and of the reader for the
  user data, the recovery point, the manifest, the prefix indication, the active sub-bitstreams, the
  component codec mapping, the time code and the decoded atlas information hash. Each class is a record
  without the members of its base class \<open>SEI\<close>; those are in the theory of the message list.
\<close>

section \<open>Vectors written at computed indices\<close>

text \<open>Some messages store the entry that was coded for an identifier \<open>k\<close> at the index \<open>k\<close> of a vector:
  \<open>scattered is xs zs\<close> has the final entries \<open>xs\<close> at the indices in \<open>is\<close> and the initial ones \<open>zs\<close>
  elsewhere.\<close>

definition scattered :: "nat list \<Rightarrow> 'a list \<Rightarrow> 'a list \<Rightarrow> 'a list" where
  "scattered is xs zs = map (\<lambda>j. if j \<in> set is then xs ! j else zs ! j) [0..<length xs]"

definition covered :: "nat list \<Rightarrow> 'a list \<Rightarrow> 'a list \<Rightarrow> bool" where
  "covered is xs zs \<longleftrightarrow> length zs = length xs \<and> (\<forall>j < length xs. j \<in> set is \<or> xs ! j = zs ! j)"

lemma length_scattered [simp]: "length (scattered is xs zs) = length xs"
  by (simp add: scattered_def)

lemma nth_scattered: "j < length xs \<Longrightarrow> scattered is xs zs ! j = (if j \<in> set is then xs ! j else zs ! j)"
  by (simp add: scattered_def)

lemma scattered_Nil [simp]: "length zs = length xs \<Longrightarrow> scattered [] xs zs = zs"
  by (rule nth_equalityI) (simp_all add: nth_scattered)

lemma scattered_all [simp]: "covered is xs zs \<Longrightarrow> scattered is xs zs = xs"
  by (rule nth_equalityI) (auto simp: covered_def nth_scattered)

lemma scattered_step:
  assumes "k < length is" and "is ! k < length xs" and "v = xs ! (is ! k)"
  shows "(scattered (take k is) xs zs)[is ! k := v] = scattered (take (Suc k) is) xs zs"
  by (rule nth_equalityI) (use assms in \<open>auto simp: nth_list_update nth_scattered take_Suc_conv_app_nth\<close>)

lemma scattered_skip:
  assumes "k < length is" and "xs ! (is ! k) = zs ! (is ! k)"
  shows "scattered (take (Suc k) is) xs zs = scattered (take k is) xs zs"
  by (rule nth_equalityI) (use assms in \<open>auto simp: nth_scattered take_Suc_conv_app_nth\<close>)

text \<open>A width argument is a \<open>uint8_t\<close>.\<close>

definition bits8 :: "'a::len word \<Rightarrow> nat" where
  "bits8 w = unat (ucast w :: uint8_t)"

lemma bits8_small: "unat w < 2 ^ 8 \<Longrightarrow> bits8 w = unat w" for w :: "'a::len word"
  by (simp add: bits8_def unat_ucast_small)

text \<open>Assignment to an entry of a vector of vectors.\<close>

definition vec_set2 :: "'a list list \<Rightarrow> nat \<Rightarrow> nat \<Rightarrow> 'a \<Rightarrow> 'a list list option" where
  "vec_set2 rows i j v = do { row \<leftarrow> vec_at rows i; row \<leftarrow> vec_set row j v; vec_set rows i row }"

lemma vec_set2_in: "i < length rows \<Longrightarrow> j < length (rows ! i) \<Longrightarrow> vec_set2 rows i j v = Some (rows[i := (rows ! i)[j := v]])"
  by (simp add: vec_set2_def)

lemma vec_set2_out: "length rows \<le> i \<or> length (rows ! i) \<le> j \<Longrightarrow> vec_set2 rows i j v = None"
  by (auto simp: vec_set2_def vec_at_def)

text \<open>A branch that is not taken.\<close>

lemma codes_off:
  assumes "\<not> c" and "\<not> c'" and "codes W2 R2 y"
  shows "codes (\<lambda>bs. if c then W1 bs else W2 bs) (\<lambda>bs. if c' then R1 bs else R2 bs) y"
  using assms by simp

section \<open>User data and reserved messages\<close>

record SEIUserDataRegisteredItuTT35 =
  ud35_countryCode :: uint8_t
  ud35_countryCodeExtensionByte :: uint8_t
  ud35_payloadByte :: "uint8_t list"

definition ud35_new :: SEIUserDataRegisteredItuTT35 where
  "ud35_new = \<lparr>ud35_countryCode = 0, ud35_countryCodeExtensionByte = 0, ud35_payloadByte = []\<rparr>"

text \<open>The writer ignores the payload size; the reader counts the payload bytes down from it, modulo $2^{64}$.\<close>

definition userDataRegisteredItuTT35_w :: "SEIUserDataRegisteredItuTT35 \<Rightarrow> PCCBitstream \<Rightarrow> PCCBitstream option" where
  "userDataRegisteredItuTT35_w sei bs = do {
     bs \<leftarrow> bs_write (ucast (ud35_countryCode sei)) 8 bs;
     bs \<leftarrow> (if ud35_countryCode sei = 0xFF then do {
         bs \<leftarrow> bs_write (ucast (ud35_countryCodeExtensionByte sei)) 8 bs;
         Some bs
       } else Some bs);
     bs \<leftarrow> for_loop (ud35_payloadByte sei) (\<lambda>element bs. bs_write (ucast element) 8 bs) bs;
     Some bs
   }"

text \<open>A loop over a resized vector of bytes, each read from the stream.\<close>

definition bytes_r :: "uint8_t list \<Rightarrow> PCCBitstream \<Rightarrow> (uint8_t list \<times> PCCBitstream) option" where
  "bytes_r l bs = for_loop [0..<length l] (\<lambda>i (l, bs). do {
     (v, bs) \<leftarrow> bs_read 8 bs;
     l \<leftarrow> vec_set l i (ucast v);
     Some (l, bs)
   }) (l, bs)"

definition userDataRegisteredItuTT35_r ::
  "size_t \<Rightarrow> SEIUserDataRegisteredItuTT35 \<Rightarrow> PCCBitstream \<Rightarrow> (SEIUserDataRegisteredItuTT35 \<times> PCCBitstream) option" where
  "userDataRegisteredItuTT35_r payloadSize sei bs = do {
     (v, bs) \<leftarrow> bs_read 8 bs;
     let sei = sei\<lparr>ud35_countryCode := ucast v\<rparr>;
     let payloadSize = payloadSize - 1;
     ((sei, payloadSize), bs) \<leftarrow> (if ud35_countryCode sei = 0xFF then do {
         (v, bs) \<leftarrow> bs_read 8 bs;
         let sei = sei\<lparr>ud35_countryCodeExtensionByte := ucast v\<rparr>;
         Some ((sei, payloadSize - 1), bs)
       } else Some ((sei, payloadSize), bs));
     (l, bs) \<leftarrow> bytes_r (vec_resize (unat payloadSize) 0 (ud35_payloadByte sei)) bs;
     Some (sei\<lparr>ud35_payloadByte := l\<rparr>, bs)
   }"

record SEIUserDataUnregistered =
  udu_uuidIsoIec11578 :: "uint8_t list"
  udu_userDataPayloadByte :: "uint8_t list"

definition udu_new :: SEIUserDataUnregistered where
  "udu_new = \<lparr>udu_uuidIsoIec11578 = replicate 16 0, udu_userDataPayloadByte = []\<rparr>"

text \<open>\<open>payloadSize\<close> is the member of the base class; subtracting 16 is modulo $2^{64}$ here as well.\<close>

definition byte_w :: "uint8_t list \<Rightarrow> nat \<Rightarrow> PCCBitstream \<Rightarrow> PCCBitstream option" where
  "byte_w l i bs = do { v \<leftarrow> vec_at l i; bs \<leftarrow> bs_write (ucast v) 8 bs; Some bs }"

definition userDataUnregistered_w :: "size_t \<Rightarrow> SEIUserDataUnregistered \<Rightarrow> PCCBitstream \<Rightarrow> PCCBitstream option" where
  "userDataUnregistered_w payloadSize sei bs = do {
     bs \<leftarrow> for_loop [0..<16] (byte_w (udu_uuidIsoIec11578 sei)) bs;
     bs \<leftarrow> for_loop [0..<unat (payloadSize - 16)] (byte_w (udu_userDataPayloadByte sei)) bs;
     Some bs
   }"

definition userDataUnregistered_r ::
  "size_t \<Rightarrow> SEIUserDataUnregistered \<Rightarrow> PCCBitstream \<Rightarrow> (SEIUserDataUnregistered \<times> PCCBitstream) option" where
  "userDataUnregistered_r payloadSize sei bs = do {
     (l, bs) \<leftarrow> for_loop [0..<16] (\<lambda>i (l, bs). do {
       (v, bs) \<leftarrow> bs_read 8 bs; l \<leftarrow> vec_set l i (ucast v); Some (l, bs) }) (udu_uuidIsoIec11578 sei, bs);
     let sei = sei\<lparr>udu_uuidIsoIec11578 := l\<rparr>;
     (l, bs) \<leftarrow> bytes_r (vec_resize (unat (payloadSize - 16)) 0 (udu_userDataPayloadByte sei)) bs;
     Some (sei\<lparr>udu_userDataPayloadByte := l\<rparr>, bs)
   }"

record SEIReservedSeiMessage =
  rsm_payloadByte :: "uint8_t list"

definition rsm_new :: SEIReservedSeiMessage where
  "rsm_new = \<lparr>rsm_payloadByte = []\<rparr>"

definition reservedSeiMessage_w :: "size_t \<Rightarrow> SEIReservedSeiMessage \<Rightarrow> PCCBitstream \<Rightarrow> PCCBitstream option" where
  "reservedSeiMessage_w payloadSize sei bs = for_loop [0..<unat payloadSize] (byte_w (rsm_payloadByte sei)) bs"

definition reservedSeiMessage_r ::
  "size_t \<Rightarrow> SEIReservedSeiMessage \<Rightarrow> PCCBitstream \<Rightarrow> (SEIReservedSeiMessage \<times> PCCBitstream) option" where
  "reservedSeiMessage_r payloadSize sei bs = do {
     (l, bs) \<leftarrow> bytes_r (vec_resize (unat payloadSize) 0 (rsm_payloadByte sei)) bs;
     Some (sei\<lparr>rsm_payloadByte := l\<rparr>, bs)
   }"

record SEIRecoveryPoint =
  rp_recoveryAfocCnt :: int
  rp_exactMatchFlag :: uint8_t
  rp_brokenLinkFlag :: uint8_t

definition rp_new :: SEIRecoveryPoint where
  "rp_new = \<lparr>rp_recoveryAfocCnt = 0, rp_exactMatchFlag = 0, rp_brokenLinkFlag = 0\<rparr>"

definition recoveryPoint_w :: "SEIRecoveryPoint \<Rightarrow> PCCBitstream \<Rightarrow> PCCBitstream option" where
  "recoveryPoint_w sei bs = do {
     bs \<leftarrow> bs_writeSvlc (rp_recoveryAfocCnt sei mod 256) bs;
     bs \<leftarrow> bs_write (ucast (rp_exactMatchFlag sei)) 1 bs;
     bs \<leftarrow> bs_write (ucast (rp_brokenLinkFlag sei)) 1 bs;
     Some bs
   }"

definition recoveryPoint_r :: "SEIRecoveryPoint \<Rightarrow> PCCBitstream \<Rightarrow> (SEIRecoveryPoint \<times> PCCBitstream) option" where
  "recoveryPoint_r sei bs = do {
     (v, bs) \<leftarrow> bs_readSvlc bs;
     let sei = sei\<lparr>rp_recoveryAfocCnt := v mod 256\<rparr>;
     (v, bs) \<leftarrow> bs_read 1 bs;
     let sei = sei\<lparr>rp_exactMatchFlag := ucast v\<rparr>;
     (v, bs) \<leftarrow> bs_read 1 bs;
     let sei = sei\<lparr>rp_brokenLinkFlag := ucast v\<rparr>;
     Some (sei, bs)
   }"

record SEIManifest =
  sm_numSeiMsgTypes :: uint16_t
  sm_seiPayloadType :: "uint16_t list"
  sm_seiDescription :: "uint8_t list"

definition sm_new :: SEIManifest where
  "sm_new = \<lparr>sm_numSeiMsgTypes = 0, sm_seiPayloadType = [], sm_seiDescription = []\<rparr>"

definition sm_entry_w :: "SEIManifest \<Rightarrow> nat \<Rightarrow> PCCBitstream \<Rightarrow> PCCBitstream option" where
  "sm_entry_w sei i bs = do {
     v \<leftarrow> vec_at (sm_seiPayloadType sei) i;
     bs \<leftarrow> bs_write (ucast v) 16 bs;
     v \<leftarrow> vec_at (sm_seiDescription sei) i;
     bs \<leftarrow> bs_write (ucast v) 8 bs;
     Some bs
   }"

definition sm_entry_r :: "nat \<Rightarrow> SEIManifest \<Rightarrow> PCCBitstream \<Rightarrow> (SEIManifest \<times> PCCBitstream) option" where
  "sm_entry_r i sei bs = do {
     (v, bs) \<leftarrow> bs_read 16 bs;
     l \<leftarrow> vec_set (sm_seiPayloadType sei) i (ucast v);
     let sei = sei\<lparr>sm_seiPayloadType := l\<rparr>;
     (v, bs) \<leftarrow> bs_read 8 bs;
     l \<leftarrow> vec_set (sm_seiDescription sei) i (ucast v);
     let sei = sei\<lparr>sm_seiDescription := l\<rparr>;
     Some (sei, bs)
   }"

definition seiManifest_w :: "SEIManifest \<Rightarrow> PCCBitstream \<Rightarrow> PCCBitstream option" where
  "seiManifest_w sei bs = do {
     bs \<leftarrow> bs_write (ucast (sm_numSeiMsgTypes sei)) 16 bs;
     bs \<leftarrow> for_loop [0..<unat (sm_numSeiMsgTypes sei)] (sm_entry_w sei) bs;
     Some bs
   }"

definition seiManifest_r :: "SEIManifest \<Rightarrow> PCCBitstream \<Rightarrow> (SEIManifest \<times> PCCBitstream) option" where
  "seiManifest_r sei bs = do {
     (v, bs) \<leftarrow> bs_read 16 bs;
     let sei = sei\<lparr>sm_numSeiMsgTypes := ucast v\<rparr>;
     let sei = sei\<lparr>sm_seiPayloadType := vec_resize (unat (sm_numSeiMsgTypes sei)) 0 (sm_seiPayloadType sei), sm_seiDescription := vec_resize (unat (sm_numSeiMsgTypes sei)) 0 (sm_seiDescription sei)\<rparr>;
     (sei, bs) \<leftarrow> for_loop [0..<unat (sm_numSeiMsgTypes sei)] (\<lambda>i (sei, bs). sm_entry_r i sei bs) (sei, bs);
     Some (sei, bs)
   }"

record SEIActiveSubBitstreams =
  asb_activeSubBitstreamsCancelFlag :: bool
  asb_activeAttributesChangesFlag :: bool
  asb_activeMapsChangesFlag :: bool
  asb_auxiliarySubstreamsActiveFlag :: bool
  asb_allAttributesActiveFlag :: bool
  asb_allMapsActiveFlag :: bool
  asb_activeAttributeCountMinus1 :: uint8_t
  asb_activeMapCountMinus1 :: uint8_t
  asb_activeAttributeIdx :: "uint8_t list"
  asb_activeMapIdx :: "uint8_t list"

definition asb_new :: SEIActiveSubBitstreams where
  "asb_new = \<lparr>asb_activeSubBitstreamsCancelFlag = False,
     asb_activeAttributesChangesFlag = False, asb_activeMapsChangesFlag = False,
     asb_auxiliarySubstreamsActiveFlag = False, asb_allAttributesActiveFlag = False,
     asb_allMapsActiveFlag = False, asb_activeAttributeCountMinus1 = 0,
     asb_activeMapCountMinus1 = 0, asb_activeAttributeIdx = [], asb_activeMapIdx = []\<rparr>"

definition asb_attribute_w :: "SEIActiveSubBitstreams \<Rightarrow> nat \<Rightarrow> PCCBitstream \<Rightarrow> PCCBitstream option" where
  "asb_attribute_w sei i bs = do {
     v \<leftarrow> vec_at (asb_activeAttributeIdx sei) i;
     bs \<leftarrow> bs_write (ucast v) 7 bs;
     Some bs
   }"

definition asb_attribute_r :: "nat \<Rightarrow> SEIActiveSubBitstreams \<Rightarrow> PCCBitstream \<Rightarrow> (SEIActiveSubBitstreams \<times> PCCBitstream) option" where
  "asb_attribute_r i sei bs = do {
     (v, bs) \<leftarrow> bs_read 7 bs;
     l \<leftarrow> vec_set (asb_activeAttributeIdx sei) i (ucast v);
     let sei = sei\<lparr>asb_activeAttributeIdx := l\<rparr>;
     Some (sei, bs)
   }"

definition asb_map_w :: "SEIActiveSubBitstreams \<Rightarrow> nat \<Rightarrow> PCCBitstream \<Rightarrow> PCCBitstream option" where
  "asb_map_w sei i bs = do {
     v \<leftarrow> vec_at (asb_activeMapIdx sei) i;
     bs \<leftarrow> bs_write (ucast v) 4 bs;
     Some bs
   }"

definition asb_map_r :: "nat \<Rightarrow> SEIActiveSubBitstreams \<Rightarrow> PCCBitstream \<Rightarrow> (SEIActiveSubBitstreams \<times> PCCBitstream) option" where
  "asb_map_r i sei bs = do {
     (v, bs) \<leftarrow> bs_read 4 bs;
     l \<leftarrow> vec_set (asb_activeMapIdx sei) i (ucast v);
     let sei = sei\<lparr>asb_activeMapIdx := l\<rparr>;
     Some (sei, bs)
   }"

definition asb_attributes_w :: "SEIActiveSubBitstreams \<Rightarrow> PCCBitstream \<Rightarrow> PCCBitstream option" where
  "asb_attributes_w sei bs = do {
     bs \<leftarrow> (if asb_activeAttributesChangesFlag sei then do {
         bs \<leftarrow> bs_write (b2u (asb_allAttributesActiveFlag sei)) 1 bs;
         bs \<leftarrow> (if \<not> asb_allAttributesActiveFlag sei then do {
             bs \<leftarrow> bs_write (ucast (asb_activeAttributeCountMinus1 sei)) 7 bs;
             bs \<leftarrow> for_loop [0..<Suc (unat (asb_activeAttributeCountMinus1 sei))] (asb_attribute_w sei) bs;
             Some bs
           } else Some bs);
         Some bs
       } else Some bs);
     Some bs
   }"

definition asb_attributes_r :: "SEIActiveSubBitstreams \<Rightarrow> PCCBitstream \<Rightarrow> (SEIActiveSubBitstreams \<times> PCCBitstream) option" where
  "asb_attributes_r sei bs = do {
     (sei, bs) \<leftarrow> (if asb_activeAttributesChangesFlag sei then do {
         (v, bs) \<leftarrow> bs_read 1 bs;
         let sei = sei\<lparr>asb_allAttributesActiveFlag := v \<noteq> 0\<rparr>;
         (sei, bs) \<leftarrow> (if \<not> asb_allAttributesActiveFlag sei then do {
             (v, bs) \<leftarrow> bs_read 7 bs;
             let sei = sei\<lparr>asb_activeAttributeCountMinus1 := ucast v\<rparr>;
             let sei = sei\<lparr>asb_activeAttributeIdx := vec_resize (Suc (unat (asb_activeAttributeCountMinus1 sei))) 0 (asb_activeAttributeIdx sei)\<rparr>;
             (sei, bs) \<leftarrow> for_loop [0..<Suc (unat (asb_activeAttributeCountMinus1 sei))] (\<lambda>i (sei, bs). asb_attribute_r i sei bs) (sei, bs);
             Some (sei, bs)
           } else Some (sei, bs));
         Some (sei, bs)
       } else Some (sei, bs));
     Some (sei, bs)
   }"

definition asb_maps_w :: "SEIActiveSubBitstreams \<Rightarrow> PCCBitstream \<Rightarrow> PCCBitstream option" where
  "asb_maps_w sei bs = do {
     bs \<leftarrow> (if asb_activeMapsChangesFlag sei then do {
         bs \<leftarrow> bs_write (b2u (asb_allMapsActiveFlag sei)) 1 bs;
         bs \<leftarrow> (if \<not> asb_allMapsActiveFlag sei then do {
             bs \<leftarrow> bs_write (ucast (asb_activeMapCountMinus1 sei)) 4 bs;
             bs \<leftarrow> for_loop [0..<Suc (unat (asb_activeMapCountMinus1 sei))] (asb_map_w sei) bs;
             Some bs
           } else Some bs);
         Some bs
       } else Some bs);
     Some bs
   }"

definition asb_maps_r :: "SEIActiveSubBitstreams \<Rightarrow> PCCBitstream \<Rightarrow> (SEIActiveSubBitstreams \<times> PCCBitstream) option" where
  "asb_maps_r sei bs = do {
     (sei, bs) \<leftarrow> (if asb_activeMapsChangesFlag sei then do {
         (v, bs) \<leftarrow> bs_read 1 bs;
         let sei = sei\<lparr>asb_allMapsActiveFlag := v \<noteq> 0\<rparr>;
         (sei, bs) \<leftarrow> (if \<not> asb_allMapsActiveFlag sei then do {
             (v, bs) \<leftarrow> bs_read 4 bs;
             let sei = sei\<lparr>asb_activeMapCountMinus1 := ucast v\<rparr>;
             let sei = sei\<lparr>asb_activeMapIdx := vec_resize (Suc (unat (asb_activeMapCountMinus1 sei))) 0 (asb_activeMapIdx sei)\<rparr>;
             (sei, bs) \<leftarrow> for_loop [0..<Suc (unat (asb_activeMapCountMinus1 sei))] (\<lambda>i (sei, bs). asb_map_r i sei bs) (sei, bs);
             Some (sei, bs)
           } else Some (sei, bs));
         Some (sei, bs)
       } else Some (sei, bs));
     Some (sei, bs)
   }"

definition activeSubBitstreams_w :: "SEIActiveSubBitstreams \<Rightarrow> PCCBitstream \<Rightarrow> PCCBitstream option" where
  "activeSubBitstreams_w sei bs = do {
     bs \<leftarrow> bs_write (b2u (asb_activeSubBitstreamsCancelFlag sei)) 1 bs;
     bs \<leftarrow> (if \<not> asb_activeSubBitstreamsCancelFlag sei then do {
         bs \<leftarrow> bs_write (b2u (asb_activeAttributesChangesFlag sei)) 1 bs;
         bs \<leftarrow> bs_write (b2u (asb_activeMapsChangesFlag sei)) 1 bs;
         bs \<leftarrow> bs_write (b2u (asb_auxiliarySubstreamsActiveFlag sei)) 1 bs;
         bs \<leftarrow> asb_attributes_w sei bs;
         bs \<leftarrow> asb_maps_w sei bs;
         Some bs
       } else Some bs);
     Some bs
   }"

definition activeSubBitstreams_r :: "SEIActiveSubBitstreams \<Rightarrow> PCCBitstream \<Rightarrow> (SEIActiveSubBitstreams \<times> PCCBitstream) option" where
  "activeSubBitstreams_r sei bs = do {
     (v, bs) \<leftarrow> bs_read 1 bs;
     let sei = sei\<lparr>asb_activeSubBitstreamsCancelFlag := v \<noteq> 0\<rparr>;
     (sei, bs) \<leftarrow> (if \<not> asb_activeSubBitstreamsCancelFlag sei then do {
         (v, bs) \<leftarrow> bs_read 1 bs;
         let sei = sei\<lparr>asb_activeAttributesChangesFlag := v \<noteq> 0\<rparr>;
         (v, bs) \<leftarrow> bs_read 1 bs;
         let sei = sei\<lparr>asb_activeMapsChangesFlag := v \<noteq> 0\<rparr>;
         (v, bs) \<leftarrow> bs_read 1 bs;
         let sei = sei\<lparr>asb_auxiliarySubstreamsActiveFlag := v \<noteq> 0\<rparr>;
         (sei, bs) \<leftarrow> asb_attributes_r sei bs;
         (sei, bs) \<leftarrow> asb_maps_r sei bs;
         Some (sei, bs)
       } else Some (sei, bs));
     Some (sei, bs)
   }"

record SEITimeCode =
  tc_numUnitsInTick :: uint32_t
  tc_timeScale :: uint32_t
  tc_countingType :: uint16_t
  tc_fullTimestampFlag :: bool
  tc_discontinuityFlag :: bool
  tc_cntDroppedFlag :: bool
  tc_secondFlag :: bool
  tc_minutesFlag :: bool
  tc_hoursFlag :: bool
  tc_nFrames :: uint16_t
  tc_secondsValue :: uint16_t
  tc_minutesValue :: uint16_t
  tc_hoursValue :: uint16_t
  tc_timeOffsetLength :: uint16_t
  tc_timeOffsetValue :: int

definition tc_new :: SEITimeCode where
  "tc_new = \<lparr>tc_numUnitsInTick = 0, tc_timeScale = 0, tc_countingType = 0,
     tc_fullTimestampFlag = False, tc_discontinuityFlag = False, tc_cntDroppedFlag = False,
     tc_secondFlag = False, tc_minutesFlag = False, tc_hoursFlag = False, tc_nFrames = 0,
     tc_secondsValue = 0, tc_minutesValue = 0, tc_hoursValue = 0, tc_timeOffsetLength = 0,
     tc_timeOffsetValue = 0\<rparr>"

definition tc_stamp_w :: "SEITimeCode \<Rightarrow> PCCBitstream \<Rightarrow> PCCBitstream option" where
  "tc_stamp_w sei bs = do {
     bs \<leftarrow> (if tc_fullTimestampFlag sei then do {
         bs \<leftarrow> bs_write (ucast (tc_secondsValue sei)) 6 bs;
         bs \<leftarrow> bs_write (ucast (tc_minutesValue sei)) 6 bs;
         bs \<leftarrow> bs_write (ucast (tc_hoursValue sei)) 5 bs;
         Some bs
       } else do {
         bs \<leftarrow> bs_write (b2u (tc_secondFlag sei)) 1 bs;
         bs \<leftarrow> (if tc_secondFlag sei then do {
             bs \<leftarrow> bs_write (ucast (tc_secondsValue sei)) 6 bs;
             bs \<leftarrow> bs_write (b2u (tc_minutesFlag sei)) 1 bs;
             bs \<leftarrow> (if tc_minutesFlag sei then do {
                 bs \<leftarrow> bs_write (ucast (tc_minutesValue sei)) 6 bs;
                 bs \<leftarrow> bs_write (b2u (tc_hoursFlag sei)) 1 bs;
                 bs \<leftarrow> (if tc_hoursFlag sei then do {
                     bs \<leftarrow> bs_write (ucast (tc_hoursValue sei)) 5 bs;
                     Some bs
                   } else Some bs);
                 Some bs
               } else Some bs);
             Some bs
           } else Some bs);
         Some bs
       });
     Some bs
   }"

definition tc_stamp_r :: "SEITimeCode \<Rightarrow> PCCBitstream \<Rightarrow> (SEITimeCode \<times> PCCBitstream) option" where
  "tc_stamp_r sei bs = do {
     (sei, bs) \<leftarrow> (if tc_fullTimestampFlag sei then do {
         (v, bs) \<leftarrow> bs_read 6 bs;
         let sei = sei\<lparr>tc_secondsValue := ucast v\<rparr>;
         (v, bs) \<leftarrow> bs_read 6 bs;
         let sei = sei\<lparr>tc_minutesValue := ucast v\<rparr>;
         (v, bs) \<leftarrow> bs_read 5 bs;
         let sei = sei\<lparr>tc_hoursValue := ucast v\<rparr>;
         Some (sei, bs)
       } else do {
         (v, bs) \<leftarrow> bs_read 1 bs;
         let sei = sei\<lparr>tc_secondFlag := v \<noteq> 0\<rparr>;
         (sei, bs) \<leftarrow> (if tc_secondFlag sei then do {
             (v, bs) \<leftarrow> bs_read 6 bs;
             let sei = sei\<lparr>tc_secondsValue := ucast v\<rparr>;
             (v, bs) \<leftarrow> bs_read 1 bs;
             let sei = sei\<lparr>tc_minutesFlag := v \<noteq> 0\<rparr>;
             (sei, bs) \<leftarrow> (if tc_minutesFlag sei then do {
                 (v, bs) \<leftarrow> bs_read 6 bs;
                 let sei = sei\<lparr>tc_minutesValue := ucast v\<rparr>;
                 (v, bs) \<leftarrow> bs_read 1 bs;
                 let sei = sei\<lparr>tc_hoursFlag := v \<noteq> 0\<rparr>;
                 (sei, bs) \<leftarrow> (if tc_hoursFlag sei then do {
                     (v, bs) \<leftarrow> bs_read 5 bs;
                     let sei = sei\<lparr>tc_hoursValue := ucast v\<rparr>;
                     Some (sei, bs)
                   } else Some (sei, bs));
                 Some (sei, bs)
               } else Some (sei, bs));
             Some (sei, bs)
           } else Some (sei, bs));
         Some (sei, bs)
       });
     Some (sei, bs)
   }"

definition timeCode_w :: "SEITimeCode \<Rightarrow> PCCBitstream \<Rightarrow> PCCBitstream option" where
  "timeCode_w sei bs = do {
     bs \<leftarrow> bs_write (tc_numUnitsInTick sei) 32 bs;
     bs \<leftarrow> bs_write (tc_timeScale sei) 32 bs;
     bs \<leftarrow> bs_write (ucast (tc_countingType sei)) 5 bs;
     bs \<leftarrow> bs_write (b2u (tc_fullTimestampFlag sei)) 1 bs;
     bs \<leftarrow> bs_write (b2u (tc_discontinuityFlag sei)) 1 bs;
     bs \<leftarrow> bs_write (b2u (tc_cntDroppedFlag sei)) 1 bs;
     bs \<leftarrow> bs_write (ucast (tc_nFrames sei)) 9 bs;
     bs \<leftarrow> tc_stamp_w sei bs;
     bs \<leftarrow> bs_write (ucast (tc_timeOffsetLength sei)) 5 bs;
     bs \<leftarrow> (if 0 < tc_timeOffsetLength sei then do {
         bs \<leftarrow> bs_writeS (tc_timeOffsetValue sei) (bits8 (tc_timeOffsetLength sei)) bs;
         Some bs
       } else Some bs);
     Some bs
   }"

definition timeCode_r :: "SEITimeCode \<Rightarrow> PCCBitstream \<Rightarrow> (SEITimeCode \<times> PCCBitstream) option" where
  "timeCode_r sei bs = do {
     (v, bs) \<leftarrow> bs_read 32 bs;
     let sei = sei\<lparr>tc_numUnitsInTick := v\<rparr>;
     (v, bs) \<leftarrow> bs_read 32 bs;
     let sei = sei\<lparr>tc_timeScale := v\<rparr>;
     (v, bs) \<leftarrow> bs_read 5 bs;
     let sei = sei\<lparr>tc_countingType := ucast v\<rparr>;
     (v, bs) \<leftarrow> bs_read 1 bs;
     let sei = sei\<lparr>tc_fullTimestampFlag := v \<noteq> 0\<rparr>;
     (v, bs) \<leftarrow> bs_read 1 bs;
     let sei = sei\<lparr>tc_discontinuityFlag := v \<noteq> 0\<rparr>;
     (v, bs) \<leftarrow> bs_read 1 bs;
     let sei = sei\<lparr>tc_cntDroppedFlag := v \<noteq> 0\<rparr>;
     (v, bs) \<leftarrow> bs_read 9 bs;
     let sei = sei\<lparr>tc_nFrames := ucast v\<rparr>;
     (sei, bs) \<leftarrow> tc_stamp_r sei bs;
     (v, bs) \<leftarrow> bs_read 5 bs;
     let sei = sei\<lparr>tc_timeOffsetLength := ucast v\<rparr>;
     (sei, bs) \<leftarrow> (if 0 < tc_timeOffsetLength sei then do {
         (v, bs) \<leftarrow> bs_readS (bits8 (tc_timeOffsetLength sei)) bs;
         let sei = sei\<lparr>tc_timeOffsetValue := signed_take_bit 15 v\<rparr>;
         Some (sei, bs)
       } else Some (sei, bs));
     Some (sei, bs)
   }"

section \<open>SEI prefix indication\<close>

record SEIPrefixIndication =
  spi_prefixSeiPayloadType :: uint16_t
  spi_numSeiPrefixIndicationsMinus1 :: uint8_t
  spi_numBitsInPrefixIndicationMinus1 :: "uint16_t list"
  spi_seiPrefixDataBit :: "bool list list"

definition spi_new :: SEIPrefixIndication where
  "spi_new = \<lparr>spi_prefixSeiPayloadType = 0, spi_numSeiPrefixIndicationsMinus1 = 0,
     spi_numBitsInPrefixIndicationMinus1 = [], spi_seiPrefixDataBit = []\<rparr>"

definition spi_indication_w :: "SEIPrefixIndication \<Rightarrow> nat \<Rightarrow> PCCBitstream \<Rightarrow> PCCBitstream option" where
  "spi_indication_w sei i bs = do {
     n \<leftarrow> vec_at (spi_numBitsInPrefixIndicationMinus1 sei) i;
     bs \<leftarrow> bs_write (ucast n) 16 bs;
     bs \<leftarrow> for_loop [0..<Suc (unat n)] (\<lambda>j bs. do {
         b \<leftarrow> vec_at2 (spi_seiPrefixDataBit sei) i j;
         bs_write (b2u b) 1 bs
       }) bs;
     bs \<leftarrow> bs_padWrite 1 bs;
     Some bs
   }"

definition seiPrefixIndication_w :: "SEIPrefixIndication \<Rightarrow> PCCBitstream \<Rightarrow> PCCBitstream option" where
  "seiPrefixIndication_w sei bs = do {
     bs \<leftarrow> bs_write (ucast (spi_prefixSeiPayloadType sei)) 16 bs;
     bs \<leftarrow> bs_write (ucast (spi_numSeiPrefixIndicationsMinus1 sei)) 8 bs;
     bs \<leftarrow> for_loop [0..<Suc (unat (spi_numSeiPrefixIndicationsMinus1 sei))] (spi_indication_w sei) bs;
     Some bs
   }"

text \<open>\<open>getSeiPrefixDataBit( i )\<close> returns the row by value, so that the \<open>resize\<close> in the reader changes a
  temporary copy (\<open>row\<close>) and the row of the message keeps its size.\<close>

definition spi_bit_r :: "nat \<Rightarrow> nat \<Rightarrow> SEIPrefixIndication \<Rightarrow> PCCBitstream \<Rightarrow> (SEIPrefixIndication \<times> PCCBitstream) option" where
  "spi_bit_r i j sei bs = do {
     (v, bs) \<leftarrow> bs_read 1 bs;
     rows \<leftarrow> vec_set2 (spi_seiPrefixDataBit sei) i j (v \<noteq> 0);
     Some (sei\<lparr>spi_seiPrefixDataBit := rows\<rparr>, bs)
   }"

definition spi_indication_r :: "nat \<Rightarrow> SEIPrefixIndication \<Rightarrow> PCCBitstream \<Rightarrow> (SEIPrefixIndication \<times> PCCBitstream) option" where
  "spi_indication_r i sei bs = do {
     (v, bs) \<leftarrow> bs_read 16 bs;
     l \<leftarrow> vec_set (spi_numBitsInPrefixIndicationMinus1 sei) i (ucast v);
     let sei = sei\<lparr>spi_numBitsInPrefixIndicationMinus1 := l\<rparr>;
     n \<leftarrow> vec_at (spi_numBitsInPrefixIndicationMinus1 sei) i;
     row \<leftarrow> vec_at (spi_seiPrefixDataBit sei) i;
     let row = vec_resize (unat n) False row;
     (sei, bs) \<leftarrow> for_loop [0..<Suc (unat n)] (\<lambda>j (sei, bs). spi_bit_r i j sei bs) (sei, bs);
     (u, bs) \<leftarrow> bs_padRead bs;
     Some (sei, bs)
   }"

definition seiPrefixIndication_r :: "SEIPrefixIndication \<Rightarrow> PCCBitstream \<Rightarrow> (SEIPrefixIndication \<times> PCCBitstream) option" where
  "seiPrefixIndication_r sei bs = do {
     (v, bs) \<leftarrow> bs_read 16 bs;
     let sei = sei\<lparr>spi_prefixSeiPayloadType := ucast v\<rparr>;
     (v, bs) \<leftarrow> bs_read 8 bs;
     let sei = sei\<lparr>spi_numSeiPrefixIndicationsMinus1 := ucast v\<rparr>;
     let n = Suc (unat (spi_numSeiPrefixIndicationsMinus1 sei));
     let sei = sei\<lparr>spi_numBitsInPrefixIndicationMinus1 := vec_resize n 0 (spi_numBitsInPrefixIndicationMinus1 sei),
       spi_seiPrefixDataBit := vec_resize n [] (spi_seiPrefixDataBit sei)\<rparr>;
     (sei, bs) \<leftarrow> for_loop [0..<n] (\<lambda>i (sei, bs). spi_indication_r i sei bs) (sei, bs);
     Some (sei, bs)
   }"

section \<open>Component codec mapping\<close>

record SEIComponentCodecMapping =
  ccm_componentCodecCancelFlag :: uint8_t
  ccm_codecMappingsCountMinus1 :: uint8_t
  ccm_codecId :: "uint8_t list"
  ccm_codec4cc :: "uint8_t list list"

definition ccm_new :: SEIComponentCodecMapping where
  "ccm_new = \<lparr>ccm_componentCodecCancelFlag = 0, ccm_codecMappingsCountMinus1 = 0, ccm_codecId = [],
     ccm_codec4cc = []\<rparr>"

definition ccm_allocate :: "SEIComponentCodecMapping \<Rightarrow> SEIComponentCodecMapping" where
  "ccm_allocate sei = sei\<lparr>ccm_codecId := vec_resize (Suc (unat (ccm_codecMappingsCountMinus1 sei))) 0 (ccm_codecId sei),
     ccm_codec4cc := vec_resize 256 [] (ccm_codec4cc sei)\<rparr>"

definition ccm_mapping_w :: "SEIComponentCodecMapping \<Rightarrow> nat \<Rightarrow> PCCBitstream \<Rightarrow> PCCBitstream option" where
  "ccm_mapping_w sei i bs = do {
     k \<leftarrow> vec_at (ccm_codecId sei) i;
     bs \<leftarrow> bs_write (ucast k) 8 bs;
     s \<leftarrow> vec_at (ccm_codec4cc sei) (unat k);
     bs \<leftarrow> bs_writeString s bs;
     Some bs
   }"

definition ccm_mapping_r :: "nat \<Rightarrow> SEIComponentCodecMapping \<Rightarrow> PCCBitstream \<Rightarrow> (SEIComponentCodecMapping \<times> PCCBitstream) option" where
  "ccm_mapping_r i sei bs = do {
     (v, bs) \<leftarrow> bs_read 8 bs;
     l \<leftarrow> vec_set (ccm_codecId sei) i (ucast v);
     let sei = sei\<lparr>ccm_codecId := l\<rparr>;
     k \<leftarrow> vec_at (ccm_codecId sei) i;
     (s, bs) \<leftarrow> bs_readString bs;
     l \<leftarrow> vec_set (ccm_codec4cc sei) (unat k) s;
     Some (sei\<lparr>ccm_codec4cc := l\<rparr>, bs)
   }"

text \<open>The writer allocates too, which changes the message it writes.\<close>

definition componentCodecMapping_w ::
  "SEIComponentCodecMapping \<Rightarrow> PCCBitstream \<Rightarrow> (SEIComponentCodecMapping \<times> PCCBitstream) option" where
  "componentCodecMapping_w sei bs = do {
     bs \<leftarrow> bs_write (ucast (ccm_componentCodecCancelFlag sei)) 1 bs;
     if ccm_componentCodecCancelFlag sei = 0 then do {
       bs \<leftarrow> bs_write (ucast (ccm_codecMappingsCountMinus1 sei)) 8 bs;
       let sei = ccm_allocate sei;
       bs \<leftarrow> for_loop [0..<Suc (unat (ccm_codecMappingsCountMinus1 sei))] (ccm_mapping_w sei) bs;
       Some (sei, bs)
     } else Some (sei, bs)
   }"

definition componentCodecMapping_r ::
  "SEIComponentCodecMapping \<Rightarrow> PCCBitstream \<Rightarrow> (SEIComponentCodecMapping \<times> PCCBitstream) option" where
  "componentCodecMapping_r sei bs = do {
     (v, bs) \<leftarrow> bs_read 1 bs;
     let sei = sei\<lparr>ccm_componentCodecCancelFlag := (if v \<noteq> 0 then 1 else 0)\<rparr>;
     (sei, bs) \<leftarrow> (if ccm_componentCodecCancelFlag sei = 0 then do {
         (v, bs) \<leftarrow> bs_read 8 bs;
         let sei = sei\<lparr>ccm_codecMappingsCountMinus1 := ucast v\<rparr>;
         let sei = ccm_allocate sei;
         (sei, bs) \<leftarrow> for_loop [0..<Suc (unat (ccm_codecMappingsCountMinus1 sei))] (\<lambda>i (sei, bs). ccm_mapping_r i sei bs) (sei, bs);
         Some (sei, bs)
       } else Some (sei, bs));
     Some (sei, bs)
   }"

section \<open>Decoded atlas information hash\<close>

record SEIDecodedAtlasInformationHash =
  dah_cancelFlag :: bool
  dah_persistenceFlag :: bool
  dah_hashType :: uint8_t
  dah_decodedHighLevelHashPresentFlag :: bool
  dah_decodedAtlasHashPresentFlag :: bool
  dah_decodedAtlasB2pHashPresentFlag :: bool
  dah_decodedAtlasTilesHashPresentFlag :: bool
  dah_decodedAtlasTilesB2pHashPresentFlag :: bool
  dah_numTilesMinus1 :: uint32_t
  dah_tileIdLenMinus1 :: uint32_t
  dah_tileId :: "uint32_t list"
  dah_highLevelMd5 :: "uint8_t list"
  dah_highLevelCrc :: uint16_t
  dah_highLevelChecksum :: uint32_t
  dah_atlasMd5 :: "uint8_t list"
  dah_atlasCrc :: uint16_t
  dah_atlasChecksum :: uint32_t
  dah_atlasB2pMd5 :: "uint8_t list"
  dah_atlasB2pCrc :: uint16_t
  dah_atlasB2pChecksum :: uint32_t
  dah_atlasTilesCrc :: "uint16_t list"
  dah_atlasTilesChecksum :: "uint32_t list"
  dah_atlasTilesMd5 :: "uint32_t list list"
  dah_atlasTilesB2pCrc :: "uint16_t list"
  dah_atlasTilesB2pChecksum :: "uint32_t list"
  dah_atlasTilesB2pMd5 :: "uint32_t list list"

definition dah_new :: SEIDecodedAtlasInformationHash where
  "dah_new = \<lparr>dah_cancelFlag = False, dah_persistenceFlag = False, dah_hashType = 1,
     dah_decodedHighLevelHashPresentFlag = True, dah_decodedAtlasHashPresentFlag = False,
     dah_decodedAtlasB2pHashPresentFlag = False, dah_decodedAtlasTilesHashPresentFlag = False,
     dah_decodedAtlasTilesB2pHashPresentFlag = False, dah_numTilesMinus1 = 0, dah_tileIdLenMinus1 = 0,
     dah_tileId = [0], dah_highLevelMd5 = replicate 16 0, dah_highLevelCrc = 0, dah_highLevelChecksum = 0,
     dah_atlasMd5 = replicate 16 0, dah_atlasCrc = 0, dah_atlasChecksum = 0,
     dah_atlasB2pMd5 = replicate 16 0, dah_atlasB2pCrc = 0, dah_atlasB2pChecksum = 0,
     dah_atlasTilesCrc = [0], dah_atlasTilesChecksum = [0], dah_atlasTilesMd5 = [replicate 16 0],
     dah_atlasTilesB2pCrc = [0], dah_atlasTilesB2pChecksum = [0], dah_atlasTilesB2pMd5 = [replicate 16 0]\<rparr>"

text \<open>\<open>allocateAtlasTilesHash\<close>: the rows that are still empty get sixteen entries.\<close>

definition md5_rows :: "nat \<Rightarrow> 'a::len word list list \<Rightarrow> 'a word list list" where
  "md5_rows n rows = map (\<lambda>row. if row = [] then replicate 16 0 else row) (vec_resize n [] rows)"

definition dah_allocateAtlasTilesHash :: "size_t \<Rightarrow> SEIDecodedAtlasInformationHash \<Rightarrow> SEIDecodedAtlasInformationHash option" where
  "dah_allocateAtlasTilesHash numTiles sei = (if numTiles = 0 then None else do {
     let n = unat numTiles;
     Some (sei\<lparr>dah_numTilesMinus1 := ucast (numTiles - 1),
       dah_tileId := vec_resize n 0 (dah_tileId sei),
       dah_highLevelMd5 := (if length (dah_highLevelMd5 sei) \<noteq> 16 then vec_resize 16 0 (dah_highLevelMd5 sei) else dah_highLevelMd5 sei),
       dah_atlasMd5 := (if length (dah_atlasMd5 sei) \<noteq> 16 then vec_resize 16 0 (dah_atlasMd5 sei) else dah_atlasMd5 sei),
       dah_atlasB2pMd5 := (if length (dah_atlasB2pMd5 sei) \<noteq> 16 then vec_resize 16 0 (dah_atlasB2pMd5 sei) else dah_atlasB2pMd5 sei),
       dah_atlasTilesMd5 := md5_rows n (dah_atlasTilesMd5 sei),
       dah_atlasTilesCrc := vec_resize n 0 (dah_atlasTilesCrc sei),
       dah_atlasTilesChecksum := vec_resize n 0 (dah_atlasTilesChecksum sei),
       dah_atlasTilesB2pMd5 := md5_rows n (dah_atlasTilesB2pMd5 sei),
       dah_atlasTilesB2pCrc := vec_resize n 0 (dah_atlasTilesB2pCrc sei),
       dah_atlasTilesB2pChecksum := vec_resize n 0 (dah_atlasTilesB2pChecksum sei)\<rparr>)
   })"

text \<open>The five hash units have the same shape: by the hash type an MD5 sum of sixteen bytes, a CRC or a
  checksum. The accessors are arguments, so that only the vector of the coded kind is indexed.\<close>

definition hash_w :: "uint8_t \<Rightarrow> (nat \<Rightarrow> 'a::len word option) \<Rightarrow> uint16_t option \<Rightarrow> uint32_t option \<Rightarrow> PCCBitstream \<Rightarrow> PCCBitstream option" where
  "hash_w hType md5 crc checksum bs =
     (if hType = 0 then for_loop [0..<16] (\<lambda>i bs. do { v \<leftarrow> md5 i; bs \<leftarrow> bs_write (ucast v) 8 bs; Some bs }) bs
      else if hType = 1 then do { v \<leftarrow> crc; bs \<leftarrow> bs_write (ucast v) 16 bs; Some bs }
      else if hType = 2 then do { v \<leftarrow> checksum; bs \<leftarrow> bs_write v 32 bs; Some bs }
      else Some bs)"

definition md5_r :: "'a::len word list \<Rightarrow> PCCBitstream \<Rightarrow> ('a word list \<times> PCCBitstream) option" where
  "md5_r l bs = for_loop [0..<16] (\<lambda>i (l, bs). do {
     (v, bs) \<leftarrow> bs_read 8 bs;
     l \<leftarrow> vec_set l i (ucast v);
     Some (l, bs)
   }) (l, bs)"

definition decodedHighLevelHash_w :: "SEIDecodedAtlasInformationHash \<Rightarrow> PCCBitstream \<Rightarrow> PCCBitstream option" where
  "decodedHighLevelHash_w sei =
     hash_w (dah_hashType sei) (vec_at (dah_highLevelMd5 sei)) (Some (dah_highLevelCrc sei)) (Some (dah_highLevelChecksum sei))"

definition decodedAtlasHash_w :: "SEIDecodedAtlasInformationHash \<Rightarrow> PCCBitstream \<Rightarrow> PCCBitstream option" where
  "decodedAtlasHash_w sei =
     hash_w (dah_hashType sei) (vec_at (dah_atlasMd5 sei)) (Some (dah_atlasCrc sei)) (Some (dah_atlasChecksum sei))"

definition decodedAtlasB2pHash_w :: "SEIDecodedAtlasInformationHash \<Rightarrow> PCCBitstream \<Rightarrow> PCCBitstream option" where
  "decodedAtlasB2pHash_w sei =
     hash_w (dah_hashType sei) (vec_at (dah_atlasB2pMd5 sei)) (Some (dah_atlasB2pCrc sei)) (Some (dah_atlasB2pChecksum sei))"

definition decodedAtlasTilesHash_w :: "SEIDecodedAtlasInformationHash \<Rightarrow> nat \<Rightarrow> PCCBitstream \<Rightarrow> PCCBitstream option" where
  "decodedAtlasTilesHash_w sei j =
     hash_w (dah_hashType sei) (vec_at2 (dah_atlasTilesMd5 sei) j) (vec_at (dah_atlasTilesCrc sei) j)
       (vec_at (dah_atlasTilesChecksum sei) j)"

definition decodedAtlasTilesB2pHash_w :: "SEIDecodedAtlasInformationHash \<Rightarrow> nat \<Rightarrow> PCCBitstream \<Rightarrow> PCCBitstream option" where
  "decodedAtlasTilesB2pHash_w sei j =
     hash_w (dah_hashType sei) (vec_at2 (dah_atlasTilesB2pMd5 sei) j) (vec_at (dah_atlasTilesB2pCrc sei) j)
       (vec_at (dah_atlasTilesB2pChecksum sei) j)"

definition decodedHighLevelHash_r :: "SEIDecodedAtlasInformationHash \<Rightarrow> PCCBitstream \<Rightarrow> (SEIDecodedAtlasInformationHash \<times> PCCBitstream) option" where
  "decodedHighLevelHash_r sei bs =
     (if dah_hashType sei = 0 then do { (l, bs) \<leftarrow> md5_r (dah_highLevelMd5 sei) bs; Some (sei\<lparr>dah_highLevelMd5 := l\<rparr>, bs) }
      else if dah_hashType sei = 1 then do { (v, bs) \<leftarrow> bs_read 16 bs; Some (sei\<lparr>dah_highLevelCrc := ucast v\<rparr>, bs) }
      else if dah_hashType sei = 2 then do { (v, bs) \<leftarrow> bs_read 32 bs; Some (sei\<lparr>dah_highLevelChecksum := v\<rparr>, bs) }
      else Some (sei, bs))"

definition decodedAtlasHash_r :: "SEIDecodedAtlasInformationHash \<Rightarrow> PCCBitstream \<Rightarrow> (SEIDecodedAtlasInformationHash \<times> PCCBitstream) option" where
  "decodedAtlasHash_r sei bs =
     (if dah_hashType sei = 0 then do { (l, bs) \<leftarrow> md5_r (dah_atlasMd5 sei) bs; Some (sei\<lparr>dah_atlasMd5 := l\<rparr>, bs) }
      else if dah_hashType sei = 1 then do { (v, bs) \<leftarrow> bs_read 16 bs; Some (sei\<lparr>dah_atlasCrc := ucast v\<rparr>, bs) }
      else if dah_hashType sei = 2 then do { (v, bs) \<leftarrow> bs_read 32 bs; Some (sei\<lparr>dah_atlasChecksum := v\<rparr>, bs) }
      else Some (sei, bs))"

definition decodedAtlasB2pHash_r :: "SEIDecodedAtlasInformationHash \<Rightarrow> PCCBitstream \<Rightarrow> (SEIDecodedAtlasInformationHash \<times> PCCBitstream) option" where
  "decodedAtlasB2pHash_r sei bs =
     (if dah_hashType sei = 0 then do { (l, bs) \<leftarrow> md5_r (dah_atlasB2pMd5 sei) bs; Some (sei\<lparr>dah_atlasB2pMd5 := l\<rparr>, bs) }
      else if dah_hashType sei = 1 then do { (v, bs) \<leftarrow> bs_read 16 bs; Some (sei\<lparr>dah_atlasB2pCrc := ucast v\<rparr>, bs) }
      else if dah_hashType sei = 2 then do { (v, bs) \<leftarrow> bs_read 32 bs; Some (sei\<lparr>dah_atlasB2pChecksum := v\<rparr>, bs) }
      else Some (sei, bs))"

definition decodedAtlasTilesHash_r :: "nat \<Rightarrow> SEIDecodedAtlasInformationHash \<Rightarrow> PCCBitstream \<Rightarrow> (SEIDecodedAtlasInformationHash \<times> PCCBitstream) option" where
  "decodedAtlasTilesHash_r j sei bs =
     (if dah_hashType sei = 0 then do {
        row \<leftarrow> vec_at (dah_atlasTilesMd5 sei) j;
        (row, bs) \<leftarrow> md5_r row bs;
        rows \<leftarrow> vec_set (dah_atlasTilesMd5 sei) j row;
        Some (sei\<lparr>dah_atlasTilesMd5 := rows\<rparr>, bs)
      } else if dah_hashType sei = 1 then do {
        (v, bs) \<leftarrow> bs_read 16 bs;
        l \<leftarrow> vec_set (dah_atlasTilesCrc sei) j (ucast v);
        Some (sei\<lparr>dah_atlasTilesCrc := l\<rparr>, bs)
      } else if dah_hashType sei = 2 then do {
        (v, bs) \<leftarrow> bs_read 32 bs;
        l \<leftarrow> vec_set (dah_atlasTilesChecksum sei) j v;
        Some (sei\<lparr>dah_atlasTilesChecksum := l\<rparr>, bs)
      } else Some (sei, bs))"

definition decodedAtlasTilesB2pHash_r :: "nat \<Rightarrow> SEIDecodedAtlasInformationHash \<Rightarrow> PCCBitstream \<Rightarrow> (SEIDecodedAtlasInformationHash \<times> PCCBitstream) option" where
  "decodedAtlasTilesB2pHash_r j sei bs =
     (if dah_hashType sei = 0 then do {
        row \<leftarrow> vec_at (dah_atlasTilesB2pMd5 sei) j;
        (row, bs) \<leftarrow> md5_r row bs;
        rows \<leftarrow> vec_set (dah_atlasTilesB2pMd5 sei) j row;
        Some (sei\<lparr>dah_atlasTilesB2pMd5 := rows\<rparr>, bs)
      } else if dah_hashType sei = 1 then do {
        (v, bs) \<leftarrow> bs_read 16 bs;
        l \<leftarrow> vec_set (dah_atlasTilesB2pCrc sei) j (ucast v);
        Some (sei\<lparr>dah_atlasTilesB2pCrc := l\<rparr>, bs)
      } else if dah_hashType sei = 2 then do {
        (v, bs) \<leftarrow> bs_read 32 bs;
        l \<leftarrow> vec_set (dah_atlasTilesB2pChecksum sei) j v;
        Some (sei\<lparr>dah_atlasTilesB2pChecksum := l\<rparr>, bs)
      } else Some (sei, bs))"

definition dah_tileId_w :: "SEIDecodedAtlasInformationHash \<Rightarrow> nat \<Rightarrow> PCCBitstream \<Rightarrow> PCCBitstream option" where
  "dah_tileId_w sei i bs = do {
     v \<leftarrow> vec_at (dah_tileId sei) i;
     bs \<leftarrow> bs_write v (bits8 (dah_tileIdLenMinus1 sei + 1)) bs;
     Some bs
   }"

definition dah_tileId_r :: "nat \<Rightarrow> SEIDecodedAtlasInformationHash \<Rightarrow> PCCBitstream \<Rightarrow> (SEIDecodedAtlasInformationHash \<times> PCCBitstream) option" where
  "dah_tileId_r i sei bs = do {
     (v, bs) \<leftarrow> bs_read (bits8 (dah_tileIdLenMinus1 sei + 1)) bs;
     l \<leftarrow> vec_set (dah_tileId sei) i v;
     let sei = sei\<lparr>dah_tileId := l\<rparr>;
     Some (sei, bs)
   }"

definition dah_tile_w :: "SEIDecodedAtlasInformationHash \<Rightarrow> nat \<Rightarrow> PCCBitstream \<Rightarrow> PCCBitstream option" where
  "dah_tile_w sei i bs = do {
     j \<leftarrow> vec_at (dah_tileId sei) i;
     bs \<leftarrow> (if dah_decodedAtlasTilesHashPresentFlag sei then do {
         bs \<leftarrow> decodedAtlasTilesHash_w sei (unat j) bs;
         Some bs
       } else Some bs);
     bs \<leftarrow> (if dah_decodedAtlasTilesB2pHashPresentFlag sei then do {
         bs \<leftarrow> decodedAtlasTilesB2pHash_w sei (unat j) bs;
         Some bs
       } else Some bs);
     Some bs
   }"

definition dah_tile_r :: "nat \<Rightarrow> SEIDecodedAtlasInformationHash \<Rightarrow> PCCBitstream \<Rightarrow> (SEIDecodedAtlasInformationHash \<times> PCCBitstream) option" where
  "dah_tile_r i sei bs = do {
     j \<leftarrow> vec_at (dah_tileId sei) i;
     (sei, bs) \<leftarrow> (if dah_decodedAtlasTilesHashPresentFlag sei then do {
         (sei, bs) \<leftarrow> decodedAtlasTilesHash_r (unat j) sei bs;
         Some (sei, bs)
       } else Some (sei, bs));
     (sei, bs) \<leftarrow> (if dah_decodedAtlasTilesB2pHashPresentFlag sei then do {
         (sei, bs) \<leftarrow> decodedAtlasTilesB2pHash_r (unat j) sei bs;
         Some (sei, bs)
       } else Some (sei, bs));
     Some (sei, bs)
   }"

definition dah_units_w :: "SEIDecodedAtlasInformationHash \<Rightarrow> PCCBitstream \<Rightarrow> PCCBitstream option" where
  "dah_units_w sei bs = do {
     bs \<leftarrow> (if dah_decodedHighLevelHashPresentFlag sei then do {
         bs \<leftarrow> decodedHighLevelHash_w sei bs;
         Some bs
       } else Some bs);
     bs \<leftarrow> (if dah_decodedAtlasHashPresentFlag sei then do {
         bs \<leftarrow> decodedAtlasHash_w sei bs;
         Some bs
       } else Some bs);
     bs \<leftarrow> (if dah_decodedAtlasB2pHashPresentFlag sei then do {
         bs \<leftarrow> decodedAtlasB2pHash_w sei bs;
         Some bs
       } else Some bs);
     Some bs
   }"

definition dah_units_r :: "SEIDecodedAtlasInformationHash \<Rightarrow> PCCBitstream \<Rightarrow> (SEIDecodedAtlasInformationHash \<times> PCCBitstream) option" where
  "dah_units_r sei bs = do {
     (sei, bs) \<leftarrow> (if dah_decodedHighLevelHashPresentFlag sei then do {
         (sei, bs) \<leftarrow> decodedHighLevelHash_r sei bs;
         Some (sei, bs)
       } else Some (sei, bs));
     (sei, bs) \<leftarrow> (if dah_decodedAtlasHashPresentFlag sei then do {
         (sei, bs) \<leftarrow> decodedAtlasHash_r sei bs;
         Some (sei, bs)
       } else Some (sei, bs));
     (sei, bs) \<leftarrow> (if dah_decodedAtlasB2pHashPresentFlag sei then do {
         (sei, bs) \<leftarrow> decodedAtlasB2pHash_r sei bs;
         Some (sei, bs)
       } else Some (sei, bs));
     Some (sei, bs)
   }"

definition dah_tiles_w :: "SEIDecodedAtlasInformationHash \<Rightarrow> PCCBitstream \<Rightarrow> PCCBitstream option" where
  "dah_tiles_w sei bs = do {
     bs \<leftarrow> (if dah_decodedAtlasTilesHashPresentFlag sei \<or> dah_decodedAtlasTilesB2pHashPresentFlag sei then do {
         bs \<leftarrow> bs_writeUvlc (dah_numTilesMinus1 sei) bs;
         bs \<leftarrow> bs_writeUvlc (dah_tileIdLenMinus1 sei) bs;
         bs \<leftarrow> for_loop [0..<Suc (unat (dah_numTilesMinus1 sei))] (dah_tileId_w sei) bs;
         bs \<leftarrow> bs_padWrite 1 bs;
         bs \<leftarrow> for_loop [0..<Suc (unat (dah_numTilesMinus1 sei))] (dah_tile_w sei) bs;
         Some bs
       } else Some bs);
     Some bs
   }"

definition dah_tiles_r :: "SEIDecodedAtlasInformationHash \<Rightarrow> PCCBitstream \<Rightarrow> (SEIDecodedAtlasInformationHash \<times> PCCBitstream) option" where
  "dah_tiles_r sei bs = do {
     (sei, bs) \<leftarrow> (if dah_decodedAtlasTilesHashPresentFlag sei \<or> dah_decodedAtlasTilesB2pHashPresentFlag sei then do {
         (v, bs) \<leftarrow> bs_readUvlc bs;
         let sei = sei\<lparr>dah_numTilesMinus1 := v\<rparr>;
         (v, bs) \<leftarrow> bs_readUvlc bs;
         let sei = sei\<lparr>dah_tileIdLenMinus1 := v\<rparr>;
         sei \<leftarrow> dah_allocateAtlasTilesHash (ucast (dah_numTilesMinus1 sei + 1)) sei;
         (sei, bs) \<leftarrow> for_loop [0..<Suc (unat (dah_numTilesMinus1 sei))] (\<lambda>i (sei, bs). dah_tileId_r i sei bs) (sei, bs);
         (u, bs) \<leftarrow> bs_padRead bs;
         (sei, bs) \<leftarrow> for_loop [0..<Suc (unat (dah_numTilesMinus1 sei))] (\<lambda>i (sei, bs). dah_tile_r i sei bs) (sei, bs);
         Some (sei, bs)
       } else Some (sei, bs));
     Some (sei, bs)
   }"

definition decodedAtlasInformationHash_w :: "SEIDecodedAtlasInformationHash \<Rightarrow> PCCBitstream \<Rightarrow> PCCBitstream option" where
  "decodedAtlasInformationHash_w sei bs = do {
     bs \<leftarrow> bs_write (b2u (dah_cancelFlag sei)) 1 bs;
     bs \<leftarrow> (if \<not> dah_cancelFlag sei then do {
         bs \<leftarrow> bs_write (b2u (dah_persistenceFlag sei)) 1 bs;
         bs \<leftarrow> bs_write (ucast (dah_hashType sei)) 8 bs;
         bs \<leftarrow> bs_write (b2u (dah_decodedHighLevelHashPresentFlag sei)) 1 bs;
         bs \<leftarrow> bs_write (b2u (dah_decodedAtlasHashPresentFlag sei)) 1 bs;
         bs \<leftarrow> bs_write (b2u (dah_decodedAtlasB2pHashPresentFlag sei)) 1 bs;
         bs \<leftarrow> bs_write (b2u (dah_decodedAtlasTilesHashPresentFlag sei)) 1 bs;
         bs \<leftarrow> bs_write (b2u (dah_decodedAtlasTilesB2pHashPresentFlag sei)) 1 bs;
         bs \<leftarrow> bs_write 0 1 bs;
         bs \<leftarrow> dah_units_w sei bs;
         bs \<leftarrow> dah_tiles_w sei bs;
         Some bs
       } else Some bs);
     Some bs
   }"

definition decodedAtlasInformationHash_r :: "SEIDecodedAtlasInformationHash \<Rightarrow> PCCBitstream \<Rightarrow> (SEIDecodedAtlasInformationHash \<times> PCCBitstream) option" where
  "decodedAtlasInformationHash_r sei bs = do {
     (v, bs) \<leftarrow> bs_read 1 bs;
     let sei = sei\<lparr>dah_cancelFlag := v \<noteq> 0\<rparr>;
     (sei, bs) \<leftarrow> (if \<not> dah_cancelFlag sei then do {
         (v, bs) \<leftarrow> bs_read 1 bs;
         let sei = sei\<lparr>dah_persistenceFlag := v \<noteq> 0\<rparr>;
         (v, bs) \<leftarrow> bs_read 8 bs;
         let sei = sei\<lparr>dah_hashType := ucast v\<rparr>;
         (v, bs) \<leftarrow> bs_read 1 bs;
         let sei = sei\<lparr>dah_decodedHighLevelHashPresentFlag := v \<noteq> 0\<rparr>;
         (v, bs) \<leftarrow> bs_read 1 bs;
         let sei = sei\<lparr>dah_decodedAtlasHashPresentFlag := v \<noteq> 0\<rparr>;
         (v, bs) \<leftarrow> bs_read 1 bs;
         let sei = sei\<lparr>dah_decodedAtlasB2pHashPresentFlag := v \<noteq> 0\<rparr>;
         (v, bs) \<leftarrow> bs_read 1 bs;
         let sei = sei\<lparr>dah_decodedAtlasTilesHashPresentFlag := v \<noteq> 0\<rparr>;
         (v, bs) \<leftarrow> bs_read 1 bs;
         let sei = sei\<lparr>dah_decodedAtlasTilesB2pHashPresentFlag := v \<noteq> 0\<rparr>;
         (v, bs) \<leftarrow> bs_read 1 bs;
         (sei, bs) \<leftarrow> dah_units_r sei bs;
         (sei, bs) \<leftarrow> dah_tiles_r sei bs;
         Some (sei, bs)
       } else Some (sei, bs));
     Some (sei, bs)
   }"

section \<open>Round trips\<close>

lemma byte_codes:
  assumes "length zs = length xs" and "n = length xs"
  shows "codes (for_loop [0..<n] (byte_w xs))
           (\<lambda>bs. for_loop [0..<n] (\<lambda>i (l, bs). do { (v, bs) \<leftarrow> bs_read 8 bs; l \<leftarrow> vec_set l i (ucast v); Some (l, bs) }) (zs, bs)) xs"
  unfolding byte_w_def [abs_def]
  by ((rule codes_for_field [where S = "\<lambda>l. l" and zs = zs] codec_intro refl | (use assms in auto; fail))+)

lemma bytes_codes:
  assumes "length zs = length xs"
  shows "codes (for_loop xs (\<lambda>element bs. bs_write (ucast element) 8 bs)) (bytes_r zs) xs"
proof -
  have "for_loop xs (\<lambda>element bs. bs_write (ucast element) 8 bs) = for_loop [0..<length xs] (byte_w xs)"
    by (intro ext for_loop_index [symmetric]) (auto simp: byte_w_def fun_eq_iff)
  then show ?thesis
    using byte_codes [OF assms refl] unfolding bytes_r_def [abs_def] assms by simp
qed

lemma bytes_n_codes:
  assumes "length zs = length xs" and "n = length xs"
  shows "codes (for_loop [0..<n] (byte_w xs)) (bytes_r zs) xs"
  using byte_codes [OF assms] unfolding bytes_r_def [abs_def] assms by simp

lemma unat_of_nat_size: "n < 2 ^ 64 \<Longrightarrow> unat (of_nat n :: size_t) = n"
  by (simp add: unsigned_of_nat take_bit_nat_eq_self)

text \<open>The payload size that the reader of registered user data needs is the number of bytes coded.\<close>

definition ud35_size :: "SEIUserDataRegisteredItuTT35 \<Rightarrow> nat" where
  "ud35_size x = (if ud35_countryCode x = 0xFF then 2 else 1) + length (ud35_payloadByte x)"

definition ud35_wf :: "SEIUserDataRegisteredItuTT35 \<Rightarrow> bool" where
  "ud35_wf x \<longleftrightarrow> (ud35_countryCode x = 0xFF \<or> ud35_countryCodeExtensionByte x = 0) \<and> length (ud35_payloadByte x) < 2 ^ 63"

lemma ud35_codes:
  assumes "ud35_wf x" and "payloadSize = of_nat (ud35_size x)"
  shows "codes (userDataRegisteredItuTT35_w x) (userDataRegisteredItuTT35_r payloadSize ud35_new) x"
proof -
  have n: "unat (of_nat (length (ud35_payloadByte x)) :: size_t) = length (ud35_payloadByte x)"
    using assms(1) by (intro unat_of_nat_size) (simp add: ud35_wf_def)
  note facts = assms(1) [unfolded ud35_wf_def] n
  show ?thesis
    unfolding userDataRegisteredItuTT35_w_def [abs_def] userDataRegisteredItuTT35_r_def [abs_def] assms(2)
    by ((rule bytes_codes codes_split codec_intro refl SEIUserDataRegisteredItuTT35.equality
      | (simp add: facts ud35_new_def ud35_size_def; fail) | (use facts in \<open>simp add: ud35_new_def ud35_size_def\<close>; fail))+)
qed

lemma udu_codes:
  assumes "length (udu_uuidIsoIec11578 x) = 16" and "length (udu_userDataPayloadByte x) < 2 ^ 63"
    and "payloadSize = of_nat (16 + length (udu_userDataPayloadByte x))"
  shows "codes (userDataUnregistered_w payloadSize x) (userDataUnregistered_r payloadSize udu_new) x"
proof -
  have n: "unat (payloadSize - 16) = length (udu_userDataPayloadByte x)"
    using assms(2) unat_of_nat_size [of "length (udu_userDataPayloadByte x)"] by (simp add: assms(3))
  show ?thesis
    unfolding userDataUnregistered_w_def [abs_def] userDataUnregistered_r_def [abs_def]
    by ((rule byte_codes [where n = 16] bytes_n_codes codec_intro refl SEIUserDataUnregistered.equality
      | (simp add: assms(1) n udu_new_def; fail))+)
qed

text \<open>With the payload size that the base class starts with, the subtraction wraps and the loop leaves the
  vector.\<close>

lemma udu_stuck:
  assumes "unat payloadSize < 16" and "length (udu_userDataPayloadByte x) < 2 ^ 64 - 16"
  shows "userDataUnregistered_w payloadSize x bs = None"
proof -
  have "payloadSize < 16" using assms(1) by (simp add: word_less_nat_alt)
  then have "unat (payloadSize - 16) = 2 ^ 64 + unat payloadSize - 16"
    using unat_sub_if_size [of payloadSize 16] assms(1) by (simp add: word_size)
  then have "length (udu_userDataPayloadByte x) < unat (payloadSize - 16)" using assms(2) by simp
  then have "for_loop [0..<unat (payloadSize - 16)] (byte_w (udu_userDataPayloadByte x)) s = None" for s
    by (intro for_loop_None [where i = "length (udu_userDataPayloadByte x)" and P = "\<lambda>_. True"]) (simp_all add: byte_w_def)
  then show ?thesis by (simp add: userDataUnregistered_w_def)
qed

lemma rsm_codes:
  assumes "payloadSize = of_nat (length (rsm_payloadByte x))" and "length (rsm_payloadByte x) < 2 ^ 64"
  shows "codes (reservedSeiMessage_w payloadSize x) (reservedSeiMessage_r payloadSize rsm_new) x"
proof -
  have n: "unat payloadSize = length (rsm_payloadByte x)" using assms by (simp add: unat_of_nat_size)
  have "codes (\<lambda>bs. Option.bind (for_loop [0..<length (rsm_payloadByte x)] (byte_w (rsm_payloadByte x)) bs) Some)
     (reservedSeiMessage_r payloadSize rsm_new) x"
    unfolding reservedSeiMessage_r_def [abs_def] n
    by ((rule bytes_n_codes codec_intro refl | (simp add: rsm_new_def; fail))+)
  then show ?thesis by (simp add: reservedSeiMessage_w_def [abs_def] n)
qed

definition rp_wf :: "SEIRecoveryPoint \<Rightarrow> bool" where
  "rp_wf x \<longleftrightarrow> 0 \<le> rp_recoveryAfocCnt x \<and> rp_recoveryAfocCnt x < 256
     \<and> unat (rp_exactMatchFlag x) < 2 \<and> unat (rp_brokenLinkFlag x) < 2"

interpretation rp: syntax_codec recoveryPoint_w recoveryPoint_r rp_new rp_wf
proof unfold_locales
  fix x assume wf: "rp_wf x"
  note facts = wf [unfolded rp_wf_def]
  show "codes (recoveryPoint_w x) (recoveryPoint_r rp_new) x"
    unfolding recoveryPoint_w_def [abs_def] recoveryPoint_r_def [abs_def]
    by ((rule codec_intro refl SEIRecoveryPoint.equality | (use facts in \<open>simp add: rp_new_def int32_in_def\<close>; fail))+)
qed

definition sm_wf :: "SEIManifest \<Rightarrow> bool" where
  "sm_wf x \<longleftrightarrow> length (sm_seiPayloadType x) = unat (sm_numSeiMsgTypes x)
     \<and> length (sm_seiDescription x) = unat (sm_numSeiMsgTypes x)"

lemma sm_entries_codes:
  assumes "length (sm_seiPayloadType x) = n" and "length (sm_seiDescription x) = n" and "n' = n"
    and "length (sm_seiPayloadType y) = n" and "length (sm_seiDescription y) = n"
  shows "codes (for_loop [0..<n] (sm_entry_w x)) (\<lambda>bs. for_loop [0..<n'] (\<lambda>i (a, bs). sm_entry_r i a bs) (y, bs))
     (y\<lparr>sm_seiPayloadType := sm_seiPayloadType x, sm_seiDescription := sm_seiDescription x\<rparr>)"
proof -
  have "codes (for_loop [0..<n] (sm_entry_w x)) (\<lambda>bs. for_loop [0..<n'] (\<lambda>i (a, bs). sm_entry_r i a bs) (y, bs))
     (y\<lparr>sm_seiPayloadType := filled n (sm_seiPayloadType x) (sm_seiPayloadType y),
        sm_seiDescription := filled n (sm_seiDescription x) (sm_seiDescription y)\<rparr>)"
    unfolding sm_entry_w_def [abs_def] sm_entry_r_def [abs_def]
    by ((rule codes_for [where y = "\<lambda>k. y\<lparr>sm_seiPayloadType := filled k (sm_seiPayloadType x) (sm_seiPayloadType y),
          sm_seiDescription := filled k (sm_seiDescription x) (sm_seiDescription y)\<rparr>"] codec_intro refl
        | (use assms in simp; fail))+)
  then show ?thesis using assms by simp
qed

interpretation sm: syntax_codec seiManifest_w seiManifest_r sm_new sm_wf
proof unfold_locales
  fix x assume wf: "sm_wf x"
  note facts = wf [unfolded sm_wf_def]
  show "codes (seiManifest_w x) (seiManifest_r sm_new) x"
    unfolding seiManifest_w_def [abs_def] seiManifest_r_def [abs_def]
    by ((rule sm_entries_codes codec_intro refl SEIManifest.equality | (simp add: facts sm_new_def; fail))+)
qed

definition asb_wf :: "SEIActiveSubBitstreams \<Rightarrow> bool" where
  "asb_wf x \<longleftrightarrow>
     (if asb_activeSubBitstreamsCancelFlag x
      then x = asb_new\<lparr>asb_activeSubBitstreamsCancelFlag := True\<rparr>
      else (if asb_activeAttributesChangesFlag x \<and> \<not> asb_allAttributesActiveFlag x
            then unat (asb_activeAttributeCountMinus1 x) < 2 ^ 7
              \<and> length (asb_activeAttributeIdx x) = Suc (unat (asb_activeAttributeCountMinus1 x))
              \<and> (\<forall>v \<in> set (asb_activeAttributeIdx x). unat v < 2 ^ 7)
            else asb_activeAttributeCountMinus1 x = 0 \<and> asb_activeAttributeIdx x = [])
        \<and> (asb_activeAttributesChangesFlag x \<or> \<not> asb_allAttributesActiveFlag x)
        \<and> (if asb_activeMapsChangesFlag x \<and> \<not> asb_allMapsActiveFlag x
            then unat (asb_activeMapCountMinus1 x) < 2 ^ 4
              \<and> length (asb_activeMapIdx x) = Suc (unat (asb_activeMapCountMinus1 x))
              \<and> (\<forall>v \<in> set (asb_activeMapIdx x). unat v < 2 ^ 4)
            else asb_activeMapCountMinus1 x = 0 \<and> asb_activeMapIdx x = [])
        \<and> (asb_activeMapsChangesFlag x \<or> \<not> asb_allMapsActiveFlag x))"

lemma asb_attribute_codes:
  assumes "length (asb_activeAttributeIdx x) = n" and "n' = n" and "length (asb_activeAttributeIdx y) = n"
    and "\<And>v. v \<in> set (asb_activeAttributeIdx x) \<Longrightarrow> unat v < 2 ^ 7"
  shows "codes (for_loop [0..<n] (asb_attribute_w x)) (\<lambda>bs. for_loop [0..<n'] (\<lambda>i (a, bs). asb_attribute_r i a bs) (y, bs))
     (y\<lparr>asb_activeAttributeIdx := asb_activeAttributeIdx x\<rparr>)"
  unfolding asb_attribute_w_def [abs_def] asb_attribute_r_def [abs_def]
  by ((rule codes_for_field [where S = "\<lambda>l. y\<lparr>asb_activeAttributeIdx := l\<rparr>" and zs = "asb_activeAttributeIdx y"]
        codec_intro refl | (use assms in auto; fail))+)

lemma asb_map_codes:
  assumes "length (asb_activeMapIdx x) = n" and "n' = n" and "length (asb_activeMapIdx y) = n"
    and "\<And>v. v \<in> set (asb_activeMapIdx x) \<Longrightarrow> unat v < 2 ^ 4"
  shows "codes (for_loop [0..<n] (asb_map_w x)) (\<lambda>bs. for_loop [0..<n'] (\<lambda>i (a, bs). asb_map_r i a bs) (y, bs))
     (y\<lparr>asb_activeMapIdx := asb_activeMapIdx x\<rparr>)"
  unfolding asb_map_w_def [abs_def] asb_map_r_def [abs_def]
  by ((rule codes_for_field [where S = "\<lambda>l. y\<lparr>asb_activeMapIdx := l\<rparr>" and zs = "asb_activeMapIdx y"]
        codec_intro refl | (use assms in auto; fail))+)

lemma asb_attributes_codes:
  assumes wf: "asb_wf x" "\<not> asb_activeSubBitstreamsCancelFlag x"
    and y: "asb_activeAttributesChangesFlag y = asb_activeAttributesChangesFlag x" "\<not> asb_allAttributesActiveFlag y"
      "asb_activeAttributeCountMinus1 y = 0" "asb_activeAttributeIdx y = []"
  shows "codes (asb_attributes_w x) (asb_attributes_r y)
     (y\<lparr>asb_allAttributesActiveFlag := asb_allAttributesActiveFlag x,
        asb_activeAttributeCountMinus1 := asb_activeAttributeCountMinus1 x, asb_activeAttributeIdx := asb_activeAttributeIdx x\<rparr>)"
proof -
  note facts = wf [unfolded asb_wf_def if_bool_eq_conj] y
  show ?thesis
    unfolding asb_attributes_w_def [abs_def] asb_attributes_r_def [abs_def]
    by ((rule asb_attribute_codes codes_split codec_intro refl SEIActiveSubBitstreams.equality
      | (use facts in \<open>simp; fail\<close>))+)
qed

lemma asb_maps_codes:
  assumes wf: "asb_wf x" "\<not> asb_activeSubBitstreamsCancelFlag x"
    and y: "asb_activeMapsChangesFlag y = asb_activeMapsChangesFlag x" "\<not> asb_allMapsActiveFlag y"
      "asb_activeMapCountMinus1 y = 0" "asb_activeMapIdx y = []"
  shows "codes (asb_maps_w x) (asb_maps_r y)
     (y\<lparr>asb_allMapsActiveFlag := asb_allMapsActiveFlag x,
        asb_activeMapCountMinus1 := asb_activeMapCountMinus1 x, asb_activeMapIdx := asb_activeMapIdx x\<rparr>)"
proof -
  note facts = wf [unfolded asb_wf_def if_bool_eq_conj] y
  show ?thesis
    unfolding asb_maps_w_def [abs_def] asb_maps_r_def [abs_def]
    by ((rule asb_map_codes codes_split codec_intro refl SEIActiveSubBitstreams.equality
      | (use facts in \<open>simp; fail\<close>))+)
qed

interpretation asb: syntax_codec activeSubBitstreams_w activeSubBitstreams_r asb_new asb_wf
proof unfold_locales
  fix x assume wf: "asb_wf x"
  then have cancel: "asb_activeSubBitstreamsCancelFlag x \<Longrightarrow> x = asb_new\<lparr>asb_activeSubBitstreamsCancelFlag := True\<rparr>"
    by (simp add: asb_wf_def)
  show "codes (activeSubBitstreams_w x) (activeSubBitstreams_r asb_new) x"
    unfolding activeSubBitstreams_w_def [abs_def] activeSubBitstreams_r_def [abs_def]
    by ((rule asb_attributes_codes asb_maps_codes wf codes_split codec_intro refl SEIActiveSubBitstreams.equality
      | (simp add: asb_new_def; fail) | (auto simp: asb_new_def dest: cancel; fail))+)
qed

definition tc_wf :: "SEITimeCode \<Rightarrow> bool" where
  "tc_wf x \<longleftrightarrow> unat (tc_countingType x) < 2 ^ 5 \<and> unat (tc_nFrames x) < 2 ^ 9
     \<and> unat (tc_secondsValue x) < 2 ^ 6 \<and> unat (tc_minutesValue x) < 2 ^ 6 \<and> unat (tc_hoursValue x) < 2 ^ 5
     \<and> (tc_fullTimestampFlag x \<longrightarrow> \<not> tc_secondFlag x)
     \<and> (\<not> tc_fullTimestampFlag x \<longrightarrow> \<not> tc_secondFlag x \<longrightarrow> tc_secondsValue x = 0)
     \<and> (\<not> tc_secondFlag x \<longrightarrow> \<not> tc_minutesFlag x)
     \<and> (\<not> tc_fullTimestampFlag x \<longrightarrow> \<not> tc_minutesFlag x \<longrightarrow> tc_minutesValue x = 0)
     \<and> (\<not> tc_minutesFlag x \<longrightarrow> \<not> tc_hoursFlag x)
     \<and> (\<not> tc_fullTimestampFlag x \<longrightarrow> \<not> tc_hoursFlag x \<longrightarrow> tc_hoursValue x = 0)
     \<and> unat (tc_timeOffsetLength x) < 2 ^ 5
     \<and> (if tc_timeOffsetLength x = 0 then tc_timeOffsetValue x = 0
        else i_range (unat (tc_timeOffsetLength x)) (tc_timeOffsetValue x)
          \<and> signed_take_bit 15 (tc_timeOffsetValue x) = tc_timeOffsetValue x)"

lemma tc_stamp_codes:
  assumes wf: "tc_wf x" and y: "tc_fullTimestampFlag y = tc_fullTimestampFlag x"
    "\<not> tc_secondFlag y" "\<not> tc_minutesFlag y" "\<not> tc_hoursFlag y" "tc_secondsValue y = 0" "tc_minutesValue y = 0" "tc_hoursValue y = 0"
  shows "codes (tc_stamp_w x) (tc_stamp_r y) (y\<lparr>tc_secondFlag := tc_secondFlag x, tc_minutesFlag := tc_minutesFlag x,
     tc_hoursFlag := tc_hoursFlag x, tc_secondsValue := tc_secondsValue x, tc_minutesValue := tc_minutesValue x,
     tc_hoursValue := tc_hoursValue x\<rparr>)"
proof -
  note facts = wf [unfolded tc_wf_def, simplified] y
  show ?thesis
    unfolding tc_stamp_w_def [abs_def] tc_stamp_r_def [abs_def]
    by ((rule codes_split codec_intro refl SEITimeCode.equality | (simp add: facts; fail))+)
qed

interpretation tc: syntax_codec timeCode_w timeCode_r tc_new tc_wf
proof unfold_locales
  fix x assume wf: "tc_wf x"
  note facts = wf [unfolded tc_wf_def if_bool_eq_conj]
  have b: "bits8 (tc_timeOffsetLength x) = unat (tc_timeOffsetLength x)"
    using facts by (intro bits8_small) simp
  show "codes (timeCode_w x) (timeCode_r tc_new) x"
    unfolding timeCode_w_def [abs_def] timeCode_r_def [abs_def]
    by ((rule tc_stamp_codes [OF wf] codes_split codec_intro refl SEITimeCode.equality
      | (use facts b in \<open>simp add: tc_new_def word_gt_0\<close>; fail))+)
qed

text \<open>Prefix indications: the row of every indication is empty when its first bit is stored, so that the
  reader accesses a vector out of range on every stream.\<close>

lemma spi_bit_empty:
  assumes "i < length (spi_seiPrefixDataBit sei)" and "spi_seiPrefixDataBit sei ! i = []"
  shows "spi_bit_r i j sei bs = None"
  using assms by (auto simp: spi_bit_r_def vec_set2_out split: bind_splits)

lemma spi_stuck: "seiPrefixIndication_r spi_new bs = None"
proof -
  have "spi_indication_r i sei bs = None"
    if "i < length (spi_seiPrefixDataBit sei)" and "spi_seiPrefixDataBit sei ! i = []" for i sei bs
    using spi_bit_empty [OF that] that
    by (auto simp: spi_indication_r_def spi_bit_empty Let_def upt_conv_Cons simp del: upt_Suc split: bind_splits)
  then show ?thesis
    by (auto simp: seiPrefixIndication_r_def spi_new_def Let_def upt_conv_Cons simp del: upt_Suc split: bind_splits)
qed

text \<open>Component codec mapping. On a message with allocated vectors the writer changes nothing.\<close>

definition ccm_wf :: "SEIComponentCodecMapping \<Rightarrow> bool" where
  "ccm_wf x \<longleftrightarrow>
     (if ccm_componentCodecCancelFlag x = 0
      then length (ccm_codecId x) = Suc (unat (ccm_codecMappingsCountMinus1 x)) \<and> length (ccm_codec4cc x) = 256
        \<and> covered (map unat (ccm_codecId x)) (ccm_codec4cc x) (replicate 256 [])
        \<and> (\<forall>s \<in> set (ccm_codec4cc x). 0 \<notin> set s)
      else x = ccm_new\<lparr>ccm_componentCodecCancelFlag := 1\<rparr>)"

definition ccm_put :: "SEIComponentCodecMapping \<Rightarrow> PCCBitstream \<Rightarrow> PCCBitstream option" where
  "ccm_put x bs = Option.bind (componentCodecMapping_w x bs) (\<lambda>(_, bs). Some bs)"

lemma scattered_put:
  assumes "k < length ids" and "unat (ids ! k) < length xs" and "v = xs ! unat (ids ! k)"
  shows "(scattered (take k (map unat ids)) xs zs)[unat (ids ! k) := v] = scattered (take (Suc k) (map unat ids)) xs zs"
  using scattered_step [of k "map unat ids" xs v zs] assms by simp

lemma ccm_mappings_codes:
  assumes "length (ccm_codecId x) = n" and "length (ccm_codec4cc x) = 256" and "n' = n"
    and "covered (map unat (ccm_codecId x)) (ccm_codec4cc x) (replicate 256 [])"
    and "\<And>s. s \<in> set (ccm_codec4cc x) \<Longrightarrow> 0 \<notin> set s"
    and "length (ccm_codecId y) = n" and "ccm_codec4cc y = replicate 256 []"
  shows "codes (for_loop [0..<n] (ccm_mapping_w x)) (\<lambda>bs. for_loop [0..<n'] (\<lambda>i (a, bs). ccm_mapping_r i a bs) (y, bs))
     (y\<lparr>ccm_codecId := ccm_codecId x, ccm_codec4cc := ccm_codec4cc x\<rparr>)"
proof -
  let ?ids = "ccm_codecId x" and ?cc = "ccm_codec4cc x"
  have ids: "unat (?ids ! k) < length ?cc" for k
    using unsigned_less [of "?ids ! k", where ?'a = nat] assms(2) by simp
  have cc: "0 \<notin> set (?cc ! unat (?ids ! k))" for k using ids [of k] assms(5) by simp
  have "codes (for_loop [0..<n] (ccm_mapping_w x)) (\<lambda>bs. for_loop [0..<n'] (\<lambda>i (a, bs). ccm_mapping_r i a bs) (y, bs))
     (y\<lparr>ccm_codecId := filled n ?ids (ccm_codecId y),
        ccm_codec4cc := scattered (take n (map unat ?ids)) ?cc (replicate 256 [])\<rparr>)"
    unfolding ccm_mapping_w_def [abs_def] ccm_mapping_r_def [abs_def]
    by ((rule codes_for [where y = "\<lambda>k. y\<lparr>ccm_codecId := filled k ?ids (ccm_codecId y),
          ccm_codec4cc := scattered (take k (map unat ?ids)) ?cc (replicate 256 [])\<rparr>"] codec_intro refl
        | (simp add: assms ids cc scattered_put; fail))+)
  then show ?thesis using assms by simp
qed

lemma ccm_codes:
  assumes wf: "ccm_wf x"
  shows "codes (ccm_put x) (componentCodecMapping_r ccm_new) x"
proof -
  have alloc: "ccm_componentCodecCancelFlag x = 0 \<Longrightarrow> ccm_allocate x = x"
    using wf by (simp add: ccm_wf_def ccm_allocate_def)
  have "ccm_put x = (\<lambda>bs. do {
     bs \<leftarrow> bs_write (ucast (ccm_componentCodecCancelFlag x)) 1 bs;
     bs \<leftarrow> (if ccm_componentCodecCancelFlag x = 0 then do {
         bs \<leftarrow> bs_write (ucast (ccm_codecMappingsCountMinus1 x)) 8 bs;
         bs \<leftarrow> for_loop [0..<Suc (unat (ccm_codecMappingsCountMinus1 x))] (ccm_mapping_w x) bs;
         Some bs
       } else Some bs);
     Some bs
   })"
    by (auto simp: ccm_put_def componentCodecMapping_w_def alloc fun_eq_iff Let_def split: bind_splits)
  moreover have "codes \<dots> (componentCodecMapping_r ccm_new) x"
    unfolding componentCodecMapping_r_def [abs_def] ccm_allocate_def
    by ((rule ccm_mappings_codes codes_split codec_intro refl SEIComponentCodecMapping.equality
      | (use wf in \<open>simp add: ccm_new_def ccm_wf_def split: if_splits\<close>; fail))+)
  ultimately show ?thesis by simp
qed

lemma ccm_keeps:
  assumes "ccm_wf x" and "componentCodecMapping_w x bs = Some (x', bs')"
  shows "x' = x"
  using assms by (auto simp: componentCodecMapping_w_def ccm_allocate_def ccm_wf_def Let_def split: bind_splits if_splits)

section \<open>Round trip of the atlas information hash\<close>

lemma scattered_same [simp]: "scattered is zs zs = zs"
  by (rule nth_equalityI) (simp_all add: nth_scattered)

lemma scattered_cond_step:
  assumes "k < length is" and "is ! k < length xs" and "\<not> c \<Longrightarrow> xs = zs"
  shows "(if c then (scattered (take k is) xs zs)[is ! k := xs ! (is ! k)] else scattered (take k is) xs zs)
     = scattered (take (Suc k) is) xs zs"
  using assms scattered_step [of k "is" xs _ zs] by (cases c) simp_all

text \<open>A hash unit that is not coded, because its flag is off or the hash is of another type, has the values
  that the constructor gave it.\<close>

definition hash_ok :: "bool \<Rightarrow> uint8_t \<Rightarrow> 'a::len word list \<Rightarrow> uint16_t \<Rightarrow> uint32_t \<Rightarrow> bool" where
  "hash_ok present hType md5 crc checksum \<longleftrightarrow> length md5 = 16 \<and> (\<forall>v \<in> set md5. unat v < 2 ^ 8)
     \<and> (\<not> (present \<and> hType = 0) \<longrightarrow> md5 = replicate 16 0) \<and> (\<not> (present \<and> hType = 1) \<longrightarrow> crc = 0)
     \<and> (\<not> (present \<and> hType = 2) \<longrightarrow> checksum = 0)"

definition tile_hashes_ok :: "nat \<Rightarrow> nat list \<Rightarrow> bool \<Rightarrow> uint8_t \<Rightarrow> uint32_t list list \<Rightarrow> uint16_t list \<Rightarrow> uint32_t list \<Rightarrow> bool" where
  "tile_hashes_ok n ids present hType md5 crc checksum \<longleftrightarrow>
     length md5 = n \<and> length crc = n \<and> length checksum = n
     \<and> (\<forall>row \<in> set md5. length row = 16 \<and> (\<forall>v \<in> set row. unat v < 2 ^ 8))
     \<and> (if present \<and> hType = 0 then covered ids md5 (replicate n (replicate 16 0)) else md5 = replicate n (replicate 16 0))
     \<and> (if present \<and> hType = 1 then covered ids crc (replicate n 0) else crc = replicate n 0)
     \<and> (if present \<and> hType = 2 then covered ids checksum (replicate n 0) else checksum = replicate n 0)"

definition dah_wf :: "SEIDecodedAtlasInformationHash \<Rightarrow> bool" where
  "dah_wf x \<longleftrightarrow>
     (if dah_cancelFlag x then x = dah_new\<lparr>dah_cancelFlag := True\<rparr>
      else hash_ok (dah_decodedHighLevelHashPresentFlag x) (dah_hashType x) (dah_highLevelMd5 x) (dah_highLevelCrc x) (dah_highLevelChecksum x)
        \<and> hash_ok (dah_decodedAtlasHashPresentFlag x) (dah_hashType x) (dah_atlasMd5 x) (dah_atlasCrc x) (dah_atlasChecksum x)
        \<and> hash_ok (dah_decodedAtlasB2pHashPresentFlag x) (dah_hashType x) (dah_atlasB2pMd5 x) (dah_atlasB2pCrc x) (dah_atlasB2pChecksum x)
        \<and> (let n = Suc (unat (dah_numTilesMinus1 x)); ids = map unat (dah_tileId x) in
             (if dah_decodedAtlasTilesHashPresentFlag x \<or> dah_decodedAtlasTilesB2pHashPresentFlag x
              then n < 2 ^ 31 - 1 \<and> unat (dah_tileIdLenMinus1 x) < 32 \<and> length ids = n
                \<and> (\<forall>j \<in> set ids. j < n \<and> j < 2 ^ Suc (unat (dah_tileIdLenMinus1 x)))
              else dah_numTilesMinus1 x = 0 \<and> dah_tileIdLenMinus1 x = 0 \<and> dah_tileId x = [0])
             \<and> tile_hashes_ok n ids (dah_decodedAtlasTilesHashPresentFlag x) (dah_hashType x)
                 (dah_atlasTilesMd5 x) (dah_atlasTilesCrc x) (dah_atlasTilesChecksum x)
             \<and> tile_hashes_ok n ids (dah_decodedAtlasTilesB2pHashPresentFlag x) (dah_hashType x)
                 (dah_atlasTilesB2pMd5 x) (dah_atlasTilesB2pCrc x) (dah_atlasTilesB2pChecksum x)))"

lemma md5_codes:
  fixes xs :: "'a::len word list"
  assumes "length xs = 16" and "length zs = 16" and "\<And>i. i < 16 \<Longrightarrow> md5 i = Some (xs ! i)" and "\<And>v. v \<in> set xs \<Longrightarrow> unat v < 2 ^ 8"
  shows "codes (for_loop [0..<16] (\<lambda>i bs. do { v \<leftarrow> md5 i; bs \<leftarrow> bs_write (ucast v) 8 bs; Some bs })) (md5_r zs) xs"
proof -
  have v: "unat (ucast (xs ! k) :: uint32_t) < 2 ^ 8" "ucast (ucast (xs ! k) :: uint32_t) = xs ! k" if "k < 16" for k
  proof -
    have s: "unat (xs ! k) < 2 ^ 8" using that assms(1,4) by simp
    then show 1: "unat (ucast (xs ! k) :: uint32_t) < 2 ^ 8" by (simp add: unat_ucast_small)
    have "unat (ucast (ucast (xs ! k) :: uint32_t) :: 'a word) = unat (ucast (xs ! k) :: uint32_t)"
      using s unsigned_less [of "xs ! k", where ?'a = nat] by (intro unat_ucast_small) (simp add: unat_ucast_small)
    with s show "ucast (ucast (xs ! k) :: uint32_t) = xs ! k" by (simp only: word_unat_eq_iff) (simp add: unat_ucast_small)
  qed
  show ?thesis
    unfolding md5_r_def [abs_def]
    by ((rule codes_for_field [where S = "\<lambda>l. l" and zs = zs] codec_intro refl | (simp add: assms(1-3) v; fail)
      | (use v in simp; fail))+)
qed

lemma highLevelHash_codes:
  assumes "hash_ok True (dah_hashType x) (dah_highLevelMd5 x) (dah_highLevelCrc x) (dah_highLevelChecksum x)"
    and "dah_hashType y = dah_hashType x" "dah_highLevelMd5 y = replicate 16 0" "dah_highLevelCrc y = 0" "dah_highLevelChecksum y = 0"
  shows "codes (decodedHighLevelHash_w x) (decodedHighLevelHash_r y) (y\<lparr>dah_highLevelMd5 := dah_highLevelMd5 x,
     dah_highLevelCrc := dah_highLevelCrc x, dah_highLevelChecksum := dah_highLevelChecksum x\<rparr>)"
  using assms unfolding decodedHighLevelHash_w_def [abs_def] decodedHighLevelHash_r_def [abs_def] hash_w_def [abs_def] hash_ok_def
  by - ((rule codes_same codes_map [OF md5_codes [where xs = "dah_highLevelMd5 x"]] codec_intro refl SEIDecodedAtlasInformationHash.equality
      | (simp; fail))+)

lemma atlasHash_codes:
  assumes "hash_ok True (dah_hashType x) (dah_atlasMd5 x) (dah_atlasCrc x) (dah_atlasChecksum x)"
    and "dah_hashType y = dah_hashType x" "dah_atlasMd5 y = replicate 16 0" "dah_atlasCrc y = 0" "dah_atlasChecksum y = 0"
  shows "codes (decodedAtlasHash_w x) (decodedAtlasHash_r y) (y\<lparr>dah_atlasMd5 := dah_atlasMd5 x,
     dah_atlasCrc := dah_atlasCrc x, dah_atlasChecksum := dah_atlasChecksum x\<rparr>)"
  using assms unfolding decodedAtlasHash_w_def [abs_def] decodedAtlasHash_r_def [abs_def] hash_w_def [abs_def] hash_ok_def
  by - ((rule codes_same codes_map [OF md5_codes [where xs = "dah_atlasMd5 x"]] codec_intro refl SEIDecodedAtlasInformationHash.equality
      | (simp; fail))+)

lemma atlasB2pHash_codes:
  assumes "hash_ok True (dah_hashType x) (dah_atlasB2pMd5 x) (dah_atlasB2pCrc x) (dah_atlasB2pChecksum x)"
    and "dah_hashType y = dah_hashType x" "dah_atlasB2pMd5 y = replicate 16 0" "dah_atlasB2pCrc y = 0" "dah_atlasB2pChecksum y = 0"
  shows "codes (decodedAtlasB2pHash_w x) (decodedAtlasB2pHash_r y) (y\<lparr>dah_atlasB2pMd5 := dah_atlasB2pMd5 x,
     dah_atlasB2pCrc := dah_atlasB2pCrc x, dah_atlasB2pChecksum := dah_atlasB2pChecksum x\<rparr>)"
  using assms unfolding decodedAtlasB2pHash_w_def [abs_def] decodedAtlasB2pHash_r_def [abs_def] hash_w_def [abs_def] hash_ok_def
  by - ((rule codes_same codes_map [OF md5_codes [where xs = "dah_atlasB2pMd5 x"]] codec_intro refl SEIDecodedAtlasInformationHash.equality
      | (simp; fail))+)

lemma tilesHash_codes:
  assumes "j < length (dah_atlasTilesMd5 x)" "j < length (dah_atlasTilesCrc x)" "j < length (dah_atlasTilesChecksum x)"
    and "length (dah_atlasTilesMd5 y) = length (dah_atlasTilesMd5 x)" "length (dah_atlasTilesCrc y) = length (dah_atlasTilesCrc x)" "length (dah_atlasTilesChecksum y) = length (dah_atlasTilesChecksum x)"
    and "length (dah_atlasTilesMd5 x ! j) = 16" and "length (dah_atlasTilesMd5 y ! j) = 16" and "\<And>v. v \<in> set (dah_atlasTilesMd5 x ! j) \<Longrightarrow> unat v < 2 ^ 8"
    and "dah_hashType y = dah_hashType x"
  shows "codes (decodedAtlasTilesHash_w x j) (decodedAtlasTilesHash_r j y) (y\<lparr>
     dah_atlasTilesMd5 := (if dah_hashType x = 0 then (dah_atlasTilesMd5 y)[j := dah_atlasTilesMd5 x ! j] else dah_atlasTilesMd5 y),
     dah_atlasTilesCrc := (if dah_hashType x = 1 then (dah_atlasTilesCrc y)[j := dah_atlasTilesCrc x ! j] else dah_atlasTilesCrc y),
     dah_atlasTilesChecksum := (if dah_hashType x = 2 then (dah_atlasTilesChecksum y)[j := dah_atlasTilesChecksum x ! j] else dah_atlasTilesChecksum y)\<rparr>)"
  using assms unfolding decodedAtlasTilesHash_w_def [abs_def] decodedAtlasTilesHash_r_def [abs_def] hash_w_def [abs_def]
  by - ((rule codes_same codes_then [OF md5_codes [where xs = "dah_atlasTilesMd5 x ! j"]] codec_intro refl SEIDecodedAtlasInformationHash.equality
      | (simp; fail))+)

lemma tilesB2pHash_codes:
  assumes "j < length (dah_atlasTilesB2pMd5 x)" "j < length (dah_atlasTilesB2pCrc x)" "j < length (dah_atlasTilesB2pChecksum x)"
    and "length (dah_atlasTilesB2pMd5 y) = length (dah_atlasTilesB2pMd5 x)" "length (dah_atlasTilesB2pCrc y) = length (dah_atlasTilesB2pCrc x)" "length (dah_atlasTilesB2pChecksum y) = length (dah_atlasTilesB2pChecksum x)"
    and "length (dah_atlasTilesB2pMd5 x ! j) = 16" and "length (dah_atlasTilesB2pMd5 y ! j) = 16" and "\<And>v. v \<in> set (dah_atlasTilesB2pMd5 x ! j) \<Longrightarrow> unat v < 2 ^ 8"
    and "dah_hashType y = dah_hashType x"
  shows "codes (decodedAtlasTilesB2pHash_w x j) (decodedAtlasTilesB2pHash_r j y) (y\<lparr>
     dah_atlasTilesB2pMd5 := (if dah_hashType x = 0 then (dah_atlasTilesB2pMd5 y)[j := dah_atlasTilesB2pMd5 x ! j] else dah_atlasTilesB2pMd5 y),
     dah_atlasTilesB2pCrc := (if dah_hashType x = 1 then (dah_atlasTilesB2pCrc y)[j := dah_atlasTilesB2pCrc x ! j] else dah_atlasTilesB2pCrc y),
     dah_atlasTilesB2pChecksum := (if dah_hashType x = 2 then (dah_atlasTilesB2pChecksum y)[j := dah_atlasTilesB2pChecksum x ! j] else dah_atlasTilesB2pChecksum y)\<rparr>)"
  using assms unfolding decodedAtlasTilesB2pHash_w_def [abs_def] decodedAtlasTilesB2pHash_r_def [abs_def] hash_w_def [abs_def]
  by - ((rule codes_same codes_then [OF md5_codes [where xs = "dah_atlasTilesB2pMd5 x ! j"]] codec_intro refl SEIDecodedAtlasInformationHash.equality
      | (simp; fail))+)

lemma tiles_step:
  fixes x y :: SEIDecodedAtlasInformationHash
  assumes ok: "tile_hashes_ok n ids True (dah_hashType x) (dah_atlasTilesMd5 x) (dah_atlasTilesCrc x) (dah_atlasTilesChecksum x)"
    and k: "k < length ids" "ids ! k < n"
    and y: "dah_hashType y = dah_hashType x"
      "dah_atlasTilesMd5 y = scattered (take k ids) (dah_atlasTilesMd5 x) (replicate n (replicate 16 0))"
      "dah_atlasTilesCrc y = scattered (take k ids) (dah_atlasTilesCrc x) (replicate n 0)"
      "dah_atlasTilesChecksum y = scattered (take k ids) (dah_atlasTilesChecksum x) (replicate n 0)"
  shows "codes (decodedAtlasTilesHash_w x (ids ! k)) (decodedAtlasTilesHash_r (ids ! k) y) (y\<lparr>
      dah_atlasTilesMd5 := scattered (take (Suc k) ids) (dah_atlasTilesMd5 x) (replicate n (replicate 16 0)),
      dah_atlasTilesCrc := scattered (take (Suc k) ids) (dah_atlasTilesCrc x) (replicate n 0),
      dah_atlasTilesChecksum := scattered (take (Suc k) ids) (dah_atlasTilesChecksum x) (replicate n 0)\<rparr>)"
proof -
  note f = ok [unfolded tile_hashes_ok_def if_bool_eq_conj]
  have "dah_atlasTilesMd5 x ! (ids ! k) \<in> set (dah_atlasTilesMd5 x)" using f k(2) by (intro nth_mem) simp
  then have row: "length (dah_atlasTilesMd5 x ! (ids ! k)) = 16" "\<forall>v \<in> set (dah_atlasTilesMd5 x ! (ids ! k)). unat v < 2 ^ 8"
    using f by blast+
  then have "codes (decodedAtlasTilesHash_w x (ids ! k)) (decodedAtlasTilesHash_r (ids ! k) y) (y\<lparr>
     dah_atlasTilesMd5 := (if dah_hashType x = 0 then (dah_atlasTilesMd5 y)[ids ! k := dah_atlasTilesMd5 x ! (ids ! k)] else dah_atlasTilesMd5 y),
     dah_atlasTilesCrc := (if dah_hashType x = 1 then (dah_atlasTilesCrc y)[ids ! k := dah_atlasTilesCrc x ! (ids ! k)] else dah_atlasTilesCrc y),
     dah_atlasTilesChecksum := (if dah_hashType x = 2 then (dah_atlasTilesChecksum y)[ids ! k := dah_atlasTilesChecksum x ! (ids ! k)] else dah_atlasTilesChecksum y)\<rparr>)"
    using f k by (intro tilesHash_codes) (simp_all add: y nth_scattered)
  moreover have "(if dah_hashType x = 0 then (dah_atlasTilesMd5 y)[ids ! k := dah_atlasTilesMd5 x ! (ids ! k)] else dah_atlasTilesMd5 y)
      = scattered (take (Suc k) ids) (dah_atlasTilesMd5 x) (replicate n (replicate 16 0))"
    unfolding y by (rule scattered_cond_step) (use f k in auto)
  moreover have "(if dah_hashType x = 1 then (dah_atlasTilesCrc y)[ids ! k := dah_atlasTilesCrc x ! (ids ! k)] else dah_atlasTilesCrc y)
      = scattered (take (Suc k) ids) (dah_atlasTilesCrc x) (replicate n 0)"
    unfolding y by (rule scattered_cond_step) (use f k in auto)
  moreover have "(if dah_hashType x = 2 then (dah_atlasTilesChecksum y)[ids ! k := dah_atlasTilesChecksum x ! (ids ! k)] else dah_atlasTilesChecksum y)
      = scattered (take (Suc k) ids) (dah_atlasTilesChecksum x) (replicate n 0)"
    unfolding y by (rule scattered_cond_step) (use f k in auto)
  ultimately show ?thesis by (simp only:)
qed

lemma tilesB2p_step:
  fixes x y :: SEIDecodedAtlasInformationHash
  assumes ok: "tile_hashes_ok n ids True (dah_hashType x) (dah_atlasTilesB2pMd5 x) (dah_atlasTilesB2pCrc x) (dah_atlasTilesB2pChecksum x)"
    and k: "k < length ids" "ids ! k < n"
    and y: "dah_hashType y = dah_hashType x"
      "dah_atlasTilesB2pMd5 y = scattered (take k ids) (dah_atlasTilesB2pMd5 x) (replicate n (replicate 16 0))"
      "dah_atlasTilesB2pCrc y = scattered (take k ids) (dah_atlasTilesB2pCrc x) (replicate n 0)"
      "dah_atlasTilesB2pChecksum y = scattered (take k ids) (dah_atlasTilesB2pChecksum x) (replicate n 0)"
  shows "codes (decodedAtlasTilesB2pHash_w x (ids ! k)) (decodedAtlasTilesB2pHash_r (ids ! k) y) (y\<lparr>
      dah_atlasTilesB2pMd5 := scattered (take (Suc k) ids) (dah_atlasTilesB2pMd5 x) (replicate n (replicate 16 0)),
      dah_atlasTilesB2pCrc := scattered (take (Suc k) ids) (dah_atlasTilesB2pCrc x) (replicate n 0),
      dah_atlasTilesB2pChecksum := scattered (take (Suc k) ids) (dah_atlasTilesB2pChecksum x) (replicate n 0)\<rparr>)"
proof -
  note f = ok [unfolded tile_hashes_ok_def if_bool_eq_conj]
  have "dah_atlasTilesB2pMd5 x ! (ids ! k) \<in> set (dah_atlasTilesB2pMd5 x)" using f k(2) by (intro nth_mem) simp
  then have row: "length (dah_atlasTilesB2pMd5 x ! (ids ! k)) = 16" "\<forall>v \<in> set (dah_atlasTilesB2pMd5 x ! (ids ! k)). unat v < 2 ^ 8"
    using f by blast+
  then have "codes (decodedAtlasTilesB2pHash_w x (ids ! k)) (decodedAtlasTilesB2pHash_r (ids ! k) y) (y\<lparr>
     dah_atlasTilesB2pMd5 := (if dah_hashType x = 0 then (dah_atlasTilesB2pMd5 y)[ids ! k := dah_atlasTilesB2pMd5 x ! (ids ! k)] else dah_atlasTilesB2pMd5 y),
     dah_atlasTilesB2pCrc := (if dah_hashType x = 1 then (dah_atlasTilesB2pCrc y)[ids ! k := dah_atlasTilesB2pCrc x ! (ids ! k)] else dah_atlasTilesB2pCrc y),
     dah_atlasTilesB2pChecksum := (if dah_hashType x = 2 then (dah_atlasTilesB2pChecksum y)[ids ! k := dah_atlasTilesB2pChecksum x ! (ids ! k)] else dah_atlasTilesB2pChecksum y)\<rparr>)"
    using f k by (intro tilesB2pHash_codes) (simp_all add: y nth_scattered)
  moreover have "(if dah_hashType x = 0 then (dah_atlasTilesB2pMd5 y)[ids ! k := dah_atlasTilesB2pMd5 x ! (ids ! k)] else dah_atlasTilesB2pMd5 y)
      = scattered (take (Suc k) ids) (dah_atlasTilesB2pMd5 x) (replicate n (replicate 16 0))"
    unfolding y by (rule scattered_cond_step) (use f k in auto)
  moreover have "(if dah_hashType x = 1 then (dah_atlasTilesB2pCrc y)[ids ! k := dah_atlasTilesB2pCrc x ! (ids ! k)] else dah_atlasTilesB2pCrc y)
      = scattered (take (Suc k) ids) (dah_atlasTilesB2pCrc x) (replicate n 0)"
    unfolding y by (rule scattered_cond_step) (use f k in auto)
  moreover have "(if dah_hashType x = 2 then (dah_atlasTilesB2pChecksum y)[ids ! k := dah_atlasTilesB2pChecksum x ! (ids ! k)] else dah_atlasTilesB2pChecksum y)
      = scattered (take (Suc k) ids) (dah_atlasTilesB2pChecksum x) (replicate n 0)"
    unfolding y by (rule scattered_cond_step) (use f k in auto)
  ultimately show ?thesis by (simp only:)
qed

text \<open>The message while its tile hashes are read: those of the first \<open>k\<close> identifiers are final.\<close>

definition dah_tiles_upto :: "SEIDecodedAtlasInformationHash \<Rightarrow> nat \<Rightarrow> SEIDecodedAtlasInformationHash \<Rightarrow> SEIDecodedAtlasInformationHash" where
  "dah_tiles_upto x k y = (let n = Suc (unat (dah_numTilesMinus1 x)); ids = take k (map unat (dah_tileId x)) in y\<lparr>
      dah_atlasTilesMd5 := scattered ids (dah_atlasTilesMd5 x) (replicate n (replicate 16 0)),
      dah_atlasTilesCrc := scattered ids (dah_atlasTilesCrc x) (replicate n 0),
      dah_atlasTilesChecksum := scattered ids (dah_atlasTilesChecksum x) (replicate n 0),
      dah_atlasTilesB2pMd5 := scattered ids (dah_atlasTilesB2pMd5 x) (replicate n (replicate 16 0)),
      dah_atlasTilesB2pCrc := scattered ids (dah_atlasTilesB2pCrc x) (replicate n 0),
      dah_atlasTilesB2pChecksum := scattered ids (dah_atlasTilesB2pChecksum x) (replicate n 0)\<rparr>)"

lemma dah_tile_codes:
  fixes x y :: SEIDecodedAtlasInformationHash
  defines "n \<equiv> Suc (unat (dah_numTilesMinus1 x))" and "ids \<equiv> map unat (dah_tileId x)"
    and "A \<equiv> dah_decodedAtlasTilesHashPresentFlag x" and "B \<equiv> dah_decodedAtlasTilesB2pHashPresentFlag x"
  assumes len: "length ids = n" and small: "\<forall>j \<in> set ids. j < n"
    and a: "tile_hashes_ok n ids A (dah_hashType x) (dah_atlasTilesMd5 x) (dah_atlasTilesCrc x) (dah_atlasTilesChecksum x)"
    and b: "tile_hashes_ok n ids B (dah_hashType x) (dah_atlasTilesB2pMd5 x) (dah_atlasTilesB2pCrc x) (dah_atlasTilesB2pChecksum x)"
    and y: "dah_tileId y = dah_tileId x" "dah_hashType y = dah_hashType x"
      "dah_decodedAtlasTilesHashPresentFlag y = A" "dah_decodedAtlasTilesB2pHashPresentFlag y = B"
    and k: "k < n"
  shows "codes (dah_tile_w x k) (dah_tile_r k (dah_tiles_upto x k y)) (dah_tiles_upto x (Suc k) y)"
proof -
  have j: "ids ! k < n" "k < length ids" "unat (dah_tileId x ! k) = ids ! k" using small k len by (auto simp: ids_def)
  have at: "vec_at (dah_tileId x) k = Some (dah_tileId x ! k)" using k len by (simp add: ids_def)
  note skip = a [unfolded tile_hashes_ok_def if_bool_eq_conj] b [unfolded tile_hashes_ok_def if_bool_eq_conj]
  note upto = dah_tiles_upto_def Let_def n_def [symmetric] ids_def [symmetric]
  have sa: "codes (decodedAtlasTilesHash_w x (ids ! k)) (decodedAtlasTilesHash_r (ids ! k) z) (z\<lparr>
      dah_atlasTilesMd5 := scattered (take (Suc k) ids) (dah_atlasTilesMd5 x) (replicate n (replicate 16 0)),
      dah_atlasTilesCrc := scattered (take (Suc k) ids) (dah_atlasTilesCrc x) (replicate n 0),
      dah_atlasTilesChecksum := scattered (take (Suc k) ids) (dah_atlasTilesChecksum x) (replicate n 0)\<rparr>)"
    if A and "z = dah_tiles_upto x k y" for z
    using a that j by (intro tiles_step) (simp_all add: upto y)
  have sb: "codes (decodedAtlasTilesB2pHash_w x (ids ! k)) (decodedAtlasTilesB2pHash_r (ids ! k) z) (z\<lparr>
      dah_atlasTilesB2pMd5 := scattered (take (Suc k) ids) (dah_atlasTilesB2pMd5 x) (replicate n (replicate 16 0)),
      dah_atlasTilesB2pCrc := scattered (take (Suc k) ids) (dah_atlasTilesB2pCrc x) (replicate n 0),
      dah_atlasTilesB2pChecksum := scattered (take (Suc k) ids) (dah_atlasTilesB2pChecksum x) (replicate n 0)\<rparr>)"
    if B and "z = dah_tiles_upto x k y \<or> z = (dah_tiles_upto x k y)\<lparr>
      dah_atlasTilesMd5 := scattered (take (Suc k) ids) (dah_atlasTilesMd5 x) (replicate n (replicate 16 0)),
      dah_atlasTilesCrc := scattered (take (Suc k) ids) (dah_atlasTilesCrc x) (replicate n 0),
      dah_atlasTilesChecksum := scattered (take (Suc k) ids) (dah_atlasTilesChecksum x) (replicate n 0)\<rparr>" for z
    using b that j by (intro tilesB2p_step) (auto simp: upto y)
  show ?thesis
    unfolding dah_tile_w_def [abs_def] dah_tile_r_def [abs_def]
    by ((rule sa [folded j(3)] sb [folded j(3)] codes_split codec_intro refl SEIDecodedAtlasInformationHash.equality
      | (simp add: at j upto y A_def [symmetric] B_def [symmetric] skip; fail))+)
qed

lemma dah_units_codes:
  assumes "hash_ok (dah_decodedHighLevelHashPresentFlag x) (dah_hashType x) (dah_highLevelMd5 x) (dah_highLevelCrc x) (dah_highLevelChecksum x)"
    and "hash_ok (dah_decodedAtlasHashPresentFlag x) (dah_hashType x) (dah_atlasMd5 x) (dah_atlasCrc x) (dah_atlasChecksum x)"
    and "hash_ok (dah_decodedAtlasB2pHashPresentFlag x) (dah_hashType x) (dah_atlasB2pMd5 x) (dah_atlasB2pCrc x) (dah_atlasB2pChecksum x)"
    and y: "dah_decodedHighLevelHashPresentFlag y = dah_decodedHighLevelHashPresentFlag x"
      "dah_decodedAtlasHashPresentFlag y = dah_decodedAtlasHashPresentFlag x"
      "dah_decodedAtlasB2pHashPresentFlag y = dah_decodedAtlasB2pHashPresentFlag x" "dah_hashType y = dah_hashType x"
      "dah_highLevelMd5 y = replicate 16 0" "dah_highLevelCrc y = 0" "dah_highLevelChecksum y = 0"
      "dah_atlasMd5 y = replicate 16 0" "dah_atlasCrc y = 0" "dah_atlasChecksum y = 0"
      "dah_atlasB2pMd5 y = replicate 16 0" "dah_atlasB2pCrc y = 0" "dah_atlasB2pChecksum y = 0"
  shows "codes (dah_units_w x) (dah_units_r y) (y\<lparr>
     dah_highLevelMd5 := dah_highLevelMd5 x, dah_highLevelCrc := dah_highLevelCrc x, dah_highLevelChecksum := dah_highLevelChecksum x,
     dah_atlasMd5 := dah_atlasMd5 x, dah_atlasCrc := dah_atlasCrc x, dah_atlasChecksum := dah_atlasChecksum x,
     dah_atlasB2pMd5 := dah_atlasB2pMd5 x, dah_atlasB2pCrc := dah_atlasB2pCrc x, dah_atlasB2pChecksum := dah_atlasB2pChecksum x\<rparr>)"
  unfolding dah_units_w_def [abs_def] dah_units_r_def [abs_def]
  by ((rule highLevelHash_codes atlasHash_codes atlasB2pHash_codes codes_same codec_intro refl SEIDecodedAtlasInformationHash.equality
      | (simp add: y; fail) | (use assms(1-3) in \<open>simp add: y hash_ok_def\<close>; fail))+)

lemma dah_tileIds_codes:
  assumes "length (dah_tileId x) = n" and "n' = n" and "length (dah_tileId y) = n"
    and "dah_tileIdLenMinus1 y = dah_tileIdLenMinus1 x" and "unat (dah_tileIdLenMinus1 x) < 32"
    and "\<And>v. v \<in> set (dah_tileId x) \<Longrightarrow> unat v < 2 ^ Suc (unat (dah_tileIdLenMinus1 x))"
  shows "codes (for_loop [0..<n] (dah_tileId_w x)) (\<lambda>bs. for_loop [0..<n'] (\<lambda>i (a, bs). dah_tileId_r i a bs) (y, bs))
     (y\<lparr>dah_tileId := dah_tileId x\<rparr>)"
proof -
  have "unat (dah_tileIdLenMinus1 x + 1) = Suc (unat (dah_tileIdLenMinus1 x))"
    using assms(5) by (simp add: unat_word_ariths)
  then have b: "bits8 (dah_tileIdLenMinus1 x + 1) = Suc (unat (dah_tileIdLenMinus1 x))"
    using assms(5) by (simp add: bits8_small)
  have ids: "unat (dah_tileId x ! k) < 2 ^ Suc (unat (dah_tileIdLenMinus1 x))" if "k < n" for k
    using that assms(1) by (intro assms(6)) simp
  show ?thesis
    unfolding dah_tileId_w_def [abs_def] dah_tileId_r_def [abs_def]
    by ((rule codes_for_field [where S = "\<lambda>l. y\<lparr>dah_tileId := l\<rparr>" and zs = "dah_tileId y"]
        codec_intro refl | (simp add: assms(1-5) b; fail) | (use ids assms(5) in \<open>simp add: b del: power_Suc\<close>; fail))+)
qed

lemma dah_tile_loop_codes:
  fixes x y :: SEIDecodedAtlasInformationHash
  assumes "length (dah_tileId x) = n" and "n = Suc (unat (dah_numTilesMinus1 x))" and "m = n" and "n' = n" and "\<forall>j \<in> set (map unat (dah_tileId x)). j < n"
    and "tile_hashes_ok n (map unat (dah_tileId x)) (dah_decodedAtlasTilesHashPresentFlag x) (dah_hashType x)
      (dah_atlasTilesMd5 x) (dah_atlasTilesCrc x) (dah_atlasTilesChecksum x)"
    and "tile_hashes_ok n (map unat (dah_tileId x)) (dah_decodedAtlasTilesB2pHashPresentFlag x) (dah_hashType x)
      (dah_atlasTilesB2pMd5 x) (dah_atlasTilesB2pCrc x) (dah_atlasTilesB2pChecksum x)"
    and "dah_tileId y = dah_tileId x" "dah_hashType y = dah_hashType x"
      "dah_decodedAtlasTilesHashPresentFlag y = dah_decodedAtlasTilesHashPresentFlag x"
      "dah_decodedAtlasTilesB2pHashPresentFlag y = dah_decodedAtlasTilesB2pHashPresentFlag x"
    and "y0 = dah_tiles_upto x 0 y"
  shows "codes (for_loop [0..<m] (dah_tile_w x)) (\<lambda>bs. for_loop [0..<n'] (\<lambda>i (a, bs). dah_tile_r i a bs) (y0, bs))
     (dah_tiles_upto x n y)"
  unfolding assms(3)
  using assms by (intro codes_for [where y = "\<lambda>k. dah_tiles_upto x k y"] dah_tile_codes) simp_all

lemma vec_resize_singleton: "0 < n \<Longrightarrow> vec_resize n d [d] = replicate n d"
  by (cases n) (simp_all add: vec_resize_def)

lemma md5_rows_fresh:
  assumes "0 < n"
  shows "md5_rows n [replicate 16 0] = replicate n (replicate 16 0)"
proof -
  obtain m where "n = Suc m" using assms by (cases n) auto
  then show ?thesis by (simp add: md5_rows_def vec_resize_def map_replicate)
qed

text \<open>The allocation on a message whose tile vectors are those of the constructor.\<close>

lemma dah_allocate_fresh:
  assumes n: "n = Suc (unat (dah_numTilesMinus1 y))" "n < 2 ^ 31"
    and y: "length (dah_highLevelMd5 y) = 16" "length (dah_atlasMd5 y) = 16" "length (dah_atlasB2pMd5 y) = 16"
      "dah_tileId y = [0]" "dah_atlasTilesMd5 y = [replicate 16 0]" "dah_atlasTilesCrc y = [0]" "dah_atlasTilesChecksum y = [0]"
      "dah_atlasTilesB2pMd5 y = [replicate 16 0]" "dah_atlasTilesB2pCrc y = [0]" "dah_atlasTilesB2pChecksum y = [0]"
  shows "dah_allocateAtlasTilesHash (ucast (dah_numTilesMinus1 y + 1)) y = Some (y\<lparr>dah_tileId := replicate n 0,
     dah_atlasTilesMd5 := replicate n (replicate 16 0), dah_atlasTilesCrc := replicate n 0, dah_atlasTilesChecksum := replicate n 0,
     dah_atlasTilesB2pMd5 := replicate n (replicate 16 0), dah_atlasTilesB2pCrc := replicate n 0, dah_atlasTilesB2pChecksum := replicate n 0\<rparr>)"
proof -
  let ?m = "ucast (dah_numTilesMinus1 y + 1) :: size_t"
  have u: "unat (dah_numTilesMinus1 y + 1) = n" using n by (simp add: unat_word_ariths)
  then have m: "unat ?m = n" by simp
  then have nz: "?m \<noteq> 0" using n(1) by (metis unat_0 Zero_not_Suc)
  have "unat (?m - 1) = unat (dah_numTilesMinus1 y)" using m nz n(1) by (simp add: unat_minus_one)
  then have "unat (ucast (?m - 1) :: uint32_t) = unat (dah_numTilesMinus1 y)" using n by (simp add: unat_ucast_small)
  then have pred: "ucast (?m - 1) = dah_numTilesMinus1 y" by (simp only: word_unat_eq_iff)
  have n0: "0 < n" using n(1) by simp
  show ?thesis
    using y nz
    by (simp only: dah_allocateAtlasTilesHash_def Let_def m pred if_False vec_resize_singleton [OF n0] md5_rows_fresh [OF n0])
       (simp add: SEIDecodedAtlasInformationHash.equality)
qed

lemma tile_hashes_scattered:
  assumes "tile_hashes_ok n ids p h md5 crc checksum"
  shows "scattered ids md5 (replicate n (replicate 16 0)) = md5" "scattered ids crc (replicate n 0) = crc"
    "scattered ids checksum (replicate n 0) = checksum"
  using assms unfolding tile_hashes_ok_def by (metis scattered_all scattered_same)+

lemma dah_tiles_done:
  fixes x y :: SEIDecodedAtlasInformationHash
  assumes "n = Suc (unat (dah_numTilesMinus1 x))" and "length (dah_tileId x) = n"
    and "tile_hashes_ok n (map unat (dah_tileId x)) a (dah_hashType x) (dah_atlasTilesMd5 x) (dah_atlasTilesCrc x) (dah_atlasTilesChecksum x)"
    and "tile_hashes_ok n (map unat (dah_tileId x)) b (dah_hashType x) (dah_atlasTilesB2pMd5 x) (dah_atlasTilesB2pCrc x) (dah_atlasTilesB2pChecksum x)"
  shows "dah_tiles_upto x n y = y\<lparr>dah_atlasTilesMd5 := dah_atlasTilesMd5 x, dah_atlasTilesCrc := dah_atlasTilesCrc x,
     dah_atlasTilesChecksum := dah_atlasTilesChecksum x, dah_atlasTilesB2pMd5 := dah_atlasTilesB2pMd5 x,
     dah_atlasTilesB2pCrc := dah_atlasTilesB2pCrc x, dah_atlasTilesB2pChecksum := dah_atlasTilesB2pChecksum x\<rparr>"
  unfolding dah_tiles_upto_def Let_def assms(1) [symmetric]
  using tile_hashes_scattered [OF assms(3)] tile_hashes_scattered [OF assms(4)] assms(2) by simp

lemma dah_tiles_codes:
  assumes wf: "dah_wf x" "\<not> dah_cancelFlag x"
    and y: "dah_decodedAtlasTilesHashPresentFlag y = dah_decodedAtlasTilesHashPresentFlag x"
      "dah_decodedAtlasTilesB2pHashPresentFlag y = dah_decodedAtlasTilesB2pHashPresentFlag x" "dah_hashType y = dah_hashType x"
      "dah_numTilesMinus1 y = 0" "dah_tileIdLenMinus1 y = 0"
      "length (dah_highLevelMd5 y) = 16" "length (dah_atlasMd5 y) = 16" "length (dah_atlasB2pMd5 y) = 16"
      "dah_tileId y = [0]" "dah_atlasTilesMd5 y = [replicate 16 0]" "dah_atlasTilesCrc y = [0]" "dah_atlasTilesChecksum y = [0]"
      "dah_atlasTilesB2pMd5 y = [replicate 16 0]" "dah_atlasTilesB2pCrc y = [0]" "dah_atlasTilesB2pChecksum y = [0]"
  shows "codes (dah_tiles_w x) (dah_tiles_r y) (y\<lparr>dah_numTilesMinus1 := dah_numTilesMinus1 x,
     dah_tileIdLenMinus1 := dah_tileIdLenMinus1 x, dah_tileId := dah_tileId x,
     dah_atlasTilesMd5 := dah_atlasTilesMd5 x, dah_atlasTilesCrc := dah_atlasTilesCrc x,
     dah_atlasTilesChecksum := dah_atlasTilesChecksum x, dah_atlasTilesB2pMd5 := dah_atlasTilesB2pMd5 x,
     dah_atlasTilesB2pCrc := dah_atlasTilesB2pCrc x, dah_atlasTilesB2pChecksum := dah_atlasTilesB2pChecksum x\<rparr>)"
proof (cases "dah_decodedAtlasTilesHashPresentFlag x \<or> dah_decodedAtlasTilesB2pHashPresentFlag x")
  case False
  have "codes Some (\<lambda>bs. Some (y, bs)) (y\<lparr>dah_numTilesMinus1 := dah_numTilesMinus1 x,
     dah_tileIdLenMinus1 := dah_tileIdLenMinus1 x, dah_tileId := dah_tileId x,
     dah_atlasTilesMd5 := dah_atlasTilesMd5 x, dah_atlasTilesCrc := dah_atlasTilesCrc x,
     dah_atlasTilesChecksum := dah_atlasTilesChecksum x, dah_atlasTilesB2pMd5 := dah_atlasTilesB2pMd5 x,
     dah_atlasTilesB2pCrc := dah_atlasTilesB2pCrc x, dah_atlasTilesB2pChecksum := dah_atlasTilesB2pChecksum x\<rparr>)"
    using False wf by (intro codes_return SEIDecodedAtlasInformationHash.equality) (simp_all add: y dah_wf_def tile_hashes_ok_def)
  then show ?thesis using False by (simp add: dah_tiles_w_def [abs_def] dah_tiles_r_def [abs_def] y)
next
  case True
  define n where "n = Suc (unat (dah_numTilesMinus1 x))"
  note f = wf(1) [unfolded dah_wf_def Let_def, folded n_def]
  have n: "n < 2 ^ 31 - 1" "length (dah_tileId x) = n" "unat (dah_tileIdLenMinus1 x) < 32"
      "unat (dah_tileIdLenMinus1 x) < 2 ^ 31 - 1" "unat (dah_numTilesMinus1 x) < 2 ^ 31 - 1"
      "\<forall>j \<in> set (map unat (dah_tileId x)). j < n"
      "\<And>v. v \<in> set (dah_tileId x) \<Longrightarrow> unat v < 2 ^ Suc (unat (dah_tileIdLenMinus1 x))"
    using f True wf(2) by (auto simp: n_def)
  have t: "tile_hashes_ok n (map unat (dah_tileId x)) (dah_decodedAtlasTilesHashPresentFlag x) (dah_hashType x)
      (dah_atlasTilesMd5 x) (dah_atlasTilesCrc x) (dah_atlasTilesChecksum x)"
    "tile_hashes_ok n (map unat (dah_tileId x)) (dah_decodedAtlasTilesB2pHashPresentFlag x) (dah_hashType x)
      (dah_atlasTilesB2pMd5 x) (dah_atlasTilesB2pCrc x) (dah_atlasTilesB2pChecksum x)"
    using f wf(2) by auto
  have lens: "length (dah_atlasTilesMd5 x) = n" "length (dah_atlasTilesCrc x) = n" "length (dah_atlasTilesChecksum x) = n"
    "length (dah_atlasTilesB2pMd5 x) = n" "length (dah_atlasTilesB2pCrc x) = n" "length (dah_atlasTilesB2pChecksum x) = n"
    using t by (simp_all add: tile_hashes_ok_def)
  let ?y = "y\<lparr>dah_numTilesMinus1 := dah_numTilesMinus1 x, dah_tileIdLenMinus1 := dah_tileIdLenMinus1 x\<rparr>"
  have al: "dah_allocateAtlasTilesHash (ucast (dah_numTilesMinus1 x + 1)) ?y = Some (?y\<lparr>dah_tileId := replicate n 0,
     dah_atlasTilesMd5 := replicate n (replicate 16 0), dah_atlasTilesCrc := replicate n 0, dah_atlasTilesChecksum := replicate n 0,
     dah_atlasTilesB2pMd5 := replicate n (replicate 16 0), dah_atlasTilesB2pCrc := replicate n 0, dah_atlasTilesB2pChecksum := replicate n 0\<rparr>)"
    using dah_allocate_fresh [of n ?y] n(1) by (simp add: n_def y)
  show ?thesis
    unfolding dah_tiles_w_def [abs_def] dah_tiles_r_def [abs_def] dah_tiles_done [OF n_def n(2) t, symmetric]
  proof (rule codes_split, goal_cases)
    case 1
    show ?case by (simp add: y)
  next
    case 2
    show ?case
      by ((rule dah_tileIds_codes dah_tile_loop_codes [OF n(2) n_def _ _ n(6) t, where y = "?y\<lparr>dah_tileId := dah_tileId x\<rparr>"] n(4,5,7) codec_intro refl
        | (simp add: y n al n_def [symmetric]; fail)
        | (simp add: y n al n_def [symmetric] dah_tiles_upto_def lens; fail))+)
  next
    case 3
    then show ?case using True by simp
  qed
qed

interpretation dah: syntax_codec decodedAtlasInformationHash_w decodedAtlasInformationHash_r dah_new dah_wf
proof unfold_locales
  fix x assume wf: "dah_wf x"
  then have cancel: "dah_cancelFlag x \<Longrightarrow> x = dah_new\<lparr>dah_cancelFlag := True\<rparr>" by (simp add: dah_wf_def)
  show "codes (decodedAtlasInformationHash_w x) (decodedAtlasInformationHash_r dah_new) x"
    unfolding decodedAtlasInformationHash_w_def [abs_def] decodedAtlasInformationHash_r_def [abs_def]
    by ((rule dah_units_codes dah_tiles_codes wf codes_split codec_intro refl SEIDecodedAtlasInformationHash.equality
      | (simp add: dah_new_def; fail) | (use wf in \<open>simp add: dah_wf_def Let_def hash_ok_def dah_new_def\<close>; fail)
      | (auto simp: dah_new_def dest: cancel; fail))+)
qed

end
