(* ===== verification/SeiProcessing.thy ===== *)
theory SeiProcessing
  imports SeiMessages
begin

unbundle bit_operations_syntax

text \<open>
  The SEI messages, second part: the post-processing messages (occupancy synthesis, geometry smoothing,
  attribute smoothing and attribute transformation parameters). Each coded instance is stored in the
  vectors of the message at its index.
\<close>

section \<open>Occupancy synthesis and geometry smoothing\<close>

record SEIOccupancySynthesis =
  osy_persistenceFlag :: bool
  osy_resetFlag :: bool
  osy_instancesUpdated :: uint8_t
  osy_instanceIndex :: "uint8_t list"
  osy_instanceCancelFlag :: "bool list"
  osy_methodType :: "uint8_t list"
  osy_pbfLog2ThresholdMinus1 :: "uint8_t list"
  osy_pbfPassesCountMinus1 :: "uint8_t list"
  osy_pbfFilterSizeMinus1 :: "uint8_t list"

definition osy_new :: SEIOccupancySynthesis where
  "osy_new = \<lparr>osy_persistenceFlag = False, osy_resetFlag = False, osy_instancesUpdated = 0,
     osy_instanceIndex = [], osy_instanceCancelFlag = [], osy_methodType = [],
     osy_pbfLog2ThresholdMinus1 = [], osy_pbfPassesCountMinus1 = [],
     osy_pbfFilterSizeMinus1 = []\<rparr>"

definition osy_instance_w :: "SEIOccupancySynthesis \<Rightarrow> nat \<Rightarrow> PCCBitstream \<Rightarrow> PCCBitstream option" where
  "osy_instance_w sei i bs = do {
     v \<leftarrow> vec_at (osy_instanceIndex sei) i;
     bs \<leftarrow> bs_write (ucast v) 8 bs;
     k \<leftarrow> vec_at (osy_instanceIndex sei) i;
     v \<leftarrow> vec_at (osy_instanceCancelFlag sei) (unat k);
     bs \<leftarrow> bs_write (b2u v) 1 bs;
     c \<leftarrow> vec_at (osy_instanceCancelFlag sei) (unat k);
     bs \<leftarrow> (if \<not> c then do {
         v \<leftarrow> vec_at (osy_methodType sei) (unat k);
         bs \<leftarrow> bs_writeUvlc (ucast v) bs;
         m \<leftarrow> vec_at (osy_methodType sei) (unat k);
         bs \<leftarrow> (if m = 1 then do {
             v \<leftarrow> vec_at (osy_pbfLog2ThresholdMinus1 sei) (unat k);
             bs \<leftarrow> bs_write (ucast v) 2 bs;
             v \<leftarrow> vec_at (osy_pbfPassesCountMinus1 sei) (unat k);
             bs \<leftarrow> bs_write (ucast v) 2 bs;
             v \<leftarrow> vec_at (osy_pbfFilterSizeMinus1 sei) (unat k);
             bs \<leftarrow> bs_write (ucast v) 3 bs;
             Some bs
           } else Some bs);
         Some bs
       } else Some bs);
     Some bs
   }"

definition osy_instance_r :: "nat \<Rightarrow> SEIOccupancySynthesis \<Rightarrow> PCCBitstream \<Rightarrow> (SEIOccupancySynthesis \<times> PCCBitstream) option" where
  "osy_instance_r i sei bs = do {
     (v, bs) \<leftarrow> bs_read 8 bs;
     l \<leftarrow> vec_set (osy_instanceIndex sei) i (ucast v);
     let sei = sei\<lparr>osy_instanceIndex := l\<rparr>;
     k \<leftarrow> vec_at (osy_instanceIndex sei) i;
     (v, bs) \<leftarrow> bs_read 1 bs;
     l \<leftarrow> vec_set (osy_instanceCancelFlag sei) (unat k) (v \<noteq> 0);
     let sei = sei\<lparr>osy_instanceCancelFlag := l\<rparr>;
     c \<leftarrow> vec_at (osy_instanceCancelFlag sei) (unat k);
     (sei, bs) \<leftarrow> (if \<not> c then do {
         (v, bs) \<leftarrow> bs_readUvlc bs;
         l \<leftarrow> vec_set (osy_methodType sei) (unat k) (ucast v);
         let sei = sei\<lparr>osy_methodType := l\<rparr>;
         m \<leftarrow> vec_at (osy_methodType sei) (unat k);
         (sei, bs) \<leftarrow> (if m = 1 then do {
             (v, bs) \<leftarrow> bs_read 2 bs;
             l \<leftarrow> vec_set (osy_pbfLog2ThresholdMinus1 sei) (unat k) (ucast v);
             let sei = sei\<lparr>osy_pbfLog2ThresholdMinus1 := l\<rparr>;
             (v, bs) \<leftarrow> bs_read 2 bs;
             l \<leftarrow> vec_set (osy_pbfPassesCountMinus1 sei) (unat k) (ucast v);
             let sei = sei\<lparr>osy_pbfPassesCountMinus1 := l\<rparr>;
             (v, bs) \<leftarrow> bs_read 3 bs;
             l \<leftarrow> vec_set (osy_pbfFilterSizeMinus1 sei) (unat k) (ucast v);
             let sei = sei\<lparr>osy_pbfFilterSizeMinus1 := l\<rparr>;
             Some (sei, bs)
           } else Some (sei, bs));
         Some (sei, bs)
       } else Some (sei, bs));
     Some (sei, bs)
   }"

definition osy_allocate :: "SEIOccupancySynthesis \<Rightarrow> SEIOccupancySynthesis" where
  "osy_allocate sei = (let n = unat (osy_instancesUpdated sei) in sei\<lparr>
     osy_instanceIndex := vec_resize n 0 (osy_instanceIndex sei),
     osy_instanceCancelFlag := vec_resize n False (osy_instanceCancelFlag sei),
     osy_methodType := vec_resize n 0 (osy_methodType sei),
     osy_pbfLog2ThresholdMinus1 := vec_resize n 0 (osy_pbfLog2ThresholdMinus1 sei),
     osy_pbfPassesCountMinus1 := vec_resize n 0 (osy_pbfPassesCountMinus1 sei),
     osy_pbfFilterSizeMinus1 := vec_resize n 0 (osy_pbfFilterSizeMinus1 sei)\<rparr>)"

definition occupancySynthesis_w :: "SEIOccupancySynthesis \<Rightarrow> PCCBitstream \<Rightarrow> PCCBitstream option" where
  "occupancySynthesis_w sei bs = do {
     bs \<leftarrow> bs_write (b2u (osy_persistenceFlag sei)) 1 bs;
     bs \<leftarrow> bs_write (b2u (osy_resetFlag sei)) 1 bs;
     bs \<leftarrow> bs_write (ucast (osy_instancesUpdated sei)) 8 bs;
     bs \<leftarrow> for_loop [0..<unat (osy_instancesUpdated sei)] (osy_instance_w sei) bs;
     Some bs
   }"

definition occupancySynthesis_r :: "SEIOccupancySynthesis \<Rightarrow> PCCBitstream \<Rightarrow> (SEIOccupancySynthesis \<times> PCCBitstream) option" where
  "occupancySynthesis_r sei bs = do {
     (v, bs) \<leftarrow> bs_read 1 bs;
     let sei = sei\<lparr>osy_persistenceFlag := v \<noteq> 0\<rparr>;
     (v, bs) \<leftarrow> bs_read 1 bs;
     let sei = sei\<lparr>osy_resetFlag := v \<noteq> 0\<rparr>;
     (v, bs) \<leftarrow> bs_read 8 bs;
     let sei = sei\<lparr>osy_instancesUpdated := ucast v\<rparr>;
     let sei = osy_allocate sei;
     (sei, bs) \<leftarrow> for_loop [0..<unat (osy_instancesUpdated sei)] (\<lambda>i (sei, bs). osy_instance_r i sei bs) (sei, bs);
     Some (sei, bs)
   }"

record SEIGeometrySmoothing =
  gsm_persistenceFlag :: bool
  gsm_resetFlag :: bool
  gsm_instancesUpdated :: uint8_t
  gsm_instanceIndex :: "uint8_t list"
  gsm_instanceCancelFlag :: "bool list"
  gsm_methodType :: "uint8_t list"
  gsm_filterEomPointsFlag :: "bool list"
  gsm_gridSizeMinus2 :: "uint8_t list"
  gsm_threshold :: "uint8_t list"

definition gsm_new :: SEIGeometrySmoothing where
  "gsm_new = \<lparr>gsm_persistenceFlag = False, gsm_resetFlag = False, gsm_instancesUpdated = 0,
     gsm_instanceIndex = [], gsm_instanceCancelFlag = [], gsm_methodType = [],
     gsm_filterEomPointsFlag = [], gsm_gridSizeMinus2 = [], gsm_threshold = []\<rparr>"

definition gsm_instance_w :: "SEIGeometrySmoothing \<Rightarrow> nat \<Rightarrow> PCCBitstream \<Rightarrow> PCCBitstream option" where
  "gsm_instance_w sei i bs = do {
     v \<leftarrow> vec_at (gsm_instanceIndex sei) i;
     bs \<leftarrow> bs_write (ucast v) 8 bs;
     k \<leftarrow> vec_at (gsm_instanceIndex sei) i;
     v \<leftarrow> vec_at (gsm_instanceCancelFlag sei) (unat k);
     bs \<leftarrow> bs_write (b2u v) 1 bs;
     c \<leftarrow> vec_at (gsm_instanceCancelFlag sei) (unat k);
     bs \<leftarrow> (if \<not> c then do {
         v \<leftarrow> vec_at (gsm_methodType sei) (unat k);
         bs \<leftarrow> bs_writeUvlc (ucast v) bs;
         m \<leftarrow> vec_at (gsm_methodType sei) (unat k);
         bs \<leftarrow> (if m = 1 then do {
             v \<leftarrow> vec_at (gsm_filterEomPointsFlag sei) (unat k);
             bs \<leftarrow> bs_write (b2u v) 1 bs;
             v \<leftarrow> vec_at (gsm_gridSizeMinus2 sei) (unat k);
             bs \<leftarrow> bs_write (ucast v) 7 bs;
             v \<leftarrow> vec_at (gsm_threshold sei) (unat k);
             bs \<leftarrow> bs_write (ucast v) 8 bs;
             Some bs
           } else Some bs);
         Some bs
       } else Some bs);
     Some bs
   }"

definition gsm_instance_r :: "nat \<Rightarrow> SEIGeometrySmoothing \<Rightarrow> PCCBitstream \<Rightarrow> (SEIGeometrySmoothing \<times> PCCBitstream) option" where
  "gsm_instance_r i sei bs = do {
     (v, bs) \<leftarrow> bs_read 8 bs;
     l \<leftarrow> vec_set (gsm_instanceIndex sei) i (ucast v);
     let sei = sei\<lparr>gsm_instanceIndex := l\<rparr>;
     k \<leftarrow> vec_at (gsm_instanceIndex sei) i;
     (v, bs) \<leftarrow> bs_read 1 bs;
     l \<leftarrow> vec_set (gsm_instanceCancelFlag sei) (unat k) (v \<noteq> 0);
     let sei = sei\<lparr>gsm_instanceCancelFlag := l\<rparr>;
     c \<leftarrow> vec_at (gsm_instanceCancelFlag sei) (unat k);
     (sei, bs) \<leftarrow> (if \<not> c then do {
         (v, bs) \<leftarrow> bs_readUvlc bs;
         l \<leftarrow> vec_set (gsm_methodType sei) (unat k) (ucast v);
         let sei = sei\<lparr>gsm_methodType := l\<rparr>;
         m \<leftarrow> vec_at (gsm_methodType sei) (unat k);
         (sei, bs) \<leftarrow> (if m = 1 then do {
             (v, bs) \<leftarrow> bs_read 1 bs;
             l \<leftarrow> vec_set (gsm_filterEomPointsFlag sei) (unat k) (v \<noteq> 0);
             let sei = sei\<lparr>gsm_filterEomPointsFlag := l\<rparr>;
             (v, bs) \<leftarrow> bs_read 7 bs;
             l \<leftarrow> vec_set (gsm_gridSizeMinus2 sei) (unat k) (ucast v);
             let sei = sei\<lparr>gsm_gridSizeMinus2 := l\<rparr>;
             (v, bs) \<leftarrow> bs_read 8 bs;
             l \<leftarrow> vec_set (gsm_threshold sei) (unat k) (ucast v);
             let sei = sei\<lparr>gsm_threshold := l\<rparr>;
             Some (sei, bs)
           } else Some (sei, bs));
         Some (sei, bs)
       } else Some (sei, bs));
     Some (sei, bs)
   }"

definition gsm_allocate :: "SEIGeometrySmoothing \<Rightarrow> SEIGeometrySmoothing" where
  "gsm_allocate sei = (let n = unat (gsm_instancesUpdated sei) in sei\<lparr>
     gsm_instanceIndex := vec_resize n 0 (gsm_instanceIndex sei),
     gsm_instanceCancelFlag := vec_resize n False (gsm_instanceCancelFlag sei),
     gsm_methodType := vec_resize n 0 (gsm_methodType sei),
     gsm_filterEomPointsFlag := vec_resize n False (gsm_filterEomPointsFlag sei),
     gsm_gridSizeMinus2 := vec_resize n 0 (gsm_gridSizeMinus2 sei),
     gsm_threshold := vec_resize n 0 (gsm_threshold sei)\<rparr>)"

definition geometrySmoothing_w :: "SEIGeometrySmoothing \<Rightarrow> PCCBitstream \<Rightarrow> PCCBitstream option" where
  "geometrySmoothing_w sei bs = do {
     bs \<leftarrow> bs_write (b2u (gsm_persistenceFlag sei)) 1 bs;
     bs \<leftarrow> bs_write (b2u (gsm_resetFlag sei)) 1 bs;
     bs \<leftarrow> bs_write (ucast (gsm_instancesUpdated sei)) 8 bs;
     bs \<leftarrow> for_loop [0..<unat (gsm_instancesUpdated sei)] (gsm_instance_w sei) bs;
     Some bs
   }"

definition geometrySmoothing_r :: "SEIGeometrySmoothing \<Rightarrow> PCCBitstream \<Rightarrow> (SEIGeometrySmoothing \<times> PCCBitstream) option" where
  "geometrySmoothing_r sei bs = do {
     (v, bs) \<leftarrow> bs_read 1 bs;
     let sei = sei\<lparr>gsm_persistenceFlag := v \<noteq> 0\<rparr>;
     (v, bs) \<leftarrow> bs_read 1 bs;
     let sei = sei\<lparr>gsm_resetFlag := v \<noteq> 0\<rparr>;
     (v, bs) \<leftarrow> bs_read 8 bs;
     let sei = sei\<lparr>gsm_instancesUpdated := ucast v\<rparr>;
     let sei = gsm_allocate sei;
     (sei, bs) \<leftarrow> for_loop [0..<unat (gsm_instancesUpdated sei)] (\<lambda>i (sei, bs). gsm_instance_r i sei bs) (sei, bs);
     Some (sei, bs)
   }"

section \<open>Attribute transformation parameters\<close>

record SEIAttributeTransformationParams =
  atp_cancelFlag :: bool
  atp_numAttributeUpdates :: int
  atp_attributeIdx :: "uint8_t list"
  atp_dimensionMinus1 :: "uint8_t list"
  atp_scaleParamsEnabledFlag :: "bool list list"
  atp_offsetParamsEnabledFlag :: "bool list list"
  atp_attributeScale :: "uint32_t list list"
  atp_attributeOffset :: "int list list"
  atp_persistenceFlag :: bool

definition atp_new :: SEIAttributeTransformationParams where
  "atp_new = \<lparr>atp_cancelFlag = False, atp_numAttributeUpdates = 0, atp_attributeIdx = [], atp_dimensionMinus1 = [],
     atp_scaleParamsEnabledFlag = [], atp_offsetParamsEnabledFlag = [], atp_attributeScale = [], atp_attributeOffset = [],
     atp_persistenceFlag = False\<rparr>"

text \<open>The number of updates is an \<open>int32_t\<close>, which the loops compare as a \<open>size_t\<close>.\<close>

definition atp_updates :: "SEIAttributeTransformationParams \<Rightarrow> nat" where
  "atp_updates sei = unat (word_of_int (atp_numAttributeUpdates sei) :: size_t)"

definition atp_allocate :: "SEIAttributeTransformationParams \<Rightarrow> SEIAttributeTransformationParams" where
  "atp_allocate sei = sei\<lparr>
     atp_attributeIdx := vec_resize (unat (word_of_int (atp_numAttributeUpdates sei + 1) :: size_t)) 0 (atp_attributeIdx sei),
     atp_dimensionMinus1 := vec_resize 257 0 (atp_dimensionMinus1 sei),
     atp_scaleParamsEnabledFlag := vec_resize 256 [] (atp_scaleParamsEnabledFlag sei),
     atp_offsetParamsEnabledFlag := vec_resize 256 [] (atp_offsetParamsEnabledFlag sei),
     atp_attributeScale := vec_resize 256 [] (atp_attributeScale sei),
     atp_attributeOffset := vec_resize 256 [] (atp_attributeOffset sei)\<rparr>"

definition row_resize :: "nat \<Rightarrow> nat \<Rightarrow> 'a \<Rightarrow> 'a list list \<Rightarrow> 'a list list option" where
  "row_resize i n d rows = do { row \<leftarrow> vec_at rows i; vec_set rows i (vec_resize n d row) }"

definition atp_allocate_at :: "nat \<Rightarrow> SEIAttributeTransformationParams \<Rightarrow> SEIAttributeTransformationParams option" where
  "atp_allocate_at i sei = do {
     d \<leftarrow> vec_at (atp_dimensionMinus1 sei) i;
     r1 \<leftarrow> row_resize i (Suc (unat d)) False (atp_scaleParamsEnabledFlag sei);
     r2 \<leftarrow> row_resize i (Suc (unat d)) False (atp_offsetParamsEnabledFlag sei);
     r3 \<leftarrow> row_resize i (Suc (unat d)) 0 (atp_attributeScale sei);
     r4 \<leftarrow> row_resize i (Suc (unat d)) 0 (atp_attributeOffset sei);
     Some (sei\<lparr>atp_scaleParamsEnabledFlag := r1, atp_offsetParamsEnabledFlag := r2, atp_attributeScale := r3, atp_attributeOffset := r4\<rparr>)
   }"

text \<open>One dimension \<open>i\<close> of the attribute \<open>k\<close>.\<close>

definition atp_dim_w :: "SEIAttributeTransformationParams \<Rightarrow> nat \<Rightarrow> nat \<Rightarrow> PCCBitstream \<Rightarrow> PCCBitstream option" where
  "atp_dim_w sei k i bs = do {
     s \<leftarrow> vec_at2 (atp_scaleParamsEnabledFlag sei) k i;
     bs \<leftarrow> bs_write (b2u s) 1 bs;
     f \<leftarrow> vec_at2 (atp_offsetParamsEnabledFlag sei) k i;
     bs \<leftarrow> bs_write (b2u f) 1 bs;
     bs \<leftarrow> (if s then do {
         v \<leftarrow> vec_at2 (atp_attributeScale sei) k i;
         bs \<leftarrow> bs_write v 32 bs;
         Some bs
       } else Some bs);
     bs \<leftarrow> (if f then do {
         v \<leftarrow> vec_at2 (atp_attributeOffset sei) k i;
         bs \<leftarrow> bs_writeS v 32 bs;
         Some bs
       } else Some bs);
     Some bs
   }"

definition atp_dim_r :: "nat \<Rightarrow> nat \<Rightarrow> SEIAttributeTransformationParams \<Rightarrow> PCCBitstream \<Rightarrow> (SEIAttributeTransformationParams \<times> PCCBitstream) option" where
  "atp_dim_r k i sei bs = do {
     (v, bs) \<leftarrow> bs_read 1 bs;
     l \<leftarrow> vec_set2 (atp_scaleParamsEnabledFlag sei) k i (v \<noteq> 0);
     let sei = sei\<lparr>atp_scaleParamsEnabledFlag := l\<rparr>;
     (v, bs) \<leftarrow> bs_read 1 bs;
     l \<leftarrow> vec_set2 (atp_offsetParamsEnabledFlag sei) k i (v \<noteq> 0);
     let sei = sei\<lparr>atp_offsetParamsEnabledFlag := l\<rparr>;
     s \<leftarrow> vec_at2 (atp_scaleParamsEnabledFlag sei) k i;
     (sei, bs) \<leftarrow> (if s then do {
         (v, bs) \<leftarrow> bs_read 32 bs;
         l \<leftarrow> vec_set2 (atp_attributeScale sei) k i v;
         let sei = sei\<lparr>atp_attributeScale := l\<rparr>;
         Some (sei, bs)
       } else Some (sei, bs));
     f \<leftarrow> vec_at2 (atp_offsetParamsEnabledFlag sei) k i;
     (sei, bs) \<leftarrow> (if f then do {
         (v, bs) \<leftarrow> bs_readS 32 bs;
         l \<leftarrow> vec_set2 (atp_attributeOffset sei) k i v;
         let sei = sei\<lparr>atp_attributeOffset := l\<rparr>;
         Some (sei, bs)
       } else Some (sei, bs));
     Some (sei, bs)
   }"

text \<open>The loops stop before \<open>dimensionMinus1\<close>: the last dimension is never coded.\<close>

definition atp_attribute_w :: "SEIAttributeTransformationParams \<Rightarrow> nat \<Rightarrow> PCCBitstream \<Rightarrow> PCCBitstream option" where
  "atp_attribute_w sei j bs = do {
     k \<leftarrow> vec_at (atp_attributeIdx sei) j;
     bs \<leftarrow> bs_write (ucast k) 8 bs;
     d \<leftarrow> vec_at (atp_dimensionMinus1 sei) (unat k);
     bs \<leftarrow> bs_write (ucast d) 8 bs;
     bs \<leftarrow> for_loop [0..<unat d] (atp_dim_w sei (unat k)) bs;
     Some bs
   }"

definition atp_attribute_r :: "nat \<Rightarrow> SEIAttributeTransformationParams \<Rightarrow> PCCBitstream \<Rightarrow> (SEIAttributeTransformationParams \<times> PCCBitstream) option" where
  "atp_attribute_r j sei bs = do {
     (v, bs) \<leftarrow> bs_read 8 bs;
     l \<leftarrow> vec_set (atp_attributeIdx sei) j (ucast v);
     let sei = sei\<lparr>atp_attributeIdx := l\<rparr>;
     k \<leftarrow> vec_at (atp_attributeIdx sei) j;
     (v, bs) \<leftarrow> bs_read 8 bs;
     l \<leftarrow> vec_set (atp_dimensionMinus1 sei) (unat k) (ucast v);
     let sei = sei\<lparr>atp_dimensionMinus1 := l\<rparr>;
     sei \<leftarrow> atp_allocate_at (unat k) sei;
     d \<leftarrow> vec_at (atp_dimensionMinus1 sei) (unat k);
     (sei, bs) \<leftarrow> for_loop [0..<unat d] (\<lambda>i (sei, bs). atp_dim_r (unat k) i sei bs) (sei, bs);
     Some (sei, bs)
   }"

definition attributeTransformationParams_w :: "SEIAttributeTransformationParams \<Rightarrow> PCCBitstream \<Rightarrow> PCCBitstream option" where
  "attributeTransformationParams_w sei bs = do {
     bs \<leftarrow> bs_write (b2u (atp_cancelFlag sei)) 1 bs;
     bs \<leftarrow> (if \<not> atp_cancelFlag sei then do {
         bs \<leftarrow> bs_writeUvlc (word_of_int (atp_numAttributeUpdates sei)) bs;
         bs \<leftarrow> for_loop [0..<atp_updates sei] (atp_attribute_w sei) bs;
         bs \<leftarrow> bs_write (b2u (atp_persistenceFlag sei)) 1 bs;
         Some bs
       } else Some bs);
     Some bs
   }"

definition attributeTransformationParams_r ::
  "SEIAttributeTransformationParams \<Rightarrow> PCCBitstream \<Rightarrow> (SEIAttributeTransformationParams \<times> PCCBitstream) option" where
  "attributeTransformationParams_r sei bs = do {
     (v, bs) \<leftarrow> bs_read 1 bs;
     let sei = sei\<lparr>atp_cancelFlag := v \<noteq> 0\<rparr>;
     (sei, bs) \<leftarrow> (if \<not> atp_cancelFlag sei then do {
         (v, bs) \<leftarrow> bs_readUvlc bs;
         let sei = sei\<lparr>atp_numAttributeUpdates := sint v\<rparr>;
         let sei = atp_allocate sei;
         (sei, bs) \<leftarrow> for_loop [0..<atp_updates sei] (\<lambda>j (sei, bs). atp_attribute_r j sei bs) (sei, bs);
         (v, bs) \<leftarrow> bs_read 1 bs;
         let sei = sei\<lparr>atp_persistenceFlag := v \<noteq> 0\<rparr>;
         Some (sei, bs)
       } else Some (sei, bs));
     Some (sei, bs)
   }"

section \<open>Attribute smoothing\<close>

record SEIAttributeSmoothing =
  asm_persistenceFlag :: bool
  asm_resetFlag :: bool
  asm_numAttributesUpdated :: uint8_t
  asm_attributeIdx :: "uint8_t list"
  asm_attributeSmoothingCancelFlag :: "bool list"
  asm_instancesUpdated :: "uint8_t list"
  asm_instanceIndex :: "uint8_t list list"
  asm_instanceCancelFlag :: "uint8_t list list"
  asm_methodType :: "uint8_t list list"
  asm_filterEomPointsFlag :: "uint8_t list list"
  asm_gridSizeMinus2 :: "uint8_t list list"
  asm_threshold :: "uint8_t list list"
  asm_thresholdVariation :: "uint8_t list list"
  asm_thresholdDifference :: "uint8_t list list"

definition asm_new :: SEIAttributeSmoothing where
  "asm_new = \<lparr>asm_persistenceFlag = False, asm_resetFlag = False, asm_numAttributesUpdated = 0, asm_attributeIdx = [],
     asm_attributeSmoothingCancelFlag = [], asm_instancesUpdated = [], asm_instanceIndex = [], asm_instanceCancelFlag = [],
     asm_methodType = [], asm_filterEomPointsFlag = [], asm_gridSizeMinus2 = [], asm_threshold = [], asm_thresholdVariation = [],
     asm_thresholdDifference = []\<rparr>"

definition asm_allocate :: "SEIAttributeSmoothing \<Rightarrow> SEIAttributeSmoothing" where
  "asm_allocate sei = (let n = unat (asm_numAttributesUpdated sei) in sei\<lparr>
     asm_attributeIdx := vec_resize n 0 (asm_attributeIdx sei),
     asm_attributeSmoothingCancelFlag := vec_resize n False (asm_attributeSmoothingCancelFlag sei),
     asm_instancesUpdated := vec_resize n 0 (asm_instancesUpdated sei)\<rparr>)"

text \<open>\<open>allocate( size, dimension )\<close> makes room for \<open>size\<close> rows, decided by the length of \<open>instanceIndex_\<close>
  alone, and resizes the row \<open>size - 1\<close> of every matrix to \<open>dimension\<close> entries, which may also cut it.\<close>

definition asm_rows :: "bool \<Rightarrow> nat \<Rightarrow> nat \<Rightarrow> uint8_t list list \<Rightarrow> uint8_t list list option" where
  "asm_rows grow sz dimension rows = row_resize (sz - 1) dimension 0 (if grow then vec_resize sz [] rows else rows)"

definition asm_allocate_at :: "nat \<Rightarrow> nat \<Rightarrow> SEIAttributeSmoothing \<Rightarrow> SEIAttributeSmoothing option" where
  "asm_allocate_at sz dimension sei = do {
     let grow = length (asm_instanceIndex sei) < sz;
     r1 \<leftarrow> asm_rows grow sz dimension (asm_instanceIndex sei);
     r2 \<leftarrow> asm_rows grow sz dimension (asm_instanceCancelFlag sei);
     r3 \<leftarrow> asm_rows grow sz dimension (asm_methodType sei);
     r4 \<leftarrow> asm_rows grow sz dimension (asm_filterEomPointsFlag sei);
     r5 \<leftarrow> asm_rows grow sz dimension (asm_gridSizeMinus2 sei);
     r6 \<leftarrow> asm_rows grow sz dimension (asm_threshold sei);
     r7 \<leftarrow> asm_rows grow sz dimension (asm_thresholdVariation sei);
     r8 \<leftarrow> asm_rows grow sz dimension (asm_thresholdDifference sei);
     Some (sei\<lparr>asm_instanceIndex := r1, asm_instanceCancelFlag := r2, asm_methodType := r3, asm_filterEomPointsFlag := r4,
       asm_gridSizeMinus2 := r5, asm_threshold := r6, asm_thresholdVariation := r7, asm_thresholdDifference := r8\<rparr>)
   }"

text \<open>The instance \<open>i\<close> of the attribute \<open>k\<close>. The filter parameters follow for every method type but 0.\<close>

definition asm_instance_w :: "SEIAttributeSmoothing \<Rightarrow> nat \<Rightarrow> nat \<Rightarrow> PCCBitstream \<Rightarrow> PCCBitstream option" where
  "asm_instance_w sei k i bs = do {
     m \<leftarrow> vec_at2 (asm_instanceIndex sei) k i;
     bs \<leftarrow> bs_write (ucast m) 8 bs;
     c \<leftarrow> vec_at2 (asm_instanceCancelFlag sei) k (unat m);
     bs \<leftarrow> bs_write (ucast c) 1 bs;
     bs \<leftarrow> (if c \<noteq> 1 then do {
         t \<leftarrow> vec_at2 (asm_methodType sei) k (unat m);
         bs \<leftarrow> bs_writeUvlc (ucast t) bs;
         bs \<leftarrow> (if t \<noteq> 0 then do {
             v \<leftarrow> vec_at2 (asm_filterEomPointsFlag sei) k (unat m);
             bs \<leftarrow> bs_write (ucast v) 1 bs;
             v \<leftarrow> vec_at2 (asm_gridSizeMinus2 sei) k (unat m);
             bs \<leftarrow> bs_write (ucast v) 5 bs;
             v \<leftarrow> vec_at2 (asm_threshold sei) k (unat m);
             bs \<leftarrow> bs_write (ucast v) 8 bs;
             v \<leftarrow> vec_at2 (asm_thresholdVariation sei) k (unat m);
             bs \<leftarrow> bs_write (ucast v) 8 bs;
             v \<leftarrow> vec_at2 (asm_thresholdDifference sei) k (unat m);
             bs \<leftarrow> bs_write (ucast v) 8 bs;
             Some bs
           } else Some bs);
         Some bs
       } else Some bs);
     Some bs
   }"

definition asm_instance_r :: "nat \<Rightarrow> nat \<Rightarrow> SEIAttributeSmoothing \<Rightarrow> PCCBitstream \<Rightarrow> (SEIAttributeSmoothing \<times> PCCBitstream) option" where
  "asm_instance_r k i sei bs = do {
     (m, bs) \<leftarrow> bs_read 8 bs;
     sei \<leftarrow> asm_allocate_at (Suc k) (Suc (unat m)) sei;
     l \<leftarrow> vec_set2 (asm_instanceIndex sei) k i (ucast m);
     let sei = sei\<lparr>asm_instanceIndex := l\<rparr>;
     (v, bs) \<leftarrow> bs_read 1 bs;
     l \<leftarrow> vec_set2 (asm_instanceCancelFlag sei) k (unat m) (ucast v);
     let sei = sei\<lparr>asm_instanceCancelFlag := l\<rparr>;
     c \<leftarrow> vec_at2 (asm_instanceCancelFlag sei) k (unat m);
     (sei, bs) \<leftarrow> (if c \<noteq> 1 then do {
         (v, bs) \<leftarrow> bs_readUvlc bs;
         l \<leftarrow> vec_set2 (asm_methodType sei) k (unat m) (ucast v);
         let sei = sei\<lparr>asm_methodType := l\<rparr>;
         t \<leftarrow> vec_at2 (asm_methodType sei) k (unat m);
         (sei, bs) \<leftarrow> (if t \<noteq> 0 then do {
             (v, bs) \<leftarrow> bs_read 1 bs;
             l \<leftarrow> vec_set2 (asm_filterEomPointsFlag sei) k (unat m) (ucast v);
             let sei = sei\<lparr>asm_filterEomPointsFlag := l\<rparr>;
             (v, bs) \<leftarrow> bs_read 5 bs;
             l \<leftarrow> vec_set2 (asm_gridSizeMinus2 sei) k (unat m) (ucast v);
             let sei = sei\<lparr>asm_gridSizeMinus2 := l\<rparr>;
             (v, bs) \<leftarrow> bs_read 8 bs;
             l \<leftarrow> vec_set2 (asm_threshold sei) k (unat m) (ucast v);
             let sei = sei\<lparr>asm_threshold := l\<rparr>;
             (v, bs) \<leftarrow> bs_read 8 bs;
             l \<leftarrow> vec_set2 (asm_thresholdVariation sei) k (unat m) (ucast v);
             let sei = sei\<lparr>asm_thresholdVariation := l\<rparr>;
             (v, bs) \<leftarrow> bs_read 8 bs;
             l \<leftarrow> vec_set2 (asm_thresholdDifference sei) k (unat m) (ucast v);
             let sei = sei\<lparr>asm_thresholdDifference := l\<rparr>;
             Some (sei, bs)
           } else Some (sei, bs));
         Some (sei, bs)
       } else Some (sei, bs));
     Some (sei, bs)
   }"

definition asm_attribute_w :: "SEIAttributeSmoothing \<Rightarrow> nat \<Rightarrow> PCCBitstream \<Rightarrow> PCCBitstream option" where
  "asm_attribute_w sei j bs = do {
     k \<leftarrow> vec_at (asm_attributeIdx sei) j;
     bs \<leftarrow> bs_write (ucast k) 7 bs;
     c \<leftarrow> vec_at (asm_attributeSmoothingCancelFlag sei) (unat k);
     bs \<leftarrow> bs_write (b2u c) 1 bs;
     n \<leftarrow> vec_at (asm_instancesUpdated sei) (unat k);
     bs \<leftarrow> bs_write (ucast n) 8 bs;
     bs \<leftarrow> for_loop [0..<unat n] (asm_instance_w sei (unat k)) bs;
     Some bs
   }"

definition asm_attribute_r :: "nat \<Rightarrow> SEIAttributeSmoothing \<Rightarrow> PCCBitstream \<Rightarrow> (SEIAttributeSmoothing \<times> PCCBitstream) option" where
  "asm_attribute_r j sei bs = do {
     (v, bs) \<leftarrow> bs_read 7 bs;
     l \<leftarrow> vec_set (asm_attributeIdx sei) j (ucast v);
     let sei = sei\<lparr>asm_attributeIdx := l\<rparr>;
     k \<leftarrow> vec_at (asm_attributeIdx sei) j;
     (v, bs) \<leftarrow> bs_read 1 bs;
     l \<leftarrow> vec_set (asm_attributeSmoothingCancelFlag sei) (unat k) (v \<noteq> 0);
     let sei = sei\<lparr>asm_attributeSmoothingCancelFlag := l\<rparr>;
     (v, bs) \<leftarrow> bs_read 8 bs;
     l \<leftarrow> vec_set (asm_instancesUpdated sei) (unat k) (ucast v);
     let sei = sei\<lparr>asm_instancesUpdated := l\<rparr>;
     n \<leftarrow> vec_at (asm_instancesUpdated sei) (unat k);
     (sei, bs) \<leftarrow> for_loop [0..<unat n] (\<lambda>i (sei, bs). asm_instance_r (unat k) i sei bs) (sei, bs);
     Some (sei, bs)
   }"

definition attributeSmoothing_w :: "SEIAttributeSmoothing \<Rightarrow> PCCBitstream \<Rightarrow> PCCBitstream option" where
  "attributeSmoothing_w sei bs = do {
     bs \<leftarrow> bs_write (b2u (asm_persistenceFlag sei)) 1 bs;
     bs \<leftarrow> bs_write (b2u (asm_resetFlag sei)) 1 bs;
     bs \<leftarrow> bs_writeUvlc (ucast (asm_numAttributesUpdated sei)) bs;
     bs \<leftarrow> for_loop [0..<unat (asm_numAttributesUpdated sei)] (asm_attribute_w sei) bs;
     Some bs
   }"

definition attributeSmoothing_r :: "SEIAttributeSmoothing \<Rightarrow> PCCBitstream \<Rightarrow> (SEIAttributeSmoothing \<times> PCCBitstream) option" where
  "attributeSmoothing_r sei bs = do {
     (v, bs) \<leftarrow> bs_read 1 bs;
     let sei = sei\<lparr>asm_persistenceFlag := v \<noteq> 0\<rparr>;
     (v, bs) \<leftarrow> bs_read 1 bs;
     let sei = sei\<lparr>asm_resetFlag := v \<noteq> 0\<rparr>;
     (v, bs) \<leftarrow> bs_readUvlc bs;
     let sei = sei\<lparr>asm_numAttributesUpdated := ucast v\<rparr>;
     let sei = asm_allocate sei;
     (sei, bs) \<leftarrow> for_loop [0..<unat (asm_numAttributesUpdated sei)] (\<lambda>j (sei, bs). asm_attribute_r j sei bs) (sei, bs);
     Some (sei, bs)
   }"

section \<open>Round trips\<close>

definition osy_wf :: "SEIOccupancySynthesis \<Rightarrow> bool" where
  "osy_wf x \<longleftrightarrow> (let n = unat (osy_instancesUpdated x); ids = map unat (osy_instanceIndex x) in
     length ids = n \<and> (\<forall>j \<in> set ids. j < n)
     \<and> covered ids (osy_instanceCancelFlag x) (replicate n False) \<and> covered ids (osy_methodType x) (replicate n 0)
     \<and> covered ids (osy_pbfLog2ThresholdMinus1 x) (replicate n 0) \<and> covered ids (osy_pbfPassesCountMinus1 x) (replicate n 0)
     \<and> covered ids (osy_pbfFilterSizeMinus1 x) (replicate n 0)
     \<and> (\<forall>j < n. (osy_instanceCancelFlag x ! j \<longrightarrow> osy_methodType x ! j = 0)
         \<and> unat (osy_pbfLog2ThresholdMinus1 x ! j) < 2 ^ 2 \<and> unat (osy_pbfPassesCountMinus1 x ! j) < 2 ^ 2
         \<and> unat (osy_pbfFilterSizeMinus1 x ! j) < 2 ^ 3
         \<and> (osy_methodType x ! j \<noteq> 1 \<longrightarrow> osy_pbfLog2ThresholdMinus1 x ! j = 0 \<and> osy_pbfPassesCountMinus1 x ! j = 0
             \<and> osy_pbfFilterSizeMinus1 x ! j = 0)))"

text \<open>The message while its instances are read.\<close>

definition osy_upto :: "SEIOccupancySynthesis \<Rightarrow> nat \<Rightarrow> SEIOccupancySynthesis \<Rightarrow> SEIOccupancySynthesis" where
  "osy_upto x k y = (let n = unat (osy_instancesUpdated x); ids = take k (map unat (osy_instanceIndex x)) in y\<lparr>
     osy_instanceIndex := filled k (osy_instanceIndex x) (replicate n 0),
     osy_instanceCancelFlag := scattered ids (osy_instanceCancelFlag x) (replicate n False),
     osy_methodType := scattered ids (osy_methodType x) (replicate n 0),
     osy_pbfLog2ThresholdMinus1 := scattered ids (osy_pbfLog2ThresholdMinus1 x) (replicate n 0),
     osy_pbfPassesCountMinus1 := scattered ids (osy_pbfPassesCountMinus1 x) (replicate n 0),
     osy_pbfFilterSizeMinus1 := scattered ids (osy_pbfFilterSizeMinus1 x) (replicate n 0)\<rparr>)"

lemma covered_length: "covered is xs (replicate n d) \<Longrightarrow> length xs = n"
  by (simp add: covered_def)

lemma scattered_keep:
  assumes "k < length ids" and "xs ! unat (ids ! k) = zs ! unat (ids ! k)"
  shows "scattered (take (Suc k) (map unat ids)) xs zs = scattered (take k (map unat ids)) xs zs"
  using scattered_skip [of k "map unat ids" xs zs] assms by simp

lemma scattered_at:
  assumes "k < length ids" and "unat (ids ! k) < length xs"
  shows "scattered (take (Suc k) (map unat ids)) xs zs ! unat (ids ! k) = xs ! unat (ids ! k)"
  using assms by (simp add: nth_scattered take_Suc_conv_app_nth)

lemma osy_instance_codes:
  assumes wf: "osy_wf x" and k: "k < unat (osy_instancesUpdated x)"
  shows "codes (osy_instance_w x k) (osy_instance_r k (osy_upto x k y)) (osy_upto x (Suc k) y)"
proof -
  define n where "n = unat (osy_instancesUpdated x)"
  define j where "j = unat (osy_instanceIndex x ! k)"
  note f = wf [unfolded osy_wf_def Let_def, folded n_def]
  have len: "length (osy_instanceIndex x) = n" using f by simp
  then have j: "j < n" using f k by (auto simp: j_def n_def)
  have lens: "length (osy_instanceCancelFlag x) = n" "length (osy_methodType x) = n" "length (osy_pbfLog2ThresholdMinus1 x) = n"
    "length (osy_pbfPassesCountMinus1 x) = n" "length (osy_pbfFilterSizeMinus1 x) = n" "k < n"
    using f k by (auto dest: covered_length simp: n_def)
  note small = f [THEN conjunct2, THEN conjunct2, THEN conjunct2, THEN conjunct2, THEN conjunct2, THEN conjunct2, THEN conjunct2,
    rule_format, OF j, simplified]
  have j8: "j < 256" "Suc k \<le> n" using k by (simp_all add: j_def n_def)
  note facts = len j j8 lens small n_def [symmetric] j_def [symmetric]
  note sc = scattered_put [of k "osy_instanceIndex x", unfolded j_def [symmetric]]
    scattered_keep [of k "osy_instanceIndex x", unfolded j_def [symmetric]]
    scattered_at [of k "osy_instanceIndex x", unfolded j_def [symmetric]]
  show ?thesis
    unfolding osy_instance_w_def [abs_def] osy_instance_r_def [abs_def] osy_upto_def [unfolded Let_def]
    by ((rule codes_split codec_intro refl SEIOccupancySynthesis.equality | (simp add: facts sc; fail))+)
qed

interpretation osy: syntax_codec occupancySynthesis_w occupancySynthesis_r osy_new osy_wf
proof unfold_locales
  fix x assume wf: "osy_wf x"
  have lens: "length (osy_instanceCancelFlag x) = unat (osy_instancesUpdated x)" "length (osy_methodType x) = unat (osy_instancesUpdated x)"
    "length (osy_pbfLog2ThresholdMinus1 x) = unat (osy_instancesUpdated x)" "length (osy_pbfPassesCountMinus1 x) = unat (osy_instancesUpdated x)"
    "length (osy_pbfFilterSizeMinus1 x) = unat (osy_instancesUpdated x)" "length (osy_instanceIndex x) = unat (osy_instancesUpdated x)"
    using wf by (auto simp: osy_wf_def Let_def dest: covered_length)
  let ?y = "osy_new\<lparr>osy_persistenceFlag := osy_persistenceFlag x, osy_resetFlag := osy_resetFlag x, osy_instancesUpdated := osy_instancesUpdated x\<rparr>"
  have fin: "osy_upto x (unat (osy_instancesUpdated x)) ?y = x"
    using wf lens by (intro SEIOccupancySynthesis.equality) (simp_all add: osy_upto_def osy_wf_def Let_def osy_new_def)
  have loop: "codes (for_loop [0..<unat (osy_instancesUpdated x)] (osy_instance_w x))
     (\<lambda>bs. for_loop [0..<n'] (\<lambda>i (a, bs). osy_instance_r i a bs) (y0, bs)) x"
    if "n' = unat (osy_instancesUpdated x)" and "y0 = osy_upto x 0 ?y" for n' y0
    using codes_for [OF that(1), of y0 "\<lambda>k. osy_upto x k ?y" "osy_instance_w x" osy_instance_r] osy_instance_codes [OF wf] that(2) fin by simp
  show "codes (occupancySynthesis_w x) (occupancySynthesis_r osy_new) x"
    unfolding occupancySynthesis_w_def [abs_def] occupancySynthesis_r_def [abs_def]
    by ((rule loop codec_intro refl | (simp add: osy_new_def osy_allocate_def Let_def osy_upto_def lens; fail))+)
qed

definition gsm_wf :: "SEIGeometrySmoothing \<Rightarrow> bool" where
  "gsm_wf x \<longleftrightarrow> (let n = unat (gsm_instancesUpdated x); ids = map unat (gsm_instanceIndex x) in
     length ids = n \<and> (\<forall>j \<in> set ids. j < n)
     \<and> covered ids (gsm_instanceCancelFlag x) (replicate n False) \<and> covered ids (gsm_methodType x) (replicate n 0)
     \<and> covered ids (gsm_filterEomPointsFlag x) (replicate n False) \<and> covered ids (gsm_gridSizeMinus2 x) (replicate n 0)
     \<and> covered ids (gsm_threshold x) (replicate n 0)
     \<and> (\<forall>j < n. (gsm_instanceCancelFlag x ! j \<longrightarrow> gsm_methodType x ! j = 0)
         \<and> unat (gsm_gridSizeMinus2 x ! j) < 2 ^ 7
         \<and> (gsm_methodType x ! j \<noteq> 1 \<longrightarrow> \<not> gsm_filterEomPointsFlag x ! j \<and> gsm_gridSizeMinus2 x ! j = 0
             \<and> gsm_threshold x ! j = 0)))"

text \<open>The message while its instances are read.\<close>

definition gsm_upto :: "SEIGeometrySmoothing \<Rightarrow> nat \<Rightarrow> SEIGeometrySmoothing \<Rightarrow> SEIGeometrySmoothing" where
  "gsm_upto x k y = (let n = unat (gsm_instancesUpdated x); ids = take k (map unat (gsm_instanceIndex x)) in y\<lparr>
     gsm_instanceIndex := filled k (gsm_instanceIndex x) (replicate n 0),
     gsm_instanceCancelFlag := scattered ids (gsm_instanceCancelFlag x) (replicate n False),
     gsm_methodType := scattered ids (gsm_methodType x) (replicate n 0),
     gsm_filterEomPointsFlag := scattered ids (gsm_filterEomPointsFlag x) (replicate n False),
     gsm_gridSizeMinus2 := scattered ids (gsm_gridSizeMinus2 x) (replicate n 0),
     gsm_threshold := scattered ids (gsm_threshold x) (replicate n 0)\<rparr>)"

lemma gsm_instance_codes:
  assumes wf: "gsm_wf x" and k: "k < unat (gsm_instancesUpdated x)"
  shows "codes (gsm_instance_w x k) (gsm_instance_r k (gsm_upto x k y)) (gsm_upto x (Suc k) y)"
proof -
  define n where "n = unat (gsm_instancesUpdated x)"
  define j where "j = unat (gsm_instanceIndex x ! k)"
  note f = wf [unfolded gsm_wf_def Let_def, folded n_def]
  have len: "length (gsm_instanceIndex x) = n" using f by simp
  then have j: "j < n" using f k by (auto simp: j_def n_def)
  have lens: "length (gsm_instanceCancelFlag x) = n" "length (gsm_methodType x) = n" "length (gsm_filterEomPointsFlag x) = n"
    "length (gsm_gridSizeMinus2 x) = n" "length (gsm_threshold x) = n" "k < n"
    using f k by (auto dest: covered_length simp: n_def)
  note small = f [THEN conjunct2, THEN conjunct2, THEN conjunct2, THEN conjunct2, THEN conjunct2, THEN conjunct2, THEN conjunct2,
    rule_format, OF j, simplified]
  have j8: "j < 256" "Suc k \<le> n" using k by (simp_all add: j_def n_def)
  note facts = len j j8 lens small n_def [symmetric] j_def [symmetric]
  note sc = scattered_put [of k "gsm_instanceIndex x", unfolded j_def [symmetric]]
    scattered_keep [of k "gsm_instanceIndex x", unfolded j_def [symmetric]]
    scattered_at [of k "gsm_instanceIndex x", unfolded j_def [symmetric]]
  show ?thesis
    unfolding gsm_instance_w_def [abs_def] gsm_instance_r_def [abs_def] gsm_upto_def [unfolded Let_def]
    by ((rule codes_split codec_intro refl SEIGeometrySmoothing.equality | (simp add: facts sc; fail))+)
qed

interpretation gsm: syntax_codec geometrySmoothing_w geometrySmoothing_r gsm_new gsm_wf
proof unfold_locales
  fix x assume wf: "gsm_wf x"
  have lens: "length (gsm_instanceCancelFlag x) = unat (gsm_instancesUpdated x)" "length (gsm_methodType x) = unat (gsm_instancesUpdated x)"
    "length (gsm_filterEomPointsFlag x) = unat (gsm_instancesUpdated x)" "length (gsm_gridSizeMinus2 x) = unat (gsm_instancesUpdated x)"
    "length (gsm_threshold x) = unat (gsm_instancesUpdated x)" "length (gsm_instanceIndex x) = unat (gsm_instancesUpdated x)"
    using wf by (auto simp: gsm_wf_def Let_def dest: covered_length)
  let ?y = "gsm_new\<lparr>gsm_persistenceFlag := gsm_persistenceFlag x, gsm_resetFlag := gsm_resetFlag x, gsm_instancesUpdated := gsm_instancesUpdated x\<rparr>"
  have fin: "gsm_upto x (unat (gsm_instancesUpdated x)) ?y = x"
    using wf lens by (intro SEIGeometrySmoothing.equality) (simp_all add: gsm_upto_def gsm_wf_def Let_def gsm_new_def)
  have loop: "codes (for_loop [0..<unat (gsm_instancesUpdated x)] (gsm_instance_w x))
     (\<lambda>bs. for_loop [0..<n'] (\<lambda>i (a, bs). gsm_instance_r i a bs) (y0, bs)) x"
    if "n' = unat (gsm_instancesUpdated x)" and "y0 = gsm_upto x 0 ?y" for n' y0
    using codes_for [OF that(1), of y0 "\<lambda>k. gsm_upto x k ?y" "gsm_instance_w x" gsm_instance_r] gsm_instance_codes [OF wf] that(2) fin by simp
  show "codes (geometrySmoothing_w x) (geometrySmoothing_r gsm_new) x"
    unfolding geometrySmoothing_w_def [abs_def] geometrySmoothing_r_def [abs_def]
    by ((rule loop codec_intro refl | (simp add: gsm_new_def gsm_allocate_def Let_def gsm_upto_def lens; fail))+)
qed

section \<open>Round trip of the attribute transformation\<close>

text \<open>The rows of an attribute that the reader leaves equal to those of \<open>x\<close>: the last dimension and the
  parameters that are not enabled have the values of a fresh row.\<close>

definition atp_row_ok :: "SEIAttributeTransformationParams \<Rightarrow> nat \<Rightarrow> bool" where
  "atp_row_ok x k \<longleftrightarrow> (let d = unat (atp_dimensionMinus1 x ! k); s = atp_scaleParamsEnabledFlag x ! k;
       f = atp_offsetParamsEnabledFlag x ! k; a = atp_attributeScale x ! k; b = atp_attributeOffset x ! k in
     length s = Suc d \<and> length f = Suc d \<and> length a = Suc d \<and> length b = Suc d
     \<and> \<not> s ! d \<and> \<not> f ! d \<and> (\<forall>i \<le> d. (\<not> s ! i \<longrightarrow> a ! i = 0) \<and> (if f ! i then i_range 32 (b ! i) else b ! i = 0)))"

definition atp_wf :: "SEIAttributeTransformationParams \<Rightarrow> bool" where
  "atp_wf x \<longleftrightarrow>
     (if atp_cancelFlag x then x = atp_new\<lparr>atp_cancelFlag := True\<rparr>
      else (let n = nat (atp_numAttributeUpdates x); ids = map unat (take n (atp_attributeIdx x)) in
        0 \<le> atp_numAttributeUpdates x \<and> n < 2 ^ 31 - 1
        \<and> length (atp_attributeIdx x) = Suc n \<and> atp_attributeIdx x ! n = 0
        \<and> covered ids (atp_dimensionMinus1 x) (replicate 257 0)
        \<and> covered ids (atp_scaleParamsEnabledFlag x) (replicate 256 [])
        \<and> covered ids (atp_offsetParamsEnabledFlag x) (replicate 256 [])
        \<and> covered ids (atp_attributeScale x) (replicate 256 [])
        \<and> covered ids (atp_attributeOffset x) (replicate 256 [])
        \<and> (\<forall>k \<in> set ids. atp_row_ok x k)))"

text \<open>The message with the rows of attribute \<open>k\<close> replaced.\<close>

definition atp_set_rows :: "nat \<Rightarrow> bool list \<times> bool list \<times> uint32_t list \<times> int list \<Rightarrow>
    SEIAttributeTransformationParams \<Rightarrow> SEIAttributeTransformationParams" where
  "atp_set_rows k r y = (case r of (s, f, a, b) \<Rightarrow> y\<lparr>
     atp_scaleParamsEnabledFlag := (atp_scaleParamsEnabledFlag y)[k := s],
     atp_offsetParamsEnabledFlag := (atp_offsetParamsEnabledFlag y)[k := f],
     atp_attributeScale := (atp_attributeScale y)[k := a],
     atp_attributeOffset := (atp_attributeOffset y)[k := b]\<rparr>)"

definition atp_rows_at :: "SEIAttributeTransformationParams \<Rightarrow> nat \<Rightarrow> bool list \<times> bool list \<times> uint32_t list \<times> int list" where
  "atp_rows_at x k = (atp_scaleParamsEnabledFlag x ! k, atp_offsetParamsEnabledFlag x ! k, atp_attributeScale x ! k, atp_attributeOffset x ! k)"

lemma atp_dims_codes:
  fixes x y :: SEIAttributeTransformationParams and k :: nat
  defines "d \<equiv> unat (atp_dimensionMinus1 x ! k)"
  assumes ok: "atp_row_ok x k"
    and x: "k < length (atp_scaleParamsEnabledFlag x)" "k < length (atp_offsetParamsEnabledFlag x)"
      "k < length (atp_attributeScale x)" "k < length (atp_attributeOffset x)"
    and y: "k < length (atp_scaleParamsEnabledFlag y)" "k < length (atp_offsetParamsEnabledFlag y)"
      "k < length (atp_attributeScale y)" "k < length (atp_attributeOffset y)"
    and z: "(s, f, a, b) = atp_rows_at x k \<or> (s, f, a, b) = (replicate (Suc d) False, replicate (Suc d) False, replicate (Suc d) 0, replicate (Suc d) 0)"
    and y0: "y0 = atp_set_rows k (s, f, a, b) y" and n: "n = d" "n' = d"
  shows "codes (for_loop [0..<n] (atp_dim_w x k)) (\<lambda>bs. for_loop [0..<n'] (\<lambda>i (a, bs). atp_dim_r k i a bs) (y0, bs))
     (atp_set_rows k (atp_rows_at x k) y)"
proof -
  note ok' = ok [unfolded atp_row_ok_def Let_def, folded d_def]
  let ?S = "atp_scaleParamsEnabledFlag x ! k" and ?F = "atp_offsetParamsEnabledFlag x ! k"
    and ?A = "atp_attributeScale x ! k" and ?B = "atp_attributeOffset x ! k"
  have len: "length ?S = Suc d" "length ?F = Suc d" "length ?A = Suc d" "length ?B = Suc d" using ok' by simp_all
  have zlen: "length s = Suc d" "length f = Suc d" "length a = Suc d" "length b = Suc d"
    using z len by (auto simp: atp_rows_at_def)
  have last: "?S ! d = s ! d" "?F ! d = f ! d" "?A ! d = a ! d" "?B ! d = b ! d"
    using z ok' by (auto simp: atp_rows_at_def simp del: replicate_Suc)
  have skip: "\<not> ?S ! i \<Longrightarrow> ?A ! i = a ! i" "\<not> ?F ! i \<Longrightarrow> ?B ! i = b ! i" "?F ! i \<Longrightarrow> i_range 32 (?B ! i)" if "i < d" for i
    using z ok' that by (auto simp: atp_rows_at_def simp del: replicate_Suc)
  let ?y = "\<lambda>i. atp_set_rows k (filled i ?S s, filled i ?F f, filled i ?A a, filled i ?B b) y"
  have "codes (atp_dim_w x k i) (atp_dim_r k i (?y i)) (?y (Suc i))" if i: "i < d" for i
    unfolding atp_dim_w_def [abs_def] atp_dim_r_def [abs_def] atp_set_rows_def prod.case
    by ((rule codes_split codec_intro refl SEIAttributeTransformationParams.equality
      | (use i in \<open>simp add: x y len zlen vec_set2_in skip [OF i] filled_skip\<close>; fail))+)
  then have "codes (for_loop [0..<d] (atp_dim_w x k)) (\<lambda>bs. for_loop [0..<d] (\<lambda>i (a, bs). atp_dim_r k i a bs) (y0, bs)) (?y d)"
    by (intro codes_for) (simp_all add: y0)
  moreover have "filled d ?S s = ?S" "filled d ?F f = ?F" "filled d ?A a = ?A" "filled d ?B b = ?B"
    using len zlen last by (simp_all add: filled_but_last)
  ultimately show ?thesis using n by (simp add: atp_rows_at_def)
qed

definition atp_upto :: "SEIAttributeTransformationParams \<Rightarrow> nat \<Rightarrow> SEIAttributeTransformationParams \<Rightarrow> SEIAttributeTransformationParams" where
  "atp_upto x k y = (let ids = take k (map unat (atp_attributeIdx x)) in y\<lparr>
     atp_attributeIdx := filled k (atp_attributeIdx x) (replicate (length (atp_attributeIdx x)) 0),
     atp_dimensionMinus1 := scattered ids (atp_dimensionMinus1 x) (replicate 257 0),
     atp_scaleParamsEnabledFlag := scattered ids (atp_scaleParamsEnabledFlag x) (replicate 256 []),
     atp_offsetParamsEnabledFlag := scattered ids (atp_offsetParamsEnabledFlag x) (replicate 256 []),
     atp_attributeScale := scattered ids (atp_attributeScale x) (replicate 256 []),
     atp_attributeOffset := scattered ids (atp_attributeOffset x) (replicate 256 [])\<rparr>)"

text \<open>The rows of attribute \<open>k\<close> after the allocation: fresh ones, or those of an earlier update.\<close>

lemma atp_allocate_rows:
  fixes x y :: SEIAttributeTransformationParams and k :: nat
  defines "d \<equiv> unat (atp_dimensionMinus1 x ! k)"
  assumes ok: "atp_row_ok x k"
    and y: "k < length (atp_scaleParamsEnabledFlag y)" "k < length (atp_offsetParamsEnabledFlag y)"
      "k < length (atp_attributeScale y)" "k < length (atp_attributeOffset y)"
      "k < length (atp_dimensionMinus1 y)" "atp_dimensionMinus1 y ! k = atp_dimensionMinus1 x ! k"
    and r: "atp_rows_at y k = (if c then atp_rows_at x k else ([], [], [], []))"
  shows "atp_allocate_at k y = Some (atp_set_rows k (if c then atp_rows_at x k
     else (replicate (Suc d) False, replicate (Suc d) False, replicate (Suc d) 0, replicate (Suc d) 0)) y)"
  using ok r unfolding atp_row_ok_def Let_def d_def [symmetric] atp_rows_at_def
  by (auto simp: atp_allocate_at_def row_resize_def y d_def [symmetric] atp_set_rows_def split: if_splits)

lemma atp_attribute_codes:
  assumes k: "Suc k < length (atp_attributeIdx x)" and ok: "atp_row_ok x (unat (atp_attributeIdx x ! k))"
    and lens: "length (atp_dimensionMinus1 x) = 257" "length (atp_scaleParamsEnabledFlag x) = 256"
      "length (atp_offsetParamsEnabledFlag x) = 256" "length (atp_attributeScale x) = 256" "length (atp_attributeOffset x) = 256"
  shows "codes (atp_attribute_w x k) (atp_attribute_r k (atp_upto x k y)) (atp_upto x (Suc k) y)"
proof -
  define j where "j = unat (atp_attributeIdx x ! k)"
  have "j < 256" by (simp add: j_def)
  then have j: "j < 256" "j < 257" "k < length (atp_attributeIdx x)" "Suc k \<le> length (atp_attributeIdx x)"
    using k by simp_all
  note sc = scattered_put [of k "atp_attributeIdx x", unfolded j_def [symmetric]]
    scattered_at [of k "atp_attributeIdx x", unfolded j_def [symmetric]]
  let ?y = "(atp_upto x k y)\<lparr>atp_attributeIdx := filled (Suc k) (atp_attributeIdx x) (replicate (length (atp_attributeIdx x)) 0),
    atp_dimensionMinus1 := scattered (take (Suc k) (map unat (atp_attributeIdx x))) (atp_dimensionMinus1 x) (replicate 257 0)\<rparr>"
  have al: "atp_allocate_at j ?y = Some (atp_set_rows j (if j \<in> set (take k (map unat (atp_attributeIdx x))) then atp_rows_at x j
     else (replicate (Suc (unat (atp_dimensionMinus1 x ! j))) False, replicate (Suc (unat (atp_dimensionMinus1 x ! j))) False,
       replicate (Suc (unat (atp_dimensionMinus1 x ! j))) 0, replicate (Suc (unat (atp_dimensionMinus1 x ! j))) 0)) ?y)"
    using ok [folded j_def] j
    by (intro atp_allocate_rows; (simp add: atp_upto_def Let_def lens sc; fail)?)
       (simp add: atp_upto_def Let_def lens atp_rows_at_def nth_scattered)
  then obtain y0 where y0: "atp_allocate_at j ?y = Some y0" by simp
  have dims: "atp_dimensionMinus1 y0 = atp_dimensionMinus1 ?y"
    using y0 unfolding al by (auto simp: atp_set_rows_def split: prod.splits)
  have fin: "atp_set_rows j (atp_rows_at x j) ?y = atp_upto x (Suc k) y"
    using j by (simp add: atp_set_rows_def atp_rows_at_def atp_upto_def Let_def sc lens)
  have loop: "codes (for_loop [0..<n] (atp_dim_w x j)) (\<lambda>bs. for_loop [0..<n'] (\<lambda>i (a, bs). atp_dim_r j i a bs) (y0, bs))
     (atp_upto x (Suc k) y)"
    if "n = unat (atp_dimensionMinus1 x ! j)" and "n' = n" for n n'
  proof -
    obtain s f a b where r: "(s, f, a, b) = (if j \<in> set (take k (map unat (atp_attributeIdx x))) then atp_rows_at x j
     else (replicate (Suc (unat (atp_dimensionMinus1 x ! j))) False, replicate (Suc (unat (atp_dimensionMinus1 x ! j))) False,
       replicate (Suc (unat (atp_dimensionMinus1 x ! j))) 0, replicate (Suc (unat (atp_dimensionMinus1 x ! j))) 0))"
      by (metis surj_pair)
    have "y0 = atp_set_rows j (s, f, a, b) ?y" using y0 unfolding al r [symmetric] by simp
    moreover have "(s, f, a, b) = atp_rows_at x j \<or> (s, f, a, b) = (replicate (Suc (unat (atp_dimensionMinus1 x ! j))) False,
       replicate (Suc (unat (atp_dimensionMinus1 x ! j))) False, replicate (Suc (unat (atp_dimensionMinus1 x ! j))) 0,
       replicate (Suc (unat (atp_dimensionMinus1 x ! j))) 0)"
      unfolding r by (simp del: replicate_Suc)
    ultimately show ?thesis
      unfolding fin [symmetric] using ok [folded j_def] j that(1,2)
      by (intro atp_dims_codes [where s = s and f = f and a = a and b = b]) (simp_all add: lens atp_upto_def Let_def)
  qed
  show ?thesis
    unfolding atp_attribute_w_def [abs_def] atp_attribute_r_def [abs_def]
    by ((rule loop [unfolded j_def] codec_intro refl
      | (simp add: j lens sc y0 dims j_def [symmetric]; fail) | (simp add: j lens sc j_def [symmetric] atp_upto_def Let_def; fail))+)
qed

interpretation atp: syntax_codec attributeTransformationParams_w attributeTransformationParams_r atp_new atp_wf
proof unfold_locales
  fix x assume wf: "atp_wf x"
  have cancel: "atp_cancelFlag x \<Longrightarrow> x = atp_new\<lparr>atp_cancelFlag := True\<rparr>" using wf by (simp add: atp_wf_def)
  define n where "n = nat (atp_numAttributeUpdates x)"
  note f = wf [unfolded atp_wf_def Let_def, folded n_def]
  let ?u = "word_of_int (atp_numAttributeUpdates x) :: uint32_t"
  have num: "unat ?u < 2 ^ 31 - 1" "sint ?u = atp_numAttributeUpdates x" "atp_updates x = n"
      "unat (word_of_int (atp_numAttributeUpdates x + 1) :: size_t) = Suc n" "length (atp_attributeIdx x) = Suc n"
    if "\<not> atp_cancelFlag x"
  proof -
    have v: "atp_numAttributeUpdates x = int n" and n: "n < 2 ^ 31 - 1" and l: "length (atp_attributeIdx x) = Suc n"
      using f that by (simp_all add: n_def)
    have w: "word_of_int (atp_numAttributeUpdates x + 1) = (of_nat (Suc n) :: size_t)" by (simp add: v)
    show "unat ?u < 2 ^ 31 - 1" using n by (simp add: v unsigned_of_nat take_bit_nat_eq_self)
    show "sint ?u = atp_numAttributeUpdates x" 
    proof -
      have "- (2 ^ 31) \<le> atp_numAttributeUpdates x" and "atp_numAttributeUpdates x < 2 ^ 31" using n by (simp_all add: v)
      then show ?thesis by (simp add: sint_sbintrunc' signed_take_bit_int_eq_self)
    qed
    show "atp_updates x = n" using n by (simp add: atp_updates_def v unsigned_of_nat take_bit_nat_eq_self)
    show "unat (word_of_int (atp_numAttributeUpdates x + 1) :: size_t) = Suc n"
      unfolding w using n by (simp only: unsigned_of_nat) (simp add: take_bit_nat_eq_self)
    show "length (atp_attributeIdx x) = Suc n" by (rule l)
  qed
  let ?y = "atp_new\<lparr>atp_numAttributeUpdates := atp_numAttributeUpdates x\<rparr>"
  have loop: "codes (for_loop [0..<m] (atp_attribute_w x))
     (\<lambda>bs. for_loop [0..<m'] (\<lambda>i (a, bs). atp_attribute_r i a bs) (y0, bs)) (atp_upto x n ?y)"
    if c: "\<not> atp_cancelFlag x" and "m = n" and "m' = n" and "y0 = atp_upto x 0 ?y" for m m' y0
  proof -
    have "codes (atp_attribute_w x k) (atp_attribute_r k (atp_upto x k ?y)) (atp_upto x (Suc k) ?y)" if "k < n" for k
    proof (rule atp_attribute_codes)
      have "atp_attributeIdx x ! k \<in> set (take n (atp_attributeIdx x))"
        using that num(5) [OF c] nth_mem [of k "take n (atp_attributeIdx x)"] by simp
      then show "atp_row_ok x (unat (atp_attributeIdx x ! k))" using f c by auto
    qed (use f c that in \<open>auto dest: covered_length\<close>)
    then show ?thesis
      unfolding that(2-4) by (intro codes_for [where y = "\<lambda>k. atp_upto x k ?y"]) simp_all
  qed
  have fin: "(atp_upto x n ?y)\<lparr>atp_persistenceFlag := atp_persistenceFlag x\<rparr> = x" if c: "\<not> atp_cancelFlag x"
  proof -
    have "filled n (atp_attributeIdx x) (replicate (Suc n) 0) = atp_attributeIdx x"
      using f c by (intro filled_but_last) (simp_all del: replicate_Suc)
    then show ?thesis
      using f c num(5) [OF c] by (intro SEIAttributeTransformationParams.equality)
        (simp_all add: atp_upto_def Let_def atp_new_def take_map del: replicate_Suc)
  qed
  have start: "atp_allocate (atp_new\<lparr>atp_cancelFlag := False, atp_numAttributeUpdates := atp_numAttributeUpdates x\<rparr>) = atp_upto x 0 ?y"
    if c: "\<not> atp_cancelFlag x"
  proof -
    have "length (atp_dimensionMinus1 x) = 257" "length (atp_scaleParamsEnabledFlag x) = 256"
      "length (atp_offsetParamsEnabledFlag x) = 256" "length (atp_attributeScale x) = 256" "length (atp_attributeOffset x) = 256"
      using f c by (auto dest: covered_length)
    with num(4,5) [OF c] show ?thesis by (simp add: atp_allocate_def atp_upto_def Let_def atp_new_def del: replicate_Suc)
  qed
  have upd: "atp_updates y = atp_updates x" if "atp_numAttributeUpdates y = atp_numAttributeUpdates x" for y :: SEIAttributeTransformationParams
    using that by (simp add: atp_updates_def)
  show "codes (attributeTransformationParams_w x) (attributeTransformationParams_r atp_new) x"
  proof (cases "atp_cancelFlag x")
    case True
    show ?thesis
      unfolding cancel [OF True] attributeTransformationParams_w_def [abs_def] attributeTransformationParams_r_def [abs_def]
      by ((rule codes_same codec_intro refl | (simp add: atp_new_def; fail))+)
  next
    case False
    note c = False fin [OF False] start [OF False] num(2,3) [OF False]
    show ?thesis
      unfolding attributeTransformationParams_w_def [abs_def] attributeTransformationParams_r_def [abs_def]
      by ((rule loop [OF False] num(1) [OF False] codes_same codec_intro refl | (simp add: c; fail) | (simp add: c atp_new_def; fail)
      | (simp add: c upd atp_upto_def Let_def; fail))+)
  qed
qed

section \<open>Attribute smoothing: indices and rows\<close>

text \<open>The row of an instance is cut to the index just read before the index is stored at its position: an
  index below its position is out of range.\<close>

lemma asm_index_below:
  assumes "bs_read 8 bs = Some (m, bs1)" and "unat m < i"
  shows "asm_instance_r k i sei bs = None"
proof (cases "asm_allocate_at (Suc k) (Suc (unat m)) sei")
  case (Some sei')
  then have "length (asm_instanceIndex sei' ! k) = Suc (unat m)"
    by (auto simp: asm_allocate_at_def asm_rows_def row_resize_def vec_set_eq_Some vec_at_eq_Some Let_def split: bind_splits)
  then have "vec_set2 (asm_instanceIndex sei') k i (ucast m) = None" using assms(2) by (intro vec_set2_out) simp
  with Some assms(1) show ?thesis by (simp add: asm_instance_r_def)
qed (simp add: assms(1) asm_instance_r_def)

text \<open>In the messages that survive, the attributes and the instances of each are numbered from 0.\<close>

definition asm_entry_ok :: "SEIAttributeSmoothing \<Rightarrow> nat \<Rightarrow> nat \<Rightarrow> bool" where
  "asm_entry_ok x k i \<longleftrightarrow> asm_instanceIndex x ! k ! i = of_nat i \<and> unat (asm_instanceCancelFlag x ! k ! i) < 2
     \<and> (asm_instanceCancelFlag x ! k ! i = 1 \<longrightarrow> asm_methodType x ! k ! i = 0)
     \<and> unat (asm_filterEomPointsFlag x ! k ! i) < 2 \<and> unat (asm_gridSizeMinus2 x ! k ! i) < 2 ^ 5
     \<and> (asm_methodType x ! k ! i = 0 \<longrightarrow> asm_filterEomPointsFlag x ! k ! i = 0 \<and> asm_gridSizeMinus2 x ! k ! i = 0
         \<and> asm_threshold x ! k ! i = 0 \<and> asm_thresholdVariation x ! k ! i = 0 \<and> asm_thresholdDifference x ! k ! i = 0)"

definition asm_matrix_ok :: "SEIAttributeSmoothing \<Rightarrow> uint8_t list list \<Rightarrow> bool" where
  "asm_matrix_ok x m \<longleftrightarrow> map length m = map unat (asm_instancesUpdated x)"

definition asm_wf :: "SEIAttributeSmoothing \<Rightarrow> bool" where
  "asm_wf x \<longleftrightarrow> (let n = unat (asm_numAttributesUpdated x) in
     n \<le> 128 \<and> asm_attributeIdx x = map of_nat [0..<n] \<and> length (asm_attributeSmoothingCancelFlag x) = n
     \<and> length (asm_instancesUpdated x) = n \<and> 0 \<notin> set (asm_instancesUpdated x)
     \<and> asm_matrix_ok x (asm_instanceIndex x) \<and> asm_matrix_ok x (asm_instanceCancelFlag x) \<and> asm_matrix_ok x (asm_methodType x)
     \<and> asm_matrix_ok x (asm_filterEomPointsFlag x) \<and> asm_matrix_ok x (asm_gridSizeMinus2 x) \<and> asm_matrix_ok x (asm_threshold x)
     \<and> asm_matrix_ok x (asm_thresholdVariation x) \<and> asm_matrix_ok x (asm_thresholdDifference x)
     \<and> (\<forall>k < n. \<forall>i < unat (asm_instancesUpdated x ! k). asm_entry_ok x k i))"

text \<open>A matrix whose first \<open>k\<close> rows and the first \<open>i\<close> entries of the row \<open>k\<close> have been read.\<close>

definition rows_upto :: "nat \<Rightarrow> nat \<Rightarrow> 'a list list \<Rightarrow> 'a list list" where
  "rows_upto k i m = take k m @ (if i = 0 then [] else [take i (m ! k)])"

lemma length_rows_upto: "k \<le> length m \<Longrightarrow> length (rows_upto k i m) = (if i = 0 then k else Suc k)"
  by (simp add: rows_upto_def)

lemma rows_upto_row: "k < length m \<Longrightarrow> 0 < length (m ! k) \<Longrightarrow> rows_upto k (length (m ! k)) m = rows_upto (Suc k) 0 m"
  by (simp add: rows_upto_def take_Suc_conv_app_nth)

lemma asm_rows_upto:
  assumes "k < length m" and "i < length (m ! k)"
  shows "asm_rows (i = 0) (Suc k) (Suc i) (rows_upto k i m) = Some (take k m @ [take i (m ! k) @ [0]])"
  using assms by (auto simp: asm_rows_def row_resize_def rows_upto_def vec_resize_def list_update_append nth_append vec_at_def vec_set_def)

lemma vec_set2_last:
  assumes "length p = k" and "length q = i"
  shows "vec_set2 (p @ [q @ [u]]) k i v = Some (p @ [q @ [v]])"
  by (simp add: assms [symmetric] vec_set2_in list_update_append)

lemma vec_at2_last:
  assumes "length p = k" and "length q = i"
  shows "vec_at2 (p @ [q @ [u]]) k i = Some u"
  by (simp add: assms [symmetric])

definition asm_upto :: "SEIAttributeSmoothing \<Rightarrow> nat \<Rightarrow> nat \<Rightarrow> SEIAttributeSmoothing \<Rightarrow> SEIAttributeSmoothing" where
  "asm_upto x k i y = y\<lparr>
     asm_instanceIndex := rows_upto k i (asm_instanceIndex x), asm_instanceCancelFlag := rows_upto k i (asm_instanceCancelFlag x),
     asm_methodType := rows_upto k i (asm_methodType x), asm_filterEomPointsFlag := rows_upto k i (asm_filterEomPointsFlag x),
     asm_gridSizeMinus2 := rows_upto k i (asm_gridSizeMinus2 x), asm_threshold := rows_upto k i (asm_threshold x),
     asm_thresholdVariation := rows_upto k i (asm_thresholdVariation x), asm_thresholdDifference := rows_upto k i (asm_thresholdDifference x)\<rparr>"

lemma asm_matrix_row:
  assumes "asm_matrix_ok x m" and "k < length (asm_instancesUpdated x)"
  shows "k < length m" "length (m ! k) = unat (asm_instancesUpdated x ! k)"
proof -
  from assms(1) have "length m = length (asm_instancesUpdated x)"
    unfolding asm_matrix_ok_def by (rule map_eq_imp_length_eq)
  with assms(2) show "k < length m" by simp
  with assms show "length (m ! k) = unat (asm_instancesUpdated x ! k)"
    unfolding asm_matrix_ok_def by (metis nth_map)
qed

lemma asm_instance_codes:
  assumes wf: "asm_wf x" and k: "k < unat (asm_numAttributesUpdated x)" and i: "i < unat (asm_instancesUpdated x ! k)"
  shows "codes (asm_instance_w x k i) (asm_instance_r k i (asm_upto x k i y)) (asm_upto x k (Suc i) y)"
proof -
  note f = wf [unfolded asm_wf_def Let_def]
  have kl: "k < length (asm_instancesUpdated x)" using f k by simp
  have m: "asm_matrix_ok x m \<Longrightarrow> k < length m" "asm_matrix_ok x m \<Longrightarrow> i < length (m ! k)"
    "asm_matrix_ok x m \<Longrightarrow> asm_rows (i = 0) (Suc k) (Suc i) (rows_upto k i m) = Some (take k m @ [take i (m ! k) @ [0]])"
    "asm_matrix_ok x m \<Longrightarrow> rows_upto k (Suc i) m = take k m @ [take i (m ! k) @ [m ! k ! i]]"
    "asm_matrix_ok x m \<Longrightarrow> length (take k m) = k" "asm_matrix_ok x m \<Longrightarrow> length (take i (m ! k)) = i" for m
    using asm_matrix_row [of x m k] kl i asm_rows_upto [of k m i] by (simp_all add: rows_upto_def take_Suc_conv_app_nth)
  have grow: "length (rows_upto k i (asm_instanceIndex x)) < Suc k \<longleftrightarrow> i = 0"
    using m(1) [of "asm_instanceIndex x"] f by (simp add: length_rows_upto)
  note e = f [THEN conjunct2, THEN conjunct2, THEN conjunct2, THEN conjunct2, THEN conjunct2, THEN conjunct2, THEN conjunct2,
    THEN conjunct2, THEN conjunct2, THEN conjunct2, THEN conjunct2, THEN conjunct2, THEN conjunct2, rule_format, OF k i, unfolded asm_entry_ok_def, simplified]
  have i8: "i < 256" using i unat_uint8_less(1) [of "asm_instancesUpdated x ! k"] by linarith
  have iu: "unat (asm_instanceIndex x ! k ! i) = i" "unat (of_nat i :: uint8_t) = i" "unat (of_nat i :: uint32_t) = i"
    using e i8 by (simp_all add: unsigned_of_nat take_bit_nat_eq_self)
  have al: "asm_allocate_at (Suc k) (Suc i) (asm_upto x k i y) = Some (y\<lparr>
     asm_instanceIndex := take k (asm_instanceIndex x) @ [take i (asm_instanceIndex x ! k) @ [0]],
     asm_instanceCancelFlag := take k (asm_instanceCancelFlag x) @ [take i (asm_instanceCancelFlag x ! k) @ [0]],
     asm_methodType := take k (asm_methodType x) @ [take i (asm_methodType x ! k) @ [0]],
     asm_filterEomPointsFlag := take k (asm_filterEomPointsFlag x) @ [take i (asm_filterEomPointsFlag x ! k) @ [0]],
     asm_gridSizeMinus2 := take k (asm_gridSizeMinus2 x) @ [take i (asm_gridSizeMinus2 x ! k) @ [0]],
     asm_threshold := take k (asm_threshold x) @ [take i (asm_threshold x ! k) @ [0]],
     asm_thresholdVariation := take k (asm_thresholdVariation x) @ [take i (asm_thresholdVariation x ! k) @ [0]],
     asm_thresholdDifference := take k (asm_thresholdDifference x) @ [take i (asm_thresholdDifference x ! k) @ [0]]\<rparr>)"
    using f by (simp add: asm_allocate_at_def asm_upto_def grow m)
  have ix: "asm_instanceIndex x ! k ! i = of_nat i" "(ucast (of_nat i :: uint8_t) :: uint32_t) = of_nat i"
    using e iu by (simp_all add: word_unat_eq_iff)
  have iv: "(ucast (of_nat i :: uint32_t) :: uint8_t) = of_nat i"
    using iu i8 unat_ucast_small [where ?'b = 8, of "of_nat i :: uint32_t"] by (simp add: word_unat_eq_iff)
  show ?thesis
    unfolding asm_instance_w_def [abs_def] asm_instance_r_def [abs_def]
    by ((rule codes_split codec_intro refl SEIAttributeSmoothing.equality
      | (use f i8 in \<open>simp add: m e iu al ix iv vec_set2_last vec_at2_last\<close>; fail)
      | (use f i8 in \<open>simp add: m e iu ix iv asm_upto_def\<close>; fail))+)
qed

definition asm_attributes_upto :: "SEIAttributeSmoothing \<Rightarrow> nat \<Rightarrow> SEIAttributeSmoothing \<Rightarrow> SEIAttributeSmoothing" where
  "asm_attributes_upto x j y = (let n = unat (asm_numAttributesUpdated x) in asm_upto x j 0 (y\<lparr>
     asm_attributeIdx := filled j (asm_attributeIdx x) (replicate n 0),
     asm_attributeSmoothingCancelFlag := filled j (asm_attributeSmoothingCancelFlag x) (replicate n False),
     asm_instancesUpdated := filled j (asm_instancesUpdated x) (replicate n 0)\<rparr>))"

lemma asm_attribute_codes:
  assumes wf: "asm_wf x" and k: "k < unat (asm_numAttributesUpdated x)"
  shows "codes (asm_attribute_w x k) (asm_attribute_r k (asm_attributes_upto x k y)) (asm_attributes_upto x (Suc k) y)"
proof -
  note f = wf [unfolded asm_wf_def Let_def]
  let ?n = "unat (asm_numAttributesUpdated x)"
  have lens: "length (asm_attributeIdx x) = ?n" "length (asm_attributeSmoothingCancelFlag x) = ?n" "length (asm_instancesUpdated x) = ?n"
    "k < ?n" "Suc k \<le> ?n" "k < 128" using f k by auto
  have idx: "asm_attributeIdx x ! k = of_nat k" "unat (of_nat k :: uint8_t) = k"
    using f k lens(6) by (simp_all add: unsigned_of_nat take_bit_nat_eq_self)
  let ?Y = "y\<lparr>asm_attributeIdx := filled (Suc k) (asm_attributeIdx x) (replicate ?n 0),
     asm_attributeSmoothingCancelFlag := filled (Suc k) (asm_attributeSmoothingCancelFlag x) (replicate ?n False),
     asm_instancesUpdated := filled (Suc k) (asm_instancesUpdated x) (replicate ?n 0)\<rparr>"
  have pos: "0 < unat (asm_instancesUpdated x ! k)"
    using f k nth_mem [of k "asm_instancesUpdated x"] by (metis lens(3) unat_eq_0 gr0I)
  have row: "rows_upto k (unat (asm_instancesUpdated x ! k)) m = rows_upto (Suc k) 0 m" if "asm_matrix_ok x m" for m
    using rows_upto_row [of k m] asm_matrix_row [OF that, of k] lens pos by simp
  have fin: "asm_upto x k (unat (asm_instancesUpdated x ! k)) ?Y = asm_attributes_upto x (Suc k) y"
    using f by (simp add: asm_attributes_upto_def Let_def asm_upto_def row)
  have loop: "codes (for_loop [0..<m] (asm_instance_w x q)) (\<lambda>bs. for_loop [0..<m'] (\<lambda>i (a, bs). asm_instance_r q' i a bs) (y0, bs))
     (asm_attributes_upto x (Suc k) y)"
    if "m = unat (asm_instancesUpdated x ! k)" and "m' = m" and "y0 = asm_upto x k 0 ?Y" and "q = k" and "q' = k" for m m' q q' y0
    unfolding fin [symmetric] that(2-5) that(1) [symmetric]
    using asm_instance_codes [OF wf k] that(1) by (intro codes_for [where y = "\<lambda>i. asm_upto x k i ?Y"]) simp_all
  have "codes (asm_attribute_w x k) (asm_attribute_r k (asm_upto x k 0 (y\<lparr>
     asm_attributeIdx := filled k (asm_attributeIdx x) (replicate ?n 0),
     asm_attributeSmoothingCancelFlag := filled k (asm_attributeSmoothingCancelFlag x) (replicate ?n False),
     asm_instancesUpdated := filled k (asm_instancesUpdated x) (replicate ?n 0)\<rparr>))) (asm_attributes_upto x (Suc k) y)"
    unfolding asm_attribute_w_def [abs_def] asm_attribute_r_def [abs_def] asm_upto_def
    by ((rule loop [unfolded asm_upto_def] codec_intro refl | (simp add: lens idx; fail))+)
  then show ?thesis by (simp add: asm_attributes_upto_def Let_def)
qed

interpretation asm: syntax_codec attributeSmoothing_w attributeSmoothing_r asm_new asm_wf
proof unfold_locales
  fix x assume wf: "asm_wf x"
  note f = wf [unfolded asm_wf_def Let_def]
  let ?n = "unat (asm_numAttributesUpdated x)"
  let ?y = "asm_new\<lparr>asm_persistenceFlag := asm_persistenceFlag x, asm_resetFlag := asm_resetFlag x,
    asm_numAttributesUpdated := asm_numAttributesUpdated x\<rparr>"
  have all: "rows_upto ?n 0 m = m" if "asm_matrix_ok x m" for m
    using that f map_eq_imp_length_eq [of length m unat "asm_instancesUpdated x"] by (simp add: rows_upto_def asm_matrix_ok_def)
  have fin: "asm_attributes_upto x ?n ?y = x"
    using f by (intro SEIAttributeSmoothing.equality) (simp_all add: asm_attributes_upto_def Let_def asm_upto_def all asm_new_def)
  have start: "asm_allocate ?y = asm_attributes_upto x 0 ?y"
    by (simp add: asm_allocate_def asm_attributes_upto_def Let_def asm_upto_def rows_upto_def asm_new_def)
  have loop: "codes (for_loop [0..<?n] (asm_attribute_w x)) (\<lambda>bs. for_loop [0..<n'] (\<lambda>i (a, bs). asm_attribute_r i a bs) (y0, bs)) x"
    if "n' = ?n" and "y0 = asm_allocate ?y" for n' y0
    using codes_for [where y = "\<lambda>k. asm_attributes_upto x k ?y", OF that(1), of y0 "asm_attribute_w x" asm_attribute_r]
      asm_attribute_codes [OF wf] that(2) start fin by simp
  show "codes (attributeSmoothing_w x) (attributeSmoothing_r asm_new) x"
    unfolding attributeSmoothing_w_def [abs_def] attributeSmoothing_r_def [abs_def]
    by ((rule loop codec_intro refl | (simp; fail) | (simp add: asm_allocate_def Let_def; fail))+)
qed

end
