(* ===== verification/SeiScene.thy ===== *)
theory SeiScene
  imports SeiProcessing
begin

unbundle bit_operations_syntax

text \<open>
  The SEI messages, third part: the messages about the objects of a scene (scene objects, object labels,
  patches, volumetric rectangles, atlas objects) and the buffering messages.

  Some of the constructors leave members indeterminate. The definition \<open>_new\<close> of such a class has the
  indeterminate contents \<open>g\<close> as an argument and sets the members that the constructor initializes; the
  vectors start empty.
\<close>

section \<open>Scene object information\<close>

record SEISceneObjectInformation =
  soi_persistenceFlag :: bool
  soi_resetFlag :: bool
  soi_numObjectUpdates :: uint32_t
  soi_simpleObjectsFlag :: bool
  soi_objectLabelPresentFlag :: bool
  soi_priorityPresentFlag :: bool
  soi_objectHiddenPresentFlag :: bool
  soi_objectDependencyPresentFlag :: bool
  soi_visibilityConesPresentFlag :: bool
  soi_boundingBoxPresentFlag :: bool
  soi_collisionShapePresentFlag :: bool
  soi_pointStylePresentFlag :: bool
  soi_materialIdPresentFlag :: bool
  soi_extensionPresentFlag :: bool
  soi_boundingBoxScaleLog2 :: uint8_t
  soi_boundingBoxPrecisionMinus8 :: uint8_t
  soi_log2MaxObjectIdxUpdated :: uint8_t
  soi_log2MaxObjectDependencyIdx :: uint8_t
  soi_objectIdx :: "uint32_t list"
  soi_objectCancelFlag :: "bool list"
  soi_objectLabelUpdateFlag :: "bool list"
  soi_objectLabelIdx :: "uint32_t list"
  soi_priorityUpdateFlag :: "bool list"
  soi_priorityValue :: "uint8_t list"
  soi_objectHiddenFlag :: "bool list"
  soi_objectDependencyUpdateFlag :: "bool list"
  soi_objectNumDependencies :: "uint8_t list"
  soi_objectDependencyIdx :: "uint32_t list list"
  soi_visibilityConesUpdateFlag :: "bool list"
  soi_directionX :: "uint32_t list"
  soi_directionY :: "uint32_t list"
  soi_directionZ :: "uint32_t list"
  soi_angle :: "uint16_t list"
  soi_boundingBoxUpdateFlag :: "bool list"
  soi_boundingBoxX :: "uint32_t list"
  soi_boundingBoxY :: "uint32_t list"
  soi_boundingBoxZ :: "uint32_t list"
  soi_boundingBoxDeltaX :: "uint32_t list"
  soi_boundingBoxDeltaY :: "uint32_t list"
  soi_boundingBoxDeltaZ :: "uint32_t list"
  soi_collisionShapeUpdateFlag :: "bool list"
  soi_collisionShapeId :: "uint16_t list"
  soi_pointStyleUpdateFlag :: "bool list"
  soi_pointShapeId :: "uint8_t list"
  soi_pointSize :: "uint16_t list"
  soi_materialIdUpdateFlag :: "bool list"
  soi_materialId :: "uint16_t list"

definition soi_new :: "SEISceneObjectInformation \<Rightarrow> SEISceneObjectInformation" where
  "soi_new g = g\<lparr>soi_persistenceFlag := True, soi_resetFlag := True, soi_objectIdx := [],
     soi_objectCancelFlag := [], soi_objectLabelUpdateFlag := [], soi_objectLabelIdx := [],
     soi_priorityUpdateFlag := [], soi_priorityValue := [], soi_objectHiddenFlag := [],
     soi_objectDependencyUpdateFlag := [], soi_objectNumDependencies := [], soi_objectDependencyIdx := [],
     soi_visibilityConesUpdateFlag := [], soi_directionX := [], soi_directionY := [], soi_directionZ := [],
     soi_angle := [], soi_boundingBoxUpdateFlag := [], soi_boundingBoxX := [], soi_boundingBoxY := [],
     soi_boundingBoxZ := [], soi_boundingBoxDeltaX := [], soi_boundingBoxDeltaY := [],
     soi_boundingBoxDeltaZ := [], soi_collisionShapeUpdateFlag := [], soi_collisionShapeId := [],
     soi_pointStyleUpdateFlag := [], soi_pointShapeId := [], soi_pointSize := [],
     soi_materialIdUpdateFlag := [], soi_materialId := []\<rparr>"

text \<open>\<open>allocate( size )\<close> grows the vectors of the objects together, by the length of \<open>objectCancelFlag_\<close>.\<close>

definition soi_allocate :: "nat \<Rightarrow> SEISceneObjectInformation \<Rightarrow> SEISceneObjectInformation" where
  "soi_allocate n sei = (if n \<le> length (soi_objectCancelFlag sei) then sei else sei\<lparr>
     soi_objectCancelFlag := vec_resize n False (soi_objectCancelFlag sei),
     soi_objectLabelUpdateFlag := vec_resize n False (soi_objectLabelUpdateFlag sei),
     soi_objectLabelIdx := vec_resize n 0 (soi_objectLabelIdx sei),
     soi_priorityUpdateFlag := vec_resize n False (soi_priorityUpdateFlag sei),
     soi_priorityValue := vec_resize n 0 (soi_priorityValue sei),
     soi_objectHiddenFlag := vec_resize n False (soi_objectHiddenFlag sei),
     soi_objectDependencyUpdateFlag := vec_resize n False (soi_objectDependencyUpdateFlag sei),
     soi_objectNumDependencies := vec_resize n 0 (soi_objectNumDependencies sei),
     soi_visibilityConesUpdateFlag := vec_resize n False (soi_visibilityConesUpdateFlag sei),
     soi_directionX := vec_resize n 0 (soi_directionX sei),
     soi_directionY := vec_resize n 0 (soi_directionY sei),
     soi_directionZ := vec_resize n 0 (soi_directionZ sei),
     soi_angle := vec_resize n 0 (soi_angle sei),
     soi_boundingBoxUpdateFlag := vec_resize n False (soi_boundingBoxUpdateFlag sei),
     soi_boundingBoxX := vec_resize n 0 (soi_boundingBoxX sei),
     soi_boundingBoxY := vec_resize n 0 (soi_boundingBoxY sei),
     soi_boundingBoxZ := vec_resize n 0 (soi_boundingBoxZ sei),
     soi_boundingBoxDeltaX := vec_resize n 0 (soi_boundingBoxDeltaX sei),
     soi_boundingBoxDeltaY := vec_resize n 0 (soi_boundingBoxDeltaY sei),
     soi_boundingBoxDeltaZ := vec_resize n 0 (soi_boundingBoxDeltaZ sei),
     soi_collisionShapeUpdateFlag := vec_resize n False (soi_collisionShapeUpdateFlag sei),
     soi_collisionShapeId := vec_resize n 0 (soi_collisionShapeId sei),
     soi_pointStyleUpdateFlag := vec_resize n False (soi_pointStyleUpdateFlag sei),
     soi_pointShapeId := vec_resize n 0 (soi_pointShapeId sei),
     soi_pointSize := vec_resize n 0 (soi_pointSize sei),
     soi_materialIdUpdateFlag := vec_resize n False (soi_materialIdUpdateFlag sei),
     soi_materialId := vec_resize n 0 (soi_materialId sei),
     soi_objectDependencyIdx := vec_resize n [] (soi_objectDependencyIdx sei)\<rparr>)"

text \<open>\<open>ceil( log2( n ) + 0.5 )\<close>: the least \<open>c\<close> with $2 n^2 \le 4^c$. For \<open>n = 0\<close> the conversion of minus infinity to
  \<open>size_t\<close> is undefined.\<close>

definition dependencyBits :: "uint8_t \<Rightarrow> nat option" where
  "dependencyBits n = (if n = 0 then None else Some (length (takeWhile (\<lambda>c. 4 ^ c < 2 * unat n * unat n) [0..<16])))"

definition soi_label_w :: "SEISceneObjectInformation \<Rightarrow> nat \<Rightarrow> PCCBitstream \<Rightarrow> PCCBitstream option" where
  "soi_label_w sei i bs = do {
     bs \<leftarrow> (if soi_objectLabelPresentFlag sei then do {
         v \<leftarrow> vec_at (soi_objectLabelUpdateFlag sei) i;
         bs \<leftarrow> bs_write (b2u v) 1 bs;
         u \<leftarrow> vec_at (soi_objectLabelUpdateFlag sei) i;
         bs \<leftarrow> (if u then do {
             v \<leftarrow> vec_at (soi_objectLabelIdx sei) i;
             bs \<leftarrow> bs_writeUvlc v bs;
             Some bs
           } else Some bs);
         Some bs
       } else Some bs);
     bs \<leftarrow> (if soi_priorityPresentFlag sei then do {
         v \<leftarrow> vec_at (soi_priorityUpdateFlag sei) i;
         bs \<leftarrow> bs_write (b2u v) 1 bs;
         u \<leftarrow> vec_at (soi_priorityUpdateFlag sei) i;
         bs \<leftarrow> (if u then do {
             v \<leftarrow> vec_at (soi_priorityValue sei) i;
             bs \<leftarrow> bs_write (ucast v) 4 bs;
             Some bs
           } else Some bs);
         Some bs
       } else Some bs);
     bs \<leftarrow> (if soi_objectHiddenPresentFlag sei then do {
         v \<leftarrow> vec_at (soi_objectHiddenFlag sei) i;
         bs \<leftarrow> bs_write (b2u v) 1 bs;
         Some bs
       } else Some bs);
     Some bs
   }"

definition soi_label_r :: "nat \<Rightarrow> SEISceneObjectInformation \<Rightarrow> PCCBitstream \<Rightarrow> (SEISceneObjectInformation \<times> PCCBitstream) option" where
  "soi_label_r i sei bs = do {
     (sei, bs) \<leftarrow> (if soi_objectLabelPresentFlag sei then do {
         (v, bs) \<leftarrow> bs_read 1 bs;
         l \<leftarrow> vec_set (soi_objectLabelUpdateFlag sei) i (v \<noteq> 0);
         let sei = sei\<lparr>soi_objectLabelUpdateFlag := l\<rparr>;
         u \<leftarrow> vec_at (soi_objectLabelUpdateFlag sei) i;
         (sei, bs) \<leftarrow> (if u then do {
             (v, bs) \<leftarrow> bs_readUvlc bs;
             l \<leftarrow> vec_set (soi_objectLabelIdx sei) i v;
             let sei = sei\<lparr>soi_objectLabelIdx := l\<rparr>;
             Some (sei, bs)
           } else Some (sei, bs));
         Some (sei, bs)
       } else Some (sei, bs));
     (sei, bs) \<leftarrow> (if soi_priorityPresentFlag sei then do {
         (v, bs) \<leftarrow> bs_read 1 bs;
         l \<leftarrow> vec_set (soi_priorityUpdateFlag sei) i (v \<noteq> 0);
         let sei = sei\<lparr>soi_priorityUpdateFlag := l\<rparr>;
         u \<leftarrow> vec_at (soi_priorityUpdateFlag sei) i;
         (sei, bs) \<leftarrow> (if u then do {
             (v, bs) \<leftarrow> bs_read 4 bs;
             l \<leftarrow> vec_set (soi_priorityValue sei) i (ucast v);
             let sei = sei\<lparr>soi_priorityValue := l\<rparr>;
             Some (sei, bs)
           } else Some (sei, bs));
         Some (sei, bs)
       } else Some (sei, bs));
     (sei, bs) \<leftarrow> (if soi_objectHiddenPresentFlag sei then do {
         (v, bs) \<leftarrow> bs_read 1 bs;
         l \<leftarrow> vec_set (soi_objectHiddenFlag sei) i (v \<noteq> 0);
         let sei = sei\<lparr>soi_objectHiddenFlag := l\<rparr>;
         Some (sei, bs)
       } else Some (sei, bs));
     Some (sei, bs)
   }"

definition soi_dependency_w :: "SEISceneObjectInformation \<Rightarrow> nat \<Rightarrow> PCCBitstream \<Rightarrow> PCCBitstream option" where
  "soi_dependency_w sei i bs = do {
     bs \<leftarrow> (if soi_objectDependencyPresentFlag sei then do {
         v \<leftarrow> vec_at (soi_objectDependencyUpdateFlag sei) i;
         bs \<leftarrow> bs_write (b2u v) 1 bs;
         u \<leftarrow> vec_at (soi_objectDependencyUpdateFlag sei) i;
         bs \<leftarrow> (if u then do {
             v \<leftarrow> vec_at (soi_objectNumDependencies sei) i;
             bs \<leftarrow> bs_write (ucast v) 4 bs;
             n \<leftarrow> vec_at (soi_objectNumDependencies sei) i;
             bitCount \<leftarrow> dependencyBits n;
             bs \<leftarrow> for_loop [0..<unat n] (\<lambda>j bs. do { v \<leftarrow> vec_at2 (soi_objectDependencyIdx sei) i j; bs_write v bitCount bs }) bs;
             Some bs
           } else Some bs);
         Some bs
       } else Some bs);
     Some bs
   }"

definition soi_dependency_r :: "nat \<Rightarrow> SEISceneObjectInformation \<Rightarrow> PCCBitstream \<Rightarrow> (SEISceneObjectInformation \<times> PCCBitstream) option" where
  "soi_dependency_r i sei bs = do {
     (sei, bs) \<leftarrow> (if soi_objectDependencyPresentFlag sei then do {
         (v, bs) \<leftarrow> bs_read 1 bs;
         l \<leftarrow> vec_set (soi_objectDependencyUpdateFlag sei) i (v \<noteq> 0);
         let sei = sei\<lparr>soi_objectDependencyUpdateFlag := l\<rparr>;
         u \<leftarrow> vec_at (soi_objectDependencyUpdateFlag sei) i;
         (sei, bs) \<leftarrow> (if u then do {
             (v, bs) \<leftarrow> bs_read 4 bs;
             l \<leftarrow> vec_set (soi_objectNumDependencies sei) i (ucast v);
             let sei = sei\<lparr>soi_objectNumDependencies := l\<rparr>;
             n \<leftarrow> vec_at (soi_objectNumDependencies sei) i;
             rows \<leftarrow> row_resize i (unat n) 0 (soi_objectDependencyIdx sei);
             let sei = sei\<lparr>soi_objectDependencyIdx := rows\<rparr>;
             bitCount \<leftarrow> dependencyBits n;
             (sei, bs) \<leftarrow> for_loop [0..<unat n] (\<lambda>j (sei, bs). do {
                 (v, bs) \<leftarrow> bs_read bitCount bs;
                 rows \<leftarrow> vec_set2 (soi_objectDependencyIdx sei) i j v;
                 Some (sei\<lparr>soi_objectDependencyIdx := rows\<rparr>, bs)
               }) (sei, bs);
             Some (sei, bs)
           } else Some (sei, bs));
         Some (sei, bs)
       } else Some (sei, bs));
     Some (sei, bs)
   }"

definition soi_cones_w :: "SEISceneObjectInformation \<Rightarrow> nat \<Rightarrow> PCCBitstream \<Rightarrow> PCCBitstream option" where
  "soi_cones_w sei i bs = do {
     bs \<leftarrow> (if soi_visibilityConesPresentFlag sei then do {
         v \<leftarrow> vec_at (soi_visibilityConesUpdateFlag sei) i;
         bs \<leftarrow> bs_write (b2u v) 1 bs;
         u \<leftarrow> vec_at (soi_visibilityConesUpdateFlag sei) i;
         bs \<leftarrow> (if u then do {
             v \<leftarrow> vec_at (soi_directionX sei) i;
             bs \<leftarrow> bs_write v 16 bs;
             v \<leftarrow> vec_at (soi_directionY sei) i;
             bs \<leftarrow> bs_write v 16 bs;
             v \<leftarrow> vec_at (soi_directionZ sei) i;
             bs \<leftarrow> bs_write v 16 bs;
             v \<leftarrow> vec_at (soi_angle sei) i;
             bs \<leftarrow> bs_write (ucast v) 16 bs;
             Some bs
           } else Some bs);
         Some bs
       } else Some bs);
     Some bs
   }"

definition soi_cones_r :: "nat \<Rightarrow> SEISceneObjectInformation \<Rightarrow> PCCBitstream \<Rightarrow> (SEISceneObjectInformation \<times> PCCBitstream) option" where
  "soi_cones_r i sei bs = do {
     (sei, bs) \<leftarrow> (if soi_visibilityConesPresentFlag sei then do {
         (v, bs) \<leftarrow> bs_read 1 bs;
         l \<leftarrow> vec_set (soi_visibilityConesUpdateFlag sei) i (v \<noteq> 0);
         let sei = sei\<lparr>soi_visibilityConesUpdateFlag := l\<rparr>;
         u \<leftarrow> vec_at (soi_visibilityConesUpdateFlag sei) i;
         (sei, bs) \<leftarrow> (if u then do {
             (v, bs) \<leftarrow> bs_read 16 bs;
             l \<leftarrow> vec_set (soi_directionX sei) i v;
             let sei = sei\<lparr>soi_directionX := l\<rparr>;
             (v, bs) \<leftarrow> bs_read 16 bs;
             l \<leftarrow> vec_set (soi_directionY sei) i v;
             let sei = sei\<lparr>soi_directionY := l\<rparr>;
             (v, bs) \<leftarrow> bs_read 16 bs;
             l \<leftarrow> vec_set (soi_directionZ sei) i v;
             let sei = sei\<lparr>soi_directionZ := l\<rparr>;
             (v, bs) \<leftarrow> bs_read 16 bs;
             l \<leftarrow> vec_set (soi_angle sei) i (ucast v);
             let sei = sei\<lparr>soi_angle := l\<rparr>;
             Some (sei, bs)
           } else Some (sei, bs));
         Some (sei, bs)
       } else Some (sei, bs));
     Some (sei, bs)
   }"

definition soi_box_w :: "SEISceneObjectInformation \<Rightarrow> nat \<Rightarrow> PCCBitstream \<Rightarrow> PCCBitstream option" where
  "soi_box_w sei i bs = do {
     bs \<leftarrow> (if soi_boundingBoxPresentFlag sei then do {
         v \<leftarrow> vec_at (soi_boundingBoxUpdateFlag sei) i;
         bs \<leftarrow> bs_write (b2u v) 1 bs;
         u \<leftarrow> vec_at (soi_boundingBoxUpdateFlag sei) i;
         bs \<leftarrow> (if u then do {
             v \<leftarrow> vec_at (soi_boundingBoxX sei) i;
             bs \<leftarrow> bs_writeUvlc v bs;
             v \<leftarrow> vec_at (soi_boundingBoxY sei) i;
             bs \<leftarrow> bs_writeUvlc v bs;
             v \<leftarrow> vec_at (soi_boundingBoxZ sei) i;
             bs \<leftarrow> bs_writeUvlc v bs;
             v \<leftarrow> vec_at (soi_boundingBoxDeltaX sei) i;
             bs \<leftarrow> bs_writeUvlc v bs;
             v \<leftarrow> vec_at (soi_boundingBoxDeltaY sei) i;
             bs \<leftarrow> bs_writeUvlc v bs;
             v \<leftarrow> vec_at (soi_boundingBoxDeltaZ sei) i;
             bs \<leftarrow> bs_writeUvlc v bs;
             Some bs
           } else Some bs);
         Some bs
       } else Some bs);
     Some bs
   }"

definition soi_box_r :: "nat \<Rightarrow> SEISceneObjectInformation \<Rightarrow> PCCBitstream \<Rightarrow> (SEISceneObjectInformation \<times> PCCBitstream) option" where
  "soi_box_r i sei bs = do {
     (sei, bs) \<leftarrow> (if soi_boundingBoxPresentFlag sei then do {
         (v, bs) \<leftarrow> bs_read 1 bs;
         l \<leftarrow> vec_set (soi_boundingBoxUpdateFlag sei) i (v \<noteq> 0);
         let sei = sei\<lparr>soi_boundingBoxUpdateFlag := l\<rparr>;
         u \<leftarrow> vec_at (soi_boundingBoxUpdateFlag sei) i;
         (sei, bs) \<leftarrow> (if u then do {
             (v, bs) \<leftarrow> bs_readUvlc bs;
             l \<leftarrow> vec_set (soi_boundingBoxX sei) i v;
             let sei = sei\<lparr>soi_boundingBoxX := l\<rparr>;
             (v, bs) \<leftarrow> bs_readUvlc bs;
             l \<leftarrow> vec_set (soi_boundingBoxY sei) i v;
             let sei = sei\<lparr>soi_boundingBoxY := l\<rparr>;
             (v, bs) \<leftarrow> bs_readUvlc bs;
             l \<leftarrow> vec_set (soi_boundingBoxZ sei) i v;
             let sei = sei\<lparr>soi_boundingBoxZ := l\<rparr>;
             (v, bs) \<leftarrow> bs_readUvlc bs;
             l \<leftarrow> vec_set (soi_boundingBoxDeltaX sei) i v;
             let sei = sei\<lparr>soi_boundingBoxDeltaX := l\<rparr>;
             (v, bs) \<leftarrow> bs_readUvlc bs;
             l \<leftarrow> vec_set (soi_boundingBoxDeltaY sei) i v;
             let sei = sei\<lparr>soi_boundingBoxDeltaY := l\<rparr>;
             (v, bs) \<leftarrow> bs_readUvlc bs;
             l \<leftarrow> vec_set (soi_boundingBoxDeltaZ sei) i v;
             let sei = sei\<lparr>soi_boundingBoxDeltaZ := l\<rparr>;
             Some (sei, bs)
           } else Some (sei, bs));
         Some (sei, bs)
       } else Some (sei, bs));
     Some (sei, bs)
   }"

definition soi_style_w :: "SEISceneObjectInformation \<Rightarrow> nat \<Rightarrow> PCCBitstream \<Rightarrow> PCCBitstream option" where
  "soi_style_w sei i bs = do {
     bs \<leftarrow> (if soi_collisionShapePresentFlag sei then do {
         v \<leftarrow> vec_at (soi_collisionShapeUpdateFlag sei) i;
         bs \<leftarrow> bs_write (b2u v) 1 bs;
         u \<leftarrow> vec_at (soi_collisionShapeUpdateFlag sei) i;
         bs \<leftarrow> (if u then do {
             v \<leftarrow> vec_at (soi_collisionShapeId sei) i;
             bs \<leftarrow> bs_write (ucast v) 16 bs;
             Some bs
           } else Some bs);
         Some bs
       } else Some bs);
     bs \<leftarrow> (if soi_pointStylePresentFlag sei then do {
         v \<leftarrow> vec_at (soi_pointStyleUpdateFlag sei) i;
         bs \<leftarrow> bs_write (b2u v) 1 bs;
         u \<leftarrow> vec_at (soi_pointStyleUpdateFlag sei) i;
         bs \<leftarrow> (if u then do {
             v \<leftarrow> vec_at (soi_pointShapeId sei) i;
             bs \<leftarrow> bs_write (ucast v) 8 bs;
             v \<leftarrow> vec_at (soi_pointSize sei) i;
             bs \<leftarrow> bs_write (ucast v) 16 bs;
             Some bs
           } else Some bs);
         Some bs
       } else Some bs);
     bs \<leftarrow> (if soi_materialIdPresentFlag sei then do {
         v \<leftarrow> vec_at (soi_materialIdUpdateFlag sei) i;
         bs \<leftarrow> bs_write (b2u v) 1 bs;
         u \<leftarrow> vec_at (soi_materialIdUpdateFlag sei) i;
         bs \<leftarrow> (if u then do {
             v \<leftarrow> vec_at (soi_materialId sei) i;
             bs \<leftarrow> bs_write (ucast v) 16 bs;
             Some bs
           } else Some bs);
         Some bs
       } else Some bs);
     Some bs
   }"

definition soi_style_r :: "nat \<Rightarrow> SEISceneObjectInformation \<Rightarrow> PCCBitstream \<Rightarrow> (SEISceneObjectInformation \<times> PCCBitstream) option" where
  "soi_style_r i sei bs = do {
     (sei, bs) \<leftarrow> (if soi_collisionShapePresentFlag sei then do {
         (v, bs) \<leftarrow> bs_read 1 bs;
         l \<leftarrow> vec_set (soi_collisionShapeUpdateFlag sei) i (v \<noteq> 0);
         let sei = sei\<lparr>soi_collisionShapeUpdateFlag := l\<rparr>;
         u \<leftarrow> vec_at (soi_collisionShapeUpdateFlag sei) i;
         (sei, bs) \<leftarrow> (if u then do {
             (v, bs) \<leftarrow> bs_read 16 bs;
             l \<leftarrow> vec_set (soi_collisionShapeId sei) i (ucast v);
             let sei = sei\<lparr>soi_collisionShapeId := l\<rparr>;
             Some (sei, bs)
           } else Some (sei, bs));
         Some (sei, bs)
       } else Some (sei, bs));
     (sei, bs) \<leftarrow> (if soi_pointStylePresentFlag sei then do {
         (v, bs) \<leftarrow> bs_read 1 bs;
         l \<leftarrow> vec_set (soi_pointStyleUpdateFlag sei) i (v \<noteq> 0);
         let sei = sei\<lparr>soi_pointStyleUpdateFlag := l\<rparr>;
         u \<leftarrow> vec_at (soi_pointStyleUpdateFlag sei) i;
         (sei, bs) \<leftarrow> (if u then do {
             (v, bs) \<leftarrow> bs_read 8 bs;
             l \<leftarrow> vec_set (soi_pointShapeId sei) i (ucast v);
             let sei = sei\<lparr>soi_pointShapeId := l\<rparr>;
             (v, bs) \<leftarrow> bs_read 16 bs;
             l \<leftarrow> vec_set (soi_pointSize sei) i (ucast v);
             let sei = sei\<lparr>soi_pointSize := l\<rparr>;
             Some (sei, bs)
           } else Some (sei, bs));
         Some (sei, bs)
       } else Some (sei, bs));
     (sei, bs) \<leftarrow> (if soi_materialIdPresentFlag sei then do {
         (v, bs) \<leftarrow> bs_read 1 bs;
         l \<leftarrow> vec_set (soi_materialIdUpdateFlag sei) i (v \<noteq> 0);
         let sei = sei\<lparr>soi_materialIdUpdateFlag := l\<rparr>;
         u \<leftarrow> vec_at (soi_materialIdUpdateFlag sei) i;
         (sei, bs) \<leftarrow> (if u then do {
             (v, bs) \<leftarrow> bs_read 16 bs;
             l \<leftarrow> vec_set (soi_materialId sei) i (ucast v);
             let sei = sei\<lparr>soi_materialId := l\<rparr>;
             Some (sei, bs)
           } else Some (sei, bs));
         Some (sei, bs)
       } else Some (sei, bs));
     Some (sei, bs)
   }"

text \<open>The update \<open>i\<close>, of the object \<open>k\<close>: the parameters follow when its cancel flag is set. The writer asserts
  that the object index is not below the number of updates.\<close>

definition soi_object_w :: "SEISceneObjectInformation \<Rightarrow> nat \<Rightarrow> PCCBitstream \<Rightarrow> PCCBitstream option" where
  "soi_object_w sei i bs = do {
     k \<leftarrow> vec_at (soi_objectIdx sei) i;
     bs \<leftarrow> (if k < soi_numObjectUpdates sei then None else bs_write k (bits8 (soi_log2MaxObjectIdxUpdated sei)) bs);
     v \<leftarrow> vec_at (soi_objectCancelFlag sei) (unat k);
     bs \<leftarrow> bs_write (b2u v) 1 bs;
     c \<leftarrow> vec_at (soi_objectCancelFlag sei) (unat k);
     bs \<leftarrow> (if c then do {
         bs \<leftarrow> soi_label_w sei (unat k) bs;
         bs \<leftarrow> soi_dependency_w sei (unat k) bs;
         bs \<leftarrow> soi_cones_w sei (unat k) bs;
         bs \<leftarrow> soi_box_w sei (unat k) bs;
         bs \<leftarrow> soi_style_w sei (unat k) bs;
         Some bs
       } else Some bs);
     Some bs
   }"

definition soi_object_r :: "nat \<Rightarrow> SEISceneObjectInformation \<Rightarrow> PCCBitstream \<Rightarrow> (SEISceneObjectInformation \<times> PCCBitstream) option" where
  "soi_object_r i sei bs = do {
     bs \<leftarrow> (if length (soi_objectIdx sei) < unat (soi_numObjectUpdates sei) then None else Some bs);
     (v, bs) \<leftarrow> bs_read (bits8 (soi_log2MaxObjectIdxUpdated sei)) bs;
     l \<leftarrow> vec_set (soi_objectIdx sei) i v;
     let sei = sei\<lparr>soi_objectIdx := l\<rparr>;
     k \<leftarrow> vec_at (soi_objectIdx sei) i;
     let sei = soi_allocate (Suc (unat k)) sei;
     (v, bs) \<leftarrow> bs_read 1 bs;
     l \<leftarrow> vec_set (soi_objectCancelFlag sei) (unat k) (v \<noteq> 0);
     let sei = sei\<lparr>soi_objectCancelFlag := l\<rparr>;
     c \<leftarrow> vec_at (soi_objectCancelFlag sei) (unat k);
     (sei, bs) \<leftarrow> (if c then do {
         (sei, bs) \<leftarrow> soi_label_r (unat k) sei bs;
         (sei, bs) \<leftarrow> soi_dependency_r (unat k) sei bs;
         (sei, bs) \<leftarrow> soi_cones_r (unat k) sei bs;
         (sei, bs) \<leftarrow> soi_box_r (unat k) sei bs;
         (sei, bs) \<leftarrow> soi_style_r (unat k) sei bs;
         Some (sei, bs)
       } else Some (sei, bs));
     Some (sei, bs)
   }"

definition soi_flags_w :: "SEISceneObjectInformation \<Rightarrow> PCCBitstream \<Rightarrow> PCCBitstream option" where
  "soi_flags_w sei bs = do {
     bs \<leftarrow> bs_write (b2u (soi_simpleObjectsFlag sei)) 1 bs;
     bs \<leftarrow> (if \<not> soi_simpleObjectsFlag sei then do {
         bs \<leftarrow> bs_write (b2u (soi_objectLabelPresentFlag sei)) 1 bs;
         bs \<leftarrow> bs_write (b2u (soi_priorityPresentFlag sei)) 1 bs;
         bs \<leftarrow> bs_write (b2u (soi_objectHiddenPresentFlag sei)) 1 bs;
         bs \<leftarrow> bs_write (b2u (soi_objectDependencyPresentFlag sei)) 1 bs;
         bs \<leftarrow> bs_write (b2u (soi_visibilityConesPresentFlag sei)) 1 bs;
         bs \<leftarrow> bs_write (b2u (soi_boundingBoxPresentFlag sei)) 1 bs;
         bs \<leftarrow> bs_write (b2u (soi_collisionShapePresentFlag sei)) 1 bs;
         bs \<leftarrow> bs_write (b2u (soi_pointStylePresentFlag sei)) 1 bs;
         bs \<leftarrow> bs_write (b2u (soi_materialIdPresentFlag sei)) 1 bs;
         bs \<leftarrow> bs_write (b2u (soi_extensionPresentFlag sei)) 1 bs;
         Some bs
       } else Some bs);
     bs \<leftarrow> (if soi_boundingBoxPresentFlag sei then do {
         bs \<leftarrow> bs_write (ucast (soi_boundingBoxScaleLog2 sei)) 5 bs;
         bs \<leftarrow> bs_write (ucast (soi_boundingBoxPrecisionMinus8 sei)) 5 bs;
         Some bs
       } else Some bs);
     bs \<leftarrow> bs_write (ucast (soi_log2MaxObjectIdxUpdated sei)) 5 bs;
     bs \<leftarrow> (if soi_objectDependencyPresentFlag sei then do {
         bs \<leftarrow> bs_write (ucast (soi_log2MaxObjectDependencyIdx sei)) 5 bs;
         Some bs
       } else Some bs);
     Some bs
   }"

definition soi_flags_r :: "SEISceneObjectInformation \<Rightarrow> PCCBitstream \<Rightarrow> (SEISceneObjectInformation \<times> PCCBitstream) option" where
  "soi_flags_r sei bs = do {
     (v, bs) \<leftarrow> bs_read 1 bs;
     let sei = sei\<lparr>soi_simpleObjectsFlag := v \<noteq> 0\<rparr>;
     (sei, bs) \<leftarrow> (if \<not> soi_simpleObjectsFlag sei then do {
         (v, bs) \<leftarrow> bs_read 1 bs;
         let sei = sei\<lparr>soi_objectLabelPresentFlag := v \<noteq> 0\<rparr>;
         (v, bs) \<leftarrow> bs_read 1 bs;
         let sei = sei\<lparr>soi_priorityPresentFlag := v \<noteq> 0\<rparr>;
         (v, bs) \<leftarrow> bs_read 1 bs;
         let sei = sei\<lparr>soi_objectHiddenPresentFlag := v \<noteq> 0\<rparr>;
         (v, bs) \<leftarrow> bs_read 1 bs;
         let sei = sei\<lparr>soi_objectDependencyPresentFlag := v \<noteq> 0\<rparr>;
         (v, bs) \<leftarrow> bs_read 1 bs;
         let sei = sei\<lparr>soi_visibilityConesPresentFlag := v \<noteq> 0\<rparr>;
         (v, bs) \<leftarrow> bs_read 1 bs;
         let sei = sei\<lparr>soi_boundingBoxPresentFlag := v \<noteq> 0\<rparr>;
         (v, bs) \<leftarrow> bs_read 1 bs;
         let sei = sei\<lparr>soi_collisionShapePresentFlag := v \<noteq> 0\<rparr>;
         (v, bs) \<leftarrow> bs_read 1 bs;
         let sei = sei\<lparr>soi_pointStylePresentFlag := v \<noteq> 0\<rparr>;
         (v, bs) \<leftarrow> bs_read 1 bs;
         let sei = sei\<lparr>soi_materialIdPresentFlag := v \<noteq> 0\<rparr>;
         (v, bs) \<leftarrow> bs_read 1 bs;
         let sei = sei\<lparr>soi_extensionPresentFlag := v \<noteq> 0\<rparr>;
         Some (sei, bs)
       } else do {
         let sei = sei\<lparr>soi_objectLabelPresentFlag := False, soi_priorityPresentFlag := False, soi_objectHiddenPresentFlag := False, soi_objectDependencyPresentFlag := False, soi_visibilityConesPresentFlag := False, soi_boundingBoxPresentFlag := False, soi_collisionShapePresentFlag := False, soi_pointStylePresentFlag := False, soi_materialIdPresentFlag := False, soi_extensionPresentFlag := False\<rparr>;
         Some (sei, bs)
       });
     (sei, bs) \<leftarrow> (if soi_boundingBoxPresentFlag sei then do {
         (v, bs) \<leftarrow> bs_read 5 bs;
         let sei = sei\<lparr>soi_boundingBoxScaleLog2 := ucast v\<rparr>;
         (v, bs) \<leftarrow> bs_read 5 bs;
         let sei = sei\<lparr>soi_boundingBoxPrecisionMinus8 := ucast v\<rparr>;
         Some (sei, bs)
       } else Some (sei, bs));
     (v, bs) \<leftarrow> bs_read 5 bs;
     let sei = sei\<lparr>soi_log2MaxObjectIdxUpdated := ucast v\<rparr>;
     (sei, bs) \<leftarrow> (if soi_objectDependencyPresentFlag sei then do {
         (v, bs) \<leftarrow> bs_read 5 bs;
         let sei = sei\<lparr>soi_log2MaxObjectDependencyIdx := ucast v\<rparr>;
         Some (sei, bs)
       } else Some (sei, bs));
     Some (sei, bs)
   }"

text \<open>Both loops run once more than there are updates.\<close>

definition sceneObjectInformation_w :: "SEISceneObjectInformation \<Rightarrow> PCCBitstream \<Rightarrow> PCCBitstream option" where
  "sceneObjectInformation_w sei bs = do {
     bs \<leftarrow> bs_write (b2u (soi_persistenceFlag sei)) 1 bs;
     bs \<leftarrow> bs_write (b2u (soi_resetFlag sei)) 1 bs;
     bs \<leftarrow> bs_writeUvlc (soi_numObjectUpdates sei) bs;
     bs \<leftarrow> (if 0 < soi_numObjectUpdates sei then do {
         bs \<leftarrow> soi_flags_w sei bs;
         bs \<leftarrow> for_loop [0..<Suc (unat (soi_numObjectUpdates sei))] (soi_object_w sei) bs;
         Some bs
       } else Some bs);
     Some bs
   }"

definition sceneObjectInformation_r :: "SEISceneObjectInformation \<Rightarrow> PCCBitstream \<Rightarrow> (SEISceneObjectInformation \<times> PCCBitstream) option" where
  "sceneObjectInformation_r sei bs = do {
     (v, bs) \<leftarrow> bs_read 1 bs;
     let sei = sei\<lparr>soi_persistenceFlag := v \<noteq> 0\<rparr>;
     (v, bs) \<leftarrow> bs_read 1 bs;
     let sei = sei\<lparr>soi_resetFlag := v \<noteq> 0\<rparr>;
     (v, bs) \<leftarrow> bs_readUvlc bs;
     let sei = sei\<lparr>soi_numObjectUpdates := v\<rparr>;
     let sei = sei\<lparr>soi_objectIdx := vec_resize (unat (soi_numObjectUpdates sei)) 0 (soi_objectIdx sei)\<rparr>;
     (sei, bs) \<leftarrow> (if 0 < soi_numObjectUpdates sei then do {
         (sei, bs) \<leftarrow> soi_flags_r sei bs;
         (sei, bs) \<leftarrow> for_loop [0..<Suc (unat (soi_numObjectUpdates sei))] (\<lambda>i (sei, bs). soi_object_r i sei bs) (sei, bs);
         Some (sei, bs)
       } else Some (sei, bs));
     Some (sei, bs)
   }"

section \<open>Object labels\<close>

record SEIObjectLabelInformation =
  oli_cancelFlag :: bool
  oli_labelLanguagePresentFlag :: bool
  oli_labelLanguage :: "uint8_t list"
  oli_numLabelUpdates :: uint32_t
  oli_labelIdx :: "uint32_t list"
  oli_labelCancelFlag :: bool
  oli_bitEqualToZero :: bool
  oli_label :: "uint8_t list list"
  oli_persistenceFlag :: bool

definition oli_new :: "SEIObjectLabelInformation \<Rightarrow> SEIObjectLabelInformation" where
  "oli_new g = g\<lparr>oli_cancelFlag := False, oli_labelLanguage := [], oli_labelIdx := [],
     oli_label := []\<rparr>"

text \<open>\<open>setLabel\<close> compares the size with the index by \<open><\<close> and so does not grow the vector when they are equal.\<close>

definition oli_setLabel :: "nat \<Rightarrow> uint8_t list \<Rightarrow> SEIObjectLabelInformation \<Rightarrow> SEIObjectLabelInformation option" where
  "oli_setLabel i value sei = do {
     let l = (if length (oli_label sei) < i then vec_resize (Suc i) [] (oli_label sei) else oli_label sei);
     l \<leftarrow> vec_set l i value;
     Some (sei\<lparr>oli_label := l\<rparr>)
   }"

definition oli_update_w :: "SEIObjectLabelInformation \<Rightarrow> nat \<Rightarrow> PCCBitstream \<Rightarrow> PCCBitstream option" where
  "oli_update_w sei i bs = do {
     v \<leftarrow> vec_at (oli_labelIdx sei) i;
     bs \<leftarrow> bs_writeUvlc v bs;
     k \<leftarrow> vec_at (oli_labelIdx sei) i;
     bs \<leftarrow> bs_write (b2u (oli_labelCancelFlag sei)) 1 bs;
     bs \<leftarrow> (if \<not> oli_labelCancelFlag sei then do {
         bs \<leftarrow> bs_padWrite 0 bs;
         s \<leftarrow> vec_at (oli_label sei) (unat k);
         bs \<leftarrow> bs_writeString s bs;
         Some bs
       } else Some bs);
     Some bs
   }"

definition oli_update_r :: "nat \<Rightarrow> SEIObjectLabelInformation \<Rightarrow> PCCBitstream \<Rightarrow> (SEIObjectLabelInformation \<times> PCCBitstream) option" where
  "oli_update_r i sei bs = do {
     (v, bs) \<leftarrow> bs_readUvlc bs;
     l \<leftarrow> vec_set (oli_labelIdx sei) i v;
     let sei = sei\<lparr>oli_labelIdx := l\<rparr>;
     k \<leftarrow> vec_at (oli_labelIdx sei) i;
     (v, bs) \<leftarrow> bs_read 1 bs;
     let sei = sei\<lparr>oli_labelCancelFlag := v \<noteq> 0\<rparr>;
     (sei, bs) \<leftarrow> (if \<not> oli_labelCancelFlag sei then do {
         (u, bs) \<leftarrow> bs_padRead bs;
         (s, bs) \<leftarrow> bs_readString bs;
         sei \<leftarrow> oli_setLabel (unat k) s sei;
         Some (sei, bs)
       } else Some (sei, bs));
     Some (sei, bs)
   }"

definition objectLabelInformation_w :: "SEIObjectLabelInformation \<Rightarrow> PCCBitstream \<Rightarrow> PCCBitstream option" where
  "objectLabelInformation_w sei bs = do {
     bs \<leftarrow> bs_write (b2u (oli_cancelFlag sei)) 1 bs;
     bs \<leftarrow> (if \<not> oli_cancelFlag sei then do {
         bs \<leftarrow> bs_write (b2u (oli_labelLanguagePresentFlag sei)) 1 bs;
         bs \<leftarrow> (if oli_labelLanguagePresentFlag sei then do {
             bs \<leftarrow> bs_padWrite 0 bs;
             bs \<leftarrow> bs_writeString (oli_labelLanguage sei) bs;
             Some bs
           } else Some bs);
         bs \<leftarrow> bs_writeUvlc (oli_numLabelUpdates sei) bs;
         bs \<leftarrow> for_loop [0..<unat (oli_numLabelUpdates sei)] (oli_update_w sei) bs;
         bs \<leftarrow> bs_write (b2u (oli_persistenceFlag sei)) 1 bs;
         Some bs
       } else Some bs);
     Some bs
   }"

definition objectLabelInformation_r :: "SEIObjectLabelInformation \<Rightarrow> PCCBitstream \<Rightarrow> (SEIObjectLabelInformation \<times> PCCBitstream) option" where
  "objectLabelInformation_r sei bs = do {
     (v, bs) \<leftarrow> bs_read 1 bs;
     let sei = sei\<lparr>oli_cancelFlag := v \<noteq> 0\<rparr>;
     (sei, bs) \<leftarrow> (if \<not> oli_cancelFlag sei then do {
         (v, bs) \<leftarrow> bs_read 1 bs;
         let sei = sei\<lparr>oli_labelLanguagePresentFlag := v \<noteq> 0\<rparr>;
         (sei, bs) \<leftarrow> (if oli_labelLanguagePresentFlag sei then do {
             (u, bs) \<leftarrow> bs_padRead bs;
             (v, bs) \<leftarrow> bs_readString bs;
             let sei = sei\<lparr>oli_labelLanguage := v\<rparr>;
             Some (sei, bs)
           } else Some (sei, bs));
         (v, bs) \<leftarrow> bs_readUvlc bs;
         let sei = sei\<lparr>oli_numLabelUpdates := v\<rparr>;
         let sei = sei\<lparr>oli_labelIdx := vec_resize (unat (oli_numLabelUpdates sei)) 0 (oli_labelIdx sei)\<rparr>;
         (sei, bs) \<leftarrow> for_loop [0..<unat (oli_numLabelUpdates sei)] (\<lambda>i (sei, bs). oli_update_r i sei bs) (sei, bs);
         (v, bs) \<leftarrow> bs_read 1 bs;
         let sei = sei\<lparr>oli_persistenceFlag := v \<noteq> 0\<rparr>;
         Some (sei, bs)
       } else Some (sei, bs));
     Some (sei, bs)
   }"

section \<open>Patch information\<close>

record SEIPatchInformation =
  pin_persistenceFlag :: bool
  pin_resetFlag :: bool
  pin_numTileUpdates :: uint32_t
  pin_log2MaxObjectIdxTracked :: uint8_t
  pin_log2MaxPatchIdxUpdated :: uint8_t
  pin_tileId :: "uint32_t list"
  pin_tileCancelFlag :: "bool list"
  pin_numPatchUpdates :: "uint32_t list"
  pin_patchIdx :: "uint32_t list list"
  pin_patchCancelFlag :: "bool list list"
  pin_patchNumberOfObjectsMinus1 :: "uint32_t list list"
  pin_patchObjectIdx :: "uint32_t list list list"

definition pin_new :: "SEIPatchInformation \<Rightarrow> SEIPatchInformation" where
  "pin_new g = g\<lparr>pin_tileId := [], pin_tileCancelFlag := [], pin_numPatchUpdates := [],
     pin_patchIdx := [], pin_patchCancelFlag := [], pin_patchNumberOfObjectsMinus1 := [],
     pin_patchObjectIdx := []\<rparr>"

text \<open>The patch update \<open>k\<close> of the tile \<open>j\<close>. \<open>n < getPatchNumberOfObjectsMinus1( j, p ) + 1\<close> is computed modulo $2^{32}$.\<close>

definition pin_patch_w :: "SEIPatchInformation \<Rightarrow> nat \<Rightarrow> nat \<Rightarrow> PCCBitstream \<Rightarrow> PCCBitstream option" where
  "pin_patch_w sei j k bs = do {
     p \<leftarrow> vec_at2 (pin_patchIdx sei) j k;
     bs \<leftarrow> bs_write p (bits8 (pin_log2MaxPatchIdxUpdated sei)) bs;
     c \<leftarrow> vec_at2 (pin_patchCancelFlag sei) j (unat p);
     bs \<leftarrow> bs_write (b2u c) 1 bs;
     bs \<leftarrow> (if \<not> c then do {
         m \<leftarrow> vec_at2 (pin_patchNumberOfObjectsMinus1 sei) j (unat p);
         bs \<leftarrow> bs_writeUvlc m bs;
         bs \<leftarrow> for_loop [0..<unat (m + 1)] (\<lambda>n bs. do {
             rows \<leftarrow> vec_at (pin_patchObjectIdx sei) j;
             v \<leftarrow> vec_at2 rows (unat p) n;
             bs_write v (bits8 (pin_log2MaxObjectIdxTracked sei)) bs
           }) bs;
         Some bs
       } else Some bs);
     Some bs
   }"

definition pin_patch_r :: "nat \<Rightarrow> nat \<Rightarrow> SEIPatchInformation \<Rightarrow> PCCBitstream \<Rightarrow> (SEIPatchInformation \<times> PCCBitstream) option" where
  "pin_patch_r j k sei bs = do {
     (v, bs) \<leftarrow> bs_read (bits8 (pin_log2MaxPatchIdxUpdated sei)) bs;
     l \<leftarrow> vec_set2 (pin_patchIdx sei) j k v;
     let sei = sei\<lparr>pin_patchIdx := l\<rparr>;
     p \<leftarrow> vec_at2 (pin_patchIdx sei) j k;
     (v, bs) \<leftarrow> bs_read 1 bs;
     l \<leftarrow> vec_set2 (pin_patchCancelFlag sei) j (unat p) (v \<noteq> 0);
     let sei = sei\<lparr>pin_patchCancelFlag := l\<rparr>;
     c \<leftarrow> vec_at2 (pin_patchCancelFlag sei) j (unat p);
     (sei, bs) \<leftarrow> (if \<not> c then do {
         (v, bs) \<leftarrow> bs_readUvlc bs;
         l \<leftarrow> vec_set2 (pin_patchNumberOfObjectsMinus1 sei) j (unat p) v;
         let sei = sei\<lparr>pin_patchNumberOfObjectsMinus1 := l\<rparr>;
         m \<leftarrow> vec_at2 (pin_patchNumberOfObjectsMinus1 sei) j (unat p);
         (sei, bs) \<leftarrow> for_loop [0..<unat (m + 1)] (\<lambda>n (sei, bs). do {
             (v, bs) \<leftarrow> bs_read (bits8 (pin_log2MaxObjectIdxTracked sei)) bs;
             rows \<leftarrow> vec_at (pin_patchObjectIdx sei) j;
             rows \<leftarrow> vec_set2 rows (unat p) n v;
             l \<leftarrow> vec_set (pin_patchObjectIdx sei) j rows;
             Some (sei\<lparr>pin_patchObjectIdx := l\<rparr>, bs)
           }) (sei, bs);
         Some (sei, bs)
       } else Some (sei, bs));
     Some (sei, bs)
   }"

definition pin_tile_w :: "SEIPatchInformation \<Rightarrow> nat \<Rightarrow> PCCBitstream \<Rightarrow> PCCBitstream option" where
  "pin_tile_w sei i bs = do {
     v \<leftarrow> vec_at (pin_tileId sei) i;
     bs \<leftarrow> bs_writeUvlc v bs;
     j \<leftarrow> vec_at (pin_tileId sei) i;
     v \<leftarrow> vec_at (pin_tileCancelFlag sei) (unat j);
     bs \<leftarrow> bs_write (b2u v) 1 bs;
     v \<leftarrow> vec_at (pin_numPatchUpdates sei) (unat j);
     bs \<leftarrow> bs_writeUvlc v bs;
     n \<leftarrow> vec_at (pin_numPatchUpdates sei) (unat j);
     bs \<leftarrow> for_loop [0..<unat n] (pin_patch_w sei (unat j)) bs;
     Some bs
   }"

definition pin_tile_r :: "nat \<Rightarrow> SEIPatchInformation \<Rightarrow> PCCBitstream \<Rightarrow> (SEIPatchInformation \<times> PCCBitstream) option" where
  "pin_tile_r i sei bs = do {
     (v, bs) \<leftarrow> bs_readUvlc bs;
     l \<leftarrow> vec_set (pin_tileId sei) i v;
     let sei = sei\<lparr>pin_tileId := l\<rparr>;
     j \<leftarrow> vec_at (pin_tileId sei) i;
     (v, bs) \<leftarrow> bs_read 1 bs;
     l \<leftarrow> vec_set (pin_tileCancelFlag sei) (unat j) (v \<noteq> 0);
     let sei = sei\<lparr>pin_tileCancelFlag := l\<rparr>;
     (v, bs) \<leftarrow> bs_readUvlc bs;
     l \<leftarrow> vec_set (pin_numPatchUpdates sei) (unat j) v;
     let sei = sei\<lparr>pin_numPatchUpdates := l\<rparr>;
     n \<leftarrow> vec_at (pin_numPatchUpdates sei) (unat j);
     (sei, bs) \<leftarrow> for_loop [0..<unat n] (\<lambda>i (sei, bs). pin_patch_r (unat j) i sei bs) (sei, bs);
     Some (sei, bs)
   }"

definition patchInformation_w :: "SEIPatchInformation \<Rightarrow> PCCBitstream \<Rightarrow> PCCBitstream option" where
  "patchInformation_w sei bs = do {
     bs \<leftarrow> bs_write (b2u (pin_persistenceFlag sei)) 1 bs;
     bs \<leftarrow> bs_write (b2u (pin_resetFlag sei)) 1 bs;
     bs \<leftarrow> bs_writeUvlc (pin_numTileUpdates sei) bs;
     bs \<leftarrow> (if 0 < pin_numTileUpdates sei then do {
         bs \<leftarrow> bs_write (ucast (pin_log2MaxObjectIdxTracked sei)) 5 bs;
         bs \<leftarrow> bs_write (ucast (pin_log2MaxPatchIdxUpdated sei)) 4 bs;
         Some bs
       } else Some bs);
     bs \<leftarrow> for_loop [0..<unat (pin_numTileUpdates sei)] (pin_tile_w sei) bs;
     Some bs
   }"

definition patchInformation_r :: "SEIPatchInformation \<Rightarrow> PCCBitstream \<Rightarrow> (SEIPatchInformation \<times> PCCBitstream) option" where
  "patchInformation_r sei bs = do {
     (v, bs) \<leftarrow> bs_read 1 bs;
     let sei = sei\<lparr>pin_persistenceFlag := v \<noteq> 0\<rparr>;
     (v, bs) \<leftarrow> bs_read 1 bs;
     let sei = sei\<lparr>pin_resetFlag := v \<noteq> 0\<rparr>;
     (v, bs) \<leftarrow> bs_readUvlc bs;
     let sei = sei\<lparr>pin_numTileUpdates := v\<rparr>;
     (sei, bs) \<leftarrow> (if 0 < pin_numTileUpdates sei then do {
         (v, bs) \<leftarrow> bs_read 5 bs;
         let sei = sei\<lparr>pin_log2MaxObjectIdxTracked := ucast v\<rparr>;
         (v, bs) \<leftarrow> bs_read 4 bs;
         let sei = sei\<lparr>pin_log2MaxPatchIdxUpdated := ucast v\<rparr>;
         Some (sei, bs)
       } else Some (sei, bs));
     (sei, bs) \<leftarrow> for_loop [0..<unat (pin_numTileUpdates sei)] (\<lambda>i (sei, bs). pin_tile_r i sei bs) (sei, bs);
     Some (sei, bs)
   }"

section \<open>Volumetric rectangles\<close>

record SEIVolumetricRectangleInformation =
  vri_persistenceFlag :: bool
  vri_resetFlag :: bool
  vri_numRectanglesUpdates :: uint32_t
  vri_log2MaxObjectIdxTracked :: uint8_t
  vri_log2MaxRectangleIdxUpdated :: uint8_t
  vri_rectangleIdx :: "uint32_t list"
  vri_rectangleCancelFlag :: "bool list"
  vri_boundingBoxUpdateFlag :: "bool list"
  vri_boundingBoxTop :: "uint32_t list"
  vri_boundingBoxLeft :: "uint32_t list"
  vri_boundingBoxWidth :: "uint32_t list"
  vri_boundingBoxHeight :: "uint32_t list"
  vri_rectangleNumberOfObjectsMinus1 :: "uint32_t list"
  vri_rectangleObjectIdx :: "uint32_t list list"

definition vri_new :: "SEIVolumetricRectangleInformation \<Rightarrow> SEIVolumetricRectangleInformation" where
  "vri_new g = g\<lparr>vri_rectangleIdx := [], vri_rectangleCancelFlag := [],
     vri_boundingBoxUpdateFlag := [], vri_boundingBoxTop := [], vri_boundingBoxLeft := [],
     vri_boundingBoxWidth := [], vri_boundingBoxHeight := [], vri_rectangleNumberOfObjectsMinus1 := [],
     vri_rectangleObjectIdx := []\<rparr>"

text \<open>\<open>allocate( size )\<close> resizes the vectors of the bounding boxes and of the objects, but not \<open>rectangleIdx_\<close>,
  \<open>rectangleCancelFlag_\<close> and \<open>rectangleNumberOfObjectsMinus1_\<close>.\<close>

definition vri_allocate :: "nat \<Rightarrow> SEIVolumetricRectangleInformation \<Rightarrow> SEIVolumetricRectangleInformation" where
  "vri_allocate n sei = sei\<lparr>
     vri_boundingBoxUpdateFlag := vec_resize n False (vri_boundingBoxUpdateFlag sei),
     vri_boundingBoxTop := vec_resize n 0 (vri_boundingBoxTop sei),
     vri_boundingBoxLeft := vec_resize n 0 (vri_boundingBoxLeft sei),
     vri_boundingBoxWidth := vec_resize n 0 (vri_boundingBoxWidth sei),
     vri_boundingBoxHeight := vec_resize n 0 (vri_boundingBoxHeight sei),
     vri_rectangleObjectIdx := vec_resize n [] (vri_rectangleObjectIdx sei)\<rparr>"

definition vri_rectangle_w :: "SEIVolumetricRectangleInformation \<Rightarrow> nat \<Rightarrow> PCCBitstream \<Rightarrow> PCCBitstream option" where
  "vri_rectangle_w sei i bs = do {
     v \<leftarrow> vec_at (vri_rectangleIdx sei) i;
     bs \<leftarrow> bs_write v (bits8 (vri_log2MaxRectangleIdxUpdated sei)) bs;
     p \<leftarrow> vec_at (vri_rectangleIdx sei) i;
     v \<leftarrow> vec_at (vri_rectangleCancelFlag sei) (unat p);
     bs \<leftarrow> bs_write (b2u v) 1 bs;
     c \<leftarrow> vec_at (vri_rectangleCancelFlag sei) (unat p);
     bs \<leftarrow> (if \<not> c then do {
         v \<leftarrow> vec_at (vri_boundingBoxUpdateFlag sei) (unat p);
         bs \<leftarrow> bs_write (b2u v) 1 bs;
         u \<leftarrow> vec_at (vri_boundingBoxUpdateFlag sei) (unat p);
         bs \<leftarrow> (if u then do {
             v \<leftarrow> vec_at (vri_boundingBoxTop sei) (unat p);
             bs \<leftarrow> bs_writeUvlc v bs;
             v \<leftarrow> vec_at (vri_boundingBoxLeft sei) (unat p);
             bs \<leftarrow> bs_writeUvlc v bs;
             v \<leftarrow> vec_at (vri_boundingBoxWidth sei) (unat p);
             bs \<leftarrow> bs_writeUvlc v bs;
             v \<leftarrow> vec_at (vri_boundingBoxHeight sei) (unat p);
             bs \<leftarrow> bs_writeUvlc v bs;
             Some bs
           } else Some bs);
         v \<leftarrow> vec_at (vri_rectangleNumberOfObjectsMinus1 sei) (unat p);
         bs \<leftarrow> bs_writeUvlc v bs;
         m \<leftarrow> vec_at (vri_rectangleNumberOfObjectsMinus1 sei) (unat p);
         bs \<leftarrow> for_loop [0..<unat (m + 1)] (\<lambda>n bs. do {
             v \<leftarrow> vec_at2 (vri_rectangleObjectIdx sei) (unat p) n;
             bs_write v (bits8 (vri_log2MaxObjectIdxTracked sei)) bs
           }) bs;
         Some bs
       } else Some bs);
     Some bs
   }"

definition vri_rectangle_r :: "nat \<Rightarrow> SEIVolumetricRectangleInformation \<Rightarrow> PCCBitstream \<Rightarrow> (SEIVolumetricRectangleInformation \<times> PCCBitstream) option" where
  "vri_rectangle_r i sei bs = do {
     (v, bs) \<leftarrow> bs_read (bits8 (vri_log2MaxRectangleIdxUpdated sei)) bs;
     l \<leftarrow> vec_set (vri_rectangleIdx sei) i v;
     let sei = sei\<lparr>vri_rectangleIdx := l\<rparr>;
     p \<leftarrow> vec_at (vri_rectangleIdx sei) i;
     (v, bs) \<leftarrow> bs_read 1 bs;
     l \<leftarrow> vec_set (vri_rectangleCancelFlag sei) (unat p) (v \<noteq> 0);
     let sei = sei\<lparr>vri_rectangleCancelFlag := l\<rparr>;
     c \<leftarrow> vec_at (vri_rectangleCancelFlag sei) (unat p);
     (sei, bs) \<leftarrow> (if \<not> c then do {
         let sei = vri_allocate (unat (p + 1)) sei;
         (v, bs) \<leftarrow> bs_read 1 bs;
         l \<leftarrow> vec_set (vri_boundingBoxUpdateFlag sei) (unat p) (v \<noteq> 0);
         let sei = sei\<lparr>vri_boundingBoxUpdateFlag := l\<rparr>;
         u \<leftarrow> vec_at (vri_boundingBoxUpdateFlag sei) (unat p);
         (sei, bs) \<leftarrow> (if u then do {
             (v, bs) \<leftarrow> bs_readUvlc bs;
             l \<leftarrow> vec_set (vri_boundingBoxTop sei) (unat p) v;
             let sei = sei\<lparr>vri_boundingBoxTop := l\<rparr>;
             (v, bs) \<leftarrow> bs_readUvlc bs;
             l \<leftarrow> vec_set (vri_boundingBoxLeft sei) (unat p) v;
             let sei = sei\<lparr>vri_boundingBoxLeft := l\<rparr>;
             (v, bs) \<leftarrow> bs_readUvlc bs;
             l \<leftarrow> vec_set (vri_boundingBoxWidth sei) (unat p) v;
             let sei = sei\<lparr>vri_boundingBoxWidth := l\<rparr>;
             (v, bs) \<leftarrow> bs_readUvlc bs;
             l \<leftarrow> vec_set (vri_boundingBoxHeight sei) (unat p) v;
             let sei = sei\<lparr>vri_boundingBoxHeight := l\<rparr>;
             Some (sei, bs)
           } else Some (sei, bs));
         (v, bs) \<leftarrow> bs_readUvlc bs;
         l \<leftarrow> vec_set (vri_rectangleNumberOfObjectsMinus1 sei) (unat p) v;
         let sei = sei\<lparr>vri_rectangleNumberOfObjectsMinus1 := l\<rparr>;
         m \<leftarrow> vec_at (vri_rectangleNumberOfObjectsMinus1 sei) (unat p);
         rows \<leftarrow> row_resize (unat p) (unat (m + 1)) 0 (vri_rectangleObjectIdx sei);
         let sei = sei\<lparr>vri_rectangleObjectIdx := rows\<rparr>;
         (sei, bs) \<leftarrow> for_loop [0..<unat (m + 1)] (\<lambda>n (sei, bs). do {
             (v, bs) \<leftarrow> bs_read (bits8 (vri_log2MaxObjectIdxTracked sei)) bs;
             rows \<leftarrow> vec_set2 (vri_rectangleObjectIdx sei) (unat p) n v;
             Some (sei\<lparr>vri_rectangleObjectIdx := rows\<rparr>, bs)
           }) (sei, bs);
         Some (sei, bs)
       } else Some (sei, bs));
     Some (sei, bs)
   }"

definition volumetricRectangleInformation_w :: "SEIVolumetricRectangleInformation \<Rightarrow> PCCBitstream \<Rightarrow> PCCBitstream option" where
  "volumetricRectangleInformation_w sei bs = do {
     bs \<leftarrow> bs_write (b2u (vri_persistenceFlag sei)) 1 bs;
     bs \<leftarrow> bs_write (b2u (vri_resetFlag sei)) 1 bs;
     bs \<leftarrow> bs_writeUvlc (vri_numRectanglesUpdates sei) bs;
     bs \<leftarrow> (if 0 < vri_numRectanglesUpdates sei then do {
         bs \<leftarrow> bs_write (ucast (vri_log2MaxObjectIdxTracked sei)) 5 bs;
         bs \<leftarrow> bs_write (ucast (vri_log2MaxRectangleIdxUpdated sei)) 4 bs;
         Some bs
       } else Some bs);
     bs \<leftarrow> for_loop [0..<unat (vri_numRectanglesUpdates sei)] (vri_rectangle_w sei) bs;
     Some bs
   }"

definition volumetricRectangleInformation_r :: "SEIVolumetricRectangleInformation \<Rightarrow> PCCBitstream \<Rightarrow> (SEIVolumetricRectangleInformation \<times> PCCBitstream) option" where
  "volumetricRectangleInformation_r sei bs = do {
     (v, bs) \<leftarrow> bs_read 1 bs;
     let sei = sei\<lparr>vri_persistenceFlag := v \<noteq> 0\<rparr>;
     (v, bs) \<leftarrow> bs_read 1 bs;
     let sei = sei\<lparr>vri_resetFlag := v \<noteq> 0\<rparr>;
     (v, bs) \<leftarrow> bs_readUvlc bs;
     let sei = sei\<lparr>vri_numRectanglesUpdates := v\<rparr>;
     (sei, bs) \<leftarrow> (if 0 < vri_numRectanglesUpdates sei then do {
         (v, bs) \<leftarrow> bs_read 5 bs;
         let sei = sei\<lparr>vri_log2MaxObjectIdxTracked := ucast v\<rparr>;
         (v, bs) \<leftarrow> bs_read 4 bs;
         let sei = sei\<lparr>vri_log2MaxRectangleIdxUpdated := ucast v\<rparr>;
         Some (sei, bs)
       } else Some (sei, bs));
     (sei, bs) \<leftarrow> for_loop [0..<unat (vri_numRectanglesUpdates sei)] (\<lambda>i (sei, bs). vri_rectangle_r i sei bs) (sei, bs);
     Some (sei, bs)
   }"

section \<open>Atlas object information\<close>

record SEIAtlasInformation =
  aoi_persistenceFlag :: bool
  aoi_resetFlag :: bool
  aoi_numAtlasesMinus1 :: uint32_t
  aoi_numUpdates :: uint32_t
  aoi_log2MaxObjectIdxTracked :: uint32_t
  aoi_atlasId :: "uint32_t list"
  aoi_objectIdx :: "uint32_t list"
  aoi_objectInAtlasPresentFlag :: "bool list list"

definition aoi_new :: SEIAtlasInformation where
  "aoi_new = \<lparr>aoi_persistenceFlag = False, aoi_resetFlag = False, aoi_numAtlasesMinus1 = 0,
     aoi_numUpdates = 0, aoi_log2MaxObjectIdxTracked = 0, aoi_atlasId = [], aoi_objectIdx = [],
     aoi_objectInAtlasPresentFlag = []\<rparr>"

definition aoi_allocateAtlasId :: "SEIAtlasInformation \<Rightarrow> SEIAtlasInformation" where
  "aoi_allocateAtlasId sei = sei\<lparr>aoi_atlasId := vec_resize (unat (aoi_numAtlasesMinus1 sei + 1)) 0 (aoi_atlasId sei)\<rparr>"

definition aoi_allocateObjectIdx :: "SEIAtlasInformation \<Rightarrow> SEIAtlasInformation" where
  "aoi_allocateObjectIdx sei = sei\<lparr>aoi_objectIdx := vec_resize (unat (aoi_numUpdates sei)) 0 (aoi_objectIdx sei),
     aoi_objectInAtlasPresentFlag := map (vec_resize (unat (aoi_numAtlasesMinus1 sei + 1)) False)
       (vec_resize (unat (aoi_numUpdates sei)) [] (aoi_objectInAtlasPresentFlag sei))\<rparr>"

definition aoi_atlas_w :: "SEIAtlasInformation \<Rightarrow> nat \<Rightarrow> PCCBitstream \<Rightarrow> PCCBitstream option" where
  "aoi_atlas_w sei i bs = do {
     v \<leftarrow> vec_at (aoi_atlasId sei) i;
     bs \<leftarrow> bs_write v 5 bs;
     Some bs
   }"

definition aoi_atlas_r :: "nat \<Rightarrow> SEIAtlasInformation \<Rightarrow> PCCBitstream \<Rightarrow> (SEIAtlasInformation \<times> PCCBitstream) option" where
  "aoi_atlas_r i sei bs = do {
     (v, bs) \<leftarrow> bs_read 5 bs;
     l \<leftarrow> vec_set (aoi_atlasId sei) i v;
     let sei = sei\<lparr>aoi_atlasId := l\<rparr>;
     Some (sei, bs)
   }"

definition aoi_object_w :: "SEIAtlasInformation \<Rightarrow> nat \<Rightarrow> PCCBitstream \<Rightarrow> PCCBitstream option" where
  "aoi_object_w sei i bs = do {
     v \<leftarrow> vec_at (aoi_objectIdx sei) i;
     bs \<leftarrow> bs_write v (bits8 (aoi_log2MaxObjectIdxTracked sei)) bs;
     bs \<leftarrow> for_loop [0..<unat (aoi_numAtlasesMinus1 sei + 1)] (\<lambda>j bs. do { b \<leftarrow> vec_at2 (aoi_objectInAtlasPresentFlag sei) i j; bs_write (b2u b) 1 bs }) bs;
     Some bs
   }"

definition aoi_object_r :: "nat \<Rightarrow> SEIAtlasInformation \<Rightarrow> PCCBitstream \<Rightarrow> (SEIAtlasInformation \<times> PCCBitstream) option" where
  "aoi_object_r i sei bs = do {
     (v, bs) \<leftarrow> bs_read (bits8 (aoi_log2MaxObjectIdxTracked sei)) bs;
     l \<leftarrow> vec_set (aoi_objectIdx sei) i v;
     let sei = sei\<lparr>aoi_objectIdx := l\<rparr>;
     (sei, bs) \<leftarrow> for_loop [0..<unat (aoi_numAtlasesMinus1 sei + 1)] (\<lambda>j (sei, bs). do {
         (v, bs) \<leftarrow> bs_read 1 bs;
         rows \<leftarrow> vec_set2 (aoi_objectInAtlasPresentFlag sei) i j (v \<noteq> 0);
         Some (sei\<lparr>aoi_objectInAtlasPresentFlag := rows\<rparr>, bs)
       }) (sei, bs);
     Some (sei, bs)
   }"

text \<open>The object loop runs once more than there are updates.\<close>

definition atlasObjectInformation_w :: "SEIAtlasInformation \<Rightarrow> PCCBitstream \<Rightarrow> PCCBitstream option" where
  "atlasObjectInformation_w sei bs = do {
     bs \<leftarrow> bs_write (b2u (aoi_persistenceFlag sei)) 1 bs;
     bs \<leftarrow> bs_write (b2u (aoi_resetFlag sei)) 1 bs;
     bs \<leftarrow> bs_write (aoi_numAtlasesMinus1 sei) 6 bs;
     bs \<leftarrow> bs_writeUvlc (aoi_numUpdates sei) bs;
     bs \<leftarrow> (if 0 < aoi_numUpdates sei then do {
         bs \<leftarrow> bs_write (aoi_log2MaxObjectIdxTracked sei) 5 bs;
         bs \<leftarrow> for_loop [0..<unat (aoi_numAtlasesMinus1 sei + 1)] (aoi_atlas_w sei) bs;
         bs \<leftarrow> for_loop [0..<unat (aoi_numUpdates sei + 1)] (aoi_object_w sei) bs;
         Some bs
       } else Some bs);
     Some bs
   }"

definition atlasObjectInformation_r :: "SEIAtlasInformation \<Rightarrow> PCCBitstream \<Rightarrow> (SEIAtlasInformation \<times> PCCBitstream) option" where
  "atlasObjectInformation_r sei bs = do {
     (v, bs) \<leftarrow> bs_read 1 bs;
     let sei = sei\<lparr>aoi_persistenceFlag := v \<noteq> 0\<rparr>;
     (v, bs) \<leftarrow> bs_read 1 bs;
     let sei = sei\<lparr>aoi_resetFlag := v \<noteq> 0\<rparr>;
     (v, bs) \<leftarrow> bs_read 6 bs;
     let sei = sei\<lparr>aoi_numAtlasesMinus1 := v\<rparr>;
     (v, bs) \<leftarrow> bs_readUvlc bs;
     let sei = sei\<lparr>aoi_numUpdates := v\<rparr>;
     let sei = aoi_allocateObjectIdx (aoi_allocateAtlasId sei);
     (sei, bs) \<leftarrow> (if 0 < aoi_numUpdates sei then do {
         (v, bs) \<leftarrow> bs_read 5 bs;
         let sei = sei\<lparr>aoi_log2MaxObjectIdxTracked := v\<rparr>;
         (sei, bs) \<leftarrow> for_loop [0..<unat (aoi_numAtlasesMinus1 sei + 1)] (\<lambda>i (sei, bs). aoi_atlas_r i sei bs) (sei, bs);
         (sei, bs) \<leftarrow> for_loop [0..<unat (aoi_numUpdates sei + 1)] (\<lambda>i (sei, bs). aoi_object_r i sei bs) (sei, bs);
         Some (sei, bs)
       } else Some (sei, bs));
     Some (sei, bs)
   }"

section \<open>Buffering period and frame timing\<close>

record SEIBufferingPeriod =
  bpr_nalHrdParamsPresentFlag :: bool
  bpr_aclHrdParamsPresentFlag :: bool
  bpr_initialCabRemovalDelayLengthMinus1 :: bool
  bpr_auCabRemovalDelayLengthMinus1 :: bool
  bpr_dabOutputDelayLengthMinus1 :: bool
  bpr_irapCabParamsPresentFlag :: bool
  bpr_concatenationFlag :: bool
  bpr_atlasSequenceParameterSetId :: uint8_t
  bpr_cabDelayOffset :: uint32_t
  bpr_dabDelayOffset :: uint32_t
  bpr_atlasCabRemovalDelayDeltaMinus1 :: uint32_t
  bpr_maxSubLayersMinus1 :: uint32_t
  bpr_hrdCabCntMinus1 :: "uint32_t list"
  bpr_nalInitialCabRemovalDelay :: "uint32_t list list"
  bpr_nalInitialCabRemovalOffset :: "uint32_t list list"
  bpr_nalInitialAltCabRemovalDelay :: "uint32_t list list"
  bpr_nalInitialAltCabRemovalOffset :: "uint32_t list list"
  bpr_aclInitialCabRemovalDelay :: "uint32_t list list"
  bpr_aclInitialCabRemovalOffset :: "uint32_t list list"
  bpr_aclInitialAltCabRemovalDelay :: "uint32_t list list"
  bpr_aclInitialAltCabRemovalOffset :: "uint32_t list list"

definition bpr_new :: "SEIBufferingPeriod \<Rightarrow> SEIBufferingPeriod" where
  "bpr_new g = g\<lparr>bpr_irapCabParamsPresentFlag := False, bpr_concatenationFlag := False,
     bpr_atlasSequenceParameterSetId := 0, bpr_cabDelayOffset := 0, bpr_dabDelayOffset := 0,
     bpr_atlasCabRemovalDelayDeltaMinus1 := 0, bpr_maxSubLayersMinus1 := 0, bpr_hrdCabCntMinus1 := [],
     bpr_nalInitialCabRemovalDelay := [], bpr_nalInitialCabRemovalOffset := [],
     bpr_nalInitialAltCabRemovalDelay := [], bpr_nalInitialAltCabRemovalOffset := [],
     bpr_aclInitialCabRemovalDelay := [], bpr_aclInitialCabRemovalOffset := [],
     bpr_aclInitialAltCabRemovalDelay := [], bpr_aclInitialAltCabRemovalOffset := []\<rparr>"

definition bpr_allocate :: "SEIBufferingPeriod \<Rightarrow> SEIBufferingPeriod" where
  "bpr_allocate sei = (let n = unat (bpr_maxSubLayersMinus1 sei + 1) in sei\<lparr>
     bpr_hrdCabCntMinus1 := vec_resize n 0 (bpr_hrdCabCntMinus1 sei),
     bpr_nalInitialCabRemovalDelay := vec_resize n [] (bpr_nalInitialCabRemovalDelay sei),
     bpr_nalInitialCabRemovalOffset := vec_resize n [] (bpr_nalInitialCabRemovalOffset sei),
     bpr_aclInitialCabRemovalDelay := vec_resize n [] (bpr_aclInitialCabRemovalDelay sei),
     bpr_aclInitialCabRemovalOffset := vec_resize n [] (bpr_aclInitialCabRemovalOffset sei),
     bpr_nalInitialAltCabRemovalDelay := vec_resize n [] (bpr_nalInitialAltCabRemovalDelay sei),
     bpr_nalInitialAltCabRemovalOffset := vec_resize n [] (bpr_nalInitialAltCabRemovalOffset sei),
     bpr_aclInitialAltCabRemovalDelay := vec_resize n [] (bpr_aclInitialAltCabRemovalDelay sei),
     bpr_aclInitialAltCabRemovalOffset := vec_resize n [] (bpr_aclInitialAltCabRemovalOffset sei)\<rparr>)"

text \<open>A length field is a \<open>bool\<close>: the width it gives is 1 or 2 bits.\<close>

definition lengthBits :: "bool \<Rightarrow> nat" where
  "lengthBits b = (if b then 2 else 1)"

definition row_w :: "uint32_t list list \<Rightarrow> nat \<Rightarrow> nat \<Rightarrow> nat \<Rightarrow> PCCBitstream \<Rightarrow> PCCBitstream option" where
  "row_w rows i j n bs = do { v \<leftarrow> vec_at2 rows i j; bs_write v n bs }"

definition row_r :: "uint32_t list list \<Rightarrow> nat \<Rightarrow> nat \<Rightarrow> nat \<Rightarrow> PCCBitstream \<Rightarrow> (uint32_t list list \<times> PCCBitstream) option" where
  "row_r rows i j n bs = do { (v, bs) \<leftarrow> bs_read n bs; rows \<leftarrow> vec_set2 rows i j v; Some (rows, bs) }"

definition bpr_nal_w :: "SEIBufferingPeriod \<Rightarrow> nat \<Rightarrow> nat \<Rightarrow> PCCBitstream \<Rightarrow> PCCBitstream option" where
  "bpr_nal_w sei i j bs = do {
     let bitCount = lengthBits (bpr_initialCabRemovalDelayLengthMinus1 sei);
     bs \<leftarrow> row_w (bpr_nalInitialCabRemovalDelay sei) i j bitCount bs;
     bs \<leftarrow> row_w (bpr_nalInitialCabRemovalOffset sei) i j bitCount bs;
     if bpr_irapCabParamsPresentFlag sei then do {
       bs \<leftarrow> row_w (bpr_nalInitialAltCabRemovalDelay sei) i j bitCount bs;
       row_w (bpr_nalInitialAltCabRemovalOffset sei) i j bitCount bs
     } else Some bs
   }"

definition bpr_nal_r :: "nat \<Rightarrow> nat \<Rightarrow> SEIBufferingPeriod \<Rightarrow> PCCBitstream \<Rightarrow> (SEIBufferingPeriod \<times> PCCBitstream) option" where
  "bpr_nal_r i j sei bs = do {
     let bitCount = lengthBits (bpr_initialCabRemovalDelayLengthMinus1 sei);
     (rows, bs) \<leftarrow> row_r (bpr_nalInitialCabRemovalDelay sei) i j bitCount bs;
     let sei = sei\<lparr>bpr_nalInitialCabRemovalDelay := rows\<rparr>;
     (rows, bs) \<leftarrow> row_r (bpr_nalInitialCabRemovalOffset sei) i j bitCount bs;
     let sei = sei\<lparr>bpr_nalInitialCabRemovalOffset := rows\<rparr>;
     if bpr_irapCabParamsPresentFlag sei then do {
       (rows, bs) \<leftarrow> row_r (bpr_nalInitialAltCabRemovalDelay sei) i j bitCount bs;
       let sei = sei\<lparr>bpr_nalInitialAltCabRemovalDelay := rows\<rparr>;
       (rows, bs) \<leftarrow> row_r (bpr_nalInitialAltCabRemovalOffset sei) i j bitCount bs;
       let sei = sei\<lparr>bpr_nalInitialAltCabRemovalOffset := rows\<rparr>;
       Some (sei, bs)
     } else Some (sei, bs)
   }"

definition bpr_acl_w :: "SEIBufferingPeriod \<Rightarrow> nat \<Rightarrow> nat \<Rightarrow> PCCBitstream \<Rightarrow> PCCBitstream option" where
  "bpr_acl_w sei i j bs = do {
     let bitCount = lengthBits (bpr_initialCabRemovalDelayLengthMinus1 sei);
     bs \<leftarrow> row_w (bpr_aclInitialCabRemovalDelay sei) i j bitCount bs;
     bs \<leftarrow> row_w (bpr_aclInitialCabRemovalOffset sei) i j bitCount bs;
     if bpr_irapCabParamsPresentFlag sei then do {
       bs \<leftarrow> row_w (bpr_aclInitialAltCabRemovalDelay sei) i j bitCount bs;
       row_w (bpr_aclInitialAltCabRemovalOffset sei) i j bitCount bs
     } else Some bs
   }"

definition bpr_acl_r :: "nat \<Rightarrow> nat \<Rightarrow> SEIBufferingPeriod \<Rightarrow> PCCBitstream \<Rightarrow> (SEIBufferingPeriod \<times> PCCBitstream) option" where
  "bpr_acl_r i j sei bs = do {
     let bitCount = lengthBits (bpr_initialCabRemovalDelayLengthMinus1 sei);
     (rows, bs) \<leftarrow> row_r (bpr_aclInitialCabRemovalDelay sei) i j bitCount bs;
     let sei = sei\<lparr>bpr_aclInitialCabRemovalDelay := rows\<rparr>;
     (rows, bs) \<leftarrow> row_r (bpr_aclInitialCabRemovalOffset sei) i j bitCount bs;
     let sei = sei\<lparr>bpr_aclInitialCabRemovalOffset := rows\<rparr>;
     if bpr_irapCabParamsPresentFlag sei then do {
       (rows, bs) \<leftarrow> row_r (bpr_aclInitialAltCabRemovalDelay sei) i j bitCount bs;
       let sei = sei\<lparr>bpr_aclInitialAltCabRemovalDelay := rows\<rparr>;
       (rows, bs) \<leftarrow> row_r (bpr_aclInitialAltCabRemovalOffset sei) i j bitCount bs;
       let sei = sei\<lparr>bpr_aclInitialAltCabRemovalOffset := rows\<rparr>;
       Some (sei, bs)
     } else Some (sei, bs)
   }"

text \<open>The sub-layer \<open>i\<close>. The reader never calls \<open>allocate( i )\<close>, which would give its rows their entries.\<close>

definition bpr_subLayer_w :: "SEIBufferingPeriod \<Rightarrow> nat \<Rightarrow> PCCBitstream \<Rightarrow> PCCBitstream option" where
  "bpr_subLayer_w sei i bs = do {
     v \<leftarrow> vec_at (bpr_hrdCabCntMinus1 sei) i;
     bs \<leftarrow> bs_write v 3 bs;
     n \<leftarrow> vec_at (bpr_hrdCabCntMinus1 sei) i;
     bs \<leftarrow> (if bpr_nalHrdParamsPresentFlag sei then do {
         bs \<leftarrow> for_loop [0..<unat (n + 1)] (bpr_nal_w sei i) bs;
         Some bs
       } else Some bs);
     bs \<leftarrow> (if bpr_aclHrdParamsPresentFlag sei then do {
         bs \<leftarrow> for_loop [0..<unat (n + 1)] (bpr_acl_w sei i) bs;
         Some bs
       } else Some bs);
     Some bs
   }"

definition bpr_subLayer_r :: "nat \<Rightarrow> SEIBufferingPeriod \<Rightarrow> PCCBitstream \<Rightarrow> (SEIBufferingPeriod \<times> PCCBitstream) option" where
  "bpr_subLayer_r i sei bs = do {
     (v, bs) \<leftarrow> bs_read 3 bs;
     l \<leftarrow> vec_set (bpr_hrdCabCntMinus1 sei) i v;
     let sei = sei\<lparr>bpr_hrdCabCntMinus1 := l\<rparr>;
     n \<leftarrow> vec_at (bpr_hrdCabCntMinus1 sei) i;
     (sei, bs) \<leftarrow> (if bpr_nalHrdParamsPresentFlag sei then do {
         (sei, bs) \<leftarrow> for_loop [0..<unat (n + 1)] (\<lambda>j (sei, bs). bpr_nal_r i j sei bs) (sei, bs);
         Some (sei, bs)
       } else Some (sei, bs));
     (sei, bs) \<leftarrow> (if bpr_aclHrdParamsPresentFlag sei then do {
         (sei, bs) \<leftarrow> for_loop [0..<unat (n + 1)] (\<lambda>j (sei, bs). bpr_acl_r i j sei bs) (sei, bs);
         Some (sei, bs)
       } else Some (sei, bs));
     Some (sei, bs)
   }"

definition bufferingPeriod_w :: "SEIBufferingPeriod \<Rightarrow> PCCBitstream \<Rightarrow> PCCBitstream option" where
  "bufferingPeriod_w sei bs = do {
     bs \<leftarrow> bs_write (b2u (bpr_nalHrdParamsPresentFlag sei)) 1 bs;
     bs \<leftarrow> bs_write (b2u (bpr_aclHrdParamsPresentFlag sei)) 1 bs;
     bs \<leftarrow> bs_write (b2u (bpr_initialCabRemovalDelayLengthMinus1 sei)) 5 bs;
     bs \<leftarrow> bs_write (b2u (bpr_auCabRemovalDelayLengthMinus1 sei)) 5 bs;
     bs \<leftarrow> bs_write (b2u (bpr_dabOutputDelayLengthMinus1 sei)) 5 bs;
     bs \<leftarrow> bs_write (b2u (bpr_irapCabParamsPresentFlag sei)) 1 bs;
     bs \<leftarrow> (if bpr_irapCabParamsPresentFlag sei then do {
         bs \<leftarrow> bs_write (bpr_cabDelayOffset sei) (lengthBits (bpr_auCabRemovalDelayLengthMinus1 sei)) bs;
         bs \<leftarrow> bs_write (bpr_dabDelayOffset sei) (lengthBits (bpr_dabOutputDelayLengthMinus1 sei)) bs;
         Some bs
       } else Some bs);
     bs \<leftarrow> bs_write (b2u (bpr_concatenationFlag sei)) 1 bs;
     bs \<leftarrow> bs_write (bpr_atlasCabRemovalDelayDeltaMinus1 sei) (lengthBits (bpr_auCabRemovalDelayLengthMinus1 sei)) bs;
     bs \<leftarrow> bs_write (bpr_maxSubLayersMinus1 sei) 3 bs;
     bs \<leftarrow> for_loop [0..<Suc (unat (bpr_maxSubLayersMinus1 sei))] (bpr_subLayer_w sei) bs;
     Some bs
   }"

definition bufferingPeriod_r :: "SEIBufferingPeriod \<Rightarrow> PCCBitstream \<Rightarrow> (SEIBufferingPeriod \<times> PCCBitstream) option" where
  "bufferingPeriod_r sei bs = do {
     (v, bs) \<leftarrow> bs_read 1 bs;
     let sei = sei\<lparr>bpr_nalHrdParamsPresentFlag := v \<noteq> 0\<rparr>;
     (v, bs) \<leftarrow> bs_read 1 bs;
     let sei = sei\<lparr>bpr_aclHrdParamsPresentFlag := v \<noteq> 0\<rparr>;
     (v, bs) \<leftarrow> bs_read 5 bs;
     let sei = sei\<lparr>bpr_initialCabRemovalDelayLengthMinus1 := v \<noteq> 0\<rparr>;
     (v, bs) \<leftarrow> bs_read 5 bs;
     let sei = sei\<lparr>bpr_auCabRemovalDelayLengthMinus1 := v \<noteq> 0\<rparr>;
     (v, bs) \<leftarrow> bs_read 5 bs;
     let sei = sei\<lparr>bpr_dabOutputDelayLengthMinus1 := v \<noteq> 0\<rparr>;
     (v, bs) \<leftarrow> bs_read 1 bs;
     let sei = sei\<lparr>bpr_irapCabParamsPresentFlag := v \<noteq> 0\<rparr>;
     (sei, bs) \<leftarrow> (if bpr_irapCabParamsPresentFlag sei then do {
         (v, bs) \<leftarrow> bs_read (lengthBits (bpr_auCabRemovalDelayLengthMinus1 sei)) bs;
         let sei = sei\<lparr>bpr_cabDelayOffset := v\<rparr>;
         (v, bs) \<leftarrow> bs_read (lengthBits (bpr_dabOutputDelayLengthMinus1 sei)) bs;
         let sei = sei\<lparr>bpr_dabDelayOffset := v\<rparr>;
         Some (sei, bs)
       } else Some (sei, bs));
     (v, bs) \<leftarrow> bs_read 1 bs;
     let sei = sei\<lparr>bpr_concatenationFlag := v \<noteq> 0\<rparr>;
     (v, bs) \<leftarrow> bs_read (lengthBits (bpr_auCabRemovalDelayLengthMinus1 sei)) bs;
     let sei = sei\<lparr>bpr_atlasCabRemovalDelayDeltaMinus1 := v\<rparr>;
     (v, bs) \<leftarrow> bs_read 3 bs;
     let sei = sei\<lparr>bpr_maxSubLayersMinus1 := v\<rparr>;
     let sei = bpr_allocate sei;
     (sei, bs) \<leftarrow> for_loop [0..<Suc (unat (bpr_maxSubLayersMinus1 sei))] (\<lambda>i (sei, bs). bpr_subLayer_r i sei bs) (sei, bs);
     Some (sei, bs)
   }"

record SEIAtlasFrameTiming =
  aft_cabRemovalDelayMinus1 :: "uint32_t list"
  aft_dabOutputDelay :: "uint32_t list"

definition aft_new :: SEIAtlasFrameTiming where
  "aft_new = \<lparr>aft_cabRemovalDelayMinus1 = [], aft_dabOutputDelay = []\<rparr>"

text \<open>Both callers pass \<open>False\<close> for \<open>cabDabDelaysPresentFlag\<close>.\<close>

definition aft_delay_w :: "SEIBufferingPeriod \<Rightarrow> SEIAtlasFrameTiming \<Rightarrow> nat \<Rightarrow> PCCBitstream \<Rightarrow> PCCBitstream option" where
  "aft_delay_w bpsei sei i bs = do {
     v \<leftarrow> vec_at (aft_cabRemovalDelayMinus1 sei) i;
     bs \<leftarrow> bs_write v (lengthBits (bpr_auCabRemovalDelayLengthMinus1 bpsei)) bs;
     v \<leftarrow> vec_at (aft_dabOutputDelay sei) i;
     bs \<leftarrow> bs_write v (lengthBits (bpr_dabOutputDelayLengthMinus1 bpsei)) bs;
     Some bs
   }"

definition aft_delay_r :: "SEIBufferingPeriod \<Rightarrow> nat \<Rightarrow> SEIAtlasFrameTiming \<Rightarrow> PCCBitstream \<Rightarrow> (SEIAtlasFrameTiming \<times> PCCBitstream) option" where
  "aft_delay_r bpsei i sei bs = do {
     (v, bs) \<leftarrow> bs_read (lengthBits (bpr_auCabRemovalDelayLengthMinus1 bpsei)) bs;
     l \<leftarrow> vec_set (aft_cabRemovalDelayMinus1 sei) i v;
     let sei = sei\<lparr>aft_cabRemovalDelayMinus1 := l\<rparr>;
     (v, bs) \<leftarrow> bs_read (lengthBits (bpr_dabOutputDelayLengthMinus1 bpsei)) bs;
     l \<leftarrow> vec_set (aft_dabOutputDelay sei) i v;
     let sei = sei\<lparr>aft_dabOutputDelay := l\<rparr>;
     Some (sei, bs)
   }"

definition atlasFrameTiming_w :: "SEIBufferingPeriod \<Rightarrow> bool \<Rightarrow> SEIAtlasFrameTiming \<Rightarrow> PCCBitstream \<Rightarrow> PCCBitstream option" where
  "atlasFrameTiming_w bpsei cabDabDelaysPresentFlag sei bs = do {
     bs \<leftarrow> (if cabDabDelaysPresentFlag then do {
         bs \<leftarrow> for_loop [0..<Suc (unat (bpr_maxSubLayersMinus1 bpsei))] (aft_delay_w bpsei sei) bs;
         Some bs
       } else Some bs);
     Some bs
   }"

definition atlasFrameTiming_r :: "SEIBufferingPeriod \<Rightarrow> bool \<Rightarrow> SEIAtlasFrameTiming \<Rightarrow> PCCBitstream \<Rightarrow> (SEIAtlasFrameTiming \<times> PCCBitstream) option" where
  "atlasFrameTiming_r bpsei cabDabDelaysPresentFlag sei bs = do {
     (sei, bs) \<leftarrow> (if cabDabDelaysPresentFlag then do {
         (sei, bs) \<leftarrow> for_loop [0..<Suc (unat (bpr_maxSubLayersMinus1 bpsei))] (\<lambda>i (sei, bs). aft_delay_r bpsei i sei bs) (sei, bs);
         Some (sei, bs)
       } else Some (sei, bs));
     Some (sei, bs)
   }"

section \<open>What a reader keeps\<close>

text \<open>
  \<open>keeps g l r\<close>: when the reading step \<open>r\<close> returns, the quantity \<open>g\<close> of the structure it fills is \<open>l\<close>. The rules
  follow the statements of a reader, so a proof about a reader walks over its code once and never splits a branch
  into paths.
\<close>

definition keeps :: "('s \<Rightarrow> 'l) \<Rightarrow> 'l \<Rightarrow> ('s \<times> PCCBitstream) option \<Rightarrow> bool" where
  "keeps g l r \<longleftrightarrow> (\<forall>s bs. r = Some (s, bs) \<longrightarrow> g s = l)"

lemma keepsD: "keeps g l r \<Longrightarrow> r = Some (s, bs) \<Longrightarrow> g s = l"
  by (simp add: keeps_def)

lemma keeps_Some: "g s = l \<Longrightarrow> keeps g l (Some (s, bs))"
  by (simp add: keeps_def)

lemma keeps_sub:
  assumes "keeps g l m" and "\<And>s bs. g s = l \<Longrightarrow> m = Some (s, bs) \<Longrightarrow> keeps g l (f s bs)"
  shows "keeps g l (Option.bind m (\<lambda>(s, bs). f s bs))"
  using assms by (cases m) (auto simp: keeps_def)

lemma keeps_read:
  assumes "\<And>v bs. m = Some (v, bs) \<Longrightarrow> keeps g l (f v bs)"
  shows "keeps g l (Option.bind m (\<lambda>(v, bs). f v bs))"
  using assms by (cases m) (auto simp: keeps_def)

lemma keeps_bind:
  assumes "\<And>v. m = Some v \<Longrightarrow> keeps g l (f v)"
  shows "keeps g l (Option.bind m f)"
  using assms by (cases m) (auto simp: keeps_def)

lemma keeps_if: "(b \<Longrightarrow> keeps g l r) \<Longrightarrow> (\<not> b \<Longrightarrow> keeps g l r') \<Longrightarrow> keeps g l (if b then r else r')"
  by simp

lemma keeps_Let: "keeps g l (f x) \<Longrightarrow> keeps g l (Let x f)"
  by (simp add: Let_def)

lemma keeps_loop:
  assumes "g s = l" and "\<And>i s bs. g s = l \<Longrightarrow> keeps g l (f i s bs)"
  shows "keeps g l (for_loop is (\<lambda>i (s, bs). f i s bs) (s, bs))"
  using assms(1)
proof (induction "is" arbitrary: s bs)
  case (Cons i "is")
  have "keeps g l (Option.bind (f i s bs) (\<lambda>(s, bs). for_loop is (\<lambda>i (s, bs). f i s bs) (s, bs)))"
    by (rule keeps_sub [OF assms(2) [OF Cons.prems] Cons.IH]) assumption
  then show ?case by (simp add: case_prod_unfold)
qed (simp add: keeps_Some)

lemmas keeps_rules = keeps_loop keeps_sub keeps_read keeps_bind keeps_if keeps_Let keeps_Some

text \<open>A loop whose last position lies outside a vector that the passes keep does not return.\<close>

lemma for_loop_stuck:
  assumes "g s = l" and "n \<in> set is" and "\<And>i s bs. g s = l \<Longrightarrow> keeps g l (f i s bs)"
    and "\<And>s bs. g s = l \<Longrightarrow> f n s bs = None"
  shows "for_loop is (\<lambda>i (s, bs). f i s bs) (s, bs) = None"
  using assms(1,2)
proof (induction "is" arbitrary: s bs)
  case (Cons i "is")
  show ?case
  proof (cases "f i s bs")
    case (Some t)
    obtain s' bs' where t: "t = (s', bs')" by (cases t)
    have "g s' = l" using keepsD [OF assms(3)] Cons.prems(1) Some t by blast
    moreover have "n \<in> set is" using Cons.prems assms(4) Some by auto
    ultimately show ?thesis using Cons.IH Some t by simp
  qed simp
qed simp

section \<open>Messages with updates are not read\<close>

subsection \<open>Scene objects\<close>

abbreviation soi_len :: "SEISceneObjectInformation \<Rightarrow> nat" where
  "soi_len sei \<equiv> length (soi_objectIdx sei)"

lemma soi_label_keeps: "soi_len sei = l \<Longrightarrow> keeps soi_len l (soi_label_r k sei bs)"
  unfolding soi_label_r_def by (rule keeps_rules | (simp; fail))+

lemma soi_dependency_keeps: "soi_len sei = l \<Longrightarrow> keeps soi_len l (soi_dependency_r k sei bs)"
  unfolding soi_dependency_r_def by (rule keeps_rules | (simp; fail))+

lemma soi_cones_keeps: "soi_len sei = l \<Longrightarrow> keeps soi_len l (soi_cones_r k sei bs)"
  unfolding soi_cones_r_def by (rule keeps_rules | (simp; fail))+

lemma soi_box_keeps: "soi_len sei = l \<Longrightarrow> keeps soi_len l (soi_box_r k sei bs)"
  unfolding soi_box_r_def by (rule keeps_rules | (simp; fail))+

lemma soi_style_keeps: "soi_len sei = l \<Longrightarrow> keeps soi_len l (soi_style_r k sei bs)"
  unfolding soi_style_r_def by (rule keeps_rules | (simp; fail))+

lemma soi_flags_keeps: "soi_len sei = l \<Longrightarrow> keeps soi_len l (soi_flags_r sei bs)"
  unfolding soi_flags_r_def by (rule keeps_rules | (simp; fail))+

lemma soi_flags_count: "soi_numObjectUpdates sei = l \<Longrightarrow> keeps soi_numObjectUpdates l (soi_flags_r sei bs)"
  unfolding soi_flags_r_def by (rule keeps_rules | (simp; fail))+

lemma soi_object_keeps: "soi_len sei = l \<Longrightarrow> keeps soi_len l (soi_object_r k sei bs)"
  unfolding soi_object_r_def
  by (rule soi_label_keeps soi_dependency_keeps soi_cones_keeps soi_box_keeps soi_style_keeps keeps_rules
      | (simp add: soi_allocate_def vec_set_eq_Some; fail) | (auto simp add: soi_allocate_def vec_set_eq_Some; fail))+

lemma soi_object_out: "soi_len sei \<le> k \<Longrightarrow> soi_object_r k sei bs = None"
  by (auto simp: soi_object_r_def vec_set_def split: bind_splits if_splits)

lemma soi_returns:
  assumes "sceneObjectInformation_r sei bs = Some (sei', bs')"
  shows "soi_numObjectUpdates sei' = 0"
proof -
  have stuck: "for_loop [0..<Suc (soi_len s)] (\<lambda>i (sei, bs). soi_object_r i sei bs) (s, b) = None" for s b
    by (rule for_loop_stuck [where g = soi_len, OF refl]) (auto intro: soi_object_keeps soi_object_out)
  have len: "for_loop [0..<Suc (unat (soi_numObjectUpdates s'))] (\<lambda>i (sei, bs). soi_object_r i sei bs) (s', b') = None"
    if "soi_flags_r s b = Some (s', b')" and "soi_len s = unat (soi_numObjectUpdates s)" for s b s' b'
    using stuck [of s'] that keepsD [OF soi_flags_keeps [OF refl]] keepsD [OF soi_flags_count [OF refl]]
    by (metis (no_types, lifting))
  show ?thesis
    using assms len
    by (fastforce simp: sceneObjectInformation_r_def Let_def word_gt_0 split: bind_splits if_splits prod.splits)
qed

subsection \<open>Patches, rectangles and atlas objects\<close>

text \<open>The vectors of the patch and rectangle messages are empty after construction and nothing resizes them.\<close>

lemma pin_tile_out: "pin_tileId sei = [] \<Longrightarrow> pin_tile_r i sei bs = None"
  by (auto simp: pin_tile_r_def vec_set_def split: bind_splits)

lemma vri_rectangle_out: "vri_rectangleIdx sei = [] \<Longrightarrow> vri_rectangle_r i sei bs = None"
  by (auto simp: vri_rectangle_r_def vec_set_def split: bind_splits)

lemma for_loop_first: "0 < n \<Longrightarrow> f 0 s = None \<Longrightarrow> for_loop [0..<n] f s = None"
  by (simp add: upt_conv_Cons)

lemma pin_returns:
  assumes "patchInformation_r (pin_new g) bs = Some (sei', bs')"
  shows "pin_numTileUpdates sei' = 0"
proof (rule ccontr)
  have none: "for_loop [0..<unat n] (\<lambda>i (sei, bs). pin_tile_r i sei bs) (s, b) = None"
    if "pin_tileId s = []" and "n \<noteq> 0" for s b and n :: uint32_t
    using that by (intro for_loop_first) (simp_all add: unat_gt_0 pin_tile_out)
  assume "pin_numTileUpdates sei' \<noteq> 0"
  then show False
    using assms
    by (auto simp: patchInformation_r_def pin_new_def Let_def none word_gt_0 split: bind_splits if_splits)
qed

lemma vri_returns:
  assumes "volumetricRectangleInformation_r (vri_new g) bs = Some (sei', bs')"
  shows "vri_numRectanglesUpdates sei' = 0"
proof (rule ccontr)
  have none: "for_loop [0..<unat n] (\<lambda>i (sei, bs). vri_rectangle_r i sei bs) (s, b) = None"
    if "vri_rectangleIdx s = []" and "n \<noteq> 0" for s b and n :: uint32_t
    using that by (intro for_loop_first) (simp_all add: unat_gt_0 vri_rectangle_out)
  assume "vri_numRectanglesUpdates sei' \<noteq> 0"
  then show False
    using assms
    by (auto simp: volumetricRectangleInformation_r_def vri_new_def Let_def none word_gt_0 split: bind_splits if_splits)
qed

text \<open>Bounds of what is read.\<close>

lemma read_bit_small:
  assumes "read_bit d n i (v, p) = Some (v', p')" and "i < n" and "take_bit n v = v"
  shows "take_bit n v' = v'"
proof (rule bit_eqI)
  fix k
  have "\<not> bit v k" if "n \<le> k" using assms(3) that by (metis bit_take_bit_iff not_le)
  then show "bit (take_bit n v') k = bit v' k"
    using assms(1,2)
    by (cases "k < n") (auto simp: read_bit_def bit_take_bit_iff bit_or_iff bit_push_bit_iff bit_and_iff bit_1_iff bit_ucast_iff
        split: bind_splits)
qed

lemma bs_read_less:
  assumes "bs_read n bs = Some (v, bs')"
  shows "unat v < 2 ^ n"
proof -
  have "take_bit n (fst s') = fst s'"
    if "for_loop is (read_bit d n) s = Some s'" and "\<forall>i \<in> set is. i < n" and "take_bit n (fst s) = fst s" for "is" s s' d
    using that
  proof (induction "is" arbitrary: s)
    case (Cons i "is")
    then obtain t where t: "read_bit d n i s = Some t" and r: "for_loop is (read_bit d n) t = Some s'"
      by (auto split: bind_splits)
    have "take_bit n (fst t) = fst t"
      using read_bit_small [of d n i "fst s" "snd s" "fst t" "snd t"] t Cons.prems by simp
    then show ?case using Cons.IH r Cons.prems by simp
  qed simp
  from this [of "[0..<n]"] assms have "take_bit n v = v"
    by (fastforce simp: bs_read_def split: if_splits bind_splits)
  then show ?thesis by (metis take_bit_nat_less_exp unsigned_take_bit_eq)
qed

lemma bs_readUvlc_less:
  assumes "bs_readUvlc bs = Some (v, bs')"
  shows "unat v < 2 ^ 31 - 1"
proof -
  have "unat (w + (push_bit len 1 - 1) :: uint32_t) < 2 ^ 31 - 1"
    if "unat w < 2 ^ len" and "len \<le> 30" for w :: uint32_t and len
  proof -
    have le: "(2::nat) ^ len \<le> 2 ^ 30" using that(2) by (intro power_increasing) simp_all
    define q :: uint32_t where "q = push_bit len 1 - 1"
    have "q = of_nat (2 ^ len - 1)" by (simp add: push_bit_eq_mult q_def)
    then have "unat q = 2 ^ len - 1" using le by (simp only: unat_of_nat) simp
    then have "unat (w + q) < 2 ^ 31 - 1" using that(1) le by (simp add: unat_word_ariths)
    then show ?thesis by (simp only: q_def)
  qed
  then have "unat (w + (2 ^ len - 1) :: uint32_t) < 2 ^ 31 - 1"
    if "bs_read len b = Some (w, b')" and "\<not> 30 < len" for w len b b'
    using bs_read_less [OF that(1)] that(2) by fastforce
  then show ?thesis
    using assms by (auto simp: bs_readUvlc_def split: bind_splits if_splits)
qed

abbreviation aoi_len :: "SEIAtlasInformation \<Rightarrow> nat \<times> uint32_t" where
  "aoi_len sei \<equiv> (length (aoi_objectIdx sei), aoi_numUpdates sei)"

lemma aoi_atlas_keeps: "aoi_len sei = l \<Longrightarrow> keeps aoi_len l (aoi_atlas_r k sei bs)"
  unfolding aoi_atlas_r_def by (rule keeps_rules | (simp; fail))+

lemma aoi_object_keeps: "aoi_len sei = l \<Longrightarrow> keeps aoi_len l (aoi_object_r k sei bs)"
  unfolding aoi_object_r_def by (rule keeps_rules | (simp add: vec_set_eq_Some; fail) | (auto simp: vec_set_eq_Some; fail))+

lemma aoi_object_out: "length (aoi_objectIdx sei) \<le> k \<Longrightarrow> aoi_object_r k sei bs = None"
  by (auto simp: aoi_object_r_def vec_set_def split: bind_splits if_splits)

lemma aoi_loop_stuck:
  assumes "length (aoi_objectIdx s) = unat (aoi_numUpdates s)" and "unat (aoi_numUpdates s) < 2 ^ 31 - 1"
  shows "for_loop [0..<unat (aoi_numUpdates s + 1)] (\<lambda>i (sei, bs). aoi_object_r i sei bs) (s, b) = None"
proof (rule for_loop_stuck [where g = aoi_len and n = "unat (aoi_numUpdates s)", OF refl])
  show "unat (aoi_numUpdates s) \<in> set [0..<unat (aoi_numUpdates s + 1)]"
    using assms(2) by (simp add: unat_word_ariths)
qed (use assms(1) in \<open>auto intro: aoi_object_keeps aoi_object_out\<close>)

lemma aoi_returns:
  assumes "atlasObjectInformation_r sei bs = Some (sei', bs')"
  shows "aoi_numUpdates sei' = 0"
proof -
  have none: "for_loop [0..<unat (aoi_numUpdates s' + 1)] (\<lambda>i (sei, bs). aoi_object_r i sei bs) (s', b') = None"
    if "for_loop is (\<lambda>i (sei, bs). aoi_atlas_r i sei bs) (s, b) = Some (s', b')"
      and "aoi_len s = (unat v, v)" and "bs_readUvlc b0 = Some (v, b1)" for "is" s b s' b' v b0 b1
  proof -
    have "keeps aoi_len (unat v, v) (for_loop is (\<lambda>i (sei, bs). aoi_atlas_r i sei bs) (s, b))"
      by (rule keeps_loop) (use that(2) in \<open>auto intro: aoi_atlas_keeps\<close>)
    then have "aoi_len s' = (unat v, v)" using that(1) by (rule keepsD)
    then show ?thesis using bs_readUvlc_less [OF that(3)] by (intro aoi_loop_stuck) simp_all
  qed
  show ?thesis
    using assms none
    by (fastforce simp: atlasObjectInformation_r_def aoi_allocateObjectIdx_def aoi_allocateAtlasId_def Let_def word_gt_0
        split: bind_splits if_splits)
qed

subsection \<open>Buffering periods and labels\<close>

text \<open>A row of a sub-layer has no entries: \<open>allocate( i )\<close> is never called.\<close>

lemma row_r_out: "row_r rows i j n bs = None" if "i < length rows \<longrightarrow> length (rows ! i) \<le> j"
  using that by (auto simp: row_r_def vec_set2_def vec_at_def vec_set_def split: bind_splits if_splits)

abbreviation bpr_hrd :: "SEIBufferingPeriod \<Rightarrow> bool" where
  "bpr_hrd sei \<equiv> bpr_nalHrdParamsPresentFlag sei \<or> bpr_aclHrdParamsPresentFlag sei"

abbreviation bpr_flags :: "SEIBufferingPeriod \<Rightarrow> bool \<times> bool" where
  "bpr_flags sei \<equiv> (bpr_nalHrdParamsPresentFlag sei, bpr_aclHrdParamsPresentFlag sei)"

lemma bpr_nal_keeps: "bpr_flags sei = l \<Longrightarrow> keeps bpr_flags l (bpr_nal_r i j sei bs)"
  unfolding bpr_nal_r_def by (rule keeps_rules | (simp; fail))+

lemma bpr_acl_keeps: "bpr_flags sei = l \<Longrightarrow> keeps bpr_flags l (bpr_acl_r i j sei bs)"
  unfolding bpr_acl_r_def by (rule keeps_rules | (simp; fail))+

lemma bpr_subLayer_keeps: "bpr_flags sei = l \<Longrightarrow> keeps bpr_flags l (bpr_subLayer_r i sei bs)"
  unfolding bpr_subLayer_r_def by (rule bpr_nal_keeps bpr_acl_keeps keeps_rules | (simp; fail))+

lemma bpr_subLayer_out:
  assumes "bpr_hrd sei" and "\<forall>row \<in> set (bpr_nalInitialCabRemovalDelay sei). row = []"
    and "\<forall>row \<in> set (bpr_aclInitialCabRemovalDelay sei). row = []"
  shows "bpr_subLayer_r i sei bs = None"
proof -
  have nz: "0 < unat (v + 1)" if "bs_read 3 bs = Some (v, bs')" for v bs'
    using bs_read_less [OF that] by (simp add: unat_word_ariths)
  have out: "row_r rows i j n b = None" if "\<forall>row \<in> set rows. row = []" for rows j n b
    using that nth_mem by (intro row_r_out) fastforce
  have nal: "bpr_nal_r i j s b = None" if "bpr_nalInitialCabRemovalDelay s = bpr_nalInitialCabRemovalDelay sei" for j s b
    using that assms(2) by (simp add: bpr_nal_r_def Let_def out)
  have acl: "bpr_acl_r i j s b = None" if "bpr_aclInitialCabRemovalDelay s = bpr_aclInitialCabRemovalDelay sei" for j s b
    using that assms(3) by (simp add: bpr_acl_r_def Let_def out)
  show ?thesis
    using assms(1) nz
    by (auto simp: bpr_subLayer_r_def Let_def vec_set_eq_Some nal acl for_loop_first split: bind_splits)
qed

abbreviation bpr_rows :: "SEIBufferingPeriod \<Rightarrow> uint32_t list list \<times> uint32_t list list" where
  "bpr_rows sei \<equiv> (bpr_nalInitialCabRemovalDelay sei, bpr_aclInitialCabRemovalDelay sei)"

lemma bpr_loop_keeps:
  assumes "bpr_rows sei = ([], [])"
  shows "keeps bpr_hrd False (for_loop [0..<Suc m] (\<lambda>i (sei, bs). bpr_subLayer_r i sei bs) (bpr_allocate sei, bs))"
proof (cases "bpr_hrd sei")
  case True
  then have "bpr_subLayer_r 0 (bpr_allocate sei) bs = None"
    using assms by (intro bpr_subLayer_out) (auto simp: bpr_allocate_def Let_def vec_resize_def)
  then have "for_loop [0..<Suc m] (\<lambda>i (sei, bs). bpr_subLayer_r i sei bs) (bpr_allocate sei, bs) = None"
    by (intro for_loop_first) simp_all
  then show ?thesis by (simp add: keeps_def)
next
  case False
  have "keeps bpr_flags (bpr_flags sei) (for_loop [0..<Suc m] (\<lambda>i (sei, bs). bpr_subLayer_r i sei bs) (bpr_allocate sei, bs))"
    by (rule keeps_loop) (auto simp: bpr_allocate_def Let_def intro: bpr_subLayer_keeps)
  then show ?thesis using False by (auto simp: keeps_def)
qed

lemma keeps_via:
  assumes "keeps h k m" and "\<And>s bs. h s = k \<Longrightarrow> keeps g l (f s bs)"
  shows "keeps g l (Option.bind m (\<lambda>(s, bs). f s bs))"
  using assms by (cases m) (fastforce simp: keeps_def)+

lemmas keeps_word = keeps_read [where m = "m :: (uint32_t \<times> PCCBitstream) option" for m]

lemma bpr_returns: "keeps bpr_hrd False (bufferingPeriod_r (bpr_new g) bs)"
  unfolding bufferingPeriod_r_def
  apply (rule keeps_word keeps_Let)+
  apply (rule keeps_via [where h = bpr_rows and k = "([], [])"])
  subgoal by (rule keeps_rules | (simp add: bpr_new_def; fail))+
  apply (rule keeps_word keeps_Let)+
  apply (rule keeps_sub)
  subgoal by (rule bpr_loop_keeps) simp
  subgoal by (rule keeps_Some)
  done

text \<open>The first label of an empty list cannot be given index 0.\<close>

lemma oli_update_first:
  assumes "oli_update_r i sei bs = Some (sei', bs')" and "oli_label sei = []"
  shows "oli_labelCancelFlag sei' \<or> oli_labelIdx sei' ! i \<noteq> 0"
  using assms
  by (auto simp: oli_update_r_def oli_setLabel_def Let_def vec_set_eq_Some vec_at_def split: bind_splits if_splits)

section \<open>The messages that are read back\<close>

text \<open>
  What remains of these messages are the forms without updates; the members the syntax does not carry keep the
  values \<open>g\<close> that the constructor leaves indeterminate.
\<close>

definition soi_wf :: "SEISceneObjectInformation \<Rightarrow> SEISceneObjectInformation \<Rightarrow> bool" where
  "soi_wf g x \<longleftrightarrow> x = (soi_new g)\<lparr>soi_persistenceFlag := soi_persistenceFlag x, soi_resetFlag := soi_resetFlag x,
     soi_numObjectUpdates := 0\<rparr>"

interpretation soi: syntax_codec sceneObjectInformation_w sceneObjectInformation_r "soi_new g" "soi_wf g" for g
proof unfold_locales
  fix x assume "soi_wf g x"
  then obtain p r where x: "x = (soi_new g)\<lparr>soi_persistenceFlag := p, soi_resetFlag := r, soi_numObjectUpdates := 0\<rparr>"
    unfolding soi_wf_def by blast
  show "codes (sceneObjectInformation_w x) (sceneObjectInformation_r (soi_new g)) x"
    unfolding sceneObjectInformation_w_def [abs_def] sceneObjectInformation_r_def [abs_def] x
    by ((rule codes_same codec_intro refl | (simp add: soi_new_def; fail))+)
qed

definition pin_wf :: "SEIPatchInformation \<Rightarrow> SEIPatchInformation \<Rightarrow> bool" where
  "pin_wf g x \<longleftrightarrow> x = (pin_new g)\<lparr>pin_persistenceFlag := pin_persistenceFlag x, pin_resetFlag := pin_resetFlag x,
     pin_numTileUpdates := 0\<rparr>"

interpretation pin: syntax_codec patchInformation_w patchInformation_r "pin_new g" "pin_wf g" for g
proof unfold_locales
  fix x assume "pin_wf g x"
  then obtain p r where x: "x = (pin_new g)\<lparr>pin_persistenceFlag := p, pin_resetFlag := r, pin_numTileUpdates := 0\<rparr>"
    unfolding pin_wf_def by blast
  show "codes (patchInformation_w x) (patchInformation_r (pin_new g)) x"
    unfolding patchInformation_w_def [abs_def] patchInformation_r_def [abs_def] x
    by ((rule codes_same codes_for [where y = "\<lambda>_. x"] codec_intro refl | (simp add: pin_new_def x; fail))+)
qed

definition vri_wf :: "SEIVolumetricRectangleInformation \<Rightarrow> SEIVolumetricRectangleInformation \<Rightarrow> bool" where
  "vri_wf g x \<longleftrightarrow> x = (vri_new g)\<lparr>vri_persistenceFlag := vri_persistenceFlag x, vri_resetFlag := vri_resetFlag x,
     vri_numRectanglesUpdates := 0\<rparr>"

interpretation vri: syntax_codec volumetricRectangleInformation_w volumetricRectangleInformation_r "vri_new g" "vri_wf g" for g
proof unfold_locales
  fix x assume "vri_wf g x"
  then obtain p r where x: "x = (vri_new g)\<lparr>vri_persistenceFlag := p, vri_resetFlag := r, vri_numRectanglesUpdates := 0\<rparr>"
    unfolding vri_wf_def by blast
  show "codes (volumetricRectangleInformation_w x) (volumetricRectangleInformation_r (vri_new g)) x"
    unfolding volumetricRectangleInformation_w_def [abs_def] volumetricRectangleInformation_r_def [abs_def] x
    by ((rule codes_same codes_for [where y = "\<lambda>_. x"] codec_intro refl | (simp add: vri_new_def x; fail))+)
qed

definition aoi_wf :: "SEIAtlasInformation \<Rightarrow> bool" where
  "aoi_wf x \<longleftrightarrow> unat (aoi_numAtlasesMinus1 x) < 64
     \<and> x = aoi_new\<lparr>aoi_persistenceFlag := aoi_persistenceFlag x, aoi_resetFlag := aoi_resetFlag x,
         aoi_numAtlasesMinus1 := aoi_numAtlasesMinus1 x,
         aoi_atlasId := replicate (unat (aoi_numAtlasesMinus1 x + 1)) 0\<rparr>"

interpretation aoi: syntax_codec atlasObjectInformation_w atlasObjectInformation_r aoi_new aoi_wf
proof unfold_locales
  fix x assume "aoi_wf x"
  then obtain p r n where n: "unat n < 64" and x: "x = aoi_new\<lparr>aoi_persistenceFlag := p, aoi_resetFlag := r,
      aoi_numAtlasesMinus1 := n, aoi_atlasId := replicate (unat (n + 1)) 0\<rparr>"
    unfolding aoi_wf_def by blast
  show "codes (atlasObjectInformation_w x) (atlasObjectInformation_r aoi_new) x"
    unfolding atlasObjectInformation_w_def [abs_def] atlasObjectInformation_r_def [abs_def] x
    by ((rule codes_same codec_intro refl
      | (use n in \<open>simp add: aoi_new_def aoi_allocateObjectIdx_def aoi_allocateAtlasId_def vec_resize_def\<close>; fail))+)
qed

definition oli_wf :: "SEIObjectLabelInformation \<Rightarrow> SEIObjectLabelInformation \<Rightarrow> bool" where
  "oli_wf g x \<longleftrightarrow> (if oli_cancelFlag x then x = (oli_new g)\<lparr>oli_cancelFlag := True\<rparr> else
     0 \<notin> set (oli_labelLanguage x)
     \<and> (\<not> oli_labelLanguagePresentFlag x \<longrightarrow> oli_labelLanguage x = [])
     \<and> unat (oli_numLabelUpdates x) = length (oli_labelIdx x) \<and> length (oli_labelIdx x) < 2 ^ 31 - 1
     \<and> (\<forall>v \<in> set (oli_labelIdx x). unat v < 2 ^ 31 - 1)
     \<and> oli_labelCancelFlag x = (oli_labelIdx x \<noteq> [] \<or> oli_labelCancelFlag g)
     \<and> oli_bitEqualToZero x = oli_bitEqualToZero g \<and> oli_label x = [])"

lemma oli_updates_codes:
  assumes "length (oli_labelIdx x) = n" and "\<forall>v \<in> set (oli_labelIdx x). unat v < 2 ^ 31 - 1"
    and "0 < n \<longrightarrow> oli_labelCancelFlag x" and "n' = n" and "length (oli_labelIdx y) = n"
  shows "codes (for_loop [0..<n] (oli_update_w x)) (\<lambda>bs. for_loop [0..<n'] (\<lambda>i (a, bs). oli_update_r i a bs) (y, bs))
     (y\<lparr>oli_labelIdx := oli_labelIdx x, oli_labelCancelFlag := (0 < n \<or> oli_labelCancelFlag y)\<rparr>)"
proof -
  have small: "unat (oli_labelIdx x ! k) < 2 ^ 31 - 1" if "k < n" for k using assms(1,2) that by simp
  have "codes (for_loop [0..<n] (oli_update_w x)) (\<lambda>bs. for_loop [0..<n'] (\<lambda>i (a, bs). oli_update_r i a bs) (y, bs))
     (y\<lparr>oli_labelIdx := filled n (oli_labelIdx x) (oli_labelIdx y), oli_labelCancelFlag := (0 < n \<or> oli_labelCancelFlag y)\<rparr>)"
    unfolding oli_update_w_def [abs_def] oli_update_r_def [abs_def]
    by ((rule codes_for [where y = "\<lambda>k. y\<lparr>oli_labelIdx := filled k (oli_labelIdx x) (oli_labelIdx y),
          oli_labelCancelFlag := (0 < k \<or> oli_labelCancelFlag y)\<rparr>"] small codes_same codec_intro refl
        | (use assms in simp; fail))+)
  then show ?thesis using assms by simp
qed

interpretation oli: syntax_codec objectLabelInformation_w objectLabelInformation_r "oli_new g" "oli_wf g" for g
proof unfold_locales
  fix x assume wf: "oli_wf g x"
  show "codes (objectLabelInformation_w x) (objectLabelInformation_r (oli_new g)) x"
  proof (cases "oli_cancelFlag x")
    case True
    then have x: "x = (oli_new g)\<lparr>oli_cancelFlag := True\<rparr>" using wf by (simp add: oli_wf_def)
    show ?thesis
      unfolding objectLabelInformation_w_def [abs_def] objectLabelInformation_r_def [abs_def] x
      by ((rule codes_same codec_intro refl | (simp add: oli_new_def; fail))+)
  next
    case False
    note facts = wf [unfolded oli_wf_def if_not_P [OF False]] False
    show ?thesis
      unfolding objectLabelInformation_w_def [abs_def] objectLabelInformation_r_def [abs_def]
      by ((rule oli_updates_codes codes_split codec_intro refl SEIObjectLabelInformation.equality
        | (use facts in \<open>simp add: oli_new_def\<close>; fail))+)
  qed
qed

text \<open>A buffering period without HRD parameters.\<close>

definition bpr_wf :: "SEIBufferingPeriod \<Rightarrow> bool" where
  "bpr_wf x \<longleftrightarrow> (let n = Suc (unat (bpr_maxSubLayersMinus1 x)) in
     \<not> bpr_nalHrdParamsPresentFlag x \<and> \<not> bpr_aclHrdParamsPresentFlag x \<and> bpr_atlasSequenceParameterSetId x = 0
     \<and> (if bpr_irapCabParamsPresentFlag x
        then unat (bpr_cabDelayOffset x) < 2 ^ lengthBits (bpr_auCabRemovalDelayLengthMinus1 x)
          \<and> unat (bpr_dabDelayOffset x) < 2 ^ lengthBits (bpr_dabOutputDelayLengthMinus1 x)
        else bpr_cabDelayOffset x = 0 \<and> bpr_dabDelayOffset x = 0)
     \<and> unat (bpr_atlasCabRemovalDelayDeltaMinus1 x) < 2 ^ lengthBits (bpr_auCabRemovalDelayLengthMinus1 x)
     \<and> unat (bpr_maxSubLayersMinus1 x) < 8
     \<and> length (bpr_hrdCabCntMinus1 x) = n \<and> (\<forall>v \<in> set (bpr_hrdCabCntMinus1 x). unat v < 8)
     \<and> bpr_nalInitialCabRemovalDelay x = replicate n [] \<and> bpr_nalInitialCabRemovalOffset x = replicate n []
     \<and> bpr_nalInitialAltCabRemovalDelay x = replicate n [] \<and> bpr_nalInitialAltCabRemovalOffset x = replicate n []
     \<and> bpr_aclInitialCabRemovalDelay x = replicate n [] \<and> bpr_aclInitialCabRemovalOffset x = replicate n []
     \<and> bpr_aclInitialAltCabRemovalDelay x = replicate n [] \<and> bpr_aclInitialAltCabRemovalOffset x = replicate n [])"

lemma bpr_subLayers_codes:
  assumes "length (bpr_hrdCabCntMinus1 x) = n" and "\<forall>v \<in> set (bpr_hrdCabCntMinus1 x). unat v < 8"
    and "\<not> bpr_nalHrdParamsPresentFlag x" "\<not> bpr_aclHrdParamsPresentFlag x"
    and "\<not> bpr_nalHrdParamsPresentFlag y" "\<not> bpr_aclHrdParamsPresentFlag y"
    and "m = n" and "n' = n" and "length (bpr_hrdCabCntMinus1 y) = n"
  shows "codes (for_loop [0..<m] (bpr_subLayer_w x)) (\<lambda>bs. for_loop [0..<n'] (\<lambda>i (a, bs). bpr_subLayer_r i a bs) (y, bs))
     (y\<lparr>bpr_hrdCabCntMinus1 := bpr_hrdCabCntMinus1 x\<rparr>)"
proof -
  have small: "unat (bpr_hrdCabCntMinus1 x ! k) < 2 ^ 3" if "k < n" for k using assms(1,2) that by simp
  have "codes (for_loop [0..<n] (bpr_subLayer_w x)) (\<lambda>bs. for_loop [0..<n'] (\<lambda>i (a, bs). bpr_subLayer_r i a bs) (y, bs))
     (y\<lparr>bpr_hrdCabCntMinus1 := filled n (bpr_hrdCabCntMinus1 x) (bpr_hrdCabCntMinus1 y)\<rparr>)"
    unfolding bpr_subLayer_w_def [abs_def] bpr_subLayer_r_def [abs_def]
    by ((rule codes_for [where y = "\<lambda>k. y\<lparr>bpr_hrdCabCntMinus1 := filled k (bpr_hrdCabCntMinus1 x) (bpr_hrdCabCntMinus1 y)\<rparr>"]
          small codes_off codec_intro refl
        | (use assms in simp; fail))+)
  then show ?thesis using assms by simp
qed

interpretation bpr: syntax_codec bufferingPeriod_w bufferingPeriod_r "bpr_new g" bpr_wf for g
proof unfold_locales
  fix x assume wf: "bpr_wf x"
  note facts = wf [unfolded bpr_wf_def Let_def if_bool_eq_conj]
  have n: "unat (bpr_maxSubLayersMinus1 x + 1) = Suc (unat (bpr_maxSubLayersMinus1 x))"
    using facts by (simp add: unat_word_ariths)
  have bits: "lengthBits b \<le> 32" for b by (simp add: lengthBits_def)
  have b5: "unat (b2u b) < 2 ^ 5" "(b2u b \<noteq> 0) = b" "b2u b = 0 \<longleftrightarrow> \<not> b" for b by (simp_all add: b2u_def)
  show "codes (bufferingPeriod_w x) (bufferingPeriod_r (bpr_new g)) x"
    unfolding bufferingPeriod_w_def [abs_def] bufferingPeriod_r_def [abs_def]
    by ((rule bpr_subLayers_codes b5(1) codes_split codec_intro refl SEIBufferingPeriod.equality
      | (simp add: facts n bits b5 bpr_new_def bpr_allocate_def vec_resize_def del: replicate_Suc; fail))+)
qed

end
