(* ===== verification/SeiViewport.thy ===== *)
theory SeiViewport
  imports SeiMessages
begin

text \<open>
  The messages about the viewport, \<open>SEIViewportCameraParameters\<close> and \<open>SEIViewportPosition\<close> of \<open>PCCSei.h\<close>, with their
  functions of \<open>PCCBitstreamWriter.cpp\<close> and \<open>PCCBitstreamReader.cpp\<close>. A \<open>float\<close> is its bit pattern. Where the writer
  passes a \<open>float\<close> to \<open>write( uint32_t, uint8_t )\<close> the value is truncated to an integer (\<open>float_to_uint\<close>), and the
  reader converts it back (\<open>uint_to_float\<close>): only integral angles survive, and a rotation component below one in
  absolute value becomes zero.
\<close>

section \<open>Conversions between floats and integers\<close>

definition float_exponent :: "uint32_t \<Rightarrow> nat" where
  "float_exponent w = unat (drop_bit 23 w AND 255)"

definition float_negative :: "uint32_t \<Rightarrow> bool" where
  "float_negative w = bit w 31"

definition float_significand :: "uint32_t \<Rightarrow> nat" where
  "float_significand w = 2 ^ 23 + unat (take_bit 23 w)"

text \<open>Truncation towards zero; a value outside the range of \<open>uint32_t\<close> (infinities and NaN included) is undefined.\<close>

definition float_to_uint :: "uint32_t \<Rightarrow> uint32_t option" where
  "float_to_uint w = (let e = float_exponent w in
     if e < 127 then Some 0
     else if float_negative w \<or> 159 \<le> e then None
     else if e < 150 then Some (of_nat (float_significand w div 2 ^ (150 - e)))
     else Some (of_nat (float_significand w * 2 ^ (e - 150))))"

text \<open>Conversion to the nearest \<open>float\<close>, to the even one of two equally near; a carry of the significand goes to the
  exponent.\<close>

definition uint_log2 :: "uint32_t \<Rightarrow> nat" where
  "uint_log2 v = length (takeWhile (\<lambda>k. 2 ^ k \<le> unat v) [1..<32])"

definition uint_to_float :: "uint32_t \<Rightarrow> uint32_t" where
  "uint_to_float v = (if v = 0 then 0 else let k = uint_log2 v; n = unat v in
     if k \<le> 23 then of_nat ((127 + k) * 2 ^ 23 + (n * 2 ^ (23 - k) - 2 ^ 23))
     else let q = n div 2 ^ (k - 23); r = n mod 2 ^ (k - 23); half = 2 ^ (k - 24);
              up = (if half < r \<or> (r = half \<and> odd q) then 1 else 0)
          in of_nat ((127 + k) * 2 ^ 23 + (q + up - 2 ^ 23)))"

definition write_float_as_int :: "uint32_t \<Rightarrow> nat \<Rightarrow> PCCBitstream \<Rightarrow> PCCBitstream option" where
  "write_float_as_int w n bs = do { v \<leftarrow> float_to_uint w; bs_write v n bs }"

definition read_int_as_float :: "nat \<Rightarrow> PCCBitstream \<Rightarrow> (uint32_t \<times> PCCBitstream) option" where
  "read_int_as_float n bs = do { (v, bs) \<leftarrow> bs_read n bs; Some (uint_to_float v, bs) }"

text \<open>The floats that survive: integers of \<open>n\<close> bits that a \<open>float\<close> represents.\<close>

definition float_integral :: "nat \<Rightarrow> uint32_t \<Rightarrow> bool" where
  "float_integral n w = (case float_to_uint w of None \<Rightarrow> False | Some v \<Rightarrow> unat v < 2 ^ n \<and> uint_to_float v = w)"

section \<open>Viewport camera parameters\<close>

record SEIViewportCameraParameters =
  vcp_cameraId :: uint32_t
  vcp_cancelFlag :: bool
  vcp_persistenceFlag :: bool
  vcp_cameraType :: uint8_t
  vcp_erpHorizontalFov :: uint32_t
  vcp_erpVerticalFov :: uint32_t
  vcp_perspectiveAspectRatio :: uint32_t
  vcp_perspectiveHorizontalFov :: uint32_t
  vcp_orthoAspectRatio :: uint32_t
  vcp_orthoHorizontalSize :: uint32_t
  vcp_clippingNearPlane :: uint32_t
  vcp_clippingFarPlane :: uint32_t

definition vcp_new :: SEIViewportCameraParameters where
  "vcp_new = \<lparr>vcp_cameraId = 0, vcp_cancelFlag = False, vcp_persistenceFlag = False, vcp_cameraType = 0,
     vcp_erpHorizontalFov = 0, vcp_erpVerticalFov = 0, vcp_perspectiveAspectRatio = 0,
     vcp_perspectiveHorizontalFov = 0, vcp_orthoAspectRatio = 0, vcp_orthoHorizontalSize = 0,
     vcp_clippingNearPlane = 0, vcp_clippingFarPlane = 0\<rparr>"

definition vcp_lens_w :: "SEIViewportCameraParameters \<Rightarrow> PCCBitstream \<Rightarrow> PCCBitstream option" where
  "vcp_lens_w sei bs =
     (if vcp_cameraType sei = 0 then do {
         bs \<leftarrow> write_float_as_int (vcp_erpHorizontalFov sei) 32 bs;
         bs \<leftarrow> write_float_as_int (vcp_erpVerticalFov sei) 32 bs;
         Some bs
       } else if vcp_cameraType sei = 1 then do {
         bs \<leftarrow> bs_writeFloat (vcp_perspectiveAspectRatio sei) bs;
         bs \<leftarrow> write_float_as_int (vcp_perspectiveHorizontalFov sei) 32 bs;
         Some bs
       } else if vcp_cameraType sei = 2 then do {
         bs \<leftarrow> bs_writeFloat (vcp_orthoAspectRatio sei) bs;
         bs \<leftarrow> bs_writeFloat (vcp_orthoHorizontalSize sei) bs;
         Some bs
       } else Some bs)"

definition vcp_lens_r :: "SEIViewportCameraParameters \<Rightarrow> PCCBitstream \<Rightarrow> (SEIViewportCameraParameters \<times> PCCBitstream) option" where
  "vcp_lens_r sei bs =
     (if vcp_cameraType sei = 0 then do {
         (v, bs) \<leftarrow> read_int_as_float 32 bs;
         let sei = sei\<lparr>vcp_erpHorizontalFov := v\<rparr>;
         (v, bs) \<leftarrow> read_int_as_float 32 bs;
         let sei = sei\<lparr>vcp_erpVerticalFov := v\<rparr>;
         Some (sei, bs)
       } else if vcp_cameraType sei = 1 then do {
         (v, bs) \<leftarrow> bs_readFloat bs;
         let sei = sei\<lparr>vcp_perspectiveAspectRatio := v\<rparr>;
         (v, bs) \<leftarrow> read_int_as_float 32 bs;
         let sei = sei\<lparr>vcp_perspectiveHorizontalFov := v\<rparr>;
         Some (sei, bs)
       } else if vcp_cameraType sei = 2 then do {
         (v, bs) \<leftarrow> bs_readFloat bs;
         let sei = sei\<lparr>vcp_orthoAspectRatio := v\<rparr>;
         (v, bs) \<leftarrow> bs_readFloat bs;
         let sei = sei\<lparr>vcp_orthoHorizontalSize := v\<rparr>;
         Some (sei, bs)
       } else Some (sei, bs))"

definition viewportCameraParameters_w :: "SEIViewportCameraParameters \<Rightarrow> PCCBitstream \<Rightarrow> PCCBitstream option" where
  "viewportCameraParameters_w sei bs = do {
     bs \<leftarrow> bs_write (vcp_cameraId sei) 10 bs;
     bs \<leftarrow> bs_write (b2u (vcp_cancelFlag sei)) 1 bs;
     bs \<leftarrow> (if 0 < vcp_cameraId sei \<and> \<not> vcp_cancelFlag sei then do {
         bs \<leftarrow> bs_write (b2u (vcp_persistenceFlag sei)) 1 bs;
         bs \<leftarrow> bs_write (ucast (vcp_cameraType sei)) 3 bs;
         bs \<leftarrow> vcp_lens_w sei bs;
         bs \<leftarrow> bs_writeFloat (vcp_clippingNearPlane sei) bs;
         bs \<leftarrow> bs_writeFloat (vcp_clippingFarPlane sei) bs;
         Some bs
       } else Some bs);
     Some bs
   }"

definition viewportCameraParameters_r ::
  "SEIViewportCameraParameters \<Rightarrow> PCCBitstream \<Rightarrow> (SEIViewportCameraParameters \<times> PCCBitstream) option" where
  "viewportCameraParameters_r sei bs = do {
     (v, bs) \<leftarrow> bs_read 10 bs;
     let sei = sei\<lparr>vcp_cameraId := v\<rparr>;
     (v, bs) \<leftarrow> bs_read 1 bs;
     let sei = sei\<lparr>vcp_cancelFlag := v \<noteq> 0\<rparr>;
     (sei, bs) \<leftarrow> (if 0 < vcp_cameraId sei \<and> \<not> vcp_cancelFlag sei then do {
         (v, bs) \<leftarrow> bs_read 1 bs;
         let sei = sei\<lparr>vcp_persistenceFlag := v \<noteq> 0\<rparr>;
         (v, bs) \<leftarrow> bs_read 3 bs;
         let sei = sei\<lparr>vcp_cameraType := ucast v\<rparr>;
         (sei, bs) \<leftarrow> vcp_lens_r sei bs;
         (v, bs) \<leftarrow> bs_readFloat bs;
         let sei = sei\<lparr>vcp_clippingNearPlane := v\<rparr>;
         (v, bs) \<leftarrow> bs_readFloat bs;
         let sei = sei\<lparr>vcp_clippingFarPlane := v\<rparr>;
         Some (sei, bs)
       } else Some (sei, bs));
     Some (sei, bs)
   }"

section \<open>Viewport position\<close>

record SEIViewportPosition =
  vpo_viewportId :: uint32_t
  vpo_cameraParametersPresentFlag :: bool
  vpo_CameraId :: uint8_t
  vpo_cancelFlag :: bool
  vpo_persistenceFlag :: bool
  vpo_position :: "uint32_t list"
  vpo_rotationQX :: uint32_t
  vpo_rotationQY :: uint32_t
  vpo_rotationQZ :: uint32_t
  vpo_centerViewFlag :: bool
  vpo_leftViewFlag :: bool

definition vpo_new :: SEIViewportPosition where
  "vpo_new = \<lparr>vpo_viewportId = 0, vpo_cameraParametersPresentFlag = False, vpo_CameraId = 0, vpo_cancelFlag = False,
     vpo_persistenceFlag = False, vpo_position = [0, 0, 0], vpo_rotationQX = 0, vpo_rotationQY = 0,
     vpo_rotationQZ = 0, vpo_centerViewFlag = False, vpo_leftViewFlag = False\<rparr>"

text \<open>Where the camera id is meant, the identifier of the viewport is coded again, in ten bits.\<close>

definition vpo_pose_w :: "SEIViewportPosition \<Rightarrow> PCCBitstream \<Rightarrow> PCCBitstream option" where
  "vpo_pose_w sei bs = do {
     bs \<leftarrow> bs_write (b2u (vpo_persistenceFlag sei)) 1 bs;
     bs \<leftarrow> for_loop [0..<3] (\<lambda>d bs. do { v \<leftarrow> vec_at (vpo_position sei) d; bs_writeFloat v bs }) bs;
     bs \<leftarrow> write_float_as_int (vpo_rotationQX sei) 16 bs;
     bs \<leftarrow> write_float_as_int (vpo_rotationQY sei) 16 bs;
     bs \<leftarrow> write_float_as_int (vpo_rotationQZ sei) 16 bs;
     bs \<leftarrow> bs_write (b2u (vpo_centerViewFlag sei)) 1 bs;
     bs \<leftarrow> (if \<not> vpo_centerViewFlag sei then do {
         bs \<leftarrow> bs_write (b2u (vpo_leftViewFlag sei)) 1 bs;
         Some bs
       } else Some bs);
     Some bs
   }"

definition vpo_pose_r :: "SEIViewportPosition \<Rightarrow> PCCBitstream \<Rightarrow> (SEIViewportPosition \<times> PCCBitstream) option" where
  "vpo_pose_r sei bs = do {
     (v, bs) \<leftarrow> bs_read 1 bs;
     let sei = sei\<lparr>vpo_persistenceFlag := v \<noteq> 0\<rparr>;
     (sei, bs) \<leftarrow> for_loop [0..<3] (\<lambda>d (sei, bs). do {
         (v, bs) \<leftarrow> bs_readFloat bs;
         l \<leftarrow> vec_set (vpo_position sei) d v;
         let sei = sei\<lparr>vpo_position := l\<rparr>;
         Some (sei, bs)
       }) (sei, bs);
     (v, bs) \<leftarrow> read_int_as_float 16 bs;
     let sei = sei\<lparr>vpo_rotationQX := v\<rparr>;
     (v, bs) \<leftarrow> read_int_as_float 16 bs;
     let sei = sei\<lparr>vpo_rotationQY := v\<rparr>;
     (v, bs) \<leftarrow> read_int_as_float 16 bs;
     let sei = sei\<lparr>vpo_rotationQZ := v\<rparr>;
     (v, bs) \<leftarrow> bs_read 1 bs;
     let sei = sei\<lparr>vpo_centerViewFlag := v \<noteq> 0\<rparr>;
     (sei, bs) \<leftarrow> (if \<not> vpo_centerViewFlag sei then do {
         (v, bs) \<leftarrow> bs_read 1 bs;
         let sei = sei\<lparr>vpo_leftViewFlag := v \<noteq> 0\<rparr>;
         Some (sei, bs)
       } else Some (sei, bs));
     Some (sei, bs)
   }"

definition viewportPosition_w :: "SEIViewportPosition \<Rightarrow> PCCBitstream \<Rightarrow> PCCBitstream option" where
  "viewportPosition_w sei bs = do {
     bs \<leftarrow> bs_writeUvlc (vpo_viewportId sei) bs;
     bs \<leftarrow> bs_write (b2u (vpo_cameraParametersPresentFlag sei)) 1 bs;
     bs \<leftarrow> (if vpo_cameraParametersPresentFlag sei then do {
         bs \<leftarrow> bs_write (vpo_viewportId sei) 10 bs;
         Some bs
       } else Some bs);
     bs \<leftarrow> bs_write (b2u (vpo_cancelFlag sei)) 1 bs;
     bs \<leftarrow> (if \<not> vpo_cancelFlag sei then do {
         bs \<leftarrow> vpo_pose_w sei bs;
         Some bs
       } else Some bs);
     Some bs
   }"

definition viewportPosition_r :: "SEIViewportPosition \<Rightarrow> PCCBitstream \<Rightarrow> (SEIViewportPosition \<times> PCCBitstream) option" where
  "viewportPosition_r sei bs = do {
     (v, bs) \<leftarrow> bs_readUvlc bs;
     let sei = sei\<lparr>vpo_viewportId := v\<rparr>;
     (v, bs) \<leftarrow> bs_read 1 bs;
     let sei = sei\<lparr>vpo_cameraParametersPresentFlag := v \<noteq> 0\<rparr>;
     (sei, bs) \<leftarrow> (if vpo_cameraParametersPresentFlag sei then do {
         (v, bs) \<leftarrow> bs_read 10 bs;
         let sei = sei\<lparr>vpo_viewportId := v\<rparr>;
         Some (sei, bs)
       } else Some (sei, bs));
     (v, bs) \<leftarrow> bs_read 1 bs;
     let sei = sei\<lparr>vpo_cancelFlag := v \<noteq> 0\<rparr>;
     (sei, bs) \<leftarrow> (if \<not> vpo_cancelFlag sei then do {
         (sei, bs) \<leftarrow> vpo_pose_r sei bs;
         Some (sei, bs)
       } else Some (sei, bs));
     Some (sei, bs)
   }"

section \<open>Round trips\<close>

text \<open>What is read back for any value that can be written: its integral part, which is 0 for a fraction.\<close>

definition float_written :: "nat \<Rightarrow> uint32_t \<Rightarrow> bool" where
  "float_written n w = (case float_to_uint w of None \<Rightarrow> False | Some v \<Rightarrow> unat v < 2 ^ n)"

definition float_integer :: "uint32_t \<Rightarrow> uint32_t" where
  "float_integer w = (case float_to_uint w of None \<Rightarrow> w | Some v \<Rightarrow> uint_to_float v)"

lemma float_written_codes [codec_intro]:
  assumes "float_written n w" and "n \<le> 32"
  shows "codes (write_float_as_int w n) (read_int_as_float n) (float_integer w)"
proof -
  obtain v where v: "float_to_uint w = Some v" "unat v < 2 ^ n" "uint_to_float v = float_integer w"
    using assms(1) by (auto simp: float_written_def float_integer_def split: option.splits)
  have "codes (\<lambda>bs. Option.bind (bs_write v n bs) Some)
      (\<lambda>bs. Option.bind (bs_read n bs) (\<lambda>(v, bs). Some (uint_to_float v, bs))) (uint_to_float v)"
    by ((rule codec_intro refl | (use v assms in simp; fail))+)
  then show ?thesis by (simp add: write_float_as_int_def [abs_def] read_int_as_float_def [abs_def] v)
qed

lemma float_fraction: "float_exponent w < 127 \<Longrightarrow> float_written n w \<and> float_integer w = 0"
  by (simp add: float_written_def float_integer_def float_to_uint_def uint_to_float_def)

lemma float_integralD: "float_integral n w \<Longrightarrow> float_written n w" "float_integral n w \<Longrightarrow> float_integer w = w"
  by (auto simp: float_integral_def float_written_def float_integer_def split: option.splits)

lemma float_integral_codes:
  assumes "float_integral n w" and "n \<le> 32"
  shows "codes (write_float_as_int w n) (read_int_as_float n) w"
  using float_written_codes [OF float_integralD(1) [OF assms(1)] assms(2)] float_integralD(2) [OF assms(1)] by simp

definition vcp_wf :: "SEIViewportCameraParameters \<Rightarrow> bool" where
  "vcp_wf x \<longleftrightarrow> unat (vcp_cameraId x) < 2 ^ 10 \<and> (if vcp_cameraId x = 0 \<or> vcp_cancelFlag x
     then x = vcp_new\<lparr>vcp_cameraId := vcp_cameraId x, vcp_cancelFlag := vcp_cancelFlag x\<rparr>
     else unat (vcp_cameraType x) < 8
       \<and> (if vcp_cameraType x = 0 then float_integral 32 (vcp_erpHorizontalFov x) \<and> float_integral 32 (vcp_erpVerticalFov x)
          else vcp_erpHorizontalFov x = 0 \<and> vcp_erpVerticalFov x = 0)
       \<and> (if vcp_cameraType x = 1 then float_integral 32 (vcp_perspectiveHorizontalFov x)
          else vcp_perspectiveAspectRatio x = 0 \<and> vcp_perspectiveHorizontalFov x = 0)
       \<and> (vcp_cameraType x \<noteq> 2 \<longrightarrow> vcp_orthoAspectRatio x = 0 \<and> vcp_orthoHorizontalSize x = 0))"

lemma vcp_lens_codes:
  assumes wf: "vcp_wf x" "vcp_cameraId x \<noteq> 0" "\<not> vcp_cancelFlag x"
    and y: "y = vcp_new\<lparr>vcp_cameraId := vcp_cameraId x, vcp_cancelFlag := vcp_cancelFlag x,
      vcp_persistenceFlag := vcp_persistenceFlag x, vcp_cameraType := vcp_cameraType x\<rparr>"
  shows "codes (vcp_lens_w x) (vcp_lens_r y) (x\<lparr>vcp_clippingNearPlane := 0, vcp_clippingFarPlane := 0\<rparr>)"
proof -
  note facts = wf(2,3) wf(1) [unfolded vcp_wf_def, simplified wf(2,3)  if_bool_eq_conj, simplified]
  show ?thesis
    unfolding vcp_lens_w_def [abs_def] vcp_lens_r_def [abs_def]
    by ((rule float_integral_codes codes_same codec_intro refl SEIViewportCameraParameters.equality
      | (use facts in \<open>simp add: y vcp_new_def\<close>; fail))+)
qed

interpretation vcp: syntax_codec viewportCameraParameters_w viewportCameraParameters_r vcp_new vcp_wf
proof unfold_locales
  fix x assume wf: "vcp_wf x"
  then have small: "unat (vcp_cameraId x) < 2 ^ 10" by (simp add: vcp_wf_def)
  have type8: "unat (vcp_cameraType x) < 2 ^ 3" if "0 < vcp_cameraId x \<and> \<not> vcp_cancelFlag x"
    using wf that by (simp add: vcp_wf_def split: if_splits)
  have off: "x = vcp_new\<lparr>vcp_cameraId := vcp_cameraId x, vcp_cancelFlag := vcp_cancelFlag x\<rparr>"
    if "\<not> (0 < vcp_cameraId x \<and> \<not> vcp_cancelFlag x)"
    using wf that by (auto simp: vcp_wf_def word_gt_0 split: if_splits)
  show "codes (viewportCameraParameters_w x) (viewportCameraParameters_r vcp_new) x"
  proof (cases "0 < vcp_cameraId x \<and> \<not> vcp_cancelFlag x")
    case True
    note facts = True type8 [OF True] small
    show ?thesis
      unfolding viewportCameraParameters_w_def [abs_def] viewportCameraParameters_r_def [abs_def]
      by ((rule vcp_lens_codes [OF wf] codes_split codec_intro refl SEIViewportCameraParameters.equality
        | (use facts in \<open>simp add: vcp_new_def word_gt_0\<close>; fail))+)
  next
    case False
    obtain i c where x: "x = vcp_new\<lparr>vcp_cameraId := i, vcp_cancelFlag := c\<rparr>" using off [OF False] by blast
    have skip: "\<not> (0 < i \<and> \<not> c)" "unat i < 2 ^ 10" using False small by (simp_all add: x vcp_new_def)
    show ?thesis
      unfolding viewportCameraParameters_w_def [abs_def] viewportCameraParameters_r_def [abs_def] x
      by ((rule codes_off codec_intro refl | (use skip in \<open>simp add: vcp_new_def\<close>; fail))+)
  qed
qed

text \<open>A position message comes back with its rotation cut to integers.\<close>

definition vpo_ok :: "SEIViewportPosition \<Rightarrow> bool" where
  "vpo_ok x \<longleftrightarrow> unat (vpo_viewportId x) < 2 ^ 31 - 1
     \<and> (vpo_cameraParametersPresentFlag x \<longrightarrow> unat (vpo_viewportId x) < 2 ^ 10) \<and> vpo_CameraId x = 0
     \<and> length (vpo_position x) = 3
     \<and> (vpo_cancelFlag x \<longrightarrow> \<not> vpo_persistenceFlag x \<and> vpo_position x = [0, 0, 0]
          \<and> vpo_rotationQX x = 0 \<and> vpo_rotationQY x = 0 \<and> vpo_rotationQZ x = 0 \<and> \<not> vpo_centerViewFlag x)
     \<and> (vpo_cancelFlag x \<or> vpo_centerViewFlag x \<longrightarrow> \<not> vpo_leftViewFlag x)
     \<and> float_written 16 (vpo_rotationQX x) \<and> float_written 16 (vpo_rotationQY x) \<and> float_written 16 (vpo_rotationQZ x)"

definition vpo_rounded :: "SEIViewportPosition \<Rightarrow> SEIViewportPosition" where
  "vpo_rounded x = x\<lparr>vpo_rotationQX := float_integer (vpo_rotationQX x),
     vpo_rotationQY := float_integer (vpo_rotationQY x), vpo_rotationQZ := float_integer (vpo_rotationQZ x)\<rparr>"

lemma vpo_position_codes:
  assumes "length (vpo_position x) = 3" and "length (vpo_position y) = 3"
  shows "codes (for_loop [0..<3] (\<lambda>d bs. do { v \<leftarrow> vec_at (vpo_position x) d; bs_writeFloat v bs }))
     (\<lambda>bs. for_loop [0..<3] (\<lambda>d (sei, bs). do {
         (v, bs) \<leftarrow> bs_readFloat bs;
         l \<leftarrow> vec_set (vpo_position sei) d v;
         let sei = sei\<lparr>vpo_position := l\<rparr>;
         Some (sei, bs)
       }) (y, bs)) (y\<lparr>vpo_position := vpo_position x\<rparr>)"
proof -
  have "codes (for_loop [0..<3] (\<lambda>d bs. do { v \<leftarrow> vec_at (vpo_position x) d; bs \<leftarrow> bs_writeFloat v bs; Some bs }))
     (\<lambda>bs. for_loop [0..<3] (\<lambda>d (sei, bs). do {
         (v, bs) \<leftarrow> bs_readFloat bs;
         l \<leftarrow> vec_set (vpo_position sei) d v;
         let sei = sei\<lparr>vpo_position := l\<rparr>;
         Some (sei, bs)
       }) (y, bs)) (y\<lparr>vpo_position := filled 3 (vpo_position x) (vpo_position y)\<rparr>)"
    by ((rule codes_for [where y = "\<lambda>k. y\<lparr>vpo_position := filled k (vpo_position x) (vpo_position y)\<rparr>"] codec_intro refl
        | (use assms in simp; fail))+)
  then show ?thesis using assms by simp
qed

lemma vpo_pose_codes:
  assumes wf: "vpo_ok x" "\<not> vpo_cancelFlag x"
    and y: "y = vpo_new\<lparr>vpo_viewportId := vpo_viewportId x,
      vpo_cameraParametersPresentFlag := vpo_cameraParametersPresentFlag x, vpo_cancelFlag := vpo_cancelFlag x\<rparr>"
  shows "codes (vpo_pose_w x) (vpo_pose_r y) (vpo_rounded x)"
proof -
  note facts = wf(1) [unfolded vpo_ok_def] wf(2)
  show ?thesis
    unfolding vpo_pose_w_def [abs_def] vpo_pose_r_def [abs_def] vpo_rounded_def
    by ((rule vpo_position_codes codes_split codec_intro refl SEIViewportPosition.equality
      | (use facts in \<open>simp add: y vpo_new_def\<close>; fail))+)
qed

lemma vpo_codes:
  assumes wf: "vpo_ok x"
  shows "codes (viewportPosition_w x) (viewportPosition_r vpo_new) (vpo_rounded x)"
proof (cases "vpo_cancelFlag x")
  case True
  have zero: "float_integer 0 = 0" by (simp add: float_integer_def float_to_uint_def float_exponent_def uint_to_float_def)
  note facts = wf [unfolded vpo_ok_def] True
  show ?thesis
    unfolding viewportPosition_w_def [abs_def] viewportPosition_r_def [abs_def] vpo_rounded_def
    by ((rule codes_split codec_intro refl SEIViewportPosition.equality
      | (use facts in \<open>simp add: vpo_new_def zero\<close>; fail))+)
next
  case False
  note facts = wf [unfolded vpo_ok_def] False
  show ?thesis
    unfolding viewportPosition_w_def [abs_def] viewportPosition_r_def [abs_def]
    by ((rule vpo_pose_codes [OF wf] codes_split codec_intro refl
      | (use facts in \<open>simp add: vpo_new_def\<close>; fail))+)
qed

text \<open>A component of -1 or less (a NaN with the sign bit counts as one) cannot be converted at all.\<close>

lemma float_negative_undefined:
  assumes "float_negative w" and "127 \<le> float_exponent w"
  shows "write_float_as_int w n bs = None"
  using assms by (simp add: write_float_as_int_def float_to_uint_def Let_def)

lemma vpo_pose_negative:
  assumes "w \<in> {vpo_rotationQX x, vpo_rotationQY x, vpo_rotationQZ x}" and "float_negative w" and "127 \<le> float_exponent w"
  shows "vpo_pose_w x bs = None"
  using assms(1) float_negative_undefined [OF assms(2,3)]
  by (auto simp: vpo_pose_w_def split: bind_splits)

lemma vpo_negative:
  assumes "\<not> vpo_cancelFlag x" and "w \<in> {vpo_rotationQX x, vpo_rotationQY x, vpo_rotationQZ x}"
    and "float_negative w" and "127 \<le> float_exponent w"
  shows "viewportPosition_w x bs = None"
  using vpo_pose_negative [OF assms(2-4)] assms(1)
  by (auto simp: viewportPosition_w_def split: bind_splits)

definition vpo_wf :: "SEIViewportPosition \<Rightarrow> bool" where
  "vpo_wf x \<longleftrightarrow> vpo_ok x \<and> vpo_rounded x = x"

interpretation vpo: syntax_codec viewportPosition_w viewportPosition_r vpo_new vpo_wf
  by unfold_locales (metis vpo_codes vpo_wf_def)

end
