(* ===== verification/SeiList.thy ===== *)
theory SeiList
  imports SeiScene SeiViewport TileData
begin

unbundle bit_operations_syntax

text \<open>
  The lists of SEI messages of a tile layer (\<open>PCCSEI\<close> of \<open>PCCSei.h\<close>), the payload types
  (\<open>PCCBitstreamCommon.h\<close>) and the functions \<open>seiRbsp\<close>, \<open>seiMessage\<close> and \<open>seiPayload\<close> of the writer and
  the reader.

  A message is a \<open>SEI\<close>: the \<open>payloadSize_\<close> of the base class and the object of the derived class, one
  constructor of \<open>SeiBody\<close> per class. A \<open>static_cast\<close> to a class that is not the dynamic one is undefined, so
  the functions return \<open>None\<close> there; \<open>exit( -1 )\<close>, a failed \<open>assert\<close> and a null reference are \<open>None\<close> too.
\<close>

section \<open>Payload types and messages\<close>

datatype SeiPayloadType = BUFFERING_PERIOD | ATLAS_FRAME_TIMING | FILLER_PAYLOAD | USER_DATAREGISTERED_ITUTT35
  | USER_DATA_UNREGISTERED | RECOVERY_POINT | NO_RECONSTRUCTION | TIME_CODE | SEI_MANIFEST | SEI_PREFIX_INDICATION
  | ACTIVE_SUB_BITSTREAMS | COMPONENT_CODEC_MAPPING | SCENE_OBJECT_INFORMATION | OBJECT_LABEL_INFORMATION
  | PATCH_INFORMATION | VOLUMETRIC_RECTANGLE_INFORMATION | ATLAS_OBJECT_INFORMATION | VIEWPORT_CAMERA_PARAMETERS
  | VIEWPORT_POSITION | DECODED_ATLAS_INFORMATION_HASH | ATTRIBUTE_TRANSFORMATION_PARAMS | OCCUPANCY_SYNTHESIS
  | GEOMETRY_SMOOTHING | ATTRIBUTE_SMOOTHING | RESERVED_SEI_MESSAGE

text \<open>The values of the enumeration.\<close>

definition payloadTypes :: "(SeiPayloadType \<times> int) list" where
  "payloadTypes = [(BUFFERING_PERIOD, 0), (ATLAS_FRAME_TIMING, 1), (FILLER_PAYLOAD, 2), (USER_DATAREGISTERED_ITUTT35, 3),
     (USER_DATA_UNREGISTERED, 4), (RECOVERY_POINT, 5), (NO_RECONSTRUCTION, 6), (TIME_CODE, 7), (SEI_MANIFEST, 8),
     (SEI_PREFIX_INDICATION, 9), (ACTIVE_SUB_BITSTREAMS, 10), (COMPONENT_CODEC_MAPPING, 11),
     (SCENE_OBJECT_INFORMATION, 12), (OBJECT_LABEL_INFORMATION, 13), (PATCH_INFORMATION, 14),
     (VOLUMETRIC_RECTANGLE_INFORMATION, 15), (ATLAS_OBJECT_INFORMATION, 16), (VIEWPORT_CAMERA_PARAMETERS, 17),
     (VIEWPORT_POSITION, 18), (DECODED_ATLAS_INFORMATION_HASH, 19), (ATTRIBUTE_TRANSFORMATION_PARAMS, 64),
     (OCCUPANCY_SYNTHESIS, 65), (GEOMETRY_SMOOTHING, 66), (ATTRIBUTE_SMOOTHING, 67), (RESERVED_SEI_MESSAGE, 68)]"

definition payloadType_code :: "SeiPayloadType \<Rightarrow> int" where
  "payloadType_code t = the (map_of payloadTypes t)"

definition payloadType_of :: "int \<Rightarrow> SeiPayloadType option" where
  "payloadType_of v = map_of (map (\<lambda>(t, v). (v, t)) payloadTypes) v"

text \<open>\<open>SEINoDisplay\<close> has no members.\<close>

datatype SeiBody =
    BufferingPeriod SEIBufferingPeriod
  | AtlasFrameTiming SEIAtlasFrameTiming
  | UserDataRegistered SEIUserDataRegisteredItuTT35
  | UserDataUnregistered SEIUserDataUnregistered
  | RecoveryPoint SEIRecoveryPoint
  | NoDisplay
  | TimeCode SEITimeCode
  | Manifest SEIManifest
  | PrefixIndication SEIPrefixIndication
  | ActiveSubBitstreams SEIActiveSubBitstreams
  | ComponentCodecMapping SEIComponentCodecMapping
  | SceneObjectInformation SEISceneObjectInformation
  | ObjectLabelInformation SEIObjectLabelInformation
  | PatchInformation SEIPatchInformation
  | VolumetricRectangleInformation SEIVolumetricRectangleInformation
  | AtlasInformation SEIAtlasInformation
  | ViewportCameraParameters SEIViewportCameraParameters
  | ViewportPosition SEIViewportPosition
  | DecodedAtlasInformationHash SEIDecodedAtlasInformationHash
  | AttributeTransformationParams SEIAttributeTransformationParams
  | OccupancySynthesis SEIOccupancySynthesis
  | GeometrySmoothing SEIGeometrySmoothing
  | AttributeSmoothing SEIAttributeSmoothing
  | ReservedSeiMessage SEIReservedSeiMessage

record SEI =
  sei_payloadSize :: size_t
  sei_body :: SeiBody

fun body_payloadType :: "SeiBody \<Rightarrow> SeiPayloadType" where
  "body_payloadType (BufferingPeriod _) = BUFFERING_PERIOD"
| "body_payloadType (AtlasFrameTiming _) = ATLAS_FRAME_TIMING"
| "body_payloadType (UserDataRegistered _) = USER_DATAREGISTERED_ITUTT35"
| "body_payloadType (UserDataUnregistered _) = USER_DATA_UNREGISTERED"
| "body_payloadType (RecoveryPoint _) = RECOVERY_POINT"
| "body_payloadType NoDisplay = NO_RECONSTRUCTION"
| "body_payloadType (TimeCode _) = TIME_CODE"
| "body_payloadType (Manifest _) = SEI_MANIFEST"
| "body_payloadType (PrefixIndication _) = SEI_PREFIX_INDICATION"
| "body_payloadType (ActiveSubBitstreams _) = ACTIVE_SUB_BITSTREAMS"
| "body_payloadType (ComponentCodecMapping _) = COMPONENT_CODEC_MAPPING"
| "body_payloadType (SceneObjectInformation _) = SCENE_OBJECT_INFORMATION"
| "body_payloadType (ObjectLabelInformation _) = OBJECT_LABEL_INFORMATION"
| "body_payloadType (PatchInformation _) = PATCH_INFORMATION"
| "body_payloadType (VolumetricRectangleInformation _) = VOLUMETRIC_RECTANGLE_INFORMATION"
| "body_payloadType (AtlasInformation _) = ATLAS_OBJECT_INFORMATION"
| "body_payloadType (ViewportCameraParameters _) = VIEWPORT_CAMERA_PARAMETERS"
| "body_payloadType (ViewportPosition _) = VIEWPORT_POSITION"
| "body_payloadType (DecodedAtlasInformationHash _) = DECODED_ATLAS_INFORMATION_HASH"
| "body_payloadType (AttributeTransformationParams _) = ATTRIBUTE_TRANSFORMATION_PARAMS"
| "body_payloadType (OccupancySynthesis _) = OCCUPANCY_SYNTHESIS"
| "body_payloadType (GeometrySmoothing _) = GEOMETRY_SMOOTHING"
| "body_payloadType (AttributeSmoothing _) = ATTRIBUTE_SMOOTHING"
| "body_payloadType (ReservedSeiMessage _) = RESERVED_SEI_MESSAGE"

definition getPayloadType :: "SEI \<Rightarrow> SeiPayloadType" where
  "getPayloadType sei = body_payloadType (sei_body sei)"

text \<open>The indeterminate members of the five classes whose constructors leave some.\<close>

record SeiMemory =
  mem_bpr :: SEIBufferingPeriod
  mem_soi :: SEISceneObjectInformation
  mem_oli :: SEIObjectLabelInformation
  mem_pin :: SEIPatchInformation
  mem_vri :: SEIVolumetricRectangleInformation

section \<open>The lists\<close>

definition NAL_PREFIX_NSEI :: NalUnitType where "NAL_PREFIX_NSEI = 43"
definition NAL_SUFFIX_NSEI :: NalUnitType where "NAL_SUFFIX_NSEI = 44"
definition NAL_PREFIX_ESEI :: NalUnitType where "NAL_PREFIX_ESEI = 45"
definition NAL_SUFFIX_ESEI :: NalUnitType where "NAL_SUFFIX_ESEI = 46"

definition nal_prefix :: "NalUnitType \<Rightarrow> bool" where
  "nal_prefix t \<longleftrightarrow> t = NAL_PREFIX_ESEI \<or> t = NAL_PREFIX_NSEI"

definition nal_suffix :: "NalUnitType \<Rightarrow> bool" where
  "nal_suffix t \<longleftrightarrow> t = NAL_SUFFIX_ESEI \<or> t = NAL_SUFFIX_NSEI"

record PCCSEI =
  seiPrefix :: "SEI list"
  seiSuffix :: "SEI list"

definition pccsei_new :: PCCSEI where
  "pccsei_new = \<lparr>seiPrefix = [], seiSuffix = []\<rparr>"

text \<open>The object that \<open>addSei\<close> makes; none for the filler payload, whose pointer stays null.\<close>

fun sei_make :: "SeiMemory \<Rightarrow> SeiPayloadType \<Rightarrow> SeiBody option" where
  "sei_make g BUFFERING_PERIOD = Some (BufferingPeriod (bpr_new (mem_bpr g)))"
| "sei_make g ATLAS_FRAME_TIMING = Some (AtlasFrameTiming aft_new)"
| "sei_make g FILLER_PAYLOAD = None"
| "sei_make g USER_DATAREGISTERED_ITUTT35 = Some (UserDataRegistered ud35_new)"
| "sei_make g USER_DATA_UNREGISTERED = Some (UserDataUnregistered udu_new)"
| "sei_make g RECOVERY_POINT = Some (RecoveryPoint rp_new)"
| "sei_make g NO_RECONSTRUCTION = Some NoDisplay"
| "sei_make g TIME_CODE = Some (TimeCode tc_new)"
| "sei_make g SEI_MANIFEST = Some (Manifest sm_new)"
| "sei_make g SEI_PREFIX_INDICATION = Some (PrefixIndication spi_new)"
| "sei_make g ACTIVE_SUB_BITSTREAMS = Some (ActiveSubBitstreams asb_new)"
| "sei_make g COMPONENT_CODEC_MAPPING = Some (ComponentCodecMapping ccm_new)"
| "sei_make g SCENE_OBJECT_INFORMATION = Some (SceneObjectInformation (soi_new (mem_soi g)))"
| "sei_make g OBJECT_LABEL_INFORMATION = Some (ObjectLabelInformation (oli_new (mem_oli g)))"
| "sei_make g PATCH_INFORMATION = Some (PatchInformation (pin_new (mem_pin g)))"
| "sei_make g VOLUMETRIC_RECTANGLE_INFORMATION = Some (VolumetricRectangleInformation (vri_new (mem_vri g)))"
| "sei_make g ATLAS_OBJECT_INFORMATION = Some (AtlasInformation aoi_new)"
| "sei_make g VIEWPORT_CAMERA_PARAMETERS = Some (ViewportCameraParameters vcp_new)"
| "sei_make g VIEWPORT_POSITION = Some (ViewportPosition vpo_new)"
| "sei_make g DECODED_ATLAS_INFORMATION_HASH = Some (DecodedAtlasInformationHash dah_new)"
| "sei_make g ATTRIBUTE_TRANSFORMATION_PARAMS = Some (AttributeTransformationParams atp_new)"
| "sei_make g OCCUPANCY_SYNTHESIS = Some (OccupancySynthesis osy_new)"
| "sei_make g GEOMETRY_SMOOTHING = Some (GeometrySmoothing gsm_new)"
| "sei_make g ATTRIBUTE_SMOOTHING = Some (AttributeSmoothing asm_new)"
| "sei_make g RESERVED_SEI_MESSAGE = Some (ReservedSeiMessage rsm_new)"

text \<open>The new message and the lists with it at the end. \<open>t = None\<close> is a value outside the enumeration, for which
  \<open>addSei\<close> exits; it also exits for a NAL unit type that is not one of SEI messages.\<close>

definition addSei :: "SeiMemory \<Rightarrow> NalUnitType \<Rightarrow> SeiPayloadType option \<Rightarrow> PCCSEI \<Rightarrow> (SEI \<times> PCCSEI) option" where
  "addSei g nal t l = do {
     t \<leftarrow> t;
     b \<leftarrow> sei_make g t;
     let sei = \<lparr>sei_payloadSize = 0, sei_body = b\<rparr>;
     if nal_prefix nal then Some (sei, l\<lparr>seiPrefix := seiPrefix l @ [sei]\<rparr>)
     else if nal_suffix nal then Some (sei, l\<lparr>seiSuffix := seiSuffix l @ [sei]\<rparr>)
     else None
   }"

definition sei_list :: "NalUnitType \<Rightarrow> PCCSEI \<Rightarrow> SEI list" where
  "sei_list nal l = (if nal_prefix nal then seiPrefix l else seiSuffix l)"

definition seiIsPresent :: "NalUnitType \<Rightarrow> SeiPayloadType \<Rightarrow> PCCSEI \<Rightarrow> bool" where
  "seiIsPresent nal t l \<longleftrightarrow> (nal_prefix nal \<or> nal_suffix nal) \<and> list_ex (\<lambda>sei. getPayloadType sei = t) (sei_list nal l)"

definition getSei :: "NalUnitType \<Rightarrow> SeiPayloadType \<Rightarrow> PCCSEI \<Rightarrow> SEI option" where
  "getSei nal t l = List.find (\<lambda>sei. getPayloadType sei = t) (sei_list nal l)"

definition getLastSei :: "NalUnitType \<Rightarrow> SeiPayloadType \<Rightarrow> PCCSEI \<Rightarrow> SEI option" where
  "getLastSei nal t l = List.find (\<lambda>sei. getPayloadType sei = t) (rev (sei_list nal l))"

definition addSeiPrefix :: "SeiMemory \<Rightarrow> SeiPayloadType \<Rightarrow> bool \<Rightarrow> PCCSEI \<Rightarrow> (SEI \<times> PCCSEI) option" where
  "addSeiPrefix g t essential l = addSei g (if essential then NAL_PREFIX_ESEI else NAL_PREFIX_NSEI) (Some t) l"

definition addSeiSuffix :: "SeiMemory \<Rightarrow> SeiPayloadType \<Rightarrow> bool \<Rightarrow> PCCSEI \<Rightarrow> (SEI \<times> PCCSEI) option" where
  "addSeiSuffix g t essential l = addSei g (if essential then NAL_SUFFIX_ESEI else NAL_SUFFIX_NSEI) (Some t) l"

definition addSeiToSeiSuffix :: "SEI \<Rightarrow> PCCSEI \<Rightarrow> PCCSEI option" where
  "addSeiToSeiSuffix sei l = (case sei_body sei of
     DecodedAtlasInformationHash x \<Rightarrow> Some (l\<lparr>seiSuffix := seiSuffix l @ [sei]\<rparr>) | _ \<Rightarrow> None)"

text \<open>The message that the reader fills is the last one of its list.\<close>

definition sei_put :: "NalUnitType \<Rightarrow> SEI \<Rightarrow> PCCSEI \<Rightarrow> PCCSEI" where
  "sei_put nal sei l = (if nal_prefix nal then l\<lparr>seiPrefix := butlast (seiPrefix l) @ [sei]\<rparr>
     else l\<lparr>seiSuffix := butlast (seiSuffix l) @ [sei]\<rparr>)"

section \<open>Payloads\<close>

text \<open>The buffering period that an atlas frame timing message refers to: \<open>assert( seiIsPresent( \<dots> ) )\<close> and
  \<open>static_cast\<close> of \<open>*getLastSei( \<dots> )\<close>.\<close>

definition last_bufferingPeriod :: "PCCSEI \<Rightarrow> SEIBufferingPeriod option" where
  "last_bufferingPeriod l = (if seiIsPresent NAL_PREFIX_NSEI BUFFERING_PERIOD l
     then case getLastSei NAL_PREFIX_NSEI BUFFERING_PERIOD l of
         Some sei \<Rightarrow> (case sei_body sei of BufferingPeriod x \<Rightarrow> Some x | _ \<Rightarrow> None)
       | None \<Rightarrow> None
     else None)"

text \<open>\<open>put C W\<close>: a writer that does not change the message.\<close>

definition put :: "('a \<Rightarrow> SeiBody) \<Rightarrow> ('a \<Rightarrow> PCCBitstream \<Rightarrow> PCCBitstream option) \<Rightarrow> 'a \<Rightarrow> PCCBitstream
    \<Rightarrow> (SeiBody \<times> PCCBitstream) option" where
  "put C W x bs = do { bs \<leftarrow> W x bs; Some (C x, bs) }"

fun prefix_w :: "PCCSEI \<Rightarrow> size_t \<Rightarrow> SeiBody \<Rightarrow> PCCBitstream \<Rightarrow> (SeiBody \<times> PCCBitstream) option" where
  "prefix_w l n (BufferingPeriod x) = put BufferingPeriod bufferingPeriod_w x"
| "prefix_w l n (AtlasFrameTiming x) = (\<lambda>bs. do {
     bpsei \<leftarrow> last_bufferingPeriod l; put AtlasFrameTiming (atlasFrameTiming_w bpsei False) x bs })"
| "prefix_w l n (UserDataRegistered x) = put UserDataRegistered userDataRegisteredItuTT35_w x"
| "prefix_w l n (UserDataUnregistered x) = put UserDataUnregistered (userDataUnregistered_w n) x"
| "prefix_w l n (RecoveryPoint x) = put RecoveryPoint recoveryPoint_w x"
| "prefix_w l n NoDisplay = (\<lambda>bs. Some (NoDisplay, bs))"
| "prefix_w l n (TimeCode x) = put TimeCode timeCode_w x"
| "prefix_w l n (Manifest x) = put Manifest seiManifest_w x"
| "prefix_w l n (PrefixIndication x) = put PrefixIndication seiPrefixIndication_w x"
| "prefix_w l n (ActiveSubBitstreams x) = put ActiveSubBitstreams activeSubBitstreams_w x"
| "prefix_w l n (ComponentCodecMapping x) = (\<lambda>bs. do {
     (x, bs) \<leftarrow> componentCodecMapping_w x bs; Some (ComponentCodecMapping x, bs) })"
| "prefix_w l n (SceneObjectInformation x) = put SceneObjectInformation sceneObjectInformation_w x"
| "prefix_w l n (ObjectLabelInformation x) = put ObjectLabelInformation objectLabelInformation_w x"
| "prefix_w l n (PatchInformation x) = put PatchInformation patchInformation_w x"
| "prefix_w l n (VolumetricRectangleInformation x) =
     put VolumetricRectangleInformation volumetricRectangleInformation_w x"
| "prefix_w l n (AtlasInformation x) = put AtlasInformation atlasObjectInformation_w x"
| "prefix_w l n (ViewportCameraParameters x) = put ViewportCameraParameters viewportCameraParameters_w x"
| "prefix_w l n (ViewportPosition x) = put ViewportPosition viewportPosition_w x"
| "prefix_w l n (DecodedAtlasInformationHash x) = (\<lambda>bs. None)"
| "prefix_w l n (AttributeTransformationParams x) =
     put AttributeTransformationParams attributeTransformationParams_w x"
| "prefix_w l n (OccupancySynthesis x) = put OccupancySynthesis occupancySynthesis_w x"
| "prefix_w l n (GeometrySmoothing x) = put GeometrySmoothing geometrySmoothing_w x"
| "prefix_w l n (AttributeSmoothing x) = put AttributeSmoothing attributeSmoothing_w x"
| "prefix_w l n (ReservedSeiMessage x) = put ReservedSeiMessage (reservedSeiMessage_w n) x"

fun suffix_w :: "size_t \<Rightarrow> SeiBody \<Rightarrow> PCCBitstream \<Rightarrow> (SeiBody \<times> PCCBitstream) option" where
  "suffix_w n (UserDataRegistered x) = put UserDataRegistered userDataRegisteredItuTT35_w x"
| "suffix_w n (UserDataUnregistered x) = put UserDataUnregistered (userDataUnregistered_w n) x"
| "suffix_w n (DecodedAtlasInformationHash x) = put DecodedAtlasInformationHash decodedAtlasInformationHash_w x"
| "suffix_w n (ReservedSeiMessage x) = put ReservedSeiMessage (reservedSeiMessage_w n) x"
| "suffix_w n _ = (\<lambda>bs. None)"

text \<open>\<open>payloadExtensionPresent\<close> is constantly false.\<close>

definition payload_end_w :: "PCCBitstream \<Rightarrow> PCCBitstream option" where
  "payload_end_w bs = (if \<not> bs_byteAligned bs then byteAlignment_w bs else Some bs)"

definition payload_end_r :: "PCCBitstream \<Rightarrow> (unit \<times> PCCBitstream) option" where
  "payload_end_r bs = (if \<not> bs_byteAligned bs then byteAlignment_r bs else Some ((), bs))"

definition seiPayload_w :: "PCCSEI \<Rightarrow> NalUnitType \<Rightarrow> SEI \<Rightarrow> PCCBitstream \<Rightarrow> (SEI \<times> PCCBitstream) option" where
  "seiPayload_w l nal sei bs = do {
     (b, bs) \<leftarrow> (if nal_prefix nal then prefix_w l (sei_payloadSize sei) (sei_body sei) bs
                 else suffix_w (sei_payloadSize sei) (sei_body sei) bs);
     bs \<leftarrow> payload_end_w bs;
     Some (sei\<lparr>sei_body := b\<rparr>, bs)
   }"

text \<open>\<open>into C R\<close>: a reader of one of the classes.\<close>

definition into :: "('a \<Rightarrow> SeiBody) \<Rightarrow> ('a \<Rightarrow> PCCBitstream \<Rightarrow> ('a \<times> PCCBitstream) option) \<Rightarrow> 'a \<Rightarrow> PCCBitstream
    \<Rightarrow> (SeiBody \<times> PCCBitstream) option" where
  "into C R x bs = do { (x, bs) \<leftarrow> R x bs; Some (C x, bs) }"

fun prefix_r :: "PCCSEI \<Rightarrow> size_t \<Rightarrow> SeiBody \<Rightarrow> PCCBitstream \<Rightarrow> (SeiBody \<times> PCCBitstream) option" where
  "prefix_r l n (BufferingPeriod x) = into BufferingPeriod bufferingPeriod_r x"
| "prefix_r l n (AtlasFrameTiming x) = (\<lambda>bs. do {
     bpsei \<leftarrow> last_bufferingPeriod l; into AtlasFrameTiming (atlasFrameTiming_r bpsei False) x bs })"
| "prefix_r l n (UserDataRegistered x) = into UserDataRegistered (userDataRegisteredItuTT35_r n) x"
| "prefix_r l n (UserDataUnregistered x) = into UserDataUnregistered (userDataUnregistered_r n) x"
| "prefix_r l n (RecoveryPoint x) = into RecoveryPoint recoveryPoint_r x"
| "prefix_r l n NoDisplay = (\<lambda>bs. Some (NoDisplay, bs))"
| "prefix_r l n (TimeCode x) = into TimeCode timeCode_r x"
| "prefix_r l n (Manifest x) = into Manifest seiManifest_r x"
| "prefix_r l n (PrefixIndication x) = into PrefixIndication seiPrefixIndication_r x"
| "prefix_r l n (ActiveSubBitstreams x) = into ActiveSubBitstreams activeSubBitstreams_r x"
| "prefix_r l n (ComponentCodecMapping x) = into ComponentCodecMapping componentCodecMapping_r x"
| "prefix_r l n (SceneObjectInformation x) = into SceneObjectInformation sceneObjectInformation_r x"
| "prefix_r l n (ObjectLabelInformation x) = into ObjectLabelInformation objectLabelInformation_r x"
| "prefix_r l n (PatchInformation x) = into PatchInformation patchInformation_r x"
| "prefix_r l n (VolumetricRectangleInformation x) =
     into VolumetricRectangleInformation volumetricRectangleInformation_r x"
| "prefix_r l n (AtlasInformation x) = into AtlasInformation atlasObjectInformation_r x"
| "prefix_r l n (ViewportCameraParameters x) = into ViewportCameraParameters viewportCameraParameters_r x"
| "prefix_r l n (ViewportPosition x) = into ViewportPosition viewportPosition_r x"
| "prefix_r l n (DecodedAtlasInformationHash x) = (\<lambda>bs. None)"
| "prefix_r l n (AttributeTransformationParams x) =
     into AttributeTransformationParams attributeTransformationParams_r x"
| "prefix_r l n (OccupancySynthesis x) = into OccupancySynthesis occupancySynthesis_r x"
| "prefix_r l n (GeometrySmoothing x) = into GeometrySmoothing geometrySmoothing_r x"
| "prefix_r l n (AttributeSmoothing x) = into AttributeSmoothing attributeSmoothing_r x"
| "prefix_r l n (ReservedSeiMessage x) = into ReservedSeiMessage (reservedSeiMessage_r n) x"

fun suffix_r :: "size_t \<Rightarrow> SeiBody \<Rightarrow> PCCBitstream \<Rightarrow> (SeiBody \<times> PCCBitstream) option" where
  "suffix_r n (UserDataRegistered x) = into UserDataRegistered (userDataRegisteredItuTT35_r n) x"
| "suffix_r n (UserDataUnregistered x) = into UserDataUnregistered (userDataUnregistered_r n) x"
| "suffix_r n (DecodedAtlasInformationHash x) = into DecodedAtlasInformationHash decodedAtlasInformationHash_r x"
| "suffix_r n (ReservedSeiMessage x) = into ReservedSeiMessage (reservedSeiMessage_r n) x"
| "suffix_r n _ = (\<lambda>bs. None)"

definition seiPayload_r ::
  "SeiMemory \<Rightarrow> NalUnitType \<Rightarrow> SeiPayloadType option \<Rightarrow> size_t \<Rightarrow> PCCSEI \<Rightarrow> PCCBitstream \<Rightarrow> (PCCSEI \<times> PCCBitstream) option" where
  "seiPayload_r g nal t payloadSize l bs = do {
     (sei, l) \<leftarrow> addSei g nal t l;
     (b, bs) \<leftarrow> (if nal_prefix nal then prefix_r l payloadSize (sei_body sei) bs
                 else suffix_r payloadSize (sei_body sei) bs);
     (u, bs) \<leftarrow> payload_end_r bs;
     Some (sei_put nal (sei\<lparr>sei_body := b\<rparr>) l, bs)
   }"

section \<open>Messages\<close>

text \<open>A number as a sequence of bytes \<open>0xff\<close> and a last byte.\<close>

function ff_w :: "int \<Rightarrow> PCCBitstream \<Rightarrow> PCCBitstream option" where
  "ff_w n bs = (if 255 \<le> n then do { bs \<leftarrow> bs_write 0xff 8 bs; ff_w (n - 255) bs } else bs_write (word_of_int n) 8 bs)"
  by pat_completeness auto
termination by (relation "measure (\<lambda>(n, _). nat n)") auto

declare ff_w.simps [simp del]

text \<open>The reader adds up the bytes in an \<open>int32_t\<close>.\<close>

partial_function (option) ff_r :: "int \<Rightarrow> PCCBitstream \<Rightarrow> (int \<times> PCCBitstream) option" where
  "ff_r n bs = Option.bind (bs_read 8 bs) (\<lambda>(byte, bs).
     if \<not> int32_in (n + uint byte) then None
     else if byte = 0xff then ff_r (n + uint byte) bs else Some (n + uint byte, bs))"

text \<open>The size of the payload is measured on a temporary stream, stored in the message and taken as an \<open>int32_t\<close>.\<close>

definition seiMessage_w :: "PCCSEI \<Rightarrow> NalUnitType \<Rightarrow> SEI \<Rightarrow> PCCBitstream \<Rightarrow> (SEI \<times> PCCBitstream) option" where
  "seiMessage_w l nal sei bs = do {
     bs \<leftarrow> ff_w (payloadType_code (getPayloadType sei)) bs;
     (sei, tempbitstream) \<leftarrow> seiPayload_w l nal sei bs_new;
     let sei = sei\<lparr>sei_payloadSize := of_nat (bs_size tempbitstream)\<rparr>;
     bs \<leftarrow> ff_w (sint (ucast (sei_payloadSize sei) :: uint32_t)) bs;
     seiPayload_w l nal sei bs
   }"

definition seiMessage_r :: "SeiMemory \<Rightarrow> NalUnitType \<Rightarrow> PCCSEI \<Rightarrow> PCCBitstream \<Rightarrow> (PCCSEI \<times> PCCBitstream) option" where
  "seiMessage_r g nal l bs = do {
     (payloadType, bs) \<leftarrow> ff_r 0 bs;
     (payloadSize, bs) \<leftarrow> ff_r 0 bs;
     seiPayload_r g nal (payloadType_of payloadType) (word_of_int payloadSize) l bs
   }"

definition seiRbsp_w :: "PCCSEI \<Rightarrow> NalUnitType \<Rightarrow> SEI \<Rightarrow> PCCBitstream \<Rightarrow> (SEI \<times> PCCBitstream) option" where
  "seiRbsp_w l nal sei bs = seiMessage_w l nal sei bs"

definition seiRbsp_r :: "SeiMemory \<Rightarrow> NalUnitType \<Rightarrow> PCCSEI \<Rightarrow> PCCBitstream \<Rightarrow> (PCCSEI \<times> PCCBitstream) option" where
  "seiRbsp_r g nal l bs = seiMessage_r g nal l bs"

section \<open>Round trip of a message\<close>

subsection \<open>Numbers\<close>

lemma ff_codes:
  assumes "0 \<le> n" and "0 \<le> a" and "a + n < 2 ^ 31"
  shows "codes (ff_w n) (ff_r a) (a + n)"
  using assms
proof (induction "nat n" arbitrary: n a rule: less_induct)
  case less
  have W: "ff_w n = (\<lambda>bs. if 255 \<le> n then Option.bind (bs_write 0xff 8 bs) (ff_w (n - 255)) else bs_write (word_of_int n) 8 bs)"
    by (rule ext, subst ff_w.simps) (rule refl)
  have R: "ff_r a = (\<lambda>bs. Option.bind (bs_read 8 bs) (\<lambda>(byte, bs).
     if \<not> int32_in (a + uint byte) then None
     else if byte = 0xff then ff_r (a + uint byte) bs else Some (a + uint byte, bs)))"
    by (rule ext, subst ff_r.simps) (rule refl)
  show ?case
  proof (cases "255 \<le> n")
    case True
    have "codes (ff_w (n - 255)) (ff_r (a + 255)) (a + 255 + (n - 255))" using less True by (intro less.hyps) simp_all
    then have next_byte: "codes (ff_w (n - 255)) (\<lambda>bs. if \<not> int32_in (a + uint (0xff :: uint32_t)) then None
       else if (0xff :: uint32_t) = 0xff then ff_r (a + uint (0xff :: uint32_t)) bs
       else Some (a + uint (0xff :: uint32_t), bs)) (a + n)"
      using less.prems True by (simp add: int32_in_def)
    show ?thesis
      unfolding W R if_P [OF True]
      by (rule codes_bind [where ?y1.0 = 255 and ?R2.0 = "\<lambda>byte bs. if \<not> int32_in (a + uint byte) then None
       else if byte = 0xff then ff_r (a + uint byte) bs else Some (a + uint byte, bs)", OF _ next_byte]) (rule codes_u, simp_all)
  next
    case False
    define v :: uint32_t where "v = word_of_int n"
    have v: "uint v = n" "unat v < 2 ^ 8" "v \<noteq> 0xff"
      using less.prems False unfolding v_def
      by (auto simp: unat_eq_nat_uint uint_word_of_int word_uint_eq_iff)
    have "codes Some (\<lambda>bs. if \<not> int32_in (a + uint v) then None
       else if v = 0xff then ff_r (a + uint v) bs else Some (a + uint v, bs)) (a + n)"
      using less.prems v by (auto simp: int32_in_def intro: codec_intro)
    then have "codes (\<lambda>bs. Option.bind (bs_write v 8 bs) Some) (ff_r a) (a + n)"
      unfolding R
      by (intro codes_bind [where ?y1.0 = v and ?R2.0 = "\<lambda>byte bs. if \<not> int32_in (a + uint byte) then None
       else if byte = 0xff then ff_r (a + uint byte) bs else Some (a + uint byte, bs)"] codes_u) (use v in simp_all)
    then show ?thesis unfolding W using False by (simp add: v_def)
  qed
qed

lemma payload_end_codes [codec_intro]: "codes payload_end_w payload_end_r ()"
proof -
  obtain N where N: "\<And>bs. bs_inv bs \<Longrightarrow> \<exists>bs'. byteAlignment_w bs = Some bs' \<and> bs_inv bs' \<and> bs_extends bs' bs
     \<and> lin (bs_pos bs') = lin (bs_pos bs) + N (lin (bs_pos bs) mod 8)
     \<and> (\<forall>fs. bs_extends fs bs' \<longrightarrow> byteAlignment_r (bs_setPosition (bs_pos bs) fs) = Some ((), bs_setPosition (bs_pos bs') fs))"
    using codesN [OF codes_byteAlignment] by blast
  show ?thesis
  proof (rule codesI [where N = "\<lambda>b. if b = 0 then 0 else N b"])
    fix bs assume inv: "bs_inv bs"
    have al: "lin (bs_pos bs) mod 8 = 0 \<longleftrightarrow> bs_byteAligned bs"
      using inv by (simp add: bs_inv_def lin_def bs_byteAligned_def)
    show "\<exists>bs'. payload_end_w bs = Some bs' \<and> bs_inv bs' \<and> bs_extends bs' bs
      \<and> lin (bs_pos bs') = lin (bs_pos bs) + (if lin (bs_pos bs) mod 8 = 0 then 0 else N (lin (bs_pos bs) mod 8))
      \<and> (\<forall>fs. bs_extends fs bs' \<longrightarrow> payload_end_r (bs_setPosition (bs_pos bs) fs) = Some ((), bs_setPosition (bs_pos bs') fs))"
    proof (cases "bs_byteAligned bs")
      case True
      then show ?thesis
        using inv by (auto simp: al payload_end_w_def payload_end_r_def bs_byteAligned_def bs_setPosition_def bs_extends_def bs_inv_def)
    next
      case False
      have r: "payload_end_r (bs_setPosition (bs_pos bs) fs) = byteAlignment_r (bs_setPosition (bs_pos bs) fs)" for fs
        using False by (simp add: payload_end_r_def bs_byteAligned_def bs_setPosition_def)
      show ?thesis using N [OF inv] False by (simp add: al payload_end_w_def r)
    qed
  qed
qed

subsection \<open>Payloads\<close>

fun body_wf :: "SeiMemory \<Rightarrow> size_t \<Rightarrow> SeiBody \<Rightarrow> bool" where
  "body_wf g n (BufferingPeriod x) = bpr_wf x"
| "body_wf g n (AtlasFrameTiming x) = (x = aft_new)"
| "body_wf g n (UserDataRegistered x) = ud35_wf x"
| "body_wf g n (UserDataUnregistered x) = (length (udu_uuidIsoIec11578 x) = 16
     \<and> length (udu_userDataPayloadByte x) < 2 ^ 63 \<and> n = of_nat (16 + length (udu_userDataPayloadByte x)))"
| "body_wf g n (RecoveryPoint x) = rp_wf x"
| "body_wf g n NoDisplay = True"
| "body_wf g n (TimeCode x) = tc_wf x"
| "body_wf g n (Manifest x) = sm_wf x"
| "body_wf g n (PrefixIndication x) = False"
| "body_wf g n (ActiveSubBitstreams x) = asb_wf x"
| "body_wf g n (ComponentCodecMapping x) = ccm_wf x"
| "body_wf g n (SceneObjectInformation x) = soi_wf (mem_soi g) x"
| "body_wf g n (ObjectLabelInformation x) = oli_wf (mem_oli g) x"
| "body_wf g n (PatchInformation x) = pin_wf (mem_pin g) x"
| "body_wf g n (VolumetricRectangleInformation x) = vri_wf (mem_vri g) x"
| "body_wf g n (AtlasInformation x) = aoi_wf x"
| "body_wf g n (ViewportCameraParameters x) = vcp_wf x"
| "body_wf g n (ViewportPosition x) = vpo_wf x"
| "body_wf g n (DecodedAtlasInformationHash x) = dah_wf x"
| "body_wf g n (AttributeTransformationParams x) = atp_wf x"
| "body_wf g n (OccupancySynthesis x) = osy_wf x"
| "body_wf g n (GeometrySmoothing x) = gsm_wf x"
| "body_wf g n (AttributeSmoothing x) = asm_wf x"
| "body_wf g n (ReservedSeiMessage x) = (length (rsm_payloadByte x) < 2 ^ 64 \<and> n = of_nat (length (rsm_payloadByte x)))"

text \<open>The messages whose reader depends on the payload size, with the number of bytes they take.\<close>

fun body_bytes :: "SeiBody \<Rightarrow> nat option" where
  "body_bytes (UserDataRegistered x) = Some (ud35_size x)"
| "body_bytes (UserDataUnregistered x) = Some (16 + length (udu_userDataPayloadByte x))"
| "body_bytes (ReservedSeiMessage x) = Some (length (rsm_payloadByte x))"
| "body_bytes _ = None"

fun in_prefix :: "SeiBody \<Rightarrow> bool" where
  "in_prefix (DecodedAtlasInformationHash x) = False"
| "in_prefix _ = True"

fun in_suffix :: "SeiBody \<Rightarrow> bool" where
  "in_suffix (DecodedAtlasInformationHash x) = True"
| "in_suffix x = (body_bytes x \<noteq> None)"

fun is_timing :: "SeiBody \<Rightarrow> bool" where
  "is_timing (AtlasFrameTiming x) = True"
| "is_timing _ = False"

lemma put_codes:
  assumes "codes (W x) (R y) x"
  shows "codes (\<lambda>bs. Option.bind (put C W x bs) (\<lambda>(_, bs). Some bs)) (into C R y) (C x)"
proof -
  have "codes (\<lambda>bs. Option.bind (W x bs) Some) (\<lambda>bs. Option.bind (R y bs) (\<lambda>(x, bs). Some (C x, bs))) (C x)"
    by (rule codes_bind [OF assms]) (rule codec_intro refl)+
  then show ?thesis by (simp add: put_def [abs_def] into_def [abs_def] Option.bind_assoc)
qed

lemma put_keeps: "put C W x bs = Some (b, bs') \<Longrightarrow> b = C x"
  by (auto simp: put_def split: bind_splits)

lemma body_keeps:
  assumes "body_wf g n x"
  shows "prefix_w l m x bs = Some (x', bs') \<Longrightarrow> x' = x" and "suffix_w m x bs = Some (x', bs') \<Longrightarrow> x' = x"
  using assms by (cases x; auto simp: put_def dest: ccm_keeps split: bind_splits prod.splits)+

subsection \<open>Sizes\<close>

text \<open>\<open>writes m W\<close>: the writer \<open>W\<close> returns after \<open>m\<close> bits.\<close>

definition writes :: "nat \<Rightarrow> (PCCBitstream \<Rightarrow> PCCBitstream option) \<Rightarrow> bool" where
  "writes m W \<longleftrightarrow> (\<forall>bs. bs_inv bs \<longrightarrow> (\<exists>bs'. W bs = Some bs' \<and> bs_inv bs' \<and> lin (bs_pos bs') = lin (bs_pos bs) + m))"

lemma writes_u: "n \<le> 32 \<Longrightarrow> writes n (bs_write v n)"
  using bs_write_bits by (fastforce simp: writes_def)

lemma writes_Some: "writes 0 Some"
  by (simp add: writes_def)

lemma writes_bind:
  assumes "writes m W" and "writes k W'"
  shows "writes (m + k) (\<lambda>bs. Option.bind (W bs) W')"
  unfolding writes_def
proof (intro allI impI)
  fix bs assume "bs_inv bs"
  then obtain b1 where "W bs = Some b1" "bs_inv b1" "lin (bs_pos b1) = lin (bs_pos bs) + m"
    using assms(1) by (auto simp: writes_def)
  moreover from this(2) obtain b2 where "W' b1 = Some b2" "bs_inv b2" "lin (bs_pos b2) = lin (bs_pos b1) + k"
    using assms(2) by (auto simp: writes_def)
  ultimately show "\<exists>bs'. Option.bind (W bs) W' = Some bs' \<and> bs_inv bs' \<and> lin (bs_pos bs') = lin (bs_pos bs) + (m + k)"
    by simp
qed

lemma writes_loop:
  assumes "\<And>i. i \<in> set is \<Longrightarrow> writes m (W i)"
  shows "writes (length is * m) (for_loop is W)"
  using assms
proof (induction "is")
  case (Cons i "is")
  have "writes (m + length is * m) (\<lambda>bs. Option.bind (W i bs) (for_loop is W))"
    using Cons by (intro writes_bind) simp_all
  moreover have "for_loop (i # is) W = (\<lambda>bs. Option.bind (W i bs) (for_loop is W))" by (rule ext) simp
  ultimately show ?case by simp
qed (simp add: writes_def)

lemma writes_if: "(b \<Longrightarrow> writes m W) \<Longrightarrow> (\<not> b \<Longrightarrow> writes k W') \<Longrightarrow> writes (if b then m else k) (\<lambda>bs. if b then W bs else W' bs)"
  by simp

lemma writes_byte: "i < length l \<Longrightarrow> writes 8 (byte_w l i)"
  using writes_bind [OF writes_u [of 8 "ucast (l ! i)"] writes_Some] by (simp add: byte_w_def [abs_def])

lemma writes_put: "writes m (W x) \<Longrightarrow> writes m (\<lambda>bs. Option.bind (put C W x bs) (\<lambda>(_, bs). Some bs))"
  by (simp add: put_def Option.bind_assoc)

lemma writes_bytes: "n = length b \<Longrightarrow> writes (8 * n) (for_loop [0..<n] (byte_w b))"
  using writes_loop [of "[0..<n]" 8 "byte_w b"] writes_byte by (simp add: mult.commute)

lemma ud35_writes: "writes (8 * ud35_size x) (userDataRegisteredItuTT35_w x)"
proof -
  let ?f = "ud35_countryCode x = 0xFF"
  have "writes (8 + ((if ?f then 8 + 0 else 0) + (length (ud35_payloadByte x) * 8 + 0))) (userDataRegisteredItuTT35_w x)"
    unfolding userDataRegisteredItuTT35_w_def [abs_def]
    by (intro writes_bind writes_if writes_loop writes_u writes_Some) simp_all
  moreover have "8 + ((if ?f then 8 + 0 else 0) + (length (ud35_payloadByte x) * 8 + 0)) = 8 * ud35_size x"
    by (simp add: ud35_size_def)
  ultimately show ?thesis by simp
qed

lemma udu_writes:
  assumes "length (udu_uuidIsoIec11578 x) = 16" and "length (udu_userDataPayloadByte x) < 2 ^ 63"
    and "n = of_nat (16 + length (udu_userDataPayloadByte x))"
  shows "writes (8 * (16 + length (udu_userDataPayloadByte x))) (userDataUnregistered_w n x)"
proof -
  have n: "unat (n - 16) = length (udu_userDataPayloadByte x)"
    using assms(2,3) by (simp add: unat_of_nat_size)
  have "writes (8 * 16 + (8 * unat (n - 16) + 0)) (userDataUnregistered_w n x)"
    unfolding userDataUnregistered_w_def [abs_def] using assms(1) n
    by (intro writes_bind writes_bytes writes_Some) simp_all
  then show ?thesis by (simp add: n distrib_left)
qed

lemma rsm_writes:
  assumes "length (rsm_payloadByte x) < 2 ^ 64" and "n = of_nat (length (rsm_payloadByte x))"
  shows "writes (8 * length (rsm_payloadByte x)) (reservedSeiMessage_w n x)"
  unfolding reservedSeiMessage_w_def [abs_def]
  using assms writes_bytes [OF refl, of "rsm_payloadByte x"] by (simp add: unat_of_nat_size)

lemma body_writes:
  assumes "body_wf g n x" and "body_bytes x = Some m"
  shows "writes (8 * m) (\<lambda>bs. Option.bind (prefix_w l n x bs) (\<lambda>(_, bs). Some bs))"
    and "writes (8 * m) (\<lambda>bs. Option.bind (suffix_w n x bs) (\<lambda>(_, bs). Some bs))"
  using assms by (cases x; auto intro!: writes_put ud35_writes udu_writes [simplified] rsm_writes)+

subsection \<open>Reading a payload\<close>

lemma prefix_codes:
  assumes "body_wf g n x" and "in_prefix x" and "sei_make g (body_payloadType x) = Some y"
    and "is_timing x \<Longrightarrow> last_bufferingPeriod l \<noteq> None" and "is_timing x \<Longrightarrow> last_bufferingPeriod l' \<noteq> None"
    and "\<And>m. body_bytes x = Some m \<Longrightarrow> n' = of_nat m"
  shows "codes (\<lambda>bs. Option.bind (prefix_w l n x bs) (\<lambda>(_, bs). Some bs)) (prefix_r l' n' y) x"
proof (cases x)
  case (AtlasFrameTiming z)
  then obtain b b' where b: "last_bufferingPeriod l = Some b" "last_bufferingPeriod l' = Some b'" using assms(4,5) by auto
  have "codes (atlasFrameTiming_w b False z) (atlasFrameTiming_r b' False aft_new) z"
    using assms(1) AtlasFrameTiming
    by (auto simp: atlasFrameTiming_w_def [abs_def] atlasFrameTiming_r_def [abs_def] intro: codec_intro)
  then show ?thesis using put_codes assms(3) AtlasFrameTiming b by fastforce
next
  case (ComponentCodecMapping z)
  have "codes (ccm_put z) (componentCodecMapping_r ccm_new) z" using assms(1) ComponentCodecMapping by (simp add: ccm_codes)
  then have "codes (\<lambda>bs. Option.bind (ccm_put z bs) Some)
      (\<lambda>bs. Option.bind (componentCodecMapping_r ccm_new bs) (\<lambda>(x, bs). Some (ComponentCodecMapping x, bs))) x"
    unfolding ComponentCodecMapping by (rule codes_bind) (rule codec_intro refl)+
  then show ?thesis
    using assms(3) ComponentCodecMapping by (auto simp: ccm_put_def [abs_def] into_def [abs_def] Option.bind_assoc case_prod_unfold)
next
  case NoDisplay
  then show ?thesis using assms(3) by (auto intro: codec_intro)
qed (use assms in \<open>auto intro!: put_codes ud35_codes udu_codes rsm_codes bpr.wr_rd rp.wr_rd tc.wr_rd sm.wr_rd asb.wr_rd
    soi.wr_rd oli.wr_rd pin.wr_rd vri.wr_rd aoi.wr_rd vcp.wr_rd vpo.wr_rd dah.wr_rd atp.wr_rd osy.wr_rd gsm.wr_rd asm.wr_rd\<close>)

lemma suffix_codes:
  assumes "body_wf g n x" and "in_suffix x" and "sei_make g (body_payloadType x) = Some y"
    and "\<And>m. body_bytes x = Some m \<Longrightarrow> n' = of_nat m"
  shows "codes (\<lambda>bs. Option.bind (suffix_w n x bs) (\<lambda>(_, bs). Some bs)) (suffix_r n' y) x"
  using assms by (cases x) (auto intro!: put_codes ud35_codes udu_codes rsm_codes dah.wr_rd)

text \<open>Well-formed messages for a NAL unit type.\<close>

definition sei_wf :: "SeiMemory \<Rightarrow> NalUnitType \<Rightarrow> SEI \<Rightarrow> bool" where
  "sei_wf g nal sei \<longleftrightarrow> (if nal_prefix nal then in_prefix (sei_body sei) else nal_suffix nal \<and> in_suffix (sei_body sei))
     \<and> body_wf g (sei_payloadSize sei) (sei_body sei)"

text \<open>What the lists of both sides hold for a timing message.\<close>

definition sei_context :: "NalUnitType \<Rightarrow> SEI \<Rightarrow> PCCSEI \<Rightarrow> bool" where
  "sei_context nal sei l \<longleftrightarrow> (is_timing (sei_body sei) \<longrightarrow> last_bufferingPeriod l \<noteq> None)"

definition sei_append :: "NalUnitType \<Rightarrow> SEI \<Rightarrow> PCCSEI \<Rightarrow> PCCSEI" where
  "sei_append nal sei l = (if nal_prefix nal then l\<lparr>seiPrefix := seiPrefix l @ [sei]\<rparr> else l\<lparr>seiSuffix := seiSuffix l @ [sei]\<rparr>)"

lemma sei_wf_make: "sei_wf g nal sei \<Longrightarrow> \<exists>b. sei_make g (getPayloadType sei) = Some b"
  by (cases "sei_body sei") (auto simp: getPayloadType_def sei_wf_def)

lemma addSei_eq:
  assumes "sei_make g t = Some b" and "nal_prefix nal \<or> nal_suffix nal"
  shows "addSei g nal (Some t) l = Some (\<lparr>sei_payloadSize = 0, sei_body = b\<rparr>, sei_append nal \<lparr>sei_payloadSize = 0, sei_body = b\<rparr> l)"
  using assms by (auto simp: addSei_def sei_append_def Let_def)

lemma sei_put_append: "sei_put nal s (sei_append nal s' l) = sei_append nal s l"
  by (simp add: sei_put_def sei_append_def)

lemma make_type: "sei_make g t = Some b \<Longrightarrow> body_payloadType b = t"
  by (cases t) auto

text \<open>Appending a message that is no buffering period keeps the last buffering period.\<close>

lemma last_bufferingPeriod_append:
  assumes "body_payloadType (sei_body s) \<noteq> BUFFERING_PERIOD"
  shows "last_bufferingPeriod (sei_append nal s l) = last_bufferingPeriod l"
  using assms
  by (simp add: last_bufferingPeriod_def sei_append_def seiIsPresent_def getLastSei_def sei_list_def getPayloadType_def
      nal_prefix_def)

lemma is_timing_type: "is_timing x \<longleftrightarrow> body_payloadType x = ATLAS_FRAME_TIMING"
  by (cases x) simp_all

lemma seiPayload_keeps:
  assumes "sei_wf g nal sei" and "seiPayload_w l nal sei bs = Some (sei', bs')"
  shows "sei' = sei"
  using assms body_keeps by (fastforce simp: sei_wf_def seiPayload_w_def split: bind_splits if_splits)

lemma payload_w_codes:
  assumes wf: "sei_wf g nal sei" and ctx: "sei_context nal sei l" "sei_context nal sei l'"
    and t: "t = Some (getPayloadType sei)" and n: "\<And>m. body_bytes (sei_body sei) = Some m \<Longrightarrow> n = of_nat m"
  shows "codes (\<lambda>bs. Option.bind (seiPayload_w l nal sei bs) (\<lambda>(_, bs). Some bs)) (seiPayload_r g nal t n l')
     (sei_append nal \<lparr>sei_payloadSize = 0, sei_body = sei_body sei\<rparr> l')"
proof -
  let ?x = "sei_body sei"
  obtain b where b: "sei_make g (body_payloadType ?x) = Some b"
    using sei_wf_make [OF wf] by (auto simp: getPayloadType_def)
  have nal: "nal_prefix nal \<or> nal_suffix nal" using wf by (auto simp: sei_wf_def split: if_splits)
  let ?new = "\<lparr>sei_payloadSize = 0, sei_body = b\<rparr>"
  let ?l = "sei_append nal ?new l'"
  have bp: "is_timing ?x \<Longrightarrow> last_bufferingPeriod ?l \<noteq> None"
    using ctx(2) make_type [OF b] by (simp add: sei_context_def is_timing_type last_bufferingPeriod_append)
  have body: "codes (\<lambda>bs. Option.bind (if nal_prefix nal then prefix_w l (sei_payloadSize sei) ?x bs
         else suffix_w (sei_payloadSize sei) ?x bs) (\<lambda>(_, bs). Some bs))
      (\<lambda>bs. if nal_prefix nal then prefix_r ?l n b bs else suffix_r n b bs) ?x"
    using wf ctx(1) bp n b by (auto simp: sei_wf_def sei_context_def intro!: prefix_codes suffix_codes split: if_splits)
  have W: "(\<lambda>bs. Option.bind (seiPayload_w l nal sei bs) (\<lambda>(_, bs). Some bs)) =
      (\<lambda>bs. Option.bind (Option.bind (if nal_prefix nal then prefix_w l (sei_payloadSize sei) ?x bs
         else suffix_w (sei_payloadSize sei) ?x bs) (\<lambda>(_, bs). Some bs)) (\<lambda>bs. Option.bind (payload_end_w bs) Some))"
    by (rule ext) (simp add: seiPayload_w_def Option.bind_assoc case_prod_unfold)
  have R: "seiPayload_r g nal t n l' =
      (\<lambda>bs. Option.bind (if nal_prefix nal then prefix_r ?l n b bs else suffix_r n b bs) (\<lambda>(x, bs).
         Option.bind (payload_end_r bs) (\<lambda>(u, bs). Some (sei_put nal (?new\<lparr>sei_body := x\<rparr>) ?l, bs))))"
    using b nal t by (intro ext) (simp add: seiPayload_r_def addSei_eq getPayloadType_def)
  show ?thesis
    unfolding W R
    by (rule codes_bind [OF body], rule codes_bind [OF payload_end_codes], rule codec_intro) (simp add: sei_put_append)
qed

text \<open>The number of bytes the payload takes on the temporary stream.\<close>

definition payload_bytes :: "PCCSEI \<Rightarrow> NalUnitType \<Rightarrow> SEI \<Rightarrow> nat" where
  "payload_bytes l nal sei = (case seiPayload_w l nal sei bs_new of Some (_, bs) \<Rightarrow> bs_size bs | None \<Rightarrow> 0)"

lemma new_inv: "bs_inv bs_new"
  by (simp add: bs_inv_def bs_new_def lin_def)

lemma lin_new: "lin (bs_pos bs_new) = 0"
  by (simp add: bs_new_def lin_def)

lemma seiPayload_w_new:
  assumes "sei_wf g nal sei" and "sei_context nal sei l"
  obtains bs where "seiPayload_w l nal sei bs_new = Some (sei, bs)" and "bs_size bs = payload_bytes l nal sei"
proof -
  obtain m where "\<And>k. body_bytes (sei_body sei) = Some k \<Longrightarrow> (of_nat m :: size_t) = of_nat k"
    by (cases "body_bytes (sei_body sei)") auto
  from codesE [OF payload_w_codes [OF assms(1,2,2) refl this] new_inv]
  obtain s bs where w: "seiPayload_w l nal sei bs_new = Some (s, bs)"
    by (fastforce split: bind_splits)
  then show ?thesis using that seiPayload_keeps [OF assms(1) w] by (simp add: payload_bytes_def)
qed

lemma payload_bytes_eq:
  assumes wf: "sei_wf g nal sei" and "body_bytes (sei_body sei) = Some m"
  shows "payload_bytes l nal sei = m"
proof -
  let ?W = "\<lambda>bs. Option.bind (if nal_prefix nal then prefix_w l (sei_payloadSize sei) (sei_body sei) bs
         else suffix_w (sei_payloadSize sei) (sei_body sei) bs) (\<lambda>(_, bs). Some bs)"
  have "writes (8 * m) ?W"
    using wf body_writes [of g _ _ m] assms(2) by (cases "nal_prefix nal") (simp_all add: sei_wf_def)
  then obtain bs where bs: "?W bs_new = Some bs" "bs_inv bs" "lin (bs_pos bs) = 8 * m"
    using new_inv unfolding writes_def by (metis (no_types, lifting) add_0 lin_new)
  have "8 * pos_bytes (bs_pos bs) + pos_bits (bs_pos bs) = 8 * m" "pos_bits (bs_pos bs) < 8"
    using bs(2,3) by (simp_all add: bs_inv_def lin_def)
  then have "pos_bits (bs_pos bs) = 0" "pos_bytes (bs_pos bs) = m" by presburger+
  then have "bs_byteAligned bs" "bs_size bs = m" by (simp_all add: bs_byteAligned_def bs_size_def)
  then show ?thesis
    using bs(1) by (cases "nal_prefix nal") (auto simp: payload_bytes_def seiPayload_w_def payload_end_w_def split: bind_splits)
qed

lemma body_wf_resize:
  assumes "body_wf g n x" and "\<And>m. body_bytes x = Some m \<Longrightarrow> n' = of_nat m"
  shows "body_wf g n' x"
  using assms by (cases x) auto

lemma payload_wf_resize:
  assumes "sei_wf g nal sei"
  shows "sei_wf g nal (sei\<lparr>sei_payloadSize := of_nat (payload_bytes l nal sei)\<rparr>)"
  using assms payload_bytes_eq [OF assms] body_wf_resize by (auto simp: sei_wf_def)

subsection \<open>Messages\<close>

lemma payloadType_code: "payloadType_of (payloadType_code t) = Some t" "0 \<le> payloadType_code t" "payloadType_code t < 2 ^ 31"
  by (cases t; simp add: payloadType_of_def payloadType_code_def payloadTypes_def)+

text \<open>The message that is written comes back at the end of the list of its NAL unit type, with the payload size
  that \<open>addSei\<close> leaves.\<close>

lemma seiMessage_codes:
  assumes wf: "sei_wf g nal sei" and ctx: "sei_context nal sei l" "sei_context nal sei l'"
    and small: "payload_bytes l nal sei < 2 ^ 31"
  shows "codes (\<lambda>bs. Option.bind (seiMessage_w l nal sei bs) (\<lambda>(_, bs). Some bs)) (\<lambda>bs. seiMessage_r g nal l' bs)
     (sei_append nal (sei\<lparr>sei_payloadSize := 0\<rparr>) l')"
proof -
  let ?n = "payload_bytes l nal sei" and ?t = "payloadType_code (getPayloadType sei)"
  let ?sei = "sei\<lparr>sei_payloadSize := of_nat ?n\<rparr>"
  obtain tmp where tmp: "seiPayload_w l nal sei bs_new = Some (sei, tmp)" "bs_size tmp = ?n"
    using seiPayload_w_new [OF wf ctx(1)] by blast
  have n: "sint (ucast (of_nat ?n :: size_t) :: uint32_t) = int ?n"
    using small by (simp add: unsigned_of_nat take_bit_nat_eq_self signed_of_nat signed_take_bit_int_eq_self)
  have pl: "codes (\<lambda>bs. Option.bind (seiPayload_w l nal ?sei bs) (\<lambda>(_, bs). Some bs))
      (seiPayload_r g nal (payloadType_of ?t) (word_of_int (int ?n)) l')
      (sei_append nal \<lparr>sei_payloadSize = 0, sei_body = sei_body ?sei\<rparr> l')"
    using ctx payload_bytes_eq [OF wf]
    by (intro payload_w_codes payload_wf_resize wf) (simp_all add: sei_context_def payloadType_code getPayloadType_def)
  have W: "(\<lambda>bs. Option.bind (seiMessage_w l nal sei bs) (\<lambda>(_, bs). Some bs)) =
      (\<lambda>bs. Option.bind (ff_w ?t bs) (\<lambda>bs. Option.bind (ff_w (int ?n) bs) (\<lambda>bs.
         Option.bind (seiPayload_w l nal ?sei bs) (\<lambda>(_, bs). Some bs))))"
    by (rule ext) (simp add: seiMessage_w_def tmp n Option.bind_assoc)
  have "codes (ff_w ?t) (ff_r 0) (0 + ?t)" "codes (ff_w (int ?n)) (ff_r 0) (0 + int ?n)"
    using payloadType_code small by (intro ff_codes; simp)+
  then have ff: "codes (ff_w ?t) (ff_r 0) ?t" "codes (ff_w (int ?n)) (ff_r 0) (int ?n)" by simp_all
  have "codes (\<lambda>bs. Option.bind (ff_w ?t bs) (\<lambda>bs. Option.bind (ff_w (int ?n) bs) (\<lambda>bs.
         Option.bind (seiPayload_w l nal ?sei bs) (\<lambda>(_, bs). Some bs)))) (\<lambda>bs. seiMessage_r g nal l' bs)
      (sei_append nal \<lparr>sei_payloadSize = 0, sei_body = sei_body ?sei\<rparr> l')"
    unfolding seiMessage_r_def by (rule codes_bind, rule ff(1), rule codes_bind, rule ff(2), rule pl)
  moreover have "\<lparr>sei_payloadSize = 0, sei_body = sei_body ?sei\<rparr> = sei\<lparr>sei_payloadSize := 0\<rparr>" by (cases sei) simp
  ultimately show ?thesis by (simp only: W)
qed

section \<open>Lists and errors\<close>

text \<open>\<open>addSei\<close> returns exactly for a type of the enumeration other than the filler payload and an SEI NAL unit type.\<close>

lemma addSei_returns: "addSei g nal t l \<noteq> None \<longleftrightarrow> (\<exists>t'. t = Some t' \<and> t' \<noteq> FILLER_PAYLOAD) \<and> (nal_prefix nal \<or> nal_suffix nal)"
proof -
  have "sei_make g t' = None \<longleftrightarrow> t' = FILLER_PAYLOAD" for t' by (cases t') simp_all
  then show ?thesis by (cases t; cases "sei_make g (the t)") (simp_all add: addSei_def Let_def, metis option.distinct(1))
qed

lemma addSei_Some:
  assumes "addSei g nal t l = Some (sei, l')"
  shows "t = Some (getPayloadType sei)" and "l' = sei_append nal sei l" and "sei_payloadSize sei = 0"
    and "sei_list nal l' = sei_list nal l @ [sei]"
  using assms make_type
  by (auto simp: addSei_def Let_def sei_append_def sei_list_def getPayloadType_def split: bind_splits if_splits)

text \<open>A lookup after an insertion: \<open>getLastSei\<close> finds the new message, \<open>getSei\<close> the oldest of its type.\<close>

lemma find_append: "List.find P (xs @ ys) = (case List.find P xs of Some x \<Rightarrow> Some x | None \<Rightarrow> List.find P ys)"
  by (induction xs) auto

lemma find_None_ex: "List.find P xs = None \<longleftrightarrow> \<not> list_ex P xs"
  by (induction xs) auto

lemma lookup_addSei:
  assumes "addSei g nal (Some t) l = Some (sei, l')"
  shows "seiIsPresent nal t l'" and "getLastSei nal t l' = Some sei"
    and "getSei nal t l' = (if seiIsPresent nal t l then getSei nal t l else Some sei)"
proof -
  have nal: "nal_prefix nal \<or> nal_suffix nal" using assms addSei_returns by blast
  note facts = addSei_Some [OF assms]
  show "seiIsPresent nal t l'" using nal facts by (simp add: seiIsPresent_def)
  show "getLastSei nal t l' = Some sei" using facts by (simp add: getLastSei_def)
  show "getSei nal t l' = (if seiIsPresent nal t l then getSei nal t l else Some sei)"
    using nal facts find_None_ex [of "\<lambda>sei. getPayloadType sei = t" "sei_list nal l"]
    by (auto simp: getSei_def seiIsPresent_def find_append split: option.splits)
qed

lemma lookup_other:
  assumes "addSei g nal (Some t) l = Some (sei, l')" and "t' \<noteq> t"
  shows "seiIsPresent nal t' l' = seiIsPresent nal t' l" and "getLastSei nal t' l' = getLastSei nal t' l"
    and "getSei nal t' l' = getSei nal t' l"
  using addSei_Some [OF assms(1)] assms(2)
  by (auto simp: seiIsPresent_def getLastSei_def getSei_def find_append split: option.splits)

text \<open>The asserted precondition of the lookups.\<close>

lemma seiIsPresent_iff: "nal_prefix nal \<or> nal_suffix nal \<Longrightarrow> seiIsPresent nal t l \<longleftrightarrow> getSei nal t l \<noteq> None"
  and getLastSei_None: "getLastSei nal t l = None \<longleftrightarrow> getSei nal t l = None"
  using find_None_ex [of "\<lambda>sei. getPayloadType sei = t"]
  by (auto simp: seiIsPresent_def getSei_def getLastSei_def simp del: not_None_eq)

subsection \<open>What a reader of messages returns\<close>

lemma into_Some: "into C R x bs = Some (b, bs') \<longleftrightarrow> (\<exists>y. R x bs = Some (y, bs') \<and> b = C y)"
  by (auto simp: into_def split: bind_splits)

lemma prefix_r_type:
  assumes "prefix_r l n b bs = Some (b', bs')"
  shows "body_payloadType b' = body_payloadType b" and "in_prefix b'"
  using assms by (cases b; auto simp: into_Some split: bind_splits)+

lemma suffix_r_type:
  assumes "suffix_r n b bs = Some (b', bs')"
  shows "body_payloadType b' = body_payloadType b" and "in_suffix b'"
  using assms by (cases b; auto simp: into_Some split: bind_splits)+

lemma make_prefixIndication: "sei_make g t = Some b \<Longrightarrow> t = SEI_PREFIX_INDICATION \<Longrightarrow> b = PrefixIndication spi_new"
  by simp

lemma seiPayload_appends:
  assumes "seiPayload_r g nal t n l bs = Some (l', bs')"
  obtains sei where "l' = sei_append nal sei l" and "sei_payloadSize sei = 0" and "t = Some (getPayloadType sei)"
    and "if nal_prefix nal then in_prefix (sei_body sei) else nal_suffix nal \<and> in_suffix (sei_body sei)"
    and "getPayloadType sei \<noteq> SEI_PREFIX_INDICATION"
proof -
  obtain s k b b1 where s: "addSei g nal t l = Some (s, k)"
    and b: "(if nal_prefix nal then prefix_r k n (sei_body s) bs else suffix_r n (sei_body s) bs) = Some (b, b1)"
    and l': "l' = sei_put nal (s\<lparr>sei_body := b\<rparr>) k"
    using assms by (auto simp: seiPayload_r_def split: bind_splits)
  note a = addSei_Some [OF s]
  have nal: "nal_prefix nal \<or> nal_suffix nal" using s addSei_returns [of g nal t l] by simp
  let ?s = "s\<lparr>sei_body := b\<rparr>"
  have ty: "getPayloadType ?s = getPayloadType s"
    using b prefix_r_type(1) suffix_r_type(1) by (auto simp: getPayloadType_def split: if_splits)
  have "getPayloadType s \<noteq> SEI_PREFIX_INDICATION"
  proof
    assume "getPayloadType s = SEI_PREFIX_INDICATION"
    then have "sei_body s = PrefixIndication spi_new"
      using s a(1) by (auto simp: addSei_def Let_def split: if_splits bind_splits)
    then show False using b spi_stuck by (auto simp: into_def split: if_splits)
  qed
  moreover have "if nal_prefix nal then in_prefix b else nal_suffix nal \<and> in_suffix b"
    using b nal prefix_r_type(2) suffix_r_type(2) by (auto split: if_splits)
  ultimately show thesis
    using that [of ?s] a ty by (simp add: l' sei_put_append)
qed

text \<open>A message that is read adds one message to the list of its NAL unit type.\<close>

lemma seiMessage_appends:
  assumes "seiMessage_r g nal l bs = Some (l', bs')"
  shows "\<exists>sei. l' = sei_append nal sei l \<and> sei_payloadSize sei = 0 \<and> getPayloadType sei \<noteq> SEI_PREFIX_INDICATION
     \<and> (if nal_prefix nal then in_prefix (sei_body sei) else nal_suffix nal \<and> in_suffix (sei_body sei))"
proof -
  obtain t n b where "seiPayload_r g nal t n l b = Some (l', bs')"
    using assms by (auto simp: seiMessage_r_def split: bind_splits)
  then show ?thesis by (rule seiPayload_appends) blast
qed

text \<open>User data whose payload size was never set cannot be written.\<close>

lemma unset_size_stuck:
  assumes "sei_payloadSize sei = 0" and "sei_body sei = UserDataUnregistered x"
    and "length (udu_userDataPayloadByte x) < 2 ^ 64 - 16"
  shows "seiMessage_w l nal sei bs = None"
proof -
  have "userDataUnregistered_w 0 x bs = None" for bs using assms(3) by (intro udu_stuck) simp_all
  then have "seiPayload_w l nal sei b = None" for b
    using assms(1,2) by (simp add: seiPayload_w_def put_def)
  then show ?thesis by (simp add: seiMessage_w_def split: bind_splits)
qed

text \<open>A reserved message with an unset size is coded without its bytes.\<close>

lemma unset_size_empty:
  assumes "sei_payloadSize sei = 0" and "sei_body sei = ReservedSeiMessage x" and "nal_prefix nal \<or> nal_suffix nal"
  shows "payload_bytes l nal sei = 0"
  using assms by (auto simp: payload_bytes_def seiPayload_w_def put_def reservedSeiMessage_w_def payload_end_w_def
      bs_byteAligned_def bs_new_def bs_size_def)

end
