(* ===== verification/SeiExamples.thy ===== *)
theory SeiExamples
  imports SeiList
begin

text \<open>Well-formed messages on which the properties of the SEI messages are applied.\<close>

definition sei_example :: SEI where
  "sei_example = \<lparr>sei_payloadSize = 0, sei_body = UserDataRegistered
     (ud35_new\<lparr>ud35_countryCode := 0xFF, ud35_countryCodeExtensionByte := 0x7A, ud35_payloadByte := [1, 2, 3]\<rparr>)\<rparr>"

lemma sei_example_wf: "sei_wf g NAL_PREFIX_ESEI sei_example" "sei_context NAL_PREFIX_ESEI sei_example l"
  by (simp_all add: sei_wf_def sei_context_def sei_example_def nal_prefix_def ud35_wf_def ud35_new_def)

lemma sei_example_bytes: "payload_bytes l NAL_PREFIX_ESEI sei_example = 5"
  by (rule payload_bytes_eq [OF sei_example_wf(1)]) (simp add: sei_example_def ud35_size_def ud35_new_def)

text \<open>Two tiles, coded in the order 1, 0, with a CRC each.\<close>

definition dah_example :: SEIDecodedAtlasInformationHash where
  "dah_example = dah_new\<lparr>dah_persistenceFlag := True, dah_highLevelCrc := 0xBEEF,
     dah_decodedAtlasTilesHashPresentFlag := True, dah_numTilesMinus1 := 1, dah_tileId := [1, 0],
     dah_atlasTilesCrc := [0x1234, 0x5678], dah_atlasTilesChecksum := [0, 0],
     dah_atlasTilesMd5 := [replicate 16 0, replicate 16 0], dah_atlasTilesB2pCrc := [0, 0],
     dah_atlasTilesB2pChecksum := [0, 0], dah_atlasTilesB2pMd5 := [replicate 16 0, replicate 16 0]\<rparr>"

lemma replicate_two: "replicate 2 x = [x, x]"
  by (simp add: numeral_2_eq_2)

lemma dah_example_wf: "dah_wf dah_example"
proof -
  have two: "Suc (Suc 0) = 2" "unat (1 :: uint32_t) = 1" "{..<2} = {0, 1 :: nat}" by auto
  show ?thesis
    by (auto simp: dah_wf_def dah_example_def dah_new_def hash_ok_def tile_hashes_ok_def covered_def two Let_def nth_Cons' replicate_two)
qed

text \<open>Two attributes, the first with two filters.\<close>

definition asm_example :: SEIAttributeSmoothing where
  "asm_example = asm_new\<lparr>asm_persistenceFlag := True, asm_numAttributesUpdated := 2, asm_attributeIdx := [0, 1],
     asm_attributeSmoothingCancelFlag := [False, False], asm_instancesUpdated := [2, 1],
     asm_instanceIndex := [[0, 1], [0]], asm_instanceCancelFlag := [[0, 0], [1]], asm_methodType := [[1, 0], [0]],
     asm_filterEomPointsFlag := [[1, 0], [0]], asm_gridSizeMinus2 := [[6, 0], [0]], asm_threshold := [[64, 0], [0]],
     asm_thresholdVariation := [[10, 0], [0]], asm_thresholdDifference := [[20, 0], [0]]\<rparr>"

lemma asm_example_wf: "asm_wf asm_example"
proof -
  have two: "(\<forall>k < 2. P k) \<longleftrightarrow> P 0 \<and> P (1 :: nat)" for P by (auto simp: less_2_cases_iff)
  show ?thesis
    by (simp add: asm_wf_def asm_example_def asm_new_def asm_matrix_ok_def asm_entry_ok_def two upt_rec)
qed

text \<open>A position with the rotation (0.5, 0.5, 0) of a unit quaternion.\<close>

definition vpo_example :: SEIViewportPosition where
  "vpo_example = vpo_new\<lparr>vpo_position := [0x3F800000, 0x40000000, 0xC0400000], vpo_rotationQX := 0x3F000000, vpo_rotationQY := 0x3F000000,
     vpo_centerViewFlag := True\<rparr>"

lemma vpo_example_half: "float_written 16 0x3F000000 \<and> float_integer 0x3F000000 = 0"
  by (rule float_fraction) (simp add: float_exponent_def)

lemma vpo_example_zero: "float_written 16 0 \<and> float_integer 0 = 0"
  by (rule float_fraction) (simp add: float_exponent_def)

lemma vpo_example_ok: "vpo_ok vpo_example"
  using vpo_example_half vpo_example_zero by (simp add: vpo_ok_def vpo_example_def vpo_new_def)

lemma vpo_example_rounded: "vpo_rounded vpo_example = vpo_example\<lparr>vpo_rotationQX := 0, vpo_rotationQY := 0\<rparr>"
  using vpo_example_half vpo_example_zero by (simp add: vpo_rounded_def vpo_example_def vpo_new_def)

end
