(* ===== verification/Units.thy ===== *)
theory Units
  imports TileLayer Blocks
begin

unbundle bit_operations_syntax

text \<open>
  The containers of the bitstream: the V3C unit header, the sample stream of V3C units with its precision
  field. Units are copied as whole bytes, so their proofs use the judgement \<open>blocks\<close> and the interface
  \<open>block_stream\<close> of the theory Blocks, which is interpreted here for the units of a sample stream.
\<close>

section \<open>Unit header\<close>

text \<open>Unit types are used as numbers.\<close>

type_synonym V3CUnitType = uint8_t

definition V3C_VPS :: V3CUnitType where [simp]: "V3C_VPS = 0"
definition V3C_AD :: V3CUnitType where [simp]: "V3C_AD = 1"
definition V3C_OVD :: V3CUnitType where [simp]: "V3C_OVD = 2"
definition V3C_GVD :: V3CUnitType where [simp]: "V3C_GVD = 3"
definition V3C_AVD :: V3CUnitType where [simp]: "V3C_AVD = 4"

definition syn_getV3CUnitHeader :: "PCCHighLevelSyntax \<Rightarrow> nat \<Rightarrow> V3CUnitHeader option" where
  "syn_getV3CUnitHeader syn index = vec_at (syn_v3cUnitHeader syn) index"

definition syn_setV3CUnitHeader :: "nat \<Rightarrow> V3CUnitHeader \<Rightarrow> PCCHighLevelSyntax \<Rightarrow> PCCHighLevelSyntax option" where
  "syn_setV3CUnitHeader index vuh syn = do {
     l \<leftarrow> vec_set (syn_v3cUnitHeader syn) index vuh;
     Some (syn\<lparr>syn_v3cUnitHeader := l\<rparr>)
   }"

definition vuh_w :: "V3CUnitType \<Rightarrow> V3CUnitHeader \<Rightarrow> PCCBitstream \<Rightarrow> PCCBitstream option" where
  "vuh_w v3cUnitType vpcc bs = do {
     bs \<leftarrow> bs_write (ucast (vuh_sequenceParamterSetId vpcc)) 4 bs;
     bs \<leftarrow> bs_write (ucast (vuh_atlasId vpcc)) 6 bs;
     bs \<leftarrow> (if v3cUnitType = V3C_AVD then do {
         bs \<leftarrow> bs_write (ucast (vuh_attributeIndex vpcc)) 7 bs;
         bs \<leftarrow> bs_write (ucast (vuh_attributeDimensionIndex vpcc)) 5 bs;
         bs \<leftarrow> bs_write (ucast (vuh_mapIndex vpcc)) 4 bs;
         bs \<leftarrow> bs_write (b2u (vuh_auxiliaryVideoFlag vpcc)) 1 bs;
         Some bs
       } else do {
         bs \<leftarrow> (if v3cUnitType = V3C_GVD then do {
             bs \<leftarrow> bs_write (ucast (vuh_mapIndex vpcc)) 4 bs;
             bs \<leftarrow> bs_write (b2u (vuh_auxiliaryVideoFlag vpcc)) 1 bs;
             bs \<leftarrow> bs_write 0 12 bs;
             Some bs
           } else do {
             bs \<leftarrow> bs_write 0 17 bs;
             Some bs
           });
         Some bs
       });
     Some bs
   }"

definition v3cUnitHeader_w :: "PCCHighLevelSyntax \<Rightarrow> V3CUnitType \<Rightarrow> PCCBitstream \<Rightarrow> PCCBitstream option" where
  "v3cUnitHeader_w syn v3cUnitType bs = do {
     bs \<leftarrow> bs_write (ucast v3cUnitType) 5 bs;
     bs \<leftarrow> (if v3cUnitType = V3C_AVD \<or> v3cUnitType = V3C_GVD \<or> v3cUnitType = V3C_OVD \<or> v3cUnitType = V3C_AD then do {
         vpcc \<leftarrow> syn_getV3CUnitHeader syn (unat v3cUnitType - 1);
         bs \<leftarrow> vuh_w v3cUnitType vpcc bs;
         Some bs
       } else do {
         bs \<leftarrow> bs_write 0 27 bs;
         Some bs
       });
     Some bs
   }"

text \<open>The reader changes the store on the way: the active parameter set and the atlas index.\<close>

definition vuh_r :: "V3CUnitType \<Rightarrow> V3CUnitHeader \<Rightarrow> PCCBitstream \<Rightarrow> (V3CUnitHeader \<times> PCCBitstream) option" where
  "vuh_r v3cUnitType vuh bs = do {
     (v, bs) \<leftarrow> bs_read 4 bs;
     let vuh = vuh\<lparr>vuh_sequenceParamterSetId := ucast v\<rparr>;
     (v, bs) \<leftarrow> bs_read 6 bs;
     let vuh = vuh\<lparr>vuh_atlasId := ucast v\<rparr>;
     (vuh, bs) \<leftarrow> (if v3cUnitType = V3C_AVD then do {
         (v, bs) \<leftarrow> bs_read 7 bs;
         let vuh = vuh\<lparr>vuh_attributeIndex := ucast v\<rparr>;
         (v, bs) \<leftarrow> bs_read 5 bs;
         let vuh = vuh\<lparr>vuh_attributeDimensionIndex := ucast v\<rparr>;
         (v, bs) \<leftarrow> bs_read 4 bs;
         let vuh = vuh\<lparr>vuh_mapIndex := ucast v\<rparr>;
         (v, bs) \<leftarrow> bs_read 1 bs;
         let vuh = vuh\<lparr>vuh_auxiliaryVideoFlag := v \<noteq> 0\<rparr>;
         Some (vuh, bs)
       } else do {
         (vuh, bs) \<leftarrow> (if v3cUnitType = V3C_GVD then do {
             (v, bs) \<leftarrow> bs_read 4 bs;
             let vuh = vuh\<lparr>vuh_mapIndex := ucast v\<rparr>;
             (v, bs) \<leftarrow> bs_read 1 bs;
             let vuh = vuh\<lparr>vuh_auxiliaryVideoFlag := v \<noteq> 0\<rparr>;
             (v, bs) \<leftarrow> bs_read 12 bs;
             Some (vuh, bs)
           } else do {
             (v, bs) \<leftarrow> bs_read 17 bs;
             Some (vuh, bs)
           });
         Some (vuh, bs)
       });
     Some (vuh, bs)
   }"

definition v3cUnitHeader_r :: "PCCHighLevelSyntax \<Rightarrow> PCCBitstream \<Rightarrow> ((V3CUnitType \<times> PCCHighLevelSyntax) \<times> PCCBitstream) option" where
  "v3cUnitHeader_r syn bs = do {
     (v, bs) \<leftarrow> bs_read 5 bs;
     let v3cUnitType = ucast v;
     (if v3cUnitType = V3C_AVD \<or> v3cUnitType = V3C_GVD \<or> v3cUnitType = V3C_OVD \<or> v3cUnitType = V3C_AD then do {
         vuh \<leftarrow> syn_getV3CUnitHeader syn (unat v3cUnitType - 1);
         (vuh, bs) \<leftarrow> vuh_r v3cUnitType vuh bs;
         syn \<leftarrow> syn_setV3CUnitHeader (unat v3cUnitType - 1) vuh syn;
         let syn = syn_setActiveVpsId (vuh_sequenceParamterSetId vuh) syn;
         let syn = syn_setAtlasIndex (unat (vuh_atlasId vuh)) syn;
         Some ((v3cUnitType, syn), bs)
       } else do {
         (v, bs) \<leftarrow> bs_read 27 bs;
         Some ((v3cUnitType, syn), bs)
       })
   }"

section \<open>Sample stream of V3C units\<close>

record V3CUnit =
  vu_type :: V3CUnitType
  vu_size :: size_t
  vu_bitstream :: PCCBitstream

text \<open>The constructor leaves type and size uninitialised; every use sets them first.\<close>

definition vu_new :: V3CUnit where
  "vu_new = \<lparr>vu_type = 0, vu_size = 0, vu_bitstream = bs_new\<rparr>"

text \<open>\<open>getBitstream\<close> rewinds the stream.\<close>

definition vu_getBitstream :: "V3CUnit \<Rightarrow> PCCBitstream" where
  "vu_getBitstream vu = bs_beginning (vu_bitstream vu)"

definition vu_setBitstream :: "PCCBitstream \<Rightarrow> V3CUnitType \<Rightarrow> V3CUnit \<Rightarrow> V3CUnit" where
  "vu_setBitstream bs unitType vu = vu\<lparr>vu_bitstream := bs, vu_size := of_nat (bs_size bs), vu_type := unitType\<rparr>"

record SampleStreamV3CUnit =
  ssvu_v3cUnits :: "V3CUnit list"
  ssvu_ssvhUnitSizePrecisionBytesMinus1 :: uint32_t

definition ssvu_new :: SampleStreamV3CUnit where
  "ssvu_new = \<lparr>ssvu_v3cUnits = [], ssvu_ssvhUnitSizePrecisionBytesMinus1 = 0\<rparr>"

definition sampleStreamV3CHeader_w :: "SampleStreamV3CUnit \<Rightarrow> PCCBitstream \<Rightarrow> PCCBitstream option" where
  "sampleStreamV3CHeader_w ssvu bs = do {
     bs \<leftarrow> bs_write (ssvu_ssvhUnitSizePrecisionBytesMinus1 ssvu) 3 bs;
     bs \<leftarrow> bs_write 0 5 bs;
     Some bs
   }"

definition sampleStreamV3CHeader_r :: "SampleStreamV3CUnit \<Rightarrow> PCCBitstream \<Rightarrow> (SampleStreamV3CUnit \<times> PCCBitstream) option" where
  "sampleStreamV3CHeader_r ssvu bs = do {
     (v, bs) \<leftarrow> bs_read 3 bs;
     let ssvu = ssvu\<lparr>ssvu_ssvhUnitSizePrecisionBytesMinus1 := v\<rparr>;
     (v, bs) \<leftarrow> bs_read 5 bs;
     Some (ssvu, bs)
   }"

text \<open>The number of bits of a unit size, passed as a \<open>uint8_t\<close>.\<close>

definition unitSizeBits :: "uint32_t \<Rightarrow> nat" where
  "unitSizeBits precisionBytesMinus1 = unat (ucast (8 * (precisionBytesMinus1 + 1)) :: uint8_t)"

definition sampleStreamV3CUnit_w :: "SampleStreamV3CUnit \<Rightarrow> V3CUnit \<Rightarrow> PCCBitstream \<Rightarrow> (V3CUnit \<times> PCCBitstream) option" where
  "sampleStreamV3CUnit_w ssvu vu bs = do {
     bs \<leftarrow> bs_write (ucast (vu_size vu)) (unitSizeBits (ssvu_ssvhUnitSizePrecisionBytesMinus1 ssvu)) bs;
     (bs, src) \<leftarrow> bs_copyFrom (vu_getBitstream vu) 0 (unat (vu_size vu)) bs;
     Some (vu\<lparr>vu_bitstream := src\<rparr>, bs)
   }"

text \<open>The unit type is in the upper five bits of the first byte.\<close>

definition sampleStreamV3CUnit_r :: "SampleStreamV3CUnit \<Rightarrow> V3CUnit \<Rightarrow> PCCBitstream \<Rightarrow> (V3CUnit \<times> PCCBitstream) option" where
  "sampleStreamV3CUnit_r ssvu vu bs = do {
     (v, bs) \<leftarrow> bs_read (unitSizeBits (ssvu_ssvhUnitSizePrecisionBytesMinus1 ssvu)) bs;
     let vu = vu\<lparr>vu_size := ucast v\<rparr>;
     (sub, bs) \<leftarrow> bs_copyFrom bs (pos_bytes (bs_pos bs)) (unat (vu_size vu)) (vu_getBitstream vu);
     let vu = vu\<lparr>vu_bitstream := bs_beginning sub\<rparr>;
     b \<leftarrow> vec_at (bs_data (vu_bitstream vu)) 0;
     let vu = vu\<lparr>vu_type := drop_bit 3 b\<rparr>;
     Some (vu, bs)
   }"

text \<open>\<open>ceil( double( ceilLog2( maxUnitSize ) ) / 8.0 )\<close>, at least 1 and at most 8; the quotients are exact in
  \<open>double\<close>.\<close>

definition ssvu_maxUnitSize :: "V3CUnit list \<Rightarrow> uint32_t" where
  "ssvu_maxUnitSize units = fold (\<lambda>vu m. if ucast m < vu_size vu then ucast (vu_size vu) else m) units 0"

definition precisionBytes :: "uint32_t \<Rightarrow> uint32_t" where
  "precisionBytes maxUnitSize = word_of_int (min (max (- ((- ceilLog2 maxUnitSize) div 8)) 1) 8)"

definition ssvu_units_w :: "SampleStreamV3CUnit \<Rightarrow> nat \<Rightarrow> (V3CUnit list \<times> nat) \<times> PCCBitstream \<Rightarrow> ((V3CUnit list \<times> nat) \<times> PCCBitstream) option" where
  "ssvu_units_w ssvu i = (\<lambda>((units, headerSize), bs). do {
     vu \<leftarrow> vec_at units i;
     (vu, bs) \<leftarrow> sampleStreamV3CUnit_w ssvu vu bs;
     Some ((units[i := vu], headerSize + unat (ssvu_ssvhUnitSizePrecisionBytesMinus1 ssvu + 1)), bs)
   })"

definition ssvu_write :: "SampleStreamV3CUnit \<Rightarrow> uint32_t \<Rightarrow> PCCBitstream \<Rightarrow> ((nat \<times> SampleStreamV3CUnit) \<times> PCCBitstream) option" where
  "ssvu_write ssvu forcedSsvhUnitSizePrecisionBytes bs = do {
     let precision = max (precisionBytes (ssvu_maxUnitSize (ssvu_v3cUnits ssvu))) forcedSsvhUnitSizePrecisionBytes;
     let ssvu = ssvu\<lparr>ssvu_ssvhUnitSizePrecisionBytesMinus1 := precision - 1\<rparr>;
     bs \<leftarrow> sampleStreamV3CHeader_w ssvu bs;
     ((units, headerSize), bs) \<leftarrow> for_loop [0..<length (ssvu_v3cUnits ssvu)] (ssvu_units_w ssvu) ((ssvu_v3cUnits ssvu, 1), bs);
     Some ((headerSize, ssvu\<lparr>ssvu_v3cUnits := units\<rparr>), bs)
   }"

text \<open>The loop of the reader. Every round reads the bits of a size.\<close>

partial_function (option) ssvu_units_r ::
  "SampleStreamV3CUnit \<Rightarrow> nat \<Rightarrow> PCCBitstream \<Rightarrow> ((nat \<times> SampleStreamV3CUnit) \<times> PCCBitstream) option" where
  "ssvu_units_r ssvu headerSize bs = (if \<not> bs_moreData bs then Some ((headerSize, ssvu), bs) else do {
     (vu, bs) \<leftarrow> sampleStreamV3CUnit_r ssvu vu_new bs;
     ssvu_units_r (ssvu\<lparr>ssvu_v3cUnits := ssvu_v3cUnits ssvu @ [vu]\<rparr>)
       (headerSize + unat (ssvu_ssvhUnitSizePrecisionBytesMinus1 ssvu + 1)) bs
   })"

definition ssvu_read :: "SampleStreamV3CUnit \<Rightarrow> PCCBitstream \<Rightarrow> ((nat \<times> SampleStreamV3CUnit) \<times> PCCBitstream) option" where
  "ssvu_read ssvu bs = do {
     (ssvu, bs) \<leftarrow> sampleStreamV3CHeader_r ssvu bs;
     ssvu_units_r ssvu 1 bs
   }"

text \<open>The contents of the file that \<open>PCCBitstream::write\<close> makes: the bytes before the position.\<close>

definition bs_file :: "PCCBitstream \<Rightarrow> uint8_t list" where
  "bs_file bs = take (bs_size bs) (bs_data bs)"

section \<open>Round trip of the unit header\<close>

text \<open>The header objects are reused from unit to unit: what the type does not code keeps its old value.\<close>

definition vuh_result :: "V3CUnitType \<Rightarrow> V3CUnitHeader \<Rightarrow> V3CUnitHeader \<Rightarrow> V3CUnitHeader" where
  "vuh_result t old x = (let y = old\<lparr>vuh_sequenceParamterSetId := vuh_sequenceParamterSetId x, vuh_atlasId := vuh_atlasId x\<rparr> in
     if t = V3C_AVD then x
     else if t = V3C_GVD then y\<lparr>vuh_mapIndex := vuh_mapIndex x, vuh_auxiliaryVideoFlag := vuh_auxiliaryVideoFlag x\<rparr> else y)"

definition vuh_wf :: "V3CUnitHeader \<Rightarrow> bool" where
  "vuh_wf x \<longleftrightarrow> unat (vuh_sequenceParamterSetId x) < 2 ^ 4 \<and> unat (vuh_atlasId x) < 2 ^ 6 \<and> unat (vuh_attributeIndex x) < 2 ^ 7
     \<and> unat (vuh_attributeDimensionIndex x) < 2 ^ 5 \<and> unat (vuh_mapIndex x) < 2 ^ 4"

lemma vuh_codes [codec_intro]:
  assumes wf: "vuh_wf x" and "t' = t"
  shows "codes (vuh_w t x) (vuh_r t' y) (vuh_result t y x)"
proof -
  note facts = wf [unfolded vuh_wf_def, simplified] assms(2)
  show ?thesis
    unfolding vuh_w_def [abs_def] vuh_r_def [abs_def]
    by ((rule codes_split codec_intro refl V3CUnitHeader.equality | (simp (no_asm) add: facts; fail) | (simp add: facts vuh_result_def; fail))+)
qed

text \<open>Unit types that carry an atlas, and the others.\<close>

definition carries_atlas :: "V3CUnitType \<Rightarrow> bool" where
  "carries_atlas t \<longleftrightarrow> t = V3C_AVD \<or> t = V3C_GVD \<or> t = V3C_OVD \<or> t = V3C_AD"

definition syn_after_header :: "V3CUnitType \<Rightarrow> V3CUnitHeader \<Rightarrow> PCCHighLevelSyntax \<Rightarrow> PCCHighLevelSyntax" where
  "syn_after_header t x syn = (if carries_atlas t then
     syn\<lparr>syn_v3cUnitHeader := (syn_v3cUnitHeader syn)[unat t - 1 := vuh_result t (syn_v3cUnitHeader syn ! (unat t - 1)) x],
       syn_activeVPS := vuh_sequenceParamterSetId x, syn_atlasIndex := unat (vuh_atlasId x)\<rparr> else syn)"

lemma vuh_result_fields [simp]:
  "vuh_sequenceParamterSetId (vuh_result t old x) = vuh_sequenceParamterSetId x" "vuh_atlasId (vuh_result t old x) = vuh_atlasId x"
  by (simp_all add: vuh_result_def Let_def)

lemma v3cUnitHeader_codes:
  assumes "unat t < 2 ^ 5" and "length (syn_v3cUnitHeader syn) = 5" and "length (syn_v3cUnitHeader syn') = 5"
    and "carries_atlas t \<Longrightarrow> vuh_wf (syn_v3cUnitHeader syn ! (unat t - 1))"
  shows "codes (v3cUnitHeader_w syn t) (v3cUnitHeader_r syn') (t, syn_after_header t (syn_v3cUnitHeader syn ! (unat t - 1)) syn')"
proof -
  let ?x = "syn_v3cUnitHeader syn ! (unat t - 1)" and ?y = "syn_v3cUnitHeader syn' ! (unat t - 1)"
  let ?R = "\<lambda>v bs. let t = ucast (v :: uint32_t) in if carries_atlas t
     then Option.bind (syn_getV3CUnitHeader syn' (unat t - 1)) (\<lambda>vuh. Option.bind (vuh_r t vuh bs) (\<lambda>(vuh, bs).
       Option.bind (syn_setV3CUnitHeader (unat t - 1) vuh syn') (\<lambda>syn.
         Some ((t, syn_setAtlasIndex (unat (vuh_atlasId vuh)) (syn_setActiveVpsId (vuh_sequenceParamterSetId vuh) syn)), bs))))
     else Option.bind (bs_read 27 bs) (\<lambda>(v, bs). Some ((t, syn'), bs))"
  have r: "v3cUnitHeader_r syn' = (\<lambda>bs. Option.bind (bs_read 5 bs) (\<lambda>(v, bs). ?R v bs))"
    unfolding v3cUnitHeader_r_def [abs_def] carries_atlas_def Let_def by (rule refl)
  show ?thesis
  proof (cases "carries_atlas t")
    case True
    then have idx: "unat t - 1 < 5" by (auto simp: carries_atlas_def)
    let ?upd = "\<lambda>vuh. syn'\<lparr>syn_v3cUnitHeader := (syn_v3cUnitHeader syn')[unat t - 1 := vuh],
       syn_activeVPS := vuh_sequenceParamterSetId vuh, syn_atlasIndex := unat (vuh_atlasId vuh)\<rparr>"
    have w: "v3cUnitHeader_w syn t = (\<lambda>bs. Option.bind (bs_write (ucast t) 5 bs) (vuh_w t ?x))"
      using True assms(2) idx by (intro ext) (simp add: v3cUnitHeader_w_def carries_atlas_def syn_getV3CUnitHeader_def vec_at_def)
    have R: "?R (ucast t) = (\<lambda>bs. Option.bind (vuh_r t ?y bs) (\<lambda>(vuh, bs). Some ((t, ?upd vuh), bs)))"
      using True assms(3) idx by (intro ext) (simp add: Let_def syn_getV3CUnitHeader_def syn_setV3CUnitHeader_def vec_at_def vec_set_def
        syn_setActiveVpsId_def syn_setAtlasIndex_def)
    have "codes (vuh_w t ?x) (?R (ucast t)) (t, syn_after_header t ?x syn')"
      unfolding R using codes_map [OF vuh_codes [OF assms(4) [OF True] refl], of "\<lambda>vuh. (t, ?upd vuh)" t ?y] True
      by (simp add: syn_after_header_def)
    then show ?thesis
      unfolding w r using assms(1) by (intro codes_bind [OF codes_u]) simp_all
  next
    case False
    have w: "v3cUnitHeader_w syn t = (\<lambda>bs. Option.bind (bs_write (ucast t) 5 bs) (bs_write 0 27))"
      using False by (intro ext) (simp add: v3cUnitHeader_w_def carries_atlas_def)
    have "v3cUnitHeader_r syn' = (\<lambda>bs. Option.bind (bs_read 5 bs) (\<lambda>(v, bs). ?R v bs))"
      by (rule r)
    moreover have "?R (ucast t) = (\<lambda>bs. Option.bind (bs_read 27 bs) (\<lambda>(v, bs). Some ((\<lambda>_. (t, syn')) v, bs)))"
      using False by (intro ext) (simp add: Let_def)
    moreover have "codes (bs_write 0 27) \<dots> (t, syn_after_header t ?x syn')"
      using False by (intro codes_map [OF codes_u [OF refl]]) (simp_all add: syn_after_header_def)
    ultimately have "codes (bs_write 0 27) (?R (ucast t)) (t, syn_after_header t ?x syn')" by simp
    then show ?thesis
      unfolding w r using assms(1) by (intro codes_bind [OF codes_u]) simp_all
  qed
qed

section \<open>Round trip of the sample stream\<close>

definition vu_ok :: "uint32_t \<Rightarrow> V3CUnit \<Rightarrow> bool" where
  "vu_ok p vu \<longleftrightarrow> 0 < unat (vu_size vu) \<and> unat (vu_size vu) \<le> length (bs_data (vu_bitstream vu)) \<and> unat (vu_size vu) < 2 ^ (8 * (unat p + 1))"

text \<open>The unit as the reader rebuilds it, and as the writer leaves it.\<close>

definition vu_read :: "V3CUnit \<Rightarrow> V3CUnit" where
  "vu_read vu = \<lparr>vu_type = drop_bit 3 (hd (bs_data (vu_bitstream vu))), vu_size = vu_size vu,
     vu_bitstream = bs_initialize (take (unat (vu_size vu)) (bs_data (vu_bitstream vu))) bs_new\<rparr>"

definition vu_written :: "V3CUnit \<Rightarrow> V3CUnit" where
  "vu_written vu = vu\<lparr>vu_bitstream := bs_skip (unat (vu_size vu)) (vu_getBitstream vu)\<rparr>"

definition vu_put :: "uint32_t \<Rightarrow> V3CUnit \<Rightarrow> PCCBitstream \<Rightarrow> PCCBitstream option" where
  "vu_put p vu = (\<lambda>bs. Option.bind (bs_write (ucast (vu_size vu)) (8 * (unat p + 1)) bs)
     (\<lambda>bs. map_option fst (bs_copyFrom (vu_getBitstream vu) 0 (unat (vu_size vu)) bs)))"

lemma unat_Suc_small: "unat p \<le> 3 \<Longrightarrow> unat (p + 1) = unat p + 1" for p :: uint32_t
  by (subst unat_word_ariths) simp

lemma unitSizeBits_small:
  assumes "unat p \<le> 3"
  shows "unitSizeBits p = 8 * (unat p + 1)"
proof -
  have "unat (8 * (p + 1)) = 8 * (unat p + 1)"
    using assms by (subst unat_word_ariths) (simp add: unat_Suc_small)
  then show ?thesis using assms unfolding unitSizeBits_def by (subst unat_ucast_small) simp_all
qed

lemma sampleStreamV3CUnit_w_eq:
  assumes "unat (ssvu_ssvhUnitSizePrecisionBytesMinus1 ssvu) \<le> 3"
  shows "sampleStreamV3CUnit_w ssvu vu bs = Option.bind (vu_put (ssvu_ssvhUnitSizePrecisionBytesMinus1 ssvu) vu bs) (\<lambda>bs. Some (vu_written vu, bs))"
proof -
  have "(\<lambda>(bs, src). Some (vu\<lparr>vu_bitstream := src\<rparr>, bs)) q = Option.bind (Some (fst q)) (\<lambda>bs. Some (vu_written vu, bs))"
    if "bs_copyFrom (vu_getBitstream vu) 0 (unat (vu_size vu)) bs = Some q" for q bs
    using that by (cases q) (auto simp: bs_copyFrom_def vu_written_def Let_def split: option.splits Option.bind_splits)
  then show ?thesis
    unfolding sampleStreamV3CUnit_w_def vu_put_def unitSizeBits_small [OF assms]
    by (cases "bs_write (ucast (vu_size vu)) (8 * (unat (ssvu_ssvhUnitSizePrecisionBytesMinus1 ssvu) + 1)) bs")
       (auto split: option.splits Option.bind_splits)
qed

lemma vu_blocks:
  assumes "unat (ssvu_ssvhUnitSizePrecisionBytesMinus1 ssvu) \<le> 3" and "vu_ok (ssvu_ssvhUnitSizePrecisionBytesMinus1 ssvu) vu"
  shows "blocks (vu_put (ssvu_ssvhUnitSizePrecisionBytesMinus1 ssvu) vu) (sampleStreamV3CUnit_r ssvu vu_new)
    (unat (ssvu_ssvhUnitSizePrecisionBytesMinus1 ssvu) + 1 + unat (vu_size vu)) (vu_read vu)"
proof -
  let ?n = "unat (ssvu_ssvhUnitSizePrecisionBytesMinus1 ssvu) + 1" and ?s = "unat (vu_size vu)"
  let ?R = "\<lambda>v bs. Option.bind (bs_copyFrom bs (pos_bytes (bs_pos bs)) (unat (ucast (v :: uint32_t) :: size_t)) bs_new) (\<lambda>(sub, bs).
     Option.bind (vec_at (bs_data sub) 0) (\<lambda>b. Some (\<lparr>vu_type = drop_bit 3 b, vu_size = ucast v, vu_bitstream = bs_beginning sub\<rparr>, bs)))"
  have "(2::nat) ^ (8 * ?n) \<le> 2 ^ 32" using assms(1) by (intro power_increasing) simp_all
  then have s: "?s < 2 ^ 32" and ok: "0 < ?s" "?s \<le> length (bs_data (vu_bitstream vu))" "?s < 2 ^ (8 * ?n)"
    using assms(2) by (simp_all add: vu_ok_def)
  have cast: "unat (ucast (vu_size vu) :: uint32_t) = ?s" "ucast (ucast (vu_size vu) :: uint32_t) = vu_size vu"
    using s by (simp_all add: size_t_uint32)
  have hd: "hd (bs_data (vu_bitstream vu)) = bs_data (vu_bitstream vu) ! 0" using ok by (intro hd_conv_nth) auto
  have r: "sampleStreamV3CUnit_r ssvu vu_new = (\<lambda>bs. Option.bind (bs_read (8 * ?n) bs) (\<lambda>(v, bs). ?R v bs))"
    unfolding sampleStreamV3CUnit_r_def [abs_def] unitSizeBits_small [OF assms(1)]
    by (simp add: vu_new_def vu_getBitstream_def bs_new_def bs_beginning_def Let_def)
  have "blocks (\<lambda>bs. map_option fst (bs_copyFrom (vu_getBitstream vu) 0 ?s bs)) (?R (ucast (vu_size vu))) ?s (vu_read vu)"
  proof (rule blocks_copy)
    show "?s \<le> length (bs_data (vu_getBitstream vu))" using ok by (simp add: vu_getBitstream_def bs_beginning_def)
  next
    fix p and fs :: PCCBitstream
    assume "take ?s (drop p (bs_data fs)) = take ?s (bs_data (vu_getBitstream vu))" and "p + ?s \<le> length (bs_data fs)"
      and "bs_pos fs = \<lparr>pos_bytes = p, pos_bits = 0\<rparr>"
    then show "?R (ucast (vu_size vu)) fs = Some (vu_read vu, bs_skip ?s fs)"
      using ok by (simp add: cast bs_copyFrom_def memcpy_from_def memcpy_at_def bs_new_def Let_def bs_skip_def vu_read_def
        vu_getBitstream_def bs_beginning_def bs_initialize_def hd)
  qed
  then show ?thesis
    unfolding r vu_put_def using assms(1) ok cast by (intro blocks_bind [OF blocks_u]) simp_all
qed

text \<open>The units of one precision.\<close>

interpretation ss: block_stream "vu_put p" "\<lambda>(h, ssvu). sampleStreamV3CUnit_r ssvu vu_new"
  "\<lambda>(h, ssvu). ssvu_units_r ssvu h"
  "\<lambda>vu (h, ssvu). (h + (unat p + 1), ssvu\<lparr>ssvu_v3cUnits := ssvu_v3cUnits ssvu @ [vu]\<rparr>)"
  "\<lambda>vu. unat p \<le> 3 \<and> vu_ok p vu" "\<lambda>(h, ssvu). unat p \<le> 3 \<and> ssvu_ssvhUnitSizePrecisionBytesMinus1 ssvu = p"
  "\<lambda>vu. unat p + 1 + unat (vu_size vu)" vu_read for p
proof (unfold_locales, goal_cases)
  case (1 x s)
  then show ?case using vu_blocks [of "snd s" x] by (cases s) simp
next
  case (4 s bs)
  then show ?case using ssvu_units_r.simps [of "snd s" "fst s" bs] by (cases s) (simp add: unat_Suc_small)
qed auto

lemma ssvu_units_w_loop:
  assumes p: "unat (ssvu_ssvhUnitSizePrecisionBytesMinus1 ssvu) \<le> 3"
  shows "for_loop [0..<length us] (ssvu_units_w ssvu) ((us, 1), bs) =
    Option.bind (for_loop us (vu_put (ssvu_ssvhUnitSizePrecisionBytesMinus1 ssvu)) bs)
      (\<lambda>bs. Some ((map vu_written us, 1 + length us * (unat (ssvu_ssvhUnitSizePrecisionBytesMinus1 ssvu) + 1)), bs))"
proof -
  let ?p = "ssvu_ssvhUnitSizePrecisionBytesMinus1 ssvu"
  let ?s = "\<lambda>k. (filled k (map vu_written us) us, 1 + k * (unat ?p + 1))"
  have "for_loop [0..<length us] (ssvu_units_w ssvu) (?s 0, bs) =
      Option.bind (for_loop [0..<length us] (\<lambda>k. vu_put ?p (us ! k)) bs) (\<lambda>bs. Some (?s (length us), bs))"
  proof (rule for_loop_carry)
    fix k bs assume k: "k < length us"
    then have "(filled k (map vu_written us) us)[k := vu_written (us ! k)] = filled (Suc k) (map vu_written us) us"
      by (intro filled_put) simp_all
    then show "ssvu_units_w ssvu k (?s k, bs) = Option.bind (vu_put ?p (us ! k) bs) (\<lambda>bs. Some (?s (Suc k), bs))"
      using k p by (simp add: ssvu_units_w_def sampleStreamV3CUnit_w_eq unat_Suc_small) (simp add: ac_simps)
  qed
  also have "for_loop [0..<length us] (\<lambda>k. vu_put ?p (us ! k)) bs = for_loop us (vu_put ?p) bs" by (rule for_loop_index) simp
  finally show ?thesis by simp
qed

lemma sampleStreamV3CHeader_blocks:
  assumes "unat (ssvu_ssvhUnitSizePrecisionBytesMinus1 ssvu) \<le> 7"
  shows "blocks (sampleStreamV3CHeader_w ssvu) (sampleStreamV3CHeader_r y) 1
    (y\<lparr>ssvu_ssvhUnitSizePrecisionBytesMinus1 := ssvu_ssvhUnitSizePrecisionBytesMinus1 ssvu\<rparr>)"
proof (rule blocks_codes)
  show "codes (sampleStreamV3CHeader_w ssvu) (sampleStreamV3CHeader_r y)
      (y\<lparr>ssvu_ssvhUnitSizePrecisionBytesMinus1 := ssvu_ssvhUnitSizePrecisionBytesMinus1 ssvu\<rparr>)"
    unfolding sampleStreamV3CHeader_w_def [abs_def] sampleStreamV3CHeader_r_def [abs_def]
    by ((rule codec_intro refl | (simp (no_asm); fail) | (use assms in simp; fail))+)
next
  fix bs bs' assume "bs_inv bs" and "sampleStreamV3CHeader_w ssvu bs = Some bs'"
  then obtain bs1 where "bs_write (ssvu_ssvhUnitSizePrecisionBytesMinus1 ssvu) 3 bs = Some bs1" and "bs_write 0 5 bs1 = Some bs'"
    by (auto simp: sampleStreamV3CHeader_w_def split: Option.bind_splits)
  moreover from this have "bs_inv bs1" using bs_write_bits [OF \<open>bs_inv bs\<close>, of 3 "ssvu_ssvhUnitSizePrecisionBytesMinus1 ssvu"] by auto
  ultimately show "lin (bs_pos bs') = lin (bs_pos bs) + 8 * 1"
    using bs_write_lin [OF \<open>bs_inv bs\<close>] bs_write_lin [of bs1] by simp
qed

definition ssvu_precision :: "SampleStreamV3CUnit \<Rightarrow> uint32_t \<Rightarrow> uint32_t" where
  "ssvu_precision ssvu forced = max (precisionBytes (ssvu_maxUnitSize (ssvu_v3cUnits ssvu))) forced - 1"

lemma fold_append_units:
  "fold (\<lambda>vu (h, ssvu). (h + k, ssvu\<lparr>ssvu_v3cUnits := ssvu_v3cUnits ssvu @ [vu]\<rparr>)) us (h, ssvu)
    = (h + length us * k, ssvu\<lparr>ssvu_v3cUnits := ssvu_v3cUnits ssvu @ us\<rparr>)"
  by (induction us arbitrary: h ssvu) simp_all

lemma ssvu_write_read:
  assumes p: "unat (ssvu_precision ssvu forced) \<le> 3"
    and ok: "\<And>vu. vu \<in> set (ssvu_v3cUnits ssvu) \<Longrightarrow> vu_ok (ssvu_precision ssvu forced) vu"
    and inv: "bs_inv bs" "bs_byteAligned bs"
  shows "\<exists>bs'. ssvu_write ssvu forced bs = Some ((1 + length (ssvu_v3cUnits ssvu) * (unat (ssvu_precision ssvu forced) + 1),
          \<lparr>ssvu_v3cUnits = map vu_written (ssvu_v3cUnits ssvu), ssvu_ssvhUnitSizePrecisionBytesMinus1 = ssvu_precision ssvu forced\<rparr>), bs')
    \<and> bs_extends bs' bs \<and> bs_inv bs' \<and> bs_byteAligned bs'
    \<and> (\<forall>fs. bs_extends fs bs' \<longrightarrow> length (bs_data fs) = bs_size bs' \<longrightarrow>
         ssvu_read ssvu_new (bs_setPosition (bs_pos bs) fs) =
           Some ((1 + length (ssvu_v3cUnits ssvu) * (unat (ssvu_precision ssvu forced) + 1),
             \<lparr>ssvu_v3cUnits = map vu_read (ssvu_v3cUnits ssvu), ssvu_ssvhUnitSizePrecisionBytesMinus1 = ssvu_precision ssvu forced\<rparr>),
             bs_setPosition (bs_pos bs') fs))"
proof -
  let ?p = "ssvu_precision ssvu forced" and ?us = "ssvu_v3cUnits ssvu"
  let ?ssvu = "ssvu\<lparr>ssvu_ssvhUnitSizePrecisionBytesMinus1 := ?p\<rparr>" and ?r = "ssvu_new\<lparr>ssvu_ssvhUnitSizePrecisionBytesMinus1 := ?p\<rparr>"
  obtain bs1 where w1: "sampleStreamV3CHeader_w ?ssvu bs = Some bs1" and 1: "bs_inv bs1" "bs_byteAligned bs1" "bs_extends bs1 bs"
      "bs_size bs1 = bs_size bs + 1"
    and r1: "\<And>fs. bs_extends fs bs1 \<Longrightarrow> sampleStreamV3CHeader_r ssvu_new (bs_setPosition (bs_pos bs) fs) = Some (?r, bs_setPosition (bs_pos bs1) fs)"
    by (rule blocksE [OF sampleStreamV3CHeader_blocks [of ?ssvu ssvu_new] inv]) (use p in auto)
  have okp: "\<And>vu. vu \<in> set ?us \<Longrightarrow> unat ?p \<le> 3 \<and> vu_ok ?p vu" using p ok by simp
  obtain bs2 where w2: "for_loop ?us (vu_put ?p) bs1 = Some bs2" and 2: "bs_extends bs2 bs1" "bs_byteAligned bs2" "bs_size bs1 \<le> bs_size bs2" "bs_inv bs2"
    and r2: "\<And>fs. bs_extends fs bs2 \<Longrightarrow> length (bs_data fs) = bs_size bs2 \<Longrightarrow>
       ssvu_units_r ?r 1 (bs_setPosition (bs_pos bs1) fs) =
         Some ((1 + length ?us * (unat ?p + 1), ?r\<lparr>ssvu_v3cUnits := map vu_read ?us\<rparr>), bs_setPosition (bs_pos bs2) fs)"
    using ss.stream [OF okp, of ?us "(1, ?r)" bs1, unfolded fold_append_units prod.case] p 1(1,2) by (auto simp: ssvu_new_def)
  have le: "lin (bs_pos bs) \<le> lin (bs_pos bs1)" "lin (bs_pos bs1) \<le> lin (bs_pos bs2)"
    using 1 2 inv by (simp_all add: lin_aligned)
  have "ssvu_write ssvu forced bs = Some ((1 + length ?us * (unat ?p + 1),
      \<lparr>ssvu_v3cUnits = map vu_written ?us, ssvu_ssvhUnitSizePrecisionBytesMinus1 = ?p\<rparr>), bs2)"
    using w1 w2 ssvu_units_w_loop [of ?ssvu ?us bs1] p by (simp add: ssvu_write_def ssvu_precision_def Let_def)
  moreover have "bs_extends bs2 bs" using 2(1) 1(3) le(1) by (rule bs_extends_trans)
  moreover have "ssvu_read ssvu_new (bs_setPosition (bs_pos bs) fs) = Some ((1 + length ?us * (unat ?p + 1),
      \<lparr>ssvu_v3cUnits = map vu_read ?us, ssvu_ssvhUnitSizePrecisionBytesMinus1 = ?p\<rparr>), bs_setPosition (bs_pos bs2) fs)"
    if "bs_extends fs bs2" and "length (bs_data fs) = bs_size bs2" for fs
    using r1 [OF bs_extends_trans [OF that(1) 2(1) le(2)]] r2 [OF that] by (simp add: ssvu_read_def ssvu_new_def)
  ultimately show ?thesis using 2(2,4) by blast
qed

section \<open>The size field\<close>

lemma ceilLog2_zero: "ceilLog2 0 = - 1" and ceilLog2_one: "ceilLog2 1 = 0"
  by (simp_all add: ceilLog2_def floorLog2_def)

lemma one_less_unat: "1 < unat n \<Longrightarrow> 1 < n" for n :: uint32_t
  by (simp add: word_less_nat_alt)

lemma ceilLog2_width:
  assumes "1 < unat n"
  shows "ceilLog2 n \<le> 32"
proof -
  have "2 ^ nat (ceilLog2 n - 1) < unat n" using ceilLog2_bounds [OF one_less_unat [OF assms]] by simp
  also have "\<dots> < 2 ^ 32" by (simp add: unat_uint32_less)
  finally have "nat (ceilLog2 n - 1) < 32" by (simp only: power_strict_increasing_iff)
  then show ?thesis by simp
qed

lemma precisionBytes_small: "unat m \<le> 1 \<Longrightarrow> precisionBytes m = 1"
proof -
  assume "unat m \<le> 1"
  then have "unat m = 0 \<or> unat m = 1" by linarith
  then have "m = 0 \<or> m = 1" by (metis unsigned_0 unsigned_1 word_unat_eq_iff)
  then show ?thesis by (auto simp: precisionBytes_def ceilLog2_zero ceilLog2_one)
qed

lemma precisionBytes_bounds:
  assumes "1 < unat m"
  shows "1 \<le> unat (precisionBytes m) \<and> unat (precisionBytes m) \<le> 4 \<and> unat m \<le> 2 ^ (8 * unat (precisionBytes m))
    \<and> 2 ^ (8 * (unat (precisionBytes m) - 1)) < unat m"
proof -
  define l k where "l = nat (ceilLog2 m)" and "k = (l + 7) div 8"
  have l: "ceilLog2 m = int l" "0 < l" "l \<le> 32" and b: "2 ^ (l - 1) < unat m" "unat m \<le> 2 ^ l"
    using ceilLog2_bounds [OF one_less_unat [OF assms]] ceilLog2_width [OF assms] by (auto simp: l_def nat_diff_distrib)
  have k: "1 \<le> k" "k \<le> 4" "l \<le> 8 * k" "8 * (k - 1) \<le> l - 1"
    using l(2,3) unfolding k_def by presburger+
  have "- ((- int l) div 8) = int k" by (simp add: k_def zdiv_int)
  moreover have "min (max (int k) 1) 8 = int k" using k(1,2) by simp
  ultimately have "precisionBytes m = word_of_int (int k)" by (simp only: precisionBytes_def l(1))
  then have "precisionBytes m = of_nat k" by (simp only: of_int_of_nat_eq)
  then have "unat (precisionBytes m) = k" using k(2) by (simp add: unat_of_nat)
  moreover have "unat m \<le> 2 ^ (8 * k)"
    using b(2) power_increasing [OF k(3), of "2 :: nat"] by linarith
  moreover have "2 ^ (8 * (k - 1)) < unat m"
    using b(1) power_increasing [OF k(4), of "2 :: nat"] by linarith
  ultimately show ?thesis using k by simp
qed

lemma precisionBytes_range: "1 \<le> unat (precisionBytes m)" "unat (precisionBytes m) \<le> 4"
  using precisionBytes_bounds [of m] precisionBytes_small [of m] by (cases "1 < unat m"; simp)+

text \<open>The chosen precision holds the largest size, except for the three sizes that are powers of 256.\<close>

lemma precisionBytes_fits:
  "unat m < 2 ^ (8 * unat (precisionBytes m)) \<longleftrightarrow> unat m \<notin> {2 ^ 8, 2 ^ 16, 2 ^ 24}"
proof (cases "1 < unat m")
  case True
  let ?k = "unat (precisionBytes m)"
  note b = precisionBytes_bounds [OF True]
  then have "?k = 1 \<or> ?k = 2 \<or> ?k = 3 \<or> ?k = 4" by linarith
  moreover have "unat m < 2 ^ 32" by (simp add: unat_uint32_less)
  ultimately show ?thesis using b by (elim disjE) auto
next
  case False
  then show ?thesis by (simp add: precisionBytes_small)
qed

lemma maxUnitSize_fold:
  assumes "\<And>vu. vu \<in> set us \<Longrightarrow> unat (vu_size vu) < 2 ^ 32"
  shows "unat m \<le> unat (fold (\<lambda>vu m. if ucast m < vu_size vu then ucast (vu_size vu) else m) us m :: uint32_t)
    \<and> (\<forall>vu \<in> set us. unat (vu_size vu) \<le> unat (fold (\<lambda>vu m. if ucast m < vu_size vu then ucast (vu_size vu) else m) us m :: uint32_t))"
  using assms
proof (induction us arbitrary: m)
  case (Cons vu us)
  let ?m = "if ucast m < vu_size vu then ucast (vu_size vu) else m"
  have small: "unat (ucast (vu_size vu) :: uint32_t) = unat (vu_size vu)" using Cons.prems [of vu] by (simp add: size_t_uint32)
  have "unat m \<le> unat ?m" and "unat (vu_size vu) \<le> unat ?m"
    using small by (auto simp: word_less_nat_alt)
  then show ?case using Cons.IH [of ?m] Cons.prems by force
qed simp

lemma maxUnitSize_ge:
  assumes "\<And>vu. vu \<in> set us \<Longrightarrow> unat (vu_size vu) < 2 ^ 32" and "vu \<in> set us"
  shows "unat (vu_size vu) \<le> unat (ssvu_maxUnitSize us)"
  using maxUnitSize_fold [OF assms(1), of us 0] assms(2) by (simp add: ssvu_maxUnitSize_def)

lemma ssvu_precision_unat:
  "unat (ssvu_precision ssvu forced) + 1 = max (unat (precisionBytes (ssvu_maxUnitSize (ssvu_v3cUnits ssvu)))) (unat forced)"
proof -
  let ?p = "max (precisionBytes (ssvu_maxUnitSize (ssvu_v3cUnits ssvu))) forced"
  have p: "unat ?p = max (unat (precisionBytes (ssvu_maxUnitSize (ssvu_v3cUnits ssvu)))) (unat forced)"
    by (simp add: max_def word_le_nat_alt)
  then have "?p \<noteq> 0" using precisionBytes_range(1) [of "ssvu_maxUnitSize (ssvu_v3cUnits ssvu)"] by auto
  then have "unat (?p - 1) = unat ?p - 1" and "0 < unat ?p" by (simp_all add: unat_minus_one unat_gt_0)
  with p show ?thesis by (simp add: ssvu_precision_def)
qed

lemma ssvu_units_ok:
  assumes "\<And>vu. vu \<in> set (ssvu_v3cUnits ssvu) \<Longrightarrow>
      0 < unat (vu_size vu) \<and> unat (vu_size vu) \<le> length (bs_data (vu_bitstream vu)) \<and> unat (vu_size vu) < 2 ^ 32"
    and "forced = 4 \<or> unat (ssvu_maxUnitSize (ssvu_v3cUnits ssvu)) \<notin> {2 ^ 8, 2 ^ 16, 2 ^ 24}" and "vu \<in> set (ssvu_v3cUnits ssvu)"
  shows "vu_ok (ssvu_precision ssvu forced) vu"
proof -
  let ?m = "ssvu_maxUnitSize (ssvu_v3cUnits ssvu)" and ?n = "8 * (unat (ssvu_precision ssvu forced) + 1)"
  have "unat (vu_size vu) < 2 ^ ?n" using assms(2)
  proof
    assume "forced = 4"
    then have "32 \<le> ?n" using ssvu_precision_unat [of ssvu forced] by simp
    moreover have "unat (vu_size vu) < 2 ^ 32" using assms(1,3) by blast
    ultimately show ?thesis using power_increasing [of 32 ?n "2 :: nat"] by linarith
  next
    assume m: "unat ?m \<notin> {2 ^ 8, 2 ^ 16, 2 ^ 24}"
    have "unat (vu_size vu) \<le> unat ?m" using assms(1,3) by (intro maxUnitSize_ge) auto
    also have "\<dots> < 2 ^ (8 * unat (precisionBytes ?m))" using m precisionBytes_fits [of ?m] by simp
    also have "\<dots> \<le> 2 ^ ?n"
      using ssvu_precision_unat [of ssvu forced] by (intro power_increasing mult_le_mono2) simp_all
    finally show ?thesis .
  qed
  then show ?thesis using assms(1) [OF assms(3)] by (simp add: vu_ok_def)
qed

text \<open>The file that is written is read to the same units.\<close>

lemma ssvu_file_roundtrip:
  assumes "\<And>vu. vu \<in> set (ssvu_v3cUnits ssvu) \<Longrightarrow>
      0 < unat (vu_size vu) \<and> unat (vu_size vu) \<le> length (bs_data (vu_bitstream vu)) \<and> unat (vu_size vu) < 2 ^ 32"
    and "forced = 4 \<or> unat (ssvu_maxUnitSize (ssvu_v3cUnits ssvu)) \<notin> {2 ^ 8, 2 ^ 16, 2 ^ 24}" and "unat forced \<le> 4"
  shows "\<exists>headerSize ssvu' bs' e. ssvu_write ssvu forced bs_new = Some ((headerSize, ssvu'), bs')
    \<and> ssvu_read ssvu_new (bs_initialize (bs_file bs') bs_new) =
        Some ((headerSize, \<lparr>ssvu_v3cUnits = map vu_read (ssvu_v3cUnits ssvu),
           ssvu_ssvhUnitSizePrecisionBytesMinus1 = ssvu_ssvhUnitSizePrecisionBytesMinus1 ssvu'\<rparr>), e)"
proof -
  have new: "bs_inv bs_new" "bs_byteAligned bs_new"
    by (simp_all add: bs_new_def bs_inv_def bs_byteAligned_def lin_def)
  have p: "unat (ssvu_precision ssvu forced) \<le> 3"
    using ssvu_precision_unat [of ssvu forced] precisionBytes_range(2) [of "ssvu_maxUnitSize (ssvu_v3cUnits ssvu)"] assms(3) by simp
  obtain bs' where w: "ssvu_write ssvu forced bs_new = Some ((1 + length (ssvu_v3cUnits ssvu) * (unat (ssvu_precision ssvu forced) + 1),
          \<lparr>ssvu_v3cUnits = map vu_written (ssvu_v3cUnits ssvu), ssvu_ssvhUnitSizePrecisionBytesMinus1 = ssvu_precision ssvu forced\<rparr>), bs')"
    and i: "bs_inv bs'" "bs_byteAligned bs'"
    and r: "\<And>fs. bs_extends fs bs' \<Longrightarrow> length (bs_data fs) = bs_size bs' \<Longrightarrow>
         ssvu_read ssvu_new (bs_setPosition (bs_pos bs_new) fs) =
           Some ((1 + length (ssvu_v3cUnits ssvu) * (unat (ssvu_precision ssvu forced) + 1),
             \<lparr>ssvu_v3cUnits = map vu_read (ssvu_v3cUnits ssvu), ssvu_ssvhUnitSizePrecisionBytesMinus1 = ssvu_precision ssvu forced\<rparr>),
             bs_setPosition (bs_pos bs') fs)"
    using ssvu_write_read [OF p ssvu_units_ok [OF assms(1,2)] new] by blast
  let ?fs = "bs_initialize (bs_file bs') bs_new"
  have "bs_size bs' \<le> length (bs_data bs')" using i by (simp add: bs_inv_bytes)
  then have "bs_extends ?fs bs'" and "length (bs_data ?fs) = bs_size bs'"
    using i by (simp_all add: bs_extends_bytes bs_initialize_def bs_file_def)
  moreover have "bs_setPosition (bs_pos bs_new) ?fs = ?fs" by (simp add: bs_setPosition_def bs_initialize_def bs_new_def)
  ultimately show ?thesis using w r [of ?fs] by auto
qed

end
