(* ===== verification/SubStreams.thy ===== *)
theory SubStreams
  imports Units
begin

unbundle bit_operations_syntax

text \<open>
  What a V3C unit contains besides parameter sets: the NAL unit header, the header of the NAL sample stream, and the
  video sub-bitstreams with the choice of the video they carry; and the size statistics that writer and reader keep
  for every group of frames (\<open>PCCBitstreamStat\<close>).
\<close>

section \<open>NAL units\<close>

record NalUnit =
  nu_type :: uint8_t
  nu_layerId :: uint8_t
  nu_temporalyIdPlus1 :: uint8_t
  nu_size :: size_t
  nu_data :: "uint8_t list"

definition nu_new :: "uint8_t \<Rightarrow> uint8_t \<Rightarrow> uint8_t \<Rightarrow> NalUnit" where
  "nu_new nalUnitType layerId temporalyIdPlus1 =
     \<lparr>nu_type = nalUnitType, nu_layerId = layerId, nu_temporalyIdPlus1 = temporalyIdPlus1, nu_size = 0, nu_data = []\<rparr>"

text \<open>\<open>data_.resize( size_ - 2, 0 )\<close>; a size below 2 wraps around and \<open>resize\<close> throws.\<close>

definition nu_allocate :: "NalUnit \<Rightarrow> NalUnit option" where
  "nu_allocate nu = (if unat (nu_size nu) < 2 then None
     else Some (nu\<lparr>nu_data := vec_resize (unat (nu_size nu) - 2) 0 (nu_data nu)\<rparr>))"

text \<open>\<open>initialize\<close> with a payload \<open>data\<close> of \<open>size\<close> bytes: it tests the old size.\<close>

definition nu_initialize :: "uint8_t \<Rightarrow> uint8_t \<Rightarrow> uint8_t \<Rightarrow> uint8_t list \<Rightarrow> NalUnit \<Rightarrow> NalUnit" where
  "nu_initialize type layerId temporalyIdPlus1 data nu =
     (let nu = nu\<lparr>nu_type := type, nu_layerId := layerId, nu_temporalyIdPlus1 := temporalyIdPlus1\<rparr> in
      if 0 < nu_size nu then nu\<lparr>nu_size := of_nat (length data), nu_data := data\<rparr> else nu)"

definition nalUnitHeader_w :: "NalUnit \<Rightarrow> PCCBitstream \<Rightarrow> PCCBitstream option" where
  "nalUnitHeader_w nu bs = do {
     bs \<leftarrow> bs_write 0 1 bs;
     bs \<leftarrow> bs_write (ucast (nu_type nu)) 6 bs;
     bs \<leftarrow> bs_write (ucast (nu_layerId nu)) 6 bs;
     bs \<leftarrow> bs_write (ucast (nu_temporalyIdPlus1 nu)) 3 bs;
     Some bs
   }"

definition nalUnitHeader_r :: "NalUnit \<Rightarrow> PCCBitstream \<Rightarrow> (NalUnit \<times> PCCBitstream) option" where
  "nalUnitHeader_r nu bs = do {
     (v, bs) \<leftarrow> bs_read 1 bs;
     (v, bs) \<leftarrow> bs_read 6 bs;
     let nu = nu\<lparr>nu_type := ucast v\<rparr>;
     (v, bs) \<leftarrow> bs_read 6 bs;
     let nu = nu\<lparr>nu_layerId := ucast v\<rparr>;
     (v, bs) \<leftarrow> bs_read 3 bs;
     let nu = nu\<lparr>nu_temporalyIdPlus1 := ucast v\<rparr>;
     Some (nu, bs)
   }"

definition nalUnit_w :: "NalUnit \<Rightarrow> PCCBitstream \<Rightarrow> PCCBitstream option" where
  "nalUnit_w nu bs = do {
     bs \<leftarrow> nalUnitHeader_w nu bs;
     for_loop [2..<unat (nu_size nu)] (\<lambda>i bs. do {
         b \<leftarrow> vec_at (nu_data nu) i;
         bs_write (ucast b) 8 bs
       }) bs
   }"

definition nalUnit_r :: "NalUnit \<Rightarrow> PCCBitstream \<Rightarrow> (NalUnit \<times> PCCBitstream) option" where
  "nalUnit_r nu bs = do {
     (nu, bs) \<leftarrow> nalUnitHeader_r nu bs;
     for_loop [2..<unat (nu_size nu)] (\<lambda>i (nu, bs). do {
         (v, bs) \<leftarrow> bs_read 8 bs;
         d \<leftarrow> vec_set (nu_data nu) i (ucast v);
         Some (nu\<lparr>nu_data := d\<rparr>, bs)
       }) (nu, bs)
   }"

record SampleStreamNalUnit =
  ssnu_sizePrecisionBytesMinus1 :: uint8_t
  ssnu_nalUnit :: "NalUnit list"

definition ssnu_new :: SampleStreamNalUnit where
  "ssnu_new = \<lparr>ssnu_sizePrecisionBytesMinus1 = 0, ssnu_nalUnit = []\<rparr>"

definition ssnu_addNalUnit :: "SampleStreamNalUnit \<Rightarrow> SampleStreamNalUnit" where
  "ssnu_addNalUnit ssnu = ssnu\<lparr>ssnu_nalUnit := ssnu_nalUnit ssnu @ [nu_new 0 0 0]\<rparr>"

definition sampleStreamNalHeader_w :: "SampleStreamNalUnit \<Rightarrow> PCCBitstream \<Rightarrow> PCCBitstream option" where
  "sampleStreamNalHeader_w ssnu bs = do {
     bs \<leftarrow> bs_write (ucast (ssnu_sizePrecisionBytesMinus1 ssnu)) 3 bs;
     bs \<leftarrow> bs_write 0 5 bs;
     Some bs
   }"

definition sampleStreamNalHeader_r :: "SampleStreamNalUnit \<Rightarrow> PCCBitstream \<Rightarrow> (SampleStreamNalUnit \<times> PCCBitstream) option" where
  "sampleStreamNalHeader_r ssnu bs = do {
     (v, bs) \<leftarrow> bs_read 3 bs;
     let ssnu = ssnu\<lparr>ssnu_sizePrecisionBytesMinus1 := ucast v\<rparr>;
     (v, bs) \<leftarrow> bs_read 5 bs;
     Some (ssnu, bs)
   }"

definition ssnu_write :: "SampleStreamNalUnit \<Rightarrow> uint32_t \<Rightarrow> PCCBitstream \<Rightarrow> (SampleStreamNalUnit \<times> PCCBitstream) option" where
  "ssnu_write ssnu forcedSsvhUnitSizePrecisionBytes bs = do {
     let precision = max 4 forcedSsvhUnitSizePrecisionBytes;
     let ssnu = ssnu\<lparr>ssnu_sizePrecisionBytesMinus1 := ucast (precision - 1)\<rparr>;
     bs \<leftarrow> sampleStreamNalHeader_w ssnu bs;
     Some (ssnu, bs)
   }"

section \<open>Statistics\<close>

record PCCBitstreamGofStat =
  gof_v3cUnitSize :: "size_t list"
  gof_videoBinSize :: "size_t list"

text \<open>Video types are used as indices.\<close>

definition MAX_NUM_ATTR_PARTITIONS :: nat where [simp]: "MAX_NUM_ATTR_PARTITIONS = 64"
definition VIDEO_OCCUPANCY :: nat where [simp]: "VIDEO_OCCUPANCY = 0"
definition VIDEO_GEOMETRY :: nat where [simp]: "VIDEO_GEOMETRY = 1"
definition VIDEO_GEOMETRY_D0 :: nat where [simp]: "VIDEO_GEOMETRY_D0 = 2"
definition VIDEO_GEOMETRY_RAW :: nat where [simp]: "VIDEO_GEOMETRY_RAW = 18"
definition VIDEO_ATTRIBUTE :: nat where [simp]: "VIDEO_ATTRIBUTE = 19"
definition VIDEO_ATTRIBUTE_T0 :: nat where [simp]: "VIDEO_ATTRIBUTE_T0 = 20"
definition VIDEO_ATTRIBUTE_RAW :: nat where [simp]: "VIDEO_ATTRIBUTE_RAW = 1044"
definition NUM_VIDEO_TYPE :: nat where [simp]: "NUM_VIDEO_TYPE = 1108"
definition NUM_V3C_UNIT_TYPE :: nat where [simp]: "NUM_V3C_UNIT_TYPE = 32"

definition gof_new :: PCCBitstreamGofStat where
  "gof_new = \<lparr>gof_v3cUnitSize = replicate NUM_V3C_UNIT_TYPE 0, gof_videoBinSize = replicate NUM_VIDEO_TYPE 0\<rparr>"

definition gof_overwriteV3CUnitSize :: "nat \<Rightarrow> size_t \<Rightarrow> PCCBitstreamGofStat \<Rightarrow> PCCBitstreamGofStat option" where
  "gof_overwriteV3CUnitSize type sz g = do {
     l \<leftarrow> vec_set (gof_v3cUnitSize g) type sz;
     Some (g\<lparr>gof_v3cUnitSize := l\<rparr>)
   }"

definition gof_setV3CUnitSize :: "nat \<Rightarrow> size_t \<Rightarrow> PCCBitstreamGofStat \<Rightarrow> PCCBitstreamGofStat option" where
  "gof_setV3CUnitSize type sz g = do {
     old \<leftarrow> vec_at (gof_v3cUnitSize g) type;
     l \<leftarrow> vec_set (gof_v3cUnitSize g) type (old + sz);
     Some (g\<lparr>gof_v3cUnitSize := l\<rparr>)
   }"

definition gof_setVideoBinSize :: "nat \<Rightarrow> size_t \<Rightarrow> PCCBitstreamGofStat \<Rightarrow> PCCBitstreamGofStat option" where
  "gof_setVideoBinSize type sz g = do {
     old \<leftarrow> vec_at (gof_videoBinSize g) type;
     l \<leftarrow> vec_set (gof_videoBinSize g) type (old + sz);
     Some (g\<lparr>gof_videoBinSize := l\<rparr>)
   }"

definition gof_getV3CUnitSize :: "PCCBitstreamGofStat \<Rightarrow> nat \<Rightarrow> size_t option" where
  "gof_getV3CUnitSize g type = vec_at (gof_v3cUnitSize g) type"

definition gof_getVideoBinSize :: "PCCBitstreamGofStat \<Rightarrow> nat \<Rightarrow> size_t option" where
  "gof_getVideoBinSize g type = vec_at (gof_videoBinSize g) type"

text \<open>\<open>operator+=\<close>: the vectors of both objects have the sizes the constructor gave them.\<close>

definition gof_plus :: "PCCBitstreamGofStat \<Rightarrow> PCCBitstreamGofStat \<Rightarrow> PCCBitstreamGofStat" where
  "gof_plus g other = \<lparr>gof_v3cUnitSize = map2 (+) (gof_v3cUnitSize g) (gof_v3cUnitSize other),
     gof_videoBinSize = map2 (+) (gof_videoBinSize g) (gof_videoBinSize other)\<rparr>"

definition gof_getTotal :: "PCCBitstreamGofStat \<Rightarrow> size_t" where
  "gof_getTotal g = gof_v3cUnitSize g ! unat V3C_VPS + gof_v3cUnitSize g ! unat V3C_AD + gof_v3cUnitSize g ! unat V3C_OVD
     + gof_v3cUnitSize g ! unat V3C_GVD + gof_v3cUnitSize g ! unat V3C_AVD"

definition gof_getTotalGeometry :: "PCCBitstreamGofStat \<Rightarrow> size_t" where
  "gof_getTotalGeometry g = fold (\<lambda>i retVal. retVal + gof_videoBinSize g ! i) [VIDEO_GEOMETRY..<VIDEO_GEOMETRY_RAW + 1] 0"

definition gof_getTotalAttribute :: "PCCBitstreamGofStat \<Rightarrow> size_t" where
  "gof_getTotalAttribute g = fold (\<lambda>i retVal. retVal + gof_videoBinSize g ! i)
     [VIDEO_ATTRIBUTE..<VIDEO_ATTRIBUTE_RAW + MAX_NUM_ATTR_PARTITIONS] 0"

definition gof_getTotalMetadata :: "PCCBitstreamGofStat \<Rightarrow> size_t" where
  "gof_getTotalMetadata g = gof_getTotal g - gof_getTotalGeometry g - gof_getTotalAttribute g"

record PCCBitstreamStat =
  stat_header :: size_t
  stat_bitstreamGofStat :: "PCCBitstreamGofStat list"

definition stat_new :: PCCBitstreamStat where
  "stat_new = \<lparr>stat_header = 0, stat_bitstreamGofStat = []\<rparr>"

definition stat_newGOF :: "PCCBitstreamStat \<Rightarrow> PCCBitstreamStat" where
  "stat_newGOF s = s\<lparr>stat_bitstreamGofStat := stat_bitstreamGofStat s @ [gof_new]\<rparr>"

definition stat_setHeader :: "size_t \<Rightarrow> PCCBitstreamStat \<Rightarrow> PCCBitstreamStat" where
  "stat_setHeader sz s = s\<lparr>stat_header := sz\<rparr>"

definition stat_incrHeader :: "size_t \<Rightarrow> PCCBitstreamStat \<Rightarrow> PCCBitstreamStat" where
  "stat_incrHeader sz s = s\<lparr>stat_header := stat_header s + sz\<rparr>"

text \<open>An operation on \<open>bitstreamGofStat_.back()\<close>, undefined when there is no group.\<close>

definition stat_back :: "(PCCBitstreamGofStat \<Rightarrow> PCCBitstreamGofStat option) \<Rightarrow> PCCBitstreamStat \<Rightarrow> PCCBitstreamStat option" where
  "stat_back f s = (if stat_bitstreamGofStat s = [] then None else do {
     g \<leftarrow> f (last (stat_bitstreamGofStat s));
     Some (s\<lparr>stat_bitstreamGofStat := butlast (stat_bitstreamGofStat s) @ [g]\<rparr>)
   })"

definition stat_overwriteV3CUnitSize :: "nat \<Rightarrow> size_t \<Rightarrow> PCCBitstreamStat \<Rightarrow> PCCBitstreamStat option" where
  "stat_overwriteV3CUnitSize type sz = stat_back (gof_overwriteV3CUnitSize type sz)"

definition stat_setV3CUnitSize :: "nat \<Rightarrow> size_t \<Rightarrow> PCCBitstreamStat \<Rightarrow> PCCBitstreamStat option" where
  "stat_setV3CUnitSize type sz = stat_back (gof_setV3CUnitSize type sz)"

definition stat_setVideoBinSize :: "nat \<Rightarrow> size_t \<Rightarrow> PCCBitstreamStat \<Rightarrow> PCCBitstreamStat option" where
  "stat_setVideoBinSize type sz = stat_back (gof_setVideoBinSize type sz)"

text \<open>The sums that \<open>trace\<close> prints: metadata, geometry, attributes and everything.\<close>

definition stat_total :: "PCCBitstreamStat \<Rightarrow> PCCBitstreamGofStat" where
  "stat_total s = fold (\<lambda>element total. gof_plus total element) (stat_bitstreamGofStat s) gof_new"

definition stat_trace :: "PCCBitstreamStat \<Rightarrow> size_t \<times> size_t \<times> size_t \<times> size_t" where
  "stat_trace s = (let totalBitstreamStat = stat_total s;
       totalMetadata = gof_getTotalMetadata totalBitstreamStat + stat_header s;
       totalGeometry = gof_getTotalGeometry totalBitstreamStat;
       totalAttribute = gof_getTotalAttribute totalBitstreamStat;
       total = totalMetadata + totalGeometry + totalAttribute
     in (totalMetadata, totalGeometry, totalAttribute, total))"

section \<open>Video sub-bitstreams\<close>

definition syn_getVideoBitstream :: "nat \<Rightarrow> PCCHighLevelSyntax \<Rightarrow> PCCVideoBitstream option" where
  "syn_getVideoBitstream type syn = do {
     hls \<leftarrow> syn_getAtlasHighLevelSyntax syn;
     hls_getVideoBitstream (of_nat type) hls
   }"

text \<open>\<open>createVideoBitstream\<close> returns a reference to the new video, which the reader then fills with \<open>data\<close>.\<close>

definition syn_createVideoBitstream :: "nat \<Rightarrow> uint8_t list \<Rightarrow> PCCHighLevelSyntax \<Rightarrow> PCCHighLevelSyntax option" where
  "syn_createVideoBitstream type data syn = do {
     hls \<leftarrow> syn_getAtlasHighLevelSyntax syn;
     let hls = hls_createVideoBitstream (of_nat type) hls;
     let l = hls_videoBitstream hls;
     let hls = hls\<lparr>hls_videoBitstream := l[length l - 1 := (last l)\<lparr>vb_data := data\<rparr>]\<rparr>;
     Some (syn\<lparr>syn_atlasHLS := (syn_atlasHLS syn)[syn_atlasIndex syn := hls]\<rparr>)
   }"

text \<open>The two statements every branch consists of.\<close>

definition video_w :: "PCCHighLevelSyntax \<Rightarrow> nat \<Rightarrow> PCCBitstreamStat \<Rightarrow> PCCBitstream \<Rightarrow> (PCCBitstreamStat \<times> PCCBitstream) option" where
  "video_w syn type stat bs = do {
     video \<leftarrow> syn_getVideoBitstream type syn;
     bs \<leftarrow> bs_writeVideoStream (vb_data video) bs;
     stat \<leftarrow> stat_setVideoBinSize type (of_nat (length (vb_data video))) stat;
     Some (stat, bs)
   }"

definition video_r :: "nat \<Rightarrow> size_t \<Rightarrow> PCCHighLevelSyntax \<Rightarrow> PCCBitstreamStat \<Rightarrow> PCCBitstream \<Rightarrow> ((PCCHighLevelSyntax \<times> PCCBitstreamStat) \<times> PCCBitstream) option" where
  "video_r type V3CPayloadSize syn stat bs = do {
     (data, bs) \<leftarrow> bs_readVideoStream (unat V3CPayloadSize) bs;
     syn \<leftarrow> syn_createVideoBitstream type data syn;
     video \<leftarrow> syn_getVideoBitstream type syn;
     stat \<leftarrow> stat_setVideoBinSize type (of_nat (length (vb_data video))) stat;
     Some ((syn, stat), bs)
   }"

definition vps_multipleMaps :: "V3CParameterSet \<Rightarrow> nat \<Rightarrow> bool option" where
  "vps_multipleMaps vps atlasIndex = do {
     c \<leftarrow> vec_at (vps_mapCountMinus1 vps) atlasIndex;
     if 0 < c then vec_at (vps_multipleMapStreamsPresentFlag vps) atlasIndex else Some False
   }"

definition videoSubStream_w ::
  "PCCHighLevelSyntax \<Rightarrow> V3CUnitType \<Rightarrow> PCCBitstreamStat \<Rightarrow> PCCBitstream \<Rightarrow> (PCCBitstreamStat \<times> PCCBitstream) option" where
  "videoSubStream_w syn v3cUnitType stat bs = do {
     sps \<leftarrow> syn_getVps syn (syn_activeVPS syn);
     vuh \<leftarrow> syn_getV3CUnitHeader syn (unat v3cUnitType - 1);
     let atlasIndex = unat (vuh_atlasId vuh);
     if v3cUnitType = V3C_OVD then video_w syn VIDEO_OCCUPANCY stat bs
     else if v3cUnitType = V3C_GVD then
       (if vuh_auxiliaryVideoFlag vuh then video_w syn VIDEO_GEOMETRY_RAW stat bs
        else do {
          multiple \<leftarrow> vps_multipleMaps sps atlasIndex;
          if multiple then video_w syn (VIDEO_GEOMETRY_D0 + unat (vuh_mapIndex vuh)) stat bs
          else video_w syn VIDEO_GEOMETRY stat bs
        })
     else if v3cUnitType = V3C_AVD then do {
       ai \<leftarrow> vec_at (vps_attributeInformation sps) atlasIndex;
       if 0 < ai_attributeCount ai then
         (if vuh_auxiliaryVideoFlag vuh
          then video_w syn (VIDEO_ATTRIBUTE_RAW + unat (vuh_attributeDimensionIndex vuh)) stat bs
          else do {
            multiple \<leftarrow> vps_multipleMaps sps atlasIndex;
            if multiple then video_w syn (VIDEO_ATTRIBUTE_T0 + unat (vuh_mapIndex vuh) * MAX_NUM_ATTR_PARTITIONS
               + unat (vuh_attributeDimensionIndex vuh)) stat bs
            else video_w syn (VIDEO_ATTRIBUTE + unat (vuh_attributeDimensionIndex vuh)) stat bs
          })
       else Some (stat, bs)
     } else Some (stat, bs)
   }"

text \<open>The reader takes the parameters of atlas 0.\<close>

definition videoSubStream_r ::
  "V3CUnitType \<Rightarrow> size_t \<Rightarrow> PCCHighLevelSyntax \<Rightarrow> PCCBitstreamStat \<Rightarrow> PCCBitstream \<Rightarrow> ((PCCHighLevelSyntax \<times> PCCBitstreamStat) \<times> PCCBitstream) option" where
  "videoSubStream_r v3cUnitType V3CPayloadSize syn stat bs = (let atlasIndex = 0 in
     if v3cUnitType = V3C_OVD then video_r VIDEO_OCCUPANCY V3CPayloadSize syn stat bs
     else if v3cUnitType = V3C_GVD then do {
       vuh \<leftarrow> syn_getV3CUnitHeader syn (unat V3C_GVD - 1);
       if vuh_auxiliaryVideoFlag vuh then video_r VIDEO_GEOMETRY_RAW V3CPayloadSize syn stat bs
       else do {
         vps \<leftarrow> syn_getVps syn (syn_activeVPS syn);
         multiple \<leftarrow> vps_multipleMaps vps atlasIndex;
         if multiple then video_r (VIDEO_GEOMETRY_D0 + unat (vuh_mapIndex vuh)) V3CPayloadSize syn stat bs
         else video_r VIDEO_GEOMETRY V3CPayloadSize syn stat bs
       }
     } else if v3cUnitType = V3C_AVD then do {
       vuh \<leftarrow> syn_getV3CUnitHeader syn (unat V3C_AVD - 1);
       vps \<leftarrow> syn_getVps syn (syn_activeVPS syn);
       ai \<leftarrow> vec_at (vps_attributeInformation vps) atlasIndex;
       if 0 < ai_attributeCount ai then
         (if vuh_auxiliaryVideoFlag vuh
          then video_r (VIDEO_ATTRIBUTE_RAW + unat (vuh_attributeDimensionIndex vuh)) V3CPayloadSize syn stat bs
          else do {
            multiple \<leftarrow> vps_multipleMaps vps atlasIndex;
            if multiple then video_r (VIDEO_ATTRIBUTE_T0 + unat (vuh_mapIndex vuh) * MAX_NUM_ATTR_PARTITIONS
               + unat (vuh_attributeDimensionIndex vuh)) V3CPayloadSize syn stat bs
            else video_r (VIDEO_ATTRIBUTE + unat (vuh_attributeDimensionIndex vuh)) V3CPayloadSize syn stat bs
          })
       else Some ((syn, stat), bs)
     } else Some ((syn, stat), bs))"

section \<open>NAL unit header and payload\<close>

definition nu_wf :: "NalUnit \<Rightarrow> bool" where
  "nu_wf nu \<longleftrightarrow> unat (nu_type nu) < 2 ^ 6 \<and> unat (nu_layerId nu) < 2 ^ 6 \<and> unat (nu_temporalyIdPlus1 nu) < 2 ^ 3"

lemma nalUnitHeader_codes:
  assumes wf: "nu_wf x"
  shows "codes (nalUnitHeader_w x) (nalUnitHeader_r y)
    (y\<lparr>nu_type := nu_type x, nu_layerId := nu_layerId x, nu_temporalyIdPlus1 := nu_temporalyIdPlus1 x\<rparr>)"
proof -
  note facts = wf [unfolded nu_wf_def, simplified]
  show ?thesis
    unfolding nalUnitHeader_w_def [abs_def] nalUnitHeader_r_def [abs_def]
    by ((rule codec_intro refl | (simp (no_asm) add: facts; fail) | (simp add: facts; fail))+)
qed

lemma sampleStreamNalHeader_codes:
  assumes "unat (ssnu_sizePrecisionBytesMinus1 x) < 8"
  shows "codes (sampleStreamNalHeader_w x) (sampleStreamNalHeader_r y)
    (y\<lparr>ssnu_sizePrecisionBytesMinus1 := ssnu_sizePrecisionBytesMinus1 x\<rparr>)"
  unfolding sampleStreamNalHeader_w_def [abs_def] sampleStreamNalHeader_r_def [abs_def]
  by ((rule codec_intro refl | (simp (no_asm); fail) | (use assms in simp; fail))+)

text \<open>\<open>allocate\<close> makes room for the payload without the header, the loops count the header.\<close>

lemma nalUnit_w_None:
  assumes "length (nu_data nu) = unat (nu_size nu) - 2" and "2 < unat (nu_size nu)"
  shows "nalUnit_w nu bs = None"
proof -
  have "for_loop [2..<unat (nu_size nu)] (\<lambda>i bs. Option.bind (vec_at (nu_data nu) i) (\<lambda>b. bs_write (ucast b) 8 bs)) bs = None" for bs
    by (rule for_loop_None [where i = "unat (nu_size nu) - 1" and P = "\<lambda>_. True"]) (use assms in auto)
  then show ?thesis by (simp add: nalUnit_w_def split: Option.bind_split)
qed

lemma nalUnit_r_None:
  assumes "length (nu_data nu) = unat (nu_size nu) - 2" and "2 < unat (nu_size nu)"
  shows "nalUnit_r nu bs = None"
proof -
  let ?f = "\<lambda>i (nu, bs). Option.bind (bs_read 8 bs) (\<lambda>(v, bs). Option.bind (vec_set (nu_data nu) i (ucast v))
      (\<lambda>d. Some (nu\<lparr>nu_data := d\<rparr>, bs)))"
  let ?P = "\<lambda>(nu', bs :: PCCBitstream). length (nu_data nu') = unat (nu_size nu) - 2"
  have "for_loop [2..<unat (nu_size nu)] ?f (nu', bs) = None" if "length (nu_data nu') = unat (nu_size nu) - 2" for nu' :: NalUnit and bs :: PCCBitstream
  proof (rule for_loop_None [where i = "unat (nu_size nu) - 1" and P = ?P])
    show "?P s'" if "?P s" and "?f j s = Some s'" for j s s'
      using that by (auto simp: vec_set_eq_Some split: Option.bind_splits prod.splits)
    show "?f (unat (nu_size nu) - 1) s = None" if "?P s" for s
      using that assms(2) by (auto split: Option.bind_splits prod.splits)
  qed (use assms that in auto)
  moreover have "nu_size nu' = nu_size nu \<and> nu_data nu' = nu_data nu" if "nalUnitHeader_r nu bs = Some (nu', bs')" for nu' bs'
    using that by (auto simp: nalUnitHeader_r_def Let_def split: Option.bind_splits)
  ultimately show ?thesis
    using assms(1) by (cases "nalUnitHeader_r nu bs") (auto simp: nalUnit_r_def)
qed

section \<open>Which video a unit carries\<close>

definition videoType :: "V3CUnitType \<Rightarrow> V3CUnitHeader \<Rightarrow> bool \<Rightarrow> nat option" where
  "videoType t vuh multiple =
     (if t = V3C_OVD then Some VIDEO_OCCUPANCY
      else if t = V3C_GVD then Some (if vuh_auxiliaryVideoFlag vuh then VIDEO_GEOMETRY_RAW
        else if multiple then VIDEO_GEOMETRY_D0 + unat (vuh_mapIndex vuh) else VIDEO_GEOMETRY)
      else if t = V3C_AVD then Some (if vuh_auxiliaryVideoFlag vuh then VIDEO_ATTRIBUTE_RAW + unat (vuh_attributeDimensionIndex vuh)
        else if multiple then VIDEO_ATTRIBUTE_T0 + unat (vuh_mapIndex vuh) * MAX_NUM_ATTR_PARTITIONS + unat (vuh_attributeDimensionIndex vuh)
        else VIDEO_ATTRIBUTE + unat (vuh_attributeDimensionIndex vuh))
      else None)"

lemma videoSubStream_w_type:
  assumes "syn_getVps syn (syn_activeVPS syn) = Some vps" and "syn_getV3CUnitHeader syn (unat t - 1) = Some vuh"
    and "vps_multipleMaps vps (unat (vuh_atlasId vuh)) = Some m"
    and "vec_at (vps_attributeInformation vps) (unat (vuh_atlasId vuh)) = Some ai" and "0 < ai_attributeCount ai"
    and "videoType t vuh m = Some v"
  shows "videoSubStream_w syn t stat bs = video_w syn v stat bs"
  using assms by (auto simp: videoSubStream_w_def videoType_def Let_def split: if_splits)

lemma videoSubStream_r_type:
  assumes "syn_getVps syn (syn_activeVPS syn) = Some vps" and "syn_getV3CUnitHeader syn (unat t - 1) = Some vuh"
    and "vps_multipleMaps vps 0 = Some m"
    and "vec_at (vps_attributeInformation vps) 0 = Some ai" and "0 < ai_attributeCount ai"
    and "videoType t vuh m = Some v"
  shows "videoSubStream_r t n syn stat bs = video_r v n syn stat bs"
  using assms by (auto simp: videoSubStream_r_def videoType_def Let_def split: if_splits)

lemma videoType_range:
  assumes "vuh_wf vuh" and "videoType t vuh m = Some v"
  shows "v < NUM_VIDEO_TYPE"
  using assms by (auto simp: videoType_def vuh_wf_def split: if_splits)

lemma pair64:
  assumes "a * 64 + b = a' * 64 + (b' :: nat)" and "b < 32" and "b' < 32"
  shows "a = a' \<and> b = b'"
proof -
  have "a = (a * 64 + b) div 64" and "b = (a * 64 + b) mod 64" and "a' = (a' * 64 + b') div 64" and "b' = (a' * 64 + b') mod 64"
    using assms(2,3) by simp_all
  with assms(1) show ?thesis by metis
qed

definition attributeSlot :: "V3CUnitHeader \<Rightarrow> bool \<Rightarrow> nat" where
  "attributeSlot h m = (if vuh_auxiliaryVideoFlag h then VIDEO_ATTRIBUTE_RAW + unat (vuh_attributeDimensionIndex h)
        else if m then VIDEO_ATTRIBUTE_T0 + unat (vuh_mapIndex h) * MAX_NUM_ATTR_PARTITIONS + unat (vuh_attributeDimensionIndex h)
        else VIDEO_ATTRIBUTE + unat (vuh_attributeDimensionIndex h))"

lemma attributeSlot_inj:
  assumes b: "unat (vuh_mapIndex h) < 16" "unat (vuh_mapIndex h') < 16"
    "unat (vuh_attributeDimensionIndex h) < 32" "unat (vuh_attributeDimensionIndex h') < 32"
    and eq: "attributeSlot h m = attributeSlot h' m"
  shows "vuh_auxiliaryVideoFlag h = vuh_auxiliaryVideoFlag h' \<and> (m \<longrightarrow> \<not> vuh_auxiliaryVideoFlag h \<longrightarrow> vuh_mapIndex h = vuh_mapIndex h')
    \<and> vuh_attributeDimensionIndex h = vuh_attributeDimensionIndex h'"
proof -
  have small: "attributeSlot x m < VIDEO_ATTRIBUTE_RAW \<longleftrightarrow> \<not> vuh_auxiliaryVideoFlag x"
    if "unat (vuh_mapIndex x) < 16" "unat (vuh_attributeDimensionIndex x) < 32" for x
    using that by (simp add: attributeSlot_def)
  then have aux: "vuh_auxiliaryVideoFlag h = vuh_auxiliaryVideoFlag h'" using b eq by metis
  show ?thesis
  proof (cases "vuh_auxiliaryVideoFlag h \<or> \<not> m")
    case True
    then have "unat (vuh_attributeDimensionIndex h) = unat (vuh_attributeDimensionIndex h')"
      using eq aux by (auto simp: attributeSlot_def)
    then show ?thesis using True aux by (auto simp: word_unat_eq_iff)
  next
    case False
    then have "unat (vuh_mapIndex h) * 64 + unat (vuh_attributeDimensionIndex h) = unat (vuh_mapIndex h') * 64 + unat (vuh_attributeDimensionIndex h')"
      using eq aux by (simp add: attributeSlot_def)
    then show ?thesis using pair64 [OF _ b(3,4)] aux by (simp add: word_unat_eq_iff)
  qed
qed

definition geometrySlot :: "V3CUnitHeader \<Rightarrow> bool \<Rightarrow> nat" where
  "geometrySlot h m = (if vuh_auxiliaryVideoFlag h then VIDEO_GEOMETRY_RAW
        else if m then VIDEO_GEOMETRY_D0 + unat (vuh_mapIndex h) else VIDEO_GEOMETRY)"

lemma geometrySlot_inj:
  assumes "unat (vuh_mapIndex h) < 16" and "unat (vuh_mapIndex h') < 16" and "geometrySlot h m = geometrySlot h' m"
  shows "vuh_auxiliaryVideoFlag h = vuh_auxiliaryVideoFlag h' \<and> (m \<longrightarrow> \<not> vuh_auxiliaryVideoFlag h \<longrightarrow> vuh_mapIndex h = vuh_mapIndex h')"
  using assms by (auto simp: geometrySlot_def word_unat_eq_iff split: if_splits)

lemma videoType_class:
  assumes "vuh_wf h" and "videoType t h m = Some v"
  shows "(t = V3C_OVD \<and> v = 0) \<or> (t = V3C_GVD \<and> 0 < v \<and> v < 19) \<or> (t = V3C_AVD \<and> 19 \<le> v)"
proof -
  have "unat (vuh_mapIndex h) < 16" using assms(1) by (simp add: vuh_wf_def)
  then show ?thesis using assms(2) by (simp add: videoType_def split: if_splits)
qed

text \<open>Two units of a stream with the same slot have the same type and the same indices, as far as the type has them.\<close>

lemma videoType_inj:
  assumes "vuh_wf h" and "vuh_wf h'" and "videoType t h m = Some v" and "videoType t' h' m = Some v"
  shows "t = t' \<and> (t \<noteq> V3C_OVD \<longrightarrow> vuh_auxiliaryVideoFlag h = vuh_auxiliaryVideoFlag h')
    \<and> (t \<noteq> V3C_OVD \<longrightarrow> m \<longrightarrow> \<not> vuh_auxiliaryVideoFlag h \<longrightarrow> vuh_mapIndex h = vuh_mapIndex h')
    \<and> (t = V3C_AVD \<longrightarrow> vuh_attributeDimensionIndex h = vuh_attributeDimensionIndex h')"
proof -
  have b: "unat (vuh_mapIndex h) < 16" "unat (vuh_mapIndex h') < 16"
    "unat (vuh_attributeDimensionIndex h) < 32" "unat (vuh_attributeDimensionIndex h') < 32"
    using assms(1,2) by (simp_all add: vuh_wf_def)
  note cls = videoType_class [OF assms(1,3)] videoType_class [OF assms(2,4)]
  then have t: "t' = t" by (elim disjE) simp_all
  consider "t = V3C_OVD" | "t = V3C_GVD" | "t = V3C_AVD" using cls(1) by blast
  then show ?thesis
  proof cases
    case 1
    then show ?thesis using t by simp
  next
    case 2
    then have "v = geometrySlot h m" and "v = geometrySlot h' m"
      using assms(3,4) t by (simp_all add: videoType_def geometrySlot_def)
    then show ?thesis using geometrySlot_inj [OF b(1,2), of m] 2 t by simp
  next
    case 3
    then have "v = attributeSlot h m" and "v = attributeSlot h' m"
      using assms(3,4) t by (simp_all add: videoType_def attributeSlot_def)
    then show ?thesis using attributeSlot_inj [OF b, of m] 3 t by simp
  qed
qed

section \<open>Round trip of a video\<close>

definition syn_addVideo :: "nat \<Rightarrow> uint8_t list \<Rightarrow> PCCHighLevelSyntax \<Rightarrow> PCCHighLevelSyntax" where
  "syn_addVideo v data syn = (let hls = syn_atlasHLS syn ! syn_atlasIndex syn in
     syn\<lparr>syn_atlasHLS := (syn_atlasHLS syn)[syn_atlasIndex syn :=
       hls\<lparr>hls_videoBitstream := hls_videoBitstream hls @ [\<lparr>vb_data = data, vb_type = of_nat v\<rparr>]\<rparr>]\<rparr>)"

lemma syn_createVideoBitstream_Some:
  assumes "syn_atlasIndex syn < length (syn_atlasHLS syn)"
  shows "syn_createVideoBitstream v data syn = Some (syn_addVideo v data syn)"
  using assms by (simp add: syn_createVideoBitstream_def syn_getAtlasHighLevelSyntax_def syn_addVideo_def hls_createVideoBitstream_def
    vb_new_def Let_def list_update_append)

lemma find_snoc: "find P xs = None \<Longrightarrow> P x \<Longrightarrow> find P (xs @ [x]) = Some x"
  by (induction xs) (auto split: if_splits)

text \<open>A video that is not in the store yet is found after it has been added.\<close>

lemma syn_getVideoBitstream_addVideo:
  assumes "syn_atlasIndex syn < length (syn_atlasHLS syn)" and "syn_getVideoBitstream v syn = None"
  shows "syn_getVideoBitstream v (syn_addVideo v data syn) = Some \<lparr>vb_data = data, vb_type = of_nat v\<rparr>"
  using assms by (simp add: syn_getVideoBitstream_def syn_getAtlasHighLevelSyntax_def syn_addVideo_def hls_getVideoBitstream_def Let_def find_snoc)

definition stat_ok :: "PCCBitstreamStat \<Rightarrow> bool" where
  "stat_ok s \<longleftrightarrow> stat_bitstreamGofStat s \<noteq> [] \<and> (\<forall>g \<in> set (stat_bitstreamGofStat s).
     length (gof_v3cUnitSize g) = NUM_V3C_UNIT_TYPE \<and> length (gof_videoBinSize g) = NUM_VIDEO_TYPE)"

lemma stat_setVideoBinSize_Some:
  assumes "stat_ok s" and "v < NUM_VIDEO_TYPE"
  shows "\<exists>s'. stat_setVideoBinSize v n s = Some s' \<and> stat_ok s'"
proof -
  let ?gs = "stat_bitstreamGofStat s"
  have ne: "?gs \<noteq> []" and len: "\<And>g. g \<in> set ?gs \<Longrightarrow> length (gof_v3cUnitSize g) = 32 \<and> length (gof_videoBinSize g) = 1108"
    using assms(1) by (simp_all add: stat_ok_def)
  have "length (gof_v3cUnitSize (last ?gs)) = 32" "length (gof_videoBinSize (last ?gs)) = 1108" using len [of "last ?gs"] ne by simp_all
  then show ?thesis
    using assms(2) ne len in_set_butlastD [of _ ?gs] by (auto simp: stat_setVideoBinSize_def stat_back_def gof_setVideoBinSize_def stat_ok_def)
qed

lemma video_blocks:
  assumes w: "syn_getVideoBitstream v syn = Some video" "stat_ok stat"
    and r: "syn_atlasIndex syn' < length (syn_atlasHLS syn')" "syn_getVideoBitstream v syn' = None"
    and s: "stat_setVideoBinSize v (of_nat (length (vb_data video))) stat' = Some stat''"
    and v: "v < NUM_VIDEO_TYPE" and len: "length (vb_data video) < 2 ^ 64"
  shows "blocks (\<lambda>bs. map_option snd (video_w syn v stat bs)) (video_r v (of_nat (length (vb_data video))) syn' stat')
    (length (vb_data video)) (syn_addVideo v (vb_data video) syn', stat'')"
proof (rule blocks_W)
  let ?F = "\<lambda>data bs. Option.bind (syn_createVideoBitstream v data syn') (\<lambda>syn. Option.bind (syn_getVideoBitstream v syn)
     (\<lambda>video. Option.bind (stat_setVideoBinSize v (of_nat (length (vb_data video))) stat') (\<lambda>stat. Some ((syn, stat), bs))))"
  have n: "unat (of_nat (length (vb_data video)) :: size_t) = length (vb_data video)" using len by (simp add: unat_of_nat)
  have r_eq: "video_r v (of_nat (length (vb_data video))) syn' stat' = (\<lambda>bs. Option.bind (bs_readVideoStream (length (vb_data video)) bs) (\<lambda>(data, bs). ?F data bs))"
    unfolding video_r_def [abs_def] n by (rule refl)
  show "blocks (bs_writeVideoStream (vb_data video)) (video_r v (of_nat (length (vb_data video))) syn' stat')
    (length (vb_data video)) (syn_addVideo v (vb_data video) syn', stat'')"
    unfolding r_eq using s
    by (intro blocks_map [OF blocks_video]) (simp add: syn_createVideoBitstream_Some [OF r(1)] syn_getVideoBitstream_addVideo [OF r])
next
  fix bs assume "bs_inv bs" and "bs_byteAligned bs"
  then obtain bs' where "bs_writeVideoStream (vb_data video) bs = Some bs'" using bs_writeVideoStream_puts by blast
  moreover obtain t where "stat_setVideoBinSize v (of_nat (length (vb_data video))) stat = Some t"
    using stat_setVideoBinSize_Some [OF w(2) v] by blast
  ultimately show "map_option snd (video_w syn v stat bs) = bs_writeVideoStream (vb_data video) bs"
    using w(1) by (simp add: video_w_def)
qed

section \<open>Sums of the statistics\<close>

lemma fold_plus_sum: "fold (\<lambda>i r. r + f i) xs (r :: size_t) = r + sum_list (map f xs)"
  by (induction xs arbitrary: r) (simp_all add: ac_simps)

definition gof_ok :: "PCCBitstreamGofStat \<Rightarrow> bool" where
  "gof_ok g \<longleftrightarrow> length (gof_v3cUnitSize g) = NUM_V3C_UNIT_TYPE \<and> length (gof_videoBinSize g) = NUM_VIDEO_TYPE"

lemma gof_ok_new [simp]: "gof_ok gof_new"
  by (simp add: gof_ok_def gof_new_def)

lemma gof_ok_plus: "gof_ok a \<Longrightarrow> gof_ok b \<Longrightarrow> gof_ok (gof_plus a b)"
  by (simp add: gof_ok_def gof_plus_def)

lemma gof_getTotal_plus: "gof_ok a \<Longrightarrow> gof_ok b \<Longrightarrow> gof_getTotal (gof_plus a b) = gof_getTotal a + gof_getTotal b"
  by (simp add: gof_ok_def gof_plus_def gof_getTotal_def)

lemma gof_getTotal_new: "gof_getTotal gof_new = 0"
  by (simp add: gof_new_def gof_getTotal_def)

lemma stat_total_getTotal:
  assumes "\<And>g. g \<in> set gs \<Longrightarrow> gof_ok g" and "gof_ok a"
  shows "gof_getTotal (fold (\<lambda>element total. gof_plus total element) gs a) = gof_getTotal a + sum_list (map gof_getTotal gs)"
  using assms by (induction gs arbitrary: a) (simp_all add: gof_ok_plus gof_getTotal_plus ac_simps)

lemma stat_trace_total:
  assumes "\<And>g. g \<in> set (stat_bitstreamGofStat s) \<Longrightarrow> gof_ok g"
  shows "snd (snd (snd (stat_trace s))) = stat_header s + sum_list (map gof_getTotal (stat_bitstreamGofStat s))"
  using stat_total_getTotal [OF assms gof_ok_new]
  by (simp add: stat_trace_def stat_total_def gof_getTotalMetadata_def gof_getTotal_new Let_def)

section \<open>The unit type in the first byte\<close>

lemma v3cUnitHeader_r_type:
  assumes "v3cUnitHeader_r syn bs = Some ((t, syn'), bs')"
  shows "\<exists>v bs1. bs_read 5 bs = Some (v, bs1) \<and> t = ucast v"
  using assms by (auto simp: v3cUnitHeader_r_def Let_def split: Option.bind_splits if_splits)

lemma first_byte_type:
  assumes "bs_read 5 (bs_setPosition \<lparr>pos_bytes = 0, pos_bits = 0\<rparr> fs) = Some (v, bs1)" and "0 < length (bs_data fs)"
  shows "drop_bit 3 (bs_data fs ! 0) = ucast v"
proof (rule bit_word_eqI)
  fix j assume "j < LENGTH(8)"
  have vb: "bit v j \<longleftrightarrow> j < 5 \<and> bit_at (bs_data fs) (4 - j)" for j
    using bs_read_bits [of "bs_setPosition \<lparr>pos_bytes = 0, pos_bits = 0\<rparr> fs" 5] assms by (auto simp: lin_def)
  have "bit (drop_bit 3 (bs_data fs ! 0)) j \<longleftrightarrow> j < 5 \<and> bit (bs_data fs ! 0) (3 + j)"
    using bit_imp_le_length [of "bs_data fs ! 0" "3 + j"] by (auto simp: bit_drop_bit_eq)
  moreover have "bit (bs_data fs ! 0) (3 + j) = bit_at (bs_data fs) (4 - j)" if "j < 5"
    using bit_at_byte [of "3 + j" "bs_data fs" 0] that by (simp add: diff_add_eq)
  ultimately show "bit (drop_bit 3 (bs_data fs ! 0)) j \<longleftrightarrow> bit (ucast v :: uint8_t) j"
    using \<open>j < LENGTH(8)\<close> by (auto simp: vb bit_ucast_iff)
qed

lemma unit_type_byte:
  assumes "unat t < 2 ^ 5" and "length (syn_v3cUnitHeader syn) = 5"
    and "carries_atlas t \<Longrightarrow> vuh_wf (syn_v3cUnitHeader syn ! (unat t - 1))"
  shows "\<exists>bs'. v3cUnitHeader_w syn t bs_new = Some bs' \<and> (\<forall>fs. bs_extends fs bs' \<longrightarrow> drop_bit 3 (bs_data fs ! 0) = t)"
proof -
  have inv: "bs_inv bs_new" by (simp add: bs_new_def bs_inv_def lin_def)
  obtain bs' where w: "v3cUnitHeader_w syn t bs_new = Some bs'" and e: "bs_extends bs' bs_new"
    and r: "\<And>fs. bs_extends fs bs' \<Longrightarrow> v3cUnitHeader_r syn (bs_setPosition (bs_pos bs_new) fs) =
      Some ((t, syn_after_header t (syn_v3cUnitHeader syn ! (unat t - 1)) syn), bs_setPosition (bs_pos bs') fs)"
    by (rule codesE [OF v3cUnitHeader_codes [OF assms(1,2,2,3)] inv]) blast+
  have "drop_bit 3 (bs_data fs ! 0) = t" if ext: "bs_extends fs bs'" for fs
  proof -
    obtain v bs1 where v: "bs_read 5 (bs_setPosition \<lparr>pos_bytes = 0, pos_bits = 0\<rparr> fs) = Some (v, bs1)" and t: "t = ucast v"
      using v3cUnitHeader_r_type [OF r [OF ext]] by (auto simp: bs_new_def)
    have "0 < length (bs_data fs)"
    proof (rule ccontr)
      assume "\<not> 0 < length (bs_data fs)"
      then show False using v by (simp add: bs_read_def read_bit_def upt_rec)
    qed
    with v show ?thesis by (simp add: first_byte_type t)
  qed
  with w show ?thesis by blast
qed

section \<open>A small store\<close>

definition vps_video :: V3CParameterSet where
  "vps_video = vps_new\<lparr>vps_mapCountMinus1 := [0], vps_multipleMapStreamsPresentFlag := [False],
     vps_attributeInformation := [ai_new\<lparr>ai_attributeCount := 1\<rparr>]\<rparr>"

definition syn_video :: "PCCVideoBitstream list \<Rightarrow> PCCHighLevelSyntax" where
  "syn_video videos = syn_new\<lparr>syn_vpccParameterSets := [vps_video], syn_atlasHLS := [hls_new\<lparr>hls_videoBitstream := videos\<rparr>]\<rparr>"

lemma syn_video_vps: "syn_getVps (syn_video videos) (syn_activeVPS (syn_video videos)) = Some vps_video"
  by (simp add: syn_video_def vps_video_def syn_getVps_def syn_new_def vps_new_def)

lemma syn_video_vuh: "k < 5 \<Longrightarrow> syn_getV3CUnitHeader (syn_video videos) k = Some vuh_new"
  by (simp add: syn_video_def syn_getV3CUnitHeader_def syn_new_def)

lemma syn_video_maps: "vps_multipleMaps vps_video 0 = Some False"
  "vec_at (vps_attributeInformation vps_video) 0 = Some (ai_new\<lparr>ai_attributeCount := 1\<rparr>)"
  by (simp_all add: vps_multipleMaps_def vps_video_def)

lemma stat_ok_newGOF: "stat_ok (stat_newGOF stat_new)"
  by (simp add: stat_ok_def stat_newGOF_def stat_new_def gof_new_def)

definition stat_three :: PCCBitstreamStat where
  "stat_three = the (stat_setVideoBinSize 0 3 (stat_newGOF stat_new))"

lemma stat_video_three: "stat_setVideoBinSize 0 3 (stat_newGOF stat_new) = Some stat_three"
  using stat_setVideoBinSize_Some [OF stat_ok_newGOF, of 0 3] by (auto simp: stat_three_def)

lemma syn_video_store:
  "syn_getVideoBitstream v (syn_video []) = None"
  "syn_getVideoBitstream v (syn_video [\<lparr>vb_data = d, vb_type = of_nat v\<rparr>]) = Some \<lparr>vb_data = d, vb_type = of_nat v\<rparr>"
  "syn_atlasIndex (syn_video videos) = 0" "length (syn_atlasHLS (syn_video videos)) = 1"
  by (simp_all add: syn_video_def syn_getVideoBitstream_def syn_getAtlasHighLevelSyntax_def hls_getVideoBitstream_def syn_new_def)

lemma vuh_new_wf: "vuh_wf vuh_new" "vuh_atlasId vuh_new = 0"
  by (simp_all add: vuh_new_def vuh_wf_def)

lemma bs_byteAligned_new: "bs_byteAligned bs_new"
  by (simp add: bs_new_def bs_byteAligned_def)

end
