(* ===== verification/AtlasSubStream.thy ===== *)
theory AtlasSubStream
  imports SubStreams SeiList
begin

unbundle bit_operations_syntax

text \<open>
  The atlas sub-bitstream: \<open>sampleStreamNalUnit\<close> and \<open>atlasSubStream\<close> of the writer and the reader, which carry the
  parameter sets, the tile layers and the SEI messages of an atlas as a sample stream of NAL units.

  \<open>AtlasStore\<close> is the atlas of \<open>PCCHighLevelSyntax\<close> with the member \<open>sei_\<close> of its tile layers: the entry \<open>k\<close> of
  \<open>as_sei\<close> belongs to the tile layer \<open>k\<close>. The local objects of \<open>atlasSubStream\<close> of the reader and the members of the
  reader that live between tiles are the record \<open>NalReader\<close>. The writer measures every unit on a temporary stream
  before it writes it; \<open>NalSizes\<close> holds what it measures, the vectors of sizes as one map from the unit to its size.
\<close>

section \<open>State\<close>

record AtlasStore =
  as_hls :: PCCAtlasHighLevelSyntax
  as_sei :: "PCCSEI list"

record NalReader =
  nr_store :: AtlasStore
  nr_state :: ReaderState
  nr_ssnu :: SampleStreamNalUnit
  nr_prefixSEI :: PCCSEI

text \<open>The units of a sub-stream: a parameter set, a tile layer, or a message of a tile layer.\<close>

datatype NalSlot = AspsSlot nat | AfpsSlot nat | PrefixSlot nat nat | AtglSlot nat | SuffixSlot nat nat

record NalSizes =
  ns_tempBitStream :: PCCBitstream
  ns_lastSize :: uint32_t
  ns_maxUnitSize :: uint32_t
  ns_size :: "NalSlot \<Rightarrow> uint32_t"

definition NAL_SKIP_R :: NalUnitType where "NAL_SKIP_R = 11"
definition NAL_IDR_N_LP :: NalUnitType where "NAL_IDR_N_LP = 23"
definition NAL_ASPS :: NalUnitType where "NAL_ASPS = 36"
definition NAL_AFPS :: NalUnitType where "NAL_AFPS = 37"

text \<open>The types from \<open>NAL_TRAIL_N\<close> to \<open>NAL_SKIP_R\<close>, and \<open>NAL_IDR_N_LP\<close>.\<close>

definition nal_tile :: "NalUnitType \<Rightarrow> bool" where
  "nal_tile t \<longleftrightarrow> t \<le> NAL_SKIP_R \<or> t = NAL_IDR_N_LP"

section \<open>Writer\<close>

definition seiUnit_w :: "NalUnitType \<Rightarrow> nat \<Rightarrow> nat \<Rightarrow> AtlasStore \<Rightarrow> PCCBitstream \<Rightarrow> (AtlasStore \<times> PCCBitstream) option" where
  "seiUnit_w nal atglIndex index st bs = do {
     l \<leftarrow> vec_at (as_sei st) atglIndex;
     sei \<leftarrow> vec_at (sei_list nal l) index;
     (sei, bs) \<leftarrow> seiRbsp_w l nal sei bs;
     let l = (if nal_prefix nal then l\<lparr>seiPrefix := (seiPrefix l)[index := sei]\<rparr>
              else l\<lparr>seiSuffix := (seiSuffix l)[index := sei]\<rparr>);
     Some (st\<lparr>as_sei := (as_sei st)[atglIndex := l]\<rparr>, bs)
   }"

definition aspsUnit_w :: "nat \<Rightarrow> AtlasStore \<Rightarrow> PCCBitstream \<Rightarrow> (AtlasStore \<times> PCCBitstream) option" where
  "aspsUnit_w index st bs = do {
     asps \<leftarrow> vec_at (hls_atlasSequenceParameterSet (as_hls st)) index;
     bs \<leftarrow> atlasSequenceParameterSetRbsp_w asps bs;
     Some (st, bs)
   }"

definition afpsUnit_w :: "nat \<Rightarrow> AtlasStore \<Rightarrow> PCCBitstream \<Rightarrow> (AtlasStore \<times> PCCBitstream) option" where
  "afpsUnit_w index st bs = do {
     afps \<leftarrow> vec_at (hls_atlasFrameParameterSet (as_hls st)) index;
     bs \<leftarrow> atlasFrameParameterSetRbsp_w (hls_getAsps (as_hls st)) afps bs;
     Some (st, bs)
   }"

definition atglUnit_w :: "NalUnitType \<Rightarrow> nat \<Rightarrow> AtlasStore \<Rightarrow> PCCBitstream \<Rightarrow> (AtlasStore \<times> PCCBitstream) option" where
  "atglUnit_w nal index st bs = do {
     atgl \<leftarrow> vec_at (hls_atlasTileLayer (as_hls st)) index;
     bs \<leftarrow> atlasTileLayerRbsp_w (as_hls st) nal atgl bs;
     Some (st, bs)
   }"

text \<open>For a type that is not listed the program only prints a message. The size is a \<open>size_t\<close> that \<open>write\<close> takes as
  a \<open>uint32_t\<close>.\<close>

definition sampleStreamNalUnit_w :: "SampleStreamNalUnit \<Rightarrow> NalUnit \<Rightarrow> nat \<Rightarrow> nat \<Rightarrow> AtlasStore \<Rightarrow> PCCBitstream
    \<Rightarrow> (AtlasStore \<times> PCCBitstream) option" where
  "sampleStreamNalUnit_w ssnu nalu index atglIndex st bs = do {
     bs \<leftarrow> bs_write (ucast (nu_size nalu)) (8 * (unat (ssnu_sizePrecisionBytesMinus1 ssnu) + 1)) bs;
     bs \<leftarrow> nalUnitHeader_w nalu bs;
     let t = nu_type nalu;
     if t = NAL_ASPS then aspsUnit_w index st bs
     else if t = NAL_AFPS then afpsUnit_w index st bs
     else if nal_tile t then atglUnit_w t index st bs
     else if nal_suffix t then seiUnit_w t atglIndex index st bs
     else if nal_prefix t then seiUnit_w t atglIndex index st bs
     else Some (st, bs)
   }"

text \<open>The first pass: a unit is put on the temporary stream, and its size with the two bytes of the header is kept.\<close>

definition measure_w :: "NalSlot \<Rightarrow> (AtlasStore \<Rightarrow> PCCBitstream \<Rightarrow> (AtlasStore \<times> PCCBitstream) option)
    \<Rightarrow> AtlasStore \<times> NalSizes \<Rightarrow> (AtlasStore \<times> NalSizes) option" where
  "measure_w slot W = (\<lambda>(st, ns). do {
     (st, temp) \<leftarrow> W st (ns_tempBitStream ns);
     let size = ucast (of_nat (bs_size temp) - ucast (ns_lastSize ns) + 2 :: size_t);
     Some (st, ns\<lparr>ns_tempBitStream := temp, ns_lastSize := of_nat (bs_size temp),
       ns_maxUnitSize := (if ns_maxUnitSize ns < size then size else ns_maxUnitSize ns),
       ns_size := (ns_size ns)(slot := size)\<rparr>)
   })"

definition measure_tile_w :: "nat \<Rightarrow> AtlasStore \<times> NalSizes \<Rightarrow> (AtlasStore \<times> NalSizes) option" where
  "measure_tile_w atglIndex = (\<lambda>(st, ns). do {
     l \<leftarrow> vec_at (as_sei st) atglIndex;
     (st, ns) \<leftarrow> for_loop [0..<length (seiPrefix l)]
       (\<lambda>i. measure_w (PrefixSlot atglIndex i) (seiUnit_w NAL_PREFIX_ESEI atglIndex i)) (st, ns);
     (st, ns) \<leftarrow> measure_w (AtglSlot atglIndex) (atglUnit_w NAL_SKIP_R atglIndex) (st, ns);
     for_loop [0..<length (seiSuffix l)]
       (\<lambda>i. measure_w (SuffixSlot atglIndex i) (seiUnit_w NAL_SUFFIX_ESEI atglIndex i)) (st, ns)
   })"

definition nalSizes_w :: "AtlasStore \<Rightarrow> (AtlasStore \<times> NalSizes) option" where
  "nalSizes_w st = do {
     let ns = \<lparr>ns_tempBitStream = bs_new, ns_lastSize = 0, ns_maxUnitSize = 0, ns_size = (\<lambda>_. 0)\<rparr>;
     (st, ns) \<leftarrow> for_loop [0..<length (hls_atlasSequenceParameterSet (as_hls st))]
       (\<lambda>i. measure_w (AspsSlot i) (aspsUnit_w i)) (st, ns);
     (st, ns) \<leftarrow> for_loop [0..<length (hls_atlasFrameParameterSet (as_hls st))]
       (\<lambda>i. measure_w (AfpsSlot i) (afpsUnit_w i)) (st, ns);
     for_loop [0..<length (hls_atlasTileLayer (as_hls st))] measure_tile_w (st, ns)
   }"

text \<open>The second pass. \<open>precisionBytes\<close> is the rounding of \<open>ceilLog2\<close> to bytes, between 1 and 8.\<close>

definition atgl_naluType :: "AtlasTileLayerRbsp \<Rightarrow> NalUnitType" where
  "atgl_naluType atgl = (if ath_tileNaluTypeInfo (atgl_header atgl) = 1 then NAL_TRAIL_R
     else if ath_tileNaluTypeInfo (atgl_header atgl) = 2 then NAL_TRAIL_N else NAL_IDR_N_LP)"

definition nalUnitOf :: "NalUnitType \<Rightarrow> uint32_t \<Rightarrow> NalUnit" where
  "nalUnitOf t sz = (nu_new t 0 1)\<lparr>nu_size := ucast sz\<rparr>"

text \<open>\<open>setTileOrder\<close> numbers the layer before it is written.\<close>

definition as_setTileOrder :: "nat \<Rightarrow> AtlasStore \<Rightarrow> AtlasStore option" where
  "as_setTileOrder atglIndex st = do {
     atgl \<leftarrow> vec_at (hls_atlasTileLayer (as_hls st)) atglIndex;
     Some (st\<lparr>as_hls := (as_hls st)\<lparr>hls_atlasTileLayer := (hls_atlasTileLayer (as_hls st))
       [atglIndex := atgl\<lparr>atgl_dataUnit := (atgl_dataUnit atgl)\<lparr>atdu_tileOrder := of_nat atglIndex\<rparr>\<rparr>]\<rparr>\<rparr>)
   }"

definition nal_tile_w :: "SampleStreamNalUnit \<Rightarrow> (NalSlot \<Rightarrow> uint32_t) \<Rightarrow> nat \<Rightarrow> AtlasStore \<times> PCCBitstream \<Rightarrow> (AtlasStore \<times> PCCBitstream) option" where
  "nal_tile_w ssnu sz atglIndex = (\<lambda>(st, bs). do {
     atgl \<leftarrow> vec_at (hls_atlasTileLayer (as_hls st)) atglIndex;
     st \<leftarrow> as_setTileOrder atglIndex st;
     sampleStreamNalUnit_w ssnu (nalUnitOf (atgl_naluType atgl) (sz (AtglSlot atglIndex))) atglIndex 0 st bs
   })"

definition nal_layer_w :: "SampleStreamNalUnit \<Rightarrow> (NalSlot \<Rightarrow> uint32_t) \<Rightarrow> nat \<Rightarrow> AtlasStore \<times> PCCBitstream \<Rightarrow> (AtlasStore \<times> PCCBitstream) option" where
  "nal_layer_w ssnu sz atglIndex = (\<lambda>(st, bs). do {
     l \<leftarrow> vec_at (as_sei st) atglIndex;
     (st, bs) \<leftarrow> for_loop [0..<length (seiPrefix l)] (\<lambda>i (st, bs).
       sampleStreamNalUnit_w ssnu (nalUnitOf NAL_PREFIX_ESEI (sz (PrefixSlot atglIndex i))) i atglIndex st bs) (st, bs);
     (st, bs) \<leftarrow> nal_tile_w ssnu sz atglIndex (st, bs);
     for_loop [0..<length (seiSuffix l)] (\<lambda>i (st, bs).
       sampleStreamNalUnit_w ssnu (nalUnitOf NAL_SUFFIX_ESEI (sz (SuffixSlot atglIndex i))) i atglIndex st bs) (st, bs)
   })"

definition atlasSubStream_w :: "AtlasStore \<Rightarrow> PCCBitstream \<Rightarrow> (AtlasStore \<times> PCCBitstream) option" where
  "atlasSubStream_w st bs = do {
     (st, ns) \<leftarrow> nalSizes_w st;
     let sz = ns_size ns;
     let precision = precisionBytes (ns_maxUnitSize ns + 1) - 1;
     let ssnu = ssnu_new\<lparr>ssnu_sizePrecisionBytesMinus1 := ucast precision\<rparr>;
     bs \<leftarrow> sampleStreamNalHeader_w ssnu bs;
     (st, bs) \<leftarrow> for_loop [0..<length (hls_atlasSequenceParameterSet (as_hls st))] (\<lambda>i (st, bs).
       sampleStreamNalUnit_w ssnu (nalUnitOf NAL_ASPS (sz (AspsSlot i))) i 0 st bs) (st, bs);
     (st, bs) \<leftarrow> for_loop [0..<length (hls_atlasFrameParameterSet (as_hls st))] (\<lambda>i (st, bs).
       sampleStreamNalUnit_w ssnu (nalUnitOf NAL_AFPS (sz (AfpsSlot i))) i 0 st bs) (st, bs);
     for_loop [0..<length (hls_atlasTileLayer (as_hls st))] (nal_layer_w ssnu sz) (st, bs)
   }"

section \<open>Reader\<close>

definition aspsUnit_r :: "AtlasStore \<Rightarrow> PCCBitstream \<Rightarrow> (AtlasStore \<times> PCCBitstream) option" where
  "aspsUnit_r st bs = do {
     let hls = hls_addAsps (as_hls st);
     let l = hls_atlasSequenceParameterSet hls;
     (asps, bs) \<leftarrow> atlasSequenceParameterSetRbsp_r (last l) bs;
     Some (st\<lparr>as_hls := hls\<lparr>hls_atlasSequenceParameterSet := butlast l @ [asps]\<rparr>\<rparr>, bs)
   }"

definition afpsUnit_r :: "AtlasStore \<Rightarrow> PCCBitstream \<Rightarrow> (AtlasStore \<times> PCCBitstream) option" where
  "afpsUnit_r st bs = do {
     let hls = hls_addAfps (as_hls st);
     let l = hls_atlasFrameParameterSet hls;
     (afps, bs) \<leftarrow> atlasFrameParameterSetRbsp_r (hls_getAsps hls) (last l) bs;
     Some (st\<lparr>as_hls := hls\<lparr>hls_atlasFrameParameterSet := butlast l @ [afps]\<rparr>\<rparr>, bs)
   }"

text \<open>The new tile layer takes over the prefix messages collected so far. While it is read, the store holds it as it was
  added.\<close>

definition atglUnit_r :: "NalUnitType \<Rightarrow> NalReader \<Rightarrow> PCCBitstream \<Rightarrow> (NalReader \<times> PCCBitstream) option" where
  "atglUnit_r nal nr bs = do {
     let st = nr_store nr;
     let hls = hls_addAtlasTileLayer (as_hls st);
     let l = hls_atlasTileLayer hls;
     ((atgl, rst), bs) \<leftarrow> atlasTileLayerRbsp_r hls nal (nr_state nr) (last l) bs;
     let st = st\<lparr>as_hls := hls\<lparr>hls_atlasTileLayer := butlast l @ [atgl]\<rparr>,
       as_sei := as_sei st @ [pccsei_new\<lparr>seiPrefix := seiPrefix (nr_prefixSEI nr)\<rparr>]\<rparr>;
     Some (nr\<lparr>nr_store := st, nr_state := rst, nr_prefixSEI := (nr_prefixSEI nr)\<lparr>seiPrefix := []\<rparr>\<rparr>, bs)
   }"

text \<open>A suffix message before the first tile layer takes \<open>back()\<close> of an empty vector.\<close>

definition suffixUnit_r :: "SeiMemory \<Rightarrow> NalUnitType \<Rightarrow> AtlasStore \<Rightarrow> PCCBitstream \<Rightarrow> (AtlasStore \<times> PCCBitstream) option" where
  "suffixUnit_r g nal st bs = (if as_sei st = [] then None else do {
     (l, bs) \<leftarrow> seiRbsp_r g nal (last (as_sei st)) bs;
     Some (st\<lparr>as_sei := butlast (as_sei st) @ [l]\<rparr>, bs)
   })"

definition nalPayload_r :: "SeiMemory \<Rightarrow> NalUnitType \<Rightarrow> NalReader \<Rightarrow> PCCBitstream \<Rightarrow> (NalReader \<times> PCCBitstream) option" where
  "nalPayload_r g t nr bs =
     (if t = NAL_ASPS then do { (st, bs) \<leftarrow> aspsUnit_r (nr_store nr) bs; Some (nr\<lparr>nr_store := st\<rparr>, bs) }
      else if t = NAL_AFPS then do { (st, bs) \<leftarrow> afpsUnit_r (nr_store nr) bs; Some (nr\<lparr>nr_store := st\<rparr>, bs) }
      else if nal_tile t then atglUnit_r t nr bs
      else if nal_prefix t then do { (l, bs) \<leftarrow> seiRbsp_r g t (nr_prefixSEI nr) bs; Some (nr\<lparr>nr_prefixSEI := l\<rparr>, bs) }
      else if nal_suffix t then do { (st, bs) \<leftarrow> suffixUnit_r g t (nr_store nr) bs; Some (nr\<lparr>nr_store := st\<rparr>, bs) }
      else Some (nr, bs))"

text \<open>The NAL unit \<open>index\<close> of the sample stream is filled in place.\<close>

definition sampleStreamNalUnit_r :: "SeiMemory \<Rightarrow> nat \<Rightarrow> NalReader \<Rightarrow> PCCBitstream \<Rightarrow> (NalReader \<times> PCCBitstream) option" where
  "sampleStreamNalUnit_r g index nr bs = do {
     let ssnu = nr_ssnu nr;
     nalu \<leftarrow> vec_at (ssnu_nalUnit ssnu) index;
     (v, bs) \<leftarrow> bs_read (8 * (unat (ssnu_sizePrecisionBytesMinus1 ssnu) + 1)) bs;
     let nalu = nalu\<lparr>nu_size := ucast v\<rparr>;
     nalu \<leftarrow> nu_allocate nalu;
     (nalu, bs) \<leftarrow> nalUnitHeader_r nalu bs;
     let nr = nr\<lparr>nr_ssnu := ssnu\<lparr>ssnu_nalUnit := (ssnu_nalUnit ssnu)[index := nalu]\<rparr>\<rparr>;
     nalPayload_r g (nu_type nalu) nr bs
   }"

definition nextNalUnit_r :: "SeiMemory \<Rightarrow> NalReader \<Rightarrow> PCCBitstream \<Rightarrow> (NalReader \<times> PCCBitstream) option" where
  "nextNalUnit_r g nr bs = do {
     let nr = nr\<lparr>nr_ssnu := ssnu_addNalUnit (nr_ssnu nr)\<rparr>;
     sampleStreamNalUnit_r g (length (ssnu_nalUnit (nr_ssnu nr)) - 1) nr bs
   }"

text \<open>The loop runs until the position has reached the capacity of the stream.\<close>

partial_function (option) nalUnits_r :: "SeiMemory \<Rightarrow> NalReader \<Rightarrow> PCCBitstream \<Rightarrow> (NalReader \<times> PCCBitstream) option" where
  "nalUnits_r g nr bs = (if \<not> bs_moreData bs then Some (nr, bs)
     else Option.bind (nextNalUnit_r g nr bs) (\<lambda>(nr, bs). nalUnits_r g nr bs))"

definition atlasSubStream_r :: "SeiMemory \<Rightarrow> ReaderState \<Rightarrow> AtlasStore \<Rightarrow> PCCBitstream \<Rightarrow> ((AtlasStore \<times> ReaderState) \<times> PCCBitstream) option" where
  "atlasSubStream_r g rst st bs = do {
     (ssnu, bs) \<leftarrow> sampleStreamNalHeader_r ssnu_new bs;
     (nr, bs) \<leftarrow> nalUnits_r g \<lparr>nr_store = st, nr_state = rst, nr_ssnu = ssnu, nr_prefixSEI = pccsei_new\<rparr> bs;
     Some ((nr_store nr, nr_state nr), bs)
   }"

section \<open>Messages of a tile layer\<close>

text \<open>Two lists of messages that agree up to the payload sizes, which the writer sets.\<close>

definition pccsei_like :: "PCCSEI \<Rightarrow> PCCSEI \<Rightarrow> bool" where
  "pccsei_like l l' \<longleftrightarrow> map sei_body (seiPrefix l) = map sei_body (seiPrefix l') \<and> map sei_body (seiSuffix l) = map sei_body (seiSuffix l')"

lemma pccsei_like_refl: "pccsei_like l l"
  by (simp add: pccsei_like_def)

lemma pccsei_like_lengths:
  "pccsei_like l l' \<Longrightarrow> length (seiPrefix l) = length (seiPrefix l') \<and> length (seiSuffix l) = length (seiSuffix l')"
  unfolding pccsei_like_def by (metis length_map)

lemma find_map: "map_option f (List.find (\<lambda>x. P (f x)) xs) = List.find P (map f xs)"
  by (induction xs) auto

definition body_period :: "SeiBody list \<Rightarrow> SEIBufferingPeriod option" where
  "body_period bs = (case List.find (\<lambda>b. body_payloadType b = BUFFERING_PERIOD) (rev bs) of
     Some (BufferingPeriod x) \<Rightarrow> Some x | _ \<Rightarrow> None)"

lemma period_type: "body_payloadType b = BUFFERING_PERIOD \<longleftrightarrow> (\<exists>x. b = BufferingPeriod x)"
  by (cases b) simp_all

lemma last_bufferingPeriod_bodies: "last_bufferingPeriod l = body_period (map sei_body (seiPrefix l))"
proof -
  let ?P = "\<lambda>b. body_payloadType b = BUFFERING_PERIOD"
  have m: "map_option sei_body (List.find (\<lambda>sei. ?P (sei_body sei)) (rev (seiPrefix l))) = List.find ?P (rev (map sei_body (seiPrefix l)))"
    unfolding rev_map using find_map [of sei_body ?P "rev (seiPrefix l)"] by (simp only:)
  have none: "List.find (\<lambda>sei. ?P (sei_body sei)) (rev (seiPrefix l)) = None"
    if "\<not> list_ex (\<lambda>sei. ?P (sei_body sei)) (seiPrefix l)"
    using that by (simp add: find_None_ex list_ex_iff)
  show ?thesis
    unfolding last_bufferingPeriod_def body_period_def m [symmetric] seiIsPresent_def getLastSei_def sei_list_def getPayloadType_def
    using none by (auto simp: nal_prefix_def split: option.splits)
qed

lemma body_period_None: "body_period bs \<noteq> None \<longleftrightarrow> (\<exists>b \<in> set bs. body_payloadType b = BUFFERING_PERIOD)"
proof (cases "List.find (\<lambda>b. body_payloadType b = BUFFERING_PERIOD) (rev bs)")
  case None
  then have "\<not> (\<exists>b \<in> set bs. body_payloadType b = BUFFERING_PERIOD)" by (simp add: find_None_ex list_ex_iff)
  then show ?thesis unfolding body_period_def None by simp
next
  case (Some b)
  then have b: "b \<in> set bs" "body_payloadType b = BUFFERING_PERIOD"
    by (auto simp: find_Some_iff) (metis length_rev nth_mem set_rev)
  then obtain x where "b = BufferingPeriod x" using period_type by blast
  then have "body_period bs \<noteq> None" using Some by (simp add: body_period_def)
  then show ?thesis using b by blast
qed

lemma last_bufferingPeriod_like: "pccsei_like l l' \<Longrightarrow> last_bufferingPeriod l = last_bufferingPeriod l'"
  by (simp add: last_bufferingPeriod_bodies pccsei_like_def)

text \<open>A later list knows a buffering period if an earlier one does.\<close>

lemma sei_context_take:
  assumes "sei_context nal sei (pccsei_new\<lparr>seiPrefix := take i (seiPrefix l)\<rparr>)"
  shows "sei_context nal sei l"
  using assms unfolding sei_context_def last_bufferingPeriod_bodies body_period_None
  by (auto simp: pccsei_new_def dest: in_set_takeD)

text \<open>The payload does not depend on the sizes.\<close>

lemma prefix_w_like:
  assumes "last_bufferingPeriod l = last_bufferingPeriod l'" and "body_bytes x = None"
  shows "prefix_w l n x = prefix_w l' n' x" and "suffix_w n x = suffix_w n' x"
  using assms by (cases x; auto)+

lemma payload_bytes_like:
  assumes "sei_wf g nal sei" and "sei_wf g nal sei'" and "sei_body sei = sei_body sei'" and "pccsei_like l l'"
  shows "payload_bytes l nal sei = payload_bytes l' nal sei'"
proof (cases "body_bytes (sei_body sei)")
  case None
  have "map_option snd (seiPayload_w l nal sei bs) = map_option snd (seiPayload_w l' nal sei' bs)" for bs
  proof -
    have "prefix_w l (sei_payloadSize sei) (sei_body sei) = prefix_w l' (sei_payloadSize sei') (sei_body sei')"
      and "suffix_w (sei_payloadSize sei) (sei_body sei) = suffix_w (sei_payloadSize sei') (sei_body sei')"
      using prefix_w_like [OF last_bufferingPeriod_like [OF assms(4)] None] assms(3) by metis+
    then show ?thesis by (simp add: seiPayload_w_def map_option_bind comp_def case_prod_unfold)
  qed
  from this [of bs_new] show ?thesis
    by (cases "seiPayload_w l nal sei bs_new"; cases "seiPayload_w l' nal sei' bs_new") (auto simp: payload_bytes_def)
next
  case (Some m)
  then show ?thesis using payload_bytes_eq assms(1-3) by metis
qed

text \<open>What a message needs: the reader has the prefix messages before it when it meets it.\<close>

definition prefix_ok :: "SeiMemory \<Rightarrow> PCCSEI \<Rightarrow> nat \<Rightarrow> bool" where
  "prefix_ok g l i \<longleftrightarrow> sei_wf g NAL_PREFIX_ESEI (seiPrefix l ! i)
     \<and> sei_context NAL_PREFIX_ESEI (seiPrefix l ! i) (pccsei_new\<lparr>seiPrefix := take i (seiPrefix l)\<rparr>)
     \<and> payload_bytes l NAL_PREFIX_ESEI (seiPrefix l ! i) < 2 ^ 31"

definition suffix_ok :: "SeiMemory \<Rightarrow> PCCSEI \<Rightarrow> nat \<Rightarrow> bool" where
  "suffix_ok g l i \<longleftrightarrow> sei_wf g NAL_SUFFIX_ESEI (seiSuffix l ! i)
     \<and> payload_bytes l NAL_SUFFIX_ESEI (seiSuffix l ! i) < 2 ^ 31"

definition messages_wf :: "SeiMemory \<Rightarrow> PCCSEI \<Rightarrow> bool" where
  "messages_wf g l \<longleftrightarrow> (\<forall>i < length (seiPrefix l). prefix_ok g l i) \<and> (\<forall>i < length (seiSuffix l). suffix_ok g l i)"

lemma suffix_context: "sei_wf g NAL_SUFFIX_ESEI sei \<Longrightarrow> sei_context nal sei l"
  by (cases "sei_body sei") (auto simp: sei_wf_def sei_context_def nal_prefix_def NAL_PREFIX_ESEI_def NAL_PREFIX_NSEI_def NAL_SUFFIX_ESEI_def)

lemma nth_bodies: "map sei_body xs = map sei_body ys \<Longrightarrow> i < length xs \<Longrightarrow> sei_body (xs ! i) = sei_body (ys ! i)"
  by (metis length_map nth_map)

lemma prefix_ok_like:
  assumes "prefix_ok g l i" and "pccsei_like l' l" and "i < length (seiPrefix l')" and "sei_wf g NAL_PREFIX_ESEI (seiPrefix l' ! i)"
  shows "prefix_ok g l' i"
proof -
  have b: "sei_body (seiPrefix l' ! i) = sei_body (seiPrefix l ! i)"
    using assms(2,3) nth_bodies by (auto simp: pccsei_like_def)
  have "map sei_body (take i (seiPrefix l')) = map sei_body (take i (seiPrefix l))"
    using assms(2) by (metis pccsei_like_def take_map)
  then have "sei_context NAL_PREFIX_ESEI (seiPrefix l' ! i) (pccsei_new\<lparr>seiPrefix := take i (seiPrefix l')\<rparr>)"
    using assms(1) b by (simp add: prefix_ok_def sei_context_def last_bufferingPeriod_bodies)
  moreover have "payload_bytes l' NAL_PREFIX_ESEI (seiPrefix l' ! i) = payload_bytes l NAL_PREFIX_ESEI (seiPrefix l ! i)"
    using assms(1) by (intro payload_bytes_like [OF assms(4) _ b assms(2)]) (simp add: prefix_ok_def)
  ultimately show ?thesis using assms(1,4) by (simp add: prefix_ok_def)
qed

lemma suffix_ok_like:
  assumes "suffix_ok g l i" and "pccsei_like l' l" and "i < length (seiSuffix l')" and "sei_wf g NAL_SUFFIX_ESEI (seiSuffix l' ! i)"
  shows "suffix_ok g l' i"
proof -
  have b: "sei_body (seiSuffix l' ! i) = sei_body (seiSuffix l ! i)"
    using assms(2,3) nth_bodies by (auto simp: pccsei_like_def)
  have "payload_bytes l' NAL_SUFFIX_ESEI (seiSuffix l' ! i) = payload_bytes l NAL_SUFFIX_ESEI (seiSuffix l ! i)"
    using assms(1) by (intro payload_bytes_like [OF assms(4) _ b assms(2)]) (simp add: suffix_ok_def)
  then show ?thesis using assms(1,4) by (simp add: suffix_ok_def)
qed

text \<open>The writer only sets the size of a message.\<close>

definition sei_sized :: "PCCSEI \<Rightarrow> NalUnitType \<Rightarrow> SEI \<Rightarrow> SEI" where
  "sei_sized l nal sei = sei\<lparr>sei_payloadSize := of_nat (payload_bytes l nal sei)\<rparr>"

lemma seiMessage_sized:
  assumes wf: "sei_wf g nal sei" and ctx: "sei_context nal sei l"
  shows "seiMessage_w l nal sei bs =
    Option.bind (Option.bind (seiMessage_w l nal sei bs) (\<lambda>(_, bs). Some bs)) (\<lambda>bs. Some (sei_sized l nal sei, bs))"
proof -
  obtain tmp where tmp: "seiPayload_w l nal sei bs_new = Some (sei, tmp)" "bs_size tmp = payload_bytes l nal sei"
    using seiPayload_w_new [OF assms] by blast
  have "s = sei_sized l nal sei" if "seiPayload_w l nal (sei_sized l nal sei) b = Some (s, b')" for b s b'
    using seiPayload_keeps [OF payload_wf_resize [OF wf]] that by (auto simp: sei_sized_def)
  then show ?thesis
    by (simp add: seiMessage_w_def tmp sei_sized_def [symmetric] split: bind_splits)
qed

section \<open>Writers that stay aligned\<close>

definition aligns :: "(PCCBitstream \<Rightarrow> PCCBitstream option) \<Rightarrow> bool" where
  "aligns W \<longleftrightarrow> (\<forall>bs bs'. W bs = Some bs' \<longrightarrow> bs_byteAligned bs')"

lemma aligns_bind: "aligns V \<Longrightarrow> aligns (\<lambda>bs. Option.bind (W bs) V)"
  by (auto simp: aligns_def split: bind_splits)

lemma aligns_opt: "(\<And>x. aligns (W x)) \<Longrightarrow> aligns (\<lambda>bs. Option.bind e (\<lambda>x. W x bs))"
  by (auto simp: aligns_def split: bind_splits)

lemma aligns_let: "(\<And>x. aligns (W x)) \<Longrightarrow> aligns (\<lambda>bs. Let e (\<lambda>x. W x bs))"
  by (simp add: aligns_def)

lemma aligns_Some: "aligns W \<Longrightarrow> aligns (\<lambda>bs. Option.bind (W bs) Some)"
  by (simp add: aligns_def)

lemma bs_padWrite_aligned: "bs_padWrite v bs = Some bs' \<Longrightarrow> bs_byteAligned bs'"
proof (rule bs_padWrite.raw_induct [where P = "\<lambda>v bs r. bs_byteAligned r"])
  fix f :: "uint32_t \<Rightarrow> PCCBitstream \<Rightarrow> PCCBitstream option" and v bs r
  assume "\<And>v bs r. f v bs = Some r \<Longrightarrow> bs_byteAligned r"
    and "(if bs_byteAligned bs then Some bs else Option.bind (bs_write v 1 bs) (f v)) = Some r"
  then show "bs_byteAligned r" by (auto split: if_splits bind_splits)
qed

lemma aligns_trailing: "aligns rbspTrailingBits_w" "aligns byteAlignment_w"
  by (auto simp: aligns_def rbspTrailingBits_w_def byteAlignment_w_def bs_padWrite_aligned split: bind_splits)

lemma aligns_asps: "aligns (atlasSequenceParameterSetRbsp_w x)"
  unfolding atlasSequenceParameterSetRbsp_w_def [abs_def]
  by ((rule aligns_Some [OF aligns_trailing(1)] aligns_bind aligns_opt aligns_let)+)

lemma aligns_afps: "aligns (atlasFrameParameterSetRbsp_w f x)"
  unfolding atlasFrameParameterSetRbsp_w_def [abs_def]
  by ((rule aligns_Some [OF aligns_trailing(1)] aligns_bind aligns_opt aligns_let)+)

lemma aligns_atgl: "aligns (atlasTileLayerRbsp_w hls nal x)"
  unfolding atlasTileLayerRbsp_w_def [abs_def]
  by ((rule aligns_trailing(1) aligns_bind)+)

lemma aligns_sei: "aligns (\<lambda>bs. Option.bind (seiMessage_w l nal sei bs) (\<lambda>(_, bs). Some bs))"
  using aligns_trailing(2)
  by (auto simp: aligns_def seiMessage_w_def seiPayload_w_def payload_end_w_def split: bind_splits if_splits)

section \<open>Units up to the end of the data\<close>

text \<open>A step \<open>W\<close> of the writer, which threads a state \<open>w\<close>, against the loop \<open>L\<close> of the reader: from every state with
  \<open>I\<close>, on every stream that begins with what \<open>W\<close> wrote, the loop behaves as from a state with \<open>J\<close> where \<open>W\<close>
  stopped.\<close>

definition runs :: "('s \<Rightarrow> PCCBitstream \<Rightarrow> 'r) \<Rightarrow> ('w \<Rightarrow> bool) \<Rightarrow> ('w \<times> PCCBitstream \<Rightarrow> ('w \<times> PCCBitstream) option)
    \<Rightarrow> ('s \<Rightarrow> bool) \<Rightarrow> ('s \<Rightarrow> bool) \<Rightarrow> bool" where
  "runs L ok W I J \<longleftrightarrow> (\<forall>w bs s. ok w \<longrightarrow> bs_inv bs \<longrightarrow> bs_byteAligned bs \<longrightarrow> I s \<longrightarrow>
     (\<exists>w' bs' s'. W (w, bs) = Some (w', bs') \<and> ok w' \<and> bs_inv bs' \<and> bs_byteAligned bs' \<and> J s' \<and> bs_extends bs' bs
       \<and> bs_size bs \<le> bs_size bs'
       \<and> (\<forall>fs. bs_extends fs bs' \<longrightarrow> L s (bs_setPosition (bs_pos bs) fs) = L s' (bs_setPosition (bs_pos bs') fs))))"

lemma runsE:
  assumes "runs L ok W I J" and "ok w" and "bs_inv bs" and "bs_byteAligned bs" and "I s"
  obtains w' bs' s' where "W (w, bs) = Some (w', bs')" and "ok w'" and "bs_inv bs'" and "bs_byteAligned bs'" and "J s'"
    and "bs_extends bs' bs" and "bs_size bs \<le> bs_size bs'"
    and "\<And>fs. bs_extends fs bs' \<Longrightarrow> L s (bs_setPosition (bs_pos bs) fs) = L s' (bs_setPosition (bs_pos bs') fs)"
  using assms unfolding runs_def by blast

lemma runs_bind:
  assumes 1: "runs L ok W I J" and 2: "runs L ok V J K"
  shows "runs L ok (\<lambda>x. Option.bind (W x) V) I K"
  unfolding runs_def
proof (intro allI impI)
  fix w bs s assume a: "ok w" "bs_inv bs" "bs_byteAligned bs" "I s"
  obtain w1 bs1 s1 where w1: "W (w, bs) = Some (w1, bs1)" "ok w1" "bs_inv bs1" "bs_byteAligned bs1" "J s1" "bs_extends bs1 bs" "bs_size bs \<le> bs_size bs1"
    and r1: "\<And>fs. bs_extends fs bs1 \<Longrightarrow> L s (bs_setPosition (bs_pos bs) fs) = L s1 (bs_setPosition (bs_pos bs1) fs)"
    using runsE [OF 1 a] by metis
  obtain w2 bs2 s2 where w2: "V (w1, bs1) = Some (w2, bs2)" "ok w2" "bs_inv bs2" "bs_byteAligned bs2" "K s2" "bs_extends bs2 bs1" "bs_size bs1 \<le> bs_size bs2"
    and r2: "\<And>fs. bs_extends fs bs2 \<Longrightarrow> L s1 (bs_setPosition (bs_pos bs1) fs) = L s2 (bs_setPosition (bs_pos bs2) fs)"
    using runsE [OF 2 w1(2-5)] by metis
  have lin: "lin (bs_pos bs) \<le> lin (bs_pos bs1)" "lin (bs_pos bs1) \<le> lin (bs_pos bs2)"
    using a(3) w1(4,7) w2(4,7) by (simp_all add: lin_aligned)
  have "L s (bs_setPosition (bs_pos bs) fs) = L s2 (bs_setPosition (bs_pos bs2) fs)" if "bs_extends fs bs2" for fs
    using r1 [OF bs_extends_trans [OF that w2(6) lin(2)]] r2 [OF that] by simp
  with bs_extends_trans [OF w2(6) w1(6) lin(1)] w1 w2
  show "\<exists>w' bs' s'. Option.bind (W (w, bs)) V = Some (w', bs') \<and> ok w' \<and> bs_inv bs' \<and> bs_byteAligned bs' \<and> K s' \<and> bs_extends bs' bs
       \<and> bs_size bs \<le> bs_size bs'
       \<and> (\<forall>fs. bs_extends fs bs' \<longrightarrow> L s (bs_setPosition (bs_pos bs) fs) = L s' (bs_setPosition (bs_pos bs') fs))"
    by auto
qed

lemma runs_skip: "runs L ok Some I I"
  by (auto simp: runs_def bs_extends_refl)

lemma runs_for:
  assumes "\<And>k. k < n \<Longrightarrow> runs L ok (W k) (I k) (I (Suc k))"
  shows "runs L ok (for_loop [0..<n] W) (I 0) (I n)"
  using assms
proof (induction n)
  case 0
  have "for_loop [] W = Some" by (rule ext) simp
  then show ?case by (simp add: runs_skip)
next
  case (Suc n)
  have "for_loop [0..<Suc n] W = (\<lambda>x. Option.bind (for_loop [0..<n] W x) (W n))"
    by (rule ext) (simp add: for_loop_snoc)
  then show ?case using Suc by (simp add: runs_bind)
qed

lemma runs_cong:
  assumes "\<And>w bs. ok w \<Longrightarrow> W' (w, bs) = W (w, bs)" and "runs L ok W I J"
  shows "runs L ok W' I J"
  using assms by (simp add: runs_def)

lemma runs_mono: "runs L ok W I' J \<Longrightarrow> (\<And>s. I s \<Longrightarrow> I' s) \<Longrightarrow> runs L ok W I J"
  unfolding runs_def by blast

text \<open>The loop takes units while the data last.\<close>

locale data_loop =
  fixes get :: "'s \<Rightarrow> PCCBitstream \<Rightarrow> ('s \<times> PCCBitstream) option"
    and loop :: "'s \<Rightarrow> PCCBitstream \<Rightarrow> ('s \<times> PCCBitstream) option"
  assumes loop_unfold: "loop s bs = (if \<not> bs_moreData bs then Some (s, bs) else Option.bind (get s bs) (\<lambda>(s, bs). loop s bs))"
begin

text \<open>A unit that takes at least a byte is one round of the loop.\<close>

lemma runs_unit:
  assumes "\<And>w s. ok w \<Longrightarrow> I s \<Longrightarrow> \<exists>w' s' P. ok w' \<and> J s' \<and> (\<forall>bs. W (w, bs) = Option.bind (P bs) (\<lambda>bs. Some (w', bs)))
       \<and> aligns P \<and> codes P (get s) s' \<and> (\<forall>bs bs'. bs_inv bs \<longrightarrow> P bs = Some bs' \<longrightarrow> lin (bs_pos bs) < lin (bs_pos bs'))"
  shows "runs loop ok W I J"
  unfolding runs_def
proof (intro allI impI)
  fix w bs s assume a: "ok w" "bs_inv bs" "bs_byteAligned bs" "I s"
  obtain w' s' P where p: "ok w'" "J s'" "W (w, bs) = Option.bind (P bs) (\<lambda>bs. Some (w', bs))" "aligns P" "codes P (get s) s'"
    and grow: "\<And>bs'. P bs = Some bs' \<Longrightarrow> lin (bs_pos bs) < lin (bs_pos bs')"
    using assms [OF a(1,4)] a(2) by blast
  obtain bs' where b: "P bs = Some bs'" "bs_inv bs'" "bs_extends bs' bs"
    and r: "\<And>fs. bs_extends fs bs' \<Longrightarrow> get s (bs_setPosition (bs_pos bs) fs) = Some (s', bs_setPosition (bs_pos bs') fs)"
    using codesE [OF p(5) a(2)] by metis
  have al: "bs_byteAligned bs'" using p(4) b(1) by (simp add: aligns_def)
  then have sz: "bs_size bs < bs_size bs'" using grow [OF b(1)] a(3) by (simp add: lin_aligned)
  have "loop s (bs_setPosition (bs_pos bs) fs) = loop s' (bs_setPosition (bs_pos bs') fs)" if "bs_extends fs bs'" for fs
  proof -
    have "bs_size bs' \<le> length (bs_data fs)" using that al by (simp add: bs_extends_def lin_aligned)
    then have "bs_moreData (bs_setPosition (bs_pos bs) fs)" using sz by (simp add: bs_moreData_def bs_size_def)
    then show ?thesis using r [OF that] by (subst loop_unfold) simp
  qed
  then show "\<exists>w' bs' s'. W (w, bs) = Some (w', bs') \<and> ok w' \<and> bs_inv bs' \<and> bs_byteAligned bs' \<and> J s' \<and> bs_extends bs' bs
       \<and> bs_size bs \<le> bs_size bs'
       \<and> (\<forall>fs. bs_extends fs bs' \<longrightarrow> loop s (bs_setPosition (bs_pos bs) fs) = loop s' (bs_setPosition (bs_pos bs') fs))"
    using p b al sz by auto
qed

text \<open>A writer that has put all units leaves a stream on which the loop ends, in a state with \<open>J\<close>.\<close>

lemma runs_end:
  assumes "runs loop ok W I J" and "ok w" and "bs_inv bs" and "bs_byteAligned bs" and "I s"
  obtains w' bs' s' where "W (w, bs) = Some (w', bs')" and "ok w'" and "bs_inv bs'" and "bs_byteAligned bs'" and "J s'"
    and "bs_extends bs' bs" and "bs_size bs \<le> bs_size bs'"
    and "\<And>fs. bs_extends fs bs' \<Longrightarrow> length (bs_data fs) = bs_size bs' \<Longrightarrow>
      loop s (bs_setPosition (bs_pos bs) fs) = Some (s', bs_setPosition (bs_pos bs') fs)"
proof -
  obtain w' bs' s' where r: "W (w, bs) = Some (w', bs')" "ok w'" "bs_inv bs'" "bs_byteAligned bs'" "J s'" "bs_extends bs' bs" "bs_size bs \<le> bs_size bs'"
    and l: "\<And>fs. bs_extends fs bs' \<Longrightarrow> loop s (bs_setPosition (bs_pos bs) fs) = loop s' (bs_setPosition (bs_pos bs') fs)"
    using runsE [OF assms] by metis
  have "loop s' (bs_setPosition (bs_pos bs') fs) = Some (s', bs_setPosition (bs_pos bs') fs)" if "length (bs_data fs) = bs_size bs'" for fs
    using that by (subst loop_unfold) (simp add: bs_moreData_def bs_size_def)
  then show thesis using that r l by metis
qed

end

interpretation nals: data_loop "nextNalUnit_r g" "nalUnits_r g" for g
  by unfold_locales (rule nalUnits_r.simps)

section \<open>Units of the sub-stream\<close>

lemma codes_mono:
  assumes "codes W R y" and "bs_inv bs" and "W bs = Some bs'"
  shows "bs_inv bs'" and "lin (bs_pos bs) \<le> lin (bs_pos bs')"
  using codesE [OF assms(1,2)] assms(3) by (metis option.inject)+

lemma nextNalUnit_eq: "nextNalUnit_r g nr = (\<lambda>bs. Option.bind (bs_read (8 * (unat (ssnu_sizePrecisionBytesMinus1 (nr_ssnu nr)) + 1)) bs)
   (\<lambda>(v, bs). Option.bind (nu_allocate ((nu_new 0 0 0)\<lparr>nu_size := ucast v\<rparr>)) (\<lambda>nalu.
      Option.bind (nalUnitHeader_r nalu bs) (\<lambda>(nalu, bs). nalPayload_r g (nu_type nalu)
        (nr\<lparr>nr_ssnu := (nr_ssnu nr)\<lparr>ssnu_nalUnit := ssnu_nalUnit (nr_ssnu nr) @ [nalu]\<rparr>\<rparr>) bs))))"
  by (rule ext) (simp add: nextNalUnit_r_def sampleStreamNalUnit_r_def ssnu_addNalUnit_def Let_def list_update_append)

text \<open>A NAL unit whose size fits the precision, around a payload that is coded.\<close>

lemma nal_unit_runs:
  assumes p: "unat prec \<le> 3" and v: "2 \<le> unat v" "unat v < 2 ^ (8 * (unat prec + 1))" and t: "unat t < 64"
    and I: "\<And>nr l. I nr \<Longrightarrow> ssnu_sizePrecisionBytesMinus1 (nr_ssnu nr) = prec
        \<and> I (nr\<lparr>nr_ssnu := (nr_ssnu nr)\<lparr>ssnu_nalUnit := l\<rparr>\<rparr>)"
    and payload: "\<And>w nr. ok w \<Longrightarrow> I nr \<Longrightarrow> \<exists>w' nr' P. ok w' \<and> J nr' \<and> (\<forall>bs. payload w bs = Option.bind (P bs) (\<lambda>bs. Some (w', bs)))
        \<and> aligns P \<and> codes P (nalPayload_r g t nr) nr'"
  shows "runs (nalUnits_r g) ok (\<lambda>(w, bs). Option.bind (bs_write (ucast (nu_size (nalUnitOf t v))) (8 * (unat prec + 1)) bs)
     (\<lambda>bs. Option.bind (nalUnitHeader_w (nalUnitOf t v) bs) (payload w))) I J"
proof (rule nals.runs_unit)
  fix w nr assume w: "ok w" and nr: "I nr"
  let ?n = "8 * (unat prec + 1)" and ?nu = "nalUnitOf t v"
  let ?alloc = "(nu_new 0 0 0)\<lparr>nu_size := ucast v, nu_data := vec_resize (unat v - 2) 0 []\<rparr>"
  let ?read = "?alloc\<lparr>nu_type := nu_type ?nu, nu_layerId := nu_layerId ?nu, nu_temporalyIdPlus1 := nu_temporalyIdPlus1 ?nu\<rparr>"
  let ?nr = "nr\<lparr>nr_ssnu := (nr_ssnu nr)\<lparr>ssnu_nalUnit := ssnu_nalUnit (nr_ssnu nr) @ [?read]\<rparr>\<rparr>"
  have size: "ucast (nu_size ?nu) = v" "nu_type ?read = t" by (simp_all add: nalUnitOf_def nu_new_def)
  have "nu_allocate ((nu_new 0 0 0)\<lparr>nu_size := ucast v\<rparr>) = Some ?alloc" using v(1) by (simp add: nu_allocate_def nu_new_def)
  then have alloc: "simplifies (nu_allocate ((nu_new 0 0 0)\<lparr>nu_size := ucast v\<rparr>)) (Some ?alloc)" by simp
  have nr1: "I ?nr" and prec: "ssnu_sizePrecisionBytesMinus1 (nr_ssnu nr) = prec" using I [OF nr] by blast+
  obtain w' nr' P where w': "ok w'" "J nr'" "\<And>bs. payload w bs = Option.bind (P bs) (\<lambda>bs. Some (w', bs))" "aligns P"
    and P: "codes P (nalPayload_r g t ?nr) nr'"
    using payload [OF w nr1] by blast
  have hdr: "codes (nalUnitHeader_w ?nu) (nalUnitHeader_r ?alloc) ?read"
    using t by (intro nalUnitHeader_codes) (simp add: nu_wf_def nalUnitOf_def nu_new_def)
  have sz: "codes (bs_write v ?n) (bs_read ?n) v" using p v(2) by (intro codes_u refl) simp_all
  let ?P = "\<lambda>bs. Option.bind (bs_write v ?n bs) (\<lambda>bs. Option.bind (nalUnitHeader_w ?nu bs) P)"
  have "codes ?P (nextNalUnit_r g nr) nr'"
    unfolding nextNalUnit_eq prec
    by (rule codes_bind, rule sz, rule codes_r_opt, rule alloc, rule codes_bind, rule hdr) (use P size(2) in simp)
  moreover have "lin (bs_pos bs) < lin (bs_pos bs')" if inv: "bs_inv bs" and run: "?P bs = Some bs'" for bs bs'
  proof -
    obtain b1 b2 where b: "bs_write v ?n bs = Some b1" "nalUnitHeader_w ?nu b1 = Some b2" "P b2 = Some bs'"
      using run by (auto split: bind_splits)
    have "lin (bs_pos b1) = lin (bs_pos bs) + ?n" using b(1) inv p by (intro bs_write_lin) simp_all
    then have "lin (bs_pos bs) < lin (bs_pos b1)" by simp
    also have "\<dots> \<le> lin (bs_pos b2)" by (rule codes_mono(2) [OF hdr codes_mono(1) [OF sz inv b(1)] b(2)])
    also have "\<dots> \<le> lin (bs_pos bs')"
      by (rule codes_mono(2) [OF P codes_mono(1) [OF hdr codes_mono(1) [OF sz inv b(1)] b(2)] b(3)])
    finally show ?thesis .
  qed
  moreover have "aligns ?P" using w'(4) by (intro aligns_bind)
  moreover have "payload w = (\<lambda>bs. Option.bind (P bs) (\<lambda>bs. Some (w', bs)))" using w'(3) by (rule ext)
  ultimately show "\<exists>w' nr' P. ok w' \<and> J nr' \<and> (\<forall>bs. (case (w, bs) of (w, bs) \<Rightarrow> Option.bind (bs_write (ucast (nu_size ?nu)) ?n bs)
       (\<lambda>bs. Option.bind (nalUnitHeader_w ?nu bs) (payload w))) = Option.bind (P bs) (\<lambda>bs. Some (w', bs)))
     \<and> aligns P \<and> codes P (nextNalUnit_r g nr) nr' \<and> (\<forall>bs bs'. bs_inv bs \<longrightarrow> P bs = Some bs' \<longrightarrow> lin (bs_pos bs) < lin (bs_pos bs'))"
    using w'(1,2) size(1) by (intro exI [of _ w'] exI [of _ nr'] exI [of _ ?P]) (simp add: Option.bind_assoc)
qed

text \<open>The reader's objects between two units: everything but the list of NAL units, which nothing looks at.\<close>

definition reader_at :: "uint8_t \<Rightarrow> PCCAtlasHighLevelSyntax \<Rightarrow> PCCSEI list \<Rightarrow> ReaderState \<Rightarrow> PCCSEI \<Rightarrow> NalReader \<Rightarrow> bool" where
  "reader_at prec hls seis rst pre nr \<longleftrightarrow> ssnu_sizePrecisionBytesMinus1 (nr_ssnu nr) = prec
     \<and> nr_store nr = \<lparr>as_hls = hls, as_sei = seis\<rparr> \<and> nr_state nr = rst \<and> nr_prefixSEI nr = pre"

lemma reader_at_unit: "reader_at prec hls seis rst pre nr \<Longrightarrow> ssnu_sizePrecisionBytesMinus1 (nr_ssnu nr) = prec
    \<and> reader_at prec hls seis rst pre (nr\<lparr>nr_ssnu := (nr_ssnu nr)\<lparr>ssnu_nalUnit := l\<rparr>\<rparr>)"
  by (simp add: reader_at_def)

text \<open>The writer's store differs from the one it started with in the payload sizes only.\<close>

definition store_ok :: "SeiMemory \<Rightarrow> AtlasStore \<Rightarrow> AtlasStore \<Rightarrow> bool" where
  "store_ok g st w \<longleftrightarrow> as_hls w = as_hls st \<and> list_all2 pccsei_like (as_sei w) (as_sei st) \<and> (\<forall>l \<in> set (as_sei w). messages_wf g l)"

definition sei_fresh :: "SEI \<Rightarrow> SEI" where
  "sei_fresh sei = sei\<lparr>sei_payloadSize := 0\<rparr>"

lemma store_ok_nth:
  assumes "store_ok g st w" and "k < length (as_sei st)"
  shows "k < length (as_sei w)" and "pccsei_like (as_sei w ! k) (as_sei st ! k)" and "messages_wf g (as_sei w ! k)"
  using assms by (auto simp: store_ok_def list_all2_conv_all_nth)

lemma store_ok_update:
  assumes "store_ok g st w" and "k < length (as_sei st)" and "pccsei_like l (as_sei w ! k)" and "messages_wf g l"
  shows "store_ok g st (w\<lparr>as_sei := (as_sei w)[k := l]\<rparr>)"
proof -
  have like: "pccsei_like l (as_sei st ! k)" using store_ok_nth(2) [OF assms(1,2)] assms(3) by (simp add: pccsei_like_def)
  have "list_all2 pccsei_like ((as_sei w)[k := l]) ((as_sei st)[k := as_sei st ! k])"
    using assms(1) like by (intro list_all2_update_cong) (simp_all add: store_ok_def)
  moreover have "\<forall>l' \<in> set ((as_sei w)[k := l]). messages_wf g l'"
    using assms(1,4) by (auto simp: store_ok_def dest: set_update_subset_insert [THEN subsetD])
  ultimately show ?thesis using assms(1) by (simp add: store_ok_def)
qed

lemma sei_fresh_eq: "sei_body s = sei_body s' \<Longrightarrow> sei_fresh s = sei_fresh s'"
  by (simp add: sei_fresh_def)

lemma nal_kinds [simp]: "nal_prefix NAL_PREFIX_ESEI" "\<not> nal_prefix NAL_SUFFIX_ESEI" "nal_suffix NAL_SUFFIX_ESEI" "\<not> nal_suffix NAL_PREFIX_ESEI"
  by (simp_all add: nal_prefix_def nal_suffix_def NAL_PREFIX_ESEI_def NAL_PREFIX_NSEI_def NAL_SUFFIX_ESEI_def NAL_SUFFIX_NSEI_def)

lemma messages_sized:
  assumes l: "messages_wf g l"
  shows "i < length (seiPrefix l) \<Longrightarrow> pccsei_like (l\<lparr>seiPrefix := (seiPrefix l)[i := sei_sized l NAL_PREFIX_ESEI (seiPrefix l ! i)]\<rparr>) l
      \<and> messages_wf g (l\<lparr>seiPrefix := (seiPrefix l)[i := sei_sized l NAL_PREFIX_ESEI (seiPrefix l ! i)]\<rparr>)"
    and "i < length (seiSuffix l) \<Longrightarrow> pccsei_like (l\<lparr>seiSuffix := (seiSuffix l)[i := sei_sized l NAL_SUFFIX_ESEI (seiSuffix l ! i)]\<rparr>) l
      \<and> messages_wf g (l\<lparr>seiSuffix := (seiSuffix l)[i := sei_sized l NAL_SUFFIX_ESEI (seiSuffix l ! i)]\<rparr>)"
proof -
  have upd: "map sei_body (xs[j := sei_sized l nal (xs ! j)]) = map sei_body xs" for xs j nal
    by (simp add: map_update sei_sized_def) (metis list_update_id map_update)
  have wf: "messages_wf g l'" if like: "pccsei_like l' l"
      and p: "\<And>j. j < length (seiPrefix l') \<Longrightarrow> sei_wf g NAL_PREFIX_ESEI (seiPrefix l' ! j)"
      and s: "\<And>j. j < length (seiSuffix l') \<Longrightarrow> sei_wf g NAL_SUFFIX_ESEI (seiSuffix l' ! j)" for l'
    using l pccsei_like_lengths [OF like] prefix_ok_like [OF _ like _ p] suffix_ok_like [OF _ like _ s]
    by (simp add: messages_wf_def)
  have old: "j < length (seiPrefix l) \<Longrightarrow> sei_wf g NAL_PREFIX_ESEI (seiPrefix l ! j)"
      "j < length (seiSuffix l) \<Longrightarrow> sei_wf g NAL_SUFFIX_ESEI (seiSuffix l ! j)" for j
    using l by (auto simp: messages_wf_def prefix_ok_def suffix_ok_def)
  {
    assume i: "i < length (seiPrefix l)"
    let ?l = "l\<lparr>seiPrefix := (seiPrefix l)[i := sei_sized l NAL_PREFIX_ESEI (seiPrefix l ! i)]\<rparr>"
    have "pccsei_like ?l l" by (simp add: pccsei_like_def upd)
    moreover from this have "messages_wf g ?l"
      by (rule wf) (use old payload_wf_resize i in \<open>auto simp: nth_list_update sei_sized_def\<close>)
    ultimately show "pccsei_like ?l l \<and> messages_wf g ?l" by blast
  }
  {
    assume i: "i < length (seiSuffix l)"
    let ?l = "l\<lparr>seiSuffix := (seiSuffix l)[i := sei_sized l NAL_SUFFIX_ESEI (seiSuffix l ! i)]\<rparr>"
    have "pccsei_like ?l l" by (simp add: pccsei_like_def upd)
    moreover from this have "messages_wf g ?l"
      by (rule wf) (use old payload_wf_resize i in \<open>auto simp: nth_list_update sei_sized_def\<close>)
    ultimately show "pccsei_like ?l l \<and> messages_wf g ?l" by blast
  }
qed

subsection \<open>Messages\<close>

lemma seiMessage_pair:
  assumes "sei_wf g nal sei" and "sei_context nal sei l"
  shows "seiRbsp_w l nal sei bs = Option.bind (Option.bind (seiMessage_w l nal sei bs) (\<lambda>(_, bs). Some bs)) (\<lambda>bs. Some (sei_sized l nal sei, bs))"
  using seiMessage_sized [OF assms] by (simp add: seiRbsp_w_def)

lemma prefix_payload:
  assumes w: "store_ok g st w" and k: "k < length (as_sei st)" and i: "i < length (seiPrefix (as_sei st ! k))"
  shows "\<exists>w' P. store_ok g st w' \<and> (\<forall>bs. seiUnit_w NAL_PREFIX_ESEI k i w bs = Option.bind (P bs) (\<lambda>bs. Some (w', bs))) \<and> aligns P
    \<and> codes P (seiRbsp_r g NAL_PREFIX_ESEI (pccsei_new\<lparr>seiPrefix := map sei_fresh (take i (seiPrefix (as_sei st ! k)))\<rparr>))
        (pccsei_new\<lparr>seiPrefix := map sei_fresh (take (Suc i) (seiPrefix (as_sei st ! k)))\<rparr>)"
proof -
  let ?l = "as_sei w ! k" and ?nal = NAL_PREFIX_ESEI
  let ?pre = "pccsei_new\<lparr>seiPrefix := map sei_fresh (take i (seiPrefix (as_sei st ! k)))\<rparr>"
  note l = store_ok_nth [OF w k]
  have i': "i < length (seiPrefix ?l)" using i pccsei_like_lengths [OF l(2)] by simp
  let ?sei = "seiPrefix ?l ! i"
  have ok: "sei_wf g ?nal ?sei" "payload_bytes ?l ?nal ?sei < 2 ^ 31"
    and c: "sei_context ?nal ?sei (pccsei_new\<lparr>seiPrefix := take i (seiPrefix ?l)\<rparr>)"
    using l(3) i' by (auto simp: messages_wf_def prefix_ok_def)
  have bodies: "map sei_body (seiPrefix ?l) = map sei_body (seiPrefix (as_sei st ! k))" using l(2) by (simp add: pccsei_like_def)
  then have "map sei_body (take i (seiPrefix ?l)) = map sei_body (take i (seiPrefix (as_sei st ! k)))" by (metis take_map)
  then have c': "sei_context ?nal ?sei ?pre"
    using c by (simp add: sei_context_def last_bufferingPeriod_bodies sei_fresh_def comp_def)
  let ?P = "\<lambda>bs. Option.bind (seiMessage_w ?l ?nal ?sei bs) (\<lambda>(_, bs). Some bs)"
  let ?w = "w\<lparr>as_sei := (as_sei w)[k := ?l\<lparr>seiPrefix := (seiPrefix ?l)[i := sei_sized ?l ?nal ?sei]\<rparr>]\<rparr>"
  have "codes ?P (seiRbsp_r g ?nal ?pre) (sei_append ?nal (sei_fresh ?sei) ?pre)"
    using seiMessage_codes [OF ok(1) sei_context_take [OF c] c' ok(2)] by (simp add: seiRbsp_r_def [abs_def] sei_fresh_def)
  moreover have "sei_append ?nal (sei_fresh ?sei) ?pre = pccsei_new\<lparr>seiPrefix := map sei_fresh (take (Suc i) (seiPrefix (as_sei st ! k)))\<rparr>"
    using sei_fresh_eq [OF nth_bodies [OF bodies i']] i by (simp add: sei_append_def take_Suc_conv_app_nth)
  moreover have "store_ok g st ?w"
    using messages_sized(1) [OF l(3) i'] by (intro store_ok_update [OF w k]) blast+
  moreover have "seiUnit_w ?nal k i w bs = Option.bind (?P bs) (\<lambda>bs. Some (?w, bs))" for bs
    using l(1) i' by (simp add: seiUnit_w_def sei_list_def seiMessage_pair [OF ok(1) sei_context_take [OF c]] Let_def Option.bind_assoc case_prod_unfold)
  ultimately show ?thesis using aligns_sei by metis
qed

lemma suffix_payload:
  assumes w: "store_ok g st w" and k: "k < length (as_sei st)" and i: "i < length (seiSuffix (as_sei st ! k))"
  shows "\<exists>w' P. store_ok g st w' \<and> (\<forall>bs. seiUnit_w NAL_SUFFIX_ESEI k i w bs = Option.bind (P bs) (\<lambda>bs. Some (w', bs))) \<and> aligns P
    \<and> codes P (seiRbsp_r g NAL_SUFFIX_ESEI \<lparr>seiPrefix = p, seiSuffix = map sei_fresh (take i (seiSuffix (as_sei st ! k)))\<rparr>)
        \<lparr>seiPrefix = p, seiSuffix = map sei_fresh (take (Suc i) (seiSuffix (as_sei st ! k)))\<rparr>"
proof -
  let ?l = "as_sei w ! k" and ?nal = NAL_SUFFIX_ESEI
  let ?pre = "\<lparr>seiPrefix = p, seiSuffix = map sei_fresh (take i (seiSuffix (as_sei st ! k)))\<rparr>"
  note l = store_ok_nth [OF w k]
  have i': "i < length (seiSuffix ?l)" using i pccsei_like_lengths [OF l(2)] by simp
  let ?sei = "seiSuffix ?l ! i"
  have ok: "sei_wf g ?nal ?sei" "payload_bytes ?l ?nal ?sei < 2 ^ 31"
    using l(3) i' by (auto simp: messages_wf_def suffix_ok_def)
  have bodies: "map sei_body (seiSuffix ?l) = map sei_body (seiSuffix (as_sei st ! k))" using l(2) by (simp add: pccsei_like_def)
  let ?P = "\<lambda>bs. Option.bind (seiMessage_w ?l ?nal ?sei bs) (\<lambda>(_, bs). Some bs)"
  let ?w = "w\<lparr>as_sei := (as_sei w)[k := ?l\<lparr>seiSuffix := (seiSuffix ?l)[i := sei_sized ?l ?nal ?sei]\<rparr>]\<rparr>"
  have "codes ?P (seiRbsp_r g ?nal ?pre) (sei_append ?nal (sei_fresh ?sei) ?pre)"
    using seiMessage_codes [OF ok(1) suffix_context [OF ok(1)] suffix_context [OF ok(1)] ok(2)]
    by (simp add: seiRbsp_r_def [abs_def] sei_fresh_def)
  moreover have "sei_append ?nal (sei_fresh ?sei) ?pre = \<lparr>seiPrefix = p, seiSuffix = map sei_fresh (take (Suc i) (seiSuffix (as_sei st ! k)))\<rparr>"
    using sei_fresh_eq [OF nth_bodies [OF bodies i']] i by (simp add: sei_append_def take_Suc_conv_app_nth)
  moreover have "store_ok g st ?w"
    using messages_sized(2) [OF l(3) i'] by (intro store_ok_update [OF w k]) blast+
  moreover have "seiUnit_w ?nal k i w bs = Option.bind (?P bs) (\<lambda>bs. Some (?w, bs))" for bs
    using l(1) i' by (simp add: seiUnit_w_def sei_list_def seiMessage_pair [OF ok(1) suffix_context [OF ok(1)]] Let_def Option.bind_assoc case_prod_unfold)
  ultimately show ?thesis using aligns_sei by metis
qed

subsection \<open>Parameter sets and tile layers\<close>

text \<open>What the writer of a tile layer takes from the store are the parameter sets.\<close>

lemma atlasTileLayerRbsp_w_params:
  assumes "hls_atlasSequenceParameterSet hls = hls_atlasSequenceParameterSet hls'"
    and "hls_atlasFrameParameterSet hls = hls_atlasFrameParameterSet hls'"
  shows "atlasTileLayerRbsp_w hls nal x = atlasTileLayerRbsp_w hls' nal x"
proof -
  have get: "hls_getAsps hls = hls_getAsps hls'" "hls_getAfps hls = hls_getAfps hls'"
    using assms by (auto simp: hls_getAsps_def hls_getAfps_def fun_eq_iff)
  have refs: "hls_getNumRefIdxActive hls = hls_getNumRefIdxActive hls'" "auxiliaryHeight hls = auxiliaryHeight hls'"
    by (rule ext, simp only: hls_getNumRefIdxActive_def auxiliaryHeight_def get)+
  note eqs = get refs
  have "patchDataUnit_w hls = patchDataUnit_w hls'" "interPatchDataUnit_w hls = interPatchDataUnit_w hls'"
    "mergePatchDataUnit_w hls = mergePatchDataUnit_w hls'" "rawPatchDataUnit_w hls = rawPatchDataUnit_w hls'"
    "eomPatchDataUnit_w hls = eomPatchDataUnit_w hls'"
    by (intro ext, simp only: patchDataUnit_w_def interPatchDataUnit_w_def mergePatchDataUnit_w_def rawPatchDataUnit_w_def
        eomPatchDataUnit_w_def eqs)+
  then have "patchInformationData_w hls = patchInformationData_w hls'" by (intro ext) (simp only: patchInformationData_w_def)
  then have "atdu_patch_w hls = atdu_patch_w hls'" by (intro ext) (simp only: atdu_patch_w_def)
  then have "atlasTileDataUnit_w hls = atlasTileDataUnit_w hls'" by (intro ext) (simp only: atlasTileDataUnit_w_def)
  moreover have "atlasTileHeader_w hls = atlasTileHeader_w hls'" by (intro ext) (simp only: atlasTileHeader_w_def eqs)
  ultimately show ?thesis by (intro ext) (simp only: atlasTileLayerRbsp_w_def)
qed

text \<open>The reader overwrites the id that \<open>addAtlasSequenceParameterSet\<close> has set.\<close>

lemma asps_r_id: "atlasSequenceParameterSetRbsp_r (asps_new\<lparr>asps_atlasSequenceParameterSetId := n\<rparr>) = atlasSequenceParameterSetRbsp_r asps_new"
  by (rule ext) (simp add: atlasSequenceParameterSetRbsp_r_def Let_def asps_new_def)

lemma afps_r_id: "atlasFrameParameterSetRbsp_r f (afps_new\<lparr>afps_atlasFrameParameterSetId := n\<rparr>) = atlasFrameParameterSetRbsp_r f afps_new"
  by (rule ext) (simp add: atlasFrameParameterSetRbsp_r_def Let_def afps_new_def)

lemma asps_payload:
  assumes "asps_wf x"
  shows "codes (atlasSequenceParameterSetRbsp_w x) (aspsUnit_r st)
    (st\<lparr>as_hls := (as_hls st)\<lparr>hls_atlasSequenceParameterSet := hls_atlasSequenceParameterSet (as_hls st) @ [x]\<rparr>\<rparr>)"
proof -
  have "aspsUnit_r st = (\<lambda>bs. Option.bind (atlasSequenceParameterSetRbsp_r asps_new bs) (\<lambda>(asps, bs).
      Some (st\<lparr>as_hls := (as_hls st)\<lparr>hls_atlasSequenceParameterSet := hls_atlasSequenceParameterSet (as_hls st) @ [asps]\<rparr>\<rparr>, bs)))"
    by (rule ext) (simp add: aspsUnit_r_def hls_addAsps_def Let_def asps_r_id)
  then show ?thesis using codes_map [OF asps.wr_rd [OF assms] refl] by simp
qed

lemma afps_payload:
  assumes "afps_wf (hls_getAsps (as_hls st)) x"
  shows "codes (atlasFrameParameterSetRbsp_w (hls_getAsps (as_hls st)) x) (afpsUnit_r st)
    (st\<lparr>as_hls := (as_hls st)\<lparr>hls_atlasFrameParameterSet := hls_atlasFrameParameterSet (as_hls st) @ [x]\<rparr>\<rparr>)"
proof -
  have get: "hls_getAsps (hls_addAfps (as_hls st)) = hls_getAsps (as_hls st)"
    by (rule ext) (simp add: hls_getAsps_def hls_addAfps_def Let_def)
  have "afpsUnit_r st = (\<lambda>bs. Option.bind (atlasFrameParameterSetRbsp_r (hls_getAsps (as_hls st)) afps_new bs) (\<lambda>(afps, bs).
      Some (st\<lparr>as_hls := (as_hls st)\<lparr>hls_atlasFrameParameterSet := hls_atlasFrameParameterSet (as_hls st) @ [afps]\<rparr>\<rparr>, bs)))"
    by (rule ext) (simp add: afpsUnit_r_def get Let_def, simp add: hls_addAfps_def Let_def afps_r_id)
  then show ?thesis using codes_map [OF afps.wr_rd_param [OF assms] refl] by simp
qed

text \<open>The layer that the reader makes of the layer \<open>k\<close>.\<close>

definition atgl_read :: "nat \<Rightarrow> AtlasTileLayerRbsp \<Rightarrow> AtlasTileLayerRbsp" where
  "atgl_read k x = atgl_new\<lparr>atgl_header := atgl_header x, atgl_dataUnit := atdu_result (atgl_dataUnit x),
     atgl_tileOrder := of_nat k, atgl_encFrameIndex := - 1, atgl_encTileIndex := - 1\<rparr>"

lemma atgl_payload:
  assumes wf: "atgl_wf (hls_addAtlasTileLayer (as_hls (nr_store nr))) nal (nr_state nr) x"
    and order: "atdu_tileOrder (atgl_dataUnit x) = of_nat (length (hls_atlasTileLayer (as_hls (nr_store nr))))"
  shows "codes (atlasTileLayerRbsp_w (as_hls (nr_store nr)) nal x) (atglUnit_r nal nr)
    (nr\<lparr>nr_store := (nr_store nr)\<lparr>as_hls := (as_hls (nr_store nr))\<lparr>hls_atlasTileLayer := hls_atlasTileLayer (as_hls (nr_store nr))
            @ [atgl_read (length (hls_atlasTileLayer (as_hls (nr_store nr)))) x]\<rparr>,
          as_sei := as_sei (nr_store nr) @ [pccsei_new\<lparr>seiPrefix := seiPrefix (nr_prefixSEI nr)\<rparr>]\<rparr>,
        nr_state := atgl_next (hls_addAtlasTileLayer (as_hls (nr_store nr))) (nr_state nr) x,
        nr_prefixSEI := (nr_prefixSEI nr)\<lparr>seiPrefix := []\<rparr>\<rparr>)"
proof -
  let ?hls = "as_hls (nr_store nr)" and ?n = "of_nat (length (hls_atlasTileLayer (as_hls (nr_store nr)))) :: size_t"
  let ?y = "atgl_new\<lparr>atgl_tileOrder := ?n, atgl_dataUnit := atdu_new\<lparr>atdu_tileOrder := ?n\<rparr>, atgl_encFrameIndex := - 1, atgl_encTileIndex := - 1\<rparr>"
  have add: "hls_addAtlasTileLayer ?hls = ?hls\<lparr>hls_atlasTileLayer := hls_atlasTileLayer ?hls @ [?y]\<rparr>"
    by (simp add: hls_addAtlasTileLayer_def Let_def)
  have "codes (atlasTileLayerRbsp_w (hls_addAtlasTileLayer ?hls) nal x) (atlasTileLayerRbsp_r (hls_addAtlasTileLayer ?hls) nal (nr_state nr) ?y)
     (?y\<lparr>atgl_header := atgl_header x, atgl_dataUnit := atdu_result (atgl_dataUnit x)\<rparr>, atgl_next (hls_addAtlasTileLayer ?hls) (nr_state nr) x)"
    using order by (intro atgl_codes [OF wf]) (simp_all add: atgl_new_def)
  moreover have "atlasTileLayerRbsp_w (hls_addAtlasTileLayer ?hls) nal x = atlasTileLayerRbsp_w ?hls nal x"
    by (rule atlasTileLayerRbsp_w_params) (simp_all add: add)
  moreover have "?y\<lparr>atgl_header := atgl_header x, atgl_dataUnit := atdu_result (atgl_dataUnit x)\<rparr> = atgl_read (length (hls_atlasTileLayer ?hls)) x"
    by (simp add: atgl_read_def atgl_new_def)
  ultimately have c: "codes (atlasTileLayerRbsp_w ?hls nal x) (atlasTileLayerRbsp_r (hls_addAtlasTileLayer ?hls) nal (nr_state nr) ?y)
     (atgl_read (length (hls_atlasTileLayer ?hls)) x, atgl_next (hls_addAtlasTileLayer ?hls) (nr_state nr) x)" by simp
  let ?F = "\<lambda>(atgl, rst). nr\<lparr>nr_store := (nr_store nr)\<lparr>as_hls := ?hls\<lparr>hls_atlasTileLayer := hls_atlasTileLayer ?hls @ [atgl]\<rparr>,
      as_sei := as_sei (nr_store nr) @ [pccsei_new\<lparr>seiPrefix := seiPrefix (nr_prefixSEI nr)\<rparr>]\<rparr>, nr_state := rst,
      nr_prefixSEI := (nr_prefixSEI nr)\<lparr>seiPrefix := []\<rparr>\<rparr>"
  have "atglUnit_r nal nr = (\<lambda>bs. Option.bind (atlasTileLayerRbsp_r (hls_addAtlasTileLayer ?hls) nal (nr_state nr) ?y bs) (\<lambda>(v, bs). Some (?F v, bs)))"
    by (rule ext) (simp add: atglUnit_r_def add Let_def case_prod_unfold)
  then show ?thesis using codes_map [OF c refl, of ?F] by simp
qed

section \<open>The second pass\<close>

definition size_ok :: "uint8_t \<Rightarrow> uint32_t \<Rightarrow> bool" where
  "size_ok prec v \<longleftrightarrow> 2 \<le> unat v \<and> unat v < 2 ^ (8 * (unat prec + 1))"

lemmas nal_type_defs = NAL_ASPS_def NAL_AFPS_def NAL_SKIP_R_def NAL_IDR_N_LP_def NAL_PREFIX_ESEI_def NAL_SUFFIX_ESEI_def
  NAL_PREFIX_NSEI_def NAL_SUFFIX_NSEI_def nal_tile_def nal_prefix_def nal_suffix_def

lemma nal_type_facts [simp]: "NAL_AFPS \<noteq> NAL_ASPS" "NAL_PREFIX_ESEI \<noteq> NAL_ASPS" "NAL_PREFIX_ESEI \<noteq> NAL_AFPS"
  "NAL_SUFFIX_ESEI \<noteq> NAL_ASPS" "NAL_SUFFIX_ESEI \<noteq> NAL_AFPS" "\<not> nal_tile NAL_PREFIX_ESEI" "\<not> nal_tile NAL_SUFFIX_ESEI"
  "\<not> nal_tile NAL_ASPS" "\<not> nal_tile NAL_AFPS"
  by (simp_all add: nal_type_defs)

lemma nal_tile_neq: "nal_tile t \<Longrightarrow> t \<noteq> NAL_ASPS" "nal_tile t \<Longrightarrow> t \<noteq> NAL_AFPS"
  using nal_type_facts(8,9) by metis+

lemma nal_payload_r:
  "nalPayload_r g NAL_ASPS nr = (\<lambda>bs. Option.bind (aspsUnit_r (nr_store nr) bs) (\<lambda>(st, bs). Some (nr\<lparr>nr_store := st\<rparr>, bs)))"
  "nalPayload_r g NAL_AFPS nr = (\<lambda>bs. Option.bind (afpsUnit_r (nr_store nr) bs) (\<lambda>(st, bs). Some (nr\<lparr>nr_store := st\<rparr>, bs)))"
  "nal_tile t \<Longrightarrow> nalPayload_r g t nr = atglUnit_r t nr"
  "nalPayload_r g NAL_PREFIX_ESEI nr = (\<lambda>bs. Option.bind (seiRbsp_r g NAL_PREFIX_ESEI (nr_prefixSEI nr) bs) (\<lambda>(l, bs). Some (nr\<lparr>nr_prefixSEI := l\<rparr>, bs)))"
  "nalPayload_r g NAL_SUFFIX_ESEI nr = (\<lambda>bs. Option.bind (suffixUnit_r g NAL_SUFFIX_ESEI (nr_store nr) bs) (\<lambda>(st, bs). Some (nr\<lparr>nr_store := st\<rparr>, bs)))"
  by (intro ext, simp add: nalPayload_r_def nal_tile_neq)+

lemma nalUnitOf_type [simp]: "nu_type (nalUnitOf t v) = t"
  by (simp add: nalUnitOf_def nu_new_def)

lemma nal_unit_w:
  "sampleStreamNalUnit_w ssnu (nalUnitOf t v) i k w bs =
     Option.bind (bs_write (ucast (nu_size (nalUnitOf t v))) (8 * (unat (ssnu_sizePrecisionBytesMinus1 ssnu) + 1)) bs)
       (\<lambda>bs. Option.bind (nalUnitHeader_w (nalUnitOf t v) bs) (payload w))"
  if "t = NAL_ASPS \<and> payload = aspsUnit_w i \<or> t = NAL_AFPS \<and> payload = afpsUnit_w i \<or> nal_tile t \<and> payload = atglUnit_w t i
    \<or> t = NAL_PREFIX_ESEI \<and> payload = seiUnit_w t k i \<or> t = NAL_SUFFIX_ESEI \<and> payload = seiUnit_w t k i"
  using that
  by (elim disjE conjE) (simp_all add: sampleStreamNalUnit_w_def Let_def nal_tile_neq)

text \<open>A NAL unit with the payload of its type.\<close>

lemma unit_runs:
  assumes prec: "unat prec \<le> 3" "ssnu_sizePrecisionBytesMinus1 ssnu = prec" and v: "size_ok prec v" and t: "unat t < 64"
    and payload: "\<And>w nr. ok w \<Longrightarrow> reader_at prec hls seis rst pre nr \<Longrightarrow> \<exists>w' nr' P. ok w' \<and> reader_at prec hls' seis' rst' pre' nr'
        \<and> (\<forall>bs. payload w bs = Option.bind (P bs) (\<lambda>bs. Some (w', bs))) \<and> aligns P \<and> codes P (nalPayload_r g t nr) nr'"
    and W: "\<And>w bs. ok w \<Longrightarrow> sampleStreamNalUnit_w ssnu (nalUnitOf t v) index atglIndex w bs =
      Option.bind (bs_write (ucast (nu_size (nalUnitOf t v))) (8 * (unat prec + 1)) bs)
        (\<lambda>bs. Option.bind (nalUnitHeader_w (nalUnitOf t v) bs) (payload w))"
  shows "runs (nalUnits_r g) ok (\<lambda>(w, bs). sampleStreamNalUnit_w ssnu (nalUnitOf t v) index atglIndex w bs)
    (reader_at prec hls seis rst pre) (reader_at prec hls' seis' rst' pre')"
proof (rule runs_cong)
  show "runs (nalUnits_r g) ok (\<lambda>(w, bs). Option.bind (bs_write (ucast (nu_size (nalUnitOf t v))) (8 * (unat prec + 1)) bs)
        (\<lambda>bs. Option.bind (nalUnitHeader_w (nalUnitOf t v) bs) (payload w)))
     (reader_at prec hls seis rst pre) (reader_at prec hls' seis' rst' pre')"
    using v prec t payload by (intro nal_unit_runs reader_at_unit) (simp_all add: size_ok_def)
qed (simp add: W)

lemma prefix_runs:
  assumes "unat prec \<le> 3" "ssnu_sizePrecisionBytesMinus1 ssnu = prec" "size_ok prec v"
    and k: "k < length (as_sei st)" and i: "i < length (seiPrefix (as_sei st ! k))"
  shows "runs (nalUnits_r g) (store_ok g st) (\<lambda>(w, bs). sampleStreamNalUnit_w ssnu (nalUnitOf NAL_PREFIX_ESEI v) i k w bs)
    (reader_at prec hls seis rst (pccsei_new\<lparr>seiPrefix := map sei_fresh (take i (seiPrefix (as_sei st ! k)))\<rparr>))
    (reader_at prec hls seis rst (pccsei_new\<lparr>seiPrefix := map sei_fresh (take (Suc i) (seiPrefix (as_sei st ! k)))\<rparr>))"
proof (rule unit_runs [where payload = "seiUnit_w NAL_PREFIX_ESEI k i"], rule assms(1), rule assms(2), rule assms(3))
  fix w nr
  assume w: "store_ok g st w" and nr: "reader_at prec hls seis rst (pccsei_new\<lparr>seiPrefix := map sei_fresh (take i (seiPrefix (as_sei st ! k)))\<rparr>) nr"
  let ?pre' = "pccsei_new\<lparr>seiPrefix := map sei_fresh (take (Suc i) (seiPrefix (as_sei st ! k)))\<rparr>"
  obtain w' P where p: "store_ok g st w'" "\<forall>bs. seiUnit_w NAL_PREFIX_ESEI k i w bs = Option.bind (P bs) (\<lambda>bs. Some (w', bs))" "aligns P"
    and c: "codes P (seiRbsp_r g NAL_PREFIX_ESEI (nr_prefixSEI nr)) ?pre'"
    using prefix_payload [OF w k i] nr by (auto simp: reader_at_def)
  have "codes P (nalPayload_r g NAL_PREFIX_ESEI nr) (nr\<lparr>nr_prefixSEI := ?pre'\<rparr>)"
    using codes_map [OF c refl, of "\<lambda>l. nr\<lparr>nr_prefixSEI := l\<rparr>"] by (simp add: nal_payload_r)
  moreover have "reader_at prec hls seis rst ?pre' (nr\<lparr>nr_prefixSEI := ?pre'\<rparr>)" using nr by (simp add: reader_at_def)
  ultimately show "\<exists>w' nr' P. store_ok g st w' \<and> reader_at prec hls seis rst ?pre' nr'
      \<and> (\<forall>bs. seiUnit_w NAL_PREFIX_ESEI k i w bs = Option.bind (P bs) (\<lambda>bs. Some (w', bs))) \<and> aligns P
      \<and> codes P (nalPayload_r g NAL_PREFIX_ESEI nr) nr'"
    using p by blast
qed (simp_all add: nal_unit_w [where payload = "seiUnit_w NAL_PREFIX_ESEI k i"] assms(2) [symmetric], simp add: NAL_PREFIX_ESEI_def)

lemma suffix_runs:
  assumes "unat prec \<le> 3" "ssnu_sizePrecisionBytesMinus1 ssnu = prec" "size_ok prec v"
    and k: "k < length (as_sei st)" and i: "i < length (seiSuffix (as_sei st ! k))"
  shows "runs (nalUnits_r g) (store_ok g st) (\<lambda>(w, bs). sampleStreamNalUnit_w ssnu (nalUnitOf NAL_SUFFIX_ESEI v) i k w bs)
    (reader_at prec hls (seis @ [\<lparr>seiPrefix = p, seiSuffix = map sei_fresh (take i (seiSuffix (as_sei st ! k)))\<rparr>]) rst pre)
    (reader_at prec hls (seis @ [\<lparr>seiPrefix = p, seiSuffix = map sei_fresh (take (Suc i) (seiSuffix (as_sei st ! k)))\<rparr>]) rst pre)"
proof (rule unit_runs [where payload = "seiUnit_w NAL_SUFFIX_ESEI k i"], rule assms(1), rule assms(2), rule assms(3))
  let ?l = "\<lambda>i. \<lparr>seiPrefix = p, seiSuffix = map sei_fresh (take i (seiSuffix (as_sei st ! k)))\<rparr>"
  fix w nr assume w: "store_ok g st w" and nr: "reader_at prec hls (seis @ [?l i]) rst pre nr"
  obtain w' P where p: "store_ok g st w'" "\<forall>bs. seiUnit_w NAL_SUFFIX_ESEI k i w bs = Option.bind (P bs) (\<lambda>bs. Some (w', bs))" "aligns P"
    and c: "codes P (seiRbsp_r g NAL_SUFFIX_ESEI (?l i)) (?l (Suc i))"
    using suffix_payload [OF w k i] by blast
  let ?nr = "nr\<lparr>nr_store := \<lparr>as_hls = hls, as_sei = seis @ [?l (Suc i)]\<rparr>\<rparr>"
  have st: "nr_store nr = \<lparr>as_hls = hls, as_sei = seis @ [?l i]\<rparr>" using nr by (simp add: reader_at_def)
  have "codes P (nalPayload_r g NAL_SUFFIX_ESEI nr) ?nr"
    using codes_map [OF c refl, of "\<lambda>l. nr\<lparr>nr_store := \<lparr>as_hls = hls, as_sei = seis @ [l]\<rparr>\<rparr>"]
    by (simp add: nal_payload_r suffixUnit_r_def st case_prod_unfold Option.bind_assoc)
  moreover have "reader_at prec hls (seis @ [?l (Suc i)]) rst pre ?nr" using nr by (simp add: reader_at_def)
  ultimately show "\<exists>w' nr' P. store_ok g st w' \<and> reader_at prec hls (seis @ [?l (Suc i)]) rst pre nr'
      \<and> (\<forall>bs. seiUnit_w NAL_SUFFIX_ESEI k i w bs = Option.bind (P bs) (\<lambda>bs. Some (w', bs))) \<and> aligns P
      \<and> codes P (nalPayload_r g NAL_SUFFIX_ESEI nr) nr'"
    using p by blast
qed (simp_all add: nal_unit_w [where payload = "seiUnit_w NAL_SUFFIX_ESEI k i"] assms(2) [symmetric], simp add: NAL_SUFFIX_ESEI_def)

lemma asps_runs:
  assumes "unat prec \<le> 3" "ssnu_sizePrecisionBytesMinus1 ssnu = prec" "size_ok prec v"
    and i: "i < length (hls_atlasSequenceParameterSet (as_hls st))" and wf: "asps_wf (hls_atlasSequenceParameterSet (as_hls st) ! i)"
  shows "runs (nalUnits_r g) (store_ok g st) (\<lambda>(w, bs). sampleStreamNalUnit_w ssnu (nalUnitOf NAL_ASPS v) i 0 w bs)
    (reader_at prec (h\<lparr>hls_atlasSequenceParameterSet := take i (hls_atlasSequenceParameterSet (as_hls st))\<rparr>) seis rst pre)
    (reader_at prec (h\<lparr>hls_atlasSequenceParameterSet := take (Suc i) (hls_atlasSequenceParameterSet (as_hls st))\<rparr>) seis rst pre)"
proof (rule unit_runs [where payload = "aspsUnit_w i"], rule assms(1), rule assms(2), rule assms(3))
  let ?x = "hls_atlasSequenceParameterSet (as_hls st) ! i"
  let ?h = "\<lambda>i. h\<lparr>hls_atlasSequenceParameterSet := take i (hls_atlasSequenceParameterSet (as_hls st))\<rparr>"
  fix w nr assume w: "store_ok g st w" and nr: "reader_at prec (?h i) seis rst pre nr"
  let ?nr = "nr\<lparr>nr_store := \<lparr>as_hls = ?h (Suc i), as_sei = seis\<rparr>\<rparr>"
  have c: "codes (atlasSequenceParameterSetRbsp_w ?x) (aspsUnit_r (nr_store nr)) \<lparr>as_hls = ?h (Suc i), as_sei = seis\<rparr>"
    using asps_payload [OF wf, of "nr_store nr"] nr i by (simp add: reader_at_def take_Suc_conv_app_nth)
  have "codes (atlasSequenceParameterSetRbsp_w ?x) (nalPayload_r g NAL_ASPS nr) ?nr"
    using codes_map [OF c refl, of "\<lambda>st. nr\<lparr>nr_store := st\<rparr>"] by (simp add: nal_payload_r)
  moreover have "reader_at prec (?h (Suc i)) seis rst pre ?nr" using nr by (simp add: reader_at_def)
  moreover have "aspsUnit_w i w bs = Option.bind (atlasSequenceParameterSetRbsp_w ?x bs) (\<lambda>bs. Some (w, bs))" for bs
    using w i by (simp add: aspsUnit_w_def store_ok_def)
  ultimately show "\<exists>w' nr' P. store_ok g st w' \<and> reader_at prec (?h (Suc i)) seis rst pre nr'
      \<and> (\<forall>bs. aspsUnit_w i w bs = Option.bind (P bs) (\<lambda>bs. Some (w', bs))) \<and> aligns P \<and> codes P (nalPayload_r g NAL_ASPS nr) nr'"
    using w aligns_asps by blast
qed (simp_all add: nal_unit_w [where payload = "aspsUnit_w i"] assms(2) [symmetric], simp add: NAL_ASPS_def)

lemma hls_getAsps_list: "hls_atlasSequenceParameterSet h = hls_atlasSequenceParameterSet h' \<Longrightarrow> hls_getAsps h = hls_getAsps h'"
  by (auto simp: hls_getAsps_def fun_eq_iff)

lemma afps_runs:
  assumes "unat prec \<le> 3" "ssnu_sizePrecisionBytesMinus1 ssnu = prec" "size_ok prec v"
    and i: "i < length (hls_atlasFrameParameterSet (as_hls st))"
    and wf: "afps_wf (hls_getAsps (as_hls st)) (hls_atlasFrameParameterSet (as_hls st) ! i)"
    and h: "hls_atlasSequenceParameterSet h = hls_atlasSequenceParameterSet (as_hls st)"
  shows "runs (nalUnits_r g) (store_ok g st) (\<lambda>(w, bs). sampleStreamNalUnit_w ssnu (nalUnitOf NAL_AFPS v) i 0 w bs)
    (reader_at prec (h\<lparr>hls_atlasFrameParameterSet := take i (hls_atlasFrameParameterSet (as_hls st))\<rparr>) seis rst pre)
    (reader_at prec (h\<lparr>hls_atlasFrameParameterSet := take (Suc i) (hls_atlasFrameParameterSet (as_hls st))\<rparr>) seis rst pre)"
proof (rule unit_runs [where payload = "afpsUnit_w i"], rule assms(1), rule assms(2), rule assms(3))
  let ?x = "hls_atlasFrameParameterSet (as_hls st) ! i"
  let ?h = "\<lambda>i. h\<lparr>hls_atlasFrameParameterSet := take i (hls_atlasFrameParameterSet (as_hls st))\<rparr>"
  fix w nr assume w: "store_ok g st w" and nr: "reader_at prec (?h i) seis rst pre nr"
  let ?nr = "nr\<lparr>nr_store := \<lparr>as_hls = ?h (Suc i), as_sei = seis\<rparr>\<rparr>"
  have st: "nr_store nr = \<lparr>as_hls = ?h i, as_sei = seis\<rparr>" using nr by (simp add: reader_at_def)
  have get: "hls_getAsps (?h i) = hls_getAsps (as_hls st)" using h by (intro hls_getAsps_list) simp
  have c: "codes (atlasFrameParameterSetRbsp_w (hls_getAsps (as_hls st)) ?x) (afpsUnit_r (nr_store nr)) \<lparr>as_hls = ?h (Suc i), as_sei = seis\<rparr>"
    using afps_payload [of "nr_store nr" ?x] wf i by (simp add: st get take_Suc_conv_app_nth)
  have "codes (atlasFrameParameterSetRbsp_w (hls_getAsps (as_hls st)) ?x) (nalPayload_r g NAL_AFPS nr) ?nr"
    using codes_map [OF c refl, of "\<lambda>st. nr\<lparr>nr_store := st\<rparr>"] by (simp add: nal_payload_r)
  moreover have "reader_at prec (?h (Suc i)) seis rst pre ?nr" using nr by (simp add: reader_at_def)
  moreover have "afpsUnit_w i w bs = Option.bind (atlasFrameParameterSetRbsp_w (hls_getAsps (as_hls st)) ?x bs) (\<lambda>bs. Some (w, bs))" for bs
    using w i by (simp add: afpsUnit_w_def store_ok_def)
  ultimately show "\<exists>w' nr' P. store_ok g st w' \<and> reader_at prec (?h (Suc i)) seis rst pre nr'
      \<and> (\<forall>bs. afpsUnit_w i w bs = Option.bind (P bs) (\<lambda>bs. Some (w', bs))) \<and> aligns P \<and> codes P (nalPayload_r g NAL_AFPS nr) nr'"
    using w aligns_afps by blast
qed (simp_all add: nal_unit_w [where payload = "afpsUnit_w i"] assms(2) [symmetric], simp add: NAL_AFPS_def)

subsection \<open>Tile layers with their messages\<close>

text \<open>The atlas of the reader once all parameter sets and the first \<open>k\<close> tile layers have been read.\<close>

definition hls_layers :: "PCCAtlasHighLevelSyntax \<Rightarrow> AtlasTileLayerRbsp list \<Rightarrow> nat \<Rightarrow> PCCAtlasHighLevelSyntax" where
  "hls_layers h xs k = h\<lparr>hls_atlasTileLayer := map (\<lambda>j. atgl_read j (xs ! j)) [0..<k]\<rparr>"

primrec layer_state :: "PCCAtlasHighLevelSyntax \<Rightarrow> AtlasTileLayerRbsp list \<Rightarrow> ReaderState \<Rightarrow> nat \<Rightarrow> ReaderState" where
  "layer_state h xs rst 0 = rst"
| "layer_state h xs rst (Suc k) = atgl_next (hls_addAtlasTileLayer (hls_layers h xs k)) (layer_state h xs rst k) (xs ! k)"

definition messages_read :: "PCCSEI \<Rightarrow> PCCSEI" where
  "messages_read l = \<lparr>seiPrefix = map sei_fresh (seiPrefix l), seiSuffix = map sei_fresh (seiSuffix l)\<rparr>"

text \<open>A tile layer that can be carried as number \<open>k\<close>.\<close>

definition layer_wf :: "PCCAtlasHighLevelSyntax \<Rightarrow> AtlasTileLayerRbsp list \<Rightarrow> ReaderState \<Rightarrow> nat \<Rightarrow> bool" where
  "layer_wf h xs rst k \<longleftrightarrow> atgl_wf (hls_addAtlasTileLayer (hls_layers h xs k)) (atgl_naluType (xs ! k)) (layer_state h xs rst k) (xs ! k)
     \<and> atdu_tileOrder (atgl_dataUnit (xs ! k)) = of_nat k"

lemma atgl_naluType_tile: "nal_tile (atgl_naluType x)" "unat (atgl_naluType x) < 64"
  by (simp_all add: atgl_naluType_def nal_type_defs)

lemma as_setTileOrder_same:
  assumes "k < length (hls_atlasTileLayer (as_hls w))" and "atdu_tileOrder (atgl_dataUnit (hls_atlasTileLayer (as_hls w) ! k)) = of_nat k"
  shows "as_setTileOrder k w = Some w"
proof -
  let ?x = "hls_atlasTileLayer (as_hls w) ! k"
  have "?x\<lparr>atgl_dataUnit := (atgl_dataUnit ?x)\<lparr>atdu_tileOrder := of_nat k\<rparr>\<rparr> = ?x"
    by (intro AtlasTileLayerRbsp.equality AtlasTileDataUnit.equality) (simp_all add: assms(2) [symmetric])
  then show ?thesis using assms(1) by (simp add: as_setTileOrder_def)
qed

lemma tile_runs:
  assumes "unat prec \<le> 3" "ssnu_sizePrecisionBytesMinus1 ssnu = prec" "size_ok prec (sz (AtglSlot k))"
    and xs: "xs = hls_atlasTileLayer (as_hls st)" and k: "k < length xs" and wf: "layer_wf h xs rst k"
    and h: "hls_atlasSequenceParameterSet h = hls_atlasSequenceParameterSet (as_hls st)"
      "hls_atlasFrameParameterSet h = hls_atlasFrameParameterSet (as_hls st)"
  shows "runs (nalUnits_r g) (store_ok g st) (nal_tile_w ssnu sz k)
    (reader_at prec (hls_layers h xs k) seis (layer_state h xs rst k) pre)
    (reader_at prec (hls_layers h xs (Suc k)) (seis @ [pccsei_new\<lparr>seiPrefix := seiPrefix pre\<rparr>]) (layer_state h xs rst (Suc k)) (pre\<lparr>seiPrefix := []\<rparr>))"
proof (rule runs_cong)
  let ?x = "xs ! k" and ?t = "atgl_naluType (xs ! k)" and ?sei = "pccsei_new\<lparr>seiPrefix := seiPrefix pre\<rparr>"
  show "runs (nalUnits_r g) (store_ok g st) (\<lambda>(w, bs). sampleStreamNalUnit_w ssnu (nalUnitOf ?t (sz (AtglSlot k))) k 0 w bs)
    (reader_at prec (hls_layers h xs k) seis (layer_state h xs rst k) pre)
    (reader_at prec (hls_layers h xs (Suc k)) (seis @ [?sei]) (layer_state h xs rst (Suc k)) (pre\<lparr>seiPrefix := []\<rparr>))"
  proof (rule unit_runs [where payload = "atglUnit_w ?t k"], rule assms(1), rule assms(2), rule assms(3), rule atgl_naluType_tile(2))
    fix w nr assume w: "store_ok g st w" and nr: "reader_at prec (hls_layers h xs k) seis (layer_state h xs rst k) pre nr"
    let ?nr = "nr\<lparr>nr_store := \<lparr>as_hls = hls_layers h xs (Suc k), as_sei = seis @ [?sei]\<rparr>,
      nr_state := layer_state h xs rst (Suc k), nr_prefixSEI := pre\<lparr>seiPrefix := []\<rparr>\<rparr>"
    have n: "nr_store nr = \<lparr>as_hls = hls_layers h xs k, as_sei = seis\<rparr>" "nr_state nr = layer_state h xs rst k" "nr_prefixSEI nr = pre"
      using nr by (simp_all add: reader_at_def)
    have len: "length (hls_atlasTileLayer (hls_layers h xs k)) = k" by (simp add: hls_layers_def)
    have "codes (atlasTileLayerRbsp_w (hls_layers h xs k) ?t ?x) (atglUnit_r ?t nr) ?nr"
      using atgl_payload [of nr ?t ?x] wf by (simp add: n len layer_wf_def) (simp add: hls_layers_def)
    moreover have "atlasTileLayerRbsp_w (hls_layers h xs k) ?t ?x = atlasTileLayerRbsp_w (as_hls st) ?t ?x"
      by (rule atlasTileLayerRbsp_w_params) (simp_all add: hls_layers_def h)
    ultimately have "codes (atlasTileLayerRbsp_w (as_hls st) ?t ?x) (nalPayload_r g ?t nr) ?nr"
      by (simp add: nal_payload_r(3) [OF atgl_naluType_tile(1)])
    moreover have "reader_at prec (hls_layers h xs (Suc k)) (seis @ [?sei]) (layer_state h xs rst (Suc k)) (pre\<lparr>seiPrefix := []\<rparr>) ?nr"
      using nr by (simp add: reader_at_def)
    moreover have "atglUnit_w ?t k w bs = Option.bind (atlasTileLayerRbsp_w (as_hls st) ?t ?x bs) (\<lambda>bs. Some (w, bs))" for bs
      using w k xs by (simp add: atglUnit_w_def store_ok_def)
    ultimately show "\<exists>w' nr' P. store_ok g st w'
        \<and> reader_at prec (hls_layers h xs (Suc k)) (seis @ [?sei]) (layer_state h xs rst (Suc k)) (pre\<lparr>seiPrefix := []\<rparr>) nr'
        \<and> (\<forall>bs. atglUnit_w ?t k w bs = Option.bind (P bs) (\<lambda>bs. Some (w', bs))) \<and> aligns P \<and> codes P (nalPayload_r g ?t nr) nr'"
      using w aligns_atgl by blast
  qed (simp add: nal_unit_w [where payload = "atglUnit_w ?t k"] atgl_naluType_tile assms(2) [symmetric])
  fix w bs assume "store_ok g st w"
  then have w: "as_hls w = as_hls st" by (simp add: store_ok_def)
  have "as_setTileOrder k w = Some w"
    using wf k by (intro as_setTileOrder_same) (simp_all add: w layer_wf_def xs)
  then show "nal_tile_w ssnu sz k (w, bs) = (case (w, bs) of (w, bs) \<Rightarrow> sampleStreamNalUnit_w ssnu (nalUnitOf ?t (sz (AtglSlot k))) k 0 w bs)"
    using k by (simp add: nal_tile_w_def w xs)
qed

text \<open>The units of layer \<open>k\<close>.\<close>

definition layer_slots :: "PCCSEI \<Rightarrow> nat \<Rightarrow> NalSlot set" where
  "layer_slots l k = PrefixSlot k ` {..<length (seiPrefix l)} \<union> {AtglSlot k} \<union> SuffixSlot k ` {..<length (seiSuffix l)}"

lemma layer_runs:
  assumes p: "unat prec \<le> 3" "ssnu_sizePrecisionBytesMinus1 ssnu = prec"
    and sz: "\<And>slot. slot \<in> layer_slots (as_sei st ! k) k \<Longrightarrow> size_ok prec (sz slot)"
    and xs: "xs = hls_atlasTileLayer (as_hls st)" and k: "k < length xs" "length (as_sei st) = length xs" and wf: "layer_wf h xs rst k"
    and h: "hls_atlasSequenceParameterSet h = hls_atlasSequenceParameterSet (as_hls st)"
      "hls_atlasFrameParameterSet h = hls_atlasFrameParameterSet (as_hls st)"
  shows "runs (nalUnits_r g) (store_ok g st) (nal_layer_w ssnu sz k)
    (reader_at prec (hls_layers h xs k) (map messages_read (take k (as_sei st))) (layer_state h xs rst k) pccsei_new)
    (reader_at prec (hls_layers h xs (Suc k)) (map messages_read (take (Suc k) (as_sei st))) (layer_state h xs rst (Suc k)) pccsei_new)"
proof (rule runs_cong)
  let ?l = "as_sei st ! k" and ?seis = "map messages_read (take k (as_sei st))"
  have k': "k < length (as_sei st)" using k by simp
  let ?pre = "\<lambda>i. pccsei_new\<lparr>seiPrefix := map sei_fresh (take i (seiPrefix ?l))\<rparr>"
  let ?suf = "\<lambda>i. \<lparr>seiPrefix = map sei_fresh (seiPrefix ?l), seiSuffix = map sei_fresh (take i (seiSuffix ?l))\<rparr>"
  let ?prefix = "for_loop [0..<length (seiPrefix ?l)] (\<lambda>i (st, bs). sampleStreamNalUnit_w ssnu (nalUnitOf NAL_PREFIX_ESEI (sz (PrefixSlot k i))) i k st bs)"
  let ?suffix = "for_loop [0..<length (seiSuffix ?l)] (\<lambda>i (st, bs). sampleStreamNalUnit_w ssnu (nalUnitOf NAL_SUFFIX_ESEI (sz (SuffixSlot k i))) i k st bs)"
  have "runs (nalUnits_r g) (store_ok g st) ?prefix
    (reader_at prec (hls_layers h xs k) ?seis (layer_state h xs rst k) (?pre 0))
    (reader_at prec (hls_layers h xs k) ?seis (layer_state h xs rst k) (?pre (length (seiPrefix ?l))))"
    using sz by (intro runs_for [where I = "\<lambda>i. reader_at prec (hls_layers h xs k) ?seis (layer_state h xs rst k) (?pre i)"] prefix_runs p k')
      (auto simp: layer_slots_def)
  then have 1: "runs (nalUnits_r g) (store_ok g st) ?prefix
    (reader_at prec (hls_layers h xs k) ?seis (layer_state h xs rst k) pccsei_new)
    (reader_at prec (hls_layers h xs k) ?seis (layer_state h xs rst k) (?pre (length (seiPrefix ?l))))"
    by (simp add: pccsei_new_def)
  have 2: "runs (nalUnits_r g) (store_ok g st) (nal_tile_w ssnu sz k)
    (reader_at prec (hls_layers h xs k) ?seis (layer_state h xs rst k) (?pre (length (seiPrefix ?l))))
    (reader_at prec (hls_layers h xs (Suc k)) (?seis @ [?suf 0]) (layer_state h xs rst (Suc k)) pccsei_new)"
    using tile_runs [OF p _ xs k(1) wf h, of sz g ?seis "?pre (length (seiPrefix ?l))"] sz
    by (simp add: layer_slots_def pccsei_new_def)
  have "runs (nalUnits_r g) (store_ok g st) ?suffix
    (reader_at prec (hls_layers h xs (Suc k)) (?seis @ [?suf 0]) (layer_state h xs rst (Suc k)) pccsei_new)
    (reader_at prec (hls_layers h xs (Suc k)) (?seis @ [?suf (length (seiSuffix ?l))]) (layer_state h xs rst (Suc k)) pccsei_new)"
    using sz by (intro runs_for [where I = "\<lambda>i. reader_at prec (hls_layers h xs (Suc k)) (?seis @ [?suf i]) (layer_state h xs rst (Suc k)) pccsei_new"]
        suffix_runs p k') (auto simp: layer_slots_def)
  moreover have "?seis @ [?suf (length (seiSuffix ?l))] = map messages_read (take (Suc k) (as_sei st))"
    using k' by (simp add: take_Suc_conv_app_nth messages_read_def)
  ultimately have 3: "runs (nalUnits_r g) (store_ok g st) ?suffix
    (reader_at prec (hls_layers h xs (Suc k)) (?seis @ [?suf 0]) (layer_state h xs rst (Suc k)) pccsei_new)
    (reader_at prec (hls_layers h xs (Suc k)) (map messages_read (take (Suc k) (as_sei st))) (layer_state h xs rst (Suc k)) pccsei_new)"
    by simp
  show "runs (nalUnits_r g) (store_ok g st) (\<lambda>x. Option.bind (?prefix x) (\<lambda>x. Option.bind (nal_tile_w ssnu sz k x) ?suffix))
    (reader_at prec (hls_layers h xs k) ?seis (layer_state h xs rst k) pccsei_new)
    (reader_at prec (hls_layers h xs (Suc k)) (map messages_read (take (Suc k) (as_sei st))) (layer_state h xs rst (Suc k)) pccsei_new)"
    by (rule runs_bind [OF 1 runs_bind [OF 2 3]])
  fix w bs assume w: "store_ok g st w"
  note l = store_ok_nth [OF w k'] pccsei_like_lengths [OF store_ok_nth(2) [OF w k']]
  show "nal_layer_w ssnu sz k (w, bs) = Option.bind (?prefix (w, bs)) (\<lambda>x. Option.bind (nal_tile_w ssnu sz k x) ?suffix)"
    using l by (simp add: nal_layer_w_def case_prod_unfold)
qed

subsection \<open>All units\<close>

definition atlas_slots :: "AtlasStore \<Rightarrow> NalSlot set" where
  "atlas_slots st = AspsSlot ` {..<length (hls_atlasSequenceParameterSet (as_hls st))}
     \<union> AfpsSlot ` {..<length (hls_atlasFrameParameterSet (as_hls st))}
     \<union> (\<Union>k < length (hls_atlasTileLayer (as_hls st)). layer_slots (as_sei st ! k) k)"

text \<open>The parameter sets of the writer in the atlas of the reader.\<close>

definition hls_params :: "PCCAtlasHighLevelSyntax \<Rightarrow> PCCAtlasHighLevelSyntax \<Rightarrow> PCCAtlasHighLevelSyntax" where
  "hls_params hls h = h\<lparr>hls_atlasSequenceParameterSet := hls_atlasSequenceParameterSet hls,
     hls_atlasFrameParameterSet := hls_atlasFrameParameterSet hls\<rparr>"

text \<open>An atlas that can be carried, for a reader in state \<open>rst\<close> with the empty atlas \<open>h\<close>.\<close>

definition atlas_wf :: "SeiMemory \<Rightarrow> PCCAtlasHighLevelSyntax \<Rightarrow> ReaderState \<Rightarrow> AtlasStore \<Rightarrow> bool" where
  "atlas_wf g h rst st \<longleftrightarrow> (let hls = as_hls st; xs = hls_atlasTileLayer hls in
     length (as_sei st) = length xs
     \<and> (\<forall>x \<in> set (hls_atlasSequenceParameterSet hls). asps_wf x)
     \<and> (\<forall>x \<in> set (hls_atlasFrameParameterSet hls). afps_wf (hls_getAsps hls) x)
     \<and> (\<forall>k < length xs. layer_wf (hls_params hls h) xs rst k \<and> messages_wf g (as_sei st ! k)))"

definition hls_empty :: "PCCAtlasHighLevelSyntax \<Rightarrow> bool" where
  "hls_empty h \<longleftrightarrow> hls_atlasSequenceParameterSet h = [] \<and> hls_atlasFrameParameterSet h = [] \<and> hls_atlasTileLayer h = []"

lemma hls_record [simp]: "hls_atlasSequenceParameterSet h = [] \<Longrightarrow> h\<lparr>hls_atlasSequenceParameterSet := []\<rparr> = h"
  "hls_atlasFrameParameterSet h = [] \<Longrightarrow> h\<lparr>hls_atlasFrameParameterSet := []\<rparr> = h"
  "hls_atlasTileLayer h = [] \<Longrightarrow> h\<lparr>hls_atlasTileLayer := []\<rparr> = h"
  by (cases h; simp)+

text \<open>The second pass as one step.\<close>

definition nalUnits_w :: "SampleStreamNalUnit \<Rightarrow> (NalSlot \<Rightarrow> uint32_t) \<Rightarrow> AtlasStore \<times> PCCBitstream \<Rightarrow> (AtlasStore \<times> PCCBitstream) option" where
  "nalUnits_w ssnu sz = (\<lambda>(st, bs). do {
     (st, bs) \<leftarrow> for_loop [0..<length (hls_atlasSequenceParameterSet (as_hls st))] (\<lambda>i (st, bs).
       sampleStreamNalUnit_w ssnu (nalUnitOf NAL_ASPS (sz (AspsSlot i))) i 0 st bs) (st, bs);
     (st, bs) \<leftarrow> for_loop [0..<length (hls_atlasFrameParameterSet (as_hls st))] (\<lambda>i (st, bs).
       sampleStreamNalUnit_w ssnu (nalUnitOf NAL_AFPS (sz (AfpsSlot i))) i 0 st bs) (st, bs);
     for_loop [0..<length (hls_atlasTileLayer (as_hls st))] (nal_layer_w ssnu sz) (st, bs)
   })"

lemma atlasSubStream_w_passes: "atlasSubStream_w st bs = Option.bind (nalSizes_w st) (\<lambda>(st, ns).
    let ssnu = ssnu_new\<lparr>ssnu_sizePrecisionBytesMinus1 := ucast (precisionBytes (ns_maxUnitSize ns + 1) - 1)\<rparr> in
    Option.bind (sampleStreamNalHeader_w ssnu bs) (\<lambda>bs. nalUnits_w ssnu (ns_size ns) (st, bs)))"
  by (simp add: atlasSubStream_w_def nalUnits_w_def Let_def)

lemma param_units_store:
  assumes "for_loop [0..<n] (\<lambda>i (st, bs). sampleStreamNalUnit_w ssnu (nalUnitOf t (f i)) i 0 st bs) (v, b) = Some (v', b')"
    and "t = NAL_ASPS \<or> t = NAL_AFPS"
  shows "v' = v"
  using assms(1)
proof (induction n arbitrary: v' b')
  case (Suc n)
  have step: "v2 = v1" if "sampleStreamNalUnit_w ssnu (nalUnitOf t m) i 0 v1 b1 = Some (v2, b2)" for m i v1 b1 v2 b2
    using that assms(2) by (auto simp: sampleStreamNalUnit_w_def aspsUnit_w_def afpsUnit_w_def Let_def split: bind_splits if_splits)
  obtain v1 b1 where "for_loop [0..<n] (\<lambda>i (st, bs). sampleStreamNalUnit_w ssnu (nalUnitOf t (f i)) i 0 st bs) (v, b) = Some (v1, b1)"
    and "sampleStreamNalUnit_w ssnu (nalUnitOf t (f n)) n 0 v1 b1 = Some (v', b')"
    using Suc.prems by (fastforce simp: for_loop_snoc split: bind_splits)
  then show ?case using Suc.IH step by metis
qed simp

lemma nalUnits_runs:
  assumes p: "unat prec \<le> 3" "ssnu_sizePrecisionBytesMinus1 ssnu = prec"
    and sz: "\<And>slot. slot \<in> atlas_slots st \<Longrightarrow> size_ok prec (sz slot)"
    and wf: "atlas_wf g h rst st" and h: "hls_empty h"
    and xs: "xs = hls_atlasTileLayer (as_hls st)"
  shows "runs (nalUnits_r g) (store_ok g st) (nalUnits_w ssnu sz) (reader_at prec h [] rst pccsei_new)
    (reader_at prec (hls_layers (hls_params (as_hls st) h) xs (length xs)) (map messages_read (as_sei st))
      (layer_state (hls_params (as_hls st) h) xs rst (length xs)) pccsei_new)"
proof (rule runs_cong)
  let ?hls = "as_hls st" and ?H = "hls_params (as_hls st) h"
  let ?A = "hls_atlasSequenceParameterSet (as_hls st)" and ?F = "hls_atlasFrameParameterSet (as_hls st)"
  note w = wf [unfolded atlas_wf_def Let_def, folded xs]
  let ?asps = "for_loop [0..<length ?A] (\<lambda>i (st, bs). sampleStreamNalUnit_w ssnu (nalUnitOf NAL_ASPS (sz (AspsSlot i))) i 0 st bs)"
  let ?afps = "for_loop [0..<length ?F] (\<lambda>i (st, bs). sampleStreamNalUnit_w ssnu (nalUnitOf NAL_AFPS (sz (AfpsSlot i))) i 0 st bs)"
  have 1: "runs (nalUnits_r g) (store_ok g st) ?asps (reader_at prec h [] rst pccsei_new)
      (reader_at prec (h\<lparr>hls_atlasSequenceParameterSet := ?A\<rparr>) [] rst pccsei_new)"
  proof -
    have "runs (nalUnits_r g) (store_ok g st) ?asps (reader_at prec (h\<lparr>hls_atlasSequenceParameterSet := take 0 ?A\<rparr>) [] rst pccsei_new)
      (reader_at prec (h\<lparr>hls_atlasSequenceParameterSet := take (length ?A) ?A\<rparr>) [] rst pccsei_new)"
      using sz w by (intro runs_for [where I = "\<lambda>i. reader_at prec (h\<lparr>hls_atlasSequenceParameterSet := take i ?A\<rparr>) [] rst pccsei_new"] asps_runs p)
        (auto simp: atlas_slots_def)
    then show ?thesis using h by (simp add: hls_empty_def)
  qed
  let ?h = "h\<lparr>hls_atlasSequenceParameterSet := ?A\<rparr>"
  have 2: "runs (nalUnits_r g) (store_ok g st) ?afps (reader_at prec ?h [] rst pccsei_new) (reader_at prec ?H [] rst pccsei_new)"
  proof -
    have "runs (nalUnits_r g) (store_ok g st) ?afps (reader_at prec (?h\<lparr>hls_atlasFrameParameterSet := take 0 ?F\<rparr>) [] rst pccsei_new)
      (reader_at prec (?h\<lparr>hls_atlasFrameParameterSet := take (length ?F) ?F\<rparr>) [] rst pccsei_new)"
      using sz w by (intro runs_for [where I = "\<lambda>i. reader_at prec (?h\<lparr>hls_atlasFrameParameterSet := take i ?F\<rparr>) [] rst pccsei_new"] afps_runs p)
        (auto simp: atlas_slots_def)
    then show ?thesis using h by (simp add: hls_empty_def hls_params_def)
  qed
  have 3: "runs (nalUnits_r g) (store_ok g st) (for_loop [0..<length xs] (nal_layer_w ssnu sz)) (reader_at prec ?H [] rst pccsei_new)
      (reader_at prec (hls_layers ?H xs (length xs)) (map messages_read (as_sei st)) (layer_state ?H xs rst (length xs)) pccsei_new)"
  proof -
    have "runs (nalUnits_r g) (store_ok g st) (for_loop [0..<length xs] (nal_layer_w ssnu sz))
      (reader_at prec (hls_layers ?H xs 0) (map messages_read (take 0 (as_sei st))) (layer_state ?H xs rst 0) pccsei_new)
      (reader_at prec (hls_layers ?H xs (length xs)) (map messages_read (take (length xs) (as_sei st))) (layer_state ?H xs rst (length xs)) pccsei_new)"
      using sz w by (intro runs_for [where I = "\<lambda>k. reader_at prec (hls_layers ?H xs k) (map messages_read (take k (as_sei st))) (layer_state ?H xs rst k) pccsei_new"]
          layer_runs p xs) (auto simp: atlas_slots_def hls_params_def xs)
    moreover have "hls_layers ?H xs 0 = ?H" using h by (simp add: hls_layers_def hls_params_def hls_empty_def)
    ultimately show ?thesis using w by simp
  qed
  show "runs (nalUnits_r g) (store_ok g st) (\<lambda>x. Option.bind (?asps x) (\<lambda>x. Option.bind (?afps x) (for_loop [0..<length xs] (nal_layer_w ssnu sz))))
     (reader_at prec h [] rst pccsei_new)
     (reader_at prec (hls_layers ?H xs (length xs)) (map messages_read (as_sei st)) (layer_state ?H xs rst (length xs)) pccsei_new)"
    by (rule runs_bind [OF 1 runs_bind [OF 2 3]])
  fix w bs assume ok: "store_ok g st w"
  have w0: "as_hls w = ?hls" using ok by (simp add: store_ok_def)
  show "nalUnits_w ssnu sz (w, bs) = Option.bind (?asps (w, bs)) (\<lambda>x. Option.bind (?afps x) (for_loop [0..<length xs] (nal_layer_w ssnu sz)))"
  proof (cases "?asps (w, bs)")
    case (Some p1)
    obtain w1 b1 where p1: "p1 = (w1, b1)" by force
    have w1: "as_hls w1 = ?hls" using param_units_store [OF Some [unfolded p1]] w0 by simp
    show ?thesis
    proof (cases "?afps (w1, b1)")
      case Some2: (Some p2)
      obtain w2 b2 where p2: "p2 = (w2, b2)" by force
      have "as_hls w2 = ?hls" using param_units_store [OF Some2 [unfolded p2]] w1 by simp
      then show ?thesis using Some Some2 w0 w1 p1 p2 by (simp add: nalUnits_w_def xs)
    qed (use Some w0 w1 p1 in \<open>simp add: nalUnits_w_def\<close>)
  qed (simp add: nalUnits_w_def w0)
qed

section \<open>The first pass\<close>

text \<open>A writer that takes \<open>n\<close> bytes of an aligned stream. What is coded takes the same number of bytes on every
  aligned stream.\<close>

definition takes :: "nat \<Rightarrow> (PCCBitstream \<Rightarrow> PCCBitstream option) \<Rightarrow> bool" where
  "takes n W \<longleftrightarrow> (\<forall>bs. bs_inv bs \<longrightarrow> bs_byteAligned bs \<longrightarrow>
     (\<exists>bs'. W bs = Some bs' \<and> bs_inv bs' \<and> bs_byteAligned bs' \<and> bs_size bs' = bs_size bs + n))"

definition bytes_of :: "PCCBitstream option \<Rightarrow> nat" where
  "bytes_of r = (case r of None \<Rightarrow> 0 | Some bs \<Rightarrow> bs_size bs)"

lemma new_aligned: "bs_byteAligned bs_new" "bs_size bs_new = 0"
  by (simp_all add: bs_new_def bs_byteAligned_def bs_size_def)

lemma codes_takes:
  assumes c: "codes W R y" and a: "aligns W"
  shows "takes (bytes_of (W bs_new)) W"
  unfolding takes_def
proof (intro allI impI)
  fix bs assume bs: "bs_inv bs" "bs_byteAligned bs"
  obtain b0 where b0: "W bs_new = Some b0" using codesE [OF c new_inv] by metis
  obtain bs' where b: "W bs = Some bs'" "bs_inv bs'" using codesE [OF c bs(1)] by metis
  have al: "bs_byteAligned b0" "bs_byteAligned bs'" using a b0 b(1) by (simp_all add: aligns_def)
  have "lin (bs_pos bs') - lin (bs_pos bs) = lin (bs_pos b0) - lin (bs_pos bs_new)" "lin (bs_pos bs) \<le> lin (bs_pos bs')"
    using codes_bits [OF c bs(1) new_inv _ b(1) b0] bs(2) new_aligned(1) by (simp_all add: lin_aligned)
  then have "bs_size bs' = bs_size bs + bs_size b0"
    using al bs(2) new_aligned by (simp add: lin_aligned)
  then show "\<exists>bs'. W bs = Some bs' \<and> bs_inv bs' \<and> bs_byteAligned bs' \<and> bs_size bs' = bs_size bs + bytes_of (W bs_new)"
    using b b0 al by (simp add: bytes_of_def)
qed

lemma takes_new: "takes n W \<Longrightarrow> bytes_of (W bs_new) = n"
  using new_inv new_aligned by (fastforce simp: takes_def bytes_of_def)

lemma takes_bind: "takes m V \<Longrightarrow> takes n W \<Longrightarrow> takes (m + n) (\<lambda>bs. Option.bind (V bs) W)"
  unfolding takes_def by fastforce

text \<open>What is known of the sizes while they are measured, as long as the temporary stream stays below 4 GiB.\<close>

definition ns_small :: "NalSizes \<Rightarrow> bool" where
  "ns_small ns \<longleftrightarrow> bs_size (ns_tempBitStream ns) < 2 ^ 32 - 3"

definition ns_good :: "(NalSlot \<Rightarrow> nat) \<Rightarrow> NalSizes \<Rightarrow> NalSlot \<Rightarrow> bool" where
  "ns_good B ns slot \<longleftrightarrow> unat (ns_size ns slot) = B slot + 2 \<and> ns_size ns slot \<le> ns_maxUnitSize ns"

definition ns_inv :: "NalSizes \<Rightarrow> bool" where
  "ns_inv ns \<longleftrightarrow> bs_inv (ns_tempBitStream ns) \<and> bs_byteAligned (ns_tempBitStream ns)
     \<and> ns_lastSize ns = of_nat (bs_size (ns_tempBitStream ns))
     \<and> (ns_small ns \<longrightarrow> unat (ns_maxUnitSize ns) \<le> bs_size (ns_tempBitStream ns) + 2)"

definition ns_le :: "(NalSlot \<Rightarrow> nat) \<Rightarrow> NalSizes \<Rightarrow> NalSizes \<Rightarrow> bool" where
  "ns_le B ns ns' \<longleftrightarrow> bs_size (ns_tempBitStream ns) \<le> bs_size (ns_tempBitStream ns')
     \<and> (ns_small ns' \<longrightarrow> (\<forall>slot. ns_good B ns slot \<longrightarrow> ns_good B ns' slot))"

text \<open>A step that measures the slots \<open>D\<close>, of which \<open>B\<close> says how many bytes they take.\<close>

definition measures :: "(NalSlot \<Rightarrow> nat) \<Rightarrow> ('w \<Rightarrow> bool) \<Rightarrow> ('w \<times> NalSizes \<Rightarrow> ('w \<times> NalSizes) option) \<Rightarrow> NalSlot set \<Rightarrow> bool" where
  "measures B ok W D \<longleftrightarrow> (\<forall>w ns. ok w \<longrightarrow> ns_inv ns \<longrightarrow> (\<exists>w' ns'. W (w, ns) = Some (w', ns') \<and> ok w' \<and> ns_inv ns' \<and> ns_le B ns ns'
     \<and> (ns_small ns' \<longrightarrow> (\<forall>slot \<in> D. ns_good B ns' slot))))"

lemma ns_le_trans: "ns_le B a b \<Longrightarrow> ns_le B b c \<Longrightarrow> ns_le B a c"
  by (auto simp: ns_le_def ns_small_def)

lemma ns_le_small: "ns_le B a b \<Longrightarrow> ns_small b \<Longrightarrow> ns_small a"
  by (auto simp: ns_le_def ns_small_def)

lemma measures_bind:
  assumes "measures B ok W D" and "measures B ok V E"
  shows "measures B ok (\<lambda>x. Option.bind (W x) V) (D \<union> E)"
  unfolding measures_def
proof (intro allI impI)
  fix w ns assume "ok w" "ns_inv ns"
  then obtain w1 n1 where 1: "W (w, ns) = Some (w1, n1)" "ok w1" "ns_inv n1" "ns_le B ns n1" "ns_small n1 \<longrightarrow> (\<forall>slot \<in> D. ns_good B n1 slot)"
    using assms(1) unfolding measures_def by blast
  then obtain w2 n2 where 2: "V (w1, n1) = Some (w2, n2)" "ok w2" "ns_inv n2" "ns_le B n1 n2" "ns_small n2 \<longrightarrow> (\<forall>slot \<in> E. ns_good B n2 slot)"
    using assms(2) unfolding measures_def by blast
  have "ns_small n2 \<longrightarrow> (\<forall>slot \<in> D \<union> E. ns_good B n2 slot)"
    using 1(5) 2(4,5) ns_le_small [OF 2(4)] by (auto simp: ns_le_def)
  with 1 2 ns_le_trans [OF 1(4) 2(4)]
  show "\<exists>w' ns'. Option.bind (W (w, ns)) V = Some (w', ns') \<and> ok w' \<and> ns_inv ns' \<and> ns_le B ns ns' \<and> (ns_small ns' \<longrightarrow> (\<forall>slot \<in> D \<union> E. ns_good B ns' slot))"
    by simp
qed

lemma measures_for:
  assumes "\<And>k. k < n \<Longrightarrow> measures B ok (W k) (D k)"
  shows "measures B ok (for_loop [0..<n] W) (\<Union>k < n. D k)"
  using assms
proof (induction n)
  case 0
  show ?case by (simp add: measures_def ns_le_def)
next
  case (Suc n)
  have "for_loop [0..<Suc n] W = (\<lambda>x. Option.bind (for_loop [0..<n] W x) (W n))" by (rule ext) (simp add: for_loop_snoc)
  moreover have "(\<Union>k < Suc n. D k) = (\<Union>k < n. D k) \<union> D n" by (auto simp: less_Suc_eq)
  ultimately show ?case using measures_bind [OF Suc.IH, of "W n" "D n"] Suc.prems by simp
qed

lemma measures_cong:
  assumes "\<And>w ns. ok w \<Longrightarrow> W' (w, ns) = W (w, ns)" and "measures B ok W D"
  shows "measures B ok W' D"
  using assms by (simp add: measures_def)

text \<open>The arithmetic of a size: the bytes that were added and the two bytes of the header.\<close>

lemma nal_size_value:
  assumes "a \<le> b" and "b < 2 ^ 32 - 3"
  shows "unat (ucast (of_nat b - ucast (of_nat a :: uint32_t) + 2 :: size_t) :: uint32_t) = b - a + 2"
proof -
  have "ucast (of_nat a :: uint32_t) = (of_nat a :: size_t)"
    using assms by (intro word_unat_eq_iff [THEN iffD2]) (simp add: unat_ucast_small unsigned_of_nat take_bit_nat_eq_self)
  then have eq: "of_nat b - ucast (of_nat a :: uint32_t) + 2 = (of_nat (b - a + 2) :: size_t)"
    using assms(1) by (simp add: of_nat_diff)
  have "unat (ucast (of_nat n :: size_t) :: uint32_t) = n" if "n < 2 ^ 32" for n
    using that by (simp add: unsigned_ucast_eq unsigned_of_nat take_bit_nat_eq_self)
  from this [of "b - a + 2"] show ?thesis using assms unfolding eq by simp
qed

text \<open>The writer of a unit takes \<open>n\<close> bytes, whatever the sizes in the store are.\<close>

definition unit_takes :: "('w \<Rightarrow> bool) \<Rightarrow> nat \<Rightarrow> ('w \<Rightarrow> PCCBitstream \<Rightarrow> ('w \<times> PCCBitstream) option) \<Rightarrow> bool" where
  "unit_takes ok n U \<longleftrightarrow> (\<forall>w. ok w \<longrightarrow> (\<exists>w' P. ok w' \<and> (\<forall>bs. U w bs = Option.bind (P bs) (\<lambda>bs. Some (w', bs))) \<and> takes n P))"

lemma unit_takesI:
  assumes U: "\<And>w. ok w \<Longrightarrow> \<exists>w' P R y. ok w' \<and> (\<forall>bs. U w bs = Option.bind (P bs) (\<lambda>bs. Some (w', bs))) \<and> codes P R (y :: 'y) \<and> aligns P"
    and same: "\<And>w. ok w \<Longrightarrow> map_option snd (U w bs_new) = r"
  shows "unit_takes ok (bytes_of r) U"
  unfolding unit_takes_def
proof (intro allI impI)
  fix w assume w: "ok w"
  obtain w' P R and y :: 'y where p: "ok w'" "\<forall>bs. U w bs = Option.bind (P bs) (\<lambda>bs. Some (w', bs))" "codes P R y" "aligns P"
    using U [OF w] by blast
  have "P bs_new = r" using same [OF w] p(2) by (cases "P bs_new") auto
  then have "takes (bytes_of r) P" using codes_takes [OF p(3,4)] by simp
  then show "\<exists>w' P. ok w' \<and> (\<forall>bs. U w bs = Option.bind (P bs) (\<lambda>bs. Some (w', bs))) \<and> takes (bytes_of r) P"
    using p(1,2) by blast
qed

lemma unit_takes_put:
  assumes "unit_takes ok n U" and "takes m V" and "\<And>w bs. ok w \<Longrightarrow> W w bs = Option.bind (V bs) (U w)"
  shows "unit_takes ok (m + n) W"
  unfolding unit_takes_def
proof (intro allI impI)
  fix w assume w: "ok w"
  obtain w' P where p: "ok w'" "\<forall>bs. U w bs = Option.bind (P bs) (\<lambda>bs. Some (w', bs))" "takes n P"
    using assms(1) w unfolding unit_takes_def by blast
  have "U w = (\<lambda>bs. Option.bind (P bs) (\<lambda>bs. Some (w', bs)))" using p(2) by blast
  then have "\<forall>bs. W w bs = Option.bind (Option.bind (V bs) P) (\<lambda>bs. Some (w', bs))"
    using assms(3) [OF w] by (simp add: Option.bind_assoc)
  then show "\<exists>w' P. ok w' \<and> (\<forall>bs. W w bs = Option.bind (P bs) (\<lambda>bs. Some (w', bs))) \<and> takes (m + n) P"
    using p(1) takes_bind [OF assms(2) p(3)] by (intro exI conjI)
qed

lemma measures_unit:
  assumes U: "unit_takes ok (B slot) U"
  shows "measures B ok (measure_w slot U) {slot}"
  unfolding measures_def
proof (intro allI impI)
  fix w ns assume w: "ok w" and ns: "ns_inv ns"
  let ?t = "ns_tempBitStream ns"
  obtain w' P where p: "ok w'" "U w ?t = Option.bind (P ?t) (\<lambda>bs. Some (w', bs))" "takes (B slot) P"
    using U w unfolding unit_takes_def by blast
  have inv: "bs_inv ?t" "bs_byteAligned ?t" and last: "ns_lastSize ns = of_nat (bs_size ?t)"
    and max: "ns_small ns \<Longrightarrow> unat (ns_maxUnitSize ns) \<le> bs_size ?t + 2" using ns by (simp_all add: ns_inv_def)
  obtain t' where t': "P ?t = Some t'" "bs_inv t'" "bs_byteAligned t'" "bs_size t' = bs_size ?t + B slot"
    using p(3) inv unfolding takes_def by blast
  then have le: "bs_size ?t \<le> bs_size t'" by simp
  define v :: uint32_t where "v = ucast (of_nat (bs_size t') - ucast (ns_lastSize ns) + 2 :: size_t)"
  define ns' where "ns' = ns\<lparr>ns_tempBitStream := t', ns_lastSize := of_nat (bs_size t'),
       ns_maxUnitSize := (if ns_maxUnitSize ns < v then v else ns_maxUnitSize ns), ns_size := (ns_size ns)(slot := v)\<rparr>"
  have run: "measure_w slot U (w, ns) = Some (w', ns')"
    using p(2) t'(1) by (simp add: measure_w_def ns'_def v_def Let_def)
  have val: "unat v = B slot + 2" if "ns_small ns'"
    using that nal_size_value [OF le] t'(4) by (simp add: v_def last ns_small_def ns'_def)
  have small: "ns_small ns" if "ns_small ns'" using that le by (simp add: ns_small_def ns'_def)
  have good: "ns_good B ns' s" if "ns_small ns'" and "s = slot \<or> ns_good B ns s" for s
    using that val by (auto simp: ns_good_def ns'_def)
  have "unat (ns_maxUnitSize ns') \<le> bs_size t' + 2" if "ns_small ns'"
    using val [OF that] max [OF small [OF that]] t'(4) by (simp add: ns'_def)
  then have "ns_inv ns'" using t'(2,3) by (simp add: ns_inv_def) (simp add: ns'_def)
  moreover have "ns_le B ns ns'" using good le by (simp add: ns_le_def) (simp add: ns'_def)
  ultimately show "\<exists>w' ns'. measure_w slot U (w, ns) = Some (w', ns') \<and> ok w' \<and> ns_inv ns' \<and> ns_le B ns ns'
      \<and> (ns_small ns' \<longrightarrow> (\<forall>slot' \<in> {slot}. ns_good B ns' slot'))"
    using run p(1) good by blast
qed

text \<open>The temporary stream gets the tile layers as units of another type, whose header has no flag for prior output.\<close>

lemma skip_header_codes:
  assumes params: "tile_params hls x = Some (afps, asps)" and wf: "ath_wf nal afps asps x"
  shows "\<exists>R y. codes (atlasTileHeader_w hls NAL_SKIP_R x) R (y :: AtlasTileHeader)"
proof -
  let ?y = "x\<lparr>ath_noOutputOfPriorAtlasFramesFlag := False, ath_tileNaluTypeInfo := naluTypeInfo NAL_SKIP_R 0\<rparr>"
  have "ath_lsb_wf b n (x\<lparr>ath_noOutputOfPriorAtlasFramesFlag := f, ath_tileNaluTypeInfo := t\<rparr>) = ath_lsb_wf b n x"
    "ath_quantizers_wf afps asps r (x\<lparr>ath_noOutputOfPriorAtlasFramesFlag := f, ath_tileNaluTypeInfo := t\<rparr>) = ath_quantizers_wf afps asps r x" for b n r f t
    by (simp_all add: ath_lsb_wf_def ath_quantizers_wf_def)
  then have "ath_wf NAL_SKIP_R afps asps ?y"
    using wf unfolding ath_wf_def Let_def by (elim conjE, intro conjI) (simp_all add: NAL_SKIP_R_def cong: option.case_cong)
  moreover have "tile_params hls ?y = Some (afps, asps)" using params by (simp add: tile_params_def)
  ultimately have "codes (atlasTileHeader_w hls NAL_SKIP_R ?y) (atlasTileHeader_r hls NAL_SKIP_R ath_new) ?y"
    by (intro ath_codes [OF _ _ refl])
  moreover have "atlasTileHeader_w hls NAL_SKIP_R (x\<lparr>ath_noOutputOfPriorAtlasFramesFlag := f, ath_tileNaluTypeInfo := t\<rparr>) = atlasTileHeader_w hls NAL_SKIP_R x" for f t
  proof -
    let ?z = "x\<lparr>ath_noOutputOfPriorAtlasFramesFlag := f, ath_tileNaluTypeInfo := t\<rparr>"
    have "ath_refs_w asps ?z = ath_refs_w asps x" "ath_lsb_w b ?z = ath_lsb_w b x" "ath_quantizers_w afps asps r ?z = ath_quantizers_w afps asps r x"
      for b r asps afps
      by (intro ext, simp add: ath_refs_w_def ath_lsb_w_def ath_quantizers_w_def cong: if_cong)+
    then show ?thesis by (intro ext) (simp add: atlasTileHeader_w_def ath_refList_def NAL_SKIP_R_def cong: if_cong)
  qed
  ultimately show ?thesis by metis
qed

lemma skip_layer_codes:
  assumes "atgl_wf hls nal rst x"
  shows "\<exists>R y. codes (atlasTileLayerRbsp_w hls NAL_SKIP_R x) R (y :: unit)"
proof -
  obtain afps asps where params: "tile_params hls (atgl_header x) = Some (afps, asps)"
    and wf: "ath_wf nal afps asps (atgl_header x)" "atdu_wf hls afps asps (atgl_header x) rst (atgl_dataUnit x)"
    using assms by (auto simp: atgl_wf_def split: option.splits)
  obtain R y where h: "codes (atlasTileHeader_w hls NAL_SKIP_R (atgl_header x)) R (y :: AtlasTileHeader)"
    using skip_header_codes [OF params wf(1)] by blast
  note d = atdu_codes [OF params wf(2) refl]
  have "\<exists>R. codes (atlasTileLayerRbsp_w hls NAL_SKIP_R x) R ()"
    unfolding atlasTileLayerRbsp_w_def [abs_def]
    by (rule exI, rule codes_bind, rule h, rule codes_bind, rule d, rule codec_intro)
  then show ?thesis by blast
qed

subsection \<open>All units are measured\<close>

text \<open>What the first pass writes for a slot, and the bytes it takes.\<close>

definition measured_w :: "NalSlot \<Rightarrow> AtlasStore \<Rightarrow> PCCBitstream \<Rightarrow> (AtlasStore \<times> PCCBitstream) option" where
  "measured_w slot = (case slot of AspsSlot i \<Rightarrow> aspsUnit_w i | AfpsSlot i \<Rightarrow> afpsUnit_w i
     | PrefixSlot k i \<Rightarrow> seiUnit_w NAL_PREFIX_ESEI k i | AtglSlot k \<Rightarrow> atglUnit_w NAL_SKIP_R k
     | SuffixSlot k i \<Rightarrow> seiUnit_w NAL_SUFFIX_ESEI k i)"

definition nal_bytes :: "AtlasStore \<Rightarrow> NalSlot \<Rightarrow> nat" where
  "nal_bytes st slot = bytes_of (map_option snd (measured_w slot st bs_new))"

lemma asps_takes:
  assumes i: "i < length (hls_atlasSequenceParameterSet (as_hls st))" and wf: "asps_wf (hls_atlasSequenceParameterSet (as_hls st) ! i)"
  shows "unit_takes (store_ok g st) (nal_bytes st (AspsSlot i)) (aspsUnit_w i)"
  unfolding nal_bytes_def
proof (rule unit_takesI)
  fix w assume w: "store_ok g st w"
  let ?x = "hls_atlasSequenceParameterSet (as_hls st) ! i"
  have "\<forall>bs. aspsUnit_w i w bs = Option.bind (atlasSequenceParameterSetRbsp_w ?x bs) (\<lambda>bs. Some (w, bs))"
    using w i by (simp add: aspsUnit_w_def store_ok_def)
  then show "\<exists>w' P R y. store_ok g st w' \<and> (\<forall>bs. aspsUnit_w i w bs = Option.bind (P bs) (\<lambda>bs. Some (w', bs)))
      \<and> codes P R (y :: AtlasSequenceParameterSetRbsp) \<and> aligns P"
    using w asps.wr_rd [OF wf] aligns_asps by blast
  show "map_option snd (aspsUnit_w i w bs_new) = map_option snd (measured_w (AspsSlot i) st bs_new)"
    using w i by (simp add: measured_w_def aspsUnit_w_def store_ok_def map_option_bind comp_def)
qed

lemma afps_takes:
  assumes i: "i < length (hls_atlasFrameParameterSet (as_hls st))"
    and wf: "afps_wf (hls_getAsps (as_hls st)) (hls_atlasFrameParameterSet (as_hls st) ! i)"
  shows "unit_takes (store_ok g st) (nal_bytes st (AfpsSlot i)) (afpsUnit_w i)"
  unfolding nal_bytes_def
proof (rule unit_takesI)
  fix w assume w: "store_ok g st w"
  let ?x = "hls_atlasFrameParameterSet (as_hls st) ! i"
  have "\<forall>bs. afpsUnit_w i w bs = Option.bind (atlasFrameParameterSetRbsp_w (hls_getAsps (as_hls st)) ?x bs) (\<lambda>bs. Some (w, bs))"
    using w i by (simp add: afpsUnit_w_def store_ok_def)
  then show "\<exists>w' P R y. store_ok g st w' \<and> (\<forall>bs. afpsUnit_w i w bs = Option.bind (P bs) (\<lambda>bs. Some (w', bs)))
      \<and> codes P R (y :: AtlasFrameParameterSetRbsp) \<and> aligns P"
    using w afps.wr_rd_param [OF wf] aligns_afps by blast
  show "map_option snd (afpsUnit_w i w bs_new) = map_option snd (measured_w (AfpsSlot i) st bs_new)"
    using w i by (simp add: measured_w_def afpsUnit_w_def store_ok_def map_option_bind comp_def)
qed

text \<open>A tile layer, as the first pass writes it and with its own type.\<close>

lemma atgl_w_params:
  "atlasTileLayerRbsp_w (hls_addAtlasTileLayer (hls_layers (hls_params h0 h) xs k)) t x = atlasTileLayerRbsp_w h0 t x"
  by (rule atlasTileLayerRbsp_w_params) (simp_all add: hls_addAtlasTileLayer_def hls_layers_def hls_params_def Let_def)

lemma atgl_unit_takes:
  assumes k: "k < length (hls_atlasTileLayer (as_hls st))"
    and c: "codes (atlasTileLayerRbsp_w (as_hls st) t (hls_atlasTileLayer (as_hls st) ! k)) R (y :: 'y)"
  shows "unit_takes (store_ok g st) (bytes_of (atlasTileLayerRbsp_w (as_hls st) t (hls_atlasTileLayer (as_hls st) ! k) bs_new)) (atglUnit_w t k)"
proof (rule unit_takesI)
  fix w assume w: "store_ok g st w"
  have "\<forall>bs. atglUnit_w t k w bs = Option.bind (atlasTileLayerRbsp_w (as_hls st) t (hls_atlasTileLayer (as_hls st) ! k) bs) (\<lambda>bs. Some (w, bs))"
    using w k by (simp add: atglUnit_w_def store_ok_def)
  then show "\<exists>w' P R y. store_ok g st w' \<and> (\<forall>bs. atglUnit_w t k w bs = Option.bind (P bs) (\<lambda>bs. Some (w', bs)))
      \<and> codes P R (y :: 'y) \<and> aligns P"
    using w c aligns_atgl by blast
  show "map_option snd (atglUnit_w t k w bs_new) = atlasTileLayerRbsp_w (as_hls st) t (hls_atlasTileLayer (as_hls st) ! k) bs_new"
    using w k by (simp add: atglUnit_w_def store_ok_def map_option_bind comp_def Option.bind_runit)
qed

lemma atgl_bytes:
  assumes "k < length (hls_atlasTileLayer (as_hls st))"
  shows "nal_bytes st (AtglSlot k) = bytes_of (atlasTileLayerRbsp_w (as_hls st) NAL_SKIP_R (hls_atlasTileLayer (as_hls st) ! k) bs_new)"
  using assms by (simp add: nal_bytes_def measured_w_def atglUnit_w_def map_option_bind comp_def)

lemma atgl_takes:
  assumes xs: "xs = hls_atlasTileLayer (as_hls st)" and k: "k < length xs" and wf: "layer_wf (hls_params (as_hls st) h) xs rst k"
  shows "unit_takes (store_ok g st) (nal_bytes st (AtglSlot k)) (atglUnit_w NAL_SKIP_R k)"
proof -
  obtain R and y :: unit where "codes (atlasTileLayerRbsp_w (as_hls st) NAL_SKIP_R (xs ! k)) R y"
    using skip_layer_codes wf unfolding layer_wf_def by (metis atgl_w_params)
  then show ?thesis using atgl_unit_takes [of k st NAL_SKIP_R R y g] k xs by (simp add: atgl_bytes)
qed

text \<open>The bytes of a message do not depend on the sizes in the store.\<close>

lemma seiMessage_like:
  assumes wf: "sei_wf g nal sei" "sei_wf g nal sei'" and b: "sei_body sei = sei_body sei'" and l: "pccsei_like l l'"
    and ctx: "sei_context nal sei l" "sei_context nal sei' l'"
  shows "map_option snd (seiMessage_w l nal sei bs) = map_option snd (seiMessage_w l' nal sei' bs)"
proof -
  obtain t where t: "seiPayload_w l nal sei bs_new = Some (sei, t)" "bs_size t = payload_bytes l nal sei"
    using seiPayload_w_new [OF wf(1) ctx(1)] by blast
  obtain t' where t': "seiPayload_w l' nal sei' bs_new = Some (sei', t')" "bs_size t' = payload_bytes l' nal sei'"
    using seiPayload_w_new [OF wf(2) ctx(2)] by blast
  have n: "bs_size t = bs_size t'" using t(2) t'(2) payload_bytes_like [OF wf b l] by simp
  have sized: "sei\<lparr>sei_payloadSize := m\<rparr> = sei'\<lparr>sei_payloadSize := m\<rparr>" for m using b by simp
  have "prefix_w l m x = prefix_w l' m x" for m x
    using last_bufferingPeriod_like [OF l] by (cases x) simp_all
  then have "seiPayload_w l nal x = seiPayload_w l' nal x" for x by (simp add: seiPayload_w_def fun_eq_iff)
  moreover have "getPayloadType sei = getPayloadType sei'" using b by (simp add: getPayloadType_def)
  moreover have "seiMessage_w l nal sei bs = Option.bind (ff_w (payloadType_code (getPayloadType sei)) bs) (\<lambda>bs.
      Option.bind (ff_w (sint (ucast (of_nat (bs_size t) :: size_t) :: uint32_t)) bs) (seiPayload_w l nal (sei\<lparr>sei_payloadSize := of_nat (bs_size t)\<rparr>)))"
    by (simp add: seiMessage_w_def t(1))
  moreover have "seiMessage_w l' nal sei' bs = Option.bind (ff_w (payloadType_code (getPayloadType sei')) bs) (\<lambda>bs.
      Option.bind (ff_w (sint (ucast (of_nat (bs_size t') :: size_t) :: uint32_t)) bs) (seiPayload_w l' nal (sei'\<lparr>sei_payloadSize := of_nat (bs_size t')\<rparr>)))"
    by (simp add: seiMessage_w_def t'(1))
  ultimately show ?thesis using sized [of "of_nat (bs_size t')"] by (simp only: n)
qed

lemma sei_takes:
  assumes ok: "store_ok g st st" and k: "k < length (as_sei st)"
  shows "i < length (seiPrefix (as_sei st ! k)) \<Longrightarrow>
      unit_takes (store_ok g st) (nal_bytes st (PrefixSlot k i)) (seiUnit_w NAL_PREFIX_ESEI k i)"
    and "i < length (seiSuffix (as_sei st ! k)) \<Longrightarrow>
      unit_takes (store_ok g st) (nal_bytes st (SuffixSlot k i)) (seiUnit_w NAL_SUFFIX_ESEI k i)"
proof -
  have pair: "map_option snd (seiUnit_w nal k i w bs) = map_option snd (seiMessage_w (as_sei w ! k) nal (sei_list nal (as_sei w ! k) ! i) bs)"
    if "k < length (as_sei w)" "i < length (sei_list nal (as_sei w ! k))" for nal w bs
    using that by (simp add: seiUnit_w_def seiRbsp_w_def Let_def map_option_bind comp_def case_prod_unfold)
      (cases "seiMessage_w (as_sei w ! k) nal (sei_list nal (as_sei w ! k) ! i) bs", simp_all)
  note l0 = store_ok_nth [OF ok k]
  {
    assume i: "i < length (seiPrefix (as_sei st ! k))"
    show "unit_takes (store_ok g st) (nal_bytes st (PrefixSlot k i)) (seiUnit_w NAL_PREFIX_ESEI k i)"
      unfolding nal_bytes_def
    proof (rule unit_takesI)
      fix w assume w: "store_ok g st w"
      show "\<exists>w' P R y. store_ok g st w' \<and> (\<forall>bs. seiUnit_w NAL_PREFIX_ESEI k i w bs = Option.bind (P bs) (\<lambda>bs. Some (w', bs)))
          \<and> codes P R (y :: PCCSEI) \<and> aligns P"
        using prefix_payload [OF w k i] by blast
      note l = store_ok_nth [OF w k]
      have i': "i < length (seiPrefix (as_sei w ! k))" using i pccsei_like_lengths [OF l(2)] by simp
      have "map sei_body (seiPrefix (as_sei w ! k)) = map sei_body (seiPrefix (as_sei st ! k))" using l(2) by (simp add: pccsei_like_def)
      note b = nth_bodies [OF this i']
      have p: "prefix_ok g (as_sei w ! k) i" "prefix_ok g (as_sei st ! k) i"
        using l(3) l0(3) i i' by (auto simp: messages_wf_def)
      have "map_option snd (seiMessage_w (as_sei w ! k) NAL_PREFIX_ESEI (seiPrefix (as_sei w ! k) ! i) bs_new)
          = map_option snd (seiMessage_w (as_sei st ! k) NAL_PREFIX_ESEI (seiPrefix (as_sei st ! k) ! i) bs_new)"
        using p unfolding prefix_ok_def by (elim conjE) (rule seiMessage_like [OF _ _ b l(2) sei_context_take sei_context_take])
      then show "map_option snd (seiUnit_w NAL_PREFIX_ESEI k i w bs_new) = map_option snd (measured_w (PrefixSlot k i) st bs_new)"
        using pair [of w NAL_PREFIX_ESEI] pair [of st NAL_PREFIX_ESEI] l(1) k i i' by (simp add: measured_w_def sei_list_def)
    qed
  next
    assume i: "i < length (seiSuffix (as_sei st ! k))"
    show "unit_takes (store_ok g st) (nal_bytes st (SuffixSlot k i)) (seiUnit_w NAL_SUFFIX_ESEI k i)"
      unfolding nal_bytes_def
    proof (rule unit_takesI)
      fix w assume w: "store_ok g st w"
      show "\<exists>w' P R y. store_ok g st w' \<and> (\<forall>bs. seiUnit_w NAL_SUFFIX_ESEI k i w bs = Option.bind (P bs) (\<lambda>bs. Some (w', bs)))
          \<and> codes P R (y :: PCCSEI) \<and> aligns P"
        using suffix_payload [OF w k i] by blast
      note l = store_ok_nth [OF w k]
      have i': "i < length (seiSuffix (as_sei w ! k))" using i pccsei_like_lengths [OF l(2)] by simp
      have "map sei_body (seiSuffix (as_sei w ! k)) = map sei_body (seiSuffix (as_sei st ! k))" using l(2) by (simp add: pccsei_like_def)
      note b = nth_bodies [OF this i']
      have p: "suffix_ok g (as_sei w ! k) i" "suffix_ok g (as_sei st ! k) i"
        using l(3) l0(3) i i' by (auto simp: messages_wf_def)
      have "map_option snd (seiMessage_w (as_sei w ! k) NAL_SUFFIX_ESEI (seiSuffix (as_sei w ! k) ! i) bs_new)
          = map_option snd (seiMessage_w (as_sei st ! k) NAL_SUFFIX_ESEI (seiSuffix (as_sei st ! k) ! i) bs_new)"
        using p unfolding suffix_ok_def by (elim conjE) (rule seiMessage_like [OF _ _ b l(2) suffix_context suffix_context])
      then show "map_option snd (seiUnit_w NAL_SUFFIX_ESEI k i w bs_new) = map_option snd (measured_w (SuffixSlot k i) st bs_new)"
        using pair [of w NAL_SUFFIX_ESEI] pair [of st NAL_SUFFIX_ESEI] l(1) k i i' by (simp add: measured_w_def sei_list_def)
    qed
  }
qed

lemma layer_measures:
  assumes ok: "store_ok g st st"
    and xs: "xs = hls_atlasTileLayer (as_hls st)" and k: "k < length xs" "length (as_sei st) = length xs"
    and wf: "layer_wf (hls_params (as_hls st) h) xs rst k"
  shows "measures (nal_bytes st) (store_ok g st) (measure_tile_w k) (layer_slots (as_sei st ! k) k)"
proof (rule measures_cong)
  let ?l = "as_sei st ! k"
  have k': "k < length (as_sei st)" using k by simp
  let ?prefix = "for_loop [0..<length (seiPrefix ?l)] (\<lambda>i. measure_w (PrefixSlot k i) (seiUnit_w NAL_PREFIX_ESEI k i))"
  let ?tile = "measure_w (AtglSlot k) (atglUnit_w NAL_SKIP_R k)"
  let ?suffix = "for_loop [0..<length (seiSuffix ?l)] (\<lambda>i. measure_w (SuffixSlot k i) (seiUnit_w NAL_SUFFIX_ESEI k i))"
  have "measures (nal_bytes st) (store_ok g st) (\<lambda>x. Option.bind (?prefix x) (\<lambda>x. Option.bind (?tile x) ?suffix))
     ((\<Union>i < length (seiPrefix ?l). {PrefixSlot k i}) \<union> ({AtglSlot k} \<union> (\<Union>i < length (seiSuffix ?l). {SuffixSlot k i})))"
    by (intro measures_bind measures_for measures_unit atgl_takes [OF xs k(1) wf] sei_takes [OF ok k'])
  moreover have "layer_slots ?l k = (\<Union>i < length (seiPrefix ?l). {PrefixSlot k i}) \<union> ({AtglSlot k} \<union> (\<Union>i < length (seiSuffix ?l). {SuffixSlot k i}))"
    by (auto simp: layer_slots_def)
  ultimately show "measures (nal_bytes st) (store_ok g st) (\<lambda>x. Option.bind (?prefix x) (\<lambda>x. Option.bind (?tile x) ?suffix)) (layer_slots ?l k)"
    by simp
  fix w ns assume w: "store_ok g st w"
  show "measure_tile_w k (w, ns) = Option.bind (?prefix (w, ns)) (\<lambda>x. Option.bind (?tile x) ?suffix)"
    using store_ok_nth [OF w k'] pccsei_like_lengths [OF store_ok_nth(2) [OF w k']] by (simp add: measure_tile_w_def case_prod_unfold)
qed

text \<open>The first pass succeeds, and below 4 GiB the size of every unit is its bytes and two for the header.\<close>

definition ns_new :: NalSizes where
  "ns_new = \<lparr>ns_tempBitStream = bs_new, ns_lastSize = 0, ns_maxUnitSize = 0, ns_size = (\<lambda>_. 0)\<rparr>"

lemma store_ok_refl: "atlas_wf g h rst st \<Longrightarrow> store_ok g st st"
  by (auto simp: atlas_wf_def Let_def store_ok_def list_all2_conv_all_nth pccsei_like_refl in_set_conv_nth)

lemma nalSizes_measures:
  assumes wf: "atlas_wf g h rst st"
  obtains st' ns where "nalSizes_w st = Some (st', ns)" and "store_ok g st st'" and "ns_inv ns"
    and "ns_small ns \<Longrightarrow> (\<forall>slot \<in> atlas_slots st. ns_good (nal_bytes st) ns slot)"
proof -
  define xs where "xs = hls_atlasTileLayer (as_hls st)"
  note w = wf [unfolded atlas_wf_def Let_def, folded xs_def]
  let ?A = "hls_atlasSequenceParameterSet (as_hls st)" and ?F = "hls_atlasFrameParameterSet (as_hls st)" and ?B = "nal_bytes st"
  let ?asps = "for_loop [0..<length ?A] (\<lambda>i. measure_w (AspsSlot i) (aspsUnit_w i))"
  let ?afps = "\<lambda>(st, ns). for_loop [0..<length (hls_atlasFrameParameterSet (as_hls st))] (\<lambda>i. measure_w (AfpsSlot i) (afpsUnit_w i)) (st, ns)"
  let ?tiles = "\<lambda>(st, ns). for_loop [0..<length (hls_atlasTileLayer (as_hls st))] measure_tile_w (st, ns)"
  have ok: "store_ok g st st" by (rule store_ok_refl [OF wf])
  have "measures ?B (store_ok g st) ?tiles (\<Union>k < length xs. layer_slots (as_sei st ! k) k)"
    by (rule measures_cong [OF _ measures_for [of _ _ _ measure_tile_w]], simp add: store_ok_def xs_def, rule layer_measures [OF ok xs_def])
      (use w in auto)
  moreover have "measures ?B (store_ok g st) ?afps (\<Union>i < length ?F. {AfpsSlot i})"
    by (rule measures_cong [OF _ measures_for [of _ _ _ "\<lambda>i. measure_w (AfpsSlot i) (afpsUnit_w i)"]], simp add: store_ok_def, rule measures_unit, rule afps_takes)
      (use w in auto)
  moreover have "measures ?B (store_ok g st) ?asps (\<Union>i < length ?A. {AspsSlot i})"
    using w by (intro measures_for measures_unit asps_takes) auto
  ultimately have m: "measures ?B (store_ok g st) (\<lambda>x. Option.bind (?asps x) (\<lambda>x. Option.bind (?afps x) ?tiles))
    ((\<Union>i < length ?A. {AspsSlot i}) \<union> ((\<Union>i < length ?F. {AfpsSlot i}) \<union> (\<Union>k < length xs. layer_slots (as_sei st ! k) k)))"
    by (intro measures_bind)
  have slots: "atlas_slots st = (\<Union>i < length ?A. {AspsSlot i}) \<union> ((\<Union>i < length ?F. {AfpsSlot i}) \<union> (\<Union>k < length xs. layer_slots (as_sei st ! k) k))"
    by (auto simp: atlas_slots_def xs_def)
  have inv: "ns_inv ns_new" by (simp add: ns_inv_def ns_new_def new_inv new_aligned)
  have "nalSizes_w st = Option.bind (?asps (st, ns_new)) (\<lambda>x. Option.bind (?afps x) ?tiles)"
    by (simp add: nalSizes_w_def ns_new_def case_prod_unfold)
  with m [unfolded measures_def, rule_format, OF ok inv] show thesis
    using that unfolding slots by fastforce
qed

section \<open>Round trip of the sub-stream\<close>

text \<open>What is coded together takes less than 4 GiB (and three bytes less than that): the sizes do not wrap.\<close>

definition atlas_small :: "AtlasStore \<Rightarrow> bool" where
  "atlas_small st \<longleftrightarrow> (case nalSizes_w st of Some (_, ns) \<Rightarrow> ns_small ns | None \<Rightarrow> False)"

text \<open>The maximum plus one is below the next power of 256, so every size fits the precision.\<close>

lemma nal_precision:
  assumes inv: "ns_inv ns" and small: "ns_small ns" and prec: "prec = ucast (precisionBytes (ns_maxUnitSize ns + 1) - 1)"
  shows "unat (prec :: uint8_t) \<le> 3" and "ns_good B ns slot \<Longrightarrow> size_ok prec (ns_size ns slot)"
proof -
  let ?m = "ns_maxUnitSize ns" and ?p = "precisionBytes (ns_maxUnitSize ns + 1)"
  note p = precisionBytes_range [of "?m + 1"]
  have "unat (?p - 1) = unat ?p - 1" using p(1) by (simp add: unat_sub word_le_nat_alt)
  then have prec: "unat prec = unat ?p - 1" using p by (simp add: prec unsigned_ucast_eq take_bit_nat_eq_self)
  then show "unat prec \<le> 3" using p by simp
  assume good: "ns_good B ns slot"
  have "unat ?m < 2 ^ 32 - 1" using inv small by (simp add: ns_inv_def ns_small_def)
  then have m: "unat (?m + 1) = unat ?m + 1" by (simp add: unat_add_lem [THEN iffD1])
  have g: "2 \<le> unat (ns_size ns slot)" "unat (ns_size ns slot) \<le> unat ?m" using good by (simp_all add: ns_good_def word_le_nat_alt)
  then have "unat (?m + 1) \<le> 2 ^ (8 * unat ?p)" using precisionBytes_bounds [of "?m + 1"] m by simp
  moreover have "8 * (unat prec + 1) = 8 * unat ?p" using prec p(1) by simp
  ultimately show "size_ok prec (ns_size ns slot)" using g m by (simp add: size_ok_def)
qed

text \<open>The header is a byte.\<close>

lemma nal_header_byte:
  assumes inv: "bs_inv bs" and al: "bs_byteAligned bs" and p: "unat (ssnu_sizePrecisionBytesMinus1 x) < 8"
  obtains bs' where "sampleStreamNalHeader_w x bs = Some bs'" and "bs_inv bs'" and "bs_byteAligned bs'" and "bs_extends bs' bs"
    and "bs_size bs' = bs_size bs + 1"
    and "\<And>fs. bs_extends fs bs' \<Longrightarrow> sampleStreamNalHeader_r y (bs_setPosition (bs_pos bs) fs) =
      Some (y\<lparr>ssnu_sizePrecisionBytesMinus1 := ssnu_sizePrecisionBytesMinus1 x\<rparr>, bs_setPosition (bs_pos bs') fs)"
proof -
  obtain bs' where b: "sampleStreamNalHeader_w x bs = Some bs'" "bs_inv bs'" "bs_extends bs' bs"
    and r: "\<And>fs. bs_extends fs bs' \<Longrightarrow> sampleStreamNalHeader_r y (bs_setPosition (bs_pos bs) fs) =
      Some (y\<lparr>ssnu_sizePrecisionBytesMinus1 := ssnu_sizePrecisionBytesMinus1 x\<rparr>, bs_setPosition (bs_pos bs') fs)"
    using codesE [OF sampleStreamNalHeader_codes [OF p] inv] by metis
  have "writes (3 + (5 + 0)) (sampleStreamNalHeader_w x)"
    unfolding sampleStreamNalHeader_w_def [abs_def] by (intro writes_bind writes_u writes_Some) simp_all
  then have "lin (bs_pos bs') = lin (bs_pos bs) + 8" using inv b(1) by (auto simp: writes_def)
  moreover have "pos_bits (bs_pos bs') < 8" using b(2) by (simp add: bs_inv_def)
  ultimately have "pos_bits (bs_pos bs') = 0 \<and> pos_bytes (bs_pos bs') = pos_bytes (bs_pos bs) + 1"
    using al unfolding lin_def bs_byteAligned_def by presburger
  then show thesis using that b r by (simp add: bs_byteAligned_def bs_size_def)
qed

text \<open>What the reader makes of an atlas.\<close>

definition atlas_read :: "PCCAtlasHighLevelSyntax \<Rightarrow> AtlasStore \<Rightarrow> AtlasStore" where
  "atlas_read h st = (let xs = hls_atlasTileLayer (as_hls st) in
     \<lparr>as_hls = hls_layers (hls_params (as_hls st) h) xs (length xs), as_sei = map messages_read (as_sei st)\<rparr>)"

definition atlas_state :: "PCCAtlasHighLevelSyntax \<Rightarrow> ReaderState \<Rightarrow> AtlasStore \<Rightarrow> ReaderState" where
  "atlas_state h rst st = layer_state (hls_params (as_hls st) h) (hls_atlasTileLayer (as_hls st)) rst
     (length (hls_atlasTileLayer (as_hls st)))"

lemma atlasSubStream_stream:
  assumes wf: "atlas_wf g h rst st" and h: "hls_empty h" and small: "atlas_small st"
    and inv: "bs_inv bs" and al: "bs_byteAligned bs"
  obtains st' bs' where "atlasSubStream_w st bs = Some (st', bs')" and "store_ok g st st'" and "bs_inv bs'" and "bs_byteAligned bs'"
    and "bs_extends bs' bs" and "bs_size bs < bs_size bs'"
    and "\<And>fs. bs_extends fs bs' \<Longrightarrow> length (bs_data fs) = bs_size bs' \<Longrightarrow>
      atlasSubStream_r g rst \<lparr>as_hls = h, as_sei = []\<rparr> (bs_setPosition (bs_pos bs) fs) =
        Some ((atlas_read h st, atlas_state h rst st), bs_setPosition (bs_pos bs') fs)"
proof -
  define xs where "xs = hls_atlasTileLayer (as_hls st)"
  obtain st1 ns where sizes: "nalSizes_w st = Some (st1, ns)" "store_ok g st st1" "ns_inv ns"
    and good: "ns_small ns \<Longrightarrow> (\<forall>slot \<in> atlas_slots st. ns_good (nal_bytes st) ns slot)"
    using nalSizes_measures [OF wf] by metis
  have ns: "ns_small ns" using small sizes(1) by (simp add: atlas_small_def)
  define prec :: uint8_t where "prec = ucast (precisionBytes (ns_maxUnitSize ns + 1) - 1)"
  note p = nal_precision [OF sizes(3) ns prec_def]
  let ?ssnu = "ssnu_new\<lparr>ssnu_sizePrecisionBytesMinus1 := prec\<rparr>"
  have p8: "unat (ssnu_sizePrecisionBytesMinus1 ?ssnu) < 8" using p(1) by simp
  obtain b1 where b1: "sampleStreamNalHeader_w ?ssnu bs = Some b1" "bs_inv b1" "bs_byteAligned b1" "bs_extends b1 bs" "bs_size b1 = bs_size bs + 1"
    and r1: "\<And>fs. bs_extends fs b1 \<Longrightarrow> sampleStreamNalHeader_r ssnu_new (bs_setPosition (bs_pos bs) fs) = Some (?ssnu, bs_setPosition (bs_pos b1) fs)"
    using nal_header_byte [OF inv al p8, of ssnu_new] by (metis SampleStreamNalUnit.select_convs(1) SampleStreamNalUnit.surjective SampleStreamNalUnit.update_convs(1))
  let ?nr = "\<lparr>nr_store = \<lparr>as_hls = h, as_sei = []\<rparr>, nr_state = rst, nr_ssnu = ?ssnu, nr_prefixSEI = pccsei_new\<rparr>"
  let ?final = "reader_at prec (hls_layers (hls_params (as_hls st) h) xs (length xs)) (map messages_read (as_sei st))
      (layer_state (hls_params (as_hls st) h) xs rst (length xs)) pccsei_new"
  have runs: "runs (nalUnits_r g) (store_ok g st) (nalUnits_w ?ssnu (ns_size ns)) (reader_at prec h [] rst pccsei_new) ?final"
    using good [OF ns] p by (intro nalUnits_runs [OF _ _ _ wf h xs_def]) auto
  have nr: "reader_at prec h [] rst pccsei_new ?nr" by (simp add: reader_at_def)
  obtain st' bs' nr' where e: "nalUnits_w ?ssnu (ns_size ns) (st1, b1) = Some (st', bs')" "store_ok g st st'" "bs_inv bs'" "bs_byteAligned bs'"
      "?final nr'" "bs_extends bs' b1" "bs_size b1 \<le> bs_size bs'"
    and r2: "\<And>fs. bs_extends fs bs' \<Longrightarrow> length (bs_data fs) = bs_size bs' \<Longrightarrow>
      nalUnits_r g ?nr (bs_setPosition (bs_pos b1) fs) = Some (nr', bs_setPosition (bs_pos bs') fs)"
    using nals.runs_end [OF runs sizes(2) b1(2,3) nr] by metis
  have lin: "lin (bs_pos bs) \<le> lin (bs_pos b1)" "lin (bs_pos b1) \<le> lin (bs_pos bs')"
    using al b1(3,5) e(4,7) by (simp_all add: lin_aligned)
  have "atlasSubStream_w st bs = Some (st', bs')"
    using sizes(1) b1(1) e(1) by (simp add: atlasSubStream_w_passes prec_def Let_def)
  moreover have "atlasSubStream_r g rst \<lparr>as_hls = h, as_sei = []\<rparr> (bs_setPosition (bs_pos bs) fs) =
      Some ((atlas_read h st, atlas_state h rst st), bs_setPosition (bs_pos bs') fs)"
    if x: "bs_extends fs bs'" and len: "length (bs_data fs) = bs_size bs'" for fs
  proof -
    have "bs_extends fs b1" by (rule bs_extends_trans [OF x e(6) lin(2)])
    then show ?thesis
      using r1 r2 [OF x len] e(5) by (simp add: atlasSubStream_r_def reader_at_def atlas_read_def atlas_state_def xs_def Let_def)
  qed
  moreover have "bs_extends bs' bs" by (rule bs_extends_trans [OF e(6) b1(4) lin(1)])
  ultimately show thesis using that e b1(5) by simp
qed

text \<open>The sub-stream in a file of its own.\<close>

lemma file_extends:
  assumes "bs_inv bs" and "bs_byteAligned bs"
  shows "bs_extends (bs_initialize (bs_file bs) bs_new) bs" and "length (bs_data (bs_initialize (bs_file bs) bs_new)) = bs_size bs"
    and "bs_setPosition (bs_pos bs_new) (bs_initialize (bs_file bs) bs_new) = bs_initialize (bs_file bs) bs_new"
proof -
  have "bs_size bs \<le> length (bs_data bs)" using assms by (simp add: bs_inv_bytes)
  then show "bs_extends (bs_initialize (bs_file bs) bs_new) bs" and "length (bs_data (bs_initialize (bs_file bs) bs_new)) = bs_size bs"
    using assms by (simp_all add: bs_extends_bytes bs_initialize_def bs_file_def)
  show "bs_setPosition (bs_pos bs_new) (bs_initialize (bs_file bs) bs_new) = bs_initialize (bs_file bs) bs_new"
    by (simp add: bs_setPosition_def bs_initialize_def bs_new_def)
qed

lemma atlasSubStream_file:
  assumes "atlas_wf g h rst st" and "hls_empty h" and "atlas_small st"
  shows "\<exists>st' bs' e. atlasSubStream_w st bs_new = Some (st', bs') \<and> store_ok g st st'
    \<and> atlasSubStream_r g rst \<lparr>as_hls = h, as_sei = []\<rparr> (bs_initialize (bs_file bs') bs_new)
      = Some ((atlas_read h st, atlas_state h rst st), e)"
proof -
  have new: "bs_inv bs_new" "bs_byteAligned bs_new" by (simp_all add: bs_new_def bs_inv_def bs_byteAligned_def lin_def)
  obtain st' bs' where b: "atlasSubStream_w st bs_new = Some (st', bs')" "store_ok g st st'" "bs_inv bs'" "bs_byteAligned bs'"
    and r: "\<And>fs. bs_extends fs bs' \<Longrightarrow> length (bs_data fs) = bs_size bs' \<Longrightarrow>
      atlasSubStream_r g rst \<lparr>as_hls = h, as_sei = []\<rparr> (bs_setPosition (bs_pos bs_new) fs) =
        Some ((atlas_read h st, atlas_state h rst st), bs_setPosition (bs_pos bs') fs)"
    using atlasSubStream_stream [OF assms new] by metis
  note f = file_extends [OF b(3,4)]
  show ?thesis using b(1,2) r [OF f(1,2)] unfolding f(3) by blast
qed

end
