(* ===== verification/AtlasExamples.thy ===== *)
theory AtlasExamples
  imports Examples SeiExamples AtlasSubStream
begin

text \<open>
  An atlas with a parameter set of each kind, a tile layer with a patch, and a message, which the round trip of the
  sub-stream is applied to; and the bound that shows that what is coded for it stays far below 4 GiB.
\<close>

section \<open>Bounds on what a writer appends\<close>

definition grows :: "nat \<Rightarrow> (PCCBitstream \<Rightarrow> PCCBitstream option) \<Rightarrow> bool" where
  "grows n W \<longleftrightarrow> (\<forall>bs bs'. bs_inv bs \<longrightarrow> W bs = Some bs' \<longrightarrow> bs_inv bs' \<and> lin (bs_pos bs') \<le> lin (bs_pos bs) + n)"

lemma grows_le: "grows n W \<Longrightarrow> n \<le> m \<Longrightarrow> grows m W"
  unfolding grows_def by fastforce

lemma grows_Some: "grows 0 Some"
  by (simp add: grows_def)

lemma grows_writes: "writes n W \<Longrightarrow> grows n W"
  by (fastforce simp: grows_def writes_def)

text \<open>\<open>write\<close> takes at most 32 bits.\<close>

lemma grows_write: "grows 32 (bs_write v n)"
proof (cases "n \<le> 32")
  case True
  then show ?thesis using grows_le [OF grows_writes [OF writes_u]] by blast
qed (simp add: grows_def bs_write_def)

lemma grows_bind:
  assumes "grows m W" and "grows k V"
  shows "grows (m + k) (\<lambda>bs. Option.bind (W bs) V)"
  unfolding grows_def
proof (intro allI impI)
  fix bs bs' assume inv: "bs_inv bs" and r: "Option.bind (W bs) V = Some bs'"
  obtain b where b: "W bs = Some b" "V b = Some bs'" using r by (auto split: bind_splits)
  have "bs_inv b" "lin (bs_pos b) \<le> lin (bs_pos bs) + m" using assms(1) inv b(1) by (simp_all add: grows_def)
  moreover from this have "bs_inv bs'" "lin (bs_pos bs') \<le> lin (bs_pos b) + k" using assms(2) b(2) by (simp_all add: grows_def)
  ultimately show "bs_inv bs' \<and> lin (bs_pos bs') \<le> lin (bs_pos bs) + (m + k)" by simp
qed

lemma grows_opt: "(\<And>x. e = Some x \<Longrightarrow> grows n (W x)) \<Longrightarrow> grows n (\<lambda>bs. Option.bind e (\<lambda>x. W x bs))"
  unfolding grows_def by (auto split: bind_splits)

lemma grows_let: "(\<And>x. grows n (W x)) \<Longrightarrow> grows n (\<lambda>bs. Let e (\<lambda>x. W x bs))"
  unfolding grows_def by auto

lemma grows_if: "grows m W \<Longrightarrow> grows k V \<Longrightarrow> grows (max m k) (\<lambda>bs. if b then W bs else V bs)"
  using grows_le [of m W "max m k"] grows_le [of k V "max m k"] by (cases b) simp_all

lemma grows_yes: "b \<Longrightarrow> grows n W \<Longrightarrow> grows n (\<lambda>bs. if b then W bs else V bs)"
  and grows_no: "\<not> b \<Longrightarrow> grows n V \<Longrightarrow> grows n (\<lambda>bs. if b then W bs else V bs)"
  by simp_all

lemma grows_for:
  assumes "\<And>i. grows n (W i)"
  shows "grows (length is * n) (for_loop is W)"
proof (induction "is")
  case (Cons i "is")
  have "for_loop (i # is) W = (\<lambda>bs. Option.bind (W i bs) (for_loop is W))" by (rule ext) simp
  then show ?case using grows_bind [OF assms Cons.IH, of i] by simp
qed (simp add: grows_Some)

lemma grows_uvlc: "grows 64 (bs_writeUvlc v)"
proof -
  have "bs_writeUvlc v = (\<lambda>bs. Option.bind (uvlc_length (v + 1) 1) (\<lambda>len. Option.bind (bs_write 0 (len div 2) bs) (bs_write (v + 1) ((len + 1) div 2))))"
    by (rule ext) (simp add: bs_writeUvlc_def Let_def)
  then show ?thesis using grows_bind [OF grows_write grows_write] by (auto intro!: grows_opt)
qed

lemma round_step: "0 < n mod 8 \<Longrightarrow> (n + 1 + 7) div 8 = (n + 7) div (8 :: nat)"
proof -
  assume "0 < n mod 8"
  then obtain q r where n: "n = 8 * q + r" "0 < r" "r < 8" using div_mult_mod_eq [of n 8] mod_less_divisor [of 8 n] by (metis mult.commute zero_less_numeral)
  have "(8 * q + m) div 8 = q + m div 8" for m :: nat by simp
  moreover have "(r + 8) div 8 = 1" "(r + 7) div 8 = 1" using n(2,3) by auto
  moreover have "8 * q + r + 1 + 7 = 8 * q + (r + 8)" "8 * q + r + 7 = 8 * q + (r + 7)" by simp_all
  ultimately show ?thesis unfolding n(1) by metis
qed

lemma grows_pad: "grows 7 (bs_padWrite v)"
  unfolding grows_def
proof (intro allI impI)
  fix bs bs' assume inv: "bs_inv bs" and r: "bs_padWrite v bs = Some bs'"
  have "bs_inv bs \<longrightarrow> bs_inv bs' \<and> lin (bs_pos bs') \<le> 8 * ((lin (bs_pos bs) + 7) div 8)"
  proof (rule bs_padWrite.raw_induct [OF _ r, where P = "\<lambda>_ bs r. bs_inv bs \<longrightarrow> bs_inv r \<and> lin (bs_pos r) \<le> 8 * ((lin (bs_pos bs) + 7) div 8)"])
    fix f :: "uint32_t \<Rightarrow> PCCBitstream \<Rightarrow> PCCBitstream option" and v bs r
    assume IH: "\<And>v bs r. f v bs = Some r \<Longrightarrow> bs_inv bs \<longrightarrow> bs_inv r \<and> lin (bs_pos r) \<le> 8 * ((lin (bs_pos bs) + 7) div 8)"
      and eq: "(if bs_byteAligned bs then Some bs else Option.bind (bs_write v 1 bs) (f v)) = Some r"
    show "bs_inv bs \<longrightarrow> bs_inv r \<and> lin (bs_pos r) \<le> 8 * ((lin (bs_pos bs) + 7) div 8)"
    proof
      assume inv: "bs_inv bs"
      show "bs_inv r \<and> lin (bs_pos r) \<le> 8 * ((lin (bs_pos bs) + 7) div 8)"
      proof (cases "bs_byteAligned bs")
        case True
        then show ?thesis using eq inv by simp
      next
        case False
        then obtain b where b: "bs_write v 1 bs = Some b" "f v b = Some r" using eq by (auto split: bind_splits)
        have w: "bs_inv b" "lin (bs_pos b) = lin (bs_pos bs) + 1" using writes_u [of 1 v] inv b(1) unfolding writes_def by fastforce+
        have "0 < lin (bs_pos bs) mod 8" using False inv by (simp add: bs_byteAligned_def bs_inv_def lin_def)
        then have "(lin (bs_pos bs) + 1 + 7) div 8 = (lin (bs_pos bs) + 7) div 8" by (rule round_step)
        then show ?thesis using IH [OF b(2)] w by simp
      qed
    qed
  qed
  then have "bs_inv bs'" "lin (bs_pos bs') \<le> 8 * ((lin (bs_pos bs) + 7) div 8)" using inv by blast+
  moreover have "8 * ((n + 7) div 8) \<le> n + 7" for n :: nat by simp
  ultimately show "bs_inv bs' \<and> lin (bs_pos bs') \<le> lin (bs_pos bs) + 7" using le_trans by blast
qed

lemma grows_trailing: "grows 39 rbspTrailingBits_w" "grows 39 byteAlignment_w"
  using grows_bind [OF grows_write [of 1 1] grows_pad [of 0]]
  by (simp_all add: rbspTrailingBits_w_def [abs_def] byteAlignment_w_def [abs_def])

named_theorems grows_intro
lemmas [grows_intro] = grows_Some grows_write grows_uvlc grows_pad grows_trailing grows_bind grows_opt grows_let grows_for

section \<open>The sets and the tile of the example\<close>

lemma uint8_bound: "unat (w :: uint8_t) \<le> 255"
  using unat_uint8_less(1) [of w] by linarith

lemma grows_entry: "grows 200 (rls_entry_w asps x i)"
  unfolding rls_entry_w_def [abs_def] by (rule grows_le, (rule grows_intro grows_if)+, simp)

text \<open>Loops that a byte counts.\<close>

lemma grows_loop8:
  assumes "\<And>i. grows n (W i)"
  shows "grows (255 * n) (for_loop [0..<unat (w :: uint8_t)] W)"
  by (rule grows_le, rule grows_for, rule assms) (simp add: uint8_bound)

lemma grows_refs: "grows 60000 (refListStruct_w asps x)"
  unfolding refListStruct_w_def [abs_def] by (rule grows_le, (rule grows_loop8 grows_entry grows_intro)+, simp)

lemma grows_plri: "grows 60000 (plri_map_w x)"
  unfolding plri_map_w_def [abs_def] plri_mode_w_def [abs_def] by (rule grows_le, (rule grows_loop8 grows_intro grows_if)+, simp)

lemma grows_asps_parts: "grows 60000 (asps_ref_w asps i)" "grows 100 (asps_pixel_w asps i)" "grows 60000 (plri_entry_w asps i)"
  "grows 100 (aspsVpccExtension_w asps x)"
  unfolding asps_ref_w_def [abs_def] asps_pixel_w_def [abs_def] plri_entry_w_def [abs_def] aspsVpccExtension_w_def [abs_def]
  by (rule grows_le, (rule grows_intro grows_refs grows_plri grows_if)+, simp)+

lemma grows_asps: "grows 1000000 (atlasSequenceParameterSetRbsp_w asps_example)"
proof -
  have [simp]: "\<not> asps_vuiParametersPresentFlag asps_example" by (simp add: asps_example_def asps_new_def)
  show ?thesis
  unfolding atlasSequenceParameterSetRbsp_w_def [abs_def] plrInformation_w_def [abs_def]
  apply (rule grows_le)
  apply (rule grows_intro grows_asps_parts |(rule grows_no, simp; fail)| (rule grows_no, (simp; fail))|rule grows_if)+
  apply (simp add: asps_example_def asps_new_def)
  done
qed

lemma grows_afps: "grows 100000 (atlasFrameParameterSetRbsp_w f afps_example)"
proof -
  have parts: "grows 64 (afti_column_w x i)" "grows 64 (afti_row_w x i)" "grows 160 (afti_tile_w x i)" "grows 64 (afti_height_w x i)"
    "grows 32 (afti_id_w x i)" for x i
    unfolding afti_column_w_def [abs_def] afti_row_w_def [abs_def] afti_tile_w_def [abs_def] afti_height_w_def [abs_def] afti_id_w_def [abs_def]
    by (rule grows_le, (rule grows_intro)+, simp)+
  show ?thesis
    unfolding atlasFrameParameterSetRbsp_w_def [abs_def] atlasFrameTileInformation_w_def [abs_def] afti_partitions_w_def [abs_def]
    by (rule grows_le, (rule parts grows_intro grows_if)+) (simp add: afps_example_def afps_new_def afti_example_def afti_new_def)
qed

lemma numLtr_bound: "rls_numLtr x = Some n \<Longrightarrow> n \<le> 255"
proof -
  have "m \<le> k" if "for_loop [0..<k] (\<lambda>i n. Option.bind (vec_at (rls_stRefAtlasFrameFlag x) i) (\<lambda>b. Some (if b then n else n + 1))) 0 = Some m" for k m
    using that
  proof (induction k arbitrary: m)
    case (Suc k)
    then show ?case by (fastforce simp: for_loop_snoc split: bind_splits if_splits)
  qed simp
  moreover assume "rls_numLtr x = Some n"
  ultimately have "n \<le> unat (rls_numRefEntries x)" by (simp add: rls_numLtr_def)
  then show ?thesis using uint8_bound [of "rls_numRefEntries x"] by linarith
qed

lemma grows_header: "grows 100000 (atlasTileHeader_w hls nal x)"
proof -
  have lsb: "grows 64 (ath_lsb_w b x i)" for b i unfolding ath_lsb_w_def [abs_def] by (rule grows_le, (rule grows_intro grows_if)+, simp)
  have ltr: "grows (255 * 64) (for_loop [0..<n] (ath_lsb_w b x))" if "rls_numLtr r = Some n" for r n b
    by (rule grows_le [OF grows_for [OF lsb]]) (simp add: numLtr_bound [OF that])
  have refs: "grows 60100 (ath_refs_w asps x)" for asps
    unfolding ath_refs_w_def [abs_def] by (rule grows_le, (rule grows_refs grows_intro grows_if)+, simp)
  have quant: "grows 1000 (ath_quantizers_w afps asps r x)" for afps asps r
    unfolding ath_quantizers_w_def [abs_def] by (rule grows_le, (rule grows_intro grows_if)+, simp)
  show ?thesis
    unfolding atlasTileHeader_w_def [abs_def]
    by (rule grows_le, (rule ltr, assumption | rule refs quant grows_intro grows_if)+, simp)
qed

text \<open>A patch whose block to patch map has four entries.\<close>

lemma grows_patch:
  assumes "plrd_blockCount (pdu_pointLocalReconstructionData x) = 4"
  shows "grows 200000 (patchDataUnit_w hls ath x)"
proof -
  have block: "grows 64 (plrd_block_w b y i)" for b y i unfolding plrd_block_w_def [abs_def] by (rule grows_le, (rule grows_intro grows_if)+, simp)
  have map: "grows 400 (plrd_map_w asps (pdu_pointLocalReconstructionData x) i)" for asps i
    unfolding plrd_map_w_def [abs_def] by (rule grows_le, (rule block grows_intro grows_if)+, simp add: assms)
  have "grows (256 * 400) (for_loop [0..<unat (w :: uint8_t) + 1] (plrd_map_w asps (pdu_pointLocalReconstructionData x)))" for asps w
    by (rule grows_le [OF grows_for [OF map]]) (use uint8_bound [of w] in simp)
  then have plr: "grows (256 * 400) (plrData_w asps (pdu_pointLocalReconstructionData x))" for asps
    unfolding plrData_w_def [abs_def] by simp
  show ?thesis
    unfolding patchDataUnit_w_def [abs_def]
    by (rule grows_le, (rule plr grows_intro grows_if)+, simp)
qed

lemma grows_tile: "grows 400000 (atlasTileLayerRbsp_w hls nal atgl_intra)"
proof -
  let ?pdu = "pdu_example\<lparr>pdu_tileOrder := 0, pdu_patchIndex := 0\<rparr>"
  let ?W = "atdu_patch_w hls ath_intra (atgl_dataUnit atgl_intra)"
  have types: "ath_type ath_intra = I_TILE" "atgl_header atgl_intra = ath_intra" by (simp_all add: ath_intra_def atgl_intra_def)
  have first: "?W 0 = (\<lambda>bs. Option.bind (bs_writeUvlc (ucast I_INTRA) bs) (patchDataUnit_w hls ath_intra ?pdu))"
    by (rule ext) (simp add: atdu_patch_w_def atgl_intra_def patchInformationData_w_def types pid_new_def Let_def)
  have second: "?W 1 = (\<lambda>bs. Option.bind (bs_writeUvlc (ucast I_END) bs) Some)"
    by (rule ext) (simp add: atdu_patch_w_def atgl_intra_def patchInformationData_w_def types pid_new_def Let_def patchMode_defs)
  have single: "for_loop [i] f = f i" for i and f :: "nat \<Rightarrow> PCCBitstream \<Rightarrow> PCCBitstream option" by (rule ext) simp
  have "length (atdu_patchInformationData (atgl_dataUnit atgl_intra)) = 2" by (simp add: atgl_intra_def)
  then have loop: "atlasTileDataUnit_w hls ath_intra (atgl_dataUnit atgl_intra) = (\<lambda>bs. Option.bind (?W 0 bs) (?W 1))"
    by (intro ext) (simp add: atlasTileDataUnit_w_def types upt_rec numeral_2_eq_2 single)
  have "grows 200000 (patchDataUnit_w hls ath_intra ?pdu)"
    by (rule grows_patch) (simp add: plrd_blockCount_def pdu_example_def plrd_example_def)
  then have data: "grows (64 + 200000 + (64 + 0)) (atlasTileDataUnit_w hls ath_intra (atgl_dataUnit atgl_intra))"
    unfolding loop first second by (intro grows_intro)
  have eq: "atlasTileLayerRbsp_w hls nal atgl_intra = (\<lambda>bs. Option.bind (atlasTileHeader_w hls nal ath_intra bs) (\<lambda>bs.
      Option.bind (atlasTileDataUnit_w hls ath_intra (atgl_dataUnit atgl_intra) bs) rbspTrailingBits_w))"
    by (rule ext) (simp add: atlasTileLayerRbsp_w_def types)
  show ?thesis unfolding eq by (rule grows_le, (rule grows_header data grows_intro)+, simp)
qed

text \<open>The message of five bytes.\<close>

lemma grows_payload:
  "grows 79 (\<lambda>bs. map_option snd (seiPayload_w l NAL_PREFIX_ESEI (sei_example\<lparr>sei_payloadSize := n\<rparr>) bs))"
proof -
  have wf: "body_wf g n (sei_body sei_example)" for g using sei_example_wf(1) [of g] by (simp add: sei_wf_def sei_example_def)
  have "writes (8 * 5) (\<lambda>bs. Option.bind (prefix_w l n (sei_body sei_example) bs) (\<lambda>(_, bs). Some bs))"
    by (rule body_writes(1) [OF wf]) (simp add: sei_example_def ud35_size_def ud35_new_def)
  moreover have "grows 39 payload_end_w"
  proof -
    have "payload_end_w = (\<lambda>bs. if \<not> bs_byteAligned bs then byteAlignment_w bs else Some bs)" by (rule ext) (simp add: payload_end_w_def)
    moreover have "grows 39 (\<lambda>bs. if \<not> bs_byteAligned bs then byteAlignment_w bs else Some bs)"
      using grows_trailing(2) by (simp add: grows_def)
    ultimately show ?thesis by simp
  qed
  ultimately have "grows (8 * 5 + 39) (\<lambda>bs. Option.bind (Option.bind (prefix_w l n (sei_body sei_example) bs) (\<lambda>(_, bs). Some bs)) payload_end_w)"
    by (rule grows_bind [OF grows_writes])
  moreover have "map_option snd (seiPayload_w l NAL_PREFIX_ESEI (sei_example\<lparr>sei_payloadSize := n\<rparr>) bs) =
      Option.bind (Option.bind (prefix_w l n (sei_body sei_example) bs) (\<lambda>(_, bs). Some bs)) payload_end_w" for bs
    by (simp add: seiPayload_w_def Option.bind_assoc map_option_bind comp_def case_prod_unfold)
  ultimately show ?thesis by simp
qed

lemma sei_resized_wf: "sei_wf g NAL_PREFIX_ESEI (sei_example\<lparr>sei_payloadSize := n\<rparr>)" "sei_context NAL_PREFIX_ESEI (sei_example\<lparr>sei_payloadSize := n\<rparr>) l"
  by (simp_all add: sei_wf_def sei_context_def sei_example_def nal_prefix_def ud35_wf_def ud35_new_def)

lemma sei_resized_bytes: "payload_bytes l NAL_PREFIX_ESEI (sei_example\<lparr>sei_payloadSize := n\<rparr>) = 5"
  by (rule payload_bytes_eq [OF sei_resized_wf(1)]) (simp add: sei_example_def ud35_size_def ud35_new_def)

lemma grows_sei: "grows 200 (\<lambda>bs. map_option snd (seiRbsp_w l NAL_PREFIX_ESEI (sei_example\<lparr>sei_payloadSize := n\<rparr>) bs))"
proof -
  let ?sei = "sei_example\<lparr>sei_payloadSize := n\<rparr>"
  have ff: "ff_w n = bs_write (word_of_int n) 8" if "n < 255" for n using that by (intro ext) (simp add: ff_w.simps)
  obtain tmp where tmp: "seiPayload_w l NAL_PREFIX_ESEI ?sei bs_new = Some (?sei, tmp)" "bs_size tmp = 5"
    using seiPayload_w_new [OF sei_resized_wf] sei_resized_bytes by metis
  have t: "payloadType_code (getPayloadType ?sei) < 255"
    by (simp add: payloadType_code_def payloadTypes_def getPayloadType_def sei_example_def)
  have "map_option snd (seiRbsp_w l NAL_PREFIX_ESEI ?sei bs) =
      Option.bind (bs_write (word_of_int (payloadType_code (getPayloadType ?sei))) 8 bs) (\<lambda>bs. Option.bind (bs_write (word_of_int 5) 8 bs)
        (\<lambda>bs. map_option snd (seiPayload_w l NAL_PREFIX_ESEI (sei_example\<lparr>sei_payloadSize := 5\<rparr>) bs)))" for bs
    by (simp add: seiRbsp_w_def seiMessage_w_def tmp ff [OF t] ff map_option_bind comp_def)
  then show ?thesis by (simp only:) (rule grows_le, (rule grows_payload grows_intro)+, simp)
qed

section \<open>The atlas\<close>

definition atlas_example :: AtlasStore where
  "atlas_example = \<lparr>as_hls = hls_example, as_sei = [\<lparr>seiPrefix = [sei_example], seiSuffix = []\<rparr>]\<rparr>"

text \<open>What is measured grows the temporary stream by what the unit takes.\<close>

lemma measure_grows:
  assumes "measure_w slot U (w, ns) = Some (w', ns')" and "grows n (\<lambda>bs. map_option snd (U w bs))" and "bs_inv (ns_tempBitStream ns)"
  shows "bs_inv (ns_tempBitStream ns')" and "lin (bs_pos (ns_tempBitStream ns')) \<le> lin (bs_pos (ns_tempBitStream ns)) + n"
proof -
  obtain temp where t: "U w (ns_tempBitStream ns) = Some (w', temp)" "ns_tempBitStream ns' = temp"
    using assms(1) by (auto simp: measure_w_def Let_def split: bind_splits)
  then show "bs_inv (ns_tempBitStream ns')" "lin (bs_pos (ns_tempBitStream ns')) \<le> lin (bs_pos (ns_tempBitStream ns)) + n"
    using assms(2,3) by (simp_all add: grows_def)
qed

lemma unit_grows:
  assumes "grows n P" and "\<And>bs. U w bs = Option.bind (P bs) (\<lambda>bs. Some (w, bs))"
  shows "grows n (\<lambda>bs. map_option snd (U w bs))"
  using assms by (simp add: map_option_bind comp_def)

lemma atlas_example_parts:
  "hls_atlasSequenceParameterSet (as_hls atlas_example) = [asps_example]" "hls_atlasFrameParameterSet (as_hls atlas_example) = [afps_example]"
  "hls_atlasTileLayer (as_hls atlas_example) = [atgl_intra]" "as_sei atlas_example = [\<lparr>seiPrefix = [sei_example], seiSuffix = []\<rparr>]"
  by (simp_all add: atlas_example_def hls_example_def)

lemma one_round: "for_loop [0..<Suc 0] f x = f 0 x"
  by (simp add: upt_rec)

text \<open>The units of the example, one after the other.\<close>

lemma atlas_example_units:
  assumes "nalSizes_w atlas_example = Some (st, ns)"
  obtains n1 n2 n3 w3 where "measure_w (AspsSlot 0) (aspsUnit_w 0) (atlas_example, ns_new) = Some (atlas_example, n1)"
    and "measure_w (AfpsSlot 0) (afpsUnit_w 0) (atlas_example, n1) = Some (atlas_example, n2)"
    and "measure_w (PrefixSlot 0 0) (seiUnit_w NAL_PREFIX_ESEI 0 0) (atlas_example, n2) = Some (w3, n3)"
    and "as_hls w3 = as_hls atlas_example"
    and "measure_w (AtglSlot 0) (atglUnit_w NAL_SKIP_R 0) (w3, n3) = Some (st, ns)"
proof -
  have keep: "w' = w" if "measure_w slot U (w, n) = Some (w', n')" and "U = aspsUnit_w i \<or> U = afpsUnit_w i" for slot U w n w' n' i
    using that by (auto simp: measure_w_def aspsUnit_w_def afpsUnit_w_def Let_def split: bind_splits)
  have run: "Option.bind (measure_w (AspsSlot 0) (aspsUnit_w 0) (atlas_example, ns_new)) (\<lambda>(st, ns).
     Option.bind (for_loop [0..<length (hls_atlasFrameParameterSet (as_hls st))] (\<lambda>i. measure_w (AfpsSlot i) (afpsUnit_w i)) (st, ns))
      (\<lambda>(st, ns). for_loop [0..<length (hls_atlasTileLayer (as_hls st))] measure_tile_w (st, ns))) = Some (st, ns)"
    using assms by (simp add: nalSizes_w_def atlas_example_parts one_round ns_new_def)
  then obtain w1 n1 where 1: "measure_w (AspsSlot 0) (aspsUnit_w 0) (atlas_example, ns_new) = Some (w1, n1)" by (auto split: bind_splits)
  have w1: "w1 = atlas_example" by (rule keep [OF 1 disjI1 [OF refl]])
  have "Option.bind (measure_w (AfpsSlot 0) (afpsUnit_w 0) (atlas_example, n1))
      (\<lambda>(st, ns). for_loop [0..<length (hls_atlasTileLayer (as_hls st))] measure_tile_w (st, ns)) = Some (st, ns)"
    using run by (simp add: 1 w1 atlas_example_parts one_round)
  then obtain w2 n2 where 2: "measure_w (AfpsSlot 0) (afpsUnit_w 0) (atlas_example, n1) = Some (w2, n2)"
    and tiles: "for_loop [0..<length (hls_atlasTileLayer (as_hls w2))] measure_tile_w (w2, n2) = Some (st, ns)" by (auto split: bind_splits)
  have w2: "w2 = atlas_example" by (rule keep [OF 2 disjI2 [OF refl]])
  have "Option.bind (measure_w (PrefixSlot 0 0) (seiUnit_w NAL_PREFIX_ESEI 0 0) (atlas_example, n2))
      (measure_w (AtglSlot 0) (atglUnit_w NAL_SKIP_R 0)) = Some (st, ns)"
    using tiles by (simp add: w2 atlas_example_parts one_round measure_tile_w_def case_prod_unfold)
  then obtain w3 n3 where 3: "measure_w (PrefixSlot 0 0) (seiUnit_w NAL_PREFIX_ESEI 0 0) (atlas_example, n2) = Some (w3, n3)"
    and 4: "measure_w (AtglSlot 0) (atglUnit_w NAL_SKIP_R 0) (w3, n3) = Some (st, ns)" by (auto split: bind_splits)
  have "as_hls w3 = as_hls atlas_example"
    using 3 by (auto simp: measure_w_def seiUnit_w_def Let_def split: bind_splits)
  then show thesis using that 1 2 3 4 w1 w2 by blast
qed

lemma atlas_example_below:
  assumes "nalSizes_w atlas_example = Some (st, ns)"
  shows "ns_small ns"
proof -
  obtain n1 n2 n3 w3 where m: "measure_w (AspsSlot 0) (aspsUnit_w 0) (atlas_example, ns_new) = Some (atlas_example, n1)"
      "measure_w (AfpsSlot 0) (afpsUnit_w 0) (atlas_example, n1) = Some (atlas_example, n2)"
      "measure_w (PrefixSlot 0 0) (seiUnit_w NAL_PREFIX_ESEI 0 0) (atlas_example, n2) = Some (w3, n3)"
      "measure_w (AtglSlot 0) (atglUnit_w NAL_SKIP_R 0) (w3, n3) = Some (st, ns)"
    and w3: "as_hls w3 = as_hls atlas_example"
    using atlas_example_units [OF assms] by metis
  have asps: "grows 1000000 (\<lambda>bs. map_option snd (aspsUnit_w 0 atlas_example bs))"
    by (rule unit_grows [OF grows_asps]) (simp add: aspsUnit_w_def atlas_example_parts)
  have afps: "grows 100000 (\<lambda>bs. map_option snd (afpsUnit_w 0 atlas_example bs))"
    by (rule unit_grows [OF grows_afps]) (simp add: afpsUnit_w_def atlas_example_parts)
  have sei: "grows 200 (\<lambda>bs. map_option snd (seiUnit_w NAL_PREFIX_ESEI 0 0 atlas_example bs))"
    using grows_sei [of "\<lparr>seiPrefix = [sei_example], seiSuffix = []\<rparr>" "sei_payloadSize sei_example"]
    by (simp add: seiUnit_w_def atlas_example_parts sei_list_def map_option_bind comp_def case_prod_unfold Let_def) (simp add: map_conv_bind_option comp_def)
  have tile: "grows 400000 (\<lambda>bs. map_option snd (atglUnit_w NAL_SKIP_R 0 w3 bs))"
    by (rule unit_grows [OF grows_tile]) (simp add: atglUnit_w_def w3 atlas_example_parts)
  have new: "bs_inv (ns_tempBitStream ns_new)" "lin (bs_pos (ns_tempBitStream ns_new)) = 0" by (simp_all add: ns_new_def new_inv lin_new)
  note s1 = measure_grows [OF m(1) asps new(1)]
  note s2 = measure_grows [OF m(2) afps s1(1)]
  note s3 = measure_grows [OF m(3) sei s2(1)]
  note s4 = measure_grows [OF m(4) tile s3(1)]
  have "8 * bs_size (ns_tempBitStream ns) \<le> lin (bs_pos (ns_tempBitStream ns))" by (simp add: bs_size_def lin_def)
  then show ?thesis using s1 s2 s3 s4 new by (simp add: ns_small_def)
qed

lemma ath_intra_fields:
  "ath_noOutputOfPriorAtlasFramesFlag ath_intra = False" "ath_tileNaluTypeInfo ath_intra = 1" "ath_id ath_intra = 0"
  "ath_atlasFrameParameterSetId ath_intra = 0" "ath_frameIndex ath_intra = 0" "ath_type ath_intra = I_TILE"
  "ath_atlasFrmOrderCntLsb ath_intra = 16" "\<not> ath_refAtlasFrameListSpsFlag ath_intra" "ath_refAtlasFrameListIdx ath_intra = 0"
  "ath_refListStruct ath_intra = rls_short" "ath_additionalAfocLsbPresentFlag ath_intra = [False]" "ath_additionalAfocLsbVal ath_intra = [0]"
  "ath_posMinDQuantizer ath_intra = 3" "ath_posDeltaMaxDQuantizer ath_intra = 2" "ath_patchSizeXinfoQuantizer ath_intra = 4"
  "ath_patchSizeYinfoQuantizer ath_intra = 4" "ath_raw3dOffsetAxisBitCountMinus1 ath_intra = 5"
  "\<not> ath_numRefIdxActiveOverrideFlag ath_intra" "ath_numRefIdxActiveMinus1 ath_intra = 0"
  by (simp_all add: ath_intra_def ath_new_def)

lemma ath_intra_wf: "ath_wf NAL_TRAIL_R afps_example asps_example ath_intra"
proof -
  have short: "rls_numLtr rls_short = Some 0" by (simp add: rls_numLtr_def rls_short_def upt_rec)
  have "rls_wf asps_example rls_short"
    by (simp add: rls_wf_def rls_entry_wf_def rls_short_def asps_example_def asps_new_def All_less_Suc)
  then show ?thesis
    by (simp add: ath_wf_def ath_lsb_wf_def ath_quantizers_wf_def Let_def example_bits example_fields ath_intra_fields naluTypeInfo_def short)
qed

lemma atdu_intra_wf: "atdu_wf hls afps_example asps_example ath_intra rst (atgl_dataUnit atgl_intra)"
proof -
  have "pdu_tileOrder pdu_example = 0" "pdu_patchIndex pdu_example = 0" by (simp_all add: pdu_example_def pdu_new_def)
  then show ?thesis
    using pdu_example_wf [of ath_intra]
    by (simp add: atdu_wf_def atgl_intra_def example_fields ath_intra_fields Let_def pid_next_def patchMode_defs pid_new_def)
     (simp add: pid_example_simps ath_intra_fields pid_new_def patchMode_defs)
qed

lemma atlas_example_wf: "atlas_wf g hls_new rst_new atlas_example"
proof -
  let ?H = "hls_params (as_hls atlas_example) hls_new" and ?l = "\<lparr>seiPrefix = [sei_example], seiSuffix = []\<rparr>"
  have get: "hls_getAsps h 0 = Some asps_example" if "hls_atlasSequenceParameterSet h = [asps_example]" for h
    using that by (simp add: hls_getAsps_def)
  have afps: "afps_wf (hls_getAsps (as_hls atlas_example)) afps_example" by (rule afps_example_wf, rule get) (simp add: atlas_example_parts)
  have layer: "layer_wf ?H [atgl_intra] rst_new 0"
  proof -
    let ?h = "hls_addAtlasTileLayer (hls_layers ?H [atgl_intra] 0)"
    have lists: "hls_atlasSequenceParameterSet ?h = [asps_example]" "hls_atlasFrameParameterSet ?h = [afps_example]"
      by (simp_all add: hls_addAtlasTileLayer_def hls_layers_def hls_params_def atlas_example_parts Let_def)
    have "hls_getAfps ?h 0 = Some afps_example" using lists(2) by (simp add: hls_getAfps_def)
    moreover have "afps_atlasSequenceParameterSetId afps_example = 0" by (simp add: afps_example_def afps_new_def)
    ultimately have "tile_params ?h ath_intra = Some (afps_example, asps_example)"
      using get [OF lists(1)] by (simp add: tile_params_def ath_intra_fields)
    moreover have "atgl_header atgl_intra = ath_intra" "atdu_tileOrder (atgl_dataUnit atgl_intra) = 0" by (simp_all add: atgl_intra_def)
    moreover have "atgl_naluType atgl_intra = NAL_TRAIL_R" by (simp add: atgl_naluType_def atgl_intra_def ath_intra_fields)
    ultimately show ?thesis using ath_intra_wf atdu_intra_wf by (simp add: layer_wf_def atgl_wf_def)
  qed
  have "messages_wf g ?l"
    using sei_example_wf sei_example_bytes by (simp add: messages_wf_def prefix_ok_def)
  then show ?thesis using layer afps by (simp add: atlas_wf_def atlas_example_parts Let_def asps_example_wf)
qed

lemma atlas_example_small: "atlas_small atlas_example"
proof -
  obtain st ns where "nalSizes_w atlas_example = Some (st, ns)" using nalSizes_measures [OF atlas_example_wf] by metis
  then show ?thesis using atlas_example_below by (simp add: atlas_small_def)
qed

end
