(* ===== verification/V3CCoder.thy ===== *)
theory V3CCoder
  imports AtlasSubStream
begin

unbundle bit_operations_syntax

text \<open>
  The top of the bitstream libraries: \<open>v3cUnit\<close>, \<open>v3cUnitPayload\<close>, \<open>encode\<close> of the writer and \<open>decode\<close> of the
  reader, which put a group of frames into V3C units and take it out again.

  \<open>Coder\<close> is the store \<open>PCCHighLevelSyntax\<close> with the SEI messages of its tile layers (entry \<open>a\<close> of \<open>cd_sei\<close> belongs to
  the atlas \<open>a\<close>) and the statistics it points to. The members of the reader that live between tiles are passed beside
  it. References to parameter sets that \<open>encode\<close> holds are values here: no step of it changes a parameter set.
\<close>

section \<open>State\<close>

record Coder =
  cd_syntax :: PCCHighLevelSyntax
  cd_sei :: "PCCSEI list list"
  cd_stat :: PCCBitstreamStat

definition cd_getStore :: "Coder \<Rightarrow> AtlasStore option" where
  "cd_getStore c = do {
     hls \<leftarrow> syn_getAtlasHighLevelSyntax (cd_syntax c);
     sei \<leftarrow> vec_at (cd_sei c) (syn_atlasIndex (cd_syntax c));
     Some \<lparr>as_hls = hls, as_sei = sei\<rparr>
   }"

definition cd_setStore :: "AtlasStore \<Rightarrow> Coder \<Rightarrow> Coder" where
  "cd_setStore st c = (let syn = cd_syntax c in
     c\<lparr>cd_syntax := syn\<lparr>syn_atlasHLS := (syn_atlasHLS syn)[syn_atlasIndex syn := as_hls st]\<rparr>,
       cd_sei := (cd_sei c)[syn_atlasIndex syn := as_sei st]\<rparr>)"

definition cd_activeVps :: "Coder \<Rightarrow> V3CParameterSet option" where
  "cd_activeVps c = syn_getVps (cd_syntax c) (syn_activeVPS (cd_syntax c))"

text \<open>\<open>static_cast<int32_t>( bitstream.size() ) - position\<close>, with the overflow of the subtraction, passed as a
  \<open>size_t\<close>.\<close>

definition unitBytes :: "nat \<Rightarrow> nat \<Rightarrow> size_t option" where
  "unitBytes position end = (let d = sint (of_nat end :: uint32_t) - sint (of_nat position :: uint32_t) in
     if - (2 ^ 31) \<le> d \<and> d < 2 ^ 31 then Some (word_of_int d) else None)"

section \<open>Writer\<close>

definition v3cUnitPayload_w :: "V3CUnitType \<Rightarrow> Coder \<Rightarrow> PCCBitstream \<Rightarrow> (Coder \<times> PCCBitstream) option" where
  "v3cUnitPayload_w v3cUnitType c bs = do {
     sps \<leftarrow> cd_activeVps c;
     if v3cUnitType = V3C_VPS then do {
       bs \<leftarrow> v3cParameterSet_w sps bs;
       Some (c, bs)
     } else if v3cUnitType = V3C_AD then do {
       st \<leftarrow> cd_getStore c;
       (st, bs) \<leftarrow> atlasSubStream_w st bs;
       Some (cd_setStore st c, bs)
     } else if v3cUnitType = V3C_OVD \<or> v3cUnitType = V3C_GVD \<or> v3cUnitType = V3C_AVD then do {
       (stat, bs) \<leftarrow> videoSubStream_w (cd_syntax c) v3cUnitType (cd_stat c) bs;
       Some (c\<lparr>cd_stat := stat\<rparr>, bs)
     } else Some (c, bs)
   }"

definition v3cUnit_w :: "V3CUnitType \<Rightarrow> Coder \<Rightarrow> PCCBitstream \<Rightarrow> (Coder \<times> PCCBitstream) option" where
  "v3cUnit_w v3cUnitType c bs = do {
     let position = bs_size bs;
     bs \<leftarrow> v3cUnitHeader_w (cd_syntax c) v3cUnitType bs;
     (c, bs) \<leftarrow> v3cUnitPayload_w v3cUnitType c bs;
     size \<leftarrow> unitBytes position (bs_size bs);
     stat \<leftarrow> stat_setV3CUnitSize (unat v3cUnitType) size (cd_stat c);
     Some (c\<lparr>cd_stat := stat\<rparr>, bs)
   }"

text \<open>The statements that \<open>encode\<close> repeats: the setters of a unit header, and a unit on a new stream, which is moved to
  the end of the sample stream.\<close>

type_synonym EncodeState = "Coder \<times> SampleStreamV3CUnit"

definition encode_header :: "V3CUnitType \<Rightarrow> (V3CUnitHeader \<Rightarrow> V3CUnitHeader) \<Rightarrow> EncodeState \<Rightarrow> EncodeState option" where
  "encode_header t f = (\<lambda>(c, ssvu). do {
     vuh \<leftarrow> syn_getV3CUnitHeader (cd_syntax c) (unat t - 1);
     syn \<leftarrow> syn_setV3CUnitHeader (unat t - 1) (f vuh) (cd_syntax c);
     Some (c\<lparr>cd_syntax := syn\<rparr>, ssvu)
   })"

definition encode_unit :: "V3CUnitType \<Rightarrow> EncodeState \<Rightarrow> EncodeState option" where
  "encode_unit t = (\<lambda>(c, ssvu). do {
     (c, bs) \<leftarrow> v3cUnit_w t c bs_new;
     Some (c, ssvu\<lparr>ssvu_v3cUnits := ssvu_v3cUnits ssvu @ [vu_setBitstream bs t vu_new]\<rparr>)
   })"

text \<open>\<open>asps.getRawPatchEnabledFlag() && sps.getAuxiliaryVideoPresentFlag( atlasIdx )\<close>\<close>

definition encode_raw :: "V3CParameterSet \<Rightarrow> AtlasSequenceParameterSetRbsp \<Rightarrow> nat \<Rightarrow> bool option" where
  "encode_raw sps asps atlasIdx =
     (if asps_rawPatchEnabledFlag asps then vec_at (vps_auxiliaryVideoPresentFlag sps) atlasIdx else Some False)"

definition vuh_geometry :: "nat \<Rightarrow> bool \<Rightarrow> V3CUnitHeader \<Rightarrow> V3CUnitHeader" where
  "vuh_geometry mapIdx auxiliary vuh = vuh\<lparr>vuh_mapIndex := of_nat mapIdx, vuh_auxiliaryVideoFlag := auxiliary\<rparr>"

definition vuh_attribute :: "nat \<Rightarrow> nat \<Rightarrow> nat \<Rightarrow> bool \<Rightarrow> V3CUnitHeader \<Rightarrow> V3CUnitHeader" where
  "vuh_attribute attIdx attDim mapIdx auxiliary vuh = vuh\<lparr>vuh_attributeIndex := of_nat attIdx,
     vuh_attributeDimensionIndex := of_nat attDim, vuh_mapIndex := of_nat mapIdx, vuh_auxiliaryVideoFlag := auxiliary\<rparr>"

definition encode_geometry :: "V3CParameterSet \<Rightarrow> AtlasSequenceParameterSetRbsp \<Rightarrow> nat \<Rightarrow> EncodeState \<Rightarrow> EncodeState option" where
  "encode_geometry sps asps atlasIdx s = do {
     multiple \<leftarrow> vps_multipleMaps sps atlasIdx;
     mapCountMinus1 \<leftarrow> vec_at (vps_mapCountMinus1 sps) atlasIdx;
     s \<leftarrow> (if multiple then for_loop [0..<unat mapCountMinus1 + 1] (\<lambda>mapIdx s. do {
              s \<leftarrow> encode_header V3C_GVD (vuh_geometry mapIdx False) s;
              encode_unit V3C_GVD s
            }) s
          else do {
            s \<leftarrow> encode_header V3C_GVD (vuh_geometry 0 False) s;
            encode_unit V3C_GVD s
          });
     raw \<leftarrow> encode_raw sps asps atlasIdx;
     if raw then do {
       s \<leftarrow> encode_header V3C_GVD (vuh_geometry 0 True) s;
       encode_unit V3C_GVD s
     } else Some s
   }"

definition encode_partition :: "V3CParameterSet \<Rightarrow> AtlasSequenceParameterSetRbsp \<Rightarrow> nat \<Rightarrow> nat \<Rightarrow> nat \<Rightarrow> EncodeState \<Rightarrow> EncodeState option" where
  "encode_partition sps asps atlasIdx attIdx attDim s = do {
     s \<leftarrow> encode_header V3C_AVD (\<lambda>vuh. vuh\<lparr>vuh_attributeDimensionIndex := of_nat attDim\<rparr>) s;
     multiple \<leftarrow> vps_multipleMaps sps atlasIdx;
     mapCountMinus1 \<leftarrow> vec_at (vps_mapCountMinus1 sps) atlasIdx;
     s \<leftarrow> (if multiple then for_loop [0..<unat mapCountMinus1 + 1] (\<lambda>mapIdx s. do {
              s \<leftarrow> encode_header V3C_AVD (vuh_attribute attIdx attDim mapIdx False) s;
              encode_unit V3C_AVD s
            }) s
          else do {
            s \<leftarrow> encode_header V3C_AVD (vuh_attribute attIdx attDim 0 False) s;
            encode_unit V3C_AVD s
          });
     raw \<leftarrow> encode_raw sps asps atlasIdx;
     if raw then do {
       s \<leftarrow> encode_header V3C_AVD (vuh_attribute attIdx attDim 0 True) s;
       encode_unit V3C_AVD s
     } else Some s
   }"

definition encode_attribute :: "V3CParameterSet \<Rightarrow> AtlasSequenceParameterSetRbsp \<Rightarrow> nat \<Rightarrow> nat \<Rightarrow> EncodeState \<Rightarrow> EncodeState option" where
  "encode_attribute sps asps atlasIdx attIdx s = do {
     s \<leftarrow> encode_header V3C_AVD (\<lambda>vuh. vuh\<lparr>vuh_attributeIndex := of_nat attIdx\<rparr>) s;
     ai \<leftarrow> vec_at (vps_attributeInformation sps) atlasIdx;
     partitionsMinus1 \<leftarrow> vec_at (ai_attributeDimensionPartitionsMinus1 ai) attIdx;
     for_loop [0..<unat partitionsMinus1 + 1] (encode_partition sps asps atlasIdx attIdx) s
   }"

definition encode_atlas :: "V3CParameterSet \<Rightarrow> AtlasSequenceParameterSetRbsp \<Rightarrow> nat \<Rightarrow> EncodeState \<Rightarrow> EncodeState option" where
  "encode_atlas sps asps atlasIdx s = do {
     s \<leftarrow> for_loop [V3C_AD, V3C_OVD, V3C_GVD, V3C_AVD] (\<lambda>t. encode_header t (\<lambda>vuh. vuh\<lparr>vuh_atlasId := of_nat atlasIdx\<rparr>)) s;
     s \<leftarrow> encode_unit V3C_AD s;
     s \<leftarrow> encode_unit V3C_OVD s;
     s \<leftarrow> encode_geometry sps asps atlasIdx s;
     ai \<leftarrow> vec_at (vps_attributeInformation sps) atlasIdx;
     for_loop [0..<unat (ai_attributeCount ai)] (encode_attribute sps asps atlasIdx) s
   }"

text \<open>The loop variable of the atlases is a \<open>uint8_t\<close>: with more than 255 atlases the loop never ends.\<close>

definition encode :: "EncodeState \<Rightarrow> EncodeState option" where
  "encode s = do {
     let c = fst s;
     sps \<leftarrow> cd_activeVps c;
     hls \<leftarrow> syn_getAtlasHighLevelSyntax (cd_syntax c);
     asps \<leftarrow> hls_getAsps hls 0;
     s \<leftarrow> for_loop [V3C_GVD, V3C_AD, V3C_AVD, V3C_OVD]
       (\<lambda>t. encode_header t (\<lambda>vuh. vuh\<lparr>vuh_sequenceParamterSetId := ucast (vps_v3cParameterSetId sps)\<rparr>)) s;
     let s = (let (c, ssvu) = s in (c\<lparr>cd_stat := stat_newGOF (cd_stat c)\<rparr>, ssvu));
     s \<leftarrow> encode_unit V3C_VPS s;
     if 255 < vps_atlasCountMinus1 sps + 1 then None
     else for_loop [0..<unat (vps_atlasCountMinus1 sps + 1)] (encode_atlas sps asps) s
   }"

section \<open>Reader\<close>

text \<open>The store grows with the parameter set; the messages of its atlases grow with it.\<close>

definition vpsUnit_r :: "Coder \<Rightarrow> PCCBitstream \<Rightarrow> (Coder \<times> PCCBitstream) option" where
  "vpsUnit_r c bs = do {
     let syn = syn_addV3CParameterSet (cd_syntax c);
     let l = syn_vpccParameterSets syn;
     (vps, bs) \<leftarrow> v3cParameterSet_r (last l) bs;
     let n = unat (vps_atlasCountMinus1 vps + 1);
     let syn = syn_allocateAtlasHLS n (syn\<lparr>syn_vpccParameterSets := butlast l @ [vps]\<rparr>);
     Some (c\<lparr>cd_syntax := syn, cd_sei := vec_resize n [] (cd_sei c)\<rparr>, bs)
   }"

definition v3cUnitPayload_r :: "SeiMemory \<Rightarrow> V3CUnitType \<Rightarrow> size_t \<Rightarrow> Coder \<times> ReaderState \<Rightarrow> PCCBitstream
    \<Rightarrow> ((Coder \<times> ReaderState) \<times> PCCBitstream) option" where
  "v3cUnitPayload_r g v3cUnitType v3cUnitSize = (\<lambda>(c, rst) bs.
     if v3cUnitType = V3C_VPS then do {
       (c, bs) \<leftarrow> vpsUnit_r c bs;
       Some ((c, rst), bs)
     } else if v3cUnitType = V3C_AD then do {
       st \<leftarrow> cd_getStore c;
       ((st, rst), bs) \<leftarrow> atlasSubStream_r g rst st bs;
       Some ((cd_setStore st c, rst), bs)
     } else if v3cUnitType = V3C_OVD \<or> v3cUnitType = V3C_GVD \<or> v3cUnitType = V3C_AVD then do {
       ((syn, stat), bs) \<leftarrow> videoSubStream_r v3cUnitType (v3cUnitSize - 4) (cd_syntax c) (cd_stat c) bs;
       Some ((c\<lparr>cd_syntax := syn, cd_stat := stat\<rparr>, rst), bs)
     } else Some ((c, rst), bs))"

text \<open>The program stops when the type in the header is not the type the sample stream had found.\<close>

definition v3cUnit_r :: "SeiMemory \<Rightarrow> V3CUnit \<Rightarrow> Coder \<times> ReaderState \<Rightarrow> ((V3CUnitType \<times> (Coder \<times> ReaderState)) \<times> PCCBitstream) option" where
  "v3cUnit_r g currV3CUnit = (\<lambda>(c, rst). do {
     let bs = vu_getBitstream currV3CUnit;
     let position = bs_size bs;
     ((v3cUnitType, syn), bs) \<leftarrow> v3cUnitHeader_r (cd_syntax c) bs;
     if v3cUnitType \<noteq> vu_type currV3CUnit then None else do {
       ((c, rst), bs) \<leftarrow> v3cUnitPayload_r g v3cUnitType (vu_size currV3CUnit) (c\<lparr>cd_syntax := syn\<rparr>, rst) bs;
       size \<leftarrow> unitBytes position (bs_size bs);
       stat \<leftarrow> stat_setV3CUnitSize (unat v3cUnitType) size (cd_stat c);
       Some ((v3cUnitType, (c\<lparr>cd_stat := stat\<rparr>, rst)), bs)
     }
   })"

definition stat_getV3CUnitSize :: "nat \<Rightarrow> PCCBitstreamStat \<Rightarrow> size_t option" where
  "stat_getV3CUnitSize type s =
     (if stat_bitstreamGofStat s = [] then None else gof_getV3CUnitSize (last (stat_bitstreamGofStat s)) type)"

text \<open>Removing the bytes counted for the parameter set of the next group: the difference is computed as a \<open>size_t\<close>, kept
  as an \<open>int32_t\<close> and passed as a \<open>size_t\<close>.\<close>

definition stat_uncount :: "PCCBitstream \<Rightarrow> PCCBitstreamStat \<Rightarrow> PCCBitstreamStat option" where
  "stat_uncount bs stat = do {
     let v3cUnitSize = (of_nat (length (bs_data bs)) :: uint32_t);
     old \<leftarrow> stat_getV3CUnitSize (unat V3C_VPS) stat;
     let statSize = (ucast (old - scast v3cUnitSize) :: uint32_t);
     stat_overwriteV3CUnitSize (unat V3C_VPS) (scast statSize) stat
   }"

text \<open>The loop of \<open>decode\<close>. The unit of a second parameter set is read but stays in the queue, rewound.\<close>

fun decode_units :: "SeiMemory \<Rightarrow> nat \<Rightarrow> V3CUnit list \<Rightarrow> Coder \<times> ReaderState \<Rightarrow> (V3CUnit list \<times> (Coder \<times> ReaderState)) option" where
  "decode_units g numVPS [] s = Some ([], s)"
| "decode_units g numVPS (unit # units) s = do {
     ((v3cUnitType, s), bs) \<leftarrow> v3cUnit_r g unit s;
     if v3cUnitType = V3C_VPS then
       (if 1 < numVPS + 1 then do {
          let (c, rst) = s;
          stat \<leftarrow> stat_uncount bs (cd_stat c);
          Some (unit\<lparr>vu_bitstream := bs_beginning bs\<rparr> # units, (c\<lparr>cd_stat := stat\<rparr>, rst))
        } else decode_units g (numVPS + 1) units s)
     else decode_units g numVPS units s
   }"

definition decode :: "SeiMemory \<Rightarrow> SampleStreamV3CUnit \<Rightarrow> Coder \<times> ReaderState \<Rightarrow> (SampleStreamV3CUnit \<times> (Coder \<times> ReaderState)) option" where
  "decode g ssvu = (\<lambda>(c, rst). do {
     let c = c\<lparr>cd_stat := stat_newGOF (cd_stat c)\<rparr>;
     (units, s) \<leftarrow> decode_units g 0 (ssvu_v3cUnits ssvu) (c, rst);
     Some (ssvu\<lparr>ssvu_v3cUnits := units\<rparr>, s)
   })"

section \<open>A unit\<close>

lemma vuh_writes: "writes 27 (vuh_w t x)"
proof -
  have 1: "writes (4 + (6 + ((7 + (5 + (4 + (1 + 0)))) + 0))) (vuh_w t x)" if "t = V3C_AVD"
    unfolding vuh_w_def [abs_def] if_P [OF that] by (intro writes_bind writes_u writes_Some) simp_all
  have 2: "writes (4 + (6 + (((4 + (1 + (12 + 0))) + 0) + 0))) (vuh_w t x)" if "t \<noteq> V3C_AVD" "t = V3C_GVD"
    unfolding vuh_w_def [abs_def] if_not_P [OF that(1)] if_P [OF that(2)] by (intro writes_bind writes_u writes_Some) simp_all
  have 3: "writes (4 + (6 + (((17 + 0) + 0) + 0))) (vuh_w t x)" if "t \<noteq> V3C_AVD" "t \<noteq> V3C_GVD"
    unfolding vuh_w_def [abs_def] if_not_P [OF that(1)] if_not_P [OF that(2)] by (intro writes_bind writes_u writes_Some) simp_all
  from 1 2 3 show ?thesis by (cases "t = V3C_AVD"; cases "t = V3C_GVD") simp_all
qed

lemma header_writes:
  assumes "carries_atlas t \<Longrightarrow> unat t - 1 < length (syn_v3cUnitHeader syn)"
  shows "writes 32 (v3cUnitHeader_w syn t)"
proof (cases "carries_atlas t")
  case True
  then obtain x where x: "syn_getV3CUnitHeader syn (unat t - 1) = Some x" using assms by (simp add: syn_getV3CUnitHeader_def)
  have "writes (5 + ((27 + 0) + 0)) (v3cUnitHeader_w syn t)"
    unfolding v3cUnitHeader_w_def [abs_def] if_P [OF True [unfolded carries_atlas_def]] x Option.bind.bind_lunit
    by (intro writes_bind vuh_writes writes_u writes_Some) simp_all
  then show ?thesis by simp
next
  case False
  have "writes (5 + ((27 + 0) + 0)) (v3cUnitHeader_w syn t)"
    unfolding v3cUnitHeader_w_def [abs_def] if_not_P [OF False [unfolded carries_atlas_def]]
    by (intro writes_bind writes_u writes_Some) simp_all
  then show ?thesis by simp
qed

lemma header_blocks:
  assumes "unat t < 2 ^ 5" and "length (syn_v3cUnitHeader syn) = 5" and "length (syn_v3cUnitHeader syn') = 5"
    and "carries_atlas t \<Longrightarrow> vuh_wf (syn_v3cUnitHeader syn ! (unat t - 1))"
  shows "blocks (v3cUnitHeader_w syn t) (v3cUnitHeader_r syn') 4 (t, syn_after_header t (syn_v3cUnitHeader syn ! (unat t - 1)) syn')"
proof -
  have "writes 32 (v3cUnitHeader_w syn t)" using assms(2) by (intro header_writes) (auto simp: carries_atlas_def)
  then show ?thesis by (intro blocks_codes [OF v3cUnitHeader_codes [OF assms]]) (auto simp: writes_def)
qed

lemma unitBytes_start: "\<exists>n. unitBytes 0 end = Some n"
proof -
  let ?e = "sint (of_nat end :: uint32_t)"
  have "- (2 ^ 31) \<le> ?e" and "?e < 2 ^ 31"
    using sint_greater_eq [of "of_nat end :: uint32_t"] sint_less [of "of_nat end :: uint32_t"] by simp_all
  then show ?thesis by (simp add: unitBytes_def)
qed

lemma stat_setV3CUnitSize_Some:
  assumes "stat_ok s" and "v < NUM_V3C_UNIT_TYPE"
  shows "\<exists>s'. stat_setV3CUnitSize v n s = Some s' \<and> stat_ok s'"
proof -
  let ?gs = "stat_bitstreamGofStat s"
  have ne: "?gs \<noteq> []" and len: "\<And>g. g \<in> set ?gs \<Longrightarrow> length (gof_v3cUnitSize g) = 32 \<and> length (gof_videoBinSize g) = 1108"
    using assms(1) by (simp_all add: stat_ok_def)
  have "length (gof_v3cUnitSize (last ?gs)) = 32" "length (gof_videoBinSize (last ?gs)) = 1108" using len [of "last ?gs"] ne by simp_all
  then show ?thesis
    using assms(2) ne len in_set_butlastD [of _ ?gs] by (auto simp: stat_setV3CUnitSize_def stat_back_def gof_setV3CUnitSize_def stat_ok_def)
qed

text \<open>A unit as \<open>encode\<close> appends it: a complete stream whose size, type and contents agree.\<close>

definition unit_ok :: "V3CUnit \<Rightarrow> bool" where
  "unit_ok u \<longleftrightarrow> (let bs = vu_bitstream u in
     bs_inv bs \<and> bs_byteAligned bs \<and> 0 < bs_size bs \<and> vu_size u = of_nat (bs_size bs))"

definition unit_bytes :: "V3CUnit \<Rightarrow> nat" where
  "unit_bytes u = bs_size (vu_bitstream u)"

text \<open>The stream the reader has when the sample stream has passed the unit on.\<close>

lemma unit_stream:
  assumes "bs_inv bs" and "bs_byteAligned bs" and "0 < bs_size bs" and "bs_size bs < 2 ^ 64"
  obtains fs where "vu_getBitstream (vu_read (vu_setBitstream bs t vu_new)) = bs_setPosition (bs_pos bs_new) fs"
    and "bs_extends fs bs" and "length (bs_data fs) = bs_size bs" and "vu_size (vu_read (vu_setBitstream bs t vu_new)) = of_nat (bs_size bs)"
    and "vu_type (vu_read (vu_setBitstream bs t vu_new)) = drop_bit 3 (bs_data fs ! 0)"
    and "\<And>p. bs_beginning (bs_setPosition p fs) = vu_bitstream (vu_read (vu_setBitstream bs t vu_new))"
proof -
  let ?fs = "bs_initialize (take (bs_size bs) (bs_data bs)) bs_new"
  have len: "bs_size bs \<le> length (bs_data bs)" using assms(1,2) by (simp add: bs_inv_bytes)
  have n: "unat (of_nat (bs_size bs) :: size_t) = bs_size bs" using assms(4) by (simp add: unat_of_nat)
  have "hd (bs_data bs) = bs_data bs ! 0" using len assms(3) by (intro hd_conv_nth) auto
  then show thesis
    using len n assms by (intro that [of ?fs])
      (simp_all add: vu_read_def vu_setBitstream_def vu_getBitstream_def bs_setPosition_def bs_initialize_def bs_new_def
        bs_beginning_def bs_extends_bytes)
qed

text \<open>A unit whose payload is read back is read back, and both sides count the same bytes for it. \<open>Q\<close> describes the two
  coders after the payload.\<close>

lemma v3cUnit_roundtrip:
  assumes t: "unat t < 5"
    and hdr: "length (syn_v3cUnitHeader (cd_syntax c)) = 5" "length (syn_v3cUnitHeader (cd_syntax d)) = 5"
      "carries_atlas t \<Longrightarrow> vuh_wf (syn_v3cUnitHeader (cd_syntax c) ! (unat t - 1))"
    and payload: "\<And>bs. bs_inv bs \<Longrightarrow> bs_byteAligned bs \<Longrightarrow> bs_size bs = 4 \<Longrightarrow> \<exists>c' bs' d' rst'. v3cUnitPayload_w t c bs = Some (c', bs')
      \<and> bs_inv bs' \<and> bs_byteAligned bs' \<and> bs_extends bs' bs \<and> 4 \<le> bs_size bs' \<and> Q c' (d', rst')
      \<and> (\<forall>fs. bs_extends fs bs' \<longrightarrow> length (bs_data fs) = bs_size bs' \<longrightarrow> bs_size bs' < 2 ^ 64 \<longrightarrow>
           v3cUnitPayload_r g t (of_nat (bs_size bs'))
             (d\<lparr>cd_syntax := syn_after_header t (syn_v3cUnitHeader (cd_syntax c) ! (unat t - 1)) (cd_syntax d)\<rparr>, rst)
             (bs_setPosition (bs_pos bs) fs) = Some ((d', rst'), bs_setPosition (bs_pos bs') fs))"
    and stat: "\<And>c' d' rst'. Q c' (d', rst') \<Longrightarrow> stat_ok (cd_stat c') \<and> cd_stat d' = cd_stat c'"
  obtains c' d' rst' st bs' where "v3cUnit_w t c bs_new = Some (c'\<lparr>cd_stat := st\<rparr>, bs')" and "Q c' (d', rst')" and "stat_ok st"
    and "unit_ok (vu_setBitstream bs' t vu_new)"
    and "bs_size bs' < 2 ^ 64 \<Longrightarrow> \<exists>e. v3cUnit_r g (vu_read (vu_setBitstream bs' t vu_new)) (d, rst) = Some ((t, (d'\<lparr>cd_stat := st\<rparr>, rst')), e)
      \<and> bs_beginning e = vu_bitstream (vu_read (vu_setBitstream bs' t vu_new))"
proof -
  let ?h = "syn_v3cUnitHeader (cd_syntax c) ! (unat t - 1)"
  let ?syn = "syn_after_header t ?h (cd_syntax d)"
  have t32: "unat t < 2 ^ 5" using t by simp
  have new: "bs_size bs_new = 0" by (simp add: bs_new_def bs_size_def)
  obtain b1 where w1: "v3cUnitHeader_w (cd_syntax c) t bs_new = Some b1" and b1: "bs_inv b1" "bs_byteAligned b1" "bs_extends b1 bs_new" "bs_size b1 = 4"
    and r1: "\<And>fs. bs_extends fs b1 \<Longrightarrow> v3cUnitHeader_r (cd_syntax d) (bs_setPosition (bs_pos bs_new) fs) = Some ((t, ?syn), bs_setPosition (bs_pos b1) fs)"
    using blocksE [OF header_blocks [OF t32 hdr] new_inv bs_byteAligned_new] new by (metis add_0)
  have type: "\<And>fs. bs_extends fs b1 \<Longrightarrow> drop_bit 3 (bs_data fs ! 0) = t"
    using unit_type_byte [OF t32 hdr(1,3)] w1 by auto
  obtain c' b2 d' rst' where w2: "v3cUnitPayload_w t c b1 = Some (c', b2)" and b2: "bs_inv b2" "bs_byteAligned b2" "bs_extends b2 b1" "4 \<le> bs_size b2"
    and Q: "Q c' (d', rst')"
    and r2: "\<And>fs. bs_extends fs b2 \<Longrightarrow> length (bs_data fs) = bs_size b2 \<Longrightarrow> bs_size b2 < 2 ^ 64 \<Longrightarrow>
       v3cUnitPayload_r g t (of_nat (bs_size b2)) (d\<lparr>cd_syntax := ?syn\<rparr>, rst) (bs_setPosition (bs_pos b1) fs) = Some ((d', rst'), bs_setPosition (bs_pos b2) fs)"
    using payload [OF b1(1,2,4)] by auto
  note q = stat [OF Q]
  obtain n where n: "unitBytes 0 (bs_size b2) = Some n" using unitBytes_start by blast
  obtain st where st: "stat_setV3CUnitSize (unat t) n (cd_stat c') = Some st" "stat_ok st"
    using stat_setV3CUnitSize_Some [of "cd_stat c'" "unat t" n] q t by auto
  have ok: "unit_ok (vu_setBitstream b2 t vu_new)" using b2 by (simp add: unit_ok_def vu_setBitstream_def)
  have w: "v3cUnit_w t c bs_new = Some (c'\<lparr>cd_stat := st\<rparr>, b2)"
    using w1 w2 n st by (simp add: v3cUnit_w_def new)
  have r: "\<exists>e. v3cUnit_r g (vu_read (vu_setBitstream b2 t vu_new)) (d, rst) = Some ((t, (d'\<lparr>cd_stat := st\<rparr>, rst')), e)
      \<and> bs_beginning e = vu_bitstream (vu_read (vu_setBitstream b2 t vu_new))" if small: "bs_size b2 < 2 ^ 64"
  proof -
    have "0 < bs_size b2" using b2(4) by simp
    from unit_stream [OF b2(1,2) this small, of t] obtain fs
      where fs: "vu_getBitstream (vu_read (vu_setBitstream b2 t vu_new)) = bs_setPosition (bs_pos bs_new) fs"
      "bs_extends fs b2" "length (bs_data fs) = bs_size b2" "vu_size (vu_read (vu_setBitstream b2 t vu_new)) = of_nat (bs_size b2)"
      "vu_type (vu_read (vu_setBitstream b2 t vu_new)) = drop_bit 3 (bs_data fs ! 0)"
      "\<And>p. bs_beginning (bs_setPosition p fs) = vu_bitstream (vu_read (vu_setBitstream b2 t vu_new))"
      by metis
    have "lin (bs_pos b1) \<le> lin (bs_pos b2)" using b1(2,4) b2(2,4) by (simp add: lin_aligned)
    then have e1: "bs_extends fs b1" using fs(2) b2(3) bs_extends_trans by blast
    have pos: "bs_size (bs_setPosition (bs_pos bs_new) fs) = 0" "bs_size (bs_setPosition (bs_pos b2) fs) = bs_size b2"
      using new by (simp_all add: bs_size_def)
    show ?thesis
      using r1 [OF e1] r2 [OF fs(2,3) small] type [OF e1] n st q by (simp add: v3cUnit_r_def fs(1,4,5,6) pos)
  qed
  show thesis by (rule that [OF w Q st(2) ok r])
qed

section \<open>The units of a group of frames\<close>

text \<open>The two sides while the videos are coded: the writer has the parameter set, the atlas \<open>H\<close> and headers for it; the
  reader has the same parameter set and one atlas \<open>K\<close> with the videos \<open>vs\<close>.\<close>

definition writer_ready :: "V3CParameterSet \<Rightarrow> PCCAtlasHighLevelSyntax \<Rightarrow> Coder \<Rightarrow> bool" where
  "writer_ready sps H c \<longleftrightarrow> cd_activeVps c = Some sps \<and> syn_getAtlasHighLevelSyntax (cd_syntax c) = Some H \<and> stat_ok (cd_stat c)
     \<and> length (syn_v3cUnitHeader (cd_syntax c)) = 5
     \<and> (\<forall>k < 4. let h = syn_v3cUnitHeader (cd_syntax c) ! k in
          vuh_wf h \<and> vuh_atlasId h = 0 \<and> vuh_sequenceParamterSetId h = ucast (vps_v3cParameterSetId sps))"

definition reader_ready :: "V3CParameterSet \<Rightarrow> PCCAtlasHighLevelSyntax \<Rightarrow> PCCSEI list \<Rightarrow> PCCVideoBitstream list \<Rightarrow> PCCBitstreamStat \<Rightarrow> Coder \<Rightarrow> bool" where
  "reader_ready sps K S vs stat d \<longleftrightarrow> syn_vpccParameterSets (cd_syntax d) = [sps] \<and> length (syn_v3cUnitHeader (cd_syntax d)) = 5
     \<and> syn_atlasHLS (cd_syntax d) = [K\<lparr>hls_videoBitstream := vs\<rparr>] \<and> cd_sei d = [S] \<and> cd_stat d = stat"

text \<open>The number of an atlas unit is the index of its header plus one.\<close>

lemma unit_header_index: "carries_atlas t \<Longrightarrow> unat t - 1 < 4 \<and> unat t < 5"
  by (auto simp: carries_atlas_def)

lemma videoSubStream_w_video:
  assumes "syn_getVps syn (syn_activeVPS syn) = Some vps" and "syn_getV3CUnitHeader syn (unat t - 1) = Some vuh"
    and "vuh_atlasId vuh = 0" and "vps_multipleMaps vps 0 = Some m" and "videoType t vuh m = Some v"
    and "t = V3C_AVD \<Longrightarrow> \<exists>ai. vec_at (vps_attributeInformation vps) 0 = Some ai \<and> 0 < ai_attributeCount ai"
  shows "videoSubStream_w syn t stat bs = video_w syn v stat bs"
  using assms by (auto simp: videoSubStream_w_def videoType_def Let_def split: if_splits)

lemma videoSubStream_r_video:
  assumes "syn_getVps syn (syn_activeVPS syn) = Some vps" and "syn_getV3CUnitHeader syn (unat t - 1) = Some vuh"
    and "vps_multipleMaps vps 0 = Some m" and "videoType t vuh m = Some v"
    and "t = V3C_AVD \<Longrightarrow> \<exists>ai. vec_at (vps_attributeInformation vps) 0 = Some ai \<and> 0 < ai_attributeCount ai"
  shows "videoSubStream_r t n syn stat bs = video_r v n syn stat bs"
  using assms by (auto simp: videoSubStream_r_def videoType_def Let_def split: if_splits)

text \<open>What the reader keeps of a header selects the same video.\<close>

lemma videoType_result: "t \<in> {V3C_OVD, V3C_GVD, V3C_AVD} \<Longrightarrow> videoType t (vuh_result t old x) m = videoType t x m"
  by (auto simp: videoType_def vuh_result_def Let_def)

lemma vps_id_uint8: "unat (vps_v3cParameterSetId sps) < 2 ^ 4 \<Longrightarrow> ucast (ucast (vps_v3cParameterSetId sps) :: uint8_t) = vps_v3cParameterSetId sps"
  by (simp add: word_unat_eq_iff unat_ucast_small)

lemma reader_header:
  assumes w: "writer_ready sps H c" and r: "reader_ready sps K S vs stat d" and t: "carries_atlas t"
    and id: "unat (vps_v3cParameterSetId sps) < 2 ^ 4"
  defines "x \<equiv> syn_v3cUnitHeader (cd_syntax c) ! (unat t - 1)"
  defines "syn \<equiv> syn_after_header t x (cd_syntax d)"
  shows "syn_getVps syn (syn_activeVPS syn) = Some sps"
    and "syn_getV3CUnitHeader syn (unat t - 1) = Some (vuh_result t (syn_v3cUnitHeader (cd_syntax d) ! (unat t - 1)) x)"
    and "syn_atlasIndex syn = 0" and "syn_atlasHLS syn = [K\<lparr>hls_videoBitstream := vs\<rparr>]" and "length (syn_v3cUnitHeader syn) = 5"
    and "syn_vpccParameterSets syn = [sps]"
proof -
  have k: "unat t - 1 < 4" using unit_header_index [OF t] by simp
  have x: "vuh_atlasId x = 0" "vuh_sequenceParamterSetId x = ucast (vps_v3cParameterSetId sps)"
    using w k by (simp_all add: writer_ready_def Let_def x_def)
  have len: "unat t - Suc 0 < length (syn_v3cUnitHeader (cd_syntax d))" using r k by (simp add: reader_ready_def)
  note facts = syn_def syn_after_header_def t x vps_id_uint8 [OF id] r [unfolded reader_ready_def] k
  show "syn_getVps syn (syn_activeVPS syn) = Some sps" by (simp add: facts syn_getVps_def)
  show "syn_getV3CUnitHeader syn (unat t - 1) = Some (vuh_result t (syn_v3cUnitHeader (cd_syntax d) ! (unat t - 1)) x)"
    using len by (simp add: syn_def syn_after_header_def t syn_getV3CUnitHeader_def)
  show "syn_atlasIndex syn = 0" and "syn_atlasHLS syn = [K\<lparr>hls_videoBitstream := vs\<rparr>]" and "length (syn_v3cUnitHeader syn) = 5"
    and "syn_vpccParameterSets syn = [sps]"
    by (simp_all add: facts)
qed

lemma hls_getVideoBitstream_None: "type \<notin> vb_type ` set vs \<Longrightarrow> hls_getVideoBitstream type (K\<lparr>hls_videoBitstream := vs\<rparr>) = None"
  by (auto simp: hls_getVideoBitstream_def find_None_iff)

lemma syn_addVideo_atlas:
  assumes "syn_atlasIndex syn = 0" and "syn_atlasHLS syn = [K\<lparr>hls_videoBitstream := vs\<rparr>]"
  shows "syn_addVideo v data syn = syn\<lparr>syn_atlasHLS := [K\<lparr>hls_videoBitstream := vs @ [\<lparr>vb_data = data, vb_type = of_nat v\<rparr>]\<rparr>]\<rparr>"
  using assms by (simp add: syn_addVideo_def Let_def)

lemma vb_found: "hls_getVideoBitstream type H = Some x \<Longrightarrow> vb_type x = type"
  by (auto simp: hls_getVideoBitstream_def find_Some_iff)

lemma video_unit:
  assumes w: "writer_ready sps H c" and r: "reader_ready sps K S vs (cd_stat c) d"
    and t: "t \<in> {V3C_OVD, V3C_GVD, V3C_AVD}" and id: "unat (vps_v3cParameterSetId sps) < 2 ^ 4"
    and m: "vps_multipleMaps sps 0 = Some m" and v: "videoType t (syn_v3cUnitHeader (cd_syntax c) ! (unat t - 1)) m = Some v"
    and ai: "t = V3C_AVD \<Longrightarrow> \<exists>ai. vec_at (vps_attributeInformation sps) 0 = Some ai \<and> 0 < ai_attributeCount ai"
    and x: "hls_getVideoBitstream (of_nat v) H = Some x" "length (vb_data x) < 2 ^ 63" and new: "of_nat v \<notin> vb_type ` set vs"
  obtains c' d' bs' where "v3cUnit_w t c bs_new = Some (c', bs')" and "cd_syntax c' = cd_syntax c" and "writer_ready sps H c'"
    and "reader_ready sps K S (vs @ [x]) (cd_stat c') d'" and "unit_ok (vu_setBitstream bs' t vu_new)"
    and "bs_size bs' < 2 ^ 64 \<Longrightarrow> \<exists>e. v3cUnit_r g (vu_read (vu_setBitstream bs' t vu_new)) (d, rst) = Some ((t, (d', rst)), e)"
proof -
  have atlas: "carries_atlas t" using t by (auto simp: carries_atlas_def)
  note k = unit_header_index [OF atlas]
  let ?n = "length (vb_data x)" and ?h = "syn_v3cUnitHeader (cd_syntax c) ! (unat t - 1)"
  define syn where "syn = syn_after_header t ?h (cd_syntax d)"
  note rh = reader_header [OF w r atlas id, folded syn_def]
  have h: "vuh_wf ?h" "vuh_atlasId ?h = 0" "length (syn_v3cUnitHeader (cd_syntax c)) = 5" "stat_ok (cd_stat c)"
    "cd_activeVps c = Some sps" "syn_getAtlasHighLevelSyntax (cd_syntax c) = Some H"
    using w k by (simp_all add: writer_ready_def Let_def)
  have d: "length (syn_v3cUnitHeader (cd_syntax d)) = 5" "cd_stat d = cd_stat c" using r by (simp_all add: reader_ready_def)
  have vr: "v < NUM_VIDEO_TYPE" by (rule videoType_range [OF h(1) v])
  obtain stat where stat: "stat_setVideoBinSize v (of_nat ?n) (cd_stat c) = Some stat" "stat_ok stat"
    using stat_setVideoBinSize_Some [OF h(4) vr] by blast
  have vx: "syn_getVideoBitstream v (cd_syntax c) = Some x" using h(6) x(1) by (simp add: syn_getVideoBitstream_def)
  have none: "syn_getVideoBitstream v syn = None"
    using hls_getVideoBitstream_None [OF new] rh(3,4) by (simp add: syn_getVideoBitstream_def syn_getAtlasHighLevelSyntax_def)
  have add: "syn_addVideo v (vb_data x) syn = syn\<lparr>syn_atlasHLS := [K\<lparr>hls_videoBitstream := vs @ [x]\<rparr>]\<rparr>"
    using syn_addVideo_atlas [OF rh(3,4)] vb_found [OF x(1)] by (metis PCCVideoBitstream.surjective old.unit.exhaust)
  let ?c = "c\<lparr>cd_stat := stat\<rparr>" and ?d = "d\<lparr>cd_syntax := syn_addVideo v (vb_data x) syn, cd_stat := stat\<rparr>"
  have vw: "videoSubStream_w (cd_syntax c) t (cd_stat c) bs = video_w (cd_syntax c) v (cd_stat c) bs" for bs
    using h k by (intro videoSubStream_w_video [OF _ _ h(2) m v ai]) (simp_all add: cd_activeVps_def syn_getV3CUnitHeader_def)
  have v': "videoType t (vuh_result t (syn_v3cUnitHeader (cd_syntax d) ! (unat t - 1)) ?h) m = Some v"
    using videoType_result [OF t] v by simp
  have vr': "videoSubStream_r t n syn (cd_stat d) bs = video_r v n syn (cd_stat d) bs" for n bs
    by (rule videoSubStream_r_video [OF rh(1,2) m v' ai])
  have blocks: "blocks (\<lambda>bs. map_option snd (video_w (cd_syntax c) v (cd_stat c) bs)) (video_r v (of_nat ?n) syn (cd_stat d)) ?n
      (syn_addVideo v (vb_data x) syn, stat)"
    using x(2) rh(3,4) stat(1) d(2) by (intro video_blocks [OF vx h(4) _ none _ vr]) simp_all
  let ?Q = "\<lambda>c' r'. c' = ?c \<and> r' = (?d, rst)"
  show thesis
  proof (rule v3cUnit_roundtrip [where Q = ?Q and g = g and rst = rst and t = t, OF _ h(3) d(1) h(1), folded syn_def])
    fix bs assume b: "bs_inv bs" "bs_byteAligned bs" "bs_size bs = 4"
    obtain b2 where b2: "map_option snd (video_w (cd_syntax c) v (cd_stat c) bs) = Some b2" "bs_inv b2" "bs_byteAligned b2" "bs_extends b2 bs"
        "bs_size b2 = bs_size bs + ?n"
      and rd: "\<And>fs. bs_extends fs b2 \<Longrightarrow> video_r v (of_nat ?n) syn (cd_stat d) (bs_setPosition (bs_pos bs) fs) =
         Some ((syn_addVideo v (vb_data x) syn, stat), bs_setPosition (bs_pos b2) fs)"
      using blocksE [OF blocks b(1,2)] by metis
    have "video_w (cd_syntax c) v (cd_stat c) bs = Some (stat, b2)"
      using b2(1) vx stat(1) by (auto simp: video_w_def split: bind_splits)
    then have "v3cUnitPayload_w t c bs = Some (?c, b2)"
      using t h(5) vw by (auto simp: v3cUnitPayload_w_def)
    moreover have "of_nat (bs_size b2) - 4 = (of_nat ?n :: size_t)" using b2(5) b(3) by simp
    then have "v3cUnitPayload_r g t (of_nat (bs_size b2)) (d\<lparr>cd_syntax := syn\<rparr>, rst) (bs_setPosition (bs_pos bs) fs)
        = Some ((?d, rst), bs_setPosition (bs_pos b2) fs)" if "bs_extends fs b2" for fs
      using t vr' rd [OF that] by (auto simp: v3cUnitPayload_r_def)
    ultimately show "\<exists>c' bs' d' rst'. v3cUnitPayload_w t c bs = Some (c', bs') \<and> bs_inv bs' \<and> bs_byteAligned bs' \<and> bs_extends bs' bs
      \<and> 4 \<le> bs_size bs' \<and> ?Q c' (d', rst')
      \<and> (\<forall>fs. bs_extends fs bs' \<longrightarrow> length (bs_data fs) = bs_size bs' \<longrightarrow> bs_size bs' < 2 ^ 64 \<longrightarrow>
           v3cUnitPayload_r g t (of_nat (bs_size bs')) (d\<lparr>cd_syntax := syn\<rparr>, rst)
             (bs_setPosition (bs_pos bs) fs) = Some ((d', rst'), bs_setPosition (bs_pos bs') fs))"
      using b2 b(3) by auto
  next
    fix c' d' rst' assume "?Q c' (d', rst')"
    then show "stat_ok (cd_stat c') \<and> cd_stat d' = cd_stat c'" using stat(2) by simp
  next
    fix c' d' rst' st bs'
    assume u: "v3cUnit_w t c bs_new = Some (c'\<lparr>cd_stat := st\<rparr>, bs')" "?Q c' (d', rst')" "stat_ok st" "unit_ok (vu_setBitstream bs' t vu_new)"
      "bs_size bs' < 2 ^ 64 \<Longrightarrow> \<exists>e. v3cUnit_r g (vu_read (vu_setBitstream bs' t vu_new)) (d, rst) = Some ((t, (d'\<lparr>cd_stat := st\<rparr>, rst')), e)
        \<and> bs_beginning e = vu_bitstream (vu_read (vu_setBitstream bs' t vu_new))"
    have 1: "writer_ready sps H (c'\<lparr>cd_stat := st\<rparr>)" and 2: "cd_syntax (c'\<lparr>cd_stat := st\<rparr>) = cd_syntax c"
      using w u(2,3) by (simp_all add: writer_ready_def cd_activeVps_def)
    have 3: "reader_ready sps K S (vs @ [x]) (cd_stat (c'\<lparr>cd_stat := st\<rparr>)) (d'\<lparr>cd_stat := st\<rparr>)"
      using u(2) r rh(5,6) by (simp add: reader_ready_def add)
    have "rst' = rst" using u(2) by simp
    then show thesis using that [OF u(1) 2 1 3 u(4)] u(5) by auto
  qed (use k in simp)
qed

text \<open>A step \<open>W\<close> of \<open>encode\<close> emits the videos \<open>xs\<close>: from coders that are ready it appends complete units, and the loop of
  \<open>decode\<close> takes these units, whatever follows, and stores the videos.\<close>

definition ssvu_append :: "V3CUnit list \<Rightarrow> SampleStreamV3CUnit \<Rightarrow> SampleStreamV3CUnit" where
  "ssvu_append us ssvu = ssvu\<lparr>ssvu_v3cUnits := ssvu_v3cUnits ssvu @ us\<rparr>"

definition emits :: "SeiMemory \<Rightarrow> ReaderState \<Rightarrow> V3CParameterSet \<Rightarrow> PCCAtlasHighLevelSyntax \<Rightarrow> PCCAtlasHighLevelSyntax \<Rightarrow> PCCSEI list
    \<Rightarrow> (EncodeState \<Rightarrow> EncodeState option) \<Rightarrow> PCCVideoBitstream list \<Rightarrow> bool" where
  "emits g rst sps H K S W xs \<longleftrightarrow> (\<forall>vs c ssvu d. writer_ready sps H c \<longrightarrow> reader_ready sps K S vs (cd_stat c) d
     \<longrightarrow> distinct (map vb_type (vs @ xs)) \<longrightarrow>
     (\<exists>c' us d'. W (c, ssvu) = Some (c', ssvu_append us ssvu) \<and> writer_ready sps H c'
       \<and> reader_ready sps K S (vs @ xs) (cd_stat c') d' \<and> (\<forall>u \<in> set us. unit_ok u)
       \<and> ((\<forall>u \<in> set us. unit_bytes u < 2 ^ 64) \<longrightarrow>
            (\<forall>rest. decode_units g 1 (map vu_read us @ rest) (d, rst) = decode_units g 1 rest (d', rst)))))"

lemma emitsE:
  assumes "emits g rst sps H K S W xs" and "writer_ready sps H c" and "reader_ready sps K S vs (cd_stat c) d"
    and "distinct (map vb_type (vs @ xs))"
  obtains c' us d' where "W (c, ssvu) = Some (c', ssvu_append us ssvu)" and "writer_ready sps H c'"
    and "reader_ready sps K S (vs @ xs) (cd_stat c') d'" and "\<And>u. u \<in> set us \<Longrightarrow> unit_ok u"
    and "(\<And>u. u \<in> set us \<Longrightarrow> unit_bytes u < 2 ^ 64) \<Longrightarrow>
      \<forall>rest. decode_units g 1 (map vu_read us @ rest) (d, rst) = decode_units g 1 rest (d', rst)"
  using assms unfolding emits_def by meson

lemma ssvu_append_append: "ssvu_append us' (ssvu_append us ssvu) = ssvu_append (us @ us') ssvu" "ssvu_append [] ssvu = ssvu"
  by (simp_all add: ssvu_append_def)

lemma emits_bind:
  assumes 1: "emits g rst sps H K S W xs" and 2: "emits g rst sps H K S V ys"
  shows "emits g rst sps H K S (\<lambda>s. Option.bind (W s) V) (xs @ ys)"
  unfolding emits_def
proof (intro allI impI)
  fix vs c ssvu d
  assume a: "writer_ready sps H c" "reader_ready sps K S vs (cd_stat c) d" "distinct (map vb_type (vs @ xs @ ys))"
  then have dist: "distinct (map vb_type (vs @ xs))" "distinct (map vb_type ((vs @ xs) @ ys))" by auto
  obtain c1 us d1 where s1: "W (c, ssvu) = Some (c1, ssvu_append us ssvu)" "writer_ready sps H c1"
      "reader_ready sps K S (vs @ xs) (cd_stat c1) d1" "\<And>u. u \<in> set us \<Longrightarrow> unit_ok u"
    and r1: "(\<And>u. u \<in> set us \<Longrightarrow> unit_bytes u < 2 ^ 64) \<Longrightarrow>
      \<forall>rest. decode_units g 1 (map vu_read us @ rest) (d, rst) = decode_units g 1 rest (d1, rst)"
    using emitsE [OF 1 a(1,2) dist(1)] by metis
  obtain c2 us' d2 where s2: "V (c1, ssvu_append us ssvu) = Some (c2, ssvu_append us' (ssvu_append us ssvu))" "writer_ready sps H c2"
      "reader_ready sps K S ((vs @ xs) @ ys) (cd_stat c2) d2" "\<And>u. u \<in> set us' \<Longrightarrow> unit_ok u"
    and r2: "(\<And>u. u \<in> set us' \<Longrightarrow> unit_bytes u < 2 ^ 64) \<Longrightarrow>
      \<forall>rest. decode_units g 1 (map vu_read us' @ rest) (d1, rst) = decode_units g 1 rest (d2, rst)"
    using emitsE [OF 2 s1(2,3) dist(2)] by metis
  have "decode_units g 1 (map vu_read (us @ us') @ rest) (d, rst) = decode_units g 1 rest (d2, rst)"
    if "\<forall>u \<in> set (us @ us'). unit_bytes u < 2 ^ 64" for rest
    using r1 r2 that by simp
  then show "\<exists>c' us d'. Option.bind (W (c, ssvu)) V = Some (c', ssvu_append us ssvu) \<and> writer_ready sps H c'
       \<and> reader_ready sps K S (vs @ xs @ ys) (cd_stat c') d' \<and> (\<forall>u \<in> set us. unit_ok u)
       \<and> ((\<forall>u \<in> set us. unit_bytes u < 2 ^ 64) \<longrightarrow>
            (\<forall>rest. decode_units g 1 (map vu_read us @ rest) (d, rst) = decode_units g 1 rest (d', rst)))"
    using s1 s2 by (intro exI [of _ c2] exI [of _ "us @ us'"] exI [of _ d2]) (auto simp: ssvu_append_append)
qed

lemma emits_skip: "emits g rst sps H K S Some []"
  unfolding emits_def by (metis append_Nil append_Nil2 empty_iff empty_set list.map_disc_iff ssvu_append_append(2))

lemma emits_for:
  assumes "\<And>k. k < n \<Longrightarrow> emits g rst sps H K S (W k) (xs k)"
  shows "emits g rst sps H K S (for_loop [0..<n] W) (concat (map xs [0..<n]))"
  using assms
proof (induction n)
  case 0
  have "for_loop [] W = Some" by (rule ext) simp
  then show ?case by (simp add: emits_skip)
next
  case (Suc n)
  have "for_loop [0..<Suc n] W = (\<lambda>s. Option.bind (for_loop [0..<n] W s) (W n))"
    by (rule ext) (simp add: for_loop_snoc)
  then show ?case using emits_bind [OF Suc.IH, of "W n" "xs n"] Suc.prems by simp
qed

text \<open>Setting fields of a header other than the ids.\<close>

definition header_keeps :: "(V3CUnitHeader \<Rightarrow> V3CUnitHeader) \<Rightarrow> bool" where
  "header_keeps f \<longleftrightarrow> (\<forall>h. vuh_wf h \<longrightarrow> vuh_wf (f h) \<and> vuh_atlasId (f h) = vuh_atlasId h
     \<and> vuh_sequenceParamterSetId (f h) = vuh_sequenceParamterSetId h)"

lemma encode_header_ready:
  assumes w: "writer_ready sps H c" and t: "carries_atlas t" and f: "header_keeps f"
  obtains c' where "encode_header t f (c, ssvu) = Some (c', ssvu)" and "writer_ready sps H c'" and "cd_stat c' = cd_stat c"
    and "syn_v3cUnitHeader (cd_syntax c') ! (unat t - 1) = f (syn_v3cUnitHeader (cd_syntax c) ! (unat t - 1))"
proof -
  define k where "k = unat t - 1"
  let ?l = "syn_v3cUnitHeader (cd_syntax c)"
  have k: "k < 4" "length ?l = 5" using unit_header_index [OF t] w by (simp_all add: k_def writer_ready_def)
  have kk: "unat t - Suc 0 = k" by (simp add: k_def)
  let ?c = "c\<lparr>cd_syntax := (cd_syntax c)\<lparr>syn_v3cUnitHeader := ?l[k := f (?l ! k)]\<rparr>\<rparr>"
  have "encode_header t f (c, ssvu) = Some (?c, ssvu)"
    using k by (simp add: encode_header_def syn_getV3CUnitHeader_def syn_setV3CUnitHeader_def vec_set_def kk)
  moreover have "writer_ready sps H ?c"
    using w k f by (auto simp: writer_ready_def cd_activeVps_def syn_getVps_def syn_getAtlasHighLevelSyntax_def header_keeps_def Let_def nth_list_update)
  ultimately show thesis using that [of ?c] k by (simp add: kk)
qed

lemma emits_header:
  assumes "carries_atlas t" and "header_keeps f"
  shows "emits g rst sps H K S (encode_header t f) []"
  unfolding emits_def
proof (intro allI impI)
  fix vs c ssvu d
  assume a: "writer_ready sps H c" "reader_ready sps K S vs (cd_stat c) d"
  obtain c' where "encode_header t f (c, ssvu) = Some (c', ssvu)" "writer_ready sps H c'" "cd_stat c' = cd_stat c"
    using encode_header_ready [OF a(1) assms] by metis
  then show "\<exists>c' us d'. encode_header t f (c, ssvu) = Some (c', ssvu_append us ssvu) \<and> writer_ready sps H c'
       \<and> reader_ready sps K S (vs @ []) (cd_stat c') d' \<and> (\<forall>u \<in> set us. unit_ok u)
       \<and> ((\<forall>u \<in> set us. unit_bytes u < 2 ^ 64) \<longrightarrow>
            (\<forall>rest. decode_units g 1 (map vu_read us @ rest) (d, rst) = decode_units g 1 rest (d', rst)))"
    using a(2) by (intro exI [of _ c'] exI [of _ "[]"] exI [of _ d]) (simp add: ssvu_append_append)
qed

text \<open>The video of a slot, with the conditions under which its unit can be coded.\<close>

definition video_wf :: "PCCAtlasHighLevelSyntax \<Rightarrow> nat \<Rightarrow> PCCVideoBitstream \<Rightarrow> bool" where
  "video_wf H v x \<longleftrightarrow> hls_getVideoBitstream (of_nat v) H = Some x \<and> length (vb_data x) < 2 ^ 63"

lemma emits_unit:
  assumes w: "writer_ready sps H c" and r: "reader_ready sps K S vs (cd_stat c) d" and d: "distinct (map vb_type (vs @ [x]))"
    and t: "t \<in> {V3C_OVD, V3C_GVD, V3C_AVD}" and id: "unat (vps_v3cParameterSetId sps) < 2 ^ 4"
    and m: "vps_multipleMaps sps 0 = Some m" and v: "videoType t (syn_v3cUnitHeader (cd_syntax c) ! (unat t - 1)) m = Some v"
    and ai: "t = V3C_AVD \<Longrightarrow> \<exists>ai. vec_at (vps_attributeInformation sps) 0 = Some ai \<and> 0 < ai_attributeCount ai"
    and x: "video_wf H v x"
  shows "\<exists>c' us d'. encode_unit t (c, ssvu) = Some (c', ssvu_append us ssvu) \<and> writer_ready sps H c'
       \<and> reader_ready sps K S (vs @ [x]) (cd_stat c') d' \<and> (\<forall>u \<in> set us. unit_ok u)
       \<and> ((\<forall>u \<in> set us. unit_bytes u < 2 ^ 64) \<longrightarrow>
            (\<forall>rest. decode_units g 1 (map vu_read us @ rest) (d, rst) = decode_units g 1 rest (d', rst)))"
proof -
  have x': "hls_getVideoBitstream (of_nat v) H = Some x" "length (vb_data x) < 2 ^ 63" using x by (simp_all add: video_wf_def)
  have "of_nat v \<notin> vb_type ` set vs" using d vb_found [OF x'(1)] by auto
  from video_unit [OF w r t id m v ai x' this, of g rst] obtain c' d' bs'
    where u: "v3cUnit_w t c bs_new = Some (c', bs')" "writer_ready sps H c'" "reader_ready sps K S (vs @ [x]) (cd_stat c') d'"
      "unit_ok (vu_setBitstream bs' t vu_new)"
    and rd: "bs_size bs' < 2 ^ 64 \<Longrightarrow> \<exists>e. v3cUnit_r g (vu_read (vu_setBitstream bs' t vu_new)) (d, rst) = Some ((t, (d', rst)), e)"
    by metis
  have "t \<noteq> V3C_VPS" using t by auto
  then have "decode_units g 1 (vu_read (vu_setBitstream bs' t vu_new) # rest) (d, rst) = decode_units g 1 rest (d', rst)"
    if "unit_bytes (vu_setBitstream bs' t vu_new) < 2 ^ 64" for rest
    using rd that by (auto simp: unit_bytes_def vu_setBitstream_def)
  then show ?thesis
    using u by (intro exI [of _ c'] exI [of _ "[vu_setBitstream bs' t vu_new]"] exI [of _ d'])
      (simp add: encode_unit_def ssvu_append_def)
qed

lemma emits_video:
  assumes t: "t \<in> {V3C_OVD, V3C_GVD, V3C_AVD}" and id: "unat (vps_v3cParameterSetId sps) < 2 ^ 4"
    and f: "header_keeps f" and m: "vps_multipleMaps sps 0 = Some m" and v: "\<And>h. videoType t (f h) m = Some v"
    and ai: "t = V3C_AVD \<Longrightarrow> \<exists>ai. vec_at (vps_attributeInformation sps) 0 = Some ai \<and> 0 < ai_attributeCount ai"
    and x: "video_wf H v x"
  shows "emits g rst sps H K S (\<lambda>s. Option.bind (encode_header t f s) (encode_unit t)) [x]"
  unfolding emits_def
proof (intro allI impI)
  fix vs c ssvu d
  assume a: "writer_ready sps H c" "reader_ready sps K S vs (cd_stat c) d" "distinct (map vb_type (vs @ [x]))"
  have "carries_atlas t" using t by (auto simp: carries_atlas_def)
  then obtain c1 where c1: "encode_header t f (c, ssvu) = Some (c1, ssvu)" "writer_ready sps H c1" "cd_stat c1 = cd_stat c"
      "syn_v3cUnitHeader (cd_syntax c1) ! (unat t - 1) = f (syn_v3cUnitHeader (cd_syntax c) ! (unat t - 1))"
    using encode_header_ready [OF a(1) _ f] by metis
  then show "\<exists>c' us d'. Option.bind (encode_header t f (c, ssvu)) (encode_unit t) = Some (c', ssvu_append us ssvu) \<and> writer_ready sps H c'
       \<and> reader_ready sps K S (vs @ [x]) (cd_stat c') d' \<and> (\<forall>u \<in> set us. unit_ok u)
       \<and> ((\<forall>u \<in> set us. unit_bytes u < 2 ^ 64) \<longrightarrow>
            (\<forall>rest. decode_units g 1 (map vu_read us @ rest) (d, rst) = decode_units g 1 rest (d', rst)))"
    using emits_unit [OF c1(2) _ a(3) t id m _ ai x] a(2) v by simp
qed

lemma emits_occupancy:
  assumes id: "unat (vps_v3cParameterSetId sps) < 2 ^ 4" and m: "vps_multipleMaps sps 0 = Some m" and x: "video_wf H VIDEO_OCCUPANCY x"
  shows "emits g rst sps H K S (encode_unit V3C_OVD) [x]"
  unfolding emits_def
  using emits_unit [OF _ _ _ _ id m _ _ x, where t = V3C_OVD] by (simp add: videoType_def)

section \<open>The videos of an atlas\<close>

text \<open>The slots whose videos \<open>encode\<close> takes, in its order: \<open>m\<close> tells whether every map has a stream of its own, \<open>n\<close> is
  the number of maps minus one, \<open>raw\<close> whether there are auxiliary videos.\<close>

definition geometry_slots :: "bool \<Rightarrow> nat \<Rightarrow> bool \<Rightarrow> nat list" where
  "geometry_slots m n raw = (if m then map (\<lambda>k. VIDEO_GEOMETRY_D0 + k) [0..<n + 1] else [VIDEO_GEOMETRY])
     @ (if raw then [VIDEO_GEOMETRY_RAW] else [])"

definition partition_slots :: "bool \<Rightarrow> nat \<Rightarrow> bool \<Rightarrow> nat \<Rightarrow> nat list" where
  "partition_slots m n raw attDim = (if m then map (\<lambda>k. VIDEO_ATTRIBUTE_T0 + k * MAX_NUM_ATTR_PARTITIONS + attDim) [0..<n + 1]
     else [VIDEO_ATTRIBUTE + attDim]) @ (if raw then [VIDEO_ATTRIBUTE_RAW + attDim] else [])"

definition attribute_slots :: "bool \<Rightarrow> nat \<Rightarrow> bool \<Rightarrow> nat \<Rightarrow> nat list" where
  "attribute_slots m n raw partitionsMinus1 = concat (map (partition_slots m n raw) [0..<partitionsMinus1 + 1])"

definition atlas_slots_of :: "bool \<Rightarrow> nat \<Rightarrow> bool \<Rightarrow> AttributeInformation \<Rightarrow> nat list" where
  "atlas_slots_of m n raw ai = VIDEO_OCCUPANCY # geometry_slots m n raw
     @ concat (map (\<lambda>i. attribute_slots m n raw (unat (ai_attributeDimensionPartitionsMinus1 ai ! i))) [0..<unat (ai_attributeCount ai)])"

definition video_of :: "PCCAtlasHighLevelSyntax \<Rightarrow> nat \<Rightarrow> PCCVideoBitstream" where
  "video_of H v = the (hls_getVideoBitstream (of_nat v) H)"

lemma vuh_geometry_keeps: "k < 16 \<Longrightarrow> header_keeps (vuh_geometry k aux)"
  by (simp add: header_keeps_def vuh_geometry_def vuh_wf_def unat_of_nat)

lemma vuh_attribute_keeps: "i < 128 \<Longrightarrow> d < 32 \<Longrightarrow> k < 16 \<Longrightarrow> header_keeps (vuh_attribute i d k aux)"
  by (simp add: header_keeps_def vuh_attribute_def vuh_wf_def unat_of_nat)

lemma concat_singletons: "concat (map (\<lambda>k. [f k]) xs) = map f xs"
  by (induction xs) simp_all

text \<open>The videos of the maps, one unit each or one for all, and the auxiliary video; both kinds of video follow it.\<close>

lemma emits_maps:
  assumes multi: "\<And>k. m \<Longrightarrow> k < n + 1 \<Longrightarrow> emits g rst sps H K S (W k) [x k]" and one: "\<not> m \<Longrightarrow> emits g rst sps H K S V [y]"
    and aux: "raw \<Longrightarrow> emits g rst sps H K S U [z]"
  shows "emits g rst sps H K S (\<lambda>s. Option.bind (if m then for_loop [0..<n + 1] W s else V s) (\<lambda>s. if raw then U s else Some s))
    ((if m then map x [0..<n + 1] else [y]) @ (if raw then [z] else []))"
proof (rule emits_bind)
  have "emits g rst sps H K S (for_loop [0..<n + 1] W) (concat (map (\<lambda>k. [x k]) [0..<n + 1]))" if m
    using multi [OF that] by (rule emits_for)
  with one show "emits g rst sps H K S (\<lambda>s. if m then for_loop [0..<n + 1] W s else V s) (if m then map x [0..<n + 1] else [y])"
    by (cases m) (simp_all only: if_True if_False concat_singletons not_True_eq_False not_False_eq_True)
  show "emits g rst sps H K S (\<lambda>s. if raw then U s else Some s) (if raw then [z] else [])"
    using aux emits_skip by (cases raw) simp_all
qed

lemma emits_geometry:
  assumes id: "unat (vps_v3cParameterSetId sps) < 2 ^ 4" and m: "vps_multipleMaps sps 0 = Some m"
    and n: "vec_at (vps_mapCountMinus1 sps) 0 = Some n" "unat n < 16" and raw: "encode_raw sps asps 0 = Some raw"
    and x: "\<And>v. v \<in> set (geometry_slots m (unat n) raw) \<Longrightarrow> video_wf H v (video_of H v)"
  shows "emits g rst sps H K S (encode_geometry sps asps 0) (map (video_of H) (geometry_slots m (unat n) raw))"
proof -
  let ?W = "\<lambda>k aux s. Option.bind (encode_header V3C_GVD (vuh_geometry k aux) s) (encode_unit V3C_GVD)"
  have unit: "emits g rst sps H K S (?W k aux) [video_of H v]"
    if "k < 16" and "\<And>h. videoType V3C_GVD (vuh_geometry k aux h) m = Some v" and "v \<in> set (geometry_slots m (unat n) raw)" for k aux v
    by (rule emits_video [OF _ id vuh_geometry_keeps [OF that(1)] m that(2) _ x [OF that(3)]]) simp_all
  have eq: "encode_geometry sps asps 0 = (\<lambda>s. Option.bind (if m then for_loop [0..<unat n + 1] (\<lambda>k. ?W k False) s else ?W 0 False s)
      (\<lambda>s. if raw then ?W 0 True s else Some s))"
    by (rule ext) (simp only: encode_geometry_def m n(1) raw Option.bind.bind_lunit)
  have slots: "map (video_of H) (geometry_slots m (unat n) raw) =
      (if m then map (\<lambda>k. video_of H (VIDEO_GEOMETRY_D0 + k)) [0..<unat n + 1] else [video_of H VIDEO_GEOMETRY])
      @ (if raw then [video_of H VIDEO_GEOMETRY_RAW] else [])"
    by (simp add: geometry_slots_def)
  show ?thesis
    unfolding eq slots
    by (rule emits_maps; rule unit) (use n(2) in \<open>auto simp: videoType_def vuh_geometry_def geometry_slots_def unat_of_nat simp del: upt_Suc\<close>)
qed

lemma emits_partition:
  assumes id: "unat (vps_v3cParameterSetId sps) < 2 ^ 4" and m: "vps_multipleMaps sps 0 = Some m"
    and n: "vec_at (vps_mapCountMinus1 sps) 0 = Some n" "unat n < 16" and raw: "encode_raw sps asps 0 = Some raw"
    and ai: "\<exists>ai. vec_at (vps_attributeInformation sps) 0 = Some ai \<and> 0 < ai_attributeCount ai"
    and i: "i < 128" "d < 32"
    and x: "\<And>v. v \<in> set (partition_slots m (unat n) raw d) \<Longrightarrow> video_wf H v (video_of H v)"
  shows "emits g rst sps H K S (encode_partition sps asps 0 i d) (map (video_of H) (partition_slots m (unat n) raw d))"
proof -
  let ?f = "\<lambda>vuh. vuh\<lparr>vuh_attributeDimensionIndex := of_nat d\<rparr>"
  let ?W = "\<lambda>k aux s. Option.bind (encode_header V3C_AVD (vuh_attribute i d k aux) s) (encode_unit V3C_AVD)"
  have unit: "emits g rst sps H K S (?W k aux) [video_of H v]"
    if "k < 16" and "\<And>h. videoType V3C_AVD (vuh_attribute i d k aux h) m = Some v" and "v \<in> set (partition_slots m (unat n) raw d)" for k aux v
    by (rule emits_video [OF _ id vuh_attribute_keeps [OF i that(1)] m that(2) ai x [OF that(3)]]) simp_all
  let ?V = "\<lambda>s. Option.bind (if m then for_loop [0..<unat n + 1] (\<lambda>k. ?W k False) s else ?W 0 False s)
      (\<lambda>s. if raw then ?W 0 True s else Some s)"
  have eq: "encode_partition sps asps 0 i d = (\<lambda>s. Option.bind (encode_header V3C_AVD ?f s) ?V)"
    by (rule ext) (simp only: encode_partition_def m n(1) raw Option.bind.bind_lunit)
  have slots: "map (video_of H) (partition_slots m (unat n) raw d) =
      (if m then map (\<lambda>k. video_of H (VIDEO_ATTRIBUTE_T0 + k * MAX_NUM_ATTR_PARTITIONS + d)) [0..<unat n + 1] else [video_of H (VIDEO_ATTRIBUTE + d)])
      @ (if raw then [video_of H (VIDEO_ATTRIBUTE_RAW + d)] else [])"
    by (simp add: partition_slots_def)
  have head: "emits g rst sps H K S (encode_header V3C_AVD ?f) []"
    using i by (intro emits_header) (simp_all add: carries_atlas_def header_keeps_def vuh_wf_def unat_of_nat)
  have "emits g rst sps H K S ?V (map (video_of H) (partition_slots m (unat n) raw d))"
    unfolding slots
    by (rule emits_maps; rule unit) (use n(2) i in \<open>auto simp: videoType_def vuh_attribute_def partition_slots_def unat_of_nat simp del: upt_Suc\<close>)
  from emits_bind [OF head this] show ?thesis unfolding eq by simp
qed

lemma emits_attribute:
  assumes id: "unat (vps_v3cParameterSetId sps) < 2 ^ 4" and m: "vps_multipleMaps sps 0 = Some m"
    and n: "vec_at (vps_mapCountMinus1 sps) 0 = Some n" "unat n < 16" and raw: "encode_raw sps asps 0 = Some raw"
    and ai: "vec_at (vps_attributeInformation sps) 0 = Some ai" and p: "vec_at (ai_attributeDimensionPartitionsMinus1 ai) i = Some p" "unat p < 32"
    and i: "i < unat (ai_attributeCount ai)" "i < 128"
    and x: "\<And>v. v \<in> set (attribute_slots m (unat n) raw (unat p)) \<Longrightarrow> video_wf H v (video_of H v)"
  shows "emits g rst sps H K S (encode_attribute sps asps 0 i) (map (video_of H) (attribute_slots m (unat n) raw (unat p)))"
proof -
  let ?f = "\<lambda>vuh. vuh\<lparr>vuh_attributeIndex := of_nat i\<rparr>"
  have count: "0 < ai_attributeCount ai" using i(1) by (auto simp: word_gt_0)
  have eq: "encode_attribute sps asps 0 i = (\<lambda>s. Option.bind (encode_header V3C_AVD ?f s) (for_loop [0..<unat p + 1] (encode_partition sps asps 0 i)))"
    by (rule ext) (simp only: encode_attribute_def ai p(1) Option.bind.bind_lunit)
  have slots: "map (video_of H) (attribute_slots m (unat n) raw (unat p)) =
      concat (map (\<lambda>d. map (video_of H) (partition_slots m (unat n) raw d)) [0..<unat p + 1])"
    by (simp add: attribute_slots_def map_concat comp_def)
  have head: "emits g rst sps H K S (encode_header V3C_AVD ?f) []"
    using i by (intro emits_header) (simp_all add: carries_atlas_def header_keeps_def vuh_wf_def unat_of_nat)
  have "emits g rst sps H K S (for_loop [0..<unat p + 1] (encode_partition sps asps 0 i))
      (concat (map (\<lambda>d. map (video_of H) (partition_slots m (unat n) raw d)) [0..<unat p + 1]))"
  proof (intro emits_for emits_partition [OF id m n raw _ i(2)])
    show "video_wf H v (video_of H v)" if "d < unat p + 1" and "v \<in> set (partition_slots m (unat n) raw d)" for d v
      using that by (intro x) (auto simp: attribute_slots_def simp del: upt_Suc)
  qed (use ai count p in auto)
  from emits_bind [OF head this] show ?thesis unfolding eq slots by simp
qed

text \<open>With at most one attribute every video is taken once.\<close>

lemma distinct_concat_key:
  assumes "\<And>i. i < n \<Longrightarrow> distinct (f i)" and "\<And>i v. i < n \<Longrightarrow> v \<in> set (f i) \<Longrightarrow> key v = i"
  shows "distinct (concat (map f [0..<n]))"
  using assms
proof (induction n)
  case (Suc n)
  have "v \<notin> set (f n)" if "i < n" and "v \<in> set (f i)" for i v
    using that Suc.prems(2) [of i v] Suc.prems(2) [of n v] by auto
  then show ?case using Suc by auto
qed simp

lemma partition_slots_distinct:
  assumes "n < 16" and "d < 32"
  shows "distinct (partition_slots m n raw d)"
  using assms by (auto simp: partition_slots_def distinct_map inj_on_def simp del: upt_Suc)

definition slot_partition :: "bool \<Rightarrow> nat \<Rightarrow> nat" where
  "slot_partition m v = (if VIDEO_ATTRIBUTE_RAW \<le> v then v - VIDEO_ATTRIBUTE_RAW
     else if m then (v - VIDEO_ATTRIBUTE_T0) mod MAX_NUM_ATTR_PARTITIONS else v - VIDEO_ATTRIBUTE)"

lemma partition_slots_partition:
  assumes "n < 16" and "d < 32" and "v \<in> set (partition_slots m n raw d)"
  shows "slot_partition m v = d" and "VIDEO_ATTRIBUTE \<le> v" and "v < NUM_VIDEO_TYPE"
  using assms by (auto simp: partition_slots_def slot_partition_def simp del: upt_Suc split: if_splits)

lemma geometry_slots_range:
  assumes "n < 16" and "v \<in> set (geometry_slots m n raw)"
  shows "0 < v" and "v < VIDEO_ATTRIBUTE"
  using assms by (auto simp: geometry_slots_def simp del: upt_Suc split: if_splits)

lemma attribute_slots_range:
  assumes "n < 16" and "p < 32" and "v \<in> set (attribute_slots m n raw p)"
  shows "VIDEO_ATTRIBUTE \<le> v" and "v < NUM_VIDEO_TYPE"
proof -
  obtain d where "d < 32" and "v \<in> set (partition_slots m n raw d)"
    using assms by (auto simp: attribute_slots_def less_Suc_eq_le simp del: upt_Suc) (meson le_less_trans)
  then show "VIDEO_ATTRIBUTE \<le> v" and "v < NUM_VIDEO_TYPE" using partition_slots_partition [OF assms(1)] by blast+
qed

lemma attribute_slots_distinct:
  assumes "n < 16" and "p < 32"
  shows "distinct (attribute_slots m n raw p)"
  unfolding attribute_slots_def
  using assms partition_slots_partition(1) [OF assms(1)] partition_slots_distinct [OF assms(1)]
  by (intro distinct_concat_key [where key = "slot_partition m"]) simp_all

lemma atlas_slots_of_cases:
  assumes "unat (ai_attributeCount ai) \<le> 1"
  obtains "atlas_slots_of m n raw ai = VIDEO_OCCUPANCY # geometry_slots m n raw"
    | "unat (ai_attributeCount ai) = 1"
      "atlas_slots_of m n raw ai = VIDEO_OCCUPANCY # geometry_slots m n raw
         @ attribute_slots m n raw (unat (ai_attributeDimensionPartitionsMinus1 ai ! 0))"
proof (cases "unat (ai_attributeCount ai) = 1")
  case True
  then show ?thesis using that(2) unfolding atlas_slots_of_def True by simp
next
  case False
  then have "unat (ai_attributeCount ai) = 0" using assms by simp
  then show ?thesis using that(1) unfolding atlas_slots_of_def by simp
qed

lemma atlas_slots_distinct:
  assumes n: "n < 16" and one: "unat (ai_attributeCount ai) \<le> 1"
    and p: "unat (ai_attributeCount ai) = 1 \<Longrightarrow> unat (ai_attributeDimensionPartitionsMinus1 ai ! 0) < 32"
  shows "distinct (atlas_slots_of m n raw ai)" and "\<forall>v \<in> set (atlas_slots_of m n raw ai). v < NUM_VIDEO_TYPE"
proof -
  have g: "distinct (geometry_slots m n raw)"
    using n by (auto simp: geometry_slots_def distinct_map inj_on_def simp del: upt_Suc)
  note range = geometry_slots_range [OF n, of _ m raw]
  have "distinct (atlas_slots_of m n raw ai) \<and> (\<forall>v \<in> set (atlas_slots_of m n raw ai). v < NUM_VIDEO_TYPE)"
  proof (rule atlas_slots_of_cases [OF one, of m n raw])
    assume "atlas_slots_of m n raw ai = VIDEO_OCCUPANCY # geometry_slots m n raw"
    then show ?thesis using g range by fastforce
  next
    let ?p = "unat (ai_attributeDimensionPartitionsMinus1 ai ! 0)"
    assume a: "unat (ai_attributeCount ai) = 1"
      "atlas_slots_of m n raw ai = VIDEO_OCCUPANCY # geometry_slots m n raw @ attribute_slots m n raw ?p"
    then show ?thesis
      using g range attribute_slots_range [OF n p [OF a(1)], of _ m raw] attribute_slots_distinct [OF n p [OF a(1)], of m raw]
      by (force simp: disjoint_iff)
  qed
  then show "distinct (atlas_slots_of m n raw ai)" and "\<forall>v \<in> set (atlas_slots_of m n raw ai). v < NUM_VIDEO_TYPE" by blast+
qed

lemma videos_distinct:
  assumes "distinct vs" and "\<forall>v \<in> set vs. v < NUM_VIDEO_TYPE" and "\<And>v. v \<in> set vs \<Longrightarrow> video_wf H v (video_of H v)"
  shows "distinct (map vb_type (map (video_of H) vs))"
proof -
  have eq: "map vb_type (map (video_of H) vs) = map of_nat vs"
    using assms(3) vb_found by (auto simp: video_wf_def comp_def)
  have "inj_on (of_nat :: nat \<Rightarrow> uint32_t) (set vs)"
  proof (rule inj_onI)
    fix v w assume vw: "v \<in> set vs" "w \<in> set vs" "(of_nat v :: uint32_t) = of_nat w"
    then have "v < NUM_VIDEO_TYPE" and "w < NUM_VIDEO_TYPE" using assms(2) by blast+
    then have "unat (of_nat v :: uint32_t) = v" and "unat (of_nat w :: uint32_t) = w" by (simp_all add: unat_of_nat)
    with vw(3) show "v = w" by metis
  qed
  then show ?thesis unfolding eq using assms(1) by (simp add: distinct_map)
qed

section \<open>The parameter set and the atlas\<close>

lemma aligns_vps: "aligns (v3cParameterSet_w x)"
  unfolding v3cParameterSet_w_def [abs_def]
  by ((rule aligns_trailing(2) aligns_Some [OF aligns_trailing(2)] aligns_bind aligns_opt aligns_let)+)

text \<open>The store of the reader after a parameter set.\<close>

definition reader_vps :: "V3CParameterSet \<Rightarrow> Coder \<Rightarrow> Coder" where
  "reader_vps sps d = (let n = unat (vps_atlasCountMinus1 sps + 1) in
     d\<lparr>cd_syntax := syn_allocateAtlasHLS n ((cd_syntax d)\<lparr>syn_vpccParameterSets := syn_vpccParameterSets (cd_syntax d) @ [sps]\<rparr>),
       cd_sei := vec_resize n [] (cd_sei d)\<rparr>)"

lemma vps_r_id: "v3cParameterSet_r (vps_new\<lparr>vps_v3cParameterSetId := n\<rparr>) = v3cParameterSet_r vps_new"
  by (rule ext) (simp add: v3cParameterSet_r_def vps_new_def)

lemma vpsUnit_codes:
  assumes wf: "vps_wf sps"
  shows "codes (v3cParameterSet_w sps) (vpsUnit_r d) (reader_vps sps d)"
proof -
  let ?F = "\<lambda>vps. d\<lparr>cd_syntax := syn_allocateAtlasHLS (unat (vps_atlasCountMinus1 vps + 1))
       ((cd_syntax d)\<lparr>syn_vpccParameterSets := syn_vpccParameterSets (cd_syntax d) @ [vps]\<rparr>),
       cd_sei := vec_resize (unat (vps_atlasCountMinus1 vps + 1)) [] (cd_sei d)\<rparr>"
  have eq: "vpsUnit_r d = (\<lambda>bs. Option.bind (v3cParameterSet_r vps_new bs) (\<lambda>(vps, bs). Some (?F vps, bs)))"
    by (rule ext) (simp add: vpsUnit_r_def syn_addV3CParameterSet_def syn_addV3CParameterSetId_def vps_r_id Let_def)
  show ?thesis
    unfolding eq by (rule codes_map [OF vps.wr_rd [OF wf]]) (simp add: reader_vps_def Let_def)
qed

lemma vps_unit:
  assumes c: "cd_activeVps c = Some sps" "stat_ok (cd_stat c)" "length (syn_v3cUnitHeader (cd_syntax c)) = 5" and wf: "vps_wf sps"
    and d: "length (syn_v3cUnitHeader (cd_syntax d)) = 5" "cd_stat d = cd_stat c"
  obtains st bs' where "v3cUnit_w V3C_VPS c bs_new = Some (c\<lparr>cd_stat := st\<rparr>, bs')" and "stat_ok st"
    and "unit_ok (vu_setBitstream bs' V3C_VPS vu_new)"
    and "bs_size bs' < 2 ^ 64 \<Longrightarrow> \<exists>e. v3cUnit_r g (vu_read (vu_setBitstream bs' V3C_VPS vu_new)) (d, rst)
       = Some ((V3C_VPS, ((reader_vps sps d)\<lparr>cd_stat := st\<rparr>, rst)), e) \<and> bs_beginning e = vu_bitstream (vu_read (vu_setBitstream bs' V3C_VPS vu_new))"
proof -
  let ?Q = "\<lambda>c' r'. c' = c \<and> r' = (reader_vps sps d, rst)"
  have no: "\<not> carries_atlas V3C_VPS" by (simp add: carries_atlas_def)
  show thesis
  proof (rule v3cUnit_roundtrip [where Q = ?Q and g = g and rst = rst and t = V3C_VPS, OF _ c(3) d(1)])
    fix bs assume b: "bs_inv bs" "bs_byteAligned bs" "bs_size bs = 4"
    obtain b2 where b2: "v3cParameterSet_w sps bs = Some b2" "bs_inv b2" "bs_extends b2 bs"
      and rd: "\<And>fs. bs_extends fs b2 \<Longrightarrow> vpsUnit_r d (bs_setPosition (bs_pos bs) fs) = Some (reader_vps sps d, bs_setPosition (bs_pos b2) fs)"
      using codesE [OF vpsUnit_codes [OF wf] b(1)] by metis
    have al: "bs_byteAligned b2" using aligns_vps b2(1) by (simp add: aligns_def)
    have "lin (bs_pos bs) \<le> lin (bs_pos b2)" using codes_mono(2) [OF vps.wr_rd [OF wf] b(1) b2(1)] .
    then have "4 \<le> bs_size b2" using b al by (simp add: lin_aligned)
    then show "\<exists>c' bs' d' rst'. v3cUnitPayload_w V3C_VPS c bs = Some (c', bs') \<and> bs_inv bs' \<and> bs_byteAligned bs' \<and> bs_extends bs' bs
      \<and> 4 \<le> bs_size bs' \<and> ?Q c' (d', rst')
      \<and> (\<forall>fs. bs_extends fs bs' \<longrightarrow> length (bs_data fs) = bs_size bs' \<longrightarrow> bs_size bs' < 2 ^ 64 \<longrightarrow>
           v3cUnitPayload_r g V3C_VPS (of_nat (bs_size bs')) (d\<lparr>cd_syntax := syn_after_header V3C_VPS
             (syn_v3cUnitHeader (cd_syntax c) ! (unat V3C_VPS - 1)) (cd_syntax d)\<rparr>, rst)
             (bs_setPosition (bs_pos bs) fs) = Some ((d', rst'), bs_setPosition (bs_pos bs') fs))"
      using b2 al rd c(1) no by (intro exI [of _ c] exI [of _ b2] exI [of _ "reader_vps sps d"] exI [of _ rst])
        (simp add: v3cUnitPayload_w_def v3cUnitPayload_r_def syn_after_header_def)
  next
    fix c' d' rst' assume "?Q c' (d', rst')"
    then show "stat_ok (cd_stat c') \<and> cd_stat d' = cd_stat c'" using c(2) d(2) by (simp add: reader_vps_def Let_def)
  next
    fix c' d' rst' st bs'
    assume "v3cUnit_w V3C_VPS c bs_new = Some (c'\<lparr>cd_stat := st\<rparr>, bs')" "?Q c' (d', rst')" "stat_ok st" "unit_ok (vu_setBitstream bs' V3C_VPS vu_new)"
      "bs_size bs' < 2 ^ 64 \<Longrightarrow> \<exists>e. v3cUnit_r g (vu_read (vu_setBitstream bs' V3C_VPS vu_new)) (d, rst) = Some ((V3C_VPS, (d'\<lparr>cd_stat := st\<rparr>, rst')), e)
        \<and> bs_beginning e = vu_bitstream (vu_read (vu_setBitstream bs' V3C_VPS vu_new))"
    then show thesis using that [of st bs'] by simp
  qed (use no in simp_all)
qed

lemma atlas_read_videos: "hls_videoBitstream (as_hls (atlas_read hls_new st)) = []"
  by (simp add: atlas_read_def hls_layers_def hls_params_def hls_new_def Let_def)

text \<open>The atlas of the reader before and after the atlas unit.\<close>

lemma atlas_unit:
  assumes w: "writer_ready sps H c" and r: "reader_ready sps hls_new [] [] (cd_stat c) d" and id: "unat (vps_v3cParameterSetId sps) < 2 ^ 4"
    and st: "cd_getStore c = Some st" "as_hls st = H" and wf: "atlas_wf g hls_new rst st" and small: "atlas_small st"
  obtains c' d' bs' where "v3cUnit_w V3C_AD c bs_new = Some (c', bs')" and "writer_ready sps H c'"
    and "reader_ready sps (as_hls (atlas_read hls_new st)) (as_sei (atlas_read hls_new st)) [] (cd_stat c') d'"
    and "unit_ok (vu_setBitstream bs' V3C_AD vu_new)"
    and "bs_size bs' < 2 ^ 64 \<Longrightarrow> \<exists>e. v3cUnit_r g (vu_read (vu_setBitstream bs' V3C_AD vu_new)) (d, rst)
       = Some ((V3C_AD, (d', atlas_state hls_new rst st)), e)"
proof -
  have ad: "carries_atlas V3C_AD" by (simp add: carries_atlas_def)
  define h where "h = syn_v3cUnitHeader (cd_syntax c) ! (unat V3C_AD - 1)"
  define syn where "syn = syn_after_header V3C_AD h (cd_syntax d)"
  note rh = reader_header [OF w r ad id, folded h_def, folded syn_def]
  have h: "vuh_wf h" "length (syn_v3cUnitHeader (cd_syntax c)) = 5" "stat_ok (cd_stat c)"
    "cd_activeVps c = Some sps" "syn_getAtlasHighLevelSyntax (cd_syntax c) = Some H"
    using w by (simp_all add: writer_ready_def h_def Let_def)
  have d: "length (syn_v3cUnitHeader (cd_syntax d)) = 5" "cd_stat d = cd_stat c" "cd_sei d = [[]]" using r by (simp_all add: reader_ready_def)
  let ?K = "atlas_read hls_new st"
  have "hls_new\<lparr>hls_videoBitstream := []\<rparr> = hls_new" by (simp add: hls_new_def)
  then have store: "cd_getStore (d\<lparr>cd_syntax := syn\<rparr>) = Some \<lparr>as_hls = hls_new, as_sei = []\<rparr>"
    using rh(3,4) d(3) by (simp add: cd_getStore_def syn_getAtlasHighLevelSyntax_def)
  let ?d = "cd_setStore ?K (d\<lparr>cd_syntax := syn\<rparr>)"
  let ?Q = "\<lambda>c' r'. (\<exists>st'. store_ok g st st' \<and> c' = cd_setStore st' c) \<and> r' = (?d, atlas_state hls_new rst st)"
  have empty: "hls_empty hls_new" by (simp add: hls_empty_def hls_new_def)
  have keeps: "writer_ready sps H (cd_setStore st' c)" "cd_stat (cd_setStore st' c) = cd_stat c" if "store_ok g st st'" for st'
  proof -
    have "syn_atlasHLS (cd_syntax c) ! syn_atlasIndex (cd_syntax c) = as_hls st'"
      using that st(2) h(5) by (simp add: store_ok_def syn_getAtlasHighLevelSyntax_def vec_at_eq_Some)
    then have "(syn_atlasHLS (cd_syntax c))[syn_atlasIndex (cd_syntax c) := as_hls st'] = syn_atlasHLS (cd_syntax c)"
      by (metis list_update_id)
    then have "cd_syntax (cd_setStore st' c) = cd_syntax c" by (simp add: cd_setStore_def Let_def)
    then show "writer_ready sps H (cd_setStore st' c)" "cd_stat (cd_setStore st' c) = cd_stat c"
      using w by (simp_all add: writer_ready_def cd_activeVps_def cd_setStore_def Let_def)
  qed
  show thesis
  proof (rule v3cUnit_roundtrip [where Q = ?Q and g = g and rst = rst and t = V3C_AD, OF _ h(2) d(1), folded h_def, folded syn_def])
    fix bs assume b: "bs_inv bs" "bs_byteAligned bs" "bs_size bs = 4"
    obtain st' b2 where b2: "atlasSubStream_w st bs = Some (st', b2)" "store_ok g st st'" "bs_inv b2" "bs_byteAligned b2"
        "bs_extends b2 bs" "bs_size bs < bs_size b2"
      and rd: "\<And>fs. bs_extends fs b2 \<Longrightarrow> length (bs_data fs) = bs_size b2 \<Longrightarrow>
        atlasSubStream_r g rst \<lparr>as_hls = hls_new, as_sei = []\<rparr> (bs_setPosition (bs_pos bs) fs) =
          Some ((?K, atlas_state hls_new rst st), bs_setPosition (bs_pos b2) fs)"
      using atlasSubStream_stream [OF wf empty small b(1,2)] by metis
    have "v3cUnitPayload_w V3C_AD c bs = Some (cd_setStore st' c, b2)"
      using b2(1) h(4) st(1) by (simp add: v3cUnitPayload_w_def)
    moreover have "v3cUnitPayload_r g V3C_AD n (d\<lparr>cd_syntax := syn\<rparr>, rst) (bs_setPosition (bs_pos bs) fs)
        = Some ((?d, atlas_state hls_new rst st), bs_setPosition (bs_pos b2) fs)"
      if "bs_extends fs b2" and "length (bs_data fs) = bs_size b2" for fs n
      using rd [OF that] store by (simp add: v3cUnitPayload_r_def)
    ultimately show "\<exists>c' bs' d' rst'. v3cUnitPayload_w V3C_AD c bs = Some (c', bs') \<and> bs_inv bs' \<and> bs_byteAligned bs' \<and> bs_extends bs' bs
      \<and> 4 \<le> bs_size bs' \<and> ?Q c' (d', rst')
      \<and> (\<forall>fs. bs_extends fs bs' \<longrightarrow> length (bs_data fs) = bs_size bs' \<longrightarrow> bs_size bs' < 2 ^ 64 \<longrightarrow>
           v3cUnitPayload_r g V3C_AD (of_nat (bs_size bs')) (d\<lparr>cd_syntax := syn\<rparr>, rst)
             (bs_setPosition (bs_pos bs) fs) = Some ((d', rst'), bs_setPosition (bs_pos bs') fs))"
      using b2 b(3) by (intro exI [of _ "cd_setStore st' c"] exI [of _ b2] exI [of _ ?d] exI [of _ "atlas_state hls_new rst st"]) auto
  next
    fix c' d' rst' assume "?Q c' (d', rst')"
    then show "stat_ok (cd_stat c') \<and> cd_stat d' = cd_stat c'" using keeps(2) h(3) d(2) by (auto simp: cd_setStore_def Let_def)
  next
    fix c' d' rst' s bs'
    assume u: "v3cUnit_w V3C_AD c bs_new = Some (c'\<lparr>cd_stat := s\<rparr>, bs')" "?Q c' (d', rst')" "stat_ok s" "unit_ok (vu_setBitstream bs' V3C_AD vu_new)"
      "bs_size bs' < 2 ^ 64 \<Longrightarrow> \<exists>e. v3cUnit_r g (vu_read (vu_setBitstream bs' V3C_AD vu_new)) (d, rst) = Some ((V3C_AD, (d'\<lparr>cd_stat := s\<rparr>, rst')), e)
        \<and> bs_beginning e = vu_bitstream (vu_read (vu_setBitstream bs' V3C_AD vu_new))"
    then have "writer_ready sps H c'" using keeps(1) by auto
    then have w': "writer_ready sps H (c'\<lparr>cd_stat := s\<rparr>)" using u(3) by (simp add: writer_ready_def cd_activeVps_def)
    have "as_hls ?K = (as_hls ?K)\<lparr>hls_videoBitstream := []\<rparr>" using atlas_read_videos [of st] by simp
    then have r': "reader_ready sps (as_hls ?K) (as_sei ?K) [] (cd_stat (c'\<lparr>cd_stat := s\<rparr>)) (d'\<lparr>cd_stat := s\<rparr>)"
      using u(2) rh(3-6) d(3) by (simp add: reader_ready_def cd_setStore_def Let_def)
    have "rst' = atlas_state hls_new rst st" using u(2) by simp
    then show thesis using that [OF u(1) w' r' u(4)] u(5) by auto
  qed (use h(1) in simp_all)
qed

section \<open>A group of frames\<close>

text \<open>What \<open>encode\<close> takes from the parameter sets of the only atlas.\<close>

definition group_multiple :: "V3CParameterSet \<Rightarrow> bool" where
  "group_multiple sps \<longleftrightarrow> 0 < vps_mapCountMinus1 sps ! 0 \<and> vps_multipleMapStreamsPresentFlag sps ! 0"

definition group_raw :: "V3CParameterSet \<Rightarrow> AtlasSequenceParameterSetRbsp \<Rightarrow> bool" where
  "group_raw sps asps \<longleftrightarrow> asps_rawPatchEnabledFlag asps \<and> vps_auxiliaryVideoPresentFlag sps ! 0"

definition group_slots :: "V3CParameterSet \<Rightarrow> AtlasSequenceParameterSetRbsp \<Rightarrow> nat list" where
  "group_slots sps asps = atlas_slots_of (group_multiple sps) (unat (vps_mapCountMinus1 sps ! 0)) (group_raw sps asps) (vps_attributeInformation sps ! 0)"

definition group_videos :: "V3CParameterSet \<Rightarrow> AtlasSequenceParameterSetRbsp \<Rightarrow> PCCAtlasHighLevelSyntax \<Rightarrow> PCCVideoBitstream list" where
  "group_videos sps asps H = map (video_of H) (group_slots sps asps)"

text \<open>One atlas with at most one attribute in at most 32 partitions, and every video that is taken is there.\<close>

definition group_wf :: "V3CParameterSet \<Rightarrow> AtlasSequenceParameterSetRbsp \<Rightarrow> PCCAtlasHighLevelSyntax \<Rightarrow> bool" where
  "group_wf sps asps H \<longleftrightarrow> vps_wf sps \<and> vps_atlasCountMinus1 sps = 0 \<and> hls_getAsps H 0 = Some asps
     \<and> unat (ai_attributeCount (vps_attributeInformation sps ! 0)) \<le> 1
     \<and> (\<forall>p \<in> set (ai_attributeDimensionPartitionsMinus1 (vps_attributeInformation sps ! 0)). unat p < 32)
     \<and> (\<forall>v \<in> set (group_slots sps asps). video_wf H v (video_of H v))"

lemma group_facts:
  assumes wf: "group_wf sps asps H"
  shows "unat (vps_v3cParameterSetId sps) < 2 ^ 4" and "vps_multipleMaps sps 0 = Some (group_multiple sps)"
    and "vec_at (vps_mapCountMinus1 sps) 0 = Some (vps_mapCountMinus1 sps ! 0)" and "unat (vps_mapCountMinus1 sps ! 0) < 16"
    and "encode_raw sps asps 0 = Some (group_raw sps asps)"
    and "vec_at (vps_attributeInformation sps) 0 = Some (vps_attributeInformation sps ! 0)"
    and "unat (ai_attributeCount (vps_attributeInformation sps ! 0)) = 1 \<Longrightarrow>
      vec_at (ai_attributeDimensionPartitionsMinus1 (vps_attributeInformation sps ! 0)) 0
        = Some (ai_attributeDimensionPartitionsMinus1 (vps_attributeInformation sps ! 0) ! 0)
      \<and> unat (ai_attributeDimensionPartitionsMinus1 (vps_attributeInformation sps ! 0) ! 0) < 32"
proof -
  let ?ai = "vps_attributeInformation sps ! 0"
  have vps: "vps_wf sps" and one: "unat (vps_atlasCountMinus1 sps + 1) = 1" using wf by (simp_all add: group_wf_def)
  note len = vps [unfolded vps_wf_def Let_def one]
  have atlas: "vps_atlas_wf sps 0" using len by simp
  show "unat (vps_v3cParameterSetId sps) < 2 ^ 4" using len by simp
  show "vec_at (vps_mapCountMinus1 sps) 0 = Some (vps_mapCountMinus1 sps ! 0)"
    and "vec_at (vps_attributeInformation sps) 0 = Some ?ai" using len by (simp_all add: vec_at_eq_Some)
  then show "vps_multipleMaps sps 0 = Some (group_multiple sps)"
    using len by (simp add: vps_multipleMaps_def group_multiple_def vec_at_eq_Some)
  show "encode_raw sps asps 0 = Some (group_raw sps asps)" using len by (simp add: encode_raw_def group_raw_def vec_at_eq_Some)
  show "unat (vps_mapCountMinus1 sps ! 0) < 16" using atlas by (simp add: vps_atlas_wf_def vps_row_wf_def)
  assume count: "unat (ai_attributeCount ?ai) = 1"
  have "ai_wf (vps_auxiliaryVideoPresentFlag sps ! 0) (ucast (vps_mapCountMinus1 sps ! 0)) ?ai"
    using atlas count by (auto simp: vps_atlas_wf_def ai_new_def split: if_splits)
  then have "length (ai_attributeDimensionPartitionsMinus1 ?ai) = 1" using count ai_wf_len(6) by metis
  then show "vec_at (ai_attributeDimensionPartitionsMinus1 ?ai) 0 = Some (ai_attributeDimensionPartitionsMinus1 ?ai ! 0)
      \<and> unat (ai_attributeDimensionPartitionsMinus1 ?ai ! 0) < 32"
    using wf by (simp add: group_wf_def vec_at_eq_Some)
qed

lemma group_videos_distinct: "group_wf sps asps H \<Longrightarrow> distinct (map vb_type (group_videos sps asps H))"
  unfolding group_videos_def group_slots_def
  using group_facts [of sps asps H]
  by (intro videos_distinct atlas_slots_distinct) (auto simp: group_wf_def group_slots_def)

text \<open>Everything after the atlas unit.\<close>

definition encode_videos :: "V3CParameterSet \<Rightarrow> AtlasSequenceParameterSetRbsp \<Rightarrow> EncodeState \<Rightarrow> EncodeState option" where
  "encode_videos sps asps s = Option.bind (encode_unit V3C_OVD s) (\<lambda>s. Option.bind (encode_geometry sps asps 0 s)
     (for_loop [0..<unat (ai_attributeCount (vps_attributeInformation sps ! 0))] (encode_attribute sps asps 0)))"

lemma emits_videos:
  assumes wf: "group_wf sps asps H"
  shows "emits g rst sps H K S (encode_videos sps asps) (group_videos sps asps H)"
proof -
  let ?ai = "vps_attributeInformation sps ! 0" and ?m = "group_multiple sps" and ?n = "unat (vps_mapCountMinus1 sps ! 0)"
    and ?raw = "group_raw sps asps"
  let ?slots = "\<lambda>i. attribute_slots ?m ?n ?raw (unat (ai_attributeDimensionPartitionsMinus1 ?ai ! i))"
  note f = group_facts [OF wf]
  have x: "v \<in> set (atlas_slots_of ?m ?n ?raw ?ai) \<Longrightarrow> video_wf H v (video_of H v)" for v
    using wf by (simp add: group_wf_def group_slots_def)
  have x0: "video_wf H VIDEO_OCCUPANCY (video_of H VIDEO_OCCUPANCY)"
    and xg: "\<And>v. v \<in> set (geometry_slots ?m ?n ?raw) \<Longrightarrow> video_wf H v (video_of H v)"
    and xa: "\<And>i v. i < unat (ai_attributeCount ?ai) \<Longrightarrow> v \<in> set (?slots i) \<Longrightarrow> video_wf H v (video_of H v)"
    by (rule x, force simp: atlas_slots_of_def)+
  have "emits g rst sps H K S (encode_attribute sps asps 0 i) (map (video_of H) (?slots i))" if i: "i < unat (ai_attributeCount ?ai)" for i
  proof -
    have 1: "unat (ai_attributeCount ?ai) = 1" "i = 0" using i wf by (simp_all add: group_wf_def)
    then show ?thesis using f(7) i xa by (intro emits_attribute [OF f(1-6)]) auto
  qed
  from emits_for [OF this] have "emits g rst sps H K S (for_loop [0..<unat (ai_attributeCount ?ai)] (encode_attribute sps asps 0))
      (concat (map (\<lambda>i. map (video_of H) (?slots i)) [0..<unat (ai_attributeCount ?ai)]))" .
  from emits_bind [OF emits_occupancy [OF f(1,2) x0] emits_bind [OF emits_geometry [OF f(1-5) xg] this]]
  show ?thesis
    by (simp add: group_videos_def group_slots_def atlas_slots_of_def encode_videos_def [abs_def] map_concat comp_def)
qed

text \<open>The loops over the unit headers.\<close>

lemma encode_header_at:
  assumes "carries_atlas t" and "length (syn_v3cUnitHeader (cd_syntax c)) = 5"
  shows "encode_header t f (c, ssvu) = Some (c\<lparr>cd_syntax := (cd_syntax c)\<lparr>syn_v3cUnitHeader := (syn_v3cUnitHeader (cd_syntax c))
     [unat t - 1 := f (syn_v3cUnitHeader (cd_syntax c) ! (unat t - 1))]\<rparr>\<rparr>, ssvu)"
  using assms unit_header_index [OF assms(1)] by (simp add: encode_header_def syn_getV3CUnitHeader_def syn_setV3CUnitHeader_def vec_set_def vec_at_eq_Some)

lemma encode_headers:
  assumes "syn_v3cUnitHeader (cd_syntax c) = [h1, h2, h3, h4, h5]"
  shows "for_loop [V3C_GVD, V3C_AD, V3C_AVD, V3C_OVD] (\<lambda>t. encode_header t f) (c, ssvu)
      = Some (c\<lparr>cd_syntax := (cd_syntax c)\<lparr>syn_v3cUnitHeader := [f h1, f h2, f h3, f h4, h5]\<rparr>\<rparr>, ssvu)"
    and "for_loop [V3C_AD, V3C_OVD, V3C_GVD, V3C_AVD] (\<lambda>t. encode_header t f) (c, ssvu)
      = Some (c\<lparr>cd_syntax := (cd_syntax c)\<lparr>syn_v3cUnitHeader := [f h1, f h2, f h3, f h4, h5]\<rparr>\<rparr>, ssvu)"
  using assms by (simp_all add: encode_header_at carries_atlas_def)

lemma five: "length xs = 5 \<Longrightarrow> \<exists>a b c d e. xs = [a, b, c, d, e]"
  by (auto simp: numeral_eq_Suc length_Suc_conv)

text \<open>A store as the program creates it for every group of frames.\<close>

definition coder_new :: "PCCBitstreamStat \<Rightarrow> Coder" where
  "coder_new stat = \<lparr>cd_syntax = syn_new, cd_sei = [], cd_stat = stat\<rparr>"

text \<open>The unit of a parameter set does not depend on the statistics.\<close>

lemma vps_unit_stat:
  assumes "v3cUnit_w V3C_VPS c bs_new = Some (c', bs')" and "stat_ok s"
  shows "\<exists>c''. v3cUnit_w V3C_VPS (c\<lparr>cd_stat := s\<rparr>) bs_new = Some (c'', bs')"
proof -
  obtain t where "unitBytes (bs_size bs_new) (bs_size bs') = Some t"
    using assms(1) by (auto simp: v3cUnit_w_def Let_def split: bind_splits)
  moreover obtain s' where "stat_setV3CUnitSize (unat V3C_VPS) t s = Some s'"
    using stat_setV3CUnitSize_Some [OF assms(2), of "unat V3C_VPS" t] by auto
  ultimately show ?thesis
    using assms(1) by (auto simp: v3cUnit_w_def v3cUnitPayload_w_def cd_activeVps_def Let_def split: bind_splits)
qed

text \<open>The unit of a second parameter set ends the loop and stays in the queue as it was.\<close>

lemma decode_stops:
  assumes w: "v3cUnit_w V3C_VPS c bs_new = Some (c', bs')" "cd_activeVps c = Some sps" "length (syn_v3cUnitHeader (cd_syntax c)) = 5" "vps_wf sps"
    and d: "length (syn_v3cUnitHeader (cd_syntax d)) = 5" "stat_ok (cd_stat d)" and small: "bs_size bs' < 2 ^ 64"
  obtains s where "\<And>us. decode_units g 1 (vu_read (vu_setBitstream bs' V3C_VPS vu_new) # us) (d, rst)
      = Some (vu_read (vu_setBitstream bs' V3C_VPS vu_new) # us, ((reader_vps sps d)\<lparr>cd_stat := s\<rparr>, rst))"
proof -
  let ?u = "vu_read (vu_setBitstream bs' V3C_VPS vu_new)" and ?c = "c\<lparr>cd_stat := cd_stat d\<rparr>"
  have c: "cd_activeVps ?c = Some sps" "stat_ok (cd_stat ?c)" "length (syn_v3cUnitHeader (cd_syntax ?c)) = 5" "cd_stat d = cd_stat ?c"
    using w d(2) by (simp_all add: cd_activeVps_def)
  obtain st b2 where b2: "v3cUnit_w V3C_VPS ?c bs_new = Some (?c\<lparr>cd_stat := st\<rparr>, b2)" "stat_ok st"
    and r: "bs_size b2 < 2 ^ 64 \<Longrightarrow> \<exists>e. v3cUnit_r g (vu_read (vu_setBitstream b2 V3C_VPS vu_new)) (d, rst)
       = Some ((V3C_VPS, ((reader_vps sps d)\<lparr>cd_stat := st\<rparr>, rst)), e) \<and> bs_beginning e = vu_bitstream (vu_read (vu_setBitstream b2 V3C_VPS vu_new))"
    using vps_unit [OF c(1-3) w(4) d(1) c(4), of g rst] by metis
  have "b2 = bs'" using vps_unit_stat [OF w(1) d(2)] b2(1) by auto
  then obtain e where e: "v3cUnit_r g ?u (d, rst) = Some ((V3C_VPS, ((reader_vps sps d)\<lparr>cd_stat := st\<rparr>, rst)), e)" "bs_beginning e = vu_bitstream ?u"
    using r small by blast
  obtain s where "stat_uncount e st = Some s"
  proof -
    have ne: "stat_bitstreamGofStat st \<noteq> []" and len: "length (gof_v3cUnitSize (last (stat_bitstreamGofStat st))) = 32"
      using b2(2) by (simp_all add: stat_ok_def)
    then show thesis
      using that by (auto simp: stat_uncount_def stat_getV3CUnitSize_def gof_getV3CUnitSize_def stat_overwriteV3CUnitSize_def stat_back_def
        gof_overwriteV3CUnitSize_def vec_at_eq_Some Let_def)
  qed
  then have "decode_units g 1 (?u # us) (d, rst) = Some (?u # us, ((reader_vps sps d)\<lparr>cd_stat := s\<rparr>, rst))" for us
    using e by simp
  then show thesis by (rule that)
qed

text \<open>What \<open>encode\<close> needs of its store.\<close>

definition coder_wf :: "SeiMemory \<Rightarrow> ReaderState \<Rightarrow> V3CParameterSet \<Rightarrow> AtlasSequenceParameterSetRbsp \<Rightarrow> AtlasStore \<Rightarrow> Coder \<Rightarrow> bool" where
  "coder_wf g rst sps asps st c \<longleftrightarrow> cd_activeVps c = Some sps \<and> cd_getStore c = Some st \<and> group_wf sps asps (as_hls st)
     \<and> atlas_wf g hls_new rst st \<and> atlas_small st
     \<and> length (syn_v3cUnitHeader (cd_syntax c)) = 5 \<and> (\<forall>h \<in> set (syn_v3cUnitHeader (cd_syntax c)). vuh_wf h)
     \<and> (\<forall>s \<in> set (stat_bitstreamGofStat (cd_stat c)). gof_ok s)"

text \<open>The start of \<open>encode\<close>: the headers get the id of the parameter set, which is the first unit.\<close>

lemma encode_start:
  assumes wf: "coder_wf g rst sps asps st c"
  obtains c0 c1 b where "encode (c, ssvu) = encode_atlas sps asps 0 (c1, ssvu_append [vu_setBitstream b V3C_VPS vu_new] ssvu)"
    and "v3cUnit_w V3C_VPS c0 bs_new = Some (c1, b)" and "cd_activeVps c0 = Some sps" and "length (syn_v3cUnitHeader (cd_syntax c0)) = 5"
    and "unit_ok (vu_setBitstream b V3C_VPS vu_new)" and "cd_activeVps c1 = Some sps" and "cd_getStore c1 = Some st"
    and "stat_ok (cd_stat c1)" and "length (syn_v3cUnitHeader (cd_syntax c1)) = 5"
    and "\<forall>h \<in> set (take 4 (syn_v3cUnitHeader (cd_syntax c1))). vuh_wf h \<and> vuh_sequenceParamterSetId h = ucast (vps_v3cParameterSetId sps)"
    and "bs_size b < 2 ^ 64 \<Longrightarrow> \<exists>e. v3cUnit_r g (vu_read (vu_setBitstream b V3C_VPS vu_new)) (coder_new (stat_newGOF (cd_stat c)), rst)
       = Some ((V3C_VPS, (reader_vps sps (coder_new (cd_stat c1)), rst)), e)"
proof -
  note w = wf [unfolded coder_wf_def group_wf_def]
  have "length (syn_v3cUnitHeader (cd_syntax c)) = 5" using w by simp
  then obtain h1 h2 h3 h4 h5 where h: "syn_v3cUnitHeader (cd_syntax c) = [h1, h2, h3, h4, h5]" using five by blast
  let ?f = "\<lambda>vuh. vuh\<lparr>vuh_sequenceParamterSetId := ucast (vps_v3cParameterSetId sps)\<rparr>"
  let ?c0 = "c\<lparr>cd_syntax := (cd_syntax c)\<lparr>syn_v3cUnitHeader := [?f h1, ?f h2, ?f h3, ?f h4, h5]\<rparr>, cd_stat := stat_newGOF (cd_stat c)\<rparr>"
  let ?d = "coder_new (stat_newGOF (cd_stat c))"
  have c0: "cd_activeVps ?c0 = Some sps" "cd_getStore ?c0 = Some st" "length (syn_v3cUnitHeader (cd_syntax ?c0)) = 5"
    using w by (simp_all add: cd_activeVps_def syn_getVps_def cd_getStore_def syn_getAtlasHighLevelSyntax_def)
  have stat: "stat_ok (cd_stat ?c0)"
    using w gof_ok_new by (auto simp: stat_ok_def stat_newGOF_def gof_ok_def)
  have d: "length (syn_v3cUnitHeader (cd_syntax ?d)) = 5" "cd_stat ?d = cd_stat ?c0" by (simp_all add: coder_new_def syn_new_def)
  have vps: "vps_wf sps" using w by simp
  obtain s b where u: "v3cUnit_w V3C_VPS ?c0 bs_new = Some (?c0\<lparr>cd_stat := s\<rparr>, b)" "stat_ok s" "unit_ok (vu_setBitstream b V3C_VPS vu_new)"
    and r: "bs_size b < 2 ^ 64 \<Longrightarrow> \<exists>e. v3cUnit_r g (vu_read (vu_setBitstream b V3C_VPS vu_new)) (?d, rst)
       = Some ((V3C_VPS, ((reader_vps sps ?d)\<lparr>cd_stat := s\<rparr>, rst)), e)"
    using vps_unit [OF c0(1) stat c0(3) vps d, of g rst] by metis
  let ?c1 = "?c0\<lparr>cd_stat := s\<rparr>"
  have "group_wf sps asps (as_hls st)" using wf by (simp add: coder_wf_def)
  then have id: "unat (vps_v3cParameterSetId sps) < 2 ^ 4" by (rule group_facts(1))
  have "unat (ucast (vps_v3cParameterSetId sps) :: uint8_t) < 2 ^ 4" using id by (simp add: unat_ucast_small)
  then have heads: "\<forall>h \<in> set (take 4 (syn_v3cUnitHeader (cd_syntax ?c1))). vuh_wf h \<and> vuh_sequenceParamterSetId h = ucast (vps_v3cParameterSetId sps)"
    using w h by (simp add: vuh_wf_def)
  obtain H where H: "syn_getAtlasHighLevelSyntax (cd_syntax c) = Some H" "as_hls st = H"
    using w by (auto simp: cd_getStore_def split: bind_splits)
  have "hls_getAsps H 0 = Some asps" and count: "vps_atlasCountMinus1 sps = 0" and "cd_activeVps c = Some sps" using w H by simp_all
  note steps = this(1,3) H(1) encode_headers(1) [OF h, of ?f ssvu]
  have unit: "encode_unit V3C_VPS (?c0, ssvu) = Some (?c1, ssvu_append [vu_setBitstream b V3C_VPS vu_new] ssvu)"
    using u(1) by (simp add: encode_unit_def ssvu_append_def)
  have "encode (c, ssvu) = for_loop [0..<unat (vps_atlasCountMinus1 sps + 1)] (encode_atlas sps asps)
      (?c1, ssvu_append [vu_setBitstream b V3C_VPS vu_new] ssvu)"
    unfolding encode_def by (simp only: fst_conv Let_def steps Option.bind.bind_lunit prod.case Coder.simps) (simp add: count unit [unfolded V3C_VPS_def])
  then have "encode (c, ssvu) = encode_atlas sps asps 0 (?c1, ssvu_append [vu_setBitstream b V3C_VPS vu_new] ssvu)"
    by (simp add: count upt_rec)
  moreover have "cd_activeVps ?c1 = Some sps" "cd_getStore ?c1 = Some st" "length (syn_v3cUnitHeader (cd_syntax ?c1)) = 5" "stat_ok (cd_stat ?c1)"
    using c0 u(2) by (simp_all add: cd_activeVps_def cd_getStore_def)
  moreover have "(reader_vps sps ?d)\<lparr>cd_stat := s\<rparr> = reader_vps sps (coder_new (cd_stat ?c1))"
    by (simp add: reader_vps_def coder_new_def Let_def)
  ultimately show thesis using that [of ?c1 b ?c0] u c0 heads r by metis
qed

text \<open>One group: \<open>encode\<close> succeeds, and from a new store \<open>decode\<close> takes exactly its units, whatever follows.\<close>

lemma encode_group:
  assumes wf: "coder_wf g rst sps asps st c"
  obtains c' us d' where "encode (c, ssvu) = Some (c', ssvu_append us ssvu)" and "\<And>u. u \<in> set us \<Longrightarrow> unit_ok u"
    and "reader_ready sps (as_hls (atlas_read hls_new st)) (as_sei (atlas_read hls_new st)) (group_videos sps asps (as_hls st)) (cd_stat c') d'"
    and "stat_ok (cd_stat c')"
    and "(\<And>u. u \<in> set us \<Longrightarrow> unit_bytes u < 2 ^ 64) \<Longrightarrow> \<forall>rest. decode_units g 0 (map vu_read us @ rest) (coder_new (stat_newGOF (cd_stat c)), rst)
        = decode_units g 1 rest (d', atlas_state hls_new rst st)"
    and "\<exists>c0 c1 b us'. us = vu_setBitstream b V3C_VPS vu_new # us' \<and> v3cUnit_w V3C_VPS c0 bs_new = Some (c1, b) \<and> cd_activeVps c0 = Some sps
        \<and> length (syn_v3cUnitHeader (cd_syntax c0)) = 5"
proof -
  note w = wf [unfolded coder_wf_def]
  let ?H = "as_hls st" and ?K = "atlas_read hls_new st" and ?vs = "group_videos sps asps (as_hls st)" and ?rst = "atlas_state hls_new rst st"
  obtain c0 c1 b where e: "encode (c, ssvu) = encode_atlas sps asps 0 (c1, ssvu_append [vu_setBitstream b V3C_VPS vu_new] ssvu)"
      "v3cUnit_w V3C_VPS c0 bs_new = Some (c1, b)" "cd_activeVps c0 = Some sps" "length (syn_v3cUnitHeader (cd_syntax c0)) = 5"
      "unit_ok (vu_setBitstream b V3C_VPS vu_new)"
    and c1: "cd_activeVps c1 = Some sps" "cd_getStore c1 = Some st" "stat_ok (cd_stat c1)" "length (syn_v3cUnitHeader (cd_syntax c1)) = 5"
      "\<forall>h \<in> set (take 4 (syn_v3cUnitHeader (cd_syntax c1))). vuh_wf h \<and> vuh_sequenceParamterSetId h = ucast (vps_v3cParameterSetId sps)"
    and r0: "bs_size b < 2 ^ 64 \<Longrightarrow> \<exists>e. v3cUnit_r g (vu_read (vu_setBitstream b V3C_VPS vu_new)) (coder_new (stat_newGOF (cd_stat c)), rst)
       = Some ((V3C_VPS, (reader_vps sps (coder_new (cd_stat c1)), rst)), e)"
    using encode_start [OF wf, of ssvu] by metis
  have group: "group_wf sps asps ?H" using w by simp
  note f = group_facts [OF group]
  let ?u0 = "vu_setBitstream b V3C_VPS vu_new" and ?ssvu = "ssvu_append [vu_setBitstream b V3C_VPS vu_new] ssvu"
  let ?d0 = "reader_vps sps (coder_new (cd_stat c1))"
  have one: "unat (vps_atlasCountMinus1 sps + 1) = 1" using group by (simp add: group_wf_def)
  have d0: "reader_ready sps hls_new [] [] (cd_stat c1) ?d0"
    by (simp add: reader_ready_def reader_vps_def coder_new_def syn_new_def syn_allocateAtlasHLS_def vec_resize_def hls_new_def one Let_def)
  obtain h1 h2 h3 h4 h5 where h: "syn_v3cUnitHeader (cd_syntax c1) = [h1, h2, h3, h4, h5]" using five c1(4) by blast
  let ?f = "\<lambda>vuh. vuh\<lparr>vuh_atlasId := of_nat 0\<rparr>"
  let ?c2 = "c1\<lparr>cd_syntax := (cd_syntax c1)\<lparr>syn_v3cUnitHeader := [?f h1, ?f h2, ?f h3, ?f h4, h5]\<rparr>\<rparr>"
  have H: "syn_getAtlasHighLevelSyntax (cd_syntax c1) = Some ?H" using c1(2) by (auto simp: cd_getStore_def split: bind_splits)
  have c2: "writer_ready sps ?H ?c2" "cd_getStore ?c2 = Some st" "cd_stat ?c2 = cd_stat c1"
  proof -
    have "\<forall>h \<in> {h1, h2, h3, h4}. vuh_wf h \<and> vuh_sequenceParamterSetId h = ucast (vps_v3cParameterSetId sps)" using c1(5) h by auto
    moreover have "(\<forall>k < 4. P k) \<longleftrightarrow> P 0 \<and> P 1 \<and> P 2 \<and> P (3 :: nat)" for P by (auto simp: numeral_eq_Suc All_less_Suc)
    moreover have "unat (ucast (vps_v3cParameterSetId sps) :: uint8_t) < 2 ^ 4" using f(1) by (simp add: unat_ucast_small)
    ultimately show "writer_ready sps ?H ?c2"
      using c1(1,3) H by (simp add: writer_ready_def cd_activeVps_def syn_getVps_def syn_getAtlasHighLevelSyntax_def vuh_wf_def Let_def)
    show "cd_getStore ?c2 = Some st" "cd_stat ?c2 = cd_stat c1" using c1(2) by (simp_all add: cd_getStore_def syn_getAtlasHighLevelSyntax_def)
  qed
  have atlas: "atlas_wf g hls_new rst st" "atlas_small st" using w by simp_all
  have d2: "reader_ready sps hls_new [] [] (cd_stat ?c2) ?d0" using d0 by simp
  obtain c3 d3 b3 where a: "v3cUnit_w V3C_AD ?c2 bs_new = Some (c3, b3)" "writer_ready sps ?H c3"
      "reader_ready sps (as_hls ?K) (as_sei ?K) [] (cd_stat c3) d3" "unit_ok (vu_setBitstream b3 V3C_AD vu_new)"
    and r3: "bs_size b3 < 2 ^ 64 \<Longrightarrow> \<exists>e. v3cUnit_r g (vu_read (vu_setBitstream b3 V3C_AD vu_new)) (?d0, rst) = Some ((V3C_AD, (d3, ?rst)), e)"
    using atlas_unit [OF c2(1) d2 f(1) c2(2) refl atlas] by metis
  let ?u3 = "vu_setBitstream b3 V3C_AD vu_new"
  have dist: "distinct (map vb_type ([] @ ?vs))" using group_videos_distinct [OF group] by simp
  obtain c' us d' where v: "encode_videos sps asps (c3, ssvu_append [?u3] ?ssvu) = Some (c', ssvu_append us (ssvu_append [?u3] ?ssvu))"
      "writer_ready sps ?H c'" "reader_ready sps (as_hls ?K) (as_sei ?K) ?vs (cd_stat c') d'" "\<And>u. u \<in> set us \<Longrightarrow> unit_ok u"
    and rv: "(\<And>u. u \<in> set us \<Longrightarrow> unit_bytes u < 2 ^ 64) \<Longrightarrow> \<forall>rest. decode_units g 1 (map vu_read us @ rest) (d3, ?rst) = decode_units g 1 rest (d', ?rst)"
    using emitsE [OF emits_videos [OF group, of g ?rst] a(2,3) dist, of "ssvu_append [?u3] ?ssvu"] by (metis append_Nil)
  let ?us = "?u0 # ?u3 # us"
  have "encode_atlas sps asps 0 (c1, ?ssvu) = encode_videos sps asps (c3, ssvu_append [?u3] ?ssvu)"
    using encode_headers(2) [OF h, of ?f ?ssvu] a(1) f(6)
    by (simp add: encode_atlas_def encode_videos_def encode_unit_def ssvu_append_def)
  then have "encode (c, ssvu) = Some (c', ssvu_append ?us ssvu)"
    using e(1) v(1) by (simp add: ssvu_append_append)
  moreover have "\<And>u. u \<in> set ?us \<Longrightarrow> unit_ok u" using e(5) a(4) v(4) by auto
  moreover have "\<forall>rest. decode_units g 0 (map vu_read ?us @ rest) (coder_new (stat_newGOF (cd_stat c)), rst) = decode_units g 1 rest (d', ?rst)"
    if small: "\<And>u. u \<in> set ?us \<Longrightarrow> unit_bytes u < 2 ^ 64"
  proof -
    have "bs_size b < 2 ^ 64" "bs_size b3 < 2 ^ 64" using small [of ?u0] small [of ?u3] by (simp_all add: unit_bytes_def vu_setBitstream_def)
    then show ?thesis using r0 r3 rv small by auto
  qed
  moreover have "stat_ok (cd_stat c')" using v(2) by (simp add: writer_ready_def)
  moreover have "\<exists>c0 c1 b us'. ?us = vu_setBitstream b V3C_VPS vu_new # us' \<and> v3cUnit_w V3C_VPS c0 bs_new = Some (c1, b)
      \<and> cd_activeVps c0 = Some sps \<and> length (syn_v3cUnitHeader (cd_syntax c0)) = 5"
    using e(2-4) by blast
  ultimately show thesis using that [OF _ _ v(3)] by blast
qed

text \<open>The sizes of the units of a group: the units are at most 4 GB, and either the size field is forced to four bytes or
  the largest size is none of the three powers of 256 that the chosen field cannot hold.\<close>

definition group_fits :: "uint32_t \<Rightarrow> Coder \<Rightarrow> bool" where
  "group_fits forced c \<longleftrightarrow> (case encode (c, ssvu_new) of None \<Rightarrow> True | Some (c', ssvu) \<Rightarrow>
     (\<forall>u \<in> set (ssvu_v3cUnits ssvu). unit_bytes u < 2 ^ 32)
     \<and> (forced = 4 \<or> unat (ssvu_maxUnitSize (ssvu_v3cUnits ssvu)) \<notin> {2 ^ 8, 2 ^ 16, 2 ^ 24}))"

text \<open>What \<open>decode\<close> leaves in a new store: the parameter set, the atlas with its messages, and the videos that the
  parameter set selects.\<close>

definition group_stored :: "V3CParameterSet \<Rightarrow> AtlasSequenceParameterSetRbsp \<Rightarrow> AtlasStore \<Rightarrow> Coder \<Rightarrow> bool" where
  "group_stored sps asps st d \<longleftrightarrow>
     syn_atlasHLS (cd_syntax d) = [(as_hls (atlas_read hls_new st))\<lparr>hls_videoBitstream := group_videos sps asps (as_hls st)\<rparr>]
     \<and> cd_sei d = [as_sei (atlas_read hls_new st)]"

lemma unit_ok_file:
  assumes "unit_ok u" and "unit_bytes u < 2 ^ 32"
  shows "0 < unat (vu_size u)" and "unat (vu_size u) \<le> length (bs_data (vu_bitstream u))" and "unat (vu_size u) < 2 ^ 32"
proof -
  have "unat (vu_size u) = unit_bytes u" using assms by (simp add: unit_ok_def unit_bytes_def unat_of_nat Let_def)
  then show "0 < unat (vu_size u)" and "unat (vu_size u) \<le> length (bs_data (vu_bitstream u))" and "unat (vu_size u) < 2 ^ 32"
    using assms by (auto simp: unit_ok_def unit_bytes_def Let_def bs_inv_bytes)
qed

text \<open>From the store of the encoder to the file and back to the store of the decoder.\<close>

lemma group_file:
  assumes wf: "coder_wf g rst sps asps st c" and fits: "group_fits forced c" and forced: "unat forced \<le> 4"
  obtains c' ssvu h ssvu' bs' r e d where "encode (c, ssvu_new) = Some (c', ssvu)"
    and "ssvu_write ssvu forced bs_new = Some ((h, ssvu'), bs')"
    and "ssvu_read ssvu_new (bs_initialize (bs_file bs') bs_new) = Some ((h, r), e)"
    and "decode g r (coder_new (cd_stat c), rst) = Some (r\<lparr>ssvu_v3cUnits := []\<rparr>, (d, atlas_state hls_new rst st))"
    and "syn_vpccParameterSets (cd_syntax d) = [sps]" and "group_stored sps asps st d" and "cd_stat d = cd_stat c'"
proof -
  obtain c' us d where e: "encode (c, ssvu_new) = Some (c', ssvu_append us ssvu_new)" "\<And>u. u \<in> set us \<Longrightarrow> unit_ok u"
      "reader_ready sps (as_hls (atlas_read hls_new st)) (as_sei (atlas_read hls_new st)) (group_videos sps asps (as_hls st)) (cd_stat c') d"
    and r: "(\<And>u. u \<in> set us \<Longrightarrow> unit_bytes u < 2 ^ 64) \<Longrightarrow> \<forall>rest. decode_units g 0 (map vu_read us @ rest) (coder_new (stat_newGOF (cd_stat c)), rst)
        = decode_units g 1 rest (d, atlas_state hls_new rst st)"
    using encode_group [OF wf, of ssvu_new] by metis
  have units: "ssvu_v3cUnits (ssvu_append us ssvu_new) = us" by (simp add: ssvu_append_def ssvu_new_def)
  have small: "\<And>u. u \<in> set us \<Longrightarrow> unit_bytes u < 2 ^ 32" and max: "forced = 4 \<or> unat (ssvu_maxUnitSize us) \<notin> {2 ^ 8, 2 ^ 16, 2 ^ 24}"
    using fits by (simp_all add: group_fits_def e(1) units)
  obtain h ssvu' bs' e' p where f: "ssvu_write (ssvu_append us ssvu_new) forced bs_new = Some ((h, ssvu'), bs')"
      "ssvu_read ssvu_new (bs_initialize (bs_file bs') bs_new) = Some ((h, \<lparr>ssvu_v3cUnits = map vu_read us, ssvu_ssvhUnitSizePrecisionBytesMinus1 = p\<rparr>), e')"
    using ssvu_file_roundtrip [of "ssvu_append us ssvu_new" forced] unit_ok_file [OF e(2) small] max forced units by auto
  have "unit_bytes u < 2 ^ 64" if "u \<in> set us" for u using small [OF that] by simp
  from r [OF this] have "decode_units g 0 (map vu_read us) (coder_new (stat_newGOF (cd_stat c)), rst) = Some ([], (d, atlas_state hls_new rst st))"
    by (metis append_Nil2 decode_units.simps(1))
  then have "decode g \<lparr>ssvu_v3cUnits = map vu_read us, ssvu_ssvhUnitSizePrecisionBytesMinus1 = p\<rparr> (coder_new (cd_stat c), rst)
      = Some (\<lparr>ssvu_v3cUnits = map vu_read us, ssvu_ssvhUnitSizePrecisionBytesMinus1 = p\<rparr>\<lparr>ssvu_v3cUnits := []\<rparr>, (d, atlas_state hls_new rst st))"
    by (simp add: decode_def coder_new_def)
  from that [OF e(1) f this] show thesis using e(3) by (simp add: reader_ready_def group_stored_def)
qed

text \<open>With the units of a second group behind those of the first, \<open>decode\<close> stops in front of them.\<close>

lemma group_next:
  assumes wf: "coder_wf g rst sps asps st c" "coder_wf g2 rst2 sps2 asps2 st2 c2" and fits: "group_fits forced c" "group_fits forced c2"
  obtains c' ssvu c2' ssvu2 d where "encode (c, ssvu_new) = Some (c', ssvu)" and "encode (c2, ssvu_new) = Some (c2', ssvu2)"
    and "decode g (ssvu\<lparr>ssvu_v3cUnits := map vu_read (ssvu_v3cUnits ssvu @ ssvu_v3cUnits ssvu2)\<rparr>) (coder_new (cd_stat c), rst)
      = Some (ssvu\<lparr>ssvu_v3cUnits := map vu_read (ssvu_v3cUnits ssvu2)\<rparr>, (d, atlas_state hls_new rst st))"
    and "syn_vpccParameterSets (cd_syntax d) = [sps, sps2]" and "group_stored sps asps st d"
proof -
  obtain c' us d where e: "encode (c, ssvu_new) = Some (c', ssvu_append us ssvu_new)"
      "reader_ready sps (as_hls (atlas_read hls_new st)) (as_sei (atlas_read hls_new st)) (group_videos sps asps (as_hls st)) (cd_stat c') d"
      "stat_ok (cd_stat c')"
    and r: "(\<And>u. u \<in> set us \<Longrightarrow> unit_bytes u < 2 ^ 64) \<Longrightarrow> \<forall>rest. decode_units g 0 (map vu_read us @ rest) (coder_new (stat_newGOF (cd_stat c)), rst)
        = decode_units g 1 rest (d, atlas_state hls_new rst st)"
    using encode_group [OF wf(1), of ssvu_new] by metis
  obtain c2' us2 where e2: "encode (c2, ssvu_new) = Some (c2', ssvu_append us2 ssvu_new)"
    and first: "\<exists>c0 c1 b us'. us2 = vu_setBitstream b V3C_VPS vu_new # us' \<and> v3cUnit_w V3C_VPS c0 bs_new = Some (c1, b) \<and> cd_activeVps c0 = Some sps2
        \<and> length (syn_v3cUnitHeader (cd_syntax c0)) = 5"
    using encode_group [OF wf(2), of ssvu_new] by metis
  have units: "ssvu_v3cUnits (ssvu_append l ssvu_new) = l" for l by (simp add: ssvu_append_def ssvu_new_def)
  have small: "\<And>u. u \<in> set us \<Longrightarrow> unit_bytes u < 2 ^ 32" "\<And>u. u \<in> set us2 \<Longrightarrow> unit_bytes u < 2 ^ 32"
    using fits by (simp_all add: group_fits_def e(1) e2 units)
  obtain c0 c1 b us' where u2: "us2 = vu_setBitstream b V3C_VPS vu_new # us'" "v3cUnit_w V3C_VPS c0 bs_new = Some (c1, b)"
      "cd_activeVps c0 = Some sps2" "length (syn_v3cUnitHeader (cd_syntax c0)) = 5"
    using first by blast
  have "vps_wf sps2" and one: "vps_atlasCountMinus1 sps2 = 0" using wf(2) by (simp_all add: coder_wf_def group_wf_def)
  moreover have "length (syn_v3cUnitHeader (cd_syntax d)) = 5" "stat_ok (cd_stat d)" using e(2,3) by (simp_all add: reader_ready_def)
  moreover have "bs_size b < 2 ^ 64" using small(2) [of "vu_setBitstream b V3C_VPS vu_new"] u2(1) by (simp add: unit_bytes_def vu_setBitstream_def)
  ultimately obtain s where s: "\<And>l. decode_units g 1 (vu_read (vu_setBitstream b V3C_VPS vu_new) # l) (d, atlas_state hls_new rst st)
      = Some (vu_read (vu_setBitstream b V3C_VPS vu_new) # l, ((reader_vps sps2 d)\<lparr>cd_stat := s\<rparr>, atlas_state hls_new rst st))"
    using decode_stops [OF u2(2-4), of d g "atlas_state hls_new rst st"] by metis
  have "unit_bytes u < 2 ^ 64" if "u \<in> set us" for u using small(1) [OF that] by simp
  from r [OF this] have "decode_units g 0 (map vu_read (us @ us2)) (coder_new (stat_newGOF (cd_stat c)), rst)
      = Some (map vu_read us2, ((reader_vps sps2 d)\<lparr>cd_stat := s\<rparr>, atlas_state hls_new rst st))"
    using s u2(1) by simp
  then have "decode g ((ssvu_append us ssvu_new)\<lparr>ssvu_v3cUnits := map vu_read (us @ us2)\<rparr>) (coder_new (cd_stat c), rst)
      = Some ((ssvu_append us ssvu_new)\<lparr>ssvu_v3cUnits := map vu_read us2\<rparr>, ((reader_vps sps2 d)\<lparr>cd_stat := s\<rparr>, atlas_state hls_new rst st))"
    by (simp add: decode_def coder_new_def)
  moreover have "syn_vpccParameterSets (cd_syntax (reader_vps sps2 d)) = [sps, sps2]" and "group_stored sps asps st (reader_vps sps2 d)"
    using e(2) one by (simp_all add: reader_vps_def reader_ready_def group_stored_def syn_allocateAtlasHLS_def vec_resize_def Let_def)
  ultimately show thesis using that [OF e(1) e2, unfolded units, of "(reader_vps sps2 d)\<lparr>cd_stat := s\<rparr>"] by (simp add: group_stored_def)
qed

end
