(* ===== verification/V3CExamples.thy ===== *)
theory V3CExamples
  imports AtlasExamples V3CCoder
begin

text \<open>
  A group of frames that the round trip of whole files is applied to: a parameter set with two maps and one attribute in
  two partitions, the atlas of the theory AtlasExamples and the seven videos that these select; and the bounds that
  show that the size fields of the units hold their sizes.
\<close>

section \<open>The group\<close>

definition coder_example :: Coder where
  "coder_example = \<lparr>cd_syntax = syn_new\<lparr>syn_vpccParameterSets := [vps_example], syn_activeVPS := 3, syn_atlasHLS := [hls_example]\<rparr>,
     cd_sei = [as_sei atlas_example], cd_stat = stat_new\<rparr>"

lemma coder_example_vps: "cd_activeVps coder_example = Some vps_example"
  by (simp add: cd_activeVps_def syn_getVps_def coder_example_def vps_example_def)

lemma coder_example_store: "cd_getStore coder_example = Some atlas_example"
  by (simp add: cd_getStore_def syn_getAtlasHighLevelSyntax_def coder_example_def syn_new_def atlas_example_def)

lemma vps_example_fields:
  "vps_mapCountMinus1 vps_example ! 0 = 1" "vps_multipleMapStreamsPresentFlag vps_example ! 0" "\<not> vps_auxiliaryVideoPresentFlag vps_example ! 0"
  "vps_atlasCountMinus1 vps_example = 0" "ai_attributeCount (vps_attributeInformation vps_example ! 0) = 1"
  "ai_attributeDimensionPartitionsMinus1 (vps_attributeInformation vps_example ! 0) = [1]"
  by (simp_all add: vps_example_def vps_new_def)

lemma group_example_slots: "group_slots vps_example asps_example = [0, 2, 3, 20, 84, 21, 85]"
  by (simp add: group_slots_def group_multiple_def group_raw_def atlas_slots_of_def geometry_slots_def attribute_slots_def
      partition_slots_def vps_example_fields upt_rec)

lemma video_example_wf: "v \<in> set [0, 2, 3, 20, 84, 21, 85] \<Longrightarrow> video_wf hls_example v (video_of hls_example v)"
  by (auto simp: video_wf_def video_of_def hls_getVideoBitstream_def hls_example_def videos_example_def)

lemma group_example_wf: "group_wf vps_example asps_example hls_example"
  using vps_example_wf video_example_wf hls_example_asps
  by (simp add: group_wf_def group_example_slots vps_example_fields)

lemma coder_example_wf: "coder_wf g rst_new vps_example asps_example atlas_example coder_example"
proof -
  have "as_hls atlas_example = hls_example" by (simp add: atlas_example_def)
  then show ?thesis
    using coder_example_vps coder_example_store group_example_wf atlas_example_wf atlas_example_small
    by (simp add: coder_wf_def) (simp add: coder_example_def syn_new_def stat_new_def vuh_new_wf)
qed

section \<open>The size of its units\<close>

lemma grows_parts:
  "grows (64 * length is) (\<lambda>bs. Option.bind (for_loop is (ai_part_w ai i k) (r, bs)) (\<lambda>(_, bs). Some bs))"
proof (induction "is" arbitrary: r)
  case (Cons j "is")
  let ?W = "\<lambda>c bs. if int k - int j \<noteq> r then bs_writeUvlc (ucast (c :: uint8_t)) bs else Some bs"
  let ?V = "\<lambda>c bs. Option.bind (for_loop is (ai_part_w ai i k) (r - (uint (c :: uint8_t) + 1), bs)) (\<lambda>(_, bs). Some bs)"
  have eq: "(\<lambda>bs. Option.bind (for_loop (j # is) (ai_part_w ai i k) (r, bs)) (\<lambda>(_, bs). Some bs)) =
      (\<lambda>bs. Option.bind (ai_getChannels ai i j) (\<lambda>c. Option.bind (?W c bs) (?V c)))"
    by (rule ext) (simp add: ai_part_w_def Option.bind_assoc)
  have "grows (64 + 64 * length is) (\<lambda>bs. Option.bind (?W c bs) (?V c))" for c
    by (rule grows_bind [OF _ Cons.IH]) (rule grows_le, (rule grows_if grows_intro)+, simp)
  then show ?case unfolding eq by (intro grows_opt) simp
qed (simp add: grows_Some)

lemma grows_vps: "grows 200000 (v3cParameterSet_w vps_example)"
proof -
  have count: "unat (vps_atlasCountMinus1 vps_example + 1) = 1" "unat (vps_extensionLengthMinus1 vps_example + 1) = 2"
    by (simp_all add: vps_example_def vps_new_def)
  have ptl: "grows 10000 (profileTierLevel_w (vps_profileTierLevel vps_example))"
  proof -
    have "\<not> ptl_toolConstraintsPresentFlag (vps_profileTierLevel vps_example)" by (simp add: vps_example_def ptl_new_def)
    then show ?thesis
      unfolding profileTierLevel_w_def [abs_def] ptl_sub_w_def [abs_def]
      by (simp only: if_False) (rule grows_le, (rule grows_loop8 grows_intro)+, simp)
  qed
  have parts: "grows (64 * 255) (\<lambda>bs. Option.bind (for_loop [0..<unat (k :: uint8_t)] (ai_part_w ai i (unat k)) (r, bs)) (\<lambda>(_, bs). Some bs))" for ai i k r
    using uint8_bound [of k] by (intro grows_le [OF grows_parts]) simp
  have attr: "grows 20000 (ai_attr_w aux m ai i)" for aux m ai i
    unfolding ai_attr_w_def [abs_def] by (rule grows_le, (rule parts grows_if grows_intro)+, simp)
  have info: "grows 300 (occupancyInformation_w oi)" "grows 300 (geometryInformation_w b gi)" for oi b gi
    unfolding occupancyInformation_w_def [abs_def] geometryInformation_w_def [abs_def]
    by (rule grows_le, (rule grows_if grows_intro)+, simp)+
  have attrs: "grows 30000 (attributeInformation_w b c ai)" if "vec_at (vps_attributeInformation vps_example) i = Some ai" for b c ai i
  proof -
    have "ai = vps_attributeInformation vps_example ! 0" using that by (auto simp: vec_at_eq_Some vps_example_def)
    then have "unat (ai_attributeCount ai) = 1" by (simp add: vps_example_fields)
    then show ?thesis
      unfolding attributeInformation_w_def [abs_def] by (simp only:) (rule grows_le, (rule attr grows_if grows_intro)+, simp)
  qed
  have map: "grows 200 (vps_map_w vps j i)" for vps j i
    unfolding vps_map_w_def [abs_def] by (rule grows_le, (rule grows_if grows_intro)+, simp)
  have maps: "grows (255 * 200) (for_loop [1..<unat (w :: uint8_t) + 1] (vps_map_w vps j))" for vps j w
    by (rule grows_le [OF grows_for [OF map]]) (use uint8_bound [of w] in simp)
  have atlas: "grows 90000 (vps_atlas_w vps_example i)" for i
    unfolding vps_atlas_w_def [abs_def] by (rule grows_le, (rule maps info grows_if grows_intro | rule attrs, assumption)+, simp)
  have byte: "grows 32 (vps_byte_w vps_example i)" for i
    unfolding vps_byte_w_def [abs_def] by (rule grows_le, (rule grows_intro)+, simp)
  show ?thesis
    unfolding v3cParameterSet_w_def [abs_def] count
    by (rule grows_le, (rule ptl atlas byte grows_if grows_intro)+, simp)
qed

text \<open>A step that writes the atlas: it keeps the store up to the sizes of the messages and appends at most \<open>n\<close> bits.\<close>

definition appends :: "SeiMemory \<Rightarrow> nat \<Rightarrow> (AtlasStore \<times> PCCBitstream \<Rightarrow> (AtlasStore \<times> PCCBitstream) option) \<Rightarrow> bool" where
  "appends g n U \<longleftrightarrow> (\<forall>w bs w' bs'. store_ok g atlas_example w \<longrightarrow> bs_inv bs \<longrightarrow> U (w, bs) = Some (w', bs') \<longrightarrow>
     store_ok g atlas_example w' \<and> bs_inv bs' \<and> lin (bs_pos bs') \<le> lin (bs_pos bs) + n)"

lemma appendsE:
  assumes "appends g n U" and "store_ok g atlas_example w" and "bs_inv bs" and "U (w, bs) = Some (w', bs')"
  shows "store_ok g atlas_example w'" and "bs_inv bs'" and "lin (bs_pos bs') \<le> lin (bs_pos bs) + n"
  using assms unfolding appends_def by blast+

lemma appends_bind:
  assumes "appends g m U" and "appends g n V"
  shows "appends g (m + n) (\<lambda>x. Option.bind (U x) V)"
  unfolding appends_def
proof (intro allI impI)
  fix w bs w' bs' assume w: "store_ok g atlas_example w" "bs_inv bs" and r: "Option.bind (U (w, bs)) V = Some (w', bs')"
  obtain w1 b1 where 1: "U (w, bs) = Some (w1, b1)" "V (w1, b1) = Some (w', bs')" using r by (auto split: bind_splits)
  note u = appendsE [OF assms(1) w 1(1)]
  show "store_ok g atlas_example w' \<and> bs_inv bs' \<and> lin (bs_pos bs') \<le> lin (bs_pos bs) + (m + n)"
    using appendsE [OF assms(2) u(1,2) 1(2)] u(3) by simp
qed

lemma appends_cong:
  assumes "appends g n U" and "\<And>w bs. store_ok g atlas_example w \<Longrightarrow> U' (w, bs) = U (w, bs)"
  shows "appends g n U'"
  using assms(1) unfolding appends_def by (metis assms(2))

text \<open>A NAL unit takes up to 160 bits more than its payload.\<close>

lemma appends_unit:
  assumes t: "t = NAL_ASPS \<and> payload = aspsUnit_w i \<or> t = NAL_AFPS \<and> payload = afpsUnit_w i \<or> nal_tile t \<and> payload = atglUnit_w t i
      \<or> t = NAL_PREFIX_ESEI \<and> payload = seiUnit_w t k i \<or> t = NAL_SUFFIX_ESEI \<and> payload = seiUnit_w t k i"
    and p: "\<And>w. store_ok g atlas_example w \<Longrightarrow> \<exists>w' P. store_ok g atlas_example w' \<and> (\<forall>bs. payload w bs = Option.bind (P bs) (\<lambda>bs. Some (w', bs))) \<and> grows n P"
  shows "appends g (160 + n) (\<lambda>(w, bs). sampleStreamNalUnit_w ssnu (nalUnitOf t v) i k w bs)"
  unfolding appends_def prod.case nal_unit_w [OF t]
proof (intro allI impI)
  let ?size = "\<lambda>bs. bs_write (ucast (nu_size (nalUnitOf t v))) (8 * (unat (ssnu_sizePrecisionBytesMinus1 ssnu) + 1)) bs"
  let ?header = "nalUnitHeader_w (nalUnitOf t v)"
  fix w bs w' bs'
  assume w: "store_ok g atlas_example w" "bs_inv bs" and r: "Option.bind (?size bs) (\<lambda>bs. Option.bind (?header bs) (payload w)) = Some (w', bs')"
  obtain w1 P where P: "store_ok g atlas_example w1" "\<And>bs. payload w bs = Option.bind (P bs) (\<lambda>bs. Some (w1, bs))" "grows n P"
    using p [OF w(1)] by blast
  have "grows (32 + (128 + n)) (\<lambda>bs. Option.bind (?size bs) (\<lambda>bs. Option.bind (?header bs) P))"
    unfolding nalUnitHeader_w_def [abs_def] by (rule grows_le, (rule P(3) grows_intro)+, simp)
  moreover have "Option.bind (?size bs) (\<lambda>bs. Option.bind (?header bs) P) = Some bs'" and "w' = w1"
    using r by (auto simp: P(2) split: bind_splits)
  ultimately show "store_ok g atlas_example w' \<and> bs_inv bs' \<and> lin (bs_pos bs') \<le> lin (bs_pos bs) + (160 + n)"
    using w(2) P(1) by (simp add: grows_def)
qed

lemma example_store:
  assumes "store_ok g atlas_example w"
  shows "hls_atlasSequenceParameterSet (as_hls w) = [asps_example]" and "hls_atlasFrameParameterSet (as_hls w) = [afps_example]"
    and "hls_atlasTileLayer (as_hls w) = [atgl_intra]" and "\<exists>n. as_sei w = [\<lparr>seiPrefix = [sei_example\<lparr>sei_payloadSize := n\<rparr>], seiSuffix = []\<rparr>]"
proof -
  have hls: "as_hls w = as_hls atlas_example" and l: "list_all2 pccsei_like (as_sei w) (as_sei atlas_example)" using assms by (simp_all add: store_ok_def)
  show "hls_atlasSequenceParameterSet (as_hls w) = [asps_example]" "hls_atlasFrameParameterSet (as_hls w) = [afps_example]"
    "hls_atlasTileLayer (as_hls w) = [atgl_intra]"
    by (simp_all add: hls atlas_example_parts)
  obtain l where w: "as_sei w = [l]" and like: "pccsei_like l \<lparr>seiPrefix = [sei_example], seiSuffix = []\<rparr>"
    using l by (auto simp: atlas_example_parts list_all2_Cons2)
  obtain s where s: "seiPrefix l = [s]" "sei_body s = sei_body sei_example" "seiSuffix l = []" using like by (auto simp: pccsei_like_def)
  have "s = sei_example\<lparr>sei_payloadSize := sei_payloadSize s\<rparr>" using s(2) by simp
  then have "as_sei w = [\<lparr>seiPrefix = [sei_example\<lparr>sei_payloadSize := sei_payloadSize s\<rparr>], seiSuffix = []\<rparr>]"
    using w s by (cases l) simp
  then show "\<exists>n. as_sei w = [\<lparr>seiPrefix = [sei_example\<lparr>sei_payloadSize := n\<rparr>], seiSuffix = []\<rparr>]" by blast
qed

lemma appends_prefix: "appends g 360 (\<lambda>(w, bs). sampleStreamNalUnit_w ssnu (nalUnitOf NAL_PREFIX_ESEI v) 0 0 w bs)"
proof -
  have "appends g (160 + 200) (\<lambda>(w, bs). sampleStreamNalUnit_w ssnu (nalUnitOf NAL_PREFIX_ESEI v) 0 0 w bs)"
  proof (rule appends_unit [where payload = "seiUnit_w NAL_PREFIX_ESEI 0 0"])
    fix w assume w: "store_ok g atlas_example w"
    obtain w' P where p: "store_ok g atlas_example w'" "\<And>bs. seiUnit_w NAL_PREFIX_ESEI 0 0 w bs = Option.bind (P bs) (\<lambda>bs. Some (w', bs))"
      using prefix_payload [OF w, of 0 0] by (auto simp: atlas_example_parts)
    obtain n where n: "as_sei w = [\<lparr>seiPrefix = [sei_example\<lparr>sei_payloadSize := n\<rparr>], seiSuffix = []\<rparr>]" using example_store(4) [OF w] by blast
    have "P = (\<lambda>bs. map_option snd (seiUnit_w NAL_PREFIX_ESEI 0 0 w bs))"
      by (rule ext) (simp add: p(2) map_option_bind comp_def)
    also have "\<dots> = (\<lambda>bs. map_option snd (seiRbsp_w \<lparr>seiPrefix = [sei_example\<lparr>sei_payloadSize := n\<rparr>], seiSuffix = []\<rparr> NAL_PREFIX_ESEI
        (sei_example\<lparr>sei_payloadSize := n\<rparr>) bs))"
      by (rule ext) (simp add: seiUnit_w_def n sei_list_def map_option_bind comp_def case_prod_unfold Let_def, simp add: map_conv_bind_option comp_def)
    finally have "grows 200 P" using grows_sei by simp
    with p show "\<exists>w' P. store_ok g atlas_example w' \<and> (\<forall>bs. seiUnit_w NAL_PREFIX_ESEI 0 0 w bs = Option.bind (P bs) (\<lambda>bs. Some (w', bs))) \<and> grows 200 P"
      by blast
  qed simp
  then show ?thesis by simp
qed

lemma appends_fixed:
  assumes "t = NAL_ASPS \<and> payload = aspsUnit_w 0 \<or> t = NAL_AFPS \<and> payload = afpsUnit_w 0 \<or> nal_tile t \<and> payload = atglUnit_w t 0"
    and "\<And>w bs. store_ok g atlas_example w \<Longrightarrow> payload w bs = Option.bind (P (as_hls w) bs) (\<lambda>bs. Some (w, bs))" and "\<And>h. grows n (P h)"
  shows "appends g (160 + n) (\<lambda>(w, bs). sampleStreamNalUnit_w ssnu (nalUnitOf t v) 0 0 w bs)"
  by (rule appends_unit [where payload = payload]) (use assms in blast)+

lemma appends_asps: "appends g 1000160 (\<lambda>(w, bs). sampleStreamNalUnit_w ssnu (nalUnitOf NAL_ASPS v) 0 0 w bs)"
  using appends_fixed [where P = "\<lambda>h. atlasSequenceParameterSetRbsp_w asps_example" and payload = "aspsUnit_w 0" and n = 1000000 and t = NAL_ASPS]
  by (simp add: aspsUnit_w_def example_store grows_asps)

lemma appends_afps: "appends g 100160 (\<lambda>(w, bs). sampleStreamNalUnit_w ssnu (nalUnitOf NAL_AFPS v) 0 0 w bs)"
  using appends_fixed [where P = "\<lambda>h. atlasFrameParameterSetRbsp_w (hls_getAsps h) afps_example" and payload = "afpsUnit_w 0" and n = 100000 and t = NAL_AFPS]
  by (simp add: afpsUnit_w_def example_store grows_afps)

lemma appends_tile: "appends g 400160 (nal_tile_w ssnu sz 0)"
proof (rule appends_cong)
  let ?t = "atgl_naluType atgl_intra"
  show "appends g 400160 (\<lambda>(w, bs). sampleStreamNalUnit_w ssnu (nalUnitOf ?t (sz (AtglSlot 0))) 0 0 w bs)"
    using appends_fixed [where P = "\<lambda>h. atlasTileLayerRbsp_w h ?t atgl_intra" and payload = "atglUnit_w ?t 0" and n = 400000 and t = ?t]
    by (simp add: atglUnit_w_def example_store grows_tile atgl_naluType_tile)
  have "atdu_tileOrder (atgl_dataUnit atgl_intra) = 0" by (simp add: atgl_intra_def)
  then show "nal_tile_w ssnu sz 0 (w, bs) = (case (w, bs) of (w, bs) \<Rightarrow> sampleStreamNalUnit_w ssnu (nalUnitOf ?t (sz (AtglSlot 0))) 0 0 w bs)"
    if "store_ok g atlas_example w" for w bs
    using as_setTileOrder_same [of 0 w] by (simp add: nal_tile_w_def example_store [OF that])
qed

lemma appends_layer: "appends g 400520 (nal_layer_w ssnu sz 0)"
proof (rule appends_cong)
  let ?prefix = "\<lambda>(st, bs). sampleStreamNalUnit_w ssnu (nalUnitOf NAL_PREFIX_ESEI (sz (PrefixSlot 0 0))) 0 0 st bs"
  show "appends g 400520 (\<lambda>x. Option.bind (?prefix x) (nal_tile_w ssnu sz 0))"
    using appends_bind [OF appends_prefix appends_tile] by simp
  fix w bs assume "store_ok g atlas_example w"
  then obtain n where n: "as_sei w = [\<lparr>seiPrefix = [sei_example\<lparr>sei_payloadSize := n\<rparr>], seiSuffix = []\<rparr>]" using example_store(4) by blast
  show "nal_layer_w ssnu sz 0 (w, bs) = Option.bind (?prefix (w, bs)) (nal_tile_w ssnu sz 0)"
    by (simp add: nal_layer_w_def n one_round case_prod_unfold)
qed

lemma appends_one:
  assumes "appends g n (U 0)" and "\<And>w. store_ok g atlas_example w \<Longrightarrow> len w = 1"
  shows "appends g n (\<lambda>(w, bs). for_loop [0..<len w] U (w, bs))"
  by (rule appends_cong [OF assms(1)]) (simp add: assms(2) one_round)

lemma appends_le: "appends g n U \<Longrightarrow> n \<le> m \<Longrightarrow> appends g m U"
  unfolding appends_def by (meson add_left_mono order_trans)

lemma appends_units: "appends g 2000000 (nalUnits_w ssnu sz)"
proof -
  let ?unit = "\<lambda>t v (st, bs). sampleStreamNalUnit_w ssnu (nalUnitOf t v) 0 0 st bs"
  let ?asps = "\<lambda>(st, bs). for_loop [0..<length (hls_atlasSequenceParameterSet (as_hls st))] (\<lambda>i (st, bs).
       sampleStreamNalUnit_w ssnu (nalUnitOf NAL_ASPS (sz (AspsSlot i))) i 0 st bs) (st, bs)"
  let ?afps = "\<lambda>(st, bs). for_loop [0..<length (hls_atlasFrameParameterSet (as_hls st))] (\<lambda>i (st, bs).
       sampleStreamNalUnit_w ssnu (nalUnitOf NAL_AFPS (sz (AfpsSlot i))) i 0 st bs) (st, bs)"
  let ?tiles = "\<lambda>(st, bs). for_loop [0..<length (hls_atlasTileLayer (as_hls st))] (nal_layer_w ssnu sz) (st, bs)"
  have "appends g (1000160 + (100160 + 400520)) (\<lambda>x. Option.bind (?asps x) (\<lambda>x. Option.bind (?afps x) ?tiles))"
    by (intro appends_bind appends_one appends_asps appends_afps appends_layer) (simp_all add: example_store)
  moreover have "nalUnits_w ssnu sz = (\<lambda>x. Option.bind (?asps x) (\<lambda>x. Option.bind (?afps x) ?tiles))"
    by (rule ext) (simp add: nalUnits_w_def case_prod_unfold)
  ultimately show ?thesis by (simp add: appends_le)
qed

lemma grows_atlas:
  assumes w: "atlasSubStream_w atlas_example bs = Some (st, bs')" and inv: "bs_inv bs"
  shows "lin (bs_pos bs') \<le> lin (bs_pos bs) + 2000064" and "as_hls st = hls_example"
proof -
  define g :: SeiMemory where "g = undefined"
  obtain st1 ns where s: "nalSizes_w atlas_example = Some (st1, ns)" "store_ok g atlas_example st1"
    using nalSizes_measures [OF atlas_example_wf, of g] by metis
  let ?ssnu = "ssnu_new\<lparr>ssnu_sizePrecisionBytesMinus1 := ucast (precisionBytes (ns_maxUnitSize ns + 1) - 1)\<rparr>" and ?sz = "ns_size ns"
  obtain b1 where b1: "sampleStreamNalHeader_w ?ssnu bs = Some b1" "nalUnits_w ?ssnu ?sz (st1, b1) = Some (st, bs')"
    using w by (auto simp: atlasSubStream_w_passes s(1) Let_def split: bind_splits)
  have "grows 64 (sampleStreamNalHeader_w ?ssnu)"
    unfolding sampleStreamNalHeader_w_def [abs_def] by (rule grows_le, (rule grows_intro)+, simp)
  then have h: "bs_inv b1" "lin (bs_pos b1) \<le> lin (bs_pos bs) + 64" using inv b1(1) by (simp_all add: grows_def)
  note a = appendsE [OF appends_units s(2) h(1) b1(2)]
  show "lin (bs_pos bs') \<le> lin (bs_pos bs) + 2000064" using a(3) h(2) by simp
  show "as_hls st = hls_example" using a(1) by (simp add: store_ok_def atlas_example_def)
qed

section \<open>The units of the group\<close>

text \<open>A step of \<open>encode\<close> that keeps \<open>P\<close>.\<close>

definition preserves :: "('s \<Rightarrow> bool) \<Rightarrow> ('s \<Rightarrow> 's option) \<Rightarrow> bool" where
  "preserves P W \<longleftrightarrow> (\<forall>s s'. P s \<longrightarrow> W s = Some s' \<longrightarrow> P s')"

lemma preservesD: "preserves P W \<Longrightarrow> P s \<Longrightarrow> W s = Some s' \<Longrightarrow> P s'"
  unfolding preserves_def by blast

lemma preserves_Some: "preserves P Some"
  by (simp add: preserves_def)

lemma preserves_bind: "preserves P U \<Longrightarrow> preserves P V \<Longrightarrow> preserves P (\<lambda>s. Option.bind (U s) V)"
  unfolding preserves_def bind_eq_Some_conv by blast

lemma preserves_opt: "(\<And>x. preserves P (W x)) \<Longrightarrow> preserves P (\<lambda>s. Option.bind e (\<lambda>x. W x s))"
  by (cases e) (simp_all add: preserves_def)

lemma preserves_if: "preserves P U \<Longrightarrow> preserves P V \<Longrightarrow> preserves P (\<lambda>s. if b then U s else V s)"
  by (cases b) simp_all

lemma preserves_for: "(\<And>i. preserves P (W i)) \<Longrightarrow> preserves P (for_loop is W)"
proof (induction "is")
  case (Cons i "is")
  have "for_loop (i # is) W = (\<lambda>s. Option.bind (W i s) (for_loop is W))" by (rule ext) simp
  then show ?case using preserves_bind [OF Cons.prems Cons.IH [OF Cons.prems]] by simp
qed (simp add: preserves_Some)

text \<open>The store has the atlas of the example, and no unit so far is longer than 300004 bytes.\<close>

definition example_bound :: nat where
  "example_bound = 300004"

definition small_units :: "EncodeState \<Rightarrow> bool" where
  "small_units s \<longleftrightarrow> (let (c, ssvu) = s in syn_getAtlasHighLevelSyntax (cd_syntax c) = Some hls_example
     \<and> (\<forall>u \<in> set (ssvu_v3cUnits ssvu). unit_bytes u \<le> example_bound))"

lemma preserves_header: "preserves small_units (encode_header t f)"
  unfolding preserves_def small_units_def
  by (auto simp: encode_header_def syn_setV3CUnitHeader_def syn_getAtlasHighLevelSyntax_def split: bind_splits)

lemma example_video: "hls_getVideoBitstream v hls_example = Some x \<Longrightarrow> length (vb_data x) \<le> 300000"
  by (auto simp: hls_getVideoBitstream_def hls_example_def videos_example_def split: if_splits)

lemma bs_size_lin: "8 * bs_size bs \<le> lin (bs_pos bs)"
  by (simp add: bs_size_def lin_def)

lemma header_size:
  assumes "v3cUnitHeader_w syn t bs_new = Some b"
  shows "bs_inv b" and "lin (bs_pos b) = 32"
proof -
  have "carries_atlas t \<Longrightarrow> unat t - 1 < length (syn_v3cUnitHeader syn)"
    using assms by (auto simp: carries_atlas_def v3cUnitHeader_w_def syn_getV3CUnitHeader_def vec_at_def split: bind_splits if_splits)
  then show "bs_inv b" and "lin (bs_pos b) = 32"
    using header_writes [of t syn] assms new_inv by (simp_all add: writes_def) (auto simp: bs_new_def lin_def)
qed

lemma video_size:
  assumes "video_w syn v stat bs = Some (stat', bs')" and "syn_getAtlasHighLevelSyntax syn = Some hls_example"
  shows "bs_size bs' \<le> bs_size bs + 300000"
proof -
  obtain x where x: "hls_getVideoBitstream (of_nat v) hls_example = Some x" "bs_writeVideoStream (vb_data x) bs = Some bs'"
    using assms by (auto simp: video_w_def syn_getVideoBitstream_def split: bind_splits)
  then have "bs_size bs' = bs_size bs + length (vb_data x)"
    by (auto simp: bs_writeVideoStream_def bs_skip_def bs_size_def split: bind_splits)
  then show ?thesis using example_video [OF x(1)] by simp
qed

lemma preserves_video:
  assumes t: "t \<in> {V3C_OVD, V3C_GVD, V3C_AVD}"
  shows "preserves small_units (encode_unit t)"
  unfolding preserves_def
proof (intro allI impI)
  fix s s' assume s: "small_units s" and r: "encode_unit t s = Some s'"
  obtain c ssvu where c: "s = (c, ssvu)" by (cases s)
  obtain c1 b where u: "v3cUnit_w t c bs_new = Some (c1, b)" and s': "s' = (c1, ssvu\<lparr>ssvu_v3cUnits := ssvu_v3cUnits ssvu @ [vu_setBitstream b t vu_new]\<rparr>)"
    using r by (auto simp: encode_unit_def c split: bind_splits)
  have H: "syn_getAtlasHighLevelSyntax (cd_syntax c) = Some hls_example" using s by (simp add: small_units_def c)
  obtain b0 c0 where h: "v3cUnitHeader_w (cd_syntax c) t bs_new = Some b0" "v3cUnitPayload_w t c b0 = Some (c0, b)" "cd_syntax c1 = cd_syntax c0"
    using u by (auto simp: v3cUnit_w_def Let_def split: bind_splits)
  then obtain stat where p: "videoSubStream_w (cd_syntax c) t (cd_stat c) b0 = Some (stat, b)" "cd_syntax c0 = cd_syntax c"
    using t by (auto simp: v3cUnitPayload_w_def split: bind_splits)
  have "bs_size b \<le> bs_size b0 + 300000"
    using p(1) video_size [OF _ H] by (auto simp: videoSubStream_w_def Let_def split: bind_splits if_splits)
  moreover have "bs_size b0 \<le> 4" using header_size(2) [OF h(1)] bs_size_lin [of b0] by simp
  ultimately have "unit_bytes (vu_setBitstream b t vu_new) \<le> example_bound"
    by (simp add: unit_bytes_def vu_setBitstream_def example_bound_def)
  then show "small_units s'" using s H h(3) p(2) by (auto simp: small_units_def s' c)
qed

lemma preserves_kinds: "preserves small_units (encode_unit V3C_OVD)" "preserves small_units (encode_unit V3C_GVD)" "preserves small_units (encode_unit V3C_AVD)"
  by (rule preserves_video; simp)+

lemma preserves_videos: "preserves small_units (encode_geometry sps asps a)" "preserves small_units (encode_attribute sps asps a i)"
proof -
  note intros = preserves_Some preserves_opt preserves_bind preserves_if preserves_for preserves_header preserves_kinds
  have "preserves small_units (encode_partition sps asps a i d)" for d
    unfolding encode_partition_def [abs_def] by (rule intros)+
  then show "preserves small_units (encode_attribute sps asps a i)"
    unfolding encode_attribute_def [abs_def] by (intro intros)
  show "preserves small_units (encode_geometry sps asps a)"
    unfolding encode_geometry_def [abs_def] by (rule intros)+
qed

text \<open>Before the atlas unit the store is that of the example.\<close>

definition small_start :: "EncodeState \<Rightarrow> bool" where
  "small_start s \<longleftrightarrow> (let (c, ssvu) = s in cd_getStore c = Some atlas_example
     \<and> (\<forall>u \<in> set (ssvu_v3cUnits ssvu). unit_bytes u \<le> example_bound))"

lemma preserves_header_start: "preserves small_start (encode_header t f)"
  unfolding preserves_def small_start_def
  by (auto simp: encode_header_def syn_setV3CUnitHeader_def cd_getStore_def syn_getAtlasHighLevelSyntax_def split: bind_splits)

lemma atlas_unit_small:
  assumes s: "small_start s" and r: "encode_unit V3C_AD s = Some s'"
  shows "small_units s'"
proof -
  obtain c ssvu where c: "s = (c, ssvu)" by (cases s)
  obtain c1 b where u: "v3cUnit_w V3C_AD c bs_new = Some (c1, b)"
    and s': "s' = (c1, ssvu\<lparr>ssvu_v3cUnits := ssvu_v3cUnits ssvu @ [vu_setBitstream b V3C_AD vu_new]\<rparr>)"
    using r by (auto simp: encode_unit_def c split: bind_splits)
  have st: "cd_getStore c = Some atlas_example" using s by (simp add: small_start_def c)
  obtain b0 c0 where h: "v3cUnitHeader_w (cd_syntax c) V3C_AD bs_new = Some b0" "v3cUnitPayload_w V3C_AD c b0 = Some (c0, b)" "cd_syntax c1 = cd_syntax c0"
    using u by (auto simp: v3cUnit_w_def Let_def split: bind_splits)
  obtain st' where p: "atlasSubStream_w atlas_example b0 = Some (st', b)" "c0 = cd_setStore st' c"
    using h(2) st by (auto simp: v3cUnitPayload_w_def split: bind_splits)
  note g = grows_atlas [OF p(1) header_size(1) [OF h(1)]]
  have "8 * bs_size b \<le> 2000096" using g(1) header_size(2) [OF h(1)] bs_size_lin [of b] by simp
  then have "unit_bytes (vu_setBitstream b V3C_AD vu_new) \<le> example_bound" by (simp add: unit_bytes_def vu_setBitstream_def example_bound_def)
  moreover have "syn_getAtlasHighLevelSyntax (cd_syntax c1) = Some hls_example"
    using st g(2) by (auto simp: h(3) p(2) cd_setStore_def cd_getStore_def syn_getAtlasHighLevelSyntax_def vec_at_eq_Some Let_def split: bind_splits)
  ultimately show ?thesis using s by (auto simp: small_units_def small_start_def s' c)
qed

lemma encode_atlas_small:
  assumes "small_start s" and "encode_atlas sps asps a s = Some s'"
  shows "small_units s'"
proof -
  define h where "h = for_loop [V3C_AD, V3C_OVD, V3C_GVD, V3C_AVD] (\<lambda>t. encode_header t (\<lambda>vuh. vuh\<lparr>vuh_atlasId := of_nat a\<rparr>))"
  define r where "r = (\<lambda>s. Option.bind (encode_unit V3C_OVD s) (\<lambda>s. Option.bind (encode_geometry sps asps a s)
    (\<lambda>s. Option.bind (vec_at (vps_attributeInformation sps) a) (\<lambda>ai. for_loop [0..<unat (ai_attributeCount ai)] (encode_attribute sps asps a) s))))"
  have "encode_atlas sps asps a s = Option.bind (h s) (\<lambda>s. Option.bind (encode_unit V3C_AD s) r)"
    by (simp add: encode_atlas_def h_def r_def)
  then obtain s1 s2 where 1: "h s = Some s1" "encode_unit V3C_AD s1 = Some s2" "r s2 = Some s'" using assms(2) by (auto split: bind_splits)
  have "preserves small_start h" unfolding h_def by (intro preserves_for preserves_header_start)
  then have "small_start s1" using assms(1) 1(1) by (rule preservesD)
  then have "small_units s2" using 1(2) by (rule atlas_unit_small)
  have "preserves small_units r"
    unfolding r_def by (rule preserves_kinds preserves_videos preserves_opt preserves_bind preserves_for)+
  then show ?thesis using \<open>small_units s2\<close> 1(3) by (rule preservesD)
qed

lemma example_units_small:
  assumes "encode (coder_example, ssvu_new) = Some s"
  shows "small_units s"
proof -
  obtain c0 c1 b where e: "encode (coder_example, ssvu_new) = encode_atlas vps_example asps_example 0 (c1, ssvu_append [vu_setBitstream b V3C_VPS vu_new] ssvu_new)"
    and w: "v3cUnit_w V3C_VPS c0 bs_new = Some (c1, b)" "cd_activeVps c0 = Some vps_example" and st: "cd_getStore c1 = Some atlas_example"
    using encode_start [OF coder_example_wf, of ssvu_new] by metis
  obtain b0 where h: "v3cUnitHeader_w (cd_syntax c0) V3C_VPS bs_new = Some b0" "v3cParameterSet_w vps_example b0 = Some b"
    using w by (auto simp: v3cUnit_w_def v3cUnitPayload_w_def Let_def split: bind_splits)
  have "lin (bs_pos b) \<le> lin (bs_pos b0) + 200000" using grows_vps h(2) header_size(1) [OF h(1)] unfolding grows_def by blast
  then have "unit_bytes (vu_setBitstream b V3C_VPS vu_new) \<le> example_bound"
    using header_size(2) [OF h(1)] bs_size_lin [of b] by (simp add: unit_bytes_def vu_setBitstream_def example_bound_def)
  then have "small_start (c1, ssvu_append [vu_setBitstream b V3C_VPS vu_new] ssvu_new)"
    using st by (simp add: small_start_def ssvu_append_def ssvu_new_def)
  then show ?thesis using encode_atlas_small assms unfolding e by blast
qed

lemma group_example_fits: "group_fits 4 coder_example"
proof -
  have "unit_bytes u < 2 ^ 32" if "encode (coder_example, ssvu_new) = Some (c, ssvu)" and "u \<in> set (ssvu_v3cUnits ssvu)" for c ssvu u
  proof -
    have "unit_bytes u \<le> example_bound" using example_units_small [OF that(1)] that(2) by (simp add: small_units_def)
    then show ?thesis by (simp add: example_bound_def)
  qed
  then show ?thesis by (simp add: group_fits_def split: option.split)
qed

end
