(* ===== verification/AtlasSizes.thy ===== *)
theory AtlasSizes
  imports AtlasSubStream
begin

text \<open>
  The two passes of \<open>atlasSubStream\<close> of the writer against each other: the size that the first pass
  records for a NAL unit is the number of bytes that the second pass writes for it behind the size
  field. The first pass measures every tile layer as a unit of type \<open>NAL_SKIP_R\<close>; the header of a
  layer whose type is between \<open>NAL_BLA_W_LP\<close> and \<open>NAL_RSV_IRAP_ACL_29\<close> has one flag more, which can
  take another byte.
\<close>

section \<open>Writers that take a fixed number of bits\<close>

definition fixed :: "(PCCBitstream \<Rightarrow> PCCBitstream option) \<Rightarrow> bool" where
  "fixed W \<longleftrightarrow> (\<exists>n. \<forall>bs bs'. bs_inv bs \<longrightarrow> W bs = Some bs' \<longrightarrow> bs_inv bs' \<and> lin (bs_pos bs') = lin (bs_pos bs) + n)"

lemma fixed_Some: "fixed Some"
  by (auto simp: fixed_def intro: exI [of _ 0])

lemma fixed_write: "fixed (bs_write v n)"
proof (cases "n \<le> 32")
  case True
  show ?thesis
    unfolding fixed_def
  proof (intro exI [of _ n] allI impI)
    fix bs bs' assume inv: "bs_inv bs" and w: "bs_write v n bs = Some bs'"
    show "bs_inv bs' \<and> lin (bs_pos bs') = lin (bs_pos bs) + n"
      using bs_write_bits [OF inv True, of v] w by auto
  qed
next
  case False
  then show ?thesis by (simp add: fixed_def bs_write_def)
qed

lemma fixed_bind:
  assumes "fixed V" and "fixed W"
  shows "fixed (\<lambda>bs. Option.bind (V bs) W)"
proof -
  obtain m n where m: "\<And>bs bs'. bs_inv bs \<Longrightarrow> V bs = Some bs' \<Longrightarrow> bs_inv bs' \<and> lin (bs_pos bs') = lin (bs_pos bs) + m"
    and n: "\<And>bs bs'. bs_inv bs \<Longrightarrow> W bs = Some bs' \<Longrightarrow> bs_inv bs' \<and> lin (bs_pos bs') = lin (bs_pos bs) + n"
    using assms unfolding fixed_def by blast
  show ?thesis
    unfolding fixed_def
  proof (intro exI [of _ "m + n"] allI impI)
    fix bs bs' assume inv: "bs_inv bs" and run: "Option.bind (V bs) W = Some bs'"
    obtain b1 where b1: "V bs = Some b1" "W b1 = Some bs'" using run by (auto split: bind_splits)
    show "bs_inv bs' \<and> lin (bs_pos bs') = lin (bs_pos bs) + (m + n)"
      using m [OF inv b1(1)] n [OF _ b1(2)] by simp
  qed
qed

lemma fixed_opt: "(\<And>x. fixed (W x)) \<Longrightarrow> fixed (\<lambda>bs. Option.bind e (\<lambda>x. W x bs))"
  by (cases e) (simp_all add: fixed_def)

lemma fixed_let: "(\<And>x. fixed (W x)) \<Longrightarrow> fixed (\<lambda>bs. Let e (\<lambda>x. W x bs))"
  by (simp add: Let_def)

lemma fixed_if: "fixed V \<Longrightarrow> fixed W \<Longrightarrow> fixed (\<lambda>bs. if b then V bs else W bs)"
  by (cases b) simp_all

lemma fixed_for: "(\<And>i. fixed (W i)) \<Longrightarrow> fixed (for_loop is W)"
proof (induction "is")
  case (Cons i "is")
  then show ?case using fixed_bind [of "W i" "for_loop is W"] by (simp add: fun_eq_iff)
qed (simp add: fixed_Some)

lemma fixed_uvlc: "fixed (bs_writeUvlc v)"
  unfolding bs_writeUvlc_def [abs_def] by (intro fixed_let fixed_opt fixed_bind fixed_write)

lemmas fixed_rules = fixed_Some fixed_write fixed_uvlc fixed_if fixed_for

lemma fixed_entry: "fixed (rls_entry_w asps rls i)"
  unfolding rls_entry_w_def [abs_def] by ((rule fixed_rules fixed_opt fixed_bind fixed_let)+)

lemma fixed_refs: "fixed (ath_refs_w asps x)"
  unfolding ath_refs_w_def [abs_def] refListStruct_w_def [abs_def]
  by ((rule fixed_entry fixed_rules fixed_opt fixed_bind fixed_let)+)

lemma fixed_lsb: "fixed (ath_lsb_w n x i)"
  unfolding ath_lsb_w_def [abs_def] by ((rule fixed_rules fixed_opt fixed_bind fixed_let)+)

lemma fixed_quantizers: "fixed (ath_quantizers_w afps asps rls x)"
  unfolding ath_quantizers_w_def [abs_def] by ((rule fixed_rules fixed_opt fixed_bind fixed_let)+)

section \<open>Headers\<close>

text \<open>A fixed number of bits and the alignment.\<close>

definition padded :: "(PCCBitstream \<Rightarrow> PCCBitstream option) \<Rightarrow> bool" where
  "padded W \<longleftrightarrow> (\<exists>V. fixed V \<and> (\<forall>bs. W bs = Option.bind (V bs) byteAlignment_w))"

lemma padded_align: "padded (\<lambda>bs. Option.bind (byteAlignment_w bs) Some)"
  unfolding padded_def by (rule exI [of _ Some]) (simp add: fixed_Some Option.bind_runit)

lemma padded_bind:
  assumes "fixed V" and "padded W"
  shows "padded (\<lambda>bs. Option.bind (V bs) W)"
proof -
  obtain U where U: "fixed U" "\<forall>bs. W bs = Option.bind (U bs) byteAlignment_w" using assms(2) unfolding padded_def by blast
  then have "W = (\<lambda>bs. Option.bind (U bs) byteAlignment_w)" by blast
  then have "\<forall>bs. Option.bind (V bs) W = Option.bind (Option.bind (V bs) U) byteAlignment_w" by (simp add: Option.bind_assoc)
  then show ?thesis using fixed_bind [OF assms(1) U(1)] unfolding padded_def by blast
qed

lemma padded_opt: "(\<And>x. padded (W x)) \<Longrightarrow> padded (\<lambda>bs. Option.bind e (\<lambda>x. W x bs))"
proof (cases e)
  case None
  then show ?thesis unfolding padded_def by (intro exI [of _ "\<lambda>_. None"]) (simp add: fixed_def)
qed simp

lemma padded_let: "(\<And>x. padded (W x)) \<Longrightarrow> padded (\<lambda>bs. Let e (\<lambda>x. W x bs))"
  by (simp add: Let_def)

lemma padded_header: "padded (atlasTileHeader_w hls t x)"
  unfolding atlasTileHeader_w_def [abs_def]
  by ((rule padded_align padded_opt padded_let padded_bind fixed_refs fixed_lsb fixed_quantizers fixed_rules fixed_opt fixed_let fixed_bind)+)

text \<open>The alignment fills the byte, or takes a whole byte when there is nothing to fill.\<close>

lemma Suc_mod_8: "Suc l mod 8 = (if l mod 8 = 7 then 0 else l mod 8 + 1)"
  by (simp add: mod_Suc)

lemma pad_total: "Suc l + (8 - Suc l mod 8) mod 8 = l + (8 - l mod 8)"
proof -
  have "l mod 8 < 8" by simp
  then show ?thesis unfolding Suc_mod_8 by (cases "l mod 8 = 7") simp_all
qed

lemma pad_next:
  assumes "8 * m = l + (8 - l mod 8)" and "8 * n = Suc l + (8 - Suc l mod 8)"
  shows "m \<le> n \<and> n \<le> m + 1"
proof -
  have "l mod 8 < 8" by simp
  then show ?thesis using assms unfolding Suc_mod_8 by (cases "l mod 8 = 7") auto
qed

lemma byteAlignment_lin:
  assumes inv: "bs_inv bs" and w: "byteAlignment_w bs = Some bs'"
  shows "lin (bs_pos bs') = lin (bs_pos bs) + (8 - lin (bs_pos bs) mod 8)"
proof -
  obtain b1 where b1: "bs_write 1 1 bs = Some b1" "bs_padWrite 0 b1 = Some bs'"
    using w by (auto simp: byteAlignment_w_def split: bind_splits)
  have i: "bs_inv b1" "lin (bs_pos b1) = lin (bs_pos bs) + 1"
    using bs_write_bits [OF inv, of 1 1] b1(1) by auto
  have "lin (bs_pos bs') = lin (bs_pos b1) + (8 - lin (bs_pos b1) mod 8) mod 8"
    using pad_run [OF i(1) refl, of 0] b1(2) by auto
  then show ?thesis using pad_total [of "lin (bs_pos bs)"] by (simp add: i(2))
qed

lemma padded_flag:
  assumes W: "padded W" and m: "takes m W" and n: "takes n (\<lambda>bs. Option.bind (bs_write v 1 bs) W)"
  shows "m \<le> n" and "n \<le> m + 1"
proof -
  obtain V k where V: "\<forall>bs. W bs = Option.bind (V bs) byteAlignment_w"
    and k: "\<And>bs bs'. bs_inv bs \<Longrightarrow> V bs = Some bs' \<Longrightarrow> bs_inv bs' \<and> lin (bs_pos bs') = lin (bs_pos bs) + k"
    using W unfolding padded_def fixed_def by metis
  have run: "lin (bs_pos bs') = lin (bs_pos bs) + k + (8 - (lin (bs_pos bs) + k) mod 8)"
    if inv: "bs_inv bs" and w: "W bs = Some bs'" for bs bs'
  proof -
    obtain b1 where b1: "V bs = Some b1" "byteAlignment_w b1 = Some bs'" using V w by (auto split: bind_splits)
    show ?thesis using k [OF inv b1(1)] byteAlignment_lin [OF _ b1(2)] by simp
  qed
  obtain b0 where b0: "W bs_new = Some b0" "bs_byteAligned b0" "bs_size b0 = m"
    using m new_inv new_aligned unfolding takes_def by fastforce
  obtain b2 where b2: "Option.bind (bs_write v 1 bs_new) W = Some b2" "bs_byteAligned b2" "bs_size b2 = n"
    using n new_inv new_aligned unfolding takes_def by fastforce
  obtain b1 where b1: "bs_write v 1 bs_new = Some b1" "W b1 = Some b2" using b2(1) by (auto split: bind_splits)
  have i1: "bs_inv b1" "lin (bs_pos b1) = 1" using bs_write_bits [OF new_inv, of 1 v] b1(1) by (auto simp: lin_new)
  have "8 * m = k + (8 - k mod 8)" using run [OF new_inv b0(1)] lin_aligned [OF b0(2)] b0(3) by (simp add: lin_new)
  moreover have "8 * n = Suc k + (8 - Suc k mod 8)" using run [OF i1(1) b1(2)] lin_aligned [OF b2(2)] b2(3) i1(2) by simp
  ultimately show "m \<le> n" "n \<le> m + 1" using pad_next by blast+
qed

text \<open>The types whose header has the flag.\<close>

definition flagged :: "NalUnitType \<Rightarrow> bool" where
  "flagged t \<longleftrightarrow> NAL_BLA_W_LP \<le> t \<and> t \<le> NAL_RSV_IRAP_ACL_29"

lemma header_flag:
  assumes params: "tile_params hls x = Some (afps, asps)"
  shows "flagged t \<Longrightarrow> atlasTileHeader_w hls t x =
      (\<lambda>bs. Option.bind (bs_write (b2u (ath_noOutputOfPriorAtlasFramesFlag x)) 1 bs) (atlasTileHeader_w hls NAL_SKIP_R x))"
    and "\<not> flagged t \<Longrightarrow> atlasTileHeader_w hls t x = atlasTileHeader_w hls NAL_SKIP_R x"
proof -
  have skip: "(NAL_BLA_W_LP \<le> NAL_SKIP_R \<and> NAL_SKIP_R \<le> NAL_RSV_IRAP_ACL_29) = False"
    by (simp add: NAL_SKIP_R_def NAL_BLA_W_LP_def)
  note p = params [unfolded tile_params_Some]
  show "flagged t \<Longrightarrow> atlasTileHeader_w hls t x =
      (\<lambda>bs. Option.bind (bs_write (b2u (ath_noOutputOfPriorAtlasFramesFlag x)) 1 bs) (atlasTileHeader_w hls NAL_SKIP_R x))"
    unfolding atlasTileHeader_w_def [abs_def] flagged_def skip
    by (intro ext) (simp only: p Let_def Option.bind.simps if_True if_False simp_thms Option.bind_runit)
  show "\<not> flagged t \<Longrightarrow> atlasTileHeader_w hls t x = atlasTileHeader_w hls NAL_SKIP_R x"
    unfolding atlasTileHeader_w_def [abs_def] flagged_def skip by (simp only: if_False)
qed

lemma aligns_header: "aligns (atlasTileHeader_w hls t x)"
  unfolding atlasTileHeader_w_def [abs_def]
  by ((rule aligns_Some [OF aligns_trailing(2)] aligns_opt aligns_let aligns_bind)+)

section \<open>Tile layers\<close>

lemma layer_bytes:
  assumes wf: "atgl_wf hls t rst x"
  shows "bytes_of (atlasTileLayerRbsp_w hls NAL_SKIP_R x bs_new) \<le> bytes_of (atlasTileLayerRbsp_w hls t x bs_new)"
    and "bytes_of (atlasTileLayerRbsp_w hls t x bs_new) \<le> bytes_of (atlasTileLayerRbsp_w hls NAL_SKIP_R x bs_new) + of_bool (flagged t)"
proof -
  obtain afps asps where params: "tile_params hls (atgl_header x) = Some (afps, asps)"
    and w: "ath_wf t afps asps (atgl_header x)" "atdu_wf hls afps asps (atgl_header x) rst (atgl_dataUnit x)"
    using wf by (auto simp: atgl_wf_def split: option.splits)
  obtain R and y :: AtlasTileHeader where h0: "codes (atlasTileHeader_w hls NAL_SKIP_R (atgl_header x)) R y"
    using skip_header_codes [OF params w(1)] by blast
  have h1: "codes (atlasTileHeader_w hls t (atgl_header x)) (atlasTileHeader_r hls t ath_new) (atgl_header x)"
    using ath_codes [OF params w(1) refl] .
  let ?rest = "\<lambda>bs. Option.bind (atlasTileDataUnit_w hls (atgl_header x) (atgl_dataUnit x) bs) rbspTrailingBits_w"
  note d = atdu_codes [OF params w(2) refl]
  have "\<exists>R. codes ?rest R ()"
    by (rule exI, rule codes_bind, rule d, rule codec_intro)
  then obtain S where rest: "codes ?rest S ()" by blast
  note t0 = codes_takes [OF h0 aligns_header] and t1 = codes_takes [OF h1 aligns_header]
    and tr = codes_takes [OF rest aligns_bind [OF aligns_trailing(1)]]
  have layer: "atlasTileLayerRbsp_w hls s x = (\<lambda>bs. Option.bind (atlasTileHeader_w hls s (atgl_header x) bs) ?rest)" for s
    by (rule ext) (simp add: atlasTileLayerRbsp_w_def)
  define m n where "m = bytes_of (atlasTileHeader_w hls NAL_SKIP_R (atgl_header x) bs_new)"
    and "n = bytes_of (atlasTileHeader_w hls t (atgl_header x) bs_new)"
  have le: "m \<le> n \<and> n \<le> m + of_bool (flagged t)"
  proof (cases "flagged t")
    case True
    note f = header_flag(1) [OF params True]
    show ?thesis
      using padded_flag [OF padded_header t0 t1 [unfolded f]] True unfolding m_def n_def f by simp
  next
    case False
    then show ?thesis by (simp add: m_def n_def header_flag(2) [OF params])
  qed
  have "bytes_of (atlasTileLayerRbsp_w hls NAL_SKIP_R x bs_new) = m + bytes_of (?rest bs_new)"
    "bytes_of (atlasTileLayerRbsp_w hls t x bs_new) = n + bytes_of (?rest bs_new)"
    using takes_new [OF takes_bind [OF t0 tr]] takes_new [OF takes_bind [OF t1 tr]]
    by (simp_all only: layer m_def n_def)
  then show "bytes_of (atlasTileLayerRbsp_w hls NAL_SKIP_R x bs_new) \<le> bytes_of (atlasTileLayerRbsp_w hls t x bs_new)"
    and "bytes_of (atlasTileLayerRbsp_w hls t x bs_new) \<le> bytes_of (atlasTileLayerRbsp_w hls NAL_SKIP_R x bs_new) + of_bool (flagged t)"
    using le by simp_all
qed

section \<open>Units of the second pass\<close>

text \<open>What the second pass writes for a slot.\<close>

definition written_w :: "SampleStreamNalUnit \<Rightarrow> (NalSlot \<Rightarrow> uint32_t) \<Rightarrow> NalSlot \<Rightarrow> AtlasStore \<Rightarrow> PCCBitstream
    \<Rightarrow> (AtlasStore \<times> PCCBitstream) option" where
  "written_w ssnu sz slot w bs = (case slot of
     AspsSlot i \<Rightarrow> sampleStreamNalUnit_w ssnu (nalUnitOf NAL_ASPS (sz slot)) i 0 w bs
   | AfpsSlot i \<Rightarrow> sampleStreamNalUnit_w ssnu (nalUnitOf NAL_AFPS (sz slot)) i 0 w bs
   | PrefixSlot k i \<Rightarrow> sampleStreamNalUnit_w ssnu (nalUnitOf NAL_PREFIX_ESEI (sz slot)) i k w bs
   | AtglSlot k \<Rightarrow> nal_tile_w ssnu sz k (w, bs)
   | SuffixSlot k i \<Rightarrow> sampleStreamNalUnit_w ssnu (nalUnitOf NAL_SUFFIX_ESEI (sz slot)) i k w bs)"

text \<open>A tile layer whose type has the flag.\<close>

definition slot_flagged :: "AtlasStore \<Rightarrow> NalSlot \<Rightarrow> bool" where
  "slot_flagged st slot = (case slot of AtglSlot k \<Rightarrow> flagged (atgl_naluType (hls_atlasTileLayer (as_hls st) ! k)) | _ \<Rightarrow> False)"

lemma takesI:
  assumes "\<And>bs. bs_inv bs \<Longrightarrow> \<exists>bs'. W bs = Some bs' \<and> bs_inv bs' \<and> lin (bs_pos bs') = lin (bs_pos bs) + 8 * n"
  shows "takes n W"
  unfolding takes_def
proof (intro allI impI)
  fix bs assume bs: "bs_inv bs" "bs_byteAligned bs"
  obtain bs' where w: "W bs = Some bs'" "bs_inv bs'" "lin (bs_pos bs') = lin (bs_pos bs) + 8 * n"
    using assms [OF bs(1)] by blast
  then have "8 * pos_bytes (bs_pos bs') + pos_bits (bs_pos bs') = 8 * (bs_size bs + n)"
    using bs(2) by (simp add: lin_aligned) (simp add: lin_def)
  moreover have "pos_bits (bs_pos bs') < 8" using w(2) by (simp add: bs_inv_def)
  ultimately have "pos_bits (bs_pos bs') = 0 \<and> pos_bytes (bs_pos bs') = bs_size bs + n" by presburger
  then show "\<exists>bs'. W bs = Some bs' \<and> bs_inv bs' \<and> bs_byteAligned bs' \<and> bs_size bs' = bs_size bs + n"
    using w(1,2) by (simp add: bs_byteAligned_def bs_size_def)
qed

lemma takes_u: "n \<le> 4 \<Longrightarrow> takes n (bs_write v (8 * n))"
proof (rule takesI)
  fix bs assume n: "n \<le> 4" and bs: "bs_inv bs"
  show "\<exists>bs'. bs_write v (8 * n) bs = Some bs' \<and> bs_inv bs' \<and> lin (bs_pos bs') = lin (bs_pos bs) + 8 * n"
    using bs_write_bits [OF bs, of "8 * n" v] n by auto
qed

lemma takes_header: "takes 2 (nalUnitHeader_w x)"
proof (rule takesI)
  fix bs assume bs: "bs_inv bs"
  have "writes (1 + (6 + (6 + (3 + 0)))) (nalUnitHeader_w x)"
    unfolding nalUnitHeader_w_def [abs_def] by (intro writes_bind writes_u writes_Some) simp_all
  then show "\<exists>bs'. nalUnitHeader_w x bs = Some bs' \<and> bs_inv bs' \<and> lin (bs_pos bs') = lin (bs_pos bs) + 8 * 2"
    using bs unfolding writes_def by simp
qed

lemma unit_written:
  assumes p: "unat (ssnu_sizePrecisionBytesMinus1 ssnu) \<le> 3" and U: "unit_takes ok n payload"
    and W: "\<And>w bs. ok w \<Longrightarrow> W w bs = Option.bind (bs_write v (8 * (unat (ssnu_sizePrecisionBytesMinus1 ssnu) + 1)) bs)
      (\<lambda>bs. Option.bind (nalUnitHeader_w nu bs) (payload w))"
  shows "unit_takes ok (unat (ssnu_sizePrecisionBytesMinus1 ssnu) + 1 + (2 + n)) W"
proof (rule unit_takes_put)
  show "unit_takes ok (2 + n) (\<lambda>w bs. Option.bind (nalUnitHeader_w nu bs) (payload w))"
    by (rule unit_takes_put [OF U takes_header]) simp
  show "takes (unat (ssnu_sizePrecisionBytesMinus1 ssnu) + 1) (bs_write v (8 * (unat (ssnu_sizePrecisionBytesMinus1 ssnu) + 1)))"
    using p by (intro takes_u) simp
qed (rule W)

text \<open>The size of a slot is what the second pass writes behind the size field, but for the flag.\<close>

lemma slot_written:
  assumes wf: "atlas_wf g h rst st" and slot: "slot \<in> atlas_slots st"
    and p: "unat (ssnu_sizePrecisionBytesMinus1 ssnu) \<le> 3"
  shows "\<exists>e. e \<le> of_bool (slot_flagged st slot)
    \<and> unit_takes (store_ok g st) (unat (ssnu_sizePrecisionBytesMinus1 ssnu) + 1 + (2 + (nal_bytes st slot + e))) (written_w ssnu sz slot)"
proof -
  define xs where "xs = hls_atlasTileLayer (as_hls st)"
  note w = wf [unfolded atlas_wf_def Let_def, folded xs_def]
  note ok = store_ok_refl [OF wf]
  have seis: "length (as_sei st) = length xs" using w by blast
  note put = unit_written [OF p]
  consider (asps) i where "slot = AspsSlot i" "i < length (hls_atlasSequenceParameterSet (as_hls st))"
    | (afps) i where "slot = AfpsSlot i" "i < length (hls_atlasFrameParameterSet (as_hls st))"
    | (prefix) k i where "slot = PrefixSlot k i" "k < length (as_sei st)" "i < length (seiPrefix (as_sei st ! k))"
    | (suffix) k i where "slot = SuffixSlot k i" "k < length (as_sei st)" "i < length (seiSuffix (as_sei st ! k))"
    | (tile) k where "slot = AtglSlot k" "k < length xs"
    using slot seis unfolding atlas_slots_def layer_slots_def xs_def by auto
  then show ?thesis
  proof cases
    case asps
    have "unit_takes (store_ok g st) (unat (ssnu_sizePrecisionBytesMinus1 ssnu) + 1 + (2 + nal_bytes st slot)) (written_w ssnu sz slot)"
      unfolding asps(1) by (rule put, rule asps_takes) (use w asps(2) in \<open>auto simp: written_w_def nal_unit_w [where payload = "aspsUnit_w i"]\<close>)
    then show ?thesis by (intro exI [of _ 0]) simp
  next
    case afps
    have "unit_takes (store_ok g st) (unat (ssnu_sizePrecisionBytesMinus1 ssnu) + 1 + (2 + nal_bytes st slot)) (written_w ssnu sz slot)"
      unfolding afps(1) by (rule put, rule afps_takes) (use w afps(2) in \<open>auto simp: written_w_def nal_unit_w [where payload = "afpsUnit_w i"]\<close>)
    then show ?thesis by (intro exI [of _ 0]) simp
  next
    case prefix
    have "unit_takes (store_ok g st) (unat (ssnu_sizePrecisionBytesMinus1 ssnu) + 1 + (2 + nal_bytes st slot)) (written_w ssnu sz slot)"
      unfolding prefix(1)
      by (rule put, rule sei_takes(1) [OF ok prefix(2,3)]) (simp add: written_w_def nal_unit_w [where payload = "seiUnit_w NAL_PREFIX_ESEI k i"])
    then show ?thesis by (intro exI [of _ 0]) simp
  next
    case suffix
    have "unit_takes (store_ok g st) (unat (ssnu_sizePrecisionBytesMinus1 ssnu) + 1 + (2 + nal_bytes st slot)) (written_w ssnu sz slot)"
      unfolding suffix(1)
      by (rule put, rule sei_takes(2) [OF ok suffix(2,3)]) (simp add: written_w_def nal_unit_w [where payload = "seiUnit_w NAL_SUFFIX_ESEI k i"])
    then show ?thesis by (intro exI [of _ 0]) simp
  next
    case tile
    let ?t = "atgl_naluType (xs ! k)" and ?x = "xs ! k"
    let ?n = "bytes_of (atlasTileLayerRbsp_w (as_hls st) ?t ?x bs_new)"
    have layer: "layer_wf (hls_params (as_hls st) h) xs rst k" using w tile(2) by blast
    let ?h = "hls_addAtlasTileLayer (hls_layers (hls_params (as_hls st) h) xs k)"
    have aw: "atgl_wf ?h ?t (layer_state (hls_params (as_hls st) h) xs rst k) ?x" and order: "atdu_tileOrder (atgl_dataUnit ?x) = of_nat k"
      using layer by (simp_all add: layer_wf_def)
    obtain R y where "codes (atlasTileLayerRbsp_w ?h ?t ?x) R (y :: AtlasTileLayerRbsp \<times> ReaderState)"
      using atgl_codes [OF aw, of "?x\<lparr>atgl_header := ath_new,
        atgl_dataUnit := atdu_new\<lparr>atdu_tileOrder := atdu_tileOrder (atgl_dataUnit ?x)\<rparr>\<rparr>"] by auto
    then have "unit_takes (store_ok g st) ?n (atglUnit_w ?t k)"
      using atgl_unit_takes [of k st ?t R y g] tile(2) by (simp add: xs_def atgl_w_params)
    then have "unit_takes (store_ok g st) (unat (ssnu_sizePrecisionBytesMinus1 ssnu) + 1 + (2 + ?n)) (written_w ssnu sz slot)"
    proof (rule put)
      fix w bs assume s: "store_ok g st w"
      then have hls: "as_hls w = as_hls st" by (simp add: store_ok_def)
      have "as_setTileOrder k w = Some w" using tile(2) order by (intro as_setTileOrder_same) (simp_all add: hls xs_def)
      then show "written_w ssnu sz slot w bs = Option.bind (bs_write (ucast (nu_size (nalUnitOf ?t (sz (AtglSlot k)))))
          (8 * (unat (ssnu_sizePrecisionBytesMinus1 ssnu) + 1)) bs)
          (\<lambda>bs. Option.bind (nalUnitHeader_w (nalUnitOf ?t (sz (AtglSlot k))) bs) (atglUnit_w ?t k w))"
        using tile(2) hls by (simp add: tile(1) written_w_def nal_tile_w_def xs_def [symmetric] nal_unit_w [where payload = "atglUnit_w ?t k"] atgl_naluType_tile)
    qed
    moreover have "nal_bytes st slot \<le> ?n" "?n \<le> nal_bytes st slot + of_bool (flagged ?t)"
      using layer_bytes [OF aw] tile by (simp_all add: atgl_bytes xs_def atgl_w_params)
    ultimately show ?thesis
      using tile by (intro exI [of _ "?n - nal_bytes st slot"]) (simp add: slot_flagged_def xs_def)
  qed
qed

lemma sizes_written:
  assumes "atlas_wf g h rst st" and "atlas_small st"
  shows "\<exists>st' ns. nalSizes_w st = Some (st', ns) \<and> store_ok g st st'
    \<and> (let prec = ucast (precisionBytes (ns_maxUnitSize ns + 1) - 1); ssnu = ssnu_new\<lparr>ssnu_sizePrecisionBytesMinus1 := prec\<rparr> in
        unat prec \<le> 3 \<and> (\<forall>slot \<in> atlas_slots st. size_ok prec (ns_size ns slot)
          \<and> (\<exists>e. e \<le> of_bool (slot_flagged st slot) \<and> (\<forall>w bs. store_ok g st w \<longrightarrow> bs_inv bs \<longrightarrow> bs_byteAligned bs \<longrightarrow>
              (\<exists>w' bs'. written_w ssnu (ns_size ns) slot w bs = Some (w', bs') \<and> store_ok g st w' \<and> bs_inv bs' \<and> bs_byteAligned bs'
                \<and> bs_size bs' = bs_size bs + (unat prec + 1) + unat (ns_size ns slot) + e)))))"
proof -
  obtain st' ns where s: "nalSizes_w st = Some (st', ns)" "store_ok g st st'" "ns_inv ns"
    and good: "ns_small ns \<Longrightarrow> (\<forall>slot \<in> atlas_slots st. ns_good (nal_bytes st) ns slot)"
    using nalSizes_measures [OF assms(1)] by metis
  have small: "ns_small ns" using assms(2) s(1) by (simp add: atlas_small_def)
  define prec :: uint8_t where "prec = ucast (precisionBytes (ns_maxUnitSize ns + 1) - 1)"
  define ssnu where "ssnu = ssnu_new\<lparr>ssnu_sizePrecisionBytesMinus1 := prec\<rparr>"
  note prec = nal_precision [OF s(3) small prec_def]
  have "size_ok prec (ns_size ns slot) \<and> (\<exists>e. e \<le> of_bool (slot_flagged st slot) \<and> (\<forall>w bs. store_ok g st w \<longrightarrow> bs_inv bs \<longrightarrow> bs_byteAligned bs \<longrightarrow>
      (\<exists>w' bs'. written_w ssnu (ns_size ns) slot w bs = Some (w', bs') \<and> store_ok g st w' \<and> bs_inv bs' \<and> bs_byteAligned bs'
        \<and> bs_size bs' = bs_size bs + (unat prec + 1) + unat (ns_size ns slot) + e)))" if slot: "slot \<in> atlas_slots st" for slot
  proof -
    have g: "ns_good (nal_bytes st) ns slot" using good [OF small] slot by blast
    obtain e where e: "e \<le> of_bool (slot_flagged st slot)"
      and t: "unit_takes (store_ok g st) (unat prec + 1 + (2 + (nal_bytes st slot + e))) (written_w ssnu (ns_size ns) slot)"
      using slot_written [OF assms(1) slot, of ssnu "ns_size ns"] prec(1) by (auto simp: ssnu_def)
    have "\<exists>w' bs'. written_w ssnu (ns_size ns) slot w bs = Some (w', bs') \<and> store_ok g st w' \<and> bs_inv bs' \<and> bs_byteAligned bs'
        \<and> bs_size bs' = bs_size bs + (unat prec + 1) + unat (ns_size ns slot) + e"
      if w: "store_ok g st w" and bs: "bs_inv bs" "bs_byteAligned bs" for w bs
    proof -
      obtain w' P where p: "store_ok g st w'" "written_w ssnu (ns_size ns) slot w bs = Option.bind (P bs) (\<lambda>bs. Some (w', bs))"
        "takes (unat prec + 1 + (2 + (nal_bytes st slot + e))) P" using t w unfolding unit_takes_def by blast
      then show ?thesis using bs g unfolding takes_def ns_good_def by fastforce
    qed
    then show ?thesis using prec(2) [OF g] e by blast
  qed
  then show ?thesis using s(1,2) prec(1) by (simp add: Let_def prec_def [symmetric] ssnu_def [symmetric])
qed

end
