(* ===== verification/Spec2Isabelle.thy ===== *)
theory Spec2Isabelle
  imports V3CExamples AtlasSizes
begin

text \<open>
  \<^bold>\<open>The program.\<close> RABBIT transcodes point clouds that are compressed with V-PCC (ISO/IEC 23090-5). A V3C bitstream
  is a sample stream of units: parameter sets (VPS), atlas data (AD) and the videos for occupancy (OVD), geometry (GVD)
  and attributes (AVD). The reader parses the units into the store \<open>PCCHighLevelSyntax\<close>, the transcoder replaces
  the videos and adjusts the atlas, and the writer serialises the store again. Everything rests on one
  contract: what the writer puts into the stream the reader gets back, and both stay in step bit by bit. This development
  models the bitstream libraries \<open>PccLibBitstreamCommon\<close>, \<open>PccLibBitstreamWriter\<close> and
  \<open>PccLibBitstreamReader\<close> under \<open>src/source/lib/\<close> and proves that contract.

  \<^bold>\<open>Conventions.\<close> Classes are records with the member names of the source behind a prefix (\<open>vps_\<close>,
  \<open>asps_\<close>, \<open>afps_\<close>, ...); \<open>x_new\<close> is the constructor. A function of the writer ends in \<open>_w\<close> and
  maps the stream to the longer stream, a function of the reader ends in \<open>_r\<close> and returns the filled object with
  the stream at its new position. Integers keep their width; conversions are \<open>ucast\<close>. \<open>None\<close> stands for
  what the code leaves undefined or ends with: an access outside a vector, a shift of 32 or more, a signed overflow,
  a failed assertion, \<open>exit\<close>, or a loop that never ends. A loop whose end depends on the data is a
  \<open>partial_function\<close>, so a result is proved to exist, never assumed; no fuel is used. Loop bodies and long
  functions are split into definitions of their own (\<open>vps_atlas_w\<close>, \<open>ath_refs_r\<close>, ...). Trace output is
  left out.

  \<^bold>\<open>Theories.\<close>
  \<^item> Prelude: integer types, vectors with their bounds, counted loops.
  \<^item> Bitstream: \<open>PCCBitstream.h/.cpp\<close>. \<open>bs_inv\<close> is the class invariant (the position is inside the
    buffer and all bits behind it are zero); \<open>bs_write_bits\<close> and \<open>bs_read_bits\<close> describe the fixed-width
    operations bit by bit.
  \<^item> Codec: the judgement \<open>codes W R y\<close> (the writer action succeeds on every valid stream and only appends;
    the reader action, started there on any stream that begins with these bits, returns \<open>y\<close> and stops where the
    writer stopped) with rules for sequence, branch and loop, the elementary codes, and the interfaces
    \<open>value_codec\<close>, \<open>syntax_codec\<close> and \<open>param_codec\<close>, which every syntax structure below interprets.
  \<^item> Blocks: the same for byte aligned streams that are copied as whole bytes, and the interface
    \<open>block_stream\<close> for sequences of units up to the end of the data.
  \<^item> ParameterSets, VpsParameterSet: profile, tier and level, occupancy, geometry and attribute information and the V3C
    parameter set (\<open>PCCV3CParameterSet.h\<close> and the headers it includes).
  \<^item> AtlasSequence: reference lists, VUI and HRD parameters, point local reconstruction information, extensions and the
    atlas sequence parameter set.
  \<^item> AtlasFrame: \<open>floorLog2\<close> and \<open>ceilLog2\<close>, tile information, atlas frame and adaptation parameter
    sets.
  \<^item> TileData: the records of tile headers, patches and tile layers. PatchUnits: the five kinds of patch data units.
    TileLayer: tile header, patch dispatch, the loop over the patches and the tile layer, with the state the
    reader carries from patch to patch.
  \<^item> VideoBitstream: \<open>PCCVideoBitstream.cpp\<close>, the conversion between the byte stream and the sample stream
    format of the videos, with emulation prevention.
  \<^item> HighLevelSyntax: the store, with the interface \<open>id_store\<close> of its vectors, and the profile check.
  \<^item> Units: V3C unit header and the sample stream of units, with the choice of the size precision.
  \<^item> SubStreams: NAL unit header and payload, the video sub-bitstreams of a unit, and the statistics of unit sizes.
  \<^item> SeiMessages, SeiProcessing, SeiScene, SeiViewport: the supplemental enhancement information messages
    (\<open>PCCSei.h\<close> and their functions in writer and reader): user data, manifests, hashes; smoothing, synthesis and
    transformation of attributes; scene objects, labels, patches, rectangles, buffering periods; viewports.
  \<^item> SeiList: the union of all messages, the two lists of a tile layer with \<open>addSei\<close> and the lookups, and
    \<open>seiPayload\<close>, \<open>seiMessage\<close>, \<open>seiRbsp\<close>, which dispatch to the messages.
  \<^item> AtlasSubStream: \<open>atlasSubStream\<close> and \<open>sampleStreamNalUnit\<close>. The pass of the writer that
    measures all units, the pass that writes them, and the reader with the messages it keeps for the next tile layer. The
    judgement \<open>runs\<close> composes writer steps and reader steps of a sequence of units, \<open>measures\<close> the steps of the
    measuring pass.
  \<^item> AtlasSizes: the two passes of the writer against each other, the recorded sizes and the bytes that are written.
  \<^item> V3CCoder: \<open>v3cUnit\<close>, \<open>v3cUnitPayload\<close>, \<open>encode\<close> and \<open>decode\<close>. The judgement
    \<open>emits\<close> says which videos a step of \<open>encode\<close> appends and that the loop of \<open>decode\<close> takes
    exactly these units.
  \<^item> Examples, SeiExamples, AtlasExamples, V3CExamples: well-formed objects on which the properties are applied, from a
    single header to a group of frames with its size bounds.

  \<^bold>\<open>How the parts interact.\<close> \<open>encode\<close> makes one unit of the parameter set, one of the atlas and one of
  each video and hands them to the sample stream (\<open>write\<close>); \<open>read\<close> splits a file into units and
  \<open>decode\<close> passes each payload to the reader of its kind. The atlas payload is a sample stream of NAL units of its
  own, whose units dispatch to the parameter sets, the tile layers and the messages; the tile layers look up the parameter
  sets in the store. Each level relies on the level below through its interface only: \<open>codes\<close> for bits,
  \<open>blocks\<close> for bytes, \<open>runs\<close> and \<open>emits\<close> for sequences of units.

  \<^bold>\<open>What is shown.\<close> The contract for a whole group of frames (\<open>group_roundtrip\<close>), for the sequence of groups
  (\<open>decode_next_group\<close>), for the atlas sub-stream, and round trips of every syntax structure, under
  well-formedness predicates \<open>x_wf\<close> that say exactly which objects the syntax can carry (field widths; values below
  \<open>2 ^ 31 - 1\<close> for \<open>ue(v)\<close>, because the reader shifts a signed 1; members that are not coded have their
  constructed value); refinement of the video conversions to the formats as lists of NAL units; the class invariant of the
  stream; what kind of message a reader can return on any input; equivalence of the two implementations of
  \<open>floorLog2\<close>; lookups in the stores; bounds of the size fields, and the sizes of the NAL units, which are the bytes that the second
  pass writes (\<open>nal_sizes_exact\<close>); and the places where the code does not keep the
  contract (VUI and HRD parameters, toolset constraints with their reserved bytes, start codes inside NAL units in
  spite of emulation prevention, unit sizes that are powers of 256, NAL unit
  payloads, merge patches, viewport rotations, object messages, user data without a size). The predicate \<open>sei_wf\<close>
  of the messages leaves out the kinds that the code does not carry: prefix indications, filler payloads, buffering periods
  with HRD flags, frame timings with values, object messages with updates, labels with texts, angles and
  rotations that are no whole numbers.

  \<^bold>\<open>Bounds.\<close> The theorems on groups need one atlas (the reader takes the map parameters of atlas 0, and the
  writer never changes the atlas index), at most one attribute (the video type does not depend on the attribute
  index), at most 32 partitions (the unit header has 5 bits) and units below 4 GB, with the field forced to four bytes or a
  largest size other than 256, 65536 and 16777216. The atlas sub-stream needs less than \<open>2 ^ 32 - 3\<close> bytes, so that
  the sizes that are kept in 32 bits do not wrap. The examples meet these bounds.

  \<^bold>\<open>Not modelled.\<close> The members of the store and of the tile headers that no coded structure uses (printing,
  comparison operators, derived data of the encoder). The transcoder, which drives video codecs and CUDA kernels; encoder
  and decoder (geometry, images, video codecs), which work on floating point data and third-party containers; metrics,
  renderer, and the third-party libraries under \<open>src/dependencies\<close>.
\<close>

section \<open>Properties\<close>

text \<open>C1. A whole group of frames survives the file. From a well-formed store (one atlas, at most one attribute in at
  most 32 partitions, every selected video present) \<open>encode\<close> succeeds and \<open>write\<close> puts its units into a file;
  \<open>read\<close> finds the units in the bytes of this file and \<open>decode\<close>, started on a new store, takes all of them and ends
  with exactly this parameter set, the parameter sets, tile layers and messages of the atlas, the videos that the
  parameter set selects, in their order, and the statistics that the writer has counted.\<close>

theorem group_roundtrip:
  assumes "coder_wf g rst sps asps st c" and "group_fits forced c" and "unat forced \<le> 4"
  shows "\<exists>c' ssvu h ssvu' bs' r e d. encode (c, ssvu_new) = Some (c', ssvu)
    \<and> ssvu_write ssvu forced bs_new = Some ((h, ssvu'), bs')
    \<and> ssvu_read ssvu_new (bs_initialize (bs_file bs') bs_new) = Some ((h, r), e)
    \<and> decode g r (coder_new (cd_stat c), rst) = Some (r\<lparr>ssvu_v3cUnits := []\<rparr>, (d, atlas_state hls_new rst st))
    \<and> syn_vpccParameterSets (cd_syntax d) = [sps] \<and> group_stored sps asps st d \<and> cd_stat d = cd_stat c'"
  using group_file [OF assms] by metis

theorem group_roundtrip_witness:
  "\<forall>g. \<exists>c' ssvu h ssvu' bs' r e d. encode (coder_example, ssvu_new) = Some (c', ssvu)
    \<and> ssvu_write ssvu 4 bs_new = Some ((h, ssvu'), bs')
    \<and> ssvu_read ssvu_new (bs_initialize (bs_file bs') bs_new) = Some ((h, r), e)
    \<and> decode g r (coder_new (cd_stat coder_example), rst_new) = Some (r\<lparr>ssvu_v3cUnits := []\<rparr>, (d, atlas_state hls_new rst_new atlas_example))
    \<and> syn_vpccParameterSets (cd_syntax d) = [vps_example] \<and> group_stored vps_example asps_example atlas_example d
    \<and> cd_stat d = cd_stat c'"
  by (intro allI group_roundtrip [OF coder_example_wf group_example_fits]) simp

text \<open>C2. The atlas survives its sub-stream: for every well-formed atlas the two passes of \<open>atlasSubStream\<close> of the writer
  succeed and change nothing but the payload sizes of the messages; the reader, given the bytes of the stream and an
  empty atlas, ends and has stored the parameter sets, the tile layers with their patches, and the prefix and suffix
  messages at the tile layers to which they belong.\<close>

theorem atlasSubStream_roundtrip:
  assumes "atlas_wf g h rst st" and "hls_empty h" and "atlas_small st"
  shows "\<exists>st' bs' e. atlasSubStream_w st bs_new = Some (st', bs') \<and> store_ok g st st'
    \<and> atlasSubStream_r g rst \<lparr>as_hls = h, as_sei = []\<rparr> (bs_initialize (bs_file bs') bs_new)
      = Some ((atlas_read h st, atlas_state h rst st), e)"
  using assms by (rule atlasSubStream_file)

theorem atlasSubStream_roundtrip_witness:
  "\<forall>g. \<exists>st' bs' e. atlasSubStream_w atlas_example bs_new = Some (st', bs') \<and> store_ok g atlas_example st'
    \<and> atlasSubStream_r g rst_new \<lparr>as_hls = hls_new, as_sei = []\<rparr> (bs_initialize (bs_file bs') bs_new)
      = Some ((atlas_read hls_new atlas_example, atlas_state hls_new rst_new atlas_example), e)"
  by (intro allI atlasSubStream_roundtrip [OF atlas_example_wf _ atlas_example_small]) (simp add: hls_empty_def hls_new_def)

text \<open>C3. The V3C parameter set survives the bitstream: for every well-formed set and every stream in a
  valid state, \<open>v3cParameterSet\<close> of the writer succeeds, and \<open>v3cParameterSet\<close> of the reader,
  started where the writer started with a newly constructed set, returns exactly the set that was
  written and stops exactly where the writer stopped.\<close>

theorem v3cParameterSet_roundtrip:
  assumes "vps_wf x" and "bs_inv bs"
  shows "\<exists>bs'. v3cParameterSet_w x bs = Some bs' \<and> bs_inv bs'
     \<and> v3cParameterSet_r vps_new (bs_setPosition (bs_pos bs) bs') = Some (x, bs')"
  using assms by (rule vps.vc.roundtrip)

theorem v3cParameterSet_roundtrip_witness:
  "\<exists>bs'. v3cParameterSet_w vps_example bs_new = Some bs' \<and> bs_inv bs'
     \<and> v3cParameterSet_r vps_new (bs_setPosition (bs_pos bs_new) bs') = Some (vps_example, bs')"
  using v3cParameterSet_roundtrip [OF vps_example_wf bs_inv_new] .

text \<open>C4. A whole tile layer survives the bitstream. The writer codes the header and the patches up to and
  including the one with the termination mode; the reader, working on the layer that was appended
  for it, gets the same header and the same patches without the terminator, and the state that it
  keeps between patches is the one that the patches determine. Patches of every mode and tiles of every
  type are covered.\<close>

theorem atlasTileLayerRbsp_roundtrip:
  assumes "atgl_wf hls nalUnitType rst x" and "bs_inv bs" and "atgl_header y = ath_new"
    and "atgl_dataUnit y = atdu_new\<lparr>atdu_tileOrder := atdu_tileOrder (atgl_dataUnit x)\<rparr>"
  shows "\<exists>bs'. atlasTileLayerRbsp_w hls nalUnitType x bs = Some bs' \<and> bs_inv bs'
     \<and> atlasTileLayerRbsp_r hls nalUnitType rst y (bs_setPosition (bs_pos bs) bs') = Some ((y\<lparr>atgl_header := atgl_header x, atgl_dataUnit := atdu_result (atgl_dataUnit x)\<rparr>, atgl_next hls rst x), bs')"
  using codes_roundtrip [OF atgl_codes [OF assms(1,3,4)] assms(2)] .

theorem atlasTileLayerRbsp_roundtrip_witness:
  "\<exists>bs'. atlasTileLayerRbsp_w hls_example NAL_TRAIL_R atgl_inter bs_new = Some bs' \<and> bs_inv bs'
     \<and> atlasTileLayerRbsp_r hls_example NAL_TRAIL_R rst_new (atgl_new\<lparr>atgl_dataUnit := atdu_new\<lparr>atdu_tileOrder := 1\<rparr>\<rparr>)
         (bs_setPosition (bs_pos bs_new) bs')
       = Some ((atgl_new\<lparr>atgl_header := ath_inter, atgl_dataUnit := atdu_result atdu_inter\<rparr>, atgl_next hls_example rst_new atgl_inter), bs')"
  using atlasTileLayerRbsp_roundtrip [OF atgl_inter_wf bs_inv_new,
      of "atgl_new\<lparr>atgl_dataUnit := atdu_new\<lparr>atdu_tileOrder := 1\<rparr>\<rparr>"]
  by (simp add: atgl_new_def atgl_inter_def atdu_inter_def)

text \<open>C5. The sample stream of V3C units survives the file: if every unit has a size between 1 and \<open>2 ^ 32 - 1\<close> that
  its buffer covers, the forced precision is at most 4 bytes, and it is 4 or the largest size is not a power of 256,
  then the writer succeeds, and the reader, given the bytes written to the file, ends and returns the units in order with their
  sizes, their first \<open>size\<close> bytes and the type in the upper bits of the first byte. Both report the same number of
  header bytes and use the same precision.\<close>

theorem sampleStream_roundtrip:
  assumes "\<And>vu. vu \<in> set (ssvu_v3cUnits ssvu) \<Longrightarrow>
      0 < unat (vu_size vu) \<and> unat (vu_size vu) \<le> length (bs_data (vu_bitstream vu)) \<and> unat (vu_size vu) < 2 ^ 32"
    and "forced = 4 \<or> unat (ssvu_maxUnitSize (ssvu_v3cUnits ssvu)) \<notin> {2 ^ 8, 2 ^ 16, 2 ^ 24}" and "unat forced \<le> 4"
  shows "\<exists>headerSize ssvu' bs' e. ssvu_write ssvu forced bs_new = Some ((headerSize, ssvu'), bs')
    \<and> ssvu_read ssvu_new (bs_initialize (bs_file bs') bs_new) =
        Some ((headerSize, \<lparr>ssvu_v3cUnits = map vu_read (ssvu_v3cUnits ssvu),
           ssvu_ssvhUnitSizePrecisionBytesMinus1 = ssvu_ssvhUnitSizePrecisionBytesMinus1 ssvu'\<rparr>), e)"
  by (rule ssvu_file_roundtrip) (rule assms, assumption, rule assms, rule assms)

theorem sampleStream_roundtrip_witness:
  "let ssvu = \<lparr>ssvu_v3cUnits = [\<lparr>vu_type = 1, vu_size = 2, vu_bitstream = bs_initialize [8, 7] bs_new\<rparr>,
       \<lparr>vu_type = 2, vu_size = 3, vu_bitstream = bs_initialize [16, 1, 2, 9] bs_new\<rparr>], ssvu_ssvhUnitSizePrecisionBytesMinus1 = 0\<rparr> in
     \<exists>headerSize ssvu' bs' e. ssvu_write ssvu 0 bs_new = Some ((headerSize, ssvu'), bs')
    \<and> ssvu_read ssvu_new (bs_initialize (bs_file bs') bs_new) =
        Some ((headerSize, \<lparr>ssvu_v3cUnits = map vu_read (ssvu_v3cUnits ssvu),
           ssvu_ssvhUnitSizePrecisionBytesMinus1 = ssvu_ssvhUnitSizePrecisionBytesMinus1 ssvu'\<rparr>), e)"
  unfolding Let_def
  by (rule sampleStream_roundtrip) (auto simp: ssvu_maxUnitSize_def bs_initialize_def)

text \<open>C6. With two groups of frames in the queue \<open>decode\<close> makes progress and stops at the right place: it ends with the
  atlas and the videos of the first group, and the queue that is left holds exactly the units of the second group,
  beginning with its parameter set, as they were read. The parameter set of the second group has been parsed once
  and is in the store behind the first one.\<close>

theorem decode_next_group:
  assumes "coder_wf g rst sps asps st c" and "coder_wf g2 rst2 sps2 asps2 st2 c2" and "group_fits forced c" and "group_fits forced c2"
  shows "\<exists>c' ssvu c2' ssvu2 d. encode (c, ssvu_new) = Some (c', ssvu) \<and> encode (c2, ssvu_new) = Some (c2', ssvu2)
    \<and> decode g (ssvu\<lparr>ssvu_v3cUnits := map vu_read (ssvu_v3cUnits ssvu @ ssvu_v3cUnits ssvu2)\<rparr>) (coder_new (cd_stat c), rst)
      = Some (ssvu\<lparr>ssvu_v3cUnits := map vu_read (ssvu_v3cUnits ssvu2)\<rparr>, (d, atlas_state hls_new rst st))
    \<and> syn_vpccParameterSets (cd_syntax d) = [sps, sps2] \<and> group_stored sps asps st d"
  using group_next [OF assms] by metis

theorem decode_next_group_witness:
  "\<forall>g. \<exists>c' ssvu c2' ssvu2 d. encode (coder_example, ssvu_new) = Some (c', ssvu) \<and> encode (coder_example, ssvu_new) = Some (c2', ssvu2)
    \<and> decode g (ssvu\<lparr>ssvu_v3cUnits := map vu_read (ssvu_v3cUnits ssvu @ ssvu_v3cUnits ssvu2)\<rparr>) (coder_new (cd_stat coder_example), rst_new)
      = Some (ssvu\<lparr>ssvu_v3cUnits := map vu_read (ssvu_v3cUnits ssvu2)\<rparr>, (d, atlas_state hls_new rst_new atlas_example))
    \<and> syn_vpccParameterSets (cd_syntax d) = [vps_example, vps_example] \<and> group_stored vps_example asps_example atlas_example d"
  by (intro allI decode_next_group [OF coder_example_wf coder_example_wf group_example_fits group_example_fits])

text \<open>C7. A message survives the bitstream: \<open>seiMessage\<close> measures its payload, codes type and size and writes the payload;
  the reader finds the type and appends the message, with every member of its payload, to the prefix or suffix list
  that the NAL unit type selects. Only the payload size is not stored. The messages are those of
  \<open>sei_wf\<close>, whose fields have the widths and vectors of the syntax. It has no message of these kinds, which the
  code does not carry: prefix indications (the reader leaves an empty row), filler payloads (no object exists for them),
  buffering periods with one of the HRD flags, frame timings with values, scene objects, patches and rectangles
  with updates and atlas messages with objects (see C30), object labels with a text, viewport positions whose
  rotation and cameras whose angles are not whole numbers (see C29), attribute smoothings that do not list the attributes
  in order, unregistered user data and reserved messages whose payload size is not the number of their bytes.\<close>

theorem seiMessage_roundtrip:
  assumes "sei_wf g nal sei" and "sei_context nal sei l" and "sei_context nal sei l'" and "payload_bytes l nal sei < 2 ^ 31" and "bs_inv bs"
  shows "\<exists>s bs'. seiMessage_w l nal sei bs = Some (s, bs') \<and> bs_inv bs'
    \<and> seiMessage_r g nal l' (bs_setPosition (bs_pos bs) bs') = Some (sei_append nal (sei\<lparr>sei_payloadSize := 0\<rparr>) l', bs')"
  using codes_roundtrip [OF seiMessage_codes [OF assms(1-4)] assms(5)] by (auto split: bind_splits)

theorem seiMessage_roundtrip_witness:
  "\<forall>g. \<exists>s bs'. seiMessage_w pccsei_new NAL_PREFIX_ESEI sei_example bs_new = Some (s, bs') \<and> bs_inv bs'
    \<and> seiMessage_r g NAL_PREFIX_ESEI pccsei_new (bs_setPosition (bs_pos bs_new) bs')
      = Some (sei_append NAL_PREFIX_ESEI (sei_example\<lparr>sei_payloadSize := 0\<rparr>) pccsei_new, bs')"
  by (intro allI seiMessage_roundtrip [OF sei_example_wf(1) sei_example_wf(2) sei_example_wf(2) _ bs_inv_new])
    (simp add: sei_example_bytes)

text \<open>C8. The atlas sequence parameter set survives the bitstream, with its reference lists, its point local
  reconstruction information and its V-PCC extension, as long as it carries no VUI parameters.\<close>

theorem atlasSequenceParameterSetRbsp_roundtrip:
  assumes "asps_wf x" and "bs_inv bs"
  shows "\<exists>bs'. atlasSequenceParameterSetRbsp_w x bs = Some bs' \<and> bs_inv bs'
     \<and> atlasSequenceParameterSetRbsp_r asps_new (bs_setPosition (bs_pos bs) bs') = Some (x, bs')"
  using assms by (rule asps.vc.roundtrip)

theorem atlasSequenceParameterSetRbsp_roundtrip_witness:
  "\<exists>bs'. atlasSequenceParameterSetRbsp_w asps_example bs_new = Some bs' \<and> bs_inv bs'
     \<and> atlasSequenceParameterSetRbsp_r asps_new (bs_setPosition (bs_pos bs_new) bs') = Some (asps_example, bs')"
  using atlasSequenceParameterSetRbsp_roundtrip [OF asps_example_wf bs_inv_new] .

text \<open>C9. The atlas frame parameter set survives the bitstream, with its tile information: the partition grid,
  uniform or explicit, the tiles, coded or derived from the grid, and the tile ids. What the reader derives
  instead of reading (number of partitions, tile list, ids) is what the writer had.\<close>

theorem atlasFrameParameterSetRbsp_roundtrip:
  assumes "afps_wf getAsps x" and "bs_inv bs"
  shows "\<exists>bs'. atlasFrameParameterSetRbsp_w getAsps x bs = Some bs' \<and> bs_inv bs'
     \<and> atlasFrameParameterSetRbsp_r getAsps afps_new (bs_setPosition (bs_pos bs) bs') = Some (x, bs')"
  using assms by (rule afps.sc.vc.roundtrip)

theorem atlasFrameParameterSetRbsp_roundtrip_witness:
  "\<exists>bs'. atlasFrameParameterSetRbsp_w (hls_getAsps hls_example) afps_example bs_new = Some bs' \<and> bs_inv bs'
     \<and> atlasFrameParameterSetRbsp_r (hls_getAsps hls_example) afps_new (bs_setPosition (bs_pos bs_new) bs') = Some (afps_example, bs')"
  using atlasFrameParameterSetRbsp_roundtrip [OF afps_example_wf [where f = "hls_getAsps hls_example", OF hls_example_asps] bs_inv_new] .

text \<open>C10. The tile header survives the bitstream: tile id, type, order count, reference list (its own or one of
  the sequence parameter set), long term order count bits and quantizers, for every combination of the flags
  in the two parameter sets it refers to.\<close>

theorem atlasTileHeader_roundtrip:
  assumes "tile_params hls x = Some (afps, asps)" and "ath_wf nalUnitType afps asps x" and "bs_inv bs"
  shows "\<exists>bs'. atlasTileHeader_w hls nalUnitType x bs = Some bs' \<and> bs_inv bs'
     \<and> atlasTileHeader_r hls nalUnitType ath_new (bs_setPosition (bs_pos bs) bs') = Some (x, bs')"
  using codes_roundtrip [OF ath_codes [OF assms(1,2) refl] assms(3)] .

theorem atlasTileHeader_roundtrip_witness:
  "\<exists>bs'. atlasTileHeader_w hls_example NAL_TRAIL_R ath_inter bs_new = Some bs' \<and> bs_inv bs'
     \<and> atlasTileHeader_r hls_example NAL_TRAIL_R ath_new (bs_setPosition (bs_pos bs_new) bs') = Some (ath_inter, bs')"
  using atlasTileHeader_roundtrip [OF ath_inter_params ath_inter_wf bs_inv_new] .

text \<open>C11. An intra patch survives the bitstream, with bit widths that the reader recomputes from the parameter
  sets and the header, and with its reconstruction data on a block map of the size of the patch.\<close>

theorem patchDataUnit_roundtrip:
  assumes "tile_params hls ath = Some (afps, asps)" and "pdu_wf afps asps ath x" and "bs_inv bs"
  shows "\<exists>bs'. patchDataUnit_w hls ath x bs = Some bs' \<and> bs_inv bs'
     \<and> patchDataUnit_r hls ath (pdu_new\<lparr>pdu_tileOrder := pdu_tileOrder x, pdu_patchIndex := pdu_patchIndex x\<rparr>) (bs_setPosition (bs_pos bs) bs') = Some (x, bs')"
  using codes_roundtrip [OF pdu_codes [OF assms(1,2) refl] assms(3)] .

theorem patchDataUnit_roundtrip_witness:
  "\<exists>bs'. patchDataUnit_w hls_example ath_inter pdu_example bs_new = Some bs' \<and> bs_inv bs'
     \<and> patchDataUnit_r hls_example ath_inter pdu_new (bs_setPosition (bs_pos bs_new) bs') = Some (pdu_example, bs')"
  using patchDataUnit_roundtrip [OF ath_inter_params pdu_example_wf [OF ath_inter_fields(13,14)] bs_inv_new]
  by (simp add: pdu_example_def pdu_new_def)

text \<open>C12. The V3C unit header survives the bitstream for every unit type: the reader gets the type, stores the coded fields in
  the header object of that type, keeps the old values of the others, and makes the parameter set and the atlas of the
  header the active ones.\<close>

theorem v3cUnitHeader_roundtrip:
  assumes "unat t < 2 ^ 5" and "length (syn_v3cUnitHeader syn) = 5" and "length (syn_v3cUnitHeader syn') = 5"
    and "carries_atlas t \<Longrightarrow> vuh_wf (syn_v3cUnitHeader syn ! (unat t - 1))" and "bs_inv bs"
  shows "\<exists>bs'. v3cUnitHeader_w syn t bs = Some bs' \<and> bs_inv bs'
     \<and> v3cUnitHeader_r syn' (bs_setPosition (bs_pos bs) bs') =
         Some ((t, syn_after_header t (syn_v3cUnitHeader syn ! (unat t - 1)) syn'), bs')"
  using codes_roundtrip [OF v3cUnitHeader_codes [OF assms(1-4)] assms(5)] .

theorem v3cUnitHeader_roundtrip_witness:
  "\<exists>bs'. v3cUnitHeader_w syn_new V3C_GVD bs_new = Some bs' \<and> bs_inv bs'
     \<and> v3cUnitHeader_r syn_new (bs_setPosition (bs_pos bs_new) bs') =
         Some ((V3C_GVD, syn_after_header V3C_GVD vuh_new syn_new), bs')"
  using v3cUnitHeader_roundtrip [OF _ _ _ _ bs_inv_new, of V3C_GVD syn_new syn_new] by (simp add: syn_new_def vuh_new_def vuh_wf_def)

text \<open>C13. A video survives its V3C unit: the writer takes the video of the type that unit header and parameter set select and
  appends its bytes; the reader, with the same header and parameter set and the payload size of the unit, stores the
  same bytes as a new video of the same type in its current atlas and counts them in its statistics. The writer
  has to look at atlas 0, because the reader always does.\<close>

theorem video_roundtrip:
  assumes vps: "syn_getVps syn (syn_activeVPS syn) = Some vps" "syn_getVps syn' (syn_activeVPS syn') = Some vps"
    and vuh: "syn_getV3CUnitHeader syn (unat t - 1) = Some vuh" "syn_getV3CUnitHeader syn' (unat t - 1) = Some vuh" "vuh_wf vuh"
    and atlas: "vuh_atlasId vuh = 0" "vps_multipleMaps vps 0 = Some m" "vec_at (vps_attributeInformation vps) 0 = Some ai" "0 < ai_attributeCount ai"
    and type: "videoType t vuh m = Some v"
    and w: "syn_getVideoBitstream v syn = Some video" "stat_ok stat" "length (vb_data video) < 2 ^ 64"
    and r: "syn_atlasIndex syn' < length (syn_atlasHLS syn')" "syn_getVideoBitstream v syn' = None"
      "stat_setVideoBinSize v (of_nat (length (vb_data video))) stat' = Some stat''"
    and bs: "bs_inv bs" "bs_byteAligned bs"
  shows "\<exists>s bs'. videoSubStream_w syn t stat bs = Some (s, bs') \<and> bs_inv bs'
    \<and> videoSubStream_r t (of_nat (length (vb_data video))) syn' stat' (bs_setPosition (bs_pos bs) bs')
        = Some ((syn_addVideo v (vb_data video) syn', stat''), bs')"
proof -
  have "v < NUM_VIDEO_TYPE" using vuh(3) type by (rule videoType_range)
  then obtain bs' where "map_option snd (video_w syn v stat bs) = Some bs'" and i: "bs_inv bs'"
    and "\<And>fs. bs_extends fs bs' \<Longrightarrow> video_r v (of_nat (length (vb_data video))) syn' stat' (bs_setPosition (bs_pos bs) fs)
      = Some ((syn_addVideo v (vb_data video) syn', stat''), bs_setPosition (bs_pos bs') fs)"
    using blocksE [OF video_blocks [OF w(1,2) r(1-3) _ w(3)] bs] by blast
  then show ?thesis
    using videoSubStream_w_type [OF vps(1) vuh(1), of m ai v stat bs] videoSubStream_r_type [OF vps(2) vuh(2) atlas(2-4) type] atlas type
      bs_extends_refl [OF i] by (auto simp: bs_setPosition_same)
qed

theorem video_roundtrip_witness:
  "\<exists>s bs'. videoSubStream_w (syn_video [\<lparr>vb_data = [1, 2, 3], vb_type = 0\<rparr>]) V3C_OVD (stat_newGOF stat_new) bs_new = Some (s, bs') \<and> bs_inv bs'
    \<and> videoSubStream_r V3C_OVD 3 (syn_video []) (stat_newGOF stat_new) (bs_setPosition (bs_pos bs_new) bs')
        = Some ((syn_addVideo 0 [1, 2, 3] (syn_video []), stat_three), bs')"
  using video_roundtrip [where syn = "syn_video [\<lparr>vb_data = [1, 2, 3], vb_type = 0\<rparr>]" and syn' = "syn_video []" and t = V3C_OVD
      and vps = vps_video and vuh = vuh_new and m = False and ai = "ai_new\<lparr>ai_attributeCount := 1\<rparr>" and v = 0
      and video = "\<lparr>vb_data = [1, 2, 3], vb_type = 0\<rparr>" and stat = "stat_newGOF stat_new" and stat' = "stat_newGOF stat_new"
      and stat'' = "stat_three" and bs = bs_new]
  by (simp add: syn_video_vps syn_video_vuh syn_video_maps syn_video_store syn_video_store(2) [of 0, simplified] stat_ok_newGOF stat_video_three bs_inv_new vuh_new_wf
      videoType_def bs_byteAligned_new)

text \<open>C14. An inter patch survives the bitstream. Its block map has the size of the patch it refers to plus the
  coded differences, which the reader finds in the previous tile layer; the state it leaves for the next patch
  is the one the patch determines.\<close>

theorem interPatchDataUnit_roundtrip:
  assumes "tile_params hls ath = Some (afps, asps)" and "hls_getNumRefIdxActive hls ath = Some n" and "ipdu_wf hls asps n rst x" and "bs_inv bs"
  shows "\<exists>bs'. interPatchDataUnit_w hls ath x bs = Some bs' \<and> bs_inv bs'
     \<and> interPatchDataUnit_r hls ath rst (ipdu_new\<lparr>ipdu_tileOrder := ipdu_tileOrder x, ipdu_patchIndex := ipdu_patchIndex x\<rparr>) (bs_setPosition (bs_pos bs) bs') = Some ((x, ipdu_next hls asps rst x), bs')"
  using codes_roundtrip [OF ipdu_codes [OF assms(1-3) refl] assms(4)] .

theorem interPatchDataUnit_roundtrip_witness:
  "\<exists>bs'. interPatchDataUnit_w hls_example ath_inter ipdu_example bs_new = Some bs' \<and> bs_inv bs'
     \<and> interPatchDataUnit_r hls_example ath_inter rst_new (ipdu_new\<lparr>ipdu_tileOrder := 1, ipdu_patchIndex := 1\<rparr>)
         (bs_setPosition (bs_pos bs_new) bs')
       = Some ((ipdu_example, ipdu_next hls_example asps_example rst_new ipdu_example), bs')"
  using interPatchDataUnit_roundtrip [OF ath_inter_params inter_refs ipdu_example_wf bs_inv_new, of rst_new]
  by (simp add: rst_new_def example_numbers)

text \<open>C15. A merge patch survives the bitstream, whether it overrides the 2D or the 3D parameters, as long as it
  does not announce reconstruction data in the branch where the writer never writes them.\<close>

theorem mergePatchDataUnit_roundtrip:
  assumes "tile_params hls ath = Some (afps, asps)" and "hls_getNumRefIdxActive hls ath = Some n" and "mpdu_wf asps n rst x" and "bs_inv bs"
  shows "\<exists>bs'. mergePatchDataUnit_w hls ath x bs = Some bs' \<and> bs_inv bs'
     \<and> mergePatchDataUnit_r hls ath rst (mpdu_new\<lparr>mpdu_tileOrder := mpdu_tileOrder x, mpdu_patchIndex := mpdu_patchIndex x\<rparr>) (bs_setPosition (bs_pos bs) bs') = Some ((x, mpdu_next asps rst x), bs')"
  using codes_roundtrip [OF mpdu_codes [OF assms(1-3) refl] assms(4)] .

theorem mergePatchDataUnit_roundtrip_witness:
  "\<exists>bs'. mergePatchDataUnit_w hls_example ath_inter mpdu_example bs_new = Some bs' \<and> bs_inv bs'
     \<and> mergePatchDataUnit_r hls_example ath_inter rst_new (mpdu_new\<lparr>mpdu_tileOrder := 1, mpdu_patchIndex := 0\<rparr>)
         (bs_setPosition (bs_pos bs_new) bs') = Some ((mpdu_example, rst_new), bs')"
  using mergePatchDataUnit_roundtrip [OF ath_inter_params inter_refs mpdu_example_wf bs_inv_new, of rst_new]
  by (simp add: example_numbers mpdu_example_next)

text \<open>C16. The invariant of the bit stream: a write of at most 32 bits succeeds in every valid state, leaves a
  valid state, moves the position by exactly the number of bits, keeps every bit written before it, and puts
  the value at the position, most significant bit first.\<close>

theorem bs_write_invariant:
  assumes "bs_inv bs" and "n \<le> 32"
  shows "\<exists>bs'. bs_write v n bs = Some bs' \<and> bs_inv bs' \<and> lin (bs_pos bs') = lin (bs_pos bs) + n
     \<and> (\<forall>k < lin (bs_pos bs). bit_at (bs_data bs') k = bit_at (bs_data bs) k)
     \<and> (\<forall>j < n. bit_at (bs_data bs') (lin (bs_pos bs) + j) = bit v (n - 1 - j))"
  using bs_write_bits [OF assms, of v] unfolding bs_extends_def by (metis lin_unlin)

theorem bs_write_invariant_witness:
  "\<exists>bs'. bs_write 0xAB 8 bs_new = Some bs' \<and> bs_inv bs' \<and> lin (bs_pos bs') = lin (bs_pos bs_new) + 8
     \<and> (\<forall>k < lin (bs_pos bs_new). bit_at (bs_data bs') k = bit_at (bs_data bs_new) k)
     \<and> (\<forall>j < 8. bit_at (bs_data bs') (lin (bs_pos bs_new) + j) = bit (0xAB :: uint32_t) (8 - 1 - j))"
  using bs_write_invariant [OF bs_inv_new, of 8 "0xAB"] by simp

text \<open>C17. Every value below \<open>2^31 - 1\<close> that \<open>writeUvlc\<close> codes is returned by \<open>readUvlc\<close>, and both
  loops end.\<close>

theorem uvlc_roundtrip:
  assumes "unat v < 2 ^ 31 - 1" and "bs_inv bs"
  shows "\<exists>bs'. bs_writeUvlc v bs = Some bs' \<and> bs_inv bs'
     \<and> bs_readUvlc (bs_setPosition (bs_pos bs) bs') = Some (v, bs')"
  using assms by (rule ue_codec.roundtrip)

theorem uvlc_roundtrip_witness:
  "\<exists>bs'. bs_writeUvlc 1000 bs_new = Some bs' \<and> bs_inv bs'
     \<and> bs_readUvlc (bs_setPosition (bs_pos bs_new) bs') = Some (1000, bs')"
  using uvlc_roundtrip [OF _ bs_inv_new, of 1000] by simp

text \<open>C18. \<open>writeUvlc\<close> does not return for \<open>0xFFFFFFFF\<close>: incrementing the value wraps to 0 and the
  loop that halves it until it is 1 never ends, whatever the stream.\<close>

theorem writeUvlc_overflow:
  "bs_writeUvlc 0xFFFFFFFF bs = None"
proof -
  have "unat (0xFFFFFFFF + 1 :: uint32_t) = 0" by simp
  then have "0xFFFFFFFF + 1 = (0 :: uint32_t)" by (simp only: unat_eq_zero)
  then show ?thesis unfolding bs_writeUvlc_def Let_def by (simp only: uvlc_length_zero Option.bind.bind_lzero)
qed

text \<open>C19. The two passes of \<open>atlasSubStream\<close> agree. The first one records a size for every NAL unit and derives
  from the largest size plus one a size field of at most four bytes, which holds every size, a power of 256 included
  (unlike the sample stream of V3C units). The second one writes for every unit, on any aligned stream, the size
  field and then exactly as many bytes as recorded. The exception are tile layers of type \<open>NAL_IDR_N_LP\<close>
  (\<open>slot_flagged\<close>): they were measured as \<open>NAL_SKIP_R\<close>, whose header has one flag less, and can take one
  byte more than recorded.\<close>

theorem nal_sizes_exact:
  assumes "atlas_wf g h rst st" and "atlas_small st"
  shows "\<exists>st' ns. nalSizes_w st = Some (st', ns) \<and> store_ok g st st'
    \<and> (let prec = ucast (precisionBytes (ns_maxUnitSize ns + 1) - 1); ssnu = ssnu_new\<lparr>ssnu_sizePrecisionBytesMinus1 := prec\<rparr> in
        unat prec \<le> 3 \<and> (\<forall>slot \<in> atlas_slots st. size_ok prec (ns_size ns slot)
          \<and> (\<exists>e. e \<le> of_bool (slot_flagged st slot) \<and> (\<forall>w bs. store_ok g st w \<longrightarrow> bs_inv bs \<longrightarrow> bs_byteAligned bs \<longrightarrow>
              (\<exists>w' bs'. written_w ssnu (ns_size ns) slot w bs = Some (w', bs') \<and> store_ok g st w' \<and> bs_inv bs' \<and> bs_byteAligned bs'
                \<and> bs_size bs' = bs_size bs + (unat prec + 1) + unat (ns_size ns slot) + e)))))"
  using assms by (rule sizes_written)

theorem nal_sizes_exact_witness:
  "\<forall>g. \<exists>st' ns. nalSizes_w atlas_example = Some (st', ns) \<and> store_ok g atlas_example st'
    \<and> (let prec = ucast (precisionBytes (ns_maxUnitSize ns + 1) - 1); ssnu = ssnu_new\<lparr>ssnu_sizePrecisionBytesMinus1 := prec\<rparr> in
        unat prec \<le> 3 \<and> (\<forall>slot \<in> atlas_slots atlas_example. size_ok prec (ns_size ns slot)
          \<and> (\<exists>e. e \<le> of_bool (slot_flagged atlas_example slot) \<and> (\<forall>w bs. store_ok g atlas_example w \<longrightarrow> bs_inv bs \<longrightarrow> bs_byteAligned bs \<longrightarrow>
              (\<exists>w' bs'. written_w ssnu (ns_size ns) slot w bs = Some (w', bs') \<and> store_ok g atlas_example w' \<and> bs_inv bs' \<and> bs_byteAligned bs'
                \<and> bs_size bs' = bs_size bs + (unat prec + 1) + unat (ns_size ns slot) + e)))))"
  by (intro allI nal_sizes_exact [OF atlas_example_wf atlas_example_small])

text \<open>C20. The code is uniquely decodable: two different well-formed parameter sets never leave the same stream.\<close>

theorem v3cParameterSet_injective:
  assumes "vps_wf x" and "vps_wf y" and "x \<noteq> y" and "bs_inv bs"
  shows "v3cParameterSet_w x bs \<noteq> v3cParameterSet_w y bs"
  using vps.vc.put_total [OF assms(1,4)] vps.vc.put_inj [OF assms(1,2,4)] assms(3) by metis

theorem v3cParameterSet_injective_witness:
  "v3cParameterSet_w vps_example bs_new \<noteq> v3cParameterSet_w (vps_example\<lparr>vps_v3cParameterSetId := 4\<rparr>) bs_new"
  proof -
  have "vps_v3cParameterSetId vps_example \<noteq> vps_v3cParameterSetId (vps_example\<lparr>vps_v3cParameterSetId := 4\<rparr>)"
    by (simp add: vps_example_def)
  then have "vps_example \<noteq> vps_example\<lparr>vps_v3cParameterSetId := 4\<rparr>" by metis
  then show ?thesis using v3cParameterSet_injective [OF vps_example_wf vps_other_wf _ bs_inv_new] by blast
qed

text \<open>C21. \<open>sampleStreamToByteStream\<close> implements the format change: from the NAL units with size fields it makes
  the same NAL units with start codes, a long one in front of the first unit and the size that the codec
  prescribes in front of the others. The loop ends.\<close>

theorem sampleStreamToByteStream_nalus:
  assumes "nalus \<noteq> []" and "\<forall>n \<in> set nalus. 2 \<le> length n \<and> length n < 2 ^ (8 * p) \<and> length n < 2 ^ 31"
  shows "sampleStreamToByteStream a v p False (vb\<lparr>vb_data := sample_stream p nalus\<rparr>)
     = Some (vb\<lparr>vb_data := byte_stream a v 4 nalus\<rparr>)"
  using sampleStream_loop_nalus [OF assms, of "sample_stream p nalus" "[]" 0] by (simp add: sampleStreamToByteStream_def)

theorem sampleStreamToByteStream_nalus_witness:
  "sampleStreamToByteStream False False 4 False ((vb_new 0)\<lparr>vb_data := sample_stream 4 [[64, 1, 7], [2, 1]]\<rparr>)
     = Some ((vb_new 0)\<lparr>vb_data := [0, 0, 0, 1, 64, 1, 7, 0, 0, 1, 2, 1]\<rparr>)"
  proof -
  have "byte_stream False False 4 [[64, 1, 7], [2, 1]] = [0, 0, 0, 1, 64, 1, 7, 0, 0, 1, 2, 1]" by code_simp
  then show ?thesis using sampleStreamToByteStream_nalus [of "[[64, 1, 7], [2, 1]]" 4 False False "vb_new 0"]
    by simp
qed

text \<open>C22. \<open>byteStreamToSampleStream\<close> finds the NAL units of a byte stream again: none of them may contain a
  start code or end in zero bytes. It writes each with its size in front.\<close>

theorem byteStreamToSampleStream_nalus:
  assumes "nalus \<noteq> []" and "\<forall>n \<in> set nalus. clean_nalu n" and "p \<le> 8"
  shows "byteStreamToSampleStream p False (vb\<lparr>vb_data := byte_stream a v 4 nalus\<rparr>)
     = Some (vb\<lparr>vb_data := sample_stream p nalus\<rparr>)"
  using byteStream_loop_nalus [OF assms(1,2), of 4 "byte_stream a v 4 nalus" "[]" a v 0 p "[]"] assms(3)
  by (simp add: byteStreamToSampleStream_def)

theorem byteStreamToSampleStream_nalus_witness:
  "byteStreamToSampleStream 4 False ((vb_new 0)\<lparr>vb_data := byte_stream False False 4 [[64, 1, 7], [2, 1]]\<rparr>)
     = Some ((vb_new 0)\<lparr>vb_data := sample_stream 4 [[64, 1, 7], [2, 1]]\<rparr>)"
  using byteStreamToSampleStream_nalus [where nalus = "[[64, 1, 7], [2, 1]]" and p = 4 and vb = "vb_new 0" and a = False and v = False]
  by (simp add: clean_nalu_def)

text \<open>C23. The escaping does not do what emulation prevention is for: it counts three zero bytes before it escapes. For all byte
  sequences \<open>x\<close> and \<open>y\<close> that are NAL units of their own, the NAL unit that consists of \<open>x\<close>, the start
  code 0, 0, 1 and \<open>y\<close>, and has no run of three zero bytes, is written into the byte stream unchanged although
  emulation prevention is on, and the conversion back cuts it into the two units \<open>x\<close> and \<open>y\<close> and loses the start
  code between them.\<close>

theorem emulation_prevention_split:
  assumes "clean_nalu x" and "clean_nalu y" and "n = x @ [0, 0, 1] @ y" and "\<not> sublist [0, 0, 0] n"
    and "length n < 2 ^ (8 * p)" and "length n < 2 ^ 31" and "p \<le> 8"
  shows "\<exists>bs. sampleStreamToByteStream a v p True (vb\<lparr>vb_data := sample_stream p [n]\<rparr>) = Some bs
     \<and> byteStreamToSampleStream p True bs = Some (vb\<lparr>vb_data := sample_stream p [x, y]\<rparr>)"
  using assms by (rule nalu_split)

theorem emulation_prevention_split_witness:
  "\<exists>bs. sampleStreamToByteStream False False 4 True (vb_new 0\<lparr>vb_data := sample_stream 4 [[2, 7, 0, 0, 1, 9, 8]]\<rparr>) = Some bs
     \<and> byteStreamToSampleStream 4 True bs = Some (vb_new 0\<lparr>vb_data := sample_stream 4 [[2, 7], [9, 8]]\<rparr>)"
  by (rule emulation_prevention_split) (simp_all add: clean_nalu_def sublist_code)

text \<open>C24. The two implementations of \<open>floorLog2\<close>, the compiler builtin and the portable search by masks and
  shifts, agree on every 32-bit value.\<close>

theorem floorLog2_equivalence:
  "floorLog2_portable x = floorLog2 x"
  by (rule floorLog2_portable_eq)

text \<open>C25. \<open>ceilLog2\<close> gives the width of an index: \<open>n\<close> values fit into that many bits, and not into one bit
  less.\<close>

theorem ceilLog2_tight:
  assumes "1 < n"
  shows "0 < ceilLog2 n \<and> 2 ^ nat (ceilLog2 n - 1) < unat n \<and> unat n \<le> 2 ^ nat (ceilLog2 n)"
  using assms by (rule ceilLog2_bounds)

theorem ceilLog2_tight_witness:
  "0 < ceilLog2 6 \<and> 2 ^ nat (ceilLog2 6 - 1) < unat (6 :: uint32_t) \<and> unat (6 :: uint32_t) \<le> 2 ^ nat (ceilLog2 6)"
  using ceilLog2_tight [of 6] by simp

text \<open>C26. What the reader of messages returns is well typed, on any input: it appends one message to the list that the NAL
  unit type selects and changes nothing else; the body of the message is of a kind that the reader of this list
  knows, its payload size is 0, and it is never a prefix indication, whose reader cannot return.\<close>

theorem seiMessage_type:
  assumes "seiMessage_r g nal l bs = Some (l', bs')"
  shows "\<exists>sei. l' = sei_append nal sei l \<and> sei_payloadSize sei = 0 \<and> getPayloadType sei \<noteq> SEI_PREFIX_INDICATION
    \<and> (if nal_prefix nal then in_prefix (sei_body sei) else nal_suffix nal \<and> in_suffix (sei_body sei))"
  using assms by (rule seiMessage_appends)

theorem seiMessage_type_witness:
  "\<forall>g. \<exists>bs l' bs' sei. seiMessage_r g NAL_PREFIX_ESEI pccsei_new bs = Some (l', bs')
    \<and> l' = sei_append NAL_PREFIX_ESEI sei pccsei_new \<and> getPayloadType sei \<noteq> SEI_PREFIX_INDICATION \<and> in_prefix (sei_body sei)"
  proof
  fix g
  have "payload_bytes pccsei_new NAL_PREFIX_ESEI sei_example < 2 ^ 31" by (simp add: sei_example_bytes)
  from codes_roundtrip [OF seiMessage_codes [OF sei_example_wf(1) sei_example_wf(2) sei_example_wf(2) this] bs_inv_new]
  obtain bs l' bs' where r: "seiMessage_r g NAL_PREFIX_ESEI pccsei_new bs = Some (l', bs')" by blast
  show "\<exists>bs l' bs' sei. seiMessage_r g NAL_PREFIX_ESEI pccsei_new bs = Some (l', bs')
    \<and> l' = sei_append NAL_PREFIX_ESEI sei pccsei_new \<and> getPayloadType sei \<noteq> SEI_PREFIX_INDICATION \<and> in_prefix (sei_body sei)"
    using seiMessage_type [OF r] r by auto
qed

text \<open>C27. After \<open>addSei\<close> a message of the type is present, \<open>getLastSei\<close> returns the new one and \<open>getSei\<close> the oldest of its
  type; lookups of any other type return what they returned before.\<close>

theorem addSei_lookup:
  assumes "addSei g nal (Some t) l = Some (sei, l')" and "t' \<noteq> t"
  shows "seiIsPresent nal t l' \<and> getLastSei nal t l' = Some sei
    \<and> getSei nal t l' = (if seiIsPresent nal t l then getSei nal t l else Some sei)
    \<and> seiIsPresent nal t' l' = seiIsPresent nal t' l \<and> getLastSei nal t' l' = getLastSei nal t' l \<and> getSei nal t' l' = getSei nal t' l"
  using lookup_addSei [OF assms(1)] lookup_other [OF assms] by blast

theorem addSei_lookup_witness:
  "\<forall>g. \<exists>sei l'. addSei g NAL_PREFIX_ESEI (Some USER_DATA_UNREGISTERED) pccsei_new = Some (sei, l')
    \<and> getLastSei NAL_PREFIX_ESEI USER_DATA_UNREGISTERED l' = Some sei \<and> getSei NAL_PREFIX_ESEI SEI_MANIFEST l' = None"
  proof
  fix g
  obtain sei l' where a: "addSei g NAL_PREFIX_ESEI (Some USER_DATA_UNREGISTERED) pccsei_new = Some (sei, l')"
    using addSei_returns [of g NAL_PREFIX_ESEI "Some USER_DATA_UNREGISTERED" pccsei_new] by auto
  show "\<exists>sei l'. addSei g NAL_PREFIX_ESEI (Some USER_DATA_UNREGISTERED) pccsei_new = Some (sei, l')
    \<and> getLastSei NAL_PREFIX_ESEI USER_DATA_UNREGISTERED l' = Some sei \<and> getSei NAL_PREFIX_ESEI SEI_MANIFEST l' = None"
    using addSei_lookup [OF a, of SEI_MANIFEST] a by (simp add: getSei_def sei_list_def pccsei_new_def)
qed

text \<open>C28. The message with the hashes of the decoded atlas survives the bitstream: the three kinds of hash for the high level
  syntax, the atlas and its tiles, which are stored at their tile ids in any order.\<close>

theorem decodedAtlasInformationHash_roundtrip:
  assumes "dah_wf x" and "bs_inv bs"
  shows "\<exists>bs'. decodedAtlasInformationHash_w x bs = Some bs' \<and> bs_inv bs'
     \<and> decodedAtlasInformationHash_r dah_new (bs_setPosition (bs_pos bs) bs') = Some (x, bs')"
  using assms by (rule dah.vc.roundtrip)

theorem decodedAtlasInformationHash_roundtrip_witness:
  "\<exists>bs'. decodedAtlasInformationHash_w dah_example bs_new = Some bs' \<and> bs_inv bs'
     \<and> decodedAtlasInformationHash_r dah_new (bs_setPosition (bs_pos bs_new) bs') = Some (dah_example, bs')"
  using decodedAtlasInformationHash_roundtrip [OF dah_example_wf bs_inv_new] .

text \<open>C29. The rotation of a viewport position is passed as a float to \<open>write\<close>, which takes a 32-bit unsigned integer, and
  written in 16 bits. If no component is -1 or less, or 65536 or more (\<open>vpo_ok\<close>), the message comes back with
  the three components truncated and everything else unchanged; a component between -1 and 1 comes back as 0. So
  of the components of a unit quaternion only 0 and 1 survive. A component of -1 or less, the legal -1
  included, is outside the range of the conversion, which is undefined: the writer has no result.\<close>

theorem viewportPosition_rounded:
  assumes "vpo_ok x" and "bs_inv bs"
  shows "(\<exists>bs'. viewportPosition_w x bs = Some bs' \<and> bs_inv bs'
      \<and> viewportPosition_r vpo_new (bs_setPosition (bs_pos bs) bs') = Some (vpo_rounded x, bs'))
    \<and> (\<forall>w. float_exponent w < 127 \<longrightarrow> float_integer w = 0)
    \<and> (\<forall>y w. \<not> vpo_cancelFlag y \<and> w \<in> {vpo_rotationQX y, vpo_rotationQY y, vpo_rotationQZ y}
          \<and> float_negative w \<and> 127 \<le> float_exponent w \<longrightarrow> viewportPosition_w y bs = None)"
  using codes_roundtrip [OF vpo_codes [OF assms(1)] assms(2)] float_fraction vpo_negative by blast

theorem viewportPosition_rounded_witness:
  "(\<exists>bs'. viewportPosition_w vpo_example bs_new = Some bs' \<and> bs_inv bs'
      \<and> viewportPosition_r vpo_new (bs_setPosition (bs_pos bs_new) bs') = Some (vpo_example\<lparr>vpo_rotationQX := 0, vpo_rotationQY := 0\<rparr>, bs'))
    \<and> viewportPosition_w (vpo_example\<lparr>vpo_rotationQX := 0xBF800000\<rparr>) bs_new = None"
  proof -
  let ?y = "vpo_example\<lparr>vpo_rotationQX := 0xBF800000\<rparr>"
  have "\<not> vpo_cancelFlag ?y \<and> 0xBF800000 \<in> {vpo_rotationQX ?y, vpo_rotationQY ?y, vpo_rotationQZ ?y}
      \<and> float_negative 0xBF800000 \<and> 127 \<le> float_exponent 0xBF800000"
    by (simp add: vpo_example_def vpo_new_def float_negative_def float_exponent_def)
  then show ?thesis
    using viewportPosition_rounded [OF vpo_example_ok bs_inv_new, unfolded vpo_example_rounded] by blast
qed

text \<open>C30. The readers of the messages on scene objects, atlas objects, patches and volumetric rectangles return only if the
  message lists no update at all. With one update or more they leave a vector: the loops over the objects run one
  step too far, the vectors of the other two are never allocated.\<close>

theorem object_messages_stuck:
  shows "(\<forall>x bs x' bs'. sceneObjectInformation_r x bs = Some (x', bs') \<longrightarrow> soi_numObjectUpdates x' = 0)
    \<and> (\<forall>x bs x' bs'. atlasObjectInformation_r x bs = Some (x', bs') \<longrightarrow> aoi_numUpdates x' = 0)
    \<and> (\<forall>g bs x' bs'. patchInformation_r (pin_new g) bs = Some (x', bs') \<longrightarrow> pin_numTileUpdates x' = 0)
    \<and> (\<forall>g bs x' bs'. volumetricRectangleInformation_r (vri_new g) bs = Some (x', bs') \<longrightarrow> vri_numRectanglesUpdates x' = 0)"
  using soi_returns aoi_returns pin_returns vri_returns by blast

theorem object_messages_stuck_witness:
  "\<forall>s p v. (\<exists>bs x bs'. sceneObjectInformation_r (soi_new s) bs = Some (x, bs') \<and> soi_numObjectUpdates x = 0)
    \<and> (\<exists>x bs bs'. atlasObjectInformation_r aoi_new bs = Some (x, bs') \<and> aoi_numUpdates x = 0)
    \<and> (\<exists>bs x bs'. patchInformation_r (pin_new p) bs = Some (x, bs') \<and> pin_numTileUpdates x = 0)
    \<and> (\<exists>bs x bs'. volumetricRectangleInformation_r (vri_new v) bs = Some (x, bs') \<and> vri_numRectanglesUpdates x = 0)"
  proof (intro allI conjI)
  fix s p v
  have "soi_wf s ((soi_new s)\<lparr>soi_numObjectUpdates := 0\<rparr>)" "pin_wf p ((pin_new p)\<lparr>pin_numTileUpdates := 0\<rparr>)"
    "vri_wf v ((vri_new v)\<lparr>vri_numRectanglesUpdates := 0\<rparr>)" "aoi_wf (aoi_new\<lparr>aoi_atlasId := [0]\<rparr>)"
    by (simp_all add: soi_wf_def pin_wf_def vri_wf_def aoi_wf_def aoi_new_def)
  note w = soi.vc.roundtrip [OF this(1) bs_inv_new] pin.vc.roundtrip [OF this(2) bs_inv_new]
    vri.vc.roundtrip [OF this(3) bs_inv_new] aoi.vc.roundtrip [OF this(4) bs_inv_new]
  note none = object_messages_stuck
  show "\<exists>bs x bs'. sceneObjectInformation_r (soi_new s) bs = Some (x, bs') \<and> soi_numObjectUpdates x = 0" using w(1) none by blast
  show "\<exists>x bs bs'. atlasObjectInformation_r aoi_new bs = Some (x, bs') \<and> aoi_numUpdates x = 0" using w(4) none by blast
  show "\<exists>bs x bs'. patchInformation_r (pin_new p) bs = Some (x, bs') \<and> pin_numTileUpdates x = 0" using w(2) none by blast
  show "\<exists>bs x bs'. volumetricRectangleInformation_r (vri_new v) bs = Some (x, bs') \<and> vri_numRectanglesUpdates x = 0" using w(3) none by blast
qed

text \<open>C31. A message with unregistered user data cannot be written with the payload size 0 that the constructor gives it: the
  payload loop runs to the size minus 16, which wraps, and leaves the vector of bytes, in the measuring pass
  already.\<close>

theorem userData_unset_size:
  assumes "sei_payloadSize sei = 0" and "sei_body sei = UserDataUnregistered x" and "length (udu_userDataPayloadByte x) < 2 ^ 64 - 16"
  shows "seiMessage_w l nal sei bs = None"
  using assms by (rule unset_size_stuck)

theorem userData_unset_size_witness:
  "seiMessage_w pccsei_new NAL_PREFIX_ESEI \<lparr>sei_payloadSize = 0, sei_body = UserDataUnregistered udu_new\<rparr> bs_new = None"
  by (rule userData_unset_size [where x = udu_new]) (simp_all add: udu_new_def)

text \<open>C32. Writer and reader of the VUI parameters disagree: the writer codes a flag for the maximum coded video
  resolution that the reader does not read. Already for newly constructed parameters the reader stops one bit
  early, so everything after them is read from the wrong position.\<close>

theorem vuiParameters_desync:
  assumes "bs_inv bs"
  shows "\<exists>bs' p. vuiParameters_w vp_new bs = Some bs'
     \<and> vuiParameters_r vp_new (bs_setPosition (bs_pos bs) bs') = Some (vp_new, bs_setPosition p bs')
     \<and> lin (bs_pos bs') = lin p + 1"
  using assms by (rule vui_short)

theorem vuiParameters_desync_witness:
  "\<exists>bs' p. vuiParameters_w vp_new bs_new = Some bs'
     \<and> vuiParameters_r vp_new (bs_setPosition (bs_pos bs_new) bs') = Some (vp_new, bs_setPosition p bs')
     \<and> lin (bs_pos bs') = lin p + 1"
  using vuiParameters_desync [OF bs_inv_new] .

text \<open>C33. The constructor of the HRD parameters leaves its vectors empty, and no code resizes them: writer and
  reader access index 0 and leave the vector on every stream.\<close>

theorem hrdParameters_out_of_range:
  "hrdParameters_w hp_new bs = None \<and> hrdParameters_r hp_new bs = None"
  by (simp add: hrdParameters_empty hp_new_def)

text \<open>C34. The setters of the toolset constraints take a \<open>bool\<close>: what the reader returns is the record that was
  written with every number reduced to 0 or 1. This holds for the number of the reserved bytes too, with which the
  reader bounds its loop: of \<open>n\<close> reserved bytes it takes one (none for \<open>n = 0\<close>) and stops \<open>n - 1\<close>
  bytes before the place where the writer stopped. The stream stays in step only if \<open>n\<close> is at most 1.\<close>

theorem profileToolsetConstraints_clamped:
  assumes "ptci_wf x" and "bs_inv bs"
  shows "\<exists>bs' e. profileToolsetConstraintsInformation_w x bs = Some bs' \<and> bs_inv bs'
     \<and> profileToolsetConstraintsInformation_r ptci_new (bs_setPosition (bs_pos bs) bs') = Some (ptci_clamp x, bs_setPosition e bs')
     \<and> lin (bs_pos bs') = lin e + 8 * (unat (ptci_NumReservedConstraintBytes x) - 1)"
  using assms by (rule ptci_read)

theorem profileToolsetConstraints_clamped_witness:
  "\<exists>bs' e. profileToolsetConstraintsInformation_w (ptci_new\<lparr>ptci_maxMapCountMinus1 := 3, ptci_NumReservedConstraintBytes := 2, ptci_reservedConstraintByte := [3, 4]\<rparr>) bs_new = Some bs' \<and> bs_inv bs'
     \<and> profileToolsetConstraintsInformation_r ptci_new (bs_setPosition (bs_pos bs_new) bs') = Some (ptci_new\<lparr>ptci_maxMapCountMinus1 := 1, ptci_attributeMaxDimensionMinus1 := 1, ptci_NumReservedConstraintBytes := 1, ptci_reservedConstraintByte := [1]\<rparr>, bs_setPosition e bs')
     \<and> lin (bs_pos bs') = lin e + 8 * 1"
  using profileToolsetConstraints_clamped [OF _ bs_inv_new,
      of "ptci_new\<lparr>ptci_maxMapCountMinus1 := 3, ptci_NumReservedConstraintBytes := 2, ptci_reservedConstraintByte := [3, 4]\<rparr>"]
  by (simp add: ptci_wf_def ptci_clamp_def ptci_new_def)

text \<open>C35. The store of sequence parameter sets behaves like a map: after adding sets for a list of ids, in any
  order and with repetitions, every added id is found with a new set of that id, and a set of an id that was not
  added is still the one from before.\<close>

theorem asps_store_lookup:
  assumes "hls_getAsps hls j = Some a" and "j \<notin> set ids" and "i \<in> set ids"
  shows "hls_getAsps (fold hls_addAspsId ids hls) j = Some a
    \<and> hls_getAsps (fold hls_addAspsId ids hls) i = Some (asps_new\<lparr>asps_atlasSequenceParameterSetId := i\<rparr>)"
  using asps_store.get_keep [OF assms(2,1)] asps_store.get_last [OF assms(3)] by simp

theorem asps_store_lookup_witness:
  "hls_getAsps (fold hls_addAspsId [3, 5, 3] hls_example) 0 = Some asps_example
    \<and> hls_getAsps (fold hls_addAspsId [3, 5, 3] hls_example) 5 = Some (asps_new\<lparr>asps_atlasSequenceParameterSetId := 5\<rparr>)"
  using asps_store_lookup [OF hls_example_asps, of "[3, 5, 3]" 5] by simp

text \<open>C36. \<open>checkProfile\<close> returns 0 exactly when the stream keeps the constraints it announces: the map streams,
  the number of maps and, for every sequence parameter set, the tools of the toolset and, for the basic toolset,
  its restrictions.\<close>

theorem checkProfile_accepts:
  assumes "length (syn_atlasHLS syn) = 1" and "syn_getVps syn (syn_activeVPS syn) = Some vps"
    and "ptl_toolConstraintsPresentFlag (vps_profileTierLevel vps)"
    and "vps_multipleMapStreamsPresentFlag vps = m # ms" and "vps_mapCountMinus1 vps = k # ks"
  shows "checkProfile syn = Some 0 \<longleftrightarrow>
     (ptci_multipleMapStreamsConstraintFlag (ptl_ptci (vps_profileTierLevel vps)) \<longrightarrow> \<not> m)
     \<and> k \<le> ptci_maxMapCountMinus1 (ptl_ptci (vps_profileTierLevel vps))
     \<and> (\<forall>asps \<in> set (hls_atlasSequenceParameterSet (syn_atlasHLS syn ! 0)).
          toolset_ok (ptl_ptci (vps_profileTierLevel vps)) asps
          \<and> (ptl_profileToolsetIdc (vps_profileTierLevel vps) = 0 \<longrightarrow> basic_ok m k asps))"
  using assms by (rule checkProfile_zero)

theorem checkProfile_accepts_witness:
  "checkProfile (syn_new\<lparr>syn_atlasHLS := [hls_new\<lparr>hls_atlasSequenceParameterSet := [asps_new]\<rparr>], syn_vpccParameterSets :=
     [vps_new\<lparr>vps_profileTierLevel := ptl_new\<lparr>ptl_toolConstraintsPresentFlag := True\<rparr>,
       vps_multipleMapStreamsPresentFlag := [True], vps_mapCountMinus1 := [0]\<rparr>]\<rparr>) = Some 0"
  by (subst checkProfile_accepts [where m = True and ms = "[]" and k = 0 and ks = "[]"
        and vps = "vps_new\<lparr>vps_profileTierLevel := ptl_new\<lparr>ptl_toolConstraintsPresentFlag := True\<rparr>,
          vps_multipleMapStreamsPresentFlag := [True], vps_mapCountMinus1 := [0]\<rparr>"])
     (simp_all add: syn_new_def syn_getVps_def vps_new_def hls_new_def ptl_new_def ptci_new_def asps_new_def toolset_ok_def basic_ok_def)

text \<open>C37. The writer never codes the reconstruction data of a merge patch that does not override its 2D
  parameters: whatever the data are, the stream is the same.\<close>

theorem mergePatch_plrData_ignored:
  assumes "\<not> mpdu_override2dParamsFlag x"
  shows "mergePatchDataUnit_w hls ath (x\<lparr>mpdu_plrData := d\<rparr>) bs = mergePatchDataUnit_w hls ath x bs"
  using assms by (rule mpdu_plrData_ignored)

theorem mergePatch_plrData_ignored_witness:
  "mergePatchDataUnit_w hls_example ath_inter (mpdu_example\<lparr>mpdu_plrData := plrd_example\<rparr>) bs_new
     = mergePatchDataUnit_w hls_example ath_inter mpdu_example bs_new"
  using mergePatch_plrData_ignored [of mpdu_example] by (simp add: mpdu_example_def mpdu_new_def)

text \<open>C38. The number of bytes that the writer chooses for the unit sizes holds the largest size if and only if that size is not
  256, 65536 or 16777216. For these three sizes the field is one byte too short.\<close>

theorem unit_size_precision:
  "unat maxUnitSize < 2 ^ (8 * unat (precisionBytes maxUnitSize)) \<longleftrightarrow> unat maxUnitSize \<notin> {2 ^ 8, 2 ^ 16, 2 ^ 24}"
  by (rule precisionBytes_fits)

text \<open>C39. \<open>nalUnit\<close> of the writer and of the reader go outside the payload for every unit that \<open>allocate\<close> has prepared
  and that has a payload: the vector has the size without the header, the loops count the header.\<close>

theorem nalUnit_out_of_range:
  assumes "nu_allocate nu = Some nu'" and "2 < unat (nu_size nu)"
  shows "nalUnit_w nu' bs = None \<and> nalUnit_r nu' bs = None"
  using assms nalUnit_w_None [of nu' bs] nalUnit_r_None [of nu' bs] by (auto simp: nu_allocate_def)

theorem nalUnit_out_of_range_witness:
  "nalUnit_w ((nu_new 36 0 1)\<lparr>nu_size := 5, nu_data := [0, 0, 0]\<rparr>) bs_new = None
    \<and> nalUnit_r ((nu_new 36 0 1)\<lparr>nu_size := 5, nu_data := [0, 0, 0]\<rparr>) bs_new = None"
  by (rule nalUnit_out_of_range [where nu = "(nu_new 36 0 1)\<lparr>nu_size := 5\<rparr>"])
     (simp_all add: nu_allocate_def nu_new_def numeral_3_eq_3)

text \<open>C40. The writer of a video unit takes the video of the type that \<open>videoType\<close> selects, which is below the number of
  video types; and two units of one stream select the same video only if they have the same unit type, the same
  auxiliary flag and, as far as the type has them, the same map and the same attribute partition. The attribute
  index itself takes no part in the choice.\<close>

theorem video_slots_distinct:
  assumes "syn_getVps syn (syn_activeVPS syn) = Some vps" and "syn_getV3CUnitHeader syn (unat t - 1) = Some h"
    and "vps_multipleMaps vps (unat (vuh_atlasId h)) = Some m"
    and "vec_at (vps_attributeInformation vps) (unat (vuh_atlasId h)) = Some ai" and "0 < ai_attributeCount ai"
    and "vuh_wf h" and "vuh_wf h'" and "videoType t h m = Some v" and "videoType t' h' m = Some v"
  shows "videoSubStream_w syn t stat bs = video_w syn v stat bs \<and> v < NUM_VIDEO_TYPE
    \<and> t = t' \<and> (t \<noteq> V3C_OVD \<longrightarrow> vuh_auxiliaryVideoFlag h = vuh_auxiliaryVideoFlag h')
    \<and> (t \<noteq> V3C_OVD \<longrightarrow> m \<longrightarrow> \<not> vuh_auxiliaryVideoFlag h \<longrightarrow> vuh_mapIndex h = vuh_mapIndex h')
    \<and> (t = V3C_AVD \<longrightarrow> vuh_attributeDimensionIndex h = vuh_attributeDimensionIndex h')"
  using videoSubStream_w_type [OF assms(1-5,8)] videoType_range [OF assms(6,8)] videoType_inj [OF assms(6-9)] by blast

theorem video_slots_distinct_witness:
  "videoSubStream_w (syn_video []) V3C_AVD stat_new bs_new = video_w (syn_video []) 19 stat_new bs_new"
  using video_slots_distinct [OF syn_video_vps syn_video_vuh, of V3C_AVD False "ai_new\<lparr>ai_attributeCount := 1\<rparr>" vuh_new 19 V3C_AVD]
    syn_video_maps by (simp add: videoType_def vuh_new_def vuh_wf_def)

section \<open>Further theorems\<close>

text \<open>A raw patch survives the bitstream; the flag that places it in the auxiliary video is coded only when
  the tile has an auxiliary row.\<close>

theorem rawPatchDataUnit_roundtrip:
  assumes "auxiliaryHeight hls ath = Some height" and "rpdu_wf height ath x" and "bs_inv bs"
  shows "\<exists>bs'. rawPatchDataUnit_w hls ath x bs = Some bs' \<and> bs_inv bs'
     \<and> rawPatchDataUnit_r hls ath (rpdu_new\<lparr>rpdu_tileOrder := rpdu_tileOrder x, rpdu_patchIndex := rpdu_patchIndex x\<rparr>) (bs_setPosition (bs_pos bs) bs') = Some (x, bs')"
  using codes_roundtrip [OF rpdu_codes [OF assms(1,2) refl] assms(3)] .

theorem rawPatchDataUnit_roundtrip_witness:
  "\<exists>bs'. rawPatchDataUnit_w hls_example ath_inter rpdu_example bs_new = Some bs' \<and> bs_inv bs'
     \<and> rawPatchDataUnit_r hls_example ath_inter (rpdu_new\<lparr>rpdu_tileOrder := 1, rpdu_patchIndex := 2\<rparr>)
         (bs_setPosition (bs_pos bs_new) bs') = Some (rpdu_example, bs')"
  using rawPatchDataUnit_roundtrip [OF inter_height rpdu_example_wf bs_inv_new] by (simp add: example_numbers)

text \<open>A patch of the enhanced occupancy map survives the bitstream with its list of associated patches.\<close>

theorem eomPatchDataUnit_roundtrip:
  assumes "auxiliaryHeight hls ath = Some height" and "epdu_wf height x" and "bs_inv bs"
  shows "\<exists>bs'. eomPatchDataUnit_w hls ath x bs = Some bs' \<and> bs_inv bs'
     \<and> eomPatchDataUnit_r hls ath (epdu_new\<lparr>epdu_tileIndex := epdu_tileIndex x, epdu_patchIndex := epdu_patchIndex x\<rparr>) (bs_setPosition (bs_pos bs) bs') = Some (x, bs')"
  using codes_roundtrip [OF epdu_codes [OF assms(1,2) refl] assms(3)] .

theorem eomPatchDataUnit_roundtrip_witness:
  "\<exists>bs'. eomPatchDataUnit_w hls_example ath_inter epdu_example bs_new = Some bs' \<and> bs_inv bs'
     \<and> eomPatchDataUnit_r hls_example ath_inter (epdu_new\<lparr>epdu_tileIndex := 1, epdu_patchIndex := 3\<rparr>)
         (bs_setPosition (bs_pos bs_new) bs') = Some (epdu_example, bs')"
  using eomPatchDataUnit_roundtrip [OF inter_height epdu_example_wf bs_inv_new] by (simp add: example_numbers)

text \<open>The atlas adaptation parameter set survives the bitstream with its camera parameters, signed offsets
  and rotations included.\<close>

theorem atlasAdaptationParameterSetRbsp_roundtrip:
  assumes "aaps_wf x" and "bs_inv bs"
  shows "\<exists>bs'. atlasAdaptationParameterSetRbsp_w x bs = Some bs' \<and> bs_inv bs'
     \<and> atlasAdaptationParameterSetRbsp_r aaps_new (bs_setPosition (bs_pos bs) bs') = Some (x, bs')"
  using assms by (rule aaps.vc.roundtrip)

theorem atlasAdaptationParameterSetRbsp_roundtrip_witness:
  "\<exists>bs'. atlasAdaptationParameterSetRbsp_w aaps_example bs_new = Some bs' \<and> bs_inv bs'
     \<and> atlasAdaptationParameterSetRbsp_r aaps_new (bs_setPosition (bs_pos bs_new) bs') = Some (aaps_example, bs')"
  using atlasAdaptationParameterSetRbsp_roundtrip [OF aaps_example_wf bs_inv_new] .

text \<open>Every value whose double fits in 32 bits is coded by \<open>writeSvlc\<close> and returned by \<open>readSvlc\<close>
  with its sign.\<close>

theorem svlc_roundtrip:
  assumes "int32_in (2 * \<bar>v\<bar>)" and "bs_inv bs"
  shows "\<exists>bs'. bs_writeSvlc v bs = Some bs' \<and> bs_inv bs'
     \<and> bs_readSvlc (bs_setPosition (bs_pos bs) bs') = Some (v, bs')"
  using assms by (rule se_codec.roundtrip)

theorem svlc_roundtrip_witness:
  "\<exists>bs'. bs_writeSvlc (- 1000) bs_new = Some bs' \<and> bs_inv bs'
     \<and> bs_readSvlc (bs_setPosition (bs_pos bs_new) bs') = Some (- 1000, bs')"
  using svlc_roundtrip [OF _ bs_inv_new, of "- 1000"] by (simp add: int32_in_def)

text \<open>A string without a zero byte survives \<open>writeString\<close> and \<open>readString\<close>; both align the stream
  first and stop after the terminator.\<close>

theorem string_roundtrip:
  assumes "0 \<notin> set s" and "bs_inv bs"
  shows "\<exists>bs'. bs_writeString s bs = Some bs' \<and> bs_inv bs'
     \<and> bs_readString (bs_setPosition (bs_pos bs) bs') = Some (s, bs')"
  using assms by (rule st_codec.roundtrip)

theorem string_roundtrip_witness:
  "\<exists>bs'. bs_writeString [86, 51, 67] bs_new = Some bs' \<and> bs_inv bs'
     \<and> bs_readString (bs_setPosition (bs_pos bs_new) bs') = Some ([86, 51, 67], bs')"
  using string_roundtrip [OF _ bs_inv_new, of "[86, 51, 67]"] by simp

text \<open>Taking the emulation prevention bytes out undoes putting them in, for every byte sequence.\<close>

theorem emulation_prevention_roundtrip:
  "emu_strip 0 (emu_insert 0 bytes) = bytes"
  by (rule emu_strip_insert) simp

text \<open>A tile layer that was added for a new pair of frame and tile index is found again under that pair.\<close>

theorem atlasTileLayer_lookup:
  assumes "\<forall>atgl \<in> set (hls_atlasTileLayer hls). \<not> (atgl_encFrameIndex atgl = f \<and> atgl_encTileIndex atgl = t)"
  shows "hls_getAtlasTileLayerIndex f t (hls_addAtlasTileLayerAt f t hls) = length (hls_atlasTileLayer hls)"
  using assms by (rule getAtlasTileLayerIndex_add)

theorem atlasTileLayer_lookup_witness:
  "hls_getAtlasTileLayerIndex 4 1 (hls_addAtlasTileLayerAt 4 1 hls_example) = 1"
  using atlasTileLayer_lookup [of hls_example 4 1] by (simp add: hls_example_def atgl_intra_def atgl_new_def)

text \<open>\<open>getMatchedPatchCount\<close>, a loop with a counter, is the number of patches in inter mode.\<close>

theorem getMatchedPatchCount_inter:
  "atdu_getMatchedPatchCount atdu = length (filter (\<lambda>v. pid_patchMode v = P_INTER) (atdu_patchInformationData atdu))"
  by (rule atdu_getMatchedPatchCount_filter)

text \<open>The type that the reader of the sample stream takes from the first byte of a unit is the one the unit header was
  written with, whatever follows the header: the assertion in \<open>v3cUnit\<close> of the reader holds.\<close>

theorem unit_type_agrees:
  assumes "unat t < 2 ^ 5" and "length (syn_v3cUnitHeader syn) = 5"
    and "carries_atlas t \<Longrightarrow> vuh_wf (syn_v3cUnitHeader syn ! (unat t - 1))"
  shows "\<exists>bs'. v3cUnitHeader_w syn t bs_new = Some bs'
    \<and> (\<forall>fs size. bs_extends fs bs' \<longrightarrow> 0 < unat size \<longrightarrow> unat size \<le> length (bs_data fs) \<longrightarrow>
         vu_type (vu_read \<lparr>vu_type = 0, vu_size = size, vu_bitstream = fs\<rparr>) = t)"
  using unit_type_byte [OF assms] by (auto simp: vu_read_def hd_conv_nth) (metis hd_conv_nth list.size(3) not_less)

theorem unit_type_agrees_witness:
  "\<exists>bs'. v3cUnitHeader_w syn_new V3C_AVD bs_new = Some bs'
    \<and> (\<forall>fs size. bs_extends fs bs' \<longrightarrow> 0 < unat size \<longrightarrow> unat size \<le> length (bs_data fs) \<longrightarrow>
         vu_type (vu_read \<lparr>vu_type = 0, vu_size = size, vu_bitstream = fs\<rparr>) = V3C_AVD)"
  using unit_type_agrees [of V3C_AVD syn_new] by (simp add: syn_new_def vuh_new_def vuh_wf_def)

text \<open>The NAL unit header survives the bitstream: type, layer and temporal id are read back, size and payload of the object
  are not touched.\<close>

theorem nalUnitHeader_roundtrip:
  assumes "nu_wf x" and "bs_inv bs"
  shows "\<exists>bs'. nalUnitHeader_w x bs = Some bs' \<and> bs_inv bs'
     \<and> nalUnitHeader_r y (bs_setPosition (bs_pos bs) bs') =
         Some (y\<lparr>nu_type := nu_type x, nu_layerId := nu_layerId x, nu_temporalyIdPlus1 := nu_temporalyIdPlus1 x\<rparr>, bs')"
  using codes_roundtrip [OF nalUnitHeader_codes [OF assms(1)] assms(2)] .

theorem nalUnitHeader_roundtrip_witness:
  "\<exists>bs'. nalUnitHeader_w (nu_new 36 0 1) bs_new = Some bs' \<and> bs_inv bs'
     \<and> nalUnitHeader_r (nu_new 0 0 0) (bs_setPosition (bs_pos bs_new) bs') = Some (nu_new 36 0 1, bs')"
  using nalUnitHeader_roundtrip [OF _ bs_inv_new, of "nu_new 36 0 1" "nu_new 0 0 0"] by (simp add: nu_new_def nu_wf_def)

text \<open>The total that the statistics print is the size of the header plus the sizes of the units of all groups of frames,
  modulo \<open>2 ^ 64\<close>: the split into metadata, geometry and attributes loses nothing.\<close>

theorem stat_total_sum:
  assumes "\<And>g. g \<in> set (stat_bitstreamGofStat s) \<Longrightarrow> gof_ok g"
  shows "snd (snd (snd (stat_trace s))) = stat_header s + sum_list (map gof_getTotal (stat_bitstreamGofStat s))"
  by (rule stat_trace_total) (rule assms)

theorem stat_total_sum_witness:
  "snd (snd (snd (stat_trace (stat_setHeader 7 (stat_newGOF stat_new))))) = 7"
  using stat_total_sum [of "stat_setHeader 7 (stat_newGOF stat_new)"]
  by (simp add: stat_setHeader_def stat_newGOF_def stat_new_def gof_getTotal_new)

end
